(* ===== verification/Phongo_Prelude.thy ===== *)
theory Phongo_Prelude
  imports "HOL-Library.Word" "HOL-Library.Signed_Division" "HOL-Library.Char_ord"
begin

text \<open>
  Shared ground of the development: machine integer ranges, C strings, the decimal
  printer behind \<^verbatim>\<open>snprintf("%" PRId64)\<close>, C integer division, and PHP hash tables (the
  Zend \<^verbatim>\<open>HashTable\<close>, an insertion-ordered table whose keys are integers or byte
  strings) as association lists with the operations the extension calls on them.
  A PHP string is a list of bytes (\<^typ>\<open>string\<close>); a C string seen through a pointer ends at
  its first null byte.
\<close>

named_theorems hash_simps \<open>reading a hash table after a write\<close>
named_theorems range_simps \<open>unfolding of the machine integer ranges\<close>

section \<open>Machine integers\<close>

definition int64_range :: "int \<Rightarrow> bool" where
  "int64_range i \<longleftrightarrow> - 9223372036854775808 \<le> i \<and> i \<le> 9223372036854775807"

definition int32_range :: "int \<Rightarrow> bool" where
  "int32_range i \<longleftrightarrow> - 2147483648 \<le> i \<and> i \<le> 2147483647"

definition uint32_max :: int where
  "uint32_max = 4294967295"

lemmas [range_simps] = int64_range_def int32_range_def uint32_max_def

text \<open>Division and remainder of C truncate toward zero.\<close>

definition c_div :: "int \<Rightarrow> int \<Rightarrow> int" where
  "c_div a b = a sdiv b"

definition c_rem :: "int \<Rightarrow> int \<Rightarrow> int" where
  "c_rem a b = a smod b"

lemma c_div_rem: "c_div a b * b + c_rem a b = a"
  by (simp add: c_div_def c_rem_def sdiv_mult_smod_eq)

lemma c_rem_bounds:
  assumes "0 < b" shows "\<bar>c_rem a b\<bar> < b"
  using assms smod_int_range[of b a] by (auto simp: c_rem_def)

lemma uint_of_int_uint32:
  assumes "0 \<le> i" "i \<le> uint32_max"
  shows "uint (of_int i :: 32 word) = i"
  using assms by (simp add: uint_word_of_int uint32_max_def)

section \<open>C strings\<close>

definition c_str :: "string \<Rightarrow> string" where
  "c_str s = takeWhile (\<lambda>c. c \<noteq> CHR 0x00) s"

definition c_strlen :: "string \<Rightarrow> nat" where
  "c_strlen s = length (c_str s)"

lemma c_str_idem [simp]: "c_str (c_str s) = c_str s"
  by (simp add: c_str_def)

lemma c_strlen_le: "c_strlen s \<le> length s"
  by (simp add: c_strlen_def c_str_def length_takeWhile_le)

lemma c_str_no_nul: "CHR 0x00 \<notin> set (c_str s)"
  by (auto simp: c_str_def dest: set_takeWhileD)

lemma c_str_id: "CHR 0x00 \<notin> set s \<Longrightarrow> c_str s = s"
  by (auto simp: c_str_def takeWhile_eq_all_conv)

lemma c_strlen_full_iff: "c_strlen s = length s \<longleftrightarrow> CHR 0x00 \<notin> set s"
proof
  assume "c_strlen s = length s"
  moreover have "s = c_str s @ dropWhile (\<lambda>c. c \<noteq> CHR 0x00) s"
    by (simp add: c_str_def)
  ultimately have "s = c_str s"
    unfolding c_strlen_def by (metis append_eq_conv_conj take_all_iff order_refl)
  then show "CHR 0x00 \<notin> set s" using c_str_no_nul by metis
qed (simp add: c_strlen_def c_str_id)

section \<open>Decimal printing\<close>

definition digit_char :: "nat \<Rightarrow> char" where
  "digit_char d = char_of (48 + d)"

definition is_digit :: "char \<Rightarrow> bool" where
  "is_digit c \<longleftrightarrow> 48 \<le> (of_char c :: nat) \<and> (of_char c :: nat) \<le> 57"

definition digit_val :: "char \<Rightarrow> nat" where
  "digit_val c = of_char c - 48"

fun dec_of_nat :: "nat \<Rightarrow> string" where
  "dec_of_nat n = (if n < 10 then [digit_char n] else dec_of_nat (n div 10) @ [digit_char (n mod 10)])"

declare dec_of_nat.simps [simp del]

definition dec_of_int :: "int \<Rightarrow> string" where
  "dec_of_int i = (if i < 0 then CHR ''-'' # dec_of_nat (nat (- i)) else dec_of_nat (nat i))"

definition digits_value :: "string \<Rightarrow> nat" where
  "digits_value s = foldl (\<lambda>acc c. acc * 10 + digit_val c) 0 s"

lemma digit_char_props:
  assumes "d < 10" shows "is_digit (digit_char d)" "digit_val (digit_char d) = d"
proof -
  have "of_char (digit_char d) = 48 + d"
    using assms by (simp add: digit_char_def)
  then show "is_digit (digit_char d)" "digit_val (digit_char d) = d"
    using assms by (simp_all add: is_digit_def digit_val_def)
qed

lemma dec_of_nat_digits: "c \<in> set (dec_of_nat n) \<Longrightarrow> is_digit c"
proof (induction n rule: dec_of_nat.induct)
  case (1 n)
  show ?case using "1.prems" "1.IH" digit_char_props(1)
    by (subst (asm) dec_of_nat.simps) (auto split: if_splits)
qed

lemma dec_of_nat_not_Nil [simp]: "dec_of_nat n \<noteq> []"
  by (subst dec_of_nat.simps) simp

lemma digits_value_dec_of_nat [simp]: "digits_value (dec_of_nat n) = n"
proof (induction n rule: dec_of_nat.induct)
  case (1 n)
  show ?case
  proof (cases "n < 10")
    case True
    then show ?thesis by (subst dec_of_nat.simps) (simp add: digits_value_def digit_char_props)
  next
    case False
    then show ?thesis using "1.IH"
      by (subst dec_of_nat.simps) (simp add: digits_value_def digit_char_props)
  qed
qed

lemma dec_of_nat_inj: "dec_of_nat m = dec_of_nat n \<Longrightarrow> m = n"
  by (metis digits_value_dec_of_nat)

lemma minus_not_digit [simp]: "\<not> is_digit (CHR ''-'')"
  by (simp add: is_digit_def)

lemma nul_not_digit [simp]: "\<not> is_digit (CHR 0x00)"
  by (simp add: is_digit_def)

lemma dec_of_nat_no_nul: "CHR 0x00 \<notin> set (dec_of_nat n)"
  using dec_of_nat_digits nul_not_digit by blast

lemma dec_of_int_no_nul: "CHR 0x00 \<notin> set (dec_of_int i)"
  using dec_of_nat_no_nul by (simp add: dec_of_int_def)

lemma c_str_dec_of_int [simp]: "c_str (dec_of_int i) = dec_of_int i"
  by (rule c_str_id) (rule dec_of_int_no_nul)

lemma dec_of_int_inj: "dec_of_int i = dec_of_int j \<Longrightarrow> i = j"
proof -
  assume eq: "dec_of_int i = dec_of_int j"
  have hd_nd: "hd (dec_of_nat n) \<noteq> CHR ''-''" for n
    using dec_of_nat_digits[OF hd_in_set[OF dec_of_nat_not_Nil]] minus_not_digit by metis
  then have "(i < 0) = (j < 0)"
    using eq by (auto simp: dec_of_int_def split: if_splits) (metis list.sel(1))+
  then show ?thesis
    using eq by (auto simp: dec_of_int_def split: if_splits dest!: dec_of_nat_inj)
qed

text \<open>Text between single, or double, quotes.\<close>

definition squote :: "string \<Rightarrow> string" where
  "squote s = CHR 0x27 # s @ [CHR 0x27]"

definition dquote :: "string \<Rightarrow> string" where
  "dquote s = CHR 0x22 # s @ [CHR 0x22]"

section \<open>PHP hash tables\<close>

datatype hkey = KInt int | KStr string

type_synonym 'v hash = "(hkey \<times> 'v) list"

definition hash_find :: "'v hash \<Rightarrow> hkey \<Rightarrow> 'v option" where
  "hash_find h k = map_of h k"

text \<open>\<^verbatim>\<open>zend_hash_str_find\<close>: the string key as it is, with no numeric conversion.\<close>

abbreviation hash_str_find :: "'v hash \<Rightarrow> string \<Rightarrow> 'v option" where
  "hash_str_find h s \<equiv> hash_find h (KStr s)"

text \<open>\<^verbatim>\<open>zend_hash_update\<close>: replaces the value in place or appends a new bucket.\<close>

fun hash_update :: "'v hash \<Rightarrow> hkey \<Rightarrow> 'v \<Rightarrow> 'v hash" where
  "hash_update [] k v = [(k, v)]"
| "hash_update ((k', v') # h) k v = (if k' = k then (k, v) # h else (k', v') # hash_update h k v)"

abbreviation hash_str_update :: "'v hash \<Rightarrow> string \<Rightarrow> 'v \<Rightarrow> 'v hash" where
  "hash_str_update h s v \<equiv> hash_update h (KStr s) v"

text \<open>\<^verbatim>\<open>zend_hash_del\<close>.\<close>

definition hash_del :: "'v hash \<Rightarrow> hkey \<Rightarrow> 'v hash" where
  "hash_del h k = filter (\<lambda>b. fst b \<noteq> k) h"

definition hash_exists :: "'v hash \<Rightarrow> hkey \<Rightarrow> bool" where
  "hash_exists h k \<longleftrightarrow> hash_find h k \<noteq> None"

lemma hash_find_Nil [simp, hash_simps]: "hash_find [] k = None"
  by (simp add: hash_find_def)

lemma hash_find_Cons [simp, hash_simps]:
  "hash_find ((k', v) # h) k = (if k' = k then Some v else hash_find h k)"
  by (simp add: hash_find_def)

lemma hash_find_update [simp, hash_simps]:
  "hash_find (hash_update h k v) k' = (if k = k' then Some v else hash_find h k')"
  by (induction h k v rule: hash_update.induct) auto

lemma hash_find_del [simp, hash_simps]:
  "hash_find (hash_del h k) k' = (if k = k' then None else hash_find h k')"
  by (induction h) (auto simp: hash_del_def)

lemma hash_update_keys:
  "set (map fst (hash_update h k v)) = insert k (set (map fst h))"
  by (induction h k v rule: hash_update.induct) auto

lemma hash_update_distinct:
  "distinct (map fst h) \<Longrightarrow> distinct (map fst (hash_update h k v))"
proof (induction h k v rule: hash_update.induct)
  case (2 k' v' h k v)
  then show ?case using hash_update_keys[of h k v] by auto
qed simp

lemma hash_update_new:
  "hash_find h k = None \<Longrightarrow> hash_update h k v = h @ [(k, v)]"
  by (induction h k v rule: hash_update.induct) (auto split: if_splits)

text \<open>
  \<^verbatim>\<open>zend_symtable_*\<close> first normalises a string key: the decimal form of an integer
  of the platform's \<^verbatim>\<open>zend_long\<close> (no leading zero, no plus sign, not "-0")
  becomes that integer.
\<close>

definition numeric_key :: "string \<Rightarrow> int option" where
  "numeric_key s =
     (let (neg, ds) = (case s of [] \<Rightarrow> (False, []) | c # cs \<Rightarrow> if c = CHR ''-'' then (True, cs) else (False, s));
          v = (if neg then - int (digits_value ds) else int (digits_value ds))
      in if ds \<noteq> [] \<and> list_all is_digit ds \<and> dec_of_int v = s \<and> int64_range v
         then Some v else None)"

definition symtable_key :: "string \<Rightarrow> hkey" where
  "symtable_key s = (case numeric_key s of Some i \<Rightarrow> KInt i | None \<Rightarrow> KStr s)"

lemma numeric_key_dec: "int64_range i \<Longrightarrow> numeric_key (dec_of_int i) = Some i"
proof -
  assume i: "int64_range i"
  have nn: "hd (dec_of_nat n) \<noteq> CHR ''-''" for n
    using dec_of_nat_digits[OF hd_in_set[OF dec_of_nat_not_Nil]] minus_not_digit by metis
  obtain c cs where c: "dec_of_nat (nat i) = c # cs" by (meson dec_of_nat_not_Nil list.exhaust)
  have digs: "list_all is_digit (dec_of_nat n)" for n
    using dec_of_nat_digits by (auto simp: list_all_iff)
  show ?thesis
  proof (cases "i < 0")
    case True
    then show ?thesis using i digs by (simp add: numeric_key_def dec_of_int_def)
  next
    case False
    then show ?thesis using i digs[of "nat i"] nn[of "nat i"] c digits_value_dec_of_nat[of "nat i"]
      by (simp add: numeric_key_def dec_of_int_def)
  qed
qed

lemma symtable_key_dec: "int64_range i \<Longrightarrow> symtable_key (dec_of_int i) = KInt i"
  by (simp add: symtable_key_def numeric_key_dec)

lemma symtable_key_inj: "symtable_key s = symtable_key t \<Longrightarrow> s = t"
  by (auto simp: symtable_key_def numeric_key_def Let_def split: option.splits if_splits prod.splits)

section \<open>Sums as results\<close>

text \<open>A fallible C function returns \<^verbatim>\<open>Inl e\<close> when it raised exception \<^verbatim>\<open>e\<close> and \<^verbatim>\<open>Inr v\<close> otherwise.\<close>

definition bind_r :: "'e + 'a \<Rightarrow> ('a \<Rightarrow> 'e + 'b) \<Rightarrow> 'e + 'b" where
  "bind_r r f = (case r of Inl e \<Rightarrow> Inl e | Inr a \<Rightarrow> f a)"

lemma bind_r_simps [simp]: "bind_r (Inl e) f = Inl e" "bind_r (Inr a) f = f a"
  by (simp_all add: bind_r_def)

lemma bind_r_Inr_iff: "bind_r r f = Inr b \<longleftrightarrow> (\<exists>a. r = Inr a \<and> f a = Inr b)"
  by (cases r) auto

definition is_ok :: "'e + 'a \<Rightarrow> bool" where
  "is_ok r = (case r of Inl _ \<Rightarrow> False | Inr _ \<Rightarrow> True)"

lemma is_ok_simps [simp]: "\<not> is_ok (Inl e)" "is_ok (Inr a)"
  by (simp_all add: is_ok_def)

end
