(* ===== verification/Php_Values.thy ===== *)
theory Php_Values
  imports Phongo_Prelude
begin

text \<open>
  The data of the extension.  \<^verbatim>\<open>bval\<close>/\<^verbatim>\<open>bdoc\<close> are BSON values and documents as libbson's
  iterator presents them (the document ends normally, at a corrupt byte, or at an
  unsupported element); \<^verbatim>\<open>php_phongo_*_t\<close> are the internal structs of the BSON classes
  (php_phongo_structs.h); \<^verbatim>\<open>zval\<close> is a PHP value; \<^verbatim>\<open>exn\<close> a PHP exception object.  The
  translation of error domains to exception classes follows php_phongo.c.
\<close>

section \<open>BSON values\<close>

text \<open>
  A double is its 64-bit pattern, a decimal128 its two 64-bit halves.  A document
  carries how its iteration ends, which is what \<^verbatim>\<open>bson_iter_visit_all\<close> reports: normally, at a
  corrupt offset, or at an element of an unsupported type (its key, type code and offset).
\<close>

datatype doc_end = DocOk | DocCorrupt nat | DocUnsupported string nat nat

datatype bval =
    BDouble "64 word"
  | BUtf8 string
  | BDocument bdoc
  | BArray bdoc
  | BBinary "8 word" string
  | BUndefined
  | BOid string
  | BBool bool
  | BDateTime int
  | BNull
  | BRegex string string
  | BDBPointer string string
  | BCode string
  | BSymbol string
  | BCodeWScope string bdoc
  | BInt32 int
  | BTimestamp "32 word" "32 word"
  | BInt64 int
  | BDecimal128 "64 word" "64 word"
  | BMaxKey
  | BMinKey
and bdoc = BDoc "(string \<times> bval) list" doc_end

primrec doc_elems :: "bdoc \<Rightarrow> (string \<times> bval) list" where
  "doc_elems (BDoc es e) = es"

primrec doc_status :: "bdoc \<Rightarrow> doc_end" where
  "doc_status (BDoc es e) = e"

section \<open>Internal structs of the BSON classes\<close>

record php_phongo_int64_t =
  i64_initialized :: bool
  i64_integer :: int

record php_phongo_utcdatetime_t =
  udt_initialized :: bool
  udt_milliseconds :: int

record php_phongo_timestamp_t =
  ts_initialized :: bool
  ts_increment :: "32 word"
  ts_timestamp :: "32 word"

record php_phongo_objectid_t =
  oid_initialized :: bool
  oid_oid :: string

record php_phongo_binary_t =
  bin_data :: "string option"
  bin_type :: "8 word"

record php_phongo_regex_t =
  re_pattern :: "string option"
  re_flags :: "string option"

record php_phongo_javascript_t =
  js_code :: "string option"
  js_scope :: "bdoc option"

record php_phongo_dbpointer_t =
  dbp_ref :: "string option"
  dbp_id :: string

record php_phongo_symbol_t =
  sym_symbol :: "string option"

record php_phongo_decimal128_t =
  dec_initialized :: bool
  dec_high :: "64 word"
  dec_low :: "64 word"

record php_phongo_cursorid_t =
  cid_initialized :: bool
  cid_id :: int

datatype bson_obj =
    OInt64 php_phongo_int64_t
  | OUTCDateTime php_phongo_utcdatetime_t
  | OTimestamp php_phongo_timestamp_t
  | OObjectId php_phongo_objectid_t
  | OBinary php_phongo_binary_t
  | ORegex php_phongo_regex_t
  | OJavascript php_phongo_javascript_t
  | ODBPointer php_phongo_dbpointer_t
  | OSymbol php_phongo_symbol_t
  | ODecimal128 php_phongo_decimal128_t
  | OUndefined
  | OMinKey
  | OMaxKey

section \<open>PHP values\<close>

text \<open>
  Arrays and property tables are insertion-ordered hash tables.  \<^verbatim>\<open>ZStd\<close> is a
  \<^verbatim>\<open>stdClass\<close> object, \<^verbatim>\<open>ZClass c h\<close> an object of user class c with property table h,
  \<^verbatim>\<open>ZDate\<close> a DateTimeInterface object (seconds and microseconds), \<^verbatim>\<open>ZCursorId\<close> a
  \<^verbatim>\<open>MongoDB\Driver\CursorId\<close>, \<^verbatim>\<open>ZRef\<close> a PHP
  reference.  \<^verbatim>\<open>ZAddr a\<close> is an array or object that lives at address a of an explicit
  heap; it is needed only where aliasing or cycles matter.
\<close>

datatype zval =
    ZUndef
  | ZNull
  | ZBool bool
  | ZLong int
  | ZDouble "64 word"
  | ZString string
  | ZArray "(hkey \<times> zval) list"
  | ZStd "(hkey \<times> zval) list"
  | ZBson bson_obj
  | ZClass string "(hkey \<times> zval) list"
  | ZDate int int
  | ZCursorId php_phongo_cursorid_t
  | ZResource
  | ZRef zval
  | ZAddr nat

type_synonym ht = "zval hash"

fun z_deref :: "zval \<Rightarrow> zval" where
  "z_deref (ZRef z) = z_deref z"
| "z_deref z = z"

text \<open>A class name in the namespace \<^verbatim>\<open>MongoDB\BSON\<close>, and in \<^verbatim>\<open>MongoDB\Driver\<close>.\<close>

definition bson_ns :: "string \<Rightarrow> string" where
  "bson_ns n = ''MongoDB'' @ CHR 0x5C # ''BSON'' @ CHR 0x5C # n"

definition driver_ns :: "string \<Rightarrow> string" where
  "driver_ns n = ''MongoDB'' @ CHR 0x5C # ''Driver'' @ CHR 0x5C # n"

fun bson_class_name :: "bson_obj \<Rightarrow> string" where
  "bson_class_name (OInt64 _) = bson_ns ''Int64''"
| "bson_class_name (OUTCDateTime _) = bson_ns ''UTCDateTime''"
| "bson_class_name (OTimestamp _) = bson_ns ''Timestamp''"
| "bson_class_name (OObjectId _) = bson_ns ''ObjectId''"
| "bson_class_name (OBinary _) = bson_ns ''Binary''"
| "bson_class_name (ORegex _) = bson_ns ''Regex''"
| "bson_class_name (OJavascript _) = bson_ns ''Javascript''"
| "bson_class_name (ODBPointer _) = bson_ns ''DBPointer''"
| "bson_class_name (OSymbol _) = bson_ns ''Symbol''"
| "bson_class_name (ODecimal128 _) = bson_ns ''Decimal128''"
| "bson_class_name OUndefined = bson_ns ''Undefined''"
| "bson_class_name OMinKey = bson_ns ''MinKey''"
| "bson_class_name OMaxKey = bson_ns ''MaxKey''"

text \<open>\<^verbatim>\<open>PHONGO_ZVAL_CLASS_OR_TYPE_NAME\<close> (php_phongo.h).\<close>

fun zval_class_or_type_name :: "zval \<Rightarrow> string" where
  "zval_class_or_type_name ZUndef = ''null''"
| "zval_class_or_type_name ZNull = ''null''"
| "zval_class_or_type_name (ZBool _) = ''bool''"
| "zval_class_or_type_name (ZLong _) = ''int''"
| "zval_class_or_type_name (ZDouble _) = ''float''"
| "zval_class_or_type_name (ZString _) = ''string''"
| "zval_class_or_type_name (ZArray _) = ''array''"
| "zval_class_or_type_name (ZStd _) = ''stdClass''"
| "zval_class_or_type_name (ZBson b) = bson_class_name b"
| "zval_class_or_type_name (ZClass c _) = c"
| "zval_class_or_type_name (ZDate _ _) = ''DateTime''"
| "zval_class_or_type_name (ZCursorId _) = driver_ns ''CursorId''"
| "zval_class_or_type_name ZResource = ''resource''"
| "zval_class_or_type_name (ZRef _) = ''reference''"
| "zval_class_or_type_name (ZAddr _) = ''object''"

fun z_is_object :: "zval \<Rightarrow> bool" where
  "z_is_object (ZStd _) = True"
| "z_is_object (ZBson _) = True"
| "z_is_object (ZClass _ _) = True"
| "z_is_object (ZDate _ _) = True"
| "z_is_object (ZCursorId _) = True"
| "z_is_object _ = False"

text \<open>
  \<^verbatim>\<open>PHONGO_GET_PROPERTY_HASH_INIT_PROPS\<close>: a temporary table is new; otherwise the
  object's cached table is reused, or a new one is cached.
\<close>

definition get_property_hash_init_props :: "bool \<Rightarrow> ht option \<Rightarrow> ht" where
  "get_property_hash_init_props is_temp cached =
     (if is_temp then [] else case cached of Some p \<Rightarrow> p | None \<Rightarrow> [])"

text \<open>\<^verbatim>\<open>ZVAL_INT64_STRING\<close> (phongo_compat.h).\<close>

definition zval_int64_string :: "int \<Rightarrow> zval" where
  "zval_int64_string i = ZString (dec_of_int i)"

text \<open>
  \<^verbatim>\<open>ZVAL_INT64\<close> (phongo_compat.h) for a platform with \<^verbatim>\<open>SIZEOF_ZEND_LONG\<close> bytes: on
  32-bit platforms values outside int32 become Int64 objects.
\<close>

definition php_phongo_bson_new_int64 :: "int \<Rightarrow> zval" where
  "php_phongo_bson_new_int64 i = ZBson (OInt64 \<lparr>i64_initialized = True, i64_integer = i\<rparr>)"

definition zval_int64 :: "nat \<Rightarrow> int \<Rightarrow> zval" where
  "zval_int64 sizeof_zend_long i =
     (if sizeof_zend_long = 8 then ZLong i
      else if i > 2147483647 \<or> i < - 2147483648 then php_phongo_bson_new_int64 i
      else ZLong i)"

section \<open>Exceptions\<close>

datatype exn_class =
    AuthenticationException
  | BulkWriteException
  | CommandException
  | ConnectionException
  | ConnectionTimeoutException
  | EncryptionException
  | ExecutionTimeoutException
  | InvalidArgumentException
  | LogicException
  | RuntimeException
  | SSLConnectionException
  | ServerException
  | UnexpectedValueException
  | WriteException

text \<open>The parent of each exception class, where it is a class of the driver.\<close>

fun exn_parent :: "exn_class \<Rightarrow> exn_class option" where
  "exn_parent AuthenticationException = Some ConnectionException"
| "exn_parent BulkWriteException = Some WriteException"
| "exn_parent CommandException = Some ServerException"
| "exn_parent ConnectionException = Some RuntimeException"
| "exn_parent ConnectionTimeoutException = Some ConnectionException"
| "exn_parent EncryptionException = Some RuntimeException"
| "exn_parent ExecutionTimeoutException = Some ServerException"
| "exn_parent InvalidArgumentException = None"
| "exn_parent LogicException = None"
| "exn_parent RuntimeException = None"
| "exn_parent SSLConnectionException = Some ConnectionException"
| "exn_parent ServerException = Some RuntimeException"
| "exn_parent UnexpectedValueException = None"
| "exn_parent WriteException = Some ServerException"

inductive exn_instanceof :: "exn_class \<Rightarrow> exn_class \<Rightarrow> bool" where
  exn_self: "exn_instanceof c c"
| exn_up: "exn_parent c = Some d \<Longrightarrow> exn_instanceof d e \<Longrightarrow> exn_instanceof c e"

code_pred exn_instanceof .

datatype exn = Exn (ex_class: exn_class) (ex_message: string) (ex_code: int) (ex_props: "(string \<times> zval) list")

type_synonym 'a result = "exn + 'a"

datatype php_phongo_error_domain_t =
    PHONGO_ERROR_INVALID_ARGUMENT
  | PHONGO_ERROR_RUNTIME
  | PHONGO_ERROR_UNEXPECTED_VALUE
  | PHONGO_ERROR_MONGOC_FAILED
  | PHONGO_ERROR_CONNECTION_FAILED
  | PHONGO_ERROR_LOGIC

fun phongo_exception_from_phongo_domain :: "php_phongo_error_domain_t \<Rightarrow> exn_class" where
  "phongo_exception_from_phongo_domain PHONGO_ERROR_INVALID_ARGUMENT = InvalidArgumentException"
| "phongo_exception_from_phongo_domain PHONGO_ERROR_LOGIC = LogicException"
| "phongo_exception_from_phongo_domain PHONGO_ERROR_RUNTIME = RuntimeException"
| "phongo_exception_from_phongo_domain PHONGO_ERROR_UNEXPECTED_VALUE = UnexpectedValueException"
| "phongo_exception_from_phongo_domain PHONGO_ERROR_MONGOC_FAILED = RuntimeException"
| "phongo_exception_from_phongo_domain PHONGO_ERROR_CONNECTION_FAILED = ConnectionException"

text \<open>
  \<^verbatim>\<open>phongo_throw_exception\<close>: the format arguments are substituted by the caller of the
  model; the message is read as a C string, since \<^verbatim>\<open>zend_throw_exception\<close> takes one.
\<close>

definition phongo_throw_exception :: "php_phongo_error_domain_t \<Rightarrow> string \<Rightarrow> exn" where
  "phongo_throw_exception domain message =
     Exn (phongo_exception_from_phongo_domain domain) (c_str message) 0 []"

lemma ex_class_throw [simp]:
  "ex_class (phongo_throw_exception d m) = phongo_exception_from_phongo_domain d"
  by (simp add: phongo_throw_exception_def)

end
