(* ===== verification/Field_Path.thy ===== *)
theory Field_Path
  imports Php_Values
begin

text \<open>
  The path builder of bson.c: a stack of field names kept in a grown array, with the name
  being visited written above the top of the stack.  The model keeps the array as the code
  does (its allocated length is the length of the list, a null pointer is None), so that an
  access outside the allocation is visible.  Reference counting and ownership of the strings
  are memory management and not modelled.
\<close>

datatype php_phongo_bson_field_path_item_types =
    PHONGO_FIELD_PATH_ITEM_NONE
  | PHONGO_FIELD_PATH_ITEM_ARRAY
  | PHONGO_FIELD_PATH_ITEM_DOCUMENT

record php_phongo_field_path =
  fp_elements :: "string option list"
  fp_element_types :: "php_phongo_bson_field_path_item_types list"
  fp_allocated_size :: nat
  fp_size :: nat

definition php_phongo_field_path_alloc :: php_phongo_field_path where
  "php_phongo_field_path_alloc =
     \<lparr>fp_elements = [], fp_element_types = [], fp_allocated_size = 0, fp_size = 0\<rparr>"

definition field_path_expansion :: nat where
  "field_path_expansion = 8"

definition php_phongo_field_path_ensure_allocation ::
    "php_phongo_field_path \<Rightarrow> nat \<Rightarrow> php_phongo_field_path" where
  "php_phongo_field_path_ensure_allocation fp level =
     (if fp_allocated_size fp \<le> level then
        (let n = fp_size fp + field_path_expansion
         in fp\<lparr>fp_allocated_size := n,
               fp_elements := take level (fp_elements fp) @ replicate (n - level) None,
               fp_element_types := take level (fp_element_types fp)
                                   @ replicate (n - level) PHONGO_FIELD_PATH_ITEM_NONE\<rparr>)
      else fp)"

definition php_phongo_field_path_write_item_at_current_level ::
    "php_phongo_field_path \<Rightarrow> string \<Rightarrow> php_phongo_field_path" where
  "php_phongo_field_path_write_item_at_current_level fp element =
     (let fp1 = php_phongo_field_path_ensure_allocation fp (fp_size fp)
      in fp1\<lparr>fp_elements := (fp_elements fp1)[fp_size fp1 := Some element]\<rparr>)"

definition php_phongo_field_path_write_type_at_current_level ::
    "php_phongo_field_path \<Rightarrow> php_phongo_bson_field_path_item_types \<Rightarrow> php_phongo_field_path" where
  "php_phongo_field_path_write_type_at_current_level fp element_type =
     (let fp1 = php_phongo_field_path_ensure_allocation fp (fp_size fp)
      in fp1\<lparr>fp_element_types := (fp_element_types fp1)[fp_size fp1 := element_type]\<rparr>)"

definition php_phongo_field_path_push ::
    "php_phongo_field_path \<Rightarrow> string \<Rightarrow> php_phongo_bson_field_path_item_types \<Rightarrow> php_phongo_field_path" where
  "php_phongo_field_path_push fp element element_type =
     (let fp1 = php_phongo_field_path_write_item_at_current_level fp element;
          fp2 = php_phongo_field_path_write_type_at_current_level fp1 element_type
      in fp2\<lparr>fp_size := fp_size fp2 + 1\<rparr>)"

text \<open>\<^verbatim>\<open>pop\<close> clears the entry above the top and the popped one.\<close>

definition php_phongo_field_path_pop :: "php_phongo_field_path \<Rightarrow> php_phongo_field_path" where
  "php_phongo_field_path_pop fp =
     (let fp1 = php_phongo_field_path_ensure_allocation fp (fp_size fp);
          fp2 = fp1\<lparr>fp_elements := (fp_elements fp1)[fp_size fp1 := None],
                    fp_element_types := (fp_element_types fp1)[fp_size fp1 := PHONGO_FIELD_PATH_ITEM_NONE]\<rparr>;
          fp3 = fp2\<lparr>fp_size := fp_size fp2 - 1\<rparr>
      in fp3\<lparr>fp_elements := (fp_elements fp3)[fp_size fp3 := None],
             fp_element_types := (fp_element_types fp3)[fp_size fp3 := PHONGO_FIELD_PATH_ITEM_NONE]\<rparr>)"

text \<open>
  \<^verbatim>\<open>as_string\<close>: reads the entries 0 to size inclusive and overwrites the last dot it wrote
  with the terminator.  Left: a read outside the allocation, or, when every entry is null,
  a write before the start of the buffer.
\<close>

datatype path_error = PathReadOutOfBounds | PathWriteBeforeBuffer

fun field_path_copy :: "string option list \<Rightarrow> string" where
  "field_path_copy [] = []"
| "field_path_copy (None # es) = field_path_copy es"
| "field_path_copy (Some e # es) = e @ CHR ''.'' # field_path_copy es"

definition php_phongo_field_path_as_string :: "php_phongo_field_path option \<Rightarrow> path_error + string" where
  "php_phongo_field_path_as_string field_path =
     (case field_path of None \<Rightarrow> Inr []
      | Some fp \<Rightarrow>
          if fp_elements fp = [] then Inr []
          else if length (fp_elements fp) \<le> fp_size fp then Inl PathReadOutOfBounds
          else (let written = field_path_copy (take (Suc (fp_size fp)) (fp_elements fp))
                in if written = [] then Inl PathWriteBeforeBuffer else Inr (butlast written)))"

section \<open>Invariant and abstraction\<close>

definition fp_inv :: "php_phongo_field_path \<Rightarrow> bool" where
  "fp_inv fp \<longleftrightarrow>
     length (fp_elements fp) = fp_allocated_size fp
   \<and> length (fp_element_types fp) = fp_allocated_size fp
   \<and> fp_size fp \<le> fp_allocated_size fp
   \<and> list_all (\<lambda>e. e \<noteq> None) (take (fp_size fp) (fp_elements fp))
   \<and> list_all (\<lambda>e. e = None) (drop (Suc (fp_size fp)) (fp_elements fp))"

text \<open>The abstract path: the names pushed, and the name written at the current level, if any.\<close>

definition fp_stack :: "php_phongo_field_path \<Rightarrow> string list" where
  "fp_stack fp = map the (take (fp_size fp) (fp_elements fp))"

definition fp_leaf :: "php_phongo_field_path \<Rightarrow> string option" where
  "fp_leaf fp = (if fp_size fp < length (fp_elements fp) then fp_elements fp ! fp_size fp else None)"

definition fp_names :: "php_phongo_field_path \<Rightarrow> string list" where
  "fp_names fp = fp_stack fp @ (case fp_leaf fp of None \<Rightarrow> [] | Some k \<Rightarrow> [k])"

fun join_dots :: "string list \<Rightarrow> string" where
  "join_dots [] = []"
| "join_dots [s] = s"
| "join_dots (s # t # r) = s @ CHR ''.'' # join_dots (t # r)"

text \<open>The structure of a valid path: the pushed names, the current entry, null entries.\<close>

lemma fp_inv_alloc [simp]: "fp_inv php_phongo_field_path_alloc"
  by (simp add: fp_inv_def php_phongo_field_path_alloc_def)

lemma fp_alloc_abs [simp]: "fp_stack php_phongo_field_path_alloc = []" "fp_leaf php_phongo_field_path_alloc = None"
  by (simp_all add: fp_stack_def fp_leaf_def php_phongo_field_path_alloc_def)

lemma ensure_size [simp]: "fp_size (php_phongo_field_path_ensure_allocation fp n) = fp_size fp"
  by (simp add: php_phongo_field_path_ensure_allocation_def Let_def)

lemma ensure_eq:
  assumes "fp_inv fp"
  shows "php_phongo_field_path_ensure_allocation fp (fp_size fp) =
     (if fp_allocated_size fp = fp_size fp
      then fp\<lparr>fp_allocated_size := fp_size fp + 8,
              fp_elements := fp_elements fp @ replicate 8 None,
              fp_element_types := fp_element_types fp @ replicate 8 PHONGO_FIELD_PATH_ITEM_NONE\<rparr>
      else fp)"
  using assms by (simp add: php_phongo_field_path_ensure_allocation_def fp_inv_def field_path_expansion_def)

lemma ensure_inv:
  assumes "fp_inv fp" shows "fp_inv (php_phongo_field_path_ensure_allocation fp (fp_size fp))"
  using assms unfolding ensure_eq[OF assms] by (auto simp: fp_inv_def list_all_length nth_append)

lemma ensure_room:
  assumes "fp_inv fp"
  shows "fp_size fp < length (fp_elements (php_phongo_field_path_ensure_allocation fp (fp_size fp)))"
  using assms unfolding ensure_eq[OF assms] by (auto simp: fp_inv_def)

lemma ensure_abs:
  assumes "fp_inv fp"
  shows "fp_stack (php_phongo_field_path_ensure_allocation fp (fp_size fp)) = fp_stack fp"
    and "fp_leaf (php_phongo_field_path_ensure_allocation fp (fp_size fp)) = fp_leaf fp"
  using assms unfolding ensure_eq[OF assms]
  by (auto simp: fp_inv_def fp_stack_def fp_leaf_def nth_append)

lemma write_item_size [simp]:
  "fp_size (php_phongo_field_path_write_item_at_current_level fp e) = fp_size fp"
  by (simp add: php_phongo_field_path_write_item_at_current_level_def Let_def)

lemma write_item_inv:
  assumes "fp_inv fp" shows "fp_inv (php_phongo_field_path_write_item_at_current_level fp e)"
  using ensure_inv[OF assms]
  by (simp add: php_phongo_field_path_write_item_at_current_level_def Let_def fp_inv_def)

lemma write_item_room:
  "fp_inv fp \<Longrightarrow> fp_size fp < length (fp_elements (php_phongo_field_path_write_item_at_current_level fp e))"
  by (simp add: php_phongo_field_path_write_item_at_current_level_def Let_def ensure_room)

lemma write_item_abs:
  assumes "fp_inv fp"
  shows "fp_stack (php_phongo_field_path_write_item_at_current_level fp e) = fp_stack fp"
    and "fp_leaf (php_phongo_field_path_write_item_at_current_level fp e) = Some e"
proof -
  show "fp_stack (php_phongo_field_path_write_item_at_current_level fp e) = fp_stack fp"
    using ensure_abs(1)[OF assms]
    by (simp add: php_phongo_field_path_write_item_at_current_level_def Let_def fp_stack_def)
  show "fp_leaf (php_phongo_field_path_write_item_at_current_level fp e) = Some e"
    using ensure_room[OF assms]
    by (simp add: php_phongo_field_path_write_item_at_current_level_def Let_def fp_leaf_def)
qed

lemma write_type_size [simp]:
  "fp_size (php_phongo_field_path_write_type_at_current_level fp t) = fp_size fp"
  by (simp add: php_phongo_field_path_write_type_at_current_level_def Let_def)

lemma write_type_elements:
  "fp_elements (php_phongo_field_path_write_type_at_current_level fp t) =
     fp_elements (php_phongo_field_path_ensure_allocation fp (fp_size fp))"
  by (simp add: php_phongo_field_path_write_type_at_current_level_def Let_def)

lemma write_type_inv:
  assumes "fp_inv fp" shows "fp_inv (php_phongo_field_path_write_type_at_current_level fp t)"
  using ensure_inv[OF assms]
  by (simp add: php_phongo_field_path_write_type_at_current_level_def Let_def fp_inv_def)

lemma write_type_abs:
  assumes "fp_inv fp"
  shows "fp_stack (php_phongo_field_path_write_type_at_current_level fp t) = fp_stack fp"
    and "fp_leaf (php_phongo_field_path_write_type_at_current_level fp t) = fp_leaf fp"
proof -
  show "fp_stack (php_phongo_field_path_write_type_at_current_level fp t) = fp_stack fp"
    using ensure_abs(1)[OF assms] by (simp add: fp_stack_def write_type_elements)
  show "fp_leaf (php_phongo_field_path_write_type_at_current_level fp t) = fp_leaf fp"
    unfolding ensure_abs(2)[OF assms, symmetric] by (simp only: fp_leaf_def write_type_elements write_type_size ensure_size)
qed

text \<open>\<^verbatim>\<open>push\<close> and \<^verbatim>\<open>pop\<close> refine the list operations.\<close>

lemma inv_drop_None: "fp_inv fp \<Longrightarrow> fp_size fp < i \<Longrightarrow> i < length (fp_elements fp) \<Longrightarrow> fp_elements fp ! i = None"
  by (auto simp: fp_inv_def list_all_length nth_drop dest!: spec[where x = "i - Suc (fp_size fp)"])

lemma inv_take_Some: "fp_inv fp \<Longrightarrow> i < fp_size fp \<Longrightarrow> fp_elements fp ! i \<noteq> None"
  by (auto simp: fp_inv_def list_all_length)

lemma push_size [simp]: "fp_size (php_phongo_field_path_push fp k t) = Suc (fp_size fp)"
  by (simp add: php_phongo_field_path_push_def Let_def)

lemma bump_inv:
  assumes "fp_inv fp" and "fp_leaf fp = Some k" and "fp_size fp < length (fp_elements fp)"
  shows "fp_inv (fp\<lparr>fp_size := Suc (fp_size fp)\<rparr>)"
    and "fp_stack (fp\<lparr>fp_size := Suc (fp_size fp)\<rparr>) = fp_stack fp @ [k]"
    and "fp_leaf (fp\<lparr>fp_size := Suc (fp_size fp)\<rparr>) = None"
proof -
  have leaf: "fp_elements fp ! fp_size fp = Some k" using assms by (simp add: fp_leaf_def)
  have tk: "take (Suc (fp_size fp)) (fp_elements fp) = take (fp_size fp) (fp_elements fp) @ [Some k]"
    using assms(3) leaf by (simp add: take_Suc_conv_app_nth)
  have "list_all (\<lambda>e. e = None) (drop (Suc (Suc (fp_size fp))) (fp_elements fp))"
    using inv_drop_None[OF assms(1)] by (auto simp: list_all_length)
  then show "fp_inv (fp\<lparr>fp_size := Suc (fp_size fp)\<rparr>)"
    using assms(1,3) by (simp add: fp_inv_def tk)
  show "fp_stack (fp\<lparr>fp_size := Suc (fp_size fp)\<rparr>) = fp_stack fp @ [k]"
    by (simp add: fp_stack_def tk)
  show "fp_leaf (fp\<lparr>fp_size := Suc (fp_size fp)\<rparr>) = None"
    using inv_drop_None[OF assms(1)] by (simp add: fp_leaf_def)
qed

lemma push_refines:
  assumes "fp_inv fp"
  shows "fp_inv (php_phongo_field_path_push fp k t)"
    and "fp_stack (php_phongo_field_path_push fp k t) = fp_stack fp @ [k]"
    and "fp_leaf (php_phongo_field_path_push fp k t) = None"
proof -
  let ?w = "php_phongo_field_path_write_item_at_current_level fp k"
  let ?u = "php_phongo_field_path_write_type_at_current_level ?w t"
  have i: "fp_inv ?u" using write_type_inv[OF write_item_inv[OF assms]] .
  have l: "fp_leaf ?u = Some k"
    using write_type_abs(2)[OF write_item_inv[OF assms]] write_item_abs(2)[OF assms] by simp
  have s: "fp_stack ?u = fp_stack fp"
    using write_type_abs(1)[OF write_item_inv[OF assms]] write_item_abs(1)[OF assms] by simp
  have r: "fp_size ?u < length (fp_elements ?u)"
    using ensure_room[OF write_item_inv[OF assms], of k] by (simp add: write_type_elements)
  show "fp_inv (php_phongo_field_path_push fp k t)"
    "fp_stack (php_phongo_field_path_push fp k t) = fp_stack fp @ [k]"
    "fp_leaf (php_phongo_field_path_push fp k t) = None"
    using bump_inv[OF i l r] s by (simp_all add: php_phongo_field_path_push_def Let_def)
qed

lemma pop_elements:
  "fp_elements (php_phongo_field_path_pop fp) =
     (fp_elements (php_phongo_field_path_ensure_allocation fp (fp_size fp)))[fp_size fp := None, fp_size fp - 1 := None]"
  by (simp add: php_phongo_field_path_pop_def Let_def)

lemma pop_size [simp]: "fp_size (php_phongo_field_path_pop fp) = fp_size fp - 1"
  by (simp add: php_phongo_field_path_pop_def Let_def)

lemma pop_room:
  "fp_inv fp \<Longrightarrow> fp_size fp < length (fp_elements (php_phongo_field_path_pop fp))"
  by (simp add: pop_elements ensure_room)

lemma pop_refines:
  assumes "fp_inv fp" and "0 < fp_size fp"
  shows "fp_inv (php_phongo_field_path_pop fp)"
    and "fp_stack (php_phongo_field_path_pop fp) = butlast (fp_stack fp)"
    and "fp_leaf (php_phongo_field_path_pop fp) = None"
proof -
  let ?e = "php_phongo_field_path_ensure_allocation fp (fp_size fp)"
  have i: "fp_inv ?e" and r: "fp_size fp < length (fp_elements ?e)"
    using ensure_inv[OF assms(1)] ensure_room[OF assms(1)] .
  have len: "length (fp_elements ?e) = fp_allocated_size ?e" "length (fp_element_types ?e) = fp_allocated_size ?e"
    using i by (auto simp: fp_inv_def)
  have "fp_elements (php_phongo_field_path_pop fp) ! j = None"
    if "fp_size fp \<le> j" "j < length (fp_elements ?e)" for j
    using that inv_drop_None[OF i, of j] assms(2)
    by (cases "j = fp_size fp") (simp_all add: pop_elements)
  then have "list_all (\<lambda>e. e = None) (drop (fp_size fp) (fp_elements (php_phongo_field_path_pop fp)))"
    by (simp add: list_all_length) (simp add: pop_elements)
  moreover have "list_all (\<lambda>e. e \<noteq> None) (take (fp_size fp - 1) (fp_elements (php_phongo_field_path_pop fp)))"
    using inv_take_Some[OF i] by (auto simp: list_all_length pop_elements)
  ultimately show "fp_inv (php_phongo_field_path_pop fp)"
    using assms(2) r len by (auto simp: fp_inv_def pop_elements php_phongo_field_path_pop_def Let_def)
  have "fp_stack (php_phongo_field_path_pop fp) = map the (take (fp_size fp - 1) (fp_elements ?e))"
    by (simp add: fp_stack_def pop_elements)
  also have "\<dots> = butlast (fp_stack ?e)"
    using r by (simp add: fp_stack_def butlast_conv_take take_map min_def)
  finally show "fp_stack (php_phongo_field_path_pop fp) = butlast (fp_stack fp)"
    using ensure_abs(1)[OF assms(1)] by simp
  show "fp_leaf (php_phongo_field_path_pop fp) = None"
    using r by (simp add: fp_leaf_def pop_elements)
qed

lemma pop_push:
  "fp_inv fp \<Longrightarrow> fp_inv (php_phongo_field_path_pop (php_phongo_field_path_push fp k t))
     \<and> fp_stack (php_phongo_field_path_pop (php_phongo_field_path_push fp k t)) = fp_stack fp
     \<and> fp_leaf (php_phongo_field_path_pop (php_phongo_field_path_push fp k t)) = None"
  using pop_refines[of "php_phongo_field_path_push fp k t"] push_refines[of fp k t] by simp

text \<open>\<^verbatim>\<open>as_string\<close> prints the abstract path, where there is a name to print and room to look.\<close>

lemma field_path_copy_Some: "field_path_copy (map Some ks) = concat (map (\<lambda>k. k @ ''.'') ks)"
  by (induction ks) auto

lemma field_path_copy_append: "field_path_copy (xs @ ys) = field_path_copy xs @ field_path_copy ys"
  by (induction xs rule: field_path_copy.induct) auto

lemma butlast_concat_dots: "ks \<noteq> [] \<Longrightarrow> butlast (concat (map (\<lambda>k. k @ ''.'') ks)) = join_dots ks"
  by (induction ks rule: join_dots.induct) (auto simp: butlast_append)

lemma map_the_Some: "list_all (\<lambda>e. e \<noteq> None) xs \<Longrightarrow> map Some (map the xs) = xs"
  by (induction xs) auto

lemma copy_names:
  assumes "fp_inv fp" and "fp_size fp < length (fp_elements fp)"
  shows "field_path_copy (take (Suc (fp_size fp)) (fp_elements fp)) = concat (map (\<lambda>k. k @ ''.'') (fp_names fp))"
proof -
  have "list_all (\<lambda>e. e \<noteq> None) (take (fp_size fp) (fp_elements fp))"
    using assms(1) by (simp add: fp_inv_def)
  then have st: "take (fp_size fp) (fp_elements fp) = map Some (fp_stack fp)"
    unfolding fp_stack_def by (metis map_the_Some)
  have "take (Suc (fp_size fp)) (fp_elements fp) = map Some (fp_stack fp) @ [fp_leaf fp]"
    using assms(2) by (simp add: take_Suc_conv_app_nth st fp_leaf_def)
  then show ?thesis
    by (cases "fp_leaf fp") (simp_all add: field_path_copy_append field_path_copy_Some fp_names_def)
qed

lemma as_string_names:
  assumes "fp_inv fp" and "fp_size fp < length (fp_elements fp)" and "fp_names fp \<noteq> []"
  shows "php_phongo_field_path_as_string (Some fp) = Inr (join_dots (fp_names fp))"
proof -
  have "concat (map (\<lambda>k. k @ ''.'') (fp_names fp)) \<noteq> []" using assms(3) by (cases "fp_names fp") auto
  then show ?thesis using assms copy_names[OF assms(1,2)]
    by (auto simp: php_phongo_field_path_as_string_def butlast_concat_dots)
qed

lemma as_string_ok_iff:
  assumes "fp_inv fp" and "fp_elements fp \<noteq> []"
  shows "is_ok (php_phongo_field_path_as_string (Some fp))
         \<longleftrightarrow> fp_size fp < length (fp_elements fp) \<and> fp_names fp \<noteq> []"
  using assms copy_names[OF assms(1)] as_string_names[OF assms(1)]
  by (auto simp: php_phongo_field_path_as_string_def Let_def not_le)

text \<open>After a name is written at the current level the path is always printable.\<close>

lemma as_string_after_write:
  assumes "fp_inv fp"
  shows "php_phongo_field_path_as_string (Some (php_phongo_field_path_write_item_at_current_level fp k))
         = Inr (join_dots (fp_stack fp @ [k]))"
  using as_string_names[OF write_item_inv[OF assms], of k] write_item_room[OF assms, of k] write_item_abs[OF assms, of k]
  by (simp add: fp_names_def)

end
