(* ===== verification/Type_Map.thy ===== *)
theory Type_Map
  imports Field_Path
begin

text \<open>
  Type maps (bson.c): how BSON arrays, embedded documents, the root document and single
  field paths are turned into PHP values.  A PHP class is its name; the engine's class table
  (lookup, instantiability, \<^verbatim>\<open>instanceof\<close>), its string conversion and the user method
  \<^verbatim>\<open>bsonUnserialize\<close> are a parameter of the model.
\<close>

record class_env =
  ce_fetch :: "string \<Rightarrow> string option"
  ce_instantiable :: "string \<Rightarrow> bool"
  ce_instanceof :: "string \<Rightarrow> string \<Rightarrow> bool"
  ce_to_string :: "zval \<Rightarrow> string"
  ce_bsonUnserialize :: "string \<Rightarrow> ht \<Rightarrow> ht \<times> exn option"

abbreviation unserializable_ce :: string where "unserializable_ce \<equiv> bson_ns ''Unserializable''"
abbreviation persistable_ce :: string where "persistable_ce \<equiv> bson_ns ''Persistable''"

datatype php_phongo_bson_typemap_types =
    PHONGO_TYPEMAP_NONE
  | PHONGO_TYPEMAP_NATIVE_ARRAY
  | PHONGO_TYPEMAP_NATIVE_OBJECT
  | PHONGO_TYPEMAP_CLASS

record php_phongo_field_path_map_element =
  me_entry :: php_phongo_field_path
  me_node_type :: php_phongo_bson_typemap_types
  me_node_ce :: "string option"

record php_phongo_bson_typemap =
  tm_document_type :: php_phongo_bson_typemap_types
  tm_document :: "string option"
  tm_array_type :: php_phongo_bson_typemap_types
  tm_array :: "string option"
  tm_root_type :: php_phongo_bson_typemap_types
  tm_root :: "string option"
  tm_field_paths :: "php_phongo_field_path_map_element list"

text \<open>The zeroed type map of \<^verbatim>\<open>PHONGO_BSON_INIT_STATE\<close>, and that of \<^verbatim>\<open>PHONGO_BSON_INIT_DEBUG_STATE\<close>.\<close>

definition typemap_init :: php_phongo_bson_typemap where
  "typemap_init = \<lparr>tm_document_type = PHONGO_TYPEMAP_NONE, tm_document = None,
     tm_array_type = PHONGO_TYPEMAP_NONE, tm_array = None,
     tm_root_type = PHONGO_TYPEMAP_NONE, tm_root = None, tm_field_paths = []\<rparr>"

definition typemap_debug_init :: php_phongo_bson_typemap where
  "typemap_debug_init = typemap_init\<lparr>tm_root_type := PHONGO_TYPEMAP_NATIVE_ARRAY,
     tm_document_type := PHONGO_TYPEMAP_NATIVE_ARRAY\<rparr>"

section \<open>Reading options (contrib/php\_array\_api.h)\<close>

definition php_array_fetch :: "ht \<Rightarrow> string \<Rightarrow> zval option" where
  "php_array_fetch zarr key = hash_find zarr (symtable_key key)"

definition php_array_exists :: "ht \<Rightarrow> string \<Rightarrow> bool" where
  "php_array_exists zarr key \<longleftrightarrow> hash_exists zarr (symtable_key key)"

definition php_array_fetch_array :: "ht \<Rightarrow> string \<Rightarrow> ht option" where
  "php_array_fetch_array zarr key = (case php_array_fetch zarr key of Some (ZArray h) \<Rightarrow> Some h | _ \<Rightarrow> None)"

text \<open>\<^verbatim>\<open>php_array_zval_to_string\<close>: None is the null pointer of a missing key.\<close>

fun php_array_zval_to_string :: "class_env \<Rightarrow> zval option \<Rightarrow> string option" where
  "php_array_zval_to_string E None = None"
| "php_array_zval_to_string E (Some ZNull) = Some []"
| "php_array_zval_to_string E (Some (ZRef z)) = php_array_zval_to_string E (Some z)"
| "php_array_zval_to_string E (Some (ZString s)) = Some s"
| "php_array_zval_to_string E (Some z) = Some (ce_to_string E z)"

definition c_tolower :: "char \<Rightarrow> char" where
  "c_tolower c = (if 65 \<le> (of_char c :: nat) \<and> (of_char c :: nat) \<le> 90 then char_of ((of_char c :: nat) + 32) else c)"

definition c_strcaseeq :: "string \<Rightarrow> string \<Rightarrow> bool" where
  "c_strcaseeq a b \<longleftrightarrow> map c_tolower (c_str a) = map c_tolower (c_str b)"

section \<open>Parsing a type map\<close>

definition php_phongo_bson_state_fetch_class :: "class_env \<Rightarrow> string \<Rightarrow> string \<Rightarrow> string result" where
  "php_phongo_bson_state_fetch_class E classname interface_ce =
     (case ce_fetch E classname of
        None \<Rightarrow> Inl (phongo_throw_exception PHONGO_ERROR_INVALID_ARGUMENT
                  (''Class '' @ c_str classname @ '' does not exist''))
      | Some found_ce \<Rightarrow>
         if \<not> ce_instantiable E found_ce then
           Inl (phongo_throw_exception PHONGO_ERROR_INVALID_ARGUMENT
                  (''Class '' @ c_str classname @ '' is not instantiatable''))
         else if \<not> ce_instanceof E found_ce interface_ce then
           Inl (phongo_throw_exception PHONGO_ERROR_INVALID_ARGUMENT
                  (''Class '' @ c_str classname @ '' does not implement '' @ interface_ce))
         else Inr found_ce)"

text \<open>
  \<^verbatim>\<open>parse_type\<close> writes through two out pointers: their old values go in, the new ones come
  out; a class that cannot be used leaves the class pointer null and the type as it was.
\<close>

definition php_phongo_bson_state_parse_type ::
    "class_env \<Rightarrow> ht \<Rightarrow> string \<Rightarrow> php_phongo_bson_typemap_types \<times> string option
       \<Rightarrow> exn option \<times> php_phongo_bson_typemap_types \<times> string option" where
  "php_phongo_bson_state_parse_type E options name out =
     (case php_array_zval_to_string E (php_array_fetch options name) of
        None \<Rightarrow> (None, out)
      | Some classname \<Rightarrow>
         if classname = [] then (None, out)
         else if c_strcaseeq classname ''array'' then (None, PHONGO_TYPEMAP_NATIVE_ARRAY, None)
         else if c_strcaseeq classname ''stdclass'' \<or> c_strcaseeq classname ''object''
         then (None, PHONGO_TYPEMAP_NATIVE_OBJECT, None)
         else (case php_phongo_bson_state_fetch_class E classname unserializable_ce of
                 Inr ce \<Rightarrow> (None, PHONGO_TYPEMAP_CLASS, Some ce)
               | Inl e \<Rightarrow> (Some e, fst out, None)))"

text \<open>
  The segment loop of \<^verbatim>\<open>add_field_path\<close>: \<^verbatim>\<open>strchr\<close> finds the next dot; None is an empty
  segment.
\<close>

function push_segments :: "php_phongo_field_path \<Rightarrow> string \<Rightarrow> php_phongo_field_path option" where
  "push_segments entry ptr =
     (let seg = takeWhile (\<lambda>c. c \<noteq> CHR ''.'') ptr
      in if seg = ptr then Some (php_phongo_field_path_push entry ptr PHONGO_FIELD_PATH_ITEM_NONE)
         else if seg = [] then None
         else push_segments (php_phongo_field_path_push entry seg PHONGO_FIELD_PATH_ITEM_NONE)
                            (drop (Suc (length seg)) ptr))"
  by pat_completeness auto
termination
  by (relation "measure (\<lambda>(e, p). length p)") (auto intro!: diff_less simp: length_pos_if_in_set)

declare push_segments.simps [simp del]

text \<open>
  \<^verbatim>\<open>add_field_path\<close>; the outer None is the read before an empty string's first byte, which
  its caller excludes.
\<close>

definition php_phongo_bson_state_add_field_path ::
    "php_phongo_bson_typemap \<Rightarrow> string \<Rightarrow> php_phongo_bson_typemap_types \<Rightarrow> string option
       \<Rightarrow> (exn option \<times> php_phongo_bson_typemap) option" where
  "php_phongo_bson_state_add_field_path tm field_path_original type ce =
     (let p = c_str field_path_original in
      if p = [] then None
      else if hd p = CHR ''.'' then
        Some (Some (phongo_throw_exception PHONGO_ERROR_INVALID_ARGUMENT
               (''A '' @ squote ''fieldPaths'' @ '' key may not start with a '' @ squote ''.'')), tm)
      else if last p = CHR ''.'' then
        Some (Some (phongo_throw_exception PHONGO_ERROR_INVALID_ARGUMENT
               (''A '' @ squote ''fieldPaths'' @ '' key may not end with a '' @ squote ''.'')), tm)
      else (case push_segments php_phongo_field_path_alloc p of
              None \<Rightarrow> Some (Some (phongo_throw_exception PHONGO_ERROR_INVALID_ARGUMENT
                        (''A '' @ squote ''fieldPaths'' @ '' key may not have an empty segment'')), tm)
            | Some entry \<Rightarrow> Some (None, tm\<lparr>tm_field_paths := tm_field_paths tm @
                  [\<lparr>me_entry = entry, me_node_type = type, me_node_ce = ce\<rparr>]\<rparr>)))"

text \<open>
  The loop over the fieldPaths array.  \<^verbatim>\<open>map_type\<close> is a local variable the code does not
  initialise: its value at that point is a parameter (\<^verbatim>\<open>garbage\<close>).
\<close>

fun fieldpaths_loop ::
    "class_env \<Rightarrow> php_phongo_bson_typemap_types \<Rightarrow> ht \<Rightarrow> ht \<Rightarrow> php_phongo_bson_typemap
       \<Rightarrow> (exn option \<times> php_phongo_bson_typemap) option" where
  "fieldpaths_loop E garbage fieldpaths [] tm = Some (None, tm)"
| "fieldpaths_loop E garbage fieldpaths ((KInt _, _) # h) tm =
     Some (Some (phongo_throw_exception PHONGO_ERROR_INVALID_ARGUMENT
       (''The '' @ squote ''fieldPaths'' @ '' element is not an associative array'')), tm)"
| "fieldpaths_loop E garbage fieldpaths ((KStr string_key, _) # h) tm =
     (if c_str string_key = [] then
        Some (Some (phongo_throw_exception PHONGO_ERROR_INVALID_ARGUMENT
          (''The '' @ squote ''fieldPaths'' @ '' element may not be an empty string'')), tm)
      else
        (case php_phongo_bson_state_parse_type E fieldpaths (c_str string_key) (garbage, None) of
           (Some e, _) \<Rightarrow> Some (Some e, tm)
         | (None, map_type, map_ce) \<Rightarrow>
            Option.bind (php_phongo_bson_state_add_field_path tm string_key map_type map_ce)
              (\<lambda>(e, tm1). case e of Some x \<Rightarrow> Some (Some x, tm1)
                          | None \<Rightarrow> fieldpaths_loop E garbage fieldpaths h tm1)))"

definition php_phongo_bson_state_parse_fieldpaths ::
    "class_env \<Rightarrow> php_phongo_bson_typemap_types \<Rightarrow> ht \<Rightarrow> php_phongo_bson_typemap
       \<Rightarrow> (exn option \<times> php_phongo_bson_typemap) option" where
  "php_phongo_bson_state_parse_fieldpaths E garbage typemap tm =
     (if \<not> php_array_exists typemap ''fieldPaths'' then Some (None, tm)
      else (case php_array_fetch_array typemap ''fieldPaths'' of
              None \<Rightarrow> Some (Some (phongo_throw_exception PHONGO_ERROR_INVALID_ARGUMENT
                        (''The '' @ squote ''fieldPaths'' @ '' element is not an array'')), tm)
            | Some fieldpaths \<Rightarrow> fieldpaths_loop E garbage fieldpaths fieldpaths tm))"

definition php_phongo_bson_typemap_to_state ::
    "class_env \<Rightarrow> php_phongo_bson_typemap_types \<Rightarrow> ht option \<Rightarrow> php_phongo_bson_typemap
       \<Rightarrow> (exn option \<times> php_phongo_bson_typemap) option" where
  "php_phongo_bson_typemap_to_state E garbage typemap tm =
     (case typemap of None \<Rightarrow> Some (None, tm)
      | Some t \<Rightarrow>
         (let (e1, at, ac) = php_phongo_bson_state_parse_type E t ''array'' (tm_array_type tm, tm_array tm);
              tm1 = tm\<lparr>tm_array_type := at, tm_array := ac\<rparr>
          in if e1 \<noteq> None then Some (e1, tm1) else
          let (e2, dt, dc) = php_phongo_bson_state_parse_type E t ''document'' (tm_document_type tm1, tm_document tm1);
              tm2 = tm1\<lparr>tm_document_type := dt, tm_document := dc\<rparr>
          in if e2 \<noteq> None then Some (e2, tm2) else
          let (e3, rt, rc) = php_phongo_bson_state_parse_type E t ''root'' (tm_root_type tm2, tm_root tm2);
              tm3 = tm2\<lparr>tm_root_type := rt, tm_root := rc\<rparr>
          in if e3 \<noteq> None then Some (e3, tm3) else
          php_phongo_bson_state_parse_fieldpaths E garbage t tm3))"

section \<open>Looking up the current path\<close>

definition map_element_matches_field_path ::
    "php_phongo_field_path_map_element \<Rightarrow> php_phongo_field_path \<Rightarrow> bool" where
  "map_element_matches_field_path map_element current \<longleftrightarrow>
     fp_size (me_entry map_element) = fp_size current
     \<and> list_all (\<lambda>i. fp_elements (me_entry map_element) ! i = Some ''$''
                  \<or> fp_elements (me_entry map_element) ! i = fp_elements current ! i) [0..<fp_size current]"

definition map_find_field_path_entry ::
    "php_phongo_bson_typemap \<Rightarrow> php_phongo_field_path \<Rightarrow> php_phongo_field_path_map_element option" where
  "map_find_field_path_entry tm current =
     find (\<lambda>me. map_element_matches_field_path me current) (tm_field_paths tm)"

definition php_phongo_handle_field_path_entry_for_compound_type ::
    "php_phongo_bson_typemap \<Rightarrow> php_phongo_field_path \<Rightarrow> php_phongo_bson_typemap_types \<times> string option
       \<Rightarrow> php_phongo_bson_typemap_types \<times> string option" where
  "php_phongo_handle_field_path_entry_for_compound_type tm current out =
     (case map_find_field_path_entry tm current of None \<Rightarrow> out
      | Some entry \<Rightarrow> (case me_node_type entry of
           PHONGO_TYPEMAP_NATIVE_ARRAY \<Rightarrow> (PHONGO_TYPEMAP_NATIVE_ARRAY, snd out)
         | PHONGO_TYPEMAP_NATIVE_OBJECT \<Rightarrow> (PHONGO_TYPEMAP_NATIVE_OBJECT, snd out)
         | PHONGO_TYPEMAP_CLASS \<Rightarrow> (PHONGO_TYPEMAP_CLASS, me_node_ce entry)
         | PHONGO_TYPEMAP_NONE \<Rightarrow> out))"

section \<open>What the segment loop computes\<close>

fun split_dots :: "string \<Rightarrow> string list" where
  "split_dots [] = [[]]"
| "split_dots (c # cs) = (if c = CHR ''.'' then [] # split_dots cs
                         else (c # hd (split_dots cs)) # tl (split_dots cs))"

lemma split_dots_not_Nil [simp]: "split_dots p \<noteq> []"
  by (induction p) auto

lemma join_split_dots: "join_dots (split_dots p) = p"
proof (induction p)
  case (Cons c p)
  obtain s ss where "split_dots p = s # ss" by (meson split_dots_not_Nil list.exhaust)
  then show ?case using Cons by (cases ss) auto
qed simp

lemma split_dots_no_dot: "s \<in> set (split_dots p) \<Longrightarrow> CHR ''.'' \<notin> set s"
proof (induction p arbitrary: s)
  case (Cons c p)
  obtain t ts where "split_dots p = t # ts" by (meson split_dots_not_Nil list.exhaust)
  then show ?case using Cons by (auto split: if_splits)
qed simp

lemma split_dots_takeWhile:
  "split_dots p = (let seg = takeWhile (\<lambda>c. c \<noteq> CHR ''.'') p
                   in if seg = p then [p] else seg # split_dots (drop (Suc (length seg)) p))"
proof (induction p)
  case (Cons c p)
  obtain s ss where s: "split_dots p = s # ss" by (meson split_dots_not_Nil list.exhaust)
  show ?case using Cons s by (auto simp: Let_def split: if_splits)
qed simp

lemma last_split_dots: "p \<noteq> [] \<Longrightarrow> last p \<noteq> CHR ''.'' \<Longrightarrow> last (split_dots p) \<noteq> []"
proof (induction p)
  case (Cons c p)
  obtain s ss where "split_dots p = s # ss" by (meson split_dots_not_Nil list.exhaust)
  then show ?case using Cons by (cases p; cases ss) (auto split: if_splits)
qed simp

lemma push_segments_split:
  "push_segments e p =
     (if [] \<in> set (butlast (split_dots p)) then None
      else Some (fold (\<lambda>s e. php_phongo_field_path_push e s PHONGO_FIELD_PATH_ITEM_NONE) (split_dots p) e))"
proof (induction e p rule: push_segments.induct)
  case (1 e p)
  define seg where "seg = takeWhile (\<lambda>c. c \<noteq> CHR ''.'') p"
  show ?case
  proof (cases "seg = p")
    case True
    then show ?thesis
      by (subst push_segments.simps, subst (1 2) split_dots_takeWhile) (simp add: seg_def[symmetric])
  next
    case False
    have sp: "split_dots p = seg # split_dots (drop (Suc (length seg)) p)"
      using False by (subst split_dots_takeWhile) (simp add: seg_def[symmetric])
    show ?thesis
    proof (cases "seg = []")
      case True
      then show ?thesis using False
        by (subst push_segments.simps) (simp add: seg_def[symmetric] sp)
    next
      case ne: False
      then show ?thesis using False "1.IH"[OF seg_def False ne]
        by (subst push_segments.simps) (simp add: seg_def[symmetric] sp)
    qed
  qed
qed

lemma fold_push_refines:
  "fp_inv e \<Longrightarrow>
     fp_inv (fold (\<lambda>s e. php_phongo_field_path_push e s t) ss e)
     \<and> fp_stack (fold (\<lambda>s e. php_phongo_field_path_push e s t) ss e) = fp_stack e @ ss"
  by (induction ss arbitrary: e) (auto simp: push_refines)

lemma push_segments_refines:
  assumes "push_segments php_phongo_field_path_alloc p = Some e"
  shows "fp_inv e" and "fp_stack e = split_dots p"
  using assms fold_push_refines[of php_phongo_field_path_alloc PHONGO_FIELD_PATH_ITEM_NONE "split_dots p"]
  by (auto simp: push_segments_split split: if_splits)

section \<open>Matching\<close>

definition pattern_matches :: "string list \<Rightarrow> string list \<Rightarrow> bool" where
  "pattern_matches pat path \<longleftrightarrow> list_all2 (\<lambda>p k. p = ''$'' \<or> p = k) pat path"

lemma stack_nth: "fp_inv fp \<Longrightarrow> i < fp_size fp \<Longrightarrow> fp_elements fp ! i = Some (fp_stack fp ! i)"
  using inv_take_Some[of fp i] by (auto simp: fp_stack_def fp_inv_def)

lemma stack_length: "fp_inv fp \<Longrightarrow> length (fp_stack fp) = fp_size fp"
  by (simp add: fp_stack_def fp_inv_def)

lemma matches_pattern:
  assumes "fp_inv (me_entry me)" and "fp_inv cur"
  shows "map_element_matches_field_path me cur \<longleftrightarrow> pattern_matches (fp_stack (me_entry me)) (fp_stack cur)"
  using assms by (auto simp: map_element_matches_field_path_def pattern_matches_def list_all2_conv_all_nth
      stack_length list_all_length stack_nth)

section \<open>Well-formed type maps\<close>

text \<open>A CLASS type always comes with a usable class: what \<^verbatim>\<open>object_init_ex\<close> needs.\<close>

definition type_ok :: "class_env \<Rightarrow> php_phongo_bson_typemap_types \<times> string option \<Rightarrow> bool" where
  "type_ok E t \<longleftrightarrow> (fst t = PHONGO_TYPEMAP_CLASS \<longrightarrow>
     (case snd t of None \<Rightarrow> False
      | Some c \<Rightarrow> ce_instantiable E c \<and> ce_instanceof E c unserializable_ce))"

definition typemap_ok :: "class_env \<Rightarrow> php_phongo_bson_typemap \<Rightarrow> bool" where
  "typemap_ok E tm \<longleftrightarrow> type_ok E (tm_document_type tm, tm_document tm)
     \<and> type_ok E (tm_array_type tm, tm_array tm) \<and> type_ok E (tm_root_type tm, tm_root tm)
     \<and> list_all (\<lambda>me. fp_inv (me_entry me) \<and> type_ok E (me_node_type me, me_node_ce me)) (tm_field_paths tm)"

text \<open>The part of it that concerns nested values.\<close>

definition typemap_nodes_ok :: "class_env \<Rightarrow> php_phongo_bson_typemap \<Rightarrow> bool" where
  "typemap_nodes_ok E tm \<longleftrightarrow> type_ok E (tm_document_type tm, tm_document tm)
     \<and> type_ok E (tm_array_type tm, tm_array tm)
     \<and> list_all (\<lambda>me. fp_inv (me_entry me) \<and> type_ok E (me_node_type me, me_node_ce me)) (tm_field_paths tm)"

lemma typemap_ok_iff: "typemap_ok E tm \<longleftrightarrow> typemap_nodes_ok E tm \<and> type_ok E (tm_root_type tm, tm_root tm)"
  by (auto simp: typemap_ok_def typemap_nodes_ok_def)

lemma typemap_init_ok: "typemap_ok E typemap_init"
  by (simp add: typemap_ok_def typemap_init_def type_ok_def)

lemma fetch_class_ok:
  "php_phongo_bson_state_fetch_class E c i = Inr ce \<Longrightarrow> ce_instantiable E ce \<and> ce_instanceof E ce i"
  by (auto simp: php_phongo_bson_state_fetch_class_def split: option.splits if_splits)

lemma parse_type_ok:
  assumes "php_phongo_bson_state_parse_type E opts name out = (None, t, c)" and "type_ok E out"
  shows "type_ok E (t, c)"
  using assms fetch_class_ok[of E _ unserializable_ce]
  by (auto simp: php_phongo_bson_state_parse_type_def type_ok_def
      split: option.splits if_splits sum.splits)

lemma add_field_path_ok:
  assumes "php_phongo_bson_state_add_field_path tm p t c = Some (e, tm1)"
    and "typemap_ok E tm" and "type_ok E (t, c)"
  shows "typemap_ok E tm1"
  using assms push_segments_refines(1)
  by (auto simp: php_phongo_bson_state_add_field_path_def Let_def typemap_ok_def
      split: if_splits option.splits)

lemma fieldpaths_loop_ok:
  assumes "fieldpaths_loop E g fps h tm = Some (None, tm1)" and "typemap_ok E tm" and "g \<noteq> PHONGO_TYPEMAP_CLASS"
  shows "typemap_ok E tm1"
  using assms
proof (induction E g fps h tm rule: fieldpaths_loop.induct)
  case (3 E g fps k z h tm)
  obtain e t c where pt: "php_phongo_bson_state_parse_type E fps (c_str k) (g, None) = (e, t, c)"
    by (metis prod_cases3)
  have g: "type_ok E (g, None)" using 3 by (simp add: type_ok_def)
  have e: "e = None" using 3 pt by (auto split: if_splits option.splits)
  obtain e2 tm2 where af: "php_phongo_bson_state_add_field_path tm k t c = Some (e2, tm2)"
    using 3 pt e by (auto split: if_splits option.splits bind_splits)
  have e2: "e2 = None" using 3 pt e af by (auto split: if_splits option.splits)
  have "typemap_ok E tm2"
    using add_field_path_ok[OF af] 3 parse_type_ok[OF _ g] pt e by simp
  then show ?case using 3 pt e af e2 by (auto split: if_splits)
qed auto

lemma parse_fieldpaths_ok:
  assumes "php_phongo_bson_state_parse_fieldpaths E g t tm = Some (None, tm1)"
    and "typemap_ok E tm" and "g \<noteq> PHONGO_TYPEMAP_CLASS"
  shows "typemap_ok E tm1"
  using assms fieldpaths_loop_ok
  by (auto simp: php_phongo_bson_state_parse_fieldpaths_def split: if_splits option.splits)

lemma typemap_to_state_ok:
  assumes "php_phongo_bson_typemap_to_state E g t tm = Some (None, tm1)"
    and "typemap_ok E tm" and "g \<noteq> PHONGO_TYPEMAP_CLASS"
  shows "typemap_ok E tm1"
proof (cases t)
  case None
  then show ?thesis using assms by (simp add: php_phongo_bson_typemap_to_state_def)
next
  case (Some h)
  obtain e1 at ac where 1: "php_phongo_bson_state_parse_type E h ''array'' (tm_array_type tm, tm_array tm) = (e1, at, ac)"
    by (metis prod_cases3)
  obtain e2 dt dc where 2: "php_phongo_bson_state_parse_type E h ''document'' (tm_document_type tm, tm_document tm) = (e2, dt, dc)"
    by (metis prod_cases3)
  obtain e3 rt rc where 3: "php_phongo_bson_state_parse_type E h ''root'' (tm_root_type tm, tm_root tm) = (e3, rt, rc)"
    by (metis prod_cases3)
  let ?tm = "tm\<lparr>tm_array_type := at, tm_array := ac, tm_document_type := dt, tm_document := dc,
                 tm_root_type := rt, tm_root := rc\<rparr>"
  have e: "e1 = None" "e2 = None" "e3 = None"
    and pf: "php_phongo_bson_state_parse_fieldpaths E g h ?tm = Some (None, tm1)"
    using assms(1) Some 1 2 3 by (auto simp: php_phongo_bson_typemap_to_state_def Let_def split: if_splits)
  have "typemap_ok E ?tm"
    using assms(2) parse_type_ok[OF 1[unfolded e]] parse_type_ok[OF 2[unfolded e]] parse_type_ok[OF 3[unfolded e]]
    by (simp add: typemap_ok_def)
  then show ?thesis using parse_fieldpaths_ok[OF pf _ assms(3)] by blast
qed

lemma add_field_path_no_ub:
  "c_str p \<noteq> [] \<Longrightarrow> \<exists>r. php_phongo_bson_state_add_field_path tm p t c = Some r"
  by (auto simp: php_phongo_bson_state_add_field_path_def Let_def split: option.splits)

lemma fieldpaths_loop_no_ub: "\<exists>r. fieldpaths_loop E g fps h tm = Some r"
proof (induction E g fps h tm rule: fieldpaths_loop.induct)
  case (3 E g fps k z h tm)
  obtain e t c where pt: "php_phongo_bson_state_parse_type E fps (c_str k) (g, None) = (e, t, c)"
    by (metis prod_cases3)
  show ?case
  proof (cases "c_str k = []")
    case False
    then obtain e2 tm2 where "php_phongo_bson_state_add_field_path tm k t c = Some (e2, tm2)"
      using add_field_path_no_ub[of k tm t c] by (metis prod.exhaust)
    then show ?thesis using 3 pt False by (cases e; cases e2) auto
  qed auto
qed auto

lemma typemap_to_state_no_ub:
  "\<exists>r. php_phongo_bson_typemap_to_state E g t tm = Some r"
  using fieldpaths_loop_no_ub
  by (auto simp: php_phongo_bson_typemap_to_state_def php_phongo_bson_state_parse_fieldpaths_def Let_def
      split: option.splits prod.splits)

lemma handle_entry_ok:
  assumes "typemap_ok E tm" and "type_ok E out"
  shows "type_ok E (php_phongo_handle_field_path_entry_for_compound_type tm cur out)"
proof -
  have "type_ok E (me_node_type me, me_node_ce me)" if "map_find_field_path_entry tm cur = Some me" for me
    using that assms(1) by (auto simp: map_find_field_path_entry_def typemap_ok_def list_all_length find_Some_iff)
  then show ?thesis using assms(2)
    by (auto simp: php_phongo_handle_field_path_entry_for_compound_type_def type_ok_def
        split: option.splits php_phongo_bson_typemap_types.splits)
qed

end
