(* ===== verification/Php_Serialize.thy ===== *)
theory Php_Serialize
  imports Php_Values
begin

text \<open>
  The classes' \<^verbatim>\<open>serialize\<close> and \<^verbatim>\<open>unserialize\<close> methods call PHP's \<^verbatim>\<open>php_var_serialize\<close> and
  \<^verbatim>\<open>php_var_unserialize\<close>, which are not part of the repository: they are a parameter of
  the model, with PHP's documented round trip on plain data as a named hypothesis.
  \<^verbatim>\<open>HASH_OF\<close> is the engine's table of an array or object, and NULL (None) for any other
  value.  A
  reader and writer of PHP's serialization format for plain data shows that the
  hypothesis can hold.
\<close>

record php_serializer =
  var_serialize :: "zval \<Rightarrow> string"
  var_unserialize :: "string \<Rightarrow> zval option"
  HASH_OF :: "zval \<Rightarrow> ht option"

text \<open>Plain data: scalars, and arrays and \<^verbatim>\<open>stdClass\<close> objects of plain data.\<close>

fun plain_zval :: "zval \<Rightarrow> bool" and plain_buckets :: "(hkey \<times> zval) list \<Rightarrow> bool" where
  "plain_zval ZNull = True"
| "plain_zval (ZBool _) = True"
| "plain_zval (ZLong _) = True"
| "plain_zval (ZString _) = True"
| "plain_zval (ZArray h) = plain_buckets h"
| "plain_zval (ZStd h) = plain_buckets h"
| "plain_zval _ = False"
| "plain_buckets [] = True"
| "plain_buckets ((k, v) # h) = (plain_zval v \<and> plain_buckets h)"

definition serializer_contract :: "php_serializer \<Rightarrow> bool" where
  "serializer_contract S \<longleftrightarrow>
     (\<forall>v. plain_zval v \<longrightarrow> var_unserialize S (var_serialize S v) = Some v)
   \<and> (\<forall>h. HASH_OF S (ZArray h) = Some h) \<and> (\<forall>i. HASH_OF S (ZLong i) = None)"

text \<open>
  The body every class's \<^verbatim>\<open>unserialize\<close> shares: parse, then initialise from the table.
  The outer None is a call of \<^verbatim>\<open>zend_hash_str_find\<close> on a null table.
\<close>

definition unserialize_with ::
    "php_serializer \<Rightarrow> string \<Rightarrow> (ht \<Rightarrow> 's \<Rightarrow> 's result) \<Rightarrow> string \<Rightarrow> 's \<Rightarrow> 's result option" where
  "unserialize_with S class_name init_from_hash serialized intern =
     (case var_unserialize S serialized of
        None \<Rightarrow> Some (Inl (phongo_throw_exception PHONGO_ERROR_UNEXPECTED_VALUE
                        (class_name @ '' unserialization failed'')))
      | Some props \<Rightarrow> (case HASH_OF S props of
          None \<Rightarrow> None
        | Some h \<Rightarrow> Some (init_from_hash h intern)))"

section \<open>A reference implementation on plain data\<close>

fun ref_ser_key :: "hkey \<Rightarrow> string" where
  "ref_ser_key (KInt i) = ''i:'' @ dec_of_int i @ '';''"
| "ref_ser_key (KStr s) = ''s:'' @ dec_of_nat (length s) @ '':'' @ CHR 0x22 # s @ CHR 0x22 # '';''"

fun ref_ser :: "zval \<Rightarrow> string" and ref_ser_buckets :: "(hkey \<times> zval) list \<Rightarrow> string" where
  "ref_ser ZNull = ''N;''"
| "ref_ser (ZBool b) = (if b then ''b:1;'' else ''b:0;'')"
| "ref_ser (ZLong i) = ''i:'' @ dec_of_int i @ '';''"
| "ref_ser (ZString s) = ''s:'' @ dec_of_nat (length s) @ '':'' @ CHR 0x22 # s @ CHR 0x22 # '';''"
| "ref_ser (ZArray h) = ''a:'' @ dec_of_nat (length h) @ '':{'' @ ref_ser_buckets h @ ''}''"
| "ref_ser (ZStd h) = ''O:8:'' @ CHR 0x22 # ''stdClass'' @ CHR 0x22 # '':'' @ dec_of_nat (length h) @ '':{''
     @ ref_ser_buckets h @ ''}''"
| "ref_ser _ = ''''"
| "ref_ser_buckets [] = ''''"
| "ref_ser_buckets ((k, v) # h) = ref_ser_key k @ ref_ser v @ ref_ser_buckets h"

definition read_nat :: "string \<Rightarrow> nat \<times> string" where
  "read_nat s = (digits_value (takeWhile is_digit s), dropWhile is_digit s)"

definition read_int :: "string \<Rightarrow> int \<times> string" where
  "read_int s = (case s of
      c # cs \<Rightarrow> if c = CHR ''-'' then (let (n, r) = read_nat cs in (- int n, r))
               else (let (n, r) = read_nat s in (int n, r))
    | [] \<Rightarrow> (0, []))"

definition expect :: "string \<Rightarrow> string \<Rightarrow> string option" where
  "expect p s = (if take (length p) s = p then Some (drop (length p) s) else None)"

definition read_str :: "string \<Rightarrow> (string \<times> string) option" where
  "read_str s = (let (n, r) = read_nat s in
     Option.bind (expect ('':'' @ [CHR 0x22]) r) (\<lambda>r1.
     Option.bind (expect (CHR 0x22 # '';'') (drop n r1)) (\<lambda>r2. Some (take n r1, r2))))"

definition read_key :: "string \<Rightarrow> (hkey \<times> string) option" where
  "read_key s = (case expect ''i:'' s of
      Some r \<Rightarrow> (let (i, r1) = read_int r in map_option (\<lambda>r2. (KInt i, r2)) (expect '';'' r1))
    | None \<Rightarrow> Option.bind (expect ''s:'' s) (\<lambda>r. map_option (\<lambda>(t, r1). (KStr t, r1)) (read_str r)))"

fun ref_unser :: "nat \<Rightarrow> string \<Rightarrow> (zval \<times> string) option"
  and ref_unser_buckets :: "nat \<Rightarrow> nat \<Rightarrow> string \<Rightarrow> ((hkey \<times> zval) list \<times> string) option" where
  "ref_unser 0 s = None"
| "ref_unser (Suc f) s =
    (case s of [] \<Rightarrow> None | c # r \<Rightarrow>
     if c = CHR ''N'' then map_option (\<lambda>r. (ZNull, r)) (expect '';'' r)
     else if c = CHR ''b'' then (case expect '':1;'' r of Some r1 \<Rightarrow> Some (ZBool True, r1)
                     | None \<Rightarrow> map_option (\<lambda>r1. (ZBool False, r1)) (expect '':0;'' r))
     else if c = CHR ''i'' then Option.bind (expect '':'' r) (\<lambda>r.
                     let (i, r1) = read_int r in map_option (\<lambda>r2. (ZLong i, r2)) (expect '';'' r1))
     else if c = CHR ''s'' then Option.bind (expect '':'' r) (\<lambda>r. map_option (\<lambda>(t, r1). (ZString t, r1)) (read_str r))
     else if c = CHR ''a'' then Option.bind (expect '':'' r) (\<lambda>r.
                     let (n, r1) = read_nat r in Option.bind (expect '':{'' r1) (\<lambda>r2.
                     Option.bind (ref_unser_buckets f n r2) (\<lambda>(h, r3).
                     map_option (\<lambda>r4. (ZArray h, r4)) (expect ''}'' r3))))
     else if c = CHR ''O'' then Option.bind (expect ('':8:'' @ CHR 0x22 # ''stdClass'' @ CHR 0x22 # '':'') r) (\<lambda>r.
                     let (n, r1) = read_nat r in Option.bind (expect '':{'' r1) (\<lambda>r2.
                     Option.bind (ref_unser_buckets f n r2) (\<lambda>(h, r3).
                     map_option (\<lambda>r4. (ZStd h, r4)) (expect ''}'' r3))))
     else None)"
| "ref_unser_buckets 0 n s = None"
| "ref_unser_buckets (Suc f) 0 s = Some ([], s)"
| "ref_unser_buckets (Suc f) (Suc n) s =
    Option.bind (read_key s) (\<lambda>(k, r). Option.bind (ref_unser f r) (\<lambda>(v, r1).
    map_option (\<lambda>(h, r2). ((k, v) # h, r2)) (ref_unser_buckets f n r1)))"

definition ref_serializer :: php_serializer where
  "ref_serializer = \<lparr>var_serialize = ref_ser,
     var_unserialize = (\<lambda>s. map_option fst (ref_unser (Suc (2 * length s)) s)),
     HASH_OF = (\<lambda>z. case z of ZArray h \<Rightarrow> Some h | ZStd h \<Rightarrow> Some h | ZClass _ h \<Rightarrow> Some h | _ \<Rightarrow> None)\<rparr>"

lemma expect_append [simp]: "expect p (p @ r) = Some r"
  by (simp add: expect_def)

lemma read_nat_dec: "\<not> is_digit c \<Longrightarrow> read_nat (dec_of_nat n @ c # r) = (n, c # r)"
proof -
  assume c: "\<not> is_digit c"
  have "takeWhile is_digit (dec_of_nat n @ c # r) = dec_of_nat n"
    using c dec_of_nat_digits by (auto simp: takeWhile_append)
  moreover have "dropWhile is_digit (dec_of_nat n @ c # r) = c # r"
    using c dec_of_nat_digits by (auto simp: dropWhile_append)
  ultimately show ?thesis by (simp add: read_nat_def)
qed

lemma dec_of_nat_Cons:
  obtains c cs where "dec_of_nat n = c # cs" "is_digit c" "c \<noteq> CHR ''-''"
  using dec_of_nat_digits dec_of_nat_not_Nil minus_not_digit
  by (metis list.exhaust list.set_intros(1))

lemma read_int_dec: "\<not> is_digit c \<Longrightarrow> read_int (dec_of_int i @ c # r) = (i, c # r)"
proof -
  assume c: "\<not> is_digit c"
  obtain d ds where d: "dec_of_nat (nat i) = d # ds" "d \<noteq> CHR ''-''"
    using dec_of_nat_Cons by blast
  show ?thesis
  proof (cases "i < 0")
    case True
    then show ?thesis using c by (simp add: dec_of_int_def read_int_def read_nat_dec)
  next
    case False
    then show ?thesis using c d read_nat_dec[OF c, of "nat i" r]
      by (simp add: dec_of_int_def read_int_def)
  qed
qed

lemma punct_not_digit [simp]: "\<not> is_digit (CHR '';'')" "\<not> is_digit (CHR '':'')"
  by (simp_all add: is_digit_def)

lemma expect_Cons: "expect (c # p) (d # s) = (if c = d then expect p s else None)"
  by (simp add: expect_def)

lemma expect_Nil: "expect [] s = Some s"
  by (simp add: expect_def)

lemma read_str_ser:
  "read_str (dec_of_nat (length s) @ CHR '':'' # CHR 0x22 # s @ CHR 0x22 # CHR '';'' # r) = Some (s, r)"
  by (simp add: read_str_def read_nat_dec expect_Cons expect_Nil)

lemma read_key_ser: "read_key (ref_ser_key k @ r) = Some (k, r)"
  by (cases k) (simp_all add: read_key_def read_int_dec expect_Cons expect_Nil read_str_ser)

lemma ref_ser_key_not_Nil [simp]: "ref_ser_key k \<noteq> []"
  by (cases k) simp_all

lemma ref_unser_ser:
  "plain_zval v \<Longrightarrow> 2 * length (ref_ser v) < f \<Longrightarrow> ref_unser f (ref_ser v @ r) = Some (v, r)"
  "plain_buckets h \<Longrightarrow> Suc (2 * length (ref_ser_buckets h)) < f
     \<Longrightarrow> ref_unser_buckets f (length h) (ref_ser_buckets h @ r) = Some (h, r)"
proof (induction v and h arbitrary: f r and f r rule: plain_zval_plain_buckets.induct)
  case 1
  then show ?case by (cases f) (simp_all add: expect_Cons expect_Nil)
next
  case (2 b)
  then show ?case by (cases f) (simp_all add: expect_Cons expect_Nil)
next
  case (3 i)
  then show ?case by (cases f) (simp_all add: read_int_dec expect_Cons expect_Nil)
next
  case (4 s)
  then show ?case by (cases f) (simp_all add: read_str_ser expect_Cons expect_Nil)
next
  case (5 h)
  then show ?case
    by (cases f) (simp_all add: read_nat_dec expect_Cons expect_Nil)
next
  case (6 h)
  then show ?case
    by (cases f) (simp_all add: read_nat_dec expect_Cons expect_Nil)
next
  case (9 k v h)
  obtain n where "length (ref_ser_key k) = Suc n"
    using ref_ser_key_not_Nil[of k] by (cases "length (ref_ser_key k)") auto
  then show ?case using 9
    by (cases f) (simp_all add: read_key_ser)
next
  case 8
  then show ?case by (cases f) simp_all
qed simp_all

lemma ref_serializer_contract: "serializer_contract ref_serializer"
  unfolding serializer_contract_def ref_serializer_def
  using ref_unser_ser(1)[where r = "[]"] by (simp del: ref_unser.simps)

lemma unserialize_serialized:
  assumes "serializer_contract S" and "plain_zval (ZArray h)"
  shows "unserialize_with S n init (var_serialize S (ZArray h)) s = Some (init h s)"
  using assms by (simp add: serializer_contract_def unserialize_with_def)

end
