(* ===== verification/Class_Contracts.thy ===== *)
theory Class_Contracts
  imports Php_Serialize
begin

text \<open>
  The contracts every BSON value class keeps, as locales.  \<^verbatim>\<open>php_codec\<close>: the property
  table written by \<^verbatim>\<open>get_properties_hash\<close> (\<^verbatim>\<open>var_export\<close>, \<^verbatim>\<open>__serialize\<close>) and the array
  written by \<^verbatim>\<open>serialize\<close> both restore the object through \<^verbatim>\<open>init_from_hash\<close>
  (\<^verbatim>\<open>__set_state\<close>, \<^verbatim>\<open>__unserialize\<close>, \<^verbatim>\<open>unserialize\<close>).  \<^verbatim>\<open>compare_handler\<close>: the engine's
  three-way comparison orders the objects by a key.
\<close>

section \<open>Codecs\<close>

locale php_codec =
  fixes valid :: "'s \<Rightarrow> bool"
    and props_of :: "'s \<Rightarrow> ht"
    and serialized_array :: "'s \<Rightarrow> ht"
    and init_from_hash :: "ht \<Rightarrow> 's \<Rightarrow> 's result"
  assumes init_props: "valid s \<Longrightarrow> init_from_hash (props_of s) s0 = Inr s"
    and init_serialized: "valid s \<Longrightarrow> init_from_hash (serialized_array s) s0 = Inr s"
    and serialized_plain: "valid s \<Longrightarrow> plain_zval (ZArray (serialized_array s))"
begin

lemma props_inj: "valid s \<Longrightarrow> valid t \<Longrightarrow> props_of s = props_of t \<Longrightarrow> s = t"
  using init_props by (metis sum.inject(2))

lemma unserialize_roundtrip:
  assumes "valid s" and "serializer_contract S"
  shows "unserialize_with S n init_from_hash (var_serialize S (ZArray (serialized_array s))) s0 = Some (Inr s)"
  using unserialize_serialized[OF assms(2) serialized_plain[OF assms(1)], of n init_from_hash s0]
  unfolding init_serialized[OF assms(1)] .

lemma restored_again:
  "valid s \<Longrightarrow> bind_r (init_from_hash (props_of s) s0) (\<lambda>t. init_from_hash (props_of t) s1) = Inr s"
  by (simp add: init_props)

end

section \<open>Comparison handlers\<close>

definition three_way :: "'k::linorder \<Rightarrow> 'k \<Rightarrow> int" where
  "three_way a b = (if a = b then 0 else if a < b then -1 else 1)"

locale compare_handler =
  fixes cmp :: "'s \<Rightarrow> 's \<Rightarrow> int"
    and key :: "'s \<Rightarrow> 'k::linorder"
    and ok :: "'s \<Rightarrow> bool"
  assumes cmp_key: "ok a \<Longrightarrow> ok b \<Longrightarrow> cmp a b = three_way (key a) (key b)"
begin

lemma cmp_refl: "ok a \<Longrightarrow> cmp a a = 0"
  by (simp add: cmp_key three_way_def)

lemma cmp_antisym: "ok a \<Longrightarrow> ok b \<Longrightarrow> cmp a b = - cmp b a"
  by (auto simp: cmp_key three_way_def)

lemma cmp_eq_iff: "ok a \<Longrightarrow> ok b \<Longrightarrow> cmp a b = 0 \<longleftrightarrow> key a = key b"
  by (simp add: cmp_key three_way_def)

lemma cmp_trans: "ok a \<Longrightarrow> ok b \<Longrightarrow> ok c \<Longrightarrow> cmp a b \<le> 0 \<Longrightarrow> cmp b c \<le> 0 \<Longrightarrow> cmp a c \<le> 0"
  by (auto simp: cmp_key three_way_def split: if_splits)

lemma cmp_total: "ok a \<Longrightarrow> ok b \<Longrightarrow> cmp a b \<le> 0 \<or> cmp b a \<le> 0"
  by (auto simp: cmp_key three_way_def)

lemma cmp_order:
  "ok a \<Longrightarrow> ok b \<Longrightarrow> ok c \<Longrightarrow>
     cmp a a = 0 \<and> cmp a b = - cmp b a \<and> (cmp a b \<le> 0 \<and> cmp b c \<le> 0 \<longrightarrow> cmp a c \<le> 0)"
  using cmp_refl cmp_antisym cmp_trans by blast

end

end
