(* ===== verification/Bson_Scalars.thy ===== *)
theory Bson_Scalars
  imports Class_Contracts "HOL-Library.Product_Lexorder"
begin

text \<open>
  The integer-valued BSON classes: \<^verbatim>\<open>Int64\<close> (BSON/Int64.c), \<^verbatim>\<open>UTCDateTime\<close>
  (BSON/UTCDateTime.c) and \<^verbatim>\<open>Timestamp\<close> (BSON/Timestamp.c), with
  \<^verbatim>\<open>php_phongo_parse_int64\<close> (php_phongo.c).  libbson's \<^verbatim>\<open>bson_ascii_strtoll\<close> is a parameter:
  a function from the C string to the value, the offset stored through endptr (None when it
  is left NULL) and whether errno is set.
\<close>

section \<open>Parsing 64-bit integers\<close>

type_synonym strtoll_fn = "string \<Rightarrow> int \<times> nat option \<times> bool"

definition php_phongo_parse_int64 :: "strtoll_fn \<Rightarrow> string \<Rightarrow> nat \<Rightarrow> int option" where
  "php_phongo_parse_int64 strtoll data data_len =
     (let (value, endptr, errno) = strtoll (c_str data)
      in if errno \<or> (case endptr of Some e \<Rightarrow> e \<noteq> data_len | None \<Rightarrow> False) then None else Some value)"

text \<open>
  What the callers rely on: the decimal form of an int64 is read back whole, a
  conversion without errno yields an int64, and endptr stays inside the C string.
\<close>

definition strtoll_contract :: "strtoll_fn \<Rightarrow> bool" where
  "strtoll_contract f \<longleftrightarrow>
     (\<forall>i. int64_range i \<longrightarrow> f (dec_of_int i) = (i, Some (length (dec_of_int i)), False))
   \<and> (\<forall>s v e. f s = (v, e, False) \<longrightarrow> int64_range v \<and> (\<exists>n. e = Some n \<and> n \<le> length s))"

definition ref_strtoll :: strtoll_fn where
  "ref_strtoll s =
     (let neg = (s \<noteq> [] \<and> hd s = CHR ''-'');
          body = (if neg then tl s else s);
          ds = takeWhile is_digit body;
          v = (if neg then - int (digits_value ds) else int (digits_value ds));
          e = (if neg then 1 else 0) + length ds
      in if ds = [] then (0, Some 0, True)
         else if int64_range v then (v, Some e, False)
         else (0, Some e, True))"

lemma takeWhile_dec_of_nat [simp]: "takeWhile is_digit (dec_of_nat n) = dec_of_nat n"
  using dec_of_nat_digits by (auto simp: takeWhile_eq_all_conv)

lemma ref_strtoll_contract: "strtoll_contract ref_strtoll"
  unfolding strtoll_contract_def
proof (intro conjI allI impI)
  fix i assume i: "int64_range i"
  obtain c cs where c: "dec_of_nat (nat i) = c # cs" "c \<noteq> CHR ''-''"
    using dec_of_nat_Cons by blast
  show "ref_strtoll (dec_of_int i) = (i, Some (length (dec_of_int i)), False)"
  proof (cases "i < 0")
    case True
    then show ?thesis using i by (simp add: ref_strtoll_def dec_of_int_def)
  next
    case False
    then have "ref_strtoll (dec_of_int i) = (i, Some (length (dec_of_nat (nat i))), False)"
      using i c(2) takeWhile_dec_of_nat[of "nat i"] digits_value_dec_of_nat[of "nat i"]
      unfolding ref_strtoll_def dec_of_int_def c(1) by (simp add: Let_def)
    then show ?thesis using False by (simp add: dec_of_int_def)
  qed
next
  fix s v e assume f: "ref_strtoll s = (v, e, False)"
  then show "int64_range v"
    by (auto simp: ref_strtoll_def Let_def split: if_splits)
  have "length (takeWhile is_digit t) \<le> length t" for t
    by (rule length_takeWhile_le)
  then show "\<exists>n. e = Some n \<and> n \<le> length s"
    using f by (cases s) (auto simp: ref_strtoll_def Let_def split: if_splits)
qed

lemma parse_int64_dec:
  "strtoll_contract f \<Longrightarrow> int64_range i \<Longrightarrow>
     php_phongo_parse_int64 f (dec_of_int i) (length (dec_of_int i)) = Some i"
  by (simp add: php_phongo_parse_int64_def strtoll_contract_def)

lemma parse_int64_range:
  "strtoll_contract f \<Longrightarrow> php_phongo_parse_int64 f s n = Some v \<Longrightarrow> int64_range v"
  by (auto simp: php_phongo_parse_int64_def strtoll_contract_def Let_def
      split: prod.splits if_splits option.splits)

lemma parse_int64_whole:
  assumes "strtoll_contract f" and "php_phongo_parse_int64 f s (length s) = Some v"
  shows "CHR 0x00 \<notin> set s"
proof -
  obtain r e errno where t: "f (c_str s) = (r, e, errno)" by (metis prod_cases3)
  have "length s \<le> c_strlen s"
    using assms t by (auto simp: php_phongo_parse_int64_def strtoll_contract_def c_strlen_def
        split: if_splits option.splits)
  then show ?thesis using c_strlen_le[of s] c_strlen_full_iff[of s] by simp
qed

section \<open>Int64\<close>

abbreviation int64_ce_name :: string where "int64_ce_name \<equiv> bson_ns ''Int64''"

definition php_phongo_int64_init :: "php_phongo_int64_t \<Rightarrow> int \<Rightarrow> php_phongo_int64_t" where
  "php_phongo_int64_init intern integer = intern\<lparr>i64_integer := integer, i64_initialized := True\<rparr>"

definition php_phongo_int64_init_from_string ::
    "strtoll_fn \<Rightarrow> php_phongo_int64_t \<Rightarrow> string \<Rightarrow> nat \<Rightarrow> php_phongo_int64_t result" where
  "php_phongo_int64_init_from_string strtoll intern s_integer s_integer_len =
     (case php_phongo_parse_int64 strtoll s_integer s_integer_len of
        None \<Rightarrow> Inl (phongo_throw_exception PHONGO_ERROR_INVALID_ARGUMENT
                 (''Error parsing '' @ CHR 0x22 # c_str s_integer @ CHR 0x22 # '' as 64-bit integer for ''
                  @ int64_ce_name @ '' initialization''))
      | Some integer \<Rightarrow> Inr (php_phongo_int64_init intern integer))"

definition php_phongo_int64_init_from_hash ::
    "strtoll_fn \<Rightarrow> ht \<Rightarrow> php_phongo_int64_t \<Rightarrow> php_phongo_int64_t result" where
  "php_phongo_int64_init_from_hash strtoll props intern =
     (case hash_str_find props ''integer'' of
        Some (ZString s) \<Rightarrow> php_phongo_int64_init_from_string strtoll intern s (length s)
      | _ \<Rightarrow> Inl (phongo_throw_exception PHONGO_ERROR_INVALID_ARGUMENT
                 (int64_ce_name @ '' initialization requires '' @ CHR 0x22 # ''integer'' @ CHR 0x22 # '' string field'')))"

definition php_phongo_int64_get_properties_hash :: "bool \<Rightarrow> ht option \<Rightarrow> php_phongo_int64_t \<Rightarrow> ht" where
  "php_phongo_int64_get_properties_hash is_temp cached intern =
     (let props = get_property_hash_init_props is_temp cached
      in if \<not> i64_initialized intern then props
         else hash_str_update props ''integer'' (zval_int64_string (i64_integer intern)))"

definition Int64___toString :: "php_phongo_int64_t \<Rightarrow> zval" where
  "Int64___toString intern = zval_int64_string (i64_integer intern)"

definition Int64_jsonSerialize :: "php_phongo_int64_t \<Rightarrow> zval" where
  "Int64_jsonSerialize intern = ZArray [(KStr ''$numberLong'', zval_int64_string (i64_integer intern))]"

definition Int64_serialized_array :: "php_phongo_int64_t \<Rightarrow> ht" where
  "Int64_serialized_array intern = [(KStr ''integer'', zval_int64_string (i64_integer intern))]"

definition Int64_serialize :: "php_serializer \<Rightarrow> php_phongo_int64_t \<Rightarrow> string" where
  "Int64_serialize S intern = var_serialize S (ZArray (Int64_serialized_array intern))"

definition Int64_unserialize ::
    "php_serializer \<Rightarrow> strtoll_fn \<Rightarrow> string \<Rightarrow> php_phongo_int64_t \<Rightarrow> php_phongo_int64_t result option" where
  "Int64_unserialize S strtoll serialized intern =
     unserialize_with S int64_ce_name (php_phongo_int64_init_from_hash strtoll) serialized intern"

definition Int64___serialize :: "php_phongo_int64_t \<Rightarrow> ht" where
  "Int64___serialize intern = php_phongo_int64_get_properties_hash True None intern"

definition Int64___unserialize ::
    "strtoll_fn \<Rightarrow> ht \<Rightarrow> php_phongo_int64_t \<Rightarrow> php_phongo_int64_t result" where
  "Int64___unserialize strtoll data intern = php_phongo_int64_init_from_hash strtoll data intern"

definition php_phongo_int64_create_object :: php_phongo_int64_t where
  "php_phongo_int64_create_object = \<lparr>i64_initialized = False, i64_integer = 0\<rparr>"

definition php_phongo_int64_clone_object :: "php_phongo_int64_t \<Rightarrow> php_phongo_int64_t" where
  "php_phongo_int64_clone_object intern =
     php_phongo_int64_init php_phongo_int64_create_object (i64_integer intern)"

definition php_phongo_int64_compare_objects :: "php_phongo_int64_t \<Rightarrow> php_phongo_int64_t \<Rightarrow> int" where
  "php_phongo_int64_compare_objects intern1 intern2 =
     (if i64_integer intern1 \<noteq> i64_integer intern2
      then (if i64_integer intern1 < i64_integer intern2 then -1 else 1) else 0)"

definition int64_valid :: "php_phongo_int64_t \<Rightarrow> bool" where
  "int64_valid s \<longleftrightarrow> i64_initialized s \<and> int64_range (i64_integer s)"

lemma int64_from_hash_ok:
  assumes "strtoll_contract f" and "int64_valid s" and "hash_str_find h ''integer'' = Some (zval_int64_string (i64_integer s))"
  shows "php_phongo_int64_init_from_hash f h s0 = Inr s"
  using assms by (cases s) (simp add: php_phongo_int64_init_from_hash_def zval_int64_string_def int64_valid_def
      php_phongo_int64_init_from_string_def parse_int64_dec php_phongo_int64_init_def)

lemma int64_codec:
  assumes "strtoll_contract f"
  shows "php_codec int64_valid (php_phongo_int64_get_properties_hash True None) Int64_serialized_array
           (php_phongo_int64_init_from_hash f)"
  by unfold_locales (auto intro!: int64_from_hash_ok assms
      simp: php_phongo_int64_get_properties_hash_def int64_valid_def get_property_hash_init_props_def
        Int64_serialized_array_def zval_int64_string_def)

interpretation int64: php_codec int64_valid "php_phongo_int64_get_properties_hash True None"
    Int64_serialized_array "php_phongo_int64_init_from_hash ref_strtoll"
  by (rule int64_codec) (rule ref_strtoll_contract)

interpretation int64_cmp: compare_handler php_phongo_int64_compare_objects i64_integer "\<lambda>_. True"
  by unfold_locales (simp add: php_phongo_int64_compare_objects_def three_way_def)

lemma int64_from_hash_valid:
  assumes "strtoll_contract f" and "php_phongo_int64_init_from_hash f h s0 = Inr s"
  shows "int64_valid s"
  using assms parse_int64_range[OF assms(1)]
  by (auto simp: php_phongo_int64_init_from_hash_def php_phongo_int64_init_from_string_def
      php_phongo_int64_init_def int64_valid_def split: option.splits zval.splits)

lemma int64_clone: "int64_valid s \<Longrightarrow> php_phongo_int64_clone_object s = s"
  by (cases s) (simp add: php_phongo_int64_clone_object_def php_phongo_int64_init_def int64_valid_def)

end
