(* ===== verification/Bson_Datetime.thy ===== *)
theory Bson_Datetime
  imports Bson_Scalars
begin

text \<open>
  \<^verbatim>\<open>UTCDateTime\<close> (BSON/UTCDateTime.c): milliseconds since the epoch, built from an integer,
  a numeric string, a double, a DateTime object or the clock, and turned back into a
  DateTime; and \<^verbatim>\<open>Timestamp\<close> (BSON/Timestamp.c): two unsigned 32-bit counters.  The C library's
  double operations (comparison with zero, floor, ceil, \<^verbatim>\<open>snprintf "%.0f"\<close>) are a parameter.
\<close>

section \<open>UTCDateTime\<close>

abbreviation utcdatetime_ce_name :: string where "utcdatetime_ce_name \<equiv> bson_ns ''UTCDateTime''"

record double_ops =
  d_positive :: "64 word \<Rightarrow> bool"
  d_floor :: "64 word \<Rightarrow> 64 word"
  d_ceil :: "64 word \<Rightarrow> 64 word"
  d_print :: "64 word \<Rightarrow> string"

definition php_phongo_utcdatetime_init :: "php_phongo_utcdatetime_t \<Rightarrow> int \<Rightarrow> php_phongo_utcdatetime_t" where
  "php_phongo_utcdatetime_init intern milliseconds =
     intern\<lparr>udt_milliseconds := milliseconds, udt_initialized := True\<rparr>"

definition php_phongo_utcdatetime_init_from_string ::
    "strtoll_fn \<Rightarrow> php_phongo_utcdatetime_t \<Rightarrow> string \<Rightarrow> nat \<Rightarrow> php_phongo_utcdatetime_t result" where
  "php_phongo_utcdatetime_init_from_string strtoll intern s_milliseconds s_milliseconds_len =
     (case php_phongo_parse_int64 strtoll s_milliseconds s_milliseconds_len of
        None \<Rightarrow> Inl (phongo_throw_exception PHONGO_ERROR_INVALID_ARGUMENT
                 (''Error parsing '' @ CHR 0x22 # c_str s_milliseconds @ CHR 0x22 # '' as 64-bit integer for ''
                  @ utcdatetime_ce_name @ '' initialization''))
      | Some milliseconds \<Rightarrow> Inr (php_phongo_utcdatetime_init intern milliseconds))"

definition php_phongo_utcdatetime_init_from_hash ::
    "strtoll_fn \<Rightarrow> ht \<Rightarrow> php_phongo_utcdatetime_t \<Rightarrow> php_phongo_utcdatetime_t result" where
  "php_phongo_utcdatetime_init_from_hash strtoll props intern =
     (case hash_str_find props ''milliseconds'' of
        Some (ZLong i) \<Rightarrow> Inr (php_phongo_utcdatetime_init intern i)
      | Some (ZString s) \<Rightarrow> php_phongo_utcdatetime_init_from_string strtoll intern s (length s)
      | _ \<Rightarrow> Inl (phongo_throw_exception PHONGO_ERROR_INVALID_ARGUMENT
                 (utcdatetime_ce_name @ '' initialization requires '' @ CHR 0x22 # ''milliseconds'' @ CHR 0x22 #
                  '' integer or numeric string field'')))"

definition php_phongo_utcdatetime_init_from_current_time ::
    "int \<Rightarrow> int \<Rightarrow> php_phongo_utcdatetime_t \<Rightarrow> php_phongo_utcdatetime_t" where
  "php_phongo_utcdatetime_init_from_current_time sec usec intern =
     intern\<lparr>udt_milliseconds := sec * 1000 + c_div usec 1000, udt_initialized := True\<rparr>"

definition php_phongo_utcdatetime_init_from_date ::
    "php_phongo_utcdatetime_t \<Rightarrow> int \<Rightarrow> int \<Rightarrow> php_phongo_utcdatetime_t" where
  "php_phongo_utcdatetime_init_from_date intern sse us =
     intern\<lparr>udt_milliseconds := sse * 1000 + c_div us 1000, udt_initialized := True\<rparr>"

definition php_phongo_utcdatetime_get_properties_hash ::
    "bool \<Rightarrow> ht option \<Rightarrow> php_phongo_utcdatetime_t \<Rightarrow> ht" where
  "php_phongo_utcdatetime_get_properties_hash is_temp cached intern =
     (let props = get_property_hash_init_props is_temp cached
      in if \<not> udt_initialized intern then props
         else hash_str_update props ''milliseconds'' (zval_int64_string (udt_milliseconds intern)))"

text \<open>
  \<^verbatim>\<open>__construct\<close>: the optional argument ("|z!": null counts as absent); now gives the
  clock's seconds and microseconds.  The buffer for a double holds 23 characters, while
  its length is the full printed length.
\<close>

definition UTCDateTime___construct ::
    "strtoll_fn \<Rightarrow> double_ops \<Rightarrow> int \<times> int \<Rightarrow> zval option \<Rightarrow> php_phongo_utcdatetime_t \<Rightarrow> php_phongo_utcdatetime_t result" where
  "UTCDateTime___construct strtoll D now milliseconds intern =
     (case milliseconds of
        None \<Rightarrow> Inr (php_phongo_utcdatetime_init_from_current_time (fst now) (snd now) intern)
      | Some ZNull \<Rightarrow> Inr (php_phongo_utcdatetime_init_from_current_time (fst now) (snd now) intern)
      | Some z \<Rightarrow>
          if z_is_object z then
            (case z of ZDate sse us \<Rightarrow> Inr (php_phongo_utcdatetime_init_from_date intern sse us)
             | _ \<Rightarrow> Inl (phongo_throw_exception PHONGO_ERROR_INVALID_ARGUMENT
                 (''Expected instance of DateTimeInterface, '' @ zval_class_or_type_name z @ '' given'')))
          else (case z of
             ZLong i \<Rightarrow> Inr (php_phongo_utcdatetime_init intern i)
           | ZDouble d \<Rightarrow>
               (let printed = d_print D (if d_positive D d then d_floor D d else d_ceil D d)
                in php_phongo_utcdatetime_init_from_string strtoll intern (take 23 printed) (length printed))
           | ZString s \<Rightarrow> php_phongo_utcdatetime_init_from_string strtoll intern s (length s)
           | _ \<Rightarrow> Inl (phongo_throw_exception PHONGO_ERROR_INVALID_ARGUMENT
                 (''Expected integer or string, '' @ zval_class_or_type_name z @ '' given''))))"

definition php_phongo_utcdatetime_create_object :: php_phongo_utcdatetime_t where
  "php_phongo_utcdatetime_create_object = \<lparr>udt_initialized = False, udt_milliseconds = 0\<rparr>"

definition UTCDateTime___set_state :: "strtoll_fn \<Rightarrow> ht \<Rightarrow> php_phongo_utcdatetime_t result" where
  "UTCDateTime___set_state strtoll props =
     php_phongo_utcdatetime_init_from_hash strtoll props php_phongo_utcdatetime_create_object"

definition UTCDateTime___toString :: "php_phongo_utcdatetime_t \<Rightarrow> zval" where
  "UTCDateTime___toString intern = zval_int64_string (udt_milliseconds intern)"

definition UTCDateTime_toDateTime :: "php_phongo_utcdatetime_t \<Rightarrow> zval" where
  "UTCDateTime_toDateTime intern =
     ZDate (c_div (udt_milliseconds intern) 1000) (c_rem (udt_milliseconds intern) 1000 * 1000)"

definition UTCDateTime_jsonSerialize :: "php_phongo_utcdatetime_t \<Rightarrow> zval" where
  "UTCDateTime_jsonSerialize intern =
     ZArray [(KStr ''$date'', ZArray [(KStr ''$numberLong'', zval_int64_string (udt_milliseconds intern))])]"

definition UTCDateTime_serialized_array :: "php_phongo_utcdatetime_t \<Rightarrow> ht" where
  "UTCDateTime_serialized_array intern = [(KStr ''milliseconds'', zval_int64_string (udt_milliseconds intern))]"

definition UTCDateTime_serialize :: "php_serializer \<Rightarrow> php_phongo_utcdatetime_t \<Rightarrow> string" where
  "UTCDateTime_serialize S intern = var_serialize S (ZArray (UTCDateTime_serialized_array intern))"

definition UTCDateTime_unserialize ::
    "php_serializer \<Rightarrow> strtoll_fn \<Rightarrow> string \<Rightarrow> php_phongo_utcdatetime_t \<Rightarrow> php_phongo_utcdatetime_t result option" where
  "UTCDateTime_unserialize S strtoll serialized intern =
     unserialize_with S utcdatetime_ce_name (php_phongo_utcdatetime_init_from_hash strtoll) serialized intern"

definition UTCDateTime___serialize :: "php_phongo_utcdatetime_t \<Rightarrow> ht" where
  "UTCDateTime___serialize intern = php_phongo_utcdatetime_get_properties_hash True None intern"

definition UTCDateTime___unserialize ::
    "strtoll_fn \<Rightarrow> ht \<Rightarrow> php_phongo_utcdatetime_t \<Rightarrow> php_phongo_utcdatetime_t result" where
  "UTCDateTime___unserialize strtoll data intern = php_phongo_utcdatetime_init_from_hash strtoll data intern"

definition php_phongo_utcdatetime_clone_object :: "php_phongo_utcdatetime_t \<Rightarrow> php_phongo_utcdatetime_t" where
  "php_phongo_utcdatetime_clone_object intern =
     php_phongo_utcdatetime_init php_phongo_utcdatetime_create_object (udt_milliseconds intern)"

definition php_phongo_utcdatetime_compare_objects ::
    "php_phongo_utcdatetime_t \<Rightarrow> php_phongo_utcdatetime_t \<Rightarrow> int" where
  "php_phongo_utcdatetime_compare_objects intern1 intern2 =
     (if udt_milliseconds intern1 \<noteq> udt_milliseconds intern2
      then (if udt_milliseconds intern1 < udt_milliseconds intern2 then -1 else 1) else 0)"

definition utcdatetime_valid :: "php_phongo_utcdatetime_t \<Rightarrow> bool" where
  "utcdatetime_valid s \<longleftrightarrow> udt_initialized s \<and> int64_range (udt_milliseconds s)"

lemma utcdatetime_from_hash_ok:
  assumes "strtoll_contract f" and "utcdatetime_valid s"
    and "hash_str_find h ''milliseconds'' = Some (zval_int64_string (udt_milliseconds s))"
  shows "php_phongo_utcdatetime_init_from_hash f h s0 = Inr s"
  using assms by (cases s) (simp add: php_phongo_utcdatetime_init_from_hash_def zval_int64_string_def
      utcdatetime_valid_def php_phongo_utcdatetime_init_from_string_def parse_int64_dec
      php_phongo_utcdatetime_init_def)

lemma utcdatetime_codec:
  assumes "strtoll_contract f"
  shows "php_codec utcdatetime_valid (php_phongo_utcdatetime_get_properties_hash True None)
           UTCDateTime_serialized_array (php_phongo_utcdatetime_init_from_hash f)"
  by unfold_locales (auto intro!: utcdatetime_from_hash_ok assms
      simp: php_phongo_utcdatetime_get_properties_hash_def utcdatetime_valid_def get_property_hash_init_props_def
        UTCDateTime_serialized_array_def zval_int64_string_def)

interpretation utcdatetime: php_codec utcdatetime_valid "php_phongo_utcdatetime_get_properties_hash True None"
    UTCDateTime_serialized_array "php_phongo_utcdatetime_init_from_hash ref_strtoll"
  by (rule utcdatetime_codec) (rule ref_strtoll_contract)

interpretation utcdatetime_cmp: compare_handler php_phongo_utcdatetime_compare_objects udt_milliseconds "\<lambda>_. True"
  by unfold_locales (simp add: php_phongo_utcdatetime_compare_objects_def three_way_def)

lemma utcdatetime_clone: "utcdatetime_valid s \<Longrightarrow> php_phongo_utcdatetime_clone_object s = s"
  by (cases s) (simp add: php_phongo_utcdatetime_clone_object_def php_phongo_utcdatetime_init_def utcdatetime_valid_def)

lemma c_div_of_multiple: "c_div (c_rem m 1000 * 1000) 1000 = c_rem m 1000"
  unfolding c_div_def by (cases "c_rem m 1000 = 0") (simp_all add: signed_divide_int_def abs_mult sgn_mult mult_sgn_abs)

lemma toDateTime_back:
  "UTCDateTime_toDateTime s = ZDate sse us \<Longrightarrow>
     udt_milliseconds (php_phongo_utcdatetime_init_from_date s0 sse us) = udt_milliseconds s"
  by (auto simp: UTCDateTime_toDateTime_def php_phongo_utcdatetime_init_from_date_def c_div_of_multiple
      c_div_rem)

section \<open>Timestamp\<close>

abbreviation timestamp_ce_name :: string where "timestamp_ce_name \<equiv> bson_ns ''Timestamp''"

definition php_phongo_timestamp_init ::
    "php_phongo_timestamp_t \<Rightarrow> int \<Rightarrow> int \<Rightarrow> php_phongo_timestamp_t result" where
  "php_phongo_timestamp_init intern increment timestamp =
     (if increment < 0 \<or> increment > uint32_max then
        Inl (phongo_throw_exception PHONGO_ERROR_INVALID_ARGUMENT
          (''Expected increment to be an unsigned 32-bit integer, '' @ dec_of_int increment @ '' given''))
      else if timestamp < 0 \<or> timestamp > uint32_max then
        Inl (phongo_throw_exception PHONGO_ERROR_INVALID_ARGUMENT
          (''Expected timestamp to be an unsigned 32-bit integer, '' @ dec_of_int timestamp @ '' given''))
      else Inr (intern\<lparr>ts_increment := of_int increment, ts_timestamp := of_int timestamp, ts_initialized := True\<rparr>))"

definition php_phongo_timestamp_init_from_string ::
    "strtoll_fn \<Rightarrow> php_phongo_timestamp_t \<Rightarrow> string \<Rightarrow> nat \<Rightarrow> string \<Rightarrow> nat \<Rightarrow> php_phongo_timestamp_t result" where
  "php_phongo_timestamp_init_from_string strtoll intern s_increment s_increment_len s_timestamp s_timestamp_len =
     (case php_phongo_parse_int64 strtoll s_increment s_increment_len of
        None \<Rightarrow> Inl (phongo_throw_exception PHONGO_ERROR_INVALID_ARGUMENT
            (''Error parsing '' @ CHR 0x22 # c_str s_increment @ CHR 0x22 # '' as 64-bit integer increment for ''
             @ timestamp_ce_name @ '' initialization''))
      | Some increment \<Rightarrow>
         (case php_phongo_parse_int64 strtoll s_timestamp s_timestamp_len of
            None \<Rightarrow> Inl (phongo_throw_exception PHONGO_ERROR_INVALID_ARGUMENT
              (''Error parsing '' @ CHR 0x22 # c_str s_timestamp @ CHR 0x22 # '' as 64-bit integer timestamp for ''
               @ timestamp_ce_name @ '' initialization''))
          | Some timestamp \<Rightarrow> php_phongo_timestamp_init intern increment timestamp))"

definition php_phongo_timestamp_init_from_hash ::
    "strtoll_fn \<Rightarrow> ht \<Rightarrow> php_phongo_timestamp_t \<Rightarrow> php_phongo_timestamp_t result" where
  "php_phongo_timestamp_init_from_hash strtoll props intern =
     (case (hash_str_find props ''increment'', hash_str_find props ''timestamp'') of
        (Some (ZLong i), Some (ZLong t)) \<Rightarrow> php_phongo_timestamp_init intern i t
      | (Some (ZString i), Some (ZString t)) \<Rightarrow>
          php_phongo_timestamp_init_from_string strtoll intern i (length i) t (length t)
      | _ \<Rightarrow> Inl (phongo_throw_exception PHONGO_ERROR_INVALID_ARGUMENT
          (timestamp_ce_name @ '' initialization requires '' @ CHR 0x22 # ''increment'' @ CHR 0x22 # '' and ''
           @ CHR 0x22 # ''timestamp'' @ CHR 0x22 # '' integer or numeric string fields'')))"

definition php_phongo_timestamp_get_properties_hash ::
    "bool \<Rightarrow> ht option \<Rightarrow> php_phongo_timestamp_t \<Rightarrow> ht" where
  "php_phongo_timestamp_get_properties_hash is_temp cached intern =
     (let props = get_property_hash_init_props is_temp cached
      in if \<not> ts_initialized intern then props
         else hash_str_update (hash_str_update props
                ''increment'' (ZString (dec_of_nat (unat (ts_increment intern)))))
                ''timestamp'' (ZString (dec_of_nat (unat (ts_timestamp intern)))))"

text \<open>\<^verbatim>\<open>convert_to_string\<close> on an integer, as the constructor applies it.\<close>

fun long_to_string :: "zval \<Rightarrow> zval" where
  "long_to_string (ZLong i) = ZString (dec_of_int i)"
| "long_to_string z = z"

definition Timestamp___construct ::
    "strtoll_fn \<Rightarrow> zval \<Rightarrow> zval \<Rightarrow> php_phongo_timestamp_t \<Rightarrow> php_phongo_timestamp_t result" where
  "Timestamp___construct strtoll increment timestamp intern =
     (case (increment, timestamp) of
        (ZLong i, ZLong t) \<Rightarrow> php_phongo_timestamp_init intern i t
      | _ \<Rightarrow>
        (case long_to_string increment of
           ZString i \<Rightarrow>
            (case long_to_string timestamp of
               ZString t \<Rightarrow> php_phongo_timestamp_init_from_string strtoll intern i (length i) t (length t)
             | z \<Rightarrow> Inl (phongo_throw_exception PHONGO_ERROR_INVALID_ARGUMENT
                 (''Expected timestamp to be an unsigned 32-bit integer or string, '' @ zval_class_or_type_name z @ '' given'')))
         | z \<Rightarrow> Inl (phongo_throw_exception PHONGO_ERROR_INVALID_ARGUMENT
                 (''Expected increment to be an unsigned 32-bit integer or string, '' @ zval_class_or_type_name z @ '' given''))))"

definition Timestamp_getIncrement :: "php_phongo_timestamp_t \<Rightarrow> zval" where
  "Timestamp_getIncrement intern = ZLong (uint (ts_increment intern))"

definition Timestamp_getTimestamp :: "php_phongo_timestamp_t \<Rightarrow> zval" where
  "Timestamp_getTimestamp intern = ZLong (uint (ts_timestamp intern))"

definition php_phongo_timestamp_create_object :: php_phongo_timestamp_t where
  "php_phongo_timestamp_create_object = \<lparr>ts_initialized = False, ts_increment = 0, ts_timestamp = 0\<rparr>"

definition Timestamp___set_state :: "strtoll_fn \<Rightarrow> ht \<Rightarrow> php_phongo_timestamp_t result" where
  "Timestamp___set_state strtoll props =
     php_phongo_timestamp_init_from_hash strtoll props php_phongo_timestamp_create_object"

definition Timestamp___toString :: "php_phongo_timestamp_t \<Rightarrow> zval" where
  "Timestamp___toString intern =
     ZString (''['' @ dec_of_nat (unat (ts_increment intern)) @ '':'' @ dec_of_nat (unat (ts_timestamp intern)) @ '']'')"

definition Timestamp_jsonSerialize :: "php_phongo_timestamp_t \<Rightarrow> zval" where
  "Timestamp_jsonSerialize intern =
     ZArray [(KStr ''$timestamp'', ZArray [(KStr ''t'', ZLong (uint (ts_timestamp intern))),
                                          (KStr ''i'', ZLong (uint (ts_increment intern)))])]"

text \<open>\<^verbatim>\<open>serialize\<close> prints into buffers of 12 bytes, that is at most 11 characters.\<close>

definition Timestamp_serialized_array :: "php_phongo_timestamp_t \<Rightarrow> ht" where
  "Timestamp_serialized_array intern =
     [(KStr ''increment'', ZString (take 11 (dec_of_nat (unat (ts_increment intern))))),
      (KStr ''timestamp'', ZString (take 11 (dec_of_nat (unat (ts_timestamp intern)))))]"

definition Timestamp_serialize :: "php_serializer \<Rightarrow> php_phongo_timestamp_t \<Rightarrow> string" where
  "Timestamp_serialize S intern = var_serialize S (ZArray (Timestamp_serialized_array intern))"

definition Timestamp_unserialize ::
    "php_serializer \<Rightarrow> strtoll_fn \<Rightarrow> string \<Rightarrow> php_phongo_timestamp_t \<Rightarrow> php_phongo_timestamp_t result option" where
  "Timestamp_unserialize S strtoll serialized intern =
     unserialize_with S timestamp_ce_name (php_phongo_timestamp_init_from_hash strtoll) serialized intern"

definition Timestamp___serialize :: "php_phongo_timestamp_t \<Rightarrow> ht" where
  "Timestamp___serialize intern = php_phongo_timestamp_get_properties_hash True None intern"

definition Timestamp___unserialize ::
    "strtoll_fn \<Rightarrow> ht \<Rightarrow> php_phongo_timestamp_t \<Rightarrow> php_phongo_timestamp_t result" where
  "Timestamp___unserialize strtoll data intern = php_phongo_timestamp_init_from_hash strtoll data intern"

text \<open>The clone goes through \<^verbatim>\<open>init\<close>; on its failure the new object stays uninitialised.\<close>

definition php_phongo_timestamp_clone_object :: "php_phongo_timestamp_t \<Rightarrow> php_phongo_timestamp_t result" where
  "php_phongo_timestamp_clone_object intern =
     php_phongo_timestamp_init php_phongo_timestamp_create_object
       (uint (ts_increment intern)) (uint (ts_timestamp intern))"

definition php_phongo_timestamp_compare_objects :: "php_phongo_timestamp_t \<Rightarrow> php_phongo_timestamp_t \<Rightarrow> int" where
  "php_phongo_timestamp_compare_objects intern1 intern2 =
     (if ts_timestamp intern1 \<noteq> ts_timestamp intern2
      then (if ts_timestamp intern1 < ts_timestamp intern2 then -1 else 1)
      else if ts_increment intern1 \<noteq> ts_increment intern2
      then (if ts_increment intern1 < ts_increment intern2 then -1 else 1)
      else 0)"

text \<open>Ten digits suffice for an unsigned 32-bit integer, so the buffers never truncate.\<close>

lemma length_dec_of_nat_bound: "n < 10 ^ k \<Longrightarrow> 0 < k \<Longrightarrow> length (dec_of_nat n) \<le> k"
proof (induction k arbitrary: n)
  case (Suc k)
  show ?case
  proof (cases "n < 10")
    case True
    then show ?thesis by (subst dec_of_nat.simps) simp
  next
    case False
    then have "0 < k" using Suc.prems by (cases k) auto
    moreover have "n div 10 < 10 ^ k" using Suc.prems by (simp add: less_mult_imp_div_less)
    ultimately show ?thesis using Suc.IH False by (subst dec_of_nat.simps) simp
  qed
qed simp

lemma unat_uint32_lt: "unat (w :: 32 word) < 4294967296"
  using unsigned_less[of w, where ?'a = nat] by simp

lemma uint32_dec_len: "length (dec_of_nat (unat (w :: 32 word))) \<le> 11"
  using length_dec_of_nat_bound[of "unat w" 11] unat_uint32_lt[of w] by simp

lemma dec_of_nat_unat: "dec_of_nat (unat (w :: 32 word)) = dec_of_int (uint w)"
  by (simp add: dec_of_int_def)

lemma uint32_in_range: "int64_range (uint (w :: 32 word))" "uint w \<le> uint32_max"
  using unsigned_less[of w, where ?'a = int] unsigned_greater_eq[of w, where ?'a = int]
  by (simp_all add: int64_range_def uint32_max_def order_trans[of _ 0])

lemma timestamp_init_words [simp]:
  "php_phongo_timestamp_init s0 (uint (i :: 32 word)) (uint (t :: 32 word)) =
     Inr (s0\<lparr>ts_increment := i, ts_timestamp := t, ts_initialized := True\<rparr>)"
  using uint32_in_range(2)[of i] uint32_in_range(2)[of t]
  by (simp add: php_phongo_timestamp_init_def not_less not_le)

lemma timestamp_init_ok_iff:
  "is_ok (php_phongo_timestamp_init s0 i t) \<longleftrightarrow> 0 \<le> i \<and> i \<le> uint32_max \<and> 0 \<le> t \<and> t \<le> uint32_max"
  by (auto simp: php_phongo_timestamp_init_def)

lemma timestamp_init_values:
  "php_phongo_timestamp_init s0 i t = Inr s \<Longrightarrow>
     uint (ts_increment s) = i \<and> uint (ts_timestamp s) = t \<and> ts_initialized s"
  by (auto simp: php_phongo_timestamp_init_def uint_of_int_uint32 split: if_splits)

lemma timestamp_from_hash_ok:
  assumes "strtoll_contract f" and "ts_initialized s"
    and "hash_str_find h ''increment'' = Some (ZString (dec_of_nat (unat (ts_increment s))))"
    and "hash_str_find h ''timestamp'' = Some (ZString (dec_of_nat (unat (ts_timestamp s))))"
  shows "php_phongo_timestamp_init_from_hash f h s0 = Inr s"
  using assms by (cases s) (simp add: php_phongo_timestamp_init_from_hash_def dec_of_nat_unat
      php_phongo_timestamp_init_from_string_def parse_int64_dec uint32_in_range)

lemma timestamp_codec:
  assumes "strtoll_contract f"
  shows "php_codec ts_initialized (php_phongo_timestamp_get_properties_hash True None)
           Timestamp_serialized_array (php_phongo_timestamp_init_from_hash f)"
  by unfold_locales (auto intro!: timestamp_from_hash_ok assms
      simp: php_phongo_timestamp_get_properties_hash_def get_property_hash_init_props_def
        Timestamp_serialized_array_def take_all uint32_dec_len)

interpretation timestamp: php_codec ts_initialized "php_phongo_timestamp_get_properties_hash True None"
    Timestamp_serialized_array "php_phongo_timestamp_init_from_hash ref_strtoll"
  by (rule timestamp_codec) (rule ref_strtoll_contract)

interpretation timestamp_cmp: compare_handler php_phongo_timestamp_compare_objects
    "\<lambda>s. (uint (ts_timestamp s), uint (ts_increment s))" "\<lambda>_. True"
  by unfold_locales (auto simp: php_phongo_timestamp_compare_objects_def three_way_def word_less_def
      dest: injD[OF inj_unsigned])

lemma timestamp_clone: "ts_initialized s \<Longrightarrow> php_phongo_timestamp_clone_object s = Inr s"
  by (cases s) (simp add: php_phongo_timestamp_clone_object_def)

end
