(* ===== verification/Bson_Oid.thy ===== *)
theory Bson_Oid
  imports Class_Contracts "HOL-Library.List_Lexorder" "HOL-Library.Product_Lexorder"
begin

text \<open>
  \<^verbatim>\<open>ObjectId\<close> (BSON/ObjectId.c) and \<^verbatim>\<open>DBPointer\<close> (BSON/DBPointer.c).  libbson's ObjectId
  functions are a parameter (\<^verbatim>\<open>oid_ops\<close>); an ObjectId is 12 bytes, its text 24 characters
  kept in a 25-byte buffer that ends with a null byte.
\<close>

text \<open>The sign of \<^verbatim>\<open>strcmp\<close>: bytes compare as unsigned up to the first null byte.\<close>

definition c_strcmp :: "string \<Rightarrow> string \<Rightarrow> int" where
  "c_strcmp a b = three_way (c_str a) (c_str b)"

record oid_ops =
  bson_oid_is_valid :: "string \<Rightarrow> nat \<Rightarrow> bool"
  bson_oid_init_from_string :: "string \<Rightarrow> string"
  bson_oid_to_string :: "string \<Rightarrow> string"
  bson_oid_get_time_t :: "string \<Rightarrow> int"

definition oid_contract :: "oid_ops \<Rightarrow> bool" where
  "oid_contract B \<longleftrightarrow>
     (\<forall>s n. bson_oid_is_valid B s n \<longrightarrow> length (bson_oid_init_from_string B s) = 12)
   \<and> (\<forall>b. length b = 12 \<longrightarrow> length (bson_oid_to_string B b) = 24
          \<and> CHR 0x00 \<notin> set (bson_oid_to_string B b)
          \<and> bson_oid_is_valid B (bson_oid_to_string B b) 24
          \<and> bson_oid_init_from_string B (bson_oid_to_string B b) = b)"

section \<open>A reference implementation of the ObjectId functions\<close>

definition hex_digit :: "nat \<Rightarrow> char" where
  "hex_digit n = (''0123456789abcdef'' ! n)"

definition hex_value :: "char \<Rightarrow> nat" where
  "hex_value c = (let n = (of_char c :: nat) in
     if 48 \<le> n \<and> n \<le> 57 then n - 48
     else if 97 \<le> n \<and> n \<le> 102 then n - 87
     else if 65 \<le> n \<and> n \<le> 70 then n - 55 else 16)"

fun hex_of_bytes :: "string \<Rightarrow> string" where
  "hex_of_bytes [] = []"
| "hex_of_bytes (c # cs) = hex_digit (of_char c div 16) # hex_digit (of_char c mod 16) # hex_of_bytes cs"

fun bytes_of_hex :: "string \<Rightarrow> string" where
  "bytes_of_hex (a # b # cs) = char_of (hex_value a * 16 + hex_value b) # bytes_of_hex cs"
| "bytes_of_hex _ = []"

definition ref_oid_ops :: oid_ops where
  "ref_oid_ops = \<lparr>
     bson_oid_is_valid = (\<lambda>s n. n = 24 \<and> 24 \<le> length s \<and> list_all (\<lambda>c. hex_value c < 16) (take 24 s)),
     bson_oid_init_from_string = (\<lambda>s. bytes_of_hex (take 24 s)),
     bson_oid_to_string = hex_of_bytes,
     bson_oid_get_time_t = (\<lambda>b. foldl (\<lambda>acc c. acc * 256 + int (of_char c)) 0 (take 4 b))\<rparr>"

lemma hex_digit_props:
  assumes "n < 16" shows "hex_value (hex_digit n) = n" "hex_digit n \<noteq> CHR 0x00"
proof -
  have "list_all (\<lambda>d. hex_value (hex_digit d) = d \<and> hex_digit d \<noteq> CHR 0x00) [0..<16]"
    by (simp add: upt_rec hex_digit_def hex_value_def)
  then show "hex_value (hex_digit n) = n" "hex_digit n \<noteq> CHR 0x00"
    using assms by (simp_all add: list_all_iff)
qed

lemma char_nibbles: "(of_char c :: nat) div 16 < 16" "(of_char c :: nat) mod 16 < 16"
  by (simp_all add: less_mult_imp_div_less)

lemma length_hex_of_bytes [simp]: "length (hex_of_bytes b) = 2 * length b"
  by (induction b) auto

lemma hex_of_bytes_hex: "list_all (\<lambda>c. hex_value c < 16) (hex_of_bytes b)"
  by (induction b) (simp_all add: hex_digit_props char_nibbles)

lemma hex_of_bytes_no_nul: "CHR 0x00 \<notin> set (hex_of_bytes b)"
  using hex_digit_props(2) char_nibbles by (induction b) (auto simp: eq_commute[of "CHR 0x00"])

lemma bytes_of_hex_of_bytes [simp]: "bytes_of_hex (hex_of_bytes b) = b"
proof (induction b)
  case (Cons c b)
  have "of_char c div 16 * 16 + of_char c mod 16 = (of_char c :: nat)" by (rule div_mult_mod_eq)
  then show ?case using Cons by (simp add: hex_digit_props char_nibbles)
qed simp

lemma length_bytes_of_hex: "length (bytes_of_hex s) = length s div 2"
  by (induction s rule: bytes_of_hex.induct) auto

lemma ref_oid_contract: "oid_contract ref_oid_ops"
proof -
  have "take 24 (hex_of_bytes b) = hex_of_bytes b" if "length b = 12" for b
    using that by simp
  then show ?thesis
    by (auto simp: oid_contract_def ref_oid_ops_def hex_of_bytes_no_nul hex_of_bytes_hex
        length_bytes_of_hex min_def)
qed

section \<open>ObjectId\<close>

abbreviation objectid_ce_name :: string where "objectid_ce_name \<equiv> bson_ns ''ObjectId''"

definition php_phongo_objectid_init :: "oid_ops \<Rightarrow> string \<Rightarrow> php_phongo_objectid_t \<Rightarrow> php_phongo_objectid_t" where
  "php_phongo_objectid_init B generated intern =
     intern\<lparr>oid_initialized := True, oid_oid := bson_oid_to_string B generated @ [CHR 0x00]\<rparr>"

definition php_phongo_objectid_init_from_hex_string ::
    "oid_ops \<Rightarrow> php_phongo_objectid_t \<Rightarrow> string \<Rightarrow> nat \<Rightarrow> php_phongo_objectid_t result" where
  "php_phongo_objectid_init_from_hex_string B intern hex hex_len =
     (if bson_oid_is_valid B hex hex_len
      then Inr (intern\<lparr>oid_oid := bson_oid_to_string B (bson_oid_init_from_string B hex) @ [CHR 0x00],
                       oid_initialized := True\<rparr>)
      else Inl (phongo_throw_exception PHONGO_ERROR_INVALID_ARGUMENT
                 (''Error parsing ObjectId string: '' @ c_str hex)))"

definition php_phongo_objectid_init_from_hash ::
    "oid_ops \<Rightarrow> ht \<Rightarrow> php_phongo_objectid_t \<Rightarrow> php_phongo_objectid_t result" where
  "php_phongo_objectid_init_from_hash B props intern =
     (case hash_str_find props ''oid'' of
        Some (ZString s) \<Rightarrow> php_phongo_objectid_init_from_hex_string B intern s (length s)
      | _ \<Rightarrow> Inl (phongo_throw_exception PHONGO_ERROR_INVALID_ARGUMENT
                 (objectid_ce_name @ '' initialization requires '' @ CHR 0x22 # ''oid'' @ CHR 0x22 # '' string field'')))"

definition php_phongo_objectid_get_properties_hash :: "bool \<Rightarrow> ht option \<Rightarrow> php_phongo_objectid_t \<Rightarrow> ht" where
  "php_phongo_objectid_get_properties_hash is_temp cached intern =
     (let props = get_property_hash_init_props is_temp cached
      in if \<not> oid_initialized intern then props
         else hash_str_update props ''oid'' (ZString (c_str (oid_oid intern))))"

definition ObjectId___construct ::
    "oid_ops \<Rightarrow> string \<Rightarrow> string option \<Rightarrow> php_phongo_objectid_t \<Rightarrow> php_phongo_objectid_t result" where
  "ObjectId___construct B generated oid intern =
     (case oid of Some hex \<Rightarrow> php_phongo_objectid_init_from_hex_string B intern hex (length hex)
      | None \<Rightarrow> Inr (php_phongo_objectid_init B generated intern))"

definition ObjectId_getTimestamp :: "oid_ops \<Rightarrow> php_phongo_objectid_t \<Rightarrow> zval" where
  "ObjectId_getTimestamp B intern =
     ZLong (bson_oid_get_time_t B (bson_oid_init_from_string B (c_str (oid_oid intern))))"

definition php_phongo_objectid_create_object :: php_phongo_objectid_t where
  "php_phongo_objectid_create_object = \<lparr>oid_initialized = False, oid_oid = replicate 25 (CHR 0x00)\<rparr>"

definition ObjectId___set_state :: "oid_ops \<Rightarrow> ht \<Rightarrow> php_phongo_objectid_t result" where
  "ObjectId___set_state B props = php_phongo_objectid_init_from_hash B props php_phongo_objectid_create_object"

definition ObjectId___toString :: "php_phongo_objectid_t \<Rightarrow> zval" where
  "ObjectId___toString intern = ZString (take 24 (oid_oid intern))"

definition ObjectId_jsonSerialize :: "php_phongo_objectid_t \<Rightarrow> zval" where
  "ObjectId_jsonSerialize intern = ZArray [(KStr ''$oid'', ZString (take 24 (oid_oid intern)))]"

definition ObjectId_serialized_array :: "php_phongo_objectid_t \<Rightarrow> ht" where
  "ObjectId_serialized_array intern = [(KStr ''oid'', ZString (take 24 (oid_oid intern)))]"

definition ObjectId_serialize :: "php_serializer \<Rightarrow> php_phongo_objectid_t \<Rightarrow> string" where
  "ObjectId_serialize S intern = var_serialize S (ZArray (ObjectId_serialized_array intern))"

definition ObjectId_unserialize ::
    "php_serializer \<Rightarrow> oid_ops \<Rightarrow> string \<Rightarrow> php_phongo_objectid_t \<Rightarrow> php_phongo_objectid_t result option" where
  "ObjectId_unserialize S B serialized intern =
     unserialize_with S objectid_ce_name (php_phongo_objectid_init_from_hash B) serialized intern"

definition ObjectId___serialize :: "php_phongo_objectid_t \<Rightarrow> ht" where
  "ObjectId___serialize intern = php_phongo_objectid_get_properties_hash True None intern"

definition ObjectId___unserialize ::
    "oid_ops \<Rightarrow> ht \<Rightarrow> php_phongo_objectid_t \<Rightarrow> php_phongo_objectid_t result" where
  "ObjectId___unserialize B data intern = php_phongo_objectid_init_from_hash B data intern"

definition php_phongo_objectid_clone_object :: "php_phongo_objectid_t \<Rightarrow> php_phongo_objectid_t" where
  "php_phongo_objectid_clone_object intern =
     php_phongo_objectid_create_object\<lparr>oid_oid := oid_oid intern, oid_initialized := True\<rparr>"

definition php_phongo_objectid_compare_objects :: "php_phongo_objectid_t \<Rightarrow> php_phongo_objectid_t \<Rightarrow> int" where
  "php_phongo_objectid_compare_objects intern1 intern2 = c_strcmp (oid_oid intern1) (oid_oid intern2)"

text \<open>Every initialised object holds the text libbson writes for some 12 bytes.\<close>

definition objectid_valid :: "oid_ops \<Rightarrow> php_phongo_objectid_t \<Rightarrow> bool" where
  "objectid_valid B s \<longleftrightarrow> oid_initialized s
     \<and> (let b = bson_oid_init_from_string B (c_str (oid_oid s))
        in length b = 12 \<and> oid_oid s = bson_oid_to_string B b @ [CHR 0x00])"

lemma c_str_terminated: "CHR 0x00 \<notin> set s \<Longrightarrow> c_str (s @ [CHR 0x00]) = s"
  by (induction s) (auto simp: c_str_def)

lemma objectid_written_valid:
  assumes "oid_contract B" and "length b = 12"
  shows "objectid_valid B (s\<lparr>oid_oid := bson_oid_to_string B b @ [CHR 0x00], oid_initialized := True\<rparr>)"
  using assms by (simp add: objectid_valid_def oid_contract_def c_str_terminated)

lemma objectid_hex_valid:
  "oid_contract B \<Longrightarrow> php_phongo_objectid_init_from_hex_string B s0 h n = Inr s \<Longrightarrow> objectid_valid B s"
  by (auto simp: php_phongo_objectid_init_from_hex_string_def oid_contract_def
      intro!: objectid_written_valid split: if_splits)

lemma objectid_from_hash_ok:
  assumes "oid_contract B" and v: "objectid_valid B s"
    and "hash_str_find h ''oid'' = Some (ZString (take 24 (oid_oid s)))"
  shows "php_phongo_objectid_init_from_hash B h s0 = Inr s"
proof -
  define b where "b = bson_oid_init_from_string B (c_str (oid_oid s))"
  have b: "length b = 12" "oid_oid s = bson_oid_to_string B b @ [CHR 0x00]" "oid_initialized s"
    using v by (auto simp: objectid_valid_def b_def Let_def)
  have l: "length (bson_oid_to_string B b) = 24"
    "bson_oid_is_valid B (bson_oid_to_string B b) 24"
    "bson_oid_init_from_string B (bson_oid_to_string B b) = b"
    using assms(1) b(1) by (auto simp: oid_contract_def)
  then have "take 24 (oid_oid s) = bson_oid_to_string B b" using b(2) by simp
  then show ?thesis using assms(3) b l
    by (cases s) (simp add: php_phongo_objectid_init_from_hash_def php_phongo_objectid_init_from_hex_string_def)
qed

lemma objectid_c_str:
  assumes "oid_contract B" and "objectid_valid B s"
  shows "c_str (oid_oid s) = take 24 (oid_oid s)"
proof -
  define b where "b = bson_oid_init_from_string B (c_str (oid_oid s))"
  have b: "length b = 12" "oid_oid s = bson_oid_to_string B b @ [CHR 0x00]"
    using assms(2) by (auto simp: objectid_valid_def b_def Let_def)
  then have "length (bson_oid_to_string B b) = 24" "CHR 0x00 \<notin> set (bson_oid_to_string B b)"
    using assms(1) by (auto simp: oid_contract_def)
  then show ?thesis by (simp add: b(2) c_str_terminated)
qed

lemma objectid_codec:
  assumes "oid_contract B"
  shows "php_codec (objectid_valid B) (php_phongo_objectid_get_properties_hash True None)
           ObjectId_serialized_array (php_phongo_objectid_init_from_hash B)"
proof
  fix s s0 assume v: "objectid_valid B s"
  then show "php_phongo_objectid_init_from_hash B (php_phongo_objectid_get_properties_hash True None s) s0 = Inr s"
    by (intro objectid_from_hash_ok[OF assms]) (auto simp: php_phongo_objectid_get_properties_hash_def
        get_property_hash_init_props_def objectid_valid_def objectid_c_str[OF assms v])
  show "php_phongo_objectid_init_from_hash B (ObjectId_serialized_array s) s0 = Inr s"
    using v by (intro objectid_from_hash_ok[OF assms]) (auto simp: ObjectId_serialized_array_def)
qed (simp add: ObjectId_serialized_array_def)

interpretation objectid: php_codec "objectid_valid ref_oid_ops" "php_phongo_objectid_get_properties_hash True None"
    ObjectId_serialized_array "php_phongo_objectid_init_from_hash ref_oid_ops"
  by (rule objectid_codec) (rule ref_oid_contract)

interpretation objectid_cmp: compare_handler php_phongo_objectid_compare_objects "\<lambda>s. c_str (oid_oid s)" "\<lambda>_. True"
  by unfold_locales (simp add: php_phongo_objectid_compare_objects_def c_strcmp_def)

lemma objectid_clone: "oid_initialized s \<Longrightarrow> php_phongo_objectid_clone_object s = s"
  by (cases s) (simp add: php_phongo_objectid_clone_object_def php_phongo_objectid_create_object_def)

section \<open>DBPointer\<close>

abbreviation dbpointer_ce_name :: string where "dbpointer_ce_name \<equiv> bson_ns ''DBPointer''"

text \<open>
  \<^verbatim>\<open>strncpy\<close> into the zeroed 25-byte field copies at most 24 bytes of the C string.
\<close>

definition php_phongo_dbpointer_init ::
    "oid_ops \<Rightarrow> php_phongo_dbpointer_t \<Rightarrow> string \<Rightarrow> nat \<Rightarrow> string \<Rightarrow> nat \<Rightarrow> php_phongo_dbpointer_t result" where
  "php_phongo_dbpointer_init B intern ref ref_len oid id_len =
     (if c_strlen ref \<noteq> ref_len then
        Inl (phongo_throw_exception PHONGO_ERROR_INVALID_ARGUMENT ''Ref cannot contain null bytes'')
      else if \<not> bson_oid_is_valid B oid id_len then
        Inl (phongo_throw_exception PHONGO_ERROR_INVALID_ARGUMENT (''Error parsing ObjectId string: '' @ c_str oid))
      else Inr (intern\<lparr>dbp_ref := Some ref, dbp_id := take 24 (c_str oid)\<rparr>))"

definition php_phongo_dbpointer_init_from_hash ::
    "oid_ops \<Rightarrow> ht \<Rightarrow> php_phongo_dbpointer_t \<Rightarrow> php_phongo_dbpointer_t result" where
  "php_phongo_dbpointer_init_from_hash B props intern =
     (case (hash_str_find props ''ref'', hash_str_find props ''id'') of
        (Some (ZString ref), Some (ZString oid)) \<Rightarrow>
          php_phongo_dbpointer_init B intern ref (length ref) oid (length oid)
      | _ \<Rightarrow> Inl (phongo_throw_exception PHONGO_ERROR_INVALID_ARGUMENT
          (dbpointer_ce_name @ '' initialization requires '' @ CHR 0x22 # ''ref'' @ CHR 0x22 # '' and ''
           @ CHR 0x22 # ''id'' @ CHR 0x22 # '' string fields'')))"

definition php_phongo_dbpointer_get_properties_hash :: "bool \<Rightarrow> ht option \<Rightarrow> php_phongo_dbpointer_t \<Rightarrow> ht" where
  "php_phongo_dbpointer_get_properties_hash is_temp cached intern =
     (let props = get_property_hash_init_props is_temp cached
      in case dbp_ref intern of None \<Rightarrow> props
         | Some ref \<Rightarrow> hash_str_update (hash_str_update props ''ref'' (ZString (c_str ref)))
                         ''id'' (ZString (dbp_id intern)))"

text \<open>A null pointer prints as \<^verbatim>\<open>(null)\<close> through \<^verbatim>\<open>spprintf("%s")\<close>.\<close>

definition print_ptr :: "string option \<Rightarrow> string" where
  "print_ptr p = (case p of None \<Rightarrow> ''(null)'' | Some s \<Rightarrow> c_str s)"

definition ptr_bytes :: "string option \<Rightarrow> string" where
  "ptr_bytes p = (case p of None \<Rightarrow> [] | Some s \<Rightarrow> s)"

definition DBPointer___toString :: "php_phongo_dbpointer_t \<Rightarrow> zval" where
  "DBPointer___toString intern = ZString (''['' @ print_ptr (dbp_ref intern) @ ''/'' @ dbp_id intern @ '']'')"

definition DBPointer_jsonSerialize :: "php_phongo_dbpointer_t \<Rightarrow> zval" where
  "DBPointer_jsonSerialize intern =
     ZArray [(KStr ''$dbPointer'', ZArray [(KStr ''$ref'', ZString (ptr_bytes (dbp_ref intern))),
        (KStr ''$id'', ZArray [(KStr ''$oid'', ZString (dbp_id intern))])])]"

definition DBPointer_serialized_array :: "php_phongo_dbpointer_t \<Rightarrow> ht" where
  "DBPointer_serialized_array intern =
     [(KStr ''ref'', ZString (ptr_bytes (dbp_ref intern))), (KStr ''id'', ZString (dbp_id intern))]"

definition DBPointer_serialize :: "php_serializer \<Rightarrow> php_phongo_dbpointer_t \<Rightarrow> string" where
  "DBPointer_serialize S intern = var_serialize S (ZArray (DBPointer_serialized_array intern))"

definition DBPointer_unserialize ::
    "php_serializer \<Rightarrow> oid_ops \<Rightarrow> string \<Rightarrow> php_phongo_dbpointer_t \<Rightarrow> php_phongo_dbpointer_t result option" where
  "DBPointer_unserialize S B serialized intern =
     unserialize_with S dbpointer_ce_name (php_phongo_dbpointer_init_from_hash B) serialized intern"

definition php_phongo_dbpointer_create_object :: php_phongo_dbpointer_t where
  "php_phongo_dbpointer_create_object = \<lparr>dbp_ref = None, dbp_id = []\<rparr>"

text \<open>The clone reads \<^verbatim>\<open>strlen(intern->ref)\<close>: for an uninitialised object that is a null pointer (None).\<close>

definition php_phongo_dbpointer_clone_object ::
    "oid_ops \<Rightarrow> php_phongo_dbpointer_t \<Rightarrow> php_phongo_dbpointer_t result option" where
  "php_phongo_dbpointer_clone_object B intern =
     (case dbp_ref intern of None \<Rightarrow> None
      | Some ref \<Rightarrow> Some (php_phongo_dbpointer_init B php_phongo_dbpointer_create_object
                            ref (length ref) (dbp_id intern) 24))"

definition php_phongo_dbpointer_compare_objects :: "php_phongo_dbpointer_t \<Rightarrow> php_phongo_dbpointer_t \<Rightarrow> int" where
  "php_phongo_dbpointer_compare_objects intern1 intern2 =
     (let retval = c_strcmp (ptr_bytes (dbp_ref intern1)) (ptr_bytes (dbp_ref intern2))
      in if retval \<noteq> 0 then retval else c_strcmp (dbp_id intern1) (dbp_id intern2))"

definition dbpointer_valid :: "oid_ops \<Rightarrow> php_phongo_dbpointer_t \<Rightarrow> bool" where
  "dbpointer_valid B s \<longleftrightarrow> (case dbp_ref s of None \<Rightarrow> False | Some r \<Rightarrow> CHR 0x00 \<notin> set r)
     \<and> length (dbp_id s) = 24 \<and> CHR 0x00 \<notin> set (dbp_id s) \<and> bson_oid_is_valid B (dbp_id s) 24"

lemma dbpointer_init_ok:
  "dbpointer_valid B s \<Longrightarrow> dbp_ref s = Some r \<Longrightarrow>
     php_phongo_dbpointer_init B s0 r (length r) (dbp_id s) (length (dbp_id s)) = Inr s"
  by (cases s) (auto simp: dbpointer_valid_def php_phongo_dbpointer_init_def c_strlen_full_iff c_str_id)

lemma dbpointer_from_hash_ok:
  "dbpointer_valid B s \<Longrightarrow> hash_str_find h ''ref'' = Some (ZString (ptr_bytes (dbp_ref s))) \<Longrightarrow>
     hash_str_find h ''id'' = Some (ZString (dbp_id s)) \<Longrightarrow>
     php_phongo_dbpointer_init_from_hash B h s0 = Inr s"
  using dbpointer_init_ok[of B s] by (auto simp: php_phongo_dbpointer_init_from_hash_def ptr_bytes_def
      dbpointer_valid_def split: option.splits)

lemma dbpointer_codec:
  "php_codec (dbpointer_valid B) (php_phongo_dbpointer_get_properties_hash True None)
     DBPointer_serialized_array (php_phongo_dbpointer_init_from_hash B)"
  by unfold_locales (auto intro!: dbpointer_from_hash_ok
      simp: php_phongo_dbpointer_get_properties_hash_def get_property_hash_init_props_def c_str_id
        DBPointer_serialized_array_def dbpointer_valid_def ptr_bytes_def split: option.splits)

interpretation dbpointer: php_codec "dbpointer_valid B" "php_phongo_dbpointer_get_properties_hash True None"
    DBPointer_serialized_array "php_phongo_dbpointer_init_from_hash B"
  for B by (rule dbpointer_codec)

interpretation dbpointer_cmp: compare_handler php_phongo_dbpointer_compare_objects
    "\<lambda>s. (c_str (ptr_bytes (dbp_ref s)), c_str (dbp_id s))" "\<lambda>s. dbp_ref s \<noteq> None"
  by unfold_locales (auto simp: php_phongo_dbpointer_compare_objects_def c_strcmp_def three_way_def Let_def)

lemma dbpointer_clone: "dbpointer_valid B s \<Longrightarrow> php_phongo_dbpointer_clone_object B s = Some (Inr s)"
  using dbpointer_init_ok[of B s] by (auto simp: php_phongo_dbpointer_clone_object_def dbpointer_valid_def
      split: option.splits)

end
