(* ===== verification/Bson_Text.thy ===== *)
theory Bson_Text
  imports Bson_Oid "HOL-Library.Multiset"
begin

text \<open>
  \<^verbatim>\<open>Binary\<close>, \<^verbatim>\<open>Regex\<close>, \<^verbatim>\<open>Symbol\<close> and \<^verbatim>\<open>Decimal128\<close> (BSON/Binary.c, BSON/Regex.c, BSON/Symbol.c,
  BSON/Decimal128.c).  Regex flags are sorted with \<^verbatim>\<open>qsort\<close> by the value of \<^verbatim>\<open>char\<close>, which is
  signed on the platforms considered; libbson's decimal128 text conversions are parameters.
\<close>

section \<open>Binary\<close>

abbreviation binary_ce_name :: string where "binary_ce_name \<equiv> bson_ns ''Binary''"

definition php_phongo_binary_init ::
    "php_phongo_binary_t \<Rightarrow> string \<Rightarrow> nat \<Rightarrow> int \<Rightarrow> php_phongo_binary_t result" where
  "php_phongo_binary_init intern data data_len type =
     (if type < 0 \<or> type > 255 then
        Inl (phongo_throw_exception PHONGO_ERROR_INVALID_ARGUMENT
          (''Expected type to be an unsigned 8-bit integer, '' @ dec_of_int type @ '' given''))
      else if (type = 3 \<or> type = 4) \<and> data_len \<noteq> 16 then
        Inl (phongo_throw_exception PHONGO_ERROR_INVALID_ARGUMENT
          (''Expected UUID length to be 16 bytes, '' @ dec_of_nat data_len @ '' given''))
      else Inr (intern\<lparr>bin_data := Some data, bin_type := of_int type\<rparr>))"

definition php_phongo_binary_init_from_hash ::
    "ht \<Rightarrow> php_phongo_binary_t \<Rightarrow> php_phongo_binary_t result" where
  "php_phongo_binary_init_from_hash props intern =
     (case (hash_str_find props ''data'', hash_str_find props ''type'') of
        (Some (ZString data), Some (ZLong type)) \<Rightarrow>
          php_phongo_binary_init intern data (length data) type
      | _ \<Rightarrow> Inl (phongo_throw_exception PHONGO_ERROR_INVALID_ARGUMENT
          (binary_ce_name @ '' initialization requires '' @ CHR 0x22 # ''data'' @ CHR 0x22 # '' string and ''
           @ CHR 0x22 # ''type'' @ CHR 0x22 # '' integer fields'')))"

definition php_phongo_binary_get_properties_hash :: "bool \<Rightarrow> ht option \<Rightarrow> php_phongo_binary_t \<Rightarrow> ht" where
  "php_phongo_binary_get_properties_hash is_temp cached intern =
     (let props = get_property_hash_init_props is_temp cached
      in case bin_data intern of None \<Rightarrow> props
         | Some data \<Rightarrow> hash_str_update (hash_str_update props ''data'' (ZString data))
                          ''type'' (ZLong (uint (bin_type intern))))"

definition Binary___construct ::
    "string \<Rightarrow> int \<Rightarrow> php_phongo_binary_t \<Rightarrow> php_phongo_binary_t result" where
  "Binary___construct data type intern = php_phongo_binary_init intern data (length data) type"

definition php_phongo_binary_create_object :: php_phongo_binary_t where
  "php_phongo_binary_create_object = \<lparr>bin_data = None, bin_type = 0\<rparr>"

definition Binary___set_state :: "ht \<Rightarrow> php_phongo_binary_t result" where
  "Binary___set_state props = php_phongo_binary_init_from_hash props php_phongo_binary_create_object"

definition Binary___toString :: "php_phongo_binary_t \<Rightarrow> zval" where
  "Binary___toString intern = ZString (ptr_bytes (bin_data intern))"

definition Binary_getData :: "php_phongo_binary_t \<Rightarrow> zval" where
  "Binary_getData intern = ZString (ptr_bytes (bin_data intern))"

definition Binary_getType :: "php_phongo_binary_t \<Rightarrow> zval" where
  "Binary_getType intern = ZLong (uint (bin_type intern))"

text \<open>\<^verbatim>\<open>php_base64_encode\<close> of the PHP standard library.\<close>

definition base64_char :: "nat \<Rightarrow> char" where
  "base64_char n = (''ABCDEFGHIJKLMNOPQRSTUVWXYZabcdefghijklmnopqrstuvwxyz0123456789+/'' ! n)"

fun base64_encode :: "string \<Rightarrow> string" where
  "base64_encode [] = []"
| "base64_encode [a] = (let x = of_char a :: nat in
     [base64_char (x div 4), base64_char (x mod 4 * 16), CHR ''='', CHR ''=''])"
| "base64_encode [a, b] = (let x = of_char a :: nat; y = of_char b in
     [base64_char (x div 4), base64_char (x mod 4 * 16 + y div 16), base64_char (y mod 16 * 4), CHR ''=''])"
| "base64_encode (a # b # c # r) = (let x = of_char a :: nat; y = of_char b; z = of_char c in
     base64_char (x div 4) # base64_char (x mod 4 * 16 + y div 16) # base64_char (y mod 16 * 4 + z div 64)
       # base64_char (z mod 64) # base64_encode r)"

definition Binary_jsonSerialize :: "php_phongo_binary_t \<Rightarrow> zval" where
  "Binary_jsonSerialize intern =
     ZArray [(KStr ''$binary'', ZString (base64_encode (ptr_bytes (bin_data intern)))),
             (KStr ''$type'', ZString [hex_digit (unat (bin_type intern) div 16),
                                     hex_digit (unat (bin_type intern) mod 16)])]"

definition Binary_serialized_array :: "php_phongo_binary_t \<Rightarrow> ht" where
  "Binary_serialized_array intern =
     [(KStr ''data'', ZString (ptr_bytes (bin_data intern))), (KStr ''type'', ZLong (uint (bin_type intern)))]"

definition Binary_serialize :: "php_serializer \<Rightarrow> php_phongo_binary_t \<Rightarrow> string" where
  "Binary_serialize S intern = var_serialize S (ZArray (Binary_serialized_array intern))"

definition Binary_unserialize ::
    "php_serializer \<Rightarrow> string \<Rightarrow> php_phongo_binary_t \<Rightarrow> php_phongo_binary_t result option" where
  "Binary_unserialize S serialized intern =
     unserialize_with S binary_ce_name php_phongo_binary_init_from_hash serialized intern"

definition php_phongo_binary_clone_object :: "php_phongo_binary_t \<Rightarrow> php_phongo_binary_t result" where
  "php_phongo_binary_clone_object intern =
     php_phongo_binary_init php_phongo_binary_create_object (ptr_bytes (bin_data intern))
       (length (ptr_bytes (bin_data intern))) (uint (bin_type intern))"

definition php_phongo_binary_compare_objects :: "php_phongo_binary_t \<Rightarrow> php_phongo_binary_t \<Rightarrow> int" where
  "php_phongo_binary_compare_objects intern1 intern2 =
     (let d1 = ptr_bytes (bin_data intern1); d2 = ptr_bytes (bin_data intern2)
      in if length d1 \<noteq> length d2 then (if length d1 < length d2 then -1 else 1)
         else if bin_type intern1 \<noteq> bin_type intern2
         then (if bin_type intern1 < bin_type intern2 then -1 else 1)
         else three_way d1 d2)"

definition binary_valid :: "php_phongo_binary_t \<Rightarrow> bool" where
  "binary_valid s \<longleftrightarrow> (case bin_data s of None \<Rightarrow> False
     | Some d \<Rightarrow> bin_type s = 3 \<or> bin_type s = 4 \<longrightarrow> length d = 16)"

lemma uint8_range: "uint (w :: 8 word) \<le> 255" "0 \<le> uint w"
  using unsigned_less[of w, where ?'a = int] by simp_all

lemma uint8_eq_numeral: "uint (w :: 8 word) = 3 \<longleftrightarrow> w = 3" "uint w = 4 \<longleftrightarrow> w = 4"
  by (auto simp: word_uint_eq_iff)

lemma binary_init_ok:
  "binary_valid s \<Longrightarrow> bin_data s = Some d \<Longrightarrow>
     php_phongo_binary_init s0 d (length d) (uint (bin_type s)) = Inr s"
  using uint8_range[of "bin_type s"]
  by (cases s) (auto simp: binary_valid_def php_phongo_binary_init_def uint8_eq_numeral not_less not_le)

lemma binary_init_valid:
  "php_phongo_binary_init s0 d (length d) t = Inr s \<Longrightarrow>
     binary_valid s \<and> uint (bin_type s) = t \<and> bin_data s = Some d"
  by (auto simp: php_phongo_binary_init_def binary_valid_def word_uint_eq_iff uint_word_of_int
      split: if_splits)

lemma binary_codec:
  "php_codec binary_valid (php_phongo_binary_get_properties_hash True None)
     Binary_serialized_array php_phongo_binary_init_from_hash"
  by unfold_locales (auto simp: php_phongo_binary_get_properties_hash_def get_property_hash_init_props_def
      Binary_serialized_array_def php_phongo_binary_init_from_hash_def ptr_bytes_def binary_init_ok
      binary_valid_def[of "_ :: php_phongo_binary_t"] split: option.splits)

interpretation binary: php_codec binary_valid "php_phongo_binary_get_properties_hash True None"
    Binary_serialized_array php_phongo_binary_init_from_hash
  by (rule binary_codec)

interpretation binary_cmp: compare_handler php_phongo_binary_compare_objects
    "\<lambda>s. (length (ptr_bytes (bin_data s)), uint (bin_type s), ptr_bytes (bin_data s))" "\<lambda>_. True"
  by unfold_locales (auto simp: php_phongo_binary_compare_objects_def three_way_def Let_def word_less_def
      dest: injD[OF inj_unsigned])

lemma binary_clone: "binary_valid s \<Longrightarrow> php_phongo_binary_clone_object s = Inr s"
  using binary_init_ok by (auto simp: php_phongo_binary_clone_object_def ptr_bytes_def binary_valid_def
      split: option.splits)

section \<open>Regex\<close>

abbreviation regex_ce_name :: string where "regex_ce_name \<equiv> bson_ns ''Regex''"

text \<open>\<^verbatim>\<open>php_phongo_regex_compare_flags\<close> compares two \<^verbatim>\<open>char\<close> values, which are signed.\<close>

definition c_char_value :: "char \<Rightarrow> int" where
  "c_char_value c = (if (of_char c :: int) < 128 then of_char c else of_char c - 256)"

definition php_phongo_regex_compare_flags :: "char \<Rightarrow> char \<Rightarrow> int" where
  "php_phongo_regex_compare_flags f1 f2 =
     (if c_char_value f1 = c_char_value f2 then 0
      else if c_char_value f1 > c_char_value f2 then 1 else -1)"

text \<open>\<^verbatim>\<open>qsort\<close> with that comparison; bytes that compare equal are equal, so the result is unique.\<close>

fun flag_insert :: "char \<Rightarrow> string \<Rightarrow> string" where
  "flag_insert c [] = [c]"
| "flag_insert c (d # ds) = (if php_phongo_regex_compare_flags c d \<le> 0 then c # d # ds else d # flag_insert c ds)"

definition qsort_flags :: "string \<Rightarrow> string" where
  "qsort_flags s = foldr flag_insert s []"

text \<open>
  \<^verbatim>\<open>init\<close> stores the pattern before it checks the flags: on that error path the object
  keeps the new pattern.  The first component is the exception, if any.
\<close>

definition php_phongo_regex_init ::
    "php_phongo_regex_t \<Rightarrow> string \<Rightarrow> nat \<Rightarrow> string option \<Rightarrow> nat \<Rightarrow> exn option \<times> php_phongo_regex_t" where
  "php_phongo_regex_init intern pattern pattern_len flags flags_len =
     (if c_strlen pattern \<noteq> pattern_len then
        (Some (phongo_throw_exception PHONGO_ERROR_INVALID_ARGUMENT ''Pattern cannot contain null bytes''), intern)
      else let intern1 = intern\<lparr>re_pattern := Some pattern\<rparr> in
        (case flags of
           None \<Rightarrow> (None, intern1\<lparr>re_flags := Some []\<rparr>)
         | Some f \<Rightarrow>
            if c_strlen f \<noteq> flags_len then
              (Some (phongo_throw_exception PHONGO_ERROR_INVALID_ARGUMENT ''Flags cannot contain null bytes''), intern1)
            else (None, intern1\<lparr>re_flags := Some (qsort_flags f)\<rparr>)))"

definition php_phongo_regex_init_from_hash ::
    "ht \<Rightarrow> php_phongo_regex_t \<Rightarrow> exn option \<times> php_phongo_regex_t" where
  "php_phongo_regex_init_from_hash props intern =
     (case (hash_str_find props ''pattern'', hash_str_find props ''flags'') of
        (Some (ZString p), Some (ZString f)) \<Rightarrow>
          php_phongo_regex_init intern p (length p) (Some f) (length f)
      | _ \<Rightarrow> (Some (phongo_throw_exception PHONGO_ERROR_INVALID_ARGUMENT
          (regex_ce_name @ '' initialization requires '' @ CHR 0x22 # ''pattern'' @ CHR 0x22 # '' and ''
           @ CHR 0x22 # ''flags'' @ CHR 0x22 # '' string fields'')), intern))"

definition as_result :: "exn option \<times> 's \<Rightarrow> 's result" where
  "as_result r = (case fst r of Some e \<Rightarrow> Inl e | None \<Rightarrow> Inr (snd r))"

definition php_phongo_regex_get_properties_hash :: "bool \<Rightarrow> ht option \<Rightarrow> php_phongo_regex_t \<Rightarrow> ht" where
  "php_phongo_regex_get_properties_hash is_temp cached intern =
     (let props = get_property_hash_init_props is_temp cached
      in case re_pattern intern of None \<Rightarrow> props
         | Some p \<Rightarrow> hash_str_update (hash_str_update props ''pattern'' (ZString p))
                       ''flags'' (ZString (ptr_bytes (re_flags intern))))"

definition Regex___construct ::
    "string \<Rightarrow> string option \<Rightarrow> php_phongo_regex_t \<Rightarrow> exn option \<times> php_phongo_regex_t" where
  "Regex___construct pattern flags intern =
     php_phongo_regex_init intern pattern (length pattern) flags (length (ptr_bytes flags))"

definition Regex_getPattern :: "php_phongo_regex_t \<Rightarrow> zval" where
  "Regex_getPattern intern = ZString (ptr_bytes (re_pattern intern))"

definition Regex_getFlags :: "php_phongo_regex_t \<Rightarrow> zval" where
  "Regex_getFlags intern = ZString (ptr_bytes (re_flags intern))"

definition php_phongo_regex_create_object :: php_phongo_regex_t where
  "php_phongo_regex_create_object = \<lparr>re_pattern = None, re_flags = None\<rparr>"

definition Regex___set_state :: "ht \<Rightarrow> exn option \<times> php_phongo_regex_t" where
  "Regex___set_state props = php_phongo_regex_init_from_hash props php_phongo_regex_create_object"

definition Regex___toString :: "php_phongo_regex_t \<Rightarrow> zval" where
  "Regex___toString intern =
     ZString (''/'' @ print_ptr (re_pattern intern) @ ''/'' @ print_ptr (re_flags intern))"

definition Regex_jsonSerialize :: "php_phongo_regex_t \<Rightarrow> zval" where
  "Regex_jsonSerialize intern =
     ZArray [(KStr ''$regex'', ZString (ptr_bytes (re_pattern intern))),
             (KStr ''$options'', ZString (ptr_bytes (re_flags intern)))]"

definition Regex_serialized_array :: "php_phongo_regex_t \<Rightarrow> ht" where
  "Regex_serialized_array intern =
     [(KStr ''pattern'', ZString (ptr_bytes (re_pattern intern))),
      (KStr ''flags'', ZString (ptr_bytes (re_flags intern)))]"

definition Regex_serialize :: "php_serializer \<Rightarrow> php_phongo_regex_t \<Rightarrow> string" where
  "Regex_serialize S intern = var_serialize S (ZArray (Regex_serialized_array intern))"

definition Regex_unserialize ::
    "php_serializer \<Rightarrow> string \<Rightarrow> php_phongo_regex_t \<Rightarrow> php_phongo_regex_t result option" where
  "Regex_unserialize S serialized intern =
     unserialize_with S regex_ce_name (\<lambda>h i. as_result (php_phongo_regex_init_from_hash h i)) serialized intern"

text \<open>The clone measures the pattern with \<^verbatim>\<open>strlen\<close>: a null pointer (None) when it is not initialised.\<close>

definition php_phongo_regex_clone_object :: "php_phongo_regex_t \<Rightarrow> php_phongo_regex_t option" where
  "php_phongo_regex_clone_object intern =
     (case re_pattern intern of None \<Rightarrow> None
      | Some p \<Rightarrow> Some (snd (php_phongo_regex_init php_phongo_regex_create_object p (length p)
                               (re_flags intern) (length (ptr_bytes (re_flags intern))))))"

definition php_phongo_regex_compare_objects :: "php_phongo_regex_t \<Rightarrow> php_phongo_regex_t \<Rightarrow> int" where
  "php_phongo_regex_compare_objects intern1 intern2 =
     (let retval = c_strcmp (ptr_bytes (re_pattern intern1)) (ptr_bytes (re_pattern intern2))
      in if retval \<noteq> 0 then retval
         else c_strcmp (ptr_bytes (re_flags intern1)) (ptr_bytes (re_flags intern2)))"

definition regex_valid :: "php_phongo_regex_t \<Rightarrow> bool" where
  "regex_valid s \<longleftrightarrow> (case (re_pattern s, re_flags s) of
     (Some p, Some f) \<Rightarrow> CHR 0x00 \<notin> set p \<and> CHR 0x00 \<notin> set f \<and> sorted (map c_char_value f)
   | _ \<Rightarrow> False)"

lemma c_char_value_inj: "c_char_value c = c_char_value d \<Longrightarrow> c = d"
proof -
  assume eq: "c_char_value c = c_char_value d"
  have b: "(of_char x :: int) < 256" "0 \<le> (of_char x :: int)" for x :: char
    by (cases x; simp add: of_char_def horner_sum_simps)+
  show ?thesis using eq b[of c] b[of d] by (auto simp: c_char_value_def split: if_splits)
qed

lemma compare_flags_le: "php_phongo_regex_compare_flags c d \<le> 0 \<longleftrightarrow> c_char_value c \<le> c_char_value d"
  by (auto simp: php_phongo_regex_compare_flags_def)

lemma flag_insert_set: "set (flag_insert c s) = insert c (set s)"
  by (induction s) auto

lemma flag_insert_sorted: "sorted (map c_char_value s) \<Longrightarrow> sorted (map c_char_value (flag_insert c s))"
  by (induction s) (auto simp: compare_flags_le flag_insert_set)

lemma qsort_flags_sorted: "sorted (map c_char_value (qsort_flags s))"
  by (induction s) (auto simp: qsort_flags_def flag_insert_sorted)

lemma qsort_flags_set [simp]: "set (qsort_flags s) = set s"
  by (induction s) (auto simp: qsort_flags_def flag_insert_set)

lemma flag_insert_mset: "mset (flag_insert c s) = add_mset c (mset s)"
  by (induction s) auto

lemma qsort_flags_mset: "mset (qsort_flags s) = mset s"
  by (induction s) (auto simp: qsort_flags_def flag_insert_mset)

lemma flag_insert_min: "\<forall>d\<in>set s. c_char_value c \<le> c_char_value d \<Longrightarrow> flag_insert c s = c # s"
  by (cases s) (auto simp: compare_flags_le)

lemma qsort_flags_id: "sorted (map c_char_value s) \<Longrightarrow> qsort_flags s = s"
proof (induction s)
  case (Cons c s)
  then have "qsort_flags (c # s) = flag_insert c s" by (simp add: qsort_flags_def)
  then show ?case using Cons by (simp add: flag_insert_min)
qed (simp add: qsort_flags_def)

lemma regex_init_ok:
  "regex_valid s \<Longrightarrow> re_pattern s = Some p \<Longrightarrow> re_flags s = Some f \<Longrightarrow>
     php_phongo_regex_init s0 p (length p) (Some f) (length f) = (None, s)"
  by (cases s) (auto simp: regex_valid_def php_phongo_regex_init_def c_strlen_full_iff qsort_flags_id)

lemma regex_init_valid:
  "php_phongo_regex_init s0 p (length p) fo (length (ptr_bytes fo)) = (None, s) \<Longrightarrow> regex_valid s"
  by (auto simp: php_phongo_regex_init_def regex_valid_def Let_def c_strlen_full_iff qsort_flags_sorted ptr_bytes_def
      split: if_splits option.splits)

lemma regex_valid_fields:
  "regex_valid s \<Longrightarrow> \<exists>p f. re_pattern s = Some p \<and> re_flags s = Some f"
  by (auto simp: regex_valid_def split: option.splits prod.splits)

lemma regex_from_hash_ok:
  assumes "regex_valid s" and "hash_str_find h ''pattern'' = Some (ZString (ptr_bytes (re_pattern s)))"
    and "hash_str_find h ''flags'' = Some (ZString (ptr_bytes (re_flags s)))"
  shows "php_phongo_regex_init_from_hash h s0 = (None, s)"
proof -
  obtain p f where "re_pattern s = Some p" "re_flags s = Some f"
    using regex_valid_fields[OF assms(1)] by blast
  then show ?thesis using assms regex_init_ok[OF assms(1)]
    by (simp add: php_phongo_regex_init_from_hash_def ptr_bytes_def)
qed

lemma regex_props_fields:
  assumes "regex_valid s"
  shows "hash_str_find (php_phongo_regex_get_properties_hash True None s) ''pattern'' = Some (ZString (ptr_bytes (re_pattern s)))"
    and "hash_str_find (php_phongo_regex_get_properties_hash True None s) ''flags'' = Some (ZString (ptr_bytes (re_flags s)))"
  using regex_valid_fields[OF assms]
  by (auto simp: php_phongo_regex_get_properties_hash_def get_property_hash_init_props_def ptr_bytes_def)

lemma regex_codec:
  "php_codec regex_valid (php_phongo_regex_get_properties_hash True None)
     Regex_serialized_array (\<lambda>h s. as_result (php_phongo_regex_init_from_hash h s))"
  by unfold_locales (simp_all add: as_result_def regex_from_hash_ok regex_props_fields Regex_serialized_array_def)

interpretation regex: php_codec regex_valid "php_phongo_regex_get_properties_hash True None"
    Regex_serialized_array "\<lambda>h s. as_result (php_phongo_regex_init_from_hash h s)"
  by (rule regex_codec)

interpretation regex_cmp: compare_handler php_phongo_regex_compare_objects
    "\<lambda>s. (c_str (ptr_bytes (re_pattern s)), c_str (ptr_bytes (re_flags s)))" "\<lambda>s. re_pattern s \<noteq> None \<and> re_flags s \<noteq> None"
  by unfold_locales (auto simp: php_phongo_regex_compare_objects_def c_strcmp_def three_way_def Let_def)

lemma regex_clone: "regex_valid s \<Longrightarrow> php_phongo_regex_clone_object s = Some s"
  by (frule regex_valid_fields) (auto simp: php_phongo_regex_clone_object_def ptr_bytes_def regex_init_ok)

section \<open>Symbol\<close>

abbreviation symbol_ce_name :: string where "symbol_ce_name \<equiv> bson_ns ''Symbol''"

definition php_phongo_symbol_init ::
    "php_phongo_symbol_t \<Rightarrow> string \<Rightarrow> nat \<Rightarrow> php_phongo_symbol_t result" where
  "php_phongo_symbol_init intern symbol symbol_len =
     (if c_strlen symbol \<noteq> symbol_len then
        Inl (phongo_throw_exception PHONGO_ERROR_INVALID_ARGUMENT ''Symbol cannot contain null bytes'')
      else Inr (intern\<lparr>sym_symbol := Some symbol\<rparr>))"

definition php_phongo_symbol_init_from_hash ::
    "ht \<Rightarrow> php_phongo_symbol_t \<Rightarrow> php_phongo_symbol_t result" where
  "php_phongo_symbol_init_from_hash props intern =
     (case hash_str_find props ''symbol'' of
        Some (ZString s) \<Rightarrow> php_phongo_symbol_init intern s (length s)
      | _ \<Rightarrow> Inl (phongo_throw_exception PHONGO_ERROR_INVALID_ARGUMENT
          (symbol_ce_name @ '' initialization requires '' @ CHR 0x22 # ''symbol'' @ CHR 0x22 # '' string field'')))"

definition php_phongo_symbol_get_properties_hash :: "bool \<Rightarrow> ht option \<Rightarrow> php_phongo_symbol_t \<Rightarrow> ht" where
  "php_phongo_symbol_get_properties_hash is_temp cached intern =
     (let props = get_property_hash_init_props is_temp cached
      in case sym_symbol intern of None \<Rightarrow> props
         | Some s \<Rightarrow> hash_str_update props ''symbol'' (ZString (c_str s)))"

definition Symbol___toString :: "php_phongo_symbol_t \<Rightarrow> zval" where
  "Symbol___toString intern = ZString (ptr_bytes (sym_symbol intern))"

definition Symbol_jsonSerialize :: "php_phongo_symbol_t \<Rightarrow> zval" where
  "Symbol_jsonSerialize intern = ZArray [(KStr ''$symbol'', ZString (ptr_bytes (sym_symbol intern)))]"

definition Symbol_serialized_array :: "php_phongo_symbol_t \<Rightarrow> ht" where
  "Symbol_serialized_array intern = [(KStr ''symbol'', ZString (ptr_bytes (sym_symbol intern)))]"

definition Symbol_serialize :: "php_serializer \<Rightarrow> php_phongo_symbol_t \<Rightarrow> string" where
  "Symbol_serialize S intern = var_serialize S (ZArray (Symbol_serialized_array intern))"

definition Symbol_unserialize ::
    "php_serializer \<Rightarrow> string \<Rightarrow> php_phongo_symbol_t \<Rightarrow> php_phongo_symbol_t result option" where
  "Symbol_unserialize S serialized intern =
     unserialize_with S symbol_ce_name php_phongo_symbol_init_from_hash serialized intern"

definition php_phongo_symbol_create_object :: php_phongo_symbol_t where
  "php_phongo_symbol_create_object = \<lparr>sym_symbol = None\<rparr>"

definition php_phongo_symbol_clone_object :: "php_phongo_symbol_t \<Rightarrow> php_phongo_symbol_t result option" where
  "php_phongo_symbol_clone_object intern =
     (case sym_symbol intern of None \<Rightarrow> None
      | Some s \<Rightarrow> Some (php_phongo_symbol_init php_phongo_symbol_create_object s (length s)))"

definition php_phongo_symbol_compare_objects :: "php_phongo_symbol_t \<Rightarrow> php_phongo_symbol_t \<Rightarrow> int" where
  "php_phongo_symbol_compare_objects intern1 intern2 =
     c_strcmp (ptr_bytes (sym_symbol intern1)) (ptr_bytes (sym_symbol intern2))"

definition symbol_valid :: "php_phongo_symbol_t \<Rightarrow> bool" where
  "symbol_valid s \<longleftrightarrow> (case sym_symbol s of None \<Rightarrow> False | Some t \<Rightarrow> CHR 0x00 \<notin> set t)"

lemma symbol_from_hash_ok:
  "symbol_valid s \<Longrightarrow> hash_str_find h ''symbol'' = Some (ZString (ptr_bytes (sym_symbol s))) \<Longrightarrow>
     php_phongo_symbol_init_from_hash h s0 = Inr s"
  by (cases s) (auto simp: php_phongo_symbol_init_from_hash_def php_phongo_symbol_init_def symbol_valid_def
      ptr_bytes_def c_strlen_full_iff split: option.splits)

lemma symbol_codec:
  "php_codec symbol_valid (php_phongo_symbol_get_properties_hash True None)
     Symbol_serialized_array php_phongo_symbol_init_from_hash"
  by unfold_locales (auto intro!: symbol_from_hash_ok simp: php_phongo_symbol_get_properties_hash_def
      get_property_hash_init_props_def Symbol_serialized_array_def symbol_valid_def ptr_bytes_def c_str_id
      split: option.splits)

interpretation symbol: php_codec symbol_valid "php_phongo_symbol_get_properties_hash True None"
    Symbol_serialized_array php_phongo_symbol_init_from_hash
  by (rule symbol_codec)

interpretation symbol_cmp: compare_handler php_phongo_symbol_compare_objects
    "\<lambda>s. c_str (ptr_bytes (sym_symbol s))" "\<lambda>s. sym_symbol s \<noteq> None"
  by unfold_locales (simp add: php_phongo_symbol_compare_objects_def c_strcmp_def)

lemma symbol_clone: "symbol_valid s \<Longrightarrow> php_phongo_symbol_clone_object s = Some (Inr s)"
  by (cases s) (auto simp: php_phongo_symbol_clone_object_def php_phongo_symbol_init_def symbol_valid_def
      c_strlen_full_iff split: option.splits)

section \<open>Decimal128\<close>

abbreviation decimal128_ce_name :: string where "decimal128_ce_name \<equiv> bson_ns ''Decimal128''"

text \<open>
  libbson's text conversions: from a C string to the two halves, with failure, and back.
  On failure \<^verbatim>\<open>bson_decimal128_from_string\<close> has stored a NaN in the object; the flag stays.
\<close>

record decimal128_ops =
  bson_decimal128_from_string :: "string \<Rightarrow> bool \<times> (64 word \<times> 64 word)"
  bson_decimal128_to_string :: "64 word \<Rightarrow> 64 word \<Rightarrow> string"

definition php_phongo_decimal128_init ::
    "decimal128_ops \<Rightarrow> php_phongo_decimal128_t \<Rightarrow> string \<Rightarrow> exn option \<times> php_phongo_decimal128_t" where
  "php_phongo_decimal128_init D intern value =
     (let (ok, high, low) = bson_decimal128_from_string D (c_str value);
          intern1 = intern\<lparr>dec_high := high, dec_low := low\<rparr>
      in if \<not> ok then
           (Some (phongo_throw_exception PHONGO_ERROR_INVALID_ARGUMENT
              (''Error parsing Decimal128 string: '' @ c_str value)), intern1)
         else (None, intern1\<lparr>dec_initialized := True\<rparr>))"

definition php_phongo_decimal128_init_from_hash ::
    "decimal128_ops \<Rightarrow> ht \<Rightarrow> php_phongo_decimal128_t \<Rightarrow> exn option \<times> php_phongo_decimal128_t" where
  "php_phongo_decimal128_init_from_hash D props intern =
     (case hash_str_find props ''dec'' of
        Some (ZString s) \<Rightarrow> php_phongo_decimal128_init D intern s
      | _ \<Rightarrow> (Some (phongo_throw_exception PHONGO_ERROR_INVALID_ARGUMENT
          (decimal128_ce_name @ '' initialization requires '' @ CHR 0x22 # ''dec'' @ CHR 0x22 # '' string field'')), intern))"

definition php_phongo_decimal128_get_properties_hash ::
    "decimal128_ops \<Rightarrow> bool \<Rightarrow> ht option \<Rightarrow> php_phongo_decimal128_t \<Rightarrow> ht" where
  "php_phongo_decimal128_get_properties_hash D is_temp cached intern =
     (let props = get_property_hash_init_props is_temp cached
      in if \<not> dec_initialized intern then props
         else hash_str_update props ''dec''
                (ZString (bson_decimal128_to_string D (dec_high intern) (dec_low intern))))"

definition Decimal128___construct ::
    "decimal128_ops \<Rightarrow> string \<Rightarrow> php_phongo_decimal128_t \<Rightarrow> exn option \<times> php_phongo_decimal128_t" where
  "Decimal128___construct D value intern = php_phongo_decimal128_init D intern value"

definition php_phongo_decimal128_create_object :: php_phongo_decimal128_t where
  "php_phongo_decimal128_create_object = \<lparr>dec_initialized = False, dec_high = 0, dec_low = 0\<rparr>"

definition Decimal128___set_state :: "decimal128_ops \<Rightarrow> ht \<Rightarrow> exn option \<times> php_phongo_decimal128_t" where
  "Decimal128___set_state D props =
     php_phongo_decimal128_init_from_hash D props php_phongo_decimal128_create_object"

definition Decimal128___toString :: "decimal128_ops \<Rightarrow> php_phongo_decimal128_t \<Rightarrow> zval" where
  "Decimal128___toString D intern = ZString (bson_decimal128_to_string D (dec_high intern) (dec_low intern))"

definition Decimal128_jsonSerialize :: "decimal128_ops \<Rightarrow> php_phongo_decimal128_t \<Rightarrow> zval" where
  "Decimal128_jsonSerialize D intern =
     ZArray [(KStr ''$numberDecimal'', ZString (bson_decimal128_to_string D (dec_high intern) (dec_low intern)))]"

definition Decimal128_serialized_array :: "decimal128_ops \<Rightarrow> php_phongo_decimal128_t \<Rightarrow> ht" where
  "Decimal128_serialized_array D intern =
     [(KStr ''dec'', ZString (bson_decimal128_to_string D (dec_high intern) (dec_low intern)))]"

definition Decimal128_serialize ::
    "php_serializer \<Rightarrow> decimal128_ops \<Rightarrow> php_phongo_decimal128_t \<Rightarrow> string" where
  "Decimal128_serialize S D intern = var_serialize S (ZArray (Decimal128_serialized_array D intern))"

definition Decimal128_unserialize ::
    "php_serializer \<Rightarrow> decimal128_ops \<Rightarrow> string \<Rightarrow> php_phongo_decimal128_t \<Rightarrow> php_phongo_decimal128_t result option" where
  "Decimal128_unserialize S D serialized intern =
     unserialize_with S decimal128_ce_name
       (\<lambda>h i. as_result (php_phongo_decimal128_init_from_hash D h i)) serialized intern"

definition php_phongo_decimal128_clone_object :: "php_phongo_decimal128_t \<Rightarrow> php_phongo_decimal128_t" where
  "php_phongo_decimal128_clone_object intern =
     php_phongo_decimal128_create_object\<lparr>dec_high := dec_high intern, dec_low := dec_low intern,
       dec_initialized := True\<rparr>"

text \<open>
  Only values whose text libbson reads back unchanged round-trip through their property
  table (a NaN with a payload does not); that is part of the validity here.
\<close>

definition decimal128_valid :: "decimal128_ops \<Rightarrow> php_phongo_decimal128_t \<Rightarrow> bool" where
  "decimal128_valid D s \<longleftrightarrow> dec_initialized s
     \<and> (let t = bson_decimal128_to_string D (dec_high s) (dec_low s)
        in CHR 0x00 \<notin> set t \<and> bson_decimal128_from_string D t = (True, dec_high s, dec_low s))"

text \<open>
  A reference pair of conversions for witnesses: the 32 hexadecimal digits of the halves.
\<close>

definition word_bytes :: "64 word \<Rightarrow> string" where
  "word_bytes w = map (\<lambda>i. char_of (unat (drop_bit (8 * i) w) mod 256)) [7, 6, 5, 4, 3, 2, 1, 0]"

definition bytes_word :: "string \<Rightarrow> 64 word" where
  "bytes_word s = foldl (\<lambda>acc c. acc * 256 + of_nat (of_char c)) 0 s"

definition ref_decimal128_ops :: decimal128_ops where
  "ref_decimal128_ops = \<lparr>
     bson_decimal128_from_string = (\<lambda>s. (length s = 32 \<and> list_all (\<lambda>c. hex_value c < 16) s,
        bytes_word (take 8 (bytes_of_hex s)), bytes_word (drop 8 (bytes_of_hex s)))),
     bson_decimal128_to_string = (\<lambda>h l. hex_of_bytes (word_bytes h @ word_bytes l))\<rparr>"

lemma decimal128_from_hash_ok:
  "decimal128_valid D s \<Longrightarrow>
     hash_str_find h ''dec'' = Some (ZString (bson_decimal128_to_string D (dec_high s) (dec_low s))) \<Longrightarrow>
     php_phongo_decimal128_init_from_hash D h s0 = (None, s)"
  by (cases s) (simp add: php_phongo_decimal128_init_from_hash_def php_phongo_decimal128_init_def
      decimal128_valid_def Let_def c_str_id)

lemma decimal128_codec:
  "php_codec (decimal128_valid D) (php_phongo_decimal128_get_properties_hash D True None)
     (Decimal128_serialized_array D) (\<lambda>h s. as_result (php_phongo_decimal128_init_from_hash D h s))"
  by unfold_locales (auto simp: as_result_def Decimal128_serialized_array_def decimal128_from_hash_ok
      php_phongo_decimal128_get_properties_hash_def get_property_hash_init_props_def
      decimal128_valid_def[THEN iffD1, THEN conjunct1])

interpretation decimal128: php_codec "decimal128_valid D" "php_phongo_decimal128_get_properties_hash D True None"
    "Decimal128_serialized_array D" "\<lambda>h s. as_result (php_phongo_decimal128_init_from_hash D h s)"
  for D by (rule decimal128_codec)

lemma decimal128_clone: "dec_initialized s \<Longrightarrow> php_phongo_decimal128_clone_object s = s"
  by (cases s) (simp add: php_phongo_decimal128_clone_object_def php_phongo_decimal128_create_object_def)

end
