(* ===== verification/Bson_Encode.thy ===== *)
theory Bson_Encode
  imports Type_Map Bson_Datetime Bson_Text
begin

text \<open>
  Encoding PHP values to BSON (bson-encode.c), with the recursion protection of
  phongo\_compat.c.  A document being written is the list of elements appended so far.  The
  functions return it with the path builder and the exceptions raised (newest first): most
  errors do not stop the encoder, which goes on with the next element.  Arrays and objects
  that can be shared or cyclic live in a heap (\<^verbatim>\<open>ZAddr\<close>); the tables marked as being visited
  are a list of their addresses.  User code (\<^verbatim>\<open>bsonSerialize\<close>) may return new objects for
  ever, so the recursion takes fuel; None is no fuel left, a dangling address, a null
  pointer handed to libbson, or an unprintable path.
\<close>

section \<open>Environment\<close>

datatype heap_cell = CArray ht | CStd ht | CClass string ht

fun cell_zval :: "heap_cell \<Rightarrow> zval" where
  "cell_zval (CArray h) = ZArray h"
| "cell_zval (CStd h) = ZStd h"
| "cell_zval (CClass c h) = ZClass c h"

abbreviation serializable_ce :: string where "serializable_ce \<equiv> bson_ns ''Serializable''"
abbreviation type_ce :: string where "type_ce \<equiv> bson_ns ''Type''"

text \<open>
  From outside: the class table, libbson's ObjectId reader, UTF-8 check, regex options
  filter and code-with-scope writer, a generated ObjectId, the user's \<^verbatim>\<open>bsonSerialize\<close> (with
  the exception it raises; an undefined value then), the property tables of engine objects.
\<close>

record encode_env =
  ee_classes :: class_env
  ee_oid :: oid_ops
  ee_utf8_validate :: "string \<Rightarrow> bool"
  ee_regex_options :: "string \<Rightarrow> string"
  ee_code_with_scope :: "string \<Rightarrow> bdoc \<Rightarrow> bval"
  ee_generated_oid :: string
  ee_bsonSerialize :: "string \<Rightarrow> ht \<Rightarrow> zval \<times> exn option"
  ee_get_properties :: "zval \<Rightarrow> ht"
  ee_sizeof_zend_long :: nat

type_synonym heap = "heap_cell list"
type_synonym ectx = "(string \<times> bval) list \<times> php_phongo_field_path \<times> exn list"

definition heap_view :: "heap \<Rightarrow> zval \<Rightarrow> (nat option \<times> zval) option" where
  "heap_view H z = (case z of
     ZAddr a \<Rightarrow> if a < length H then Some (Some a, cell_zval (H ! a)) else None
   | _ \<Rightarrow> Some (None, z))"

section \<open>Recursion protection (phongo\_compat.c)\<close>

text \<open>
  A table at an address is protected while it is visited; a table that nothing else can
  reach needs no mark.  None: the table is being visited already.
\<close>

definition php_phongo_zend_hash_apply_protection_begin :: "nat option \<Rightarrow> nat list \<Rightarrow> nat list option" where
  "php_phongo_zend_hash_apply_protection_begin tbl prot =
     (case tbl of None \<Rightarrow> Some prot
      | Some a \<Rightarrow> if a \<in> set prot then None else Some (a # prot))"

definition php_phongo_zend_hash_apply_protection_end :: "nat option \<Rightarrow> nat list \<Rightarrow> nat list" where
  "php_phongo_zend_hash_apply_protection_end tbl prot =
     (case tbl of None \<Rightarrow> prot | Some a \<Rightarrow> remove1 a prot)"

lemma protection_begin_end:
  "php_phongo_zend_hash_apply_protection_begin tbl prot = Some prot' \<Longrightarrow>
     php_phongo_zend_hash_apply_protection_end tbl prot' = prot"
  by (auto simp: php_phongo_zend_hash_apply_protection_begin_def php_phongo_zend_hash_apply_protection_end_def
      split: option.splits if_splits)

section \<open>Values\<close>

text \<open>\<^verbatim>\<open>BSON_APPEND_INT\<close>.\<close>

definition bson_append_int :: "nat \<Rightarrow> int \<Rightarrow> bval" where
  "bson_append_int sizeof_zend_long val =
     (if sizeof_zend_long = 8 \<and> (val > 2147483647 \<or> val < - 2147483648) then BInt64 val else BInt32 val)"

text \<open>\<^verbatim>\<open>php_phongo_is_array_or_document\<close>: True for IS\_ARRAY.\<close>

fun keys_from :: "int \<Rightarrow> (hkey \<times> 'v) list \<Rightarrow> bool" where
  "keys_from idx [] = True"
| "keys_from idx ((KStr _, _) # h) = False"
| "keys_from idx ((KInt i, _) # h) = (i = idx \<and> keys_from (idx + 1) h)"

fun php_phongo_is_array_or_document :: "zval \<Rightarrow> bool" where
  "php_phongo_is_array_or_document (ZArray h) = keys_from 0 h"
| "php_phongo_is_array_or_document _ = False"

text \<open>The value appended for an instance of a BSON class; None hands libbson a null pointer.\<close>

fun bson_obj_value :: "encode_env \<Rightarrow> bson_obj \<Rightarrow> bval option" where
  "bson_obj_value E (OObjectId s) = Some (BOid (bson_oid_init_from_string (ee_oid E) (c_str (oid_oid s))))"
| "bson_obj_value E (OUTCDateTime s) = Some (BDateTime (udt_milliseconds s))"
| "bson_obj_value E (OBinary s) = map_option (BBinary (bin_type s)) (bin_data s)"
| "bson_obj_value E (ODecimal128 s) = Some (BDecimal128 (dec_high s) (dec_low s))"
| "bson_obj_value E (OInt64 s) = Some (BInt64 (i64_integer s))"
| "bson_obj_value E (ORegex s) = (case (re_pattern s, re_flags s) of
     (Some p, Some f) \<Rightarrow> Some (BRegex (c_str p) (ee_regex_options E (c_str f))) | _ \<Rightarrow> None)"
| "bson_obj_value E (OJavascript s) = (case (js_code s, js_scope s) of
     (Some c, Some d) \<Rightarrow> Some (ee_code_with_scope E (c_str c) d)
   | (Some c, None) \<Rightarrow> Some (BCode (c_str c)) | _ \<Rightarrow> None)"
| "bson_obj_value E (OTimestamp s) = Some (BTimestamp (ts_timestamp s) (ts_increment s))"
| "bson_obj_value E OMaxKey = Some BMaxKey"
| "bson_obj_value E OMinKey = Some BMinKey"
| "bson_obj_value E (ODBPointer s) = map_option
     (\<lambda>r. BDBPointer (c_str r) (bson_oid_init_from_string (ee_oid E) (dbp_id s))) (dbp_ref s)"
| "bson_obj_value E (OSymbol s) = map_option BSymbol (sym_symbol s)"
| "bson_obj_value E OUndefined = Some BUndefined"

definition class_instanceof :: "encode_env \<Rightarrow> zval \<Rightarrow> string \<Rightarrow> bool" where
  "class_instanceof E z i = (case z of ZClass c _ \<Rightarrow> ce_instanceof (ee_classes E) c i
     | ZBson _ \<Rightarrow> i = type_ce | ZStd _ \<Rightarrow> i = ''stdClass'' | _ \<Rightarrow> False)"

fun z_type_number :: "zval \<Rightarrow> nat" where
  "z_type_number ZUndef = 0"
| "z_type_number ZNull = 1"
| "z_type_number (ZBool b) = (if b then 3 else 2)"
| "z_type_number (ZLong _) = 4"
| "z_type_number (ZDouble _) = 5"
| "z_type_number (ZString _) = 6"
| "z_type_number (ZArray _) = 7"
| "z_type_number ZResource = 9"
| "z_type_number (ZRef _) = 10"
| "z_type_number _ = 8"

fun z_is_array :: "zval \<Rightarrow> bool" where
  "z_is_array (ZArray _) = True"
| "z_is_array _ = False"

fun z_is_string :: "zval \<Rightarrow> bool" where
  "z_is_string (ZString _) = True"
| "z_is_string _ = False"

fun z_string :: "zval \<Rightarrow> string" where
  "z_string (ZString s) = s"
| "z_string _ = []"

text \<open>The scalar cases of the switch in \<^verbatim>\<open>php_phongo_bson_append\<close>; None for the other types and for invalid UTF-8.\<close>

fun scalar_bval :: "encode_env \<Rightarrow> zval \<Rightarrow> bval option" where
  "scalar_bval E ZNull = Some BNull"
| "scalar_bval E (ZBool b) = Some (BBool b)"
| "scalar_bval E (ZLong i) = Some (bson_append_int (ee_sizeof_zend_long E) i)"
| "scalar_bval E (ZDouble d) = Some (BDouble d)"
| "scalar_bval E (ZString s) = (if ee_utf8_validate E s then Some (BUtf8 s) else None)"
| "scalar_bval E _ = None"

text \<open>Objects of the driver that \<^verbatim>\<open>php_phongo_bson_append_object\<close> writes as one value.\<close>

fun native_bval :: "encode_env \<Rightarrow> zval \<Rightarrow> bval option option" where
  "native_bval E (ZCursorId i) = Some (Some (BInt64 (cid_id i)))"
| "native_bval E (ZBson b) = Some (bson_obj_value E b)"
| "native_bval E _ = None"

section \<open>Error messages\<close>

definition utf8_exception :: "string \<Rightarrow> string \<Rightarrow> exn" where
  "utf8_exception path s = phongo_throw_exception PHONGO_ERROR_UNEXPECTED_VALUE
     (''Detected invalid UTF-8 for field path '' @ dquote path @ '': '' @ c_str s)"

definition recursion_exception :: "string \<Rightarrow> exn" where
  "recursion_exception path = phongo_throw_exception PHONGO_ERROR_UNEXPECTED_VALUE
     (''Detected recursion for field path '' @ dquote path)"

definition unsupported_exception :: "string \<Rightarrow> zval \<Rightarrow> exn" where
  "unsupported_exception path z = phongo_throw_exception PHONGO_ERROR_UNEXPECTED_VALUE
     (''Detected unsupported PHP type for field path '' @ dquote path @ '': '' @ dec_of_nat (z_type_number z)
      @ '' ('' @ zval_class_or_type_name z @ '')'')"

definition serialize_type_exception :: "zval \<Rightarrow> zval \<Rightarrow> exn" where
  "serialize_type_exception object obj_data = phongo_throw_exception PHONGO_ERROR_UNEXPECTED_VALUE
     (''Expected '' @ zval_class_or_type_name object @ ''::bsonSerialize() to return an array or stdClass, ''
      @ zval_class_or_type_name obj_data @ '' given'')"

definition null_byte_exception :: "string \<Rightarrow> exn" where
  "null_byte_exception key = phongo_throw_exception PHONGO_ERROR_UNEXPECTED_VALUE
     (''BSON keys cannot contain null bytes. Unexpected null byte after '' @ dquote (c_str key) @ ''.'')"

definition unexpected_type_exception :: "zval \<Rightarrow> exn" where
  "unexpected_type_exception object = phongo_throw_exception PHONGO_ERROR_UNEXPECTED_VALUE
     (''Unexpected '' @ type_ce @ '' instance: '' @ zval_class_or_type_name object)"

definition root_type_exception :: "zval \<Rightarrow> exn" where
  "root_type_exception data = phongo_throw_exception PHONGO_ERROR_UNEXPECTED_VALUE
     (type_ce @ '' instance '' @ zval_class_or_type_name data @ '' cannot be serialized as a root element'')"

text \<open>Raise an exception whose message holds the current path.\<close>

definition throw_with_path :: "(string \<Rightarrow> exn) \<Rightarrow> ectx \<Rightarrow> ectx option" where
  "throw_with_path mk c = (case c of (doc, fp, ex) \<Rightarrow>
     (case php_phongo_field_path_as_string (Some fp) of
        Inl _ \<Rightarrow> None | Inr path_string \<Rightarrow> Some (doc, fp, mk path_string # ex)))"

text \<open>The encoder moves \<^verbatim>\<open>size\<close> itself: it does not clear the entries it leaves.\<close>

definition fp_enter :: "php_phongo_field_path \<Rightarrow> php_phongo_bson_field_path_item_types \<Rightarrow> php_phongo_field_path" where
  "fp_enter fp t = (let fp1 = php_phongo_field_path_write_type_at_current_level fp t
                    in fp1\<lparr>fp_size := fp_size fp1 + 1\<rparr>)"

definition fp_leave :: "php_phongo_field_path \<Rightarrow> php_phongo_field_path" where
  "fp_leave fp = fp\<lparr>fp_size := fp_size fp - 1\<rparr>"

section \<open>The encoder\<close>

text \<open>
  What the loop of \<^verbatim>\<open>zval_to_bson_internal\<close> does with a bucket before it appends: skip it,
  stop at a null byte in a key, or go on with a key and the \<^verbatim>\<open>_id\<close> flag.
\<close>

datatype key_step = KeySkip | KeyStop exn | KeyAppend string bool

definition key_check :: "bool \<Rightarrow> bool \<Rightarrow> bool \<Rightarrow> hkey \<Rightarrow> key_step" where
  "key_check from_properties skip_odm add_id key = (case key of
     KInt i \<Rightarrow> KeyAppend (dec_of_int i) add_id
   | KStr s \<Rightarrow>
       if from_properties \<and> s \<noteq> [] \<and> hd s = CHR 0x00 then KeySkip
       else if c_strlen s \<noteq> length s then KeyStop (null_byte_exception s)
       else if skip_odm \<and> s = ''__pclass'' then KeySkip
       else KeyAppend s (add_id \<and> s \<noteq> ''_id''))"

text \<open>Where the elements of the data come from: nothing to do, or a table to loop over.\<close>

datatype data_source =
    SrcNone "exn list"
  | SrcTable ht bool bool "(string \<times> bval) list" "exn list"

definition pclass_element :: "zval \<Rightarrow> string \<times> bval" where
  "pclass_element object = (''__pclass'', BBinary 0x80 (zval_class_or_type_name object))"

text \<open>The engine calls no user method while an exception is pending: the result is then undefined.\<close>

definition call_bsonSerialize :: "encode_env \<Rightarrow> zval \<Rightarrow> exn list \<Rightarrow> zval \<times> exn list" where
  "call_bsonSerialize E object ex = (case object of
     ZClass c h \<Rightarrow> if ex \<noteq> [] then (ZUndef, ex) else (case ee_bsonSerialize E c h of (r, e) \<Rightarrow> (r, (case e of None \<Rightarrow> ex | Some x \<Rightarrow> x # ex)))
   | _ \<Rightarrow> (ZUndef, ex))"

definition array_or_stdclass :: "encode_env \<Rightarrow> zval \<Rightarrow> bool" where
  "array_or_stdclass E z = (case z of ZArray _ \<Rightarrow> True | _ \<Rightarrow> z_is_object z \<and> class_instanceof E z ''stdClass'')"

fun z_table :: "encode_env \<Rightarrow> zval \<Rightarrow> ht" where
  "z_table E (ZArray h) = h"
| "z_table E (ZStd h) = h"
| "z_table E (ZClass c h) = h"
| "z_table E z = ee_get_properties E z"

text \<open>The switch at the head of \<^verbatim>\<open>zval_to_bson_internal\<close>.\<close>

definition internal_source :: "encode_env \<Rightarrow> heap \<Rightarrow> zval \<Rightarrow> exn list \<Rightarrow> data_source option" where
  "internal_source E H data ex =
     (if z_is_object data then
        (if class_instanceof E data serializable_ce then
           (let (ret, ex1) = call_bsonSerialize E data ex in
            if ret = ZUndef then Some (SrcNone ex1)
            else (case heap_view H ret of None \<Rightarrow> None
                  | Some (_, obj_data) \<Rightarrow>
                     if \<not> array_or_stdclass E obj_data
                     then Some (SrcNone (serialize_type_exception data obj_data # ex1))
                     else if class_instanceof E data persistable_ce
                     then Some (SrcTable (z_table E obj_data) False True [pclass_element data] ex1)
                     else Some (SrcTable (z_table E obj_data) False False [] ex1)))
         else if class_instanceof E data type_ce then Some (SrcNone (root_type_exception data # ex))
         else Some (SrcTable (z_table E data) True False [] ex))
      else (case data of ZArray h \<Rightarrow> Some (SrcTable h False False [] ex) | _ \<Rightarrow> Some (SrcNone ex)))"

text \<open>
  \<^verbatim>\<open>enc_append\<close> is \<^verbatim>\<open>php_phongo_bson_append\<close>, \<^verbatim>\<open>enc_object\<close> is \<^verbatim>\<open>php_phongo_bson_append_object\<close>,
  \<^verbatim>\<open>enc_internal\<close> is \<^verbatim>\<open>php_phongo_zval_to_bson_internal\<close> up to the end of its loop
  \<^verbatim>\<open>enc_loop\<close>; the booleans of the latter two are whether an \<^verbatim>\<open>_id\<close> is still to be added
  and whether the end was reached.
\<close>

function (sequential)
      enc_append :: "nat \<Rightarrow> encode_env \<Rightarrow> heap \<Rightarrow> nat list \<Rightarrow> string \<Rightarrow> zval \<Rightarrow> ectx \<Rightarrow> ectx option"
  and enc_object :: "nat \<Rightarrow> encode_env \<Rightarrow> heap \<Rightarrow> nat list \<Rightarrow> string \<Rightarrow> zval \<Rightarrow> ectx \<Rightarrow> ectx option"
  and enc_internal :: "nat \<Rightarrow> encode_env \<Rightarrow> heap \<Rightarrow> nat list \<Rightarrow> bool \<Rightarrow> zval \<Rightarrow> ectx \<Rightarrow> (bool \<times> bool \<times> ectx) option"
  and enc_loop :: "nat \<Rightarrow> encode_env \<Rightarrow> heap \<Rightarrow> nat list \<Rightarrow> bool \<Rightarrow> bool \<Rightarrow> bool \<Rightarrow> ht \<Rightarrow> ectx \<Rightarrow> (bool \<times> bool \<times> ectx) option"
  where
  "enc_append 0 E H prot key entry c = None"
| "enc_append (Suc f) E H prot key entry (doc, fp0, ex) =
     (let fp = php_phongo_field_path_write_item_at_current_level fp0 key in
      case heap_view H (z_deref entry) of
        None \<Rightarrow> None
      | Some (tbl, z) \<Rightarrow>
         (case scalar_bval E z of
            Some v \<Rightarrow> Some (doc @ [(key, v)], fp, ex)
          | None \<Rightarrow>
            if z_is_string z then throw_with_path (\<lambda>p. utf8_exception p (z_string z)) (doc, fp, ex)
            else if php_phongo_is_array_or_document z then
              (case php_phongo_zend_hash_apply_protection_begin tbl prot of
                 None \<Rightarrow> throw_with_path recursion_exception (doc, fp, ex)
               | Some prot1 \<Rightarrow>
                  (case enc_internal f E H prot1 False z ([], fp_enter fp PHONGO_FIELD_PATH_ITEM_ARRAY, ex) of
                     None \<Rightarrow> None
                   | Some (_, _, child, fp1, ex1) \<Rightarrow>
                       Some (doc @ [(key, BArray (BDoc child DocOk))], fp_leave fp1, ex1)))
            else if z_is_object z \<or> z_is_array z then
              (case php_phongo_zend_hash_apply_protection_begin tbl prot of
                 None \<Rightarrow> throw_with_path recursion_exception (doc, fp, ex)
               | Some prot1 \<Rightarrow>
                  (case enc_object f E H prot1 key z (doc, fp_enter fp PHONGO_FIELD_PATH_ITEM_DOCUMENT, ex) of
                     None \<Rightarrow> None
                   | Some (doc1, fp1, ex1) \<Rightarrow> Some (doc1, fp_leave fp1, ex1)))
            else throw_with_path (\<lambda>p. unsupported_exception p z) (doc, fp, ex)))"
| "enc_object f E H prot key object (doc, fp, ex) =
     (case native_bval E object of
        Some r \<Rightarrow> map_option (\<lambda>v. (doc @ [(key, v)], fp, ex)) r
      | None \<Rightarrow>
        if z_is_object object \<and> class_instanceof E object type_ce then
          (if class_instanceof E object serializable_ce then
             (let (ret, ex1) = call_bsonSerialize E object ex in
              if ret = ZUndef then Some (doc, fp, ex1)
              else (case heap_view H ret of
                      None \<Rightarrow> None
                    | Some (_, obj_data) \<Rightarrow>
                       if \<not> array_or_stdclass E obj_data
                       then Some (doc, fp, serialize_type_exception object obj_data # ex1)
                       else if class_instanceof E object persistable_ce \<or> \<not> php_phongo_is_array_or_document obj_data
                       then (case enc_internal f E H prot False obj_data
                                    ((if class_instanceof E object persistable_ce then [pclass_element object] else []), fp, ex1) of
                               None \<Rightarrow> None
                             | Some (_, _, child, fp1, ex2) \<Rightarrow> Some (doc @ [(key, BDocument (BDoc child DocOk))], fp1, ex2))
                       else (case enc_internal f E H prot False obj_data ([], fp, ex1) of
                               None \<Rightarrow> None
                             | Some (_, _, child, fp1, ex2) \<Rightarrow> Some (doc @ [(key, BArray (BDoc child DocOk))], fp1, ex2))))
           else Some (doc, fp, unexpected_type_exception object # ex))
        else
          (case enc_internal f E H prot False object ([], fp, ex) of
             None \<Rightarrow> None
           | Some (_, _, child, fp1, ex1) \<Rightarrow> Some (doc @ [(key, BDocument (BDoc child DocOk))], fp1, ex1)))"
| "enc_internal f E H prot add_id data (doc, fp, ex) =
     (case internal_source E H data ex of
        None \<Rightarrow> None
      | Some (SrcNone ex1) \<Rightarrow> Some (add_id, False, doc, fp, ex1)
      | Some (SrcTable h from_properties skip_odm pre ex1) \<Rightarrow>
          enc_loop f E H prot from_properties skip_odm add_id h (doc @ pre, fp, ex1))"
| "enc_loop f E H prot from_properties skip_odm add_id [] c = Some (add_id, True, c)"
| "enc_loop f E H prot from_properties skip_odm add_id ((k, value) # h) (doc, fp, ex) =
     (case key_check from_properties skip_odm add_id k of
        KeySkip \<Rightarrow> enc_loop f E H prot from_properties skip_odm add_id h (doc, fp, ex)
      | KeyStop e \<Rightarrow> Some (add_id, False, doc, fp, e # ex)
      | KeyAppend key add_id1 \<Rightarrow>
          (case enc_append f E H prot key value (doc, fp, ex) of
             None \<Rightarrow> None
           | Some c1 \<Rightarrow> enc_loop f E H prot from_properties skip_odm add_id1 h c1))"
  by pat_completeness auto
termination
  by (relation "measures [
      case_sum (case_sum fst fst) (case_sum fst fst),
      case_sum (case_sum (\<lambda>_. 0) (\<lambda>_. 3)) (case_sum (\<lambda>_. 2) (\<lambda>_. 1)),
      case_sum (\<lambda>_. 0) (case_sum (\<lambda>_. 0) (\<lambda>(f, E, H, prot, a, b, c, h, ctx). length h))]") auto

section \<open>Entry points\<close>

definition find_elem :: "string \<Rightarrow> (string \<times> bval) list \<Rightarrow> bval option" where
  "find_elem k es = map_of es k"

text \<open>
  \<^verbatim>\<open>php_phongo_zval_to_bson\<close>: the document written, the document left in bson\_out (None when
  it is not assigned), and the exceptions.
\<close>

definition php_phongo_zval_to_bson ::
    "nat \<Rightarrow> encode_env \<Rightarrow> heap \<Rightarrow> bool \<Rightarrow> bool \<Rightarrow> zval \<Rightarrow> (string \<times> bval) list \<Rightarrow> exn list
       \<Rightarrow> ((string \<times> bval) list \<times> (string \<times> bval) list option \<times> exn list) option" where
  "php_phongo_zval_to_bson f E H add_id return_id data doc ex =
     (case heap_view H data of
        None \<Rightarrow> None
      | Some (_, z) \<Rightarrow>
         (case enc_internal f E H [] add_id z (doc, php_phongo_field_path_alloc, ex) of
            None \<Rightarrow> None
          | Some (add_id1, finished, doc1, _, ex1) \<Rightarrow>
             if \<not> finished then Some (doc1, None, ex1)
             else (let doc2 = (if add_id1 then doc1 @ [(''_id'', BOid (ee_generated_oid E))] else doc1)
                   in Some (doc2,
                            (if return_id then Some (case find_elem ''_id'' doc2 of None \<Rightarrow> [] | Some v \<Rightarrow> [(''_id'', v)])
                             else None),
                            ex1))))"

definition php_phongo_zval_to_bson_value ::
    "nat \<Rightarrow> encode_env \<Rightarrow> heap \<Rightarrow> bool \<Rightarrow> zval \<Rightarrow> exn list \<Rightarrow> (bval option \<times> exn list) option" where
  "php_phongo_zval_to_bson_value f E H add_id data ex =
     (case php_phongo_zval_to_bson f E H add_id False (ZArray [(KStr ''data'', data)]) [] ex of
        None \<Rightarrow> None
      | Some (doc, _, ex1) \<Rightarrow> Some (find_elem ''data'' doc, ex1))"

end
