(* ===== verification/Bson_Encode_Props.thy ===== *)
theory Bson_Encode_Props
  imports Bson_Encode
begin

text \<open>
  Properties of the encoder: it leaves the path builder as it found it, it never prints a
  path it may not read, the path in every error message is that of the element being
  encoded, every exception raised before is kept, and it returns on every heap of arrays and
  objects, cyclic or not, that calls no user code.
\<close>

section \<open>The path builder, as the encoder uses it\<close>

text \<open>The encoder leaves old names above the current level, so only the entries below are known.\<close>

definition fp_winv :: "php_phongo_field_path \<Rightarrow> bool" where
  "fp_winv fp \<longleftrightarrow>
     length (fp_elements fp) = fp_allocated_size fp
   \<and> length (fp_element_types fp) = fp_allocated_size fp
   \<and> fp_size fp \<le> fp_allocated_size fp
   \<and> list_all (\<lambda>e. e \<noteq> None) (take (fp_size fp) (fp_elements fp))"

lemma fp_winv_alloc [simp]: "fp_winv php_phongo_field_path_alloc"
  by (simp add: fp_winv_def php_phongo_field_path_alloc_def)

lemma ensure_weq:
  assumes "fp_winv fp"
  shows "php_phongo_field_path_ensure_allocation fp (fp_size fp) =
     (if fp_allocated_size fp = fp_size fp
      then fp\<lparr>fp_allocated_size := fp_size fp + 8,
              fp_elements := fp_elements fp @ replicate 8 None,
              fp_element_types := fp_element_types fp @ replicate 8 PHONGO_FIELD_PATH_ITEM_NONE\<rparr>
      else fp)"
  using assms by (simp add: php_phongo_field_path_ensure_allocation_def fp_winv_def field_path_expansion_def)

lemma write_item_winv:
  assumes "fp_winv fp"
  shows "fp_winv (php_phongo_field_path_write_item_at_current_level fp k)"
    and "fp_stack (php_phongo_field_path_write_item_at_current_level fp k) = fp_stack fp"
    and "fp_size fp < fp_allocated_size (php_phongo_field_path_write_item_at_current_level fp k)"
    and "fp_elements (php_phongo_field_path_write_item_at_current_level fp k) ! fp_size fp = Some k"
  using assms unfolding php_phongo_field_path_write_item_at_current_level_def ensure_weq[OF assms] Let_def
  by (auto simp: fp_winv_def fp_stack_def list_all_length nth_append)

definition fp_at :: "php_phongo_field_path \<Rightarrow> string list \<Rightarrow> string \<Rightarrow> bool" where
  "fp_at fp p k \<longleftrightarrow> fp_winv fp \<and> fp_stack fp = p \<and> fp_size fp < fp_allocated_size fp
     \<and> fp_elements fp ! fp_size fp = Some k"

lemma write_item_at: "fp_winv fp \<Longrightarrow> fp_at (php_phongo_field_path_write_item_at_current_level fp k) (fp_stack fp) k"
  using write_item_winv by (simp add: fp_at_def)

lemma take_stack: "fp_winv fp \<Longrightarrow> take (fp_size fp) (fp_elements fp) = map Some (fp_stack fp)"
  unfolding fp_stack_def fp_winv_def by (metis map_the_Some)

lemma at_take:
  "fp_at fp p k \<Longrightarrow> take (Suc (fp_size fp)) (fp_elements fp) = map Some (p @ [k])"
proof -
  assume a: "fp_at fp p k"
  then have "take (Suc (fp_size fp)) (fp_elements fp) = take (fp_size fp) (fp_elements fp) @ [Some k]"
    by (auto simp: fp_at_def fp_winv_def take_Suc_conv_app_nth)
  then show ?thesis using a take_stack[of fp] by (simp add: fp_at_def)
qed

lemma as_string_at:
  assumes "fp_at fp p k"
  shows "php_phongo_field_path_as_string (Some fp) = Inr (join_dots (p @ [k]))"
proof -
  have l: "fp_size fp < length (fp_elements fp)" using assms by (auto simp: fp_at_def fp_winv_def)
  have "concat (map (\<lambda>k. k @ ''.'') (p @ [k])) \<noteq> []" by simp
  then show ?thesis using at_take[OF assms] l butlast_concat_dots[of "p @ [k]"]
    by (auto simp: php_phongo_field_path_as_string_def field_path_copy_Some simp del: map_append)
qed

lemma enter_winv:
  assumes "fp_at fp p k"
  shows "fp_winv (fp_enter fp t)" and "fp_stack (fp_enter fp t) = p @ [k]"
proof -
  have e: "php_phongo_field_path_ensure_allocation fp (fp_size fp) = fp"
    using assms by (simp add: fp_at_def php_phongo_field_path_ensure_allocation_def)
  have tk: "take (Suc (fp_size fp)) (fp_elements fp) = map Some (p @ [k])" using at_take[OF assms] .
  show "fp_winv (fp_enter fp t)"
    using assms tk by (simp add: fp_enter_def php_phongo_field_path_write_type_at_current_level_def e Let_def
        fp_winv_def fp_at_def list_all_iff)
  show "fp_stack (fp_enter fp t) = p @ [k]"
    using tk by (simp add: fp_enter_def php_phongo_field_path_write_type_at_current_level_def e Let_def fp_stack_def)
qed

lemma leave_winv:
  assumes "fp_winv fp" and "fp_stack fp = p @ [k]"
  shows "fp_winv (fp_leave fp)" and "fp_stack (fp_leave fp) = p"
proof -
  have sz: "fp_size fp = Suc (length p)"
    using assms by (auto simp: fp_winv_def fp_stack_def dest!: arg_cong[where f = length])
  then show "fp_winv (fp_leave fp)"
    using assms(1) by (auto simp: fp_leave_def fp_winv_def list_all_length)
  have "take (length p) (fp_elements fp) = take (length p) (map Some (p @ [k]))"
    using take_stack[OF assms(1)] assms(2) sz by (metis lessI less_or_eq_imp_le min.absorb1 take_take)
  then show "fp_stack (fp_leave fp) = p"
    using sz by (simp add: fp_leave_def fp_stack_def map_idI)
qed

section \<open>Exceptions name the element being encoded\<close>

text \<open>Exceptions that may be raised while an element at path p, or something below it, is encoded.\<close>

inductive exn_at :: "encode_env \<Rightarrow> string list \<Rightarrow> exn \<Rightarrow> bool" for E where
  at_utf8: "\<not> ee_utf8_validate E s \<Longrightarrow> exn_at E p (utf8_exception (join_dots (p @ q)) s)"
| at_recursion: "exn_at E p (recursion_exception (join_dots (p @ q)))"
| at_unsupported: "exn_at E p (unsupported_exception (join_dots (p @ q)) z)"
| at_serialize: "exn_at E p (serialize_type_exception z z')"
| at_null: "exn_at E p (null_byte_exception s)"
| at_type: "exn_at E p (unexpected_type_exception z)"
| at_root: "exn_at E p (root_type_exception z)"
| at_user: "ee_bsonSerialize E c h = (r, Some x) \<Longrightarrow> exn_at E p x"

lemma exn_at_below: "exn_at E (p @ q) x \<Longrightarrow> exn_at E p x"
proof (induction "p @ q" x rule: exn_at.induct)
  case (at_utf8 s r)
  then show ?case using exn_at.at_utf8[of E s p "q @ r"] by simp
next
  case (at_recursion r)
  then show ?case using exn_at.at_recursion[of E p "q @ r"] by simp
next
  case (at_unsupported r z)
  then show ?case using exn_at.at_unsupported[of E p "q @ r" z] by simp
qed (auto intro: exn_at.intros)

definition raised :: "encode_env \<Rightarrow> string list \<Rightarrow> exn list \<Rightarrow> exn list \<Rightarrow> bool" where
  "raised E p ex ex' \<longleftrightarrow> (\<exists>new. ex' = new @ ex \<and> (\<forall>x \<in> set new. exn_at E p x))"

lemma raised_refl [simp, intro!]: "raised E p ex ex"
  by (auto simp: raised_def)

lemma raised_one: "exn_at E p x \<Longrightarrow> raised E p ex (x # ex)"
  by (auto simp: raised_def)

lemma raised_trans: "raised E p a b \<Longrightarrow> raised E p b c \<Longrightarrow> raised E p a c"
  by (auto simp: raised_def)

lemma raised_below: "raised E (p @ q) a b \<Longrightarrow> raised E p a b"
  using exn_at_below by (fastforce simp: raised_def)

lemma raised_call: "call_bsonSerialize E z ex = (r, ex1) \<Longrightarrow> raised E p ex ex1"
  by (auto simp: call_bsonSerialize_def split: zval.splits prod.splits option.splits if_splits intro!: raised_one at_user)

lemma internal_source_raised:
  "internal_source E H z ex = Some (SrcNone ex1) \<Longrightarrow> raised E p ex ex1"
  "internal_source E H z ex = Some (SrcTable h a b pre ex1) \<Longrightarrow> raised E p ex ex1"
  by (auto simp: internal_source_def split: if_splits prod.splits option.splits zval.splits
      dest!: raised_call[where p = p] intro: raised_one at_serialize at_root raised_trans)

text \<open>What a step of the encoder at path p does to the context: the document grows, the path is kept.\<close>

definition enc_step :: "encode_env \<Rightarrow> string list \<Rightarrow> ectx \<Rightarrow> ectx \<Rightarrow> bool" where
  "enc_step E p c c' \<longleftrightarrow> (case (c, c') of ((doc, fp, ex), (doc', fp', ex')) \<Rightarrow>
     fp_winv fp' \<and> fp_stack fp' = fp_stack fp \<and> raised E p ex ex' \<and> (\<exists>added. doc' = doc @ added))"

lemma enc_step_trans: "enc_step E p a b \<Longrightarrow> enc_step E p b c \<Longrightarrow> enc_step E p a c"
  by (auto simp: enc_step_def intro: raised_trans)

lemma enc_step_refl: "fp_winv fp \<Longrightarrow> enc_step E p (doc, fp, ex) (doc, fp, ex)"
  by (simp add: enc_step_def)

lemma enc_step_add: "fp_at fp p k \<Longrightarrow> enc_step E (p @ [k]) (doc, fp, ex) (doc @ d, fp, ex)"
  by (simp add: enc_step_def fp_at_def)

lemma throw_step:
  assumes "throw_with_path mk (doc, fp, ex) = Some c" and "fp_at fp p k"
    and "exn_at E (p @ [k]) (mk (join_dots (p @ [k])))"
  shows "enc_step E (p @ [k]) (doc, fp, ex) c"
  using assms as_string_at[OF assms(2)]
  by (auto simp: throw_with_path_def enc_step_def fp_at_def intro: raised_one)

text \<open>Stepping into the element and back.\<close>

lemma enc_step_nested:
  assumes "fp_at fp p k" and "enc_step E (p @ [k]) (d, fp_enter fp t, ex) (d', fp1, ex1)"
  shows "enc_step E (p @ [k]) (doc, fp, ex) (doc @ x, fp_leave fp1, ex1)"
  using assms enter_winv[OF assms(1), of t] leave_winv[of fp1 p k]
  by (auto simp: enc_step_def fp_at_def)

lemma enc_steps:
  "enc_append f E H prot key z c = Some c' \<Longrightarrow> fp_winv (fst (snd c)) \<Longrightarrow>
     enc_step E (fp_stack (fst (snd c)) @ [key]) c c'"
  "enc_object f E H prot key z c = Some c' \<Longrightarrow> fp_winv (fst (snd c)) \<Longrightarrow>
     enc_step E (fp_stack (fst (snd c))) c c'"
  "enc_internal f E H prot a z c = Some (b1, b2, c') \<Longrightarrow> fp_winv (fst (snd c)) \<Longrightarrow>
     enc_step E (fp_stack (fst (snd c))) c c'"
  "enc_loop f E H prot b0 b3 a h c = Some (b1, b2, c') \<Longrightarrow> fp_winv (fst (snd c)) \<Longrightarrow>
     enc_step E (fp_stack (fst (snd c))) c c'"
proof (induction f E H prot key z c and f E H prot key z c and f E H prot a z c and f E H prot b0 b3 a h c
    arbitrary: c' and c' and b1 b2 c' and b1 b2 c'
    rule: enc_append_enc_object_enc_internal_enc_loop.induct)
  case (2 f E H prot key entry doc fp0 ex)
  define fp where "fp = php_phongo_field_path_write_item_at_current_level fp0 key"
  let ?p = "fp_stack fp0"
  have at: "fp_at fp ?p key" using 2 by (simp add: fp_def write_item_at)
  obtain tbl z where hv: "heap_view H (z_deref entry) = Some (tbl, z)"
    using 2(3) by (auto simp: Let_def split: option.splits)
  have goal: "enc_step E (?p @ [key]) (doc, fp, ex) c' \<Longrightarrow> ?case"
    using at by (auto simp: enc_step_def fp_at_def)
  show ?case
  proof (cases "scalar_bval E z")
    case (Some v)
    then show ?thesis using 2(3) hv at by (intro goal) (auto simp: fp_def[symmetric] Let_def intro: enc_step_add)
  next
    case None
    note eqs = 2(3) hv None fp_def[symmetric] Let_def
    consider (str) "z_is_string z" | (blocked) "\<not> z_is_string z" "z_is_array z \<or> z_is_object z"
        "php_phongo_zend_hash_apply_protection_begin tbl prot = None"
      | (arr) prot1 where "\<not> z_is_string z" "php_phongo_is_array_or_document z"
        "php_phongo_zend_hash_apply_protection_begin tbl prot = Some prot1"
      | (obj) prot1 where "\<not> z_is_string z" "\<not> php_phongo_is_array_or_document z" "z_is_object z \<or> z_is_array z"
        "php_phongo_zend_hash_apply_protection_begin tbl prot = Some prot1"
      | (other) "\<not> z_is_string z" "\<not> php_phongo_is_array_or_document z" "\<not> z_is_object z" "\<not> z_is_array z"
      by (cases z; cases "php_phongo_zend_hash_apply_protection_begin tbl prot") (auto simp: php_phongo_is_array_or_document.simps)
    then show ?thesis
    proof cases
      case str
      have "\<not> ee_utf8_validate E (z_string z)" using None str by (cases z) (auto split: if_splits)
      then have "exn_at E (?p @ [key]) (utf8_exception (join_dots (?p @ [key])) (z_string z))"
        using at_utf8[of E "z_string z" "?p @ [key]" "[]"] by simp
      then show ?thesis using eqs str by (intro goal throw_step[OF _ at]) auto
    next
      case blocked
      have "exn_at E (?p @ [key]) (recursion_exception (join_dots (?p @ [key])))"
        using at_recursion[of E "?p @ [key]" "[]"] by simp
      then show ?thesis using eqs blocked by (intro goal throw_step[OF _ at]) (auto split: if_splits)
    next
      case other
      have "exn_at E (?p @ [key]) (unsupported_exception (join_dots (?p @ [key])) z)"
        using at_unsupported[of E "?p @ [key]" "[]"] by simp
      then show ?thesis using eqs other by (intro goal throw_step[OF _ at]) auto
    next
      case (arr prot1)
      let ?c = "([], fp_enter fp PHONGO_FIELD_PATH_ITEM_ARRAY, ex)"
      obtain x y child fp1 ex1 where i: "enc_internal f E H prot1 False z ?c = Some (x, y, child, fp1, ex1)"
        "c' = (doc @ [(key, BArray (BDoc child DocOk))], fp_leave fp1, ex1)"
        using eqs arr by (auto split: option.splits)
      have "enc_step E (?p @ [key]) ?c (child, fp1, ex1)"
        using 2(1)[OF fp_def hv refl None _ arr(2,3) i(1)] arr enter_winv[OF at, of PHONGO_FIELD_PATH_ITEM_ARRAY] by simp
      then show ?thesis using goal enc_step_nested[OF at] i(2) by blast
    next
      case (obj prot1)
      let ?c = "(doc, fp_enter fp PHONGO_FIELD_PATH_ITEM_DOCUMENT, ex)"
      obtain doc1 fp1 ex1 where i: "enc_object f E H prot1 key z ?c = Some (doc1, fp1, ex1)"
        "c' = (doc1, fp_leave fp1, ex1)"
        using eqs obj by (auto split: option.splits)
      have st: "enc_step E (?p @ [key]) ?c (doc1, fp1, ex1)"
        using 2(2)[OF fp_def hv refl None _ obj(2,3,4) i(1)] obj enter_winv[OF at, of PHONGO_FIELD_PATH_ITEM_DOCUMENT] by simp
      then obtain d where "doc1 = doc @ d" by (auto simp: enc_step_def)
      then show ?thesis using goal enc_step_nested[OF at st] i(2) by blast
    qed
  qed
next
  case (3 f E H prot key object doc fp ex)
  let ?p = "fp_stack fp"
  have w: "fp_winv fp" using 3 by simp
  have nest: "enc_step E ?p (d, fp, ex1) (child, fp1, ex2) \<Longrightarrow> raised E ?p ex ex1 \<Longrightarrow>
      enc_step E ?p (doc, fp, ex) (doc @ x, fp1, ex2)" for d child fp1 ex1 ex2 x
    by (auto simp: enc_step_def intro: raised_trans)
  have one: "raised E ?p ex ex1 \<Longrightarrow> enc_step E ?p (doc, fp, ex) (doc, fp, ex1)" for ex1
    using w by (auto simp: enc_step_def)
  show ?case
  proof (cases "native_bval E object")
    case (Some r)
    then show ?thesis using 3(4) w by (auto simp: enc_step_def)
  next
    case None
    show ?thesis
    proof (cases "z_is_object object \<and> class_instanceof E object type_ce")
      case False
      then obtain x y child fp1 ex1 where i: "enc_internal f E H prot False object ([], fp, ex) = Some (x, y, child, fp1, ex1)"
        "c' = (doc @ [(key, BDocument (BDoc child DocOk))], fp1, ex1)"
        using 3(4) None by (auto split: option.splits)
      have "enc_step E ?p ([], fp, ex) (child, fp1, ex1)" using 3(3)[OF None False i(1)] w by simp
      from nest[OF this raised_refl] show ?thesis using i(2) by simp
    next
      case True
      obtain ret ex1 where call: "call_bsonSerialize E object ex = (ret, ex1)" by fastforce
      have r1: "raised E ?p ex ex1" using raised_call[OF call] .
      show ?thesis
      proof (cases "class_instanceof E object serializable_ce")
        case False
        then show ?thesis using 3(4) None True by (auto intro!: one raised_one at_type)
      next
        case ser: True
        show ?thesis
        proof (cases "ret = ZUndef")
          case True
          then show ?thesis using 3(4) None \<open>z_is_object object \<and> _\<close> ser call one[OF r1] by simp
        next
          case nu: False
          obtain tb obj where hv: "heap_view H ret = Some (tb, obj)"
            using 3(4) None True ser call nu by (auto split: option.splits)
          show ?thesis
          proof (cases "array_or_stdclass E obj")
            case False
            then show ?thesis using 3(4) None True ser call nu hv
                one[OF raised_trans[OF r1 raised_one[OF at_serialize]]] by auto
          next
            case as: True
            let ?isdoc = "class_instanceof E object persistable_ce \<or> \<not> php_phongo_is_array_or_document obj"
            let ?pre = "if ?isdoc then (if class_instanceof E object persistable_ce then [pclass_element object] else []) else []"
            obtain x y child fp1 ex2 v where
              i: "enc_internal f E H prot False obj (?pre, fp, ex1) = Some (x, y, child, fp1, ex2)"
              "c' = (doc @ [(key, v)], fp1, ex2)"
              using 3(4) None True ser call nu hv as by (cases ?isdoc) (auto split: option.splits)
            have "enc_step E ?p (?pre, fp, ex1) (child, fp1, ex2)"
              using 3(1)[OF None True ser call[symmetric] refl nu hv refl _ _, of x y "(child, fp1, ex2)"]
                3(2)[OF None True ser call[symmetric] refl nu hv refl _ _, of x y "(child, fp1, ex2)"] i(1) w as
              by (cases ?isdoc) auto
            from nest[OF this r1] show ?thesis using i(2) by simp
          qed
        qed
      qed
    qed
  qed
next
  case (4 f E H prot add_id data doc fp ex)
  show ?case
  proof (cases "internal_source E H data ex")
    case None
    then show ?thesis using 4 by simp
  next
    case (Some src)
    show ?thesis
    proof (cases src)
      case (SrcNone ex1)
      then show ?thesis using 4 Some internal_source_raised(1)[of E H data ex ex1] by (auto simp: enc_step_def)
    next
      case (SrcTable h a b pre ex1)
      then have "enc_step E (fp_stack fp) (doc @ pre, fp, ex1) c'"
        using 4 Some by simp
      then show ?thesis using internal_source_raised(2)[of E H data ex h a b pre ex1 "fp_stack fp"] Some SrcTable
        by (auto simp: enc_step_def intro: raised_trans)
    qed
  qed
next
  case (6 f E H prot fpr so a k v h doc fp ex)
  show ?case
  proof (cases "key_check fpr so a k")
    case KeySkip
    then show ?thesis using 6 by simp
  next
    case (KeyStop e)
    then have "exn_at E (fp_stack fp) e"
      by (auto simp: key_check_def split: hkey.splits if_splits intro: at_null)
    then show ?thesis using 6 KeyStop by (auto simp: enc_step_def intro: raised_one)
  next
    case (KeyAppend key a1)
    then obtain c1 where c1: "enc_append f E H prot key v (doc, fp, ex) = Some c1"
      using 6 by (auto split: option.splits)
    have "enc_step E (fp_stack fp @ [key]) (doc, fp, ex) c1"
      using "6.IH"(2)[OF KeyAppend c1] "6.prems"(2) by simp
    then have s1: "enc_step E (fp_stack fp) (doc, fp, ex) c1"
      by (auto simp: enc_step_def intro: raised_below)
    then have "fp_winv (fst (snd c1))" "fp_stack (fst (snd c1)) = fp_stack fp"
      by (auto simp: enc_step_def split: prod.splits)
    then have "enc_step E (fp_stack fp) c1 c'"
      using "6.IH"(3)[OF KeyAppend c1] 6 c1 KeyAppend by simp
    then show ?thesis using enc_step_trans[OF s1] by simp
  qed
qed (auto simp: enc_step_def split: prod.splits)

section \<open>The encoder returns\<close>

text \<open>
  Values whose encoding calls no user code and hands libbson no null pointer; every address
  points into the heap.
\<close>

fun encodable :: "encode_env \<Rightarrow> heap \<Rightarrow> zval \<Rightarrow> bool"
  and encodable_buckets :: "encode_env \<Rightarrow> heap \<Rightarrow> (hkey \<times> zval) list \<Rightarrow> bool" where
  "encodable E H (ZArray h) = encodable_buckets E H h"
| "encodable E H (ZStd h) = encodable_buckets E H h"
| "encodable E H (ZClass c h) = (\<not> ce_instanceof (ee_classes E) c serializable_ce \<and> encodable_buckets E H h)"
| "encodable E H (ZBson b) = (bson_obj_value E b \<noteq> None)"
| "encodable E H (ZDate s u) = False"
| "encodable E H (ZRef z) = encodable E H z"
| "encodable E H (ZAddr a) = (a < length H)"
| "encodable E H _ = True"
| "encodable_buckets E H [] = True"
| "encodable_buckets E H ((k, v) # h) = (encodable E H v \<and> encodable_buckets E H h)"

definition heap_ok :: "encode_env \<Rightarrow> heap \<Rightarrow> bool" where
  "heap_ok E H \<longleftrightarrow> list_all (\<lambda>c. encodable E H (cell_zval c)) H"

fun zdepth :: "zval \<Rightarrow> nat" and bdepth :: "(hkey \<times> zval) list \<Rightarrow> nat" where
  "zdepth (ZArray h) = Suc (bdepth h)"
| "zdepth (ZStd h) = Suc (bdepth h)"
| "zdepth (ZClass c h) = Suc (bdepth h)"
| "zdepth (ZRef z) = zdepth z"
| "zdepth _ = 0"
| "bdepth [] = 0"
| "bdepth ((k, v) # h) = max (zdepth v) (bdepth h)"

definition heap_depth :: "heap \<Rightarrow> nat" where
  "heap_depth H = foldr (\<lambda>c m. max (zdepth (cell_zval c)) m) H 0"

text \<open>Fuel for the addresses that are not being visited, and for a value.\<close>

definition addr_fuel :: "heap \<Rightarrow> nat list \<Rightarrow> nat" where
  "addr_fuel H prot = card ({..<length H} - set prot) * Suc (heap_depth H)"

definition enc_fuel :: "heap \<Rightarrow> zval \<Rightarrow> nat" where
  "enc_fuel H z = Suc (Suc (zdepth z)) + Suc (length H) * Suc (heap_depth H)"

lemma encodable_deref: "encodable E H (z_deref z) = encodable E H z" "zdepth (z_deref z) = zdepth z"
  by (induction z rule: z_deref.induct) auto

lemma heap_depth_cell: "a < length H \<Longrightarrow> zdepth (cell_zval (H ! a)) \<le> heap_depth H"
proof (induction H arbitrary: a)
  case (Cons c H)
  then show ?case by (cases a) (auto simp: heap_depth_def intro: le_max_iff_disj[THEN iffD2])
qed simp

lemma addr_fuel_step:
  assumes "a < length H" and "a \<notin> set prot"
  shows "addr_fuel H prot = addr_fuel H (a # prot) + Suc (heap_depth H)"
proof -
  have "{..<length H} - set (a # prot) = ({..<length H} - set prot) - {a}" by auto
  then have "card ({..<length H} - set prot) = Suc (card ({..<length H} - set (a # prot)))"
    using assms by (metis Diff_iff card.remove finite_Diff finite_lessThan lessThan_iff)
  then show ?thesis by (simp add: addr_fuel_def)
qed

text \<open>A step into a protected table has fuel for the table's elements.\<close>

definition kids_depth :: "zval \<Rightarrow> nat" where
  "kids_depth z = (case z of ZArray h \<Rightarrow> bdepth h | ZStd h \<Rightarrow> bdepth h | ZClass c h \<Rightarrow> bdepth h | _ \<Rightarrow> 0)"

fun has_table :: "zval \<Rightarrow> bool" where
  "has_table (ZArray _) = True"
| "has_table (ZStd _) = True"
| "has_table (ZClass _ _) = True"
| "has_table _ = False"

lemma zdepth_table: "has_table z \<Longrightarrow> zdepth z = Suc (kids_depth z)"
  by (cases z) (auto simp: kids_depth_def)

lemma heap_view_None: "heap_view H z = Some (None, z') \<Longrightarrow> z' = z"
  by (auto simp: heap_view_def split: zval.splits if_splits)

lemma heap_view_Some: "heap_view H z = Some (Some a, z') \<Longrightarrow> z = ZAddr a \<and> a < length H \<and> z' = cell_zval (H ! a)"
  by (auto simp: heap_view_def split: zval.splits if_splits)

lemma enter_fuel:
  assumes "heap_view H (z_deref entry) = Some (tbl, z)" and "zdepth entry + addr_fuel H prot < Suc f"
    and "php_phongo_zend_hash_apply_protection_begin tbl prot = Some prot1" and "has_table z"
  shows "kids_depth z + addr_fuel H prot1 < f"
proof (cases tbl)
  case None
  then have z: "z = z_deref entry" "prot1 = prot"
    using heap_view_None[of H "z_deref entry" z] assms(1,3)
    by (auto simp: php_phongo_zend_hash_apply_protection_begin_def)
  then show ?thesis using assms(2) zdepth_table[OF assms(4)] encodable_deref(2)[of entry] by simp
next
  case (Some a)
  then have a: "a < length H" "z = cell_zval (H ! a)" "a \<notin> set prot" "prot1 = a # prot"
    using heap_view_Some[of H "z_deref entry" a z] assms(1,3)
    by (auto simp: php_phongo_zend_hash_apply_protection_begin_def split: if_splits)
  then have "kids_depth z < Suc (heap_depth H)"
    using heap_depth_cell[OF a(1)] zdepth_table[OF assms(4)] by simp
  then show ?thesis using assms(2) addr_fuel_step[OF a(1,3)] a(4) by simp
qed

lemma heap_view_encodable:
  assumes "heap_ok E H" and "encodable E H entry"
  shows "\<exists>tbl z. heap_view H (z_deref entry) = Some (tbl, z) \<and> encodable E H z \<and> (\<forall>a. z \<noteq> ZAddr a) \<and> (\<forall>r. z \<noteq> ZRef r)"
proof -
  have d: "encodable E H (z_deref entry)" "\<forall>r. z_deref entry \<noteq> ZRef r"
    using assms(2) encodable_deref(1) by (blast, induction entry rule: z_deref.induct) auto
  show ?thesis
  proof (cases "z_deref entry")
    case (ZAddr a)
    then have "a < length H" using d(1) by simp
    moreover have "encodable E H (cell_zval (H ! a))" using assms(1) \<open>a < length H\<close> by (simp add: heap_ok_def list_all_length)
    moreover have "cell_zval (H ! a) \<noteq> ZAddr b" "cell_zval (H ! a) \<noteq> ZRef r" for b r by (cases "H ! a"; simp)+
    ultimately show ?thesis using ZAddr by (auto simp: heap_view_def)
  qed (use d in \<open>auto simp: heap_view_def\<close>)
qed

lemma throw_ok: "fp_at fp p k \<Longrightarrow> \<exists>c. throw_with_path mk (doc, fp, ex) = Some c"
  by (simp add: throw_with_path_def as_string_at)

lemma encodable_not_serializable:
  "encodable E H z \<Longrightarrow> \<not> class_instanceof E z serializable_ce"
  by (cases z) (auto simp: class_instanceof_def bson_ns_def)

lemma source_encodable:
  assumes "encodable E H z"
  shows "(\<exists>ex1. internal_source E H z ex = Some (SrcNone ex1))
       \<or> (\<exists>h b. internal_source E H z ex = Some (SrcTable h b False [] ex) \<and> encodable_buckets E H h \<and> bdepth h = kids_depth z)
       \<or> (\<exists>i. z = ZCursorId i)"
  using assms encodable_not_serializable[OF assms]
  by (cases z) (auto simp: internal_source_def kids_depth_def class_instanceof_def[of _ "ZBson _"])

lemma table_of_compound:
  "encodable E H z \<Longrightarrow> native_bval E z = None \<Longrightarrow>
     php_phongo_is_array_or_document z \<or> z_is_object z \<or> z_is_array z \<Longrightarrow> has_table z"
  by (cases z) auto

lemma native_encodable:
  "encodable E H z \<Longrightarrow> native_bval E z = Some r \<Longrightarrow> r \<noteq> None"
  by (cases z) auto

lemma enc_total:
  "heap_ok E H \<Longrightarrow> encodable E H z \<Longrightarrow> zdepth z + addr_fuel H prot < f \<Longrightarrow> fp_winv (fst (snd c)) \<Longrightarrow>
     \<exists>c'. enc_append f E H prot key z c = Some c'"
  "heap_ok E H \<Longrightarrow> encodable E H z \<Longrightarrow> z_is_object z \<or> z_is_array z \<Longrightarrow>
     native_bval E z = None \<longrightarrow> kids_depth z + addr_fuel H prot < f \<Longrightarrow> fp_winv (fst (snd c)) \<Longrightarrow>
     \<exists>c'. enc_object f E H prot key z c = Some c'"
  "heap_ok E H \<Longrightarrow> encodable E H z \<Longrightarrow> has_table z \<Longrightarrow> kids_depth z + addr_fuel H prot < f \<Longrightarrow>
     fp_winv (fst (snd c)) \<Longrightarrow> \<exists>c'. enc_internal f E H prot a z c = Some c'"
  "heap_ok E H \<Longrightarrow> encodable_buckets E H h \<Longrightarrow> bdepth h + addr_fuel H prot < f \<Longrightarrow>
     fp_winv (fst (snd c)) \<Longrightarrow> \<exists>c'. enc_loop f E H prot b0 b3 a h c = Some c'"
proof (induction f E H prot key z c and f E H prot key z c and f E H prot a z c and f E H prot b0 b3 a h c
    rule: enc_append_enc_object_enc_internal_enc_loop.induct)
  case (2 f E H prot key entry doc fp0 ex)
  define fp where "fp = php_phongo_field_path_write_item_at_current_level fp0 key"
  let ?p = "fp_stack fp0"
  have at: "fp_at fp ?p key" using 2 by (simp add: fp_def write_item_at)
  obtain tbl z where hv: "heap_view H (z_deref entry) = Some (tbl, z)" and z: "encodable E H z"
    using heap_view_encodable[OF 2(3,4)] by blast
  note throw = throw_ok[OF at]
  show ?case
  proof (cases "scalar_bval E z = None \<and> \<not> z_is_string z \<and> (php_phongo_is_array_or_document z \<or> z_is_object z \<or> z_is_array z)
      \<and> php_phongo_zend_hash_apply_protection_begin tbl prot \<noteq> None")
    case False
    then show ?thesis using hv throw
      by (auto simp: Let_def fp_def[symmetric] split: option.splits)
  next
    case True
    then obtain prot1 where p1: "php_phongo_zend_hash_apply_protection_begin tbl prot = Some prot1" by blast
    note fuel = enter_fuel[OF hv 2(5) p1]
    show ?thesis
    proof (cases "php_phongo_is_array_or_document z")
      case arr: True
      then have ht: "has_table z" by (cases z) auto
      let ?c = "([], fp_enter fp PHONGO_FIELD_PATH_ITEM_ARRAY, ex)"
      have "\<exists>c'. enc_internal f E H prot1 False z ?c = Some c'"
        using 2(1)[OF fp_def hv refl _ _ arr p1] 2(3) z ht fuel[OF ht] True
          enter_winv[OF at, of PHONGO_FIELD_PATH_ITEM_ARRAY] by simp
      then show ?thesis using hv True p1 arr
        by (auto simp: Let_def fp_def[symmetric] simp del: enc_object.simps enc_internal.simps split: option.splits)
    next
      case na: False
      let ?c = "(doc, fp_enter fp PHONGO_FIELD_PATH_ITEM_DOCUMENT, ex)"
      have oa: "z_is_object z \<or> z_is_array z" using True na by blast
      have "\<exists>c'. enc_object f E H prot1 key z ?c = Some c'"
        using 2(2)[OF fp_def hv refl _ _ na oa p1] 2(3) z oa fuel table_of_compound[OF z] True
          enter_winv[OF at, of PHONGO_FIELD_PATH_ITEM_DOCUMENT] by simp
      then show ?thesis using hv True p1 na
        by (auto simp: Let_def fp_def[symmetric] simp del: enc_object.simps enc_internal.simps split: option.splits)
    qed
  qed
next
  case (3 f E H prot key object doc fp ex)
  show ?case
  proof (cases "native_bval E object")
    case (Some r)
    then show ?thesis using native_encodable[OF 3(5) Some] by auto
  next
    case None
    have ns: "\<not> class_instanceof E object serializable_ce" using encodable_not_serializable 3(5) by blast
    show ?thesis
    proof (cases "z_is_object object \<and> class_instanceof E object type_ce")
      case True
      then show ?thesis using None ns by simp
    next
      case False
      have "has_table object" using table_of_compound[OF 3(5) None] 3(6) by blast
      then have "\<exists>c'. enc_internal f E H prot False object ([], fp, ex) = Some c'"
        using 3(3)[OF None False] 3(4-) None by simp
      then show ?thesis using None False by (auto simp del: enc_internal.simps split: option.splits)
    qed
  qed
next
  case (4 f E H prot add_id data doc fp ex)
  have "\<not> (\<exists>i. data = ZCursorId i)" using 4(4) by auto
  then consider ex1 where "internal_source E H data ex = Some (SrcNone ex1)"
    | h b where "internal_source E H data ex = Some (SrcTable h b False [] ex)" "encodable_buckets E H h" "bdepth h = kids_depth data"
    using source_encodable[OF 4(3), of ex] by blast
  then show ?case
  proof cases
    case 2
    then show ?thesis using 4(1)[OF 2(1) refl] 4 by simp
  next
    case (1 ex1)
    then have "enc_internal f E H prot add_id data (doc, fp, ex) = Some (add_id, False, doc, fp, ex1)" by simp
    then show ?thesis by blast
  qed
next
  case (6 f E H prot fpr so a k v h doc fp ex)
  have fuel: "zdepth v + addr_fuel H prot < f" "bdepth h + addr_fuel H prot < f"
    using "6.prems"(3) by (auto simp: max_def split: if_splits)
  show ?case
  proof (cases "key_check fpr so a k")
    case KeySkip
    then show ?thesis using "6.IH"(1) "6.prems" fuel by simp
  next
    case (KeyAppend key a1)
    obtain c1 where c1: "enc_append f E H prot key v (doc, fp, ex) = Some c1"
      using "6.IH"(2)[OF KeyAppend] "6.prems" fuel by auto
    have "fp_winv (fst (snd c1))"
      using enc_steps(1)[OF c1] "6.prems" by (auto simp: enc_step_def split: prod.splits)
    then show ?thesis using "6.IH"(3)[OF KeyAppend c1] "6.prems" fuel c1 KeyAppend by simp
  next
    case (KeyStop e)
    then have "enc_loop f E H prot fpr so a ((k, v) # h) (doc, fp, ex) = Some (a, False, doc, fp, e # ex)" by simp
    then show ?thesis by blast
  qed
qed auto

section \<open>The entry point\<close>

lemma source_no_table:
  assumes "encodable E H z" and "\<not> has_table z" and "\<forall>i. z \<noteq> ZCursorId i"
  shows "\<exists>ex1. internal_source E H z ex = Some (SrcNone ex1)"
proof (cases z)
  case (ZBson b)
  then show ?thesis by (simp add: internal_source_def class_instanceof_def bson_ns_def)
qed (use assms in \<open>simp_all add: internal_source_def\<close>)

lemma internal_no_table:
  assumes "encodable E H z" and "\<not> has_table z" and "\<forall>i. z \<noteq> ZCursorId i"
  shows "\<exists>r. enc_internal f E H prot a z (doc, fp, ex) = Some r"
  using source_no_table[OF assms, of ex] by auto

lemma zval_to_bson_total:
  assumes "heap_ok E H" and "encodable E H z" and "\<forall>r. z \<noteq> ZRef r" and "\<forall>i. z \<noteq> ZCursorId i" and "enc_fuel H z \<le> f"
  shows "\<exists>r. php_phongo_zval_to_bson f E H add_id return_id z doc ex = Some r"
proof -
  have d: "z_deref z = z" using assms(3) by (cases z) auto
  obtain tbl z1 where v: "heap_view H z = Some (tbl, z1)" "encodable E H z1"
    using heap_view_encodable[OF assms(1,2)] d by auto
  have nc: "\<forall>i. z1 \<noteq> ZCursorId i"
  proof (cases tbl)
    case None
    then show ?thesis using v(1) assms(4) heap_view_None[of H z z1] by simp
  next
    case (Some a)
    then show ?thesis using v(1) heap_view_Some[of H z a z1] by (cases "H ! a") auto
  qed
  have "addr_fuel H [] \<le> length H * Suc (heap_depth H)" by (simp add: addr_fuel_def)
  moreover have "kids_depth z1 \<le> zdepth z + heap_depth H" if "has_table z1"
    using v(1) zdepth_table[OF that] heap_depth_cell[of _ H] d
    by (auto simp: heap_view_def split: zval.splits if_splits) force+
  ultimately have "kids_depth z1 + addr_fuel H [] < f" if "has_table z1"
    using assms(5) that by (fastforce simp: enc_fuel_def)
  then have "\<exists>r. enc_internal f E H [] add_id z1 (doc, php_phongo_field_path_alloc, ex) = Some r"
    using enc_total(3)[OF assms(1) v(2), of "[]" f "(doc, php_phongo_field_path_alloc, ex)" add_id]
      internal_no_table[OF v(2)] nc by (cases "has_table z1") auto
  then show ?thesis using v(1)
    by (auto simp: php_phongo_zval_to_bson_def Let_def split: option.splits simp del: enc_internal.simps)
qed

text \<open>A table that is being visited already is reported, and nothing is written for it.\<close>

lemma enc_recursion:
  assumes "a \<in> set prot" and "a < length H" and "fp_winv fp"
  shows "\<exists>fp'. enc_append (Suc f) E H prot key (ZAddr a) (doc, fp, ex)
    = Some (doc, fp', recursion_exception (join_dots (fp_stack fp @ [key])) # ex) \<and> fp_winv fp' \<and> fp_stack fp' = fp_stack fp"
  using assms as_string_at[OF write_item_at[OF assms(3), of key]] write_item_winv[OF assms(3), of key]
  by (cases "H ! a") (auto simp: Let_def heap_view_def php_phongo_zend_hash_apply_protection_begin_def throw_with_path_def)

text \<open>Whatever is raised names the element, or something below it.\<close>

lemma zval_to_bson_raised:
  assumes "php_phongo_zval_to_bson f E H add_id return_id z doc ex = Some (doc', out, ex')"
  shows "(\<exists>new. ex' = new @ ex \<and> (\<forall>x \<in> set new. exn_at E [] x)) \<and> (\<exists>added. doc' = doc @ added)"
proof -
  obtain tbl z1 a1 fin doc1 fp1 where v: "heap_view H z = Some (tbl, z1)"
    "enc_internal f E H [] add_id z1 (doc, php_phongo_field_path_alloc, ex) = Some (a1, fin, doc1, fp1, ex')"
    "doc' = (if fin \<and> a1 then doc1 @ [(''_id'', BOid (ee_generated_oid E))] else doc1)"
    using assms by (auto simp: php_phongo_zval_to_bson_def Let_def split: option.splits prod.splits if_splits simp del: enc_internal.simps)
  from enc_steps(3)[OF v(2)] have
    "(\<exists>new. ex' = new @ ex \<and> (\<forall>x \<in> set new. exn_at E [] x)) \<and> (\<exists>added. doc1 = doc @ added)"
    by (simp add: enc_step_def raised_def)
  then show ?thesis using v(3) by auto
qed

end
