(* ===== verification/Bson_Decode.thy ===== *)
theory Bson_Decode
  imports Type_Map Bson_Datetime Bson_Text
begin

text \<open>
  Decoding BSON to PHP values (bson.c): the element visitors given to libbson's
  \<^verbatim>\<open>bson_iter_visit_all\<close>, and the entry points \<^verbatim>\<open>php_phongo_bson_to_zval_ex\<close>,
  \<^verbatim>\<open>php_phongo_bson_to_zval\<close> and \<^verbatim>\<open>php_phongo_bson_value_to_zval\<close>.  A visitor takes the state
  of the document it is in, the path builder all nested states share, and the exceptions
  raised so far (newest first: the engine chains them and the code goes on), and returns
  them with libbson's stop flag.  The outer None is undefined behaviour: an object of a null
  class, or a path that cannot be printed.
\<close>

record php_phongo_bson_state =
  st_zchild :: zval
  st_map :: php_phongo_bson_typemap
  st_odm :: "string option"
  st_is_visiting_array :: bool
  st_field_path :: "php_phongo_field_path option"

definition bson_state_init :: php_phongo_bson_state where
  "bson_state_init = \<lparr>st_zchild = ZUndef, st_map = typemap_init, st_odm = None,
     st_is_visiting_array = False, st_field_path = None\<rparr>"

text \<open>What the decoder takes from outside: the class table, libbson's ObjectId printer, the width of \<^verbatim>\<open>zend_long\<close>.\<close>

record decode_env =
  de_classes :: class_env
  de_oid :: oid_ops
  de_sizeof_zend_long :: nat

type_synonym vctx = "php_phongo_bson_state \<times> php_phongo_field_path \<times> exn list"

section \<open>Adding to the array being built\<close>

definition next_index :: "'v hash \<Rightarrow> int" where
  "next_index h = foldr (\<lambda>(k, v) m. case k of KInt i \<Rightarrow> max (i + 1) m | KStr _ \<Rightarrow> m) h 0"

definition add_next_index :: "'v hash \<Rightarrow> 'v \<Rightarrow> 'v hash" where
  "add_next_index h v = hash_update h (KInt (next_index h)) v"

definition add_assoc :: "'v hash \<Rightarrow> string \<Rightarrow> 'v \<Rightarrow> 'v hash" where
  "add_assoc h key v = hash_update h (symtable_key key) v"

fun z_buckets :: "zval \<Rightarrow> ht" where
  "z_buckets (ZArray h) = h"
| "z_buckets _ = []"

definition add_child :: "php_phongo_bson_state \<Rightarrow> string \<Rightarrow> zval \<Rightarrow> php_phongo_bson_state" where
  "add_child st key z = st\<lparr>st_zchild := ZArray
     (if st_is_visiting_array st then add_next_index (z_buckets (st_zchild st)) z
      else add_assoc (z_buckets (st_zchild st)) key z)\<rparr>"

text \<open>\<^verbatim>\<open>convert_to_object\<close> on an array: integer keys become property names.\<close>

fun prop_key :: "hkey \<Rightarrow> hkey" where
  "prop_key (KInt i) = KStr (dec_of_int i)"
| "prop_key (KStr s) = KStr s"

fun convert_to_object :: "zval \<Rightarrow> zval" where
  "convert_to_object (ZArray h) = ZStd (map (\<lambda>(k, v). (prop_key k, v)) h)"
| "convert_to_object z = z"

section \<open>Objects of the BSON classes\<close>

definition php_phongo_bson_new_binary_from_binary_and_type :: "string \<Rightarrow> 8 word \<Rightarrow> zval" where
  "php_phongo_bson_new_binary_from_binary_and_type data type =
     ZBson (OBinary \<lparr>bin_data = Some data, bin_type = type\<rparr>)"

definition php_phongo_objectid_new_from_oid :: "oid_ops \<Rightarrow> string \<Rightarrow> zval" where
  "php_phongo_objectid_new_from_oid B oid =
     ZBson (OObjectId \<lparr>oid_initialized = True, oid_oid = bson_oid_to_string B oid @ [CHR 0x00]\<rparr>)"

definition php_phongo_bson_new_utcdatetime_from_epoch :: "int \<Rightarrow> zval" where
  "php_phongo_bson_new_utcdatetime_from_epoch msec_since_epoch =
     ZBson (OUTCDateTime \<lparr>udt_initialized = True, udt_milliseconds = msec_since_epoch\<rparr>)"

definition php_phongo_bson_new_decimal128 :: "64 word \<Rightarrow> 64 word \<Rightarrow> zval" where
  "php_phongo_bson_new_decimal128 high low =
     ZBson (ODecimal128 \<lparr>dec_initialized = True, dec_high = high, dec_low = low\<rparr>)"

definition php_phongo_bson_new_regex_from_regex_and_options :: "string \<Rightarrow> string \<Rightarrow> zval" where
  "php_phongo_bson_new_regex_from_regex_and_options pattern flags =
     ZBson (ORegex \<lparr>re_pattern = Some (c_str pattern), re_flags = Some (c_str flags)\<rparr>)"

definition php_phongo_bson_new_symbol :: "string \<Rightarrow> zval" where
  "php_phongo_bson_new_symbol symbol = ZBson (OSymbol \<lparr>sym_symbol = Some symbol\<rparr>)"

definition php_phongo_bson_new_javascript :: "string \<Rightarrow> bdoc option \<Rightarrow> zval" where
  "php_phongo_bson_new_javascript code scope = ZBson (OJavascript \<lparr>js_code = Some code, js_scope = scope\<rparr>)"

definition php_phongo_bson_new_dbpointer :: "oid_ops \<Rightarrow> string \<Rightarrow> string \<Rightarrow> zval" where
  "php_phongo_bson_new_dbpointer B ref oid =
     ZBson (ODBPointer \<lparr>dbp_ref = Some ref, dbp_id = bson_oid_to_string B oid\<rparr>)"

definition php_phongo_bson_new_timestamp_from_increment_and_timestamp :: "32 word \<Rightarrow> 32 word \<Rightarrow> zval" where
  "php_phongo_bson_new_timestamp_from_increment_and_timestamp increment timestamp =
     ZBson (OTimestamp \<lparr>ts_initialized = True, ts_increment = increment, ts_timestamp = timestamp\<rparr>)"

section \<open>Visitors of single values\<close>

text \<open>The two steps all of them share: add the value, then note the key in the path.\<close>

definition visit_value :: "string \<Rightarrow> zval \<Rightarrow> vctx \<Rightarrow> bool \<times> vctx" where
  "visit_value key z c = (case c of (st, fp, ex) \<Rightarrow>
     (False, add_child st key z, php_phongo_field_path_write_item_at_current_level fp key, ex))"

definition php_phongo_bson_visit_double :: "string \<Rightarrow> 64 word \<Rightarrow> vctx \<Rightarrow> bool \<times> vctx" where
  "php_phongo_bson_visit_double key v = visit_value key (ZDouble v)"

definition php_phongo_bson_visit_utf8 :: "string \<Rightarrow> string \<Rightarrow> vctx \<Rightarrow> bool \<times> vctx" where
  "php_phongo_bson_visit_utf8 key v = visit_value key (ZString v)"

definition php_phongo_bson_visit_binary ::
    "class_env \<Rightarrow> string \<Rightarrow> 8 word \<Rightarrow> string \<Rightarrow> vctx \<Rightarrow> bool \<times> vctx" where
  "php_phongo_bson_visit_binary E key v_subtype v_binary c = (case c of (st, fp, ex) \<Rightarrow>
     let st1 = (if v_subtype = 0x80 \<and> key = ''__pclass'' then
                  (case ce_fetch E v_binary of
                     Some found_ce \<Rightarrow>
                       if ce_instantiable E found_ce \<and> ce_instanceof E found_ce persistable_ce
                       then st\<lparr>st_odm := Some found_ce\<rparr> else st
                   | None \<Rightarrow> st)
                else st)
     in visit_value key (php_phongo_bson_new_binary_from_binary_and_type v_binary v_subtype) (st1, fp, ex))"

definition php_phongo_bson_visit_undefined :: "string \<Rightarrow> vctx \<Rightarrow> bool \<times> vctx" where
  "php_phongo_bson_visit_undefined key = visit_value key (ZBson OUndefined)"

definition php_phongo_bson_visit_oid :: "oid_ops \<Rightarrow> string \<Rightarrow> string \<Rightarrow> vctx \<Rightarrow> bool \<times> vctx" where
  "php_phongo_bson_visit_oid B key v_oid = visit_value key (php_phongo_objectid_new_from_oid B v_oid)"

definition php_phongo_bson_visit_bool :: "string \<Rightarrow> bool \<Rightarrow> vctx \<Rightarrow> bool \<times> vctx" where
  "php_phongo_bson_visit_bool key v_bool = visit_value key (ZBool v_bool)"

definition php_phongo_bson_visit_date_time :: "string \<Rightarrow> int \<Rightarrow> vctx \<Rightarrow> bool \<times> vctx" where
  "php_phongo_bson_visit_date_time key msec = visit_value key (php_phongo_bson_new_utcdatetime_from_epoch msec)"

definition php_phongo_bson_visit_decimal128 :: "string \<Rightarrow> 64 word \<Rightarrow> 64 word \<Rightarrow> vctx \<Rightarrow> bool \<times> vctx" where
  "php_phongo_bson_visit_decimal128 key high low = visit_value key (php_phongo_bson_new_decimal128 high low)"

definition php_phongo_bson_visit_null :: "string \<Rightarrow> vctx \<Rightarrow> bool \<times> vctx" where
  "php_phongo_bson_visit_null key = visit_value key ZNull"

definition php_phongo_bson_visit_regex :: "string \<Rightarrow> string \<Rightarrow> string \<Rightarrow> vctx \<Rightarrow> bool \<times> vctx" where
  "php_phongo_bson_visit_regex key v_regex v_options =
     visit_value key (php_phongo_bson_new_regex_from_regex_and_options v_regex v_options)"

definition php_phongo_bson_visit_symbol :: "string \<Rightarrow> string \<Rightarrow> vctx \<Rightarrow> bool \<times> vctx" where
  "php_phongo_bson_visit_symbol key v_symbol = visit_value key (php_phongo_bson_new_symbol v_symbol)"

definition php_phongo_bson_visit_code :: "string \<Rightarrow> string \<Rightarrow> vctx \<Rightarrow> bool \<times> vctx" where
  "php_phongo_bson_visit_code key v_code = visit_value key (php_phongo_bson_new_javascript v_code None)"

definition php_phongo_bson_visit_dbpointer :: "oid_ops \<Rightarrow> string \<Rightarrow> string \<Rightarrow> string \<Rightarrow> vctx \<Rightarrow> bool \<times> vctx" where
  "php_phongo_bson_visit_dbpointer B key ns oid = visit_value key (php_phongo_bson_new_dbpointer B ns oid)"

definition php_phongo_bson_visit_int32 :: "string \<Rightarrow> int \<Rightarrow> vctx \<Rightarrow> bool \<times> vctx" where
  "php_phongo_bson_visit_int32 key v = visit_value key (ZLong v)"

definition php_phongo_bson_visit_timestamp :: "string \<Rightarrow> 32 word \<Rightarrow> 32 word \<Rightarrow> vctx \<Rightarrow> bool \<times> vctx" where
  "php_phongo_bson_visit_timestamp key v_timestamp v_increment =
     visit_value key (php_phongo_bson_new_timestamp_from_increment_and_timestamp v_increment v_timestamp)"

definition php_phongo_bson_visit_int64 :: "nat \<Rightarrow> string \<Rightarrow> int \<Rightarrow> vctx \<Rightarrow> bool \<times> vctx" where
  "php_phongo_bson_visit_int64 sizeof_zend_long key v = visit_value key (zval_int64 sizeof_zend_long v)"

definition php_phongo_bson_visit_maxkey :: "string \<Rightarrow> vctx \<Rightarrow> bool \<times> vctx" where
  "php_phongo_bson_visit_maxkey key = visit_value key (ZBson OMaxKey)"

definition php_phongo_bson_visit_minkey :: "string \<Rightarrow> vctx \<Rightarrow> bool \<times> vctx" where
  "php_phongo_bson_visit_minkey key = visit_value key (ZBson OMinKey)"

definition hex_byte :: "nat \<Rightarrow> string" where
  "hex_byte n = [hex_digit (n mod 256 div 16), hex_digit (n mod 16)]"

definition php_phongo_bson_visit_unsupported_type :: "string \<Rightarrow> nat \<Rightarrow> vctx \<Rightarrow> vctx option" where
  "php_phongo_bson_visit_unsupported_type key v_type_code c = (case c of (st, fp, ex) \<Rightarrow>
     let fp1 = php_phongo_field_path_write_item_at_current_level fp key
     in case php_phongo_field_path_as_string (Some fp1) of
          Inl _ \<Rightarrow> None
        | Inr path_string \<Rightarrow> Some (st, fp1, phongo_throw_exception PHONGO_ERROR_UNEXPECTED_VALUE
            (''Detected unknown BSON type 0x'' @ hex_byte v_type_code @ '' for field path '' @ dquote path_string
             @ ''. Are you using the latest driver?'') # ex))"

section \<open>Compound values\<close>

text \<open>
  After the children of a document: choose the PHP type and add the result to the parent.
  pst is the parent's state, st the child's, fp the shared path (not yet popped).
\<close>

definition document_type_of ::
    "php_phongo_bson_state \<Rightarrow> php_phongo_field_path \<Rightarrow> php_phongo_bson_typemap_types \<times> string option" where
  "document_type_of st fp =
     (let (t, ce) = php_phongo_handle_field_path_entry_for_compound_type (st_map st) fp
                      (tm_document_type (st_map st), tm_document (st_map st))
      in (if st_odm st \<noteq> None \<and> t = PHONGO_TYPEMAP_NONE then PHONGO_TYPEMAP_CLASS else t, ce))"

text \<open>
  \<^verbatim>\<open>object_init_ex\<close> and the call of \<^verbatim>\<open>bsonUnserialize\<close>, which the engine leaves out while an
  exception is pending.
\<close>

definition unserialize_object ::
    "class_env \<Rightarrow> string option \<Rightarrow> zval \<Rightarrow> exn list \<Rightarrow> (zval \<times> exn list) option" where
  "unserialize_object E ce z ex =
     (case ce of None \<Rightarrow> None
      | Some c \<Rightarrow> if ex \<noteq> [] then Some (ZClass c [], ex)
          else (case ce_bsonUnserialize E c (z_buckets z) of
          (props, e) \<Rightarrow> Some (ZClass c props, (case e of None \<Rightarrow> ex | Some x \<Rightarrow> x # ex))))"

definition finish_document ::
    "class_env \<Rightarrow> string \<Rightarrow> php_phongo_bson_state \<Rightarrow> vctx \<Rightarrow> vctx option" where
  "finish_document E key pst c = (case c of (st, fp, ex) \<Rightarrow>
     (case document_type_of st fp of
        (PHONGO_TYPEMAP_NATIVE_ARRAY, _) \<Rightarrow> Some (add_child pst key (st_zchild st), php_phongo_field_path_pop fp, ex)
      | (PHONGO_TYPEMAP_CLASS, ce) \<Rightarrow>
          map_option (\<lambda>(obj, ex1). (add_child pst key obj, php_phongo_field_path_pop fp, ex1))
            (unserialize_object E (if st_odm st \<noteq> None then st_odm st else ce) (st_zchild st) ex)
      | _ \<Rightarrow> Some (add_child pst key (convert_to_object (st_zchild st)), php_phongo_field_path_pop fp, ex)))"

definition finish_array ::
    "class_env \<Rightarrow> string \<Rightarrow> php_phongo_bson_state \<Rightarrow> vctx \<Rightarrow> vctx option" where
  "finish_array E key pst c = (case c of (st, fp, ex) \<Rightarrow>
     (case php_phongo_handle_field_path_entry_for_compound_type (st_map st) fp
             (tm_array_type (st_map st), tm_array (st_map st)) of
        (PHONGO_TYPEMAP_CLASS, ce) \<Rightarrow>
          map_option (\<lambda>(obj, ex1). (add_child pst key obj, php_phongo_field_path_pop fp, ex1))
            (unserialize_object E ce (st_zchild st) ex)
      | (PHONGO_TYPEMAP_NATIVE_OBJECT, _) \<Rightarrow>
          Some (add_child pst key (convert_to_object (st_zchild st)), php_phongo_field_path_pop fp, ex)
      | _ \<Rightarrow> Some (add_child pst key (st_zchild st), php_phongo_field_path_pop fp, ex)))"

text \<open>The state of a nested document or array: zeroed, with the parent's type map and path.\<close>

definition child_state :: "bool \<Rightarrow> php_phongo_bson_state \<Rightarrow> php_phongo_bson_state" where
  "child_state is_array pst =
     bson_state_init\<lparr>st_map := st_map pst, st_field_path := st_field_path pst,
       st_is_visiting_array := is_array, st_zchild := ZArray []\<rparr>"

text \<open>
  The end of the root document: error report, root type, result.  The first component is
  the C function's result up to the check that the input is exhausted.
\<close>

definition corrupt_exception :: "string \<Rightarrow> nat \<Rightarrow> exn" where
  "corrupt_exception path err_off = phongo_throw_exception PHONGO_ERROR_UNEXPECTED_VALUE
     (''Detected corrupt BSON data for field path '' @ squote path @ '' at offset '' @ dec_of_nat err_off)"

definition finish_root ::
    "class_env \<Rightarrow> bool \<times> nat option \<times> vctx \<Rightarrow> (bool \<times> vctx) option" where
  "finish_root E r = (case r of (stop, err_off, st, fp, ex) \<Rightarrow>
     if stop \<or> err_off \<noteq> None then
       (if ex = [] then
          (case php_phongo_field_path_as_string (Some fp) of
             Inl _ \<Rightarrow> None
           | Inr path \<Rightarrow> Some (False, st, fp,
               [corrupt_exception path (case err_off of None \<Rightarrow> 0 | Some off \<Rightarrow> off)]))
        else Some (False, st, fp, ex))
     else
       (let t = (if st_odm st \<noteq> None \<and> tm_root_type (st_map st) = PHONGO_TYPEMAP_NONE
                 then PHONGO_TYPEMAP_CLASS else tm_root_type (st_map st));
            st1 = st\<lparr>st_map := (st_map st)\<lparr>tm_root_type := t\<rparr>\<rparr>
        in case t of
             PHONGO_TYPEMAP_NATIVE_ARRAY \<Rightarrow> Some (True, st1, fp, ex)
           | PHONGO_TYPEMAP_CLASS \<Rightarrow>
               map_option (\<lambda>(obj, ex1). (True, st1\<lparr>st_zchild := obj\<rparr>, fp, ex1))
                 (unserialize_object E (if st_odm st \<noteq> None then st_odm st else tm_root (st_map st)) (st_zchild st) ex)
           | _ \<Rightarrow> Some (True, st1\<lparr>st_zchild := convert_to_object (st_zchild st)\<rparr>, fp, ex)))"

text \<open>
  The visitors and \<^verbatim>\<open>bson_iter_visit_all\<close> over the elements.  The scope of a code value is
  decoded by itself with a fresh state, only to learn whether it can be.
\<close>

fun bson_visit :: "decode_env \<Rightarrow> string \<Rightarrow> bval \<Rightarrow> vctx \<Rightarrow> (bool \<times> vctx) option"
  and bson_iter_visit_all :: "decode_env \<Rightarrow> (string \<times> bval) list \<Rightarrow> doc_end \<Rightarrow> vctx \<Rightarrow> (bool \<times> nat option \<times> vctx) option"
  and bson_visit_doc :: "decode_env \<Rightarrow> bdoc \<Rightarrow> vctx \<Rightarrow> (bool \<times> nat option \<times> vctx) option" where
  "bson_visit N key (BDouble v) c = Some (php_phongo_bson_visit_double key v c)"
| "bson_visit N key (BUtf8 v) c = Some (php_phongo_bson_visit_utf8 key v c)"
| "bson_visit N key (BDocument d) (pst, fp, ex) =
     (case bson_visit_doc N d (child_state False pst, php_phongo_field_path_push fp key PHONGO_FIELD_PATH_ITEM_DOCUMENT, ex) of
        None \<Rightarrow> None
      | Some (stop, err_off, st, fp1, ex1) \<Rightarrow>
          if \<not> stop \<and> err_off = None
          then map_option (\<lambda>c. (False, c)) (finish_document (de_classes N) key pst (st, fp1, ex1))
          else Some (True, pst, fp1, ex1))"
| "bson_visit N key (BArray d) (pst, fp, ex) =
     (case bson_visit_doc N d (child_state True pst, php_phongo_field_path_push fp key PHONGO_FIELD_PATH_ITEM_ARRAY, ex) of
        None \<Rightarrow> None
      | Some (stop, err_off, st, fp1, ex1) \<Rightarrow>
          if \<not> stop \<and> err_off = None
          then map_option (\<lambda>c. (False, c)) (finish_array (de_classes N) key pst (st, fp1, ex1))
          else Some (True, pst, fp1, ex1))"
| "bson_visit N key (BBinary t d) c = Some (php_phongo_bson_visit_binary (de_classes N) key t d c)"
| "bson_visit N key BUndefined c = Some (php_phongo_bson_visit_undefined key c)"
| "bson_visit N key (BOid b) c = Some (php_phongo_bson_visit_oid (de_oid N) key b c)"
| "bson_visit N key (BBool b) c = Some (php_phongo_bson_visit_bool key b c)"
| "bson_visit N key (BDateTime t) c = Some (php_phongo_bson_visit_date_time key t c)"
| "bson_visit N key BNull c = Some (php_phongo_bson_visit_null key c)"
| "bson_visit N key (BRegex p f) c = Some (php_phongo_bson_visit_regex key p f c)"
| "bson_visit N key (BDBPointer r b) c = Some (php_phongo_bson_visit_dbpointer (de_oid N) key r b c)"
| "bson_visit N key (BCode s) c = Some (php_phongo_bson_visit_code key s c)"
| "bson_visit N key (BSymbol s) c = Some (php_phongo_bson_visit_symbol key s c)"
| "bson_visit N key (BCodeWScope s d) (st, fp, ex) =
     (case bson_visit_doc N d (bson_state_init\<lparr>st_zchild := ZArray []\<rparr>, php_phongo_field_path_alloc, ex) of
        None \<Rightarrow> None
      | Some r \<Rightarrow>
         (case finish_root (de_classes N) r of
            None \<Rightarrow> None
          | Some (valid_scope, _, _, ex1) \<Rightarrow>
              if \<not> valid_scope then Some (True, st, fp, ex1)
              else Some (visit_value key (php_phongo_bson_new_javascript s (Some d)) (st, fp, ex1))))"
| "bson_visit N key (BInt32 v) c = Some (php_phongo_bson_visit_int32 key v c)"
| "bson_visit N key (BTimestamp t i) c = Some (php_phongo_bson_visit_timestamp key t i c)"
| "bson_visit N key (BInt64 v) c = Some (php_phongo_bson_visit_int64 (de_sizeof_zend_long N) key v c)"
| "bson_visit N key (BDecimal128 h l) c = Some (php_phongo_bson_visit_decimal128 key h l c)"
| "bson_visit N key BMaxKey c = Some (php_phongo_bson_visit_maxkey key c)"
| "bson_visit N key BMinKey c = Some (php_phongo_bson_visit_minkey key c)"
| "bson_iter_visit_all N [] DocOk c = Some (False, None, c)"
| "bson_iter_visit_all N [] (DocCorrupt off) c = Some (False, Some off, c)"
| "bson_iter_visit_all N [] (DocUnsupported key code off) c =
     map_option (\<lambda>c. (False, Some off, c)) (php_phongo_bson_visit_unsupported_type key code c)"
| "bson_iter_visit_all N ((key, v) # es) e c =
     (case bson_visit N key v c of
        None \<Rightarrow> None
      | Some (stop, c1) \<Rightarrow> if stop then Some (True, None, c1) else bson_iter_visit_all N es e c1)"
| "bson_visit_doc N (BDoc es e) c = bson_iter_visit_all N es e c"

section \<open>Entry points\<close>

text \<open>
  What libbson's reader makes of a buffer: no document, a document without iterator, or a
  document and whether it is all there is.
\<close>

datatype bson_buffer = BufUnreadable | BufNoIterator | BufDocument bdoc bool

definition php_phongo_bson_to_zval_ex ::
    "decode_env \<Rightarrow> bson_buffer \<Rightarrow> php_phongo_bson_state \<Rightarrow> exn list \<Rightarrow> (bool \<times> php_phongo_bson_state \<times> exn list) option" where
  "php_phongo_bson_to_zval_ex N data state ex =
     (let must_dtor_state = (st_field_path state = None);
          fp = (case st_field_path state of None \<Rightarrow> php_phongo_field_path_alloc | Some p \<Rightarrow> p);
          close = (\<lambda>st fp. st\<lparr>st_field_path := (if must_dtor_state then None else Some fp)\<rparr>)
      in case data of
           BufUnreadable \<Rightarrow> Some (False, close state fp,
             phongo_throw_exception PHONGO_ERROR_UNEXPECTED_VALUE ''Could not read document from BSON reader'' # ex)
         | BufNoIterator \<Rightarrow> Some (False, close state fp,
             phongo_throw_exception PHONGO_ERROR_UNEXPECTED_VALUE ''Could not initialize BSON iterator'' # ex)
         | BufDocument d exhausted \<Rightarrow>
            (case bson_visit_doc N d (state\<lparr>st_zchild := ZArray []\<rparr>, fp, ex) of
               None \<Rightarrow> None
             | Some r \<Rightarrow>
                (case finish_root (de_classes N) r of
                   None \<Rightarrow> None
                 | Some (ok, st1, fp1, ex1) \<Rightarrow>
                    if \<not> ok then Some (False, close st1 fp1, ex1)
                    else if \<not> exhausted then Some (False, close st1 fp1,
                       phongo_throw_exception PHONGO_ERROR_UNEXPECTED_VALUE
                         ''Reading document did not exhaust input buffer'' # ex1)
                    else Some (True, close st1 fp1, ex1))))"

definition php_phongo_bson_to_zval ::
    "decode_env \<Rightarrow> bson_buffer \<Rightarrow> exn list \<Rightarrow> (bool \<times> zval \<times> exn list) option" where
  "php_phongo_bson_to_zval N data ex =
     map_option (\<lambda>(ok, st, ex1). (ok, st_zchild st, ex1))
       (php_phongo_bson_to_zval_ex N data bson_state_init ex)"

text \<open>The third component is None when the out parameter is not assigned.\<close>

definition php_phongo_bson_value_to_zval ::
    "decode_env \<Rightarrow> bval \<Rightarrow> exn list \<Rightarrow> (bool \<times> zval option \<times> exn list) option" where
  "php_phongo_bson_value_to_zval N v ex =
     (case php_phongo_bson_to_zval_ex N (BufDocument (BDoc [(''data'', v)] DocOk) True)
             (bson_state_init\<lparr>st_map := typemap_init\<lparr>tm_root_type := PHONGO_TYPEMAP_NATIVE_ARRAY\<rparr>\<rparr>) ex of
        None \<Rightarrow> None
      | Some (ok, st, ex1) \<Rightarrow>
          Some (ok, (if ok then php_array_fetch (z_buckets (st_zchild st)) ''data'' else None), ex1))"

end
