(* ===== verification/Bson_Decode_Spec.thy ===== *)
theory Bson_Decode_Spec
  imports Bson_Decode
begin

text \<open>
  A specification of the decoder without state: the PHP value of a BSON value at a given
  field path under a type map, as a plain recursion.  The visitors of Bson\_Decode, with
  their shared path builder, are shown to compute it on every well-formed document, and to
  stop on every other one.
\<close>

section \<open>Well-formed documents\<close>

fun val_ok :: "bval \<Rightarrow> bool" and elems_ok :: "(string \<times> bval) list \<Rightarrow> bool" and doc_ok :: "bdoc \<Rightarrow> bool" where
  "val_ok (BDocument d) = doc_ok d"
| "val_ok (BArray d) = doc_ok d"
| "val_ok (BCodeWScope s d) = doc_ok d"
| "val_ok _ = True"
| "elems_ok [] = True"
| "elems_ok ((k, v) # es) = (val_ok v \<and> elems_ok es)"
| "doc_ok (BDoc es e) = (e = DocOk \<and> elems_ok es)"

section \<open>The stateless decoder\<close>

text \<open>The class a \<^verbatim>\<open>__pclass\<close> element selects, when it may be used.\<close>

definition pclass_of :: "class_env \<Rightarrow> string \<Rightarrow> bval \<Rightarrow> string option" where
  "pclass_of E key v = (case v of
     BBinary t d \<Rightarrow> if t = 0x80 \<and> key = ''__pclass'' then
        (case ce_fetch E d of Some c \<Rightarrow> if ce_instantiable E c \<and> ce_instanceof E c persistable_ce then Some c else None
         | None \<Rightarrow> None) else None
   | _ \<Rightarrow> None)"

definition odm_step :: "class_env \<Rightarrow> string option \<Rightarrow> string \<times> bval \<Rightarrow> string option" where
  "odm_step E odm kv = (case pclass_of E (fst kv) (snd kv) of Some c \<Rightarrow> Some c | None \<Rightarrow> odm)"

definition elems_odm :: "class_env \<Rightarrow> (string \<times> bval) list \<Rightarrow> string option \<Rightarrow> string option" where
  "elems_odm E es odm = foldl (odm_step E) odm es"

text \<open>The first field path entry whose pattern matches.\<close>

definition path_entry ::
    "php_phongo_bson_typemap \<Rightarrow> string list \<Rightarrow> php_phongo_bson_typemap_types \<times> string option
       \<Rightarrow> php_phongo_bson_typemap_types \<times> string option" where
  "path_entry tm path out =
     (case find (\<lambda>me. pattern_matches (fp_stack (me_entry me)) path) (tm_field_paths tm) of
        None \<Rightarrow> out
      | Some entry \<Rightarrow> (case me_node_type entry of
           PHONGO_TYPEMAP_NATIVE_ARRAY \<Rightarrow> (PHONGO_TYPEMAP_NATIVE_ARRAY, snd out)
         | PHONGO_TYPEMAP_NATIVE_OBJECT \<Rightarrow> (PHONGO_TYPEMAP_NATIVE_OBJECT, snd out)
         | PHONGO_TYPEMAP_CLASS \<Rightarrow> (PHONGO_TYPEMAP_CLASS, me_node_ce entry)
         | PHONGO_TYPEMAP_NONE \<Rightarrow> out))"

definition class_object :: "class_env \<Rightarrow> string option \<Rightarrow> ht \<Rightarrow> zval" where
  "class_object E ce h = (case ce of Some c \<Rightarrow> ZClass c (fst (ce_bsonUnserialize E c h)) | None \<Rightarrow> ZUndef)"

definition document_value ::
    "class_env \<Rightarrow> php_phongo_bson_typemap \<Rightarrow> string list \<Rightarrow> string option \<Rightarrow> ht \<Rightarrow> zval" where
  "document_value E tm path odm h =
     (let (t, ce) = path_entry tm path (tm_document_type tm, tm_document tm)
      in if t = PHONGO_TYPEMAP_NATIVE_ARRAY then ZArray h
         else if t = PHONGO_TYPEMAP_CLASS \<or> (t = PHONGO_TYPEMAP_NONE \<and> odm \<noteq> None)
         then class_object E (if odm \<noteq> None then odm else ce) h
         else convert_to_object (ZArray h))"

definition array_value :: "class_env \<Rightarrow> php_phongo_bson_typemap \<Rightarrow> string list \<Rightarrow> ht \<Rightarrow> zval" where
  "array_value E tm path h =
     (let (t, ce) = path_entry tm path (tm_array_type tm, tm_array tm)
      in if t = PHONGO_TYPEMAP_CLASS then class_object E ce h
         else if t = PHONGO_TYPEMAP_NATIVE_OBJECT then convert_to_object (ZArray h)
         else ZArray h)"

definition root_value :: "class_env \<Rightarrow> php_phongo_bson_typemap \<Rightarrow> string option \<Rightarrow> ht \<Rightarrow> zval" where
  "root_value E tm odm h =
     (if tm_root_type tm = PHONGO_TYPEMAP_NATIVE_ARRAY then ZArray h
      else if tm_root_type tm = PHONGO_TYPEMAP_CLASS \<or> (tm_root_type tm = PHONGO_TYPEMAP_NONE \<and> odm \<noteq> None)
      then class_object E (if odm \<noteq> None then odm else tm_root tm) h
      else convert_to_object (ZArray h))"

definition add_elem :: "bool \<Rightarrow> ht \<Rightarrow> string \<Rightarrow> zval \<Rightarrow> ht" where
  "add_elem is_array h key z = (if is_array then add_next_index h z else add_assoc h key z)"

fun dec_value :: "decode_env \<Rightarrow> php_phongo_bson_typemap \<Rightarrow> string list \<Rightarrow> bval \<Rightarrow> zval"
  and dec_elems :: "decode_env \<Rightarrow> php_phongo_bson_typemap \<Rightarrow> string list \<Rightarrow> bool \<Rightarrow> (string \<times> bval) list \<Rightarrow> ht \<Rightarrow> ht"
  and dec_doc :: "decode_env \<Rightarrow> php_phongo_bson_typemap \<Rightarrow> string list \<Rightarrow> bool \<Rightarrow> bdoc \<Rightarrow> ht" where
  "dec_value N tm path (BDouble v) = ZDouble v"
| "dec_value N tm path (BUtf8 v) = ZString v"
| "dec_value N tm path (BDocument d) =
     document_value (de_classes N) tm path (elems_odm (de_classes N) (doc_elems d) None) (dec_doc N tm path False d)"
| "dec_value N tm path (BArray d) = array_value (de_classes N) tm path (dec_doc N tm path True d)"
| "dec_value N tm path (BBinary t d) = php_phongo_bson_new_binary_from_binary_and_type d t"
| "dec_value N tm path BUndefined = ZBson OUndefined"
| "dec_value N tm path (BOid b) = php_phongo_objectid_new_from_oid (de_oid N) b"
| "dec_value N tm path (BBool b) = ZBool b"
| "dec_value N tm path (BDateTime t) = php_phongo_bson_new_utcdatetime_from_epoch t"
| "dec_value N tm path BNull = ZNull"
| "dec_value N tm path (BRegex p f) = php_phongo_bson_new_regex_from_regex_and_options p f"
| "dec_value N tm path (BDBPointer r b) = php_phongo_bson_new_dbpointer (de_oid N) r b"
| "dec_value N tm path (BCode s) = php_phongo_bson_new_javascript s None"
| "dec_value N tm path (BSymbol s) = php_phongo_bson_new_symbol s"
| "dec_value N tm path (BCodeWScope s d) = php_phongo_bson_new_javascript s (Some d)"
| "dec_value N tm path (BInt32 v) = ZLong v"
| "dec_value N tm path (BTimestamp t i) = php_phongo_bson_new_timestamp_from_increment_and_timestamp i t"
| "dec_value N tm path (BInt64 v) = zval_int64 (de_sizeof_zend_long N) v"
| "dec_value N tm path (BDecimal128 h l) = php_phongo_bson_new_decimal128 h l"
| "dec_value N tm path BMaxKey = ZBson OMaxKey"
| "dec_value N tm path BMinKey = ZBson OMinKey"
| "dec_elems N tm path is_array [] h = h"
| "dec_elems N tm path is_array ((k, v) # es) h =
     dec_elems N tm path is_array es (add_elem is_array h k (dec_value N tm (path @ [k]) v))"
| "dec_doc N tm path is_array (BDoc es e) = dec_elems N tm path is_array es []"

text \<open>
  Whether the user's \<^verbatim>\<open>bsonUnserialize\<close> returns without an exception wherever it is called for
  a value: once one is pending the engine calls no further user code, and the value of the
  decoder is of no use to its caller.
\<close>

definition class_quiet :: "class_env \<Rightarrow> string option \<Rightarrow> ht \<Rightarrow> bool" where
  "class_quiet E ce h = (case ce of Some c \<Rightarrow> snd (ce_bsonUnserialize E c h) = None | None \<Rightarrow> True)"

definition document_quiet ::
    "class_env \<Rightarrow> php_phongo_bson_typemap \<Rightarrow> string list \<Rightarrow> string option \<Rightarrow> ht \<Rightarrow> bool" where
  "document_quiet E tm path odm h =
     (let (t, ce) = path_entry tm path (tm_document_type tm, tm_document tm)
      in t = PHONGO_TYPEMAP_CLASS \<or> (t = PHONGO_TYPEMAP_NONE \<and> odm \<noteq> None)
           \<longrightarrow> class_quiet E (if odm \<noteq> None then odm else ce) h)"

definition array_quiet :: "class_env \<Rightarrow> php_phongo_bson_typemap \<Rightarrow> string list \<Rightarrow> ht \<Rightarrow> bool" where
  "array_quiet E tm path h =
     (let (t, ce) = path_entry tm path (tm_array_type tm, tm_array tm)
      in t = PHONGO_TYPEMAP_CLASS \<longrightarrow> class_quiet E ce h)"

definition root_quiet :: "class_env \<Rightarrow> php_phongo_bson_typemap \<Rightarrow> string option \<Rightarrow> ht \<Rightarrow> bool" where
  "root_quiet E tm odm h \<longleftrightarrow>
     (tm_root_type tm = PHONGO_TYPEMAP_CLASS \<or> (tm_root_type tm = PHONGO_TYPEMAP_NONE \<and> odm \<noteq> None)
        \<longrightarrow> class_quiet E (if odm \<noteq> None then odm else tm_root tm) h)"

fun quiet_value :: "decode_env \<Rightarrow> php_phongo_bson_typemap \<Rightarrow> string list \<Rightarrow> bval \<Rightarrow> bool"
  and quiet_elems :: "decode_env \<Rightarrow> php_phongo_bson_typemap \<Rightarrow> string list \<Rightarrow> (string \<times> bval) list \<Rightarrow> bool"
  and quiet_doc :: "decode_env \<Rightarrow> php_phongo_bson_typemap \<Rightarrow> string list \<Rightarrow> bdoc \<Rightarrow> bool" where
  "quiet_value N tm path (BDocument d) = (quiet_doc N tm path d
     \<and> document_quiet (de_classes N) tm path (elems_odm (de_classes N) (doc_elems d) None) (dec_doc N tm path False d))"
| "quiet_value N tm path (BArray d) = (quiet_doc N tm path d \<and> array_quiet (de_classes N) tm path (dec_doc N tm path True d))"
| "quiet_value N tm path (BCodeWScope s d) = (quiet_doc N typemap_init [] d
     \<and> root_quiet (de_classes N) typemap_init (elems_odm (de_classes N) (doc_elems d) None) (dec_doc N typemap_init [] False d))"
| "quiet_value N tm path _ = True"
| "quiet_elems N tm path [] = True"
| "quiet_elems N tm path ((k, v) # es) = (quiet_value N tm (path @ [k]) v \<and> quiet_elems N tm path es)"
| "quiet_doc N tm path (BDoc es e) = quiet_elems N tm path es"

section \<open>The visitors compute it\<close>

lemma typemap_init_nodes_ok: "typemap_nodes_ok E typemap_init"
  using typemap_init_ok by (simp add: typemap_ok_iff)

lemma handle_entry_path:
  assumes "typemap_nodes_ok E tm" and "fp_inv fp"
  shows "php_phongo_handle_field_path_entry_for_compound_type tm fp out = path_entry tm (fp_stack fp) out"
proof -
  have "map_element_matches_field_path me fp = pattern_matches (fp_stack (me_entry me)) (fp_stack fp)"
    if "me \<in> set (tm_field_paths tm)" for me
    using that assms matches_pattern by (auto simp: typemap_nodes_ok_def list_all_iff)
  then have "map_find_field_path_entry tm fp
      = find (\<lambda>me. pattern_matches (fp_stack (me_entry me)) (fp_stack fp)) (tm_field_paths tm)"
    unfolding map_find_field_path_entry_def by (rule find_cong[OF refl])
  then show ?thesis
    by (simp add: php_phongo_handle_field_path_entry_for_compound_type_def path_entry_def)
qed

lemma path_entry_ok:
  "typemap_nodes_ok E tm \<Longrightarrow> type_ok E out \<Longrightarrow> type_ok E (path_entry tm path out)"
  by (auto simp: path_entry_def type_ok_def typemap_nodes_ok_def list_all_length find_Some_iff
      split: option.splits php_phongo_bson_typemap_types.splits)

text \<open>
  How the exceptions before and after a step relate: none is pending afterwards exactly when
  none was before and the step raised none, and then the result is that of the specification.
\<close>

definition settles :: "exn list \<Rightarrow> exn list \<Rightarrow> bool \<Rightarrow> 'a \<Rightarrow> 'a \<Rightarrow> bool" where
  "settles ex ex1 quiet z v \<longleftrightarrow> (ex1 = [] \<longleftrightarrow> ex = [] \<and> quiet) \<and> (ex1 = [] \<longrightarrow> z = v)"

lemma settles_refl [simp]: "settles ex ex True z z"
  by (simp add: settles_def)

lemma unserialize_object_Some:
  "\<exists>z1 ex1. unserialize_object E (Some c) z ex = Some (z1, ex1)
     \<and> settles ex ex1 (class_quiet E (Some c) (z_buckets z)) z1 (class_object E (Some c) (z_buckets z))"
  by (auto simp: unserialize_object_def class_object_def class_quiet_def settles_def split: prod.splits option.splits)

lemma type_ok_class: "type_ok E (PHONGO_TYPEMAP_CLASS, ce) \<Longrightarrow> \<exists>c. ce = Some c"
  by (auto simp: type_ok_def split: option.splits)

lemma finish_document_spec:
  assumes "typemap_nodes_ok E (st_map st)" and "fp_inv fp" and "st_zchild st = ZArray h"
  shows "\<exists>z ex1. finish_document E key pst (st, fp, ex) = Some (add_child pst key z, php_phongo_field_path_pop fp, ex1)
     \<and> settles ex ex1 (document_quiet E (st_map st) (fp_stack fp) (st_odm st) h)
         z (document_value E (st_map st) (fp_stack fp) (st_odm st) h)"
proof -
  obtain t ce where te: "path_entry (st_map st) (fp_stack fp) (tm_document_type (st_map st), tm_document (st_map st)) = (t, ce)"
    by fastforce
  have ok: "type_ok E (t, ce)"
    using path_entry_ok[OF assms(1), of _ "fp_stack fp"] assms(1) te by (metis typemap_nodes_ok_def)
  have pe: "php_phongo_handle_field_path_entry_for_compound_type (st_map st) fp
      (tm_document_type (st_map st), tm_document (st_map st)) = (t, ce)"
    using handle_entry_path[OF assms(1,2)] te by simp
  show ?thesis
  proof (cases "st_odm st")
    case None
    then show ?thesis
      using pe te type_ok_class[of E ce] ok unserialize_object_Some[of E _ "ZArray h" ex] assms(3)
      by (cases t) (fastforce simp: finish_document_def document_type_of_def document_value_def document_quiet_def)+
  next
    case (Some c)
    then show ?thesis
      using pe te unserialize_object_Some[of E c "ZArray h" ex] assms(3)
      by (cases t) (auto simp: finish_document_def document_type_of_def document_value_def document_quiet_def)
  qed
qed

lemma finish_array_spec:
  assumes "typemap_nodes_ok E (st_map st)" and "fp_inv fp" and "st_zchild st = ZArray h"
  shows "\<exists>z ex1. finish_array E key pst (st, fp, ex) = Some (add_child pst key z, php_phongo_field_path_pop fp, ex1)
     \<and> settles ex ex1 (array_quiet E (st_map st) (fp_stack fp) h) z (array_value E (st_map st) (fp_stack fp) h)"
proof -
  obtain t ce where te: "path_entry (st_map st) (fp_stack fp) (tm_array_type (st_map st), tm_array (st_map st)) = (t, ce)"
    by fastforce
  have ok: "type_ok E (t, ce)"
    using path_entry_ok[OF assms(1), of _ "fp_stack fp"] assms(1) te by (metis typemap_nodes_ok_def)
  show ?thesis
    using handle_entry_path[OF assms(1,2)] te type_ok_class[of E ce] ok
      unserialize_object_Some[of E _ "ZArray h" ex] assms(3)
    by (cases t) (fastforce simp: finish_array_def array_value_def array_quiet_def)+
qed

lemma finish_root_spec:
  assumes "st_odm st \<noteq> None \<or> type_ok E (tm_root_type (st_map st), tm_root (st_map st))" and "st_zchild st = ZArray h"
  shows "\<exists>st1 ex1. finish_root E (False, None, st, fp, ex) = Some (True, st1, fp, ex1)
     \<and> settles ex ex1 (root_quiet E (st_map st) (st_odm st) h) (st_zchild st1) (root_value E (st_map st) (st_odm st) h)"
proof -
  show ?thesis
  proof (cases "st_odm st")
    case None
    then have ok: "type_ok E (tm_root_type (st_map st), tm_root (st_map st))" using assms(1) by simp
    show ?thesis using None ok type_ok_class[of E "tm_root (st_map st)"] assms(2)
        unserialize_object_Some[of E _ "ZArray h" ex]
      by (cases "tm_root_type (st_map st)") (fastforce simp: finish_root_def root_value_def root_quiet_def)+
  next
    case (Some c)
    then show ?thesis using unserialize_object_Some[of E c "ZArray h" ex] assms(2)
      by (cases "tm_root_type (st_map st)") (auto simp: finish_root_def root_value_def root_quiet_def)
  qed
qed

lemmas visitor_defs =
  php_phongo_bson_visit_double_def php_phongo_bson_visit_utf8_def php_phongo_bson_visit_undefined_def
  php_phongo_bson_visit_oid_def php_phongo_bson_visit_bool_def php_phongo_bson_visit_date_time_def
  php_phongo_bson_visit_decimal128_def php_phongo_bson_visit_null_def php_phongo_bson_visit_regex_def
  php_phongo_bson_visit_symbol_def php_phongo_bson_visit_code_def php_phongo_bson_visit_dbpointer_def
  php_phongo_bson_visit_int32_def php_phongo_bson_visit_timestamp_def php_phongo_bson_visit_int64_def
  php_phongo_bson_visit_maxkey_def php_phongo_bson_visit_minkey_def

text \<open>What one visit leaves behind: the value added, the class noted, the path as before.\<close>

definition visited :: "decode_env \<Rightarrow> string \<Rightarrow> bval \<Rightarrow> vctx \<Rightarrow> (bool \<times> vctx) option \<Rightarrow> bool" where
  "visited N key v c r \<longleftrightarrow> (case c of (st, fp, ex) \<Rightarrow> \<exists>z fp' ex'.
     r = Some (False, add_child (st\<lparr>st_odm := odm_step (de_classes N) (st_odm st) (key, v)\<rparr>) key z, fp', ex')
     \<and> fp_inv fp' \<and> fp_stack fp' = fp_stack fp
     \<and> settles ex ex' (quiet_value N (st_map st) (fp_stack fp @ [key]) v)
         z (dec_value N (st_map st) (fp_stack fp @ [key]) v))"

definition visited_all :: "decode_env \<Rightarrow> (string \<times> bval) list \<Rightarrow> vctx \<Rightarrow> (bool \<times> nat option \<times> vctx) option \<Rightarrow> bool" where
  "visited_all N es c r \<longleftrightarrow> (case c of (st, fp, ex) \<Rightarrow> \<exists>st' fp' ex' h.
     r = Some (False, None, st', fp', ex') \<and> fp_inv fp' \<and> fp_stack fp' = fp_stack fp
     \<and> st_map st' = st_map st \<and> st_is_visiting_array st' = st_is_visiting_array st
     \<and> st_field_path st' = st_field_path st
     \<and> st_odm st' = elems_odm (de_classes N) es (st_odm st)
     \<and> st_zchild st' = ZArray h
     \<and> settles ex ex' (quiet_elems N (st_map st) (fp_stack fp) es)
         h (dec_elems N (st_map st) (fp_stack fp) (st_is_visiting_array st) es (z_buckets (st_zchild st))))"

lemma visited_value:
  "fp_inv fp \<Longrightarrow> odm_step (de_classes N) (st_odm st) (key, v) = st_odm st \<Longrightarrow>
     settles ex ex' (quiet_value N (st_map st) (fp_stack fp @ [key]) v) z (dec_value N (st_map st) (fp_stack fp @ [key]) v) \<Longrightarrow>
     visited N key v (st, fp, ex) (Some (visit_value key z (st, fp, ex')))"
  by (auto simp: visited_def visit_value_def write_item_inv write_item_abs)

lemma odm_step_other: "pclass_of E k v = None \<Longrightarrow> odm_step E odm (k, v) = odm"
  by (simp add: odm_step_def)

lemma visited_binary:
  "fp_inv fp \<Longrightarrow> visited N key (BBinary t d) (st, fp, ex)
     (Some (php_phongo_bson_visit_binary (de_classes N) key t d (st, fp, ex)))"
  by (auto simp: visited_def visit_value_def write_item_inv write_item_abs php_phongo_bson_visit_binary_def
      odm_step_def pclass_of_def Let_def split: option.splits)

lemma visited_all_Cons:
  assumes "visited N key v c (bson_visit N key v c)"
    and "\<And>c1. bson_visit N key v c = Some (False, c1) \<Longrightarrow> visited_all N es c1 (bson_iter_visit_all N es e c1)"
  shows "visited_all N ((key, v) # es) c (bson_iter_visit_all N ((key, v) # es) e c)"
proof -
  obtain st fp ex where c: "c = (st, fp, ex)" by (metis prod_cases3)
  from assms(1) obtain z fp' ex' where v: "bson_visit N key v c = Some (False,
      add_child (st\<lparr>st_odm := odm_step (de_classes N) (st_odm st) (key, v)\<rparr>) key z, fp', ex')"
    "fp_inv fp'" "fp_stack fp' = fp_stack fp"
    "settles ex ex' (quiet_value N (st_map st) (fp_stack fp @ [key]) v) z (dec_value N (st_map st) (fp_stack fp @ [key]) v)"
    by (auto simp: visited_def c)
  show ?thesis using assms(2)[OF v(1)] v
    by (auto simp: visited_all_def c add_child_def add_elem_def elems_odm_def settles_def)
qed

text \<open>The state with which the children of a compound value are visited is valid.\<close>

lemma child_ctx:
  "fp_inv fp \<Longrightarrow> typemap_nodes_ok E (st_map pst) \<Longrightarrow>
     fp_inv (php_phongo_field_path_push fp key t) \<and> typemap_nodes_ok E (st_map (child_state a pst))"
  by (simp add: push_refines child_state_def)

lemma visited_compound:
  assumes "fp_inv fp" and "typemap_nodes_ok (de_classes N) (st_map pst)"
    and "visited_all N (doc_elems d) (child_state a pst, php_phongo_field_path_push fp key t, ex)
           (bson_visit_doc N d (child_state a pst, php_phongo_field_path_push fp key t, ex))"
  obtains st fp1 ex1 h where
    "bson_visit_doc N d (child_state a pst, php_phongo_field_path_push fp key t, ex) = Some (False, None, st, fp1, ex1)"
    "fp_inv fp1" "fp_stack fp1 = fp_stack fp @ [key]" "typemap_nodes_ok (de_classes N) (st_map st)" "st_map st = st_map pst"
    "st_odm st = elems_odm (de_classes N) (doc_elems d) None" "st_zchild st = ZArray h"
    "settles ex ex1 (quiet_doc N (st_map pst) (fp_stack fp @ [key]) d) h (dec_doc N (st_map pst) (fp_stack fp @ [key]) a d)"
    "fp_inv (php_phongo_field_path_pop fp1)" "fp_stack (php_phongo_field_path_pop fp1) = fp_stack fp"
proof -
  obtain st fp1 ex1 h where r:
    "bson_visit_doc N d (child_state a pst, php_phongo_field_path_push fp key t, ex) = Some (False, None, st, fp1, ex1)"
    "fp_inv fp1" "fp_stack fp1 = fp_stack fp @ [key]" "st_map st = st_map pst"
    "st_odm st = elems_odm (de_classes N) (doc_elems d) None" "st_zchild st = ZArray h"
    "settles ex ex1 (quiet_elems N (st_map pst) (fp_stack fp @ [key]) (doc_elems d))
       h (dec_elems N (st_map pst) (fp_stack fp @ [key]) a (doc_elems d) [])"
    using assms(3) by (auto simp: visited_all_def child_state_def bson_state_init_def push_refines[OF assms(1)])
  have "0 < fp_size fp1" using stack_length[OF r(2)] r(3) by (cases "fp_size fp1") auto
  then show ?thesis using that[OF r(1-3)] r assms(2) pop_refines[OF r(2)] by (cases d) simp
qed

lemma visit_spec:
  "val_ok v \<Longrightarrow> fp_inv (fst (snd c)) \<Longrightarrow> typemap_nodes_ok (de_classes N) (st_map (fst c)) \<Longrightarrow>
     visited N key v c (bson_visit N key v c)"
  "elems_ok es \<Longrightarrow> e = DocOk \<Longrightarrow> fp_inv (fst (snd c)) \<Longrightarrow> typemap_nodes_ok (de_classes N) (st_map (fst c)) \<Longrightarrow>
     (\<exists>h. st_zchild (fst c) = ZArray h) \<Longrightarrow> visited_all N es c (bson_iter_visit_all N es e c)"
  "doc_ok d \<Longrightarrow> fp_inv (fst (snd c)) \<Longrightarrow> typemap_nodes_ok (de_classes N) (st_map (fst c)) \<Longrightarrow>
     (\<exists>h. st_zchild (fst c) = ZArray h) \<Longrightarrow> visited_all N (doc_elems d) c (bson_visit_doc N d c)"
proof (induction N key v c and N es e c and N d c rule: bson_visit_bson_iter_visit_all_bson_visit_doc.induct)
  case (3 N key d pst fp ex)
  let ?p = "php_phongo_field_path_push fp key PHONGO_FIELD_PATH_ITEM_DOCUMENT"
  have i: "fp_inv fp" "typemap_nodes_ok (de_classes N) (st_map pst)" using 3 by auto
  have "visited_all N (doc_elems d) (child_state False pst, ?p, ex) (bson_visit_doc N d (child_state False pst, ?p, ex))"
    using "3.IH" "3.prems" child_ctx[OF i] by (simp add: child_state_def)
  from visited_compound[OF i this] obtain st fp1 ex1 h where r:
    "bson_visit_doc N d (child_state False pst, ?p, ex) = Some (False, None, st, fp1, ex1)"
    "fp_inv fp1" "fp_stack fp1 = fp_stack fp @ [key]" "typemap_nodes_ok (de_classes N) (st_map st)" "st_map st = st_map pst"
    "st_odm st = elems_odm (de_classes N) (doc_elems d) None" "st_zchild st = ZArray h"
    "settles ex ex1 (quiet_doc N (st_map pst) (fp_stack fp @ [key]) d) h (dec_doc N (st_map pst) (fp_stack fp @ [key]) False d)"
    "fp_inv (php_phongo_field_path_pop fp1)" "fp_stack (php_phongo_field_path_pop fp1) = fp_stack fp" by metis
  obtain z ex2 where f: "finish_document (de_classes N) key pst (st, fp1, ex1) = Some (add_child pst key z, php_phongo_field_path_pop fp1, ex2)"
    "settles ex1 ex2 (document_quiet (de_classes N) (st_map st) (fp_stack fp1) (st_odm st) h)
       z (document_value (de_classes N) (st_map st) (fp_stack fp1) (st_odm st) h)"
    using finish_document_spec[OF r(4,2,7)] by blast
  have "settles ex ex2 (quiet_value N (st_map pst) (fp_stack fp @ [key]) (BDocument d))
      z (dec_value N (st_map pst) (fp_stack fp @ [key]) (BDocument d))"
    using r(8) f(2) unfolding r(3,5,6) by (auto simp: settles_def)
  then show ?case using r(1,9,10) f(1) by (auto simp: visited_def odm_step_def pclass_of_def)
next
  case (4 N key d pst fp ex)
  let ?p = "php_phongo_field_path_push fp key PHONGO_FIELD_PATH_ITEM_ARRAY"
  have i: "fp_inv fp" "typemap_nodes_ok (de_classes N) (st_map pst)" using 4 by auto
  have "visited_all N (doc_elems d) (child_state True pst, ?p, ex) (bson_visit_doc N d (child_state True pst, ?p, ex))"
    using "4.IH" "4.prems" child_ctx[OF i] by (simp add: child_state_def)
  from visited_compound[OF i this] obtain st fp1 ex1 h where r:
    "bson_visit_doc N d (child_state True pst, ?p, ex) = Some (False, None, st, fp1, ex1)"
    "fp_inv fp1" "fp_stack fp1 = fp_stack fp @ [key]" "typemap_nodes_ok (de_classes N) (st_map st)" "st_map st = st_map pst"
    "st_odm st = elems_odm (de_classes N) (doc_elems d) None" "st_zchild st = ZArray h"
    "settles ex ex1 (quiet_doc N (st_map pst) (fp_stack fp @ [key]) d) h (dec_doc N (st_map pst) (fp_stack fp @ [key]) True d)"
    "fp_inv (php_phongo_field_path_pop fp1)" "fp_stack (php_phongo_field_path_pop fp1) = fp_stack fp" by metis
  obtain z ex2 where f: "finish_array (de_classes N) key pst (st, fp1, ex1) = Some (add_child pst key z, php_phongo_field_path_pop fp1, ex2)"
    "settles ex1 ex2 (array_quiet (de_classes N) (st_map st) (fp_stack fp1) h)
       z (array_value (de_classes N) (st_map st) (fp_stack fp1) h)"
    using finish_array_spec[OF r(4,2,7)] by blast
  have "settles ex ex2 (quiet_value N (st_map pst) (fp_stack fp @ [key]) (BArray d))
      z (dec_value N (st_map pst) (fp_stack fp @ [key]) (BArray d))"
    using r(8) f(2) unfolding r(3,5) by (auto simp: settles_def)
  then show ?case using r(1,9,10) f(1) by (auto simp: visited_def odm_step_def pclass_of_def)
next
  case (15 N key s d st fp ex)
  let ?c = "(bson_state_init\<lparr>st_zchild := ZArray []\<rparr>, php_phongo_field_path_alloc, ex)"
  have "visited_all N (doc_elems d) ?c (bson_visit_doc N d ?c)"
    using "15.IH" "15.prems" typemap_init_nodes_ok by (simp add: bson_state_init_def)
  then obtain st1 fp1 ex1 h where r: "bson_visit_doc N d ?c = Some (False, None, st1, fp1, ex1)"
    "st_map st1 = typemap_init" "st_zchild st1 = ZArray h" "st_odm st1 = elems_odm (de_classes N) (doc_elems d) None"
    "settles ex ex1 (quiet_elems N typemap_init [] (doc_elems d)) h (dec_elems N typemap_init [] False (doc_elems d) [])"
    by (auto simp: visited_all_def bson_state_init_def)
  obtain st2 ex2 where f: "finish_root (de_classes N) (False, None, st1, fp1, ex1) = Some (True, st2, fp1, ex2)"
    "settles ex1 ex2 (root_quiet (de_classes N) (st_map st1) (st_odm st1) h)
       (st_zchild st2) (root_value (de_classes N) (st_map st1) (st_odm st1) h)"
    using finish_root_spec[of st1 "de_classes N" h fp1 ex1] r(2,3) typemap_init_ok[unfolded typemap_ok_iff] by auto
  have "settles ex ex2 (quiet_value N (st_map st) (fp_stack fp @ [key]) (BCodeWScope s d)) x x" for x :: zval
    using r(5) f(2) unfolding r(2,4) by (cases d) (auto simp: settles_def)
  then show ?case using r(1) f(1) "15.prems"
    by (simp add: visited_value odm_step_other pclass_of_def)
next
  case (5 N key t d c)
  then show ?case by (cases c) (simp add: visited_binary)
next
  case (25 N key v es e c)
  have v: "visited N key v c (bson_visit N key v c)" using 25 by simp
  show ?case
  proof (rule visited_all_Cons[OF v])
    fix c1 assume c1: "bson_visit N key v c = Some (False, c1)"
    have "fp_inv (fst (snd c1)) \<and> st_map (fst c1) = st_map (fst c) \<and> (\<exists>h. st_zchild (fst c1) = ZArray h)"
      using v c1 by (auto simp: visited_def add_child_def split: prod.splits)
    then show "visited_all N es c1 (bson_iter_visit_all N es e c1)"
      using "25.IH"(2)[OF c1 refl] "25.prems" by auto
  qed
next
  case (22 N c)
  then show ?case by (cases c) (auto simp: visited_all_def elems_odm_def)
next
  case (26 N es e c)
  then show ?case by simp
qed (auto simp: visitor_defs visited_value odm_step_other pclass_of_def split: prod.splits)

section \<open>Only well-formed documents are decoded\<close>

lemma finish_root_True:
  "finish_root E (stop, err, c) = Some (True, c') \<Longrightarrow> \<not> stop \<and> err = None"
  by (auto simp: finish_root_def Let_def split: prod.splits if_splits sum.splits option.splits)

lemma visit_only_ok:
  "bson_visit N key v c = Some (False, c1) \<Longrightarrow> val_ok v"
  "bson_iter_visit_all N es e c = Some (False, None, c1) \<Longrightarrow> elems_ok es \<and> e = DocOk"
  "bson_visit_doc N d c = Some (False, None, c1) \<Longrightarrow> doc_ok d"
proof (induction N key v c and N es e c and N d c arbitrary: c1 and c1 and c1
    rule: bson_visit_bson_iter_visit_all_bson_visit_doc.induct)
  case (15 N key s d st fp ex)
  then show ?case
    by (auto split: option.splits prod.splits if_splits dest!: finish_root_True)
next
  case (25 N key v es e c)
  then show ?case by (auto split: option.splits prod.splits if_splits)
qed (auto split: option.splits prod.splits if_splits)

section \<open>The entry points\<close>

definition state_ok :: "class_env \<Rightarrow> php_phongo_bson_state \<Rightarrow> bool" where
  "state_ok E st \<longleftrightarrow> typemap_nodes_ok E (st_map st)
     \<and> (st_odm st \<noteq> None \<or> type_ok E (tm_root_type (st_map st), tm_root (st_map st)))
     \<and> \<not> st_is_visiting_array st
     \<and> (case st_field_path st of None \<Rightarrow> True | Some fp \<Rightarrow> fp_inv fp \<and> fp_stack fp = [])"

lemma bson_state_init_ok [simp]: "state_ok E bson_state_init"
  by (simp add: state_ok_def bson_state_init_def typemap_init_nodes_ok) (simp add: typemap_init_def type_ok_def)

text \<open>The value of a buffer under a state: that of its document.\<close>

definition decoded :: "decode_env \<Rightarrow> php_phongo_bson_state \<Rightarrow> bdoc \<Rightarrow> zval" where
  "decoded N state d = root_value (de_classes N) (st_map state)
     (elems_odm (de_classes N) (doc_elems d) (st_odm state)) (dec_doc N (st_map state) [] False d)"

definition decode_quiet :: "decode_env \<Rightarrow> php_phongo_bson_state \<Rightarrow> bdoc \<Rightarrow> bool" where
  "decode_quiet N state d \<longleftrightarrow> quiet_doc N (st_map state) [] d
     \<and> root_quiet (de_classes N) (st_map state)
         (elems_odm (de_classes N) (doc_elems d) (st_odm state)) (dec_doc N (st_map state) [] False d)"

lemma elems_odm_keeps: "odm \<noteq> None \<Longrightarrow> elems_odm E es odm \<noteq> None"
proof (induction es arbitrary: odm)
  case (Cons e es)
  have "odm_step E odm e \<noteq> None" using Cons.prems by (auto simp: odm_step_def split: option.splits)
  then show ?case using Cons.IH by (simp add: elems_odm_def)
qed (simp add: elems_odm_def)

lemma root_visit:
  assumes "state_ok (de_classes N) state" and "doc_ok d"
    and "fp = (case st_field_path state of None \<Rightarrow> php_phongo_field_path_alloc | Some p \<Rightarrow> p)"
  shows "\<exists>st1 fp1 ex1 h. bson_visit_doc N d (state\<lparr>st_zchild := ZArray []\<rparr>, fp, ex) = Some (False, None, st1, fp1, ex1)
     \<and> st_map st1 = st_map state \<and> st_odm st1 = elems_odm (de_classes N) (doc_elems d) (st_odm state)
     \<and> st_zchild st1 = ZArray h
     \<and> settles ex ex1 (quiet_doc N (st_map state) [] d) h (dec_doc N (st_map state) [] False d)"
proof -
  have fp: "fp_inv fp" "fp_stack fp = []" using assms(1,3) by (auto simp: state_ok_def split: option.splits)
  have "visited_all N (doc_elems d) (state\<lparr>st_zchild := ZArray []\<rparr>, fp, ex)
          (bson_visit_doc N d (state\<lparr>st_zchild := ZArray []\<rparr>, fp, ex))"
    using assms fp by (intro visit_spec) (auto simp: state_ok_def)
  then show ?thesis using assms(1) fp(2) by (cases d) (auto simp: visited_all_def state_ok_def)
qed

lemma to_zval_ex_ok:
  assumes "state_ok (de_classes N) state" and "doc_ok d"
  shows "\<exists>st1 ex1. php_phongo_bson_to_zval_ex N (BufDocument d True) state ex = Some (True, st1, ex1)
     \<and> settles ex ex1 (decode_quiet N state d) (st_zchild st1) (decoded N state d)"
proof -
  define fp where "fp = (case st_field_path state of None \<Rightarrow> php_phongo_field_path_alloc | Some p \<Rightarrow> p)"
  obtain st1 fp1 ex1 h where v:
    "bson_visit_doc N d (state\<lparr>st_zchild := ZArray []\<rparr>, fp, ex) = Some (False, None, st1, fp1, ex1)"
    "st_map st1 = st_map state" "st_odm st1 = elems_odm (de_classes N) (doc_elems d) (st_odm state)"
    "st_zchild st1 = ZArray h"
    "settles ex ex1 (quiet_doc N (st_map state) [] d) h (dec_doc N (st_map state) [] False d)"
    using root_visit[OF assms fp_def] by metis
  obtain st2 ex2 where r: "finish_root (de_classes N) (False, None, st1, fp1, ex1) = Some (True, st2, fp1, ex2)"
    "settles ex1 ex2 (root_quiet (de_classes N) (st_map st1) (st_odm st1) h)
       (st_zchild st2) (root_value (de_classes N) (st_map st1) (st_odm st1) h)"
    using finish_root_spec[of st1 "de_classes N" h fp1 ex1] v assms(1) elems_odm_keeps[of "st_odm state" "de_classes N" "doc_elems d"]
    by (auto simp: state_ok_def)
  have "settles ex ex2 (decode_quiet N state d) (st_zchild st2) (decoded N state d)"
    using v(5) r(2) unfolding v(2,3) by (auto simp: settles_def decoded_def decode_quiet_def)
  then show ?thesis using v(1) r(1)
    by (auto simp: php_phongo_bson_to_zval_ex_def fp_def Let_def)
qed

lemma to_zval_ex_only_ok:
  assumes "php_phongo_bson_to_zval_ex N data state ex = Some (True, st1, ex1)"
  shows "\<exists>d. data = BufDocument d True \<and> doc_ok d"
  using assms by (cases data) (auto simp: php_phongo_bson_to_zval_ex_def Let_def
      split: option.splits if_splits dest!: finish_root_True intro!: visit_only_ok(3))

section \<open>The state afterwards\<close>

text \<open>
  Whatever the outcome, a visit leaves the type map and the kind of the container alone, and a
  class once noted stays noted.
\<close>

definition state_kept :: "php_phongo_bson_state \<Rightarrow> php_phongo_bson_state \<Rightarrow> bool" where
  "state_kept st st1 \<longleftrightarrow> st_map st1 = st_map st \<and> st_is_visiting_array st1 = st_is_visiting_array st
     \<and> (st_odm st \<noteq> None \<longrightarrow> st_odm st1 \<noteq> None)"

lemma state_kept_refl [simp]: "state_kept st st"
  by (simp add: state_kept_def)

lemma state_kept_trans: "state_kept st st1 \<Longrightarrow> state_kept st1 st2 \<Longrightarrow> state_kept st st2"
  by (simp add: state_kept_def)

lemma state_kept_add_child [simp]: "state_kept st (add_child st key z)"
  by (simp add: state_kept_def add_child_def)

lemma state_kept_odm [simp]: "state_kept st (add_child (st\<lparr>st_odm := Some c\<rparr>) key z)"
  by (simp add: state_kept_def add_child_def)

lemma finish_document_kept:
  "finish_document E key pst c = Some (st1, fp1, ex1) \<Longrightarrow> state_kept pst st1"
  by (auto simp: finish_document_def split: prod.splits php_phongo_bson_typemap_types.splits)

lemma finish_array_kept:
  "finish_array E key pst c = Some (st1, fp1, ex1) \<Longrightarrow> state_kept pst st1"
  by (auto simp: finish_array_def split: prod.splits php_phongo_bson_typemap_types.splits)

lemma visit_kept:
  "bson_visit N key v c = Some (stop, st1, fp1, ex1) \<Longrightarrow> state_kept (fst c) st1"
  "bson_iter_visit_all N es e c = Some (stop, err, st1, fp1, ex1) \<Longrightarrow> state_kept (fst c) st1"
  "bson_visit_doc N d c = Some (stop, err, st1, fp1, ex1) \<Longrightarrow> state_kept (fst c) st1"
proof (induction N key v c and N es e c and N d c
    arbitrary: stop st1 fp1 ex1 and stop err st1 fp1 ex1 and stop err st1 fp1 ex1
    rule: bson_visit_bson_iter_visit_all_bson_visit_doc.induct)
  case (3 N key d pst fp ex)
  then show ?case by (auto split: option.splits if_splits dest: finish_document_kept)
next
  case (4 N key d pst fp ex)
  then show ?case by (auto split: option.splits if_splits dest: finish_array_kept)
next
  case (5 N key t d c)
  then show ?case
    by (auto simp: php_phongo_bson_visit_binary_def visit_value_def Let_def split: prod.splits if_splits option.splits)
next
  case (15 N key s d st fp ex)
  then show ?case by (auto simp: visit_value_def split: option.splits if_splits prod.splits)
next
  case (24 N key code off c)
  then show ?case by (auto simp: php_phongo_bson_visit_unsupported_type_def Let_def split: prod.splits sum.splits)
next
  case (25 N key v es e c)
  obtain stop2 st2 fp2 ex2 where v: "bson_visit N key v c = Some (stop2, st2, fp2, ex2)"
    using "25.prems"(1) by (auto split: option.splits prod.splits)
  then show ?case using 25 state_kept_trans by (fastforce split: if_splits)
qed (auto simp: visitor_defs visit_value_def split: prod.splits)

lemma finish_root_state:
  "finish_root E (stop, err, st, fp, ex) = Some (ok, st1, fp1, ex1) \<Longrightarrow>
     st_odm st1 = st_odm st \<and> st_is_visiting_array st1 = st_is_visiting_array st
     \<and> st_map st1 = (if ok \<and> st_odm st \<noteq> None \<and> tm_root_type (st_map st) = PHONGO_TYPEMAP_NONE
                     then (st_map st)\<lparr>tm_root_type := PHONGO_TYPEMAP_CLASS\<rparr> else st_map st)"
  by (auto simp: finish_root_def Let_def split: if_splits sum.splits php_phongo_bson_typemap_types.splits)

text \<open>So a state can be used for one document after another.\<close>

lemma state_ok_kept: "state_ok E st \<Longrightarrow> state_kept st st1 \<Longrightarrow> st_field_path st1 = None \<Longrightarrow> state_ok E st1"
  by (auto simp: state_ok_def state_kept_def)

lemma state_ok_after:
  assumes "php_phongo_bson_to_zval_ex N data state ex = Some (ok, st1, ex1)"
    and "state_ok E state" and "st_field_path state = None"
  shows "state_ok E st1 \<and> st_field_path st1 = None"
proof (cases data)
  case (BufDocument d exhausted)
  obtain stop err st2 fp2 ex2 ok3 st3 fp3 ex3 where
      v: "bson_visit_doc N d (state\<lparr>st_zchild := ZArray []\<rparr>, php_phongo_field_path_alloc, ex) = Some (stop, err, st2, fp2, ex2)"
    and f: "finish_root (de_classes N) (stop, err, st2, fp2, ex2) = Some (ok3, st3, fp3, ex3)"
    and r: "st1 = st3\<lparr>st_field_path := None\<rparr>"
    using assms(1,3) BufDocument
    by (auto simp: php_phongo_bson_to_zval_ex_def Let_def split: option.splits if_splits)
  have k: "state_kept (state\<lparr>st_zchild := ZArray []\<rparr>) st2" using visit_kept(3)[OF v] by simp
  show ?thesis using finish_root_state[OF f] k assms(2) r
    by (auto simp: state_ok_def state_kept_def typemap_nodes_ok_def)
qed (use assms in \<open>auto simp: php_phongo_bson_to_zval_ex_def Let_def state_ok_def\<close>)

text \<open>After a document is decoded the class it noted stays in the state, and with it the root type.\<close>

lemma to_zval_ex_next:
  assumes "php_phongo_bson_to_zval_ex N (BufDocument d True) state ex = Some (True, st1, ex1)"
    and "state_ok (de_classes N) state" and "st_field_path state = None" and "doc_ok d"
  shows "st_odm st1 = elems_odm (de_classes N) (doc_elems d) (st_odm state)"
    and "st_map st1 = (if st_odm st1 \<noteq> None \<and> tm_root_type (st_map state) = PHONGO_TYPEMAP_NONE
                     then (st_map state)\<lparr>tm_root_type := PHONGO_TYPEMAP_CLASS\<rparr> else st_map state)"
proof -
  obtain st2 fp2 ex2 h where v:
    "bson_visit_doc N d (state\<lparr>st_zchild := ZArray []\<rparr>, php_phongo_field_path_alloc, ex) = Some (False, None, st2, fp2, ex2)"
    "st_map st2 = st_map state" "st_odm st2 = elems_odm (de_classes N) (doc_elems d) (st_odm state)"
    using root_visit[OF assms(2,4) refl, of ex] assms(3) by fastforce
  obtain st3 fp3 where f: "finish_root (de_classes N) (False, None, st2, fp2, ex2) = Some (True, st3, fp3, ex1)"
    and r: "st1 = st3\<lparr>st_field_path := None\<rparr>"
    using assms(1,3) v(1) by (auto simp: php_phongo_bson_to_zval_ex_def Let_def split: option.splits if_splits)
  show "st_odm st1 = elems_odm (de_classes N) (doc_elems d) (st_odm state)"
    and "st_map st1 = (if st_odm st1 \<noteq> None \<and> tm_root_type (st_map state) = PHONGO_TYPEMAP_NONE
                     then (st_map state)\<lparr>tm_root_type := PHONGO_TYPEMAP_CLASS\<rparr> else st_map state)"
    using finish_root_state[OF f] v(2,3) r by auto
qed

end
