(* ===== verification/Bson_Roundtrip.thy ===== *)
theory Bson_Roundtrip
  imports Bson_Encode_Props Bson_Decode_Spec
begin

text \<open>
  Encoding a PHP value and decoding the result gives the value back.  First the BSON value
  of a tree of scalars, arrays, \<^verbatim>\<open>stdClass\<close> objects and BSON objects as a plain recursion,
  which the encoder is shown to write without raising anything; then the decoder's
  specification on it.
\<close>

section \<open>The BSON value of a tree\<close>

fun key_string :: "hkey \<Rightarrow> string" where
  "key_string (KInt i) = dec_of_int i"
| "key_string (KStr s) = s"

fun to_bval :: "encode_env \<Rightarrow> zval \<Rightarrow> bval option"
  and to_elems :: "encode_env \<Rightarrow> (hkey \<times> zval) list \<Rightarrow> (string \<times> bval) list option" where
  "to_bval E (ZArray h) = map_option (\<lambda>es. if keys_from 0 h then BArray (BDoc es DocOk) else BDocument (BDoc es DocOk))
                            (to_elems E h)"
| "to_bval E (ZStd h) = map_option (\<lambda>es. BDocument (BDoc es DocOk)) (to_elems E h)"
| "to_bval E (ZBson b) = bson_obj_value E b"
| "to_bval E (ZClass c h) = None"
| "to_bval E (ZDate a b) = None"
| "to_bval E (ZCursorId i) = None"
| "to_bval E (ZRef z) = None"
| "to_bval E (ZAddr a) = None"
| "to_bval E ZUndef = None"
| "to_bval E ZResource = None"
| "to_bval E (ZString s) = (if ee_utf8_validate E s then Some (BUtf8 s) else None)"
| "to_bval E ZNull = Some BNull"
| "to_bval E (ZBool b) = Some (BBool b)"
| "to_bval E (ZLong i) = Some (bson_append_int (ee_sizeof_zend_long E) i)"
| "to_bval E (ZDouble d) = Some (BDouble d)"
| "to_elems E [] = Some []"
| "to_elems E ((k, v) # h) =
     (if CHR 0x00 \<in> set (key_string k) then None
      else case (to_bval E v, to_elems E h) of
             (Some b, Some es) \<Rightarrow> Some ((key_string k, b) # es) | _ \<Rightarrow> None)"

lemma key_check_plain:
  "CHR 0x00 \<notin> set (key_string k) \<Longrightarrow> key_check b False False k = KeyAppend (key_string k) False"
proof (cases k)
  case (KStr s)
  assume "CHR 0x00 \<notin> set (key_string k)"
  then have "CHR 0x00 \<notin> set s" using KStr by simp
  then have "c_strlen s = length s" "\<not> (s \<noteq> [] \<and> hd s = CHR 0x00)"
    by (auto simp: c_strlen_full_iff) (metis list.set_sel(1))
  then show ?thesis using KStr by (auto simp: key_check_def)
qed (simp add: key_check_def)

lemma to_bval_view:
  "to_bval E z = Some v \<Longrightarrow> heap_view H (z_deref z) = Some (None, z)"
  by (cases z) (auto simp: heap_view_def)

text \<open>The encoder appends exactly that value, and raises nothing.\<close>

lemma enc_writes:
  "to_bval E z = Some v \<Longrightarrow> zdepth z < f \<Longrightarrow> fp_winv fp \<Longrightarrow>
     \<exists>fp'. enc_append f E H prot key z (doc, fp, ex) = Some (doc @ [(key, v)], fp', ex)"
  "to_elems E h = Some es \<Longrightarrow> bdepth h < f \<Longrightarrow> fp_winv fp \<Longrightarrow>
     \<exists>fp'. enc_loop f E H prot b False False h (doc, fp, ex) = Some (False, True, doc @ es, fp', ex)"
proof (induction E z and E h arbitrary: f fp prot key doc ex v and f fp prot b doc ex es rule: to_bval_to_elems.induct)
  case (1 E h)
  from 1 obtain es f' where es: "to_elems E h = Some es" and f: "f = Suc f'" "bdepth h < f'"
    by (cases f) auto
  define fp1 where "fp1 = php_phongo_field_path_write_item_at_current_level fp key"
  have at: "fp_at fp1 (fp_stack fp) key" using 1(4) by (simp add: fp1_def write_item_at)
  have view: "heap_view H (z_deref (ZArray h)) = Some (None, ZArray h)" by (simp add: heap_view_def)
  have loop: "\<exists>fp'. enc_internal f' E H prot False (ZArray h) ([], fp_enter fp1 t, ex) = Some (False, True, es, fp', ex)" for t
    using 1(1)[OF es f(2), of "fp_enter fp1 t" prot False "[]" ex] enter_winv(1)[OF at, of t]
    by (simp add: internal_source_def)
  show ?case
  proof (cases "keys_from 0 h")
    case True
    then show ?thesis using 1(2) es f view loop[of PHONGO_FIELD_PATH_ITEM_ARRAY]
      by (auto simp: Let_def fp1_def[symmetric] php_phongo_zend_hash_apply_protection_begin_def simp del: enc_internal.simps)
  next
    case False
    then show ?thesis using 1(2) es f view loop[of PHONGO_FIELD_PATH_ITEM_DOCUMENT]
      by (auto simp: Let_def fp1_def[symmetric] php_phongo_zend_hash_apply_protection_begin_def simp del: enc_internal.simps)
  qed
next
  case (2 E h)
  from 2 obtain es f' where es: "to_elems E h = Some es" and f: "f = Suc f'" "bdepth h < f'"
    by (cases f) auto
  define fp1 where "fp1 = php_phongo_field_path_write_item_at_current_level fp key"
  have at: "fp_at fp1 (fp_stack fp) key" using 2(4) by (simp add: fp1_def write_item_at)
  have view: "heap_view H (z_deref (ZStd h)) = Some (None, ZStd h)" by (simp add: heap_view_def)
  have i: "\<not> class_instanceof E (ZStd h) type_ce" "\<not> class_instanceof E (ZStd h) serializable_ce"
    by (simp_all add: class_instanceof_def bson_ns_def)
  have "\<exists>fp'. enc_internal f' E H prot False (ZStd h) ([], fp_enter fp1 t, ex) = Some (False, True, es, fp', ex)" for t
    using 2(1)[OF es f(2), of "fp_enter fp1 t" prot True "[]" ex] enter_winv(1)[OF at, of t] i
    by (simp add: internal_source_def)
  from this[of PHONGO_FIELD_PATH_ITEM_DOCUMENT] show ?case using 2(2) es f view i
    by (auto simp: Let_def fp1_def[symmetric] php_phongo_zend_hash_apply_protection_begin_def simp del: enc_internal.simps)
next
  case (3 E b)
  have i: "\<not> class_instanceof E (ZBson b) serializable_ce"
    by (simp_all add: class_instanceof_def bson_ns_def)
  from 3 show ?case
    by (cases f) (auto simp: Let_def heap_view_def php_phongo_zend_hash_apply_protection_begin_def)
next
  case (17 E k v h)
  from 17(3) obtain b0 es0 where v: "to_bval E v = Some b0" "to_elems E h = Some es0"
    "CHR 0x00 \<notin> set (key_string k)" "es = (key_string k, b0) # es0"
    by (auto split: if_splits option.splits)
  have d: "zdepth v < f" "bdepth h < f" using 17(4) by auto
  obtain fp1 where a: "enc_append f E H prot (key_string k) v (doc, fp, ex) = Some (doc @ [(key_string k, b0)], fp1, ex)"
    using 17(1)[OF v(3) v(1) d(1) 17(5), of prot "key_string k" doc ex] by blast
  have w: "fp_winv fp1" using enc_steps(1)[OF a] 17(5) by (simp add: enc_step_def)
  show ?case using 17(2)[OF v(3) v(2) d(2) w, of prot b "doc @ [(key_string k, b0)]" ex] a v
    by (simp add: key_check_plain)
next
  case (16 E)
  then show ?case by auto
qed (case_tac f; auto simp: Let_def heap_view_def split: if_splits)+

section \<open>Decoding it\<close>

text \<open>The two type maps of the round trips: everything an array, and the default one.\<close>

definition native_typemap :: php_phongo_bson_typemap where
  "native_typemap = typemap_init\<lparr>tm_root_type := PHONGO_TYPEMAP_NATIVE_ARRAY,
     tm_document_type := PHONGO_TYPEMAP_NATIVE_ARRAY, tm_array_type := PHONGO_TYPEMAP_NATIVE_ARRAY\<rparr>"

definition rt_typemap :: "bool \<Rightarrow> php_phongo_bson_typemap" where
  "rt_typemap native = (if native then native_typemap else typemap_init)"

text \<open>
  An object as its constructor leaves it: initialised, C strings without null bytes, an
  ObjectId in the form libbson prints, regex options libbson keeps.  An Int64 object is
  not one: it is read back as an integer.  A binary of the user subtype 0x80 may be taken
  for a class name.
\<close>

fun plain_bval :: "bval \<Rightarrow> bool" and plain_elems :: "(string \<times> bval) list \<Rightarrow> bool" and plain_doc :: "bdoc \<Rightarrow> bool" where
  "plain_bval (BDocument d) = plain_doc d"
| "plain_bval (BArray d) = plain_doc d"
| "plain_bval (BCodeWScope s d) = plain_doc d"
| "plain_bval (BBinary t d) = (t \<noteq> 0x80)"
| "plain_bval _ = True"
| "plain_elems [] = True"
| "plain_elems ((k, v) # es) = (plain_bval v \<and> plain_elems es)"
| "plain_doc (BDoc es e) = plain_elems es"

fun obj_stable :: "encode_env \<Rightarrow> bool \<Rightarrow> bson_obj \<Rightarrow> bool" where
  "obj_stable E native (OObjectId s) = (oid_initialized s \<and> oid_oid s =
     bson_oid_to_string (ee_oid E) (bson_oid_init_from_string (ee_oid E) (c_str (oid_oid s))) @ [CHR 0x00])"
| "obj_stable E native (OUTCDateTime s) = udt_initialized s"
| "obj_stable E native (OBinary s) = (bin_data s \<noteq> None \<and> (native \<or> bin_type s \<noteq> 0x80))"
| "obj_stable E native (ODecimal128 s) = dec_initialized s"
| "obj_stable E native (ORegex s) = (case (re_pattern s, re_flags s) of
     (Some p, Some f) \<Rightarrow> c_str p = p \<and> c_str f = f \<and> ee_regex_options E f = f | _ \<Rightarrow> False)"
| "obj_stable E native (OJavascript s) = (case js_code s of
     Some c \<Rightarrow> c_str c = c \<and> (case js_scope s of None \<Rightarrow> True | Some d \<Rightarrow> doc_ok d \<and> plain_doc d \<and> ee_code_with_scope E c d = BCodeWScope c d)
   | None \<Rightarrow> False)"
| "obj_stable E native (OTimestamp s) = ts_initialized s"
| "obj_stable E native (ODBPointer s) = (case dbp_ref s of
     Some r \<Rightarrow> c_str r = r \<and> dbp_id s = bson_oid_to_string (ee_oid E) (bson_oid_init_from_string (ee_oid E) (dbp_id s))
   | None \<Rightarrow> False)"
| "obj_stable E native (OSymbol s) = (sym_symbol s \<noteq> None)"
| "obj_stable E native (OInt64 s) = False"
| "obj_stable E native _ = True"

text \<open>
  A tree that survives: tables are lists, or have distinct keys in the engine's normal form
  (no string key that is a decimal integer); under the default type map a document is a
  \<^verbatim>\<open>stdClass\<close> object, with string keys.
\<close>

definition key_normal :: "hkey \<Rightarrow> bool" where
  "key_normal k \<longleftrightarrow> symtable_key (key_string k) = k"

definition is_str_key :: "hkey \<Rightarrow> bool" where
  "is_str_key k = (case k of KStr _ \<Rightarrow> True | KInt _ \<Rightarrow> False)"

fun rt_tree :: "encode_env \<Rightarrow> bool \<Rightarrow> zval \<Rightarrow> bool"
  and rt_items :: "encode_env \<Rightarrow> bool \<Rightarrow> (hkey \<times> zval) list \<Rightarrow> bool" where
  "rt_tree E native (ZArray h) = (rt_items E native h \<and>
     (keys_from 0 h \<or> native \<and> distinct (map fst h) \<and> list_all (\<lambda>b. key_normal (fst b)) h))"
| "rt_tree E native (ZStd h) = (\<not> native \<and> rt_items E native h \<and> distinct (map fst h) \<and> list_all (\<lambda>b. is_str_key (fst b)) h)"
| "rt_tree E native (ZBson b) = obj_stable E native b"
| "rt_tree E native _ = True"
| "rt_items E native [] = True"
| "rt_items E native ((k, v) # h) = (rt_tree E native v \<and> rt_items E native h)"

definition envs_agree :: "encode_env \<Rightarrow> decode_env \<Rightarrow> bool" where
  "envs_agree E N \<longleftrightarrow> ee_sizeof_zend_long E = 8 \<and> de_sizeof_zend_long N = 8 \<and> de_oid N = ee_oid E"

lemma rt_object:
  "obj_stable E native b \<Longrightarrow> bson_obj_value E b = Some v \<Longrightarrow> envs_agree E N \<Longrightarrow> dec_value N tm path v = ZBson b"
  by (cases b) (auto simp: envs_agree_def php_phongo_objectid_new_from_oid_def php_phongo_bson_new_utcdatetime_from_epoch_def
      php_phongo_bson_new_binary_from_binary_and_type_def php_phongo_bson_new_decimal128_def
      php_phongo_bson_new_regex_from_regex_and_options_def php_phongo_bson_new_javascript_def
      php_phongo_bson_new_timestamp_from_increment_and_timestamp_def php_phongo_bson_new_dbpointer_def
      php_phongo_bson_new_symbol_def split: option.splits dest!: sym[of "BCodeWScope _ _"])

text \<open>Elements are appended one by one: in order for a list, under distinct keys for a document.\<close>

lemma next_index_list: "keys_from i h \<Longrightarrow> 0 \<le> i \<Longrightarrow> next_index h = (if h = [] then 0 else i + int (length h))"
proof (induction i h rule: keys_from.induct)
  case (3 idx i v h)
  then show ?case by (cases h) (auto simp: next_index_def)
qed (auto simp: next_index_def)

lemma keys_from_append:
  "keys_from i (h @ [(k, v)]) \<longleftrightarrow> keys_from i h \<and> k = KInt (i + int (length h))"
  by (induction i h rule: keys_from.induct) (auto, (cases k; auto)+)

lemma keys_from_prefix: "keys_from i (h @ g) \<Longrightarrow> keys_from i h"
  by (induction i h rule: keys_from.induct) auto

lemma keys_from_find: "keys_from i h \<Longrightarrow> j < i \<or> i + int (length h) \<le> j \<Longrightarrow> hash_find h (KInt j) = None"
  by (induction i h rule: keys_from.induct) auto

lemma add_next_list: "keys_from 0 (h @ [(k, v)]) \<Longrightarrow> add_next_index h v = h @ [(k, v)]"
  using next_index_list[of 0 h] keys_from_find[of 0 h "int (length h)"]
  by (auto simp: keys_from_append add_next_index_def hash_update_new)

lemma hash_find_fresh: "k \<notin> set (map fst h) \<Longrightarrow> hash_find h k = None"
  by (simp add: hash_find_def map_of_eq_None_iff)

text \<open>No element is taken for a class name, so the default type map makes \<^verbatim>\<open>stdClass\<close> objects.\<close>

lemma rt_no_pclass:
  "rt_tree E False v \<Longrightarrow> to_bval E v = Some b \<Longrightarrow> pclass_of C k b = None"
proof (cases v)
  case (ZBson x)
  assume "rt_tree E False v" "to_bval E v = Some b"
  then show ?thesis using ZBson
    by (cases x) (auto simp: pclass_of_def split: option.splits dest!: sym[of "BCodeWScope _ _"])
qed (auto simp: pclass_of_def bson_append_int_def split: if_splits)

lemma rt_no_odm:
  "rt_items E False h \<Longrightarrow> to_elems E h = Some es \<Longrightarrow> elems_odm C es odm = odm"
proof (induction h arbitrary: es)
  case (Cons x h)
  obtain k v where x: "x = (k, v)" by fastforce
  with Cons.prems obtain b es' where "to_bval E v = Some b" "to_elems E h = Some es'" "es = (key_string k, b) # es'"
    by (auto split: if_splits option.splits)
  moreover have "rt_tree E False v" "rt_items E False h" using Cons.prems x by auto
  ultimately show ?case using Cons.IH x by (simp add: elems_odm_def odm_step_other[OF rt_no_pclass])
qed (simp add: elems_odm_def)

lemma rt_values:
  "document_value C (rt_typemap m) path odm h = (if m then ZArray h else if odm = None then convert_to_object (ZArray h)
     else class_object C odm h)"
  "array_value C (rt_typemap m) path h = ZArray h"
  "root_value C (rt_typemap m) odm h = (if m then ZArray h else if odm = None then convert_to_object (ZArray h)
     else class_object C odm h)"
  by (auto simp: document_value_def array_value_def root_value_def rt_typemap_def native_typemap_def typemap_init_def path_entry_def)

lemma prop_symtable [simp]: "prop_key (symtable_key s) = KStr s"
  by (auto simp: symtable_key_def numeric_key_def Let_def split: option.splits prod.splits if_splits)

definition normal_item :: "hkey \<times> 'v \<Rightarrow> hkey \<times> 'v" where
  "normal_item b = (symtable_key (key_string (fst b)), snd b)"

lemma normal_item_sel [simp]: "fst (normal_item b) = symtable_key (key_string (fst b))" "snd (normal_item b) = snd b"
  by (simp_all add: normal_item_def)

lemma normal_items: "list_all (\<lambda>b. key_normal (fst b)) h \<Longrightarrow> map normal_item h = h"
  by (induction h) (auto simp: normal_item_def key_normal_def)

lemma distinct_normal:
  "distinct (map fst h) \<Longrightarrow> list_all (\<lambda>b. is_str_key (fst b)) h \<Longrightarrow> distinct (map fst (map normal_item h))"
proof (induction h)
  case (Cons x h)
  have "symtable_key (key_string (fst x)) \<notin> fst ` normal_item ` set h"
  proof
    assume "symtable_key (key_string (fst x)) \<in> fst ` normal_item ` set h"
    then obtain y where y: "y \<in> set h" "symtable_key (key_string (fst x)) = symtable_key (key_string (fst y))"
      by (auto simp: normal_item_def)
    then have "fst x = fst y" using Cons.prems symtable_key_inj[OF y(2)]
      by (cases "fst x"; cases "fst y") (auto simp: list_all_iff is_str_key_def)
    then show False using y(1) Cons.prems by auto
  qed
  then show ?case using Cons by (simp add: image_image)
qed simp

lemma convert_normal:
  "list_all (\<lambda>b. is_str_key (fst b)) h \<Longrightarrow> convert_to_object (ZArray (map normal_item h)) = ZStd h"
  by (induction h) (auto simp: normal_item_def is_str_key_def split: hkey.splits)

lemma rt_decode:
  "rt_tree E m z \<Longrightarrow> to_bval E z = Some b \<Longrightarrow> envs_agree E N \<Longrightarrow> dec_value N (rt_typemap m) path b = z"
  "rt_items E m h \<Longrightarrow> to_elems E h = Some es \<Longrightarrow> envs_agree E N \<Longrightarrow>
     (keys_from 0 (pre @ h) \<longrightarrow> dec_elems N (rt_typemap m) path True es pre = pre @ h)
   \<and> (distinct (map fst (pre @ map normal_item h)) \<longrightarrow>
        dec_elems N (rt_typemap m) path False es pre = pre @ map normal_item h)"
proof (induction E m z and E m h arbitrary: b path and es pre path rule: rt_tree_rt_items.induct)
  case (1 E m h)
  from 1(3) obtain es where es: "to_elems E h = Some es" by auto
  have i: "rt_items E m h" using 1(2) by simp
  note IH = 1(1)[OF i es 1(4), of "[]" path]
  show ?case
  proof (cases "keys_from 0 h")
    case True
    then show ?thesis using IH 1(3) es by (auto simp: rt_values)
  next
    case False
    then have "m" "distinct (map fst h)" "map normal_item h = h" using 1(2) normal_items by auto
    then show ?thesis using False IH 1(3) es by (auto simp: rt_values)
  qed
next
  case (2 E m h)
  from 2(3) obtain es where es: "to_elems E h = Some es" by auto
  have i: "\<not> m" "rt_items E m h" "distinct (map fst h)" "list_all (\<lambda>b. is_str_key (fst b)) h" using 2(2) by auto
  have "dec_elems N (rt_typemap m) path False es [] = map normal_item h"
    using 2(1)[OF i(2) es 2(4), of "[]" path] distinct_normal[OF i(3,4)] by simp
  then show ?case using 2(3) es i rt_no_odm[of E h es] convert_normal[OF i(4)] by (auto simp: rt_values)
next
  case (3 E m x)
  then show ?case using rt_object[of E m x b N] by auto
next
  case (6 E m k v h)
  from 6(4) obtain b0 es0 where v: "to_bval E v = Some b0" "to_elems E h = Some es0" "es = (key_string k, b0) # es0"
    by (auto split: if_splits option.splits)
  have r: "rt_tree E m v" "rt_items E m h" using 6(3) by auto
  have z: "dec_value N (rt_typemap m) (path @ [key_string k]) b0 = v" by (rule 6(1)[OF r(1) v(1) 6(5)])
  have kf: "keys_from 0 (pre @ [(k, v)])" if "keys_from 0 (pre @ (k, v) # h)"
    using that by (metis append.assoc append_Cons append_Nil keys_from_prefix)
  show ?case
    using z v(3) 6(2)[OF r(2) v(2) 6(5), of "pre @ [(k, v)]" path] 6(2)[OF r(2) v(2) 6(5), of "pre @ [normal_item (k, v)]" path]
      add_next_list[OF kf]
    by (auto simp: add_elem_def add_assoc_def normal_item_def hash_update_new hash_find_fresh)
qed (auto simp: envs_agree_def bson_append_int_def zval_int64_def split: if_splits)

lemma rt_object_ok: "obj_stable E m b \<Longrightarrow> bson_obj_value E b = Some v \<Longrightarrow> val_ok v"
  by (cases b) (auto split: option.splits dest!: sym[of "BCodeWScope _ _"])

lemma rt_val_ok:
  "rt_tree E m z \<Longrightarrow> to_bval E z = Some b \<Longrightarrow> val_ok b"
  "rt_items E m h \<Longrightarrow> to_elems E h = Some es \<Longrightarrow> elems_ok es"
proof (induction E m z and E m h arbitrary: b and es rule: rt_tree_rt_items.induct)
  case (3 E m x)
  then show ?case using rt_object_ok[of E m x b] by auto
next
  case (6 E m k v h)
  from 6(4) obtain b0 es0 where v: "to_bval E v = Some b0" "to_elems E h = Some es0" "es = (key_string k, b0) # es0"
    by (auto split: if_splits option.splits)
  then show ?case using 6 by auto
qed (auto simp: bson_append_int_def split: if_splits)

text \<open>No user method is called for such values, so none raises an exception.\<close>

lemma plain_no_odm: "plain_elems es \<Longrightarrow> elems_odm C es odm = odm"
proof (induction es arbitrary: odm)
  case (Cons x es)
  obtain k v where x: "x = (k, v)" by fastforce
  have "pclass_of C k v = None" using Cons.prems x by (cases v) (auto simp: pclass_of_def)
  then show ?case using Cons x by (simp add: elems_odm_def odm_step_other)
qed (simp add: elems_odm_def)

lemma rt_typemap_quiet:
  "document_quiet C (rt_typemap m) path odm h \<longleftrightarrow> m \<or> class_quiet C odm h"
  "array_quiet C (rt_typemap m) path h"
  "root_quiet C (rt_typemap m) odm h \<longleftrightarrow> m \<or> class_quiet C odm h"
  "class_quiet C None h"
  by (auto simp: document_quiet_def array_quiet_def root_quiet_def rt_typemap_def native_typemap_def typemap_init_def
      path_entry_def class_quiet_def split: option.splits)

lemma rt_typemap_init: "rt_typemap False = typemap_init"
  by (simp add: rt_typemap_def)

lemma root_quiet_init: "root_quiet C typemap_init odm h \<longleftrightarrow> class_quiet C odm h"
  using rt_typemap_quiet(3)[of C False odm h] by (simp add: rt_typemap_init)

lemma plain_quiet:
  "plain_bval v \<Longrightarrow> quiet_value N (rt_typemap False) path v"
  "plain_elems es \<Longrightarrow> quiet_elems N (rt_typemap False) path es"
  "plain_doc d \<Longrightarrow> quiet_doc N (rt_typemap False) path d"
proof (induction v and es and d arbitrary: path and path and path rule: plain_bval_plain_elems_plain_doc.induct)
  case (1 d)
  then show ?case by (cases d) (simp add: rt_typemap_quiet plain_no_odm)
next
  case (3 s d)
  then show ?case using "3.IH" by (cases d) (simp add: root_quiet_init rt_typemap_quiet(4) plain_no_odm rt_typemap_init)
qed (simp_all add: rt_typemap_quiet)

lemma rt_object_quiet:
  "obj_stable E m x \<Longrightarrow> bson_obj_value E x = Some b \<Longrightarrow> quiet_value N tm path b"
proof (cases b)
  case (BCodeWScope s d)
  assume "obj_stable E m x" "bson_obj_value E x = Some b"
  then have "plain_doc d" using BCodeWScope by (cases x) (auto split: option.splits)
  then show ?thesis using plain_quiet(3)[of d N "[]"] BCodeWScope
    by (cases d) (simp add: root_quiet_init rt_typemap_quiet(4) plain_no_odm rt_typemap_init)
next
  case (BDocument d)
  assume "obj_stable E m x" "bson_obj_value E x = Some b"
  then show ?thesis using BDocument by (cases x) (auto split: option.splits)
next
  case (BArray d)
  assume "obj_stable E m x" "bson_obj_value E x = Some b"
  then show ?thesis using BArray by (cases x) (auto split: option.splits)
qed simp_all

lemma rt_quiet:
  "rt_tree E m z \<Longrightarrow> to_bval E z = Some b \<Longrightarrow> quiet_value N (rt_typemap m) path b"
  "rt_items E m h \<Longrightarrow> to_elems E h = Some es \<Longrightarrow> quiet_elems N (rt_typemap m) path es"
proof (induction E m z and E m h arbitrary: b path and es path rule: rt_tree_rt_items.induct)
  case (1 E m h)
  then show ?case by (auto simp: rt_typemap_quiet)
next
  case (2 E m h)
  then show ?case using rt_no_odm[of E h] by (auto simp: rt_typemap_quiet)
next
  case (3 E m x)
  then show ?case using rt_object_quiet[of E m x b N "rt_typemap m" path] by simp
next
  case (6 E m k v h)
  from 6(4) obtain b0 es0 where "to_bval E v = Some b0" "to_elems E h = Some es0" "es = (key_string k, b0) # es0"
    by (auto split: if_splits option.splits)
  then show ?case using 6 by auto
qed (auto simp: bson_append_int_def split: if_splits)

section \<open>From PHP to BSON and back\<close>

text \<open>A root table: its keys are distinct and, for an array, in the engine's normal form.\<close>

definition rt_root :: "encode_env \<Rightarrow> bool \<Rightarrow> ht \<Rightarrow> bool" where
  "rt_root E native h \<longleftrightarrow> rt_items E native h \<and> distinct (map fst h) \<and>
     list_all (\<lambda>b. if native then key_normal (fst b) else is_str_key (fst b)) h"

definition root_zval :: "bool \<Rightarrow> ht \<Rightarrow> zval" where
  "root_zval native h = (if native then ZArray h else ZStd h)"

definition rt_state :: "bool \<Rightarrow> php_phongo_bson_state" where
  "rt_state native = bson_state_init\<lparr>st_map := rt_typemap native\<rparr>"

lemma rt_typemap_ok: "state_ok E (rt_state m)"
  using typemap_init_ok[of E]
  by (simp add: state_ok_def rt_state_def bson_state_init_def rt_typemap_def native_typemap_def typemap_nodes_ok_def
      typemap_init_def type_ok_def)

lemma root_encodes:
  assumes "to_elems E h = Some es" and "bdepth h < f"
  shows "php_phongo_zval_to_bson f E H False False (root_zval m h) [] ex = Some (es, None, ex)"
proof -
  have i: "\<not> class_instanceof E (ZStd h) type_ce" "\<not> class_instanceof E (ZStd h) serializable_ce"
    by (simp_all add: class_instanceof_def bson_ns_def)
  have w: "fp_winv php_phongo_field_path_alloc" by simp
  obtain fp' where "enc_internal f E H [] False (root_zval m h) ([], php_phongo_field_path_alloc, ex) = Some (False, True, es, fp', ex)"
    using enc_writes(2)[OF assms w, of H "[]" "\<not> m" "[]" ex] i
    by (cases m) (auto simp: internal_source_def root_zval_def)
  then show ?thesis
    by (cases m) (simp_all add: php_phongo_zval_to_bson_def root_zval_def heap_view_def del: enc_internal.simps)
qed

lemma root_decodes:
  assumes "rt_root E m h" and "to_elems E h = Some es" and "envs_agree E N"
  shows "decoded N (rt_state m) (BDoc es DocOk) = root_zval m h"
proof -
  have i: "rt_items E m h" "distinct (map fst h)" using assms(1) by (auto simp: rt_root_def)
  have d: "distinct (map fst (map normal_item h))"
    using assms(1) distinct_normal[of h] normal_items[of h] by (cases m) (auto simp: rt_root_def)
  have "dec_elems N (rt_typemap m) [] False es [] = map normal_item h"
    using rt_decode(2)[OF i(1) assms(2,3), of "[]" "[]"] d by simp
  then show ?thesis
    using assms(1,2) rt_no_odm[of E h es] i convert_normal[of h] normal_items[of h]
    by (auto simp: decoded_def rt_state_def bson_state_init_def rt_values root_zval_def rt_root_def)
qed

lemma root_quiet_rt:
  assumes "rt_root E m h" and "to_elems E h = Some es"
  shows "decode_quiet N (rt_state m) (BDoc es DocOk)"
  using rt_quiet(2)[of E m h es N "[]"] rt_no_odm[of E h es] assms
  by (cases m) (auto simp: decode_quiet_def rt_state_def bson_state_init_def rt_root_def rt_typemap_quiet)

lemma rt_decodes:
  assumes "rt_root E m h" and "to_elems E h = Some es" and "envs_agree E N"
  shows "\<exists>st. php_phongo_bson_to_zval_ex N (BufDocument (BDoc es DocOk) True) (rt_state m) [] = Some (True, st, [])
     \<and> st_zchild st = root_zval m h"
proof -
  have "doc_ok (BDoc es DocOk)" using rt_val_ok(2)[of E m h es] assms(1,2) by (auto simp: rt_root_def)
  from to_zval_ex_ok[OF rt_typemap_ok this, of N m "[]"] root_quiet_rt[OF assms(1,2), of N] show ?thesis
    using root_decodes[OF assms] by (auto simp: settles_def)
qed

lemma roundtrip:
  assumes "rt_root E m h" and "to_elems E h = Some es" and "envs_agree E N" and "bdepth h < f"
  shows "php_phongo_zval_to_bson f E H False False (root_zval m h) [] [] = Some (es, None, [])
    \<and> (\<exists>st. php_phongo_bson_to_zval_ex N (BufDocument (BDoc es DocOk) True) (rt_state m) [] = Some (True, st, [])
        \<and> st_zchild st = root_zval m h)"
  using root_encodes[OF assms(2,4)] rt_decodes[OF assms(1-3)] by auto

section \<open>An instance of the environments\<close>

text \<open>
  No user class but \<^verbatim>\<open>Doc\<close>, which implements Persistable and keeps its properties as they
  are; every string is UTF-8; libbson's options filter keeps the known flags.
\<close>

definition ref_class_env :: class_env where
  "ref_class_env = \<lparr>ce_fetch = (\<lambda>c. if c = ''Doc'' then Some c else None), ce_instantiable = (\<lambda>c. c = ''Doc''),
     ce_instanceof = (\<lambda>c i. c = ''Doc'' \<and> (i = persistable_ce \<or> i = unserializable_ce \<or> i = serializable_ce \<or> i = type_ce)),
     ce_to_string = (\<lambda>_. ''Array''), ce_bsonUnserialize = (\<lambda>c h. (h, None))\<rparr>"

definition ref_encode_env :: encode_env where
  "ref_encode_env = \<lparr>ee_classes = ref_class_env, ee_oid = ref_oid_ops, ee_utf8_validate = (\<lambda>_. True),
     ee_regex_options = filter (\<lambda>c. c \<in> set ''ilmsux''), ee_code_with_scope = (\<lambda>c d. BCodeWScope c d),
     ee_generated_oid = replicate 12 (CHR ''a''), ee_bsonSerialize = (\<lambda>c h. (ZArray h, None)),
     ee_get_properties = (\<lambda>_. []), ee_sizeof_zend_long = 8\<rparr>"

definition ref_decode_env :: decode_env where
  "ref_decode_env = \<lparr>de_classes = ref_class_env, de_oid = ref_oid_ops, de_sizeof_zend_long = 8\<rparr>"

end
