(* ===== verification/Bson_Javascript.thy ===== *)
theory Bson_Javascript
  imports Bson_Roundtrip
begin

text \<open>
  \<^verbatim>\<open>Javascript\<close> (BSON/Javascript.c): code with an optional scope.  The scope is encoded when
  the object is made and decoded when it is read, so its methods go through the encoder and
  the decoder and hand on what those raise.  A BSON document is never shorter than five
  bytes: a scope that is there has a length.  The outer None of a method is undefined
  behaviour, or no fuel left for the encoder.
\<close>

abbreviation javascript_ce_name :: string where "javascript_ce_name \<equiv> bson_ns ''Javascript''"

text \<open>Whether a value is an array or an object, wherever it lives.\<close>

definition is_compound :: "zval \<Rightarrow> bool" where
  "is_compound z \<longleftrightarrow> z_is_object z \<or> z_is_array z \<or> (case z of ZAddr _ \<Rightarrow> True | _ \<Rightarrow> False)"

definition php_phongo_javascript_init ::
    "nat \<Rightarrow> encode_env \<Rightarrow> heap \<Rightarrow> php_phongo_javascript_t \<Rightarrow> string \<Rightarrow> nat \<Rightarrow> zval option \<Rightarrow> exn list
       \<Rightarrow> (bool \<times> php_phongo_javascript_t \<times> exn list) option" where
  "php_phongo_javascript_init f E H intern code code_len scope ex =
     (case scope of
        Some z \<Rightarrow>
          if \<not> is_compound z \<and> z \<noteq> ZNull then
            Some (False, intern, phongo_throw_exception PHONGO_ERROR_INVALID_ARGUMENT
              (''Expected scope to be array or object, '' @ zval_class_or_type_name z @ '' given'') # ex)
          else if c_strlen code \<noteq> code_len then
            Some (False, intern, phongo_throw_exception PHONGO_ERROR_INVALID_ARGUMENT ''Code cannot contain null bytes'' # ex)
          else if is_compound z then
            (case php_phongo_zval_to_bson f E H False False z [] ex of
               None \<Rightarrow> None
             | Some (doc, _, ex1) \<Rightarrow>
                 Some (True, intern\<lparr>js_code := Some code, js_scope := Some (BDoc doc DocOk)\<rparr>, ex1))
          else Some (True, intern\<lparr>js_code := Some code, js_scope := None\<rparr>, ex)
      | None \<Rightarrow>
          if c_strlen code \<noteq> code_len then
            Some (False, intern, phongo_throw_exception PHONGO_ERROR_INVALID_ARGUMENT ''Code cannot contain null bytes'' # ex)
          else Some (True, intern\<lparr>js_code := Some code, js_scope := None\<rparr>, ex))"

definition php_phongo_javascript_init_from_hash ::
    "nat \<Rightarrow> encode_env \<Rightarrow> heap \<Rightarrow> php_phongo_javascript_t \<Rightarrow> ht \<Rightarrow> exn list
       \<Rightarrow> (bool \<times> php_phongo_javascript_t \<times> exn list) option" where
  "php_phongo_javascript_init_from_hash f E H intern props ex =
     (case hash_str_find props ''code'' of
        Some (ZString code) \<Rightarrow>
          php_phongo_javascript_init f E H intern code (length code) (hash_str_find props ''scope'') ex
      | _ \<Rightarrow> Some (False, intern, phongo_throw_exception PHONGO_ERROR_INVALID_ARGUMENT
               (javascript_ce_name @ '' initialization requires '' @ dquote ''code'' @ '' string field'') # ex))"

text \<open>Decode a scope document with the default state.\<close>

definition decode_scope :: "decode_env \<Rightarrow> bdoc \<Rightarrow> exn list \<Rightarrow> (bool \<times> zval \<times> exn list) option" where
  "decode_scope N d ex = php_phongo_bson_to_zval N (BufDocument d True) ex"

text \<open>The table, or None in the first component when decoding the scope fails.\<close>

definition php_phongo_javascript_get_properties_hash ::
    "decode_env \<Rightarrow> bool \<Rightarrow> ht option \<Rightarrow> php_phongo_javascript_t \<Rightarrow> exn list \<Rightarrow> (ht option \<times> exn list) option" where
  "php_phongo_javascript_get_properties_hash N is_temp cached intern ex =
     (let props = get_property_hash_init_props is_temp cached in
      case js_code intern of
        None \<Rightarrow> Some (Some props, ex)
      | Some code \<Rightarrow>
          (let props1 = hash_str_update props ''code'' (ZString (c_str code)) in
           case js_scope intern of
             Some d \<Rightarrow>
               (case decode_scope N d ex of
                  None \<Rightarrow> None
                | Some (ok, z, ex1) \<Rightarrow>
                    Some ((if ok then Some (hash_str_update props1 ''scope'' z) else None), ex1))
           | None \<Rightarrow> Some (Some (hash_str_update props1 ''scope'' ZNull), ex)))"

definition php_phongo_javascript_create_object :: php_phongo_javascript_t where
  "php_phongo_javascript_create_object = \<lparr>js_code = None, js_scope = None\<rparr>"

definition Javascript___construct ::
    "nat \<Rightarrow> encode_env \<Rightarrow> heap \<Rightarrow> string \<Rightarrow> zval option \<Rightarrow> php_phongo_javascript_t \<Rightarrow> exn list
       \<Rightarrow> (bool \<times> php_phongo_javascript_t \<times> exn list) option" where
  "Javascript___construct f E H code scope intern ex =
     php_phongo_javascript_init f E H intern code (length code) scope ex"

definition Javascript___set_state ::
    "nat \<Rightarrow> encode_env \<Rightarrow> heap \<Rightarrow> ht \<Rightarrow> exn list \<Rightarrow> (bool \<times> php_phongo_javascript_t \<times> exn list) option" where
  "Javascript___set_state f E H props ex =
     php_phongo_javascript_init_from_hash f E H php_phongo_javascript_create_object props ex"

definition js_code_bytes :: "php_phongo_javascript_t \<Rightarrow> string" where
  "js_code_bytes intern = (case js_code intern of None \<Rightarrow> [] | Some c \<Rightarrow> c)"

definition Javascript___toString :: "php_phongo_javascript_t \<Rightarrow> zval" where
  "Javascript___toString intern = ZString (js_code_bytes intern)"

definition Javascript_getCode :: "php_phongo_javascript_t \<Rightarrow> zval" where
  "Javascript_getCode intern = ZString (js_code_bytes intern)"

text \<open>A method that returns early leaves its return value null.\<close>

definition Javascript_getScope ::
    "decode_env \<Rightarrow> php_phongo_javascript_t \<Rightarrow> exn list \<Rightarrow> (zval \<times> exn list) option" where
  "Javascript_getScope N intern ex =
     (case js_scope intern of
        None \<Rightarrow> Some (ZNull, ex)
      | Some d \<Rightarrow> map_option (\<lambda>(ok, z, ex1). (if ok then z else ZNull, ex1)) (decode_scope N d ex))"

definition Javascript_jsonSerialize ::
    "decode_env \<Rightarrow> php_phongo_javascript_t \<Rightarrow> exn list \<Rightarrow> (zval \<times> exn list) option" where
  "Javascript_jsonSerialize N intern ex =
     (let h = [(KStr ''$code'', ZString (js_code_bytes intern))] in
      case js_scope intern of
        None \<Rightarrow> Some (ZArray h, ex)
      | Some d \<Rightarrow> map_option (\<lambda>(ok, z, ex1). (ZArray (if ok then h @ [(KStr ''$scope'', z)] else h), ex1))
                   (decode_scope N d ex))"

text \<open>None in the first component: nothing is returned.\<close>

definition Javascript_serialize ::
    "php_serializer \<Rightarrow> decode_env \<Rightarrow> php_phongo_javascript_t \<Rightarrow> exn list \<Rightarrow> (string option \<times> exn list) option" where
  "Javascript_serialize S N intern ex =
     (let ser = (\<lambda>z. var_serialize S (ZArray [(KStr ''code'', ZString (js_code_bytes intern)), (KStr ''scope'', z)])) in
      case js_scope intern of
        None \<Rightarrow> Some (Some (ser ZNull), ex)
      | Some d \<Rightarrow> map_option (\<lambda>(ok, z, ex1). (if ok then Some (ser z) else None, ex1)) (decode_scope N d ex))"

definition Javascript_unserialize ::
    "php_serializer \<Rightarrow> nat \<Rightarrow> encode_env \<Rightarrow> heap \<Rightarrow> string \<Rightarrow> php_phongo_javascript_t \<Rightarrow> exn list
       \<Rightarrow> (bool \<times> php_phongo_javascript_t \<times> exn list) option" where
  "Javascript_unserialize S f E H serialized intern ex =
     (case var_unserialize S serialized of
        None \<Rightarrow> Some (False, intern, phongo_throw_exception PHONGO_ERROR_UNEXPECTED_VALUE
                  (javascript_ce_name @ '' unserialization failed'') # ex)
      | Some props \<Rightarrow> (case HASH_OF S props of
          None \<Rightarrow> None
        | Some h \<Rightarrow> php_phongo_javascript_init_from_hash f E H intern h ex))"

definition Javascript___serialize ::
    "decode_env \<Rightarrow> php_phongo_javascript_t \<Rightarrow> exn list \<Rightarrow> (ht option \<times> exn list) option" where
  "Javascript___serialize N intern ex = php_phongo_javascript_get_properties_hash N True None intern ex"

definition Javascript___unserialize ::
    "nat \<Rightarrow> encode_env \<Rightarrow> heap \<Rightarrow> ht \<Rightarrow> php_phongo_javascript_t \<Rightarrow> exn list
       \<Rightarrow> (bool \<times> php_phongo_javascript_t \<times> exn list) option" where
  "Javascript___unserialize f E H data intern ex = php_phongo_javascript_init_from_hash f E H intern data ex"

text \<open>
  The clone hands its scope to libbson's \<^verbatim>\<open>bson_copy\<close>, which asserts that the document is
  there; None is that assertion failing, or \<^verbatim>\<open>strlen\<close> of the null code of an object that was
  never initialised.
\<close>

definition php_phongo_javascript_clone_object ::
    "nat \<Rightarrow> encode_env \<Rightarrow> heap \<Rightarrow> php_phongo_javascript_t \<Rightarrow> exn list \<Rightarrow> (php_phongo_javascript_t \<times> exn list) option" where
  "php_phongo_javascript_clone_object f E H intern ex =
     (case js_code intern of
        None \<Rightarrow> None
      | Some code \<Rightarrow>
         (case php_phongo_javascript_init f E H php_phongo_javascript_create_object code (length code) None ex of
            None \<Rightarrow> None
          | Some (_, new_intern, ex1) \<Rightarrow>
             (case js_scope intern of None \<Rightarrow> None | Some d \<Rightarrow> Some (new_intern\<lparr>js_scope := Some d\<rparr>, ex1))))"

text \<open>The scope is not compared.\<close>

definition php_phongo_javascript_compare_objects :: "php_phongo_javascript_t \<Rightarrow> php_phongo_javascript_t \<Rightarrow> int" where
  "php_phongo_javascript_compare_objects intern1 intern2 = c_strcmp (js_code_bytes intern1) (js_code_bytes intern2)"

section \<open>Properties\<close>

interpretation javascript_cmp: compare_handler php_phongo_javascript_compare_objects
    "\<lambda>s. c_str (js_code_bytes s)" "\<lambda>s. js_code s \<noteq> None"
  by unfold_locales (simp add: php_phongo_javascript_compare_objects_def c_strcmp_def)

lemma rt_decode_scope:
  assumes "rt_root E False h" and "to_elems E h = Some es" and "envs_agree E N"
  shows "decode_scope N (BDoc es DocOk) [] = Some (True, ZStd h, [])"
  using rt_decodes[OF assms]
  by (auto simp: rt_state_def rt_typemap_def bson_state_init_def root_zval_def decode_scope_def php_phongo_bson_to_zval_def)

text \<open>The scope given to the constructor is the one \<^verbatim>\<open>getScope\<close> returns.\<close>

lemma javascript_construct_scope:
  assumes "rt_root E False h" and "to_elems E h = Some es" and "envs_agree E N" and "bdepth h < f"
    and "CHR 0x00 \<notin> set code"
  shows "\<exists>js. Javascript___construct f E H code (Some (ZStd h)) s0 [] = Some (True, js, [])
    \<and> Javascript_getCode js = ZString code \<and> Javascript_getScope N js [] = Some (ZStd h, [])"
  using root_encodes[OF assms(2,4), of H False "[]"] rt_decode_scope[OF assms(1-3)] assms(5)
  by (auto simp: Javascript___construct_def php_phongo_javascript_init_def is_compound_def root_zval_def
      c_strlen_full_iff Javascript_getCode_def js_code_bytes_def Javascript_getScope_def)

text \<open>An object with a scope is cloned; one without is not: the copy asserts.\<close>

definition javascript_valid :: "php_phongo_javascript_t \<Rightarrow> bool" where
  "javascript_valid s \<longleftrightarrow> (case js_code s of None \<Rightarrow> False | Some c \<Rightarrow> CHR 0x00 \<notin> set c)"

lemma javascript_clone:
  assumes "javascript_valid s"
  shows "php_phongo_javascript_clone_object f E H s ex = (if js_scope s = None then None else Some (s, ex))"
  using assms by (cases s) (auto simp: javascript_valid_def php_phongo_javascript_clone_object_def
      php_phongo_javascript_init_def php_phongo_javascript_create_object_def c_strlen_full_iff
      split: option.splits)

lemma javascript_init_valid:
  assumes "php_phongo_javascript_init f E H s0 code (length code) scope ex = Some (True, s, ex1)"
  shows "javascript_valid s \<and> js_code s = Some code"
  using assms by (auto simp: php_phongo_javascript_init_def javascript_valid_def c_strlen_full_iff
      split: option.splits if_splits)

text \<open>Without a scope, the property table and the serialized form restore the object.\<close>

lemma javascript_plain_restored:
  assumes "javascript_valid s" and "js_scope s = None" and "serializer_contract S"
  shows "\<exists>h. Javascript___serialize N s ex = Some (Some h, ex) \<and> Javascript___unserialize f E H h s0 ex = Some (True, s, ex)"
    and "\<exists>t. Javascript_serialize S N s ex = Some (Some t, ex) \<and> Javascript_unserialize S f E H t s0 ex = Some (True, s, ex)"
  using assms by (cases s; auto simp: javascript_valid_def Javascript___serialize_def Javascript___unserialize_def
      Javascript_serialize_def Javascript_unserialize_def serializer_contract_def js_code_bytes_def
      php_phongo_javascript_get_properties_hash_def get_property_hash_init_props_def c_str_id is_compound_def
      php_phongo_javascript_init_from_hash_def php_phongo_javascript_init_def c_strlen_full_iff split: option.splits)+

end
