(* ===== verification/Driver_Options.thy ===== *)
theory Driver_Options
  imports Bson_Encode
begin

text \<open>
  What the option objects of the driver share: conversions of option values
  (contrib/php\_array\_api.h), the body of their \<^verbatim>\<open>unserialize\<close> methods, and the contract of
  their codecs as a locale.  The objects hold a libmongoc value that is opaque: what is read
  back from it is the view of an object, and a codec keeps the view.
\<close>

section \<open>Option values\<close>

text \<open>
  Truth of a PHP value (\<^verbatim>\<open>zend_is_true\<close>): a heap address stands for an object here, or an array
  that is shared, and counts as true.
\<close>

fun zend_is_true :: "zval \<Rightarrow> bool" where
  "zend_is_true ZUndef = False"
| "zend_is_true ZNull = False"
| "zend_is_true (ZBool b) = b"
| "zend_is_true (ZLong i) = (i \<noteq> 0)"
| "zend_is_true (ZDouble d) = (d \<noteq> 0 \<and> d \<noteq> 0x8000000000000000)"
| "zend_is_true (ZString s) = (s \<noteq> [] \<and> s \<noteq> ''0'')"
| "zend_is_true (ZArray h) = (h \<noteq> [])"
| "zend_is_true (ZRef z) = zend_is_true z"
| "zend_is_true _ = True"

definition php_array_zval_to_bool :: "zval option \<Rightarrow> bool" where
  "php_array_zval_to_bool z = (case z of None \<Rightarrow> False | Some v \<Rightarrow> zend_is_true v)"

definition php_array_fetch_bool :: "ht \<Rightarrow> string \<Rightarrow> bool" where
  "php_array_fetch_bool zarr key = php_array_zval_to_bool (php_array_fetch zarr key)"

text \<open>The engine's conversion of the other types to an integer is a parameter.\<close>

fun php_array_zval_to_long :: "(zval \<Rightarrow> int) \<Rightarrow> zval option \<Rightarrow> int" where
  "php_array_zval_to_long L None = 0"
| "php_array_zval_to_long L (Some ZNull) = 0"
| "php_array_zval_to_long L (Some (ZBool b)) = (if b then 1 else 0)"
| "php_array_zval_to_long L (Some (ZLong i)) = i"
| "php_array_zval_to_long L (Some (ZRef z)) = php_array_zval_to_long L (Some z)"
| "php_array_zval_to_long L (Some z) = L z"

definition php_array_fetch_long :: "(zval \<Rightarrow> int) \<Rightarrow> ht \<Rightarrow> string \<Rightarrow> int" where
  "php_array_fetch_long L zarr key = php_array_zval_to_long L (php_array_fetch zarr key)"

text \<open>An integer stored in a 32-bit variable.\<close>

definition int32_of :: "int \<Rightarrow> int" where
  "int32_of i = sint (of_int i :: 32 word)"

lemma int32_of_id: "int32_range i \<Longrightarrow> int32_of i = i"
  by (simp add: int32_of_def int32_range_def signed_of_int signed_take_bit_int_eq_self)

lemma int32_of_eq: "int32_of i = signed_take_bit 31 i"
  by (simp add: int32_of_def signed_of_int)

section \<open>Messages and outcomes\<close>

text \<open>"C initialization requires ..." of every \<^verbatim>\<open>init_from_hash\<close>.\<close>

definition init_requires :: "string \<Rightarrow> string \<Rightarrow> exn" where
  "init_requires class_name what = phongo_throw_exception PHONGO_ERROR_INVALID_ARGUMENT
     (class_name @ '' initialization requires '' @ what)"

abbreviation invalid_argument :: "string \<Rightarrow> exn" where
  "invalid_argument m \<equiv> phongo_throw_exception PHONGO_ERROR_INVALID_ARGUMENT m"

section \<open>Initialisers\<close>

text \<open>
  An initialiser is a sequence of steps, each of which may end it: whether to go on, the state
  so far, the exceptions.  None is undefined behaviour.
\<close>

type_synonym 's init_step = "(bool \<times> 's \<times> exn list) option"

definition init_then :: "'s init_step \<Rightarrow> ('s \<Rightarrow> exn list \<Rightarrow> 's init_step) \<Rightarrow> 's init_step" where
  "init_then r k = (case r of None \<Rightarrow> None
     | Some (ok, s, ex) \<Rightarrow> if ok then k s ex else Some (False, s, ex))"

abbreviation init_fail :: "'s \<Rightarrow> exn list \<Rightarrow> string \<Rightarrow> 's init_step" where
  "init_fail s ex m \<equiv> Some (False, s, invalid_argument m # ex)"

definition step_keeps :: "('s \<Rightarrow> bool) \<Rightarrow> 's init_step \<Rightarrow> bool" where
  "step_keeps P r \<longleftrightarrow> (\<forall>ok s ex. r = Some (ok, s, ex) \<longrightarrow> P s)"

lemma step_keeps_then:
  "step_keeps P r \<Longrightarrow> (\<And>s ex. P s \<Longrightarrow> step_keeps P (k s ex)) \<Longrightarrow> step_keeps P (init_then r k)"
  by (cases r) (auto simp: step_keeps_def init_then_def split_beta split: if_splits, metis)

lemma step_keeps_Some [simp]: "step_keeps P (Some (ok, s, ex)) = P s"
  by (simp add: step_keeps_def)

lemma step_keeps_None [simp]: "step_keeps P None"
  by (simp add: step_keeps_def)

section \<open>Serialisation\<close>

text \<open>
  The body of \<^verbatim>\<open>unserialize\<close> in the option classes: an empty string is left alone.  The outer
  None is a null table.
\<close>

definition unserialize_option ::
    "php_serializer \<Rightarrow> string \<Rightarrow> (ht \<Rightarrow> 's \<Rightarrow> 's \<times> exn option) \<Rightarrow> string \<Rightarrow> 's \<Rightarrow> ('s \<times> exn option) option" where
  "unserialize_option S class_name init serialized intern =
     (if serialized = [] then Some (intern, None)
      else (case var_unserialize S serialized of
              None \<Rightarrow> Some (intern, Some (phongo_throw_exception PHONGO_ERROR_UNEXPECTED_VALUE
                        (class_name @ '' unserialization failed'')))
            | Some props \<Rightarrow> (case HASH_OF S props of
                None \<Rightarrow> None
              | Some h \<Rightarrow> Some (init h intern))))"

text \<open>No value is written as the empty string.\<close>

definition serializer_nonempty :: "php_serializer \<Rightarrow> bool" where
  "serializer_nonempty S \<longleftrightarrow> (\<forall>h. var_serialize S (ZArray h) \<noteq> [])"

lemma ref_serializer_nonempty: "serializer_nonempty ref_serializer"
  by (simp add: serializer_nonempty_def ref_serializer_def)

locale php_view_codec =
  fixes valid :: "'s \<Rightarrow> bool"
    and serializable :: "'s \<Rightarrow> bool"
    and view :: "'s \<Rightarrow> 'v"
    and props_of :: "'s \<Rightarrow> ht"
    and serialized_array :: "'s \<Rightarrow> ht"
    and init_from_hash :: "ht \<Rightarrow> 's \<Rightarrow> 's \<times> exn option"
    and fresh :: 's
  assumes init_props: "valid s \<Longrightarrow> \<exists>t. init_from_hash (props_of s) fresh = (t, None) \<and> valid t \<and> view t = view s"
    and init_serialized: "valid s \<Longrightarrow> serializable s \<Longrightarrow>
      \<exists>t. init_from_hash (serialized_array s) fresh = (t, None) \<and> valid t \<and> view t = view s"
    and serialized_plain: "valid s \<Longrightarrow> serializable s \<Longrightarrow> plain_zval (ZArray (serialized_array s))"
begin

lemma view_determined: "valid s \<Longrightarrow> valid t \<Longrightarrow> props_of s = props_of t \<Longrightarrow> view s = view t"
  using init_props by (metis fst_conv)

lemma unserialize_view:
  assumes "valid s" and "serializable s" and "serializer_contract S" and "serializer_nonempty S"
  shows "\<exists>t. unserialize_option S n init_from_hash (var_serialize S (ZArray (serialized_array s))) fresh = Some (t, None)
    \<and> valid t \<and> view t = view s"
  using assms init_serialized[OF assms(1,2)] serialized_plain[OF assms(1,2)]
  by (simp add: unserialize_option_def serializer_contract_def serializer_nonempty_def)

end

end
