(* ===== verification/Driver_ReadConcern.thy ===== *)
theory Driver_ReadConcern
  imports Driver_Options
begin

text \<open>
  \<^verbatim>\<open>ReadConcern\<close> (MongoDB/ReadConcern.c, and the read concern functions of php\_phongo.c): an
  object that may hold a libmongoc read concern, whose level is a C string or not set.
\<close>

text \<open>libmongoc's read concern and what is documented of it: the level set is the level read.\<close>

record 'rc read_concern_ops =
  mongoc_read_concern_new :: 'rc
  mongoc_read_concern_set_level :: "'rc \<Rightarrow> string \<Rightarrow> 'rc"
  mongoc_read_concern_get_level :: "'rc \<Rightarrow> string option"
  mongoc_read_concern_is_default :: "'rc \<Rightarrow> bool"

definition read_concern_contract :: "'rc read_concern_ops \<Rightarrow> bool" where
  "read_concern_contract R \<longleftrightarrow> mongoc_read_concern_get_level R (mongoc_read_concern_new R) = None
     \<and> (\<forall>rc l. CHR 0x00 \<notin> set l \<longrightarrow> mongoc_read_concern_get_level R (mongoc_read_concern_set_level R rc l) = Some l)"

record 'rc php_phongo_readconcern_t =
  rcn_read_concern :: "'rc option"

abbreviation readconcern_ce_name :: string where "readconcern_ce_name \<equiv> driver_ns ''ReadConcern''"

definition php_phongo_readconcern_create_object :: "'rc php_phongo_readconcern_t" where
  "php_phongo_readconcern_create_object = \<lparr>rcn_read_concern = None\<rparr>"

definition phongo_readconcern_init :: "'rc \<Rightarrow> 'rc php_phongo_readconcern_t" where
  "phongo_readconcern_init read_concern = \<lparr>rcn_read_concern = Some read_concern\<rparr>"

definition php_phongo_readconcern_init_from_hash ::
    "'rc read_concern_ops \<Rightarrow> ht \<Rightarrow> 'rc php_phongo_readconcern_t \<Rightarrow> 'rc php_phongo_readconcern_t \<times> exn option" where
  "php_phongo_readconcern_init_from_hash R props intern =
     (case hash_str_find props ''level'' of
        None \<Rightarrow> (intern\<lparr>rcn_read_concern := Some (mongoc_read_concern_new R)\<rparr>, None)
      | Some (ZString level) \<Rightarrow>
          (intern\<lparr>rcn_read_concern := Some (mongoc_read_concern_set_level R (mongoc_read_concern_new R) (c_str level))\<rparr>, None)
      | Some _ \<Rightarrow> (intern\<lparr>rcn_read_concern := None\<rparr>,
          Some (init_requires readconcern_ce_name (dquote ''level'' @ '' string field''))))"

definition ReadConcern___construct ::
    "'rc read_concern_ops \<Rightarrow> string option \<Rightarrow> 'rc php_phongo_readconcern_t \<Rightarrow> 'rc php_phongo_readconcern_t" where
  "ReadConcern___construct R level intern = intern\<lparr>rcn_read_concern := Some
     (case level of None \<Rightarrow> mongoc_read_concern_new R
      | Some l \<Rightarrow> mongoc_read_concern_set_level R (mongoc_read_concern_new R) (c_str l))\<rparr>"

definition ReadConcern___set_state ::
    "'rc read_concern_ops \<Rightarrow> ht \<Rightarrow> 'rc php_phongo_readconcern_t \<times> exn option" where
  "ReadConcern___set_state R props = php_phongo_readconcern_init_from_hash R props php_phongo_readconcern_create_object"

text \<open>A method of an object without a read concern hands libmongoc a null pointer: None.\<close>

definition ReadConcern_getLevel :: "'rc read_concern_ops \<Rightarrow> 'rc php_phongo_readconcern_t \<Rightarrow> zval option" where
  "ReadConcern_getLevel R intern =
     map_option (\<lambda>rc. case mongoc_read_concern_get_level R rc of Some l \<Rightarrow> ZString (c_str l) | None \<Rightarrow> ZNull)
       (rcn_read_concern intern)"

definition ReadConcern_isDefault :: "'rc read_concern_ops \<Rightarrow> 'rc php_phongo_readconcern_t \<Rightarrow> bool option" where
  "ReadConcern_isDefault R intern = map_option (mongoc_read_concern_is_default R) (rcn_read_concern intern)"

definition php_phongo_readconcern_get_properties_hash ::
    "'rc read_concern_ops \<Rightarrow> bool \<Rightarrow> ht option \<Rightarrow> 'rc php_phongo_readconcern_t \<Rightarrow> ht" where
  "php_phongo_readconcern_get_properties_hash R is_temp cached intern =
     (let props = get_property_hash_init_props is_temp cached in
      case rcn_read_concern intern of
        None \<Rightarrow> props
      | Some rc \<Rightarrow> (case mongoc_read_concern_get_level R rc of
          Some level \<Rightarrow> hash_str_update props ''level'' (ZString (c_str level))
        | None \<Rightarrow> props))"

text \<open>\<^verbatim>\<open>php_phongo_read_concern_to_zval\<close> (php\_phongo.c).\<close>

definition php_phongo_read_concern_to_zval :: "'rc read_concern_ops \<Rightarrow> 'rc \<Rightarrow> zval" where
  "php_phongo_read_concern_to_zval R rc = ZArray (case mongoc_read_concern_get_level R rc of
     Some level \<Rightarrow> [(KStr ''level'', ZString (c_str level))] | None \<Rightarrow> [])"

definition ReadConcern_bsonSerialize :: "'rc read_concern_ops \<Rightarrow> 'rc php_phongo_readconcern_t \<Rightarrow> zval" where
  "ReadConcern_bsonSerialize R intern = ZStd (php_phongo_readconcern_get_properties_hash R True None intern)"

definition ReadConcern_serialized_array :: "'rc read_concern_ops \<Rightarrow> 'rc php_phongo_readconcern_t \<Rightarrow> ht" where
  "ReadConcern_serialized_array R intern =
     (case Option.bind (rcn_read_concern intern) (mongoc_read_concern_get_level R) of
        Some level \<Rightarrow> [(KStr ''level'', ZString (c_str level))] | None \<Rightarrow> [])"

text \<open>Nothing is returned without a read concern; a read concern without level is the empty string.\<close>

definition ReadConcern_serialize ::
    "php_serializer \<Rightarrow> 'rc read_concern_ops \<Rightarrow> 'rc php_phongo_readconcern_t \<Rightarrow> string option" where
  "ReadConcern_serialize S R intern =
     (case rcn_read_concern intern of
        None \<Rightarrow> None
      | Some rc \<Rightarrow> (case mongoc_read_concern_get_level R rc of
          None \<Rightarrow> Some []
        | Some level \<Rightarrow> Some (var_serialize S (ZArray (ReadConcern_serialized_array R intern)))))"

definition ReadConcern_unserialize ::
    "php_serializer \<Rightarrow> 'rc read_concern_ops \<Rightarrow> string \<Rightarrow> 'rc php_phongo_readconcern_t
       \<Rightarrow> ('rc php_phongo_readconcern_t \<times> exn option) option" where
  "ReadConcern_unserialize S R serialized intern =
     unserialize_option S readconcern_ce_name (php_phongo_readconcern_init_from_hash R) serialized intern"

definition ReadConcern___serialize :: "'rc read_concern_ops \<Rightarrow> 'rc php_phongo_readconcern_t \<Rightarrow> ht" where
  "ReadConcern___serialize R intern = php_phongo_readconcern_get_properties_hash R True None intern"

definition ReadConcern___unserialize ::
    "'rc read_concern_ops \<Rightarrow> ht \<Rightarrow> 'rc php_phongo_readconcern_t \<Rightarrow> 'rc php_phongo_readconcern_t \<times> exn option" where
  "ReadConcern___unserialize R data intern = php_phongo_readconcern_init_from_hash R data intern"

text \<open>An object's view is the level it reports; a level libmongoc returns is a C string.\<close>

definition readconcern_view :: "'rc read_concern_ops \<Rightarrow> 'rc php_phongo_readconcern_t \<Rightarrow> string option option" where
  "readconcern_view R s = map_option (mongoc_read_concern_get_level R) (rcn_read_concern s)"

definition readconcern_valid :: "'rc read_concern_ops \<Rightarrow> 'rc php_phongo_readconcern_t \<Rightarrow> bool" where
  "readconcern_valid R s \<longleftrightarrow> (\<exists>rc. rcn_read_concern s = Some rc
     \<and> (\<forall>l. mongoc_read_concern_get_level R rc = Some l \<longrightarrow> CHR 0x00 \<notin> set l))"

lemma readconcern_construct_valid:
  "read_concern_contract R \<Longrightarrow> readconcern_valid R (ReadConcern___construct R level s)"
  by (auto simp: readconcern_valid_def ReadConcern___construct_def read_concern_contract_def c_str_no_nul split: option.split)

text \<open>A read concern that is its level.\<close>

definition ref_read_concern_ops :: "string option read_concern_ops" where
  "ref_read_concern_ops = \<lparr>mongoc_read_concern_new = None, mongoc_read_concern_set_level = (\<lambda>rc l. Some l),
     mongoc_read_concern_get_level = id, mongoc_read_concern_is_default = (\<lambda>rc. rc = None)\<rparr>"

lemma ref_read_concern_contract: "read_concern_contract ref_read_concern_ops"
  by (simp add: read_concern_contract_def ref_read_concern_ops_def)

interpretation readconcern: php_view_codec "\<lambda>s. read_concern_contract R \<and> readconcern_valid R s"
    "\<lambda>s. readconcern_view R s \<noteq> Some None" "readconcern_view R"
    "php_phongo_readconcern_get_properties_hash R True None" "ReadConcern_serialized_array R"
    "php_phongo_readconcern_init_from_hash R" php_phongo_readconcern_create_object
  for R
  by unfold_locales (auto simp: readconcern_valid_def readconcern_view_def php_phongo_readconcern_get_properties_hash_def
      get_property_hash_init_props_def php_phongo_readconcern_init_from_hash_def php_phongo_readconcern_create_object_def
      ReadConcern_serialized_array_def read_concern_contract_def c_str_id split: option.splits)

text \<open>A read concern with a level survives its serialisation.\<close>

lemma readconcern_serialize_restores:
  assumes c: "read_concern_contract R" and S: "serializer_contract S" "serializer_nonempty S"
    and rc: "rc = ReadConcern___construct R (Some level) s0"
  shows "\<exists>t. ReadConcern_unserialize S R (the (ReadConcern_serialize S R rc)) php_phongo_readconcern_create_object = Some (t, None)
    \<and> readconcern_view R t = readconcern_view R rc"
proof -
  have v: "read_concern_contract R \<and> readconcern_valid R rc" using c rc readconcern_construct_valid by blast
  have l: "readconcern_view R rc = Some (Some (c_str level))"
    using c rc c_str_no_nul by (simp add: readconcern_view_def ReadConcern___construct_def read_concern_contract_def)
  then have "ReadConcern_serialize S R rc = Some (var_serialize S (ZArray (ReadConcern_serialized_array R rc)))"
    by (auto simp: ReadConcern_serialize_def readconcern_view_def)
  then show ?thesis
    using readconcern.unserialize_view[OF v _ S, of readconcern_ce_name] l by (auto simp: ReadConcern_unserialize_def)
qed

text \<open>The default read concern is serialised as the empty string, which restores nothing.\<close>

lemma readconcern_default_lost:
  assumes "read_concern_contract R"
  shows "ReadConcern_serialize S R (ReadConcern___construct R None s0) = Some []
    \<and> ReadConcern_unserialize S R [] php_phongo_readconcern_create_object = Some (php_phongo_readconcern_create_object, None)
    \<and> ReadConcern_getLevel R php_phongo_readconcern_create_object = None"
  using assms by (simp add: ReadConcern_serialize_def ReadConcern___construct_def read_concern_contract_def ReadConcern_unserialize_def
      unserialize_option_def ReadConcern_getLevel_def php_phongo_readconcern_create_object_def)

end
