(* ===== verification/Driver_WriteConcern.thy ===== *)
theory Driver_WriteConcern
  imports Driver_Options
begin

text \<open>
  \<^verbatim>\<open>WriteConcern\<close> (MongoDB/WriteConcern.c, and the write concern functions of php\_phongo.c): w
  (a number, a tag, or "majority"), the journal flag and the timeout.  libmongoc stores w in 32
  bits; the code hands it a 64-bit PHP integer.
\<close>

section \<open>libmongoc's write concern\<close>

record 'wc write_concern_ops =
  mongoc_write_concern_new :: 'wc
  mongoc_write_concern_set_w :: "'wc \<Rightarrow> int \<Rightarrow> 'wc"
  mongoc_write_concern_set_wtag :: "'wc \<Rightarrow> string \<Rightarrow> 'wc"
  mongoc_write_concern_set_journal :: "'wc \<Rightarrow> bool \<Rightarrow> 'wc"
  mongoc_write_concern_set_wtimeout_int64 :: "'wc \<Rightarrow> int \<Rightarrow> 'wc"
  mongoc_write_concern_get_w :: "'wc \<Rightarrow> int"
  mongoc_write_concern_get_wtag :: "'wc \<Rightarrow> string option"
  mongoc_write_concern_get_wmajority :: "'wc \<Rightarrow> bool"
  mongoc_write_concern_journal_is_set :: "'wc \<Rightarrow> bool"
  mongoc_write_concern_get_journal :: "'wc \<Rightarrow> bool"
  mongoc_write_concern_get_wtimeout_int64 :: "'wc \<Rightarrow> int"
  mongoc_write_concern_is_default :: "'wc \<Rightarrow> bool"
  mongoc_write_concern_is_valid :: "'wc \<Rightarrow> bool"
  mongoc_write_concern_is_acknowledged :: "'wc \<Rightarrow> bool"
  MONGOC_WRITE_CONCERN_W_UNACKNOWLEDGED :: int
  MONGOC_WRITE_CONCERN_W_ERRORS_IGNORED :: int
  MONGOC_WRITE_CONCERN_W_DEFAULT :: int
  MONGOC_WRITE_CONCERN_W_MAJORITY :: int
  MONGOC_WRITE_CONCERN_W_TAG :: int

text \<open>What can be read of a write concern.\<close>

record write_concern_view =
  wcv_wtag :: "string option"
  wcv_w :: int
  wcv_majority :: bool
  wcv_journal :: "bool option"
  wcv_wtimeout :: int

definition wc_view :: "'wc write_concern_ops \<Rightarrow> 'wc \<Rightarrow> write_concern_view" where
  "wc_view W wc = \<lparr>wcv_wtag = mongoc_write_concern_get_wtag W wc, wcv_w = mongoc_write_concern_get_w W wc,
     wcv_majority = mongoc_write_concern_get_wmajority W wc,
     wcv_journal = (if mongoc_write_concern_journal_is_set W wc then Some (mongoc_write_concern_get_journal W wc) else None),
     wcv_wtimeout = mongoc_write_concern_get_wtimeout_int64 W wc\<rparr>"

text \<open>
  The documented behaviour: a new write concern has nothing set; each setter is read back and
  leaves the others' values alone; a tag and the majority are not numbers; validity depends
  only on what can be read.
\<close>

definition write_concern_contract :: "'wc write_concern_ops \<Rightarrow> bool" where
  "write_concern_contract W \<longleftrightarrow>
     wc_view W (mongoc_write_concern_new W) = \<lparr>wcv_wtag = None, wcv_w = MONGOC_WRITE_CONCERN_W_DEFAULT W,
       wcv_majority = False, wcv_journal = None, wcv_wtimeout = 0\<rparr>
   \<and> (\<forall>wc w. -3 \<le> w \<longrightarrow> wc_view W (mongoc_write_concern_set_w W wc w) = (wc_view W wc)\<lparr>wcv_wtag := None, wcv_w := w,
       wcv_majority := (w = MONGOC_WRITE_CONCERN_W_MAJORITY W)\<rparr>)
   \<and> (\<forall>wc t. CHR 0x00 \<notin> set t \<longrightarrow> wc_view W (mongoc_write_concern_set_wtag W wc t) = (wc_view W wc)\<lparr>wcv_wtag := Some t,
       wcv_w := MONGOC_WRITE_CONCERN_W_TAG W, wcv_majority := False\<rparr>)
   \<and> (\<forall>wc b. wc_view W (mongoc_write_concern_set_journal W wc b) = (wc_view W wc)\<lparr>wcv_journal := Some b\<rparr>)
   \<and> (\<forall>wc t. wc_view W (mongoc_write_concern_set_wtimeout_int64 W wc t) = (wc_view W wc)\<lparr>wcv_wtimeout := t\<rparr>)
   \<and> (\<forall>a b. wc_view W a = wc_view W b \<longrightarrow> mongoc_write_concern_is_valid W a = mongoc_write_concern_is_valid W b)
   \<and> distinct [MONGOC_WRITE_CONCERN_W_UNACKNOWLEDGED W, MONGOC_WRITE_CONCERN_W_ERRORS_IGNORED W,
       MONGOC_WRITE_CONCERN_W_DEFAULT W, MONGOC_WRITE_CONCERN_W_MAJORITY W, MONGOC_WRITE_CONCERN_W_TAG W]
   \<and> -3 \<le> MONGOC_WRITE_CONCERN_W_MAJORITY W \<and> MONGOC_WRITE_CONCERN_W_MAJORITY W < 0
   \<and> -3 \<le> MONGOC_WRITE_CONCERN_W_UNACKNOWLEDGED W \<and> -3 \<le> MONGOC_WRITE_CONCERN_W_ERRORS_IGNORED W
   \<and> (\<forall>wc. mongoc_write_concern_get_journal W wc \<longrightarrow> mongoc_write_concern_journal_is_set W wc)"

lemma contract_valid:
  "write_concern_contract W \<Longrightarrow> wc_view W a = wc_view W b \<Longrightarrow>
     mongoc_write_concern_is_valid W a = mongoc_write_concern_is_valid W b"
  unfolding write_concern_contract_def by blast

lemma contract_views:
  assumes "write_concern_contract W"
  shows "wc_view W (mongoc_write_concern_set_journal W wc b) = (wc_view W wc)\<lparr>wcv_journal := Some b\<rparr>"
    and "wc_view W (mongoc_write_concern_set_wtimeout_int64 W wc t) = (wc_view W wc)\<lparr>wcv_wtimeout := t\<rparr>"
  using assms unfolding write_concern_contract_def by blast+

section \<open>The class\<close>

record 'wc php_phongo_writeconcern_t =
  wcn_write_concern :: "'wc option"

abbreviation writeconcern_ce_name :: string where "writeconcern_ce_name \<equiv> driver_ns ''WriteConcern''"

definition PHONGO_WRITE_CONCERN_W_MAJORITY :: string where
  "PHONGO_WRITE_CONCERN_W_MAJORITY = ''majority''"

definition php_phongo_writeconcern_create_object :: "'wc php_phongo_writeconcern_t" where
  "php_phongo_writeconcern_create_object = \<lparr>wcn_write_concern = None\<rparr>"

definition phongo_writeconcern_init :: "'wc \<Rightarrow> 'wc php_phongo_writeconcern_t" where
  "phongo_writeconcern_init write_concern = \<lparr>wcn_write_concern = Some write_concern\<rparr>"

text \<open>The libmongoc setter takes an \<^verbatim>\<open>int32_t\<close>; "majority" is a number of its own.\<close>

definition set_w_string :: "'wc write_concern_ops \<Rightarrow> 'wc \<Rightarrow> string \<Rightarrow> 'wc" where
  "set_w_string W wc s =
     (if c_str s = PHONGO_WRITE_CONCERN_W_MAJORITY then mongoc_write_concern_set_w W wc (MONGOC_WRITE_CONCERN_W_MAJORITY W)
      else mongoc_write_concern_set_wtag W wc (c_str s))"

definition w_forbids_journal :: "'wc write_concern_ops \<Rightarrow> 'wc \<Rightarrow> bool" where
  "w_forbids_journal W wc \<longleftrightarrow> mongoc_write_concern_get_w W wc = MONGOC_WRITE_CONCERN_W_UNACKNOWLEDGED W
     \<or> mongoc_write_concern_get_w W wc = MONGOC_WRITE_CONCERN_W_ERRORS_IGNORED W"

text \<open>
  The three fields of \<^verbatim>\<open>init_from_hash\<close>: Inl the exception and whether the write concern is
  destroyed, which a timeout string that is not a number is not followed by.
\<close>

definition hash_w :: "'wc write_concern_ops \<Rightarrow> ht \<Rightarrow> 'wc \<Rightarrow> exn + 'wc" where
  "hash_w W props wc = (case hash_str_find props ''w'' of
       None \<Rightarrow> Inr wc
     | Some (ZLong w) \<Rightarrow> if w < -3 then Inl (init_requires writeconcern_ce_name (dquote ''w'' @ '' integer field to be >= -3''))
                         else Inr (mongoc_write_concern_set_w W wc (int32_of w))
     | Some (ZString s) \<Rightarrow> Inr (set_w_string W wc s)
     | Some _ \<Rightarrow> Inl (init_requires writeconcern_ce_name (dquote ''w'' @ '' field to be integer or string'')))"

definition hash_wtimeout :: "strtoll_fn \<Rightarrow> 'wc write_concern_ops \<Rightarrow> ht \<Rightarrow> 'wc \<Rightarrow> (exn \<times> bool) + 'wc" where
  "hash_wtimeout strtoll W props wc = (case hash_str_find props ''wtimeout'' of
       None \<Rightarrow> Inr wc
     | Some (ZLong t) \<Rightarrow> if t < 0 then Inl (init_requires writeconcern_ce_name (dquote ''wtimeout'' @ '' integer field to be >= 0''), True)
                         else Inr (mongoc_write_concern_set_wtimeout_int64 W wc t)
     | Some (ZString s) \<Rightarrow> (case php_phongo_parse_int64 strtoll s (length s) of
          None \<Rightarrow> Inl (invalid_argument (''Error parsing '' @ dquote (c_str s) @ '' as 64-bit value for ''
                    @ writeconcern_ce_name @ '' initialization''), False)
        | Some timeout \<Rightarrow> Inr (mongoc_write_concern_set_wtimeout_int64 W wc timeout))
     | Some _ \<Rightarrow> Inl (init_requires writeconcern_ce_name (dquote ''wtimeout'' @ '' field to be integer or string''), True))"

definition hash_j :: "'wc write_concern_ops \<Rightarrow> ht \<Rightarrow> 'wc \<Rightarrow> exn + 'wc" where
  "hash_j W props wc = (case hash_str_find props ''j'' of
       None \<Rightarrow> Inr wc
     | Some (ZBool j) \<Rightarrow> if j \<and> w_forbids_journal W wc then Inl (invalid_argument ''Cannot enable journaling when using w = 0'')
                         else Inr (mongoc_write_concern_set_journal W wc j)
     | Some _ \<Rightarrow> Inl (init_requires writeconcern_ce_name (dquote ''j'' @ '' field to be boolean'')))"

definition php_phongo_writeconcern_init_from_hash ::
    "strtoll_fn \<Rightarrow> 'wc write_concern_ops \<Rightarrow> ht \<Rightarrow> 'wc php_phongo_writeconcern_t
       \<Rightarrow> 'wc php_phongo_writeconcern_t \<times> exn option" where
  "php_phongo_writeconcern_init_from_hash strtoll W props intern =
     (let failure = (\<lambda>e. (intern\<lparr>wcn_write_concern := None\<rparr>, Some e)) in
      case hash_w W props (mongoc_write_concern_new W) of
        Inl e \<Rightarrow> failure e
      | Inr wc1 \<Rightarrow>
         (case hash_wtimeout strtoll W props wc1 of
            Inl (e, destroyed) \<Rightarrow> if destroyed then failure e else (intern\<lparr>wcn_write_concern := Some wc1\<rparr>, Some e)
          | Inr wc2 \<Rightarrow>
             (case hash_j W props wc2 of
                Inl e \<Rightarrow> failure e
              | Inr wc3 \<Rightarrow>
                  if \<not> mongoc_write_concern_is_valid W wc3 then failure (invalid_argument ''Write concern is not valid'')
                  else (intern\<lparr>wcn_write_concern := Some wc3\<rparr>, None))))"

text \<open>
  The constructor; a missing third argument is None, and so is a missing second (which the
  first implies).  When it fails the object keeps the write concern made so far.
\<close>

definition construct_journal :: "'wc write_concern_ops \<Rightarrow> zval option \<Rightarrow> 'wc \<Rightarrow> exn + 'wc" where
  "construct_journal W journal wc = (case journal of
       None \<Rightarrow> Inr wc
     | Some z \<Rightarrow> if z = ZNull then Inr wc
         else if zend_is_true z \<and> w_forbids_journal W wc then Inl (invalid_argument ''Cannot enable journaling when using w = 0'')
         else Inr (mongoc_write_concern_set_journal W wc (zend_is_true z)))"

definition construct_wtimeout :: "'wc write_concern_ops \<Rightarrow> int option \<Rightarrow> 'wc \<Rightarrow> exn + 'wc" where
  "construct_wtimeout W wtimeout wc = (case wtimeout of
       None \<Rightarrow> Inr wc
     | Some t \<Rightarrow> if t < 0 then Inl (invalid_argument (''Expected wtimeout to be >= 0, '' @ dec_of_int t @ '' given''))
         else Inr (mongoc_write_concern_set_wtimeout_int64 W wc t))"

definition WriteConcern___construct ::
    "'wc write_concern_ops \<Rightarrow> zval \<Rightarrow> int option \<Rightarrow> zval option \<Rightarrow> 'wc php_phongo_writeconcern_t
       \<Rightarrow> 'wc php_phongo_writeconcern_t \<times> exn option" where
  "WriteConcern___construct W w wtimeout journal intern =
     (let keep = (\<lambda>wc e. (intern\<lparr>wcn_write_concern := Some wc\<rparr>, e));
          wc0 = mongoc_write_concern_new W in
      case (case w of
              ZLong i \<Rightarrow> if i < -3 then Inl (invalid_argument (''Expected w to be >= -3, '' @ dec_of_int i @ '' given''))
                         else Inr (mongoc_write_concern_set_w W wc0 (int32_of i))
            | ZString s \<Rightarrow> Inr (set_w_string W wc0 s)
            | _ \<Rightarrow> Inl (invalid_argument (''Expected w to be integer or string, '' @ zval_class_or_type_name w @ '' given''))) of
        Inl e \<Rightarrow> keep wc0 (Some e)
      | Inr wc1 \<Rightarrow>
         (case construct_journal W journal wc1 of
            Inl e \<Rightarrow> keep wc1 (Some e)
          | Inr wc2 \<Rightarrow>
             (case construct_wtimeout W wtimeout wc2 of
                Inl e \<Rightarrow> keep wc2 (Some e)
              | Inr wc3 \<Rightarrow> keep wc3 (if mongoc_write_concern_is_valid W wc3 then None
                                     else Some (invalid_argument ''Write concern is not valid'')))))"

definition WriteConcern___set_state ::
    "strtoll_fn \<Rightarrow> 'wc write_concern_ops \<Rightarrow> ht \<Rightarrow> 'wc php_phongo_writeconcern_t \<times> exn option" where
  "WriteConcern___set_state strtoll W props =
     php_phongo_writeconcern_init_from_hash strtoll W props php_phongo_writeconcern_create_object"

text \<open>w as the class shows it: the tag, "majority", the number, or nothing by default.\<close>

definition w_zval :: "'wc write_concern_ops \<Rightarrow> 'wc \<Rightarrow> zval option" where
  "w_zval W wc = (case mongoc_write_concern_get_wtag W wc of
       Some t \<Rightarrow> Some (ZString (c_str t))
     | None \<Rightarrow> if mongoc_write_concern_get_wmajority W wc then Some (ZString PHONGO_WRITE_CONCERN_W_MAJORITY)
         else if mongoc_write_concern_get_w W wc \<noteq> MONGOC_WRITE_CONCERN_W_DEFAULT W
         then Some (ZLong (mongoc_write_concern_get_w W wc)) else None)"

definition WriteConcern_getW :: "'wc write_concern_ops \<Rightarrow> 'wc php_phongo_writeconcern_t \<Rightarrow> zval option" where
  "WriteConcern_getW W intern =
     map_option (\<lambda>wc. case w_zval W wc of Some z \<Rightarrow> z | None \<Rightarrow> ZNull) (wcn_write_concern intern)"

definition zend_long_of :: "nat \<Rightarrow> int \<Rightarrow> int" where
  "zend_long_of sizeof_zend_long i = (if sizeof_zend_long = 4 then int32_of i else i)"

text \<open>On a 32-bit platform a timeout out of range is truncated with a warning.\<close>

definition WriteConcern_getWtimeout :: "nat \<Rightarrow> 'wc write_concern_ops \<Rightarrow> 'wc php_phongo_writeconcern_t \<Rightarrow> zval option" where
  "WriteConcern_getWtimeout sizeof_zend_long W intern =
     map_option (\<lambda>wc. ZLong (zend_long_of sizeof_zend_long (mongoc_write_concern_get_wtimeout_int64 W wc))) (wcn_write_concern intern)"

definition WriteConcern_getJournal :: "'wc write_concern_ops \<Rightarrow> 'wc php_phongo_writeconcern_t \<Rightarrow> zval option" where
  "WriteConcern_getJournal W intern =
     map_option (\<lambda>wc. if mongoc_write_concern_journal_is_set W wc then ZBool (mongoc_write_concern_get_journal W wc) else ZNull)
       (wcn_write_concern intern)"

definition WriteConcern_isDefault :: "'wc write_concern_ops \<Rightarrow> 'wc php_phongo_writeconcern_t \<Rightarrow> bool option" where
  "WriteConcern_isDefault W intern = map_option (mongoc_write_concern_is_default W) (wcn_write_concern intern)"

text \<open>The timeout in a property table: by the purpose of the table and the platform.\<close>

definition int_or_string :: "int \<Rightarrow> zval" where
  "int_or_string t = (if t > 2147483647 \<or> t < - 2147483648 then zval_int64_string t else ZLong t)"

definition wtimeout_zval :: "nat \<Rightarrow> bool \<Rightarrow> bool \<Rightarrow> int \<Rightarrow> zval" where
  "wtimeout_zval sizeof_zend_long is_bson is_serialize t =
     (if is_bson then zval_int64 sizeof_zend_long t
      else if is_serialize then int_or_string t
      else if sizeof_zend_long = 4 then int_or_string t
      else ZLong t)"

definition update_some :: "ht \<Rightarrow> string \<Rightarrow> zval option \<Rightarrow> ht" where
  "update_some props key z = (case z of Some v \<Rightarrow> hash_str_update props key v | None \<Rightarrow> props)"

definition journal_zval :: "'wc write_concern_ops \<Rightarrow> 'wc \<Rightarrow> zval option" where
  "journal_zval W wc = (if mongoc_write_concern_journal_is_set W wc then Some (ZBool (mongoc_write_concern_get_journal W wc)) else None)"

definition php_phongo_writeconcern_get_properties_hash ::
    "nat \<Rightarrow> 'wc write_concern_ops \<Rightarrow> bool \<Rightarrow> bool \<Rightarrow> bool \<Rightarrow> ht option \<Rightarrow> 'wc php_phongo_writeconcern_t \<Rightarrow> ht" where
  "php_phongo_writeconcern_get_properties_hash sizeof_zend_long W is_temp is_bson is_serialize cached intern =
     (let props = get_property_hash_init_props is_temp cached in
      case wcn_write_concern intern of
        None \<Rightarrow> props
      | Some wc \<Rightarrow>
          (let wtimeout = mongoc_write_concern_get_wtimeout_int64 W wc in
           update_some (update_some (update_some props ''w'' (w_zval W wc)) ''j'' (journal_zval W wc)) ''wtimeout''
             (if wtimeout \<noteq> 0 then Some (wtimeout_zval sizeof_zend_long is_bson is_serialize wtimeout) else None)))"

definition WriteConcern_bsonSerialize :: "nat \<Rightarrow> 'wc write_concern_ops \<Rightarrow> 'wc php_phongo_writeconcern_t \<Rightarrow> zval" where
  "WriteConcern_bsonSerialize sizeof_zend_long W intern =
     ZStd (php_phongo_writeconcern_get_properties_hash sizeof_zend_long W True True False None intern)"

definition WriteConcern_serialized_array :: "'wc write_concern_ops \<Rightarrow> 'wc php_phongo_writeconcern_t \<Rightarrow> ht" where
  "WriteConcern_serialized_array W intern = (case wcn_write_concern intern of None \<Rightarrow> []
     | Some wc \<Rightarrow>
         (let wtimeout = mongoc_write_concern_get_wtimeout_int64 W wc in
          update_some (update_some (update_some [] ''w'' (w_zval W wc)) ''j'' (journal_zval W wc)) ''wtimeout''
            (if wtimeout \<noteq> 0 then Some (int_or_string wtimeout) else None)))"

definition WriteConcern_serialize ::
    "php_serializer \<Rightarrow> 'wc write_concern_ops \<Rightarrow> 'wc php_phongo_writeconcern_t \<Rightarrow> string option" where
  "WriteConcern_serialize S W intern =
     map_option (\<lambda>wc. var_serialize S (ZArray (WriteConcern_serialized_array W intern))) (wcn_write_concern intern)"

definition WriteConcern_unserialize ::
    "php_serializer \<Rightarrow> strtoll_fn \<Rightarrow> 'wc write_concern_ops \<Rightarrow> string \<Rightarrow> 'wc php_phongo_writeconcern_t
       \<Rightarrow> ('wc php_phongo_writeconcern_t \<times> exn option) option" where
  "WriteConcern_unserialize S strtoll W serialized intern =
     unserialize_option S writeconcern_ce_name (php_phongo_writeconcern_init_from_hash strtoll W) serialized intern"

definition WriteConcern___serialize :: "nat \<Rightarrow> 'wc write_concern_ops \<Rightarrow> 'wc php_phongo_writeconcern_t \<Rightarrow> ht" where
  "WriteConcern___serialize sizeof_zend_long W intern =
     php_phongo_writeconcern_get_properties_hash sizeof_zend_long W True False True None intern"

definition WriteConcern___unserialize ::
    "strtoll_fn \<Rightarrow> 'wc write_concern_ops \<Rightarrow> ht \<Rightarrow> 'wc php_phongo_writeconcern_t \<Rightarrow> 'wc php_phongo_writeconcern_t \<times> exn option" where
  "WriteConcern___unserialize strtoll W data intern = php_phongo_writeconcern_init_from_hash strtoll W data intern"

text \<open>
  \<^verbatim>\<open>php_phongo_write_concern_to_zval\<close> (php\_phongo.c).  On a 32-bit platform a timeout out of
  range is added to \<^verbatim>\<open>&retval\<close>, the address of the pointer instead of the array: None.
\<close>

definition php_phongo_write_concern_to_zval :: "nat \<Rightarrow> 'wc write_concern_ops \<Rightarrow> 'wc \<Rightarrow> zval option" where
  "php_phongo_write_concern_to_zval sizeof_zend_long W wc =
     (let wtimeout = mongoc_write_concern_get_wtimeout_int64 W wc in
      if sizeof_zend_long = 4 \<and> (wtimeout > 2147483647 \<or> wtimeout < - 2147483648) then None
      else Some (ZArray (update_some (update_some (update_some [] ''w'' (w_zval W wc)) ''j'' (journal_zval W wc)) ''wtimeout''
        (if wtimeout \<noteq> 0 then Some (ZLong wtimeout) else None))))"

section \<open>The codec\<close>

lemma find_update_some [simp]:
  "hash_str_find (update_some h k z) k' = (if k = k' \<and> z \<noteq> None then z else hash_str_find h k')"
  by (auto simp: update_some_def split: option.splits)

text \<open>A write concern as the class can make it.\<close>

definition wcv_possible :: "'wc write_concern_ops \<Rightarrow> write_concern_view \<Rightarrow> bool" where
  "wcv_possible W v \<longleftrightarrow>
     (case wcv_wtag v of
        Some t \<Rightarrow> CHR 0x00 \<notin> set t \<and> t \<noteq> PHONGO_WRITE_CONCERN_W_MAJORITY \<and> wcv_w v = MONGOC_WRITE_CONCERN_W_TAG W
          \<and> \<not> wcv_majority v
      | None \<Rightarrow> wcv_majority v = (wcv_w v = MONGOC_WRITE_CONCERN_W_MAJORITY W)
          \<and> (wcv_w v = MONGOC_WRITE_CONCERN_W_DEFAULT W \<or> -3 \<le> wcv_w v \<and> wcv_w v \<le> 2147483647))
     \<and> (wcv_journal v = Some True \<longrightarrow> wcv_w v \<noteq> MONGOC_WRITE_CONCERN_W_UNACKNOWLEDGED W
          \<and> wcv_w v \<noteq> MONGOC_WRITE_CONCERN_W_ERRORS_IGNORED W)
     \<and> int64_range (wcv_wtimeout v) \<and> 0 \<le> wcv_wtimeout v"

definition writeconcern_valid :: "'wc write_concern_ops \<Rightarrow> 'wc php_phongo_writeconcern_t \<Rightarrow> bool" where
  "writeconcern_valid W s \<longleftrightarrow> (\<exists>wc. wcn_write_concern s = Some wc \<and> mongoc_write_concern_is_valid W wc
     \<and> wcv_possible W (wc_view W wc))"

definition writeconcern_view :: "'wc write_concern_ops \<Rightarrow> 'wc php_phongo_writeconcern_t \<Rightarrow> write_concern_view option" where
  "writeconcern_view W s = map_option (wc_view W) (wcn_write_concern s)"

text \<open>What the class shows, from the view.\<close>

lemma w_zval_view:
  "w_zval W wc = (case wcv_wtag (wc_view W wc) of Some t \<Rightarrow> Some (ZString (c_str t))
     | None \<Rightarrow> if wcv_majority (wc_view W wc) then Some (ZString PHONGO_WRITE_CONCERN_W_MAJORITY)
         else if wcv_w (wc_view W wc) \<noteq> MONGOC_WRITE_CONCERN_W_DEFAULT W then Some (ZLong (wcv_w (wc_view W wc))) else None)"
  by (cases "mongoc_write_concern_get_wtag W wc") (auto simp: w_zval_def wc_view_def)

lemma journal_zval_view: "journal_zval W wc = map_option ZBool (wcv_journal (wc_view W wc))"
  by (simp add: journal_zval_def wc_view_def)

lemma w_forbids_view:
  "w_forbids_journal W wc \<longleftrightarrow> wcv_w (wc_view W wc) = MONGOC_WRITE_CONCERN_W_UNACKNOWLEDGED W
     \<or> wcv_w (wc_view W wc) = MONGOC_WRITE_CONCERN_W_ERRORS_IGNORED W"
  by (simp add: w_forbids_journal_def wc_view_def)

lemma c_str_majority [simp]: "c_str PHONGO_WRITE_CONCERN_W_MAJORITY = PHONGO_WRITE_CONCERN_W_MAJORITY"
  by (simp add: PHONGO_WRITE_CONCERN_W_MAJORITY_def c_str_def)

lemma hash_w_restores:
  assumes "write_concern_contract W" and "wcv_possible W (wc_view W wc)" and "hash_str_find h ''w'' = w_zval W wc"
  shows "\<exists>wc1. hash_w W h (mongoc_write_concern_new W) = Inr wc1
    \<and> wc_view W wc1 = (wc_view W wc)\<lparr>wcv_journal := None, wcv_wtimeout := 0\<rparr>"
proof (cases "wcv_wtag (wc_view W wc)")
  case (Some t)
  then show ?thesis using assms
    by (auto simp: hash_w_def w_zval_view set_w_string_def write_concern_contract_def wcv_possible_def c_str_id)
next
  case None
  have m: "-3 \<le> MONGOC_WRITE_CONCERN_W_MAJORITY W" using assms(1) by (simp add: write_concern_contract_def)
  show ?thesis
  proof (cases "wcv_w (wc_view W wc) = MONGOC_WRITE_CONCERN_W_DEFAULT W")
    case True
    then have "\<not> wcv_majority (wc_view W wc)"
      using assms(1,2) None by (auto simp: wcv_possible_def write_concern_contract_def)
    then show ?thesis using None True assms
      by (simp add: hash_w_def w_zval_view write_concern_contract_def)
  next
    case False
    then have r: "-3 \<le> wcv_w (wc_view W wc)" "int32_range (wcv_w (wc_view W wc))"
      "wcv_majority (wc_view W wc) = (wcv_w (wc_view W wc) = MONGOC_WRITE_CONCERN_W_MAJORITY W)"
      using assms(2) None by (auto simp: wcv_possible_def int32_range_def)
    then show ?thesis using None False assms m
      by (auto simp: hash_w_def w_zval_view set_w_string_def write_concern_contract_def int32_of_id)
  qed
qed

lemma hash_wtimeout_restores:
  assumes "write_concern_contract W" and "strtoll_contract f" and "int64_range t" and "0 \<le> t"
    and "wcv_wtimeout (wc_view W wc) = 0"
    and "hash_str_find h ''wtimeout'' = (if t \<noteq> 0 then Some z else None)" and "z = ZLong t \<or> z = ZString (dec_of_int t)"
  shows "\<exists>wc1. hash_wtimeout f W h wc = Inr wc1 \<and> wc_view W wc1 = (wc_view W wc)\<lparr>wcv_wtimeout := t\<rparr>"
  using assms parse_int64_dec[OF assms(2,3)] by (auto simp: hash_wtimeout_def write_concern_contract_def)

lemma hash_j_restores:
  assumes "write_concern_contract W" and "hash_str_find h ''j'' = map_option ZBool j"
    and "j = Some True \<longrightarrow> \<not> w_forbids_journal W wc" and "wcv_journal (wc_view W wc) = None"
  shows "\<exists>wc1. hash_j W h wc = Inr wc1 \<and> wc_view W wc1 = (wc_view W wc)\<lparr>wcv_journal := j\<rparr>"
  using assms by (cases j) (auto simp: hash_j_def write_concern_contract_def)

lemma writeconcern_restores:
  assumes c: "write_concern_contract W" and f: "strtoll_contract f"
    and v: "mongoc_write_concern_is_valid W wc" "wcv_possible W (wc_view W wc)"
    and h: "hash_str_find h ''w'' = w_zval W wc" "hash_str_find h ''j'' = journal_zval W wc"
      "hash_str_find h ''wtimeout'' = (if mongoc_write_concern_get_wtimeout_int64 W wc \<noteq> 0 then Some z else None)"
      "z = ZLong (mongoc_write_concern_get_wtimeout_int64 W wc) \<or> z = ZString (dec_of_int (mongoc_write_concern_get_wtimeout_int64 W wc))"
  shows "\<exists>t. php_phongo_writeconcern_init_from_hash f W h s0 = (t, None)
    \<and> writeconcern_valid W t \<and> writeconcern_view W t = Some (wc_view W wc)"
proof -
  let ?v = "wc_view W wc"
  have t: "mongoc_write_concern_get_wtimeout_int64 W wc = wcv_wtimeout ?v" by (simp add: wc_view_def)
  obtain wc1 where 1: "hash_w W h (mongoc_write_concern_new W) = Inr wc1"
      "wc_view W wc1 = ?v\<lparr>wcv_journal := None, wcv_wtimeout := 0\<rparr>"
    using hash_w_restores[OF c v(2) h(1)] by blast
  have r: "int64_range (wcv_wtimeout ?v)" "0 \<le> wcv_wtimeout ?v" using v(2) by (simp_all add: wcv_possible_def)
  obtain wc2 where 2: "hash_wtimeout f W h wc1 = Inr wc2" "wc_view W wc2 = ?v\<lparr>wcv_journal := None\<rparr>"
    using hash_wtimeout_restores[OF c f r, of wc1 h z] h(3,4) 1(2) unfolding t by auto
  have "wcv_journal ?v = Some True \<longrightarrow> \<not> w_forbids_journal W wc2"
    using v(2) 2(2) by (auto simp: wcv_possible_def w_forbids_view)
  then obtain wc3 where 3: "hash_j W h wc2 = Inr wc3" "wc_view W wc3 = ?v"
    using hash_j_restores[OF c, of h "wcv_journal ?v" wc2] h(2) 2(2) by (auto simp: journal_zval_view)
  have "mongoc_write_concern_is_valid W wc3" using contract_valid[OF c 3(2)] v(1) by simp
  then show ?thesis using 1(1) 2(1) 3 v(2)
    by (simp add: php_phongo_writeconcern_init_from_hash_def writeconcern_valid_def writeconcern_view_def)
qed

lemma int_or_string_cases: "int_or_string t = ZLong t \<or> int_or_string t = ZString (dec_of_int t)"
  by (simp add: int_or_string_def zval_int64_string_def)

lemma plain_update_some: "plain_buckets h \<Longrightarrow> z = None \<or> plain_zval (the z) \<Longrightarrow> plain_buckets (update_some h k z)"
proof -
  have "plain_buckets h \<Longrightarrow> plain_zval v \<Longrightarrow> plain_buckets (hash_update h q v)" for q v
    by (induction h q v rule: hash_update.induct) auto
  then show "plain_buckets h \<Longrightarrow> z = None \<or> plain_zval (the z) \<Longrightarrow> ?thesis" by (cases z) (auto simp: update_some_def)
qed

interpretation writeconcern: php_view_codec
    "\<lambda>s. write_concern_contract W \<and> strtoll_contract f \<and> writeconcern_valid W s" "\<lambda>s. True" "writeconcern_view W"
    "php_phongo_writeconcern_get_properties_hash n W True False ser None" "WriteConcern_serialized_array W"
    "php_phongo_writeconcern_init_from_hash f W" php_phongo_writeconcern_create_object
  for W f n ser
proof unfold_locales
  fix s assume "write_concern_contract W \<and> strtoll_contract f \<and> writeconcern_valid W s"
  then obtain wc where c: "write_concern_contract W" "strtoll_contract f" and s: "wcn_write_concern s = Some wc"
    and v: "mongoc_write_concern_is_valid W wc" "wcv_possible W (wc_view W wc)" by (auto simp: writeconcern_valid_def)
  have view: "writeconcern_view W s = Some (wc_view W wc)" by (simp add: writeconcern_view_def s)
  let ?t = "mongoc_write_concern_get_wtimeout_int64 W wc"
  let ?p = "php_phongo_writeconcern_get_properties_hash n W True False ser None s"
  let ?a = "WriteConcern_serialized_array W s"
  have p: "?p = update_some (update_some (update_some [] ''w'' (w_zval W wc)) ''j'' (journal_zval W wc)) ''wtimeout''
      (if ?t \<noteq> 0 then Some (wtimeout_zval n False ser ?t) else None)"
    by (simp add: php_phongo_writeconcern_get_properties_hash_def s Let_def get_property_hash_init_props_def)
  have a: "?a = update_some (update_some (update_some [] ''w'' (w_zval W wc)) ''j'' (journal_zval W wc)) ''wtimeout''
      (if ?t \<noteq> 0 then Some (int_or_string ?t) else None)"
    by (simp add: WriteConcern_serialized_array_def s Let_def)
  have z: "wtimeout_zval n False ser ?t = ZLong ?t \<or> wtimeout_zval n False ser ?t = ZString (dec_of_int ?t)"
    using int_or_string_cases[of ?t] by (simp add: wtimeout_zval_def)
  have "\<exists>t. php_phongo_writeconcern_init_from_hash f W ?p php_phongo_writeconcern_create_object = (t, None)
      \<and> writeconcern_valid W t \<and> writeconcern_view W t = Some (wc_view W wc)"
    by (rule writeconcern_restores[OF c v _ _ _ z]) (auto simp: p)
  then show "\<exists>t. php_phongo_writeconcern_init_from_hash f W ?p php_phongo_writeconcern_create_object = (t, None)
      \<and> (write_concern_contract W \<and> strtoll_contract f \<and> writeconcern_valid W t) \<and> writeconcern_view W t = writeconcern_view W s"
    using c view by metis
  have "\<exists>t. php_phongo_writeconcern_init_from_hash f W ?a php_phongo_writeconcern_create_object = (t, None)
      \<and> writeconcern_valid W t \<and> writeconcern_view W t = Some (wc_view W wc)"
    by (rule writeconcern_restores[OF c v _ _ _ int_or_string_cases]) (auto simp: a)
  then show "\<exists>t. php_phongo_writeconcern_init_from_hash f W ?a php_phongo_writeconcern_create_object = (t, None)
      \<and> (write_concern_contract W \<and> strtoll_contract f \<and> writeconcern_valid W t) \<and> writeconcern_view W t = writeconcern_view W s"
    using c view by metis
  have p: "w_zval W wc = None \<or> plain_zval (the (w_zval W wc))" "journal_zval W wc = None \<or> plain_zval (the (journal_zval W wc))"
    "plain_zval (int_or_string ?t)"
    by (auto simp: w_zval_def journal_zval_def int_or_string_def zval_int64_string_def split: option.splits)
  then show "plain_zval (ZArray (WriteConcern_serialized_array W s))"
    by (auto simp: WriteConcern_serialized_array_def s Let_def intro!: plain_update_some)
qed

section \<open>A write concern that is what can be read of it\<close>

definition ref_write_concern_ops :: "write_concern_view write_concern_ops" where
  "ref_write_concern_ops = \<lparr>
     mongoc_write_concern_new = \<lparr>wcv_wtag = None, wcv_w = -2, wcv_majority = False, wcv_journal = None, wcv_wtimeout = 0\<rparr>,
     mongoc_write_concern_set_w = (\<lambda>v w. v\<lparr>wcv_wtag := None, wcv_w := w, wcv_majority := (w = -3)\<rparr>),
     mongoc_write_concern_set_wtag = (\<lambda>v t. v\<lparr>wcv_wtag := Some t, wcv_w := -4, wcv_majority := False\<rparr>),
     mongoc_write_concern_set_journal = (\<lambda>v b. v\<lparr>wcv_journal := Some b\<rparr>),
     mongoc_write_concern_set_wtimeout_int64 = (\<lambda>v t. v\<lparr>wcv_wtimeout := t\<rparr>),
     mongoc_write_concern_get_w = wcv_w, mongoc_write_concern_get_wtag = wcv_wtag,
     mongoc_write_concern_get_wmajority = wcv_majority,
     mongoc_write_concern_journal_is_set = (\<lambda>v. wcv_journal v \<noteq> None),
     mongoc_write_concern_get_journal = (\<lambda>v. wcv_journal v = Some True),
     mongoc_write_concern_get_wtimeout_int64 = wcv_wtimeout,
     mongoc_write_concern_is_default = (\<lambda>v. wcv_w v = -2 \<and> wcv_journal v = None \<and> wcv_wtimeout v = 0),
     mongoc_write_concern_is_valid = (\<lambda>v. 0 \<le> wcv_wtimeout v \<and> \<not> (wcv_journal v = Some True \<and> (wcv_w v = 0 \<or> wcv_w v = -1))),
     mongoc_write_concern_is_acknowledged = (\<lambda>v. wcv_w v \<noteq> 0 \<and> wcv_w v \<noteq> -1 \<or> wcv_journal v = Some True),
     MONGOC_WRITE_CONCERN_W_UNACKNOWLEDGED = 0, MONGOC_WRITE_CONCERN_W_ERRORS_IGNORED = -1,
     MONGOC_WRITE_CONCERN_W_DEFAULT = -2, MONGOC_WRITE_CONCERN_W_MAJORITY = -3, MONGOC_WRITE_CONCERN_W_TAG = -4\<rparr>"

lemma ref_wc_view [simp]: "wc_view ref_write_concern_ops v = v"
  by (cases v; cases "wcv_journal v") (auto simp: wc_view_def ref_write_concern_ops_def)

lemma ref_write_concern_contract: "write_concern_contract ref_write_concern_ops"
  by (simp add: write_concern_contract_def) (auto simp: ref_write_concern_ops_def)

text \<open>w as the constructor takes it and \<^verbatim>\<open>getW\<close> returns it.\<close>

lemma construct_w:
  assumes "write_concern_contract W" and "-3 \<le> w" and "-3 \<le> int32_of w"
  shows "\<exists>s e. WriteConcern___construct W (ZLong w) None None s0 = (s, e)
    \<and> WriteConcern_getW W s = Some (if int32_of w = MONGOC_WRITE_CONCERN_W_MAJORITY W then ZString PHONGO_WRITE_CONCERN_W_MAJORITY
        else if int32_of w = MONGOC_WRITE_CONCERN_W_DEFAULT W then ZNull else ZLong (int32_of w))"
proof -
  let ?wc = "mongoc_write_concern_set_w W (mongoc_write_concern_new W) (int32_of w)"
  have v: "wc_view W ?wc = \<lparr>wcv_wtag = None, wcv_w = int32_of w, wcv_majority = (int32_of w = MONGOC_WRITE_CONCERN_W_MAJORITY W),
      wcv_journal = None, wcv_wtimeout = 0\<rparr>"
    using assms(1,3) by (simp add: write_concern_contract_def)
  have "\<exists>e. WriteConcern___construct W (ZLong w) None None s0 = (s0\<lparr>wcn_write_concern := Some ?wc\<rparr>, e)"
    using assms(2) by (simp add: WriteConcern___construct_def construct_journal_def construct_wtimeout_def Let_def)
  moreover have "WriteConcern_getW W (s0\<lparr>wcn_write_concern := Some ?wc\<rparr>) = Some (if int32_of w = MONGOC_WRITE_CONCERN_W_MAJORITY W
        then ZString PHONGO_WRITE_CONCERN_W_MAJORITY
        else if int32_of w = MONGOC_WRITE_CONCERN_W_DEFAULT W then ZNull else ZLong (int32_of w))"
    using v by (simp add: WriteConcern_getW_def w_zval_view)
  ultimately show ?thesis by metis
qed

text \<open>Without an exception, and with w in 32 bits, the constructor makes a write concern that is valid.\<close>

lemma construct_valid:
  assumes c: "write_concern_contract W" and k: "WriteConcern___construct W w wtimeout journal s0 = (s, None)"
    and w: "\<And>i. w = ZLong i \<Longrightarrow> i \<le> 2147483647" and t: "\<And>i. wtimeout = Some i \<Longrightarrow> int64_range i"
  shows "writeconcern_valid W s"
proof -
  let ?wc0 = "mongoc_write_concern_new W"
  have v0: "wc_view W ?wc0 = \<lparr>wcv_wtag = None, wcv_w = MONGOC_WRITE_CONCERN_W_DEFAULT W,
       wcv_majority = False, wcv_journal = None, wcv_wtimeout = 0\<rparr>" using c by (simp add: write_concern_contract_def)
  obtain wc1 wc2 wc3 where 1: "(\<exists>i \<ge> -3. w = ZLong i \<and> wc1 = mongoc_write_concern_set_w W ?wc0 (int32_of i))
        \<or> (\<exists>m. w = ZString m \<and> wc1 = set_w_string W ?wc0 m)"
    and 2: "construct_journal W journal wc1 = Inr wc2" and 3: "construct_wtimeout W wtimeout wc2 = Inr wc3"
    and s: "wcn_write_concern s = Some wc3" and valid: "mongoc_write_concern_is_valid W wc3"
    using k by (cases w) (auto simp: WriteConcern___construct_def Let_def split: if_splits sum.splits)
  have p1: "wcv_possible W (wc_view W wc1) \<and> wcv_journal (wc_view W wc1) = None \<and> wcv_wtimeout (wc_view W wc1) = 0"
    using 1
  proof
    assume "\<exists>i \<ge> -3. w = ZLong i \<and> wc1 = mongoc_write_concern_set_w W ?wc0 (int32_of i)"
    then obtain i where i: "-3 \<le> i" "w = ZLong i" "wc1 = mongoc_write_concern_set_w W ?wc0 (int32_of i)" by blast
    have "int32_of i = i" using i w by (auto intro!: int32_of_id simp: int32_range_def)
    then show ?thesis using i w c v0 by (simp add: write_concern_contract_def wcv_possible_def int64_range_def)
  next
    assume "\<exists>m. w = ZString m \<and> wc1 = set_w_string W ?wc0 m"
    then obtain m where m: "wc1 = set_w_string W ?wc0 m" by blast
    show ?thesis
    proof (cases "c_str m = PHONGO_WRITE_CONCERN_W_MAJORITY")
      case True
      then show ?thesis using c v0 m
        by (simp add: set_w_string_def write_concern_contract_def wcv_possible_def int64_range_def)
    next
      case False
      then show ?thesis using c v0 m
        by (simp add: set_w_string_def write_concern_contract_def wcv_possible_def int64_range_def c_str_no_nul)
    qed
  qed
  have p2: "wcv_possible W (wc_view W wc2) \<and> wcv_wtimeout (wc_view W wc2) = 0"
    using 2 p1 by (auto simp: construct_journal_def w_forbids_view contract_views[OF c] wcv_possible_def
        split: option.splits if_splits)
  have "wcv_possible W (wc_view W wc3)"
    using 3 p2 t by (auto simp: construct_wtimeout_def contract_views[OF c] wcv_possible_def split: option.splits if_splits)
  then show ?thesis using s valid by (simp add: writeconcern_valid_def)
qed

text \<open>What the constructor makes survives its serialisation.\<close>

lemma writeconcern_serialize_restores:
  assumes c: "write_concern_contract W" "strtoll_contract f" and S: "serializer_contract S" "serializer_nonempty S"
    and k: "WriteConcern___construct W w wtimeout journal s0 = (wc, None)"
    and w: "\<And>i. w = ZLong i \<Longrightarrow> i \<le> 2147483647" and t: "\<And>i. wtimeout = Some i \<Longrightarrow> int64_range i"
  shows "\<exists>t. WriteConcern_unserialize S f W (the (WriteConcern_serialize S W wc)) php_phongo_writeconcern_create_object = Some (t, None)
    \<and> writeconcern_view W t = writeconcern_view W wc"
proof -
  have v: "writeconcern_valid W wc" using construct_valid[OF c(1) k w t] .
  then have "WriteConcern_serialize S W wc = Some (var_serialize S (ZArray (WriteConcern_serialized_array W wc)))"
    by (auto simp: WriteConcern_serialize_def writeconcern_valid_def)
  then show ?thesis using writeconcern.unserialize_view[OF _ TrueI S, of W f wc writeconcern_ce_name] c v
    by (auto simp: WriteConcern_unserialize_def)
qed

end
