(* ===== verification/Driver_ReadPreference.thy ===== *)
theory Driver_ReadPreference
  imports Driver_Options Bson_Javascript
begin

text \<open>
  \<^verbatim>\<open>ReadPreference\<close> (MongoDB/ReadPreference.c, and the tag set functions of php\_phongo.c): a
  mode, tag sets, a maximum staleness and a hedge document.  Tag sets and hedge are encoded to
  BSON when the object is made and decoded when they are read.  The outer None of a function is
  undefined behaviour in the encoder or the decoder, or no fuel left.
\<close>

section \<open>libmongoc's read preference\<close>

record 'rp read_prefs_ops =
  mongoc_read_prefs_new :: "int \<Rightarrow> 'rp"
  mongoc_read_prefs_get_mode :: "'rp \<Rightarrow> int"
  mongoc_read_prefs_set_mode :: "'rp \<Rightarrow> int \<Rightarrow> 'rp"
  mongoc_read_prefs_set_tags :: "'rp \<Rightarrow> bdoc \<Rightarrow> 'rp"
  mongoc_read_prefs_get_tags :: "'rp \<Rightarrow> bdoc"
  mongoc_read_prefs_set_max_staleness_seconds :: "'rp \<Rightarrow> int \<Rightarrow> 'rp"
  mongoc_read_prefs_get_max_staleness_seconds :: "'rp \<Rightarrow> int"
  mongoc_read_prefs_set_hedge :: "'rp \<Rightarrow> bdoc \<Rightarrow> 'rp"
  mongoc_read_prefs_get_hedge :: "'rp \<Rightarrow> bdoc"
  mongoc_read_prefs_is_valid :: "'rp \<Rightarrow> bool"
  MONGOC_READ_PRIMARY :: int
  MONGOC_READ_PRIMARY_PREFERRED :: int
  MONGOC_READ_SECONDARY :: int
  MONGOC_READ_SECONDARY_PREFERRED :: int
  MONGOC_READ_NEAREST :: int
  MONGOC_NO_MAX_STALENESS :: int
  MONGOC_SMALLEST_MAX_STALENESS_SECONDS :: int

record read_prefs_view =
  rpv_mode :: int
  rpv_tags :: bdoc
  rpv_max_staleness :: int
  rpv_hedge :: bdoc

definition rp_view :: "'rp read_prefs_ops \<Rightarrow> 'rp \<Rightarrow> read_prefs_view" where
  "rp_view R rp = \<lparr>rpv_mode = mongoc_read_prefs_get_mode R rp, rpv_tags = mongoc_read_prefs_get_tags R rp,
     rpv_max_staleness = mongoc_read_prefs_get_max_staleness_seconds R rp, rpv_hedge = mongoc_read_prefs_get_hedge R rp\<rparr>"

text \<open>The modes, by number.\<close>

definition read_modes :: "'rp read_prefs_ops \<Rightarrow> int list" where
  "read_modes R = [MONGOC_READ_PRIMARY R, MONGOC_READ_PRIMARY_PREFERRED R, MONGOC_READ_SECONDARY R,
     MONGOC_READ_SECONDARY_PREFERRED R, MONGOC_READ_NEAREST R]"

text \<open>Documented: what is set is read back, and a new read preference has nothing but a mode.\<close>

definition read_prefs_contract :: "'rp read_prefs_ops \<Rightarrow> bool" where
  "read_prefs_contract R \<longleftrightarrow>
     (\<forall>m \<in> set (read_modes R). rp_view R (mongoc_read_prefs_new R m) = \<lparr>rpv_mode = m, rpv_tags = BDoc [] DocOk,
        rpv_max_staleness = MONGOC_NO_MAX_STALENESS R, rpv_hedge = BDoc [] DocOk\<rparr>)
   \<and> (\<forall>rp. \<forall>m \<in> set (read_modes R). rp_view R (mongoc_read_prefs_set_mode R rp m) = (rp_view R rp)\<lparr>rpv_mode := m\<rparr>)
   \<and> (\<forall>rp d. rp_view R (mongoc_read_prefs_set_tags R rp d) = (rp_view R rp)\<lparr>rpv_tags := d\<rparr>)
   \<and> (\<forall>rp s. rp_view R (mongoc_read_prefs_set_max_staleness_seconds R rp s) = (rp_view R rp)\<lparr>rpv_max_staleness := s\<rparr>)
   \<and> (\<forall>rp d. rp_view R (mongoc_read_prefs_set_hedge R rp d) = (rp_view R rp)\<lparr>rpv_hedge := d\<rparr>)
   \<and> distinct (read_modes R)"

section \<open>Tag sets (php\_phongo.c)\<close>

text \<open>Arrays in the set become objects, so that empty ones are written as documents.\<close>

fun prep_tagset :: "zval \<Rightarrow> zval" where
  "prep_tagset (ZArray h) = convert_to_object (ZArray h)"
| "prep_tagset (ZRef z) = ZRef (prep_tagset z)"
| "prep_tagset z = z"

definition php_phongo_read_preference_prep_tagsets :: "zval \<Rightarrow> zval" where
  "php_phongo_read_preference_prep_tagsets tagSets =
     (case tagSets of ZArray h \<Rightarrow> ZArray (map (\<lambda>(k, z). (k, prep_tagset z)) h) | _ \<Rightarrow> tagSets)"

definition bson_empty :: "bdoc \<Rightarrow> bool" where
  "bson_empty d \<longleftrightarrow> doc_elems d = []"

definition php_phongo_read_preference_tags_are_valid :: "bdoc \<Rightarrow> bool" where
  "php_phongo_read_preference_tags_are_valid tags \<longleftrightarrow>
     bson_empty tags \<or> list_all (\<lambda>(k, v). case v of BDocument _ \<Rightarrow> True | _ \<Rightarrow> False) (doc_elems tags)"

section \<open>The class\<close>

record 'rp php_phongo_readpreference_t =
  rpf_read_preference :: "'rp option"

abbreviation readpreference_ce_name :: string where "readpreference_ce_name \<equiv> driver_ns ''ReadPreference''"

definition php_phongo_readpreference_create_object :: "'rp php_phongo_readpreference_t" where
  "php_phongo_readpreference_create_object = \<lparr>rpf_read_preference = None\<rparr>"

definition phongo_readpreference_init :: "'rp \<Rightarrow> 'rp php_phongo_readpreference_t" where
  "phongo_readpreference_init read_prefs = \<lparr>rpf_read_preference = Some read_prefs\<rparr>"

definition mode_of_string :: "'rp read_prefs_ops \<Rightarrow> string \<Rightarrow> int option" where
  "mode_of_string R s =
     (if c_strcaseeq s ''primary'' then Some (MONGOC_READ_PRIMARY R)
      else if c_strcaseeq s ''primaryPreferred'' then Some (MONGOC_READ_PRIMARY_PREFERRED R)
      else if c_strcaseeq s ''secondary'' then Some (MONGOC_READ_SECONDARY R)
      else if c_strcaseeq s ''secondaryPreferred'' then Some (MONGOC_READ_SECONDARY_PREFERRED R)
      else if c_strcaseeq s ''nearest'' then Some (MONGOC_READ_NEAREST R)
      else None)"

definition php_phongo_readpreference_get_mode_string :: "'rp read_prefs_ops \<Rightarrow> int \<Rightarrow> string result" where
  "php_phongo_readpreference_get_mode_string R mode =
     (if mode = MONGOC_READ_PRIMARY R then Inr ''primary''
      else if mode = MONGOC_READ_PRIMARY_PREFERRED R then Inr ''primaryPreferred''
      else if mode = MONGOC_READ_SECONDARY R then Inr ''secondary''
      else if mode = MONGOC_READ_SECONDARY_PREFERRED R then Inr ''secondaryPreferred''
      else if mode = MONGOC_READ_NEAREST R then Inr ''nearest''
      else Inl (phongo_throw_exception PHONGO_ERROR_LOGIC (''Mode '' @ squote (dec_of_int mode)
        @ '' should never have been passed to php_phongo_readpreference_get_mode_string, please file a bug report'')))"

text \<open>What differs between the constructor and \<^verbatim>\<open>init_from_hash\<close>: the messages.\<close>

record rp_messages =
  rpm_tags_invalid :: string
  rpm_tags_primary :: string
  rpm_hedge_primary :: string
  rpm_hedge_type :: string

definition construct_messages :: rp_messages where
  "construct_messages = \<lparr>
     rpm_tags_invalid = ''tagSets must be an array of zero or more documents'',
     rpm_tags_primary = ''tagSets may not be used with primary mode'',
     rpm_hedge_primary = ''hedge may not be used with primary mode'',
     rpm_hedge_type = readpreference_ce_name @ '' initialization requires '' @ dquote ''hedge'' @ '' field to be an array or object''\<rparr>"

definition hash_messages :: rp_messages where
  "hash_messages = \<lparr>
     rpm_tags_invalid = readpreference_ce_name @ '' initialization requires '' @ dquote ''tags''
       @ '' array field to have zero or more documents'',
     rpm_tags_primary = readpreference_ce_name @ '' initialization requires '' @ dquote ''tags''
       @ '' array field to not be present with '' @ dquote ''primary'' @ '' mode'',
     rpm_hedge_primary = readpreference_ce_name @ '' initialization requires '' @ dquote ''hedge''
       @ '' field to not be present with '' @ dquote ''primary'' @ '' mode'',
     rpm_hedge_type = readpreference_ce_name @ '' initialization requires '' @ dquote ''hedge''
       @ '' field to be an array or object''\<rparr>"

definition rp_is_primary :: "'rp read_prefs_ops \<Rightarrow> 'rp \<Rightarrow> bool" where
  "rp_is_primary R rp \<longleftrightarrow> mongoc_read_prefs_get_mode R rp = MONGOC_READ_PRIMARY R"

definition rp_set_tagsets ::
    "nat \<Rightarrow> encode_env \<Rightarrow> heap \<Rightarrow> 'rp read_prefs_ops \<Rightarrow> rp_messages \<Rightarrow> zval \<Rightarrow> 'rp \<Rightarrow> exn list \<Rightarrow> 'rp init_step" where
  "rp_set_tagsets f E H R msg tagSets rp ex =
     (case php_phongo_zval_to_bson f E H False False (php_phongo_read_preference_prep_tagsets tagSets) [] ex of
        None \<Rightarrow> None
      | Some (doc, _, ex1) \<Rightarrow>
          (let tags = BDoc doc DocOk in
           if \<not> php_phongo_read_preference_tags_are_valid tags then init_fail rp ex1 (rpm_tags_invalid msg)
           else if \<not> bson_empty tags \<and> rp_is_primary R rp then init_fail rp ex1 (rpm_tags_primary msg)
           else Some (True, mongoc_read_prefs_set_tags R rp tags, ex1)))"

definition rp_set_hedge ::
    "nat \<Rightarrow> encode_env \<Rightarrow> heap \<Rightarrow> 'rp read_prefs_ops \<Rightarrow> rp_messages \<Rightarrow> zval \<Rightarrow> 'rp \<Rightarrow> exn list \<Rightarrow> 'rp init_step" where
  "rp_set_hedge f E H R msg hedge rp ex =
     (if \<not> is_compound hedge then init_fail rp ex (rpm_hedge_type msg)
      else if rp_is_primary R rp then init_fail rp ex (rpm_hedge_primary msg)
      else (case php_phongo_zval_to_bson f E H False False hedge [] ex of
              None \<Rightarrow> None
            | Some (doc, _, ex1) \<Rightarrow>
                if ex1 \<noteq> [] then Some (False, rp, ex1)
                else Some (True, mongoc_read_prefs_set_hedge R rp (BDoc doc DocOk), ex1)))"

definition rp_check :: "'rp read_prefs_ops \<Rightarrow> 'rp \<Rightarrow> exn list \<Rightarrow> 'rp init_step" where
  "rp_check R rp ex = (if mongoc_read_prefs_is_valid R rp then Some (True, rp, ex)
     else init_fail rp ex ''Read preference is not valid'')"

text \<open>\<^verbatim>\<open>init_from_hash\<close>: the order of the checks of the staleness differs from the constructor's.\<close>

definition hash_tags ::
    "nat \<Rightarrow> encode_env \<Rightarrow> heap \<Rightarrow> 'rp read_prefs_ops \<Rightarrow> ht \<Rightarrow> 'rp \<Rightarrow> exn list \<Rightarrow> 'rp init_step" where
  "hash_tags f E H R props rp ex = (case hash_str_find props ''tags'' of
       None \<Rightarrow> Some (True, rp, ex)
     | Some z \<Rightarrow> (case z_deref z of
          ZArray h \<Rightarrow> rp_set_tagsets f E H R hash_messages (ZArray h) rp ex
        | _ \<Rightarrow> init_fail rp ex (readpreference_ce_name @ '' initialization requires '' @ dquote ''tags'' @ '' field to be array'')))"

definition hash_max_staleness :: "'rp read_prefs_ops \<Rightarrow> ht \<Rightarrow> 'rp \<Rightarrow> exn list \<Rightarrow> 'rp init_step" where
  "hash_max_staleness R props rp ex =
     (let requires = (\<lambda>what. init_fail rp ex (readpreference_ce_name @ '' initialization requires '' @ dquote ''maxStalenessSeconds'' @ what)) in
      case hash_str_find props ''maxStalenessSeconds'' of
        None \<Rightarrow> Some (True, rp, ex)
      | Some (ZLong s) \<Rightarrow>
          if s \<noteq> MONGOC_NO_MAX_STALENESS R \<and> rp_is_primary R rp
          then requires ('' field to not be present with '' @ dquote ''primary'' @ '' mode'')
          else if s \<noteq> MONGOC_NO_MAX_STALENESS R \<and> s < MONGOC_SMALLEST_MAX_STALENESS_SECONDS R
          then requires ('' integer field to be >= '' @ dec_of_int (MONGOC_SMALLEST_MAX_STALENESS_SECONDS R))
          else if s \<noteq> MONGOC_NO_MAX_STALENESS R \<and> s > 2147483647
          then requires ('' integer field to be <= '' @ dec_of_int 2147483647)
          else Some (True, mongoc_read_prefs_set_max_staleness_seconds R rp s, ex)
      | Some _ \<Rightarrow> requires '' field to be integer'')"

definition hash_hedge ::
    "nat \<Rightarrow> encode_env \<Rightarrow> heap \<Rightarrow> 'rp read_prefs_ops \<Rightarrow> ht \<Rightarrow> 'rp \<Rightarrow> exn list \<Rightarrow> 'rp init_step" where
  "hash_hedge f E H R props rp ex = (case hash_str_find props ''hedge'' of
       None \<Rightarrow> Some (True, rp, ex) | Some z \<Rightarrow> rp_set_hedge f E H R hash_messages z rp ex)"

definition php_phongo_readpreference_init_from_hash ::
    "nat \<Rightarrow> encode_env \<Rightarrow> heap \<Rightarrow> 'rp read_prefs_ops \<Rightarrow> ht \<Rightarrow> 'rp php_phongo_readpreference_t \<Rightarrow> exn list
       \<Rightarrow> (bool \<times> 'rp php_phongo_readpreference_t \<times> exn list) option" where
  "php_phongo_readpreference_init_from_hash f E H R props intern ex =
     (case hash_str_find props ''mode'' of
        Some (ZString mode) \<Rightarrow>
          (case mode_of_string R mode of
             None \<Rightarrow> Some (False, intern, init_requires readpreference_ce_name
               (''specific values for '' @ dquote ''mode'' @ '' string field'') # ex)
           | Some m \<Rightarrow>
               map_option (\<lambda>(ok, rp, ex1). (ok, intern\<lparr>rpf_read_preference := (if ok then Some rp else None)\<rparr>, ex1))
                 (init_then (init_then (init_then (hash_tags f E H R props (mongoc_read_prefs_new R m) ex)
                    (hash_max_staleness R props)) (hash_hedge f E H R props)) (rp_check R)))
      | _ \<Rightarrow> Some (False, intern, init_requires readpreference_ce_name (dquote ''mode'' @ '' field to be string'') # ex))"

text \<open>The constructor: on failure the object keeps the read preference made so far.\<close>

definition construct_mode :: "'rp read_prefs_ops \<Rightarrow> zval \<Rightarrow> int result" where
  "construct_mode R mode = (case mode of
       ZLong m \<Rightarrow> if m \<in> set (read_modes R) then Inr m else Inl (invalid_argument (''Invalid mode: '' @ dec_of_int m))
     | ZString s \<Rightarrow> (case mode_of_string R s of Some m \<Rightarrow> Inr m
         | None \<Rightarrow> Inl (invalid_argument (''Invalid mode: '' @ squote (c_str s))))
     | _ \<Rightarrow> Inl (invalid_argument (''Expected mode to be integer or string, '' @ zval_class_or_type_name mode @ '' given'')))"

definition construct_max_staleness ::
    "(zval \<Rightarrow> int) \<Rightarrow> 'rp read_prefs_ops \<Rightarrow> ht option \<Rightarrow> 'rp \<Rightarrow> exn list \<Rightarrow> 'rp init_step" where
  "construct_max_staleness L R options rp ex = (case options of
       None \<Rightarrow> Some (True, rp, ex)
     | Some opts \<Rightarrow>
        if \<not> php_array_exists opts ''maxStalenessSeconds'' then Some (True, rp, ex)
        else (let s = php_array_fetch_long L opts ''maxStalenessSeconds'' in
          if s \<noteq> MONGOC_NO_MAX_STALENESS R \<and> s < MONGOC_SMALLEST_MAX_STALENESS_SECONDS R
          then init_fail rp ex (''Expected maxStalenessSeconds to be >= '' @ dec_of_int (MONGOC_SMALLEST_MAX_STALENESS_SECONDS R)
            @ '', '' @ dec_of_int s @ '' given'')
          else if s \<noteq> MONGOC_NO_MAX_STALENESS R \<and> s > 2147483647
          then init_fail rp ex (''Expected maxStalenessSeconds to be <= '' @ dec_of_int 2147483647 @ '', '' @ dec_of_int s @ '' given'')
          else if s \<noteq> MONGOC_NO_MAX_STALENESS R \<and> rp_is_primary R rp
          then init_fail rp ex ''maxStalenessSeconds may not be used with primary mode''
          else Some (True, mongoc_read_prefs_set_max_staleness_seconds R rp s, ex)))"

definition construct_hedge ::
    "nat \<Rightarrow> encode_env \<Rightarrow> heap \<Rightarrow> 'rp read_prefs_ops \<Rightarrow> ht option \<Rightarrow> 'rp \<Rightarrow> exn list \<Rightarrow> 'rp init_step" where
  "construct_hedge f E H R options rp ex =
     (case Option.bind options (\<lambda>opts. php_array_fetch opts ''hedge'') of
        None \<Rightarrow> Some (True, rp, ex)
      | Some z \<Rightarrow> rp_set_hedge f E H R construct_messages z rp ex)"

definition construct_tags ::
    "nat \<Rightarrow> encode_env \<Rightarrow> heap \<Rightarrow> 'rp read_prefs_ops \<Rightarrow> ht option \<Rightarrow> 'rp \<Rightarrow> exn list \<Rightarrow> 'rp init_step" where
  "construct_tags f E H R tagSets rp ex = (case tagSets of
       None \<Rightarrow> Some (True, rp, ex)
     | Some h \<Rightarrow> rp_set_tagsets f E H R construct_messages (ZArray h) rp ex)"

definition ReadPreference___construct ::
    "nat \<Rightarrow> encode_env \<Rightarrow> heap \<Rightarrow> (zval \<Rightarrow> int) \<Rightarrow> 'rp read_prefs_ops \<Rightarrow> zval \<Rightarrow> ht option \<Rightarrow> ht option
       \<Rightarrow> 'rp php_phongo_readpreference_t \<Rightarrow> exn list \<Rightarrow> ('rp php_phongo_readpreference_t \<times> exn list) option" where
  "ReadPreference___construct f E H L R mode tagSets options intern ex =
     (case construct_mode R mode of
        Inl e \<Rightarrow> Some (intern, e # ex)
      | Inr m \<Rightarrow>
          map_option (\<lambda>(ok, rp, ex1). (intern\<lparr>rpf_read_preference := Some rp\<rparr>, ex1))
            (init_then (init_then (init_then (construct_tags f E H R tagSets (mongoc_read_prefs_new R m) ex)
               (construct_max_staleness L R options)) (construct_hedge f E H R options)) (rp_check R)))"

definition ReadPreference___set_state ::
    "nat \<Rightarrow> encode_env \<Rightarrow> heap \<Rightarrow> 'rp read_prefs_ops \<Rightarrow> ht \<Rightarrow> exn list
       \<Rightarrow> (bool \<times> 'rp php_phongo_readpreference_t \<times> exn list) option" where
  "ReadPreference___set_state f E H R props ex =
     php_phongo_readpreference_init_from_hash f E H R props php_phongo_readpreference_create_object ex"

section \<open>Accessors\<close>

text \<open>A document decoded under a type map; a document that cannot be decoded gives no value.\<close>

definition decode_under ::
    "decode_env \<Rightarrow> php_phongo_bson_typemap \<Rightarrow> bdoc \<Rightarrow> exn list \<Rightarrow> (zval option \<times> exn list) option" where
  "decode_under N tm d ex =
     map_option (\<lambda>(ok, st, ex1). (if ok then Some (st_zchild st) else None, ex1))
       (php_phongo_bson_to_zval_ex N (BufDocument d True) (bson_state_init\<lparr>st_map := tm\<rparr>) ex)"

text \<open>The outer None is also a null pointer handed to libmongoc.\<close>

definition ReadPreference_getHedge ::
    "decode_env \<Rightarrow> 'rp read_prefs_ops \<Rightarrow> 'rp php_phongo_readpreference_t \<Rightarrow> exn list \<Rightarrow> (zval \<times> exn list) option" where
  "ReadPreference_getHedge N R intern ex =
     Option.bind (rpf_read_preference intern) (\<lambda>rp.
       (let hedge = mongoc_read_prefs_get_hedge R rp in
        if bson_empty hedge then Some (ZNull, ex)
        else map_option (\<lambda>(z, ex1). (case z of Some v \<Rightarrow> v | None \<Rightarrow> ZNull, ex1)) (decode_under N typemap_init hedge ex)))"

definition ReadPreference_getMaxStalenessSeconds ::
    "'rp read_prefs_ops \<Rightarrow> 'rp php_phongo_readpreference_t \<Rightarrow> zval option" where
  "ReadPreference_getMaxStalenessSeconds R intern =
     map_option (\<lambda>rp. ZLong (mongoc_read_prefs_get_max_staleness_seconds R rp)) (rpf_read_preference intern)"

definition ReadPreference_getMode :: "'rp read_prefs_ops \<Rightarrow> 'rp php_phongo_readpreference_t \<Rightarrow> zval option" where
  "ReadPreference_getMode R intern = map_option (\<lambda>rp. ZLong (mongoc_read_prefs_get_mode R rp)) (rpf_read_preference intern)"

definition ReadPreference_getModeString ::
    "'rp read_prefs_ops \<Rightarrow> 'rp php_phongo_readpreference_t \<Rightarrow> zval result option" where
  "ReadPreference_getModeString R intern =
     map_option (\<lambda>rp. bind_r (php_phongo_readpreference_get_mode_string R (mongoc_read_prefs_get_mode R rp)) (\<lambda>s. Inr (ZString s)))
       (rpf_read_preference intern)"

text \<open>A BSON document is never of length zero, so empty tag sets are an empty array.\<close>

definition ReadPreference_getTagSets ::
    "decode_env \<Rightarrow> 'rp read_prefs_ops \<Rightarrow> 'rp php_phongo_readpreference_t \<Rightarrow> exn list \<Rightarrow> (zval \<times> exn list) option" where
  "ReadPreference_getTagSets N R intern ex =
     Option.bind (rpf_read_preference intern) (\<lambda>rp.
       map_option (\<lambda>(z, ex1). (case z of Some v \<Rightarrow> v | None \<Rightarrow> ZNull, ex1))
         (decode_under N typemap_debug_init (mongoc_read_prefs_get_tags R rp) ex))"

text \<open>
  The property table, built field by field; decoding that fails ends it.  The first component
  tells whether it was not ended.
\<close>

definition props_mode :: "'rp read_prefs_ops \<Rightarrow> 'rp \<Rightarrow> ht \<Rightarrow> exn list \<Rightarrow> ht \<times> exn list" where
  "props_mode R rp props ex =
     (case php_phongo_readpreference_get_mode_string R (mongoc_read_prefs_get_mode R rp) of
        Inr s \<Rightarrow> (hash_str_update props ''mode'' (ZString s), ex) | Inl e \<Rightarrow> (props, e # ex))"

definition props_document ::
    "decode_env \<Rightarrow> php_phongo_bson_typemap \<Rightarrow> string \<Rightarrow> bdoc \<Rightarrow> ht \<Rightarrow> exn list \<Rightarrow> (bool \<times> ht \<times> exn list) option" where
  "props_document N tm key d props ex =
     (if bson_empty d then Some (True, props, ex)
      else map_option (\<lambda>(z, ex1). (case z of Some v \<Rightarrow> (True, hash_str_update props key v, ex1) | None \<Rightarrow> (False, props, ex1)))
        (decode_under N tm d ex))"

definition props_max_staleness :: "'rp read_prefs_ops \<Rightarrow> 'rp \<Rightarrow> ht \<Rightarrow> ht" where
  "props_max_staleness R rp props =
     (if mongoc_read_prefs_get_max_staleness_seconds R rp \<noteq> MONGOC_NO_MAX_STALENESS R
      then hash_str_update props ''maxStalenessSeconds'' (ZLong (mongoc_read_prefs_get_max_staleness_seconds R rp)) else props)"

text \<open>The tags' type map, by whether the table is for \<^verbatim>\<open>serialize\<close> or for the properties.\<close>

definition tags_typemap :: "bool \<Rightarrow> php_phongo_bson_typemap" where
  "tags_typemap debug = (if debug then typemap_debug_init else typemap_init\<lparr>tm_root_type := PHONGO_TYPEMAP_NATIVE_ARRAY\<rparr>)"

definition readpreference_table ::
    "decode_env \<Rightarrow> 'rp read_prefs_ops \<Rightarrow> bool \<Rightarrow> 'rp \<Rightarrow> ht \<Rightarrow> exn list \<Rightarrow> (bool \<times> ht \<times> exn list) option" where
  "readpreference_table N R debug rp props ex =
     (let (props1, ex1) = props_mode R rp props ex in
      Option.bind (props_document N (tags_typemap debug) ''tags'' (mongoc_read_prefs_get_tags R rp) props1 ex1)
        (\<lambda>(ok, props2, ex2). if \<not> ok then Some (False, props2, ex2)
           else props_document N typemap_init ''hedge'' (mongoc_read_prefs_get_hedge R rp) (props_max_staleness R rp props2) ex2))"

definition php_phongo_readpreference_get_properties_hash ::
    "decode_env \<Rightarrow> 'rp read_prefs_ops \<Rightarrow> bool \<Rightarrow> ht option \<Rightarrow> 'rp php_phongo_readpreference_t \<Rightarrow> exn list \<Rightarrow> (ht \<times> exn list) option" where
  "php_phongo_readpreference_get_properties_hash N R is_temp cached intern ex =
     (let props = get_property_hash_init_props is_temp cached in
      case rpf_read_preference intern of
        None \<Rightarrow> Some (props, ex)
      | Some rp \<Rightarrow> map_option snd (readpreference_table N R False rp props ex))"

definition ReadPreference_bsonSerialize ::
    "decode_env \<Rightarrow> 'rp read_prefs_ops \<Rightarrow> 'rp php_phongo_readpreference_t \<Rightarrow> exn list \<Rightarrow> (zval \<times> exn list) option" where
  "ReadPreference_bsonSerialize N R intern ex =
     map_option (\<lambda>(h, ex1). (ZStd h, ex1)) (php_phongo_readpreference_get_properties_hash N R True None intern ex)"

text \<open>Nothing is returned without a read preference, or when decoding fails.\<close>

definition ReadPreference_serialize ::
    "php_serializer \<Rightarrow> decode_env \<Rightarrow> 'rp read_prefs_ops \<Rightarrow> 'rp php_phongo_readpreference_t \<Rightarrow> exn list
       \<Rightarrow> (string option \<times> exn list) option" where
  "ReadPreference_serialize S N R intern ex =
     (case rpf_read_preference intern of
        None \<Rightarrow> Some (None, ex)
      | Some rp \<Rightarrow> map_option (\<lambda>(ok, h, ex1). (if ok then Some (var_serialize S (ZArray h)) else None, ex1))
          (readpreference_table N R True rp [] ex))"

definition ReadPreference_unserialize ::
    "php_serializer \<Rightarrow> nat \<Rightarrow> encode_env \<Rightarrow> heap \<Rightarrow> 'rp read_prefs_ops \<Rightarrow> string \<Rightarrow> 'rp php_phongo_readpreference_t \<Rightarrow> exn list
       \<Rightarrow> (bool \<times> 'rp php_phongo_readpreference_t \<times> exn list) option" where
  "ReadPreference_unserialize S f E H R serialized intern ex =
     (if serialized = [] then Some (True, intern, ex)
      else (case var_unserialize S serialized of
              None \<Rightarrow> Some (False, intern, phongo_throw_exception PHONGO_ERROR_UNEXPECTED_VALUE
                        (readpreference_ce_name @ '' unserialization failed'') # ex)
            | Some props \<Rightarrow> (case HASH_OF S props of
                None \<Rightarrow> None
              | Some h \<Rightarrow> php_phongo_readpreference_init_from_hash f E H R h intern ex)))"

definition ReadPreference___serialize ::
    "decode_env \<Rightarrow> 'rp read_prefs_ops \<Rightarrow> 'rp php_phongo_readpreference_t \<Rightarrow> exn list \<Rightarrow> (ht \<times> exn list) option" where
  "ReadPreference___serialize N R intern ex = php_phongo_readpreference_get_properties_hash N R True None intern ex"

definition ReadPreference___unserialize ::
    "nat \<Rightarrow> encode_env \<Rightarrow> heap \<Rightarrow> 'rp read_prefs_ops \<Rightarrow> ht \<Rightarrow> 'rp php_phongo_readpreference_t \<Rightarrow> exn list
       \<Rightarrow> (bool \<times> 'rp php_phongo_readpreference_t \<times> exn list) option" where
  "ReadPreference___unserialize f E H R data intern ex = php_phongo_readpreference_init_from_hash f E H R data intern ex"

section \<open>The invariant\<close>

text \<open>
  What a read preference of the class always is: its mode is one of the five; its tag sets are
  documents; the staleness is in range; with mode primary nothing else is set.
\<close>

definition rp_ok :: "'rp read_prefs_ops \<Rightarrow> 'rp \<Rightarrow> bool" where
  "rp_ok R rp \<longleftrightarrow> mongoc_read_prefs_get_mode R rp \<in> set (read_modes R)
     \<and> php_phongo_read_preference_tags_are_valid (mongoc_read_prefs_get_tags R rp)
     \<and> (mongoc_read_prefs_get_max_staleness_seconds R rp = MONGOC_NO_MAX_STALENESS R
        \<or> MONGOC_SMALLEST_MAX_STALENESS_SECONDS R \<le> mongoc_read_prefs_get_max_staleness_seconds R rp
          \<and> mongoc_read_prefs_get_max_staleness_seconds R rp \<le> 2147483647)
     \<and> (mongoc_read_prefs_get_mode R rp = MONGOC_READ_PRIMARY R \<longrightarrow>
          bson_empty (mongoc_read_prefs_get_tags R rp) \<and> bson_empty (mongoc_read_prefs_get_hedge R rp)
          \<and> mongoc_read_prefs_get_max_staleness_seconds R rp = MONGOC_NO_MAX_STALENESS R)"

definition readpreference_ok :: "'rp read_prefs_ops \<Rightarrow> 'rp php_phongo_readpreference_t \<Rightarrow> bool" where
  "readpreference_ok R s \<longleftrightarrow> (\<forall>rp. rpf_read_preference s = Some rp \<longrightarrow> rp_ok R rp)"

lemma read_prefs_fields:
  assumes "read_prefs_contract R"
  shows "mongoc_read_prefs_get_mode R (mongoc_read_prefs_set_tags R rp d) = mongoc_read_prefs_get_mode R rp"
    and "mongoc_read_prefs_get_tags R (mongoc_read_prefs_set_tags R rp d) = d"
    and "mongoc_read_prefs_get_max_staleness_seconds R (mongoc_read_prefs_set_tags R rp d) = mongoc_read_prefs_get_max_staleness_seconds R rp"
    and "mongoc_read_prefs_get_hedge R (mongoc_read_prefs_set_tags R rp d) = mongoc_read_prefs_get_hedge R rp"
    and "mongoc_read_prefs_get_mode R (mongoc_read_prefs_set_max_staleness_seconds R rp i) = mongoc_read_prefs_get_mode R rp"
    and "mongoc_read_prefs_get_tags R (mongoc_read_prefs_set_max_staleness_seconds R rp i) = mongoc_read_prefs_get_tags R rp"
    and "mongoc_read_prefs_get_max_staleness_seconds R (mongoc_read_prefs_set_max_staleness_seconds R rp i) = i"
    and "mongoc_read_prefs_get_hedge R (mongoc_read_prefs_set_max_staleness_seconds R rp i) = mongoc_read_prefs_get_hedge R rp"
    and "mongoc_read_prefs_get_mode R (mongoc_read_prefs_set_hedge R rp d) = mongoc_read_prefs_get_mode R rp"
    and "mongoc_read_prefs_get_tags R (mongoc_read_prefs_set_hedge R rp d) = mongoc_read_prefs_get_tags R rp"
    and "mongoc_read_prefs_get_max_staleness_seconds R (mongoc_read_prefs_set_hedge R rp d) = mongoc_read_prefs_get_max_staleness_seconds R rp"
    and "mongoc_read_prefs_get_hedge R (mongoc_read_prefs_set_hedge R rp d) = d"
  using assms by (simp_all add: read_prefs_contract_def rp_view_def)

lemma read_prefs_new_fields:
  assumes "read_prefs_contract R" and "m \<in> set (read_modes R)"
  shows "mongoc_read_prefs_get_mode R (mongoc_read_prefs_new R m) = m"
    and "mongoc_read_prefs_get_tags R (mongoc_read_prefs_new R m) = BDoc [] DocOk"
    and "mongoc_read_prefs_get_max_staleness_seconds R (mongoc_read_prefs_new R m) = MONGOC_NO_MAX_STALENESS R"
    and "mongoc_read_prefs_get_hedge R (mongoc_read_prefs_new R m) = BDoc [] DocOk"
  using assms by (simp_all add: read_prefs_contract_def rp_view_def)

lemma new_rp_ok: "read_prefs_contract R \<Longrightarrow> m \<in> set (read_modes R) \<Longrightarrow> rp_ok R (mongoc_read_prefs_new R m)"
  by (auto simp: rp_ok_def read_prefs_new_fields php_phongo_read_preference_tags_are_valid_def bson_empty_def)

lemma mode_of_string_range: "mode_of_string R s = Some m \<Longrightarrow> m \<in> set (read_modes R)"
  by (auto simp: mode_of_string_def read_modes_def split: if_splits)

lemma construct_mode_range: "construct_mode R mode = Inr m \<Longrightarrow> m \<in> set (read_modes R)"
  by (auto simp: construct_mode_def mode_of_string_range split: zval.splits if_splits option.splits)

lemma set_tagsets_ok:
  "read_prefs_contract R \<Longrightarrow> rp_ok R rp \<Longrightarrow> step_keeps (rp_ok R) (rp_set_tagsets f E H R msg tagSets rp ex)"
  by (auto simp: rp_set_tagsets_def rp_ok_def rp_is_primary_def read_prefs_fields Let_def split: option.splits if_splits)

lemma set_hedge_ok:
  "read_prefs_contract R \<Longrightarrow> rp_ok R rp \<Longrightarrow> step_keeps (rp_ok R) (rp_set_hedge f E H R msg hedge rp ex)"
  by (auto simp: rp_set_hedge_def rp_ok_def rp_is_primary_def read_prefs_fields split: option.splits if_splits)

lemma set_staleness_ok:
  "read_prefs_contract R \<Longrightarrow> rp_ok R rp \<Longrightarrow> (i = MONGOC_NO_MAX_STALENESS R \<or> MONGOC_SMALLEST_MAX_STALENESS_SECONDS R \<le> i
     \<and> i \<le> 2147483647 \<and> \<not> rp_is_primary R rp) \<Longrightarrow> rp_ok R (mongoc_read_prefs_set_max_staleness_seconds R rp i)"
  by (auto simp: rp_ok_def rp_is_primary_def read_prefs_fields)

lemma hash_staleness_ok:
  "read_prefs_contract R \<Longrightarrow> rp_ok R rp \<Longrightarrow> step_keeps (rp_ok R) (hash_max_staleness R props rp ex)"
  by (auto simp: hash_max_staleness_def Let_def intro!: set_staleness_ok split: option.split zval.split)

lemma construct_staleness_ok:
  "read_prefs_contract R \<Longrightarrow> rp_ok R rp \<Longrightarrow> step_keeps (rp_ok R) (construct_max_staleness L R options rp ex)"
  by (auto simp: construct_max_staleness_def Let_def intro!: set_staleness_ok split: option.split)

lemma hash_steps_ok:
  assumes "read_prefs_contract R" and "rp_ok R rp"
  shows "step_keeps (rp_ok R) (hash_tags f E H R props rp ex)" and "step_keeps (rp_ok R) (hash_hedge f E H R props rp ex)"
    and "step_keeps (rp_ok R) (rp_check R rp ex)"
  using assms by (auto simp: hash_tags_def hash_hedge_def rp_check_def set_tagsets_ok set_hedge_ok split: option.split zval.split)

lemma construct_steps_ok:
  assumes "read_prefs_contract R" and "rp_ok R rp"
  shows "step_keeps (rp_ok R) (construct_tags f E H R tagSets rp ex)" and "step_keeps (rp_ok R) (construct_hedge f E H R options rp ex)"
  using assms by (auto simp: construct_tags_def construct_hedge_def set_tagsets_ok set_hedge_ok split: option.split)

lemma construct_keeps_ok:
  assumes c: "read_prefs_contract R" and s: "readpreference_ok R s"
    and k: "ReadPreference___construct f E H L R mode tagSets options s ex = Some (s', ex')"
  shows "readpreference_ok R s'"
proof (cases "construct_mode R mode")
  case (Inl e)
  then show ?thesis using k s by (simp add: ReadPreference___construct_def)
next
  case (Inr m)
  let ?r = "init_then (init_then (init_then (construct_tags f E H R tagSets (mongoc_read_prefs_new R m) ex)
    (construct_max_staleness L R options)) (construct_hedge f E H R options)) (rp_check R)"
  have "step_keeps (rp_ok R) ?r"
    using c Inr by (intro step_keeps_then construct_steps_ok construct_staleness_ok hash_steps_ok new_rp_ok construct_mode_range)
  then show ?thesis using k Inr by (auto simp: ReadPreference___construct_def readpreference_ok_def step_keeps_def)
qed

lemma init_from_hash_keeps_ok:
  assumes c: "read_prefs_contract R" and s: "readpreference_ok R s"
    and k: "php_phongo_readpreference_init_from_hash f E H R props s ex = Some (ok, s', ex')"
  shows "readpreference_ok R s'"
proof -
  have "step_keeps (rp_ok R) (init_then (init_then (init_then (hash_tags f E H R props (mongoc_read_prefs_new R m) ex)
      (hash_max_staleness R props)) (hash_hedge f E H R props)) (rp_check R))" if "m \<in> set (read_modes R)" for m
    using c that by (intro step_keeps_then hash_steps_ok hash_staleness_ok new_rp_ok)
  then show ?thesis using k s
    by (auto simp: php_phongo_readpreference_init_from_hash_def readpreference_ok_def step_keeps_def
        dest!: mode_of_string_range split: option.splits zval.splits if_splits)
qed

section \<open>The names of the modes\<close>

lemma mode_of_string_names:
  "mode_of_string R ''primary'' = Some (MONGOC_READ_PRIMARY R)"
  "mode_of_string R ''primaryPreferred'' = Some (MONGOC_READ_PRIMARY_PREFERRED R)"
  "mode_of_string R ''secondary'' = Some (MONGOC_READ_SECONDARY R)"
  "mode_of_string R ''secondaryPreferred'' = Some (MONGOC_READ_SECONDARY_PREFERRED R)"
  "mode_of_string R ''nearest'' = Some (MONGOC_READ_NEAREST R)"
proof -
  have "\<not> c_strcaseeq ''primaryPreferred'' ''primary''" "\<not> c_strcaseeq ''secondary'' ''primary''"
    "\<not> c_strcaseeq ''secondary'' ''primaryPreferred''" "\<not> c_strcaseeq ''secondaryPreferred'' ''primary''"
    "\<not> c_strcaseeq ''secondaryPreferred'' ''primaryPreferred''" "\<not> c_strcaseeq ''secondaryPreferred'' ''secondary''"
    "\<not> c_strcaseeq ''nearest'' ''primary''" "\<not> c_strcaseeq ''nearest'' ''primaryPreferred''"
    "\<not> c_strcaseeq ''nearest'' ''secondary''" "\<not> c_strcaseeq ''nearest'' ''secondaryPreferred''"
    "c_strcaseeq ''primary'' ''primary''" "c_strcaseeq ''primaryPreferred'' ''primaryPreferred''"
    "c_strcaseeq ''secondary'' ''secondary''" "c_strcaseeq ''secondaryPreferred'' ''secondaryPreferred''"
    "c_strcaseeq ''nearest'' ''nearest''"
    by code_simp+
  then show "mode_of_string R ''primary'' = Some (MONGOC_READ_PRIMARY R)"
    "mode_of_string R ''primaryPreferred'' = Some (MONGOC_READ_PRIMARY_PREFERRED R)"
    "mode_of_string R ''secondary'' = Some (MONGOC_READ_SECONDARY R)"
    "mode_of_string R ''secondaryPreferred'' = Some (MONGOC_READ_SECONDARY_PREFERRED R)"
    "mode_of_string R ''nearest'' = Some (MONGOC_READ_NEAREST R)"
    by (simp_all add: mode_of_string_def)
qed

lemma mode_string_roundtrip:
  "read_prefs_contract R \<Longrightarrow> m \<in> set (read_modes R) \<Longrightarrow>
     \<exists>s. php_phongo_readpreference_get_mode_string R m = Inr s \<and> mode_of_string R s = Some m"
  by (auto simp: read_prefs_contract_def read_modes_def php_phongo_readpreference_get_mode_string_def mode_of_string_names)

section \<open>A read preference that is what can be read of it\<close>

definition ref_read_prefs_ops :: "read_prefs_view read_prefs_ops" where
  "ref_read_prefs_ops = \<lparr>
     mongoc_read_prefs_new = (\<lambda>m. \<lparr>rpv_mode = m, rpv_tags = BDoc [] DocOk, rpv_max_staleness = -1, rpv_hedge = BDoc [] DocOk\<rparr>),
     mongoc_read_prefs_get_mode = rpv_mode, mongoc_read_prefs_set_mode = (\<lambda>v m. v\<lparr>rpv_mode := m\<rparr>),
     mongoc_read_prefs_set_tags = (\<lambda>v d. v\<lparr>rpv_tags := d\<rparr>),
     mongoc_read_prefs_get_tags = rpv_tags,
     mongoc_read_prefs_set_max_staleness_seconds = (\<lambda>v i. v\<lparr>rpv_max_staleness := i\<rparr>),
     mongoc_read_prefs_get_max_staleness_seconds = rpv_max_staleness,
     mongoc_read_prefs_set_hedge = (\<lambda>v d. v\<lparr>rpv_hedge := d\<rparr>), mongoc_read_prefs_get_hedge = rpv_hedge,
     mongoc_read_prefs_is_valid = (\<lambda>v. rpv_mode v \<noteq> 1 \<or> bson_empty (rpv_tags v) \<and> rpv_max_staleness v = -1),
     MONGOC_READ_PRIMARY = 1, MONGOC_READ_PRIMARY_PREFERRED = 5, MONGOC_READ_SECONDARY = 2,
     MONGOC_READ_SECONDARY_PREFERRED = 6, MONGOC_READ_NEAREST = 10,
     MONGOC_NO_MAX_STALENESS = -1, MONGOC_SMALLEST_MAX_STALENESS_SECONDS = 90\<rparr>"

lemma ref_read_prefs_contract: "read_prefs_contract ref_read_prefs_ops"
  by (auto simp: read_prefs_contract_def rp_view_def read_modes_def ref_read_prefs_ops_def)

end
