(* ===== verification/Driver_Objects.thy ===== *)
theory Driver_Objects
  imports Driver_ReadConcern Driver_WriteConcern Driver_ReadPreference
begin

text \<open>
  The objects of the driver that options name, and the option parsers shared by the operations
  (php\_phongo.c).  The objects live in a store; a value refers to one by its address.  All the
  classes are final, so an object is an instance of a class when it is of that class.
\<close>

section \<open>The store\<close>

record 'cl php_phongo_manager_t =
  mgr_client :: 'cl
  mgr_created_by_pid :: int
  mgr_client_hash :: string
  mgr_use_persistent_client :: bool
  mgr_key_vault_client_manager :: zval
  mgr_subscribers :: "zval list"

record 'cs php_phongo_session_t =
  ses_client_session :: "'cs option"
  ses_manager :: zval
  ses_created_by_pid :: int

datatype ('rc, 'rp, 'wc, 'cs, 'cl) driver_obj =
    DManager "'cl php_phongo_manager_t"
  | DReadConcern "'rc php_phongo_readconcern_t"
  | DReadPreference "'rp php_phongo_readpreference_t"
  | DWriteConcern "'wc php_phongo_writeconcern_t"
  | DSession "'cs php_phongo_session_t"
  | DOther string
  | DFreed

type_synonym ('rc, 'rp, 'wc, 'cs, 'cl) store = "('rc, 'rp, 'wc, 'cs, 'cl) driver_obj list"

fun dobj_class_name :: "('rc, 'rp, 'wc, 'cs, 'cl) driver_obj \<Rightarrow> string" where
  "dobj_class_name (DManager _) = driver_ns ''Manager''"
| "dobj_class_name (DReadConcern _) = readconcern_ce_name"
| "dobj_class_name (DReadPreference _) = readpreference_ce_name"
| "dobj_class_name (DWriteConcern _) = writeconcern_ce_name"
| "dobj_class_name (DSession _) = driver_ns ''Session''"
| "dobj_class_name (DOther c) = c"
| "dobj_class_name DFreed = []"

fun obj_at :: "('rc, 'rp, 'wc, 'cs, 'cl) store \<Rightarrow> zval \<Rightarrow> ('rc, 'rp, 'wc, 'cs, 'cl) driver_obj option" where
  "obj_at D (ZAddr a) = (if a < length D then Some (D ! a) else None)"
| "obj_at D _ = None"

definition z_class_or_type_name :: "('rc, 'rp, 'wc, 'cs, 'cl) store \<Rightarrow> zval \<Rightarrow> string" where
  "z_class_or_type_name D z = (case obj_at D z of Some d \<Rightarrow> dobj_class_name d | None \<Rightarrow> zval_class_or_type_name z)"

section \<open>Option parsers\<close>

type_synonym opts = "(string \<times> bval) list"

text \<open>
  What the parsers call in libmongoc: appending to the options of a command, which may fail,
  and the client a session was started from.
\<close>

record ('rc, 'wc, 'cs, 'cl) option_ops =
  mongoc_read_concern_append :: "'rc \<Rightarrow> opts \<Rightarrow> opts option"
  mongoc_write_concern_append :: "'wc \<Rightarrow> opts \<Rightarrow> opts option"
  mongoc_client_session_append :: "'cs \<Rightarrow> opts \<Rightarrow> opts option"
  mongoc_client_session_get_client :: "'cs \<Rightarrow> 'cl"

text \<open>The beginning of the four parsers: the option, if there are options and it is among them.\<close>

definition fetch_option :: "('rc, 'rp, 'wc, 'cs, 'cl) store \<Rightarrow> zval option \<Rightarrow> string \<Rightarrow> zval option result" where
  "fetch_option D options key =
     (case options of
        None \<Rightarrow> Inr None
      | Some (ZArray h) \<Rightarrow> Inr (php_array_fetch h key)
      | Some z \<Rightarrow> Inl (invalid_argument (''Expected options to be array, '' @ z_class_or_type_name D z @ '' given'')))"

definition option_type_exception :: "('rc, 'rp, 'wc, 'cs, 'cl) store \<Rightarrow> string \<Rightarrow> string \<Rightarrow> zval \<Rightarrow> exn" where
  "option_type_exception D key ce_name option = invalid_argument (''Expected '' @ dquote key @ '' option to be '' @ ce_name @ '', ''
     @ z_class_or_type_name D option @ '' given'')"

text \<open>
  A parser returns the options, where they are appended to, and the option.  The outer None is
  a null pointer handed to libmongoc: an object that was never initialised, or a session that
  was ended.
\<close>

type_synonym parsed = "(opts option \<times> zval option) result option"

definition append_to :: "('x \<Rightarrow> opts \<Rightarrow> opts option) \<Rightarrow> 'x option \<Rightarrow> string \<Rightarrow> zval \<Rightarrow> opts option \<Rightarrow> parsed" where
  "append_to app x key option mongoc_opts =
     (case mongoc_opts of
        None \<Rightarrow> Some (Inr (None, Some option))
      | Some o1 \<Rightarrow> (case x of
          None \<Rightarrow> None
        | Some v \<Rightarrow> (case app v o1 of
            None \<Rightarrow> Some (Inl (invalid_argument (''Error appending '' @ dquote key @ '' option'')))
          | Some o2 \<Rightarrow> Some (Inr (Some o2, Some option)))))"

definition phongo_parse_read_concern ::
    "('rc, 'wc, 'cs, 'cl) option_ops \<Rightarrow> ('rc, 'rp, 'wc, 'cs, 'cl) store \<Rightarrow> zval option \<Rightarrow> opts option \<Rightarrow> parsed" where
  "phongo_parse_read_concern P D options mongoc_opts =
     (case fetch_option D options ''readConcern'' of
        Inl e \<Rightarrow> Some (Inl e)
      | Inr None \<Rightarrow> Some (Inr (mongoc_opts, None))
      | Inr (Some option) \<Rightarrow> (case obj_at D option of
          Some (DReadConcern rc) \<Rightarrow> append_to (mongoc_read_concern_append P) (rcn_read_concern rc) ''readConcern'' option mongoc_opts
        | _ \<Rightarrow> Some (Inl (option_type_exception D ''readConcern'' readconcern_ce_name option))))"

definition phongo_parse_read_preference ::
    "('rc, 'rp, 'wc, 'cs, 'cl) store \<Rightarrow> zval option \<Rightarrow> zval option result" where
  "phongo_parse_read_preference D options =
     bind_r (fetch_option D options ''readPreference'') (\<lambda>opt. case opt of
        None \<Rightarrow> Inr None
      | Some option \<Rightarrow> (case obj_at D option of
          Some (DReadPreference rp) \<Rightarrow> Inr (Some option)
        | _ \<Rightarrow> Inl (option_type_exception D ''readPreference'' readpreference_ce_name option)))"

definition phongo_parse_session ::
    "('rc, 'wc, 'cs, 'cl) option_ops \<Rightarrow> ('rc, 'rp, 'wc, 'cs, 'cl) store \<Rightarrow> zval option \<Rightarrow> 'cl \<Rightarrow> opts option \<Rightarrow> parsed" where
  "phongo_parse_session P D options client mongoc_opts =
     (case fetch_option D options ''session'' of
        Inl e \<Rightarrow> Some (Inl e)
      | Inr None \<Rightarrow> Some (Inr (mongoc_opts, None))
      | Inr (Some option) \<Rightarrow> (case obj_at D option of
          Some (DSession s) \<Rightarrow> (case ses_client_session s of
              None \<Rightarrow> None
            | Some client_session \<Rightarrow>
                if client \<noteq> mongoc_client_session_get_client P client_session
                then Some (Inl (invalid_argument ''Cannot use Session started from a different Manager''))
                else append_to (mongoc_client_session_append P) (Some client_session) ''session'' option mongoc_opts)
        | _ \<Rightarrow> Some (Inl (option_type_exception D ''session'' (driver_ns ''Session'') option))))"

definition phongo_parse_write_concern ::
    "('rc, 'wc, 'cs, 'cl) option_ops \<Rightarrow> ('rc, 'rp, 'wc, 'cs, 'cl) store \<Rightarrow> zval option \<Rightarrow> opts option \<Rightarrow> parsed" where
  "phongo_parse_write_concern P D options mongoc_opts =
     (case fetch_option D options ''writeConcern'' of
        Inl e \<Rightarrow> Some (Inl e)
      | Inr None \<Rightarrow> Some (Inr (mongoc_opts, None))
      | Inr (Some option) \<Rightarrow> (case obj_at D option of
          Some (DWriteConcern wc) \<Rightarrow> append_to (mongoc_write_concern_append P) (wcn_write_concern wc) ''writeConcern'' option mongoc_opts
        | _ \<Rightarrow> Some (Inl (option_type_exception D ''writeConcern'' writeconcern_ce_name option))))"

text \<open>The libmongoc value of an option that was parsed.\<close>

definition phongo_write_concern_from_zval :: "('rc, 'rp, 'wc, 'cs, 'cl) store \<Rightarrow> zval option \<Rightarrow> 'wc option" where
  "phongo_write_concern_from_zval D zwrite_concern = (case Option.bind zwrite_concern (obj_at D) of
     Some (DWriteConcern wc) \<Rightarrow> wcn_write_concern wc | _ \<Rightarrow> None)"

definition phongo_read_concern_from_zval :: "('rc, 'rp, 'wc, 'cs, 'cl) store \<Rightarrow> zval option \<Rightarrow> 'rc option" where
  "phongo_read_concern_from_zval D zread_concern = (case Option.bind zread_concern (obj_at D) of
     Some (DReadConcern rc) \<Rightarrow> rcn_read_concern rc | _ \<Rightarrow> None)"

definition phongo_read_preference_from_zval :: "('rc, 'rp, 'wc, 'cs, 'cl) store \<Rightarrow> zval option \<Rightarrow> 'rp option" where
  "phongo_read_preference_from_zval D zread_preference = (case Option.bind zread_preference (obj_at D) of
     Some (DReadPreference rp) \<Rightarrow> rpf_read_preference rp | _ \<Rightarrow> None)"

definition session_from_zval :: "('rc, 'rp, 'wc, 'cs, 'cl) store \<Rightarrow> zval option \<Rightarrow> 'cs option" where
  "session_from_zval D zsession = (case Option.bind zsession (obj_at D) of
     Some (DSession s) \<Rightarrow> ses_client_session s | _ \<Rightarrow> None)"

section \<open>What a parsed option is\<close>

lemma append_to_Inr:
  "append_to app x key option mo = Some (Inr (mo', zo)) \<longleftrightarrow> zo = Some option
     \<and> (mo = None \<and> mo' = None \<or> (\<exists>o1 v o2. mo = Some o1 \<and> x = Some v \<and> app v o1 = Some o2 \<and> mo' = Some o2))"
  by (auto simp: append_to_def split: option.splits)

lemma parsed_session:
  "phongo_parse_session P D options client mo = Some (Inr (mo', zs)) \<Longrightarrow>
     zs = None \<and> mo' = mo
   \<or> (\<exists>z cs. zs = Some z \<and> session_from_zval D zs = Some cs \<and> mongoc_client_session_get_client P cs = client
        \<and> (mo = None \<and> mo' = None
           \<or> (\<exists>o1 o2. mo = Some o1 \<and> mo' = Some o2 \<and> mongoc_client_session_append P cs o1 = Some o2)))"
  by (auto simp: phongo_parse_session_def append_to_Inr session_from_zval_def
      split: sum.splits option.splits driver_obj.splits if_splits)

lemma parsed_write_concern:
  "phongo_parse_write_concern P D options mo = Some (Inr (mo', zw)) \<Longrightarrow>
     zw = None \<and> mo' = mo
   \<or> (\<exists>z. zw = Some z \<and> (mo = None \<and> mo' = None
        \<or> (\<exists>wc o1 o2. mo = Some o1 \<and> mo' = Some o2 \<and> phongo_write_concern_from_zval D zw = Some wc
             \<and> mongoc_write_concern_append P wc o1 = Some o2)))"
  by (auto simp: phongo_parse_write_concern_def append_to_Inr phongo_write_concern_from_zval_def
      split: sum.splits option.splits driver_obj.splits)

lemma parsed_read_concern:
  "phongo_parse_read_concern P D options mo = Some (Inr (mo', zr)) \<Longrightarrow>
     zr = None \<and> mo' = mo
   \<or> (\<exists>z. zr = Some z \<and> (mo = None \<and> mo' = None
        \<or> (\<exists>rc o1 o2. mo = Some o1 \<and> mo' = Some o2 \<and> phongo_read_concern_from_zval D zr = Some rc
             \<and> mongoc_read_concern_append P rc o1 = Some o2)))"
  by (auto simp: phongo_parse_read_concern_def append_to_Inr phongo_read_concern_from_zval_def
      split: sum.splits option.splits driver_obj.splits)

end
