(* ===== verification/Driver_Query.thy ===== *)
theory Driver_Query
  imports Driver_Objects
begin

text \<open>
  \<^verbatim>\<open>Query\<close> and \<^verbatim>\<open>Command\<close> (MongoDB/Query.c and MongoDB/Command.c): an object is initialised
  once from a document and an array of options, which become a BSON document of options.
\<close>

section \<open>Environment\<close>

text \<open>
  The encoder's parameters, the engine's conversion to an integer and its name of a type, and
  what is called in libbson: appending an element, which fails when the document grows too
  large, and the check that no key is empty.
\<close>

record operation_env =
  op_fuel :: nat
  op_encode :: encode_env
  op_heap :: heap
  op_long :: "zval \<Rightarrow> int"
  op_type_name :: "zval \<Rightarrow> string"
  op_append :: "opts \<Rightarrow> string \<times> bval \<Rightarrow> opts option"
  op_validate_empty_keys :: "bdoc \<Rightarrow> bool"

text \<open>Documented: an element that is appended is the last one.\<close>

definition append_contract :: "operation_env \<Rightarrow> bool" where
  "append_contract G \<longleftrightarrow> (\<forall>es e es'. op_append G es e = Some es' \<longrightarrow> es' = es @ [e])"

definition op_zval_to_bson :: "operation_env \<Rightarrow> zval \<Rightarrow> exn list \<Rightarrow> (opts \<times> exn list) option" where
  "op_zval_to_bson G z ex = map_option (\<lambda>(doc, out, ex1). (doc, ex1))
     (php_phongo_zval_to_bson (op_fuel G) (op_encode G) (op_heap G) False False z [] ex)"

section \<open>Query\<close>

record 'rc php_phongo_query_t =
  qry_filter :: opts
  qry_opts :: opts
  qry_read_concern :: "'rc option"
  qry_max_await_time_ms :: int

definition php_phongo_query_create_object :: "'rc php_phongo_query_t" where
  "php_phongo_query_create_object = \<lparr>qry_filter = [], qry_opts = [], qry_read_concern = None, qry_max_await_time_ms = 0\<rparr>"

text \<open>The state while it is initialised: the query and the options reported as deprecated.\<close>

type_synonym 'rc query_state = "'rc php_phongo_query_t \<times> string list"

definition query_append :: "operation_env \<Rightarrow> string \<Rightarrow> bval \<Rightarrow> 'rc query_state \<Rightarrow> exn list \<Rightarrow> 'rc query_state init_step" where
  "query_append G opt v s ex = (case op_append G (qry_opts (fst s)) (opt, v) of
       None \<Rightarrow> init_fail s ex (''Error appending '' @ dquote opt @ '' option'')
     | Some es \<Rightarrow> Some (True, ((fst s)\<lparr>qry_opts := es\<rparr>, snd s), ex))"

definition option_or_modifier :: "string \<Rightarrow> string" where
  "option_or_modifier zarr_key = (if hd zarr_key = CHR 0x24 then ''modifier'' else ''option'')"

definition php_phongo_query_opts_append_string ::
    "operation_env \<Rightarrow> ('rc, 'rp, 'wc, 'cs, 'cl) store \<Rightarrow> string \<Rightarrow> string \<Rightarrow> zval \<Rightarrow> 'rc query_state \<Rightarrow> exn list \<Rightarrow> 'rc query_state init_step" where
  "php_phongo_query_opts_append_string G D opts_key zarr_key val s ex =
     (case val of
        ZString str \<Rightarrow> query_append G opts_key (BUtf8 str) s ex
      | _ \<Rightarrow> init_fail s ex (''Expected '' @ dquote zarr_key @ '' '' @ option_or_modifier zarr_key @ '' to be string, ''
               @ z_class_or_type_name D val @ '' given''))"

definition php_phongo_query_opts_append_document ::
    "operation_env \<Rightarrow> ('rc, 'rp, 'wc, 'cs, 'cl) store \<Rightarrow> string \<Rightarrow> string \<Rightarrow> zval \<Rightarrow> 'rc query_state \<Rightarrow> exn list \<Rightarrow> 'rc query_state init_step" where
  "php_phongo_query_opts_append_document G D opts_key zarr_key val s ex =
     (if \<not> is_compound val
      then init_fail s ex (''Expected '' @ dquote zarr_key @ '' '' @ option_or_modifier zarr_key @ '' to be array or object, ''
             @ z_class_or_type_name D val @ '' given'')
      else (case op_zval_to_bson G val ex of
              None \<Rightarrow> None
            | Some (doc, ex1) \<Rightarrow>
                if ex1 \<noteq> [] then Some (False, s, ex1)
                else if \<not> op_validate_empty_keys G (BDoc doc DocOk)
                then init_fail s ex1 (''Cannot use empty keys in '' @ dquote zarr_key @ '' '' @ option_or_modifier zarr_key)
                else query_append G opts_key (BDocument (BDoc doc DocOk)) s ex1))"

text \<open>
  The option macros.  A row names the option, its kind, its key, where the value is looked up
  when the key is missing (another key of the options, or a modifier), and whether its use is
  reported as deprecated.
\<close>

datatype query_kind = OptBool | OptInt64 | OptString | OptDocument
datatype query_fallback = NoFallback | InOptions string | InModifiers string

type_synonym query_row = "string \<times> query_kind \<times> string \<times> query_fallback \<times> bool"

definition query_present :: "ht option \<Rightarrow> string \<Rightarrow> zval option" where
  "query_present zarr key = Option.bind zarr (\<lambda>h. php_array_fetch h key)"

definition row_value :: "ht \<Rightarrow> ht option \<Rightarrow> query_row \<Rightarrow> (string \<times> zval) option" where
  "row_value options modifiers row = (case row of (opt, kind, key, fallback, deprecated) \<Rightarrow>
     (case php_array_fetch options key of
        Some z \<Rightarrow> Some (key, z)
      | None \<Rightarrow> (case fallback of
          NoFallback \<Rightarrow> None
        | InOptions k \<Rightarrow> map_option (\<lambda>z. (k, z)) (php_array_fetch options k)
        | InModifiers k \<Rightarrow> map_option (\<lambda>z. (k, z)) (query_present modifiers k))))"

definition query_opt ::
    "operation_env \<Rightarrow> ('rc, 'rp, 'wc, 'cs, 'cl) store \<Rightarrow> ht \<Rightarrow> ht option \<Rightarrow> query_row \<Rightarrow> 'rc query_state \<Rightarrow> exn list \<Rightarrow> 'rc query_state init_step" where
  "query_opt G D options modifiers row s ex = (case row of (opt, kind, key, fallback, deprecated) \<Rightarrow>
     (case row_value options modifiers row of
        None \<Rightarrow> Some (True, s, ex)
      | Some (k, z) \<Rightarrow>
          (let s1 = (if deprecated then (fst s, snd s @ [k]) else s) in
           case kind of
             OptBool \<Rightarrow> query_append G opt (BBool (php_array_zval_to_bool (Some z))) s1 ex
           | OptInt64 \<Rightarrow> query_append G opt (BInt64 (php_array_zval_to_long (op_long G) (Some z))) s1 ex
           | OptString \<Rightarrow> php_phongo_query_opts_append_string G D opt k z s1 ex
           | OptDocument \<Rightarrow> php_phongo_query_opts_append_document G D opt k z s1 ex)))"

definition dollar :: "string \<Rightarrow> string" where
  "dollar k = CHR 0x24 # k"

definition query_rows :: "query_row list" where
  "query_rows =
    [(''allowDiskUse'', OptBool, ''allowDiskUse'', NoFallback, False),
     (''allowPartialResults'', OptBool, ''allowPartialResults'', InOptions ''partial'', False),
     (''awaitData'', OptBool, ''awaitData'', NoFallback, False),
     (''batchSize'', OptInt64, ''batchSize'', NoFallback, False),
     (''collation'', OptDocument, ''collation'', NoFallback, False),
     (''comment'', OptString, ''comment'', InModifiers (dollar ''comment''), False),
     (''exhaust'', OptBool, ''exhaust'', NoFallback, False),
     (''max'', OptDocument, ''max'', InModifiers (dollar ''max''), False),
     (''maxScan'', OptInt64, ''maxScan'', InModifiers (dollar ''maxScan''), True),
     (''maxTimeMS'', OptInt64, ''maxTimeMS'', InModifiers (dollar ''maxTimeMS''), False),
     (''min'', OptDocument, ''min'', InModifiers (dollar ''min''), False),
     (''noCursorTimeout'', OptBool, ''noCursorTimeout'', NoFallback, False),
     (''oplogReplay'', OptBool, ''oplogReplay'', NoFallback, True),
     (''projection'', OptDocument, ''projection'', NoFallback, False),
     (''returnKey'', OptBool, ''returnKey'', InModifiers (dollar ''returnKey''), False),
     (''showRecordId'', OptBool, ''showRecordId'', InModifiers (dollar ''showDiskLoc''), False),
     (''skip'', OptInt64, ''skip'', NoFallback, False),
     (''sort'', OptDocument, ''sort'', InModifiers (dollar ''orderby''), False),
     (''snapshot'', OptBool, ''snapshot'', InModifiers (dollar ''snapshot''), True),
     (''tailable'', OptBool, ''tailable'', NoFallback, False)]"

text \<open>"explain" is only a modifier.\<close>

definition query_explain :: "operation_env \<Rightarrow> ht option \<Rightarrow> 'rc query_state \<Rightarrow> exn list \<Rightarrow> 'rc query_state init_step" where
  "query_explain G modifiers s ex = (case query_present modifiers (dollar ''explain'') of
       None \<Rightarrow> Some (True, s, ex)
     | Some z \<Rightarrow> query_append G ''explain'' (BBool (php_array_zval_to_bool (Some z))) s ex)"

fun query_opts_loop ::
    "operation_env \<Rightarrow> ('rc, 'rp, 'wc, 'cs, 'cl) store \<Rightarrow> ht \<Rightarrow> ht option \<Rightarrow> query_row list \<Rightarrow> 'rc query_state \<Rightarrow> exn list \<Rightarrow> 'rc query_state init_step" where
  "query_opts_loop G D options modifiers [] s ex = Some (True, s, ex)"
| "query_opts_loop G D options modifiers (r # rs) s ex =
     init_then (query_opt G D options modifiers r s ex) (query_opts_loop G D options modifiers rs)"

text \<open>A hint is a string or a document, of the options or of the modifiers.\<close>

definition query_hint_value ::
    "operation_env \<Rightarrow> ('rc, 'rp, 'wc, 'cs, 'cl) store \<Rightarrow> string \<Rightarrow> zval \<Rightarrow> 'rc query_state \<Rightarrow> exn list \<Rightarrow> 'rc query_state init_step" where
  "query_hint_value G D key val s ex =
     (if z_is_string val then php_phongo_query_opts_append_string G D ''hint'' key val s ex
      else if is_compound val then php_phongo_query_opts_append_document G D ''hint'' key val s ex
      else init_fail s ex (''Expected '' @ dquote key @ '' '' @ option_or_modifier key @ '' to be string, array, or object, ''
             @ op_type_name G val @ '' given''))"

definition php_phongo_query_init_hint ::
    "operation_env \<Rightarrow> ('rc, 'rp, 'wc, 'cs, 'cl) store \<Rightarrow> ht \<Rightarrow> ht option \<Rightarrow> 'rc query_state \<Rightarrow> exn list \<Rightarrow> 'rc query_state init_step" where
  "php_phongo_query_init_hint G D options modifiers s ex =
     (case php_array_fetch options ''hint'' of
        Some z \<Rightarrow> query_hint_value G D ''hint'' z s ex
      | None \<Rightarrow> (case query_present modifiers (dollar ''hint'') of
          Some z \<Rightarrow> query_hint_value G D (dollar ''hint'') z s ex
        | None \<Rightarrow> Some (True, s, ex)))"

text \<open>Negating the least integer is undefined.\<close>

definition php_phongo_query_init_limit_and_singlebatch ::
    "operation_env \<Rightarrow> ('rc, 'rp, 'wc, 'cs, 'cl) store \<Rightarrow> ht \<Rightarrow> 'rc query_state \<Rightarrow> exn list \<Rightarrow> 'rc query_state init_step" where
  "php_phongo_query_init_limit_and_singlebatch G D options s ex =
     (let limit = php_array_fetch_long (op_long G) options ''limit'' in
      if limit < 0 then
        (if limit = - 9223372036854775808 then None
         else init_then (query_append G ''limit'' (BInt64 (- limit)) s ex) (\<lambda>s1 ex1.
           if php_array_exists options ''singleBatch'' \<and> \<not> php_array_fetch_bool options ''singleBatch''
           then init_fail s1 ex1 (''Negative '' @ dquote ''limit'' @ '' option conflicts with false '' @ dquote ''singleBatch'' @ '' option'')
           else query_append G ''singleBatch'' (BBool True) s1 ex1))
      else init_then (query_opt G D options None (''limit'', OptInt64, ''limit'', NoFallback, False) s ex)
             (query_opt G D options None (''singleBatch'', OptBool, ''singleBatch'', NoFallback, False)))"

definition php_phongo_query_init_readconcern ::
    "('rc, 'rp, 'wc, 'cs, 'cl) store \<Rightarrow> ht \<Rightarrow> 'rc query_state \<Rightarrow> exn list \<Rightarrow> 'rc query_state init_step" where
  "php_phongo_query_init_readconcern D options s ex =
     (case php_array_fetch options ''readConcern'' of
        None \<Rightarrow> Some (True, s, ex)
      | Some z \<Rightarrow> (case obj_at D z of
          Some (DReadConcern rc) \<Rightarrow> Some (True, ((fst s)\<lparr>qry_read_concern := rcn_read_concern rc\<rparr>, snd s), ex)
        | _ \<Rightarrow> Some (False, s, option_type_exception D ''readConcern'' readconcern_ce_name z # ex)))"

text \<open>The option both classes have: milliseconds in 32 bits without sign.\<close>

definition max_await_time_option :: "(zval \<Rightarrow> int) \<Rightarrow> ht \<Rightarrow> int option result" where
  "max_await_time_option L options =
     (if \<not> php_array_exists options ''maxAwaitTimeMS'' then Inr None
      else (let ms = php_array_fetch_long L options ''maxAwaitTimeMS'' in
        if ms < 0 then Inl (invalid_argument (''Expected '' @ dquote ''maxAwaitTimeMS'' @ '' option to be >= 0, '' @ dec_of_int ms @ '' given''))
        else if ms > uint32_max then Inl (invalid_argument (''Expected '' @ dquote ''maxAwaitTimeMS'' @ '' option to be <= ''
          @ dec_of_int uint32_max @ '', '' @ dec_of_int ms @ '' given''))
        else Inr (Some ms)))"

definition php_phongo_query_init_max_await_time_ms :: "(zval \<Rightarrow> int) \<Rightarrow> ht \<Rightarrow> 'rc query_state \<Rightarrow> exn list \<Rightarrow> 'rc query_state init_step" where
  "php_phongo_query_init_max_await_time_ms L options s ex =
     (case max_await_time_option L options of
        Inl e \<Rightarrow> Some (False, s, e # ex)
      | Inr None \<Rightarrow> Some (True, s, ex)
      | Inr (Some ms) \<Rightarrow> Some (True, ((fst s)\<lparr>qry_max_await_time_ms := ms\<rparr>, snd s), ex))"

definition query_modifiers :: "('rc, 'rp, 'wc, 'cs, 'cl) store \<Rightarrow> ht \<Rightarrow> ht option result" where
  "query_modifiers D options = (case php_array_fetch options ''modifiers'' of
       None \<Rightarrow> Inr None
     | Some (ZArray h) \<Rightarrow> Inr (Some h)
     | Some z \<Rightarrow> Inl (invalid_argument (''Expected '' @ dquote ''modifiers'' @ '' option to be array, '' @ z_class_or_type_name D z @ '' given'')))"

definition query_init_options ::
    "operation_env \<Rightarrow> ('rc, 'rp, 'wc, 'cs, 'cl) store \<Rightarrow> ht \<Rightarrow> 'rc query_state \<Rightarrow> exn list \<Rightarrow> 'rc query_state init_step" where
  "query_init_options G D options s ex =
     (case query_modifiers D options of
        Inl e \<Rightarrow> Some (False, s, e # ex)
      | Inr modifiers \<Rightarrow>
          init_then (init_then (init_then (init_then (init_then
            (query_opts_loop G D options modifiers query_rows s ex)
            (query_explain G modifiers))
            (php_phongo_query_init_hint G D options modifiers))
            (php_phongo_query_init_limit_and_singlebatch G D options))
            (php_phongo_query_init_readconcern D options))
            (php_phongo_query_init_max_await_time_ms (op_long G) options))"

definition php_phongo_query_init ::
    "operation_env \<Rightarrow> ('rc, 'rp, 'wc, 'cs, 'cl) store \<Rightarrow> zval \<Rightarrow> ht option \<Rightarrow> 'rc query_state \<Rightarrow> exn list \<Rightarrow> 'rc query_state init_step" where
  "php_phongo_query_init G D filt options intern ex =
     (case op_zval_to_bson G filt ex of
        None \<Rightarrow> None
      | Some (doc, ex1) \<Rightarrow>
          (let s = ((fst intern)\<lparr>qry_filter := doc, qry_opts := [], qry_max_await_time_ms := 0\<rparr>, snd intern) in
           if ex1 \<noteq> [] then Some (False, s, ex1)
           else if \<not> op_validate_empty_keys G (BDoc doc DocOk) then init_fail s ex1 ''Cannot use empty keys in filter document''
           else (case options of
                   None \<Rightarrow> Some (True, s, ex1)
                 | Some h \<Rightarrow> query_init_options G D h s ex1)))"

definition Query___construct ::
    "operation_env \<Rightarrow> ('rc, 'rp, 'wc, 'cs, 'cl) store \<Rightarrow> zval \<Rightarrow> ht option \<Rightarrow> 'rc query_state \<Rightarrow> exn list \<Rightarrow> ('rc query_state \<times> exn list) option" where
  "Query___construct G D filt options intern ex =
     map_option snd (php_phongo_query_init G D filt options intern ex)"

section \<open>Command\<close>

record php_phongo_command_t =
  cmd_bson :: opts
  cmd_max_await_time_ms :: int
  cmd_batch_size :: int

definition php_phongo_command_create_object :: php_phongo_command_t where
  "php_phongo_command_create_object = \<lparr>cmd_bson = [], cmd_max_await_time_ms = 0, cmd_batch_size = 0\<rparr>"

definition php_phongo_command_init_max_await_time_ms ::
    "(zval \<Rightarrow> int) \<Rightarrow> ht \<Rightarrow> php_phongo_command_t \<Rightarrow> exn list \<Rightarrow> php_phongo_command_t init_step" where
  "php_phongo_command_init_max_await_time_ms L options intern ex =
     (case max_await_time_option L options of
        Inl e \<Rightarrow> Some (False, intern, e # ex)
      | Inr None \<Rightarrow> Some (True, intern, ex)
      | Inr (Some ms) \<Rightarrow> Some (True, intern\<lparr>cmd_max_await_time_ms := ms\<rparr>, ex))"

text \<open>\<^verbatim>\<open>bson_iter_find_descendant\<close> of "cursor.batchSize", when it is an integer.\<close>

definition command_batch_size :: "opts \<Rightarrow> int option" where
  "command_batch_size doc =
     (case (case map_of doc ''cursor'' of
              Some (BDocument d) \<Rightarrow> map_of (doc_elems d) ''batchSize''
            | Some (BArray d) \<Rightarrow> map_of (doc_elems d) ''batchSize''
            | _ \<Rightarrow> None) of
        Some (BInt32 i) \<Rightarrow> Some i
      | Some (BInt64 i) \<Rightarrow> Some i
      | _ \<Rightarrow> None)"

definition php_phongo_command_init ::
    "operation_env \<Rightarrow> zval \<Rightarrow> ht option \<Rightarrow> php_phongo_command_t \<Rightarrow> exn list \<Rightarrow> php_phongo_command_t init_step" where
  "php_phongo_command_init G document options intern ex =
     (case op_zval_to_bson G document ex of
        None \<Rightarrow> None
      | Some (doc, ex1) \<Rightarrow>
          (let c = intern\<lparr>cmd_bson := doc, cmd_batch_size := 0, cmd_max_await_time_ms := 0\<rparr> in
           if ex1 \<noteq> [] then Some (False, c, ex1)
           else (let c1 = (case command_batch_size doc of
                   Some n \<Rightarrow> if n \<ge> 0 \<and> n \<le> uint32_max then c\<lparr>cmd_batch_size := n\<rparr> else c
                 | None \<Rightarrow> c) in
                 case options of
                   None \<Rightarrow> Some (True, c1, ex1)
                 | Some h \<Rightarrow> php_phongo_command_init_max_await_time_ms (op_long G) h c1 ex1)))"

definition Command___construct ::
    "operation_env \<Rightarrow> zval \<Rightarrow> ht option \<Rightarrow> php_phongo_command_t \<Rightarrow> exn list \<Rightarrow> (php_phongo_command_t \<times> exn list) option" where
  "Command___construct G document options intern ex = map_option snd (php_phongo_command_init G document options intern ex)"

section \<open>The options a query sends\<close>

text \<open>The two integers of both classes fit 32 bits without sign.\<close>

definition uint32_range :: "int \<Rightarrow> bool" where
  "uint32_range i \<longleftrightarrow> 0 \<le> i \<and> i \<le> uint32_max"

lemma max_await_time_range: "max_await_time_option L options = Inr (Some ms) \<Longrightarrow> uint32_range ms"
  by (auto simp: max_await_time_option_def uint32_range_def Let_def split: if_splits)

text \<open>
  The keys of the options, as the rows allow them: in order, none twice; and the limit is not
  negative.
\<close>

definition opts_upto :: "string list \<Rightarrow> opts \<Rightarrow> bool" where
  "opts_upto keys es \<longleftrightarrow> set (map fst es) \<subseteq> set keys \<and> distinct (map fst es)
     \<and> (\<forall>i. (''limit'', BInt64 i) \<in> set es \<longrightarrow> 0 \<le> i)"

lemma opts_upto_mono: "opts_upto ks es \<Longrightarrow> set ks \<subseteq> set ks' \<Longrightarrow> opts_upto ks' es"
  by (auto simp: opts_upto_def)

lemma opts_upto_snoc:
  "opts_upto ks es \<Longrightarrow> k \<notin> set ks \<Longrightarrow> (k = ''limit'' \<Longrightarrow> \<forall>i. v = BInt64 i \<longrightarrow> 0 \<le> i) \<Longrightarrow> opts_upto (ks @ [k]) (es @ [(k, v)])"
  by (auto simp: opts_upto_def)

definition step_opts :: "string list \<Rightarrow> 'rc query_state init_step \<Rightarrow> bool" where
  "step_opts ks r = step_keeps (\<lambda>s. opts_upto ks (qry_opts (fst s))) r"

lemma step_opts_then:
  assumes "step_opts ks r" and "\<And>s ex. opts_upto ks (qry_opts (fst s)) \<Longrightarrow> step_opts (ks @ ks') (k s ex)"
  shows "step_opts (ks @ ks') (init_then r k)"
proof (cases r)
  case (Some t)
  then obtain ok s ex where t: "r = Some (ok, s, ex)" by (cases t) auto
  then have u: "opts_upto ks (qry_opts (fst s))" using assms(1) by (simp add: step_opts_def)
  show ?thesis
  proof (cases ok)
    case True
    then show ?thesis using t assms(2)[OF u, of ex] by (simp add: init_then_def)
  next
    case False
    then show ?thesis using t opts_upto_mono[OF u, of "ks @ ks'"] by (simp add: init_then_def step_opts_def)
  qed
qed (simp add: init_then_def step_opts_def)

lemma query_append_opts:
  assumes "append_contract G" and "opts_upto ks (qry_opts (fst s))" and "k \<notin> set ks"
    and "k = ''limit'' \<Longrightarrow> \<forall>i. v = BInt64 i \<longrightarrow> 0 \<le> i"
  shows "step_opts (ks @ [k]) (query_append G k v s ex)"
  using assms opts_upto_snoc[OF assms(2,3,4)] opts_upto_mono[OF assms(2), of "ks @ [k]"]
  by (auto simp: query_append_def step_opts_def append_contract_def split: option.split)

lemma step_opts_same: "opts_upto ks (qry_opts (fst s)) \<Longrightarrow> step_opts (ks @ ks') (Some (ok, s, ex))"
  by (auto simp: step_opts_def intro: opts_upto_mono)

lemma query_document_opts:
  "append_contract G \<Longrightarrow> opts_upto ks (qry_opts (fst s)) \<Longrightarrow> k \<notin> set ks \<Longrightarrow>
     step_opts (ks @ [k]) (php_phongo_query_opts_append_document G D k key z s ex)"
  by (auto simp: php_phongo_query_opts_append_document_def step_opts_same query_append_opts split: option.split)
    (auto simp: step_opts_def)

lemma query_string_opts:
  "append_contract G \<Longrightarrow> opts_upto ks (qry_opts (fst s)) \<Longrightarrow> k \<notin> set ks \<Longrightarrow>
     step_opts (ks @ [k]) (php_phongo_query_opts_append_string G D k key z s ex)"
  by (auto simp: php_phongo_query_opts_append_string_def step_opts_same query_append_opts split: zval.split)

lemma query_opt_opts:
  assumes "append_contract G" and "opts_upto ks (qry_opts (fst s))" and "fst row \<notin> set ks" and "fst row \<noteq> ''limit''"
  shows "step_opts (ks @ [fst row]) (query_opt G D options modifiers row s ex)"
  using assms by (cases row) (auto simp: query_opt_def Let_def step_opts_same query_append_opts query_document_opts query_string_opts
      split: option.split query_kind.split)

lemma query_loop_opts:
  assumes "append_contract G"
  shows "opts_upto ks (qry_opts (fst s)) \<Longrightarrow> distinct (map fst rows) \<Longrightarrow> set (map fst rows) \<inter> set ks = {} \<Longrightarrow>
    ''limit'' \<notin> set (map fst rows) \<Longrightarrow> step_opts (ks @ map fst rows) (query_opts_loop G D options modifiers rows s ex)"
proof (induction rows arbitrary: ks s ex)
  case Nil
  then show ?case using step_opts_same[of ks s "[]"] by simp
next
  case (Cons r rs)
  have 1: "step_opts (ks @ [fst r]) (query_opt G D options modifiers r s ex)"
    by (rule query_opt_opts[OF assms Cons.prems(1)]) (use Cons.prems in auto)
  have "step_opts ((ks @ [fst r]) @ map fst rs) (init_then (query_opt G D options modifiers r s ex) (query_opts_loop G D options modifiers rs))"
    by (rule step_opts_then[OF 1]) (rule Cons.IH; use Cons.prems in auto)
  then show ?case by simp
qed

definition query_keys :: "string list" where
  "query_keys = map fst query_rows @ [''explain'', ''hint'', ''limit'', ''singleBatch'']"

lemma query_rows_keys: "distinct query_keys" "''limit'' \<notin> set (map fst query_rows)"
  by (simp_all add: query_keys_def query_rows_def)

lemma query_hint_opts:
  assumes "append_contract G" and "opts_upto ks (qry_opts (fst s))" and "''hint'' \<notin> set ks"
  shows "step_opts (ks @ [''hint'']) (php_phongo_query_init_hint G D options modifiers s ex)"
  using assms by (auto simp: php_phongo_query_init_hint_def query_hint_value_def step_opts_same query_document_opts query_string_opts
      split: option.split)

lemma query_explain_opts:
  assumes "append_contract G" and "opts_upto ks (qry_opts (fst s))" and "''explain'' \<notin> set ks"
  shows "step_opts (ks @ [''explain'']) (query_explain G modifiers s ex)"
  using assms by (auto simp: query_explain_def step_opts_same query_append_opts split: option.split)

lemma query_opt_single:
  assumes "append_contract G" and "opts_upto ks (qry_opts (fst s))" and "k \<notin> set ks"
    and "k = ''limit'' \<Longrightarrow> 0 \<le> php_array_fetch_long (op_long G) options ''limit''"
    and "kind = OptBool \<or> kind = OptInt64 \<and> k = ''limit''"
  shows "step_opts (ks @ [k]) (query_opt G D options None (k, kind, k, NoFallback, False) s ex)"
  using assms by (auto simp: query_opt_def row_value_def php_array_fetch_long_def step_opts_same query_append_opts split: option.split)

lemma query_limit_opts:
  fixes s :: "'a query_state"
  assumes c: "append_contract G" and u: "opts_upto ks (qry_opts (fst s))" and k: "''limit'' \<notin> set ks" "''singleBatch'' \<notin> set ks"
  shows "step_opts ((ks @ [''limit'']) @ [''singleBatch'']) (php_phongo_query_init_limit_and_singlebatch G D options s ex)"
proof (cases "php_array_fetch_long (op_long G) options ''limit'' < 0")
  case True
  let ?n = "php_array_fetch_long (op_long G) options ''limit''"
  have 1: "step_opts (ks @ [''limit'']) (query_append G ''limit'' (BInt64 (- ?n)) s ex)"
    using query_append_opts[OF c u k(1), of "BInt64 (- ?n)"] True by simp
  have 2: "step_opts ((ks @ [''limit'']) @ [''singleBatch'']) (if b then init_fail s1 ex1 m else query_append G ''singleBatch'' (BBool True) s1 ex1)"
    if "opts_upto (ks @ [''limit'']) (qry_opts (fst s1))" for s1 ex1 b m
    using query_append_opts[OF c that, of "''singleBatch''" "BBool True" ex1] step_opts_same[OF that, of "[''singleBatch'']"] k by auto
  have "step_opts ((ks @ [''limit'']) @ [''singleBatch'']) (init_then (query_append G ''limit'' (BInt64 (- ?n)) s ex)
     (\<lambda>s1 ex1. if b then init_fail s1 ex1 m else query_append G ''singleBatch'' (BBool True) s1 ex1))" for b m
    by (rule step_opts_then[OF 1]) (rule 2)
  then show ?thesis using True
    by (simp add: php_phongo_query_init_limit_and_singlebatch_def Let_def) (simp add: step_opts_def)
next
  case False
  have "step_opts ((ks @ [''limit'']) @ [''singleBatch'']) (init_then
     (query_opt G D options None (''limit'', OptInt64, ''limit'', NoFallback, False) s ex)
     (query_opt G D options None (''singleBatch'', OptBool, ''singleBatch'', NoFallback, False)))"
  proof (rule step_opts_then)
    show "step_opts (ks @ [''limit'']) (query_opt G D options None (''limit'', OptInt64, ''limit'', NoFallback, False) s ex)"
      by (rule query_opt_single[OF c u k(1)]) (use False in auto)
  next
    fix s1 :: "'a query_state" and ex1 assume "opts_upto (ks @ [''limit'']) (qry_opts (fst s1))"
    then show "step_opts ((ks @ [''limit'']) @ [''singleBatch''])
        (query_opt G D options None (''singleBatch'', OptBool, ''singleBatch'', NoFallback, False) s1 ex1)"
      by (rule query_opt_single[OF c]) (use k in auto)
  qed
  then show ?thesis using False by (simp add: php_phongo_query_init_limit_and_singlebatch_def Let_def)
qed

lemma query_rest_opts:
  assumes "opts_upto ks (qry_opts (fst s))"
  shows "step_opts (ks @ []) (php_phongo_query_init_readconcern D options s ex)"
    and "step_opts (ks @ []) (php_phongo_query_init_max_await_time_ms L options s ex)"
  using assms by (auto simp: php_phongo_query_init_readconcern_def php_phongo_query_init_max_await_time_ms_def step_opts_def
      split: option.split driver_obj.split sum.split)

lemma query_init_options_opts:
  assumes c: "append_contract G" and u: "opts_upto [] (qry_opts (fst s))"
  shows "step_opts query_keys (query_init_options G D options s ex)"
proof (cases "query_modifiers D options")
  case (Inl e)
  then show ?thesis using opts_upto_mono[OF u, of query_keys] by (simp add: query_init_options_def step_opts_def)
next
  case (Inr m)
  let ?k = "map fst query_rows"
  note keys = query_rows_keys[unfolded query_keys_def]
  let ?r1 = "query_opts_loop G D options m query_rows s ex"
  let ?r2 = "init_then ?r1 (query_explain G m)"
  let ?r3 = "init_then ?r2 (php_phongo_query_init_hint G D options m)"
  let ?r4 = "init_then ?r3 (php_phongo_query_init_limit_and_singlebatch G D options)"
  have 1: "step_opts ?k ?r1" using query_loop_opts[OF c u, of query_rows] keys by simp
  have 2: "step_opts (?k @ [''explain'']) ?r2"
    by (rule step_opts_then[OF 1], rule query_explain_opts[OF c], assumption) (use keys in simp)
  have 3: "step_opts ((?k @ [''explain'']) @ [''hint'']) ?r3"
    by (rule step_opts_then[OF 2], rule query_hint_opts[OF c], assumption) (use keys in simp)
  have 4: "step_opts (((?k @ [''explain'']) @ [''hint'']) @ [''limit'', ''singleBatch'']) ?r4"
    by (rule step_opts_then[OF 3])
      (use keys query_limit_opts[OF c, of "(?k @ [''explain'']) @ [''hint'']"] in auto)
  have 5: "step_opts ((((?k @ [''explain'']) @ [''hint'']) @ [''limit'', ''singleBatch'']) @ [])
      (init_then ?r4 (php_phongo_query_init_readconcern D options))"
    by (rule step_opts_then[OF 4]) (rule query_rest_opts)
  have "step_opts (((((?k @ [''explain'']) @ [''hint'']) @ [''limit'', ''singleBatch'']) @ []) @ [])
      (init_then (init_then ?r4 (php_phongo_query_init_readconcern D options))
        (php_phongo_query_init_max_await_time_ms (op_long G) options))"
    by (rule step_opts_then[OF 5]) (rule query_rest_opts)
  then show ?thesis using Inr by (simp add: query_init_options_def query_keys_def)
qed

lemma query_init_opts:
  assumes "append_contract G" and "php_phongo_query_init G D filt options intern ex = Some (ok, s, ex1)"
  shows "opts_upto query_keys (qry_opts (fst s))"
proof -
  have e: "opts_upto ks []" for ks by (simp add: opts_upto_def)
  have "opts_upto query_keys (qry_opts (fst s))" if "query_init_options G D h s0 ex2 = Some (ok, s, ex1)" "qry_opts (fst s0) = []" for h s0 ex2
    using query_init_options_opts[OF assms(1), of s0 D h ex2, unfolded that(2)] that e unfolding step_opts_def step_keeps_def by blast
  note o = this
  show ?thesis using assms(2) o
    by (fastforce simp: php_phongo_query_init_def Let_def e split: option.splits if_splits)
qed

section \<open>The other fields\<close>

lemma step_keeps_max_await:
  "uint32_range (qry_max_await_time_ms (fst s)) \<Longrightarrow>
     step_keeps (\<lambda>s. uint32_range (qry_max_await_time_ms (fst s))) (php_phongo_query_init_max_await_time_ms L options s ex)"
  by (auto simp: php_phongo_query_init_max_await_time_ms_def max_await_time_range split: sum.split option.split)

lemma command_init_ranges:
  assumes "php_phongo_command_init G z options c0 ex = Some (ok, c, ex1)"
  shows "uint32_range (cmd_max_await_time_ms c) \<and> uint32_range (cmd_batch_size c)"
proof -
  have 0: "uint32_range 0" by (simp add: uint32_range_def uint32_max_def)
  have "uint32_range (cmd_max_await_time_ms c2) \<and> uint32_range (cmd_batch_size c2)"
    if "php_phongo_command_init_max_await_time_ms L h c1 ex2 = Some (ok, c2, ex1)"
      and "uint32_range (cmd_max_await_time_ms c1) \<and> uint32_range (cmd_batch_size c1)" for L h c1 c2 ex2
    using that by (auto simp: php_phongo_command_init_max_await_time_ms_def max_await_time_range split: sum.splits option.splits)
  note m = this
  let ?c = "\<lambda>doc. c0\<lparr>cmd_bson := doc, cmd_batch_size := 0, cmd_max_await_time_ms := 0\<rparr>"
  let ?b = "\<lambda>doc. case command_batch_size doc of Some n \<Rightarrow> if n \<ge> 0 \<and> n \<le> uint32_max then (?c doc)\<lparr>cmd_batch_size := n\<rparr> else ?c doc
      | None \<Rightarrow> ?c doc"
  have b: "uint32_range (cmd_max_await_time_ms (?b doc)) \<and> uint32_range (cmd_batch_size (?b doc))" for doc
    using 0 by (auto simp: uint32_range_def split: option.split)
  show ?thesis
  proof (cases "op_zval_to_bson G z ex")
    case None
    then show ?thesis using assms by (simp add: php_phongo_command_init_def)
  next
    case (Some de)
    then obtain doc ex2 where d: "op_zval_to_bson G z ex = Some (doc, ex2)" by (cases de) auto
    show ?thesis
    proof (cases "ex2 = []")
      case False
      then show ?thesis using assms d 0 by (auto simp: php_phongo_command_init_def Let_def)
    next
      case True
      then have k: "(case options of None \<Rightarrow> Some (True, ?b doc, [])
          | Some h \<Rightarrow> php_phongo_command_init_max_await_time_ms (op_long G) h (?b doc) []) = Some (ok, c, ex1)"
        using assms d by (simp add: php_phongo_command_init_def Let_def)
      show ?thesis
      proof (cases options)
        case None
        then show ?thesis using k b[of doc] by auto
      next
        case (Some h)
        then show ?thesis using k m[OF _ b[of doc], of "op_long G" h "[]"] by simp
      qed
    qed
  qed
qed

end
