(* ===== verification/Php_Iterator.thy ===== *)
theory Php_Iterator
  imports Bson_Decode_Spec
begin

text \<open>
  Lists as PHP arrays, and the engine's loop over an \<^verbatim>\<open>Iterator\<close> object, with the contract an
  iterator keeps as a locale: started, it delivers a list of values one by one.
\<close>

section \<open>Lists as arrays\<close>

text \<open>The array that appending the values one after the other builds.\<close>

definition list_table_from :: "nat \<Rightarrow> zval list \<Rightarrow> ht" where
  "list_table_from n zs = map (\<lambda>(i, z). (KInt (int i), z)) (enumerate n zs)"

abbreviation list_table :: "zval list \<Rightarrow> ht" where
  "list_table \<equiv> list_table_from 0"

lemma list_table_Nil [simp]: "list_table_from n [] = []"
  by (simp add: list_table_from_def)

lemma list_table_values: "map snd (list_table_from n zs) = zs"
  by (simp add: list_table_from_def comp_def case_prod_beta)

lemma list_table_inj: "list_table zs = list_table ys \<Longrightarrow> zs = ys"
  by (metis list_table_values)

lemma next_index_list_table:
  "next_index (list_table_from n zs) = (if zs = [] then 0 else int (n + length zs))"
  by (induction zs arbitrary: n) (auto simp: next_index_def list_table_from_def)

lemma list_table_fresh: "n + length zs \<le> m \<Longrightarrow> hash_find (list_table_from n zs) (KInt (int m)) = None"
  by (induction zs arbitrary: n) (auto simp: list_table_from_def)

lemma add_next_list_table [simp]: "add_next_index (list_table zs) z = list_table (zs @ [z])"
proof -
  have "next_index (list_table zs) = int (length zs)"
    by (simp add: next_index_list_table)
  then show ?thesis using list_table_fresh[of 0 zs "length zs"]
    by (simp add: add_next_index_def hash_update_new) (simp add: list_table_from_def enumerate_append_eq)
qed

lemma list_ex_list_table: "list_ex (\<lambda>(k, z). P z) (list_table_from n zs) \<longleftrightarrow> (\<exists>z \<in> set zs. P z)"
  by (induction zs arbitrary: n) (auto simp: list_table_from_def)

section \<open>The loop\<close>

text \<open>
  \<^verbatim>\<open>spl_iterator_apply\<close> with the callback of \<^verbatim>\<open>toArray\<close>, which adds the current value to an
  array.  A method that moves the iterator returns the exceptions it leaves pending.  None: a
  method is not defined, or the loop does not end.
\<close>

partial_function (option) iterator_loop ::
    "('s \<Rightarrow> bool) \<Rightarrow> ('s \<Rightarrow> zval) \<Rightarrow> ('s \<Rightarrow> ('s \<times> exn list) option) \<Rightarrow> 's \<Rightarrow> ht \<Rightarrow> ('s \<times> ht \<times> exn list) option" where
  "iterator_loop valid current next s acc =
     (if \<not> valid s then Some (s, acc, [])
      else Option.bind (next s) (\<lambda>(s1, ex).
        if ex \<noteq> [] then Some (s1, add_next_index acc (current s), ex)
        else iterator_loop valid current next s1 (add_next_index acc (current s))))"

definition spl_iterator_apply ::
    "('s \<Rightarrow> ('s \<times> exn list) option) \<Rightarrow> ('s \<Rightarrow> bool) \<Rightarrow> ('s \<Rightarrow> zval) \<Rightarrow> ('s \<Rightarrow> ('s \<times> exn list) option)
       \<Rightarrow> 's \<Rightarrow> ('s \<times> ht \<times> exn list) option" where
  "spl_iterator_apply rewind valid current next s =
     Option.bind (rewind s) (\<lambda>(s1, ex). if ex \<noteq> [] then Some (s1, [], ex) else iterator_loop valid current next s1 [])"

section \<open>The contract\<close>

text \<open>
  \<^verbatim>\<open>fresh s zs\<close>: not started, zs to come; \<^verbatim>\<open>at s zs\<close>: standing before zs, whose head is current.
\<close>

locale php_iterator =
  fixes rewind :: "'s \<Rightarrow> ('s \<times> exn list) option"
    and valid :: "'s \<Rightarrow> bool"
    and current :: "'s \<Rightarrow> zval"
    and "next" :: "'s \<Rightarrow> ('s \<times> exn list) option"
    and fresh :: "'s \<Rightarrow> zval list \<Rightarrow> bool"
    and at :: "'s \<Rightarrow> zval list \<Rightarrow> bool"
  assumes rewind_fresh: "fresh s zs \<Longrightarrow> \<exists>s1. rewind s = Some (s1, []) \<and> at s1 zs"
    and at_valid: "at s zs \<Longrightarrow> valid s \<longleftrightarrow> zs \<noteq> []"
    and at_current: "at s (z # zs) \<Longrightarrow> current s = z"
    and at_next: "at s (z # zs) \<Longrightarrow> \<exists>s1. next s = Some (s1, []) \<and> at s1 zs"
begin

lemma loop_collects:
  "at s zs \<Longrightarrow> \<exists>s1. iterator_loop valid current next s (list_table ys) = Some (s1, list_table (ys @ zs), []) \<and> at s1 []"
proof (induction zs arbitrary: s ys)
  case Nil
  then show ?case using at_valid by (subst iterator_loop.simps) auto
next
  case (Cons z zs)
  obtain s1 where n: "next s = Some (s1, [])" "at s1 zs" using at_next[OF Cons.prems] by auto
  have v: "valid s" using at_valid[OF Cons.prems] by simp
  show ?case
    using Cons.IH[OF n(2), of "ys @ [z]"] n(1) v at_current[OF Cons.prems]
    by (subst iterator_loop.simps) simp
qed

lemma apply_collects:
  assumes "fresh s zs"
  shows "\<exists>s1. spl_iterator_apply rewind valid current next s = Some (s1, list_table zs, []) \<and> at s1 []"
  using rewind_fresh[OF assms] loop_collects[where ys = "[]"] by (auto simp: spl_iterator_apply_def)

end

end
