(* ===== verification/Driver_Errors.thy ===== *)
theory Driver_Errors
  imports Php_Iterator
begin

text \<open>
  Errors of libmongoc as PHP exceptions (php\_phongo.c) and the accessors of the exception
  classes; the error objects of a write result (WriteError, WriteConcernError); namespaces.
  The exceptions raised so far are a list, newest first, as in Bson\_Decode: its head is
  \<^verbatim>\<open>EG(exception)\<close>, the rest its chain of previous exceptions.
\<close>

section \<open>Error domains\<close>

datatype mongoc_error_domain_t =
    MONGOC_ERROR_CLIENT
  | MONGOC_ERROR_STREAM
  | MONGOC_ERROR_PROTOCOL
  | MONGOC_ERROR_SERVER_SELECTION
  | MONGOC_ERROR_SERVER
  | MONGOC_ERROR_COMMAND
  | MONGOC_ERROR_WRITE_CONCERN
  | MONGOC_ERROR_CLIENT_SIDE_ENCRYPTION
  | MONGOC_ERROR_OTHER nat

text \<open>The error codes the extension compares with, whose numbers are those of libmongoc's header.\<close>

record mongoc_error_codes =
  MONGOC_ERROR_CLIENT_AUTHENTICATE :: int
  MONGOC_ERROR_CLIENT_INVALID_ENCRYPTION_ARG :: int
  MONGOC_ERROR_COMMAND_INVALID_ARG :: int
  MONGOC_ERROR_SERVER_SELECTION_FAILURE :: int
  MONGOC_ERROR_STREAM_SOCKET :: int
  MONGOC_ERROR_PROTOCOL_BAD_WIRE_VERSION :: int

definition PHONGO_SERVER_ERROR_EXCEEDED_TIME_LIMIT :: int where
  "PHONGO_SERVER_ERROR_EXCEEDED_TIME_LIMIT = 50"

record bson_error_t =
  err_domain :: mongoc_error_domain_t
  err_code :: int
  err_message :: string

definition phongo_exception_from_mongoc_domain ::
    "mongoc_error_codes \<Rightarrow> mongoc_error_domain_t \<Rightarrow> int \<Rightarrow> exn_class" where
  "phongo_exception_from_mongoc_domain K domain code =
     (if domain = MONGOC_ERROR_CLIENT \<and> code = MONGOC_ERROR_CLIENT_AUTHENTICATE K then AuthenticationException
      else if domain = MONGOC_ERROR_CLIENT \<and> code = MONGOC_ERROR_CLIENT_INVALID_ENCRYPTION_ARG K then InvalidArgumentException
      else if domain = MONGOC_ERROR_COMMAND \<and> code = MONGOC_ERROR_COMMAND_INVALID_ARG K then InvalidArgumentException
      else if domain = MONGOC_ERROR_SERVER then
        (if code = PHONGO_SERVER_ERROR_EXCEEDED_TIME_LIMIT then ExecutionTimeoutException else ServerException)
      else if domain = MONGOC_ERROR_SERVER_SELECTION \<and> code = MONGOC_ERROR_SERVER_SELECTION_FAILURE K
      then ConnectionTimeoutException
      else if domain = MONGOC_ERROR_STREAM then
        (if code = MONGOC_ERROR_STREAM_SOCKET K then ConnectionTimeoutException else ConnectionException)
      else if domain = MONGOC_ERROR_WRITE_CONCERN then ServerException
      else if domain = MONGOC_ERROR_PROTOCOL \<and> code = MONGOC_ERROR_PROTOCOL_BAD_WIRE_VERSION K then ConnectionException
      else if domain = MONGOC_ERROR_CLIENT_SIDE_ENCRYPTION then EncryptionException
      else RuntimeException)"

definition zend_throw_exception :: "exn_class \<Rightarrow> string \<Rightarrow> int \<Rightarrow> exn" where
  "zend_throw_exception ce message code = Exn ce (c_str message) code []"

section \<open>Properties of exceptions\<close>

text \<open>A property written last is read first.\<close>

fun phongo_add_exception_prop :: "string \<Rightarrow> zval \<Rightarrow> exn list \<Rightarrow> exn list" where
  "phongo_add_exception_prop prop v [] = []"
| "phongo_add_exception_prop prop v (e # es) =
     Exn (ex_class e) (ex_message e) (ex_code e) ((prop, v) # ex_props e) # es"

text \<open>\<^verbatim>\<open>zend_read_property\<close>: the classes declare their properties as null.\<close>

definition exn_property :: "exn \<Rightarrow> string \<Rightarrow> zval" where
  "exn_property e prop = (case map_of (ex_props e) prop of Some v \<Rightarrow> v | None \<Rightarrow> ZNull)"

definition php_phongo_has_string_array_element :: "zval \<Rightarrow> string \<Rightarrow> bool" where
  "php_phongo_has_string_array_element labels label =
     (case labels of
        ZArray h \<Rightarrow> list_ex (\<lambda>(k, z). case z of ZString s \<Rightarrow> c_str s = c_str label | _ \<Rightarrow> False) h
      | _ \<Rightarrow> False)"

definition RuntimeException_hasErrorLabel :: "exn \<Rightarrow> string \<Rightarrow> bool" where
  "RuntimeException_hasErrorLabel this label =
     php_phongo_has_string_array_element (exn_property this ''errorLabels'') label"

definition CommandException_getResultDocument :: "exn \<Rightarrow> zval" where
  "CommandException_getResultDocument this = exn_property this ''resultDocument''"

definition WriteException_getWriteResult :: "exn \<Rightarrow> zval" where
  "WriteException_getWriteResult this = exn_property this ''writeResult''"

section \<open>Error labels\<close>

text \<open>\<^verbatim>\<open>bson_iter_init_find\<close> and \<^verbatim>\<open>bson_iter_find\<close>: the first element of that key.\<close>

definition bson_find :: "bdoc \<Rightarrow> string \<Rightarrow> bval option" where
  "bson_find d key = map_of (doc_elems d) key"

text \<open>The loop over a label array: the labels are appended, and counted.\<close>

fun append_labels :: "(string \<times> bval) list \<Rightarrow> ht \<times> nat \<Rightarrow> ht \<times> nat" where
  "append_labels [] (labels, n) = (labels, n)"
| "append_labels ((k, v) # es) (labels, n) =
     append_labels es (case v of BUtf8 s \<Rightarrow> (add_next_index labels (ZString s), n + 1) | _ \<Rightarrow> (labels, n))"

definition phongo_exception_append_error_labels :: "bval \<Rightarrow> ht \<times> nat \<Rightarrow> ht \<times> nat" where
  "phongo_exception_append_error_labels v c =
     (case v of BArray d \<Rightarrow> append_labels (doc_elems d) c | _ \<Rightarrow> c)"

text \<open>The "errorLabels" of a document, where it is one.\<close>

definition append_labels_of :: "bdoc \<Rightarrow> ht \<times> nat \<Rightarrow> ht \<times> nat" where
  "append_labels_of d c = (case bson_find d ''errorLabels'' of
     Some v \<Rightarrow> phongo_exception_append_error_labels v c | None \<Rightarrow> c)"

definition append_labels_of_value :: "bval \<Rightarrow> ht \<times> nat \<Rightarrow> ht \<times> nat" where
  "append_labels_of_value v c = (case v of BDocument d \<Rightarrow> append_labels_of d c | _ \<Rightarrow> c)"

definition phongo_exception_add_error_labels :: "bdoc option \<Rightarrow> exn list \<Rightarrow> exn list" where
  "phongo_exception_add_error_labels reply ex =
     (case reply of None \<Rightarrow> ex
      | Some d \<Rightarrow>
         (let c1 = append_labels_of d ([], 0);
              c2 = (case bson_find d ''writeConcernError'' of Some v \<Rightarrow> append_labels_of_value v c1 | None \<Rightarrow> c1);
              c3 = (case bson_find d ''writeConcernErrors'' of
                      Some (BArray a) \<Rightarrow> fold (\<lambda>(k, v). append_labels_of_value v) (doc_elems a) c2
                    | _ \<Rightarrow> c2)
          in case c3 of (labels, label_count) \<Rightarrow>
               if label_count > 0 then phongo_add_exception_prop ''errorLabels'' (ZArray labels) ex else ex))"

section \<open>Throwing\<close>

text \<open>
  With a reply, server errors other than ExceededTimeLimit and write concern errors carry the
  result document; the reply is decoded while the exception is already pending.
\<close>

definition reports_result_document :: "bson_error_t \<Rightarrow> bool" where
  "reports_result_document error \<longleftrightarrow>
     (err_domain error = MONGOC_ERROR_SERVER \<and> err_code error \<noteq> PHONGO_SERVER_ERROR_EXCEEDED_TIME_LIMIT)
     \<or> err_domain error = MONGOC_ERROR_WRITE_CONCERN"

definition phongo_throw_exception_from_bson_error_t_and_reply ::
    "decode_env \<Rightarrow> mongoc_error_codes \<Rightarrow> bson_error_t \<Rightarrow> bdoc option \<Rightarrow> exn list \<Rightarrow> exn list option" where
  "phongo_throw_exception_from_bson_error_t_and_reply N K error reply ex =
     map_option (phongo_exception_add_error_labels reply)
       (case reply of
          Some d \<Rightarrow>
            if reports_result_document error then
              (case php_phongo_bson_to_zval N (BufDocument d True)
                      (zend_throw_exception CommandException (err_message error) (err_code error) # ex) of
                 None \<Rightarrow> None
               | Some (ok, zv, ex1) \<Rightarrow> Some (if ok then phongo_add_exception_prop ''resultDocument'' zv ex1 else ex1))
            else Some (zend_throw_exception (phongo_exception_from_mongoc_domain K (err_domain error) (err_code error))
                   (err_message error) (err_code error) # ex)
        | None \<Rightarrow> Some (zend_throw_exception (phongo_exception_from_mongoc_domain K (err_domain error) (err_code error))
                   (err_message error) (err_code error) # ex))"

definition phongo_throw_exception_from_bson_error_t ::
    "decode_env \<Rightarrow> mongoc_error_codes \<Rightarrow> bson_error_t \<Rightarrow> exn list \<Rightarrow> exn list option" where
  "phongo_throw_exception_from_bson_error_t N K error ex =
     phongo_throw_exception_from_bson_error_t_and_reply N K error None ex"

section \<open>WriteConcernError\<close>

record php_phongo_writeconcernerror_t =
  wce_code :: int
  wce_message :: "string option"
  wce_info :: "zval option"

definition php_phongo_writeconcernerror_create_object :: php_phongo_writeconcernerror_t where
  "php_phongo_writeconcernerror_create_object = \<lparr>wce_code = 0, wce_message = None, wce_info = None\<rparr>"

text \<open>The fields the two error objects read from their document.\<close>

definition find_int32 :: "bdoc \<Rightarrow> string \<Rightarrow> int" where
  "find_int32 d key = (case bson_find d key of Some (BInt32 i) \<Rightarrow> i | _ \<Rightarrow> 0)"

definition find_utf8 :: "bdoc \<Rightarrow> string \<Rightarrow> string option" where
  "find_utf8 d key = (case bson_find d key of Some (BUtf8 s) \<Rightarrow> Some s | _ \<Rightarrow> None)"

text \<open>The "errInfo" document: the result flag, the value, the exceptions.\<close>

definition find_info :: "decode_env \<Rightarrow> bdoc \<Rightarrow> exn list \<Rightarrow> (bool \<times> zval option \<times> exn list) option" where
  "find_info N bson ex = (case bson_find bson ''errInfo'' of
     Some (BDocument d) \<Rightarrow>
       map_option (\<lambda>(ok, zv, ex1). (ok, (if ok then Some zv else None), ex1))
         (php_phongo_bson_to_zval N (BufDocument d True) ex)
   | _ \<Rightarrow> Some (True, None, ex))"

definition phongo_writeconcernerror_init ::
    "decode_env \<Rightarrow> bdoc \<Rightarrow> exn list \<Rightarrow> (bool \<times> php_phongo_writeconcernerror_t \<times> exn list) option" where
  "phongo_writeconcernerror_init N bson ex =
     map_option (\<lambda>(ok, info, ex1). (ok, \<lparr>wce_code = find_int32 bson ''code'',
         wce_message = find_utf8 bson ''errmsg'', wce_info = info\<rparr>, ex1))
       (find_info N bson ex)"

definition WriteConcernError_getCode :: "php_phongo_writeconcernerror_t \<Rightarrow> zval" where
  "WriteConcernError_getCode intern = ZLong (wce_code intern)"

definition info_zval :: "zval option \<Rightarrow> zval" where
  "info_zval info = (case info of Some z \<Rightarrow> z | None \<Rightarrow> ZNull)"

definition WriteConcernError_getInfo :: "php_phongo_writeconcernerror_t \<Rightarrow> zval" where
  "WriteConcernError_getInfo intern = info_zval (wce_info intern)"

text \<open>\<^verbatim>\<open>RETURN_STRING\<close> and \<^verbatim>\<open>ADD_ASSOC_STRING\<close> take the length of the message: None when it is a null pointer.\<close>

definition WriteConcernError_getMessage :: "php_phongo_writeconcernerror_t \<Rightarrow> zval option" where
  "WriteConcernError_getMessage intern = map_option (\<lambda>m. ZString (c_str m)) (wce_message intern)"

definition php_phongo_writeconcernerror_get_debug_info :: "php_phongo_writeconcernerror_t \<Rightarrow> ht option" where
  "php_phongo_writeconcernerror_get_debug_info intern =
     map_option (\<lambda>m. [(KStr ''message'', ZString (c_str m)), (KStr ''code'', ZLong (wce_code intern)),
                      (KStr ''info'', info_zval (wce_info intern))])
       (wce_message intern)"

section \<open>WriteError\<close>

record php_phongo_writeerror_t =
  we_code :: int
  we_message :: "string option"
  we_info :: "zval option"
  we_index :: int

definition php_phongo_writeerror_create_object :: php_phongo_writeerror_t where
  "php_phongo_writeerror_create_object = \<lparr>we_code = 0, we_message = None, we_info = None, we_index = 0\<rparr>"

text \<open>The index is read last: an "errInfo" that cannot be decoded leaves it 0.\<close>

definition phongo_writeerror_init ::
    "decode_env \<Rightarrow> bdoc \<Rightarrow> exn list \<Rightarrow> (bool \<times> php_phongo_writeerror_t \<times> exn list) option" where
  "phongo_writeerror_init N bson ex =
     map_option (\<lambda>(ok, info, ex1). (ok, \<lparr>we_code = find_int32 bson ''code'',
         we_message = find_utf8 bson ''errmsg'', we_info = info,
         we_index = (if ok then find_int32 bson ''index'' else 0)\<rparr>, ex1))
       (find_info N bson ex)"

definition WriteError_getCode :: "php_phongo_writeerror_t \<Rightarrow> zval" where
  "WriteError_getCode intern = ZLong (we_code intern)"

definition WriteError_getIndex :: "php_phongo_writeerror_t \<Rightarrow> zval" where
  "WriteError_getIndex intern = ZLong (we_index intern)"

definition WriteError_getMessage :: "php_phongo_writeerror_t \<Rightarrow> zval option" where
  "WriteError_getMessage intern = map_option (\<lambda>m. ZString (c_str m)) (we_message intern)"

definition WriteError_getInfo :: "php_phongo_writeerror_t \<Rightarrow> zval" where
  "WriteError_getInfo intern = info_zval (we_info intern)"

definition php_phongo_writeerror_get_debug_info :: "php_phongo_writeerror_t \<Rightarrow> ht option" where
  "php_phongo_writeerror_get_debug_info intern =
     map_option (\<lambda>m. [(KStr ''message'', ZString (c_str m)), (KStr ''code'', ZLong (we_code intern)),
                      (KStr ''index'', ZLong (we_index intern)), (KStr ''info'', info_zval (we_info intern))])
       (we_message intern)"

section \<open>Namespaces\<close>

text \<open>A namespace is split at its first dot; the result is the database and the collection.\<close>

definition phongo_split_namespace :: "string \<Rightarrow> (string \<times> string) option" where
  "phongo_split_namespace ns =
     (let s = c_str ns; db = takeWhile (\<lambda>c. c \<noteq> CHR ''.'') s
      in if db = s then None else Some (db, drop (Suc (length db)) s))"

lemma split_namespace_Some_iff:
  "phongo_split_namespace ns = Some (db, coll) \<longleftrightarrow> c_str ns = db @ CHR ''.'' # coll \<and> CHR ''.'' \<notin> set db"
proof
  assume "phongo_split_namespace ns = Some (db, coll)"
  then have t: "takeWhile (\<lambda>c. c \<noteq> CHR ''.'') (c_str ns) = db" "db \<noteq> c_str ns"
    and d: "coll = drop (Suc (length db)) (c_str ns)"
    by (auto simp: phongo_split_namespace_def Let_def split: if_splits)
  obtain c r where dw: "dropWhile (\<lambda>c. c \<noteq> CHR ''.'') (c_str ns) = c # r"
    using t by (metis append_Nil2 neq_Nil_conv takeWhile_dropWhile_id)
  then have "c = CHR ''.''" by (simp add: dropWhile_eq_Cons_conv)
  moreover have "c_str ns = db @ c # r" using t dw by (metis takeWhile_dropWhile_id)
  moreover have "CHR ''.'' \<notin> set db" using t by (auto dest: set_takeWhileD)
  ultimately show "c_str ns = db @ CHR ''.'' # coll \<and> CHR ''.'' \<notin> set db" using d by simp
next
  assume a: "c_str ns = db @ CHR ''.'' # coll \<and> CHR ''.'' \<notin> set db"
  then have "takeWhile (\<lambda>c. c \<noteq> CHR ''.'') (c_str ns) = db"
    by (auto simp: takeWhile_append2 takeWhile_append)
  then show "phongo_split_namespace ns = Some (db, coll)" using a
    by (auto simp: phongo_split_namespace_def Let_def)
qed

lemma split_namespace_None_iff: "phongo_split_namespace ns = None \<longleftrightarrow> CHR ''.'' \<notin> set (c_str ns)"
  by (auto simp: phongo_split_namespace_def Let_def takeWhile_eq_all_conv)

section \<open>The labels of a reply\<close>

text \<open>The labels a reply mentions, as a list of strings.\<close>

definition label_array :: "bval option \<Rightarrow> string list" where
  "label_array v = (case v of
     Some (BArray d) \<Rightarrow> List.map_filter (\<lambda>(k, v). case v of BUtf8 s \<Rightarrow> Some s | _ \<Rightarrow> None) (doc_elems d)
   | _ \<Rightarrow> [])"

definition document_labels :: "bval option \<Rightarrow> string list" where
  "document_labels v = (case v of Some (BDocument d) \<Rightarrow> label_array (bson_find d ''errorLabels'') | _ \<Rightarrow> [])"

definition reply_labels :: "bdoc \<Rightarrow> string list" where
  "reply_labels d = label_array (bson_find d ''errorLabels'') @ document_labels (bson_find d ''writeConcernError'')
     @ (case bson_find d ''writeConcernErrors'' of
          Some (BArray a) \<Rightarrow> concat (map (\<lambda>(k, v). document_labels (Some v)) (doc_elems a))
        | _ \<Rightarrow> [])"

text \<open>A label list being built: the array of the labels so far, and their number.\<close>

definition labels_are :: "ht \<times> nat \<Rightarrow> string list \<Rightarrow> bool" where
  "labels_are c ls \<longleftrightarrow> c = (list_table (map ZString ls), length ls)"

lemma append_labels_are:
  "labels_are c ls \<Longrightarrow>
     labels_are (append_labels es c) (ls @ List.map_filter (\<lambda>(k, v). case v of BUtf8 s \<Rightarrow> Some s | _ \<Rightarrow> None) es)"
proof (induction es arbitrary: c ls)
  case (Cons e es)
  obtain k v where e: "e = (k, v)" by (cases e)
  show ?case
  proof (cases "\<exists>s. v = BUtf8 s")
    case True
    then obtain s where v: "v = BUtf8 s" ..
    have "labels_are (add_next_index (list_table (map ZString ls)) (ZString s), length ls + 1) (ls @ [s])"
      by (simp add: labels_are_def)
    from Cons.IH[OF this] show ?thesis using Cons.prems by (simp add: e v labels_are_def List.map_filter_simps)
  next
    case False
    then show ?thesis using Cons by (cases v) (auto simp: e labels_are_def List.map_filter_simps)
  qed
qed (auto simp: labels_are_def List.map_filter_simps)

lemma append_error_labels_are:
  "labels_are c ls \<Longrightarrow> labels_are (phongo_exception_append_error_labels v c) (ls @ label_array (Some v))"
  by (cases v) (auto simp: phongo_exception_append_error_labels_def label_array_def append_labels_are)

lemma append_labels_of_are:
  "labels_are c ls \<Longrightarrow> labels_are (append_labels_of d c) (ls @ label_array (bson_find d ''errorLabels''))"
  using append_error_labels_are[of c ls]
  by (cases "bson_find d ''errorLabels''") (simp_all add: append_labels_of_def, simp add: label_array_def)

lemma append_labels_of_value_are:
  "labels_are c ls \<Longrightarrow> labels_are (append_labels_of_value v c) (ls @ document_labels (Some v))"
  by (cases v) (auto simp: append_labels_of_value_def document_labels_def append_labels_of_are)

lemma fold_labels_are:
  "labels_are c ls \<Longrightarrow> labels_are (fold (\<lambda>(k, v). append_labels_of_value v) es c)
     (ls @ concat (map (\<lambda>(k, v). document_labels (Some v)) es))"
proof (induction es arbitrary: c ls)
  case (Cons e es)
  then show ?case using append_labels_of_value_are[OF Cons.prems] by (cases e) fastforce
qed simp

lemma add_error_labels_None [simp]: "phongo_exception_add_error_labels None ex = ex"
  by (simp add: phongo_exception_add_error_labels_def)

lemma add_error_labels_eq:
  "phongo_exception_add_error_labels (Some d) ex =
     (if reply_labels d = [] then ex
      else phongo_add_exception_prop ''errorLabels'' (ZArray (list_table (map ZString (reply_labels d)))) ex)"
proof -
  define c1 where "c1 = append_labels_of d ([], 0)"
  define c2 where "c2 = (case bson_find d ''writeConcernError'' of Some v \<Rightarrow> append_labels_of_value v c1 | None \<Rightarrow> c1)"
  define c3 where "c3 = (case bson_find d ''writeConcernErrors'' of
      Some (BArray a) \<Rightarrow> fold (\<lambda>(k, v). append_labels_of_value v) (doc_elems a) c2 | _ \<Rightarrow> c2)"
  have "labels_are ([], 0) []" by (simp add: labels_are_def)
  then have 1: "labels_are c1 (label_array (bson_find d ''errorLabels''))"
    unfolding c1_def using append_labels_of_are by fastforce
  have 2: "labels_are c2 (label_array (bson_find d ''errorLabels'') @ document_labels (bson_find d ''writeConcernError''))"
    using append_labels_of_value_are[OF 1] 1 by (auto simp: c2_def document_labels_def split: option.splits)
  have "labels_are c3 (reply_labels d)"
    using 2 fold_labels_are[OF 2] by (auto simp: c3_def reply_labels_def split: option.splits bval.splits)
  moreover have "phongo_exception_add_error_labels (Some d) ex = (case c3 of (labels, label_count) \<Rightarrow>
      if label_count > 0 then phongo_add_exception_prop ''errorLabels'' (ZArray labels) ex else ex)"
    unfolding phongo_exception_add_error_labels_def Let_def c1_def c2_def c3_def by simp
  ultimately show ?thesis by (auto simp: labels_are_def)
qed

lemma label_table_has:
  "list_ex (\<lambda>(k, z). case z of ZString s \<Rightarrow> c_str s = c_str l | _ \<Rightarrow> False) (list_table (map ZString ls))
     \<longleftrightarrow> (\<exists>x \<in> set ls. c_str x = c_str l)"
  by (simp add: list_ex_list_table)

lemma has_label_added:
  "ex_props e = [] \<or> map_of (ex_props e) ''errorLabels'' = None \<Longrightarrow>
     phongo_exception_add_error_labels (Some d) (e # es) = e' # es' \<Longrightarrow>
     RuntimeException_hasErrorLabel e' l \<longleftrightarrow> (\<exists>x \<in> set (reply_labels d). c_str x = c_str l)"
  by (auto simp: add_error_labels_eq RuntimeException_hasErrorLabel_def php_phongo_has_string_array_element_def
      exn_property_def label_table_has split: if_splits)

section \<open>Decoding while an exception is pending\<close>

text \<open>
  No user method runs while an exception is pending, so decoding a well-formed document then
  raises nothing more.
\<close>

lemma unserialize_object_pending:
  "unserialize_object E ce z ex = Some (z1, ex1) \<Longrightarrow> ex \<noteq> [] \<Longrightarrow> ex1 = ex"
  by (auto simp: unserialize_object_def split: option.splits)

lemma finish_document_pending:
  "finish_document E key pst (st, fp, ex) = Some (st1, fp1, ex1) \<Longrightarrow> ex \<noteq> [] \<Longrightarrow> ex1 = ex"
  by (auto simp: finish_document_def split: prod.splits php_phongo_bson_typemap_types.splits
      dest: unserialize_object_pending)

lemma finish_array_pending:
  "finish_array E key pst (st, fp, ex) = Some (st1, fp1, ex1) \<Longrightarrow> ex \<noteq> [] \<Longrightarrow> ex1 = ex"
  by (auto simp: finish_array_def split: prod.splits php_phongo_bson_typemap_types.splits
      dest: unserialize_object_pending)

lemma finish_root_pending:
  "finish_root E (stop, err, st, fp, ex) = Some (ok, st1, fp1, ex1) \<Longrightarrow> ex \<noteq> [] \<Longrightarrow> ex1 = ex"
  by (auto simp: finish_root_def Let_def split: if_splits php_phongo_bson_typemap_types.splits
      dest: unserialize_object_pending)

lemma visit_pending:
  "bson_visit N key v c = Some (stop, st1, fp1, ex1) \<Longrightarrow> val_ok v \<Longrightarrow> snd (snd c) \<noteq> [] \<Longrightarrow> ex1 = snd (snd c)"
  "bson_iter_visit_all N es e c = Some (stop, err, st1, fp1, ex1) \<Longrightarrow> elems_ok es \<Longrightarrow> e = DocOk \<Longrightarrow>
     snd (snd c) \<noteq> [] \<Longrightarrow> ex1 = snd (snd c)"
  "bson_visit_doc N d c = Some (stop, err, st1, fp1, ex1) \<Longrightarrow> doc_ok d \<Longrightarrow> snd (snd c) \<noteq> [] \<Longrightarrow> ex1 = snd (snd c)"
proof (induction N key v c and N es e c and N d c
    arbitrary: stop st1 fp1 ex1 and stop err st1 fp1 ex1 and stop err st1 fp1 ex1
    rule: bson_visit_bson_iter_visit_all_bson_visit_doc.induct)
  case (3 N key d pst fp ex)
  then show ?case by (auto split: option.splits if_splits dest!: finish_document_pending)
next
  case (4 N key d pst fp ex)
  then show ?case by (auto split: option.splits if_splits dest!: finish_array_pending)
next
  case (5 N key t d c)
  then show ?case by (auto simp: php_phongo_bson_visit_binary_def visit_value_def split: prod.splits)
next
  case (15 N key s d st fp ex)
  then obtain r where r: "bson_visit_doc N d (bson_state_init\<lparr>st_zchild := ZArray []\<rparr>, php_phongo_field_path_alloc, ex) = Some r"
    by (auto split: option.splits)
  obtain stop2 err2 st2 fp2 ex2 where r2: "r = (stop2, err2, st2, fp2, ex2)" by (metis prod_cases5)
  have "ex2 = ex" using 15 r r2 by auto
  then show ?case using "15.prems" r r2
    by (auto simp: visit_value_def split: option.splits if_splits prod.splits dest!: finish_root_pending)
next
  case (25 N key v es e c)
  obtain stop2 st2 fp2 ex2 where v: "bson_visit N key v c = Some (stop2, st2, fp2, ex2)"
    using "25.prems"(1) by (auto split: option.splits prod.splits)
  have "ex2 = snd (snd c)" using 25 v by auto
  then show ?case using 25 v by (auto split: if_splits)
qed (auto simp: visitor_defs visit_value_def split: prod.splits)

lemma to_zval_pending:
  assumes "doc_ok d" and "ex \<noteq> []"
  shows "\<exists>zv. php_phongo_bson_to_zval N (BufDocument d True) ex = Some (True, zv, ex)"
proof -
  obtain st1 ex1 where r: "php_phongo_bson_to_zval_ex N (BufDocument d True) bson_state_init ex = Some (True, st1, ex1)"
    using to_zval_ex_ok[OF bson_state_init_ok assms(1)] by blast
  then obtain stop err st2 fp2 ex2 where v:
      "bson_visit_doc N d (bson_state_init\<lparr>st_zchild := ZArray []\<rparr>, php_phongo_field_path_alloc, ex)
         = Some (stop, err, st2, fp2, ex2)"
    and f: "\<exists>st3 fp3. finish_root (de_classes N) (stop, err, st2, fp2, ex2) = Some (True, st3, fp3, ex1)"
    by (auto simp: php_phongo_bson_to_zval_ex_def Let_def bson_state_init_def split: option.splits if_splits)
  have "ex2 = ex" using visit_pending(3)[OF v assms(1)] assms(2) by simp
  then have "ex1 = ex" using f finish_root_pending assms(2) by blast
  then show ?thesis using r by (auto simp: php_phongo_bson_to_zval_def)
qed

section \<open>What is thrown\<close>

lemma throw_without_document:
  "reply = None \<or> \<not> reports_result_document error \<Longrightarrow>
     phongo_throw_exception_from_bson_error_t_and_reply N K error reply ex
     = Some (phongo_exception_add_error_labels reply
         (zend_throw_exception (phongo_exception_from_mongoc_domain K (err_domain error) (err_code error))
            (err_message error) (err_code error) # ex))"
  by (auto simp: phongo_throw_exception_from_bson_error_t_and_reply_def split: option.splits)

lemma throw_with_document:
  assumes "reports_result_document error" and "doc_ok d"
  shows "\<exists>zv. phongo_throw_exception_from_bson_error_t_and_reply N K error (Some d) ex
     = Some (phongo_exception_add_error_labels (Some d)
         (Exn CommandException (c_str (err_message error)) (err_code error) [(''resultDocument'', zv)] # ex))
   \<and> (\<exists>ex0 ex1. php_phongo_bson_to_zval N (BufDocument d True) ex0 = Some (True, zv, ex1))"
proof -
  let ?ex = "zend_throw_exception CommandException (err_message error) (err_code error) # ex"
  obtain zv where "php_phongo_bson_to_zval N (BufDocument d True) ?ex = Some (True, zv, ?ex)"
    using to_zval_pending[OF assms(2), of ?ex N] by auto
  then show ?thesis using assms(1)
    by (intro exI[of _ zv] conjI)
      (auto simp: phongo_throw_exception_from_bson_error_t_and_reply_def zend_throw_exception_def)
qed

lemma add_error_labels_head:
  "phongo_exception_add_error_labels reply (e # es) = e' # es' \<Longrightarrow>
     ex_class e' = ex_class e \<and> ex_message e' = ex_message e \<and> ex_code e' = ex_code e \<and> es' = es
     \<and> (p \<noteq> ''errorLabels'' \<longrightarrow> exn_property e' p = exn_property e p)"
  by (cases reply) (auto simp: add_error_labels_eq exn_property_def split: if_splits)

lemma add_error_labels_Cons: "\<exists>e'. phongo_exception_add_error_labels reply (e # es) = e' # es"
  by (cases reply) (auto simp: add_error_labels_eq)

text \<open>The class hierarchy, as \<^verbatim>\<open>instanceof\<close> sees it.\<close>

inductive_simps instanceof_AuthenticationException: "exn_instanceof AuthenticationException c"
inductive_simps instanceof_CommandException: "exn_instanceof CommandException c"
inductive_simps instanceof_ConnectionException: "exn_instanceof ConnectionException c"
inductive_simps instanceof_ConnectionTimeoutException: "exn_instanceof ConnectionTimeoutException c"
inductive_simps instanceof_EncryptionException: "exn_instanceof EncryptionException c"
inductive_simps instanceof_ExecutionTimeoutException: "exn_instanceof ExecutionTimeoutException c"
inductive_simps instanceof_InvalidArgumentException: "exn_instanceof InvalidArgumentException c"
inductive_simps instanceof_RuntimeException: "exn_instanceof RuntimeException c"
inductive_simps instanceof_ServerException: "exn_instanceof ServerException c"
inductive_simps instanceof_BulkWriteException: "exn_instanceof BulkWriteException c"
inductive_simps instanceof_WriteException: "exn_instanceof WriteException c"

lemmas instanceof_simps =
  instanceof_AuthenticationException instanceof_CommandException instanceof_ConnectionException
  instanceof_ConnectionTimeoutException instanceof_EncryptionException instanceof_ExecutionTimeoutException
  instanceof_InvalidArgumentException instanceof_RuntimeException instanceof_ServerException
  instanceof_BulkWriteException instanceof_WriteException

text \<open>An instance of the error codes.\<close>

definition ref_error_codes :: mongoc_error_codes where
  "ref_error_codes = \<lparr>MONGOC_ERROR_CLIENT_AUTHENTICATE = 1, MONGOC_ERROR_CLIENT_INVALID_ENCRYPTION_ARG = 2,
     MONGOC_ERROR_COMMAND_INVALID_ARG = 3, MONGOC_ERROR_SERVER_SELECTION_FAILURE = 4,
     MONGOC_ERROR_STREAM_SOCKET = 5, MONGOC_ERROR_PROTOCOL_BAD_WIRE_VERSION = 6\<rparr>"

end
