(* ===== verification/Driver_CursorId.thy ===== *)
theory Driver_CursorId
  imports Bson_Scalars
begin

text \<open>
  \<^verbatim>\<open>CursorId\<close> (MongoDB/CursorId.c): a 64-bit cursor identifier.  Its property table holds a
  string when it is written for \<^verbatim>\<open>__serialize\<close> and an integer otherwise
  (\<^verbatim>\<open>var_export\<close>, \<^verbatim>\<open>var_dump\<close>), while \<^verbatim>\<open>init_from_hash\<close> takes strings only.
\<close>

abbreviation cursorid_ce_name :: string where "cursorid_ce_name \<equiv> driver_ns ''CursorId''"

definition php_phongo_cursorid_init_from_string ::
    "strtoll_fn \<Rightarrow> php_phongo_cursorid_t \<Rightarrow> string \<Rightarrow> nat \<Rightarrow> php_phongo_cursorid_t result" where
  "php_phongo_cursorid_init_from_string strtoll intern s_id s_id_len =
     (case php_phongo_parse_int64 strtoll s_id s_id_len of
        None \<Rightarrow> Inl (phongo_throw_exception PHONGO_ERROR_INVALID_ARGUMENT
                 (''Error parsing '' @ dquote (c_str s_id) @ '' as 64-bit id for '' @ cursorid_ce_name @ '' initialization''))
      | Some i \<Rightarrow> Inr (intern\<lparr>cid_id := i, cid_initialized := True\<rparr>))"

definition php_phongo_cursorid_init_from_hash ::
    "strtoll_fn \<Rightarrow> ht \<Rightarrow> php_phongo_cursorid_t \<Rightarrow> php_phongo_cursorid_t result" where
  "php_phongo_cursorid_init_from_hash strtoll props intern =
     (case hash_str_find props ''id'' of
        Some (ZString s) \<Rightarrow> php_phongo_cursorid_init_from_string strtoll intern s (length s)
      | _ \<Rightarrow> Inl (phongo_throw_exception PHONGO_ERROR_INVALID_ARGUMENT
                 (cursorid_ce_name @ '' initialization requires '' @ dquote ''id'' @ '' string field'')))"

definition php_phongo_cursorid_get_properties_hash ::
    "nat \<Rightarrow> bool \<Rightarrow> bool \<Rightarrow> ht option \<Rightarrow> php_phongo_cursorid_t \<Rightarrow> ht" where
  "php_phongo_cursorid_get_properties_hash sizeof_zend_long is_temp is_serialize cached intern =
     (let props = get_property_hash_init_props is_temp cached
      in if \<not> cid_initialized intern then props
         else hash_str_update props ''id''
           (if is_serialize then zval_int64_string (cid_id intern)
            else if sizeof_zend_long = 4 \<and> (cid_id intern > 2147483647 \<or> cid_id intern < - 2147483648)
            then zval_int64_string (cid_id intern)
            else ZLong (cid_id intern)))"

definition php_phongo_cursorid_create_object :: php_phongo_cursorid_t where
  "php_phongo_cursorid_create_object = \<lparr>cid_initialized = False, cid_id = 0\<rparr>"

definition CursorId___set_state :: "strtoll_fn \<Rightarrow> ht \<Rightarrow> php_phongo_cursorid_t result" where
  "CursorId___set_state strtoll props =
     php_phongo_cursorid_init_from_hash strtoll props php_phongo_cursorid_create_object"

definition CursorId___toString :: "php_phongo_cursorid_t \<Rightarrow> zval" where
  "CursorId___toString intern = zval_int64_string (cid_id intern)"

definition CursorId_serialized_array :: "php_phongo_cursorid_t \<Rightarrow> ht" where
  "CursorId_serialized_array intern = [(KStr ''id'', zval_int64_string (cid_id intern))]"

definition CursorId_serialize :: "php_serializer \<Rightarrow> php_phongo_cursorid_t \<Rightarrow> string" where
  "CursorId_serialize S intern = var_serialize S (ZArray (CursorId_serialized_array intern))"

definition CursorId_unserialize ::
    "php_serializer \<Rightarrow> strtoll_fn \<Rightarrow> string \<Rightarrow> php_phongo_cursorid_t \<Rightarrow> php_phongo_cursorid_t result option" where
  "CursorId_unserialize S strtoll serialized intern =
     unserialize_with S cursorid_ce_name (php_phongo_cursorid_init_from_hash strtoll) serialized intern"

definition CursorId___serialize :: "nat \<Rightarrow> php_phongo_cursorid_t \<Rightarrow> ht" where
  "CursorId___serialize sizeof_zend_long intern =
     php_phongo_cursorid_get_properties_hash sizeof_zend_long True True None intern"

definition CursorId___unserialize ::
    "strtoll_fn \<Rightarrow> ht \<Rightarrow> php_phongo_cursorid_t \<Rightarrow> php_phongo_cursorid_t result" where
  "CursorId___unserialize strtoll data intern = php_phongo_cursorid_init_from_hash strtoll data intern"

section \<open>Properties\<close>

definition cursorid_valid :: "php_phongo_cursorid_t \<Rightarrow> bool" where
  "cursorid_valid s \<longleftrightarrow> cid_initialized s \<and> int64_range (cid_id s)"

lemma cursorid_from_hash_ok:
  assumes "strtoll_contract f" and "cursorid_valid s" and "hash_str_find h ''id'' = Some (zval_int64_string (cid_id s))"
  shows "php_phongo_cursorid_init_from_hash f h s0 = Inr s"
  using assms by (cases s) (simp add: php_phongo_cursorid_init_from_hash_def zval_int64_string_def
      cursorid_valid_def php_phongo_cursorid_init_from_string_def parse_int64_dec)

lemma cursorid_codec:
  assumes "strtoll_contract f"
  shows "php_codec cursorid_valid (CursorId___serialize n) CursorId_serialized_array (php_phongo_cursorid_init_from_hash f)"
  by unfold_locales (auto intro!: cursorid_from_hash_ok assms
      simp: CursorId___serialize_def php_phongo_cursorid_get_properties_hash_def cursorid_valid_def
        get_property_hash_init_props_def CursorId_serialized_array_def zval_int64_string_def)

interpretation cursorid: php_codec cursorid_valid "CursorId___serialize 8" CursorId_serialized_array
    "php_phongo_cursorid_init_from_hash ref_strtoll"
  by (rule cursorid_codec) (rule ref_strtoll_contract)

text \<open>What \<^verbatim>\<open>var_export\<close> writes on a 64-bit platform, \<^verbatim>\<open>__set_state\<close> refuses.\<close>

lemma cursorid_var_export_refused:
  assumes "cid_initialized s"
  shows "\<exists>e. CursorId___set_state f (php_phongo_cursorid_get_properties_hash 8 False False None s) = Inl e
     \<and> ex_class e = InvalidArgumentException"
  using assms by (simp add: CursorId___set_state_def php_phongo_cursorid_init_from_hash_def
      php_phongo_cursorid_get_properties_hash_def get_property_hash_init_props_def)

end
