(* ===== verification/Driver_Cursor.thy ===== *)
theory Driver_Cursor
  imports Driver_Errors Driver_CursorId
begin

text \<open>
  Cursors (MongoDB/Cursor.c and the cursor constructors of php\_phongo.c): a state machine over
  a libmongoc cursor.  The libmongoc cursor is an opaque value with the operations the code
  calls; its documents are decoded with one state (\<^verbatim>\<open>visitor_data\<close>) that lives as long as the
  cursor, or until the next \<^verbatim>\<open>setTypeMap\<close>.
\<close>

section \<open>The libmongoc cursor\<close>

text \<open>
  \<^verbatim>\<open>mongoc_cursor_next\<close> returns the document, if there is one, the cursor afterwards, and the
  exceptions event subscribers raised during the call.
\<close>

record 'c mongoc_cursor_ops =
  mongoc_cursor_next :: "'c \<Rightarrow> bdoc option \<times> 'c \<times> exn list"
  mongoc_cursor_current :: "'c \<Rightarrow> bdoc option"
  mongoc_cursor_error_document :: "'c \<Rightarrow> (bson_error_t \<times> bdoc option) option"
  mongoc_cursor_get_id :: "'c \<Rightarrow> int"
  mongoc_cursor_more :: "'c \<Rightarrow> bool"
  mongoc_cursor_get_hint :: "'c \<Rightarrow> int"

section \<open>State\<close>

record 'c php_phongo_cursor_t =
  cur_cursor :: 'c
  cur_manager :: zval
  cur_server_id :: int
  cur_advanced :: bool
  cur_visitor_data :: php_phongo_bson_state
  cur_current :: int
  cur_database :: "string option"
  cur_collection :: "string option"
  cur_query :: zval
  cur_command :: zval
  cur_read_preference :: zval
  cur_session :: zval

definition phongo_cursor_init ::
    "'c mongoc_cursor_ops \<Rightarrow> zval \<Rightarrow> 'c \<Rightarrow> zval option \<Rightarrow> zval option \<Rightarrow> 'c php_phongo_cursor_t" where
  "phongo_cursor_init M manager cursor readPreference session =
     \<lparr>cur_cursor = cursor, cur_manager = manager, cur_server_id = mongoc_cursor_get_hint M cursor,
      cur_advanced = False, cur_visitor_data = bson_state_init, cur_current = 0,
      cur_database = None, cur_collection = None, cur_query = ZUndef, cur_command = ZUndef,
      cur_read_preference = (case readPreference of Some z \<Rightarrow> z | None \<Rightarrow> ZUndef),
      cur_session = (case session of Some z \<Rightarrow> z | None \<Rightarrow> ZUndef)\<rparr>"

definition phongo_cursor_init_for_command ::
    "'c mongoc_cursor_ops \<Rightarrow> zval \<Rightarrow> 'c \<Rightarrow> string \<Rightarrow> zval \<Rightarrow> zval option \<Rightarrow> zval option \<Rightarrow> 'c php_phongo_cursor_t" where
  "phongo_cursor_init_for_command M manager cursor db command readPreference session =
     (phongo_cursor_init M manager cursor readPreference session)\<lparr>cur_database := Some (c_str db), cur_command := command\<rparr>"

text \<open>The namespace has been split before, and the cursor advanced.\<close>

definition phongo_cursor_init_for_query ::
    "'c mongoc_cursor_ops \<Rightarrow> zval \<Rightarrow> 'c \<Rightarrow> string \<Rightarrow> zval \<Rightarrow> zval option \<Rightarrow> zval option \<Rightarrow> 'c php_phongo_cursor_t" where
  "phongo_cursor_init_for_query M manager cursor namespace query readPreference session =
     (let cur = phongo_cursor_init M manager cursor readPreference session;
          cur1 = (case phongo_split_namespace namespace of
                    None \<Rightarrow> cur
                  | Some (db, coll) \<Rightarrow> cur\<lparr>cur_database := Some db, cur_collection := Some coll\<rparr>)
      in cur1\<lparr>cur_advanced := True, cur_query := query\<rparr>)"

section \<open>Methods\<close>

definition php_phongo_cursor_free_session_if_exhausted ::
    "'c mongoc_cursor_ops \<Rightarrow> 'c php_phongo_cursor_t \<Rightarrow> 'c php_phongo_cursor_t" where
  "php_phongo_cursor_free_session_if_exhausted M cur =
     (if mongoc_cursor_get_id M (cur_cursor cur) \<noteq> 0 then cur else cur\<lparr>cur_session := ZUndef\<rparr>)"

definition php_phongo_cursor_free_current :: "'c php_phongo_cursor_t \<Rightarrow> 'c php_phongo_cursor_t" where
  "php_phongo_cursor_free_current cur =
     cur\<lparr>cur_visitor_data := (cur_visitor_data cur)\<lparr>st_zchild := ZUndef\<rparr>\<rparr>"

text \<open>Decode a document into the visitor data; an invalid result is freed.\<close>

definition decode_current ::
    "decode_env \<Rightarrow> bdoc \<Rightarrow> 'c php_phongo_cursor_t \<Rightarrow> exn list \<Rightarrow> ('c php_phongo_cursor_t \<times> exn list) option" where
  "decode_current N doc cur ex =
     (case php_phongo_bson_to_zval_ex N (BufDocument doc True) (cur_visitor_data cur) ex of
        None \<Rightarrow> None
      | Some (ok, st, ex1) \<Rightarrow>
          (let cur1 = cur\<lparr>cur_visitor_data := st\<rparr>
           in Some (if ok then cur1 else php_phongo_cursor_free_current cur1, ex1)))"

definition Cursor_setTypeMap ::
    "decode_env \<Rightarrow> 'c mongoc_cursor_ops \<Rightarrow> php_phongo_bson_typemap_types \<Rightarrow> ht option
       \<Rightarrow> 'c php_phongo_cursor_t \<Rightarrow> exn list \<Rightarrow> ('c php_phongo_cursor_t \<times> exn list) option" where
  "Cursor_setTypeMap N M garbage typemap cur ex =
     (case php_phongo_bson_typemap_to_state (de_classes N) garbage typemap typemap_init of
        None \<Rightarrow> None
      | Some (Some e, _) \<Rightarrow> Some (cur, e # ex)
      | Some (None, tm) \<Rightarrow>
          (let restore_current_element = (st_zchild (cur_visitor_data cur) \<noteq> ZUndef);
               cur1 = cur\<lparr>cur_visitor_data := bson_state_init\<lparr>st_map := tm\<rparr>\<rparr>
           in if restore_current_element then
                (case mongoc_cursor_current M (cur_cursor cur) of
                   Some doc \<Rightarrow> decode_current N doc cur1 ex
                 | None \<Rightarrow> Some (cur1, ex))
              else Some (cur1, ex)))"

definition php_phongo_cursor_id_new_from_id :: "int \<Rightarrow> zval" where
  "php_phongo_cursor_id_new_from_id cursorid = ZCursorId \<lparr>cid_initialized = True, cid_id = cursorid\<rparr>"

definition Cursor_getId :: "'c mongoc_cursor_ops \<Rightarrow> 'c php_phongo_cursor_t \<Rightarrow> zval" where
  "Cursor_getId M intern = php_phongo_cursor_id_new_from_id (mongoc_cursor_get_id M (cur_cursor intern))"

text \<open>A Server object: its manager and its id.\<close>

record php_phongo_server_t =
  srv_manager :: zval
  srv_server_id :: int

definition phongo_server_init :: "zval \<Rightarrow> int \<Rightarrow> php_phongo_server_t" where
  "phongo_server_init manager server_id = \<lparr>srv_manager = manager, srv_server_id = server_id\<rparr>"

definition Cursor_getServer :: "'c php_phongo_cursor_t \<Rightarrow> php_phongo_server_t" where
  "Cursor_getServer intern = phongo_server_init (cur_manager intern) (cur_server_id intern)"

definition Cursor_isDead :: "'c mongoc_cursor_ops \<Rightarrow> 'c php_phongo_cursor_t \<Rightarrow> bool" where
  "Cursor_isDead M intern \<longleftrightarrow> \<not> mongoc_cursor_more M (cur_cursor intern)"

definition Cursor_current :: "'c php_phongo_cursor_t \<Rightarrow> zval" where
  "Cursor_current intern =
     (let data = st_zchild (cur_visitor_data intern) in if data = ZUndef then ZNull else z_deref data)"

definition Cursor_key :: "'c php_phongo_cursor_t \<Rightarrow> zval" where
  "Cursor_key intern = (if st_zchild (cur_visitor_data intern) = ZUndef then ZNull else ZLong (cur_current intern))"

definition Cursor_valid :: "'c php_phongo_cursor_t \<Rightarrow> bool" where
  "Cursor_valid intern \<longleftrightarrow> st_zchild (cur_visitor_data intern) \<noteq> ZUndef"

text \<open>
  The first half of \<^verbatim>\<open>next\<close>: the current element is freed and the position moved, unless the
  cursor was never advanced.
\<close>

definition cursor_move :: "'c php_phongo_cursor_t \<Rightarrow> 'c php_phongo_cursor_t" where
  "cursor_move intern =
     (let cur = php_phongo_cursor_free_current intern
      in if cur_advanced cur then cur\<lparr>cur_current := cur_current cur + 1\<rparr> else cur\<lparr>cur_advanced := True\<rparr>)"

definition Cursor_next ::
    "decode_env \<Rightarrow> mongoc_error_codes \<Rightarrow> 'c mongoc_cursor_ops \<Rightarrow> 'c php_phongo_cursor_t \<Rightarrow> exn list
       \<Rightarrow> ('c php_phongo_cursor_t \<times> exn list) option" where
  "Cursor_next N K M intern ex =
     (let cur2 = cursor_move intern
      in case mongoc_cursor_next M (cur_cursor cur2) of
           (found, c1, raised) \<Rightarrow>
             (let cur3 = cur2\<lparr>cur_cursor := c1\<rparr>; ex1 = raised @ ex
              in map_option (\<lambda>(cur4, ex2). (php_phongo_cursor_free_session_if_exhausted M cur4, ex2))
                   (case found of
                      Some doc \<Rightarrow> decode_current N doc cur3 ex1
                    | None \<Rightarrow>
                        (case mongoc_cursor_error_document M c1 of
                           Some (error, reply) \<Rightarrow>
                             map_option (\<lambda>ex2. (cur3, ex2))
                               (phongo_throw_exception_from_bson_error_t_and_reply N K error reply ex1)
                         | None \<Rightarrow> Some (cur3, ex1)))))"

definition phongo_cursor_advance_and_check_for_error ::
    "decode_env \<Rightarrow> mongoc_error_codes \<Rightarrow> 'c mongoc_cursor_ops \<Rightarrow> 'c \<Rightarrow> exn list \<Rightarrow> (bool \<times> 'c \<times> exn list) option" where
  "phongo_cursor_advance_and_check_for_error N K M cursor ex =
     (case mongoc_cursor_next M cursor of
        (Some doc, c1, raised) \<Rightarrow> Some (True, c1, raised @ ex)
      | (None, c1, raised) \<Rightarrow>
          if raised @ ex \<noteq> [] then Some (False, c1, raised @ ex)
          else (case mongoc_cursor_error_document M c1 of
                  Some (error, reply) \<Rightarrow>
                    map_option (\<lambda>ex1. (False, c1, ex1))
                      (phongo_throw_exception_from_bson_error_t_and_reply N K error reply [])
                | None \<Rightarrow> Some (True, c1, [])))"

definition Cursor_rewind ::
    "decode_env \<Rightarrow> mongoc_error_codes \<Rightarrow> 'c mongoc_cursor_ops \<Rightarrow> 'c php_phongo_cursor_t \<Rightarrow> exn list
       \<Rightarrow> ('c php_phongo_cursor_t \<times> exn list) option" where
  "Cursor_rewind N K M intern ex =
     (case (if cur_advanced intern then Some (True, cur_cursor intern, ex)
            else phongo_cursor_advance_and_check_for_error N K M (cur_cursor intern) ex) of
        None \<Rightarrow> None
      | Some (ok, c1, ex1) \<Rightarrow>
          (let cur1 = intern\<lparr>cur_advanced := True, cur_cursor := c1\<rparr>
           in if \<not> ok then Some (cur1, ex1)
              else if cur_current cur1 > 0 then
                Some (cur1, phongo_throw_exception PHONGO_ERROR_LOGIC ''Cursors cannot rewind after starting iteration'' # ex1)
              else (let cur2 = php_phongo_cursor_free_current cur1
                    in map_option (\<lambda>(cur3, ex2). (php_phongo_cursor_free_session_if_exhausted M cur3, ex2))
                         (case mongoc_cursor_current M c1 of
                            Some doc \<Rightarrow> decode_current N doc cur2 ex1
                          | None \<Rightarrow> Some (cur2, ex1)))))"

section \<open>Iterating\<close>

definition Cursor_toArray ::
    "decode_env \<Rightarrow> mongoc_error_codes \<Rightarrow> 'c mongoc_cursor_ops \<Rightarrow> 'c php_phongo_cursor_t
       \<Rightarrow> (zval \<times> 'c php_phongo_cursor_t \<times> exn list) option" where
  "Cursor_toArray N K M intern =
     map_option (\<lambda>(s, acc, ex). (if ex = [] then ZArray acc else ZNull, s, ex))
       (spl_iterator_apply (\<lambda>s. Cursor_rewind N K M s []) Cursor_valid Cursor_current (\<lambda>s. Cursor_next N K M s []) intern)"

section \<open>Debug output\<close>

definition zval_or_null :: "zval \<Rightarrow> zval" where
  "zval_or_null z = (if z = ZUndef then ZNull else z)"

definition string_or_null :: "string option \<Rightarrow> zval" where
  "string_or_null s = (case s of Some x \<Rightarrow> ZString (c_str x) | None \<Rightarrow> ZNull)"

text \<open>The new Server object is given as a value of the engine by \<^verbatim>\<open>wrap\<close>.\<close>

definition php_phongo_cursor_get_debug_info ::
    "'c mongoc_cursor_ops \<Rightarrow> (php_phongo_server_t \<Rightarrow> zval) \<Rightarrow> 'c php_phongo_cursor_t \<Rightarrow> ht" where
  "php_phongo_cursor_get_debug_info M wrap intern =
     [(KStr ''database'', string_or_null (cur_database intern)),
      (KStr ''collection'', string_or_null (cur_collection intern)),
      (KStr ''query'', zval_or_null (cur_query intern)),
      (KStr ''command'', zval_or_null (cur_command intern)),
      (KStr ''readPreference'', zval_or_null (cur_read_preference intern)),
      (KStr ''session'', zval_or_null (cur_session intern)),
      (KStr ''isDead'', ZBool (\<not> mongoc_cursor_more M (cur_cursor intern))),
      (KStr ''currentIndex'', ZLong (cur_current intern)),
      (KStr ''currentDocument'', zval_or_null (st_zchild (cur_visitor_data intern))),
      (KStr ''server'', wrap (phongo_server_init (cur_manager intern) (cur_server_id intern)))]"

section \<open>Invariant\<close>

definition cursor_inv :: "class_env \<Rightarrow> 'c php_phongo_cursor_t \<Rightarrow> bool" where
  "cursor_inv E cur \<longleftrightarrow> state_ok E (cur_visitor_data cur) \<and> st_field_path (cur_visitor_data cur) = None
     \<and> 0 \<le> cur_current cur \<and> (0 < cur_current cur \<longrightarrow> cur_advanced cur)"

text \<open>The documents libmongoc hands over are well formed.\<close>

definition well_formed_cursor :: "'c mongoc_cursor_ops \<Rightarrow> bool" where
  "well_formed_cursor M \<longleftrightarrow> (\<forall>c d. fst (mongoc_cursor_next M c) = Some d \<longrightarrow> doc_ok d)
     \<and> (\<forall>c d. mongoc_cursor_current M c = Some d \<longrightarrow> doc_ok d)
     \<and> (\<forall>c e d. mongoc_cursor_error_document M c = Some (e, Some d) \<longrightarrow> doc_ok d)"

lemma state_ok_zchild [simp]: "state_ok E (st\<lparr>st_zchild := z\<rparr>) = state_ok E st"
  by (simp add: state_ok_def)

lemma cursor_init_inv: "cursor_inv E (phongo_cursor_init M m c rp s)"
  by (simp add: cursor_inv_def phongo_cursor_init_def) (simp add: bson_state_init_def)

lemma cursor_init_for_command_inv: "cursor_inv E (phongo_cursor_init_for_command M m c db cmd rp s)"
  using cursor_init_inv[of E M m c rp s] by (simp add: cursor_inv_def phongo_cursor_init_for_command_def)

lemma cursor_init_for_query_inv: "cursor_inv E (phongo_cursor_init_for_query M m c ns q rp s)"
  using cursor_init_inv[of E M m c rp s]
  by (simp add: cursor_inv_def phongo_cursor_init_for_query_def Let_def split: option.split)

lemma free_session_inv [simp]:
  "cursor_inv E (php_phongo_cursor_free_session_if_exhausted M cur) = cursor_inv E cur"
  by (simp add: cursor_inv_def php_phongo_cursor_free_session_if_exhausted_def)

lemma free_current_inv [simp]: "cursor_inv E (php_phongo_cursor_free_current cur) = cursor_inv E cur"
  by (simp add: cursor_inv_def php_phongo_cursor_free_current_def)

text \<open>What stays the same when a document is decoded.\<close>

lemma decode_current_frame:
  "decode_current N doc cur ex = Some (cur1, ex1) \<Longrightarrow>
     cur_session cur1 = cur_session cur \<and> cur_current cur1 = cur_current cur \<and> cur_advanced cur1 = cur_advanced cur
     \<and> cur_cursor cur1 = cur_cursor cur"
  by (auto simp: decode_current_def Let_def php_phongo_cursor_free_current_def split: option.splits if_splits)

lemma decode_current_inv:
  assumes "decode_current N doc cur ex = Some (cur1, ex1)" and "cursor_inv E cur"
  shows "cursor_inv E cur1"
proof -
  obtain ok st where d: "php_phongo_bson_to_zval_ex N (BufDocument doc True) (cur_visitor_data cur) ex = Some (ok, st, ex1)"
    and c: "cur1 = (if ok then cur\<lparr>cur_visitor_data := st\<rparr> else php_phongo_cursor_free_current (cur\<lparr>cur_visitor_data := st\<rparr>))"
    using assms(1) by (auto simp: decode_current_def Let_def split: option.splits)
  have v: "state_ok E (cur_visitor_data cur)" "st_field_path (cur_visitor_data cur) = None"
    using assms(2) by (simp_all add: cursor_inv_def)
  have "state_ok E st \<and> st_field_path st = None" by (rule state_ok_after[OF d v])
  then have "cursor_inv E (cur\<lparr>cur_visitor_data := st\<rparr>)" using assms(2) by (simp add: cursor_inv_def)
  then show ?thesis by (simp add: c)
qed

lemma decode_current_total:
  assumes "doc_ok doc" and "cursor_inv (de_classes N) cur"
  shows "\<exists>r. decode_current N doc cur ex = Some r"
  using to_zval_ex_ok[of N "cur_visitor_data cur" doc ex] assms
  by (auto simp: decode_current_def cursor_inv_def Let_def)

lemma throw_total:
  assumes "\<And>d. reply = Some d \<Longrightarrow> doc_ok d"
  shows "\<exists>ex1. phongo_throw_exception_from_bson_error_t_and_reply N K error reply ex = Some ex1"
proof (cases "reply = None \<or> \<not> reports_result_document error")
  case True
  then show ?thesis using throw_without_document by blast
next
  case False
  then obtain d where "reply = Some d" "reports_result_document error" by (cases reply) auto
  then show ?thesis using throw_with_document assms by blast
qed

lemma cursor_move_inv: "cursor_inv E cur \<Longrightarrow> cursor_inv E ((cursor_move cur)\<lparr>cur_cursor := c\<rparr>)"
  by (auto simp: cursor_inv_def cursor_move_def php_phongo_cursor_free_current_def Let_def)

lemma cursor_move_frame:
  "cur_cursor (cursor_move cur) = cur_cursor cur" "cur_session (cursor_move cur) = cur_session cur"
  "cur_advanced (cursor_move cur)" "st_zchild (cur_visitor_data (cursor_move cur)) = ZUndef"
  "cur_current (cursor_move cur) = (if cur_advanced cur then cur_current cur + 1 else cur_current cur)"
  "cur_visitor_data (cursor_move cur) = (cur_visitor_data cur)\<lparr>st_zchild := ZUndef\<rparr>"
  by (auto simp: cursor_move_def php_phongo_cursor_free_current_def Let_def)

text \<open>\<^verbatim>\<open>next\<close>, by what libmongoc returns.\<close>

lemma Cursor_next_Some:
  "mongoc_cursor_next M (cur_cursor cur) = (Some doc, c1, raised) \<Longrightarrow>
     Cursor_next N K M cur ex = map_option (\<lambda>(cur1, ex1). (php_phongo_cursor_free_session_if_exhausted M cur1, ex1))
       (decode_current N doc ((cursor_move cur)\<lparr>cur_cursor := c1\<rparr>) (raised @ ex))"
  by (simp add: Cursor_next_def cursor_move_frame)

lemma Cursor_next_None:
  "mongoc_cursor_next M (cur_cursor cur) = (None, c1, raised) \<Longrightarrow>
     Cursor_next N K M cur ex = map_option (\<lambda>ex1. (php_phongo_cursor_free_session_if_exhausted M ((cursor_move cur)\<lparr>cur_cursor := c1\<rparr>), ex1))
       (case mongoc_cursor_error_document M c1 of
          Some (error, reply) \<Rightarrow> phongo_throw_exception_from_bson_error_t_and_reply N K error reply (raised @ ex)
        | None \<Rightarrow> Some (raised @ ex))"
  by (simp add: Cursor_next_def cursor_move_frame option.map_comp comp_def split: option.split prod.split)

lemma Cursor_next_inv:
  assumes "Cursor_next N K M cur ex = Some (cur1, ex1)" and "cursor_inv E cur"
  shows "cursor_inv E cur1"
proof -
  obtain found c1 raised where n: "mongoc_cursor_next M (cur_cursor cur) = (found, c1, raised)" by (metis prod_cases3)
  have i: "cursor_inv E ((cursor_move cur)\<lparr>cur_cursor := c1\<rparr>)" using cursor_move_inv[OF assms(2)] .
  show ?thesis
  proof (cases found)
    case None
    then show ?thesis using assms(1) n i by (auto simp: Cursor_next_None)
  next
    case (Some doc)
    then show ?thesis using assms(1) n i decode_current_inv by (fastforce simp: Cursor_next_Some)
  qed
qed

lemma error_document_total:
  assumes "well_formed_cursor M" and "mongoc_cursor_error_document M c = Some (e, reply)"
  shows "\<exists>ex1. phongo_throw_exception_from_bson_error_t_and_reply N K e reply ex = Some ex1"
  using assms by (intro throw_total) (auto simp: well_formed_cursor_def)

lemma Cursor_next_total:
  assumes "cursor_inv (de_classes N) cur" and "well_formed_cursor M"
  shows "\<exists>r. Cursor_next N K M cur ex = Some r"
proof -
  obtain found c1 raised where n: "mongoc_cursor_next M (cur_cursor cur) = (found, c1, raised)" by (metis prod_cases3)
  have i: "cursor_inv (de_classes N) ((cursor_move cur)\<lparr>cur_cursor := c1\<rparr>)" using cursor_move_inv[OF assms(1)] .
  show ?thesis
  proof (cases found)
    case None
    then show ?thesis using n error_document_total[OF assms(2), of c1 _ _ N K "raised @ ex"]
      by (auto simp: Cursor_next_None split: option.split)
  next
    case (Some doc)
    then have "doc_ok doc" using assms(2) n by (metis fst_conv well_formed_cursor_def)
    then show ?thesis using Some n decode_current_total[OF _ i] by (fastforce simp: Cursor_next_Some)
  qed
qed

lemma advance_total:
  "well_formed_cursor M \<Longrightarrow> \<exists>r. phongo_cursor_advance_and_check_for_error N K M c ex = Some r"
  using error_document_total[of M]
  by (fastforce simp: phongo_cursor_advance_and_check_for_error_def split: option.splits prod.splits)

text \<open>\<^verbatim>\<open>rewind\<close>, by what advancing returns.\<close>

definition rewind_advance ::
    "decode_env \<Rightarrow> mongoc_error_codes \<Rightarrow> 'c mongoc_cursor_ops \<Rightarrow> 'c php_phongo_cursor_t \<Rightarrow> exn list \<Rightarrow> (bool \<times> 'c \<times> exn list) option" where
  "rewind_advance N K M cur ex =
     (if cur_advanced cur then Some (True, cur_cursor cur, ex)
      else phongo_cursor_advance_and_check_for_error N K M (cur_cursor cur) ex)"

lemma Cursor_rewind_cases:
  assumes "rewind_advance N K M cur ex = Some (ok, c1, ex1)"
  shows "Cursor_rewind N K M cur ex =
    (let cur1 = cur\<lparr>cur_advanced := True, cur_cursor := c1\<rparr>
     in if \<not> ok then Some (cur1, ex1)
        else if cur_current cur1 > 0 then
          Some (cur1, phongo_throw_exception PHONGO_ERROR_LOGIC ''Cursors cannot rewind after starting iteration'' # ex1)
        else map_option (\<lambda>(cur3, ex2). (php_phongo_cursor_free_session_if_exhausted M cur3, ex2))
          (case mongoc_cursor_current M c1 of
             Some doc \<Rightarrow> decode_current N doc (php_phongo_cursor_free_current cur1) ex1
           | None \<Rightarrow> Some (php_phongo_cursor_free_current cur1, ex1)))"
  using assms by (simp add: Cursor_rewind_def rewind_advance_def Let_def)

lemma rewound_inv: "cursor_inv E cur \<Longrightarrow> cursor_inv E (cur\<lparr>cur_advanced := True, cur_cursor := c\<rparr>)"
  by (simp add: cursor_inv_def)

lemma Cursor_rewind_inv:
  assumes "Cursor_rewind N K M cur ex = Some (cur1, ex1)" and "cursor_inv E cur"
  shows "cursor_inv E cur1"
proof -
  obtain ok c2 ex2 where a: "rewind_advance N K M cur ex = Some (ok, c2, ex2)"
    using assms(1) by (auto simp: Cursor_rewind_def rewind_advance_def split: option.splits prod.splits)
  have i: "cursor_inv E (cur\<lparr>cur_advanced := True, cur_cursor := c2\<rparr>)" using rewound_inv[OF assms(2)] .
  show ?thesis using assms(1) i decode_current_inv[where E = E]
    by (fastforce simp: Cursor_rewind_cases[OF a] Let_def split: if_splits option.splits)
qed

lemma Cursor_rewind_total:
  assumes "cursor_inv (de_classes N) cur" and "well_formed_cursor M"
  shows "\<exists>r. Cursor_rewind N K M cur ex = Some r"
proof -
  obtain ok c2 ex2 where a: "rewind_advance N K M cur ex = Some (ok, c2, ex2)"
    using advance_total[OF assms(2), of N K "cur_cursor cur" ex] that by (cases "cur_advanced cur") (auto simp: rewind_advance_def)
  have i: "cursor_inv (de_classes N) (php_phongo_cursor_free_current (cur\<lparr>cur_advanced := True, cur_cursor := c2\<rparr>))"
    using rewound_inv[OF assms(1)] by simp
  have "\<exists>r. decode_current N doc (php_phongo_cursor_free_current (cur\<lparr>cur_advanced := True, cur_cursor := c2\<rparr>)) ex2 = Some r"
    if "mongoc_cursor_current M c2 = Some doc" for doc
    using decode_current_total[OF _ i] that assms(2) by (auto simp: well_formed_cursor_def)
  then show ?thesis by (fastforce simp: Cursor_rewind_cases[OF a] Let_def split: option.splits)
qed

lemma new_map_inv:
  assumes "typemap_ok E tm" and "cursor_inv E cur"
  shows "cursor_inv E (cur\<lparr>cur_visitor_data := bson_state_init\<lparr>st_map := tm\<rparr>\<rparr>)"
  using assms by (simp add: cursor_inv_def state_ok_def bson_state_init_def typemap_ok_iff)

lemma Cursor_setTypeMap_inv:
  assumes "Cursor_setTypeMap N M g t cur ex = Some (cur1, ex1)" and "cursor_inv (de_classes N) cur"
    and "g \<noteq> PHONGO_TYPEMAP_CLASS"
  shows "cursor_inv (de_classes N) cur1"
proof -
  obtain e tm where p: "php_phongo_bson_typemap_to_state (de_classes N) g t typemap_init = Some (e, tm)"
    using assms(1) by (auto simp: Cursor_setTypeMap_def split: option.splits)
  show ?thesis
  proof (cases e)
    case None
    then have "cursor_inv (de_classes N) (cur\<lparr>cur_visitor_data := bson_state_init\<lparr>st_map := tm\<rparr>\<rparr>)"
      using new_map_inv[OF _ assms(2)] typemap_to_state_ok[OF _ typemap_init_ok assms(3)] p by blast
    then show ?thesis using assms(1) p None decode_current_inv
      by (auto simp: Cursor_setTypeMap_def Let_def split: if_splits option.splits)
  qed (use assms p in \<open>auto simp: Cursor_setTypeMap_def\<close>)
qed

lemma Cursor_setTypeMap_total:
  assumes "cursor_inv (de_classes N) cur" and "well_formed_cursor M" and "g \<noteq> PHONGO_TYPEMAP_CLASS"
  shows "\<exists>r. Cursor_setTypeMap N M g t cur ex = Some r"
proof -
  obtain e tm where p: "php_phongo_bson_typemap_to_state (de_classes N) g t typemap_init = Some (e, tm)"
    using typemap_to_state_no_ub[of "de_classes N" g t typemap_init] by auto
  show ?thesis
  proof (cases e)
    case None
    then have i: "cursor_inv (de_classes N) (cur\<lparr>cur_visitor_data := bson_state_init\<lparr>st_map := tm\<rparr>\<rparr>)"
      using new_map_inv[OF _ assms(1)] typemap_to_state_ok[OF _ typemap_init_ok assms(3)] p by blast
    have "\<exists>r. decode_current N doc (cur\<lparr>cur_visitor_data := bson_state_init\<lparr>st_map := tm\<rparr>\<rparr>) ex = Some r"
      if "mongoc_cursor_current M (cur_cursor cur) = Some doc" for doc
      using decode_current_total[OF _ i] that assms(2) by (auto simp: well_formed_cursor_def)
    then show ?thesis using p None by (auto simp: Cursor_setTypeMap_def Let_def split: option.splits)
  qed (use p in \<open>auto simp: Cursor_setTypeMap_def\<close>)
qed

section \<open>The state machine\<close>

text \<open>A call from PHP, which starts with no exception pending.\<close>

inductive cursor_step ::
    "decode_env \<Rightarrow> mongoc_error_codes \<Rightarrow> 'c mongoc_cursor_ops \<Rightarrow> php_phongo_bson_typemap_types
       \<Rightarrow> 'c php_phongo_cursor_t \<Rightarrow> 'c php_phongo_cursor_t \<Rightarrow> bool"
  for N K M g where
  step_next: "Cursor_next N K M cur [] = Some (cur1, ex1) \<Longrightarrow> cursor_step N K M g cur cur1"
| step_rewind: "Cursor_rewind N K M cur [] = Some (cur1, ex1) \<Longrightarrow> cursor_step N K M g cur cur1"
| step_setTypeMap: "Cursor_setTypeMap N M g t cur [] = Some (cur1, ex1) \<Longrightarrow> cursor_step N K M g cur cur1"

inductive_cases cursor_stepE: "cursor_step N K M g cur cur1"

abbreviation cursor_reach ::
    "decode_env \<Rightarrow> mongoc_error_codes \<Rightarrow> 'c mongoc_cursor_ops \<Rightarrow> php_phongo_bson_typemap_types
       \<Rightarrow> 'c php_phongo_cursor_t \<Rightarrow> 'c php_phongo_cursor_t \<Rightarrow> bool" where
  "cursor_reach N K M g \<equiv> (cursor_step N K M g)\<^sup>*\<^sup>*"

lemma step_inv:
  "cursor_step N K M g cur cur1 \<Longrightarrow> cursor_inv (de_classes N) cur \<Longrightarrow> g \<noteq> PHONGO_TYPEMAP_CLASS \<Longrightarrow>
     cursor_inv (de_classes N) cur1"
  by (erule cursor_stepE) (blast dest: Cursor_next_inv Cursor_rewind_inv Cursor_setTypeMap_inv)+

lemma reach_inv:
  "cursor_reach N K M g cur cur1 \<Longrightarrow> cursor_inv (de_classes N) cur \<Longrightarrow> g \<noteq> PHONGO_TYPEMAP_CLASS \<Longrightarrow>
     cursor_inv (de_classes N) cur1"
  by (induction rule: rtranclp_induct) (auto intro: step_inv)

text \<open>What each method does to the position and to the session.\<close>

lemma free_session_frame [simp]:
  "cur_current (php_phongo_cursor_free_session_if_exhausted M cur) = cur_current cur"
  "cur_advanced (php_phongo_cursor_free_session_if_exhausted M cur) = cur_advanced cur"
  "cur_cursor (php_phongo_cursor_free_session_if_exhausted M cur) = cur_cursor cur"
  "cur_visitor_data (php_phongo_cursor_free_session_if_exhausted M cur) = cur_visitor_data cur"
  "cur_session (php_phongo_cursor_free_session_if_exhausted M cur)
     = (if mongoc_cursor_get_id M (cur_cursor cur) \<noteq> 0 then cur_session cur else ZUndef)"
  by (simp_all add: php_phongo_cursor_free_session_if_exhausted_def)

lemma free_current_frame [simp]:
  "cur_current (php_phongo_cursor_free_current cur) = cur_current cur"
  "cur_advanced (php_phongo_cursor_free_current cur) = cur_advanced cur"
  "cur_cursor (php_phongo_cursor_free_current cur) = cur_cursor cur"
  "cur_session (php_phongo_cursor_free_current cur) = cur_session cur"
  "cur_visitor_data (php_phongo_cursor_free_current cur) = (cur_visitor_data cur)\<lparr>st_zchild := ZUndef\<rparr>"
  by (simp_all add: php_phongo_cursor_free_current_def)

lemma Cursor_next_frame:
  assumes "Cursor_next N K M cur ex = Some (cur1, ex1)"
  shows "cur_current cur1 = (if cur_advanced cur then cur_current cur + 1 else cur_current cur)
    \<and> cur_session cur1 = (if mongoc_cursor_get_id M (cur_cursor cur1) \<noteq> 0 then cur_session cur else ZUndef)"
proof -
  obtain found c1 raised where n: "mongoc_cursor_next M (cur_cursor cur) = (found, c1, raised)" by (metis prod_cases3)
  show ?thesis
  proof (cases found)
    case None
    then show ?thesis using assms n by (auto simp: Cursor_next_None cursor_move_frame)
  next
    case (Some doc)
    then show ?thesis using assms n
      by (auto simp: Cursor_next_Some cursor_move_frame dest!: decode_current_frame)
  qed
qed

lemma Cursor_rewind_frame:
  assumes "Cursor_rewind N K M cur ex = Some (cur1, ex1)"
  shows "cur_current cur1 = cur_current cur \<and> (cur_session cur1 = cur_session cur \<or> cur_session cur1 = ZUndef)"
proof -
  obtain ok c2 ex2 where a: "rewind_advance N K M cur ex = Some (ok, c2, ex2)"
    using assms by (auto simp: Cursor_rewind_def rewind_advance_def split: option.splits prod.splits)
  show ?thesis using assms
    by (auto simp: Cursor_rewind_cases[OF a] Let_def split: if_splits option.splits dest!: decode_current_frame)
qed

lemma Cursor_setTypeMap_frame:
  "Cursor_setTypeMap N M g t cur ex = Some (cur1, ex1) \<Longrightarrow>
     cur_current cur1 = cur_current cur \<and> cur_session cur1 = cur_session cur"
  by (auto simp: Cursor_setTypeMap_def Let_def split: option.splits if_splits dest!: decode_current_frame)

lemma step_frame:
  assumes "cursor_step N K M g cur cur1"
  shows "(cur_current cur1 = cur_current cur \<or> cur_current cur1 = cur_current cur + 1)
    \<and> (cur_session cur1 = cur_session cur \<or> cur_session cur1 = ZUndef)"
  using assms
  by (elim cursor_stepE) (auto dest!: Cursor_next_frame Cursor_rewind_frame Cursor_setTypeMap_frame split: if_splits)

lemma reach_frame:
  "cursor_reach N K M g cur cur1 \<Longrightarrow>
     cur_current cur \<le> cur_current cur1 \<and> (cur_session cur = ZUndef \<longrightarrow> cur_session cur1 = ZUndef)"
  by (induction rule: rtranclp_induct) (auto dest!: step_frame)

lemma rewind_refused:
  assumes "cursor_inv E cur" and "0 < cur_current cur"
  shows "Cursor_rewind N K M cur ex
    = Some (cur, phongo_throw_exception PHONGO_ERROR_LOGIC ''Cursors cannot rewind after starting iteration'' # ex)"
proof -
  have a: "cur_advanced cur" using assms by (simp add: cursor_inv_def)
  then have "cur\<lparr>cur_advanced := True, cur_cursor := cur_cursor cur\<rparr> = cur" by simp
  then show ?thesis using a assms(2) by (simp add: Cursor_rewind_def Let_def)
qed

section \<open>Iterating over all documents\<close>

text \<open>From this state on the libmongoc cursor delivers these documents and ends without an error.\<close>

fun delivers :: "'c mongoc_cursor_ops \<Rightarrow> 'c \<Rightarrow> bdoc list \<Rightarrow> bool" where
  "delivers M c [] = (\<exists>c1. mongoc_cursor_next M c = (None, c1, []) \<and> mongoc_cursor_current M c1 = None
     \<and> mongoc_cursor_error_document M c1 = None)"
| "delivers M c (d # ds) = (\<exists>c1. mongoc_cursor_next M c = (Some d, c1, []) \<and> mongoc_cursor_current M c1 = Some d
     \<and> delivers M c1 ds)"

text \<open>A document the state decodes without user code failing and without noting a class.\<close>

definition decodable :: "decode_env \<Rightarrow> php_phongo_bson_state \<Rightarrow> bdoc \<Rightarrow> bool" where
  "decodable N st d \<longleftrightarrow> doc_ok d \<and> decode_quiet N st d \<and> elems_odm (de_classes N) (doc_elems d) None = None"

lemma decoded_cong:
  "st_map st1 = st_map st \<Longrightarrow> st_odm st1 = st_odm st \<Longrightarrow>
     decoded N st1 = decoded N st \<and> decodable N st1 = decodable N st"
  by (auto simp: decoded_def[abs_def] decodable_def[abs_def] decode_quiet_def)

lemma decoded_is_value:
  assumes "state_ok (de_classes N) st" and "st_odm st = None" and "decodable N st d"
  shows "decoded N st d \<noteq> ZUndef \<and> z_deref (decoded N st d) = decoded N st d"
  using assms
  by (auto simp: decoded_def root_value_def decodable_def state_ok_def class_object_def dest!: type_ok_class)

lemma decode_current_value:
  assumes "cursor_inv (de_classes N) cur" and "st_odm (cur_visitor_data cur) = None"
    and "decodable N (cur_visitor_data cur) d"
  shows "\<exists>st. decode_current N d cur [] = Some (cur\<lparr>cur_visitor_data := st\<rparr>, [])
    \<and> st_zchild st = decoded N (cur_visitor_data cur) d
    \<and> st_map st = st_map (cur_visitor_data cur) \<and> st_odm st = None"
proof -
  let ?v = "cur_visitor_data cur"
  have v: "state_ok (de_classes N) ?v" "st_field_path ?v = None" using assms(1) by (simp_all add: cursor_inv_def)
  have d: "doc_ok d" using assms(3) by (simp add: decodable_def)
  obtain st ex1 where r: "php_phongo_bson_to_zval_ex N (BufDocument d True) ?v [] = Some (True, st, ex1)"
    "settles [] ex1 (decode_quiet N ?v d) (st_zchild st) (decoded N ?v d)"
    using to_zval_ex_ok[OF v(1) d, of "[]"] by blast
  have e: "ex1 = []" "st_zchild st = decoded N ?v d" using r(2) assms(3) by (auto simp: settles_def decodable_def)
  have o: "st_odm st = None" using to_zval_ex_next(1)[OF r(1) v d] assms(2,3) by (simp add: decodable_def)
  have m: "st_map st = st_map ?v" using to_zval_ex_next(2)[OF r(1) v d] o by simp
  show ?thesis using r(1) e o m by (intro exI[of _ st]) (simp add: decode_current_def)
qed

text \<open>What is ahead of a cursor on which iteration has not begun, advanced already or not.\<close>

definition cursor_ahead :: "'c mongoc_cursor_ops \<Rightarrow> 'c php_phongo_cursor_t \<Rightarrow> bdoc list \<Rightarrow> bool" where
  "cursor_ahead M cur ds \<longleftrightarrow>
     (if cur_advanced cur then (case ds of
        [] \<Rightarrow> mongoc_cursor_current M (cur_cursor cur) = None
      | d # ds1 \<Rightarrow> mongoc_cursor_current M (cur_cursor cur) = Some d \<and> delivers M (cur_cursor cur) ds1)
      else delivers M (cur_cursor cur) ds)"

definition cursor_ready :: "decode_env \<Rightarrow> 'c php_phongo_cursor_t \<Rightarrow> bdoc list \<Rightarrow> bool" where
  "cursor_ready N cur ds \<longleftrightarrow> cursor_inv (de_classes N) cur \<and> st_odm (cur_visitor_data cur) = None
     \<and> list_all (decodable N (cur_visitor_data cur)) ds"

definition cursor_fresh :: "decode_env \<Rightarrow> 'c mongoc_cursor_ops \<Rightarrow> 'c php_phongo_cursor_t \<Rightarrow> zval list \<Rightarrow> bool" where
  "cursor_fresh N M cur zs \<longleftrightarrow> cur_current cur = 0 \<and> (\<exists>ds. cursor_ahead M cur ds \<and> cursor_ready N cur ds
     \<and> zs = map (decoded N (cur_visitor_data cur)) ds)"

definition cursor_at :: "decode_env \<Rightarrow> 'c mongoc_cursor_ops \<Rightarrow> 'c php_phongo_cursor_t \<Rightarrow> zval list \<Rightarrow> bool" where
  "cursor_at N M cur zs \<longleftrightarrow> cur_advanced cur \<and> (case zs of
     [] \<Rightarrow> st_zchild (cur_visitor_data cur) = ZUndef
   | z # zs1 \<Rightarrow> st_zchild (cur_visitor_data cur) = z \<and> z \<noteq> ZUndef \<and> z_deref z = z
       \<and> (\<exists>ds. delivers M (cur_cursor cur) ds \<and> cursor_ready N cur ds \<and> zs1 = map (decoded N (cur_visitor_data cur)) ds))"

lemma cursor_ready_same:
  assumes "cursor_ready N cur ds" and "cursor_inv (de_classes N) cur1"
    and "st_map (cur_visitor_data cur1) = st_map (cur_visitor_data cur)" and "st_odm (cur_visitor_data cur1) = None"
  shows "cursor_ready N cur1 ds \<and> decoded N (cur_visitor_data cur1) = decoded N (cur_visitor_data cur)"
  using assms decoded_cong[of "cur_visitor_data cur1" "cur_visitor_data cur" N] by (simp add: cursor_ready_def)

text \<open>One document is decoded into a cursor that is ready for it and for the rest.\<close>

lemma arrive:
  assumes "cursor_ready N cur (d # ds)" and "delivers M (cur_cursor cur) ds" and "cur_advanced cur"
  shows "\<exists>cur1. decode_current N d cur [] = Some (cur1, [])
    \<and> cursor_at N M (php_phongo_cursor_free_session_if_exhausted M cur1) (map (decoded N (cur_visitor_data cur)) (d # ds))"
proof -
  have r: "cursor_inv (de_classes N) cur" "st_odm (cur_visitor_data cur) = None" "decodable N (cur_visitor_data cur) d"
    "cursor_ready N cur ds" using assms(1) by (simp_all add: cursor_ready_def)
  from decode_current_value[OF r(1-3)] obtain st where
      d: "decode_current N d cur [] = Some (cur\<lparr>cur_visitor_data := st\<rparr>, [])"
    and s: "st_zchild st = decoded N (cur_visitor_data cur) d" "st_map st = st_map (cur_visitor_data cur)" "st_odm st = None"
    by blast
  have i: "cursor_inv (de_classes N) (php_phongo_cursor_free_session_if_exhausted M (cur\<lparr>cur_visitor_data := st\<rparr>))"
    using decode_current_inv[OF d r(1)] by simp
  have "state_ok (de_classes N) (cur_visitor_data cur)" using r(1) by (simp add: cursor_inv_def)
  then have v: "decoded N (cur_visitor_data cur) d \<noteq> ZUndef \<and> z_deref (decoded N (cur_visitor_data cur) d) = decoded N (cur_visitor_data cur) d"
    using decoded_is_value r(2,3) by blast
  show ?thesis using d s v cursor_ready_same[OF r(4) i] assms(2,3) by (auto simp: cursor_at_def)
qed

lemma at_end: "cursor_inv E cur \<Longrightarrow> cur_advanced cur \<Longrightarrow> st_zchild (cur_visitor_data cur) = ZUndef \<Longrightarrow>
    cursor_at N M (php_phongo_cursor_free_session_if_exhausted M cur) []"
  by (simp add: cursor_at_def)

lemma rewind_fresh_cursor:
  assumes "cursor_fresh N M cur zs"
  shows "\<exists>cur1. Cursor_rewind N K M cur [] = Some (cur1, []) \<and> cursor_at N M cur1 zs"
proof -
  obtain ds where a: "cursor_ahead M cur ds" "cursor_ready N cur ds" and zs: "zs = map (decoded N (cur_visitor_data cur)) ds"
    and c: "cur_current cur = 0" using assms by (auto simp: cursor_fresh_def)
  obtain c1 where r: "rewind_advance N K M cur [] = Some (True, c1, [])"
    and c1: "case ds of [] \<Rightarrow> mongoc_cursor_current M c1 = None
             | d # ds1 \<Rightarrow> mongoc_cursor_current M c1 = Some d \<and> delivers M c1 ds1"
    using a(1) by (cases ds; cases "cur_advanced cur")
      (auto simp: cursor_ahead_def rewind_advance_def phongo_cursor_advance_and_check_for_error_def)
  let ?cur = "php_phongo_cursor_free_current (cur\<lparr>cur_advanced := True, cur_cursor := c1\<rparr>)"
  have i: "cursor_inv (de_classes N) ?cur" using rewound_inv[of _ cur] a(2) by (simp add: cursor_ready_def)
  have rd: "cursor_ready N ?cur ds" "decoded N (cur_visitor_data ?cur) = decoded N (cur_visitor_data cur)"
    using cursor_ready_same[OF a(2) i] a(2) by (auto simp: cursor_ready_def)
  show ?thesis
  proof (cases ds)
    case Nil
    then show ?thesis using c1 c zs i at_end[of _ ?cur N M]
      by (simp add: Cursor_rewind_cases[OF r] Let_def)
  next
    case (Cons d ds1)
    then show ?thesis using arrive[of N ?cur d ds1 M] c1 c zs rd
      by (auto simp: Cursor_rewind_cases[OF r] Let_def)
  qed
qed

lemma next_at_cursor:
  assumes "cursor_at N M cur (z # zs)"
  shows "\<exists>cur1. Cursor_next N K M cur [] = Some (cur1, []) \<and> cursor_at N M cur1 zs"
proof -
  obtain ds where a: "delivers M (cur_cursor cur) ds" "cursor_ready N cur ds" and adv: "cur_advanced cur"
    and zs: "zs = map (decoded N (cur_visitor_data cur)) ds" using assms by (auto simp: cursor_at_def)
  show ?thesis
  proof (cases ds)
    case Nil
    then obtain c1 where n: "mongoc_cursor_next M (cur_cursor cur) = (None, c1, [])" "mongoc_cursor_error_document M c1 = None"
      using a(1) by auto
    then show ?thesis using zs Nil by (simp add: Cursor_next_None[OF n(1)] cursor_at_def cursor_move_frame)
  next
    case (Cons d ds1)
    then obtain c1 where n: "mongoc_cursor_next M (cur_cursor cur) = (Some d, c1, [])" "delivers M c1 ds1"
      using a(1) by auto
    let ?cur = "(cursor_move cur)\<lparr>cur_cursor := c1\<rparr>"
    have i: "cursor_inv (de_classes N) ?cur" using cursor_move_inv a(2) by (auto simp: cursor_ready_def)
    have rd: "cursor_ready N ?cur ds" "decoded N (cur_visitor_data ?cur) = decoded N (cur_visitor_data cur)"
      using cursor_ready_same[OF a(2) i] a(2) by (auto simp: cursor_ready_def cursor_move_frame)
    show ?thesis using arrive[of N ?cur d ds1 M] n rd zs Cons
      by (auto simp: Cursor_next_Some[OF n(1)] cursor_move_frame)
  qed
qed

interpretation cursor_iter: php_iterator
    "\<lambda>s. Cursor_rewind N K M s []" Cursor_valid Cursor_current "\<lambda>s. Cursor_next N K M s []"
    "cursor_fresh N M" "cursor_at N M"
  for N K M
proof unfold_locales
  show "cursor_fresh N M s zs \<Longrightarrow> \<exists>s1. Cursor_rewind N K M s [] = Some (s1, []) \<and> cursor_at N M s1 zs" for s zs
    by (rule rewind_fresh_cursor)
  show "cursor_at N M s zs \<Longrightarrow> Cursor_valid s = (zs \<noteq> [])" for s zs
    by (auto simp: cursor_at_def Cursor_valid_def split: list.splits)
  show "cursor_at N M s (z # zs) \<Longrightarrow> Cursor_current s = z" for s z zs
    by (auto simp: cursor_at_def Cursor_current_def)
  show "cursor_at N M s (z # zs) \<Longrightarrow> \<exists>s1. Cursor_next N K M s [] = Some (s1, []) \<and> cursor_at N M s1 zs" for s z zs
    by (rule next_at_cursor)
qed

lemma toArray_collects:
  assumes "cursor_fresh N M cur zs"
  shows "\<exists>cur1. Cursor_toArray N K M cur = Some (ZArray (list_table zs), cur1, []) \<and> \<not> Cursor_valid cur1"
  using cursor_iter.apply_collects[OF assms, of K] cursor_iter.at_valid[of N M _ "[]"]
  by (fastforce simp: Cursor_toArray_def)

section \<open>A cursor over a list\<close>

text \<open>The documents still to come and the current one; dead, with id 0, when none is left.\<close>

definition ref_cursor_ops :: "(bdoc list \<times> bdoc option) mongoc_cursor_ops" where
  "ref_cursor_ops = \<lparr>mongoc_cursor_next = (\<lambda>(ds, _). case ds of
       [] \<Rightarrow> (None, ([], None), []) | d # ds1 \<Rightarrow> (Some d, (ds1, Some d), [])),
     mongoc_cursor_current = snd, mongoc_cursor_error_document = (\<lambda>_. None),
     mongoc_cursor_get_id = (\<lambda>(ds, _). if ds = [] then 0 else 1),
     mongoc_cursor_more = (\<lambda>(ds, _). ds \<noteq> []), mongoc_cursor_get_hint = (\<lambda>_. 1)\<rparr>"

lemma ref_cursor_delivers: "delivers ref_cursor_ops (ds, cur) ds"
  by (induction ds arbitrary: cur) (simp_all add: ref_cursor_ops_def)

text \<open>A cursor over so many empty documents.\<close>

definition ref_count_ops :: "nat mongoc_cursor_ops" where
  "ref_count_ops = \<lparr>mongoc_cursor_next = (\<lambda>n. case n of
       0 \<Rightarrow> (None, 0, []) | Suc m \<Rightarrow> (Some (BDoc [] DocOk), m, [])),
     mongoc_cursor_current = (\<lambda>n. Some (BDoc [] DocOk)), mongoc_cursor_error_document = (\<lambda>_. None),
     mongoc_cursor_get_id = int, mongoc_cursor_more = (\<lambda>n. n \<noteq> 0), mongoc_cursor_get_hint = (\<lambda>_. 1)\<rparr>"

lemma ref_count_well_formed: "well_formed_cursor ref_count_ops"
  by (auto simp: well_formed_cursor_def ref_count_ops_def split: nat.splits)

end
