(* ===== verification/Driver_BulkWrite.thy ===== *)
theory Driver_BulkWrite
  imports Driver_Query Driver_Cursor
begin

text \<open>
  \<^verbatim>\<open>BulkWrite\<close> and \<^verbatim>\<open>WriteResult\<close> (MongoDB/BulkWrite.c and MongoDB/WriteResult.c): operations are
  added to a libmongoc bulk operation, and the reply to it is read field by field.
\<close>

section \<open>libmongoc's bulk operation\<close>

text \<open>Adding an operation may fail with an error; executing it changes the world.\<close>

record ('w, 'b, 'cs, 'wc, 'cl) bulk_ops =
  mongoc_bulk_operation_new :: "bool \<Rightarrow> 'b"
  mongoc_bulk_operation_set_bypass_document_validation :: "'b \<Rightarrow> bool \<Rightarrow> 'b"
  mongoc_bulk_operation_insert_with_opts :: "'b \<Rightarrow> bdoc \<Rightarrow> opts \<Rightarrow> bson_error_t option \<times> 'b"
  mongoc_bulk_operation_update_many_with_opts :: "'b \<Rightarrow> bdoc \<Rightarrow> bdoc \<Rightarrow> opts \<Rightarrow> bson_error_t option \<times> 'b"
  mongoc_bulk_operation_update_one_with_opts :: "'b \<Rightarrow> bdoc \<Rightarrow> bdoc \<Rightarrow> opts \<Rightarrow> bson_error_t option \<times> 'b"
  mongoc_bulk_operation_replace_one_with_opts :: "'b \<Rightarrow> bdoc \<Rightarrow> bdoc \<Rightarrow> opts \<Rightarrow> bson_error_t option \<times> 'b"
  mongoc_bulk_operation_remove_one_with_opts :: "'b \<Rightarrow> bdoc \<Rightarrow> opts \<Rightarrow> bson_error_t option \<times> 'b"
  mongoc_bulk_operation_remove_many_with_opts :: "'b \<Rightarrow> bdoc \<Rightarrow> opts \<Rightarrow> bson_error_t option \<times> 'b"
  mongoc_bulk_operation_set_database :: "'b \<Rightarrow> string \<Rightarrow> 'b"
  mongoc_bulk_operation_set_collection :: "'b \<Rightarrow> string \<Rightarrow> 'b"
  mongoc_bulk_operation_set_client :: "'b \<Rightarrow> 'cl \<Rightarrow> 'b"
  mongoc_bulk_operation_set_hint :: "'b \<Rightarrow> int \<Rightarrow> 'b"
  mongoc_bulk_operation_set_client_session :: "'b \<Rightarrow> 'cs \<Rightarrow> 'b"
  mongoc_bulk_operation_set_write_concern :: "'b \<Rightarrow> 'wc \<Rightarrow> 'b"
  mongoc_bulk_operation_get_hint :: "'b \<Rightarrow> int"
  mongoc_bulk_operation_get_write_concern :: "'b \<Rightarrow> 'wc option"
  mongoc_bulk_operation_execute :: "'b \<Rightarrow> 'w \<Rightarrow> (bool \<times> bdoc \<times> bson_error_t) \<times> exn list \<times> 'b \<times> 'w"

section \<open>The class\<close>

record 'b php_phongo_bulkwrite_t =
  blk_bulk :: "'b option"
  blk_num_ops :: nat
  blk_ordered :: bool
  blk_bypass :: int
  blk_database :: "string option"
  blk_collection :: "string option"
  blk_executed :: bool
  blk_session :: zval

definition PHONGO_BULKWRITE_BYPASS_UNSET :: int where
  "PHONGO_BULKWRITE_BYPASS_UNSET = -1"

definition php_phongo_bulkwrite_create_object :: "'b php_phongo_bulkwrite_t" where
  "php_phongo_bulkwrite_create_object = \<lparr>blk_bulk = None, blk_num_ops = 0, blk_ordered = False, blk_bypass = 0,
     blk_database = None, blk_collection = None, blk_executed = False, blk_session = ZUndef\<rparr>"

definition php_phongo_bulkwrite_extract_id :: "decode_env \<Rightarrow> opts \<Rightarrow> exn list \<Rightarrow> (zval \<times> exn list) option" where
  "php_phongo_bulkwrite_extract_id N doc ex =
     map_option (\<lambda>(ok, st, ex1).
       (if ok then (case php_array_fetch (z_buckets (st_zchild st)) ''_id'' of Some z \<Rightarrow> z | None \<Rightarrow> ZNull) else ZNull, ex1))
     (php_phongo_bson_to_zval_ex N (BufDocument (BDoc doc DocOk) True)
       (bson_state_init\<lparr>st_map := typemap_init\<lparr>tm_root_type := PHONGO_TYPEMAP_NATIVE_ARRAY\<rparr>\<rparr>) ex)"

definition php_phongo_bulkwrite_update_has_operators :: "opts \<Rightarrow> bool" where
  "php_phongo_bulkwrite_update_has_operators bupdate \<longleftrightarrow> list_ex (\<lambda>(k, v). CHR 0x24 \<in> set k) bupdate"

text \<open>Each element of a pipeline is a document whose first key is an operator.\<close>

definition is_stage :: "bval \<Rightarrow> bool" where
  "is_stage v = (case v of BDocument d \<Rightarrow> (case doc_elems d of (k, _) # _ \<Rightarrow> k \<noteq> [] \<and> hd k = CHR 0x24 | [] \<Rightarrow> False) | _ \<Rightarrow> False)"

fun pipeline_from :: "nat \<Rightarrow> opts \<Rightarrow> bool" where
  "pipeline_from i [] = (i \<noteq> 0)"
| "pipeline_from i ((k, v) # es) = (k = dec_of_nat i \<and> is_stage v \<and> pipeline_from (i + 1) es)"

definition php_phongo_bulkwrite_update_is_pipeline :: "opts \<Rightarrow> bool" where
  "php_phongo_bulkwrite_update_is_pipeline bupdate = pipeline_from 0 bupdate"

fun keys_count_from :: "nat \<Rightarrow> opts \<Rightarrow> bool" where
  "keys_count_from i [] = True"
| "keys_count_from i ((k, v) # es) = (k = dec_of_nat i \<and> keys_count_from (i + 1) es)"

definition php_phongo_bulkwrite_bson_array_has_valid_keys :: "opts \<Rightarrow> bool" where
  "php_phongo_bulkwrite_bson_array_has_valid_keys array = (array = [] \<or> keys_count_from 0 array)"

section \<open>Options of an operation\<close>

text \<open>The options are built like those of a query: the state is the options so far.\<close>

definition bulk_append :: "operation_env \<Rightarrow> string \<Rightarrow> bval \<Rightarrow> opts \<Rightarrow> exn list \<Rightarrow> opts init_step" where
  "bulk_append G opt v es ex = (case op_append G es (opt, v) of
       None \<Rightarrow> init_fail es ex (''Error appending '' @ dquote opt @ '' option'')
     | Some es1 \<Rightarrow> Some (True, es1, ex))"

definition bulk_compound ::
    "operation_env \<Rightarrow> string \<Rightarrow> zval \<Rightarrow> opts \<Rightarrow> exn list \<Rightarrow> (opts \<Rightarrow> exn list \<Rightarrow> opts init_step) \<Rightarrow> opts init_step" where
  "bulk_compound G key val es ex k =
     (if \<not> is_compound val
      then init_fail es ex (''Expected '' @ dquote key @ '' option to be array or object, '' @ op_type_name G val @ '' given'')
      else (case op_zval_to_bson G val ex of
              None \<Rightarrow> None
            | Some (doc, ex1) \<Rightarrow> if ex1 \<noteq> [] then Some (False, es, ex1) else k doc ex1))"

definition php_phongo_bulkwrite_opts_append_array :: "operation_env \<Rightarrow> string \<Rightarrow> zval \<Rightarrow> opts \<Rightarrow> exn list \<Rightarrow> opts init_step" where
  "php_phongo_bulkwrite_opts_append_array G key val es ex =
     bulk_compound G key val es ex (\<lambda>doc ex1.
       if \<not> php_phongo_bulkwrite_bson_array_has_valid_keys doc
       then init_fail es ex1 (dquote key @ '' option has invalid keys for a BSON array'')
       else bulk_append G key (BArray (BDoc doc DocOk)) es ex1)"

definition php_phongo_bulkwrite_opts_append_document :: "operation_env \<Rightarrow> string \<Rightarrow> zval \<Rightarrow> opts \<Rightarrow> exn list \<Rightarrow> opts init_step" where
  "php_phongo_bulkwrite_opts_append_document G key val es ex =
     bulk_compound G key val es ex (\<lambda>doc ex1. bulk_append G key (BDocument (BDoc doc DocOk)) es ex1)"

definition bulk_option ::
    "(zval \<Rightarrow> opts \<Rightarrow> exn list \<Rightarrow> opts init_step) \<Rightarrow> ht option \<Rightarrow> string \<Rightarrow> opts \<Rightarrow> exn list \<Rightarrow> opts init_step" where
  "bulk_option set_value zoptions opt es ex = (case query_present zoptions opt of None \<Rightarrow> Some (True, es, ex) | Some z \<Rightarrow> set_value z es ex)"

definition php_phongo_bulkwrite_opt_hint :: "operation_env \<Rightarrow> ht option \<Rightarrow> opts \<Rightarrow> exn list \<Rightarrow> opts init_step" where
  "php_phongo_bulkwrite_opt_hint G zoptions es ex =
     bulk_option (\<lambda>z es ex.
       if z_is_string z then bulk_append G ''hint'' (BUtf8 (z_string z)) es ex
       else if is_compound z then php_phongo_bulkwrite_opts_append_document G ''hint'' z es ex
       else init_fail es ex (''Expected '' @ dquote ''hint'' @ '' option to be string, array, or object, '' @ op_type_name G z @ '' given''))
     zoptions ''hint'' es ex"

definition fetch_flag :: "ht option \<Rightarrow> string \<Rightarrow> bool" where
  "fetch_flag zoptions key = (case zoptions of None \<Rightarrow> False | Some h \<Rightarrow> php_array_fetch_bool h key)"

definition php_phongo_bulkwrite_update_apply_options :: "operation_env \<Rightarrow> ht option \<Rightarrow> opts \<Rightarrow> exn list \<Rightarrow> opts init_step" where
  "php_phongo_bulkwrite_update_apply_options G zoptions es ex =
     init_then (init_then (init_then (init_then
       (bulk_append G ''multi'' (BBool (fetch_flag zoptions ''multi'')) es ex)
       (bulk_append G ''upsert'' (BBool (fetch_flag zoptions ''upsert''))))
       (bulk_option (php_phongo_bulkwrite_opts_append_array G ''arrayFilters'') zoptions ''arrayFilters''))
       (bulk_option (php_phongo_bulkwrite_opts_append_document G ''collation'') zoptions ''collation''))
       (php_phongo_bulkwrite_opt_hint G zoptions)"

definition php_phongo_bulkwrite_delete_apply_options :: "operation_env \<Rightarrow> ht option \<Rightarrow> opts \<Rightarrow> exn list \<Rightarrow> opts init_step" where
  "php_phongo_bulkwrite_delete_apply_options G zoptions es ex =
     init_then (init_then
       (bulk_append G ''limit'' (BInt32 (if fetch_flag zoptions ''limit'' then 1 else 0)) es ex)
       (bulk_option (php_phongo_bulkwrite_opts_append_document G ''collation'') zoptions ''collation''))
       (php_phongo_bulkwrite_opt_hint G zoptions)"

section \<open>Methods\<close>

definition BulkWrite___construct ::
    "('w, 'b, 'cs, 'wc, 'cl) bulk_ops \<Rightarrow> ht option \<Rightarrow> 'b php_phongo_bulkwrite_t \<Rightarrow> 'b php_phongo_bulkwrite_t" where
  "BulkWrite___construct B options intern =
     (let ordered = (case query_present options ''ordered'' of None \<Rightarrow> True | Some z \<Rightarrow> php_array_zval_to_bool (Some z));
          bulk = mongoc_bulk_operation_new B ordered;
          i1 = intern\<lparr>blk_bulk := Some bulk, blk_ordered := ordered, blk_bypass := PHONGO_BULKWRITE_BYPASS_UNSET,
                 blk_num_ops := 0, blk_executed := False\<rparr>
      in case query_present options ''bypassDocumentValidation'' of
           None \<Rightarrow> i1
         | Some z \<Rightarrow> (let bypass = php_array_zval_to_bool (Some z)
             in i1\<lparr>blk_bulk := Some (mongoc_bulk_operation_set_bypass_document_validation B bulk bypass),
                   blk_bypass := (if bypass then 1 else 0)\<rparr>))"

text \<open>Adding an operation: an error is thrown, otherwise the operation is counted.\<close>

definition bulk_add ::
    "decode_env \<Rightarrow> mongoc_error_codes \<Rightarrow> bson_error_t option \<times> 'b \<Rightarrow> 'b php_phongo_bulkwrite_t \<Rightarrow> exn list
       \<Rightarrow> (bool \<times> 'b php_phongo_bulkwrite_t \<times> exn list) option" where
  "bulk_add N K r intern ex = (case r of
       (None, b) \<Rightarrow> Some (True, intern\<lparr>blk_bulk := Some b, blk_num_ops := blk_num_ops intern + 1\<rparr>, ex)
     | (Some error, b) \<Rightarrow> map_option (\<lambda>ex1. (False, intern\<lparr>blk_bulk := Some b\<rparr>, ex1))
         (phongo_throw_exception_from_bson_error_t N K error ex))"

text \<open>
  The methods of an object whose constructor has run; the outer None is also a null bulk
  operation.
\<close>

definition BulkWrite_insert ::
    "operation_env \<Rightarrow> decode_env \<Rightarrow> mongoc_error_codes \<Rightarrow> ('w, 'b, 'cs, 'wc, 'cl) bulk_ops \<Rightarrow> zval
       \<Rightarrow> 'b php_phongo_bulkwrite_t \<Rightarrow> exn list \<Rightarrow> (zval \<times> 'b php_phongo_bulkwrite_t \<times> exn list) option" where
  "BulkWrite_insert G N K B zdocument intern ex =
     (case php_phongo_zval_to_bson (op_fuel G) (op_encode G) (op_heap G) True True zdocument [] ex of
        None \<Rightarrow> None
      | Some (doc, bson_out, ex1) \<Rightarrow>
          if ex1 \<noteq> [] then Some (ZNull, intern, ex1)
          else Option.bind (blk_bulk intern) (\<lambda>b.
            Option.bind (bulk_add N K (mongoc_bulk_operation_insert_with_opts B b (BDoc doc DocOk) []) intern ex1) (\<lambda>(ok, i1, ex2).
              if \<not> ok then Some (ZNull, i1, ex2)
              else (case bson_out of
                      None \<Rightarrow> Some (ZNull, i1, phongo_throw_exception PHONGO_ERROR_LOGIC
                        ''Did not receive result from bulk write. Please file a bug report.'' # ex2)
                    | Some out \<Rightarrow> map_option (\<lambda>(z, ex3). (z, i1, ex3)) (php_phongo_bulkwrite_extract_id N out ex2)))))"

definition BulkWrite_update ::
    "operation_env \<Rightarrow> decode_env \<Rightarrow> mongoc_error_codes \<Rightarrow> ('w, 'b, 'cs, 'wc, 'cl) bulk_ops \<Rightarrow> zval \<Rightarrow> zval \<Rightarrow> ht option
       \<Rightarrow> 'b php_phongo_bulkwrite_t \<Rightarrow> exn list \<Rightarrow> ('b php_phongo_bulkwrite_t \<times> exn list) option" where
  "BulkWrite_update G N K B zquery zupdate zoptions intern ex =
     Option.bind (op_zval_to_bson G zquery ex) (\<lambda>(bquery, ex1).
       if ex1 \<noteq> [] then Some (intern, ex1) else
     Option.bind (op_zval_to_bson G zupdate ex1) (\<lambda>(bupdate, ex2).
       if ex2 \<noteq> [] then Some (intern, ex2) else
     Option.bind (php_phongo_bulkwrite_update_apply_options G zoptions [] ex2) (\<lambda>(ok, boptions, ex3).
       if \<not> ok then Some (intern, ex3) else
     Option.bind (blk_bulk intern) (\<lambda>b.
       let q = BDoc bquery DocOk; u = BDoc bupdate DocOk; add = (\<lambda>r. map_option snd (bulk_add N K r intern ex3)) in
       if php_phongo_bulkwrite_update_has_operators bupdate \<or> php_phongo_bulkwrite_update_is_pipeline bupdate
       then (if fetch_flag zoptions ''multi'' then add (mongoc_bulk_operation_update_many_with_opts B b q u boptions)
             else add (mongoc_bulk_operation_update_one_with_opts B b q u boptions))
       else if fetch_flag zoptions ''multi''
       then Some (intern, invalid_argument (''Replacement document conflicts with true '' @ dquote ''multi'' @ '' option'') # ex3)
       else add (mongoc_bulk_operation_replace_one_with_opts B b q u boptions)))))"

definition BulkWrite_delete ::
    "operation_env \<Rightarrow> decode_env \<Rightarrow> mongoc_error_codes \<Rightarrow> ('w, 'b, 'cs, 'wc, 'cl) bulk_ops \<Rightarrow> zval \<Rightarrow> ht option
       \<Rightarrow> 'b php_phongo_bulkwrite_t \<Rightarrow> exn list \<Rightarrow> ('b php_phongo_bulkwrite_t \<times> exn list) option" where
  "BulkWrite_delete G N K B zquery zoptions intern ex =
     Option.bind (op_zval_to_bson G zquery ex) (\<lambda>(bquery, ex1).
       if ex1 \<noteq> [] then Some (intern, ex1) else
     Option.bind (php_phongo_bulkwrite_delete_apply_options G zoptions [] ex1) (\<lambda>(ok, boptions, ex2).
       if \<not> ok then Some (intern, ex2) else
     Option.bind (blk_bulk intern) (\<lambda>b.
       map_option snd (bulk_add N K
         (if fetch_flag zoptions ''limit'' then mongoc_bulk_operation_remove_one_with_opts B b (BDoc bquery DocOk) boptions
          else mongoc_bulk_operation_remove_many_with_opts B b (BDoc bquery DocOk) boptions) intern ex2))))"

definition BulkWrite_count :: "'b php_phongo_bulkwrite_t \<Rightarrow> zval" where
  "BulkWrite_count intern = ZLong (int (blk_num_ops intern))"

definition php_phongo_bulkwrite_get_debug_info ::
    "nat \<Rightarrow> ('w, 'b, 'cs, 'wc, 'cl) bulk_ops \<Rightarrow> 'wc write_concern_ops \<Rightarrow> 'b php_phongo_bulkwrite_t \<Rightarrow> ht option" where
  "php_phongo_bulkwrite_get_debug_info sizeof_zend_long B W intern =
     Option.bind (blk_bulk intern) (\<lambda>b.
     Option.bind (case mongoc_bulk_operation_get_write_concern B b of
         None \<Rightarrow> Some ZNull | Some wc \<Rightarrow> php_phongo_write_concern_to_zval sizeof_zend_long W wc) (\<lambda>write_concern. Some
       [(KStr ''database'', string_or_null (blk_database intern)),
        (KStr ''collection'', string_or_null (blk_collection intern)),
        (KStr ''ordered'', ZBool (blk_ordered intern)),
        (KStr ''bypassDocumentValidation'', if blk_bypass intern \<noteq> PHONGO_BULKWRITE_BYPASS_UNSET then ZBool (blk_bypass intern \<noteq> 0) else ZNull),
        (KStr ''executed'', ZBool (blk_executed intern)),
        (KStr ''server_id'', ZLong (mongoc_bulk_operation_get_hint B b)),
        (KStr ''session'', zval_or_null (blk_session intern)),
        (KStr ''write_concern'', write_concern)]))"

section \<open>WriteResult\<close>

record 'wc php_phongo_writeresult_t =
  wrs_write_concern :: "'wc option"
  wrs_reply :: bdoc
  wrs_manager :: zval
  wrs_server_id :: int

definition phongo_writeresult_init :: "bdoc \<Rightarrow> zval \<Rightarrow> int \<Rightarrow> 'wc php_phongo_writeresult_t" where
  "phongo_writeresult_init reply manager server_id =
     \<lparr>wrs_write_concern = None, wrs_reply = reply, wrs_manager = manager, wrs_server_id = server_id\<rparr>"

definition writeresult_count :: "string \<Rightarrow> 'wc php_phongo_writeresult_t \<Rightarrow> zval" where
  "writeresult_count key intern = (case bson_find (wrs_reply intern) key of Some (BInt32 i) \<Rightarrow> ZLong i | _ \<Rightarrow> ZNull)"

definition WriteResult_getInsertedCount :: "'wc php_phongo_writeresult_t \<Rightarrow> zval" where
  "WriteResult_getInsertedCount intern = writeresult_count ''nInserted'' intern"

definition WriteResult_getMatchedCount :: "'wc php_phongo_writeresult_t \<Rightarrow> zval" where
  "WriteResult_getMatchedCount intern = writeresult_count ''nMatched'' intern"

definition WriteResult_getModifiedCount :: "'wc php_phongo_writeresult_t \<Rightarrow> zval" where
  "WriteResult_getModifiedCount intern = writeresult_count ''nModified'' intern"

definition WriteResult_getDeletedCount :: "'wc php_phongo_writeresult_t \<Rightarrow> zval" where
  "WriteResult_getDeletedCount intern = writeresult_count ''nRemoved'' intern"

definition WriteResult_getUpsertedCount :: "'wc php_phongo_writeresult_t \<Rightarrow> zval" where
  "WriteResult_getUpsertedCount intern = writeresult_count ''nUpserted'' intern"

definition WriteResult_getServer :: "'wc php_phongo_writeresult_t \<Rightarrow> php_phongo_server_t" where
  "WriteResult_getServer intern = phongo_server_init (wrs_manager intern) (wrs_server_id intern)"

text \<open>The elements of an array field of the reply.\<close>

definition reply_array :: "bdoc \<Rightarrow> string \<Rightarrow> bval list" where
  "reply_array reply key = (case bson_find reply key of Some (BArray d) \<Rightarrow> map snd (doc_elems d) | _ \<Rightarrow> [])"

text \<open>The first document among the write concern errors; failing to read it leaves null.\<close>

fun first_writeconcernerror :: "decode_env \<Rightarrow> bval list \<Rightarrow> exn list \<Rightarrow> (bool \<times> php_phongo_writeconcernerror_t option \<times> exn list) option" where
  "first_writeconcernerror N [] ex = Some (True, None, ex)"
| "first_writeconcernerror N (BDocument d # vs) ex =
     map_option (\<lambda>(ok, e, ex1). (ok, if ok then Some e else None, ex1)) (phongo_writeconcernerror_init N d ex)"
| "first_writeconcernerror N (v # vs) ex = first_writeconcernerror N vs ex"

definition php_phongo_writeresult_get_writeconcernerror ::
    "decode_env \<Rightarrow> 'wc php_phongo_writeresult_t \<Rightarrow> exn list \<Rightarrow> (bool \<times> php_phongo_writeconcernerror_t option \<times> exn list) option" where
  "php_phongo_writeresult_get_writeconcernerror N intern ex =
     first_writeconcernerror N (reply_array (wrs_reply intern) ''writeConcernErrors'') ex"

text \<open>All the write errors that can be read.\<close>

fun collect_writeerrors :: "decode_env \<Rightarrow> bval list \<Rightarrow> php_phongo_writeerror_t list \<Rightarrow> exn list \<Rightarrow> (php_phongo_writeerror_t list \<times> exn list) option" where
  "collect_writeerrors N [] acc ex = Some (acc, ex)"
| "collect_writeerrors N (BDocument d # vs) acc ex =
     Option.bind (phongo_writeerror_init N d ex) (\<lambda>(ok, e, ex1). collect_writeerrors N vs (if ok then acc @ [e] else acc) ex1)"
| "collect_writeerrors N (v # vs) acc ex = collect_writeerrors N vs acc ex"

definition php_phongo_writeresult_get_writeerrors ::
    "decode_env \<Rightarrow> 'wc php_phongo_writeresult_t \<Rightarrow> exn list \<Rightarrow> (php_phongo_writeerror_t list \<times> exn list) option" where
  "php_phongo_writeresult_get_writeerrors N intern ex =
     collect_writeerrors N (reply_array (wrs_reply intern) ''writeErrors'') [] ex"

text \<open>Upserted ids by the index of their operation; an element without "_id" is a null pointer.\<close>

fun collect_upserted :: "decode_env \<Rightarrow> (zval \<Rightarrow> int) \<Rightarrow> bval list \<Rightarrow> ht \<Rightarrow> exn list \<Rightarrow> (ht \<times> exn list) option" where
  "collect_upserted N L [] acc ex = Some (acc, ex)"
| "collect_upserted N L (BDocument d # vs) acc ex =
     Option.bind (php_phongo_bson_to_zval_ex N (BufDocument d True)
         (bson_state_init\<lparr>st_map := typemap_init\<lparr>tm_root_type := PHONGO_TYPEMAP_NATIVE_ARRAY\<rparr>\<rparr>) ex) (\<lambda>(ok, st, ex1).
       if \<not> ok then collect_upserted N L vs acc ex1
       else (let h = z_buckets (st_zchild st) in
         Option.bind (php_array_fetch h ''_id'') (\<lambda>zid.
           collect_upserted N L vs (hash_update acc (KInt (php_array_fetch_long L h ''index'')) zid) ex1)))"
| "collect_upserted N L (v # vs) acc ex = collect_upserted N L vs acc ex"

definition WriteResult_getUpsertedIds ::
    "decode_env \<Rightarrow> (zval \<Rightarrow> int) \<Rightarrow> 'wc php_phongo_writeresult_t \<Rightarrow> exn list \<Rightarrow> (ht \<times> exn list) option" where
  "WriteResult_getUpsertedIds N L intern ex = collect_upserted N L (reply_array (wrs_reply intern) ''upserted'') [] ex"

definition WriteResult_getWriteConcernError ::
    "decode_env \<Rightarrow> 'wc php_phongo_writeresult_t \<Rightarrow> exn list \<Rightarrow> (php_phongo_writeconcernerror_t option \<times> exn list) option" where
  "WriteResult_getWriteConcernError N intern ex = map_option snd (php_phongo_writeresult_get_writeconcernerror N intern ex)"

definition WriteResult_getWriteErrors ::
    "decode_env \<Rightarrow> 'wc php_phongo_writeresult_t \<Rightarrow> exn list \<Rightarrow> (php_phongo_writeerror_t list \<times> exn list) option" where
  "WriteResult_getWriteErrors N intern ex = php_phongo_writeresult_get_writeerrors N intern ex"

definition WriteResult_isAcknowledged :: "'wc write_concern_ops \<Rightarrow> 'wc php_phongo_writeresult_t \<Rightarrow> zval option" where
  "WriteResult_isAcknowledged W intern =
     map_option (\<lambda>wc. ZBool (mongoc_write_concern_is_acknowledged W wc)) (wrs_write_concern intern)"

text \<open>The debug table ends where the array of upserted ids cannot be decoded.\<close>

datatype 'wc writeresult_val =
    WrsZval zval
  | WrsErrors "php_phongo_writeerror_t list"
  | WrsConcernError "php_phongo_writeconcernerror_t option"
  | WrsConcern "'wc php_phongo_writeconcern_t"

definition php_phongo_writeresult_get_debug_info ::
    "decode_env \<Rightarrow> 'wc php_phongo_writeresult_t \<Rightarrow> exn list \<Rightarrow> ((string \<times> 'wc writeresult_val) list \<times> exn list) option" where
  "php_phongo_writeresult_get_debug_info N intern ex =
     (let counts = map (\<lambda>k. (k, WrsZval (writeresult_count k intern))) [''nInserted'', ''nMatched'', ''nModified'', ''nRemoved'', ''nUpserted''] in
      Option.bind (case bson_find (wrs_reply intern) ''upserted'' of
          Some (BArray d) \<Rightarrow> decode_under N typemap_debug_init d ex | _ \<Rightarrow> Some (Some (ZArray []), ex)) (\<lambda>(ids, ex1).
        case ids of
          None \<Rightarrow> Some (counts, ex1)
        | Some z \<Rightarrow>
            Option.bind (php_phongo_writeresult_get_writeerrors N intern ex1) (\<lambda>(es, ex2).
            Option.bind (php_phongo_writeresult_get_writeconcernerror N intern ex2) (\<lambda>(ok, wce, ex3).
              Some (counts @ [(''upsertedIds'', WrsZval z), (''writeErrors'', WrsErrors es), (''writeConcernError'', WrsConcernError wce),
                (''writeConcern'', case wrs_write_concern intern of
                    Some wc \<Rightarrow> WrsConcern (phongo_writeconcern_init wc) | None \<Rightarrow> WrsZval ZNull)], ex3)))))"

section \<open>A bulk operation and its operations\<close>

datatype bulk_op =
    OpInsert bdoc opts
  | OpUpdateMany bdoc bdoc opts
  | OpUpdateOne bdoc bdoc opts
  | OpReplaceOne bdoc bdoc opts
  | OpRemoveOne bdoc opts
  | OpRemoveMany bdoc opts

text \<open>
  Documented: a bulk operation is the list of its operations; an operation that is added
  without an error is the last one, and with an error is not added.
\<close>

definition adds :: "('b \<Rightarrow> bulk_op list) \<Rightarrow> 'b \<Rightarrow> bulk_op \<Rightarrow> bson_error_t option \<times> 'b \<Rightarrow> bool" where
  "adds view b x r \<longleftrightarrow> view (snd r) = (if fst r = None then view b @ [x] else view b)"

definition bulk_contract :: "('w, 'b, 'cs, 'wc, 'cl) bulk_ops \<Rightarrow> ('b \<Rightarrow> bulk_op list) \<Rightarrow> bool" where
  "bulk_contract B view \<longleftrightarrow>
     (\<forall>o1. view (mongoc_bulk_operation_new B o1) = [])
   \<and> (\<forall>b y. view (mongoc_bulk_operation_set_bypass_document_validation B b y) = view b)
   \<and> (\<forall>b d es. adds view b (OpInsert d es) (mongoc_bulk_operation_insert_with_opts B b d es))
   \<and> (\<forall>b q u es. adds view b (OpUpdateMany q u es) (mongoc_bulk_operation_update_many_with_opts B b q u es))
   \<and> (\<forall>b q u es. adds view b (OpUpdateOne q u es) (mongoc_bulk_operation_update_one_with_opts B b q u es))
   \<and> (\<forall>b q u es. adds view b (OpReplaceOne q u es) (mongoc_bulk_operation_replace_one_with_opts B b q u es))
   \<and> (\<forall>b q es. adds view b (OpRemoveOne q es) (mongoc_bulk_operation_remove_one_with_opts B b q es))
   \<and> (\<forall>b q es. adds view b (OpRemoveMany q es) (mongoc_bulk_operation_remove_many_with_opts B b q es))"

text \<open>
  Which operation is added for what: operators or a pipeline are updates and anything else a
  replacement; the options that say how many documents an operation is for agree with it.
\<close>

definition is_update_document :: "bdoc \<Rightarrow> bool" where
  "is_update_document u \<longleftrightarrow> php_phongo_bulkwrite_update_has_operators (doc_elems u)
     \<or> php_phongo_bulkwrite_update_is_pipeline (doc_elems u)"

fun bulk_op_ok :: "bulk_op \<Rightarrow> bool" where
  "bulk_op_ok (OpInsert d es) = (es = [])"
| "bulk_op_ok (OpUpdateMany q u es) = (is_update_document u \<and> map_of es ''multi'' = Some (BBool True))"
| "bulk_op_ok (OpUpdateOne q u es) = (is_update_document u \<and> map_of es ''multi'' = Some (BBool False))"
| "bulk_op_ok (OpReplaceOne q u es) = (\<not> is_update_document u \<and> map_of es ''multi'' = Some (BBool False))"
| "bulk_op_ok (OpRemoveOne q es) = (map_of es ''limit'' = Some (BInt32 1))"
| "bulk_op_ok (OpRemoveMany q es) = (map_of es ''limit'' = Some (BInt32 0))"

definition bulkwrite_inv :: "('b \<Rightarrow> bulk_op list) \<Rightarrow> 'b php_phongo_bulkwrite_t \<Rightarrow> bool" where
  "bulkwrite_inv view s \<longleftrightarrow> (\<exists>b. blk_bulk s = Some b \<and> blk_num_ops s = length (view b) \<and> list_all bulk_op_ok (view b))"

lemma construct_inv: "bulk_contract B view \<Longrightarrow> bulkwrite_inv view (BulkWrite___construct B options s)"
  by (auto simp: bulkwrite_inv_def BulkWrite___construct_def bulk_contract_def Let_def split: option.split)

text \<open>Options are only added at the end.\<close>

definition extends :: "opts \<Rightarrow> opts init_step \<Rightarrow> bool" where
  "extends es0 r \<longleftrightarrow> step_keeps (\<lambda>es. \<exists>xs. es = es0 @ xs) r"

lemma extends_then:
  assumes "extends es0 r" and "\<And>es ex. extends es (k es ex)"
  shows "extends es0 (init_then r k)"
  unfolding extends_def
proof (rule step_keeps_then[OF assms(1)[unfolded extends_def]])
  fix es :: opts and ex assume "\<exists>xs. es = es0 @ xs"
  then show "step_keeps (\<lambda>es. \<exists>xs. es = es0 @ xs) (k es ex)"
    using assms(2)[of es ex] by (force simp: extends_def step_keeps_def)
qed

lemma bulk_append_extends: "append_contract G \<Longrightarrow> extends es (bulk_append G k v es ex)"
  by (auto simp: bulk_append_def extends_def append_contract_def split: option.split) metis

lemma bulk_option_extends:
  assumes "\<And>z es ex. extends es (f z es ex)"
  shows "extends es (bulk_option f zoptions k es ex)"
  using assms by (auto simp: bulk_option_def extends_def split: option.split)

lemma bulk_compound_extends:
  assumes "\<And>doc ex1. extends es (k doc ex1)"
  shows "extends es (bulk_compound G key z es ex k)"
  using assms by (auto simp: bulk_compound_def extends_def split: option.split)

lemma append_document_extends:
  "append_contract G \<Longrightarrow> extends es (php_phongo_bulkwrite_opts_append_document G k z es ex)"
  by (simp add: php_phongo_bulkwrite_opts_append_document_def bulk_compound_extends bulk_append_extends)

lemma append_array_extends:
  assumes "append_contract G"
  shows "extends es (php_phongo_bulkwrite_opts_append_array G k z es ex)"
  using bulk_append_extends[OF assms] unfolding php_phongo_bulkwrite_opts_append_array_def
  by (intro bulk_compound_extends) (simp add: extends_def)

lemma hint_extends: "append_contract G \<Longrightarrow> extends es (php_phongo_bulkwrite_opt_hint G zoptions es ex)"
  unfolding php_phongo_bulkwrite_opt_hint_def
  by (intro bulk_option_extends) (simp add: bulk_append_extends append_document_extends, simp add: extends_def)

lemma then_first:
  assumes "append_contract G" and "init_then (bulk_append G k v [] ex) r = Some (ok, es, ex1)"
    and "\<And>es ex. extends es (r es ex)" and "ok"
  shows "\<exists>xs. es = (k, v) # xs"
proof -
  have "op_append G [] (k, v) = Some es0 \<Longrightarrow> es0 = [(k, v)]" for es0
    using assms(1) by (auto simp: append_contract_def)
  then have "r [(k, v)] ex = Some (ok, es, ex1)"
    using assms(2,4) by (auto simp: bulk_append_def init_then_def split: option.splits)
  then show ?thesis using assms(3)[of "[(k, v)]" ex] by (auto simp: extends_def step_keeps_def)
qed

lemma init_then_assoc: "init_then (init_then r f) g = init_then r (\<lambda>s ex. init_then (f s ex) g)"
  by (auto simp: init_then_def split: option.split)

lemma update_options_multi:
  assumes c: "append_contract G" and k: "php_phongo_bulkwrite_update_apply_options G zoptions [] ex = Some (True, es, ex1)"
  shows "map_of es ''multi'' = Some (BBool (fetch_flag zoptions ''multi''))"
proof -
  have "\<exists>xs. es = (''multi'', BBool (fetch_flag zoptions ''multi'')) # xs"
    by (rule then_first[OF c k[unfolded php_phongo_bulkwrite_update_apply_options_def init_then_assoc]])
       (simp_all add: extends_then bulk_append_extends[OF c] bulk_option_extends append_array_extends[OF c]
          append_document_extends[OF c] hint_extends[OF c])
  then show ?thesis by auto
qed

lemma delete_options_limit:
  assumes c: "append_contract G" and k: "php_phongo_bulkwrite_delete_apply_options G zoptions [] ex = Some (True, es, ex1)"
  shows "map_of es ''limit'' = Some (BInt32 (if fetch_flag zoptions ''limit'' then 1 else 0))"
proof -
  have "\<exists>xs. es = (''limit'', BInt32 (if fetch_flag zoptions ''limit'' then 1 else 0)) # xs"
    by (rule then_first[OF c k[unfolded php_phongo_bulkwrite_delete_apply_options_def init_then_assoc]])
       (simp_all add: extends_then bulk_option_extends append_document_extends[OF c] hint_extends[OF c])
  then show ?thesis by auto
qed

text \<open>Adding an operation of the right kind keeps the invariant.\<close>

lemma bulk_add_inv:
  assumes "bulkwrite_inv view s" and "blk_bulk s = Some b" and "adds view b x r" and "bulk_op_ok x"
    and "bulk_add N K r s ex = Some (ok, s1, ex1)"
  shows "bulkwrite_inv view s1"
  using assms by (cases r) (auto simp: bulk_add_def adds_def bulkwrite_inv_def split: option.splits)

lemma bulk_adds:
  assumes "bulk_contract B view"
  shows "adds view b (OpInsert d es) (mongoc_bulk_operation_insert_with_opts B b d es)"
    and "adds view b (OpUpdateMany q u es) (mongoc_bulk_operation_update_many_with_opts B b q u es)"
    and "adds view b (OpUpdateOne q u es) (mongoc_bulk_operation_update_one_with_opts B b q u es)"
    and "adds view b (OpReplaceOne q u es) (mongoc_bulk_operation_replace_one_with_opts B b q u es)"
    and "adds view b (OpRemoveOne q es) (mongoc_bulk_operation_remove_one_with_opts B b q es)"
    and "adds view b (OpRemoveMany q es) (mongoc_bulk_operation_remove_many_with_opts B b q es)"
  using assms by (simp_all add: bulk_contract_def)

lemma bind_Some_iff: "Option.bind r f = Some y \<longleftrightarrow> (\<exists>x. r = Some x \<and> f x = Some y)"
  by (cases r) auto

lemma insert_inv:
  assumes "bulk_contract B view" and "bulkwrite_inv view s" and "BulkWrite_insert G N K B z s ex = Some (v, s1, ex1)"
  shows "bulkwrite_inv view s1"
proof -
  have "bulkwrite_inv view i1"
    if "blk_bulk s = Some b" "bulk_add N K (mongoc_bulk_operation_insert_with_opts B b d []) s ex2 = Some (ok, i1, ex3)" for b d ex2 ok i1 ex3
    by (rule bulk_add_inv[OF assms(2) that(1) bulk_adds(1)[OF assms(1)] _ that(2)]) simp
  then show ?thesis using assms(2,3)
    by (fastforce simp: BulkWrite_insert_def bind_Some_iff split: option.splits if_splits)
qed

lemma update_inv:
  assumes "append_contract G" and c: "bulk_contract B view" and i: "bulkwrite_inv view s"
    and "BulkWrite_update G N K B zq zu zo s ex = Some (s1, ex1)"
  shows "bulkwrite_inv view s1"
proof (cases "s1 = s")
  case False
  then obtain bq e1 bu e2 es b where o: "php_phongo_bulkwrite_update_apply_options G zo [] [] = Some (True, es, e2)"
    and b: "blk_bulk s = Some b" and
    k: "(let q = BDoc bq DocOk; u = BDoc bu DocOk; add = (\<lambda>r. map_option snd (bulk_add N K r s e2)) in
       if php_phongo_bulkwrite_update_has_operators bu \<or> php_phongo_bulkwrite_update_is_pipeline bu
       then (if fetch_flag zo ''multi'' then add (mongoc_bulk_operation_update_many_with_opts B b q u es)
             else add (mongoc_bulk_operation_update_one_with_opts B b q u es))
       else if fetch_flag zo ''multi''
       then Some (s, invalid_argument (''Replacement document conflicts with true '' @ dquote ''multi'' @ '' option'') # e2)
       else add (mongoc_bulk_operation_replace_one_with_opts B b q u es)) = Some (s1, ex1)"
    using assms(4) by (auto simp: BulkWrite_update_def bind_Some_iff split: if_splits)
  note m = update_options_multi[OF assms(1) o]
  let ?q = "BDoc bq DocOk" and ?u = "BDoc bu DocOk"
  show ?thesis
  proof (cases "is_update_document ?u")
    case True
    then have u: "php_phongo_bulkwrite_update_has_operators bu \<or> php_phongo_bulkwrite_update_is_pipeline bu"
      by (simp add: is_update_document_def)
    show ?thesis
    proof (cases "fetch_flag zo ''multi''")
      case multi: True
      then obtain ok where "bulk_add N K (mongoc_bulk_operation_update_many_with_opts B b ?q ?u es) s e2 = Some (ok, s1, ex1)"
        using k u by (auto simp: Let_def)
      then show ?thesis using m multi True by (auto intro: bulk_add_inv[OF i b bulk_adds(2)[OF c]])
    next
      case one: False
      then obtain ok where "bulk_add N K (mongoc_bulk_operation_update_one_with_opts B b ?q ?u es) s e2 = Some (ok, s1, ex1)"
        using k u by (auto simp: Let_def)
      then show ?thesis using m one True by (auto intro: bulk_add_inv[OF i b bulk_adds(3)[OF c]])
    qed
  next
    case r: False
    then have u: "\<not> php_phongo_bulkwrite_update_has_operators bu" "\<not> php_phongo_bulkwrite_update_is_pipeline bu"
      by (simp_all add: is_update_document_def)
    have multi: "\<not> fetch_flag zo ''multi''" using k u False by (auto simp: Let_def)
    then obtain ok where "bulk_add N K (mongoc_bulk_operation_replace_one_with_opts B b ?q ?u es) s e2 = Some (ok, s1, ex1)"
      using k u by (auto simp: Let_def)
    then show ?thesis using m multi r by (auto intro: bulk_add_inv[OF i b bulk_adds(4)[OF c]])
  qed
qed (simp add: i)

lemma delete_inv:
  assumes "append_contract G" and c: "bulk_contract B view" and i: "bulkwrite_inv view s"
    and "BulkWrite_delete G N K B zq zo s ex = Some (s1, ex1)"
  shows "bulkwrite_inv view s1"
proof (cases "s1 = s")
  case False
  let ?add = "\<lambda>b bq es. if fetch_flag zo ''limit'' then mongoc_bulk_operation_remove_one_with_opts B b (BDoc bq DocOk) es
          else mongoc_bulk_operation_remove_many_with_opts B b (BDoc bq DocOk) es"
  obtain bq e1 where 1: "op_zval_to_bson G zq ex = Some (bq, e1)" "e1 = []"
    using assms(4) False by (auto simp: BulkWrite_delete_def bind_Some_iff split: if_split_asm)
  obtain ok es e2 where 2: "php_phongo_bulkwrite_delete_apply_options G zo [] [] = Some (ok, es, e2)" "ok"
    using assms(4) False 1 by (auto simp: BulkWrite_delete_def bind_Some_iff split: if_split_asm)
  obtain b ok where b: "blk_bulk s = Some b" and k: "bulk_add N K (?add b bq es) s e2 = Some (ok, s1, ex1)"
    using assms(4) False 1 2 by (auto simp: BulkWrite_delete_def bind_Some_iff)
  note l = delete_options_limit[OF assms(1), of zo "[]" es e2]
  show ?thesis
  proof (cases "fetch_flag zo ''limit''")
    case True
    then show ?thesis using l k 2 by (auto intro: bulk_add_inv[OF i b bulk_adds(5)[OF c]])
  next
    case False
    then show ?thesis using l k 2 by (auto intro: bulk_add_inv[OF i b bulk_adds(6)[OF c]])
  qed
qed (simp add: i)

text \<open>Calls on an object, each with no exception pending.\<close>

datatype bulk_call = BulkInsert zval | BulkUpdate zval zval "ht option" | BulkDelete zval "ht option"

fun bulk_run ::
    "operation_env \<Rightarrow> decode_env \<Rightarrow> mongoc_error_codes \<Rightarrow> ('w, 'b, 'cs, 'wc, 'cl) bulk_ops \<Rightarrow> bulk_call list
       \<Rightarrow> 'b php_phongo_bulkwrite_t \<Rightarrow> ('b php_phongo_bulkwrite_t \<times> exn list list) option" where
  "bulk_run G N K B [] s = Some (s, [])"
| "bulk_run G N K B (BulkInsert z # cs) s = Option.bind (BulkWrite_insert G N K B z s []) (\<lambda>(v, s1, ex).
     map_option (\<lambda>(s2, exs). (s2, ex # exs)) (bulk_run G N K B cs s1))"
| "bulk_run G N K B (BulkUpdate q u o1 # cs) s = Option.bind (BulkWrite_update G N K B q u o1 s []) (\<lambda>(s1, ex).
     map_option (\<lambda>(s2, exs). (s2, ex # exs)) (bulk_run G N K B cs s1))"
| "bulk_run G N K B (BulkDelete q o1 # cs) s = Option.bind (BulkWrite_delete G N K B q o1 s []) (\<lambda>(s1, ex).
     map_option (\<lambda>(s2, exs). (s2, ex # exs)) (bulk_run G N K B cs s1))"

lemma bulk_run_inv:
  assumes "append_contract G" and "bulk_contract B view" and "bulkwrite_inv view s" and "bulk_run G N K B cs s = Some (s1, exs)"
  shows "bulkwrite_inv view s1"
  using assms(3,4)
proof (induction cs arbitrary: s exs)
  case (Cons c cs)
  obtain s2 exs2 where r: "bulk_run G N K B cs s2 = Some (s1, exs2)" and i: "bulkwrite_inv view s2"
  proof (cases c)
    case (BulkInsert z)
    then show ?thesis using Cons.prems that insert_inv[OF assms(2) Cons.prems(1)] by (fastforce simp: bind_Some_iff)
  next
    case (BulkUpdate q u o1)
    then show ?thesis using Cons.prems that update_inv[OF assms(1,2) Cons.prems(1)] by (fastforce simp: bind_Some_iff)
  next
    case (BulkDelete q o1)
    then show ?thesis using Cons.prems that delete_inv[OF assms(1,2) Cons.prems(1)] by (fastforce simp: bind_Some_iff)
  qed
  then show ?case using Cons.IH by blast
qed simp

text \<open>A step that fails raises an exception, and so a call without one has added its operation.\<close>

definition step_raises :: "'s init_step \<Rightarrow> bool" where
  "step_raises r \<longleftrightarrow> (\<forall>s ex. r = Some (False, s, ex) \<longrightarrow> ex \<noteq> [])"

lemma step_raises_simps [simp]: "step_raises None" "step_raises (Some (ok, s, ex)) = (ok \<or> ex \<noteq> [])"
  by (auto simp: step_raises_def)

lemma step_cases: obtains "r = None" | ok s ex where "r = Some (ok, s, ex)"
  by (cases r) auto

lemma step_raises_then: "step_raises r \<Longrightarrow> (\<And>s ex. step_raises (k s ex)) \<Longrightarrow> step_raises (init_then r k)"
  by (cases r rule: step_cases) (auto simp: init_then_def)

lemma bulk_append_raises [simp]: "step_raises (bulk_append G k v es ex)"
  by (simp add: bulk_append_def split: option.split)

lemma bulk_compound_raises: "(\<And>doc ex1. step_raises (k doc ex1)) \<Longrightarrow> step_raises (bulk_compound G key z es ex k)"
  by (auto simp: bulk_compound_def split: option.split)

lemma bulk_option_raises: "(\<And>z. step_raises (f z es ex)) \<Longrightarrow> step_raises (bulk_option f zo k es ex)"
  by (auto simp: bulk_option_def split: option.split)

lemma bulk_values_raise [simp]:
  "step_raises (php_phongo_bulkwrite_opts_append_array G k z es ex)"
  "step_raises (php_phongo_bulkwrite_opts_append_document G k z es ex)"
  by (simp_all add: php_phongo_bulkwrite_opts_append_array_def php_phongo_bulkwrite_opts_append_document_def bulk_compound_raises)

lemma bulk_hint_raises [simp]: "step_raises (php_phongo_bulkwrite_opt_hint G zo es ex)"
  unfolding php_phongo_bulkwrite_opt_hint_def by (rule bulk_option_raises) simp

lemma bulk_options_raise:
  "step_raises (php_phongo_bulkwrite_update_apply_options G zo es ex)"
  "step_raises (php_phongo_bulkwrite_delete_apply_options G zo es ex)"
  by (simp_all add: php_phongo_bulkwrite_update_apply_options_def php_phongo_bulkwrite_delete_apply_options_def
      step_raises_then bulk_option_raises)

lemma bulk_add_counts:
  assumes "bulk_add N K r s ex = Some (ok, s1, ex1)"
  shows "if ok then blk_num_ops s1 = blk_num_ops s + 1 else ex1 \<noteq> []"
proof (cases r)
  case (Pair e b)
  have "phongo_throw_exception_from_bson_error_t N K err ex \<noteq> Some []" for err
    by (auto simp: phongo_throw_exception_from_bson_error_t_def phongo_throw_exception_from_bson_error_t_and_reply_def
        Let_def add_error_labels_Cons split: option.splits if_splits)
  then show ?thesis using assms Pair by (cases e) (auto simp: bulk_add_def)
qed

lemma insert_counts:
  assumes "BulkWrite_insert G N K B z s ex = Some (v, s1, [])"
  shows "blk_num_ops s1 = Suc (blk_num_ops s)"
  using assms
  by (auto simp: BulkWrite_insert_def bind_Some_iff dest!: bulk_add_counts split: option.splits if_split_asm)

lemma update_counts:
  assumes "BulkWrite_update G N K B zq zu zo s ex = Some (s1, [])"
  shows "blk_num_ops s1 = Suc (blk_num_ops s)"
  using assms bulk_options_raise(1)[unfolded step_raises_def, rule_format, of G zo "[]" "[]"]
  by (auto simp: BulkWrite_update_def bind_Some_iff Let_def dest!: bulk_add_counts split: if_split_asm)

lemma delete_counts:
  assumes "BulkWrite_delete G N K B zq zo s ex = Some (s1, [])"
  shows "blk_num_ops s1 = Suc (blk_num_ops s)"
  using assms bulk_options_raise(2)[unfolded step_raises_def, rule_format, of G zo "[]" "[]"]
  by (auto simp: BulkWrite_delete_def bind_Some_iff dest!: bulk_add_counts split: if_split_asm)

lemma bulk_run_counts:
  assumes "bulk_run G N K B calls s = Some (s1, exs)" and "list_all (\<lambda>ex. ex = []) exs"
  shows "blk_num_ops s1 = blk_num_ops s + length calls"
  using assms
proof (induction calls arbitrary: s exs)
  case (Cons c calls)
  obtain s2 exs2 where r: "bulk_run G N K B calls s2 = Some (s1, exs2)" "list_all (\<lambda>ex. ex = []) exs2"
    and "blk_num_ops s2 = Suc (blk_num_ops s)"
  proof (cases c)
    case (BulkInsert z)
    then show ?thesis using Cons.prems that insert_counts[of G N K B z s "[]"] by (auto simp: bind_Some_iff)
  next
    case (BulkUpdate q u o1)
    then show ?thesis using Cons.prems that update_counts[of G N K B q u o1 s "[]"] by (auto simp: bind_Some_iff)
  next
    case (BulkDelete q o1)
    then show ?thesis using Cons.prems that delete_counts[of G N K B q o1 s "[]"] by (auto simp: bind_Some_iff)
  qed
  then show ?case using Cons.IH[OF r] by simp
qed simp

text \<open>A bulk operation that is its hint and its list of operations.\<close>

definition ref_bulk_ops :: "(nat list, bulk_op list, nat, write_concern_view, nat) bulk_ops" where
  "ref_bulk_ops = \<lparr>
     mongoc_bulk_operation_new = (\<lambda>o1. []), mongoc_bulk_operation_set_bypass_document_validation = (\<lambda>b y. b),
     mongoc_bulk_operation_insert_with_opts = (\<lambda>b d es. (None, b @ [OpInsert d es])),
     mongoc_bulk_operation_update_many_with_opts = (\<lambda>b q u es. (None, b @ [OpUpdateMany q u es])),
     mongoc_bulk_operation_update_one_with_opts = (\<lambda>b q u es. (None, b @ [OpUpdateOne q u es])),
     mongoc_bulk_operation_replace_one_with_opts = (\<lambda>b q u es. (None, b @ [OpReplaceOne q u es])),
     mongoc_bulk_operation_remove_one_with_opts = (\<lambda>b q es. (None, b @ [OpRemoveOne q es])),
     mongoc_bulk_operation_remove_many_with_opts = (\<lambda>b q es. (None, b @ [OpRemoveMany q es])),
     mongoc_bulk_operation_set_database = (\<lambda>b d. b), mongoc_bulk_operation_set_collection = (\<lambda>b d. b),
     mongoc_bulk_operation_set_client = (\<lambda>b c. b), mongoc_bulk_operation_set_hint = (\<lambda>b h. b),
     mongoc_bulk_operation_set_client_session = (\<lambda>b c. b), mongoc_bulk_operation_set_write_concern = (\<lambda>b w. b),
     mongoc_bulk_operation_get_hint = (\<lambda>b. 0), mongoc_bulk_operation_get_write_concern = (\<lambda>b. None),
     mongoc_bulk_operation_execute = (\<lambda>b w. ((True, BDoc [] DocOk, \<lparr>err_domain = MONGOC_ERROR_COMMAND, err_code = 0, err_message = []\<rparr>), [], b, 1 # w))\<rparr>"

lemma ref_bulk_contract: "bulk_contract ref_bulk_ops (\<lambda>b. b)"
  by (simp add: bulk_contract_def ref_bulk_ops_def adds_def)

end
