(* ===== verification/Driver_Session.thy ===== *)
theory Driver_Session
  imports Driver_Objects Driver_Cursor
begin

text \<open>
  Sessions (MongoDB/Session.c): an object that holds a libmongoc client session until it is
  ended.  A client session is a handle; its state belongs to libmongoc and is part of a world
  that the calls change.
\<close>

section \<open>libmongoc's client session\<close>

datatype mongoc_transaction_state_t =
    MONGOC_TRANSACTION_NONE
  | MONGOC_TRANSACTION_STARTING
  | MONGOC_TRANSACTION_IN_PROGRESS
  | MONGOC_TRANSACTION_COMMITTED
  | MONGOC_TRANSACTION_ABORTED
  | TransactionStateOther int

record ('w, 'cs, 'txn) client_session_ops =
  mongoc_client_session_destroy :: "'cs option \<Rightarrow> 'w \<Rightarrow> 'w"
  mongoc_client_session_get_lsid :: "'cs \<Rightarrow> bdoc"
  mongoc_client_session_get_cluster_time :: "'cs \<Rightarrow> 'w \<Rightarrow> bdoc option"
  mongoc_client_session_advance_cluster_time :: "'cs \<Rightarrow> bdoc \<Rightarrow> 'w \<Rightarrow> 'w"
  mongoc_client_session_get_operation_time :: "'cs \<Rightarrow> 'w \<Rightarrow> 32 word \<times> 32 word"
  mongoc_client_session_advance_operation_time :: "'cs \<Rightarrow> 32 word \<Rightarrow> 32 word \<Rightarrow> 'w \<Rightarrow> 'w"
  mongoc_client_session_get_server_id :: "'cs \<Rightarrow> 'w \<Rightarrow> int"
  mongoc_client_session_get_transaction_state :: "'cs \<Rightarrow> 'w \<Rightarrow> mongoc_transaction_state_t"
  mongoc_client_session_in_transaction :: "'cs \<Rightarrow> 'w \<Rightarrow> bool"
  mongoc_client_session_start_transaction :: "'cs \<Rightarrow> 'txn option \<Rightarrow> 'w \<Rightarrow> bson_error_t option \<times> 'w"
  mongoc_client_session_commit_transaction :: "'cs \<Rightarrow> 'w \<Rightarrow> (bson_error_t \<times> bdoc) option \<times> exn list \<times> 'w"
  mongoc_client_session_abort_transaction :: "'cs \<Rightarrow> 'w \<Rightarrow> bson_error_t option \<times> exn list \<times> 'w"
  mongoc_session_opts_get_transaction_opts :: "'cs \<Rightarrow> 'w \<Rightarrow> 'txn option"
  mongoc_session_opts_get_causal_consistency :: "'cs \<Rightarrow> bool"
  mongoc_session_opts_get_snapshot :: "'cs \<Rightarrow> bool"

record ('rc, 'rp, 'wc, 'txn) transaction_ops =
  mongoc_transaction_opts_new :: 'txn
  mongoc_transaction_opts_set_max_commit_time_ms :: "'txn \<Rightarrow> int \<Rightarrow> 'txn"
  mongoc_transaction_opts_set_read_concern :: "'txn \<Rightarrow> 'rc option \<Rightarrow> 'txn"
  mongoc_transaction_opts_set_read_prefs :: "'txn \<Rightarrow> 'rp option \<Rightarrow> 'txn"
  mongoc_transaction_opts_set_write_concern :: "'txn \<Rightarrow> 'wc option \<Rightarrow> 'txn"
  mongoc_transaction_opts_get_max_commit_time_ms :: "'txn \<Rightarrow> int"
  mongoc_transaction_opts_get_read_concern :: "'txn \<Rightarrow> 'rc"
  mongoc_transaction_opts_get_read_prefs :: "'txn \<Rightarrow> 'rp option"
  mongoc_transaction_opts_get_write_concern :: "'txn \<Rightarrow> 'wc"

definition php_phongo_session_create_object :: "int \<Rightarrow> 'cs php_phongo_session_t" where
  "php_phongo_session_create_object pid = \<lparr>ses_client_session = None, ses_manager = ZUndef, ses_created_by_pid = pid\<rparr>"

definition phongo_session_init :: "int \<Rightarrow> zval \<Rightarrow> 'cs \<Rightarrow> 'cs php_phongo_session_t" where
  "phongo_session_init pid manager client_session =
     (php_phongo_session_create_object pid)\<lparr>ses_client_session := Some client_session, ses_manager := manager\<rparr>"

section \<open>Methods\<close>

text \<open>
  A method returns the world, the value and the exceptions; the outer None is undefined
  behaviour in the encoder or the decoder.
\<close>

type_synonym ('w, 'v) outcome = "('w \<times> 'v \<times> exn list) option"

definition session_check_liveliness ::
    "'cs php_phongo_session_t \<Rightarrow> string \<Rightarrow> 'v \<Rightarrow> 'w \<Rightarrow> exn list \<Rightarrow> ('cs \<Rightarrow> ('w, 'v) outcome) \<Rightarrow> ('w, 'v) outcome" where
  "session_check_liveliness i m null w ex k =
     (case ses_client_session i of
        None \<Rightarrow> Some (w, null, phongo_throw_exception PHONGO_ERROR_LOGIC
          (''Cannot call '' @ squote m @ '', as the session has already been ended.'') # ex)
      | Some cs \<Rightarrow> k cs)"

text \<open>
  The parts of a timestamp object are read with a method call, which may raise; a part that is
  no integer leaves the value undefined.
\<close>

type_synonym call_method = "zval \<Rightarrow> string \<Rightarrow> zval result"

fun z_lval_uint32 :: "zval \<Rightarrow> 32 word option" where
  "z_lval_uint32 (ZLong i) = Some (of_int i)"
| "z_lval_uint32 _ = None"

definition php_phongo_session_get_timestamp_parts :: "call_method \<Rightarrow> zval \<Rightarrow> (32 word \<times> 32 word) result option" where
  "php_phongo_session_get_timestamp_parts call obj =
     (case bind_r (call obj ''getTimestamp'') (\<lambda>t. bind_r (call obj ''getIncrement'') (\<lambda>i. Inr (t, i))) of
        Inl e \<Rightarrow> Some (Inl e)
      | Inr (t, i) \<Rightarrow> (case (z_lval_uint32 t, z_lval_uint32 i) of
          (Some timestamp, Some increment) \<Rightarrow> Some (Inr (timestamp, increment))
        | _ \<Rightarrow> None))"

fun php_phongo_get_transaction_state_string :: "mongoc_transaction_state_t \<Rightarrow> string result" where
  "php_phongo_get_transaction_state_string MONGOC_TRANSACTION_NONE = Inr ''none''"
| "php_phongo_get_transaction_state_string MONGOC_TRANSACTION_STARTING = Inr ''starting''"
| "php_phongo_get_transaction_state_string MONGOC_TRANSACTION_IN_PROGRESS = Inr ''in_progress''"
| "php_phongo_get_transaction_state_string MONGOC_TRANSACTION_COMMITTED = Inr ''committed''"
| "php_phongo_get_transaction_state_string MONGOC_TRANSACTION_ABORTED = Inr ''aborted''"
| "php_phongo_get_transaction_state_string (TransactionStateOther n) =
     Inl (invalid_argument (''Invalid transaction state '' @ dec_of_int n @ '' given''))"

text \<open>The fields of the array of transaction options: an integer or a new object.\<close>

datatype ('rc, 'rp, 'wc) txn_field =
    TxnLong int
  | TxnReadConcern "'rc php_phongo_readconcern_t"
  | TxnReadPreference "'rp php_phongo_readpreference_t"
  | TxnWriteConcern "'wc php_phongo_writeconcern_t"

definition php_phongo_transaction_options_to_zval ::
    "('w, 'cs, 'txn) client_session_ops \<Rightarrow> ('rc, 'rp, 'wc, 'txn) transaction_ops \<Rightarrow> 'rc read_concern_ops \<Rightarrow> 'wc write_concern_ops
       \<Rightarrow> 'cs option \<Rightarrow> 'w \<Rightarrow> (string \<times> ('rc, 'rp, 'wc) txn_field) list option" where
  "php_phongo_transaction_options_to_zval S T R W cs w =
     map_option (\<lambda>opts.
       (let ms = mongoc_transaction_opts_get_max_commit_time_ms T opts;
            read_concern = mongoc_transaction_opts_get_read_concern T opts;
            write_concern = mongoc_transaction_opts_get_write_concern T opts
        in (if ms \<noteq> 0 then [(''maxCommitTimeMS'', TxnLong ms)] else [])
         @ (if \<not> mongoc_read_concern_is_default R read_concern
            then [(''readConcern'', TxnReadConcern (phongo_readconcern_init read_concern))] else [])
         @ (case mongoc_transaction_opts_get_read_prefs T opts of
              Some rp \<Rightarrow> [(''readPreference'', TxnReadPreference (phongo_readpreference_init rp))] | None \<Rightarrow> [])
         @ (if \<not> mongoc_write_concern_is_default W write_concern
            then [(''writeConcern'', TxnWriteConcern (phongo_writeconcern_init write_concern))] else [])))
       (Option.bind cs (\<lambda>c. mongoc_session_opts_get_transaction_opts S c w))"

definition Session_advanceClusterTime ::
    "nat \<Rightarrow> encode_env \<Rightarrow> heap \<Rightarrow> ('w, 'cs, 'txn) client_session_ops \<Rightarrow> zval \<Rightarrow> 'cs php_phongo_session_t \<Rightarrow> 'w \<Rightarrow> exn list
       \<Rightarrow> ('w, zval) outcome" where
  "Session_advanceClusterTime f E H S zcluster_time intern w ex =
     session_check_liveliness intern ''advanceClusterTime'' ZNull w ex (\<lambda>cs.
       (case php_phongo_zval_to_bson f E H False False zcluster_time [] ex of
          None \<Rightarrow> None
        | Some (doc, _, ex1) \<Rightarrow>
            if ex1 \<noteq> [] then Some (w, ZNull, ex1)
            else Some (mongoc_client_session_advance_cluster_time S cs (BDoc doc DocOk) w, ZNull, ex1)))"

definition Session_advanceOperationTime ::
    "call_method \<Rightarrow> ('w, 'cs, 'txn) client_session_ops \<Rightarrow> zval \<Rightarrow> 'cs php_phongo_session_t \<Rightarrow> 'w \<Rightarrow> exn list \<Rightarrow> ('w, zval) outcome" where
  "Session_advanceOperationTime call S ztimestamp intern w ex =
     session_check_liveliness intern ''advanceOperationTime'' ZNull w ex (\<lambda>cs.
       (case php_phongo_session_get_timestamp_parts call ztimestamp of
          None \<Rightarrow> None
        | Some (Inl e) \<Rightarrow> Some (w, ZNull, e # ex)
        | Some (Inr (timestamp, increment)) \<Rightarrow>
            Some (mongoc_client_session_advance_operation_time S cs timestamp increment w, ZNull, ex)))"

definition value_or_null :: "zval option \<Rightarrow> zval" where
  "value_or_null z = (case z of Some v \<Rightarrow> v | None \<Rightarrow> ZNull)"

definition Session_getClusterTime ::
    "decode_env \<Rightarrow> ('w, 'cs, 'txn) client_session_ops \<Rightarrow> 'cs php_phongo_session_t \<Rightarrow> 'w \<Rightarrow> exn list \<Rightarrow> ('w, zval) outcome" where
  "Session_getClusterTime N S intern w ex =
     session_check_liveliness intern ''getClusterTime'' ZNull w ex (\<lambda>cs.
       (case mongoc_client_session_get_cluster_time S cs w of
          None \<Rightarrow> Some (w, ZNull, ex)
        | Some d \<Rightarrow> map_option (\<lambda>(z, ex1). (w, value_or_null z, ex1)) (decode_under N typemap_init d ex)))"

definition Session_getLogicalSessionId ::
    "decode_env \<Rightarrow> ('w, 'cs, 'txn) client_session_ops \<Rightarrow> 'cs php_phongo_session_t \<Rightarrow> 'w \<Rightarrow> exn list \<Rightarrow> ('w, zval) outcome" where
  "Session_getLogicalSessionId N S intern w ex =
     session_check_liveliness intern ''getLogicalSessionId'' ZNull w ex (\<lambda>cs.
       map_option (\<lambda>(z, ex1). (w, value_or_null z, ex1)) (decode_under N typemap_init (mongoc_client_session_get_lsid S cs) ex))"

definition Session_getOperationTime ::
    "('w, 'cs, 'txn) client_session_ops \<Rightarrow> 'cs php_phongo_session_t \<Rightarrow> 'w \<Rightarrow> exn list \<Rightarrow> ('w, zval) outcome" where
  "Session_getOperationTime S intern w ex =
     session_check_liveliness intern ''getOperationTime'' ZNull w ex (\<lambda>cs.
       (case mongoc_client_session_get_operation_time S cs w of (timestamp, increment) \<Rightarrow>
          Some (w, if timestamp = 0 \<and> increment = 0 then ZNull
                   else php_phongo_bson_new_timestamp_from_increment_and_timestamp increment timestamp, ex)))"

definition Session_getServer ::
    "('w, 'cs, 'txn) client_session_ops \<Rightarrow> 'cs php_phongo_session_t \<Rightarrow> 'w \<Rightarrow> exn list \<Rightarrow> ('w, php_phongo_server_t option) outcome" where
  "Session_getServer S intern w ex =
     session_check_liveliness intern ''getServer'' None w ex (\<lambda>cs.
       (let server_id = mongoc_client_session_get_server_id S cs w in
        Some (w, if server_id = 0 then None else Some (phongo_server_init (ses_manager intern) server_id), ex)))"

definition Session_getTransactionOptions ::
    "('w, 'cs, 'txn) client_session_ops \<Rightarrow> ('rc, 'rp, 'wc, 'txn) transaction_ops \<Rightarrow> 'rc read_concern_ops \<Rightarrow> 'wc write_concern_ops
       \<Rightarrow> 'cs php_phongo_session_t \<Rightarrow> 'w \<Rightarrow> exn list \<Rightarrow> ('w, (string \<times> ('rc, 'rp, 'wc) txn_field) list option) outcome" where
  "Session_getTransactionOptions S T R W intern w ex =
     session_check_liveliness intern ''getTransactionOptions'' None w ex (\<lambda>cs.
       Some (w, php_phongo_transaction_options_to_zval S T R W (ses_client_session intern) w, ex))"

definition Session_getTransactionState ::
    "('w, 'cs, 'txn) client_session_ops \<Rightarrow> 'cs php_phongo_session_t \<Rightarrow> 'w \<Rightarrow> exn list \<Rightarrow> ('w, zval) outcome" where
  "Session_getTransactionState S intern w ex =
     session_check_liveliness intern ''getTransactionState'' ZNull w ex (\<lambda>cs.
       (case php_phongo_get_transaction_state_string (mongoc_client_session_get_transaction_state S cs w) of
          Inl e \<Rightarrow> Some (w, ZNull, e # ex)
        | Inr state \<Rightarrow> Some (w, ZString state, ex)))"

text \<open>
  The transaction options, created when the first option is found.  \<^verbatim>\<open>L\<close> is the engine's
  conversion to an integer.
\<close>

definition txn_set ::
    "('rc, 'rp, 'wc, 'txn) transaction_ops \<Rightarrow> ('txn \<Rightarrow> 'txn) \<Rightarrow> 'txn option \<Rightarrow> 'txn option" where
  "txn_set T set_value txn = Some (set_value (case txn of Some t \<Rightarrow> t | None \<Rightarrow> mongoc_transaction_opts_new T))"

definition txn_max_commit_time ::
    "(zval \<Rightarrow> int) \<Rightarrow> ('rc, 'rp, 'wc, 'txn) transaction_ops \<Rightarrow> ht \<Rightarrow> 'txn option result" where
  "txn_max_commit_time L T options =
     (if \<not> php_array_exists options ''maxCommitTimeMS'' then Inr None
      else (let ms = php_array_fetch_long L options ''maxCommitTimeMS'' in
        if ms < 0 then Inl (invalid_argument (''Expected '' @ dquote ''maxCommitTimeMS'' @ '' option to be >= 0, '' @ dec_of_int ms @ '' given''))
        else if ms > uint32_max then Inl (invalid_argument (''Expected '' @ dquote ''maxCommitTimeMS'' @ '' option to be <= ''
          @ dec_of_int uint32_max @ '', '' @ dec_of_int ms @ '' given''))
        else Inr (txn_set T (\<lambda>t. mongoc_transaction_opts_set_max_commit_time_ms T t ms) None)))"

definition txn_option ::
    "('rc, 'rp, 'wc, 'cs, 'cl) store \<Rightarrow> ('rc, 'rp, 'wc, 'txn) transaction_ops \<Rightarrow> ht \<Rightarrow> string \<Rightarrow> string
       \<Rightarrow> (('rc, 'rp, 'wc, 'cs, 'cl) driver_obj \<Rightarrow> ('txn \<Rightarrow> 'txn) option) \<Rightarrow> 'txn option \<Rightarrow> 'txn option result" where
  "txn_option D T options key ce_name set_value txn =
     (case php_array_fetch options key of
        None \<Rightarrow> Inr txn
      | Some z \<Rightarrow> (case Option.bind (obj_at D z) set_value of
          Some g \<Rightarrow> Inr (txn_set T g txn)
        | None \<Rightarrow> Inl (option_type_exception D key ce_name z)))"

definition php_mongodb_session_parse_transaction_options ::
    "(zval \<Rightarrow> int) \<Rightarrow> ('rc, 'rp, 'wc, 'cs, 'cl) store \<Rightarrow> ('rc, 'rp, 'wc, 'txn) transaction_ops \<Rightarrow> ht \<Rightarrow> 'txn option result" where
  "php_mongodb_session_parse_transaction_options L D T options =
     bind_r (txn_max_commit_time L T options) (\<lambda>o1.
     bind_r (txn_option D T options ''readConcern'' readconcern_ce_name
       (\<lambda>d. case d of DReadConcern rc \<Rightarrow> Some (\<lambda>t. mongoc_transaction_opts_set_read_concern T t (rcn_read_concern rc)) | _ \<Rightarrow> None) o1) (\<lambda>o2.
     bind_r (txn_option D T options ''readPreference'' readpreference_ce_name
       (\<lambda>d. case d of DReadPreference rp \<Rightarrow> Some (\<lambda>t. mongoc_transaction_opts_set_read_prefs T t (rpf_read_preference rp)) | _ \<Rightarrow> None) o2) (\<lambda>o3.
     txn_option D T options ''writeConcern'' writeconcern_ce_name
       (\<lambda>d. case d of DWriteConcern wc \<Rightarrow> Some (\<lambda>t. mongoc_transaction_opts_set_write_concern T t (wcn_write_concern wc)) | _ \<Rightarrow> None) o3)))"

text \<open>An exception that was pending before the call also stops it.\<close>

definition Session_startTransaction ::
    "decode_env \<Rightarrow> mongoc_error_codes \<Rightarrow> (zval \<Rightarrow> int) \<Rightarrow> ('rc, 'rp, 'wc, 'cs, 'cl) store \<Rightarrow> ('w, 'cs, 'txn) client_session_ops
       \<Rightarrow> ('rc, 'rp, 'wc, 'txn) transaction_ops \<Rightarrow> ht option \<Rightarrow> 'cs php_phongo_session_t \<Rightarrow> 'w \<Rightarrow> exn list \<Rightarrow> ('w, zval) outcome" where
  "Session_startTransaction N K L D S T options intern w ex =
     session_check_liveliness intern ''startTransaction'' ZNull w ex (\<lambda>cs.
       (case (case options of None \<Rightarrow> Inr None | Some h \<Rightarrow> php_mongodb_session_parse_transaction_options L D T h) of
          Inl e \<Rightarrow> Some (w, ZNull, e # ex)
        | Inr txn \<Rightarrow>
            if ex \<noteq> [] then Some (w, ZNull, ex)
            else (case mongoc_client_session_start_transaction S cs txn w of
                    (None, w1) \<Rightarrow> Some (w1, ZNull, ex)
                  | (Some error, w1) \<Rightarrow> map_option (\<lambda>ex1. (w1, ZNull, ex1)) (phongo_throw_exception_from_bson_error_t N K error ex))))"

definition Session_commitTransaction ::
    "decode_env \<Rightarrow> mongoc_error_codes \<Rightarrow> ('w, 'cs, 'txn) client_session_ops \<Rightarrow> 'cs php_phongo_session_t \<Rightarrow> 'w \<Rightarrow> exn list \<Rightarrow> ('w, zval) outcome" where
  "Session_commitTransaction N K S intern w ex =
     session_check_liveliness intern ''commitTransaction'' ZNull w ex (\<lambda>cs.
       (case mongoc_client_session_commit_transaction S cs w of
          (None, thrown, w1) \<Rightarrow> Some (w1, ZNull, thrown @ ex)
        | (Some (error, reply), thrown, w1) \<Rightarrow>
            map_option (\<lambda>ex1. (w1, ZNull, ex1)) (phongo_throw_exception_from_bson_error_t_and_reply N K error (Some reply) (thrown @ ex))))"

definition Session_abortTransaction ::
    "decode_env \<Rightarrow> mongoc_error_codes \<Rightarrow> ('w, 'cs, 'txn) client_session_ops \<Rightarrow> 'cs php_phongo_session_t \<Rightarrow> 'w \<Rightarrow> exn list \<Rightarrow> ('w, zval) outcome" where
  "Session_abortTransaction N K S intern w ex =
     session_check_liveliness intern ''abortTransaction'' ZNull w ex (\<lambda>cs.
       (case mongoc_client_session_abort_transaction S cs w of
          (None, thrown, w1) \<Rightarrow> Some (w1, ZNull, thrown @ ex)
        | (Some error, thrown, w1) \<Rightarrow>
            map_option (\<lambda>ex1. (w1, ZNull, ex1)) (phongo_throw_exception_from_bson_error_t N K error (thrown @ ex))))"

definition Session_endSession ::
    "('w, 'cs, 'txn) client_session_ops \<Rightarrow> 'cs php_phongo_session_t \<Rightarrow> 'w \<Rightarrow> 'cs php_phongo_session_t \<times> 'w" where
  "Session_endSession S intern w =
     (intern\<lparr>ses_client_session := None\<rparr>, mongoc_client_session_destroy S (ses_client_session intern) w)"

definition Session_isInTransaction ::
    "('w, 'cs, 'txn) client_session_ops \<Rightarrow> 'cs php_phongo_session_t \<Rightarrow> 'w \<Rightarrow> exn list \<Rightarrow> ('w, zval) outcome" where
  "Session_isInTransaction S intern w ex =
     session_check_liveliness intern ''isInTransaction'' ZNull w ex (\<lambda>cs.
       Some (w, ZBool (mongoc_client_session_in_transaction S cs w), ex))"

text \<open>Freeing the object: in another process the client is reset first.\<close>

definition php_phongo_session_free_object ::
    "('w, 'cs, 'txn) client_session_ops \<Rightarrow> int \<Rightarrow> (zval \<Rightarrow> int \<Rightarrow> 'w \<Rightarrow> 'w) \<Rightarrow> 'cs php_phongo_session_t \<Rightarrow> 'w \<Rightarrow> 'w" where
  "php_phongo_session_free_object S pid client_reset_once intern w =
     (let w1 = (if ses_created_by_pid intern \<noteq> pid then client_reset_once (ses_manager intern) pid w else w)
      in case ses_client_session intern of
           None \<Rightarrow> w1 | Some cs \<Rightarrow> mongoc_client_session_destroy S (Some cs) w1)"

section \<open>Debug output\<close>

datatype ('rc, 'rp, 'wc) session_val =
    SesZval zval
  | SesServer php_phongo_server_t
  | SesTxn "(string \<times> ('rc, 'rp, 'wc) txn_field) list option"

text \<open>A field is added and the next ones follow, or the table ends here.\<close>

type_synonym ('rc, 'rp, 'wc) session_table = "(bool \<times> (string \<times> ('rc, 'rp, 'wc) session_val) list \<times> exn list) option"

definition ses_then ::
    "('rc, 'rp, 'wc) session_table \<Rightarrow> (exn list \<Rightarrow> ('rc, 'rp, 'wc) session_table) \<Rightarrow> ('rc, 'rp, 'wc) session_table" where
  "ses_then r k = (case r of
       None \<Rightarrow> None
     | Some (ok, h, ex) \<Rightarrow> if \<not> ok then Some (False, h, ex)
         else map_option (\<lambda>(ok1, h1, ex1). (ok1, h @ h1, ex1)) (k ex))"

definition ses_field :: "string \<Rightarrow> ('rc, 'rp, 'wc) session_val \<Rightarrow> exn list \<Rightarrow> ('rc, 'rp, 'wc) session_table" where
  "ses_field key v ex = Some (True, [(key, v)], ex)"

definition ses_document :: "decode_env \<Rightarrow> string \<Rightarrow> bdoc option \<Rightarrow> exn list \<Rightarrow> ('rc, 'rp, 'wc) session_table" where
  "ses_document N key d ex = (case d of
       None \<Rightarrow> ses_field key (SesZval ZNull) ex
     | Some doc \<Rightarrow> map_option (\<lambda>(z, ex1). case z of None \<Rightarrow> (False, [], ex1) | Some v \<Rightarrow> (True, [(key, SesZval v)], ex1))
         (decode_under N typemap_debug_init doc ex))"

definition ses_state :: "mongoc_transaction_state_t option \<Rightarrow> exn list \<Rightarrow> ('rc, 'rp, 'wc) session_table" where
  "ses_state st ex = (case st of
       None \<Rightarrow> ses_field ''transactionState'' (SesZval ZNull) ex
     | Some s \<Rightarrow> (case php_phongo_get_transaction_state_string s of
         Inl e \<Rightarrow> Some (False, [], e # ex) | Inr n \<Rightarrow> ses_field ''transactionState'' (SesZval (ZString n)) ex))"

definition php_phongo_session_get_debug_info ::
    "decode_env \<Rightarrow> ('w, 'cs, 'txn) client_session_ops \<Rightarrow> ('rc, 'rp, 'wc, 'txn) transaction_ops \<Rightarrow> 'rc read_concern_ops
       \<Rightarrow> 'wc write_concern_ops \<Rightarrow> 'cs php_phongo_session_t \<Rightarrow> 'w \<Rightarrow> exn list \<Rightarrow> ('rc, 'rp, 'wc) session_table" where
  "php_phongo_session_get_debug_info N S T R W intern w ex =
     (let cs = ses_client_session intern;
          bool_of = (\<lambda>f. SesZval (case cs of Some c \<Rightarrow> ZBool (f c) | None \<Rightarrow> ZNull));
          operation_time = (case cs of None \<Rightarrow> ZNull | Some c \<Rightarrow>
            (case mongoc_client_session_get_operation_time S c w of (timestamp, increment) \<Rightarrow>
               if timestamp \<noteq> 0 \<and> increment \<noteq> 0
               then php_phongo_bson_new_timestamp_from_increment_and_timestamp increment timestamp else ZNull));
          server = (case cs of None \<Rightarrow> SesZval ZNull | Some c \<Rightarrow>
            (let server_id = mongoc_client_session_get_server_id S c w in
             if server_id = 0 then SesZval ZNull else SesServer (phongo_server_init (ses_manager intern) server_id)))
      in ses_then (ses_then (ses_then (ses_then (ses_then (ses_then (ses_then (ses_then
           (ses_document N ''logicalSessionId'' (map_option (mongoc_client_session_get_lsid S) cs) ex)
           (ses_document N ''clusterTime'' (Option.bind cs (\<lambda>c. mongoc_client_session_get_cluster_time S c w))))
           (ses_field ''causalConsistency'' (bool_of (mongoc_session_opts_get_causal_consistency S))))
           (ses_field ''snapshot'' (bool_of (mongoc_session_opts_get_snapshot S))))
           (ses_field ''operationTime'' (SesZval operation_time)))
           (ses_field ''server'' server))
           (ses_field ''inTransaction'' (bool_of (\<lambda>c. mongoc_client_session_in_transaction S c w))))
           (ses_state (map_option (\<lambda>c. mongoc_client_session_get_transaction_state S c w) cs)))
           (ses_field ''transactionOptions'' (SesTxn (php_phongo_transaction_options_to_zval S T R W cs w))))"

section \<open>Sequences of calls\<close>

datatype session_call =
    CallAdvanceClusterTime zval
  | CallAdvanceOperationTime zval
  | CallGetClusterTime
  | CallGetLogicalSessionId
  | CallGetOperationTime
  | CallGetServer
  | CallGetTransactionOptions
  | CallGetTransactionState
  | CallStartTransaction "ht option"
  | CallCommitTransaction
  | CallAbortTransaction
  | CallEndSession
  | CallIsInTransaction

fun call_name :: "session_call \<Rightarrow> string" where
  "call_name (CallAdvanceClusterTime _) = ''advanceClusterTime''"
| "call_name (CallAdvanceOperationTime _) = ''advanceOperationTime''"
| "call_name CallGetClusterTime = ''getClusterTime''"
| "call_name CallGetLogicalSessionId = ''getLogicalSessionId''"
| "call_name CallGetOperationTime = ''getOperationTime''"
| "call_name CallGetServer = ''getServer''"
| "call_name CallGetTransactionOptions = ''getTransactionOptions''"
| "call_name CallGetTransactionState = ''getTransactionState''"
| "call_name (CallStartTransaction _) = ''startTransaction''"
| "call_name CallCommitTransaction = ''commitTransaction''"
| "call_name CallAbortTransaction = ''abortTransaction''"
| "call_name CallEndSession = ''endSession''"
| "call_name CallIsInTransaction = ''isInTransaction''"

record ('w, 'rc, 'rp, 'wc, 'cs, 'cl, 'txn) session_env =
  sv_fuel :: nat
  sv_encode :: encode_env
  sv_heap :: heap
  sv_decode :: decode_env
  sv_codes :: mongoc_error_codes
  sv_long :: "zval \<Rightarrow> int"
  sv_call :: call_method
  sv_store :: "('rc, 'rp, 'wc, 'cs, 'cl) store"
  sv_ops :: "('w, 'cs, 'txn) client_session_ops"
  sv_txn :: "('rc, 'rp, 'wc, 'txn) transaction_ops"
  sv_rc :: "'rc read_concern_ops"
  sv_wc :: "'wc write_concern_ops"

definition drop_value :: "('w, 'v) outcome \<Rightarrow> ('w \<times> exn list) option" where
  "drop_value r = map_option (\<lambda>(w, v, ex). (w, ex)) r"

text \<open>A call that does not end the session, by its effect on the world and its exceptions.\<close>

fun session_method ::
    "('w, 'rc, 'rp, 'wc, 'cs, 'cl, 'txn) session_env \<Rightarrow> session_call \<Rightarrow> 'cs php_phongo_session_t \<Rightarrow> 'w \<Rightarrow> ('w \<times> exn list) option" where
  "session_method V (CallAdvanceClusterTime z) s w =
     drop_value (Session_advanceClusterTime (sv_fuel V) (sv_encode V) (sv_heap V) (sv_ops V) z s w [])"
| "session_method V (CallAdvanceOperationTime z) s w = drop_value (Session_advanceOperationTime (sv_call V) (sv_ops V) z s w [])"
| "session_method V CallGetClusterTime s w = drop_value (Session_getClusterTime (sv_decode V) (sv_ops V) s w [])"
| "session_method V CallGetLogicalSessionId s w = drop_value (Session_getLogicalSessionId (sv_decode V) (sv_ops V) s w [])"
| "session_method V CallGetOperationTime s w = drop_value (Session_getOperationTime (sv_ops V) s w [])"
| "session_method V CallGetServer s w = drop_value (Session_getServer (sv_ops V) s w [])"
| "session_method V CallGetTransactionOptions s w =
     drop_value (Session_getTransactionOptions (sv_ops V) (sv_txn V) (sv_rc V) (sv_wc V) s w [])"
| "session_method V CallGetTransactionState s w = drop_value (Session_getTransactionState (sv_ops V) s w [])"
| "session_method V (CallStartTransaction h) s w =
     drop_value (Session_startTransaction (sv_decode V) (sv_codes V) (sv_long V) (sv_store V) (sv_ops V) (sv_txn V) h s w [])"
| "session_method V CallCommitTransaction s w = drop_value (Session_commitTransaction (sv_decode V) (sv_codes V) (sv_ops V) s w [])"
| "session_method V CallAbortTransaction s w = drop_value (Session_abortTransaction (sv_decode V) (sv_codes V) (sv_ops V) s w [])"
| "session_method V CallEndSession s w = Some (snd (Session_endSession (sv_ops V) s w), [])"
| "session_method V CallIsInTransaction s w = drop_value (Session_isInTransaction (sv_ops V) s w [])"

definition session_step ::
    "('w, 'rc, 'rp, 'wc, 'cs, 'cl, 'txn) session_env \<Rightarrow> session_call \<Rightarrow> 'cs php_phongo_session_t \<Rightarrow> 'w
       \<Rightarrow> ('cs php_phongo_session_t \<times> 'w \<times> exn list) option" where
  "session_step V c s w = map_option (\<lambda>(w1, ex).
     (if c = CallEndSession then fst (Session_endSession (sv_ops V) s w) else s, w1, ex)) (session_method V c s w)"

text \<open>The calls of a script, each with no exception pending; the exceptions of each call are listed.\<close>

fun session_run ::
    "('w, 'rc, 'rp, 'wc, 'cs, 'cl, 'txn) session_env \<Rightarrow> session_call list \<Rightarrow> 'cs php_phongo_session_t \<Rightarrow> 'w
       \<Rightarrow> ('cs php_phongo_session_t \<times> 'w \<times> exn list list) option" where
  "session_run V [] s w = Some (s, w, [])"
| "session_run V (c # cs) s w = Option.bind (session_step V c s w)
     (\<lambda>(s1, w1, ex). map_option (\<lambda>(s2, w2, exs). (s2, w2, ex # exs)) (session_run V cs s1 w1))"

text \<open>Documented: destroying no session does nothing.\<close>

definition destroys_nothing :: "('w, 'cs, 'txn) client_session_ops \<Rightarrow> bool" where
  "destroys_nothing S \<longleftrightarrow> (\<forall>w. mongoc_client_session_destroy S None w = w)"

text \<open>A call on a session that was ended.\<close>

definition ended_exceptions :: "session_call \<Rightarrow> exn list" where
  "ended_exceptions c = (if c = CallEndSession then [] else [phongo_throw_exception PHONGO_ERROR_LOGIC
     (''Cannot call '' @ squote (call_name c) @ '', as the session has already been ended.'')])"

lemmas session_methods = Session_advanceClusterTime_def Session_advanceOperationTime_def Session_getClusterTime_def
  Session_getLogicalSessionId_def Session_getOperationTime_def Session_getServer_def Session_getTransactionOptions_def
  Session_getTransactionState_def Session_startTransaction_def Session_commitTransaction_def Session_abortTransaction_def
  Session_isInTransaction_def

lemma ended_step:
  assumes "destroys_nothing (sv_ops V)" and "ses_client_session s = None"
  shows "session_step V c s w = Some (s, w, ended_exceptions c)"
  using assms by (cases c) (simp_all add: session_step_def session_methods session_check_liveliness_def drop_value_def
      ended_exceptions_def Session_endSession_def destroys_nothing_def)

lemma ended_run:
  assumes "destroys_nothing (sv_ops V)" and "ses_client_session s = None"
  shows "session_run V cs s w = Some (s, w, map ended_exceptions cs)"
  using ended_step[OF assms] by (induction cs) auto

text \<open>Before it is ended, no call takes the client session from the object.\<close>

lemma session_step_keeps:
  "session_step V c s w = Some (s1, w1, ex) \<Longrightarrow> s1 = (if c = CallEndSession then s\<lparr>ses_client_session := None\<rparr> else s)"
  by (auto simp: session_step_def Session_endSession_def split: if_splits)

lemma session_run_keeps:
  "session_run V cs s w = Some (s1, w1, exs) \<Longrightarrow>
     s1 = (if CallEndSession \<in> set cs then s\<lparr>ses_client_session := None\<rparr> else s)"
proof (induction cs arbitrary: s w exs)
  case (Cons c cs)
  then obtain s2 w2 ex exs2 where 1: "session_step V c s w = Some (s2, w2, ex)" "session_run V cs s2 w2 = Some (s1, w1, exs2)"
    by (auto split: Option.bind_splits)
  show ?case using Cons.IH[OF 1(2)] session_step_keeps[OF 1(1)] by auto
qed simp

section \<open>Transaction options\<close>

lemma txn_max_commit_time_bound:
  "txn_max_commit_time L T options = Inr (Some t) \<Longrightarrow>
     \<exists>ms. 0 \<le> ms \<and> ms \<le> uint32_max \<and> t = mongoc_transaction_opts_set_max_commit_time_ms T (mongoc_transaction_opts_new T) ms"
  by (intro exI[of _ "php_array_fetch_long L options ''maxCommitTimeMS''"])
     (auto simp: txn_max_commit_time_def txn_set_def Let_def split: if_splits)

lemma start_not_sent:
  assumes "php_mongodb_session_parse_transaction_options L D T h = Inl e" and "ses_client_session s \<noteq> None"
  shows "Session_startTransaction N K L D S T (Some h) s w ex = Some (w, ZNull, e # ex)"
  using assms by (auto simp: Session_startTransaction_def session_check_liveliness_def split: option.split)

text \<open>A world that counts the sessions destroyed, for the sessions of one client.\<close>

definition ref_session_ops :: "(nat list, nat, unit) client_session_ops" where
  "ref_session_ops = \<lparr>
     mongoc_client_session_destroy = (\<lambda>cs w. case cs of Some c \<Rightarrow> c # w | None \<Rightarrow> w),
     mongoc_client_session_get_lsid = (\<lambda>cs. BDoc [] DocOk), mongoc_client_session_get_cluster_time = (\<lambda>cs w. None),
     mongoc_client_session_advance_cluster_time = (\<lambda>cs d w. w), mongoc_client_session_get_operation_time = (\<lambda>cs w. (0, 0)),
     mongoc_client_session_advance_operation_time = (\<lambda>cs t i w. w), mongoc_client_session_get_server_id = (\<lambda>cs w. 0),
     mongoc_client_session_get_transaction_state = (\<lambda>cs w. MONGOC_TRANSACTION_NONE),
     mongoc_client_session_in_transaction = (\<lambda>cs w. False), mongoc_client_session_start_transaction = (\<lambda>cs t w. (None, w)),
     mongoc_client_session_commit_transaction = (\<lambda>cs w. (None, [], w)),
     mongoc_client_session_abort_transaction = (\<lambda>cs w. (None, [], w)),
     mongoc_session_opts_get_transaction_opts = (\<lambda>cs w. None), mongoc_session_opts_get_causal_consistency = (\<lambda>cs. True),
     mongoc_session_opts_get_snapshot = (\<lambda>cs. False)\<rparr>"

definition ref_transaction_ops :: "(string option, read_prefs_view, write_concern_view, unit) transaction_ops" where
  "ref_transaction_ops = \<lparr>mongoc_transaction_opts_new = (), mongoc_transaction_opts_set_max_commit_time_ms = (\<lambda>t ms. t),
     mongoc_transaction_opts_set_read_concern = (\<lambda>t rc. t), mongoc_transaction_opts_set_read_prefs = (\<lambda>t rp. t),
     mongoc_transaction_opts_set_write_concern = (\<lambda>t wc. t), mongoc_transaction_opts_get_max_commit_time_ms = (\<lambda>t. 0),
     mongoc_transaction_opts_get_read_concern = (\<lambda>t. None), mongoc_transaction_opts_get_read_prefs = (\<lambda>t. None),
     mongoc_transaction_opts_get_write_concern = (\<lambda>t. mongoc_write_concern_new ref_write_concern_ops)\<rparr>"

lemma ref_session_destroys: "destroys_nothing ref_session_ops"
  by (simp add: destroys_nothing_def ref_session_ops_def)

end
