(* ===== verification/Driver_Execute.thy ===== *)
theory Driver_Execute
  imports Driver_BulkWrite Driver_Session
begin

text \<open>
  Executing bulk writes, queries and commands (php\_phongo.c): options are parsed, sessions are
  attached, and libmongoc is called.  What libmongoc sends changes the world; the sessions that
  are created on the way live in the store of objects.
\<close>

unbundle bit_operations_syntax

section \<open>libmongoc's client\<close>

text \<open>A command returns whether it succeeded, the reply, the error, and the exceptions of subscribers.\<close>

type_synonym 'w command_result = "(bool \<times> bdoc \<times> bson_error_t) \<times> exn list \<times> 'w"

record ('w, 'cl, 'cs, 'rp, 'rc, 'wc, 'c, 'coll) client_ops =
  mongoc_client_get_write_concern :: "'cl \<Rightarrow> 'wc"
  mongoc_client_start_session :: "'cl \<Rightarrow> 'w \<Rightarrow> 'cs option \<times> 'w"
  mongoc_client_session_append_error :: "'cs \<Rightarrow> opts \<Rightarrow> bson_error_t"
  mongoc_client_command_with_opts :: "'cl \<Rightarrow> string \<Rightarrow> opts \<Rightarrow> 'rp option \<Rightarrow> opts \<Rightarrow> 'w \<Rightarrow> 'w command_result"
  mongoc_client_read_command_with_opts :: "'cl \<Rightarrow> string \<Rightarrow> opts \<Rightarrow> 'rp option \<Rightarrow> opts \<Rightarrow> 'w \<Rightarrow> 'w command_result"
  mongoc_client_write_command_with_opts :: "'cl \<Rightarrow> string \<Rightarrow> opts \<Rightarrow> opts \<Rightarrow> 'w \<Rightarrow> 'w command_result"
  mongoc_client_read_write_command_with_opts :: "'cl \<Rightarrow> string \<Rightarrow> opts \<Rightarrow> 'rp option \<Rightarrow> opts \<Rightarrow> 'w \<Rightarrow> 'w command_result"
  mongoc_client_get_collection :: "'cl \<Rightarrow> string \<Rightarrow> string \<Rightarrow> 'coll"
  mongoc_collection_set_read_concern :: "'coll \<Rightarrow> 'rc \<Rightarrow> 'coll"
  mongoc_collection_find_with_opts :: "'coll \<Rightarrow> opts \<Rightarrow> opts \<Rightarrow> 'rp option \<Rightarrow> 'w \<Rightarrow> 'c \<times> 'w"
  mongoc_cursor_new_from_command_reply_with_opts :: "'cl \<Rightarrow> opts \<Rightarrow> opts \<Rightarrow> 'w \<Rightarrow> 'c \<times> 'w"
  mongoc_cursor_set_max_await_time_ms :: "'c \<Rightarrow> int \<Rightarrow> 'c"
  mongoc_cursor_destroy :: "'c \<Rightarrow> 'w \<Rightarrow> 'w"

record ('w, 'rc, 'rp, 'wc, 'cs, 'cl, 'c, 'coll, 'txn) exec_env =
  xe_decode :: decode_env
  xe_codes :: mongoc_error_codes
  xe_pid :: int
  xe_reset :: "zval \<Rightarrow> int \<Rightarrow> 'w \<Rightarrow> 'w"
  xe_append :: "opts \<Rightarrow> string \<times> bval \<Rightarrow> opts option"
  xe_parse :: "('rc, 'wc, 'cs, 'cl) option_ops"
  xe_session :: "('w, 'cs, 'txn) client_session_ops"
  xe_client :: "('w, 'cl, 'cs, 'rp, 'rc, 'wc, 'c, 'coll) client_ops"
  xe_cursor :: "'c mongoc_cursor_ops"
  xe_wc :: "'wc write_concern_ops"

section \<open>Bulk writes\<close>

definition exn_class_name :: "exn_class \<Rightarrow> string" where
  "exn_class_name c = driver_ns (''Exception'' @ CHR 0x5C # (case c of
       AuthenticationException \<Rightarrow> ''AuthenticationException'' | BulkWriteException \<Rightarrow> ''BulkWriteException''
     | CommandException \<Rightarrow> ''CommandException'' | ConnectionException \<Rightarrow> ''ConnectionException''
     | ConnectionTimeoutException \<Rightarrow> ''ConnectionTimeoutException'' | EncryptionException \<Rightarrow> ''EncryptionException''
     | ExecutionTimeoutException \<Rightarrow> ''ExecutionTimeoutException'' | InvalidArgumentException \<Rightarrow> ''InvalidArgumentException''
     | LogicException \<Rightarrow> ''LogicException'' | RuntimeException \<Rightarrow> ''RuntimeException''
     | SSLConnectionException \<Rightarrow> ''SSLConnectionException'' | ServerException \<Rightarrow> ''ServerException''
     | UnexpectedValueException \<Rightarrow> ''UnexpectedValueException'' | WriteException \<Rightarrow> ''WriteException''))"

definition namespace_exception :: "string \<Rightarrow> exn" where
  "namespace_exception ns = invalid_argument (''Invalid namespace provided: '' @ c_str ns)"

definition session_unacknowledged :: exn where
  "session_unacknowledged = invalid_argument (''Cannot combine '' @ dquote ''session'' @ '' option with an unacknowledged write concern'')"

text \<open>The exceptions of a bulk write that failed; \<^verbatim>\<open>zresult\<close> is the write result.\<close>

definition bulk_write_failed ::
    "decode_env \<Rightarrow> mongoc_error_codes \<Rightarrow> bson_error_t \<Rightarrow> bdoc \<Rightarrow> zval \<Rightarrow> exn list \<Rightarrow> exn list option" where
  "bulk_write_failed N K error reply zresult ex =
     map_option (\<lambda>ex1.
       if err_domain error = MONGOC_ERROR_COMMAND \<and> err_code error = MONGOC_ERROR_COMMAND_INVALID_ARG K then ex1
       else (let e = (case ex1 of
                 previous # _ \<Rightarrow> zend_throw_exception BulkWriteException (''Bulk write failed due to previous ''
                   @ exn_class_name (ex_class previous) @ '': '' @ c_str (err_message error)) 0
               | [] \<Rightarrow> zend_throw_exception BulkWriteException (err_message error) (err_code error))
             in phongo_add_exception_prop ''writeResult'' zresult (phongo_exception_add_error_labels (Some reply) (e # ex1))))
     (if err_domain error \<noteq> MONGOC_ERROR_SERVER \<and> err_domain error \<noteq> MONGOC_ERROR_WRITE_CONCERN
      then phongo_throw_exception_from_bson_error_t_and_reply N K error (Some reply) ex else Some ex)"

text \<open>
  A bulk write returns whether it succeeded, the write result if there is one, the object, the
  world and the exceptions; \<^verbatim>\<open>wrap\<close> is the write result as a value.  Its second half: the bulk
  operation is completed and executed.
\<close>

definition bulk_write_send ::
    "('w, 'rc, 'rp, 'wc, 'cs, 'cl, 'c, 'coll, 'txn) exec_env \<Rightarrow> ('w, 'b, 'cs, 'wc, 'cl) bulk_ops \<Rightarrow> ('wc php_phongo_writeresult_t \<Rightarrow> zval)
       \<Rightarrow> zval \<Rightarrow> 'cl \<Rightarrow> int \<Rightarrow> string \<Rightarrow> string \<Rightarrow> 'cs option \<Rightarrow> bool \<Rightarrow> 'wc \<Rightarrow> 'b php_phongo_bulkwrite_t \<Rightarrow> 'b \<Rightarrow> 'w \<Rightarrow> exn list
       \<Rightarrow> (bool \<times> 'wc php_phongo_writeresult_t option \<times> 'b php_phongo_bulkwrite_t \<times> 'w \<times> exn list) option" where
  "bulk_write_send X B wrap manager client server_id database collection session has_write_concern write_concern bw b0 w ex =
     (let b1 = mongoc_bulk_operation_set_hint B (mongoc_bulk_operation_set_client B
                 (mongoc_bulk_operation_set_collection B (mongoc_bulk_operation_set_database B b0 database) collection)
                 client) server_id;
          b2 = (case session of None \<Rightarrow> b1 | Some cs \<Rightarrow> mongoc_bulk_operation_set_client_session B b1 cs);
          b3 = (if has_write_concern then mongoc_bulk_operation_set_write_concern B b2 write_concern else b2)
      in case mongoc_bulk_operation_execute B b3 w of
           ((success, reply, error), thrown, b4, w1) \<Rightarrow>
             (let writeresult = (phongo_writeresult_init reply manager (mongoc_bulk_operation_get_hint B b4))
                    \<lparr>wrs_write_concern := Some write_concern\<rparr>
              in map_option (\<lambda>ex1. (success, Some writeresult, bw\<lparr>blk_bulk := Some b4, blk_executed := True\<rparr>, w1, ex1))
                   (if success then Some (thrown @ ex)
                    else bulk_write_failed (xe_decode X) (xe_codes X) error reply (wrap writeresult) (thrown @ ex))))"

definition phongo_execute_bulk_write ::
    "('w, 'rc, 'rp, 'wc, 'cs, 'cl, 'c, 'coll, 'txn) exec_env \<Rightarrow> ('w, 'b, 'cs, 'wc, 'cl) bulk_ops \<Rightarrow> ('wc php_phongo_writeresult_t \<Rightarrow> zval)
       \<Rightarrow> ('rc, 'rp, 'wc, 'cs, 'cl) store \<Rightarrow> zval \<Rightarrow> 'cl \<Rightarrow> string \<Rightarrow> 'b php_phongo_bulkwrite_t \<Rightarrow> zval option \<Rightarrow> int \<Rightarrow> 'w \<Rightarrow> exn list
       \<Rightarrow> (bool \<times> 'wc php_phongo_writeresult_t option \<times> 'b php_phongo_bulkwrite_t \<times> 'w \<times> exn list) option" where
  "phongo_execute_bulk_write X B wrap D manager client namespace bulk_write options server_id w ex =
     (let fail = (\<lambda>bw e. Some (False, None, bw, w, e # ex)) in
      if blk_executed bulk_write
      then fail bulk_write (invalid_argument
        ''BulkWrite objects may only be executed once and this instance has already been executed'')
      else (case phongo_split_namespace namespace of
        None \<Rightarrow> fail bulk_write (namespace_exception namespace)
      | Some (database, collection) \<Rightarrow>
         (let bw = bulk_write\<lparr>blk_database := Some database, blk_collection := Some collection\<rparr> in
          case phongo_parse_session (xe_parse X) D options client None of
            None \<Rightarrow> None
          | Some (Inl e) \<Rightarrow> fail bw e
          | Some (Inr (_, zsession)) \<Rightarrow>
             (case phongo_parse_write_concern (xe_parse X) D options None of
                None \<Rightarrow> None
              | Some (Inl e) \<Rightarrow> fail bw e
              | Some (Inr (_, zwriteConcern)) \<Rightarrow>
                 Option.bind (blk_bulk bw) (\<lambda>b0.
                 Option.bind (case zwriteConcern of None \<Rightarrow> Some (mongoc_client_get_write_concern (xe_client X) client)
                     | Some z \<Rightarrow> phongo_write_concern_from_zval D (Some z)) (\<lambda>write_concern.
                   if zsession \<noteq> None \<and> \<not> mongoc_write_concern_is_acknowledged (xe_wc X) write_concern
                   then fail bw session_unacknowledged
                   else bulk_write_send X B wrap manager client server_id database collection
                          (session_from_zval D zsession) (zwriteConcern \<noteq> None) write_concern
                          (case zsession of None \<Rightarrow> bw | Some z \<Rightarrow> bw\<lparr>blk_session := z\<rparr>) b0 w ex))))))"

section \<open>Queries\<close>

text \<open>The server id is written as a 32-bit integer.\<close>

definition append_server_id :: "('w, 'rc, 'rp, 'wc, 'cs, 'cl, 'c, 'coll, 'txn) exec_env \<Rightarrow> int \<Rightarrow> opts \<Rightarrow> opts result" where
  "append_server_id X server_id es = (case xe_append X es (''serverId'', BInt32 (int32_of server_id)) of
     None \<Rightarrow> Inl (invalid_argument (''Error appending '' @ dquote ''serverId'' @ '' option'')) | Some es1 \<Rightarrow> Inr es1)"

definition phongo_execute_query ::
    "('w, 'rc, 'rp, 'wc, 'cs, 'cl, 'c, 'coll, 'txn) exec_env \<Rightarrow> ('rc, 'rp, 'wc, 'cs, 'cl) store \<Rightarrow> zval \<Rightarrow> 'cl \<Rightarrow> string
       \<Rightarrow> zval \<Rightarrow> 'rc php_phongo_query_t \<Rightarrow> zval option \<Rightarrow> int \<Rightarrow> 'w \<Rightarrow> exn list
       \<Rightarrow> ('c php_phongo_cursor_t option \<times> 'w \<times> exn list) option" where
  "phongo_execute_query X D manager client namespace zquery query options server_id w ex =
     (let fail = (\<lambda>e. Some (None, w, e # ex)) in
      case phongo_split_namespace namespace of
        None \<Rightarrow> fail (namespace_exception namespace)
      | Some (dbname, collname) \<Rightarrow>
         (let c0 = mongoc_client_get_collection (xe_client X) client dbname collname;
              collection = (case qry_read_concern query of None \<Rightarrow> c0
                 | Some rc \<Rightarrow> mongoc_collection_set_read_concern (xe_client X) c0 rc)
          in case phongo_parse_read_preference D options of
               Inl e \<Rightarrow> fail e
             | Inr zreadPreference \<Rightarrow>
                (case phongo_parse_session (xe_parse X) D options client (Some (qry_opts query)) of
                   None \<Rightarrow> None
                 | Some (Inl e) \<Rightarrow> fail e
                 | Some (Inr (opts1, zsession)) \<Rightarrow>
                    (case append_server_id X server_id (the opts1) of
                       Inl e \<Rightarrow> fail e
                     | Inr opts2 \<Rightarrow>
                        (case mongoc_collection_find_with_opts (xe_client X) collection (qry_filter query) opts2
                                (phongo_read_preference_from_zval D zreadPreference) w of
                           (cur, w1) \<Rightarrow>
                             (let cur1 = (if qry_max_await_time_ms query \<noteq> 0
                                    then mongoc_cursor_set_max_await_time_ms (xe_client X) cur (qry_max_await_time_ms query) else cur)
                              in map_option (\<lambda>(ok, cur2, ex1).
                                   if ok then (Some (phongo_cursor_init_for_query (xe_cursor X) manager cur2 namespace zquery
                                                 zreadPreference zsession), w1, ex1)
                                   else (None, mongoc_cursor_destroy (xe_client X) cur2 w1, ex1))
                                 (phongo_cursor_advance_and_check_for_error (xe_decode X) (xe_codes X) (xe_cursor X) cur1 ex)))))))"

section \<open>Commands\<close>

definition PHONGO_OPTION_READ_CONCERN :: nat where "PHONGO_OPTION_READ_CONCERN = 1"
definition PHONGO_OPTION_READ_PREFERENCE :: nat where "PHONGO_OPTION_READ_PREFERENCE = 2"
definition PHONGO_OPTION_WRITE_CONCERN :: nat where "PHONGO_OPTION_WRITE_CONCERN = 4"
definition PHONGO_COMMAND_RAW :: nat where "PHONGO_COMMAND_RAW = 7"
definition PHONGO_COMMAND_READ :: nat where "PHONGO_COMMAND_READ = 3"
definition PHONGO_COMMAND_WRITE :: nat where "PHONGO_COMMAND_WRITE = 4"
definition PHONGO_COMMAND_READ_WRITE :: nat where "PHONGO_COMMAND_READ_WRITE = 5"

definition has_option :: "nat \<Rightarrow> nat \<Rightarrow> bool" where
  "has_option type opt \<longleftrightarrow> type AND opt \<noteq> 0"

definition create_wrapped_command_envelope :: "string \<Rightarrow> bdoc \<Rightarrow> opts" where
  "create_wrapped_command_envelope db reply =
     [(''cursor'', BDocument (BDoc
        [(''id'', BInt64 0), (''ns'', BUtf8 (c_str db @ ''.'' @ CHR 0x24 # ''cmd'')),
         (''firstBatch'', BArray (BDoc [(''0'', BDocument reply)] DocOk))] DocOk))]"

text \<open>A session that is created for one command, at a new address.\<close>

definition phongo_create_implicit_session ::
    "('w, 'rc, 'rp, 'wc, 'cs, 'cl, 'c, 'coll, 'txn) exec_env \<Rightarrow> ('rc, 'rp, 'wc, 'cs, 'cl) store \<Rightarrow> zval \<Rightarrow> 'cl \<Rightarrow> 'w
       \<Rightarrow> (zval \<times> 'cs) option \<times> ('rc, 'rp, 'wc, 'cs, 'cl) store \<times> 'w" where
  "phongo_create_implicit_session X D manager client w =
     (case mongoc_client_start_session (xe_client X) client w of
        (None, w1) \<Rightarrow> (None, D, w1)
      | (Some cs, w1) \<Rightarrow> (Some (ZAddr (length D), cs), D @ [DSession (phongo_session_init (xe_pid X) manager cs)], w1))"

text \<open>The parsed options of a command.\<close>

record command_options =
  co_opts :: opts
  co_read_preference :: "zval option"
  co_session :: "zval option"
  co_unacknowledged :: bool

definition command_write_concern ::
    "('w, 'rc, 'rp, 'wc, 'cs, 'cl, 'c, 'coll, 'txn) exec_env \<Rightarrow> ('rc, 'rp, 'wc, 'cs, 'cl) store \<Rightarrow> 'cl \<Rightarrow> nat \<Rightarrow> zval option \<Rightarrow> opts
       \<Rightarrow> (opts \<times> bool) result option" where
  "command_write_concern X D client type options es =
     (if \<not> has_option type PHONGO_OPTION_WRITE_CONCERN then Some (Inr (es, False))
      else (case phongo_parse_write_concern (xe_parse X) D options (Some es) of
        None \<Rightarrow> None
      | Some (Inl e) \<Rightarrow> Some (Inl e)
      | Some (Inr (es1, Some z)) \<Rightarrow>
          map_option (\<lambda>wc. Inr (the es1, \<not> mongoc_write_concern_is_acknowledged (xe_wc X) wc)) (phongo_write_concern_from_zval D (Some z))
      | Some (Inr (es1, None)) \<Rightarrow> Some (Inr (the es1, type \<noteq> PHONGO_COMMAND_RAW
          \<and> \<not> mongoc_write_concern_is_acknowledged (xe_wc X) (mongoc_client_get_write_concern (xe_client X) client)))))"

definition parse_command_options ::
    "('w, 'rc, 'rp, 'wc, 'cs, 'cl, 'c, 'coll, 'txn) exec_env \<Rightarrow> ('rc, 'rp, 'wc, 'cs, 'cl) store \<Rightarrow> 'cl \<Rightarrow> nat \<Rightarrow> zval option
       \<Rightarrow> command_options result option" where
  "parse_command_options X D client type options =
     (case (if has_option type PHONGO_OPTION_READ_CONCERN then phongo_parse_read_concern (xe_parse X) D options (Some [])
            else Some (Inr (Some [], None))) of
        None \<Rightarrow> None
      | Some (Inl e) \<Rightarrow> Some (Inl e)
      | Some (Inr (es1, _)) \<Rightarrow>
         (case (if has_option type PHONGO_OPTION_READ_PREFERENCE then phongo_parse_read_preference D options else Inr None) of
            Inl e \<Rightarrow> Some (Inl e)
          | Inr zreadPreference \<Rightarrow>
             (case phongo_parse_session (xe_parse X) D options client es1 of
                None \<Rightarrow> None
              | Some (Inl e) \<Rightarrow> Some (Inl e)
              | Some (Inr (es2, zsession)) \<Rightarrow>
                 map_option (\<lambda>r. bind_r r (\<lambda>(es3, unacknowledged).
                     if zsession \<noteq> None \<and> unacknowledged then Inl session_unacknowledged
                     else Inr \<lparr>co_opts = es3, co_read_preference = zreadPreference, co_session = zsession,
                               co_unacknowledged = unacknowledged\<rparr>))
                   (command_write_concern X D client type options (the es2)))))"

definition send_command ::
    "('w, 'rc, 'rp, 'wc, 'cs, 'cl, 'c, 'coll, 'txn) exec_env \<Rightarrow> 'cl \<Rightarrow> nat \<Rightarrow> string \<Rightarrow> opts \<Rightarrow> 'rp option \<Rightarrow> opts \<Rightarrow> 'w \<Rightarrow> 'w command_result option" where
  "send_command X client type db bson rp es w =
     (if type = PHONGO_COMMAND_RAW then Some (mongoc_client_command_with_opts (xe_client X) client db bson rp es w)
      else if type = PHONGO_COMMAND_READ then Some (mongoc_client_read_command_with_opts (xe_client X) client db bson rp es w)
      else if type = PHONGO_COMMAND_WRITE then Some (mongoc_client_write_command_with_opts (xe_client X) client db bson es w)
      else if type = PHONGO_COMMAND_READ_WRITE then Some (mongoc_client_read_write_command_with_opts (xe_client X) client db bson None es w)
      else None)"

text \<open>Appending whose result is not checked.\<close>

definition append_or_keep :: "('w, 'rc, 'rp, 'wc, 'cs, 'cl, 'c, 'coll, 'txn) exec_env \<Rightarrow> string \<times> bval \<Rightarrow> opts \<Rightarrow> opts" where
  "append_or_keep X e es = (case xe_append X es e of Some es1 \<Rightarrow> es1 | None \<Rightarrow> es)"

definition command_cursor_opts :: "('w, 'rc, 'rp, 'wc, 'cs, 'cl, 'c, 'coll, 'txn) exec_env \<Rightarrow> php_phongo_command_t \<Rightarrow> int \<Rightarrow> opts" where
  "command_cursor_opts X command server_id =
     (let o1 = append_or_keep X (''serverId'', BInt32 (int32_of server_id)) [];
          o2 = (if cmd_max_await_time_ms command \<noteq> 0
                then append_or_keep X (''tailable'', BBool True) (append_or_keep X (''maxAwaitTimeMS'', BInt64 (cmd_max_await_time_ms command))
                       (append_or_keep X (''awaitData'', BBool True) o1))
                else o1)
      in if cmd_batch_size command \<noteq> 0 then append_or_keep X (''batchSize'', BInt64 (cmd_batch_size command)) o2 else o2)"

text \<open>The libmongoc cursor of a reply: over its "cursor" document, or over the reply wrapped in one.\<close>

definition reply_cursor ::
    "('w, 'rc, 'rp, 'wc, 'cs, 'cl, 'c, 'coll, 'txn) exec_env \<Rightarrow> 'cl \<Rightarrow> string \<Rightarrow> php_phongo_command_t \<Rightarrow> int \<Rightarrow> 'cs option \<Rightarrow> bdoc \<Rightarrow> 'w
       \<Rightarrow> bson_error_t + ('c \<times> 'w)" where
  "reply_cursor X client db command server_id cs reply w =
     (case bson_find reply ''cursor'' of
        Some (BDocument _) \<Rightarrow>
          (let es = command_cursor_opts X command server_id in
           case cs of
             None \<Rightarrow> Inr (mongoc_cursor_new_from_command_reply_with_opts (xe_client X) client (doc_elems reply) es w)
           | Some c \<Rightarrow> (case mongoc_client_session_append (xe_parse X) c es of
               None \<Rightarrow> Inl (mongoc_client_session_append_error (xe_client X) c es)
             | Some es1 \<Rightarrow> Inr (mongoc_cursor_new_from_command_reply_with_opts (xe_client X) client (doc_elems reply) es1 w)))
      | _ \<Rightarrow> Inr (mongoc_cursor_new_from_command_reply_with_opts (xe_client X) client (create_wrapped_command_envelope db reply)
               (append_or_keep X (''serverId'', BInt32 (int32_of server_id)) []) w))"

text \<open>
  From the session on: the command is sent, and a cursor made of the reply.  The result is the
  value of the function, the cursor, the world and the exceptions.
\<close>

definition command_body ::
    "('w, 'rc, 'rp, 'wc, 'cs, 'cl, 'c, 'coll, 'txn) exec_env \<Rightarrow> ('rc, 'rp, 'wc, 'cs, 'cl) store \<Rightarrow> zval \<Rightarrow> 'cl \<Rightarrow> nat \<Rightarrow> string
       \<Rightarrow> zval \<Rightarrow> php_phongo_command_t \<Rightarrow> int \<Rightarrow> zval option \<Rightarrow> zval option \<Rightarrow> 'cs option \<Rightarrow> opts \<Rightarrow> 'w \<Rightarrow> exn list
       \<Rightarrow> (bool \<times> 'c php_phongo_cursor_t option \<times> 'w \<times> exn list) option" where
  "command_body X D manager client type db zcommand command server_id zreadPreference zsession cs es w ex =
     (case append_server_id X server_id es of
        Inl e \<Rightarrow> Some (False, None, w, e # ex)
      | Inr es1 \<Rightarrow>
         (case send_command X client type db (cmd_bson command) (phongo_read_preference_from_zval D zreadPreference) es1 w of
            None \<Rightarrow> Some (False, None, w, phongo_throw_exception PHONGO_ERROR_LOGIC (''Type '' @ squote (dec_of_nat type)
                @ '' should never have been passed to phongo_execute_command, please file a bug report'') # ex)
          | Some ((result, reply, error), thrown, w1) \<Rightarrow>
              if \<not> result then map_option (\<lambda>ex1. (False, None, w1, ex1))
                (phongo_throw_exception_from_bson_error_t_and_reply (xe_decode X) (xe_codes X) error (Some reply) (thrown @ ex))
              else (case reply_cursor X client db command server_id cs reply w1 of
                      Inl e \<Rightarrow> map_option (\<lambda>ex1. (False, None, w1, ex1))
                        (phongo_throw_exception_from_bson_error_t (xe_decode X) (xe_codes X) e (thrown @ ex))
                    | Inr (c, w2) \<Rightarrow> Some (True, Some (phongo_cursor_init_for_command (xe_cursor X) manager c db zcommand
                        zreadPreference zsession), w2, thrown @ ex))))"

text \<open>Without a cursor that holds it, the implicit session is freed at the end.\<close>

definition free_implicit_session ::
    "('w, 'rc, 'rp, 'wc, 'cs, 'cl, 'c, 'coll, 'txn) exec_env \<Rightarrow> nat \<Rightarrow> 'cs php_phongo_session_t
       \<Rightarrow> bool \<times> 'c php_phongo_cursor_t option \<times> 'w \<times> exn list \<Rightarrow> ('rc, 'rp, 'wc, 'cs, 'cl) store
       \<Rightarrow> bool \<times> 'c php_phongo_cursor_t option \<times> ('rc, 'rp, 'wc, 'cs, 'cl) store \<times> 'w \<times> exn list" where
  "free_implicit_session X a s r D = (case r of
       (result, Some cur, w, ex) \<Rightarrow> (result, Some cur, D, w, ex)
     | (result, None, w, ex) \<Rightarrow> (result, None, D[a := DFreed], php_phongo_session_free_object (xe_session X) (xe_pid X) (xe_reset X) s w, ex))"

definition phongo_execute_command ::
    "('w, 'rc, 'rp, 'wc, 'cs, 'cl, 'c, 'coll, 'txn) exec_env \<Rightarrow> ('rc, 'rp, 'wc, 'cs, 'cl) store \<Rightarrow> zval \<Rightarrow> 'cl \<Rightarrow> nat \<Rightarrow> string
       \<Rightarrow> zval \<Rightarrow> php_phongo_command_t \<Rightarrow> zval option \<Rightarrow> int \<Rightarrow> 'w \<Rightarrow> exn list
       \<Rightarrow> (bool \<times> 'c php_phongo_cursor_t option \<times> ('rc, 'rp, 'wc, 'cs, 'cl) store \<times> 'w \<times> exn list) option" where
  "phongo_execute_command X D manager client type db zcommand command options server_id w ex =
     (case parse_command_options X D client type options of
        None \<Rightarrow> None
      | Some (Inl e) \<Rightarrow> Some (False, None, D, w, e # ex)
      | Some (Inr co) \<Rightarrow>
          (let body = command_body X D manager client type db zcommand command server_id (co_read_preference co);
               keep = map_option (\<lambda>(result, cur, w2, ex1). (result, cur, D, w2, ex1))
           in if co_session co \<noteq> None then keep (body (co_session co) (session_from_zval D (co_session co)) (co_opts co) w ex)
              else if co_unacknowledged co then keep (body None None (co_opts co) w ex)
              else (case phongo_create_implicit_session X D manager client w of
                      (None, D1, w1) \<Rightarrow> keep (body None None (co_opts co) w1 ex)
                    | (Some (zsession, cs), D1, w1) \<Rightarrow>
                        map_option (\<lambda>r. free_implicit_session X (length D) (phongo_session_init (xe_pid X) manager cs) r D1)
                          (case mongoc_client_session_append (xe_parse X) cs (co_opts co) of
                             None \<Rightarrow> Some (False, None, w1, invalid_argument (''Error appending implicit '' @ dquote ''sessionId'' @ '' option'') # ex)
                           | Some es \<Rightarrow> body (Some zsession) (Some cs) es w1 ex))))"

section \<open>Bulk writes: once, and how they fail\<close>

lemma bulk_write_executed:
  "blk_executed bw \<Longrightarrow> phongo_execute_bulk_write X B wrap D manager client ns bw options server_id w ex
     = Some (False, None, bw, w, invalid_argument
         ''BulkWrite objects may only be executed once and this instance has already been executed'' # ex)"
  by (simp add: phongo_execute_bulk_write_def Let_def)

text \<open>Either libmongoc was called, and the object is spent, or nothing happened but an exception.\<close>

lemma bulk_write_send_outcome:
  assumes "bulk_write_send X B wrap manager client server_id db coll cs h wc bw b0 w ex = Some (ok, wr, bw1, w1, ex1)"
  shows "wr \<noteq> None \<and> blk_executed bw1 \<and> blk_num_ops bw1 = blk_num_ops bw \<and> (ok \<longrightarrow> length ex \<le> length ex1)"
  using assms by (auto simp: bulk_write_send_def Let_def split: prod.splits if_split_asm)

lemma parse_errors_are_arguments:
  "phongo_parse_session P D options client mo = Some (Inl e) \<Longrightarrow> ex_class e = InvalidArgumentException"
  "phongo_parse_write_concern P D options mo = Some (Inl e) \<Longrightarrow> ex_class e = InvalidArgumentException"
  by (auto simp: phongo_parse_session_def phongo_parse_write_concern_def fetch_option_def append_to_def option_type_exception_def
        split: sum.splits option.splits zval.splits driver_obj.splits if_splits)

lemma bulk_write_outcome:
  assumes "phongo_execute_bulk_write X B wrap D manager client ns bw options server_id w ex = Some (ok, wr, bw1, w1, ex1)"
  shows "(wr = None \<and> \<not> ok \<and> w1 = w \<and> blk_bulk bw1 = blk_bulk bw \<and> blk_executed bw1 = blk_executed bw
      \<and> blk_num_ops bw1 = blk_num_ops bw \<and> (\<exists>e. ex1 = e # ex \<and> ex_class e = InvalidArgumentException))
    \<or> (wr \<noteq> None \<and> \<not> blk_executed bw \<and> blk_executed bw1 \<and> blk_num_ops bw1 = blk_num_ops bw)"
  using assms
  by (auto simp: phongo_execute_bulk_write_def Let_def bind_Some_iff namespace_exception_def session_unacknowledged_def
        parse_errors_are_arguments dest!: bulk_write_send_outcome split: if_split_asm option.splits sum.splits prod.splits)

text \<open>
  A failure that reached a server, or could not, is reported as a bulk write exception that has
  the write result; the exception for an error that is not the server's is below it.
\<close>

lemma labelled_head: "\<exists>e'. phongo_exception_add_error_labels reply (e # es) = e' # es \<and> ex_class e' = ex_class e"
  using add_error_labels_Cons[of reply e es] add_error_labels_head[of reply e es] by metis

lemma throw_cons:
  assumes "phongo_throw_exception_from_bson_error_t_and_reply N K error reply ex = Some ex1"
    and "\<not> reports_result_document error"
  shows "\<exists>e. ex1 = e # ex \<and> ex_class e = phongo_exception_from_mongoc_domain K (err_domain error) (err_code error)"
proof -
  let ?e = "zend_throw_exception (phongo_exception_from_mongoc_domain K (err_domain error) (err_code error))
                   (err_message error) (err_code error)"
  have "ex1 = phongo_exception_add_error_labels reply (?e # ex)"
    using assms by (auto simp: phongo_throw_exception_from_bson_error_t_and_reply_def split: option.splits)
  then show ?thesis using labelled_head[of reply ?e ex] by (auto simp: zend_throw_exception_def)
qed

lemma bulk_failure:
  assumes "bulk_write_failed N K error reply z ex = Some ex1"
    and "\<not> (err_domain error = MONGOC_ERROR_COMMAND \<and> err_code error = MONGOC_ERROR_COMMAND_INVALID_ARG K)"
  shows "\<exists>e rest. ex1 = e # rest \<and> ex_class e = BulkWriteException \<and> exn_property e ''writeResult'' = z
    \<and> (if err_domain error = MONGOC_ERROR_SERVER \<or> err_domain error = MONGOC_ERROR_WRITE_CONCERN then rest = ex
       else \<exists>p. rest = p # ex \<and> ex_class p = phongo_exception_from_mongoc_domain K (err_domain error) (err_code error))"
proof -
  obtain mid where m: "(if err_domain error \<noteq> MONGOC_ERROR_SERVER \<and> err_domain error \<noteq> MONGOC_ERROR_WRITE_CONCERN
      then phongo_throw_exception_from_bson_error_t_and_reply N K error (Some reply) ex else Some ex) = Some mid"
    and e: "ex1 = phongo_add_exception_prop ''writeResult'' z (phongo_exception_add_error_labels (Some reply)
      ((case mid of previous # _ \<Rightarrow> zend_throw_exception BulkWriteException (''Bulk write failed due to previous ''
                   @ exn_class_name (ex_class previous) @ '': '' @ c_str (err_message error)) 0
               | [] \<Rightarrow> zend_throw_exception BulkWriteException (err_message error) (err_code error)) # mid))"
    using assms by (auto simp: bulk_write_failed_def Let_def)
  let ?e = "case mid of previous # _ \<Rightarrow> zend_throw_exception BulkWriteException (''Bulk write failed due to previous ''
                   @ exn_class_name (ex_class previous) @ '': '' @ c_str (err_message error)) 0
               | [] \<Rightarrow> zend_throw_exception BulkWriteException (err_message error) (err_code error)"
  have c: "ex_class ?e = BulkWriteException" by (simp add: zend_throw_exception_def split: list.split)
  obtain e2 where l: "phongo_exception_add_error_labels (Some reply) (?e # mid) = e2 # mid" "ex_class e2 = BulkWriteException"
    using labelled_head[of "Some reply" ?e mid] c by metis
  have "\<exists>e. ex1 = e # mid \<and> ex_class e = BulkWriteException \<and> exn_property e ''writeResult'' = z"
    using e l by (simp add: exn_property_def)
  moreover have "if err_domain error = MONGOC_ERROR_SERVER \<or> err_domain error = MONGOC_ERROR_WRITE_CONCERN then mid = ex
       else \<exists>p. mid = p # ex \<and> ex_class p = phongo_exception_from_mongoc_domain K (err_domain error) (err_code error)"
    using m throw_cons[of N K error "Some reply" ex mid] by (auto simp: reports_result_document_def split: if_splits)
  ultimately show ?thesis by blast
qed

section \<open>Queries\<close>

text \<open>The server answers any query with these documents.\<close>

definition answers :: "('w, 'rc, 'rp, 'wc, 'cs, 'cl, 'c, 'coll, 'txn) exec_env \<Rightarrow> bdoc list \<Rightarrow> bool" where
  "answers X ds \<longleftrightarrow> (\<forall>coll flt es rp w. delivers (xe_cursor X) (fst (mongoc_collection_find_with_opts (xe_client X) coll flt es rp w)) ds)
     \<and> (\<forall>c ms. delivers (xe_cursor X) c ds \<longrightarrow> delivers (xe_cursor X) (mongoc_cursor_set_max_await_time_ms (xe_client X) c ms) ds)"

lemma advance_delivers:
  assumes "delivers M c ds"
  shows "\<exists>c1. phongo_cursor_advance_and_check_for_error N K M c [] = Some (True, c1, [])
    \<and> (case ds of [] \<Rightarrow> mongoc_cursor_current M c1 = None | d # ds1 \<Rightarrow> mongoc_cursor_current M c1 = Some d \<and> delivers M c1 ds1)"
  using assms by (cases ds) (auto simp: phongo_cursor_advance_and_check_for_error_def)

lemma query_cursor:
  assumes "answers X ds"
    and "phongo_execute_query X D manager client ns zq q options server_id w [] = Some (Some cur, w1, ex1)"
  shows "ex1 = [] \<and> cursor_ahead (xe_cursor X) cur ds \<and> cur_current cur = 0 \<and> cur_visitor_data cur = bson_state_init
    \<and> phongo_split_namespace ns = Some (the (cur_database cur), the (cur_collection cur))"
proof -
  obtain db coll es rp zs c0 w0 c1 c2 where 1: "phongo_split_namespace ns = Some (db, coll)"
    and f: "mongoc_collection_find_with_opts (xe_client X) c0 (qry_filter q) es (phongo_read_preference_from_zval D rp) w = (c1, w0)"
    and a: "phongo_cursor_advance_and_check_for_error (xe_decode X) (xe_codes X) (xe_cursor X)
       (if qry_max_await_time_ms q \<noteq> 0 then mongoc_cursor_set_max_await_time_ms (xe_client X) c1 (qry_max_await_time_ms q) else c1) []
       = Some (True, c2, ex1)"
    and c: "cur = phongo_cursor_init_for_query (xe_cursor X) manager c2 ns zq rp zs"
    using assms(2) by (auto simp: phongo_execute_query_def Let_def split: option.splits sum.splits prod.splits if_split_asm)
  have d: "delivers (xe_cursor X) c1 ds"
    using assms(1)[unfolded answers_def, THEN conjunct1, rule_format, of c0 "qry_filter q" es "phongo_read_preference_from_zval D rp" w] f
    by simp
  have "delivers (xe_cursor X) (if qry_max_await_time_ms q \<noteq> 0
      then mongoc_cursor_set_max_await_time_ms (xe_client X) c1 (qry_max_await_time_ms q) else c1) ds"
    using d assms(1)[unfolded answers_def, THEN conjunct2, rule_format] by simp
  from advance_delivers[OF this, of "xe_decode X" "xe_codes X"] a
  have "ex1 = []" "case ds of [] \<Rightarrow> mongoc_cursor_current (xe_cursor X) c2 = None
      | d # ds1 \<Rightarrow> mongoc_cursor_current (xe_cursor X) c2 = Some d \<and> delivers (xe_cursor X) c2 ds1" by auto
  then show ?thesis using c 1
    by (cases ds) (simp_all add: phongo_cursor_init_for_query_def phongo_cursor_init_def cursor_ahead_def Let_def)
qed

text \<open>Without execute options a query returns a cursor on the documents.\<close>

lemma query_returns:
  assumes "answers X ds" and "list_all (decodable (xe_decode X) bson_state_init) ds"
    and "phongo_split_namespace ns = Some (db, coll)" and "\<forall>es e. xe_append X es e \<noteq> None"
  shows "\<exists>cur w1. phongo_execute_query X D manager client ns zq q None server_id w [] = Some (Some cur, w1, [])
    \<and> cursor_fresh (xe_decode X) (xe_cursor X) cur (map (decoded (xe_decode X) bson_state_init) ds)
    \<and> cur_database cur = Some db \<and> cur_collection cur = Some coll \<and> cur_advanced cur"
proof -
  let ?c0 = "mongoc_client_get_collection (xe_client X) client db coll"
  let ?c = "case qry_read_concern q of None \<Rightarrow> ?c0 | Some rc \<Rightarrow> mongoc_collection_set_read_concern (xe_client X) ?c0 rc"
  obtain es where es: "append_server_id X server_id (qry_opts q) = Inr es"
    using assms(4)[rule_format, of "qry_opts q" "(''serverId'', BInt32 (int32_of server_id))"] that
    by (auto simp: append_server_id_def split: option.splits)
  obtain c1 w1 where f: "mongoc_collection_find_with_opts (xe_client X) ?c (qry_filter q) es None w = (c1, w1)" by fastforce
  let ?c2 = "if qry_max_await_time_ms q \<noteq> 0 then mongoc_cursor_set_max_await_time_ms (xe_client X) c1 (qry_max_await_time_ms q) else c1"
  have "delivers (xe_cursor X) c1 ds"
    using assms(1)[unfolded answers_def, THEN conjunct1, rule_format, of ?c "qry_filter q" es None w] f by simp
  then have "delivers (xe_cursor X) ?c2 ds" using assms(1)[unfolded answers_def, THEN conjunct2, rule_format] by simp
  from advance_delivers[OF this, of "xe_decode X" "xe_codes X"] obtain c3
    where a: "phongo_cursor_advance_and_check_for_error (xe_decode X) (xe_codes X) (xe_cursor X) ?c2 [] = Some (True, c3, [])"
    by blast
  let ?cur = "phongo_cursor_init_for_query (xe_cursor X) manager c3 ns zq None None"
  have q: "phongo_execute_query X D manager client ns zq q None server_id w [] = Some (Some ?cur, w1, [])"
    using assms(3) es f a by (simp add: phongo_execute_query_def fetch_option_def phongo_parse_read_preference_def
      phongo_parse_session_def phongo_read_preference_from_zval_def Let_def)
  note c = query_cursor[OF assms(1) q]
  have "cursor_ready (xe_decode X) ?cur ds"
    using c assms(2) cursor_init_for_query_inv[of "de_classes (xe_decode X)"] by (simp add: cursor_ready_def bson_state_init_def)
  then have "cursor_fresh (xe_decode X) (xe_cursor X) ?cur (map (decoded (xe_decode X) bson_state_init) ds)"
    using c by (auto simp: cursor_fresh_def)
  moreover have "cur_database ?cur = Some db \<and> cur_collection ?cur = Some coll \<and> cur_advanced ?cur"
    using assms(3) by (simp add: phongo_cursor_init_for_query_def phongo_cursor_init_def Let_def)
  ultimately show ?thesis using q by blast
qed

section \<open>Commands: sessions\<close>

lemma parsed_command:
  assumes "parse_command_options X D client type options = Some (Inr co)"
  shows "co_session co = None \<or> (\<not> co_unacknowledged co
    \<and> (\<exists>cs. session_from_zval D (co_session co) = Some cs \<and> mongoc_client_session_get_client (xe_parse X) cs = client))"
proof -
  obtain es1 zr es2 zs es3 u where s: "phongo_parse_session (xe_parse X) D options client es1 = Some (Inr (es2, zs))"
    and co: "\<not> (zs \<noteq> None \<and> u)" "co = \<lparr>co_opts = es3, co_read_preference = zr, co_session = zs, co_unacknowledged = u\<rparr>"
    using assms by (auto simp: parse_command_options_def bind_r_Inr_iff split: option.splits sum.splits prod.splits if_split_asm)
  show ?thesis using parsed_session[OF s] co by auto
qed

text \<open>A cursor that a command returns holds the session of the command.\<close>

lemma command_body_cursor:
  assumes "command_body X D manager client type db zc command server_id zr zs cs es w ex = Some (result, cur, w1, ex1)"
  shows "result = (cur \<noteq> None) \<and> (\<forall>c. cur = Some c \<longrightarrow> cursor_inv E c
    \<and> cur_session c = (case zs of Some z \<Rightarrow> z | None \<Rightarrow> ZUndef))"
proof -
  have s: "cur_session (phongo_cursor_init_for_command M m c d cmd rp z) = (case z of Some z \<Rightarrow> z | None \<Rightarrow> ZUndef)" for M m d cmd rp z c
    by (simp add: phongo_cursor_init_for_command_def phongo_cursor_init_def)
  show ?thesis using assms
    by (auto simp: command_body_def s cursor_init_for_command_inv split: sum.splits option.splits prod.splits if_split_asm)
qed

text \<open>The store afterwards: as it was, or with one session more, which the cursor holds or which is freed.\<close>

lemma command_store:
  assumes "phongo_execute_command X D manager client type db zc command options server_id w ex = Some (result, cur, D1, w1, ex1)"
  shows "result = (cur \<noteq> None)
    \<and> (D1 = D \<and> (\<forall>c a. cur = Some c \<and> cur_session c = ZAddr a \<longrightarrow> (\<exists>s. obj_at D (ZAddr a) = Some (DSession s)))
      \<or> (cur = None \<and> D1 = D @ [DFreed])
      \<or> (\<exists>c s. cur = Some c \<and> D1 = D @ [DSession s] \<and> cur_session c = ZAddr (length D)))"
proof (cases "parse_command_options X D client type options")
  case None
  then show ?thesis using assms by (simp add: phongo_execute_command_def)
next
  case (Some r)
  show ?thesis
  proof (cases r)
    case (Inl e)
    then show ?thesis using assms Some by (simp add: phongo_execute_command_def)
  next
    case (Inr co)
    note p = Some[unfolded Inr]
    have sess: "session_from_zval D (Some z) = Some cs \<Longrightarrow> \<exists>s. obj_at D z = Some (DSession s)" for z cs
      by (auto simp: session_from_zval_def split: option.splits driver_obj.splits)
    show ?thesis
    proof (cases "co_session co")
      case (Some z)
      then obtain cs where cs: "session_from_zval D (Some z) = Some cs" using parsed_command[OF p] by auto
      have "command_body X D manager client type db zc command server_id (co_read_preference co) (Some z) (Some cs) (co_opts co) w ex
          = Some (result, cur, w1, ex1)" "D1 = D"
        using assms p Some cs by (auto simp: phongo_execute_command_def Let_def)
      from command_body_cursor[OF this(1)] this(2) sess[OF cs] show ?thesis by (auto simp del: obj_at.simps)
    next
      case None
      show ?thesis
      proof (cases "co_unacknowledged co")
        case True
        then have "command_body X D manager client type db zc command server_id (co_read_preference co) None None (co_opts co) w ex
          = Some (result, cur, w1, ex1)" "D1 = D"
          using assms p None by (auto simp: phongo_execute_command_def Let_def)
        from command_body_cursor[OF this(1)] this(2) show ?thesis by auto
      next
        case ack: False
        show ?thesis
        proof (cases "mongoc_client_start_session (xe_client X) client w")
          case (Pair cso w0)
          show ?thesis
          proof (cases cso)
            case None
            then have "command_body X D manager client type db zc command server_id (co_read_preference co) None None (co_opts co) w0 ex
              = Some (result, cur, w1, ex1)" "D1 = D"
              using assms p \<open>co_session co = None\<close> ack Pair
              by (auto simp: phongo_execute_command_def phongo_create_implicit_session_def Let_def)
            from command_body_cursor[OF this(1)] this(2) show ?thesis by auto
          next
            case (Some cs)
            let ?s = "phongo_session_init (xe_pid X) manager cs"
            obtain r where r: "(case mongoc_client_session_append (xe_parse X) cs (co_opts co) of
                 None \<Rightarrow> Some (False, None, w0, invalid_argument (''Error appending implicit '' @ dquote ''sessionId'' @ '' option'') # ex)
               | Some es \<Rightarrow> command_body X D manager client type db zc command server_id (co_read_preference co)
                   (Some (ZAddr (length D))) (Some cs) es w0 ex) = Some r"
              "(result, cur, D1, w1, ex1) = free_implicit_session X (length D) ?s r (D @ [DSession ?s])"
              using assms p \<open>co_session co = None\<close> ack Pair Some
              by (auto simp: phongo_execute_command_def phongo_create_implicit_session_def Let_def)
            obtain res c w2 ex2 where rr: "r = (res, c, w2, ex2)" by (cases r) auto
            have "res = (c \<noteq> None) \<and> (\<forall>c1. c = Some c1 \<longrightarrow> cur_session c1 = ZAddr (length D))"
            proof (cases "mongoc_client_session_append (xe_parse X) cs (co_opts co)")
              case None
              then show ?thesis using r(1) rr by auto
            next
              case (Some es)
              then have "command_body X D manager client type db zc command server_id (co_read_preference co)
                   (Some (ZAddr (length D))) (Some cs) es w0 ex = Some (res, c, w2, ex2)" using r(1) rr by simp
              from command_body_cursor[OF this] show ?thesis by auto
            qed
            then show ?thesis using r(2) unfolding rr
              by (cases c) (auto simp: free_implicit_session_def)
          qed
        qed
      qed
    qed
  qed
qed

text \<open>With a session and an unacknowledged write concern nothing is sent.\<close>

lemma command_conflict:
  assumes "parse_command_options X D client type options = Some (Inl e)"
  shows "phongo_execute_command X D manager client type db zc command options server_id w ex = Some (False, None, D, w, e # ex)"
  using assms by (simp add: phongo_execute_command_def)

section \<open>A client that answers with a list of documents\<close>

text \<open>Every command succeeds and is recorded in the world; there is one client, and one session of it.\<close>

definition ref_option_ops :: "(string option, write_concern_view, nat, nat) option_ops" where
  "ref_option_ops = \<lparr>mongoc_read_concern_append = (\<lambda>rc es. Some (es @ [(''readConcern'', BNull)])),
     mongoc_write_concern_append = (\<lambda>wc es. Some (es @ [(''writeConcern'', BNull)])),
     mongoc_client_session_append = (\<lambda>cs es. Some (es @ [(''sessionId'', BInt64 (int cs))])),
     mongoc_client_session_get_client = (\<lambda>cs. 0)\<rparr>"

definition ref_command :: "nat list \<Rightarrow> nat list command_result" where
  "ref_command w = ((True, BDoc [(''ok'', BInt32 1)] DocOk, \<lparr>err_domain = MONGOC_ERROR_COMMAND, err_code = 0, err_message = []\<rparr>), [], 2 # w)"

definition ref_client_ops ::
    "bdoc list \<Rightarrow> (nat list, nat, nat, read_prefs_view, string option, write_concern_view, bdoc list \<times> bdoc option, unit) client_ops" where
  "ref_client_ops ds = \<lparr>
     mongoc_client_get_write_concern = (\<lambda>c. mongoc_write_concern_new ref_write_concern_ops),
     mongoc_client_start_session = (\<lambda>c w. (Some 7, w)),
     mongoc_client_session_append_error = (\<lambda>cs es. \<lparr>err_domain = MONGOC_ERROR_COMMAND, err_code = 0, err_message = []\<rparr>),
     mongoc_client_command_with_opts = (\<lambda>c db b rp es w. ref_command w),
     mongoc_client_read_command_with_opts = (\<lambda>c db b rp es w. ref_command w),
     mongoc_client_write_command_with_opts = (\<lambda>c db b es w. ref_command w),
     mongoc_client_read_write_command_with_opts = (\<lambda>c db b rp es w. ref_command w),
     mongoc_client_get_collection = (\<lambda>c db coll. ()), mongoc_collection_set_read_concern = (\<lambda>c rc. c),
     mongoc_collection_find_with_opts = (\<lambda>c flt es rp w. ((ds, None), w)),
     mongoc_cursor_new_from_command_reply_with_opts = (\<lambda>c reply es w. (([BDoc reply DocOk], None), w)),
     mongoc_cursor_set_max_await_time_ms = (\<lambda>c ms. c), mongoc_cursor_destroy = (\<lambda>c w. w)\<rparr>"

definition ref_exec_env ::
    "bdoc list \<Rightarrow> (nat list, string option, read_prefs_view, write_concern_view, nat, nat, bdoc list \<times> bdoc option, unit, unit) exec_env" where
  "ref_exec_env ds = \<lparr>xe_decode = ref_decode_env, xe_codes = ref_error_codes, xe_pid = 1, xe_reset = (\<lambda>m p w. w),
     xe_append = (\<lambda>es e. Some (es @ [e])), xe_parse = ref_option_ops, xe_session = ref_session_ops,
     xe_client = ref_client_ops ds, xe_cursor = ref_cursor_ops, xe_wc = ref_write_concern_ops\<rparr>"

lemma ref_exec_env_simps:
  "xe_decode (ref_exec_env ds) = ref_decode_env" "xe_cursor (ref_exec_env ds) = ref_cursor_ops"
  by (simp_all add: ref_exec_env_def)

lemma ref_answers: "answers (ref_exec_env ds) ds"
  by (simp add: answers_def ref_exec_env_def ref_client_ops_def ref_cursor_delivers)

end
