(* ===== verification/Driver_ServerApi.thy ===== *)
theory Driver_ServerApi
  imports Driver_Options
begin

text \<open>
  \<^verbatim>\<open>ServerApi\<close> (MongoDB/ServerApi.c): the version and the two optional flags of the declared
  API.  A method of an object without a libmongoc object hands libmongoc a null pointer: None.
\<close>

text \<open>
  libmongoc's server API object: a version it knows the name of, and two optional flags.
  Documented: what is set is read back, and a version's name names the version.
\<close>

record ('api, 'ver) server_api_ops =
  mongoc_server_api_version_from_string :: "string \<Rightarrow> 'ver option"
  mongoc_server_api_version_to_string :: "'ver \<Rightarrow> string"
  mongoc_server_api_new :: "'ver \<Rightarrow> 'api"
  mongoc_server_api_strict :: "'api \<Rightarrow> bool \<Rightarrow> 'api"
  mongoc_server_api_deprecation_errors :: "'api \<Rightarrow> bool \<Rightarrow> 'api"
  mongoc_server_api_get_version :: "'api \<Rightarrow> 'ver"
  mongoc_server_api_get_strict :: "'api \<Rightarrow> bool option"
  mongoc_server_api_get_deprecation_errors :: "'api \<Rightarrow> bool option"

definition sa_view :: "('api, 'ver) server_api_ops \<Rightarrow> 'api \<Rightarrow> 'ver \<times> bool option \<times> bool option" where
  "sa_view A api = (mongoc_server_api_get_version A api, mongoc_server_api_get_strict A api,
     mongoc_server_api_get_deprecation_errors A api)"

definition server_api_contract :: "('api, 'ver) server_api_ops \<Rightarrow> bool" where
  "server_api_contract A \<longleftrightarrow>
     (\<forall>v. sa_view A (mongoc_server_api_new A v) = (v, None, None))
   \<and> (\<forall>a b. sa_view A (mongoc_server_api_strict A a b) = (fst (sa_view A a), Some b, snd (snd (sa_view A a))))
   \<and> (\<forall>a b. sa_view A (mongoc_server_api_deprecation_errors A a b) = (fst (sa_view A a), fst (snd (sa_view A a)), Some b))
   \<and> (\<forall>s v. mongoc_server_api_version_from_string A s = Some v \<longrightarrow> mongoc_server_api_version_to_string A v = s)"

record 'api php_phongo_serverapi_t =
  sap_server_api :: "'api option"

abbreviation serverapi_ce_name :: string where "serverapi_ce_name \<equiv> driver_ns ''ServerApi''"

definition php_phongo_serverapi_create_object :: "'api php_phongo_serverapi_t" where
  "php_phongo_serverapi_create_object = \<lparr>sap_server_api = None\<rparr>"

text \<open>A flag that is set is \<^verbatim>\<open>Some\<close>: the pair of a \<^verbatim>\<open>_set\<close> argument and its value.\<close>

definition php_phongo_serverapi_create_libmongoc_object ::
    "('api, 'ver) server_api_ops \<Rightarrow> 'api option \<Rightarrow> string \<Rightarrow> bool option \<Rightarrow> bool option \<Rightarrow> 'api option \<times> exn option" where
  "php_phongo_serverapi_create_libmongoc_object A server_api version strict deprecation_errors =
     (case mongoc_server_api_version_from_string A (c_str version) of
        None \<Rightarrow> (server_api, Some (invalid_argument (''Server API version '' @ dquote (c_str version)
                  @ '' is not supported in this driver version'')))
      | Some v \<Rightarrow>
          if server_api \<noteq> None
          then (server_api, Some (phongo_throw_exception PHONGO_ERROR_LOGIC
                 ''Server API object already initialized. Please file a bug report as this should not happen.''))
          else (let a0 = mongoc_server_api_new A v;
                    a1 = (case strict of Some b \<Rightarrow> mongoc_server_api_strict A a0 b | None \<Rightarrow> a0);
                    a2 = (case deprecation_errors of Some b \<Rightarrow> mongoc_server_api_deprecation_errors A a1 b | None \<Rightarrow> a1)
                in (Some a2, None)))"

text \<open>A field that is to be a boolean or null: Inl when it is neither.\<close>

definition hash_bool_or_null :: "ht \<Rightarrow> string \<Rightarrow> bool option result" where
  "hash_bool_or_null props key = (case hash_str_find props key of
       None \<Rightarrow> Inr None
     | Some ZNull \<Rightarrow> Inr None
     | Some (ZBool b) \<Rightarrow> Inr (Some b)
     | Some _ \<Rightarrow> Inl (init_requires serverapi_ce_name (dquote key @ '' field to be bool or null'')))"

definition php_phongo_serverapi_init_from_hash ::
    "('api, 'ver) server_api_ops \<Rightarrow> ht \<Rightarrow> 'api php_phongo_serverapi_t \<Rightarrow> 'api php_phongo_serverapi_t \<times> exn option" where
  "php_phongo_serverapi_init_from_hash A props intern =
     (case hash_str_find props ''version'' of
        Some (ZString version) \<Rightarrow>
          (case bind_r (hash_bool_or_null props ''strict'') (\<lambda>strict.
                  bind_r (hash_bool_or_null props ''deprecationErrors'') (\<lambda>deprecation_errors. Inr (strict, deprecation_errors))) of
             Inl e \<Rightarrow> (intern, Some e)
           | Inr (strict, deprecation_errors) \<Rightarrow>
               (let (api, e) = php_phongo_serverapi_create_libmongoc_object A (sap_server_api intern) version strict deprecation_errors
                in (intern\<lparr>sap_server_api := api\<rparr>, e)))
      | _ \<Rightarrow> (intern, Some (init_requires serverapi_ce_name (dquote ''version'' @ '' field to be string''))))"

definition ServerApi___construct ::
    "('api, 'ver) server_api_ops \<Rightarrow> string \<Rightarrow> bool option \<Rightarrow> bool option \<Rightarrow> 'api php_phongo_serverapi_t
       \<Rightarrow> 'api php_phongo_serverapi_t \<times> exn option" where
  "ServerApi___construct A version strict deprecation_errors intern =
     (let (api, e) = php_phongo_serverapi_create_libmongoc_object A (sap_server_api intern) version strict deprecation_errors
      in (intern\<lparr>sap_server_api := api\<rparr>, e))"

definition ServerApi___set_state ::
    "('api, 'ver) server_api_ops \<Rightarrow> ht \<Rightarrow> 'api php_phongo_serverapi_t \<times> exn option" where
  "ServerApi___set_state A props = php_phongo_serverapi_init_from_hash A props php_phongo_serverapi_create_object"

text \<open>\<^verbatim>\<open>zend_hash_str_add\<close> leaves a key that is there alone.\<close>

definition hash_str_add :: "ht \<Rightarrow> string \<Rightarrow> zval \<Rightarrow> ht" where
  "hash_str_add props key z = (if hash_str_find props key = None then hash_str_update props key z else props)"

fun optional_zval :: "bool option \<Rightarrow> zval" where
  "optional_zval None = ZNull"
| "optional_zval (Some b) = ZBool b"

definition add_optional :: "bool \<Rightarrow> string \<Rightarrow> bool option \<Rightarrow> ht \<Rightarrow> ht" where
  "add_optional include_null key b props = (if include_null \<or> b \<noteq> None then hash_str_add props key (optional_zval b) else props)"

definition php_phongo_serverapi_get_properties_hash ::
    "('api, 'ver) server_api_ops \<Rightarrow> bool \<Rightarrow> bool \<Rightarrow> ht option \<Rightarrow> 'api php_phongo_serverapi_t \<Rightarrow> ht option" where
  "php_phongo_serverapi_get_properties_hash A is_temp include_null cached intern =
     map_option (\<lambda>api.
       (let props = get_property_hash_init_props is_temp cached;
            p1 = hash_str_add props ''version'' (ZString (mongoc_server_api_version_to_string A (mongoc_server_api_get_version A api)));
            p2 = add_optional include_null ''strict'' (mongoc_server_api_get_strict A api) p1
        in add_optional include_null ''deprecationErrors'' (mongoc_server_api_get_deprecation_errors A api) p2))
     (sap_server_api intern)"

definition ServerApi_bsonSerialize :: "('api, 'ver) server_api_ops \<Rightarrow> 'api php_phongo_serverapi_t \<Rightarrow> zval option" where
  "ServerApi_bsonSerialize A intern = map_option ZStd (php_phongo_serverapi_get_properties_hash A True False None intern)"

definition ServerApi_serialized_array :: "('api, 'ver) server_api_ops \<Rightarrow> 'api \<Rightarrow> ht" where
  "ServerApi_serialized_array A api =
     [(KStr ''version'', ZString (mongoc_server_api_version_to_string A (mongoc_server_api_get_version A api))),
      (KStr ''strict'', optional_zval (mongoc_server_api_get_strict A api)),
      (KStr ''deprecationErrors'', optional_zval (mongoc_server_api_get_deprecation_errors A api))]"

definition ServerApi_serialize :: "php_serializer \<Rightarrow> ('api, 'ver) server_api_ops \<Rightarrow> 'api php_phongo_serverapi_t \<Rightarrow> string option" where
  "ServerApi_serialize S A intern = map_option (\<lambda>api. var_serialize S (ZArray (ServerApi_serialized_array A api))) (sap_server_api intern)"

definition ServerApi_unserialize ::
    "php_serializer \<Rightarrow> ('api, 'ver) server_api_ops \<Rightarrow> string \<Rightarrow> 'api php_phongo_serverapi_t
       \<Rightarrow> ('api php_phongo_serverapi_t \<times> exn option) option" where
  "ServerApi_unserialize S A serialized intern =
     unserialize_option S serverapi_ce_name (php_phongo_serverapi_init_from_hash A) serialized intern"

definition ServerApi___serialize :: "('api, 'ver) server_api_ops \<Rightarrow> 'api php_phongo_serverapi_t \<Rightarrow> ht option" where
  "ServerApi___serialize A intern = php_phongo_serverapi_get_properties_hash A True True None intern"

definition ServerApi___unserialize ::
    "('api, 'ver) server_api_ops \<Rightarrow> ht \<Rightarrow> 'api php_phongo_serverapi_t \<Rightarrow> 'api php_phongo_serverapi_t \<times> exn option" where
  "ServerApi___unserialize A data intern = php_phongo_serverapi_init_from_hash A data intern"

section \<open>The codec\<close>

text \<open>An object whose version was read from its name.\<close>

definition serverapi_valid :: "('api, 'ver) server_api_ops \<Rightarrow> 'api php_phongo_serverapi_t \<Rightarrow> bool" where
  "serverapi_valid A s \<longleftrightarrow> (\<exists>api n. sap_server_api s = Some api \<and> CHR 0x00 \<notin> set n
     \<and> mongoc_server_api_version_from_string A n = Some (mongoc_server_api_get_version A api))"

definition serverapi_view :: "('api, 'ver) server_api_ops \<Rightarrow> 'api php_phongo_serverapi_t \<Rightarrow> ('ver \<times> bool option \<times> bool option) option" where
  "serverapi_view A s = map_option (sa_view A) (sap_server_api s)"

lemma create_object_view:
  assumes "server_api_contract A" and "mongoc_server_api_version_from_string A (c_str n) = Some v"
  shows "\<exists>api. php_phongo_serverapi_create_libmongoc_object A None n strict dep = (Some api, None)
    \<and> sa_view A api = (v, strict, dep)"
  using assms by (cases strict; cases dep)
    (auto simp: php_phongo_serverapi_create_libmongoc_object_def server_api_contract_def Let_def)

lemma construct_serverapi_valid:
  assumes "server_api_contract A" and "ServerApi___construct A n strict dep s0 = (s, None)"
  shows "serverapi_valid A s \<and> (\<exists>v. mongoc_server_api_version_from_string A (c_str n) = Some v \<and> serverapi_view A s = Some (v, strict, dep))"
proof -
  obtain v where v: "mongoc_server_api_version_from_string A (c_str n) = Some v" and s0: "sap_server_api s0 = None"
    using assms(2) by (auto simp: ServerApi___construct_def php_phongo_serverapi_create_libmongoc_object_def
        split: option.splits if_splits)
  obtain api where "php_phongo_serverapi_create_libmongoc_object A None n strict dep = (Some api, None)"
      "sa_view A api = (v, strict, dep)"
    using create_object_view[OF assms(1) v] by blast
  then show ?thesis using assms(2) s0 v c_str_no_nul[of n]
    by (auto simp: ServerApi___construct_def serverapi_valid_def serverapi_view_def sa_view_def)
qed

text \<open>Reading back a table with the three fields, or without those that are not set.\<close>

lemma serverapi_restores:
  assumes c: "server_api_contract A" and s: "serverapi_valid A s" "sap_server_api s = Some api"
    and h: "hash_str_find h ''version'' = Some (ZString (mongoc_server_api_version_to_string A (mongoc_server_api_get_version A api)))"
      "hash_bool_or_null h ''strict'' = Inr (mongoc_server_api_get_strict A api)"
      "hash_bool_or_null h ''deprecationErrors'' = Inr (mongoc_server_api_get_deprecation_errors A api)"
  shows "\<exists>t. php_phongo_serverapi_init_from_hash A h php_phongo_serverapi_create_object = (t, None)
    \<and> serverapi_valid A t \<and> serverapi_view A t = serverapi_view A s"
proof -
  obtain n where n: "CHR 0x00 \<notin> set n" "mongoc_server_api_version_from_string A n = Some (mongoc_server_api_get_version A api)"
    using s by (auto simp: serverapi_valid_def)
  then have name: "mongoc_server_api_version_to_string A (mongoc_server_api_get_version A api) = n"
    using c by (simp add: server_api_contract_def)
  obtain a where "php_phongo_serverapi_create_libmongoc_object A None n (mongoc_server_api_get_strict A api)
      (mongoc_server_api_get_deprecation_errors A api) = (Some a, None)" "sa_view A a = sa_view A api"
    using create_object_view[OF c, of n "mongoc_server_api_get_version A api" "mongoc_server_api_get_strict A api"
      "mongoc_server_api_get_deprecation_errors A api"] n by (auto simp: c_str_id sa_view_def)
  then show ?thesis using h s n name
    by (auto simp: php_phongo_serverapi_init_from_hash_def php_phongo_serverapi_create_object_def
        serverapi_valid_def serverapi_view_def sa_view_def)
qed

lemma hash_bool_or_null_optional:
  "hash_str_find h k = Some (optional_zval b) \<or> b = None \<and> hash_str_find h k = None \<Longrightarrow> hash_bool_or_null h k = Inr b"
  by (cases b) (auto simp: hash_bool_or_null_def)

interpretation serverapi: php_view_codec "\<lambda>s. server_api_contract A \<and> serverapi_valid A s" "\<lambda>s. True" "serverapi_view A"
    "\<lambda>s. the (php_phongo_serverapi_get_properties_hash A True n None s)"
    "\<lambda>s. ServerApi_serialized_array A (the (sap_server_api s))"
    "php_phongo_serverapi_init_from_hash A" php_phongo_serverapi_create_object
  for A n
proof unfold_locales
  fix s assume "server_api_contract A \<and> serverapi_valid A s"
  then obtain api where c: "server_api_contract A" "serverapi_valid A s" and s: "sap_server_api s = Some api"
    by (auto simp: serverapi_valid_def)
  have "\<exists>t. php_phongo_serverapi_init_from_hash A (the (php_phongo_serverapi_get_properties_hash A True n None s))
      php_phongo_serverapi_create_object = (t, None) \<and> serverapi_valid A t \<and> serverapi_view A t = serverapi_view A s"
    by (rule serverapi_restores[OF c s]) (auto intro!: hash_bool_or_null_optional
        simp: php_phongo_serverapi_get_properties_hash_def s Let_def get_property_hash_init_props_def hash_str_add_def add_optional_def)
  then show "\<exists>t. php_phongo_serverapi_init_from_hash A (the (php_phongo_serverapi_get_properties_hash A True n None s))
      php_phongo_serverapi_create_object = (t, None) \<and> (server_api_contract A \<and> serverapi_valid A t)
      \<and> serverapi_view A t = serverapi_view A s" using c by simp
  have "\<exists>t. php_phongo_serverapi_init_from_hash A (ServerApi_serialized_array A (the (sap_server_api s)))
      php_phongo_serverapi_create_object = (t, None) \<and> serverapi_valid A t \<and> serverapi_view A t = serverapi_view A s"
    by (rule serverapi_restores[OF c s]) (auto intro!: hash_bool_or_null_optional simp: ServerApi_serialized_array_def s)
  then show "\<exists>t. php_phongo_serverapi_init_from_hash A (ServerApi_serialized_array A (the (sap_server_api s)))
      php_phongo_serverapi_create_object = (t, None) \<and> (server_api_contract A \<and> serverapi_valid A t)
      \<and> serverapi_view A t = serverapi_view A s" using c by simp
  show "plain_zval (ZArray (ServerApi_serialized_array A (the (sap_server_api s))))"
    by (cases "mongoc_server_api_get_strict A api"; cases "mongoc_server_api_get_deprecation_errors A api")
       (simp_all add: ServerApi_serialized_array_def s)
qed

text \<open>The one version there is, and an object that is what can be read of it.\<close>

definition ref_server_api_ops :: "(unit \<times> bool option \<times> bool option, unit) server_api_ops" where
  "ref_server_api_ops = \<lparr>
     mongoc_server_api_version_from_string = (\<lambda>s. if s = ''1'' then Some () else None),
     mongoc_server_api_version_to_string = (\<lambda>v. ''1''), mongoc_server_api_new = (\<lambda>v. (v, None, None)),
     mongoc_server_api_strict = (\<lambda>(v, s, d) b. (v, Some b, d)), mongoc_server_api_deprecation_errors = (\<lambda>(v, s, d) b. (v, s, Some b)),
     mongoc_server_api_get_version = fst, mongoc_server_api_get_strict = (\<lambda>(v, s, d). s),
     mongoc_server_api_get_deprecation_errors = (\<lambda>(v, s, d). d)\<rparr>"

lemma ref_server_api_contract: "server_api_contract ref_server_api_ops"
  by (auto simp: server_api_contract_def ref_server_api_ops_def sa_view_def)

text \<open>What the constructor makes survives its serialisation.\<close>

lemma serverapi_serialize_restores:
  assumes c: "server_api_contract A" and S: "serializer_contract S" "serializer_nonempty S"
    and k: "ServerApi___construct A version strict dep s0 = (sa, None)"
  shows "\<exists>t. ServerApi_unserialize S A (the (ServerApi_serialize S A sa)) php_phongo_serverapi_create_object = Some (t, None)
    \<and> serverapi_view A t = serverapi_view A sa"
proof -
  have v: "server_api_contract A \<and> serverapi_valid A sa" using construct_serverapi_valid[OF c k] c by blast
  then have "ServerApi_serialize S A sa = Some (var_serialize S (ZArray (ServerApi_serialized_array A (the (sap_server_api sa)))))"
    by (auto simp: ServerApi_serialize_def serverapi_valid_def)
  then show ?thesis
    using serverapi.unserialize_view[OF v TrueI S, of serverapi_ce_name] by (auto simp: ServerApi_unserialize_def)
qed

end
