(* ===== verification/Driver_Uri.thy ===== *)
theory Driver_Uri
  imports Driver_Objects
begin

text \<open>
  URI options of a Manager (php\_phongo.c, \<^verbatim>\<open>php_phongo_make_uri\<close> to
  \<^verbatim>\<open>php_phongo_apply_driver_options_to_uri\<close>): options given as an array are applied to the URI
  parsed from the connection string, in four passes (options of libmongoc, read concern, read
  preference, write concern), then the checks across options.  A function returns the changed
  URI, or Inl the exception; the caller destroys the URI then.
\<close>

section \<open>libmongoc's URI\<close>

text \<open>The macros that name the URI options; their texts come from libmongoc.\<close>

datatype uri_key =
    MONGOC_URI_APPNAME | MONGOC_URI_AUTHMECHANISM | MONGOC_URI_AUTHMECHANISMPROPERTIES | MONGOC_URI_AUTHSOURCE
  | MONGOC_URI_COMPRESSORS | MONGOC_URI_DIRECTCONNECTION | MONGOC_URI_GSSAPISERVICENAME | MONGOC_URI_JOURNAL
  | MONGOC_URI_MAXSTALENESSSECONDS | MONGOC_URI_READCONCERNLEVEL | MONGOC_URI_READPREFERENCE
  | MONGOC_URI_READPREFERENCETAGS | MONGOC_URI_REPLICASET | MONGOC_URI_SAFE | MONGOC_URI_TLSALLOWINVALIDCERTIFICATES
  | MONGOC_URI_TLSALLOWINVALIDHOSTNAMES | MONGOC_URI_TLSCAFILE | MONGOC_URI_TLSCERTIFICATEKEYFILE
  | MONGOC_URI_TLSCERTIFICATEKEYFILEPASSWORD | MONGOC_URI_TLSDISABLECERTIFICATEREVOCATIONCHECK
  | MONGOC_URI_TLSDISABLEOCSPENDPOINTCHECK | MONGOC_URI_TLSINSECURE | MONGOC_URI_W | MONGOC_URI_WTIMEOUTMS

text \<open>A setter returns None where libmongoc returns false.\<close>

record ('uri, 'rc, 'rp, 'wc) uri_ops =
  uri_key_name :: "uri_key \<Rightarrow> string"
  mongoc_uri_new_with_error :: "string \<Rightarrow> string + 'uri"
  bson_iter_as_bool :: "bval \<Rightarrow> bool"
  mongoc_uri_option_is_bool :: "string \<Rightarrow> bool"
  mongoc_uri_option_is_int32 :: "string \<Rightarrow> bool"
  mongoc_uri_option_is_utf8 :: "string \<Rightarrow> bool"
  mongoc_uri_set_option_as_bool :: "'uri \<Rightarrow> string \<Rightarrow> bool \<Rightarrow> 'uri option"
  mongoc_uri_set_option_as_int32 :: "'uri \<Rightarrow> string \<Rightarrow> int \<Rightarrow> 'uri option"
  mongoc_uri_set_option_as_utf8 :: "'uri \<Rightarrow> string \<Rightarrow> string \<Rightarrow> 'uri option"
  mongoc_uri_set_username :: "'uri \<Rightarrow> string \<Rightarrow> 'uri option"
  mongoc_uri_set_password :: "'uri \<Rightarrow> string \<Rightarrow> 'uri option"
  mongoc_uri_set_auth_mechanism :: "'uri \<Rightarrow> string \<Rightarrow> 'uri option"
  mongoc_uri_set_auth_source :: "'uri \<Rightarrow> string \<Rightarrow> 'uri option"
  mongoc_uri_set_mechanism_properties :: "'uri \<Rightarrow> bdoc \<Rightarrow> 'uri option"
  mongoc_uri_set_compressors :: "'uri \<Rightarrow> string \<Rightarrow> 'uri option"
  mongoc_uri_set_read_concern :: "'uri \<Rightarrow> 'rc \<Rightarrow> 'uri"
  mongoc_uri_set_read_prefs_t :: "'uri \<Rightarrow> 'rp \<Rightarrow> 'uri"
  mongoc_uri_set_write_concern :: "'uri \<Rightarrow> 'wc \<Rightarrow> 'uri"
  mongoc_uri_get_credentials :: "'uri \<Rightarrow> bdoc"
  mongoc_uri_get_username :: "'uri \<Rightarrow> string option"
  mongoc_uri_get_password :: "'uri \<Rightarrow> string option"
  mongoc_uri_get_auth_mechanism :: "'uri \<Rightarrow> string option"
  mongoc_uri_get_mechanism_properties :: "'uri \<Rightarrow> bdoc option"
  mongoc_uri_get_option_as_bool :: "'uri \<Rightarrow> string \<Rightarrow> bool \<Rightarrow> bool"
  mongoc_uri_get_option_as_utf8 :: "'uri \<Rightarrow> string \<Rightarrow> string option \<Rightarrow> string option"
  mongoc_uri_get_string :: "'uri \<Rightarrow> string"
  mongoc_uri_get_hosts :: "'uri \<Rightarrow> string list"
  mongoc_uri_get_options :: "'uri \<Rightarrow> bdoc option"
  mongoc_uri_get_tls :: "'uri \<Rightarrow> bool"
  mongoc_uri_get_read_concern :: "'uri \<Rightarrow> 'rc option"
  mongoc_uri_get_read_prefs_t :: "'uri \<Rightarrow> 'rp option"
  mongoc_uri_get_write_concern :: "'uri \<Rightarrow> 'wc option"

text \<open>The comparison of an option's key, and the search for one, ignoring case.\<close>

definition is_key :: "('uri, 'rc, 'rp, 'wc) uri_ops \<Rightarrow> string \<Rightarrow> uri_key \<Rightarrow> bool" where
  "is_key U key k \<longleftrightarrow> c_strcaseeq key (uri_key_name U k)"

definition bson_find_case :: "('uri, 'rc, 'rp, 'wc) uri_ops \<Rightarrow> bdoc \<Rightarrow> uri_key \<Rightarrow> bval option" where
  "bson_find_case U d k = map_option snd (find (\<lambda>(key, v). is_key U key k) (doc_elems d))"

section \<open>Parsing and messages\<close>

definition php_phongo_make_uri :: "('uri, 'rc, 'rp, 'wc) uri_ops \<Rightarrow> string \<Rightarrow> 'uri result" where
  "php_phongo_make_uri U uri_string =
     (case mongoc_uri_new_with_error U uri_string of
        Inl message \<Rightarrow> Inl (invalid_argument (''Failed to parse MongoDB URI: '' @ squote uri_string @ ''. '' @ message @ ''.''))
      | Inr uri \<Rightarrow> Inr uri)"

fun php_phongo_bson_type_to_string :: "bval \<Rightarrow> string" where
  "php_phongo_bson_type_to_string (BDouble _) = ''double''"
| "php_phongo_bson_type_to_string (BUtf8 _) = ''string''"
| "php_phongo_bson_type_to_string (BDocument _) = ''document''"
| "php_phongo_bson_type_to_string (BArray _) = ''array''"
| "php_phongo_bson_type_to_string (BBinary _ _) = ''Binary''"
| "php_phongo_bson_type_to_string BUndefined = ''undefined''"
| "php_phongo_bson_type_to_string (BOid _) = ''ObjectId''"
| "php_phongo_bson_type_to_string (BBool _) = ''boolean''"
| "php_phongo_bson_type_to_string (BDateTime _) = ''UTCDateTime''"
| "php_phongo_bson_type_to_string BNull = ''null''"
| "php_phongo_bson_type_to_string (BRegex _ _) = ''Regex''"
| "php_phongo_bson_type_to_string (BDBPointer _ _) = ''DBPointer''"
| "php_phongo_bson_type_to_string (BCode _) = ''Javascript''"
| "php_phongo_bson_type_to_string (BSymbol _) = ''symbol''"
| "php_phongo_bson_type_to_string (BCodeWScope _ _) = ''Javascript with scope''"
| "php_phongo_bson_type_to_string (BInt32 _) = ''32-bit integer''"
| "php_phongo_bson_type_to_string (BTimestamp _ _) = ''Timestamp''"
| "php_phongo_bson_type_to_string (BInt64 _) = ''64-bit integer''"
| "php_phongo_bson_type_to_string (BDecimal128 _ _) = ''Decimal128''"
| "php_phongo_bson_type_to_string BMaxKey = ''MaxKey''"
| "php_phongo_bson_type_to_string BMinKey = ''MinKey''"

definition PHONGO_URI_INVALID_TYPE :: "string \<Rightarrow> bval \<Rightarrow> string \<Rightarrow> exn" where
  "PHONGO_URI_INVALID_TYPE key v expected = invalid_argument (''Expected '' @ expected @ '' for '' @ dquote key
     @ '' URI option, '' @ php_phongo_bson_type_to_string v @ '' given'')"

definition uri_failed_to_parse :: "string \<Rightarrow> exn" where
  "uri_failed_to_parse key = invalid_argument (''Failed to parse '' @ dquote key @ '' URI option'')"

text \<open>A setter that libmongoc may refuse.\<close>

definition uri_set :: "'uri option \<Rightarrow> exn \<Rightarrow> 'uri result" where
  "uri_set r e = (case r of None \<Rightarrow> Inl e | Some uri \<Rightarrow> Inr uri)"

text \<open>An option that has to be a string, handed to libmongoc as a C string.\<close>

definition uri_utf8 :: "string \<Rightarrow> bval \<Rightarrow> (string \<Rightarrow> 'a result) \<Rightarrow> 'a result" where
  "uri_utf8 key v k = (case v of BUtf8 s \<Rightarrow> k (c_str s) | _ \<Rightarrow> Inl (PHONGO_URI_INVALID_TYPE key v ''string''))"

text \<open>The loop over the options: a step may end it.\<close>

fun fold_r :: "('x \<Rightarrow> 's \<Rightarrow> 's result) \<Rightarrow> 'x list \<Rightarrow> 's \<Rightarrow> 's result" where
  "fold_r step [] s = Inr s"
| "fold_r step (x # xs) s = bind_r (step x s) (fold_r step xs)"

lemma fold_r_snoc: "fold_r step (xs @ [x]) s = bind_r (fold_r step xs s) (step x)"
  by (induction xs arbitrary: s) (auto simp: bind_r_def split: sum.splits)

text \<open>An invariant of every step is one of the loop.\<close>

lemma fold_r_keeps:
  assumes "\<And>x s s'. x \<in> set xs \<Longrightarrow> P s \<Longrightarrow> step x s = Inr s' \<Longrightarrow> P s'"
  shows "P s \<Longrightarrow> fold_r step xs s = Inr s' \<Longrightarrow> P s'"
  using assms by (induction xs arbitrary: s) (auto simp: bind_r_Inr_iff)

section \<open>Options of libmongoc\<close>

text \<open>Left to the passes for the read concern, the read preference and the write concern.\<close>

definition other_pass_keys :: "uri_key list" where
  "other_pass_keys = [MONGOC_URI_JOURNAL, MONGOC_URI_MAXSTALENESSSECONDS, MONGOC_URI_READCONCERNLEVEL,
     MONGOC_URI_READPREFERENCE, MONGOC_URI_READPREFERENCETAGS, MONGOC_URI_SAFE, MONGOC_URI_W, MONGOC_URI_WTIMEOUTMS]"

definition uri_set_utf8_option :: "('uri, 'rc, 'rp, 'wc) uri_ops \<Rightarrow> string \<Rightarrow> bval \<Rightarrow> 'uri \<Rightarrow> 'uri result" where
  "uri_set_utf8_option U key v uri = uri_utf8 key v (\<lambda>s.
     if is_key U key MONGOC_URI_REPLICASET \<and> s = []
     then Inl (invalid_argument (''Value for URI option '' @ dquote key @ '' cannot be empty string.''))
     else uri_set (mongoc_uri_set_option_as_utf8 U uri key s)
            (if is_key U key MONGOC_URI_APPNAME then invalid_argument (''Invalid appname value: '' @ squote s)
             else uri_failed_to_parse key))"

definition uri_set_auth_mechanism_properties :: "('uri, 'rc, 'rp, 'wc) uri_ops \<Rightarrow> string \<Rightarrow> bval \<Rightarrow> 'uri \<Rightarrow> 'uri result" where
  "uri_set_auth_mechanism_properties U key v uri =
     (case v of BDocument properties \<Rightarrow> uri_set (mongoc_uri_set_mechanism_properties U uri properties) (uri_failed_to_parse key)
      | _ \<Rightarrow> Inl (PHONGO_URI_INVALID_TYPE key v ''array or object''))"

definition uri_set_gssapi_service_name :: "('uri, 'rc, 'rp, 'wc) uri_ops \<Rightarrow> string \<Rightarrow> bval \<Rightarrow> 'uri \<Rightarrow> 'uri result" where
  "uri_set_gssapi_service_name U key v uri =
     (if mongoc_uri_get_mechanism_properties U uri \<noteq> None
      then Inl (invalid_argument (''authMechanismProperties SERVICE_NAME already set, ignoring '' @ dquote key))
      else uri_utf8 key v (\<lambda>s. uri_set (mongoc_uri_set_mechanism_properties U uri (BDoc [(''SERVICE_NAME'', BUtf8 s)] DocOk))
             (uri_failed_to_parse key)))"

definition apply_uri_option :: "('uri, 'rc, 'rp, 'wc) uri_ops \<Rightarrow> string \<times> bval \<Rightarrow> 'uri \<Rightarrow> 'uri result" where
  "apply_uri_option U kv uri = (let key = fst kv; v = snd kv in
     if list_ex (is_key U key) other_pass_keys then Inr uri
     else if mongoc_uri_option_is_bool U key
       then uri_set (mongoc_uri_set_option_as_bool U uri key (bson_iter_as_bool U v)) (uri_failed_to_parse key)
     else if mongoc_uri_option_is_int32 U key
       then (case v of BInt32 i \<Rightarrow> uri_set (mongoc_uri_set_option_as_int32 U uri key i) (uri_failed_to_parse key)
             | _ \<Rightarrow> Inl (PHONGO_URI_INVALID_TYPE key v ''32-bit integer''))
     else if mongoc_uri_option_is_utf8 U key then uri_set_utf8_option U key v uri
     else if c_strcaseeq key ''username''
       then uri_utf8 key v (\<lambda>s. uri_set (mongoc_uri_set_username U uri s) (uri_failed_to_parse key))
     else if c_strcaseeq key ''password''
       then uri_utf8 key v (\<lambda>s. uri_set (mongoc_uri_set_password U uri s) (uri_failed_to_parse key))
     else if is_key U key MONGOC_URI_AUTHMECHANISM
       then uri_utf8 key v (\<lambda>s. uri_set (mongoc_uri_set_auth_mechanism U uri s) (uri_failed_to_parse key))
     else if is_key U key MONGOC_URI_AUTHSOURCE
       then uri_utf8 key v (\<lambda>s. uri_set (mongoc_uri_set_auth_source U uri s) (uri_failed_to_parse key))
     else if is_key U key MONGOC_URI_AUTHMECHANISMPROPERTIES then uri_set_auth_mechanism_properties U key v uri
     else if is_key U key MONGOC_URI_GSSAPISERVICENAME then uri_set_gssapi_service_name U key v uri
     else if is_key U key MONGOC_URI_COMPRESSORS
       then uri_utf8 key v (\<lambda>s. uri_set (mongoc_uri_set_compressors U uri s) (uri_failed_to_parse key))
     else Inr uri)"

section \<open>Checks across options\<close>

abbreviation uri_options_failed :: "string \<Rightarrow> exn" where
  "uri_options_failed m \<equiv> invalid_argument (''Failed to parse URI options: '' @ m)"

text \<open>The dollar sign of "$external" is written by its code.\<close>

definition external_source :: string where
  "external_source = CHR 0x24 # ''external''"

definition auth_external :: "('uri, 'rc, 'rp, 'wc) uri_ops \<Rightarrow> string \<Rightarrow> string option \<Rightarrow> 'uri \<Rightarrow> 'uri result" where
  "auth_external U mechanism source uri =
     (if c_strcaseeq mechanism ''GSSAPI'' \<or> c_strcaseeq mechanism ''MONGODB-X509'' then
        (case source of
           Some s \<Rightarrow> if \<not> c_strcaseeq s external_source
             then Inl (uri_options_failed (''GSSAPI and X509 require '' @ dquote external_source @ '' authSource.''))
             else Inr uri
         | None \<Rightarrow> Inr (case mongoc_uri_set_auth_source U uri external_source of None \<Rightarrow> uri | Some u \<Rightarrow> u))
      else Inr uri)"

definition auth_username :: "('uri, 'rc, 'rp, 'wc) uri_ops \<Rightarrow> string \<Rightarrow> 'uri \<Rightarrow> 'uri result" where
  "auth_username U mechanism uri =
     (if \<not> c_strcaseeq mechanism ''MONGODB-X509'' \<and> \<not> c_strcaseeq mechanism ''MONGODB-AWS''
         \<and> (case mongoc_uri_get_username U uri of None \<Rightarrow> True | Some n \<Rightarrow> c_str n = [])
      then Inl (uri_options_failed (squote mechanism @ '' authentication mechanism requires username.''))
      else Inr uri)"

definition auth_password :: "('uri, 'rc, 'rp, 'wc) uri_ops \<Rightarrow> string \<Rightarrow> 'uri \<Rightarrow> 'uri result" where
  "auth_password U mechanism uri =
     (if c_strcaseeq mechanism ''MONGODB-X509'' \<and> mongoc_uri_get_password U uri \<noteq> None
      then Inl (uri_options_failed ''X509 authentication mechanism does not accept a password.'')
      else Inr uri)"

text \<open>The mechanism is a null pointer when none is set; an authSource that is no string is a null pointer too.\<close>

definition php_phongo_uri_finalize_auth :: "('uri, 'rc, 'rp, 'wc) uri_ops \<Rightarrow> 'uri \<Rightarrow> 'uri result" where
  "php_phongo_uri_finalize_auth U uri =
     (let found = bson_find_case U (mongoc_uri_get_credentials U uri) MONGOC_URI_AUTHSOURCE;
          source = (case found of Some (BUtf8 s) \<Rightarrow> Some s | _ \<Rightarrow> None);
          username = mongoc_uri_get_username U uri;
          require_auth = (username \<noteq> None \<or> found \<noteq> None) in
      case mongoc_uri_get_auth_mechanism U uri of
        Some mechanism \<Rightarrow> bind_r (auth_external U mechanism source uri) (\<lambda>u1.
          bind_r (auth_username U mechanism u1) (auth_password U mechanism))
      | None \<Rightarrow>
          if require_auth \<and> (case source of None \<Rightarrow> False | Some s \<Rightarrow> c_str s \<noteq> external_source)
             \<and> (case username of None \<Rightarrow> True | Some n \<Rightarrow> c_str n = [])
          then Inl (uri_options_failed ''Default authentication mechanism requires username.'')
          else Inr uri)"

definition srv_prefix :: string where
  "srv_prefix = ''mongodb+srv://''"

definition php_phongo_uri_finalize_directconnection :: "('uri, 'rc, 'rp, 'wc) uri_ops \<Rightarrow> 'uri \<Rightarrow> 'uri result" where
  "php_phongo_uri_finalize_directconnection U uri =
     (if \<not> mongoc_uri_get_option_as_bool U uri (uri_key_name U MONGOC_URI_DIRECTCONNECTION) False then Inr uri
      else if take 14 (mongoc_uri_get_string U uri) = srv_prefix
        then Inl (uri_options_failed ''SRV URI not allowed with directConnection option.'')
      else if 1 < length (mongoc_uri_get_hosts U uri)
        then Inl (uri_options_failed ''Multiple seeds not allowed with directConnection option.'')
      else Inr uri)"

definition uri_has :: "('uri, 'rc, 'rp, 'wc) uri_ops \<Rightarrow> bdoc \<Rightarrow> uri_key \<Rightarrow> bool" where
  "uri_has U options k \<longleftrightarrow> bson_find_case U options k \<noteq> None"

definition php_phongo_uri_finalize_tls :: "('uri, 'rc, 'rp, 'wc) uri_ops \<Rightarrow> 'uri \<Rightarrow> 'uri result" where
  "php_phongo_uri_finalize_tls U uri = (case mongoc_uri_get_options U uri of
     None \<Rightarrow> Inr uri
   | Some options \<Rightarrow>
       if uri_has U options MONGOC_URI_TLSINSECURE
          \<and> (uri_has U options MONGOC_URI_TLSALLOWINVALIDCERTIFICATES \<or> uri_has U options MONGOC_URI_TLSALLOWINVALIDHOSTNAMES
             \<or> uri_has U options MONGOC_URI_TLSDISABLEOCSPENDPOINTCHECK
             \<or> uri_has U options MONGOC_URI_TLSDISABLECERTIFICATEREVOCATIONCHECK)
       then Inl (uri_options_failed (uri_key_name U MONGOC_URI_TLSINSECURE @ '' may not be combined with ''
              @ uri_key_name U MONGOC_URI_TLSALLOWINVALIDCERTIFICATES @ '', '' @ uri_key_name U MONGOC_URI_TLSALLOWINVALIDHOSTNAMES
              @ '', '' @ uri_key_name U MONGOC_URI_TLSDISABLEOCSPENDPOINTCHECK @ '', or ''
              @ uri_key_name U MONGOC_URI_TLSDISABLECERTIFICATEREVOCATIONCHECK @ ''.''))
       else if uri_has U options MONGOC_URI_TLSALLOWINVALIDCERTIFICATES
          \<and> (uri_has U options MONGOC_URI_TLSDISABLEOCSPENDPOINTCHECK
             \<or> uri_has U options MONGOC_URI_TLSDISABLECERTIFICATEREVOCATIONCHECK)
       then Inl (uri_options_failed (uri_key_name U MONGOC_URI_TLSALLOWINVALIDCERTIFICATES @ '' may not be combined with ''
              @ uri_key_name U MONGOC_URI_TLSDISABLEOCSPENDPOINTCHECK @ '' or ''
              @ uri_key_name U MONGOC_URI_TLSDISABLECERTIFICATEREVOCATIONCHECK @ ''.''))
       else Inr uri)"

definition php_phongo_apply_options_to_uri :: "('uri, 'rc, 'rp, 'wc) uri_ops \<Rightarrow> bdoc \<Rightarrow> 'uri \<Rightarrow> 'uri result" where
  "php_phongo_apply_options_to_uri U options uri =
     (if bson_empty options then Inr uri
      else bind_r (fold_r (apply_uri_option U) (doc_elems options) uri) (\<lambda>u1.
           bind_r (php_phongo_uri_finalize_auth U u1) (php_phongo_uri_finalize_directconnection U)))"

section \<open>Read concern\<close>

definition apply_rc_option :: "('uri, 'rc, 'rp, 'wc) uri_ops \<Rightarrow> 'rc read_concern_ops \<Rightarrow> string \<times> bval \<Rightarrow> 'rc \<Rightarrow> 'rc result" where
  "apply_rc_option U RC kv new_rc = (let key = fst kv; v = snd kv in
     if is_key U key MONGOC_URI_READCONCERNLEVEL
     then uri_utf8 key v (\<lambda>s. Inr (mongoc_read_concern_set_level RC new_rc s))
     else Inr new_rc)"

definition mongoc_failed :: "string \<Rightarrow> exn" where
  "mongoc_failed m = phongo_throw_exception PHONGO_ERROR_MONGOC_FAILED m"

definition php_phongo_apply_rc_options_to_uri ::
    "('uri, 'rc, 'rp, 'wc) uri_ops \<Rightarrow> 'rc read_concern_ops \<Rightarrow> bdoc \<Rightarrow> 'uri \<Rightarrow> 'uri result" where
  "php_phongo_apply_rc_options_to_uri U RC options uri =
     (case mongoc_uri_get_read_concern U uri of
        None \<Rightarrow> Inl (mongoc_failed ''mongoc_uri_t does not have a read concern'')
      | Some old_rc \<Rightarrow>
          if bson_empty options then Inr uri
          else bind_r (fold_r (apply_rc_option U RC) (doc_elems options) old_rc)
                 (\<lambda>new_rc. Inr (mongoc_uri_set_read_concern U uri new_rc)))"

section \<open>Read preference\<close>

text \<open>The texts differ from those of the class; the comparison ignores case in both.\<close>

definition uri_mode :: "'rp read_prefs_ops \<Rightarrow> string \<Rightarrow> int option" where
  "uri_mode RP str =
     (if c_strcaseeq ''primary'' str then Some (MONGOC_READ_PRIMARY RP)
      else if c_strcaseeq ''primarypreferred'' str then Some (MONGOC_READ_PRIMARY_PREFERRED RP)
      else if c_strcaseeq ''secondary'' str then Some (MONGOC_READ_SECONDARY RP)
      else if c_strcaseeq ''secondarypreferred'' str then Some (MONGOC_READ_SECONDARY_PREFERRED RP)
      else if c_strcaseeq ''nearest'' str then Some (MONGOC_READ_NEAREST RP)
      else None)"

definition apply_rp_mode :: "'rp read_prefs_ops \<Rightarrow> string \<Rightarrow> bval \<Rightarrow> 'rp \<Rightarrow> 'rp result" where
  "apply_rp_mode RP key v new_rp = uri_utf8 key v (\<lambda>str. case uri_mode RP str of
       Some mode \<Rightarrow> Inr (mongoc_read_prefs_set_mode RP new_rp mode)
     | None \<Rightarrow> Inl (invalid_argument (''Unsupported '' @ key @ '' value: '' @ squote str)))"

definition apply_rp_tags :: "'rp read_prefs_ops \<Rightarrow> string \<Rightarrow> bval \<Rightarrow> 'rp \<Rightarrow> 'rp result" where
  "apply_rp_tags RP key v new_rp = (case v of
       BArray tags \<Rightarrow>
         if \<not> php_phongo_read_preference_tags_are_valid tags
         then Inl (invalid_argument ''Read preference tags must be an array of zero or more documents'')
         else Inr (mongoc_read_prefs_set_tags RP new_rp tags)
     | _ \<Rightarrow> Inl (PHONGO_URI_INVALID_TYPE key v ''array''))"

text \<open>An option that has to be an integer of 32 or 64 bits.\<close>

definition uri_int :: "string \<Rightarrow> bval \<Rightarrow> (int \<Rightarrow> 'a result) \<Rightarrow> 'a result" where
  "uri_int key v k = (case v of BInt32 i \<Rightarrow> k i | BInt64 i \<Rightarrow> k i | _ \<Rightarrow> Inl (PHONGO_URI_INVALID_TYPE key v ''integer''))"

definition apply_rp_max_staleness :: "'rp read_prefs_ops \<Rightarrow> string \<Rightarrow> bval \<Rightarrow> 'rp \<Rightarrow> 'rp result" where
  "apply_rp_max_staleness RP key v new_rp = uri_int key v (\<lambda>max_staleness_seconds.
     if max_staleness_seconds \<noteq> MONGOC_NO_MAX_STALENESS RP \<and> max_staleness_seconds < MONGOC_SMALLEST_MAX_STALENESS_SECONDS RP
       then Inl (invalid_argument (''Expected maxStalenessSeconds to be >= '' @ dec_of_int (MONGOC_SMALLEST_MAX_STALENESS_SECONDS RP)
              @ '', '' @ dec_of_int max_staleness_seconds @ '' given''))
     else if max_staleness_seconds \<noteq> MONGOC_NO_MAX_STALENESS RP \<and> max_staleness_seconds > 2147483647
       then Inl (invalid_argument (''Expected maxStalenessSeconds to be <= '' @ dec_of_int 2147483647
              @ '', '' @ dec_of_int max_staleness_seconds @ '' given''))
     else if max_staleness_seconds \<noteq> MONGOC_NO_MAX_STALENESS RP \<and> rp_is_primary RP new_rp
       then Inl (invalid_argument ''Primary read preference mode conflicts with maxStalenessSeconds'')
     else Inr (mongoc_read_prefs_set_max_staleness_seconds RP new_rp max_staleness_seconds))"

text \<open>The three tests of the loop, one after the other.\<close>

definition apply_rp_option :: "('uri, 'rc, 'rp, 'wc) uri_ops \<Rightarrow> 'rp read_prefs_ops \<Rightarrow> string \<times> bval \<Rightarrow> 'rp \<Rightarrow> 'rp result" where
  "apply_rp_option U RP kv new_rp = (let key = fst kv; v = snd kv in
     bind_r (if is_key U key MONGOC_URI_READPREFERENCE then apply_rp_mode RP key v new_rp else Inr new_rp) (\<lambda>rp1.
     bind_r (if is_key U key MONGOC_URI_READPREFERENCETAGS then apply_rp_tags RP key v rp1 else Inr rp1) (\<lambda>rp2.
     if is_key U key MONGOC_URI_MAXSTALENESSSECONDS then apply_rp_max_staleness RP key v rp2 else Inr rp2)))"

definition uri_check_rp :: "'rp read_prefs_ops \<Rightarrow> 'rp \<Rightarrow> 'rp result" where
  "uri_check_rp RP new_rp =
     (if rp_is_primary RP new_rp \<and> \<not> bson_empty (mongoc_read_prefs_get_tags RP new_rp)
        then Inl (invalid_argument ''Primary read preference mode conflicts with tags'')
      else if rp_is_primary RP new_rp
          \<and> mongoc_read_prefs_get_max_staleness_seconds RP new_rp \<noteq> MONGOC_NO_MAX_STALENESS RP
        then Inl (invalid_argument ''Primary read preference mode conflicts with maxStalenessSeconds'')
      else if \<not> mongoc_read_prefs_is_valid RP new_rp
        then Inl (invalid_argument ''Read preference is not valid'')
      else Inr new_rp)"

definition php_phongo_apply_rp_options_to_uri ::
    "('uri, 'rc, 'rp, 'wc) uri_ops \<Rightarrow> 'rp read_prefs_ops \<Rightarrow> bdoc \<Rightarrow> 'uri \<Rightarrow> 'uri result" where
  "php_phongo_apply_rp_options_to_uri U RP options uri =
     (case mongoc_uri_get_read_prefs_t U uri of
        None \<Rightarrow> Inl (mongoc_failed ''mongoc_uri_t does not have a read preference'')
      | Some old_rp \<Rightarrow>
          if bson_empty options then Inr uri
          else bind_r (fold_r (apply_rp_option U RP) (doc_elems options) old_rp) (\<lambda>rp1.
               bind_r (uri_check_rp RP rp1) (\<lambda>new_rp. Inr (mongoc_uri_set_read_prefs_t U uri new_rp))))"

section \<open>Write concern\<close>

definition apply_wc_safe :: "'wc write_concern_ops \<Rightarrow> string \<Rightarrow> bval \<Rightarrow> 'wc \<Rightarrow> 'wc result" where
  "apply_wc_safe W key v new_wc = (case v of
       BBool b \<Rightarrow> Inr (mongoc_write_concern_set_w W new_wc (if b then 1 else MONGOC_WRITE_CONCERN_W_UNACKNOWLEDGED W))
     | _ \<Rightarrow> Inl (PHONGO_URI_INVALID_TYPE key v ''boolean''))"

definition apply_wc_wtimeout :: "'wc write_concern_ops \<Rightarrow> string \<Rightarrow> bval \<Rightarrow> 'wc \<Rightarrow> 'wc result" where
  "apply_wc_wtimeout W key v new_wc = uri_int key v (\<lambda>wtimeout.
     if wtimeout < 0
     then Inl (invalid_argument (''Expected wtimeoutMS to be >= 0, '' @ dec_of_int wtimeout @ '' given''))
     else Inr (mongoc_write_concern_set_wtimeout_int64 W new_wc wtimeout))"

definition apply_wc_journal :: "'wc write_concern_ops \<Rightarrow> string \<Rightarrow> bval \<Rightarrow> 'wc \<Rightarrow> 'wc result" where
  "apply_wc_journal W key v new_wc = (case v of
       BBool b \<Rightarrow> Inr (mongoc_write_concern_set_journal W new_wc b)
     | _ \<Rightarrow> Inl (PHONGO_URI_INVALID_TYPE key v ''boolean''))"

definition apply_wc_w :: "'wc write_concern_ops \<Rightarrow> string \<Rightarrow> bval \<Rightarrow> 'wc \<Rightarrow> 'wc result" where
  "apply_wc_w W key v new_wc = (case v of
       BInt32 value \<Rightarrow>
         if value = MONGOC_WRITE_CONCERN_W_ERRORS_IGNORED W \<or> value = MONGOC_WRITE_CONCERN_W_UNACKNOWLEDGED W \<or> value > 0
         then Inr (mongoc_write_concern_set_w W new_wc value)
         else Inl (invalid_argument (''Unsupported w value: '' @ dec_of_int value))
     | BUtf8 s \<Rightarrow> Inr (if c_strcaseeq PHONGO_WRITE_CONCERN_W_MAJORITY (c_str s)
         then mongoc_write_concern_set_w W new_wc (MONGOC_WRITE_CONCERN_W_MAJORITY W)
         else mongoc_write_concern_set_wtag W new_wc (c_str s))
     | _ \<Rightarrow> Inl (PHONGO_URI_INVALID_TYPE key v ''32-bit integer or string''))"

text \<open>The four tests of the loop; the state is the write concern and \<^verbatim>\<open>ignore_safe\<close>.\<close>

definition apply_wc_option ::
    "('uri, 'rc, 'rp, 'wc) uri_ops \<Rightarrow> 'wc write_concern_ops \<Rightarrow> string \<times> bval \<Rightarrow> 'wc \<times> bool \<Rightarrow> ('wc \<times> bool) result" where
  "apply_wc_option U W kv st = (let key = fst kv; v = snd kv; ignore_safe = snd st in
     bind_r (if \<not> ignore_safe \<and> is_key U key MONGOC_URI_SAFE then apply_wc_safe W key v (fst st) else Inr (fst st)) (\<lambda>wc1.
     bind_r (if is_key U key MONGOC_URI_WTIMEOUTMS then apply_wc_wtimeout W key v wc1 else Inr wc1) (\<lambda>wc2.
     bind_r (if is_key U key MONGOC_URI_JOURNAL then apply_wc_journal W key v wc2 else Inr wc2) (\<lambda>wc3.
     if is_key U key MONGOC_URI_W then bind_r (apply_wc_w W key v wc3) (\<lambda>wc4. Inr (wc4, True))
     else Inr (wc3, ignore_safe)))))"

definition uri_check_wc :: "'wc write_concern_ops \<Rightarrow> 'wc \<Rightarrow> 'wc result" where
  "uri_check_wc W new_wc =
     (if mongoc_write_concern_get_journal W new_wc \<and> w_forbids_journal W new_wc
        then Inl (invalid_argument (''Journal conflicts with w value: '' @ dec_of_int (mongoc_write_concern_get_w W new_wc)))
      else if \<not> mongoc_write_concern_is_valid W new_wc then Inl (invalid_argument ''Write concern is not valid'')
      else Inr new_wc)"

definition php_phongo_apply_wc_options_to_uri ::
    "('uri, 'rc, 'rp, 'wc) uri_ops \<Rightarrow> 'wc write_concern_ops \<Rightarrow> bdoc \<Rightarrow> 'uri \<Rightarrow> 'uri result" where
  "php_phongo_apply_wc_options_to_uri U W options uri =
     (case mongoc_uri_get_write_concern U uri of
        None \<Rightarrow> Inl (mongoc_failed ''mongoc_uri_t does not have a write concern'')
      | Some old_wc \<Rightarrow>
          if bson_empty options then Inr uri
          else bind_r (fold_r (apply_wc_option U W) (doc_elems options) (old_wc, False)) (\<lambda>st.
               bind_r (uri_check_wc W (fst st)) (\<lambda>new_wc. Inr (mongoc_uri_set_write_concern U uri new_wc))))"

section \<open>TLS driver options\<close>

text \<open>
  \<^verbatim>\<open>php_phongo_fetch_ssl_opt_string\<close> returns a string of its own, or, where the engine made one to
  convert the value, a pointer to the characters inside it, which the allocator did not return.
  Whether the engine has the text of a value interned is a parameter.
\<close>

datatype ssl_string = SslCopy string | SslInside string

fun ssl_text :: "ssl_string \<Rightarrow> string" where
  "ssl_text (SslCopy s) = c_str s"
| "ssl_text (SslInside s) = c_str s"

fun converted_string :: "zval \<Rightarrow> bool" where
  "converted_string ZNull = False"
| "converted_string (ZRef z) = converted_string z"
| "converted_string (ZString _) = False"
| "converted_string _ = True"

definition php_phongo_fetch_ssl_opt_string :: "class_env \<Rightarrow> (zval \<Rightarrow> bool) \<Rightarrow> ht \<Rightarrow> string \<Rightarrow> ssl_string option" where
  "php_phongo_fetch_ssl_opt_string E interned zoptions key =
     (case php_array_fetch zoptions key of
        None \<Rightarrow> None
      | Some z \<Rightarrow> map_option (if converted_string z \<and> \<not> interned z then SslInside else SslCopy)
                   (php_array_zval_to_string E (Some z)))"

text \<open>\<^verbatim>\<open>efree\<close> of such a string; None is a pointer the allocator does not know.\<close>

fun efree_ssl_string :: "ssl_string \<Rightarrow> unit option" where
  "efree_ssl_string (SslCopy s) = Some ()"
| "efree_ssl_string (SslInside s) = None"

definition php_phongo_apply_driver_option_to_uri ::
    "('uri, 'rc, 'rp, 'wc) uri_ops \<Rightarrow> class_env \<Rightarrow> (zval \<Rightarrow> bool) \<Rightarrow> ht \<Rightarrow> string \<Rightarrow> uri_key \<Rightarrow> 'uri \<Rightarrow> 'uri option option" where
  "php_phongo_apply_driver_option_to_uri U E interned zoptions driverOptionKey optionKey uri =
     Option.bind (php_phongo_fetch_ssl_opt_string E interned zoptions driverOptionKey) (\<lambda>value.
     Option.bind (efree_ssl_string value) (\<lambda>_.
       Some (mongoc_uri_set_option_as_utf8 U uri (uri_key_name U optionKey) (ssl_text value))))"

text \<open>
  The state of the driver options: the URI and the deprecation warnings, oldest first.  One
  option, one of a boolean and one of a string, with the key that is checked first and the one
  checked when the first is not there.
\<close>

type_synonym 'uri driver_step = "('uri \<times> string list) result option"

definition driver_failed :: "string \<Rightarrow> exn" where
  "driver_failed key = invalid_argument (''Failed to parse '' @ dquote key @ '' driver option'')"

fun tls_option_text :: "uri_key \<Rightarrow> string" where
  "tls_option_text MONGOC_URI_TLSALLOWINVALIDHOSTNAMES = ''tlsAllowInvalidHostnames''"
| "tls_option_text MONGOC_URI_TLSALLOWINVALIDCERTIFICATES = ''tlsAllowInvalidCertificates''"
| "tls_option_text MONGOC_URI_TLSCERTIFICATEKEYFILE = ''tlsCertificateKeyFile''"
| "tls_option_text MONGOC_URI_TLSCERTIFICATEKEYFILEPASSWORD = ''tlsCertificateKeyFilePassword''"
| "tls_option_text MONGOC_URI_TLSCAFILE = ''tlsCAFile''"
| "tls_option_text _ = []"

definition deprecated_option :: "bool \<Rightarrow> string \<Rightarrow> uri_key \<Rightarrow> string" where
  "deprecated_option context key k = ''The '' @ dquote key @ (if context then '' context'' else [])
     @ '' driver option is deprecated. Please use the '' @ dquote (tls_option_text k) @ '' URI option instead.''"

definition driver_set :: "'uri option \<Rightarrow> string \<Rightarrow> string \<Rightarrow> string list \<Rightarrow> ('uri \<times> string list) result" where
  "driver_set r key warning ws = (case r of None \<Rightarrow> Inl (driver_failed key) | Some u \<Rightarrow> Inr (u, ws @ [warning]))"

definition driver_bool ::
    "('uri, 'rc, 'rp, 'wc) uri_ops \<Rightarrow> ht \<Rightarrow> string \<Rightarrow> bool \<Rightarrow> uri_key \<Rightarrow> 'uri \<times> string list \<Rightarrow> 'uri driver_step" where
  "driver_bool U zoptions key context k st = Some (driver_set
     (mongoc_uri_set_option_as_bool U (fst st) (uri_key_name U k) (php_array_fetch_bool zoptions key))
     key (deprecated_option context key k) (snd st))"

definition driver_utf8 ::
    "('uri, 'rc, 'rp, 'wc) uri_ops \<Rightarrow> class_env \<Rightarrow> (zval \<Rightarrow> bool) \<Rightarrow> ht \<Rightarrow> string \<Rightarrow> bool \<Rightarrow> uri_key
       \<Rightarrow> 'uri \<times> string list \<Rightarrow> 'uri driver_step" where
  "driver_utf8 U E interned zoptions key context k st = map_option
     (\<lambda>r. driver_set r key (deprecated_option context key k) (snd st))
     (php_phongo_apply_driver_option_to_uri U E interned zoptions key k (fst st))"

definition driver_then :: "'uri driver_step \<Rightarrow> ('uri \<times> string list \<Rightarrow> 'uri driver_step) \<Rightarrow> 'uri driver_step" where
  "driver_then r k = (case r of None \<Rightarrow> None | Some (Inl e) \<Rightarrow> Some (Inl e) | Some (Inr st) \<Rightarrow> k st)"

text \<open>An option and its older name.\<close>

definition first_of :: "ht \<Rightarrow> string \<Rightarrow> string \<Rightarrow> (string \<Rightarrow> bool \<Rightarrow> 's \<Rightarrow> 's result option) \<Rightarrow> 's \<Rightarrow> 's result option" where
  "first_of zoptions key context_key setter st =
     (if php_array_exists zoptions key then setter key False st
      else if php_array_exists zoptions context_key then setter context_key True st
      else Some (Inr st))"

definition php_phongo_apply_driver_options_to_uri ::
    "('uri, 'rc, 'rp, 'wc) uri_ops \<Rightarrow> class_env \<Rightarrow> (zval \<Rightarrow> bool) \<Rightarrow> ht option \<Rightarrow> 'uri \<Rightarrow> 'uri driver_step" where
  "php_phongo_apply_driver_options_to_uri U E interned zoptions uri = (case zoptions of
     None \<Rightarrow> Some (Inr (uri, []))
   | Some h \<Rightarrow>
       driver_then (if php_array_exists h ''allow_invalid_hostname''
         then driver_bool U h ''allow_invalid_hostname'' False MONGOC_URI_TLSALLOWINVALIDHOSTNAMES (uri, []) else Some (Inr (uri, []))) (\<lambda>s1.
       driver_then (first_of h ''weak_cert_validation'' ''allow_self_signed''
         (\<lambda>key context. driver_bool U h key context MONGOC_URI_TLSALLOWINVALIDCERTIFICATES) s1) (\<lambda>s2.
       driver_then (first_of h ''pem_file'' ''local_cert''
         (\<lambda>key context. driver_utf8 U E interned h key context MONGOC_URI_TLSCERTIFICATEKEYFILE) s2) (\<lambda>s3.
       driver_then (first_of h ''pem_pwd'' ''passphrase''
         (\<lambda>key context. driver_utf8 U E interned h key context MONGOC_URI_TLSCERTIFICATEKEYFILEPASSWORD) s3) (\<lambda>s4.
       first_of h ''ca_file'' ''cafile''
         (\<lambda>key context. driver_utf8 U E interned h key context MONGOC_URI_TLSCAFILE) s4)))))"

section \<open>TLS options of a client\<close>

record mongoc_ssl_opt_t =
  ssl_pem_file :: "ssl_string option"
  ssl_pem_pwd :: "ssl_string option"
  ssl_ca_file :: "ssl_string option"
  ssl_ca_dir :: "ssl_string option"
  ssl_crl_file :: "ssl_string option"
  ssl_weak_cert_validation :: bool
  ssl_allow_invalid_hostname :: bool

text \<open>The TLS library the extension was built with.\<close>

record ssl_build =
  ssl_no_ca_dir :: bool
  ssl_no_crl_file :: bool

definition ssl_opt_zero :: mongoc_ssl_opt_t where
  "ssl_opt_zero = \<lparr>ssl_pem_file = None, ssl_pem_pwd = None, ssl_ca_file = None, ssl_ca_dir = None, ssl_crl_file = None,
     ssl_weak_cert_validation = False, ssl_allow_invalid_hostname = False\<rparr>"

definition php_phongo_mongoc_ssl_opts_from_uri :: "('uri, 'rc, 'rp, 'wc) uri_ops \<Rightarrow> mongoc_ssl_opt_t \<Rightarrow> 'uri \<Rightarrow> bool \<Rightarrow> mongoc_ssl_opt_t \<times> bool" where
  "php_phongo_mongoc_ssl_opts_from_uri U ssl_opt uri any_ssl_option_set =
     (let insecure = mongoc_uri_get_option_as_bool U uri (uri_key_name U MONGOC_URI_TLSINSECURE) False;
          utf8 = (\<lambda>k. map_option SslCopy (mongoc_uri_get_option_as_utf8 U uri (uri_key_name U k) None));
          o1 = ssl_opt\<lparr>ssl_pem_file := utf8 MONGOC_URI_TLSCERTIFICATEKEYFILE,
                 ssl_pem_pwd := utf8 MONGOC_URI_TLSCERTIFICATEKEYFILEPASSWORD,
                 ssl_ca_file := utf8 MONGOC_URI_TLSCAFILE,
                 ssl_weak_cert_validation :=
                   mongoc_uri_get_option_as_bool U uri (uri_key_name U MONGOC_URI_TLSALLOWINVALIDCERTIFICATES) insecure,
                 ssl_allow_invalid_hostname :=
                   mongoc_uri_get_option_as_bool U uri (uri_key_name U MONGOC_URI_TLSALLOWINVALIDHOSTNAMES) insecure\<rparr> in
      (o1, any_ssl_option_set \<or> ssl_pem_file o1 \<noteq> None \<or> ssl_pem_pwd o1 \<noteq> None \<or> ssl_ca_file o1 \<noteq> None
         \<or> ssl_weak_cert_validation o1 \<or> ssl_allow_invalid_hostname o1))"

text \<open>
  The options, and whether "capath" is reported deprecated.  The strings that
  \<^verbatim>\<open>PHONGO_SSL_OPTION_SWAP_STRING\<close> replaces are null before.
\<close>

definition ssl_driver_strings :: "class_env \<Rightarrow> (zval \<Rightarrow> bool) \<Rightarrow> ht \<Rightarrow> mongoc_ssl_opt_t \<times> bool \<Rightarrow> (mongoc_ssl_opt_t \<times> bool) \<times> bool" where
  "ssl_driver_strings E interned zoptions st =
     (let (o1, any) = st;
          (o2, any2, deprecated) =
            (if php_array_exists zoptions ''ca_dir''
             then (o1\<lparr>ssl_ca_dir := php_phongo_fetch_ssl_opt_string E interned zoptions ''ca_dir''\<rparr>, True, False)
             else if php_array_exists zoptions ''capath''
             then (o1\<lparr>ssl_ca_dir := php_phongo_fetch_ssl_opt_string E interned zoptions ''capath''\<rparr>, True, True)
             else (o1, any, False)) in
      ((if php_array_exists zoptions ''crl_file''
        then (o2\<lparr>ssl_crl_file := php_phongo_fetch_ssl_opt_string E interned zoptions ''crl_file''\<rparr>, True)
        else (o2, any2)), deprecated))"

definition php_phongo_make_ssl_opt ::
    "ssl_build \<Rightarrow> ('uri, 'rc, 'rp, 'wc) uri_ops \<Rightarrow> class_env \<Rightarrow> (zval \<Rightarrow> bool) \<Rightarrow> 'uri \<Rightarrow> ht option
       \<Rightarrow> (mongoc_ssl_opt_t option \<times> bool) result" where
  "php_phongo_make_ssl_opt B U E interned uri zoptions = (case zoptions of
     None \<Rightarrow> Inr (None, False)
   | Some h \<Rightarrow>
       if ssl_no_ca_dir B \<and> php_array_exists h ''ca_dir''
         then Inl (invalid_argument (dquote ''ca_dir'' @ '' option is not supported by Secure Channel and Secure Transport''))
       else if ssl_no_ca_dir B \<and> php_array_exists h ''capath''
         then Inl (invalid_argument (dquote ''capath'' @ '' option is not supported by Secure Channel and Secure Transport''))
       else if ssl_no_crl_file B \<and> php_array_exists h ''crl_file''
         then Inl (invalid_argument (dquote ''crl_file'' @ '' option is not supported by LibreSSL and Secure Transport''))
       else let st = (if mongoc_uri_get_tls U uri then php_phongo_mongoc_ssl_opts_from_uri U ssl_opt_zero uri False
                      else (ssl_opt_zero, False));
                ((o2, any), deprecated) = ssl_driver_strings E interned h st in
            Inr (if any then Some o2 else None, deprecated))"

text \<open>None: one of the strings was not returned by the allocator.\<close>

definition php_phongo_free_ssl_opt :: "mongoc_ssl_opt_t \<Rightarrow> unit option" where
  "php_phongo_free_ssl_opt ssl_opt =
     (let free = (\<lambda>p. case p of None \<Rightarrow> Some () | Some s \<Rightarrow> efree_ssl_string s) in
      Option.bind (free (ssl_pem_file ssl_opt)) (\<lambda>_. Option.bind (free (ssl_pem_pwd ssl_opt)) (\<lambda>_.
      Option.bind (free (ssl_ca_file ssl_opt)) (\<lambda>_. Option.bind (free (ssl_ca_dir ssl_opt)) (\<lambda>_.
        free (ssl_crl_file ssl_opt))))))"

end
