(* ===== verification/Driver_Uri_Props.thy ===== *)
theory Driver_Uri_Props
  imports Driver_Uri
begin

text \<open>
  What the passes over the URI options achieve: the write concern and the read preference that
  the loops leave, as functions of the last option of each name, and what holds of a URI that
  passed the checks.
\<close>

section \<open>The contract of libmongoc's URI\<close>

text \<open>
  Documented: the option names differ in more than case; an authSource can be set to "$external",
  is found among the credentials then, and nothing else that the checks read changes; a concern
  that is set is read back.
\<close>

definition uri_contract :: "('uri, 'rc, 'rp, 'wc) uri_ops \<Rightarrow> bool" where
  "uri_contract U \<longleftrightarrow>
     (\<forall>a b. c_strcaseeq (uri_key_name U a) (uri_key_name U b) \<longrightarrow> a = b)
   \<and> (\<forall>uri. \<exists>u. mongoc_uri_set_auth_source U uri external_source = Some u
        \<and> bson_find_case U (mongoc_uri_get_credentials U u) MONGOC_URI_AUTHSOURCE = Some (BUtf8 external_source)
        \<and> mongoc_uri_get_auth_mechanism U u = mongoc_uri_get_auth_mechanism U uri
        \<and> mongoc_uri_get_username U u = mongoc_uri_get_username U uri
        \<and> mongoc_uri_get_password U u = mongoc_uri_get_password U uri)
   \<and> (\<forall>uri rc. mongoc_uri_get_read_concern U (mongoc_uri_set_read_concern U uri rc) = Some rc)
   \<and> (\<forall>uri rp. mongoc_uri_get_read_prefs_t U (mongoc_uri_set_read_prefs_t U uri rp) = Some rp)
   \<and> (\<forall>uri wc. mongoc_uri_get_write_concern U (mongoc_uri_set_write_concern U uri wc) = Some wc)"

lemma c_strcaseeq_via: "c_strcaseeq k a \<Longrightarrow> c_strcaseeq k b \<longleftrightarrow> c_strcaseeq a b"
  by (simp add: c_strcaseeq_def)

lemma key_unique:
  assumes "uri_contract U" and "is_key U key a"
  shows "is_key U key b \<longleftrightarrow> a = b"
proof -
  have "is_key U key b \<longleftrightarrow> c_strcaseeq (uri_key_name U a) (uri_key_name U b)"
    using assms(2) unfolding is_key_def by (rule c_strcaseeq_via)
  then show ?thesis using assms(1) unfolding uri_contract_def by (auto simp: c_strcaseeq_def)
qed

section \<open>The last option of a name\<close>

definition last_option :: "('uri, 'rc, 'rp, 'wc) uri_ops \<Rightarrow> uri_key \<Rightarrow> (string \<times> bval) list \<Rightarrow> bval option" where
  "last_option U k opts = map_option snd (find (\<lambda>(key, v). is_key U key k) (rev opts))"

lemma last_option_Nil [simp]: "last_option U k [] = None"
  by (simp add: last_option_def)

lemma last_option_snoc [simp]:
  "last_option U k (opts @ [kv]) = (if is_key U (fst kv) k then Some (snd kv) else last_option U k opts)"
  by (auto simp: last_option_def split_beta)

lemma last_option_None: "last_option U k opts = None \<longleftrightarrow> (\<forall>kv \<in> set opts. \<not> is_key U (fst kv) k)"
  by (induction opts rule: rev_induct) auto

section \<open>The write concern of the options\<close>

text \<open>The parts of the write concern, by the last option of each name; "safe" only counts without "w".\<close>

fun w_of_value :: "'wc write_concern_ops \<Rightarrow> bval \<Rightarrow> write_concern_view \<Rightarrow> write_concern_view" where
  "w_of_value W (BInt32 i) v = v\<lparr>wcv_wtag := None, wcv_w := i, wcv_majority := (i = MONGOC_WRITE_CONCERN_W_MAJORITY W)\<rparr>"
| "w_of_value W (BUtf8 s) v =
     (if c_strcaseeq PHONGO_WRITE_CONCERN_W_MAJORITY (c_str s)
      then v\<lparr>wcv_wtag := None, wcv_w := MONGOC_WRITE_CONCERN_W_MAJORITY W, wcv_majority := True\<rparr>
      else v\<lparr>wcv_wtag := Some (c_str s), wcv_w := MONGOC_WRITE_CONCERN_W_TAG W, wcv_majority := False\<rparr>)"
| "w_of_value W (BBool b) v = (let w = (if b then 1 else MONGOC_WRITE_CONCERN_W_UNACKNOWLEDGED W) in
     v\<lparr>wcv_wtag := None, wcv_w := w, wcv_majority := (w = MONGOC_WRITE_CONCERN_W_MAJORITY W)\<rparr>)"
| "w_of_value W _ v = v"

fun journal_of_value :: "bval \<Rightarrow> write_concern_view \<Rightarrow> write_concern_view" where
  "journal_of_value (BBool b) v = v\<lparr>wcv_journal := Some b\<rparr>"
| "journal_of_value _ v = v"

fun wtimeout_of_value :: "bval \<Rightarrow> write_concern_view \<Rightarrow> write_concern_view" where
  "wtimeout_of_value (BInt32 i) v = v\<lparr>wcv_wtimeout := i\<rparr>"
| "wtimeout_of_value (BInt64 i) v = v\<lparr>wcv_wtimeout := i\<rparr>"
| "wtimeout_of_value _ v = v"

definition by_option :: "(bval \<Rightarrow> 'v \<Rightarrow> 'v) \<Rightarrow> bval option \<Rightarrow> 'v \<Rightarrow> 'v" where
  "by_option f x v = (case x of None \<Rightarrow> v | Some b \<Rightarrow> f b v)"

definition w_option :: "('uri, 'rc, 'rp, 'wc) uri_ops \<Rightarrow> (string \<times> bval) list \<Rightarrow> bval option" where
  "w_option U opts = (case last_option U MONGOC_URI_W opts of
     Some x \<Rightarrow> Some x | None \<Rightarrow> last_option U MONGOC_URI_SAFE opts)"

definition wc_spec :: "('uri, 'rc, 'rp, 'wc) uri_ops \<Rightarrow> 'wc write_concern_ops \<Rightarrow> (string \<times> bval) list \<Rightarrow> write_concern_view
    \<Rightarrow> write_concern_view" where
  "wc_spec U W opts v = by_option wtimeout_of_value (last_option U MONGOC_URI_WTIMEOUTMS opts)
     (by_option journal_of_value (last_option U MONGOC_URI_JOURNAL opts)
     (by_option (w_of_value W) (w_option U opts) v))"

text \<open>What every option of the list has to be.\<close>

fun w_value_ok :: "'wc write_concern_ops \<Rightarrow> bval \<Rightarrow> bool" where
  "w_value_ok W (BInt32 i) \<longleftrightarrow> i > 0 \<or> i = MONGOC_WRITE_CONCERN_W_UNACKNOWLEDGED W \<or> i = MONGOC_WRITE_CONCERN_W_ERRORS_IGNORED W"
| "w_value_ok W (BUtf8 s) \<longleftrightarrow> True"
| "w_value_ok W _ \<longleftrightarrow> False"

fun is_bool_value :: "bval \<Rightarrow> bool" where
  "is_bool_value (BBool b) = True"
| "is_bool_value _ = False"

fun nonneg_int_value :: "bval \<Rightarrow> bool" where
  "nonneg_int_value (BInt32 i) = (0 \<le> i)"
| "nonneg_int_value (BInt64 i) = (0 \<le> i)"
| "nonneg_int_value _ = False"

definition wc_option_ok :: "('uri, 'rc, 'rp, 'wc) uri_ops \<Rightarrow> 'wc write_concern_ops \<Rightarrow> (string \<times> bval) list \<Rightarrow> string \<times> bval \<Rightarrow> bool" where
  "wc_option_ok U W before kv \<longleftrightarrow>
     (is_key U (fst kv) MONGOC_URI_SAFE \<longrightarrow> last_option U MONGOC_URI_W before \<noteq> None \<or> is_bool_value (snd kv))
   \<and> (is_key U (fst kv) MONGOC_URI_WTIMEOUTMS \<longrightarrow> nonneg_int_value (snd kv))
   \<and> (is_key U (fst kv) MONGOC_URI_JOURNAL \<longrightarrow> is_bool_value (snd kv))
   \<and> (is_key U (fst kv) MONGOC_URI_W \<longrightarrow> w_value_ok W (snd kv))"

definition wc_options_ok :: "('uri, 'rc, 'rp, 'wc) uri_ops \<Rightarrow> 'wc write_concern_ops \<Rightarrow> (string \<times> bval) list \<Rightarrow> bool" where
  "wc_options_ok U W opts \<longleftrightarrow> (\<forall>i < length opts. wc_option_ok U W (take i opts) (opts ! i))"

lemma wc_options_ok_Nil [simp]: "wc_options_ok U W []"
  by (simp add: wc_options_ok_def)

lemma wc_options_ok_snoc [simp]:
  "wc_options_ok U W (opts @ [kv]) \<longleftrightarrow> wc_options_ok U W opts \<and> wc_option_ok U W opts kv"
  by (auto simp: wc_options_ok_def nth_append less_Suc_eq)

text \<open>The setters, by what can be read afterwards.\<close>

lemma wc_setters:
  assumes "write_concern_contract W"
  shows "-3 \<le> w \<Longrightarrow> wc_view W (mongoc_write_concern_set_w W wc w) = (wc_view W wc)\<lparr>wcv_wtag := None, wcv_w := w,
       wcv_majority := (w = MONGOC_WRITE_CONCERN_W_MAJORITY W)\<rparr>"
    and "CHR 0x00 \<notin> set t \<Longrightarrow> wc_view W (mongoc_write_concern_set_wtag W wc t) = (wc_view W wc)\<lparr>wcv_wtag := Some t,
       wcv_w := MONGOC_WRITE_CONCERN_W_TAG W, wcv_majority := False\<rparr>"
    and "-3 \<le> MONGOC_WRITE_CONCERN_W_MAJORITY W" "-3 \<le> MONGOC_WRITE_CONCERN_W_UNACKNOWLEDGED W"
      "-3 \<le> MONGOC_WRITE_CONCERN_W_ERRORS_IGNORED W"
    and "mongoc_write_concern_get_journal W wc \<Longrightarrow> mongoc_write_concern_journal_is_set W wc"
  using assms unfolding write_concern_contract_def by blast+

text \<open>One step of the loop, by the name of the option.\<close>

definition wc_step_view :: "('uri, 'rc, 'rp, 'wc) uri_ops \<Rightarrow> 'wc write_concern_ops \<Rightarrow> (string \<times> bval) list \<Rightarrow> string \<times> bval
    \<Rightarrow> write_concern_view \<Rightarrow> write_concern_view" where
  "wc_step_view U W before kv v =
     (if is_key U (fst kv) MONGOC_URI_W \<or> is_key U (fst kv) MONGOC_URI_SAFE \<and> last_option U MONGOC_URI_W before = None
      then w_of_value W (snd kv) v
      else if is_key U (fst kv) MONGOC_URI_JOURNAL then journal_of_value (snd kv) v
      else if is_key U (fst kv) MONGOC_URI_WTIMEOUTMS then wtimeout_of_value (snd kv) v
      else v)"

lemma w_of_value_last:
  "w_value_ok W x \<or> is_bool_value x \<Longrightarrow> w_of_value W x (w_of_value W y v) = w_of_value W x v"
  by (cases x; cases y) (auto simp: Let_def)

lemma view_parts_commute:
  "w_of_value W x (journal_of_value y v) = journal_of_value y (w_of_value W x v)"
  "w_of_value W x (wtimeout_of_value y v) = wtimeout_of_value y (w_of_value W x v)"
  "journal_of_value x (wtimeout_of_value y v) = wtimeout_of_value y (journal_of_value x v)"
  by (cases x; cases y; simp add: Let_def)+

lemma view_parts_last:
  "is_bool_value x \<Longrightarrow> journal_of_value x (journal_of_value y v) = journal_of_value x v"
  "nonneg_int_value x \<Longrightarrow> wtimeout_of_value x (wtimeout_of_value y v) = wtimeout_of_value x v"
  by (cases x; cases y; simp)+

lemma wc_spec_snoc:
  assumes U: "uri_contract U" and ok: "wc_option_ok U W opts kv"
  shows "wc_spec U W (opts @ [kv]) v = wc_step_view U W opts kv (wc_spec U W opts v)"
proof -
  note u = key_unique[OF U]
  have one: "is_key U (fst kv) k \<Longrightarrow> is_key U (fst kv) k' \<longleftrightarrow> k = k'" for k k' by (rule u)
  consider (w) "is_key U (fst kv) MONGOC_URI_W" | (safe) "is_key U (fst kv) MONGOC_URI_SAFE"
    | (j) "is_key U (fst kv) MONGOC_URI_JOURNAL" | (t) "is_key U (fst kv) MONGOC_URI_WTIMEOUTMS"
    | (none) "\<not> is_key U (fst kv) MONGOC_URI_W" "\<not> is_key U (fst kv) MONGOC_URI_SAFE"
        "\<not> is_key U (fst kv) MONGOC_URI_JOURNAL" "\<not> is_key U (fst kv) MONGOC_URI_WTIMEOUTMS" by blast
  then show ?thesis
  proof cases
    case w
    then show ?thesis using ok
      by (auto simp: one[OF w] wc_spec_def wc_step_view_def w_option_def by_option_def wc_option_ok_def view_parts_commute
          w_of_value_last split: option.split)
  next
    case safe
    then show ?thesis using ok
      by (auto simp: one[OF safe] wc_spec_def wc_step_view_def w_option_def by_option_def wc_option_ok_def view_parts_commute
          w_of_value_last split: option.split)
  next
    case j
    then show ?thesis using ok
      by (auto simp: one[OF j] wc_spec_def wc_step_view_def w_option_def by_option_def wc_option_ok_def view_parts_commute
          view_parts_last split: option.split)
  next
    case t
    then show ?thesis using ok
      by (auto simp: one[OF t] wc_spec_def wc_step_view_def w_option_def by_option_def wc_option_ok_def view_parts_commute
          view_parts_last split: option.split)
  next
    case none
    then show ?thesis by (auto simp: wc_spec_def wc_step_view_def w_option_def split: option.split)
  qed
qed

lemma apply_wc_w_spec:
  assumes "write_concern_contract W"
  shows "case apply_wc_w W key v wc of Inl e \<Rightarrow> \<not> w_value_ok W v
    | Inr wc' \<Rightarrow> w_value_ok W v \<and> wc_view W wc' = w_of_value W v (wc_view W wc)"
  by (cases v) (auto simp: apply_wc_w_def wc_setters[OF assms] c_str_no_nul)

lemma apply_wc_safe_spec:
  assumes "write_concern_contract W"
  shows "case apply_wc_safe W key v wc of Inl e \<Rightarrow> \<not> is_bool_value v
    | Inr wc' \<Rightarrow> is_bool_value v \<and> wc_view W wc' = w_of_value W v (wc_view W wc)"
  by (cases v) (auto simp: apply_wc_safe_def wc_setters[OF assms] Let_def)

lemma apply_wc_journal_spec:
  assumes "write_concern_contract W"
  shows "case apply_wc_journal W key v wc of Inl e \<Rightarrow> \<not> is_bool_value v
    | Inr wc' \<Rightarrow> is_bool_value v \<and> wc_view W wc' = journal_of_value v (wc_view W wc)"
  by (cases v) (auto simp: apply_wc_journal_def contract_views[OF assms])

lemma apply_wc_wtimeout_spec:
  assumes "write_concern_contract W"
  shows "case apply_wc_wtimeout W key v wc of Inl e \<Rightarrow> \<not> nonneg_int_value v
    | Inr wc' \<Rightarrow> nonneg_int_value v \<and> wc_view W wc' = wtimeout_of_value v (wc_view W wc)"
  by (cases v) (auto simp: apply_wc_wtimeout_def uri_int_def contract_views[OF assms])

definition wc_step_ok :: "('uri, 'rc, 'rp, 'wc) uri_ops \<Rightarrow> 'wc write_concern_ops \<Rightarrow> (string \<times> bval) list \<Rightarrow> string \<times> bval \<Rightarrow> 'wc
    \<Rightarrow> ('wc \<times> bool) result \<Rightarrow> bool" where
  "wc_step_ok U W before kv wc r = (case r of Inl e \<Rightarrow> \<not> wc_option_ok U W before kv
     | Inr (wc', ign) \<Rightarrow> wc_option_ok U W before kv \<and> wc_view W wc' = wc_step_view U W before kv (wc_view W wc)
         \<and> ign = (last_option U MONGOC_URI_W (before @ [kv]) \<noteq> None))"

lemma apply_wc_option_spec:
  assumes U: "uri_contract U" and W: "write_concern_contract W"
  shows "wc_step_ok U W before kv wc (apply_wc_option U W kv (wc, last_option U MONGOC_URI_W before \<noteq> None))"
proof -
  have one: "is_key U (fst kv) k \<Longrightarrow> is_key U (fst kv) k' \<longleftrightarrow> k = k'" for k k' by (rule key_unique[OF U])
  note defs = apply_wc_option_def wc_step_ok_def wc_option_ok_def wc_step_view_def Let_def bind_r_def
  consider (w) "is_key U (fst kv) MONGOC_URI_W" | (safe) "is_key U (fst kv) MONGOC_URI_SAFE"
    | (j) "is_key U (fst kv) MONGOC_URI_JOURNAL" | (t) "is_key U (fst kv) MONGOC_URI_WTIMEOUTMS"
    | (none) "\<not> is_key U (fst kv) MONGOC_URI_W" "\<not> is_key U (fst kv) MONGOC_URI_SAFE"
        "\<not> is_key U (fst kv) MONGOC_URI_JOURNAL" "\<not> is_key U (fst kv) MONGOC_URI_WTIMEOUTMS" by blast
  then show ?thesis
  proof cases
    case w
    then show ?thesis using apply_wc_w_spec[OF W, where key = "fst kv" and v = "snd kv" and wc = wc]
      by (auto simp: one[OF w] defs split: sum.splits)
  next
    case safe
    then show ?thesis using apply_wc_safe_spec[OF W, where key = "fst kv" and v = "snd kv" and wc = wc]
      by (auto simp: one[OF safe] defs split: sum.splits)
  next
    case j
    then show ?thesis using apply_wc_journal_spec[OF W, where key = "fst kv" and v = "snd kv" and wc = wc]
      by (auto simp: one[OF j] defs split: sum.splits)
  next
    case t
    then show ?thesis using apply_wc_wtimeout_spec[OF W, where key = "fst kv" and v = "snd kv" and wc = wc]
      by (auto simp: one[OF t] defs split: sum.splits)
  next
    case none
    then show ?thesis by (simp add: defs)
  qed
qed

lemma wc_loop_spec:
  assumes U: "uri_contract U" and W: "write_concern_contract W"
  shows "case fold_r (apply_wc_option U W) opts (old_wc, False) of Inl e \<Rightarrow> \<not> wc_options_ok U W opts
    | Inr (wc, ign) \<Rightarrow> wc_options_ok U W opts \<and> wc_view W wc = wc_spec U W opts (wc_view W old_wc)
        \<and> ign = (last_option U MONGOC_URI_W opts \<noteq> None)"
proof (induction opts rule: rev_induct)
  case Nil
  show ?case by (simp add: wc_spec_def w_option_def by_option_def)
next
  case (snoc kv opts)
  show ?case
  proof (cases "fold_r (apply_wc_option U W) opts (old_wc, False)")
    case (Inl e)
    then show ?thesis using snoc by (simp add: fold_r_snoc)
  next
    case (Inr st)
    obtain wc ign where st: "st = (wc, ign)" by (cases st)
    have *: "wc_options_ok U W opts" "wc_view W wc = wc_spec U W opts (wc_view W old_wc)"
      "ign = (last_option U MONGOC_URI_W opts \<noteq> None)" using snoc Inr st by simp_all
    have "wc_step_ok U W opts kv wc (apply_wc_option U W kv (wc, ign))"
      unfolding *(3) by (rule apply_wc_option_spec[OF U W])
    then show ?thesis using Inr st *(1,2)
      by (auto simp: fold_r_snoc wc_step_ok_def wc_spec_snoc[OF U] split: sum.splits)
  qed
qed

text \<open>The check after the loop, by what can be read.\<close>

definition wc_view_conflict :: "'wc write_concern_ops \<Rightarrow> write_concern_view \<Rightarrow> bool" where
  "wc_view_conflict W v \<longleftrightarrow> wcv_journal v = Some True
     \<and> (wcv_w v = MONGOC_WRITE_CONCERN_W_UNACKNOWLEDGED W \<or> wcv_w v = MONGOC_WRITE_CONCERN_W_ERRORS_IGNORED W)"

lemma journal_conflict_view:
  assumes "write_concern_contract W"
  shows "mongoc_write_concern_get_journal W wc \<and> w_forbids_journal W wc \<longleftrightarrow> wc_view_conflict W (wc_view W wc)"
  using wc_setters(6)[OF assms, of wc] by (auto simp: wc_view_conflict_def wc_view_def w_forbids_journal_def)

definition wc_view_valid :: "'wc write_concern_ops \<Rightarrow> write_concern_view \<Rightarrow> bool" where
  "wc_view_valid W v \<longleftrightarrow> (\<forall>wc. wc_view W wc = v \<longrightarrow> mongoc_write_concern_is_valid W wc)"

lemma wc_view_valid_iff:
  "write_concern_contract W \<Longrightarrow> wc_view_valid W (wc_view W wc) \<longleftrightarrow> mongoc_write_concern_is_valid W wc"
  unfolding wc_view_valid_def by (metis contract_valid)

lemma uri_write_concern:
  assumes U: "uri_contract U" and W: "write_concern_contract W"
    and old: "mongoc_uri_get_write_concern U uri = Some old_wc" and ne: "\<not> bson_empty options"
  shows "case php_phongo_apply_wc_options_to_uri U W options uri of
      Inl e \<Rightarrow> \<not> (wc_options_ok U W (doc_elems options) \<and> \<not> wc_view_conflict W (wc_spec U W (doc_elems options) (wc_view W old_wc))
                  \<and> wc_view_valid W (wc_spec U W (doc_elems options) (wc_view W old_wc)))
    | Inr u \<Rightarrow> wc_options_ok U W (doc_elems options)
        \<and> (\<exists>wc. mongoc_uri_get_write_concern U u = Some wc
             \<and> wc_view W wc = wc_spec U W (doc_elems options) (wc_view W old_wc)
             \<and> \<not> wc_view_conflict W (wc_view W wc) \<and> wc_view_valid W (wc_view W wc))"
proof -
  let ?opts = "doc_elems options"
  have rb: "mongoc_uri_get_write_concern U (mongoc_uri_set_write_concern U uri wc) = Some wc" for wc
    using U unfolding uri_contract_def by blast
  show ?thesis
  proof (cases "fold_r (apply_wc_option U W) ?opts (old_wc, False)")
    case (Inl e)
    then show ?thesis using wc_loop_spec[OF U W, of ?opts old_wc] old ne
      by (simp add: php_phongo_apply_wc_options_to_uri_def)
  next
    case (Inr st)
    obtain wc ign where st: "st = (wc, ign)" by (cases st)
    have *: "wc_options_ok U W ?opts" "wc_view W wc = wc_spec U W ?opts (wc_view W old_wc)"
      using wc_loop_spec[OF U W, of ?opts old_wc] Inr st by simp_all
    show ?thesis using Inr st old ne * rb
      by (simp add: php_phongo_apply_wc_options_to_uri_def uri_check_wc_def journal_conflict_view[OF W]
          wc_view_valid_iff[OF W, of wc, unfolded *(2)])
  qed
qed

section \<open>The read preference of the options\<close>

text \<open>What the loop keeps, before the checks for mode primary.\<close>

definition rp_loop_ok :: "'rp read_prefs_ops \<Rightarrow> 'rp \<Rightarrow> bool" where
  "rp_loop_ok RP rp \<longleftrightarrow> mongoc_read_prefs_get_mode RP rp \<in> set (read_modes RP)
     \<and> php_phongo_read_preference_tags_are_valid (mongoc_read_prefs_get_tags RP rp)
     \<and> (mongoc_read_prefs_get_max_staleness_seconds RP rp = MONGOC_NO_MAX_STALENESS RP
        \<or> MONGOC_SMALLEST_MAX_STALENESS_SECONDS RP \<le> mongoc_read_prefs_get_max_staleness_seconds RP rp
          \<and> mongoc_read_prefs_get_max_staleness_seconds RP rp \<le> 2147483647)
     \<and> bson_empty (mongoc_read_prefs_get_hedge RP rp)"

lemma read_prefs_set_mode:
  assumes "read_prefs_contract RP" and "m \<in> set (read_modes RP)"
  shows "mongoc_read_prefs_get_mode RP (mongoc_read_prefs_set_mode RP rp m) = m"
    and "mongoc_read_prefs_get_tags RP (mongoc_read_prefs_set_mode RP rp m) = mongoc_read_prefs_get_tags RP rp"
    and "mongoc_read_prefs_get_max_staleness_seconds RP (mongoc_read_prefs_set_mode RP rp m)
          = mongoc_read_prefs_get_max_staleness_seconds RP rp"
    and "mongoc_read_prefs_get_hedge RP (mongoc_read_prefs_set_mode RP rp m) = mongoc_read_prefs_get_hedge RP rp"
  using assms by (simp_all add: read_prefs_contract_def rp_view_def)

lemma uri_mode_range: "uri_mode RP s = Some m \<Longrightarrow> m \<in> set (read_modes RP)"
  by (auto simp: uri_mode_def read_modes_def split: if_splits)

lemma uri_utf8_Inr: "uri_utf8 key v k = Inr r \<longleftrightarrow> (\<exists>s. v = BUtf8 s \<and> k (c_str s) = Inr r)"
  by (cases v) (auto simp: uri_utf8_def)

lemma uri_int_Inr: "uri_int key v k = Inr r \<longleftrightarrow> (\<exists>i. (v = BInt32 i \<or> v = BInt64 i) \<and> k i = Inr r)"
  by (cases v) (auto simp: uri_int_def)

lemma uri_set_Inr: "uri_set r e = Inr u \<longleftrightarrow> r = Some u"
  by (cases r) (auto simp: uri_set_def)

lemma apply_rp_parts_ok:
  assumes R: "read_prefs_contract RP" and ok: "rp_loop_ok RP rp"
  shows "apply_rp_mode RP key v rp = Inr rp' \<Longrightarrow> rp_loop_ok RP rp'"
    and "apply_rp_tags RP key v rp = Inr rp' \<Longrightarrow> rp_loop_ok RP rp'"
    and "apply_rp_max_staleness RP key v rp = Inr rp' \<Longrightarrow> rp_loop_ok RP rp'"
proof -
  show "apply_rp_mode RP key v rp = Inr rp' \<Longrightarrow> rp_loop_ok RP rp'"
  proof -
    assume "apply_rp_mode RP key v rp = Inr rp'"
    then obtain s m where "uri_mode RP s = Some m" and rp': "rp' = mongoc_read_prefs_set_mode RP rp m"
      by (auto simp: apply_rp_mode_def uri_utf8_Inr split: option.splits)
    then show "rp_loop_ok RP rp'"
      using ok read_prefs_set_mode[OF R uri_mode_range, of s m rp] by (auto simp: rp_loop_ok_def dest: uri_mode_range)
  qed
  show "apply_rp_tags RP key v rp = Inr rp' \<Longrightarrow> rp_loop_ok RP rp'"
    using ok by (cases v) (auto simp: apply_rp_tags_def rp_loop_ok_def read_prefs_fields[OF R] split: if_splits)
  show "apply_rp_max_staleness RP key v rp = Inr rp' \<Longrightarrow> rp_loop_ok RP rp'"
    using ok by (auto simp: apply_rp_max_staleness_def uri_int_Inr rp_loop_ok_def read_prefs_fields[OF R] split: if_splits)
qed

lemma apply_rp_option_ok:
  assumes R: "read_prefs_contract RP" and ok: "rp_loop_ok RP rp" and r: "apply_rp_option U RP kv rp = Inr rp'"
  shows "rp_loop_ok RP rp'"
proof -
  obtain r1 r2 where
    "(if is_key U (fst kv) MONGOC_URI_READPREFERENCE then apply_rp_mode RP (fst kv) (snd kv) rp else Inr rp) = Inr r1"
    "(if is_key U (fst kv) MONGOC_URI_READPREFERENCETAGS then apply_rp_tags RP (fst kv) (snd kv) r1 else Inr r1) = Inr r2"
    "(if is_key U (fst kv) MONGOC_URI_MAXSTALENESSSECONDS then apply_rp_max_staleness RP (fst kv) (snd kv) r2 else Inr r2) = Inr rp'"
    using r unfolding apply_rp_option_def Let_def by (auto simp: bind_r_Inr_iff)
  then show ?thesis using ok apply_rp_parts_ok[OF R] by (metis sum.inject(2))
qed

lemma uri_check_rp_ok: "uri_check_rp RP rp = Inr rp' \<Longrightarrow> rp_loop_ok RP rp \<Longrightarrow> rp' = rp \<and> rp_ok RP rp \<and> mongoc_read_prefs_is_valid RP rp"
  by (auto simp: uri_check_rp_def rp_loop_ok_def rp_ok_def rp_is_primary_def split: if_splits)

lemma uri_read_preference_ok:
  assumes U: "uri_contract U" and R: "read_prefs_contract RP"
    and old: "mongoc_uri_get_read_prefs_t U uri = Some old_rp" "rp_loop_ok RP old_rp"
    and ne: "\<not> bson_empty options" and r: "php_phongo_apply_rp_options_to_uri U RP options uri = Inr u"
  shows "\<exists>rp. mongoc_uri_get_read_prefs_t U u = Some rp \<and> rp_ok RP rp \<and> mongoc_read_prefs_is_valid RP rp"
proof -
  obtain rp1 where l: "fold_r (apply_rp_option U RP) (doc_elems options) old_rp = Inr rp1"
    and c: "uri_check_rp RP rp1 = Inr rp1" and u: "u = mongoc_uri_set_read_prefs_t U uri rp1"
    using r old ne by (auto simp: php_phongo_apply_rp_options_to_uri_def bind_r_Inr_iff uri_check_rp_def split: if_splits)
  have "rp_loop_ok RP rp1"
    using apply_rp_option_ok[OF R] fold_r_keeps[where P = "rp_loop_ok RP", OF _ old(2) l] by blast
  from uri_check_rp_ok[OF c this] show ?thesis using u U unfolding uri_contract_def by blast
qed

text \<open>
  The loop checks the mode as it is when maxStalenessSeconds is reached: the same two options are
  refused in one order and accepted in the other.
\<close>

definition staleness_first :: "('uri, 'rc, 'rp, 'wc) uri_ops \<Rightarrow> int \<Rightarrow> bdoc" where
  "staleness_first U s = BDoc [(uri_key_name U MONGOC_URI_MAXSTALENESSSECONDS, BInt64 s),
     (uri_key_name U MONGOC_URI_READPREFERENCE, BUtf8 ''secondary'')] DocOk"

definition mode_first :: "('uri, 'rc, 'rp, 'wc) uri_ops \<Rightarrow> int \<Rightarrow> bdoc" where
  "mode_first U s = BDoc (rev (doc_elems (staleness_first U s))) DocOk"

lemma is_key_name: "uri_contract U \<Longrightarrow> is_key U (uri_key_name U a) b \<longleftrightarrow> a = b"
  by (rule key_unique) (simp_all add: is_key_def c_strcaseeq_def)

lemma uri_mode_secondary: "uri_mode RP (c_str ''secondary'') = Some (MONGOC_READ_SECONDARY RP)"
  by (simp add: uri_mode_def c_strcaseeq_def c_str_def c_tolower_def)

lemma staleness_order:
  assumes U: "uri_contract U" and R: "read_prefs_contract RP"
    and old: "mongoc_uri_get_read_prefs_t U uri = Some old_rp" "rp_is_primary RP old_rp"
    and s: "MONGOC_SMALLEST_MAX_STALENESS_SECONDS RP \<le> s" "s \<le> 2147483647" "s \<noteq> MONGOC_NO_MAX_STALENESS RP"
    and valid: "\<And>rp. rp_ok RP rp \<Longrightarrow> mongoc_read_prefs_is_valid RP rp" "rp_loop_ok RP old_rp"
  shows "php_phongo_apply_rp_options_to_uri U RP (staleness_first U s) uri
      = Inl (invalid_argument ''Primary read preference mode conflicts with maxStalenessSeconds'')"
    and "\<exists>u rp. php_phongo_apply_rp_options_to_uri U RP (mode_first U s) uri = Inr u
      \<and> mongoc_uri_get_read_prefs_t U u = Some rp \<and> mongoc_read_prefs_get_mode RP rp = MONGOC_READ_SECONDARY RP
      \<and> mongoc_read_prefs_get_max_staleness_seconds RP rp = s"
proof -
  have m: "MONGOC_READ_SECONDARY RP \<in> set (read_modes RP)" "MONGOC_READ_PRIMARY RP \<noteq> MONGOC_READ_SECONDARY RP"
    using R by (auto simp: read_prefs_contract_def read_modes_def)
  note defs = php_phongo_apply_rp_options_to_uri_def bson_empty_def apply_rp_option_def is_key_name[OF U]
    apply_rp_max_staleness_def apply_rp_mode_def uri_int_def uri_utf8_def uri_mode_secondary
  show "php_phongo_apply_rp_options_to_uri U RP (staleness_first U s) uri
      = Inl (invalid_argument ''Primary read preference mode conflicts with maxStalenessSeconds'')"
    using old s by (simp add: defs staleness_first_def)
  let ?rp = "mongoc_read_prefs_set_max_staleness_seconds RP (mongoc_read_prefs_set_mode RP old_rp (MONGOC_READ_SECONDARY RP)) s"
  have f: "mongoc_read_prefs_get_mode RP ?rp = MONGOC_READ_SECONDARY RP" "mongoc_read_prefs_get_max_staleness_seconds RP ?rp = s"
    by (simp_all add: read_prefs_fields[OF R] read_prefs_set_mode[OF R m(1)])
  have "rp_ok RP ?rp" using s valid(2) m f
    by (simp add: rp_ok_def rp_loop_ok_def read_prefs_fields[OF R] read_prefs_set_mode[OF R m(1)])
  then have "mongoc_read_prefs_is_valid RP ?rp" by (rule valid(1))
  moreover have np: "\<not> rp_is_primary RP ?rp" "\<not> rp_is_primary RP (mongoc_read_prefs_set_mode RP old_rp (MONGOC_READ_SECONDARY RP))"
    using f m by (simp_all add: rp_is_primary_def read_prefs_set_mode[OF R m(1)])
  ultimately have "php_phongo_apply_rp_options_to_uri U RP (mode_first U s) uri = Inr (mongoc_uri_set_read_prefs_t U uri ?rp)"
    using old(1) s by (simp add: defs mode_first_def staleness_first_def uri_check_rp_def)
  then show "\<exists>u rp. php_phongo_apply_rp_options_to_uri U RP (mode_first U s) uri = Inr u
      \<and> mongoc_uri_get_read_prefs_t U u = Some rp \<and> mongoc_read_prefs_get_mode RP rp = MONGOC_READ_SECONDARY RP
      \<and> mongoc_read_prefs_get_max_staleness_seconds RP rp = s"
    using f U unfolding uri_contract_def by blast
qed

section \<open>Credentials and direct connections\<close>

definition uri_auth_source :: "('uri, 'rc, 'rp, 'wc) uri_ops \<Rightarrow> 'uri \<Rightarrow> string option" where
  "uri_auth_source U uri = (case bson_find_case U (mongoc_uri_get_credentials U uri) MONGOC_URI_AUTHSOURCE of
     Some (BUtf8 s) \<Rightarrow> Some s | _ \<Rightarrow> None)"

definition uri_username_given :: "('uri, 'rc, 'rp, 'wc) uri_ops \<Rightarrow> 'uri \<Rightarrow> bool" where
  "uri_username_given U uri \<longleftrightarrow> (\<exists>n. mongoc_uri_get_username U uri = Some n \<and> c_str n \<noteq> [])"

text \<open>What the authentication specification asks of a URI.\<close>

definition uri_auth_ok :: "('uri, 'rc, 'rp, 'wc) uri_ops \<Rightarrow> 'uri \<Rightarrow> bool" where
  "uri_auth_ok U uri \<longleftrightarrow> (case mongoc_uri_get_auth_mechanism U uri of
     Some m \<Rightarrow> (c_strcaseeq m ''GSSAPI'' \<or> c_strcaseeq m ''MONGODB-X509'' \<longrightarrow>
                  (\<exists>s. uri_auth_source U uri = Some s \<and> c_strcaseeq s external_source))
             \<and> (c_strcaseeq m ''MONGODB-X509'' \<longrightarrow> mongoc_uri_get_password U uri = None)
             \<and> (\<not> c_strcaseeq m ''MONGODB-X509'' \<and> \<not> c_strcaseeq m ''MONGODB-AWS'' \<longrightarrow> uri_username_given U uri)
   | None \<Rightarrow> (\<forall>s. uri_auth_source U uri = Some s \<and> c_str s \<noteq> external_source \<longrightarrow> uri_username_given U uri))"

definition uri_direct_ok :: "('uri, 'rc, 'rp, 'wc) uri_ops \<Rightarrow> 'uri \<Rightarrow> bool" where
  "uri_direct_ok U uri \<longleftrightarrow> (mongoc_uri_get_option_as_bool U uri (uri_key_name U MONGOC_URI_DIRECTCONNECTION) False \<longrightarrow>
     take 14 (mongoc_uri_get_string U uri) \<noteq> srv_prefix \<and> length (mongoc_uri_get_hosts U uri) \<le> 1)"

lemma auth_external_Inr:
  assumes U: "uri_contract U" and r: "auth_external U m (uri_auth_source U uri) uri = Inr u"
  shows "mongoc_uri_get_auth_mechanism U u = mongoc_uri_get_auth_mechanism U uri
    \<and> (c_strcaseeq m ''GSSAPI'' \<or> c_strcaseeq m ''MONGODB-X509'' \<longrightarrow>
        (\<exists>s. uri_auth_source U u = Some s \<and> c_strcaseeq s external_source))"
proof -
  obtain u' where u': "mongoc_uri_set_auth_source U uri external_source = Some u'"
      "bson_find_case U (mongoc_uri_get_credentials U u') MONGOC_URI_AUTHSOURCE = Some (BUtf8 external_source)"
      "mongoc_uri_get_auth_mechanism U u' = mongoc_uri_get_auth_mechanism U uri"
    using U unfolding uri_contract_def by blast
  have "uri_auth_source U u' = Some external_source" "c_strcaseeq external_source external_source"
    using u'(2) by (simp_all add: uri_auth_source_def c_strcaseeq_def)
  then show ?thesis using r u'(1,3)
    by (auto simp: auth_external_def split: if_splits option.splits)
qed

lemma auth_checks_Inr:
  "auth_username U m uri = Inr u \<longleftrightarrow> u = uri \<and> (\<not> c_strcaseeq m ''MONGODB-X509'' \<and> \<not> c_strcaseeq m ''MONGODB-AWS''
     \<longrightarrow> uri_username_given U uri)"
  "auth_password U m uri = Inr u \<longleftrightarrow> u = uri \<and> (c_strcaseeq m ''MONGODB-X509'' \<longrightarrow> mongoc_uri_get_password U uri = None)"
  by (auto simp: auth_username_def auth_password_def uri_username_given_def split: option.splits)

lemma finalize_auth_ok:
  assumes U: "uri_contract U" and r: "php_phongo_uri_finalize_auth U uri = Inr u"
  shows "uri_auth_ok U u"
proof (cases "mongoc_uri_get_auth_mechanism U uri")
  case None
  then show ?thesis using r
    by (auto simp: php_phongo_uri_finalize_auth_def uri_auth_ok_def uri_auth_source_def uri_username_given_def Let_def
        split: if_splits option.splits bval.splits)
next
  case (Some m)
  obtain u1 where 1: "auth_external U m (uri_auth_source U uri) uri = Inr u1"
    and 2: "auth_username U m u1 = Inr u1" "auth_password U m u1 = Inr u" "u = u1"
    using r Some unfolding php_phongo_uri_finalize_auth_def uri_auth_source_def Let_def
    by (auto simp: bind_r_Inr_iff auth_checks_Inr)
  then show ?thesis using auth_external_Inr[OF U 1] Some by (simp add: uri_auth_ok_def auth_checks_Inr)
qed

lemma finalize_directconnection_ok:
  "php_phongo_uri_finalize_directconnection U uri = Inr u \<longleftrightarrow> u = uri \<and> uri_direct_ok U uri"
  by (auto simp: php_phongo_uri_finalize_directconnection_def uri_direct_ok_def split: if_splits)

lemma uri_options_ok:
  assumes "uri_contract U" and "\<not> bson_empty options" and "php_phongo_apply_options_to_uri U options uri = Inr u"
  shows "uri_auth_ok U u \<and> uri_direct_ok U u"
  using assms finalize_auth_ok[OF assms(1)]
  by (auto simp: php_phongo_apply_options_to_uri_def bind_r_Inr_iff finalize_directconnection_ok)

text \<open>The TLS options that exclude one another.\<close>

lemma finalize_tls_ok:
  "php_phongo_uri_finalize_tls U uri = Inr u \<longleftrightarrow> u = uri \<and> (\<forall>options. mongoc_uri_get_options U uri = Some options \<longrightarrow>
     \<not> (uri_has U options MONGOC_URI_TLSINSECURE \<and> (\<exists>k \<in> {MONGOC_URI_TLSALLOWINVALIDCERTIFICATES, MONGOC_URI_TLSALLOWINVALIDHOSTNAMES,
           MONGOC_URI_TLSDISABLEOCSPENDPOINTCHECK, MONGOC_URI_TLSDISABLECERTIFICATEREVOCATIONCHECK}. uri_has U options k))
   \<and> \<not> (uri_has U options MONGOC_URI_TLSALLOWINVALIDCERTIFICATES
        \<and> (\<exists>k \<in> {MONGOC_URI_TLSDISABLEOCSPENDPOINTCHECK, MONGOC_URI_TLSDISABLECERTIFICATEREVOCATIONCHECK}. uri_has U options k)))"
  by (auto simp: php_phongo_uri_finalize_tls_def split: option.splits if_splits)

section \<open>TLS driver options that are not strings\<close>

text \<open>
  A driver option whose text the engine makes, and does not keep interned, is freed through a
  pointer into the string.
\<close>

lemma fetch_ssl_opt_string_some:
  "php_array_fetch zoptions key = Some z \<Longrightarrow> \<exists>s. php_phongo_fetch_ssl_opt_string E interned zoptions key
     = Some (if converted_string z \<and> \<not> interned z then SslInside s else SslCopy s)"
proof -
  have "\<exists>s. php_array_zval_to_string E (Some z) = Some s" for z
    by (induction z) auto
  then show "php_array_fetch zoptions key = Some z \<Longrightarrow> ?thesis"
    unfolding php_phongo_fetch_ssl_opt_string_def by fastforce
qed

lemma apply_driver_option_defined:
  assumes "php_array_fetch zoptions key = Some z"
  shows "php_phongo_apply_driver_option_to_uri U E interned zoptions key k uri = None \<longleftrightarrow> converted_string z \<and> \<not> interned z"
  using fetch_ssl_opt_string_some[OF assms, of E interned]
  by (auto simp: php_phongo_apply_driver_option_to_uri_def split: if_splits)

section \<open>A URI that is what can be read of it\<close>

record ref_uri =
  ru_string :: string
  ru_hosts :: "string list"
  ru_options :: "(string \<times> bval) list"
  ru_credentials :: "(string \<times> bval) list"
  ru_username :: "string option"
  ru_password :: "string option"
  ru_mechanism :: "string option"
  ru_properties :: "bdoc option"
  ru_read_concern :: "string option"
  ru_read_prefs :: read_prefs_view
  ru_write_concern :: write_concern_view

fun ref_key_name :: "uri_key \<Rightarrow> string" where
  "ref_key_name MONGOC_URI_APPNAME = ''appname''"
| "ref_key_name MONGOC_URI_AUTHMECHANISM = ''authmechanism''"
| "ref_key_name MONGOC_URI_AUTHMECHANISMPROPERTIES = ''authmechanismproperties''"
| "ref_key_name MONGOC_URI_AUTHSOURCE = ''authsource''"
| "ref_key_name MONGOC_URI_COMPRESSORS = ''compressors''"
| "ref_key_name MONGOC_URI_DIRECTCONNECTION = ''directconnection''"
| "ref_key_name MONGOC_URI_GSSAPISERVICENAME = ''gssapiservicename''"
| "ref_key_name MONGOC_URI_JOURNAL = ''journal''"
| "ref_key_name MONGOC_URI_MAXSTALENESSSECONDS = ''maxstalenessseconds''"
| "ref_key_name MONGOC_URI_READCONCERNLEVEL = ''readconcernlevel''"
| "ref_key_name MONGOC_URI_READPREFERENCE = ''readpreference''"
| "ref_key_name MONGOC_URI_READPREFERENCETAGS = ''readpreferencetags''"
| "ref_key_name MONGOC_URI_REPLICASET = ''replicaset''"
| "ref_key_name MONGOC_URI_SAFE = ''safe''"
| "ref_key_name MONGOC_URI_TLSALLOWINVALIDCERTIFICATES = ''tlsallowinvalidcertificates''"
| "ref_key_name MONGOC_URI_TLSALLOWINVALIDHOSTNAMES = ''tlsallowinvalidhostnames''"
| "ref_key_name MONGOC_URI_TLSCAFILE = ''tlscafile''"
| "ref_key_name MONGOC_URI_TLSCERTIFICATEKEYFILE = ''tlscertificatekeyfile''"
| "ref_key_name MONGOC_URI_TLSCERTIFICATEKEYFILEPASSWORD = ''tlscertificatekeyfilepassword''"
| "ref_key_name MONGOC_URI_TLSDISABLECERTIFICATEREVOCATIONCHECK = ''tlsdisablecertificaterevocationcheck''"
| "ref_key_name MONGOC_URI_TLSDISABLEOCSPENDPOINTCHECK = ''tlsdisableocspendpointcheck''"
| "ref_key_name MONGOC_URI_TLSINSECURE = ''tlsinsecure''"
| "ref_key_name MONGOC_URI_W = ''w''"
| "ref_key_name MONGOC_URI_WTIMEOUTMS = ''wtimeoutms''"

definition ref_set :: "string \<Rightarrow> bval \<Rightarrow> (string \<times> bval) list \<Rightarrow> (string \<times> bval) list" where
  "ref_set key v l = (key, v) # filter (\<lambda>kv. \<not> c_strcaseeq (fst kv) key) l"

definition ref_get :: "(string \<times> bval) list \<Rightarrow> string \<Rightarrow> bval option" where
  "ref_get l key = map_option snd (find (\<lambda>kv. c_strcaseeq (fst kv) key) l)"

fun ref_as_bool :: "bval \<Rightarrow> bool" where
  "ref_as_bool (BBool b) = b"
| "ref_as_bool (BInt32 i) = (i \<noteq> 0)"
| "ref_as_bool (BInt64 i) = (i \<noteq> 0)"
| "ref_as_bool BNull = False"
| "ref_as_bool BUndefined = False"
| "ref_as_bool _ = True"

definition ref_option_is :: "uri_key list \<Rightarrow> string \<Rightarrow> bool" where
  "ref_option_is ks key \<longleftrightarrow> list_ex (\<lambda>k. c_strcaseeq key (ref_key_name k)) ks"

definition ref_uri_ops :: "(ref_uri, string option, read_prefs_view, write_concern_view) uri_ops" where
  "ref_uri_ops = \<lparr>
     uri_key_name = ref_key_name,
     mongoc_uri_new_with_error = (\<lambda>s. Inr \<lparr>ru_string = s, ru_hosts = [''127.0.0.1''], ru_options = [], ru_credentials = [],
        ru_username = None, ru_password = None, ru_mechanism = None, ru_properties = None, ru_read_concern = None,
        ru_read_prefs = mongoc_read_prefs_new ref_read_prefs_ops 1,
        ru_write_concern = mongoc_write_concern_new ref_write_concern_ops\<rparr>),
     bson_iter_as_bool = ref_as_bool,
     mongoc_uri_option_is_bool = ref_option_is [MONGOC_URI_DIRECTCONNECTION, MONGOC_URI_TLSINSECURE,
        MONGOC_URI_TLSALLOWINVALIDCERTIFICATES, MONGOC_URI_TLSALLOWINVALIDHOSTNAMES, MONGOC_URI_TLSDISABLEOCSPENDPOINTCHECK,
        MONGOC_URI_TLSDISABLECERTIFICATEREVOCATIONCHECK],
     mongoc_uri_option_is_int32 = (\<lambda>key. c_strcaseeq key ''connecttimeoutms''),
     mongoc_uri_option_is_utf8 = ref_option_is [MONGOC_URI_APPNAME, MONGOC_URI_REPLICASET, MONGOC_URI_TLSCAFILE,
        MONGOC_URI_TLSCERTIFICATEKEYFILE, MONGOC_URI_TLSCERTIFICATEKEYFILEPASSWORD],
     mongoc_uri_set_option_as_bool = (\<lambda>u k b. Some (u\<lparr>ru_options := ref_set k (BBool b) (ru_options u)\<rparr>)),
     mongoc_uri_set_option_as_int32 = (\<lambda>u k i. Some (u\<lparr>ru_options := ref_set k (BInt32 i) (ru_options u)\<rparr>)),
     mongoc_uri_set_option_as_utf8 = (\<lambda>u k s. Some (u\<lparr>ru_options := ref_set k (BUtf8 s) (ru_options u)\<rparr>)),
     mongoc_uri_set_username = (\<lambda>u s. Some (u\<lparr>ru_username := Some s\<rparr>)),
     mongoc_uri_set_password = (\<lambda>u s. Some (u\<lparr>ru_password := Some s\<rparr>)),
     mongoc_uri_set_auth_mechanism = (\<lambda>u s. Some (u\<lparr>ru_mechanism := Some s\<rparr>)),
     mongoc_uri_set_auth_source = (\<lambda>u s. Some (u\<lparr>ru_credentials := ref_set ''authsource'' (BUtf8 s) (ru_credentials u)\<rparr>)),
     mongoc_uri_set_mechanism_properties = (\<lambda>u d. Some (u\<lparr>ru_properties := Some d\<rparr>)),
     mongoc_uri_set_compressors = (\<lambda>u s. Some u),
     mongoc_uri_set_read_concern = (\<lambda>u rc. u\<lparr>ru_read_concern := rc\<rparr>),
     mongoc_uri_set_read_prefs_t = (\<lambda>u rp. u\<lparr>ru_read_prefs := rp\<rparr>),
     mongoc_uri_set_write_concern = (\<lambda>u wc. u\<lparr>ru_write_concern := wc\<rparr>),
     mongoc_uri_get_credentials = (\<lambda>u. BDoc (ru_credentials u) DocOk),
     mongoc_uri_get_username = ru_username,
     mongoc_uri_get_password = ru_password,
     mongoc_uri_get_auth_mechanism = ru_mechanism,
     mongoc_uri_get_mechanism_properties = ru_properties,
     mongoc_uri_get_option_as_bool = (\<lambda>u k b. case ref_get (ru_options u) k of Some v \<Rightarrow> ref_as_bool v | None \<Rightarrow> b),
     mongoc_uri_get_option_as_utf8 = (\<lambda>u k d. case ref_get (ru_options u) k of Some (BUtf8 s) \<Rightarrow> Some s | _ \<Rightarrow> d),
     mongoc_uri_get_string = ru_string,
     mongoc_uri_get_hosts = ru_hosts,
     mongoc_uri_get_options = (\<lambda>u. Some (BDoc (ru_options u) DocOk)),
     mongoc_uri_get_tls = (\<lambda>u. ref_get (ru_options u) ''tls'' = Some (BBool True)),
     mongoc_uri_get_read_concern = (\<lambda>u. Some (ru_read_concern u)),
     mongoc_uri_get_read_prefs_t = (\<lambda>u. Some (ru_read_prefs u)),
     mongoc_uri_get_write_concern = (\<lambda>u. Some (ru_write_concern u))\<rparr>"

lemma ref_key_name_lower: "map c_tolower (c_str (ref_key_name k)) = ref_key_name k"
  by (cases k) (simp_all add: c_str_def c_tolower_def)

lemma ref_key_name_inj: "ref_key_name a = ref_key_name b \<Longrightarrow> a = b"
  by (cases a; cases b; simp)

lemma ref_uri_contract: "uri_contract ref_uri_ops"
proof -
  have "c_strcaseeq (ref_key_name a) (ref_key_name b) \<longrightarrow> a = b" for a b
    by (simp add: c_strcaseeq_def ref_key_name_lower) (blast dest: ref_key_name_inj)
  moreover have "bson_find_case ref_uri_ops (BDoc (ref_set ''authsource'' (BUtf8 s) l) DocOk) MONGOC_URI_AUTHSOURCE = Some (BUtf8 s)" for s l
    by (simp add: bson_find_case_def ref_set_def is_key_def ref_uri_ops_def c_strcaseeq_def)
  ultimately show ?thesis by (simp add: uri_contract_def) (simp add: ref_uri_ops_def)
qed

definition ref_uri_start :: ref_uri where
  "ref_uri_start = (case mongoc_uri_new_with_error ref_uri_ops ''mongodb://127.0.0.1/'' of Inr u \<Rightarrow> u)"

end
