(* ===== verification/Driver_Registry.thy ===== *)
theory Driver_Registry
  imports Driver_Objects
begin

text \<open>
  The registries of clients and Managers (php\_phongo.c, from \<^verbatim>\<open>php_phongo_client_register\<close>, and
  the request and module hooks).  Clients that persist live in a table of the process, keyed by
  the hash of what they were made of; others in a table of the request.  A process that was
  forked has a copy of both tables: it resets a client before it uses it, once, and does not
  destroy clients that its parent made.  What the code asks of libmongoc is a list of calls.
\<close>

section \<open>Globals (php\_phongo.h)\<close>

record 'cl php_phongo_pclient_t =
  pc_client :: 'cl
  pc_created_by_pid :: int
  pc_last_reset_by_pid :: int
  pc_is_persistent :: bool

text \<open>A table with integer keys, and the next key (\<^verbatim>\<open>zend_hash_next_index_insert\<close>); keys are not used again.\<close>

record 'v index_table =
  it_next :: int
  it_entries :: "(int \<times> 'v) list"

definition index_empty :: "'v index_table" where
  "index_empty = \<lparr>it_next = 0, it_entries = []\<rparr>"

definition index_insert :: "'v index_table \<Rightarrow> 'v \<Rightarrow> 'v index_table" where
  "index_insert t v = \<lparr>it_next = it_next t + 1, it_entries = it_entries t @ [(it_next t, v)]\<rparr>"

definition index_del :: "'v index_table \<Rightarrow> int \<Rightarrow> 'v index_table" where
  "index_del t i = t\<lparr>it_entries := filter (\<lambda>e. fst e \<noteq> i) (it_entries t)\<rparr>"

text \<open>
  A Manager is known by its address.  None is the null pointer of a table that a request has not
  made yet, or has destroyed.
\<close>

record 'cl mongodb_globals =
  g_persistent_clients :: "(string \<times> 'cl php_phongo_pclient_t) list"
  g_request_clients :: "'cl php_phongo_pclient_t index_table option"
  g_subscribers :: "zval list option"
  g_managers :: "nat index_table option"

definition globals_init :: "'cl mongodb_globals" where
  "globals_init = \<lparr>g_persistent_clients = [], g_request_clients = None, g_subscribers = None, g_managers = None\<rparr>"

text \<open>What libmongoc is asked to do with a client.\<close>

datatype 'cl client_call = ClientReset 'cl | ClientClearApm 'cl | ClientDestroy 'cl

section \<open>Clients\<close>

definition php_phongo_pclient_destroy :: "int \<Rightarrow> 'cl php_phongo_pclient_t \<Rightarrow> 'cl client_call list" where
  "php_phongo_pclient_destroy pid pclient =
     (if pc_created_by_pid pclient = pid then [ClientClearApm (pc_client pclient), ClientDestroy (pc_client pclient)] else [])"

text \<open>An entry that is replaced is destroyed by the table.\<close>

fun persistent_update ::
    "int \<Rightarrow> string \<Rightarrow> 'cl php_phongo_pclient_t \<Rightarrow> (string \<times> 'cl php_phongo_pclient_t) list
       \<Rightarrow> (string \<times> 'cl php_phongo_pclient_t) list \<times> 'cl client_call list" where
  "persistent_update pid hash v [] = ([(hash, v)], [])"
| "persistent_update pid hash v ((k, old) # t) =
     (if k = hash then ((hash, v) # t, php_phongo_pclient_destroy pid old)
      else (let (t', calls) = persistent_update pid hash v t in ((k, old) # t', calls)))"

text \<open>
  The client is registered; None is a null pointer: no table of the request.  The calls are those
  of an entry that was replaced.
\<close>

definition php_phongo_client_register ::
    "int \<Rightarrow> 'cl php_phongo_manager_t \<Rightarrow> 'cl mongodb_globals \<Rightarrow> ('cl mongodb_globals \<times> 'cl client_call list) option" where
  "php_phongo_client_register pid manager G =
     (let pclient = \<lparr>pc_client = mgr_client manager, pc_created_by_pid = pid, pc_last_reset_by_pid = 0,
                     pc_is_persistent = mgr_use_persistent_client manager\<rparr> in
      if mgr_use_persistent_client manager
      then (let (t, calls) = persistent_update pid (mgr_client_hash manager) pclient (g_persistent_clients G) in
            Some (G\<lparr>g_persistent_clients := t\<rparr>, calls))
      else (case g_request_clients G of
              None \<Rightarrow> None
            | Some t \<Rightarrow> Some (G\<lparr>g_request_clients := Some (index_insert t pclient)\<rparr>, [])))"

text \<open>The first entry of the request with the Manager's client is deleted, which destroys it.\<close>

definition find_client :: "'cl \<Rightarrow> (int \<times> 'cl php_phongo_pclient_t) list \<Rightarrow> (int \<times> 'cl php_phongo_pclient_t) option" where
  "find_client client entries = find (\<lambda>(index, pclient). pc_client pclient = client) entries"

definition php_phongo_client_unregister ::
    "int \<Rightarrow> 'cl php_phongo_manager_t \<Rightarrow> 'cl mongodb_globals \<Rightarrow> bool \<times> 'cl mongodb_globals \<times> 'cl client_call list" where
  "php_phongo_client_unregister pid manager G =
     (if mgr_use_persistent_client manager then (False, G, [])
      else (case g_request_clients G of
              None \<Rightarrow> (False, G, [])
            | Some t \<Rightarrow> (case find_client (mgr_client manager) (it_entries t) of
                None \<Rightarrow> (False, G, [])
              | Some (index, pclient) \<Rightarrow>
                  (True, G\<lparr>g_request_clients := Some (index_del t index)\<rparr>, php_phongo_pclient_destroy pid pclient))))"

definition php_phongo_find_persistent_client :: "'cl mongodb_globals \<Rightarrow> string \<Rightarrow> 'cl option" where
  "php_phongo_find_persistent_client G hash = map_option pc_client (map_of (g_persistent_clients G) hash)"

section \<open>Resetting after a fork\<close>

definition phongo_pclient_reset_once :: "int \<Rightarrow> 'cl php_phongo_pclient_t \<Rightarrow> 'cl php_phongo_pclient_t \<times> 'cl client_call list" where
  "phongo_pclient_reset_once pid pclient =
     (if pc_last_reset_by_pid pclient \<noteq> pid then (pclient\<lparr>pc_last_reset_by_pid := pid\<rparr>, [ClientReset (pc_client pclient)])
      else (pclient, []))"

text \<open>The first entry that satisfies a test is reset.\<close>

fun reset_first ::
    "int \<Rightarrow> ('k \<times> 'cl php_phongo_pclient_t \<Rightarrow> bool) \<Rightarrow> ('k \<times> 'cl php_phongo_pclient_t) list
       \<Rightarrow> ('k \<times> 'cl php_phongo_pclient_t) list \<times> 'cl client_call list" where
  "reset_first pid P [] = ([], [])"
| "reset_first pid P (e # t) =
     (if P e then (let (pclient, calls) = phongo_pclient_reset_once pid (snd e) in ((fst e, pclient) # t, calls))
      else (let (t', calls) = reset_first pid P t in (e # t', calls)))"

definition client_reset_one ::
    "int \<Rightarrow> 'cl php_phongo_manager_t \<Rightarrow> 'cl mongodb_globals \<Rightarrow> ('cl mongodb_globals \<times> 'cl client_call list) option" where
  "client_reset_one pid manager G =
     (if mgr_use_persistent_client manager
      then (let (t, calls) = reset_first pid (\<lambda>e. fst e = mgr_client_hash manager) (g_persistent_clients G) in
            Some (G\<lparr>g_persistent_clients := t\<rparr>, calls))
      else (case g_request_clients G of
              None \<Rightarrow> None
            | Some t \<Rightarrow> (let (es, calls) = reset_first pid (\<lambda>e. pc_client (snd e) = mgr_client manager) (it_entries t) in
                Some (G\<lparr>g_request_clients := Some (t\<lparr>it_entries := es\<rparr>)\<rparr>, calls))))"

text \<open>
  The key vault client's Manager is reset first.  A Manager that is its own key vault client,
  directly or not, is no fuel left; a value that is no Manager is undefined too.
\<close>

fun php_phongo_client_reset_once ::
    "nat \<Rightarrow> ('rc, 'rp, 'wc, 'cs, 'cl) store \<Rightarrow> int \<Rightarrow> 'cl php_phongo_manager_t \<Rightarrow> 'cl mongodb_globals
       \<Rightarrow> ('cl mongodb_globals \<times> 'cl client_call list) option" where
  "php_phongo_client_reset_once 0 D pid manager G = None"
| "php_phongo_client_reset_once (Suc fuel) D pid manager G =
     (if mgr_key_vault_client_manager manager = ZUndef then client_reset_one pid manager G
      else (case obj_at D (mgr_key_vault_client_manager manager) of
              Some (DManager kv) \<Rightarrow> (case php_phongo_client_reset_once fuel D pid kv G of
                 None \<Rightarrow> None
               | Some (G1, calls) \<Rightarrow> map_option (\<lambda>(G2, calls2). (G2, calls @ calls2)) (client_reset_one pid manager G1))
            | _ \<Rightarrow> None))"

definition PHONGO_RESET_CLIENT_IF_PID_DIFFERS ::
    "nat \<Rightarrow> ('rc, 'rp, 'wc, 'cs, 'cl) store \<Rightarrow> int \<Rightarrow> int \<Rightarrow> 'cl php_phongo_manager_t \<Rightarrow> 'cl mongodb_globals
       \<Rightarrow> ('cl mongodb_globals \<times> 'cl client_call list) option" where
  "PHONGO_RESET_CLIENT_IF_PID_DIFFERS fuel D pid created_by_pid manager G =
     (if created_by_pid \<noteq> pid then php_phongo_client_reset_once fuel D pid manager G else Some (G, []))"

section \<open>Managers\<close>

text \<open>The index of a Manager, if it is registered.\<close>

definition php_phongo_manager_exists :: "nat \<Rightarrow> 'cl mongodb_globals \<Rightarrow> int option" where
  "php_phongo_manager_exists manager G =
     (case g_managers G of None \<Rightarrow> None | Some t \<Rightarrow> map_option fst (find (\<lambda>(index, value). value = manager) (it_entries t)))"

definition php_phongo_manager_register :: "nat \<Rightarrow> 'cl mongodb_globals \<Rightarrow> bool \<times> 'cl mongodb_globals" where
  "php_phongo_manager_register manager G =
     (case g_managers G of
        None \<Rightarrow> (False, G)
      | Some t \<Rightarrow> if php_phongo_manager_exists manager G \<noteq> None then (False, G)
                  else (True, G\<lparr>g_managers := Some (index_insert t manager)\<rparr>))"

definition php_phongo_manager_unregister :: "nat \<Rightarrow> 'cl mongodb_globals \<Rightarrow> bool \<times> 'cl mongodb_globals" where
  "php_phongo_manager_unregister manager G =
     (case g_managers G of
        None \<Rightarrow> (False, G)
      | Some t \<Rightarrow> (case php_phongo_manager_exists manager G of
          None \<Rightarrow> (False, G)
        | Some index \<Rightarrow> (True, G\<lparr>g_managers := Some (index_del t index)\<rparr>)))"

section \<open>Module and request hooks\<close>

definition RINIT :: "'cl mongodb_globals \<Rightarrow> 'cl mongodb_globals" where
  "RINIT G = G\<lparr>g_request_clients := (case g_request_clients G of None \<Rightarrow> Some index_empty | t \<Rightarrow> t),
     g_subscribers := (case g_subscribers G of None \<Rightarrow> Some [] | t \<Rightarrow> t),
     g_managers := (case g_managers G of None \<Rightarrow> Some index_empty | t \<Rightarrow> t)\<rparr>"

text \<open>The table of clients destroys what is left in it, oldest first.\<close>

definition RSHUTDOWN :: "int \<Rightarrow> 'cl mongodb_globals \<Rightarrow> 'cl mongodb_globals \<times> 'cl client_call list" where
  "RSHUTDOWN pid G =
     (G\<lparr>g_subscribers := None, g_request_clients := None, g_managers := None\<rparr>,
      case g_request_clients G of None \<Rightarrow> []
      | Some t \<Rightarrow> concat (map (\<lambda>e. php_phongo_pclient_destroy pid (snd e)) (it_entries t)))"

definition GSHUTDOWN :: "int \<Rightarrow> 'cl mongodb_globals \<Rightarrow> 'cl mongodb_globals \<times> 'cl client_call list" where
  "GSHUTDOWN pid G =
     (G\<lparr>g_persistent_clients := []\<rparr>,
      concat (map (\<lambda>e. php_phongo_pclient_destroy pid (snd e)) (rev (g_persistent_clients G))))"

end
