(* ===== verification/Driver_Manager.thy ===== *)
theory Driver_Manager
  imports Driver_Uri Driver_Registry Driver_ServerApi Driver_Errors
begin

text \<open>
  Constructing a Manager (MongoDB/Manager.c, and \<^verbatim>\<open>php_phongo_manager_make_client_hash\<close> to
  \<^verbatim>\<open>phongo_manager_init\<close> of php\_phongo.c): its arguments are prepared and hashed, a client that
  persists is looked up, and otherwise a URI, TLS options and a client are made, configured and
  registered.  The state of an initialiser is the Manager, the registries, the world that
  libmongoc's calls change and the calls of client destructors.
\<close>

section \<open>State and environment\<close>

text \<open>A Manager before and during its construction; None and \<^verbatim>\<open>ZUndef\<close> are what the allocator leaves.\<close>

record 'cl manager_intern =
  mi_client :: "'cl option"
  mi_created_by_pid :: int
  mi_client_hash :: "string option"
  mi_use_persistent_client :: bool
  mi_key_vault_client_manager :: zval
  mi_subscribers :: "zval list option"

definition php_phongo_manager_create_object :: "int \<Rightarrow> 'cl manager_intern" where
  "php_phongo_manager_create_object pid = \<lparr>mi_client = None, mi_created_by_pid = pid, mi_client_hash = None,
     mi_use_persistent_client = False, mi_key_vault_client_manager = ZUndef, mi_subscribers = None\<rparr>"

text \<open>A Manager that has a client and a hash, as the other operations know it.\<close>

definition manager_of :: "'cl manager_intern \<Rightarrow> 'cl php_phongo_manager_t option" where
  "manager_of m = (case (mi_client m, mi_client_hash m) of
     (Some c, Some h) \<Rightarrow> Some \<lparr>mgr_client = c, mgr_created_by_pid = mi_created_by_pid m, mgr_client_hash = h,
        mgr_use_persistent_client = mi_use_persistent_client m,
        mgr_key_vault_client_manager = mi_key_vault_client_manager m,
        mgr_subscribers = (case mi_subscribers m of None \<Rightarrow> [] | Some s \<Rightarrow> s)\<rparr>
   | _ \<Rightarrow> None)"

record 'cl auto_encryption_opts =
  aeo_keyvault_client :: "'cl option"
  aeo_keyvault_namespace :: "(string \<times> string) option"
  aeo_kms_providers :: "opts option"
  aeo_schema_map :: "opts option"
  aeo_bypass :: "bool option"
  aeo_extra :: "opts option"

definition mongoc_auto_encryption_opts_new :: "'cl auto_encryption_opts" where
  "mongoc_auto_encryption_opts_new = \<lparr>aeo_keyvault_client = None, aeo_keyvault_namespace = None, aeo_kms_providers = None,
     aeo_schema_map = None, aeo_bypass = None, aeo_extra = None\<rparr>"

text \<open>libmongoc's client; None of a configuring call is success.\<close>

record ('w, 'uri, 'cl, 'api) client_make_ops =
  mongoc_handshake_data_append :: "string \<Rightarrow> string \<Rightarrow> string \<Rightarrow> 'w \<Rightarrow> 'w"
  mongoc_client_new_from_uri :: "'uri \<Rightarrow> 'w \<Rightarrow> 'cl option \<times> 'w"
  mongoc_client_set_error_api :: "'cl \<Rightarrow> 'w \<Rightarrow> 'w"
  mongoc_client_set_ssl_opts :: "'cl \<Rightarrow> mongoc_ssl_opt_t \<Rightarrow> 'w \<Rightarrow> 'w"
  mongoc_client_enable_auto_encryption :: "'cl \<Rightarrow> 'cl auto_encryption_opts \<Rightarrow> 'w \<Rightarrow> bson_error_t option \<times> 'w"
  mongoc_client_set_server_api :: "'cl \<Rightarrow> 'api option \<Rightarrow> 'w \<Rightarrow> bson_error_t option \<times> 'w"
  mongoc_client_set_apm_callbacks :: "'cl \<Rightarrow> 'w \<Rightarrow> bool \<times> 'w"

text \<open>
  The engine (classes, which texts are interned, the serialiser and the exceptions it raises,
  stream contexts), the encoder, libmongoc, and how the extension was built: its TLS library, if
  any, and whether client-side encryption is in it.
\<close>

record ('w, 'uri, 'rc, 'rp, 'wc, 'cl, 'api) manager_env =
  me_pid :: int
  me_classes :: class_env
  me_interned :: "zval \<Rightarrow> bool"
  me_serializer :: php_serializer
  me_serialize_throws :: "zval \<Rightarrow> exn option"
  me_context_options :: "zval \<Rightarrow> ht option"
  me_server_api :: "zval \<Rightarrow> 'api option option"
  me_fuel :: nat
  me_encode :: encode_env
  me_heap :: heap
  me_decode :: decode_env
  me_codes :: mongoc_error_codes
  me_uri :: "('uri, 'rc, 'rp, 'wc) uri_ops"
  me_rc :: "'rc read_concern_ops"
  me_rp :: "'rp read_prefs_ops"
  me_wc :: "'wc write_concern_ops"
  me_client :: "('w, 'uri, 'cl, 'api) client_make_ops"
  me_ssl :: "ssl_build option"
  me_cse :: bool
  me_php_version :: string
  me_mongodb_version :: string

record ('w, 'cl) manager_state =
  ms_intern :: "'cl manager_intern"
  ms_globals :: "'cl mongodb_globals"
  ms_world :: 'w
  ms_calls :: "'cl client_call list"

section \<open>Preparing the arguments (Manager.c)\<close>

text \<open>The context option; the deprecation warning is left out.  None: no exception.\<close>

definition php_phongo_manager_merge_context_options ::
    "('w, 'uri, 'rc, 'rp, 'wc, 'cl, 'api) manager_env \<Rightarrow> ht \<Rightarrow> ht result" where
  "php_phongo_manager_merge_context_options V driverOptions =
     (case php_array_fetch driverOptions ''context'' of
        None \<Rightarrow> Inr driverOptions
      | Some zcontext \<Rightarrow> (case me_context_options V zcontext of
          None \<Rightarrow> Inl (invalid_argument (dquote ''context'' @ '' driver option is not a valid Stream-Context resource''))
        | Some options \<Rightarrow> (case php_array_fetch_array options ''ssl'' of
            None \<Rightarrow> Inl (invalid_argument (''Stream-Context resource does not contain '' @ dquote ''ssl'' @ '' options array''))
          | Some ssl \<Rightarrow> Inr (hash_del (foldl (\<lambda>h (k, z). if hash_exists h k then h else h @ [(k, z)]) driverOptions ssl)
                              (KStr ''context'')))))"

text \<open>
  A value that is true, but not a string, becomes "true".  The engine's dereferencing of a
  reference before it is written is left in place.
\<close>

fun canonicalize_value :: "zval \<Rightarrow> zval" where
  "canonicalize_value (ZRef z) = ZRef (canonicalize_value z)"
| "canonicalize_value (ZString s) = ZString s"
| "canonicalize_value z = (if zend_is_true z then ZString ''true'' else z)"

definition canonicalize_bucket :: "hkey \<times> zval \<Rightarrow> hkey \<times> zval" where
  "canonicalize_bucket b = (case b of
     (KStr k, z) \<Rightarrow> (KStr k, if c_strcaseeq k ''CANONICALIZE_HOST_NAME'' then canonicalize_value z else z)
   | _ \<Rightarrow> b)"

text \<open>Arrays, and objects by their property tables.\<close>

fun php_phongo_manager_prep_authmechanismproperties :: "zval \<Rightarrow> zval" where
  "php_phongo_manager_prep_authmechanismproperties (ZArray h) = ZArray (map canonicalize_bucket h)"
| "php_phongo_manager_prep_authmechanismproperties (ZStd h) = ZStd (map canonicalize_bucket h)"
| "php_phongo_manager_prep_authmechanismproperties (ZClass c h) = ZClass c (map canonicalize_bucket h)"
| "php_phongo_manager_prep_authmechanismproperties z = z"

fun under_ref :: "(zval \<Rightarrow> zval) \<Rightarrow> zval \<Rightarrow> zval" where
  "under_ref f (ZRef z) = ZRef (f z)"
| "under_ref f z = f z"

definition php_phongo_manager_prep_uri_options ::
    "('w, 'uri, 'rc, 'rp, 'wc, 'cl, 'api) manager_env \<Rightarrow> ht \<Rightarrow> ht" where
  "php_phongo_manager_prep_uri_options V options = map (\<lambda>(k, z). case k of
       KStr key \<Rightarrow> (k, if is_key (me_uri V) key MONGOC_URI_READPREFERENCETAGS
                       then under_ref php_phongo_read_preference_prep_tagsets z
                       else if is_key (me_uri V) key MONGOC_URI_AUTHMECHANISMPROPERTIES
                       then under_ref php_phongo_manager_prep_authmechanismproperties z
                       else z)
     | KInt _ \<Rightarrow> (k, z)) options"

section \<open>The client hash\<close>

text \<open>
  A key vault client cannot be serialised: the hash of its Manager stands for it.  Anything else
  is left as it is.
\<close>

definition php_phongo_manager_prepare_manager_for_hash ::
    "('rc, 'rp, 'wc, 'cs, 'cl) store \<Rightarrow> ht \<Rightarrow> ht" where
  "php_phongo_manager_prepare_manager_for_hash D driverOptions =
     (case php_array_fetch driverOptions ''autoEncryption'' of
        Some (ZArray ae) \<Rightarrow> (case Option.bind (php_array_fetch ae ''keyVaultClient'') (obj_at D) of
            Some (DManager kv) \<Rightarrow> hash_str_update driverOptions ''autoEncryption''
                (ZArray (hash_str_update ae ''keyVaultClient'' (ZString (mgr_client_hash kv))))
          | _ \<Rightarrow> driverOptions)
      | _ \<Rightarrow> driverOptions)"

definition client_hash_args :: "('rc, 'rp, 'wc, 'cs, 'cl) store \<Rightarrow> int \<Rightarrow> string \<Rightarrow> ht option \<Rightarrow> ht option \<Rightarrow> ht" where
  "client_hash_args D pid uri_string options driverOptions =
     [(KStr ''pid'', ZLong pid), (KStr ''uri'', ZString (c_str uri_string)),
      (KStr ''options'', case options of Some o1 \<Rightarrow> ZArray o1 | None \<Rightarrow> ZNull),
      (KStr ''driverOptions'', case driverOptions of
         Some d \<Rightarrow> ZArray (php_phongo_manager_prepare_manager_for_hash D d) | None \<Rightarrow> ZNull)]"

definition php_phongo_manager_make_client_hash ::
    "('w, 'uri, 'rc, 'rp, 'wc, 'cl, 'api) manager_env \<Rightarrow> ('rc, 'rp, 'wc, 'cs, 'cl) store \<Rightarrow> string \<Rightarrow> ht option \<Rightarrow> ht option
       \<Rightarrow> string result" where
  "php_phongo_manager_make_client_hash V D uri_string options driverOptions =
     (let args = ZArray (client_hash_args D (me_pid V) uri_string options driverOptions) in
      case me_serialize_throws V args of Some e \<Rightarrow> Inl e | None \<Rightarrow> Inr (var_serialize (me_serializer V) args))"

section \<open>Handshake data\<close>

text \<open>The text as a C string, and the length of the PHP string.\<close>

definition php_phongo_extract_handshake_data ::
    "('rc, 'rp, 'wc, 'cs, 'cl) store \<Rightarrow> ht \<Rightarrow> string \<Rightarrow> (string \<times> nat) option result" where
  "php_phongo_extract_handshake_data D driver key =
     (case php_array_fetch driver key of
        None \<Rightarrow> Inr None
      | Some (ZString s) \<Rightarrow> Inr (Some (c_str s, length s))
      | Some z \<Rightarrow> Inl (invalid_argument (''Expected '' @ dquote key @ '' handshake option to be a string, ''
                  @ z_class_or_type_name D z @ '' given'')))"

definition PHONGO_METADATA_SEPARATOR :: string where
  "PHONGO_METADATA_SEPARATOR = '' / ''"

definition PHONGO_METADATA_PHP_VERSION_PREFIX :: string where
  "PHONGO_METADATA_PHP_VERSION_PREFIX = ''PHP ''"

text \<open>\<^verbatim>\<open>snprintf\<close> writes at most \<^verbatim>\<open>ret_len - 1\<close> bytes of the text, and a null byte.\<close>

definition php_phongo_concat_handshake_data :: "string \<Rightarrow> (string \<times> nat) option \<Rightarrow> string" where
  "php_phongo_concat_handshake_data default_value custom =
     (let ret_len = length default_value + 2 + (case custom of None \<Rightarrow> 0 | Some (_, custom_value_len) \<Rightarrow>
                      custom_value_len + length PHONGO_METADATA_SEPARATOR) in
      take (ret_len - 1) (case custom of
          Some (custom_value, _) \<Rightarrow> default_value @ PHONGO_METADATA_SEPARATOR @ custom_value @ '' ''
        | None \<Rightarrow> default_value @ '' ''))"

definition php_phongo_handshake_data_append ::
    "('w, 'uri, 'rc, 'rp, 'wc, 'cl, 'api) manager_env \<Rightarrow> (string \<times> nat) option \<Rightarrow> (string \<times> nat) option \<Rightarrow> (string \<times> nat) option
       \<Rightarrow> 'w \<Rightarrow> 'w" where
  "php_phongo_handshake_data_append V name version platform w =
     (let php_version_string = PHONGO_METADATA_PHP_VERSION_PREFIX @ me_php_version V in
      mongoc_handshake_data_append (me_client V) (php_phongo_concat_handshake_data ''ext-mongodb:PHP'' name)
        (php_phongo_concat_handshake_data (me_mongodb_version V) version)
        (php_phongo_concat_handshake_data php_version_string platform) w)"

definition php_phongo_set_handshake_data ::
    "('w, 'uri, 'rc, 'rp, 'wc, 'cl, 'api) manager_env \<Rightarrow> ('rc, 'rp, 'wc, 'cs, 'cl) store \<Rightarrow> ht option \<Rightarrow> 'w \<Rightarrow> exn list
       \<Rightarrow> 'w \<times> exn list" where
  "php_phongo_set_handshake_data V D driverOptions w ex =
     (let data = (case Option.bind driverOptions (\<lambda>h. php_array_fetch h ''driver'') of
            None \<Rightarrow> Inr (None, None, None)
          | Some (ZArray driver) \<Rightarrow>
              bind_r (php_phongo_extract_handshake_data D driver ''name'') (\<lambda>name.
              bind_r (php_phongo_extract_handshake_data D driver ''version'') (\<lambda>version.
              bind_r (php_phongo_extract_handshake_data D driver ''platform'') (\<lambda>platform. Inr (name, version, platform))))
          | Some z \<Rightarrow> Inl (invalid_argument (''Expected '' @ dquote ''driver'' @ '' driver option to be an array, ''
                      @ z_class_or_type_name D z @ '' given''))) in
      case data of
        Inl e \<Rightarrow> (w, e # ex)
      | Inr (name, version, platform) \<Rightarrow> (php_phongo_handshake_data_append V name version platform w, ex))"

text \<open>The client is made also when the handshake data raised an exception.\<close>

definition php_phongo_make_mongo_client ::
    "('w, 'uri, 'rc, 'rp, 'wc, 'cl, 'api) manager_env \<Rightarrow> ('rc, 'rp, 'wc, 'cs, 'cl) store \<Rightarrow> 'uri \<Rightarrow> ht option \<Rightarrow> 'w \<Rightarrow> exn list
       \<Rightarrow> 'cl option \<times> 'w \<times> exn list" where
  "php_phongo_make_mongo_client V D uri driverOptions w ex =
     (let (w1, ex1) = php_phongo_set_handshake_data V D driverOptions w ex;
          (client, w2) = mongoc_client_new_from_uri (me_client V) uri w1
      in (client, w2, ex1))"

section \<open>Auto encryption\<close>

text \<open>An option that is encoded; \<^verbatim>\<open>kind\<close> is the check of its type, if there is one.\<close>

definition array_or_object :: "heap \<Rightarrow> zval \<Rightarrow> bool" where
  "array_or_object H z = (case heap_view H z of None \<Rightarrow> False
     | Some (_, v) \<Rightarrow> (case v of ZArray _ \<Rightarrow> True | _ \<Rightarrow> z_is_object v))"

definition encode_option ::
    "nat \<Rightarrow> encode_env \<Rightarrow> heap \<Rightarrow> bool \<Rightarrow> string \<Rightarrow> ht \<Rightarrow> exn list \<Rightarrow> (opts option \<times> bool \<times> exn list) option" where
  "encode_option f E H checked key options ex =
     (case php_array_fetch options key of
        None \<Rightarrow> Some (None, True, ex)
      | Some z \<Rightarrow>
          if checked \<and> \<not> array_or_object H z
          then Some (None, False, invalid_argument (''Expected '' @ dquote key @ '' encryption option to be an array or object'') # ex)
          else (case php_phongo_zval_to_bson f E H False False z [] ex of
                  None \<Rightarrow> None
                | Some (doc, _, ex1) \<Rightarrow> if ex1 \<noteq> [] then Some (None, False, ex1) else Some (Some doc, True, ex1)))"

text \<open>
  The database and the collection of a key vault; the string is freed where the engine made one,
  through a pointer into it (None), unless it is interned.
\<close>

definition fetch_key_vault_namespace ::
    "class_env \<Rightarrow> (zval \<Rightarrow> bool) \<Rightarrow> ht \<Rightarrow> (string \<times> string) option result option" where
  "fetch_key_vault_namespace E interned options =
     (case php_array_fetch options ''keyVaultNamespace'' of
        None \<Rightarrow> Some (Inr None)
      | Some z \<Rightarrow>
          if converted_string z \<and> \<not> interned z then None
          else (case php_array_zval_to_string E (Some z) of
             None \<Rightarrow> None
           | Some s \<Rightarrow> (case phongo_split_namespace s of
               None \<Rightarrow> Some (Inl (invalid_argument (''Expected '' @ dquote ''keyVaultNamespace''
                         @ '' encryption option to contain a full collection name'')))
             | Some ns \<Rightarrow> Some (Inr (Some ns)))))"

definition key_vault_type_exception :: "('rc, 'rp, 'wc, 'cs, 'cl) store \<Rightarrow> zval \<Rightarrow> exn" where
  "key_vault_type_exception D z = invalid_argument (''Expected '' @ dquote ''keyVaultClient'' @ '' encryption option to be ''
     @ driver_ns ''Manager'' @ '', '' @ z_class_or_type_name D z @ '' given'')"

text \<open>
  The key vault client, which the Manager remembers; the rest of the options, one after the
  other.  A step returns whether to go on.
\<close>

definition aeo_key_vault ::
    "('rc, 'rp, 'wc, 'cs, 'cl) store \<Rightarrow> ht \<Rightarrow> 'cl manager_intern \<Rightarrow> ('cl auto_encryption_opts \<times> 'cl manager_intern) result" where
  "aeo_key_vault D options m =
     (case php_array_fetch options ''keyVaultClient'' of
        None \<Rightarrow> Inr (mongoc_auto_encryption_opts_new, m)
      | Some z \<Rightarrow> (case obj_at D z of
          Some (DManager kv) \<Rightarrow>
            if mi_use_persistent_client m \<noteq> mgr_use_persistent_client kv
            then Inl (invalid_argument (''The '' @ dquote ''disableClientPersistence'' @ '' option for a Manager and its ''
                   @ dquote ''keyVaultClient'' @ '' must be the same''))
            else Inr (mongoc_auto_encryption_opts_new\<lparr>aeo_keyvault_client := Some (mgr_client kv)\<rparr>,
                      m\<lparr>mi_key_vault_client_manager := z\<rparr>)
        | _ \<Rightarrow> Inl (key_vault_type_exception D z)))"

definition aeo_rest ::
    "('w, 'uri, 'rc, 'rp, 'wc, 'cl, 'api) manager_env \<Rightarrow> ht \<Rightarrow> 'cl auto_encryption_opts \<Rightarrow> exn list
       \<Rightarrow> (bool \<times> 'cl auto_encryption_opts \<times> exn list) option" where
  "aeo_rest V options a0 ex =
     (let enc = encode_option (me_fuel V) (me_encode V) (me_heap V) in
      case fetch_key_vault_namespace (me_classes V) (me_interned V) options of
        None \<Rightarrow> None
      | Some (Inl e) \<Rightarrow> Some (False, a0, e # ex)
      | Some (Inr ns) \<Rightarrow>
          init_then (map_option (\<lambda>(d, ok, ex1). (ok, a0\<lparr>aeo_keyvault_namespace := ns, aeo_kms_providers := d\<rparr>, ex1))
             (enc True ''kmsProviders'' options ex)) (\<lambda>a1 ex1.
          init_then (map_option (\<lambda>(d, ok, ex2). (ok, a1\<lparr>aeo_schema_map := d\<rparr>, ex2)) (enc True ''schemaMap'' options ex1)) (\<lambda>a2 ex2.
             let a3 = (if php_array_exists options ''bypassAutoEncryption''
                       then a2\<lparr>aeo_bypass := Some (php_array_fetch_bool options ''bypassAutoEncryption'')\<rparr> else a2) in
             map_option (\<lambda>(d, ok, ex3). (ok, a3\<lparr>aeo_extra := d\<rparr>, ex3)) (enc False ''extraOptions'' options ex2))))"

definition no_cse_exception :: "php_phongo_error_domain_t \<Rightarrow> string \<Rightarrow> exn" where
  "no_cse_exception domain message = phongo_throw_exception domain (message @ '' Please recompile with support for libmongocrypt ''
     @ ''using the with-mongodb-client-side-encryption configure switch.'')"

definition phongo_manager_set_auto_encryption_opts ::
    "('w, 'uri, 'rc, 'rp, 'wc, 'cl, 'api) manager_env \<Rightarrow> ('rc, 'rp, 'wc, 'cs, 'cl) store \<Rightarrow> ht option \<Rightarrow> 'cl
       \<Rightarrow> ('w, 'cl) manager_state \<Rightarrow> exn list \<Rightarrow> ('w, 'cl) manager_state init_step" where
  "phongo_manager_set_auto_encryption_opts V D driverOptions client s ex =
     (case Option.bind driverOptions (\<lambda>h. php_array_fetch h ''autoEncryption'') of
        None \<Rightarrow> Some (True, s, ex)
      | Some z \<Rightarrow>
          if \<not> me_cse V
          then Some (False, s, no_cse_exception PHONGO_ERROR_INVALID_ARGUMENT ''Cannot enable automatic field-level encryption.'' # ex)
          else (case z of
            ZArray options \<Rightarrow> (case aeo_key_vault D options (ms_intern s) of
                Inl e \<Rightarrow> Some (False, s, e # ex)
              | Inr (a0, m) \<Rightarrow> (let s1 = s\<lparr>ms_intern := m\<rparr> in
                  case aeo_rest V options a0 ex of
                    None \<Rightarrow> None
                  | Some (False, _, ex1) \<Rightarrow> Some (False, s1, ex1)
                  | Some (True, a, ex1) \<Rightarrow> (let (err, w1) = mongoc_client_enable_auto_encryption (me_client V) client a (ms_world s1);
                                               s2 = s1\<lparr>ms_world := w1\<rparr> in
                      case err of
                        None \<Rightarrow> Some (True, s2, ex1)
                      | Some error \<Rightarrow> map_option (\<lambda>ex2. (False, s2, ex2))
                          (phongo_throw_exception_from_bson_error_t (me_decode V) (me_codes V) error ex1))))
          | _ \<Rightarrow> Some (False, s, invalid_argument (''Expected '' @ dquote ''autoEncryption'' @ '' driver option to be array, ''
                    @ z_class_or_type_name D z @ '' given'') # ex)))"

section \<open>The server API\<close>

definition phongo_manager_set_serverapi_opts ::
    "('w, 'uri, 'rc, 'rp, 'wc, 'cl, 'api) manager_env \<Rightarrow> ('rc, 'rp, 'wc, 'cs, 'cl) store \<Rightarrow> ht option \<Rightarrow> 'cl
       \<Rightarrow> ('w, 'cl) manager_state \<Rightarrow> exn list \<Rightarrow> ('w, 'cl) manager_state init_step" where
  "phongo_manager_set_serverapi_opts V D driverOptions client s ex =
     (case Option.bind driverOptions (\<lambda>h. php_array_fetch h ''serverApi'') of
        None \<Rightarrow> Some (True, s, ex)
      | Some z \<Rightarrow> (case me_server_api V z of
          None \<Rightarrow> Some (False, s, invalid_argument (''Expected '' @ dquote ''serverApi'' @ '' driver option to be ''
                    @ serverapi_ce_name @ '', '' @ z_class_or_type_name D z @ '' given'') # ex)
        | Some api \<Rightarrow> (let (err, w1) = mongoc_client_set_server_api (me_client V) client api (ms_world s);
                           s1 = s\<lparr>ms_world := w1\<rparr> in
            case err of
              None \<Rightarrow> Some (True, s1, ex)
            | Some error \<Rightarrow> map_option (\<lambda>ex1. (False, s1, ex1))
                (phongo_throw_exception_from_bson_error_t (me_decode V) (me_codes V) error ex))))"

section \<open>Initialising a Manager\<close>

definition phongo_apm_set_callbacks ::
    "('w, 'uri, 'rc, 'rp, 'wc, 'cl, 'api) manager_env \<Rightarrow> 'cl \<Rightarrow> ('w, 'cl) manager_state \<Rightarrow> exn list \<Rightarrow> ('w, 'cl) manager_state init_step" where
  "phongo_apm_set_callbacks V client s ex =
     (let (ok, w1) = mongoc_client_set_apm_callbacks (me_client V) client (ms_world s) in
      Some (ok, s\<lparr>ms_world := w1\<rparr>, if ok then ex
         else phongo_throw_exception PHONGO_ERROR_UNEXPECTED_VALUE ''Failed to set APM callbacks'' # ex))"

text \<open>The URI with all options applied, and the TLS options of the client.\<close>

definition manager_uri ::
    "('w, 'uri, 'rc, 'rp, 'wc, 'cl, 'api) manager_env \<Rightarrow> string \<Rightarrow> bdoc \<Rightarrow> ht option \<Rightarrow> ('uri \<times> mongoc_ssl_opt_t option) result option" where
  "manager_uri V uri_string options driverOptions =
     (let U = me_uri V in
      case bind_r (php_phongo_make_uri U uri_string) (\<lambda>u0.
           bind_r (php_phongo_apply_options_to_uri U options u0) (\<lambda>u1.
           bind_r (php_phongo_apply_rc_options_to_uri U (me_rc V) options u1) (\<lambda>u2.
           bind_r (php_phongo_apply_rp_options_to_uri U (me_rp V) options u2) (\<lambda>u3.
                   php_phongo_apply_wc_options_to_uri U (me_wc V) options u3)))) of
        Inl e \<Rightarrow> Some (Inl e)
      | Inr uri \<Rightarrow> (case me_ssl V of
          None \<Rightarrow> Some (if mongoc_uri_get_tls U uri
                       then Inl (invalid_argument ''Cannot create SSL client. SSL is not enabled in this build.'')
                       else Inr (uri, None))
        | Some build \<Rightarrow> (case php_phongo_apply_driver_options_to_uri U (me_classes V) (me_interned V) driverOptions uri of
            None \<Rightarrow> None
          | Some (Inl e) \<Rightarrow> Some (Inl e)
          | Some (Inr (uri1, warnings)) \<Rightarrow> (case php_phongo_make_ssl_opt build U (me_classes V) (me_interned V) uri1 driverOptions of
              Inl e \<Rightarrow> Some (Inl e)
            | Inr (ssl_opt, deprecated) \<Rightarrow> (case php_phongo_uri_finalize_tls U uri1 of
                Inr u \<Rightarrow> Some (Inr (u, ssl_opt))
              | Inl e \<Rightarrow> (case ssl_opt of None \<Rightarrow> Some (Inl e)
                  | Some o1 \<Rightarrow> map_option (\<lambda>_. Inl e) (php_phongo_free_ssl_opt o1)))))))"

text \<open>
  The second half: the client is made, configured and registered.  From the moment it is made,
  the Manager has it, whatever happens next.
\<close>

definition manager_register :: "('w, 'uri, 'rc, 'rp, 'wc, 'cl, 'api) manager_env \<Rightarrow> ('w, 'cl) manager_state \<Rightarrow> exn list
    \<Rightarrow> ('w, 'cl) manager_state init_step" where
  "manager_register V s ex =
     (case manager_of (ms_intern s) of
        None \<Rightarrow> None
      | Some m \<Rightarrow> map_option (\<lambda>(G, calls). (True, s\<lparr>ms_globals := G, ms_calls := ms_calls s @ calls\<rparr>, ex))
                   (php_phongo_client_register (me_pid V) m (ms_globals s)))"

definition manager_make_client ::
    "('w, 'uri, 'rc, 'rp, 'wc, 'cl, 'api) manager_env \<Rightarrow> ('rc, 'rp, 'wc, 'cs, 'cl) store \<Rightarrow> string \<Rightarrow> ht option \<Rightarrow> 'uri
       \<Rightarrow> mongoc_ssl_opt_t option \<Rightarrow> ('w, 'cl) manager_state \<Rightarrow> exn list \<Rightarrow> ('w, 'cl) manager_state init_step" where
  "manager_make_client V D uri_string driverOptions uri ssl_opt s ex =
     (let (client, w1, ex1) = php_phongo_make_mongo_client V D uri driverOptions (ms_world s) ex;
          s1 = s\<lparr>ms_intern := (ms_intern s)\<lparr>mi_client := client\<rparr>, ms_world := w1\<rparr> in
      case client of
        None \<Rightarrow> Some (False, s1, phongo_throw_exception PHONGO_ERROR_RUNTIME
                  (''Failed to create Manager from URI: '' @ squote (c_str uri_string)) # ex1)
      | Some c \<Rightarrow>
          (let w2 = mongoc_client_set_error_api (me_client V) c w1;
               w3 = (case ssl_opt of None \<Rightarrow> w2 | Some o1 \<Rightarrow> mongoc_client_set_ssl_opts (me_client V) c o1 w2);
               s2 = s1\<lparr>ms_world := w3\<rparr> in
           init_then (phongo_manager_set_auto_encryption_opts V D driverOptions c s2 ex1) (\<lambda>s3 ex3.
           init_then (phongo_manager_set_serverapi_opts V D driverOptions c s3 ex3) (\<lambda>s4 ex4.
           init_then (phongo_apm_set_callbacks V c s4 ex4) (manager_register V)))))"

text \<open>The TLS options are freed in the end, whatever happened.\<close>

definition free_ssl_after :: "mongoc_ssl_opt_t option \<Rightarrow> 's init_step \<Rightarrow> 's init_step" where
  "free_ssl_after ssl_opt r = (case ssl_opt of None \<Rightarrow> r
     | Some o1 \<Rightarrow> (case php_phongo_free_ssl_opt o1 of None \<Rightarrow> None | Some _ \<Rightarrow> r))"

definition disable_persistence :: "ht option \<Rightarrow> bool" where
  "disable_persistence driverOptions = (case driverOptions of None \<Rightarrow> False
     | Some h \<Rightarrow> php_array_exists h ''disableClientPersistence'' \<and> php_array_fetch_bool h ''disableClientPersistence'')"

definition manager_new_client ::
    "('w, 'uri, 'rc, 'rp, 'wc, 'cl, 'api) manager_env \<Rightarrow> ('rc, 'rp, 'wc, 'cs, 'cl) store \<Rightarrow> string \<Rightarrow> ht option \<Rightarrow> ht option
       \<Rightarrow> ('w, 'cl) manager_state \<Rightarrow> exn list \<Rightarrow> ('w, 'cl) manager_state init_step" where
  "manager_new_client V D uri_string options driverOptions s ex =
     (case (case options of None \<Rightarrow> Some ([], None, ex)
            | Some o1 \<Rightarrow> php_phongo_zval_to_bson (me_fuel V) (me_encode V) (me_heap V) False False (ZArray o1) [] ex) of
        None \<Rightarrow> None
      | Some (doc, _, ex1) \<Rightarrow>
          if ex1 \<noteq> [] then Some (False, s, ex1)
          else (case manager_uri V uri_string (BDoc doc DocOk) driverOptions of
              None \<Rightarrow> None
            | Some (Inl e) \<Rightarrow> Some (False, s, e # ex1)
            | Some (Inr (uri, ssl_opt)) \<Rightarrow>
                free_ssl_after ssl_opt (manager_make_client V D uri_string driverOptions uri ssl_opt s ex1)))"

definition phongo_manager_init ::
    "('w, 'uri, 'rc, 'rp, 'wc, 'cl, 'api) manager_env \<Rightarrow> ('rc, 'rp, 'wc, 'cs, 'cl) store \<Rightarrow> string \<Rightarrow> ht option \<Rightarrow> ht option
       \<Rightarrow> ('w, 'cl) manager_state \<Rightarrow> exn list \<Rightarrow> ('w, 'cl) manager_state init_step" where
  "phongo_manager_init V D uri_string options driverOptions s ex =
     (case php_phongo_manager_make_client_hash V D uri_string options driverOptions of
        Inl e \<Rightarrow> Some (False, s, e # ex)
      | Inr hash \<Rightarrow>
          (let persistent = \<not> disable_persistence driverOptions;
               found = (if persistent then php_phongo_find_persistent_client (ms_globals s) hash else None);
               m = (ms_intern s)\<lparr>mi_client_hash := Some hash, mi_use_persistent_client := persistent\<rparr>;
               m1 = (if persistent then m\<lparr>mi_client := found\<rparr> else m);
               s1 = s\<lparr>ms_intern := m1\<rparr> in
           case found of
             Some client \<Rightarrow> Some (True, s1, ex)
           | None \<Rightarrow> manager_new_client V D uri_string options driverOptions s1 ex))"

section \<open>The constructor and the end of a Manager\<close>

definition PHONGO_MANAGER_URI_DEFAULT :: string where
  "PHONGO_MANAGER_URI_DEFAULT = ''mongodb://127.0.0.1/''"

text \<open>The address is the Manager's own, by which it is registered.\<close>

definition Manager___construct ::
    "('w, 'uri, 'rc, 'rp, 'wc, 'cl, 'api) manager_env \<Rightarrow> ('rc, 'rp, 'wc, 'cs, 'cl) store \<Rightarrow> nat \<Rightarrow> string option \<Rightarrow> ht option
       \<Rightarrow> ht option \<Rightarrow> ('w, 'cl) manager_state \<Rightarrow> exn list \<Rightarrow> (('w, 'cl) manager_state \<times> exn list) option" where
  "Manager___construct V D address uri_string options driverOptions s ex =
     (let options1 = map_option (php_phongo_manager_prep_uri_options V) options in
      case (case driverOptions of None \<Rightarrow> Inr None
            | Some h \<Rightarrow> bind_r (php_phongo_manager_merge_context_options V h) (\<lambda>h1. Inr (Some h1))) of
        Inl e \<Rightarrow> Some (s, e # ex)
      | Inr driverOptions1 \<Rightarrow>
          (case phongo_manager_init V D (case uri_string of None \<Rightarrow> PHONGO_MANAGER_URI_DEFAULT | Some u \<Rightarrow> u) options1 driverOptions1 s ex of
             None \<Rightarrow> None
           | Some (_, s1, ex1) \<Rightarrow>
               if ex1 \<noteq> [] then Some (s1, ex1)
               else (let (ok, G) = php_phongo_manager_register address (ms_globals s1) in
                     Some (s1\<lparr>ms_globals := G\<rparr>, if ok then ex1
                       else phongo_throw_exception PHONGO_ERROR_UNEXPECTED_VALUE ''Failed to add Manager to internal registry'' # ex1))))"

text \<open>
  What the end of a Manager does with the registries; a Manager with a client has a hash.  The
  release of its key vault client and its subscribers is the engine's.
\<close>

definition php_phongo_manager_free_object ::
    "int \<Rightarrow> nat \<Rightarrow> ('w, 'cl) manager_state \<Rightarrow> ('w, 'cl) manager_state" where
  "php_phongo_manager_free_object pid address s =
     (let (_, G1) = php_phongo_manager_unregister address (ms_globals s) in
      case manager_of (ms_intern s) of
        None \<Rightarrow> s\<lparr>ms_globals := G1\<rparr>
      | Some m \<Rightarrow> (let (_, G2, calls) = php_phongo_client_unregister pid m G1 in
          s\<lparr>ms_globals := G2, ms_calls := ms_calls s @ calls\<rparr>))"

end
