(* ===== verification/Driver_Registry_Props.thy ===== *)
theory Driver_Registry_Props
  imports Driver_Registry
begin

text \<open>
  Processes and their clients.  Any number of processes run the operations on the registries, in
  any order, and fork; the calls to libmongoc are logged with the process that made them.  The
  log keeps a protocol: a process resets a client once, destroys it once, and only when it made
  it, and does not use it afterwards.
\<close>

section \<open>The protocol\<close>

text \<open>A call, after the calls before it, given which process made each client.\<close>

fun call_ok :: "('cl \<Rightarrow> int option) \<Rightarrow> (int \<times> 'cl client_call) list \<Rightarrow> int \<times> 'cl client_call \<Rightarrow> bool" where
  "call_ok made before (p, ClientReset c) \<longleftrightarrow> made c \<noteq> None \<and> (p, ClientReset c) \<notin> set before \<and> (p, ClientDestroy c) \<notin> set before"
| "call_ok made before (p, ClientClearApm c) \<longleftrightarrow> made c = Some p \<and> (p, ClientDestroy c) \<notin> set before"
| "call_ok made before (p, ClientDestroy c) \<longleftrightarrow> made c = Some p \<and> (p, ClientDestroy c) \<notin> set before"

definition log_ok :: "('cl \<Rightarrow> int option) \<Rightarrow> (int \<times> 'cl client_call) list \<Rightarrow> bool" where
  "log_ok made log \<longleftrightarrow> (\<forall>i < length log. call_ok made (take i log) (log ! i))"

lemma log_ok_Nil [simp]: "log_ok made []"
  by (simp add: log_ok_def)

lemma log_ok_snoc: "log_ok made (log @ [x]) \<longleftrightarrow> log_ok made log \<and> call_ok made log x"
  by (auto simp: log_ok_def nth_append less_Suc_eq)

lemma call_ok_mono: "call_ok made log x \<Longrightarrow> made c = None \<Longrightarrow> call_ok (made(c \<mapsto> p)) log x"
  by (cases x; cases "snd x") auto

lemma log_ok_mono: "log_ok made log \<Longrightarrow> made c = None \<Longrightarrow> log_ok (made(c \<mapsto> p)) log"
  by (simp add: log_ok_def call_ok_mono)

lemma call_ok_made: "call_ok made before (p, x) \<Longrightarrow> (case x of ClientReset c \<Rightarrow> made c | ClientClearApm c \<Rightarrow> made c | ClientDestroy c \<Rightarrow> made c) \<noteq> None"
  by (cases x) auto

lemma log_ok_made:
  assumes "log_ok made log" and "made c = None"
  shows "(p, ClientReset c) \<notin> set log \<and> (p, ClientDestroy c) \<notin> set log"
proof -
  have "call_ok made (take i log) (log ! i)" if "i < length log" for i
    using assms(1) that by (simp add: log_ok_def)
  then show ?thesis using assms(2) by (fastforce simp: in_set_conv_nth dest: call_ok_made)
qed

section \<open>What a process does with its clients\<close>

text \<open>
  The operations, by their effect on the set of registered clients: they reset clients that were
  not reset in the process, and drop clients, which destroys them.
\<close>

inductive client_acts :: "int \<Rightarrow> 'cl php_phongo_pclient_t set \<Rightarrow> 'cl client_call list \<Rightarrow> 'cl php_phongo_pclient_t set \<Rightarrow> bool"
  for p where
  acts_none: "client_acts p E [] E"
| acts_reset: "pc \<in> E \<Longrightarrow> pc_last_reset_by_pid pc \<noteq> p \<Longrightarrow>
    client_acts p (insert (pc\<lparr>pc_last_reset_by_pid := p\<rparr>) (E - {pc})) calls E' \<Longrightarrow>
    client_acts p E (ClientReset (pc_client pc) # calls) E'"
| acts_drop: "pc \<in> E \<Longrightarrow> client_acts p (E - {pc}) calls E' \<Longrightarrow>
    client_acts p E (php_phongo_pclient_destroy p pc @ calls) E'"

lemma acts_trans: "client_acts p E calls E1 \<Longrightarrow> client_acts p E1 calls2 E2 \<Longrightarrow> client_acts p E (calls @ calls2) E2"
  by (induction rule: client_acts.induct) (auto intro: client_acts.intros simp: append_assoc)

text \<open>What is known of the clients registered in a process.\<close>

definition clients_ok ::
    "('cl \<Rightarrow> int option) \<Rightarrow> int set \<Rightarrow> (int \<times> 'cl client_call) list \<Rightarrow> int \<Rightarrow> 'cl php_phongo_pclient_t set \<Rightarrow> bool" where
  "clients_ok made pids log p E \<longleftrightarrow> inj_on pc_client E \<and> (\<forall>pc \<in> E. made (pc_client pc) = Some (pc_created_by_pid pc)
     \<and> pc_last_reset_by_pid pc \<in> insert 0 pids
     \<and> (pc_last_reset_by_pid pc = p \<longleftrightarrow> (p, ClientReset (pc_client pc)) \<in> set log)
     \<and> (p, ClientDestroy (pc_client pc)) \<notin> set log)"

abbreviation by_process :: "int \<Rightarrow> 'cl client_call list \<Rightarrow> (int \<times> 'cl client_call) list" where
  "by_process p calls \<equiv> map (Pair p) calls"

lemma reset_ok:
  assumes "clients_ok made pids log p E" and "log_ok made log" and "p \<in> pids"
    and "pc \<in> E" and "pc_last_reset_by_pid pc \<noteq> p"
  shows "clients_ok made pids (log @ [(p, ClientReset (pc_client pc))]) p (insert (pc\<lparr>pc_last_reset_by_pid := p\<rparr>) (E - {pc}))"
    and "log_ok made (log @ [(p, ClientReset (pc_client pc))])"
proof -
  have other: "pc_client q \<noteq> pc_client pc" if "q \<in> E" "q \<noteq> pc" for q
    using assms(1,4) that by (auto simp: clients_ok_def inj_on_def)
  show "clients_ok made pids (log @ [(p, ClientReset (pc_client pc))]) p (insert (pc\<lparr>pc_last_reset_by_pid := p\<rparr>) (E - {pc}))"
    using assms other unfolding clients_ok_def inj_on_def by (auto dest: other)
  show "log_ok made (log @ [(p, ClientReset (pc_client pc))])"
    using assms by (auto simp: log_ok_snoc clients_ok_def)
qed

lemma drop_ok:
  assumes "clients_ok made pids log p E" and "log_ok made log" and "pc \<in> E"
  shows "clients_ok made pids (log @ by_process p (php_phongo_pclient_destroy p pc)) p (E - {pc})"
    and "log_ok made (log @ by_process p (php_phongo_pclient_destroy p pc))"
proof -
  have other: "pc_client q \<noteq> pc_client pc" if "q \<in> E" "q \<noteq> pc" for q
    using assms(1,3) that by (auto simp: clients_ok_def inj_on_def)
  show "clients_ok made pids (log @ by_process p (php_phongo_pclient_destroy p pc)) p (E - {pc})"
    using assms other unfolding clients_ok_def inj_on_def by (auto simp: php_phongo_pclient_destroy_def)
  have "log_ok made ((log @ [(p, ClientClearApm (pc_client pc))]) @ [(p, ClientDestroy (pc_client pc))])"
    if "pc_created_by_pid pc = p"
    unfolding log_ok_snoc using assms that by (auto simp: clients_ok_def)
  then show "log_ok made (log @ by_process p (php_phongo_pclient_destroy p pc))"
    using assms(2) by (simp add: php_phongo_pclient_destroy_def)
qed

lemma acts_ok:
  "client_acts p E calls E' \<Longrightarrow> clients_ok made pids log p E \<Longrightarrow> log_ok made log \<Longrightarrow> p \<in> pids \<Longrightarrow>
     clients_ok made pids (log @ by_process p calls) p E' \<and> log_ok made (log @ by_process p calls)"
proof (induction arbitrary: log rule: client_acts.induct)
  case (acts_reset pc E calls E')
  from acts_reset.IH[OF reset_ok[OF acts_reset.prems acts_reset.hyps(1,2)] acts_reset.prems(3)]
  show ?case by simp
next
  case (acts_drop pc E calls E')
  from acts_drop.IH[OF drop_ok[OF acts_drop.prems(1,2) acts_drop.hyps(1)] acts_drop.prems(3)]
  show ?case by simp
qed simp

section \<open>The operations of the registries\<close>

text \<open>The entries of both tables.\<close>

definition request_entries :: "'cl mongodb_globals \<Rightarrow> (int \<times> 'cl php_phongo_pclient_t) list" where
  "request_entries G = (case g_request_clients G of None \<Rightarrow> [] | Some t \<Rightarrow> it_entries t)"

definition client_entries :: "'cl mongodb_globals \<Rightarrow> 'cl php_phongo_pclient_t list" where
  "client_entries G = map snd (g_persistent_clients G) @ map snd (request_entries G)"

definition registry_ok :: "'cl mongodb_globals \<Rightarrow> bool" where
  "registry_ok G \<longleftrightarrow> distinct (map pc_client (client_entries G)) \<and> distinct (map fst (request_entries G))
     \<and> (\<forall>t. g_request_clients G = Some t \<longrightarrow> (\<forall>e \<in> set (it_entries t). fst e < it_next t))"

lemma reset_first_cases:
  assumes "reset_first p P t = (t', calls)"
  shows "t' = t \<and> calls = [] \<or> (\<exists>xs k pc ys. t = xs @ (k, pc) # ys \<and> t' = xs @ (k, pc\<lparr>pc_last_reset_by_pid := p\<rparr>) # ys
     \<and> calls = [ClientReset (pc_client pc)] \<and> pc_last_reset_by_pid pc \<noteq> p)"
  using assms
proof (induction t arbitrary: t' calls)
  case (Cons e t)
  show ?case
  proof (cases "P e")
    case True
    then have "t' = t'" by simp
    show ?thesis
    proof (cases "pc_last_reset_by_pid (snd e) = p")
      case True
      then show ?thesis using Cons.prems \<open>P e\<close> by (auto simp: phongo_pclient_reset_once_def)
    next
      case False
      then have "e # t = [] @ (fst e, snd e) # t" "t' = [] @ (fst e, (snd e)\<lparr>pc_last_reset_by_pid := p\<rparr>) # t"
        "calls = [ClientReset (pc_client (snd e))]" using Cons.prems \<open>P e\<close> by (auto simp: phongo_pclient_reset_once_def)
      then show ?thesis using False by blast
    qed
  next
    case False
    then obtain t1 where t1: "reset_first p P t = (t1, calls)" "t' = e # t1"
      using Cons.prems by (auto simp: Let_def split: prod.splits)
    from Cons.IH[OF t1(1)] show ?thesis
    proof
      assume "t1 = t \<and> calls = []" then show ?thesis using t1 by simp
    next
      assume "\<exists>xs k pc ys. t = xs @ (k, pc) # ys \<and> t1 = xs @ (k, pc\<lparr>pc_last_reset_by_pid := p\<rparr>) # ys
         \<and> calls = [ClientReset (pc_client pc)] \<and> pc_last_reset_by_pid pc \<noteq> p"
      then obtain xs k pc ys where "t = xs @ (k, pc) # ys" "t1 = xs @ (k, pc\<lparr>pc_last_reset_by_pid := p\<rparr>) # ys"
        "calls = [ClientReset (pc_client pc)]" "pc_last_reset_by_pid pc \<noteq> p" by blast
      then have "e # t = (e # xs) @ (k, pc) # ys \<and> t' = (e # xs) @ (k, pc\<lparr>pc_last_reset_by_pid := p\<rparr>) # ys
        \<and> calls = [ClientReset (pc_client pc)] \<and> pc_last_reset_by_pid pc \<noteq> p" using t1(2) by simp
      then show ?thesis by blast
    qed
  qed
qed simp

text \<open>Replacing one entry of a list of distinct clients.\<close>

lemma entry_replaced:
  assumes "distinct (map pc_client (xs @ pc # ys))"
  shows "set (xs @ pc\<lparr>pc_last_reset_by_pid := p\<rparr> # ys) = insert (pc\<lparr>pc_last_reset_by_pid := p\<rparr>) (set (xs @ pc # ys) - {pc})"
  using assms by (auto simp: image_iff)

lemma entry_reset_acts:
  assumes "distinct (map pc_client (xs @ pc # ys))" and "pc_last_reset_by_pid pc \<noteq> p"
  shows "client_acts p (set (xs @ pc # ys)) [ClientReset (pc_client pc)] (set (xs @ pc\<lparr>pc_last_reset_by_pid := p\<rparr> # ys))"
  unfolding entry_replaced[OF assms(1)] by (rule acts_reset[OF _ assms(2) acts_none]) simp

definition op_ok :: "int \<Rightarrow> 'cl mongodb_globals \<Rightarrow> 'cl mongodb_globals \<Rightarrow> 'cl client_call list \<Rightarrow> bool" where
  "op_ok p G G' calls \<longleftrightarrow> registry_ok G' \<and> client_acts p (set (client_entries G)) calls (set (client_entries G'))"

lemma op_ok_trans: "op_ok p G G1 calls \<Longrightarrow> op_ok p G1 G2 calls2 \<Longrightarrow> op_ok p G G2 (calls @ calls2)"
  by (auto simp: op_ok_def intro: acts_trans)

lemma op_ok_refl: "registry_ok G \<Longrightarrow> op_ok p G G []"
  by (simp add: op_ok_def acts_none)

lemma client_reset_one_ok:
  assumes G: "registry_ok G" and r: "client_reset_one p m G = Some (G', calls)"
  shows "op_ok p G G' calls"
proof (cases "mgr_use_persistent_client m")
  case True
  obtain t where t: "reset_first p (\<lambda>e. fst e = mgr_client_hash m) (g_persistent_clients G) = (t, calls)"
    and G': "G' = G\<lparr>g_persistent_clients := t\<rparr>"
    using r True by (auto simp: client_reset_one_def Let_def split: prod.splits)
  from reset_first_cases[OF t] show ?thesis
  proof (elim disjE exE conjE)
    assume "t = g_persistent_clients G" "calls = []"
    then show ?thesis using G G' by (simp add: op_ok_refl)
  next
    fix xs k pc ys
    assume h: "g_persistent_clients G = xs @ (k, pc) # ys" "t = xs @ (k, pc\<lparr>pc_last_reset_by_pid := p\<rparr>) # ys"
      "calls = [ClientReset (pc_client pc)]" "pc_last_reset_by_pid pc \<noteq> p"
    let ?b = "map snd ys @ map snd (request_entries G)"
    have e: "client_entries G = map snd xs @ pc # ?b" "client_entries G' = map snd xs @ pc\<lparr>pc_last_reset_by_pid := p\<rparr> # ?b"
      "request_entries G' = request_entries G" "g_request_clients G' = g_request_clients G"
      using h G' by (simp_all add: client_entries_def request_entries_def)
    have "distinct (map pc_client (map snd xs @ pc # ?b))" using G e(1) by (simp add: registry_ok_def)
    from entry_reset_acts[OF this h(4)] have "client_acts p (set (client_entries G)) calls (set (client_entries G'))"
      unfolding e h(3) .
    moreover have "registry_ok G'" using G unfolding registry_ok_def e by simp
    ultimately show ?thesis by (simp add: op_ok_def)
  qed
next
  case False
  obtain q t where q: "g_request_clients G = Some q"
    and t: "reset_first p (\<lambda>e. pc_client (snd e) = mgr_client m) (it_entries q) = (t, calls)"
    and G': "G' = G\<lparr>g_request_clients := Some (q\<lparr>it_entries := t\<rparr>)\<rparr>"
    using r False by (auto simp: client_reset_one_def Let_def split: prod.splits option.splits)
  from reset_first_cases[OF t] show ?thesis
  proof (elim disjE exE conjE)
    assume "t = it_entries q" "calls = []"
    moreover from this have "G' = G" using G' q by (cases G) simp
    ultimately show ?thesis using G by (simp add: op_ok_refl)
  next
    fix xs k pc ys
    assume h: "it_entries q = xs @ (k, pc) # ys" "t = xs @ (k, pc\<lparr>pc_last_reset_by_pid := p\<rparr>) # ys"
      "calls = [ClientReset (pc_client pc)]" "pc_last_reset_by_pid pc \<noteq> p"
    let ?a = "map snd (g_persistent_clients G) @ map snd xs"
    have e: "client_entries G = ?a @ pc # map snd ys" "client_entries G' = ?a @ pc\<lparr>pc_last_reset_by_pid := p\<rparr> # map snd ys"
      "map fst (request_entries G') = map fst (request_entries G)" "g_request_clients G' = Some (q\<lparr>it_entries := t\<rparr>)"
      using h G' q by (simp_all add: client_entries_def request_entries_def)
    have "distinct (map pc_client (?a @ pc # map snd ys))" using G e(1) by (simp add: registry_ok_def)
    from entry_reset_acts[OF this h(4)] have "client_acts p (set (client_entries G)) calls (set (client_entries G'))"
      unfolding e h(3) .
    moreover have "registry_ok G'" using G q h(1,2) unfolding registry_ok_def e by simp
    ultimately show ?thesis by (simp add: op_ok_def)
  qed
qed

lemma client_reset_once_ok:
  "php_phongo_client_reset_once fuel D p m G = Some (G', calls) \<Longrightarrow> registry_ok G \<Longrightarrow> op_ok p G G' calls"
proof (induction fuel arbitrary: m G' calls)
  case (Suc fuel)
  show ?case
  proof (cases "mgr_key_vault_client_manager m = ZUndef")
    case True
    then show ?thesis using Suc.prems client_reset_one_ok by simp
  next
    case False
    then obtain kv G1 c1 c2 where "php_phongo_client_reset_once fuel D p kv G = Some (G1, c1)"
      "client_reset_one p m G1 = Some (G', c2)" "calls = c1 @ c2"
      using Suc.prems(1) by (auto split: option.splits driver_obj.splits)
    then show ?thesis using Suc.IH Suc.prems(2) client_reset_one_ok op_ok_trans op_ok_def by metis
  qed
qed simp


text \<open>Deleting entries of the request: one of a Manager, or all.\<close>

lemma find_client_split:
  assumes "find_client c es = Some (i, pc)"
  shows "\<exists>xs ys. es = xs @ (i, pc) # ys \<and> pc_client pc = c"
  using assms unfolding find_client_def by (auto simp: find_Some_iff in_set_conv_decomp dest!: nth_mem)

lemma filter_index:
  assumes "distinct (map fst (xs @ (i, pc) # ys))"
  shows "filter (\<lambda>e. fst e \<noteq> i) (xs @ (i, pc) # ys) = xs @ ys"
proof -
  have "\<forall>e \<in> set xs \<union> set ys. fst e \<noteq> i" using assms by force
  then show ?thesis by simp
qed

lemma client_unregister_ok:
  assumes G: "registry_ok G" and r: "php_phongo_client_unregister p m G = (b, G', calls)"
  shows "op_ok p G G' calls"
proof (cases "mgr_use_persistent_client m \<or> g_request_clients G = None
    \<or> (\<exists>q. g_request_clients G = Some q \<and> find_client (mgr_client m) (it_entries q) = None)")
  case True
  then have "G' = G \<and> calls = []" using r
    by (cases "g_request_clients G") (auto simp: php_phongo_client_unregister_def split: if_splits)
  then show ?thesis using G by (simp add: op_ok_refl)
next
  case False
  then obtain q i pc where q: "g_request_clients G = Some q" "\<not> mgr_use_persistent_client m"
      and f: "find_client (mgr_client m) (it_entries q) = Some (i, pc)" by auto
  have G': "G' = G\<lparr>g_request_clients := Some (index_del q i)\<rparr>" and c: "calls = php_phongo_pclient_destroy p pc"
    using r q f by (simp_all add: php_phongo_client_unregister_def)
  obtain xs ys where h: "it_entries q = xs @ (i, pc) # ys" using find_client_split[OF f] by blast
  have d: "distinct (map fst (xs @ (i, pc) # ys))" using G h q by (simp add: registry_ok_def request_entries_def)
  let ?a = "map snd (g_persistent_clients G)"
  have e: "client_entries G = ?a @ map snd xs @ pc # map snd ys" "client_entries G' = ?a @ map snd xs @ map snd ys"
    "request_entries G' = xs @ ys" "g_request_clients G' = Some (index_del q i)" "it_entries (index_del q i) = xs @ ys"
    "it_next (index_del q i) = it_next q"
    using h G' q filter_index[OF d] by (simp_all add: client_entries_def request_entries_def index_del_def)
  have "distinct (map pc_client (?a @ map snd xs @ pc # map snd ys))" using G unfolding registry_ok_def e by blast
  then have s: "set (client_entries G) - {pc} = set (client_entries G')" unfolding e by (auto simp: image_iff)
  have "client_acts p (set (client_entries G)) (php_phongo_pclient_destroy p pc @ []) (set (client_entries G'))"
    by (rule acts_drop) (simp_all add: s acts_none, simp add: e)
  moreover have "registry_ok G'" using G q(1) h unfolding registry_ok_def e by (auto simp: request_entries_def e(5,6))
  ultimately show ?thesis by (simp add: op_ok_def c)
qed

text \<open>A whole table is destroyed.\<close>

lemma drop_all_acts:
  assumes "distinct ps" and "set ps \<subseteq> E"
  shows "client_acts p E (concat (map (php_phongo_pclient_destroy p) ps)) (E - set ps)"
  using assms
proof (induction ps arbitrary: E)
  case (Cons pc ps)
  have "client_acts p (E - {pc}) (concat (map (php_phongo_pclient_destroy p) ps)) (E - {pc} - set ps)"
    using Cons.prems by (intro Cons.IH) auto
  moreover have "E - set (pc # ps) = E - {pc} - set ps" by auto
  moreover have "pc \<in> E" using Cons.prems(2) by simp
  ultimately show ?case using acts_drop[of pc E p] by simp
qed (simp add: acts_none)

lemma registry_entries_distinct:
  assumes "registry_ok G"
  shows "distinct (map snd (g_persistent_clients G))" "distinct (map snd (request_entries G))"
    "snd ` set (g_persistent_clients G) \<inter> snd ` set (request_entries G) = {}"
proof -
  have "distinct (client_entries G)" using assms unfolding registry_ok_def by (simp add: distinct_map)
  then show "distinct (map snd (g_persistent_clients G))" "distinct (map snd (request_entries G))"
    "snd ` set (g_persistent_clients G) \<inter> snd ` set (request_entries G) = {}" by (simp_all add: client_entries_def)
qed

lemma RSHUTDOWN_ok:
  assumes G: "registry_ok G" and r: "RSHUTDOWN p G = (G', calls)"
  shows "op_ok p G G' calls"
proof -
  have c: "calls = concat (map (php_phongo_pclient_destroy p) (map snd (request_entries G)))"
    using r by (auto simp: RSHUTDOWN_def request_entries_def comp_def split: option.splits)
  have e: "client_entries G' = map snd (g_persistent_clients G)" "request_entries G' = []" "g_request_clients G' = None"
    using r by (auto simp: RSHUTDOWN_def client_entries_def request_entries_def)
  have "set (client_entries G) - set (map snd (request_entries G)) = set (client_entries G')"
    using registry_entries_distinct(3)[OF G] unfolding e by (auto simp: client_entries_def)
  moreover have "registry_ok G'" using G unfolding registry_ok_def e by (simp add: client_entries_def)
  ultimately show ?thesis
    using drop_all_acts[OF registry_entries_distinct(2)[OF G], of "set (client_entries G)" p]
    by (simp add: op_ok_def c client_entries_def)
qed

lemma GSHUTDOWN_ok:
  assumes G: "registry_ok G" and r: "GSHUTDOWN p G = (G', calls)"
  shows "op_ok p G G' calls"
proof -
  let ?ps = "rev (map snd (g_persistent_clients G))"
  have c: "calls = concat (map (php_phongo_pclient_destroy p) ?ps)"
    using r by (auto simp: GSHUTDOWN_def comp_def rev_map)
  have e: "client_entries G' = map snd (request_entries G)" "request_entries G' = request_entries G"
      "g_request_clients G' = g_request_clients G"
    using r by (auto simp: GSHUTDOWN_def client_entries_def request_entries_def)
  have "set (client_entries G) - set ?ps = set (client_entries G')"
    using registry_entries_distinct(3)[OF G] unfolding e by (auto simp: client_entries_def)
  moreover have "registry_ok G'" using G unfolding registry_ok_def e by (simp add: client_entries_def)
  moreover have "distinct ?ps" using registry_entries_distinct(1)[OF G] by simp
  ultimately show ?thesis
    using drop_all_acts[of ?ps "set (client_entries G)" p] by (simp add: op_ok_def c client_entries_def)
qed

lemma RINIT_ok:
  assumes G: "registry_ok G"
  shows "op_ok p G (RINIT G) []"
proof -
  have "request_entries (RINIT G) = request_entries G" "g_persistent_clients (RINIT G) = g_persistent_clients G"
    by (auto simp: RINIT_def request_entries_def index_empty_def split: option.splits)
  then show ?thesis using G
    by (auto simp: op_ok_def registry_ok_def client_entries_def acts_none RINIT_def index_empty_def split: option.splits)
qed

section \<open>Registering a new client\<close>

lemma persistent_update_cases:
  assumes "persistent_update p h v t = (t', calls)"
  shows "t' = t @ [(h, v)] \<and> calls = [] \<or> (\<exists>xs old ys. t = xs @ (h, old) # ys \<and> t' = xs @ (h, v) # ys
     \<and> calls = php_phongo_pclient_destroy p old)"
  using assms
proof (induction t arbitrary: t' calls)
  case (Cons e t)
  obtain k old where e: "e = (k, old)" by (cases e)
  show ?case
  proof (cases "k = h")
    case True
    then have "e # t = [] @ (h, old) # t \<and> t' = [] @ (h, v) # t \<and> calls = php_phongo_pclient_destroy p old"
      using Cons.prems e by simp
    then show ?thesis by blast
  next
    case False
    then obtain t1 where t1: "persistent_update p h v t = (t1, calls)" "t' = e # t1"
      using Cons.prems e by (auto simp: Let_def split: prod.splits)
    from Cons.IH[OF t1(1)] show ?thesis
    proof
      assume "t1 = t @ [(h, v)] \<and> calls = []" then show ?thesis using t1 by simp
    next
      assume "\<exists>xs old ys. t = xs @ (h, old) # ys \<and> t1 = xs @ (h, v) # ys \<and> calls = php_phongo_pclient_destroy p old"
      then obtain xs old ys where "t = xs @ (h, old) # ys" "t1 = xs @ (h, v) # ys" "calls = php_phongo_pclient_destroy p old" by blast
      then have "e # t = (e # xs) @ (h, old) # ys \<and> t' = (e # xs) @ (h, v) # ys \<and> calls = php_phongo_pclient_destroy p old"
        using t1(2) by simp
      then show ?thesis by blast
    qed
  qed
qed simp

text \<open>The old entries, less those that were dropped, and the new one.\<close>

lemma client_register_ok:
  assumes G: "registry_ok G" and new: "mgr_client m \<notin> pc_client ` set (client_entries G)"
    and r: "php_phongo_client_register p m G = Some (G', calls)"
  shows "registry_ok G' \<and> (\<exists>E. client_acts p (set (client_entries G)) calls E \<and> E \<subseteq> set (client_entries G)
    \<and> set (client_entries G') = insert \<lparr>pc_client = mgr_client m, pc_created_by_pid = p, pc_last_reset_by_pid = 0,
         pc_is_persistent = mgr_use_persistent_client m\<rparr> E)"
proof -
  define v where "v = \<lparr>pc_client = mgr_client m, pc_created_by_pid = p, pc_last_reset_by_pid = 0,
     pc_is_persistent = mgr_use_persistent_client m\<rparr>"
  have v: "pc_client v = mgr_client m" by (simp add: v_def)
  show ?thesis
  proof (cases "mgr_use_persistent_client m")
    case True
    obtain t where t: "persistent_update p (mgr_client_hash m) v (g_persistent_clients G) = (t, calls)"
      and G': "G' = G\<lparr>g_persistent_clients := t\<rparr>"
      using r True by (auto simp: php_phongo_client_register_def v_def Let_def split: prod.splits)
    have q: "request_entries G' = request_entries G" "g_request_clients G' = g_request_clients G"
      using G' by (simp_all add: request_entries_def)
    from persistent_update_cases[OF t] show ?thesis
    proof (elim disjE exE conjE)
      assume h: "t = g_persistent_clients G @ [(mgr_client_hash m, v)]" "calls = []"
      have e: "client_entries G' = map snd (g_persistent_clients G) @ v # map snd (request_entries G)"
        using h G' by (simp add: client_entries_def request_entries_def)
      have "registry_ok G'" using G new unfolding registry_ok_def e q by (auto simp: client_entries_def v)
      moreover have "set (client_entries G') = insert v (set (client_entries G))" unfolding e by (auto simp: client_entries_def)
      ultimately show ?thesis unfolding v_def[symmetric] h(2) by (blast intro: acts_none)
    next
      fix xs old ys
      assume h: "g_persistent_clients G = xs @ (mgr_client_hash m, old) # ys" "t = xs @ (mgr_client_hash m, v) # ys"
        "calls = php_phongo_pclient_destroy p old"
      let ?b = "map snd ys @ map snd (request_entries G)"
      have e: "client_entries G = map snd xs @ old # ?b" "client_entries G' = map snd xs @ v # ?b"
        using h G' by (simp_all add: client_entries_def request_entries_def)
      have d: "distinct (map pc_client (map snd xs @ old # ?b))" using G unfolding registry_ok_def e by blast
      have "registry_ok G'" using G new unfolding registry_ok_def e q by (auto simp: v)
      moreover have "set (client_entries G') = insert v (set (client_entries G) - {old})"
        using d unfolding e by (auto simp: image_iff)
      moreover have "client_acts p (set (client_entries G)) (php_phongo_pclient_destroy p old @ []) (set (client_entries G) - {old})"
        by (rule acts_drop[OF _ acts_none]) (simp add: e)
      ultimately show ?thesis unfolding v_def[symmetric] h(3) by (metis Diff_subset append_Nil2)
    qed
  next
    case False
    then obtain q where q: "g_request_clients G = Some q" and G': "G' = G\<lparr>g_request_clients := Some (index_insert q v)\<rparr>" "calls = []"
      using r by (auto simp: php_phongo_client_register_def v_def split: option.splits)
    have e: "client_entries G' = client_entries G @ [v]" "request_entries G' = request_entries G @ [(it_next q, v)]"
      "g_request_clients G' = Some (index_insert q v)" using q G'
      by (simp_all add: client_entries_def request_entries_def index_insert_def)
    have "registry_ok G'" using G new q unfolding registry_ok_def e
      by (auto simp: v index_insert_def request_entries_def less_le_trans)
    then show ?thesis unfolding v_def[symmetric] G'(2) e by (auto intro: acts_none)
  qed
qed


section \<open>A system of processes\<close>

record 'cl phongo_system =
  sys_globals :: "int \<Rightarrow> 'cl mongodb_globals option"
  sys_pids :: "int set"
  sys_made :: "'cl \<Rightarrow> int option"
  sys_log :: "(int \<times> 'cl client_call) list"

definition system_init :: "'cl phongo_system" where
  "system_init = \<lparr>sys_globals = (\<lambda>_. None), sys_pids = {}, sys_made = (\<lambda>_. None), sys_log = []\<rparr>"

definition run_in :: "int \<Rightarrow> 'cl mongodb_globals \<Rightarrow> 'cl client_call list \<Rightarrow> 'cl phongo_system \<Rightarrow> 'cl phongo_system" where
  "run_in p G calls S = S\<lparr>sys_globals := (sys_globals S)(p \<mapsto> G), sys_log := sys_log S @ by_process p calls\<rparr>"

text \<open>
  One process starts, forks, makes and registers a client, resets before it uses a client, frees
  a Manager, or starts and ends a request or itself.  A process has a number of its own; a client
  is made once.
\<close>

inductive sys_step :: "('rc, 'rp, 'wc, 'cs, 'cl) store \<Rightarrow> 'cl phongo_system \<Rightarrow> 'cl phongo_system \<Rightarrow> bool" for D where
  step_start: "p \<notin> sys_pids S \<Longrightarrow> p > 0 \<Longrightarrow>
    sys_step D S (run_in p globals_init [] (S\<lparr>sys_pids := insert p (sys_pids S)\<rparr>))"
| step_fork: "sys_globals S p = Some G \<Longrightarrow> q \<notin> sys_pids S \<Longrightarrow> q > 0 \<Longrightarrow>
    sys_step D S (run_in q G [] (S\<lparr>sys_pids := insert q (sys_pids S)\<rparr>))"
| step_register: "sys_globals S p = Some G \<Longrightarrow> sys_made S (mgr_client m) = None \<Longrightarrow>
    php_phongo_client_register p m G = Some (G', calls) \<Longrightarrow>
    sys_step D S (run_in p G' calls (S\<lparr>sys_made := (sys_made S)(mgr_client m \<mapsto> p)\<rparr>))"
| step_reset: "sys_globals S p = Some G \<Longrightarrow>
    PHONGO_RESET_CLIENT_IF_PID_DIFFERS fuel D p created_by_pid m G = Some (G', calls) \<Longrightarrow>
    sys_step D S (run_in p G' calls S)"
| step_unregister: "sys_globals S p = Some G \<Longrightarrow> php_phongo_client_unregister p m G = (b, G', calls) \<Longrightarrow>
    sys_step D S (run_in p G' calls S)"
| step_rinit: "sys_globals S p = Some G \<Longrightarrow> sys_step D S (run_in p (RINIT G) [] S)"
| step_rshutdown: "sys_globals S p = Some G \<Longrightarrow> RSHUTDOWN p G = (G', calls) \<Longrightarrow> sys_step D S (run_in p G' calls S)"
| step_gshutdown: "sys_globals S p = Some G \<Longrightarrow> GSHUTDOWN p G = (G', calls) \<Longrightarrow> sys_step D S (run_in p G' calls S)"

abbreviation sys_reachable :: "('rc, 'rp, 'wc, 'cs, 'cl) store \<Rightarrow> 'cl phongo_system \<Rightarrow> bool" where
  "sys_reachable D S \<equiv> (sys_step D)\<^sup>*\<^sup>* system_init S"

inductive_cases sys_stepE: "sys_step D S S'"

definition process_ok :: "'cl phongo_system \<Rightarrow> int \<Rightarrow> 'cl mongodb_globals \<Rightarrow> bool" where
  "process_ok S p G \<longleftrightarrow> p \<in> sys_pids S \<and> registry_ok G
     \<and> clients_ok (sys_made S) (sys_pids S) (sys_log S) p (set (client_entries G))"

definition system_ok :: "'cl phongo_system \<Rightarrow> bool" where
  "system_ok S \<longleftrightarrow> 0 \<notin> sys_pids S \<and> log_ok (sys_made S) (sys_log S) \<and> fst ` set (sys_log S) \<subseteq> sys_pids S
     \<and> (\<forall>p G. sys_globals S p = Some G \<longrightarrow> process_ok S p G)"

lemma system_process: "system_ok S \<Longrightarrow> sys_globals S p = Some G \<Longrightarrow> process_ok S p G"
  by (simp add: system_ok_def)

lemma process_registry: "process_ok S p G \<Longrightarrow> registry_ok G"
  by (simp add: process_ok_def)

lemma clients_ok_other:
  "clients_ok made pids log p E \<Longrightarrow> q \<noteq> p \<Longrightarrow> clients_ok made pids (log @ by_process q calls) p E"
  by (auto simp: clients_ok_def)

lemma clients_ok_mono:
  "clients_ok made pids log p E \<Longrightarrow> made c = None \<Longrightarrow> clients_ok (made(c \<mapsto> q)) pids log p E"
  by (auto simp: clients_ok_def)

lemma clients_ok_pids: "clients_ok made pids log p E \<Longrightarrow> clients_ok made (insert q pids) log p E"
  by (auto simp: clients_ok_def)

text \<open>An operation that runs in a process of the system.\<close>

lemma run_in_ok:
  assumes S: "system_ok S" and p: "sys_globals S p = Some G" and r: "op_ok p G G' calls"
  shows "system_ok (run_in p G' calls S)"
proof -
  have P: "p \<in> sys_pids S" "clients_ok (sys_made S) (sys_pids S) (sys_log S) p (set (client_entries G))"
    using S p by (auto simp: system_ok_def process_ok_def)
  have L: "log_ok (sys_made S) (sys_log S)" using S by (simp add: system_ok_def)
  have A: "clients_ok (sys_made S) (sys_pids S) (sys_log S @ by_process p calls) p (set (client_entries G'))
      \<and> log_ok (sys_made S) (sys_log S @ by_process p calls)"
    using r acts_ok[OF _ P(2) L P(1)] unfolding op_ok_def by blast
  have "process_ok (run_in p G' calls S) q H" if "sys_globals (run_in p G' calls S) q = Some H" for q H
  proof (cases "q = p")
    case True
    then show ?thesis using that A P r by (simp add: run_in_def process_ok_def op_ok_def)
  next
    case False
    then have "process_ok S q H" using that S by (simp add: run_in_def system_ok_def)
    then show ?thesis using False by (auto simp: process_ok_def run_in_def clients_ok_other)
  qed
  then show ?thesis using S A P by (auto simp: system_ok_def run_in_def)
qed

text \<open>A new process, with the tables of its parent or none.\<close>

lemma new_process_ok:
  assumes S: "system_ok S" and q: "q \<notin> sys_pids S" "q > 0" and G: "registry_ok G"
    and C: "client_entries G = [] \<or> (\<exists>p. sys_globals S p = Some G)"
  shows "system_ok (run_in q G [] (S\<lparr>sys_pids := insert q (sys_pids S)\<rparr>))"
proof -
  have nolog: "(q, x) \<notin> set (sys_log S)" for x using S q(1) by (force simp: system_ok_def)
  have "clients_ok (sys_made S) (insert q (sys_pids S)) (sys_log S) q (set (client_entries G))"
    using C
  proof
    assume "\<exists>p. sys_globals S p = Some G"
    then obtain p where "clients_ok (sys_made S) (sys_pids S) (sys_log S) p (set (client_entries G))"
      using system_process[OF S] unfolding process_ok_def by blast
    then show ?thesis using q nolog by (auto simp: clients_ok_def)
  qed (simp add: clients_ok_def)
  then show ?thesis using S q G
    by (auto simp: system_ok_def run_in_def process_ok_def clients_ok_pids split: if_splits)
qed

lemma register_step_ok:
  assumes S: "system_ok S" and p: "sys_globals S p = Some G" and new: "sys_made S (mgr_client m) = None"
    and r: "php_phongo_client_register p m G = Some (G', calls)"
  shows "system_ok (run_in p G' calls (S\<lparr>sys_made := (sys_made S)(mgr_client m \<mapsto> p)\<rparr>))"
proof -
  let ?c = "mgr_client m"
  let ?made = "(sys_made S)(?c \<mapsto> p)"
  let ?log = "sys_log S @ by_process p calls"
  have P: "p \<in> sys_pids S" "p \<noteq> 0" "registry_ok G" "clients_ok (sys_made S) (sys_pids S) (sys_log S) p (set (client_entries G))"
    using S p by (auto simp: system_ok_def process_ok_def)
  have L: "log_ok (sys_made S) (sys_log S)" using S by (simp add: system_ok_def)
  have "?c \<notin> pc_client ` set (client_entries G)" using P(4) new by (auto simp: clients_ok_def)
  then obtain E where G': "registry_ok G'" and E: "client_acts p (set (client_entries G)) calls E" "E \<subseteq> set (client_entries G)"
      "set (client_entries G') = insert \<lparr>pc_client = ?c, pc_created_by_pid = p, pc_last_reset_by_pid = 0,
         pc_is_persistent = mgr_use_persistent_client m\<rparr> E"
    using client_register_ok[OF P(3) _ r] by blast
  have A: "clients_ok (sys_made S) (sys_pids S) ?log p E" "log_ok (sys_made S) ?log"
    using acts_ok[OF E(1) P(4) L P(1)] by blast+
  have nolog: "(p, ClientReset ?c) \<notin> set ?log" "(p, ClientDestroy ?c) \<notin> set ?log" using log_ok_made[OF A(2) new] by blast+
  have fresh: "?c \<notin> pc_client ` E" using A(1) new by (auto simp: clients_ok_def)
  have "clients_ok ?made (sys_pids S) ?log p (set (client_entries G'))"
    unfolding E(3) using clients_ok_mono[OF A(1) new] nolog fresh P(1,2) unfolding clients_ok_def by auto
  then have "process_ok (run_in p G' calls (S\<lparr>sys_made := ?made\<rparr>)) p G'"
    using P(1) G' by (simp add: process_ok_def run_in_def)
  moreover have "process_ok (run_in p G' calls (S\<lparr>sys_made := ?made\<rparr>)) q H" if "q \<noteq> p" "sys_globals S q = Some H" for q H
    using that S new by (auto simp: system_ok_def process_ok_def run_in_def clients_ok_other clients_ok_mono)
  ultimately show ?thesis using S P(1) log_ok_mono[OF A(2) new, of p] by (auto simp: system_ok_def run_in_def)
qed

lemma registry_ok_init: "registry_ok globals_init" "client_entries globals_init = []"
  by (simp_all add: registry_ok_def globals_init_def client_entries_def request_entries_def)

lemma sys_step_ok: "sys_step D S S' \<Longrightarrow> system_ok S \<Longrightarrow> system_ok S'"
proof (induction rule: sys_step.induct)
  case (step_start p S)
  then show ?case using new_process_ok registry_ok_init by blast
next
  case (step_fork S p G q)
  then show ?case using new_process_ok process_registry system_process by blast
next
  case (step_register S p G m G' calls)
  then show ?case using register_step_ok by blast
next
  case (step_reset S p G fuel created_by_pid m G' calls)
  have "registry_ok G" using step_reset by (auto simp: system_ok_def process_ok_def)
  then have "op_ok p G G' calls"
    using step_reset client_reset_once_ok op_ok_refl by (auto simp: PHONGO_RESET_CLIENT_IF_PID_DIFFERS_def split: if_splits)
  then show ?case using step_reset run_in_ok by blast
next
  case (step_unregister S p G m b G' calls)
  then show ?case using run_in_ok client_unregister_ok by (metis system_ok_def process_ok_def)
next
  case (step_rinit S p G)
  then show ?case using run_in_ok RINIT_ok by (metis system_ok_def process_ok_def)
next
  case (step_rshutdown S p G G' calls)
  then show ?case using run_in_ok RSHUTDOWN_ok by (metis system_ok_def process_ok_def)
next
  case (step_gshutdown S p G G' calls)
  then show ?case using run_in_ok GSHUTDOWN_ok by (metis system_ok_def process_ok_def)
qed

lemma sys_reachable_ok: "sys_reachable D S \<Longrightarrow> system_ok S"
proof (induction rule: rtranclp_induct)
  case base
  show ?case by (simp add: system_ok_def system_init_def)
qed (rule sys_step_ok)

section \<open>A client is reset before it is used\<close>

lemma reset_first_effect:
  "e \<in> set t \<Longrightarrow> P e \<Longrightarrow> reset_first p P t = (t', calls) \<Longrightarrow>
     \<exists>x pc. x \<in> set t \<and> P x \<and> (fst x, pc) \<in> set t' \<and> pc_client pc = pc_client (snd x) \<and> pc_last_reset_by_pid pc = p"
proof (induction t arbitrary: t' calls)
  case (Cons x t)
  show ?case
  proof (cases "P x")
    case True
    have "\<exists>pc. (fst x, pc) \<in> set t' \<and> pc_client pc = pc_client (snd x) \<and> pc_last_reset_by_pid pc = p"
      using Cons.prems(3) True by (cases x) (auto simp: phongo_pclient_reset_once_def split: if_splits)
    then show ?thesis using True by (metis list.set_intros(1))
  next
    case False
    then obtain t1 where t1: "reset_first p P t = (t1, calls)" "t' = x # t1" "e \<in> set t"
      using Cons.prems by (auto simp: Let_def split: prod.splits)
    show ?thesis using Cons.IH[OF t1(3) Cons.prems(2) t1(1)] t1(2) by (metis list.set_intros(2))
  qed
qed simp

text \<open>Where a Manager's client is registered.\<close>

definition manager_entry :: "'cl php_phongo_manager_t \<Rightarrow> 'cl mongodb_globals \<Rightarrow> 'cl php_phongo_pclient_t \<Rightarrow> bool" where
  "manager_entry m G pc \<longleftrightarrow> pc_client pc = mgr_client m \<and>
     (if mgr_use_persistent_client m
      then (mgr_client_hash m, pc) \<in> set (g_persistent_clients G) \<and> distinct (map fst (g_persistent_clients G))
      else pc \<in> snd ` set (request_entries G))"

lemma client_reset_one_effect:
  assumes "manager_entry m G pc" and r: "client_reset_one p m G = Some (G', calls)"
  shows "\<exists>pc'. manager_entry m G' pc' \<and> pc_last_reset_by_pid pc' = p"
proof (cases "mgr_use_persistent_client m")
  case True
  obtain t where t: "reset_first p (\<lambda>e. fst e = mgr_client_hash m) (g_persistent_clients G) = (t, calls)"
    and G': "G' = G\<lparr>g_persistent_clients := t\<rparr>"
    using r True by (auto simp: client_reset_one_def Let_def split: prod.splits)
  have e: "(mgr_client_hash m, pc) \<in> set (g_persistent_clients G)" "distinct (map fst (g_persistent_clients G))"
      "pc_client pc = mgr_client m"
    using assms(1) True by (auto simp: manager_entry_def)
  have one: "x = (mgr_client_hash m, pc)" if "x \<in> set (g_persistent_clients G)" "fst x = mgr_client_hash m" for x
    using e that by (metis eq_key_imp_eq_value prod.collapse)
  obtain x pc' where x: "x \<in> set (g_persistent_clients G)" "fst x = mgr_client_hash m" "(fst x, pc') \<in> set t"
      "pc_client pc' = pc_client (snd x)" "pc_last_reset_by_pid pc' = p"
    using reset_first_effect[OF e(1) _ t] by auto
  have "map fst t = map fst (g_persistent_clients G)" using reset_first_cases[OF t] by auto
  then have "manager_entry m G' pc'" using x one[OF x(1,2)] e True G' by (simp add: manager_entry_def)
  then show ?thesis using x(5) by blast
next
  case False
  obtain q t where q: "g_request_clients G = Some q"
    and t: "reset_first p (\<lambda>e. pc_client (snd e) = mgr_client m) (it_entries q) = (t, calls)"
    and G': "G' = G\<lparr>g_request_clients := Some (q\<lparr>it_entries := t\<rparr>)\<rparr>"
    using r False by (auto simp: client_reset_one_def Let_def split: prod.splits option.splits)
  obtain k where k: "(k, pc) \<in> set (it_entries q)" "pc_client pc = mgr_client m"
    using assms(1) False q by (auto simp: manager_entry_def request_entries_def)
  have "pc_client (snd (k, pc)) = mgr_client m" using k(2) by simp
  from reset_first_effect[OF k(1) this t] obtain x pc' where x: "x \<in> set (it_entries q)" "pc_client (snd x) = mgr_client m"
      "(fst x, pc') \<in> set t" "pc_client pc' = pc_client (snd x)" "pc_last_reset_by_pid pc' = p" by blast
  then have "manager_entry m G' pc'" using False G' by (force simp: manager_entry_def request_entries_def)
  then show ?thesis using x(5) by blast
qed

text \<open>
  With the last entry of its Manager reset in a process, libmongoc was asked to reset the client
  there; and the Manager of a key vault client is a Manager like any other.
\<close>

lemma reset_first_clients: "reset_first p P t = (t', calls) \<Longrightarrow> map fst t' = map fst t"
  by (auto dest!: reset_first_cases)

lemma client_reset_logged:
  assumes S: "sys_reachable D S" and p: "sys_globals S p = Some G" and kv: "mgr_key_vault_client_manager m = ZUndef"
    and e: "manager_entry m G pc"
    and pid: "created \<noteq> p" and r: "PHONGO_RESET_CLIENT_IF_PID_DIFFERS fuel D p created m G = Some (G', calls)"
  shows "(p, ClientReset (mgr_client m)) \<in> set (sys_log (run_in p G' calls S))"
proof -
  have "client_reset_one p m G = Some (G', calls)"
    using r pid kv by (cases fuel) (auto simp: PHONGO_RESET_CLIENT_IF_PID_DIFFERS_def)
  then obtain pc' where pc': "manager_entry m G' pc'" "pc_last_reset_by_pid pc' = p"
    using client_reset_one_effect[OF e] by blast
  have "sys_step D S (run_in p G' calls S)" using step_reset[OF p r] .
  then have ok: "process_ok (run_in p G' calls S) p G'"
    using S sys_reachable_ok sys_step_ok system_process by (metis (no_types, lifting) fun_upd_same run_in_def
        phongo_system.select_convs(1) phongo_system.simps(1) phongo_system.surjective phongo_system.update_convs(1,4))
  have "pc' \<in> set (client_entries G')" using pc'(1)
    by (cases "mgr_use_persistent_client m") (force simp: manager_entry_def client_entries_def)+
  then show ?thesis using ok pc' by (auto simp: process_ok_def clients_ok_def manager_entry_def split: if_splits)
qed

text \<open>After the end of the request there is no table to look for the client in.\<close>

lemma reset_after_rshutdown:
  assumes "\<not> mgr_use_persistent_client m" and "mgr_key_vault_client_manager m = ZUndef" and "created \<noteq> p"
  shows "PHONGO_RESET_CLIENT_IF_PID_DIFFERS (Suc fuel) D p created m (fst (RSHUTDOWN p G)) = None"
  using assms by (simp add: PHONGO_RESET_CLIENT_IF_PID_DIFFERS_def client_reset_one_def RSHUTDOWN_def)

section \<open>The registry of Managers\<close>

lemma manager_exists_iff:
  "php_phongo_manager_exists a G = None \<longleftrightarrow> (\<forall>t. g_managers G = Some t \<longrightarrow> a \<notin> snd ` set (it_entries t))"
  by (cases "g_managers G") (auto simp: php_phongo_manager_exists_def find_None_iff image_iff)

lemma manager_registered_once:
  assumes "php_phongo_manager_register a G = (b, G')"
  shows "b \<longleftrightarrow> g_managers G \<noteq> None \<and> php_phongo_manager_exists a G = None"
    and "g_managers G \<noteq> None \<Longrightarrow> php_phongo_manager_exists a G' \<noteq> None"
  using assms unfolding php_phongo_manager_register_def manager_exists_iff
  by (auto simp: index_insert_def manager_exists_iff split: option.splits if_splits)

end
