(* ===== verification/Driver_Manager_Props.thy ===== *)
theory Driver_Manager_Props
  imports Driver_Manager Driver_Registry_Props Driver_Uri_Props
begin

text \<open>
  What the construction of a Manager achieves: the hash identifies the arguments and the process,
  Managers with the same hash share their client, a Manager whose construction failed after the
  client was made keeps a client that no registry knows.
\<close>

section \<open>The client hash\<close>

lemma client_hash_args_inj:
  "client_hash_args D p u o1 d1 = client_hash_args D q v o2 d2 \<longleftrightarrow>
     p = q \<and> c_str u = c_str v \<and> o1 = o2
   \<and> map_option (php_phongo_manager_prepare_manager_for_hash D) d1 = map_option (php_phongo_manager_prepare_manager_for_hash D) d2"
  by (auto simp: client_hash_args_def split: option.splits)

lemma client_hash_injective:
  assumes S: "serializer_contract (me_serializer V)" "me_serializer W = me_serializer V"
    and p1: "plain_zval (ZArray (client_hash_args D (me_pid V) u o1 d1))"
    and p2: "plain_zval (ZArray (client_hash_args D (me_pid W) v o2 d2))"
    and h: "php_phongo_manager_make_client_hash V D u o1 d1 = Inr hash" "php_phongo_manager_make_client_hash W D v o2 d2 = Inr hash"
  shows "me_pid V = me_pid W \<and> c_str u = c_str v \<and> o1 = o2
    \<and> map_option (php_phongo_manager_prepare_manager_for_hash D) d1 = map_option (php_phongo_manager_prepare_manager_for_hash D) d2"
proof -
  let ?a = "ZArray (client_hash_args D (me_pid V) u o1 d1)" and ?b = "ZArray (client_hash_args D (me_pid W) v o2 d2)"
  have "var_serialize (me_serializer V) ?a = hash" "var_serialize (me_serializer V) ?b = hash"
    using h S(2) by (auto simp: php_phongo_manager_make_client_hash_def Let_def split: option.splits)
  then have "Some ?a = Some ?b" using S(1) p1 p2 unfolding serializer_contract_def by metis
  then show ?thesis by (simp add: client_hash_args_inj)
qed

section \<open>Handshake data\<close>

lemma concat_handshake_data:
  "php_phongo_concat_handshake_data d None = d @ '' ''"
  "php_phongo_concat_handshake_data d (Some (c_str s, length s)) = d @ PHONGO_METADATA_SEPARATOR @ c_str s @ '' ''"
  using c_strlen_le[of s] by (simp_all add: php_phongo_concat_handshake_data_def c_strlen_def)

section \<open>The steps after the client was made\<close>

text \<open>
  No step but the registration changes the registries, and none changes the Manager's client, its
  hash or whether it persists.
\<close>

definition same_client :: "('w, 'cl) manager_state \<Rightarrow> ('w, 'cl) manager_state \<Rightarrow> bool" where
  "same_client s t \<longleftrightarrow> ms_globals t = ms_globals s \<and> ms_calls t = ms_calls s \<and> mi_client (ms_intern t) = mi_client (ms_intern s)
     \<and> mi_client_hash (ms_intern t) = mi_client_hash (ms_intern s)
     \<and> mi_use_persistent_client (ms_intern t) = mi_use_persistent_client (ms_intern s)"

lemma same_client_refl [simp]: "same_client s s"
  by (simp add: same_client_def)

lemma same_client_trans: "same_client s t \<Longrightarrow> same_client t u \<Longrightarrow> same_client s u"
  by (simp add: same_client_def)

lemma aeo_key_vault_same:
  "aeo_key_vault D options m = Inr (a, m') \<Longrightarrow> mi_client m' = mi_client m \<and> mi_client_hash m' = mi_client_hash m
     \<and> mi_use_persistent_client m' = mi_use_persistent_client m"
  by (auto simp: aeo_key_vault_def split: option.splits driver_obj.splits if_splits)

lemma auto_encryption_same:
  assumes "phongo_manager_set_auto_encryption_opts V D driverOptions c s ex = Some (ok, t, ex1)"
  shows "same_client s t"
proof (cases "Option.bind driverOptions (\<lambda>h. php_array_fetch h ''autoEncryption'')")
  case None
  then show ?thesis using assms by (simp add: phongo_manager_set_auto_encryption_opts_def)
next
  case (Some z)
  show ?thesis
  proof (cases "me_cse V \<and> (\<exists>h. z = ZArray h)")
    case False
    then have "t = s" using assms Some by (auto simp: phongo_manager_set_auto_encryption_opts_def split: zval.splits if_splits)
    then show ?thesis by simp
  next
    case True
    then obtain h where h: "z = ZArray h" and cse: "me_cse V" by blast
    show ?thesis
    proof (cases "aeo_key_vault D h (ms_intern s)")
      case (Inl e)
      then show ?thesis using assms Some h cse by (simp add: phongo_manager_set_auto_encryption_opts_def)
    next
      case (Inr am)
      obtain a m where am: "am = (a, m)" by (cases am)
      have "same_client s (s\<lparr>ms_intern := m, ms_world := w\<rparr>)" "same_client s (s\<lparr>ms_intern := m\<rparr>)" for w
        using aeo_key_vault_same[OF Inr[unfolded am]] by (simp_all add: same_client_def)
      then show ?thesis using assms Some h cse Inr am
        by (auto simp: phongo_manager_set_auto_encryption_opts_def Let_def split: option.splits prod.splits bool.splits)
    qed
  qed
qed

lemma serverapi_same:
  "phongo_manager_set_serverapi_opts V D driverOptions c s ex = Some (ok, t, ex1) \<Longrightarrow> same_client s t"
  by (auto simp: phongo_manager_set_serverapi_opts_def Let_def same_client_def split: option.splits prod.splits)

lemma apm_same: "phongo_apm_set_callbacks V c s ex = Some (ok, t, ex1) \<Longrightarrow> same_client s t"
  by (auto simp: phongo_apm_set_callbacks_def same_client_def split: prod.splits)

lemma init_then_Some:
  "init_then r k = Some (ok, t, ex) \<longleftrightarrow> r = Some (False, t, ex) \<and> \<not> ok \<or> (\<exists>s1 ex1. r = Some (True, s1, ex1) \<and> k s1 ex1 = Some (ok, t, ex))"
  by (auto simp: init_then_def split: option.splits if_splits)

text \<open>
  Making a client either fails and leaves the registries as they were, or registers the client.
\<close>

lemma make_client_result:
  assumes "manager_make_client V D u driverOptions uri ssl_opt s ex = Some (ok, t, ex1)"
  shows "\<exists>c. mi_client (ms_intern t) = c \<and> mi_client_hash (ms_intern t) = mi_client_hash (ms_intern s)
    \<and> mi_use_persistent_client (ms_intern t) = mi_use_persistent_client (ms_intern s)
    \<and> (if ok then \<exists>m calls. manager_of (ms_intern t) = Some m
         \<and> php_phongo_client_register (me_pid V) m (ms_globals s) = Some (ms_globals t, calls) \<and> ms_calls t = ms_calls s @ calls
       else ms_globals t = ms_globals s \<and> ms_calls t = ms_calls s)"
proof -
  obtain client w1 e1 where mk: "php_phongo_make_mongo_client V D uri driverOptions (ms_world s) ex = (client, w1, e1)"
    by (cases "php_phongo_make_mongo_client V D uri driverOptions (ms_world s) ex") auto
  show ?thesis
  proof (cases client)
    case None
    then show ?thesis using assms mk by (auto simp: manager_make_client_def)
  next
    case (Some c)
    define s2 where "s2 = s\<lparr>ms_intern := (ms_intern s)\<lparr>mi_client := Some c\<rparr>,
      ms_world := (case ssl_opt of None \<Rightarrow> mongoc_client_set_error_api (me_client V) c w1
        | Some o1 \<Rightarrow> mongoc_client_set_ssl_opts (me_client V) c o1 (mongoc_client_set_error_api (me_client V) c w1))\<rparr>"
    have s2: "ms_globals s2 = ms_globals s" "ms_calls s2 = ms_calls s" "mi_client (ms_intern s2) = Some c"
      "mi_client_hash (ms_intern s2) = mi_client_hash (ms_intern s)"
      "mi_use_persistent_client (ms_intern s2) = mi_use_persistent_client (ms_intern s)" by (simp_all add: s2_def)
    have steps: "init_then (phongo_manager_set_auto_encryption_opts V D driverOptions c s2 e1) (\<lambda>s3 ex3.
        init_then (phongo_manager_set_serverapi_opts V D driverOptions c s3 ex3) (\<lambda>s4 ex4.
        init_then (phongo_apm_set_callbacks V c s4 ex4) (manager_register V))) = Some (ok, t, ex1)"
      using assms mk Some by (simp add: manager_make_client_def Let_def s2_def)
    show ?thesis
    proof (cases ok)
      case False
      then have "same_client s2 t" using steps
        by (auto simp: init_then_Some manager_register_def dest!: auto_encryption_same serverapi_same apm_same
            intro: same_client_trans split: option.splits prod.splits)
      then show ?thesis using s2 False by (simp add: same_client_def)
    next
      case True
      then obtain s3 s4 s5 e5 where "same_client s2 s3" "same_client s3 s4" "same_client s4 s5"
          and reg: "manager_register V s5 e5 = Some (True, t, ex1)"
        using steps by (auto simp: init_then_Some dest!: auto_encryption_same serverapi_same apm_same)
      then have s5: "same_client s2 s5" "manager_register V s5 e5 = Some (True, t, ex1)" by (auto intro: same_client_trans)
      then show ?thesis using s2 True
        by (auto simp: same_client_def manager_register_def split: option.splits prod.splits)
    qed
  qed
qed

lemma new_client_result:
  assumes "manager_new_client V D u options driverOptions s ex = Some (ok, t, ex1)"
  shows "mi_client_hash (ms_intern t) = mi_client_hash (ms_intern s)
    \<and> mi_use_persistent_client (ms_intern t) = mi_use_persistent_client (ms_intern s)
    \<and> (if ok then \<exists>m calls. manager_of (ms_intern t) = Some m
         \<and> php_phongo_client_register (me_pid V) m (ms_globals s) = Some (ms_globals t, calls) \<and> ms_calls t = ms_calls s @ calls
       else ms_globals t = ms_globals s \<and> ms_calls t = ms_calls s)"
proof -
  have "t = s \<and> \<not> ok \<or> (\<exists>uri ssl_opt e1. manager_make_client V D u driverOptions uri ssl_opt s e1 = Some (ok, t, ex1))"
    using assms unfolding manager_new_client_def free_ssl_after_def
    by (auto split: option.splits prod.splits sum.splits if_splits)
  then show ?thesis using make_client_result by fastforce
qed

section \<open>Managers that share a client\<close>

lemma persistent_update_find:
  "persistent_update p h v t = (t', calls) \<Longrightarrow> map_of t' h = Some v"
  by (induction t arbitrary: t' calls) (auto simp: Let_def split: if_splits prod.splits)

lemma register_find:
  assumes "php_phongo_client_register p m G = Some (G', calls)" and "mgr_use_persistent_client m"
  shows "php_phongo_find_persistent_client G' (mgr_client_hash m) = Some (mgr_client m)"
  using assms by (auto simp: php_phongo_client_register_def php_phongo_find_persistent_client_def Let_def
      dest: persistent_update_find split: prod.splits)

text \<open>The Manager of an initialisation that found its client.\<close>

definition shared_manager :: "('w, 'cl) manager_state \<Rightarrow> string \<Rightarrow> 'cl \<Rightarrow> ('w, 'cl) manager_state" where
  "shared_manager s hash c = s\<lparr>ms_intern := (ms_intern s)\<lparr>mi_client_hash := Some hash, mi_use_persistent_client := True,
     mi_client := Some c\<rparr>\<rparr>"

lemma manager_init_finds:
  assumes "php_phongo_manager_make_client_hash V D u options driverOptions = Inr hash" and "\<not> disable_persistence driverOptions"
    and "php_phongo_find_persistent_client (ms_globals s) hash = Some c"
  shows "phongo_manager_init V D u options driverOptions s ex = Some (True, shared_manager s hash c, ex)"
  using assms by (simp add: phongo_manager_init_def shared_manager_def Let_def)

lemma manager_init_persistent:
  assumes r: "phongo_manager_init V D u options driverOptions s ex = Some (True, t, ex1)" and d: "\<not> disable_persistence driverOptions"
  shows "\<exists>hash c. php_phongo_manager_make_client_hash V D u options driverOptions = Inr hash
    \<and> mi_client (ms_intern t) = Some c \<and> mi_client_hash (ms_intern t) = Some hash
    \<and> php_phongo_find_persistent_client (ms_globals t) hash = Some c"
proof -
  obtain hash where h: "php_phongo_manager_make_client_hash V D u options driverOptions = Inr hash"
    using r by (auto simp: phongo_manager_init_def split: sum.splits)
  show ?thesis
  proof (cases "php_phongo_find_persistent_client (ms_globals s) hash")
    case (Some c)
    then have "t = shared_manager s hash c" using r manager_init_finds[OF h d Some] by simp
    then show ?thesis using h Some by (simp add: shared_manager_def)
  next
    case None
    define s1 where "s1 = s\<lparr>ms_intern := (ms_intern s)\<lparr>mi_client_hash := Some hash, mi_use_persistent_client := True, mi_client := None\<rparr>\<rparr>"
    have "manager_new_client V D u options driverOptions s1 ex = Some (True, t, ex1)"
      using r h d None by (simp add: phongo_manager_init_def Let_def s1_def)
    from new_client_result[OF this] obtain m calls where m: "manager_of (ms_intern t) = Some m"
        "php_phongo_client_register (me_pid V) m (ms_globals s1) = Some (ms_globals t, calls)"
        "mi_client_hash (ms_intern t) = Some hash" "mi_use_persistent_client (ms_intern t)" by (auto simp: s1_def)
    then have mm: "mgr_use_persistent_client m" "mgr_client_hash m = hash" "mi_client (ms_intern t) = Some (mgr_client m)"
      by (auto simp: manager_of_def split: option.splits)
    show ?thesis using register_find[OF m(2) mm(1)] mm h m(3) by auto
  qed
qed

lemma managers_share_client:
  assumes r: "phongo_manager_init V D u options driverOptions s ex = Some (True, t, ex1)" and d: "\<not> disable_persistence driverOptions"
  shows "\<exists>hash c. mi_client (ms_intern t) = Some c
    \<and> (\<forall>s2 ex2. ms_globals s2 = ms_globals t \<longrightarrow>
         phongo_manager_init V D u options driverOptions s2 ex2 = Some (True, shared_manager s2 hash c, ex2))"
proof -
  obtain hash c where h: "php_phongo_manager_make_client_hash V D u options driverOptions = Inr hash"
      "mi_client (ms_intern t) = Some c" "php_phongo_find_persistent_client (ms_globals t) hash = Some c"
    using manager_init_persistent[OF r d] by blast
  then have "phongo_manager_init V D u options driverOptions s2 ex2 = Some (True, shared_manager s2 hash c, ex2)"
    if "ms_globals s2 = ms_globals t" for s2 ex2
    using that by (intro manager_init_finds[OF h(1) d]) simp
  then show ?thesis using h(2) by blast
qed

text \<open>A Manager that shares its client does not know the key vault client it was made with.\<close>

lemma shared_manager_key_vault:
  "mi_key_vault_client_manager (ms_intern (shared_manager s hash c)) = mi_key_vault_client_manager (ms_intern s)"
  by (simp add: shared_manager_def)

section \<open>Construction that fails\<close>

lemma manager_init_failed:
  assumes "phongo_manager_init V D u options driverOptions s ex = Some (False, t, ex1)"
  shows "ms_globals t = ms_globals s \<and> ms_calls t = ms_calls s"
  using assms new_client_result
  by (fastforce simp: phongo_manager_init_def Let_def split: sum.splits option.splits if_splits)

lemma unregister_calls:
  assumes "mgr_client m \<notin> pc_client ` set (client_entries G)"
  shows "php_phongo_client_unregister p m G = (False, G, [])"
proof (cases "g_request_clients G")
  case None
  then show ?thesis by (simp add: php_phongo_client_unregister_def)
next
  case (Some t)
  have "find_client (mgr_client m) (it_entries t) = None"
    using assms Some by (force simp: find_client_def find_None_iff client_entries_def request_entries_def)
  then show ?thesis using Some by (simp add: php_phongo_client_unregister_def)
qed

lemma manager_unregister_clients:
  "client_entries (snd (php_phongo_manager_unregister a G)) = client_entries G"
  by (simp add: php_phongo_manager_unregister_def client_entries_def request_entries_def split: option.splits)

lemma failed_manager_keeps_client:
  assumes r: "phongo_manager_init V D u options driverOptions s ex = Some (False, t, ex1)"
    and c: "mi_client (ms_intern t) = Some c" and new: "c \<notin> pc_client ` set (client_entries (ms_globals s))"
  shows "c \<notin> pc_client ` set (client_entries (ms_globals t))
    \<and> ms_calls (php_phongo_manager_free_object pid a t) = ms_calls s
    \<and> client_entries (ms_globals (php_phongo_manager_free_object pid a t)) = client_entries (ms_globals s)"
proof -
  have t: "ms_globals t = ms_globals s" "ms_calls t = ms_calls s" using manager_init_failed[OF r] by auto
  obtain b G1 where u: "php_phongo_manager_unregister a (ms_globals t) = (b, G1)"
    by (cases "php_phongo_manager_unregister a (ms_globals t)") auto
  have G1: "client_entries G1 = client_entries (ms_globals s)" using manager_unregister_clients[of a "ms_globals t"] u t by simp
  have "php_phongo_client_unregister pid m G1 = (False, G1, [])" if "manager_of (ms_intern t) = Some m" for m
    using that c new G1 by (intro unregister_calls) (auto simp: manager_of_def split: option.splits)
  then show ?thesis using u G1 t new by (auto simp: php_phongo_manager_free_object_def split: option.splits)
qed

end
