(* ===== verification/Driver_Server.thy ===== *)
theory Driver_Server
  imports Driver_Execute Driver_Options
begin

text \<open>
  \<^verbatim>\<open>Server\<close> (MongoDB/Server.c) and the methods of \<^verbatim>\<open>Manager\<close> that use its client
  (MongoDB/Manager.c): views of libmongoc's server descriptions, server selection, and the
  methods that parse options, select a server, reset the client after a fork and execute.
\<close>

section \<open>libmongoc's servers\<close>

text \<open>The options of a session: what was set.\<close>

record 'txn session_opts =
  so_causal_consistency :: "bool option"
  so_default_transaction :: "'txn option"
  so_snapshot :: "bool option"

definition mongoc_session_opts_new :: "'txn session_opts" where
  "mongoc_session_opts_new = \<lparr>so_causal_consistency = None, so_default_transaction = None, so_snapshot = None\<rparr>"

text \<open>
  Selecting a server returns a description or an error, and the exceptions of subscribers.  What
  a session's options mean when a flag was not set is libmongoc's.
\<close>

record ('w, 'cl, 'cs, 'rc, 'rp, 'sd, 'txn) server_ops =
  mongoc_client_select_server :: "'cl \<Rightarrow> bool \<Rightarrow> 'rp option \<Rightarrow> 'w \<Rightarrow> (bson_error_t + 'sd) \<times> exn list \<times> 'w"
  mongoc_client_get_server_description :: "'cl \<Rightarrow> int \<Rightarrow> 'w \<Rightarrow> 'sd option"
  mongoc_client_get_server_descriptions :: "'cl \<Rightarrow> 'w \<Rightarrow> 'sd list"
  mongoc_client_get_read_prefs :: "'cl \<Rightarrow> 'rp"
  mongoc_client_get_read_concern :: "'cl \<Rightarrow> 'rc"
  mongoc_client_get_uri_string :: "'cl \<Rightarrow> string"
  mongoc_server_description_id :: "'sd \<Rightarrow> int"
  mongoc_server_description_type :: "'sd \<Rightarrow> string"
  mongoc_server_description_host :: "'sd \<Rightarrow> string"
  mongoc_server_description_port :: "'sd \<Rightarrow> int"
  mongoc_server_description_host_and_port :: "'sd \<Rightarrow> string"
  mongoc_server_description_hello_response :: "'sd \<Rightarrow> bdoc"
  mongoc_server_description_round_trip_time :: "'sd \<Rightarrow> int"
  hello_as_bool :: "bval \<Rightarrow> bool"
  mongoc_client_start_session_with_opts :: "'cl \<Rightarrow> 'txn session_opts option \<Rightarrow> 'w \<Rightarrow> (bson_error_t + 'cs) \<times> 'w"
  session_opts_causal_consistency :: "'txn session_opts \<Rightarrow> bool"
  session_opts_snapshot :: "'txn session_opts \<Rightarrow> bool"

section \<open>Server descriptions\<close>

datatype php_phongo_server_description_type_t =
    PHONGO_SERVER_UNKNOWN | PHONGO_SERVER_STANDALONE | PHONGO_SERVER_MONGOS | PHONGO_SERVER_POSSIBLE_PRIMARY
  | PHONGO_SERVER_RS_PRIMARY | PHONGO_SERVER_RS_SECONDARY | PHONGO_SERVER_RS_ARBITER | PHONGO_SERVER_RS_OTHER
  | PHONGO_SERVER_RS_GHOST

fun server_type_number :: "php_phongo_server_description_type_t \<Rightarrow> int" where
  "server_type_number PHONGO_SERVER_UNKNOWN = 0"
| "server_type_number PHONGO_SERVER_STANDALONE = 1"
| "server_type_number PHONGO_SERVER_MONGOS = 2"
| "server_type_number PHONGO_SERVER_POSSIBLE_PRIMARY = 3"
| "server_type_number PHONGO_SERVER_RS_PRIMARY = 4"
| "server_type_number PHONGO_SERVER_RS_SECONDARY = 5"
| "server_type_number PHONGO_SERVER_RS_ARBITER = 6"
| "server_type_number PHONGO_SERVER_RS_OTHER = 7"
| "server_type_number PHONGO_SERVER_RS_GHOST = 8"

definition php_phongo_server_description_type_map :: "(php_phongo_server_description_type_t \<times> string) list" where
  "php_phongo_server_description_type_map =
     [(PHONGO_SERVER_UNKNOWN, ''Unknown''), (PHONGO_SERVER_STANDALONE, ''Standalone''), (PHONGO_SERVER_MONGOS, ''Mongos''),
      (PHONGO_SERVER_POSSIBLE_PRIMARY, ''PossiblePrimary''), (PHONGO_SERVER_RS_PRIMARY, ''RSPrimary''),
      (PHONGO_SERVER_RS_SECONDARY, ''RSSecondary''), (PHONGO_SERVER_RS_ARBITER, ''RSArbiter''),
      (PHONGO_SERVER_RS_OTHER, ''RSOther''), (PHONGO_SERVER_RS_GHOST, ''RSGhost'')]"

text \<open>The first entry with the name; Unknown if there is none.\<close>

definition php_phongo_server_description_type ::
    "('w, 'cl, 'cs, 'rc, 'rp, 'sd, 'txn) server_ops \<Rightarrow> 'sd \<Rightarrow> php_phongo_server_description_type_t" where
  "php_phongo_server_description_type M sd =
     (case find (\<lambda>(t, name). c_str (mongoc_server_description_type M sd) = name) php_phongo_server_description_type_map of
        Some (t, _) \<Rightarrow> t | None \<Rightarrow> PHONGO_SERVER_UNKNOWN)"

definition server_is ::
    "('w, 'cl, 'cs, 'rc, 'rp, 'sd, 'txn) server_ops \<Rightarrow> 'sd \<Rightarrow> php_phongo_server_description_type_t \<Rightarrow> bool" where
  "server_is M sd t \<longleftrightarrow> (t, c_str (mongoc_server_description_type M sd)) \<in> set php_phongo_server_description_type_map"

text \<open>A flag of the hello response, found ignoring case.\<close>

definition hello_flag :: "('w, 'cl, 'cs, 'rc, 'rp, 'sd, 'txn) server_ops \<Rightarrow> 'sd \<Rightarrow> string \<Rightarrow> bool" where
  "hello_flag M sd key = (case find (\<lambda>(k, v). c_strcaseeq k key) (doc_elems (mongoc_server_description_hello_response M sd)) of
     Some (_, v) \<Rightarrow> hello_as_bool M v | None \<Rightarrow> False)"

definition hello_tags :: "('w, 'cl, 'cs, 'rc, 'rp, 'sd, 'txn) server_ops \<Rightarrow> 'sd \<Rightarrow> bdoc option" where
  "hello_tags M sd = (case bson_find (mongoc_server_description_hello_response M sd) ''tags'' of
     Some (BDocument d) \<Rightarrow> Some d | _ \<Rightarrow> None)"

text \<open>The table, as far as it was filled, and whether it is complete.\<close>

definition php_phongo_server_to_zval ::
    "decode_env \<Rightarrow> ('w, 'cl, 'cs, 'rc, 'rp, 'sd, 'txn) server_ops \<Rightarrow> 'sd \<Rightarrow> exn list \<Rightarrow> (bool \<times> ht \<times> exn list) option" where
  "php_phongo_server_to_zval N M sd ex =
     (let h0 = [(KStr ''host'', ZString (c_str (mongoc_server_description_host M sd))),
                (KStr ''port'', ZLong (mongoc_server_description_port M sd)),
                (KStr ''type'', ZLong (server_type_number (php_phongo_server_description_type M sd))),
                (KStr ''is_primary'', ZBool (server_is M sd PHONGO_SERVER_RS_PRIMARY)),
                (KStr ''is_secondary'', ZBool (server_is M sd PHONGO_SERVER_RS_SECONDARY)),
                (KStr ''is_arbiter'', ZBool (server_is M sd PHONGO_SERVER_RS_ARBITER)),
                (KStr ''is_hidden'', ZBool (hello_flag M sd ''hidden'')),
                (KStr ''is_passive'', ZBool (hello_flag M sd ''passive''))];
          hello = mongoc_server_description_hello_response M sd;
          rest = (\<lambda>h ex1. case decode_under N typemap_debug_init hello ex1 of
              None \<Rightarrow> None
            | Some (None, ex2) \<Rightarrow> Some (False, h, ex2)
            | Some (Some z, ex2) \<Rightarrow> Some (True, h @ [(KStr ''last_hello_response'', z),
                (KStr ''round_trip_time'', ZLong (mongoc_server_description_round_trip_time M sd))], ex2)) in
      case hello_tags M sd of
        None \<Rightarrow> rest h0 ex
      | Some d \<Rightarrow> (case decode_under N typemap_debug_init d ex of
          None \<Rightarrow> None
        | Some (None, ex1) \<Rightarrow> Some (False, h0, ex1)
        | Some (Some z, ex1) \<Rightarrow> rest (h0 @ [(KStr ''tags'', z)]) ex1))"

section \<open>The getters of Server\<close>

text \<open>A server of a Manager's client; \<^verbatim>\<open>created_by_pid\<close> is the process the object was made in.\<close>

record php_phongo_server_obj = php_phongo_server_t +
  srv_created_by_pid :: int

text \<open>
  A getter reads the description of the server, which libmongoc may have forgotten.  The results
  are the value and the exceptions; None is undefined behaviour in the decoder.
\<close>

definition server_description_exception :: exn where
  "server_description_exception = phongo_throw_exception PHONGO_ERROR_RUNTIME ''Failed to get server description''"

definition with_server_description ::
    "('w, 'cl, 'cs, 'rc, 'rp, 'sd, 'txn) server_ops \<Rightarrow> 'cl \<Rightarrow> php_phongo_server_obj \<Rightarrow> 'w \<Rightarrow> exn list
       \<Rightarrow> ('sd \<Rightarrow> (zval \<times> exn list) option) \<Rightarrow> (zval \<times> exn list) option" where
  "with_server_description M client intern w ex f =
     (case mongoc_client_get_server_description M client (srv_server_id intern) w of
        None \<Rightarrow> Some (ZNull, server_description_exception # ex)
      | Some sd \<Rightarrow> f sd)"

definition Server_getHost where
  "Server_getHost M client intern w ex = with_server_description M client intern w ex
     (\<lambda>sd. Some (ZString (c_str (mongoc_server_description_host M sd)), ex))"

definition Server_getTags where
  "Server_getTags N M client intern w ex = with_server_description M client intern w ex
     (\<lambda>sd. case hello_tags M sd of
        None \<Rightarrow> Some (ZArray [], ex)
      | Some d \<Rightarrow> map_option (\<lambda>(z, ex1). (value_or_null z, ex1)) (decode_under N typemap_debug_init d ex))"

definition Server_getInfo where
  "Server_getInfo N M client intern w ex = with_server_description M client intern w ex
     (\<lambda>sd. map_option (\<lambda>(z, ex1). (value_or_null z, ex1))
        (decode_under N typemap_debug_init (mongoc_server_description_hello_response M sd) ex))"

definition Server_getLatency where
  "Server_getLatency M client intern w ex = with_server_description M client intern w ex
     (\<lambda>sd. Some (ZLong (mongoc_server_description_round_trip_time M sd), ex))"

definition Server_getPort where
  "Server_getPort M client intern w ex = with_server_description M client intern w ex
     (\<lambda>sd. Some (ZLong (mongoc_server_description_port M sd), ex))"

definition Server_getType where
  "Server_getType M client intern w ex = with_server_description M client intern w ex
     (\<lambda>sd. Some (ZLong (server_type_number (php_phongo_server_description_type M sd)), ex))"

definition Server_isPrimary where
  "Server_isPrimary M client intern w ex = with_server_description M client intern w ex
     (\<lambda>sd. Some (ZBool (server_is M sd PHONGO_SERVER_RS_PRIMARY), ex))"

definition Server_isSecondary where
  "Server_isSecondary M client intern w ex = with_server_description M client intern w ex
     (\<lambda>sd. Some (ZBool (server_is M sd PHONGO_SERVER_RS_SECONDARY), ex))"

definition Server_isArbiter where
  "Server_isArbiter M client intern w ex = with_server_description M client intern w ex
     (\<lambda>sd. Some (ZBool (server_is M sd PHONGO_SERVER_RS_ARBITER), ex))"

definition Server_isHidden where
  "Server_isHidden M client intern w ex = with_server_description M client intern w ex
     (\<lambda>sd. Some (ZBool (hello_flag M sd ''hidden''), ex))"

definition Server_isPassive where
  "Server_isPassive M client intern w ex = with_server_description M client intern w ex
     (\<lambda>sd. Some (ZBool (hello_flag M sd ''passive''), ex))"

text \<open>Two servers compare by host and port, ignoring case; the sign of the difference is what the engine uses.\<close>

fun strcasecmp :: "string \<Rightarrow> string \<Rightarrow> int" where
  "strcasecmp [] [] = 0"
| "strcasecmp [] (d # t) = - int (of_char (c_tolower d))"
| "strcasecmp (c # s) [] = int (of_char (c_tolower c))"
| "strcasecmp (c # s) (d # t) = (if c_tolower c = c_tolower d then strcasecmp s t
     else int (of_char (c_tolower c)) - int (of_char (c_tolower d)))"

definition php_phongo_server_compare_objects ::
    "('w, 'cl, 'cs, 'rc, 'rp, 'sd, 'txn) server_ops \<Rightarrow> 'cl \<Rightarrow> php_phongo_server_obj \<Rightarrow> 'cl \<Rightarrow> php_phongo_server_obj \<Rightarrow> 'w \<Rightarrow> exn list
       \<Rightarrow> int \<times> exn list" where
  "php_phongo_server_compare_objects M client1 intern1 client2 intern2 w ex =
     (case (mongoc_client_get_server_description M client1 (srv_server_id intern1) w,
            mongoc_client_get_server_description M client2 (srv_server_id intern2) w) of
        (Some sd1, Some sd2) \<Rightarrow> (strcasecmp (c_str (mongoc_server_description_host_and_port M sd1))
                                   (c_str (mongoc_server_description_host_and_port M sd2)), ex)
      | _ \<Rightarrow> (0, phongo_throw_exception PHONGO_ERROR_RUNTIME ''Failed to get server description(s)'' # ex))"

definition php_phongo_server_get_debug_info where
  "php_phongo_server_get_debug_info N M client intern w ex = with_server_description M client intern w ex
     (\<lambda>sd. map_option (\<lambda>(ok, h, ex1). (ZArray h, ex1)) (php_phongo_server_to_zval N M sd ex))"

section \<open>Executing on a server\<close>

text \<open>Options that are no array are the one option of that name.\<close>

definition php_phongo_prep_legacy_option :: "zval option \<Rightarrow> string \<Rightarrow> zval option" where
  "php_phongo_prep_legacy_option options key = (case options of
     None \<Rightarrow> None
   | Some (ZArray h) \<Rightarrow> Some (ZArray h)
   | Some z \<Rightarrow> Some (ZArray [(KStr key, z)]))"

definition reset_if_pid_differs ::
    "('w, 'rc, 'rp, 'wc, 'cs, 'cl, 'c, 'coll, 'txn) exec_env \<Rightarrow> int \<Rightarrow> zval \<Rightarrow> 'w \<Rightarrow> 'w" where
  "reset_if_pid_differs X created_by_pid manager w = (if created_by_pid \<noteq> xe_pid X then xe_reset X manager (xe_pid X) w else w)"

text \<open>The Manager of a Server is an object of the store; anything else is undefined.\<close>

definition server_client :: "('rc, 'rp, 'wc, 'cs, 'cl) store \<Rightarrow> php_phongo_server_obj \<Rightarrow> 'cl option" where
  "server_client D intern = (case obj_at D (srv_manager intern) of Some (DManager m) \<Rightarrow> Some (mgr_client m) | _ \<Rightarrow> None)"

definition server_command where
  "server_command X D intern type db zcommand command options w ex =
     Option.bind (server_client D intern) (\<lambda>client.
       phongo_execute_command X D (srv_manager intern) client type db zcommand command options (srv_server_id intern)
         (reset_if_pid_differs X (srv_created_by_pid intern) (srv_manager intern) w) ex)"

definition Server_executeCommand where
  "Server_executeCommand X D intern db zcommand command options w ex =
     server_command X D intern PHONGO_COMMAND_RAW db zcommand command (php_phongo_prep_legacy_option options ''readPreference'') w ex"

definition Server_executeReadCommand where
  "Server_executeReadCommand X D intern db zcommand command options w ex =
     server_command X D intern PHONGO_COMMAND_READ db zcommand command options w ex"

definition Server_executeWriteCommand where
  "Server_executeWriteCommand X D intern db zcommand command options w ex =
     server_command X D intern PHONGO_COMMAND_WRITE db zcommand command options w ex"

definition Server_executeReadWriteCommand where
  "Server_executeReadWriteCommand X D intern db zcommand command options w ex =
     server_command X D intern PHONGO_COMMAND_READ_WRITE db zcommand command options w ex"

definition Server_executeQuery where
  "Server_executeQuery X D intern namespace zquery query options w ex =
     Option.bind (server_client D intern) (\<lambda>client.
       phongo_execute_query X D (srv_manager intern) client namespace zquery query
         (php_phongo_prep_legacy_option options ''readPreference'') (srv_server_id intern)
         (reset_if_pid_differs X (srv_created_by_pid intern) (srv_manager intern) w) ex)"

definition Server_executeBulkWrite where
  "Server_executeBulkWrite X B wrap D intern namespace bulk options w ex =
     Option.bind (server_client D intern) (\<lambda>client.
       phongo_execute_bulk_write X B wrap D (srv_manager intern) client namespace bulk
         (php_phongo_prep_legacy_option options ''writeConcern'') (srv_server_id intern)
         (reset_if_pid_differs X (srv_created_by_pid intern) (srv_manager intern) w) ex)"

end
