(* ===== verification/Driver_Manager_Methods.thy ===== *)
theory Driver_Manager_Methods
  imports Driver_Server
begin

text \<open>
  The methods of \<^verbatim>\<open>Manager\<close> (MongoDB/Manager.c): a server is selected for the operation, the
  client is reset if the process was forked, and the operation is executed on the server.
\<close>

section \<open>Selecting a server\<close>

text \<open>
  The server a session is pinned to, or the one libmongoc selects.  A session without a libmongoc
  session is a null pointer, which is undefined.
\<close>

definition select_read_preference ::
    "('w, 'cl, 'cs, 'rc, 'rp, 'sd, 'txn) server_ops \<Rightarrow> ('rc, 'rp, 'wc, 'cs, 'cl) store \<Rightarrow> bool \<Rightarrow> bool \<Rightarrow> zval option \<Rightarrow> 'cl \<Rightarrow> 'rp option" where
  "select_read_preference M D for_writes inherit_read_preference zreadPreference client =
     (if for_writes then None
      else if zreadPreference \<noteq> None then phongo_read_preference_from_zval D zreadPreference
      else if inherit_read_preference then Some (mongoc_client_get_read_prefs M client)
      else None)"

definition select_unpinned ::
    "('w, 'rc, 'rp, 'wc, 'cs, 'cl, 'c, 'coll, 'txn) exec_env \<Rightarrow> ('w, 'cl, 'cs, 'rc, 'rp, 'sd, 'txn) server_ops
       \<Rightarrow> bool \<Rightarrow> 'rp option \<Rightarrow> 'cl \<Rightarrow> 'w \<Rightarrow> exn list \<Rightarrow> (int option \<times> 'w \<times> exn list) option" where
  "select_unpinned X M for_writes rp client w ex =
     (case mongoc_client_select_server M client for_writes rp w of
        (Inr sd, thrown, w1) \<Rightarrow> Some (Some (mongoc_server_description_id M sd), w1, thrown @ ex)
      | (Inl error, thrown, w1) \<Rightarrow>
          map_option (\<lambda>ex1. (None, w1, ex1))
            (if thrown @ ex = [] then phongo_throw_exception_from_bson_error_t (xe_decode X) (xe_codes X) error []
             else Some (thrown @ ex)))"

definition php_phongo_manager_select_server ::
    "('w, 'rc, 'rp, 'wc, 'cs, 'cl, 'c, 'coll, 'txn) exec_env \<Rightarrow> ('w, 'cl, 'cs, 'rc, 'rp, 'sd, 'txn) server_ops
       \<Rightarrow> ('rc, 'rp, 'wc, 'cs, 'cl) store \<Rightarrow> bool \<Rightarrow> bool \<Rightarrow> zval option \<Rightarrow> zval option \<Rightarrow> 'cl \<Rightarrow> 'w \<Rightarrow> exn list
       \<Rightarrow> (int option \<times> 'w \<times> exn list) option" where
  "php_phongo_manager_select_server X M D for_writes inherit_read_preference zreadPreference zsession client w ex =
     (let select = select_unpinned X M for_writes
            (select_read_preference M D for_writes inherit_read_preference zreadPreference client) client w ex in
      case zsession of
        None \<Rightarrow> select
      | Some z \<Rightarrow> (case session_from_zval D (Some z) of
          None \<Rightarrow> None
        | Some session \<Rightarrow>
            if 0 < mongoc_client_session_get_server_id (xe_session X) session w
            then Some (Some (mongoc_client_session_get_server_id (xe_session X) session w), w, ex)
            else select))"

section \<open>Executing\<close>

text \<open>
  The beginning of the methods: the session, the read preference where the method has one, and
  the server.  Refused options and a failed selection end the method; its value is null.
\<close>

definition manager_select ::
    "('w, 'rc, 'rp, 'wc, 'cs, 'cl, 'c, 'coll, 'txn) exec_env \<Rightarrow> ('w, 'cl, 'cs, 'rc, 'rp, 'sd, 'txn) server_ops
       \<Rightarrow> ('rc, 'rp, 'wc, 'cs, 'cl) store \<Rightarrow> bool \<Rightarrow> bool \<Rightarrow> zval option \<Rightarrow> 'cl \<Rightarrow> 'w \<Rightarrow> exn list
       \<Rightarrow> (int option \<times> 'w \<times> exn list) option" where
  "manager_select X M D for_writes inherit_read_preference options client w ex =
     (case phongo_parse_session (xe_parse X) D options client None of
        None \<Rightarrow> None
      | Some (Inl e) \<Rightarrow> Some (None, w, e # ex)
      | Some (Inr (_, zsession)) \<Rightarrow>
         (case (if for_writes then Inr None else phongo_parse_read_preference D options) of
            Inl e \<Rightarrow> Some (None, w, e # ex)
          | Inr zreadPreference \<Rightarrow>
              php_phongo_manager_select_server X M D for_writes inherit_read_preference zreadPreference zsession client w ex))"

definition manager_execute_command where
  "manager_execute_command X M D manager intern for_writes inherit_read_preference type db zcommand command options w ex =
     (case manager_select X M D for_writes inherit_read_preference options (mgr_client intern) w ex of
        None \<Rightarrow> None
      | Some (None, w1, ex1) \<Rightarrow> Some (False, None, D, w1, ex1)
      | Some (Some server_id, w1, ex1) \<Rightarrow>
          phongo_execute_command X D manager (mgr_client intern) type db zcommand command options server_id
            (reset_if_pid_differs X (mgr_created_by_pid intern) manager w1) ex1)"

definition Manager_executeCommand where
  "Manager_executeCommand X M D manager intern db zcommand command options w ex =
     manager_execute_command X M D manager intern False False PHONGO_COMMAND_RAW db zcommand command
       (php_phongo_prep_legacy_option options ''readPreference'') w ex"

definition Manager_executeReadCommand where
  "Manager_executeReadCommand X M D manager intern db zcommand command options w ex =
     manager_execute_command X M D manager intern False True PHONGO_COMMAND_READ db zcommand command options w ex"

definition Manager_executeWriteCommand where
  "Manager_executeWriteCommand X M D manager intern db zcommand command options w ex =
     manager_execute_command X M D manager intern True False PHONGO_COMMAND_WRITE db zcommand command options w ex"

definition Manager_executeReadWriteCommand where
  "Manager_executeReadWriteCommand X M D manager intern db zcommand command options w ex =
     manager_execute_command X M D manager intern True False PHONGO_COMMAND_READ_WRITE db zcommand command options w ex"

definition Manager_executeQuery where
  "Manager_executeQuery X M D manager intern namespace zquery query options w ex =
     (let options1 = php_phongo_prep_legacy_option options ''readPreference'' in
      case manager_select X M D False True options1 (mgr_client intern) w ex of
        None \<Rightarrow> None
      | Some (None, w1, ex1) \<Rightarrow> Some (None, w1, ex1)
      | Some (Some server_id, w1, ex1) \<Rightarrow>
          phongo_execute_query X D manager (mgr_client intern) namespace zquery query options1 server_id
            (reset_if_pid_differs X (mgr_created_by_pid intern) manager w1) ex1)"

definition Manager_executeBulkWrite where
  "Manager_executeBulkWrite X B M wrap D manager intern namespace bulk options w ex =
     (let options1 = php_phongo_prep_legacy_option options ''writeConcern'' in
      case manager_select X M D True False options1 (mgr_client intern) w ex of
        None \<Rightarrow> None
      | Some (None, w1, ex1) \<Rightarrow> Some (False, None, bulk, w1, ex1)
      | Some (Some server_id, w1, ex1) \<Rightarrow>
          phongo_execute_bulk_write X B wrap D manager (mgr_client intern) namespace bulk options1 server_id
            (reset_if_pid_differs X (mgr_created_by_pid intern) manager w1) ex1)"

section \<open>The other methods\<close>

definition Manager_getReadConcern where
  "Manager_getReadConcern M intern = phongo_readconcern_init (mongoc_client_get_read_concern M (mgr_client intern))"

definition Manager_getReadPreference where
  "Manager_getReadPreference M intern = phongo_readpreference_init (mongoc_client_get_read_prefs M (mgr_client intern))"

definition Manager_getWriteConcern where
  "Manager_getWriteConcern X intern = phongo_writeconcern_init (mongoc_client_get_write_concern (xe_client X) (mgr_client intern))"

text \<open>A new Server remembers the process it was made in.\<close>

definition server_object :: "int \<Rightarrow> zval \<Rightarrow> int \<Rightarrow> php_phongo_server_obj" where
  "server_object pid manager server_id =
     php_phongo_server_t.extend (phongo_server_init manager server_id) \<lparr>srv_created_by_pid = pid\<rparr>"

definition Manager_getServers where
  "Manager_getServers X M manager intern w =
     map (\<lambda>sd. server_object (xe_pid X) manager (mongoc_server_description_id M sd))
       (mongoc_client_get_server_descriptions M (mgr_client intern) w)"

definition Manager_selectServer where
  "Manager_selectServer X M D manager intern zreadPreference w ex =
     map_option (\<lambda>(server_id, w1, ex1). (map_option (server_object (xe_pid X) manager) server_id, w1, ex1))
       (php_phongo_manager_select_server X M D False True (Some zreadPreference) None (mgr_client intern) w ex)"

text \<open>
  The options of a session, made when the first of them is found; None: nothing was set.  The
  exceptions that were pending count as those of the transaction options.
\<close>

definition session_set ::
    "('txn session_opts \<Rightarrow> 'txn session_opts) \<Rightarrow> 'txn session_opts option \<Rightarrow> 'txn session_opts option" where
  "session_set f cs_opts = Some (f (case cs_opts of None \<Rightarrow> mongoc_session_opts_new | Some o1 \<Rightarrow> o1))"

definition session_default_transaction ::
    "(zval \<Rightarrow> int) \<Rightarrow> ('rc, 'rp, 'wc, 'cs, 'cl) store \<Rightarrow> ('rc, 'rp, 'wc, 'txn) transaction_ops \<Rightarrow> ht
       \<Rightarrow> 'txn session_opts option \<Rightarrow> exn list \<Rightarrow> exn list + 'txn session_opts option" where
  "session_default_transaction L D T options cs_opts ex =
     (case php_array_fetch options ''defaultTransactionOptions'' of
        None \<Rightarrow> Inr cs_opts
      | Some (ZArray h) \<Rightarrow> (case php_mongodb_session_parse_transaction_options L D T h of
          Inl e \<Rightarrow> Inl (e # ex)
        | Inr txn_opts \<Rightarrow>
            if ex \<noteq> [] then Inl ex
            else Inr (case txn_opts of None \<Rightarrow> cs_opts
                   | Some txn \<Rightarrow> session_set (\<lambda>o1. o1\<lparr>so_default_transaction := Some txn\<rparr>) cs_opts))
      | Some z \<Rightarrow> Inl (invalid_argument (''Expected '' @ dquote ''defaultTransactionOptions'' @ '' option to be an array, ''
                   @ z_class_or_type_name D z @ '' given'') # ex))"

definition session_conflict :: exn where
  "session_conflict = invalid_argument (''Only one of '' @ dquote ''causalConsistency'' @ '' and '' @ dquote ''snapshot'' @ '' can be enabled'')"

definition start_session_opts ::
    "('w, 'cl, 'cs, 'rc, 'rp, 'sd, 'txn) server_ops \<Rightarrow> (zval \<Rightarrow> int) \<Rightarrow> ('rc, 'rp, 'wc, 'cs, 'cl) store
       \<Rightarrow> ('rc, 'rp, 'wc, 'txn) transaction_ops \<Rightarrow> ht option \<Rightarrow> exn list \<Rightarrow> exn list + 'txn session_opts option" where
  "start_session_opts M L D T options ex =
     (case options of
        None \<Rightarrow> Inr None
      | Some h \<Rightarrow>
         (let o1 = (if php_array_exists h ''causalConsistency''
                    then session_set (\<lambda>o1. o1\<lparr>so_causal_consistency := Some (php_array_fetch_bool h ''causalConsistency'')\<rparr>) None
                    else None) in
          case session_default_transaction L D T h o1 ex of
            Inl ex1 \<Rightarrow> Inl ex1
          | Inr o2 \<Rightarrow>
             (let o3 = (if php_array_exists h ''snapshot''
                        then session_set (\<lambda>o1. o1\<lparr>so_snapshot := Some (php_array_fetch_bool h ''snapshot'')\<rparr>) o2
                        else o2) in
              case o3 of
                None \<Rightarrow> Inr None
              | Some cs_opts \<Rightarrow>
                  if session_opts_causal_consistency M cs_opts \<and> session_opts_snapshot M cs_opts
                  then Inl (session_conflict # ex) else Inr (Some cs_opts))))"

definition Manager_startSession where
  "Manager_startSession X M L D T manager intern options w ex =
     (case start_session_opts M L D T options ex of
        Inl ex1 \<Rightarrow> Some (None, w, ex1)
      | Inr cs_opts \<Rightarrow>
         (let w1 = reset_if_pid_differs X (mgr_created_by_pid intern) manager w in
          case mongoc_client_start_session_with_opts M (mgr_client intern) cs_opts w1 of
            (Inr cs, w2) \<Rightarrow> Some (Some (phongo_session_init (xe_pid X) manager cs), w2, ex)
          | (Inl error, w2) \<Rightarrow> map_option (\<lambda>ex1. (None, w2, ex1))
              (phongo_throw_exception_from_bson_error_t (xe_decode X) (xe_codes X) error ex)))"

text \<open>The servers are shown as far as they can be read; without one of them, the cluster is left out.\<close>

fun servers_to_zvals ::
    "decode_env \<Rightarrow> ('w, 'cl, 'cs, 'rc, 'rp, 'sd, 'txn) server_ops \<Rightarrow> 'sd list \<Rightarrow> exn list \<Rightarrow> (zval list option \<times> exn list) option" where
  "servers_to_zvals N M [] ex = Some (Some [], ex)"
| "servers_to_zvals N M (sd # sds) ex =
     (case php_phongo_server_to_zval N M sd ex of
        None \<Rightarrow> None
      | Some (False, _, ex1) \<Rightarrow> Some (None, ex1)
      | Some (True, h, ex1) \<Rightarrow> map_option (\<lambda>(r, ex2). (map_option ((#) (ZArray h)) r, ex2)) (servers_to_zvals N M sds ex1))"

definition php_phongo_manager_get_debug_info where
  "php_phongo_manager_get_debug_info N M intern w ex =
     map_option (\<lambda>(cluster, ex1).
         ((KStr ''uri'', ZString (c_str (mongoc_client_get_uri_string M (mgr_client intern))))
          # (case cluster of None \<Rightarrow> [] | Some zs \<Rightarrow> [(KStr ''cluster'', ZArray (list_table_from 0 zs))]), ex1))
       (servers_to_zvals N M (mongoc_client_get_server_descriptions M (mgr_client intern) w) ex)"

end
