(* ===== verification/Driver_Manager_Methods_Props.thy ===== *)
theory Driver_Manager_Methods_Props
  imports Driver_Manager_Methods
begin

text \<open>
  A Manager executes what a Server executes, on the server it selects by the session and the read
  preference of the operation; refused options select and send nothing.  The type of a server is
  consistent with the tests of it.
\<close>

section \<open>The options a server is selected by\<close>

text \<open>
  The session and the read preference are parsed twice: for the selection, and again, with the
  options of the command, for the execution.
\<close>

lemma session_parsed_again:
  "phongo_parse_session P D options client mo = Some (Inr (mo', zs)) \<Longrightarrow>
   phongo_parse_session P D options client None = Some (Inr (None, zs))"
  by (auto simp: phongo_parse_session_def append_to_def split: sum.splits option.splits driver_obj.splits if_splits)

lemma command_selection_options:
  assumes "parse_command_options X D client type options = Some (Inr co)"
  shows "phongo_parse_session (xe_parse X) D options client None = Some (Inr (None, co_session co))"
    and "has_option type PHONGO_OPTION_READ_PREFERENCE \<Longrightarrow> phongo_parse_read_preference D options = Inr (co_read_preference co)"
    and "\<not> has_option type PHONGO_OPTION_READ_PREFERENCE \<Longrightarrow> co_read_preference co = None"
proof -
  obtain rp es1 es2 where s: "phongo_parse_session (xe_parse X) D options client es1 = Some (Inr (es2, co_session co))"
    and rp: "(if has_option type PHONGO_OPTION_READ_PREFERENCE then phongo_parse_read_preference D options else Inr None) = Inr rp"
    and "co_read_preference co = rp"
    using assms by (auto simp: parse_command_options_def bind_r_def split: option.splits sum.splits if_splits)
  then show "phongo_parse_session (xe_parse X) D options client None = Some (Inr (None, co_session co))"
    and "has_option type PHONGO_OPTION_READ_PREFERENCE \<Longrightarrow> phongo_parse_read_preference D options = Inr (co_read_preference co)"
    and "\<not> has_option type PHONGO_OPTION_READ_PREFERENCE \<Longrightarrow> co_read_preference co = None"
    using session_parsed_again[OF s] by auto
qed

lemma command_type_options:
  "has_option PHONGO_COMMAND_RAW PHONGO_OPTION_READ_PREFERENCE" "has_option PHONGO_COMMAND_READ PHONGO_OPTION_READ_PREFERENCE"
  "\<not> has_option PHONGO_COMMAND_WRITE PHONGO_OPTION_READ_PREFERENCE" "\<not> has_option PHONGO_COMMAND_READ_WRITE PHONGO_OPTION_READ_PREFERENCE"
  by (simp_all add: has_option_def PHONGO_COMMAND_RAW_def PHONGO_COMMAND_READ_def PHONGO_COMMAND_WRITE_def
      PHONGO_COMMAND_READ_WRITE_def PHONGO_OPTION_READ_PREFERENCE_def)

section \<open>On the selected server\<close>

text \<open>An operation on the server that is selected, or its failure.\<close>

definition on_selected_server where
  "on_selected_server X M D for_writes inherit zreadPreference zsession client w ex fail run =
     Option.bind (php_phongo_manager_select_server X M D for_writes inherit zreadPreference zsession client w ex)
       (\<lambda>(server_id, w1, ex1). case server_id of None \<Rightarrow> fail w1 ex1 | Some n \<Rightarrow> run n w1 ex1)"

text \<open>The Server object of a Manager that selected it, in the process the Manager was made in.\<close>

definition server_of :: "zval \<Rightarrow> 'cl php_phongo_manager_t \<Rightarrow> int \<Rightarrow> php_phongo_server_obj" where
  "server_of manager intern server_id = server_object (mgr_created_by_pid intern) manager server_id"

lemma server_of_sel [simp]:
  "srv_manager (server_of manager intern n) = manager" "srv_server_id (server_of manager intern n) = n"
  "srv_created_by_pid (server_of manager intern n) = mgr_created_by_pid intern"
  by (simp_all add: server_of_def server_object_def phongo_server_init_def php_phongo_server_t.extend_def)

lemma server_of_client:
  "obj_at D manager = Some (DManager intern) \<Longrightarrow> server_client D (server_of manager intern n) = Some (mgr_client intern)"
  by (simp add: server_client_def)

lemma manager_select_parsed:
  assumes "phongo_parse_session (xe_parse X) D options client None = Some (Inr (None, zs))"
    and "\<not> for_writes \<Longrightarrow> phongo_parse_read_preference D options = Inr zrp" and "for_writes \<Longrightarrow> zrp = None"
  shows "manager_select X M D for_writes inherit options client w ex
       = php_phongo_manager_select_server X M D for_writes inherit zrp zs client w ex"
  using assms by (cases for_writes) (auto simp: manager_select_def)

lemma manager_command_selected:
  assumes m: "obj_at D manager = Some (DManager intern)"
    and p: "parse_command_options X D (mgr_client intern) type options = Some (Inr co)"
    and w: "for_writes \<longleftrightarrow> \<not> has_option type PHONGO_OPTION_READ_PREFERENCE"
  shows "manager_execute_command X M D manager intern for_writes inherit type db zc command options w ex
     = on_selected_server X M D for_writes inherit (co_read_preference co) (co_session co) (mgr_client intern) w ex
         (\<lambda>w1 ex1. Some (False, None, D, w1, ex1))
         (\<lambda>n w1 ex1. server_command X D (server_of manager intern n) type db zc command options w1 ex1)"
proof -
  have "manager_select X M D for_writes inherit options (mgr_client intern) w ex
      = php_phongo_manager_select_server X M D for_writes inherit (co_read_preference co) (co_session co) (mgr_client intern) w ex"
    by (rule manager_select_parsed[OF command_selection_options(1)[OF p]])
      (use w command_selection_options(2,3)[OF p] in auto)
  then show ?thesis
    by (auto simp: manager_execute_command_def on_selected_server_def server_command_def server_of_client[OF m]
        split: option.splits bind_splits)
qed

text \<open>The four command methods.\<close>

lemma command_methods_selected:
  assumes m: "obj_at D manager = Some (DManager intern)"
  shows "parse_command_options X D (mgr_client intern) PHONGO_COMMAND_RAW (php_phongo_prep_legacy_option options ''readPreference'') = Some (Inr co)
     \<Longrightarrow> Manager_executeCommand X M D manager intern db zc command options w ex
       = on_selected_server X M D False False (co_read_preference co) (co_session co) (mgr_client intern) w ex
           (\<lambda>w1 ex1. Some (False, None, D, w1, ex1)) (\<lambda>n. Server_executeCommand X D (server_of manager intern n) db zc command options)"
    and "parse_command_options X D (mgr_client intern) PHONGO_COMMAND_READ options = Some (Inr co)
     \<Longrightarrow> Manager_executeReadCommand X M D manager intern db zc command options w ex
       = on_selected_server X M D False True (co_read_preference co) (co_session co) (mgr_client intern) w ex
           (\<lambda>w1 ex1. Some (False, None, D, w1, ex1)) (\<lambda>n. Server_executeReadCommand X D (server_of manager intern n) db zc command options)"
    and "parse_command_options X D (mgr_client intern) PHONGO_COMMAND_WRITE options = Some (Inr co)
     \<Longrightarrow> Manager_executeWriteCommand X M D manager intern db zc command options w ex
       = on_selected_server X M D True False None (co_session co) (mgr_client intern) w ex
           (\<lambda>w1 ex1. Some (False, None, D, w1, ex1)) (\<lambda>n. Server_executeWriteCommand X D (server_of manager intern n) db zc command options)"
    and "parse_command_options X D (mgr_client intern) PHONGO_COMMAND_READ_WRITE options = Some (Inr co)
     \<Longrightarrow> Manager_executeReadWriteCommand X M D manager intern db zc command options w ex
       = on_selected_server X M D True False None (co_session co) (mgr_client intern) w ex
           (\<lambda>w1 ex1. Some (False, None, D, w1, ex1)) (\<lambda>n. Server_executeReadWriteCommand X D (server_of manager intern n) db zc command options)"
  using manager_command_selected[OF m, of X PHONGO_COMMAND_RAW _ co False] manager_command_selected[OF m, of X PHONGO_COMMAND_READ _ co False]
    manager_command_selected[OF m, of X PHONGO_COMMAND_WRITE _ co True] manager_command_selected[OF m, of X PHONGO_COMMAND_READ_WRITE _ co True]
    command_selection_options(3)[of X D _ _ _ co] command_type_options
  by (simp_all add: Manager_executeCommand_def Manager_executeReadCommand_def Manager_executeWriteCommand_def
      Manager_executeReadWriteCommand_def Server_executeCommand_def [abs_def] Server_executeReadCommand_def [abs_def]
      Server_executeWriteCommand_def [abs_def] Server_executeReadWriteCommand_def [abs_def])

lemma manager_query_selected:
  assumes m: "obj_at D manager = Some (DManager intern)"
    and "phongo_parse_session (xe_parse X) D (php_phongo_prep_legacy_option options ''readPreference'') (mgr_client intern) mo
       = Some (Inr (mo', zs))"
    and "phongo_parse_read_preference D (php_phongo_prep_legacy_option options ''readPreference'') = Inr zrp"
  shows "Manager_executeQuery X M D manager intern ns zquery query options w ex
     = on_selected_server X M D False True zrp zs (mgr_client intern) w ex (\<lambda>w1 ex1. Some (None, w1, ex1))
         (\<lambda>n w1 ex1. Server_executeQuery X D (server_of manager intern n) ns zquery query options w1 ex1)"
  using manager_select_parsed[OF session_parsed_again[OF assms(2)], of False zrp M True w ex] assms(3)
  by (auto simp: Manager_executeQuery_def Server_executeQuery_def on_selected_server_def server_of_client[OF m] Let_def
      split: option.splits bind_splits)

lemma manager_bulk_selected:
  assumes m: "obj_at D manager = Some (DManager intern)"
    and "phongo_parse_session (xe_parse X) D (php_phongo_prep_legacy_option options ''writeConcern'') (mgr_client intern) mo
       = Some (Inr (mo', zs))"
  shows "Manager_executeBulkWrite X B M wrap D manager intern ns bulk options w ex
     = on_selected_server X M D True False None zs (mgr_client intern) w ex (\<lambda>w1 ex1. Some (False, None, bulk, w1, ex1))
         (\<lambda>n w1 ex1. Server_executeBulkWrite X B wrap D (server_of manager intern n) ns bulk options w1 ex1)"
  using manager_select_parsed[OF session_parsed_again[OF assms(2)], of True None M False w ex]
  by (auto simp: Manager_executeBulkWrite_def Server_executeBulkWrite_def on_selected_server_def server_of_client[OF m] Let_def
      split: option.splits bind_splits)

text \<open>A session that is pinned to a server decides; nothing is selected.\<close>

lemma pinned_session_decides:
  assumes "session_from_zval D (Some z) = Some cs" and "0 < mongoc_client_session_get_server_id (xe_session X) cs w"
  shows "php_phongo_manager_select_server X M D for_writes inherit zrp (Some z) client w ex
       = Some (Some (mongoc_client_session_get_server_id (xe_session X) cs w), w, ex)"
  using assms by (simp add: php_phongo_manager_select_server_def Let_def)

text \<open>Options that are refused: the exception, and nothing else.\<close>

lemma refused_options_select_nothing:
  assumes "phongo_parse_session (xe_parse X) D options client None = Some (Inl e)
    \<or> (\<exists>zs. phongo_parse_session (xe_parse X) D options client None = Some (Inr (None, zs)))
       \<and> \<not> for_writes \<and> phongo_parse_read_preference D options = Inl e"
  shows "manager_select X M D for_writes inherit options client w ex = Some (None, w, e # ex)"
  using assms by (auto simp: manager_select_def)

text \<open>A selection that fails raises at least one exception, and never hides one.\<close>

lemma selection_fails:
  assumes "php_phongo_manager_select_server X M D for_writes inherit zrp zs client w ex = Some (None, w1, ex1)"
  shows "ex1 \<noteq> [] \<and> (\<exists>new. ex1 = new @ ex)"
proof -
  have u: "select_unpinned X M for_writes rp client w ex = Some (None, w1, ex1) \<Longrightarrow> ex1 \<noteq> [] \<and> (\<exists>new. ex1 = new @ ex)" for rp
    using labelled_head by (fastforce simp: select_unpinned_def phongo_throw_exception_from_bson_error_t_def
        phongo_throw_exception_from_bson_error_t_and_reply_def split: sum.splits prod.splits if_splits option.splits)
  from assms u show ?thesis by (auto simp: php_phongo_manager_select_server_def Let_def split: option.splits if_splits)
qed

section \<open>Sessions\<close>

text \<open>What was set is what libmongoc answers with.\<close>

definition session_opts_honoured :: "('w, 'cl, 'cs, 'rc, 'rp, 'sd, 'txn) server_ops \<Rightarrow> bool" where
  "session_opts_honoured M \<longleftrightarrow> (\<forall>o1 b. (so_causal_consistency o1 = Some b \<longrightarrow> session_opts_causal_consistency M o1 = b)
     \<and> (so_snapshot o1 = Some b \<longrightarrow> session_opts_snapshot M o1 = b))"

lemma php_array_fetch_exists: "php_array_exists h key \<longleftrightarrow> php_array_fetch h key \<noteq> None"
  by (simp add: php_array_exists_def php_array_fetch_def hash_exists_def)

lemma transaction_option_errors:
  "php_mongodb_session_parse_transaction_options L D T h = Inl e \<Longrightarrow> ex_class e = InvalidArgumentException"
  by (auto simp: php_mongodb_session_parse_transaction_options_def txn_max_commit_time_def txn_option_def Let_def bind_r_def
      option_type_exception_def split: sum.splits option.splits if_splits)

lemma default_transaction_keeps:
  assumes "session_default_transaction L D T h (Some o1) [] = r"
  shows "(\<exists>e. r = Inl [e] \<and> ex_class e = InvalidArgumentException)
    \<or> (\<exists>o2. r = Inr (Some o2) \<and> so_causal_consistency o2 = so_causal_consistency o1)"
  using assms transaction_option_errors
  by (auto simp: session_default_transaction_def session_set_def split: option.splits sum.splits zval.splits)

lemma causal_snapshot_conflict:
  fixes T :: "('rc, 'rp, 'wc, 'txn) transaction_ops"
  assumes "session_opts_honoured M" and "php_array_exists h ''causalConsistency''" and "php_array_fetch_bool h ''causalConsistency''"
    and "php_array_exists h ''snapshot''" and "php_array_fetch_bool h ''snapshot''"
  shows "\<exists>e. start_session_opts M L D T (Some h) [] = Inl [e] \<and> ex_class e = InvalidArgumentException"
proof -
  define o1 :: "'txn session_opts" where "o1 = mongoc_session_opts_new\<lparr>so_causal_consistency := Some True\<rparr>"
  have c: "so_causal_consistency o1 = Some True" by (simp add: o1_def)
  from default_transaction_keeps[of L D T h o1, OF refl] show ?thesis
  proof (elim disjE exE conjE)
    fix e assume "session_default_transaction L D T h (Some o1) [] = Inl [e]" "ex_class e = InvalidArgumentException"
    then show ?thesis using assms(2,3) by (simp add: start_session_opts_def session_set_def o1_def Let_def)
  next
    fix o2 assume o2: "session_default_transaction L D T h (Some o1) [] = Inr (Some o2)"
      "so_causal_consistency o2 = so_causal_consistency o1"
    let ?o3 = "o2\<lparr>so_snapshot := Some True\<rparr>"
    have "session_opts_causal_consistency M ?o3" "session_opts_snapshot M ?o3"
      using assms(1) o2(2) c by (auto simp: session_opts_honoured_def)
    then show ?thesis using assms(2-5) o2(1)
      by (simp add: start_session_opts_def session_set_def o1_def Let_def session_conflict_def)
  qed
qed

section \<open>Types of servers\<close>

lemma type_names_distinct:
  "distinct (map fst php_phongo_server_description_type_map)" "distinct (map snd php_phongo_server_description_type_map)"
  by (simp_all add: php_phongo_server_description_type_map_def)

lemma server_is_type:
  assumes "server_is M sd t"
  shows "php_phongo_server_description_type M sd = t"
  using assms by (auto simp: server_is_def php_phongo_server_description_type_def php_phongo_server_description_type_map_def)

lemma server_type_is:
  assumes "php_phongo_server_description_type M sd = t" and "t \<noteq> PHONGO_SERVER_UNKNOWN"
  shows "server_is M sd t"
  using assms by (auto simp: server_is_def php_phongo_server_description_type_def php_phongo_server_description_type_map_def
      split: if_splits)

text \<open>Servers that compare equal are those with one address, ignoring case; the order is antisymmetric.\<close>

lemma of_char_pos: "c \<noteq> CHR 0x00 \<Longrightarrow> 0 < (of_char c :: nat)"
  using of_char_eq_iff[where 'a = nat, of c "CHR 0x00"] by (cases "of_char c :: nat") auto

lemma strcasecmp_eq:
  "CHR 0x00 \<notin> set s \<Longrightarrow> CHR 0x00 \<notin> set t \<Longrightarrow> strcasecmp s t = 0 \<longleftrightarrow> map c_tolower s = map c_tolower t"
  by (induction s t rule: strcasecmp.induct) (auto simp: c_tolower_def of_char_pos)

lemma strcasecmp_antisym: "strcasecmp t s = - strcasecmp s t"
  by (induction s t rule: strcasecmp.induct) auto

end
