(* ===== verification/Driver_Apm.thy ===== *)
theory Driver_Apm
  imports Driver_Manager Driver_Manager_Methods
begin

text \<open>
  Command monitoring (phongo\_apm.c, MongoDB/Monitoring/): subscribers are registered for all
  clients or for those of a Manager; an event of libmongoc is turned into an object and handed to
  each of them, once.
\<close>

section \<open>Tables of subscribers\<close>

text \<open>A table is keyed by the handles of objects: it lists each of its objects once, oldest first.\<close>

definition monitoring_ns :: "string \<Rightarrow> string" where
  "monitoring_ns s = driver_ns (''Monitoring'' @ CHR 0x5C # s)"

definition subscriber_ce :: string where "subscriber_ce = monitoring_ns ''Subscriber''"
definition commandsubscriber_ce :: string where "commandsubscriber_ce = monitoring_ns ''CommandSubscriber''"

definition object_instanceof :: "class_env \<Rightarrow> ('rc, 'rp, 'wc, 'cs, 'cl) store \<Rightarrow> string \<Rightarrow> zval \<Rightarrow> bool" where
  "object_instanceof E D ce z = (case obj_at D z of Some d \<Rightarrow> ce_instanceof E (dobj_class_name d) ce | None \<Rightarrow> False)"

definition phongo_apm_check_args_for_add_and_remove ::
    "class_env \<Rightarrow> ('rc, 'rp, 'wc, 'cs, 'cl) store \<Rightarrow> zval list option \<Rightarrow> zval \<Rightarrow> exn option" where
  "phongo_apm_check_args_for_add_and_remove E D subscribers subscriber =
     (if subscribers = None
      then Some (phongo_throw_exception PHONGO_ERROR_UNEXPECTED_VALUE ''Subscriber HashTable is not initialized'')
      else if \<not> object_instanceof E D subscriber_ce subscriber
      then Some (phongo_throw_exception PHONGO_ERROR_UNEXPECTED_VALUE (''Subscriber is not an instance of '' @ subscriber_ce))
      else None)"

text \<open>The table afterwards, or the exception.\<close>

definition phongo_apm_add_subscriber ::
    "class_env \<Rightarrow> ('rc, 'rp, 'wc, 'cs, 'cl) store \<Rightarrow> zval list option \<Rightarrow> zval \<Rightarrow> zval list option result" where
  "phongo_apm_add_subscriber E D subscribers subscriber =
     (case phongo_apm_check_args_for_add_and_remove E D subscribers subscriber of
        Some e \<Rightarrow> Inl e
      | None \<Rightarrow> Inr (map_option (\<lambda>t. if subscriber \<in> set t then t else t @ [subscriber]) subscribers))"

definition phongo_apm_remove_subscriber ::
    "class_env \<Rightarrow> ('rc, 'rp, 'wc, 'cs, 'cl) store \<Rightarrow> zval list option \<Rightarrow> zval \<Rightarrow> zval list option result" where
  "phongo_apm_remove_subscriber E D subscribers subscriber =
     (case phongo_apm_check_args_for_add_and_remove E D subscribers subscriber of
        Some e \<Rightarrow> Inl e
      | None \<Rightarrow> Inr (map_option (filter (\<lambda>s. s \<noteq> subscriber)) subscribers))"

text \<open>
  The functions and the methods that register a subscriber (Monitoring/functions.c, Manager.c);
  their argument is an instance of \<^verbatim>\<open>Subscriber\<close>, or the engine does not call them.
\<close>

definition MongoDB_Driver_Monitoring_addSubscriber ::
    "class_env \<Rightarrow> ('rc, 'rp, 'wc, 'cs, 'cl) store \<Rightarrow> zval \<Rightarrow> 'cl mongodb_globals \<Rightarrow> 'cl mongodb_globals result" where
  "MongoDB_Driver_Monitoring_addSubscriber E D subscriber G =
     bind_r (phongo_apm_add_subscriber E D (g_subscribers G) subscriber) (\<lambda>t. Inr (G\<lparr>g_subscribers := t\<rparr>))"

definition MongoDB_Driver_Monitoring_removeSubscriber ::
    "class_env \<Rightarrow> ('rc, 'rp, 'wc, 'cs, 'cl) store \<Rightarrow> zval \<Rightarrow> 'cl mongodb_globals \<Rightarrow> 'cl mongodb_globals result" where
  "MongoDB_Driver_Monitoring_removeSubscriber E D subscriber G =
     bind_r (phongo_apm_remove_subscriber E D (g_subscribers G) subscriber) (\<lambda>t. Inr (G\<lparr>g_subscribers := t\<rparr>))"

definition Manager_addSubscriber ::
    "class_env \<Rightarrow> ('rc, 'rp, 'wc, 'cs, 'cl) store \<Rightarrow> zval \<Rightarrow> 'cl manager_intern \<Rightarrow> 'cl manager_intern result" where
  "Manager_addSubscriber E D subscriber intern =
     (let t0 = (case mi_subscribers intern of None \<Rightarrow> Some [] | t \<Rightarrow> t) in
      bind_r (phongo_apm_add_subscriber E D t0 subscriber) (\<lambda>t. Inr (intern\<lparr>mi_subscribers := t\<rparr>)))"

definition Manager_removeSubscriber ::
    "class_env \<Rightarrow> ('rc, 'rp, 'wc, 'cs, 'cl) store \<Rightarrow> zval \<Rightarrow> 'cl manager_intern \<Rightarrow> 'cl manager_intern result" where
  "Manager_removeSubscriber E D subscriber intern =
     (if mi_subscribers intern = None then Inr intern
      else bind_r (phongo_apm_remove_subscriber E D (mi_subscribers intern) subscriber) (\<lambda>t. Inr (intern\<lparr>mi_subscribers := t\<rparr>)))"

section \<open>Who hears of an event\<close>

fun phongo_apm_add_subscribers_to_notify ::
    "class_env \<Rightarrow> ('rc, 'rp, 'wc, 'cs, 'cl) store \<Rightarrow> string \<Rightarrow> zval list \<Rightarrow> zval list \<Rightarrow> zval list" where
  "phongo_apm_add_subscribers_to_notify E D ce [] to = to"
| "phongo_apm_add_subscribers_to_notify E D ce (subscriber # from) to =
     (if \<not> object_instanceof E D ce subscriber then phongo_apm_add_subscribers_to_notify E D ce from to
      else if subscriber \<in> set to then phongo_apm_add_subscribers_to_notify E D ce from to
      else phongo_apm_add_subscribers_to_notify E D ce from (to @ [subscriber]))"

text \<open>The registered Managers, oldest first; a registered address without a Manager is undefined.\<close>

definition manager_at :: "('rc, 'rp, 'wc, 'cs, 'cl) store \<Rightarrow> nat \<Rightarrow> 'cl php_phongo_manager_t option" where
  "manager_at D a = (case obj_at D (ZAddr a) of Some (DManager m) \<Rightarrow> Some m | _ \<Rightarrow> None)"

fun add_manager_subscribers ::
    "class_env \<Rightarrow> ('rc, 'rp, 'wc, 'cs, 'cl) store \<Rightarrow> string \<Rightarrow> 'cl \<Rightarrow> nat list \<Rightarrow> zval list \<Rightarrow> zval list option" where
  "add_manager_subscribers E D ce client [] to = Some to"
| "add_manager_subscribers E D ce client (a # managers) to =
     (case manager_at D a of
        None \<Rightarrow> None
      | Some manager \<Rightarrow> add_manager_subscribers E D ce client managers
          (if mgr_client manager = client then phongo_apm_add_subscribers_to_notify E D ce (mgr_subscribers manager) to else to))"

definition registered_managers :: "'cl mongodb_globals \<Rightarrow> nat list" where
  "registered_managers G = (case g_managers G of None \<Rightarrow> [] | Some t \<Rightarrow> map snd (it_entries t))"

definition phongo_apm_get_subscribers_to_notify ::
    "class_env \<Rightarrow> ('rc, 'rp, 'wc, 'cs, 'cl) store \<Rightarrow> 'cl mongodb_globals \<Rightarrow> string \<Rightarrow> 'cl \<Rightarrow> zval list option" where
  "phongo_apm_get_subscribers_to_notify E D G ce client =
     add_manager_subscribers E D ce client (registered_managers G)
       (case g_subscribers G of None \<Rightarrow> [] | Some from \<Rightarrow> phongo_apm_add_subscribers_to_notify E D ce from [])"

text \<open>The outer None is undefined; the inner one: no Manager has the client.\<close>

fun find_manager_for_client :: "('rc, 'rp, 'wc, 'cs, 'cl) store \<Rightarrow> 'cl \<Rightarrow> nat list \<Rightarrow> zval option option" where
  "find_manager_for_client D client [] = Some None"
| "find_manager_for_client D client (a # managers) =
     (case manager_at D a of
        None \<Rightarrow> None
      | Some manager \<Rightarrow> if mgr_client manager = client then Some (Some (ZAddr a)) else find_manager_for_client D client managers)"

definition phongo_apm_copy_manager_for_client ::
    "('rc, 'rp, 'wc, 'cs, 'cl) store \<Rightarrow> 'cl mongodb_globals \<Rightarrow> 'cl \<Rightarrow> zval option option" where
  "phongo_apm_copy_manager_for_client D G client = find_manager_for_client D client (registered_managers G)"

text \<open>A call of a method of a subscriber changes the world, and may raise an exception.\<close>

type_synonym ('w, 'ev) notify = "zval \<Rightarrow> string \<Rightarrow> 'ev \<Rightarrow> 'w \<Rightarrow> exn option \<times> 'w"

fun phongo_apm_dispatch_event :: "('w, 'ev) notify \<Rightarrow> zval list \<Rightarrow> string \<Rightarrow> 'ev \<Rightarrow> 'w \<Rightarrow> exn list \<Rightarrow> 'w \<times> exn list" where
  "phongo_apm_dispatch_event call [] function_name event w ex = (w, ex)"
| "phongo_apm_dispatch_event call (subscriber # subscribers) function_name event w ex =
     (if ex \<noteq> [] then (w, ex)
      else (case call subscriber function_name event w of (thrown, w1) \<Rightarrow>
        phongo_apm_dispatch_event call subscribers function_name event w1 (case thrown of None \<Rightarrow> ex | Some e \<Rightarrow> e # ex)))"

section \<open>Events\<close>

text \<open>libmongoc's events, and the objects that are made of them.\<close>

record 'cl mongoc_apm_command =
  apm_context :: 'cl
  apm_command_name :: string
  apm_server_id :: int
  apm_operation_id :: "64 word"
  apm_request_id :: "64 word"

record 'cl mongoc_apm_command_started_t = "'cl mongoc_apm_command" +
  apm_command :: bdoc
  apm_database_name :: string

record 'cl mongoc_apm_command_succeeded_t = "'cl mongoc_apm_command" +
  apm_duration :: "64 word"
  apm_reply :: bdoc

record 'cl mongoc_apm_command_failed_t = "'cl mongoc_apm_command_succeeded_t" +
  apm_error :: bson_error_t

record php_phongo_commandevent =
  ev_manager :: zval
  ev_command_name :: string
  ev_server_id :: int
  ev_operation_id :: "64 word"
  ev_request_id :: "64 word"

record php_phongo_commandstartedevent_t = php_phongo_commandevent +
  ev_command :: bdoc
  ev_database_name :: string

record php_phongo_commandsucceededevent_t = php_phongo_commandevent +
  ev_duration_micros :: "64 word"
  ev_reply :: bdoc

record php_phongo_commandfailedevent_t = php_phongo_commandsucceededevent_t +
  ev_z_error :: exn

datatype apm_event =
    CommandStarted php_phongo_commandstartedevent_t
  | CommandSucceeded php_phongo_commandsucceededevent_t
  | CommandFailed php_phongo_commandfailedevent_t

text \<open>
  The three handlers differ in the object and the method.  Without subscribers nothing is made;
  without a Manager an exception is raised.
\<close>

definition apm_handle ::
    "class_env \<Rightarrow> ('rc, 'rp, 'wc, 'cs, 'cl) store \<Rightarrow> 'cl mongodb_globals \<Rightarrow> ('w, apm_event) notify \<Rightarrow> 'cl \<Rightarrow> string
       \<Rightarrow> (zval \<Rightarrow> apm_event) \<Rightarrow> 'w \<Rightarrow> exn list \<Rightarrow> ('w \<times> exn list) option" where
  "apm_handle E D G call client function_name make_event w ex =
     (case phongo_apm_get_subscribers_to_notify E D G commandsubscriber_ce client of
        None \<Rightarrow> None
      | Some subscribers \<Rightarrow>
          if subscribers = [] then Some (w, ex)
          else (case phongo_apm_copy_manager_for_client D G client of
              None \<Rightarrow> None
            | Some None \<Rightarrow> Some (w, phongo_throw_exception PHONGO_ERROR_UNEXPECTED_VALUE
                ''Found no Manager for client in APM event context'' # ex)
            | Some (Some manager) \<Rightarrow> Some (phongo_apm_dispatch_event call subscribers function_name (make_event manager) w ex)))"

definition started_event :: "'cl mongoc_apm_command_started_t \<Rightarrow> zval \<Rightarrow> php_phongo_commandstartedevent_t" where
  "started_event event manager = \<lparr>ev_manager = manager, ev_command_name = c_str (apm_command_name event),
     ev_server_id = apm_server_id event, ev_operation_id = apm_operation_id event, ev_request_id = apm_request_id event,
     ev_command = apm_command event, ev_database_name = c_str (apm_database_name event)\<rparr>"

definition succeeded_event :: "'cl mongoc_apm_command_succeeded_t \<Rightarrow> zval \<Rightarrow> php_phongo_commandsucceededevent_t" where
  "succeeded_event event manager = \<lparr>ev_manager = manager, ev_command_name = c_str (apm_command_name event),
     ev_server_id = apm_server_id event, ev_operation_id = apm_operation_id event, ev_request_id = apm_request_id event,
     ev_duration_micros = apm_duration event, ev_reply = apm_reply event\<rparr>"

text \<open>The error is an exception object, which is not raised.\<close>

definition failed_event :: "mongoc_error_codes \<Rightarrow> 'cl mongoc_apm_command_failed_t \<Rightarrow> zval \<Rightarrow> php_phongo_commandfailedevent_t" where
  "failed_event K event manager = (let tmp_error = apm_error event in
     \<lparr>ev_manager = manager, ev_command_name = c_str (apm_command_name event),
      ev_server_id = apm_server_id event, ev_operation_id = apm_operation_id event, ev_request_id = apm_request_id event,
      ev_duration_micros = apm_duration event, ev_reply = apm_reply event,
      ev_z_error = zend_throw_exception (phongo_exception_from_mongoc_domain K (err_domain tmp_error) (err_code tmp_error))
        (err_message tmp_error) (err_code tmp_error)\<rparr>)"

definition phongo_apm_command_started ::
    "class_env \<Rightarrow> ('rc, 'rp, 'wc, 'cs, 'cl) store \<Rightarrow> 'cl mongodb_globals \<Rightarrow> ('w, apm_event) notify
       \<Rightarrow> 'cl mongoc_apm_command_started_t \<Rightarrow> 'w \<Rightarrow> exn list \<Rightarrow> ('w \<times> exn list) option" where
  "phongo_apm_command_started E D G call event w ex =
     apm_handle E D G call (apm_context event) ''commandStarted'' (\<lambda>manager. CommandStarted (started_event event manager)) w ex"

definition phongo_apm_command_succeeded ::
    "class_env \<Rightarrow> ('rc, 'rp, 'wc, 'cs, 'cl) store \<Rightarrow> 'cl mongodb_globals \<Rightarrow> ('w, apm_event) notify
       \<Rightarrow> 'cl mongoc_apm_command_succeeded_t \<Rightarrow> 'w \<Rightarrow> exn list \<Rightarrow> ('w \<times> exn list) option" where
  "phongo_apm_command_succeeded E D G call event w ex =
     apm_handle E D G call (apm_context event) ''commandSucceeded'' (\<lambda>manager. CommandSucceeded (succeeded_event event manager)) w ex"

definition phongo_apm_command_failed ::
    "class_env \<Rightarrow> mongoc_error_codes \<Rightarrow> ('rc, 'rp, 'wc, 'cs, 'cl) store \<Rightarrow> 'cl mongodb_globals \<Rightarrow> ('w, apm_event) notify
       \<Rightarrow> 'cl mongoc_apm_command_failed_t \<Rightarrow> 'w \<Rightarrow> exn list \<Rightarrow> ('w \<times> exn list) option" where
  "phongo_apm_command_failed E K D G call event w ex =
     apm_handle E D G call (apm_context event) ''commandFailed'' (\<lambda>manager. CommandFailed (failed_event K event manager)) w ex"

section \<open>The getters of events\<close>

text \<open>
  A number is printed into an array of 20 characters; None: the text and its null byte do not
  fit, and the code writes past the end.
\<close>

definition sprintf_20 :: "64 word \<Rightarrow> string option" where
  "sprintf_20 n = (let s = dec_of_nat (unat n) in if length s < 20 then Some s else None)"

text \<open>A 64-bit number as the engine's integer.\<close>

definition z_uint64 :: "64 word \<Rightarrow> zval" where
  "z_uint64 n = ZLong (sint n)"

definition event_getCommandName :: "'a php_phongo_commandevent_scheme \<Rightarrow> zval" where
  "event_getCommandName intern = ZString (ev_command_name intern)"

definition event_getOperationId :: "'a php_phongo_commandevent_scheme \<Rightarrow> zval option" where
  "event_getOperationId intern = map_option ZString (sprintf_20 (ev_operation_id intern))"

definition event_getRequestId :: "'a php_phongo_commandevent_scheme \<Rightarrow> zval option" where
  "event_getRequestId intern = map_option ZString (sprintf_20 (ev_request_id intern))"

definition event_getServer :: "int \<Rightarrow> 'a php_phongo_commandevent_scheme \<Rightarrow> php_phongo_server_obj" where
  "event_getServer pid intern = server_object pid (ev_manager intern) (ev_server_id intern)"

definition CommandStartedEvent_getCommand where
  "CommandStartedEvent_getCommand N intern ex =
     map_option (\<lambda>(z, ex1). (value_or_null z, ex1)) (decode_under N typemap_init (ev_command intern) ex)"

definition CommandStartedEvent_getDatabaseName where
  "CommandStartedEvent_getDatabaseName intern = ZString (ev_database_name intern)"

definition event_getReply :: "decode_env \<Rightarrow> 'a php_phongo_commandsucceededevent_t_scheme \<Rightarrow> exn list \<Rightarrow> (zval \<times> exn list) option" where
  "event_getReply N intern ex =
     map_option (\<lambda>(z, ex1). (value_or_null z, ex1)) (decode_under N typemap_init (ev_reply intern) ex)"

definition event_getDurationMicros :: "'a php_phongo_commandsucceededevent_t_scheme \<Rightarrow> zval" where
  "event_getDurationMicros intern = z_uint64 (ev_duration_micros intern)"

definition CommandFailedEvent_getError :: "php_phongo_commandfailedevent_t \<Rightarrow> exn" where
  "CommandFailedEvent_getError intern = ev_z_error intern"

text \<open>
  The tables that \<^verbatim>\<open>var_dump\<close> shows, as far as they were filled; the server and the error are
  wrapped into values by arguments.
\<close>

definition ids_info :: "'a php_phongo_commandevent_scheme \<Rightarrow> (string \<times> string) option" where
  "ids_info intern = Option.bind (sprintf_20 (ev_operation_id intern)) (\<lambda>o1.
     Option.bind (sprintf_20 (ev_request_id intern)) (\<lambda>r. Some (o1, r)))"

definition php_phongo_commandstartedevent_get_debug_info ::
    "decode_env \<Rightarrow> (php_phongo_server_t \<Rightarrow> zval) \<Rightarrow> php_phongo_commandstartedevent_t \<Rightarrow> exn list \<Rightarrow> (ht \<times> exn list) option" where
  "php_phongo_commandstartedevent_get_debug_info N wrap intern ex =
     (case decode_under N typemap_init (ev_command intern) ex of
        None \<Rightarrow> None
      | Some (None, ex1) \<Rightarrow> Some ([], ex1)
      | Some (Some z, ex1) \<Rightarrow> map_option (\<lambda>(operation_id, request_id).
          ([(KStr ''command'', z), (KStr ''commandName'', ZString (ev_command_name intern)),
            (KStr ''databaseName'', ZString (ev_database_name intern)), (KStr ''operationId'', ZString operation_id),
            (KStr ''requestId'', ZString request_id),
            (KStr ''server'', wrap (phongo_server_init (ev_manager intern) (ev_server_id intern)))], ex1)) (ids_info intern))"

definition event_tail :: "(php_phongo_server_t \<Rightarrow> zval) \<Rightarrow> ht \<Rightarrow> zval \<Rightarrow> 'a php_phongo_commandevent_scheme \<Rightarrow> exn list \<Rightarrow> (ht \<times> exn list) option" where
  "event_tail wrap h reply intern ex = map_option (\<lambda>request_id.
     (h @ [(KStr ''reply'', reply), (KStr ''requestId'', ZString request_id),
        (KStr ''server'', wrap (phongo_server_init (ev_manager intern) (ev_server_id intern)))], ex))
     (sprintf_20 (ev_request_id intern))"

text \<open>
  For a command that succeeded, the test of the decoder's result is the other way round than for
  one that failed.
\<close>

definition php_phongo_commandsucceededevent_get_debug_info ::
    "decode_env \<Rightarrow> (php_phongo_server_t \<Rightarrow> zval) \<Rightarrow> php_phongo_commandsucceededevent_t \<Rightarrow> exn list \<Rightarrow> (ht \<times> exn list) option" where
  "php_phongo_commandsucceededevent_get_debug_info N wrap intern ex =
     Option.bind (sprintf_20 (ev_operation_id intern)) (\<lambda>operation_id.
     (let h = [(KStr ''commandName'', ZString (ev_command_name intern)),
               (KStr ''durationMicros'', z_uint64 (ev_duration_micros intern)), (KStr ''operationId'', ZString operation_id)] in
      case php_phongo_bson_to_zval_ex N (BufDocument (ev_reply intern) True) bson_state_init ex of
        None \<Rightarrow> None
      | Some (True, reply_state, ex1) \<Rightarrow> Some (h, ex1)
      | Some (False, reply_state, ex1) \<Rightarrow> event_tail wrap h (st_zchild reply_state) intern ex1))"

definition php_phongo_commandfailedevent_get_debug_info ::
    "decode_env \<Rightarrow> (php_phongo_server_t \<Rightarrow> zval) \<Rightarrow> (exn \<Rightarrow> zval) \<Rightarrow> php_phongo_commandfailedevent_t \<Rightarrow> exn list \<Rightarrow> (ht \<times> exn list) option" where
  "php_phongo_commandfailedevent_get_debug_info N wrap wrap_exn intern ex =
     Option.bind (sprintf_20 (ev_operation_id intern)) (\<lambda>operation_id.
     (let h = [(KStr ''commandName'', ZString (ev_command_name intern)),
               (KStr ''durationMicros'', z_uint64 (ev_duration_micros intern)),
               (KStr ''error'', wrap_exn (ev_z_error intern)), (KStr ''operationId'', ZString operation_id)] in
      case decode_under N typemap_init (ev_reply intern) ex of
        None \<Rightarrow> None
      | Some (None, ex1) \<Rightarrow> Some (h, ex1)
      | Some (Some z, ex1) \<Rightarrow> event_tail wrap h z intern ex1))"

end
