(* ===== verification/Driver_Apm_Props.thy ===== *)
theory Driver_Apm_Props
  imports Driver_Apm
begin

text \<open>
  Who hears of an event: each command subscriber of the process and of the Managers with the
  client, once, in the order of registration, until one of them raises an exception.
\<close>

section \<open>Tables of subscribers\<close>

text \<open>
  The contract of a table: a subscriber is added at the end, unless it is there, and removed
  wherever it is.  \<^verbatim>\<open>ready\<close> tables can be changed; \<^verbatim>\<open>valid\<close> objects are subscribers.
\<close>

datatype subscriber_op = AddSubscriber zval | RemoveSubscriber zval

fun op_subscriber :: "subscriber_op \<Rightarrow> zval" where
  "op_subscriber (AddSubscriber s) = s"
| "op_subscriber (RemoveSubscriber s) = s"

fun op_adds :: "subscriber_op \<Rightarrow> bool" where
  "op_adds (AddSubscriber s) = True"
| "op_adds (RemoveSubscriber s) = False"

lemma find_append: "find P (xs @ ys) = (case find P xs of Some x \<Rightarrow> Some x | None \<Rightarrow> find P ys)"
  by (induction xs) auto

locale subscriber_table =
  fixes ready :: "'t \<Rightarrow> bool" and valid :: "zval \<Rightarrow> bool" and members :: "'t \<Rightarrow> zval list"
    and add :: "zval \<Rightarrow> 't \<Rightarrow> 't result" and remove :: "zval \<Rightarrow> 't \<Rightarrow> 't result"
  assumes add_ok: "ready t \<Longrightarrow> valid s \<Longrightarrow> \<exists>t'. add s t = Inr t' \<and> ready t'
      \<and> members t' = (if s \<in> set (members t) then members t else members t @ [s])"
    and remove_ok: "ready t \<Longrightarrow> valid s \<Longrightarrow> \<exists>t'. remove s t = Inr t' \<and> ready t'
      \<and> members t' = filter (\<lambda>x. x \<noteq> s) (members t)"
begin

fun run :: "subscriber_op list \<Rightarrow> 't \<Rightarrow> 't result" where
  "run [] t = Inr t"
| "run (AddSubscriber s # ops) t = bind_r (add s t) (run ops)"
| "run (RemoveSubscriber s # ops) t = bind_r (remove s t) (run ops)"

lemma step:
  assumes "ready t" and "valid (op_subscriber op)"
  shows "\<exists>t'. run (op # ops) t = run ops t' \<and> ready t' \<and> (distinct (members t) \<longrightarrow> distinct (members t'))
    \<and> (\<forall>x. x \<in> set (members t') \<longleftrightarrow> (if op_subscriber op = x then op_adds op else x \<in> set (members t)))"
proof (cases op)
  case (AddSubscriber s)
  then obtain t' where "add s t = Inr t'" "ready t'" "members t' = (if s \<in> set (members t) then members t else members t @ [s])"
    using add_ok[of t s] assms by auto
  then show ?thesis using AddSubscriber by (intro exI[of _ t']) (auto simp: bind_r_def)
next
  case (RemoveSubscriber s)
  then obtain t' where "remove s t = Inr t'" "ready t'" "members t' = filter (\<lambda>x. x \<noteq> s) (members t)"
    using remove_ok[of t s] assms by auto
  then show ?thesis using RemoveSubscriber by (intro exI[of _ t']) (auto simp: bind_r_def)
qed

text \<open>The last operation on an object decides whether it is in the table; it is there once.\<close>

lemma last_operation_decides:
  assumes "ready t" and "\<forall>op \<in> set ops. valid (op_subscriber op)" and "distinct (members t)"
  shows "\<exists>t'. run ops t = Inr t' \<and> ready t' \<and> distinct (members t')
    \<and> (\<forall>x. x \<in> set (members t') \<longleftrightarrow> (case find (\<lambda>op. op_subscriber op = x) (rev ops) of
          Some op \<Rightarrow> op_adds op | None \<Rightarrow> x \<in> set (members t)))"
  using assms
proof (induction ops arbitrary: t)
  case (Cons op ops)
  from step[OF Cons.prems(1), of op ops] Cons.prems obtain t1 where t1: "run (op # ops) t = run ops t1" "ready t1"
    "distinct (members t1)" "\<forall>x. x \<in> set (members t1) \<longleftrightarrow> (if op_subscriber op = x then op_adds op else x \<in> set (members t))"
    by auto
  from Cons.IH[OF t1(2) _ t1(3)] Cons.prems(2) obtain t2 where t2: "run ops t1 = Inr t2" "ready t2" "distinct (members t2)"
    "\<And>x. x \<in> set (members t2) \<longleftrightarrow> (case find (\<lambda>op. op_subscriber op = x) (rev ops) of
        Some op \<Rightarrow> op_adds op | None \<Rightarrow> x \<in> set (members t1))" by auto
  have "x \<in> set (members t2) \<longleftrightarrow> (case find (\<lambda>op. op_subscriber op = x) (rev (op # ops)) of
        Some op \<Rightarrow> op_adds op | None \<Rightarrow> x \<in> set (members t))" for x
    using t2(4)[of x] t1(4) by (cases "find (\<lambda>op. op_subscriber op = x) (rev ops)") (simp_all add: find_append)
  then show ?case using t1(1) t2(1-3) by auto
qed auto

end

lemma check_args_ok:
  "object_instanceof E D subscriber_ce s \<Longrightarrow> phongo_apm_check_args_for_add_and_remove E D (Some t) s = None"
  by (simp add: phongo_apm_check_args_for_add_and_remove_def)

interpretation process_subscribers: subscriber_table "\<lambda>G. g_subscribers G \<noteq> None" "object_instanceof E D subscriber_ce"
    "\<lambda>G. the (g_subscribers G)" "MongoDB_Driver_Monitoring_addSubscriber E D" "MongoDB_Driver_Monitoring_removeSubscriber E D"
  for E D
  by unfold_locales (auto simp: MongoDB_Driver_Monitoring_addSubscriber_def MongoDB_Driver_Monitoring_removeSubscriber_def
      phongo_apm_add_subscriber_def phongo_apm_remove_subscriber_def check_args_ok bind_r_def)

definition manager_subscribers :: "'cl manager_intern \<Rightarrow> zval list" where
  "manager_subscribers m = (case mi_subscribers m of None \<Rightarrow> [] | Some t \<Rightarrow> t)"

interpretation manager_subscribers: subscriber_table "\<lambda>_. True" "object_instanceof E D subscriber_ce"
    manager_subscribers "Manager_addSubscriber E D" "Manager_removeSubscriber E D"
  for E D
  by unfold_locales (auto simp: Manager_addSubscriber_def Manager_removeSubscriber_def manager_subscribers_def
      phongo_apm_add_subscriber_def phongo_apm_remove_subscriber_def check_args_ok bind_r_def split: option.splits)

section \<open>Who hears of an event\<close>

text \<open>The reference: everyone who registered, first registration first, without repetition.\<close>

fun first_occurrences :: "'a list \<Rightarrow> 'a list" where
  "first_occurrences [] = []"
| "first_occurrences (x # xs) = x # filter (\<lambda>y. y \<noteq> x) (first_occurrences xs)"

lemma first_occurrences_set [simp]: "set (first_occurrences xs) = set xs"
  by (induction xs) auto

lemma first_occurrences_distinct [simp]: "distinct (first_occurrences xs)"
  by (induction xs) auto

lemma add_subscribers_spec:
  "phongo_apm_add_subscribers_to_notify E D ce subs to
   = to @ filter (\<lambda>s. s \<notin> set to) (first_occurrences (filter (object_instanceof E D ce) subs))"
proof (induction subs arbitrary: to)
  case (Cons s subs)
  have "filter (\<lambda>x. x \<notin> set (to @ [s])) xs = filter (\<lambda>x. x \<notin> set to) (filter (\<lambda>y. y \<noteq> s) xs)" for xs
    by (induction xs) auto
  moreover have "filter (\<lambda>x. x \<notin> set to) xs = filter (\<lambda>x. x \<notin> set to) (filter (\<lambda>y. y \<noteq> s) xs)" if "s \<in> set to" for xs
    using that by (induction xs) auto
  ultimately show ?case using Cons[of to] Cons[of "to @ [s]"] by simp
qed simp

lemma first_occurrences_append:
  "first_occurrences (xs @ ys) = first_occurrences xs @ filter (\<lambda>y. y \<notin> set xs) (first_occurrences ys)"
proof (induction xs)
  case (Cons x xs)
  have "filter (\<lambda>y. y \<noteq> x) (filter (\<lambda>y. y \<notin> set xs) zs) = filter (\<lambda>y. y \<notin> set (x # xs)) zs" for zs
    by (induction zs) auto
  then show ?case using Cons by simp
qed simp

text \<open>The registered Managers exist.\<close>

definition managers_alive :: "('rc, 'rp, 'wc, 'cs, 'cl) store \<Rightarrow> 'cl mongodb_globals \<Rightarrow> bool" where
  "managers_alive D G \<longleftrightarrow> (\<forall>a \<in> set (registered_managers G). manager_at D a \<noteq> None)"

definition client_managers :: "('rc, 'rp, 'wc, 'cs, 'cl) store \<Rightarrow> 'cl \<Rightarrow> nat list \<Rightarrow> 'cl php_phongo_manager_t list" where
  "client_managers D client managers = filter (\<lambda>m. mgr_client m = client) (map (the \<circ> manager_at D) managers)"

lemma manager_subscribers_spec:
  assumes "\<forall>a \<in> set managers. manager_at D a \<noteq> None"
  shows "add_manager_subscribers E D ce client managers (first_occurrences (filter (object_instanceof E D ce) xs))
       = Some (first_occurrences (filter (object_instanceof E D ce) (xs @ concat (map mgr_subscribers (client_managers D client managers)))))"
  using assms
proof (induction managers arbitrary: xs)
  case (Cons a managers)
  then obtain m where m: "manager_at D a = Some m" by auto
  have "phongo_apm_add_subscribers_to_notify E D ce subs (first_occurrences (filter (object_instanceof E D ce) xs))
      = first_occurrences (filter (object_instanceof E D ce) (xs @ subs))" for subs
    by (simp add: add_subscribers_spec first_occurrences_append)
  then show ?case using Cons.IH[of xs] Cons.IH[of "xs @ mgr_subscribers m"] Cons.prems m by (simp add: client_managers_def)
qed (simp add: client_managers_def)

definition event_subscribers ::
    "class_env \<Rightarrow> ('rc, 'rp, 'wc, 'cs, 'cl) store \<Rightarrow> 'cl mongodb_globals \<Rightarrow> string \<Rightarrow> 'cl \<Rightarrow> zval list" where
  "event_subscribers E D G ce client = first_occurrences (filter (object_instanceof E D ce)
     ((case g_subscribers G of None \<Rightarrow> [] | Some t \<Rightarrow> t)
      @ concat (map mgr_subscribers (client_managers D client (registered_managers G)))))"

lemma subscribers_to_notify:
  assumes "managers_alive D G"
  shows "phongo_apm_get_subscribers_to_notify E D G ce client = Some (event_subscribers E D G ce client)"
  using manager_subscribers_spec[of "registered_managers G" D E ce client "case g_subscribers G of None \<Rightarrow> [] | Some t \<Rightarrow> t"] assms
  by (cases "g_subscribers G")
    (simp_all add: phongo_apm_get_subscribers_to_notify_def event_subscribers_def managers_alive_def add_subscribers_spec)

text \<open>The Manager of the event is the first that is registered with the client.\<close>

lemma manager_for_client:
  assumes "\<forall>a \<in> set managers. manager_at D a \<noteq> None"
  shows "find_manager_for_client D client managers
       = Some (map_option ZAddr (find (\<lambda>a. mgr_client (the (manager_at D a)) = client) managers))"
  using assms by (induction managers) auto

section \<open>Dispatching\<close>

text \<open>A world that records the calls: what is recorded is a prefix, cut off by an exception only.\<close>

definition records :: "('w, 'ev) notify \<Rightarrow> ('w \<Rightarrow> (zval \<times> string \<times> 'ev) list) \<Rightarrow> bool" where
  "records call log \<longleftrightarrow> (\<forall>s m e w. log (snd (call s m e w)) = log w @ [(s, m, e)])"

lemma dispatch_prefix:
  assumes "records call log" and "phongo_apm_dispatch_event call subscribers m ev w ex = (w1, ex1)"
  shows "\<exists>n \<le> length subscribers. log w1 = log w @ map (\<lambda>s. (s, m, ev)) (take n subscribers)
    \<and> (n < length subscribers \<longrightarrow> ex1 \<noteq> []) \<and> (ex1 = ex \<or> (\<exists>e. ex1 = e # ex))"
  using assms(2)
proof (induction subscribers arbitrary: w ex)
  case (Cons s subscribers)
  show ?case
  proof (cases "ex = []")
    case False
    then show ?thesis using Cons.prems by (intro exI[of _ 0]) auto
  next
    case True
    obtain thrown w2 where c: "call s m ev w = (thrown, w2)" by fastforce
    have l: "log w2 = log w @ [(s, m, ev)]" 
      using assms(1)[unfolded records_def, rule_format, of s m ev w] c by simp
    show ?thesis
    proof (cases thrown)
      case None
      from Cons.IH[of w2 "[]"] Cons.prems True c None obtain n where "n \<le> length subscribers"
        "log w1 = log w2 @ map (\<lambda>s. (s, m, ev)) (take n subscribers)" "n < length subscribers \<longrightarrow> ex1 \<noteq> []"
        "ex1 = [] \<or> (\<exists>e. ex1 = [e])" by auto
      then show ?thesis using l True by (intro exI[of _ "Suc n"]) auto
    next
      case (Some e)
      then have "w1 = w2" "ex1 = [e]" using Cons.prems True c by (cases subscribers; simp)+
      then show ?thesis using l True by (intro exI[of _ 1]) auto
    qed
  qed
qed auto

lemma handled:
  assumes "managers_alive D G" and "records call log"
    and "apm_handle E D G call client m make_event w [] = Some (w1, ex1)"
    and "find (\<lambda>a. mgr_client (the (manager_at D a)) = client) (registered_managers G) = Some a"
  shows "\<exists>n \<le> length (event_subscribers E D G commandsubscriber_ce client).
      log w1 = log w @ map (\<lambda>s. (s, m, make_event (ZAddr a))) (take n (event_subscribers E D G commandsubscriber_ce client))
    \<and> (n < length (event_subscribers E D G commandsubscriber_ce client) \<longrightarrow> ex1 \<noteq> []) \<and> length ex1 \<le> 1"
proof -
  let ?subs = "event_subscribers E D G commandsubscriber_ce client"
  have g: "phongo_apm_get_subscribers_to_notify E D G commandsubscriber_ce client = Some ?subs"
    by (rule subscribers_to_notify[OF assms(1)])
  have c: "phongo_apm_copy_manager_for_client D G client = Some (Some (ZAddr a))"
    using manager_for_client[of "registered_managers G" D client] assms(1,4)
    by (simp add: phongo_apm_copy_manager_for_client_def managers_alive_def)
  show ?thesis
  proof (cases "?subs = []")
    case True
    then show ?thesis using assms(3) g by (auto simp: apm_handle_def)
  next
    case False
    then have "phongo_apm_dispatch_event call ?subs m (make_event (ZAddr a)) w [] = (w1, ex1)"
      using assms(3) g c by (simp add: apm_handle_def)
    from dispatch_prefix[OF assms(2) this] show ?thesis by auto
  qed
qed

section \<open>Events\<close>

lemma dec_of_nat_length: "0 < k \<Longrightarrow> length (dec_of_nat n) \<le> k \<longleftrightarrow> n < 10 ^ k"
proof (induction n arbitrary: k rule: dec_of_nat.induct)
  case (1 n)
  show ?case
  proof (cases "n < 10")
    case True
    moreover have "(10::nat) \<le> 10 ^ k" using 1(2) by (cases k) auto
    ultimately show ?thesis using 1(2) by (subst dec_of_nat.simps) simp
  next
    case False
    then have l: "length (dec_of_nat n) = Suc (length (dec_of_nat (n div 10)))" by (subst dec_of_nat.simps) simp
    show ?thesis
    proof (cases "k = 1")
      case True
      then show ?thesis using l False by simp
    next
      case k: False
      then obtain j where j: "k = Suc j" "0 < j" using 1(2) by (cases k) auto
      have "n < 10 ^ k \<longleftrightarrow> n div 10 < 10 ^ j" using j by (simp add: div_less_iff_less_mult mult.commute)
      then show ?thesis using 1(1)[OF False j(2)] l j by simp
    qed
  qed
qed

lemma event_id_fits: "sprintf_20 n \<noteq> None \<longleftrightarrow> unat n < 10 ^ 19"
proof -
  have "length (dec_of_nat (unat n)) < 20 \<longleftrightarrow> length (dec_of_nat (unat n)) \<le> 19" by linarith
  then show ?thesis using dec_of_nat_length[of 19 "unat n"] by (simp only: sprintf_20_def Let_def) auto
qed

text \<open>
  What is shown of an event whose command succeeded ends before its reply exactly when the reply
  can be decoded.
\<close>

lemma succeeded_event_loses_reply:
  assumes "php_phongo_bson_to_zval_ex N (BufDocument (ev_reply intern) True) bson_state_init ex = Some (True, st, ex1)"
    and "php_phongo_commandsucceededevent_get_debug_info N wrap intern ex = Some (h, ex2)"
  shows "hash_find h (KStr ''reply'') = None \<and> hash_find h (KStr ''requestId'') = None \<and> hash_find h (KStr ''server'') = None"
  using assms by (auto simp: php_phongo_commandsucceededevent_get_debug_info_def hash_find_def split: bind_splits)

lemma failed_event_shows_reply:
  assumes "decode_under N typemap_init (ev_reply intern) ex = Some (Some z, ex1)"
    and "php_phongo_commandfailedevent_get_debug_info N wrap wrap_exn intern ex = Some (h, ex2)"
  shows "hash_find h (KStr ''reply'') = Some z"
  using assms by (auto simp: php_phongo_commandfailedevent_get_debug_info_def hash_find_def event_tail_def split: bind_splits)

end
