(* ===== verification/Driver_Encryption.thy ===== *)
theory Driver_Encryption
  imports Driver_Manager Driver_Execute Bson_Roundtrip
begin

text \<open>
  Explicit client-side encryption (php\_phongo.c, MongoDB/ClientEncryption.c): options are parsed
  for libmongoc, values are encoded, handed over, and what comes back is decoded.
\<close>

section \<open>libmongoc\<close>

record 'cl client_encryption_opts =
  ceo_keyvault_client :: "'cl option"
  ceo_keyvault_namespace :: "(string \<times> string) option"
  ceo_kms_providers :: "opts option"

record datakey_opts =
  dko_keyaltnames :: "string list option"
  dko_masterkey :: "opts option"

record encrypt_opts =
  eno_keyid :: "bval option"
  eno_keyaltname :: "string option"
  eno_algorithm :: "string option"

text \<open>A call returns an error or a value, the exceptions of subscribers, and the world.\<close>

type_synonym 'w encryption_result = "(bson_error_t + bval) \<times> exn list \<times> 'w"

record ('w, 'ce, 'cl) encryption_ops =
  mongoc_client_encryption_new :: "'cl client_encryption_opts \<Rightarrow> 'w \<Rightarrow> (bson_error_t + 'ce) \<times> 'w"
  mongoc_client_encryption_destroy :: "'ce \<Rightarrow> 'w \<Rightarrow> 'w"
  mongoc_client_encryption_create_datakey :: "'ce \<Rightarrow> string \<Rightarrow> datakey_opts \<Rightarrow> 'w \<Rightarrow> 'w encryption_result"
  mongoc_client_encryption_encrypt :: "'ce \<Rightarrow> bval \<Rightarrow> encrypt_opts \<Rightarrow> 'w \<Rightarrow> 'w encryption_result"
  mongoc_client_encryption_decrypt :: "'ce \<Rightarrow> bval \<Rightarrow> 'w \<Rightarrow> 'w encryption_result"

record ('w, 'ce, 'cl) encryption_env =
  ne_fuel :: nat
  ne_encode :: encode_env
  ne_heap :: heap
  ne_decode :: decode_env
  ne_codes :: mongoc_error_codes
  ne_interned :: "zval \<Rightarrow> bool"
  ne_ops :: "('w, 'ce, 'cl) encryption_ops"
  ne_cse :: bool

section \<open>The object\<close>

record 'ce php_phongo_clientencryption_t =
  cen_client_encryption :: "'ce option"
  cen_key_vault_client_manager :: zval

definition php_phongo_clientencryption_create_object :: "'ce php_phongo_clientencryption_t" where
  "php_phongo_clientencryption_create_object = \<lparr>cen_client_encryption = None, cen_key_vault_client_manager = ZUndef\<rparr>"

definition php_phongo_clientencryption_free_object ::
    "('w, 'ce, 'cl) encryption_env \<Rightarrow> 'ce php_phongo_clientencryption_t \<Rightarrow> 'w \<Rightarrow> 'w" where
  "php_phongo_clientencryption_free_object V intern w =
     (case cen_client_encryption intern of None \<Rightarrow> w | Some ce \<Rightarrow> mongoc_client_encryption_destroy (ne_ops V) ce w)"

text \<open>
  The options, and the Manager of the key vault: the one given, or the one that makes the object.
  The outer None is undefined behaviour; the inner one follows an exception.
\<close>

definition phongo_clientencryption_opts_from_zval ::
    "('w, 'ce, 'cl) encryption_env \<Rightarrow> ('rc, 'rp, 'wc, 'cs, 'cl) store \<Rightarrow> zval \<Rightarrow> ht \<Rightarrow> exn list
       \<Rightarrow> (('cl client_encryption_opts \<times> zval) option \<times> exn list) option" where
  "phongo_clientencryption_opts_from_zval V D defaultKeyVaultClient options ex =
     (let key_vault = (case php_array_fetch options ''keyVaultClient'' of None \<Rightarrow> defaultKeyVaultClient | Some z \<Rightarrow> z) in
      case obj_at D key_vault of
        Some (DManager kv) \<Rightarrow>
          (case fetch_key_vault_namespace (ee_classes (ne_encode V)) (ne_interned V) options of
             None \<Rightarrow> None
           | Some (Inl e) \<Rightarrow> Some (None, e # ex)
           | Some (Inr ns) \<Rightarrow>
               map_option (\<lambda>(d, ok, ex1). (if ok then Some (\<lparr>ceo_keyvault_client = Some (mgr_client kv), ceo_keyvault_namespace = ns,
                      ceo_kms_providers = d\<rparr>, key_vault) else None, ex1))
                 (encode_option (ne_fuel V) (ne_encode V) (ne_heap V) True ''kmsProviders'' options ex))
      | _ \<Rightarrow> if php_array_exists options ''keyVaultClient'' then Some (None, key_vault_type_exception D key_vault # ex) else None)"

definition phongo_clientencryption_init ::
    "('w, 'ce, 'cl) encryption_env \<Rightarrow> ('rc, 'rp, 'wc, 'cs, 'cl) store \<Rightarrow> zval \<Rightarrow> ht \<Rightarrow> 'w \<Rightarrow> exn list
       \<Rightarrow> ('ce php_phongo_clientencryption_t \<times> 'w \<times> exn list) option" where
  "phongo_clientencryption_init V D manager options w ex =
     (let o0 = php_phongo_clientencryption_create_object in
      if \<not> ne_cse V then Some (o0, w, no_cse_exception PHONGO_ERROR_RUNTIME ''Cannot configure clientEncryption object.'' # ex)
      else (case phongo_clientencryption_opts_from_zval V D manager options ex of
          None \<Rightarrow> None
        | Some (None, ex1) \<Rightarrow> Some (o0, w, ex1)
        | Some (Some (ceo, key_vault), ex1) \<Rightarrow> (case mongoc_client_encryption_new (ne_ops V) ceo w of
            (Inl error, w1) \<Rightarrow> map_option (\<lambda>ex2. (o0, w1, ex2))
              (phongo_throw_exception_from_bson_error_t (ne_decode V) (ne_codes V) error ex1)
          | (Inr ce, w1) \<Rightarrow> Some (\<lparr>cen_client_encryption = Some ce, cen_key_vault_client_manager = key_vault\<rparr>, w1, ex1))))"

section \<open>Data keys\<close>

text \<open>The names, as C strings, or the exception for the first that is no string.\<close>

definition keyaltname_exception :: "('rc, 'rp, 'wc, 'cs, 'cl) store \<Rightarrow> hkey \<Rightarrow> zval \<Rightarrow> exn" where
  "keyaltname_exception D k z = invalid_argument (''Expected keyAltName with index ''
     @ dquote (case k of KStr s \<Rightarrow> c_str s | KInt i \<Rightarrow> dec_of_int (i mod 2 ^ 64)) @ '' to be string, '' @ z_class_or_type_name D z @ '' given'')"

fun keyaltnames_from :: "('rc, 'rp, 'wc, 'cs, 'cl) store \<Rightarrow> ht \<Rightarrow> string list result" where
  "keyaltnames_from D [] = Inr []"
| "keyaltnames_from D ((k, ZString s) # h) = bind_r (keyaltnames_from D h) (\<lambda>names. Inr (c_str s # names))"
| "keyaltnames_from D ((k, z) # h) = Inl (keyaltname_exception D k z)"

definition phongo_clientencryption_datakey_opts_from_zval ::
    "('w, 'ce, 'cl) encryption_env \<Rightarrow> ('rc, 'rp, 'wc, 'cs, 'cl) store \<Rightarrow> ht option \<Rightarrow> exn list \<Rightarrow> (datakey_opts option \<times> exn list) option" where
  "phongo_clientencryption_datakey_opts_from_zval V D options ex =
     (case options of
        None \<Rightarrow> Some (Some \<lparr>dko_keyaltnames = None, dko_masterkey = None\<rparr>, ex)
      | Some h \<Rightarrow>
         (case (case php_array_fetch h ''keyAltNames'' of
                  None \<Rightarrow> Inr None
                | Some (ZArray names) \<Rightarrow> bind_r (keyaltnames_from D names) (\<lambda>ns. Inr (Some ns))
                | Some z \<Rightarrow> Inl (invalid_argument (''Expected keyAltNames to be array, '' @ z_class_or_type_name D z @ '' given''))) of
            Inl e \<Rightarrow> Some (None, e # ex)
          | Inr keyaltnames \<Rightarrow>
              map_option (\<lambda>(d, ok, ex1). (if ok then Some \<lparr>dko_keyaltnames = keyaltnames, dko_masterkey = d\<rparr> else None, ex1))
                (encode_option (ne_fuel V) (ne_encode V) (ne_heap V) False ''masterKey'' h ex)))"

text \<open>The value libmongoc returned, decoded; a value that cannot be decoded is null.\<close>

definition encryption_value ::
    "('w, 'ce, 'cl) encryption_env \<Rightarrow> exn list \<Rightarrow> 'w encryption_result \<Rightarrow> (zval \<times> 'w \<times> exn list) option" where
  "encryption_value V ex r =
     (case r of
        (Inl error, thrown, w) \<Rightarrow> map_option (\<lambda>ex1. (ZNull, w, ex1))
          (phongo_throw_exception_from_bson_error_t (ne_decode V) (ne_codes V) error (thrown @ ex))
      | (Inr v, thrown, w) \<Rightarrow> map_option (\<lambda>(ok, z, ex1). (value_or_null z, w, ex1))
          (php_phongo_bson_value_to_zval (ne_decode V) v (thrown @ ex)))"

text \<open>A method of an object whose libmongoc object was not made hands over a null pointer.\<close>

definition phongo_clientencryption_create_datakey ::
    "('w, 'ce, 'cl) encryption_env \<Rightarrow> ('rc, 'rp, 'wc, 'cs, 'cl) store \<Rightarrow> 'ce php_phongo_clientencryption_t \<Rightarrow> string \<Rightarrow> ht option
       \<Rightarrow> 'w \<Rightarrow> exn list \<Rightarrow> (zval \<times> 'w \<times> exn list) option" where
  "phongo_clientencryption_create_datakey V D clientencryption kms_provider options w ex =
     (if \<not> ne_cse V then Some (ZNull, w, no_cse_exception PHONGO_ERROR_RUNTIME ''Cannot create encryption key.'' # ex)
      else (case phongo_clientencryption_datakey_opts_from_zval V D options ex of
          None \<Rightarrow> None
        | Some (None, ex1) \<Rightarrow> Some (ZNull, w, ex1)
        | Some (Some dko, ex1) \<Rightarrow> Option.bind (cen_client_encryption clientencryption) (\<lambda>ce.
            encryption_value V ex1 (mongoc_client_encryption_create_datakey (ne_ops V) ce (c_str kms_provider) dko w))))"

section \<open>Encrypting and decrypting\<close>

text \<open>
  A string option: a string the engine made of another value is freed through a pointer into it
  (None), unless it is interned; a null pointer leaves the option unset.
\<close>

definition fetch_encrypt_string :: "('w, 'ce, 'cl) encryption_env \<Rightarrow> ht \<Rightarrow> string \<Rightarrow> string option option" where
  "fetch_encrypt_string V h key =
     (case php_array_fetch h key of
        None \<Rightarrow> Some None
      | Some z \<Rightarrow> if converted_string z \<and> \<not> ne_interned V z then None
                  else Some (map_option c_str (php_array_zval_to_string (ee_classes (ne_encode V)) (Some z))))"

text \<open>The key's id is the only option after which the code looks for an exception.\<close>

definition encrypt_keyid ::
    "('w, 'ce, 'cl) encryption_env \<Rightarrow> ht \<Rightarrow> exn list \<Rightarrow> (bval option option \<times> exn list) option" where
  "encrypt_keyid V h ex =
     (case php_array_fetch h ''keyId'' of
        None \<Rightarrow> Some (Some None, ex)
      | Some z \<Rightarrow> (case php_phongo_zval_to_bson_value (ne_fuel V) (ne_encode V) (ne_heap V) False z ex of
          None \<Rightarrow> None
        | Some (keyid, ex1) \<Rightarrow> if ex1 \<noteq> [] then Some (None, ex1)
                               else map_option (\<lambda>v. (Some (Some v), ex1)) keyid))"

definition phongo_clientencryption_encrypt_opts_from_zval ::
    "('w, 'ce, 'cl) encryption_env \<Rightarrow> ht option \<Rightarrow> exn list \<Rightarrow> (encrypt_opts option \<times> exn list) option" where
  "phongo_clientencryption_encrypt_opts_from_zval V options ex =
     (case options of
        None \<Rightarrow> Some (Some \<lparr>eno_keyid = None, eno_keyaltname = None, eno_algorithm = None\<rparr>, ex)
      | Some h \<Rightarrow> (case encrypt_keyid V h ex of
          None \<Rightarrow> None
        | Some (None, ex1) \<Rightarrow> Some (None, ex1)
        | Some (Some keyid, ex1) \<Rightarrow>
            Option.bind (fetch_encrypt_string V h ''keyAltName'') (\<lambda>keyaltname.
            Option.bind (fetch_encrypt_string V h ''algorithm'') (\<lambda>algorithm.
              Some (Some \<lparr>eno_keyid = keyid, eno_keyaltname = keyaltname, eno_algorithm = algorithm\<rparr>, ex1)))))"

text \<open>
  The value is not checked after it was converted: without an element to copy, what libmongoc is
  given was never initialised.
\<close>

definition phongo_clientencryption_encrypt ::
    "('w, 'ce, 'cl) encryption_env \<Rightarrow> 'ce php_phongo_clientencryption_t \<Rightarrow> zval \<Rightarrow> ht option \<Rightarrow> 'w \<Rightarrow> exn list
       \<Rightarrow> (zval \<times> 'w \<times> exn list) option" where
  "phongo_clientencryption_encrypt V clientencryption zvalue options w ex =
     (if \<not> ne_cse V then Some (ZNull, w, no_cse_exception PHONGO_ERROR_RUNTIME ''Cannot encrypt value.'' # ex)
      else (case php_phongo_zval_to_bson_value (ne_fuel V) (ne_encode V) (ne_heap V) False zvalue ex of
          None \<Rightarrow> None
        | Some (val, ex1) \<Rightarrow> (case phongo_clientencryption_encrypt_opts_from_zval V options ex1 of
            None \<Rightarrow> None
          | Some (None, ex2) \<Rightarrow> Some (ZNull, w, ex2)
          | Some (Some eno, ex2) \<Rightarrow>
              Option.bind (cen_client_encryption clientencryption) (\<lambda>ce. Option.bind val (\<lambda>v.
                encryption_value V ex2 (mongoc_client_encryption_encrypt (ne_ops V) ce v eno w))))))"

definition phongo_clientencryption_decrypt ::
    "('w, 'ce, 'cl) encryption_env \<Rightarrow> 'ce php_phongo_clientencryption_t \<Rightarrow> zval \<Rightarrow> 'w \<Rightarrow> exn list
       \<Rightarrow> (zval \<times> 'w \<times> exn list) option" where
  "phongo_clientencryption_decrypt V clientencryption zciphertext w ex =
     (if \<not> ne_cse V then Some (ZNull, w, no_cse_exception PHONGO_ERROR_RUNTIME ''Cannot decrypt value.'' # ex)
      else (case php_phongo_zval_to_bson_value (ne_fuel V) (ne_encode V) (ne_heap V) False zciphertext ex of
          None \<Rightarrow> None
        | Some (ciphertext, ex1) \<Rightarrow>
            Option.bind (cen_client_encryption clientencryption) (\<lambda>ce. Option.bind ciphertext (\<lambda>v.
              encryption_value V ex1 (mongoc_client_encryption_decrypt (ne_ops V) ce v w)))))"

section \<open>Methods\<close>

definition Manager_createClientEncryption where
  "Manager_createClientEncryption V D manager options w ex = phongo_clientencryption_init V D manager options w ex"

definition ClientEncryption_createDataKey where
  "ClientEncryption_createDataKey V D intern kms_provider options w ex =
     phongo_clientencryption_create_datakey V D intern kms_provider options w ex"

definition ClientEncryption_encrypt where
  "ClientEncryption_encrypt V intern zvalue options w ex = phongo_clientencryption_encrypt V intern zvalue options w ex"

text \<open>The argument of the method is an object of \<^verbatim>\<open>BinaryInterface\<close>.\<close>

definition ClientEncryption_decrypt where
  "ClientEncryption_decrypt V intern zciphertext w ex = phongo_clientencryption_decrypt V intern zciphertext w ex"

section \<open>Values survive\<close>

text \<open>The decoder of single values differs from that of documents in the type of the root only.\<close>

lemma root_type_irrelevant:
  "dec_value N (tm\<lparr>tm_root_type := t\<rparr>) path b = dec_value N tm path b"
  "dec_elems N (tm\<lparr>tm_root_type := t\<rparr>) path is_array es h = dec_elems N tm path is_array es h"
  "dec_doc N (tm\<lparr>tm_root_type := t\<rparr>) path is_array d = dec_doc N tm path is_array d"
  by (induction N tm path b and N tm path is_array es h and N tm path is_array d rule: dec_value_dec_elems_dec_doc.induct)
    (simp_all add: document_value_def array_value_def path_entry_def)

lemma root_type_quiet:
  "quiet_value N (tm\<lparr>tm_root_type := t\<rparr>) path b = quiet_value N tm path b"
  "quiet_elems N (tm\<lparr>tm_root_type := t\<rparr>) path es = quiet_elems N tm path es"
  "quiet_doc N (tm\<lparr>tm_root_type := t\<rparr>) path d = quiet_doc N tm path d"
  by (induction N tm path b and N tm path es and N tm path d rule: quiet_value_quiet_elems_quiet_doc.induct)
    (simp_all add: document_quiet_def array_quiet_def path_entry_def root_type_irrelevant)

definition value_state :: php_phongo_bson_state where
  "value_state = bson_state_init\<lparr>st_map := typemap_init\<lparr>tm_root_type := PHONGO_TYPEMAP_NATIVE_ARRAY\<rparr>\<rparr>"

lemma value_state_ok: "state_ok E value_state"
  using typemap_init_ok[of E]
  by (simp add: state_ok_def value_state_def bson_state_init_def typemap_nodes_ok_def typemap_init_def type_ok_def)

lemma data_key [simp]: "symtable_key ''data'' = KStr ''data''"
  by (simp add: symtable_key_def numeric_key_def is_digit_def)

lemma value_encodes:
  assumes "to_bval E z = Some b" and "zdepth z < f"
  shows "php_phongo_zval_to_bson_value (Suc f) E H False z [] = Some (Some b, [])"
proof -
  have "to_elems E [(KStr ''data'', z)] = Some [(''data'', b)]" using assms(1) by simp
  from root_encodes[OF this, of "Suc f" H True "[]"] show ?thesis using assms(2)
    by (simp add: php_phongo_zval_to_bson_value_def root_zval_def find_elem_def)
qed

lemma value_decodes:
  assumes "rt_tree E False z" and "to_bval E z = Some b" and "envs_agree E N"
  shows "php_phongo_bson_value_to_zval N b [] = Some (True, Some z, [])"
proof -
  let ?d = "BDoc [(''data'', b)] DocOk"
  have ok: "doc_ok ?d" using rt_val_ok(1)[OF assms(1,2)] by simp
  have q: "decode_quiet N value_state ?d"
    using rt_quiet(1)[OF assms(1,2), of N "[''data'']"]
    by (simp add: decode_quiet_def value_state_def bson_state_init_def root_quiet_def root_type_quiet rt_typemap_init)
  have v: "decoded N value_state ?d = ZArray [(KStr ''data'', z)]"
    using rt_decode(1)[OF assms, of "[''data'']"]
    by (simp add: decoded_def value_state_def bson_state_init_def root_value_def root_type_irrelevant rt_typemap_init
        add_elem_def add_assoc_def)
  show ?thesis using to_zval_ex_ok[OF value_state_ok ok, of N "[]"] q v
    by (auto simp: php_phongo_bson_value_to_zval_def value_state_def settles_def php_array_fetch_def)
qed

section \<open>What is encrypted can be decrypted\<close>

text \<open>
  libmongocrypt's promise: a ciphertext is a binary of subtype 6, and the object that made it
  gives the value back.
\<close>

definition keeps_secrets :: "('w, 'ce, 'cl) encryption_ops \<Rightarrow> 'ce \<Rightarrow> bool" where
  "keeps_secrets M ce \<longleftrightarrow> (\<forall>v eno w c thrown w1. mongoc_client_encryption_encrypt M ce v eno w = (Inr c, thrown, w1) \<longrightarrow>
     (\<exists>d. c = BBinary 6 d) \<and> (\<forall>w2. \<exists>w3. mongoc_client_encryption_decrypt M ce c w2 = (Inr v, [], w3)))"

lemma throw_error_nonempty:
  "phongo_throw_exception_from_bson_error_t N K error ex = Some ex1 \<Longrightarrow> ex1 \<noteq> []"
  using labelled_head by (auto simp: phongo_throw_exception_from_bson_error_t_def
      phongo_throw_exception_from_bson_error_t_and_reply_def split: if_splits)

lemma value_to_zval_pending:
  assumes "val_ok b" and "php_phongo_bson_value_to_zval N b ex = Some (ok, z, [])"
  shows "ex = []"
proof -
  have "doc_ok (BDoc [(''data'', b)] DocOk)" using assms(1) by simp
  from to_zval_ex_ok[OF value_state_ok this, of N ex] assms(2) show ?thesis
    by (auto simp: php_phongo_bson_value_to_zval_def value_state_def settles_def)
qed

lemma encrypted_value:
  assumes "phongo_clientencryption_encrypt V intern z options w [] = Some (zc, w1, [])"
    and "ne_cse V" and "ne_fuel V = Suc f" and "zdepth z < f" and "to_bval (ne_encode V) z = Some b"
  obtains ce eno ex2 where "cen_client_encryption intern = Some ce"
    and "encryption_value V ex2 (mongoc_client_encryption_encrypt (ne_ops V) ce b eno w) = Some (zc, w1, [])"
  using assms(1-3) value_encodes[OF assms(5,4), of "ne_heap V"] that
  by (auto simp: phongo_clientencryption_encrypt_def phongo_clientencryption_encrypt_opts_from_zval_def encrypt_keyid_def
      split: option.splits if_splits bind_splits)

lemma ciphertext_object:
  assumes "encryption_value V ex (Inr (BBinary 6 d), thrown, w) = Some (zc, w1, [])" and "envs_agree (ne_encode V) (ne_decode V)"
  shows "zc = ZBson (OBinary \<lparr>bin_data = Some d, bin_type = 6\<rparr>)" "w1 = w"
proof -
  let ?z = "ZBson (OBinary \<lparr>bin_data = Some d, bin_type = 6\<rparr>)"
  from assms(1) obtain ok z where r: "php_phongo_bson_value_to_zval (ne_decode V) (BBinary 6 d) (thrown @ ex) = Some (ok, z, [])"
    and zc: "zc = value_or_null z" and "w1 = w" by (auto simp: encryption_value_def)
  have "php_phongo_bson_value_to_zval (ne_decode V) (BBinary 6 d) [] = Some (True, Some ?z, [])"
    by (rule value_decodes[OF _ _ assms(2)]) simp_all
  with r zc value_to_zval_pending[OF _ r] show "zc = ?z" by (auto simp: value_or_null_def)
qed (use assms(1) in \<open>auto simp: encryption_value_def\<close>)

lemma encryption_roundtrip:
  assumes "phongo_clientencryption_encrypt V intern z options w [] = Some (zc, w1, [])"
    and "ne_cse V" and "ne_fuel V = Suc f" and "zdepth z < f" and "to_bval (ne_encode V) z = Some b"
    and "rt_tree (ne_encode V) False z" and "envs_agree (ne_encode V) (ne_decode V)"
    and "\<forall>ce. cen_client_encryption intern = Some ce \<longrightarrow> keeps_secrets (ne_ops V) ce"
  shows "\<exists>w3. phongo_clientencryption_decrypt V intern zc w2 [] = Some (z, w3, [])"
proof -
  obtain ce eno ex2 where ce: "cen_client_encryption intern = Some ce"
    and v: "encryption_value V ex2 (mongoc_client_encryption_encrypt (ne_ops V) ce b eno w) = Some (zc, w1, [])"
    using encrypted_value[OF assms(1-5)] by blast
  obtain r thrown w' where e: "mongoc_client_encryption_encrypt (ne_ops V) ce b eno w = (r, thrown, w')" by (metis prod_cases3)
  from v e obtain c where c: "r = Inr c"
    by (cases r) (auto simp: encryption_value_def dest: throw_error_nonempty)
  with assms(8) ce e obtain d w3 where d: "c = BBinary 6 d"
    and dec: "mongoc_client_encryption_decrypt (ne_ops V) ce (BBinary 6 d) w2 = (Inr b, [], w3)"
    unfolding keeps_secrets_def by blast
  have zc: "zc = ZBson (OBinary \<lparr>bin_data = Some d, bin_type = 6\<rparr>)"
    using ciphertext_object(1)[OF _ assms(7)] v e c d by simp
  have "0 < f" using assms(4) by simp
  then have "php_phongo_zval_to_bson_value (ne_fuel V) (ne_encode V) (ne_heap V) False zc [] = Some (Some (BBinary 6 d), [])"
    using value_encodes[of "ne_encode V" zc "BBinary 6 d" f "ne_heap V"] zc assms(3) by simp
  then show ?thesis using assms(2) ce dec value_decodes[OF assms(6,5,7)]
    by (simp add: phongo_clientencryption_decrypt_def encryption_value_def value_or_null_def)
qed

text \<open>
  A value the encoder refuses, with options that have no key id, is undefined behaviour.
\<close>

lemma encrypt_uninitialised:
  assumes "ne_cse V" and "php_phongo_zval_to_bson_value (ne_fuel V) (ne_encode V) (ne_heap V) False z ex = Some (None, ex1)"
    and "case options of None \<Rightarrow> True | Some h \<Rightarrow> \<not> php_array_exists h ''keyId''"
  shows "phongo_clientencryption_encrypt V intern z options w ex = None"
  using assms by (auto simp: phongo_clientencryption_encrypt_def phongo_clientencryption_encrypt_opts_from_zval_def encrypt_keyid_def
      php_array_exists_def php_array_fetch_def hash_exists_def split: option.splits bind_splits)

end
