(* ===== verification/Bson_Functions.thy ===== *)
theory Bson_Functions
  imports Bson_Roundtrip
begin

text \<open>
  The functions of the \<^verbatim>\<open>MongoDB\BSON\<close> namespace (BSON/functions.c), between PHP values, BSON
  strings and JSON, and the classes without data (BSON/MinKey.c, MaxKey.c, Undefined.c).
\<close>

section \<open>libbson's strings\<close>

text \<open>The bytes of a document, what a reader finds in a string, and the three forms of JSON.\<close>

datatype php_phongo_json_mode_t = PHONGO_JSON_MODE_LEGACY | PHONGO_JSON_MODE_CANONICAL | PHONGO_JSON_MODE_RELAXED

record bson_string_ops =
  bson_get_data :: "bdoc \<Rightarrow> string"
  bson_reader_read :: "string \<Rightarrow> bson_buffer"
  bson_as_json :: "php_phongo_json_mode_t \<Rightarrow> bdoc \<Rightarrow> string option"
  bson_as_json_no_iterator :: "php_phongo_json_mode_t \<Rightarrow> string \<Rightarrow> string option \<times> bool"
  bson_init_from_json :: "string \<Rightarrow> (bool \<times> string) + bdoc"

section \<open>The functions\<close>

text \<open>Whatever was written before an exception is returned.\<close>

definition MongoDB_BSON_fromPHP ::
    "bson_string_ops \<Rightarrow> nat \<Rightarrow> encode_env \<Rightarrow> heap \<Rightarrow> zval \<Rightarrow> exn list \<Rightarrow> (zval \<times> exn list) option" where
  "MongoDB_BSON_fromPHP B f E H data ex =
     map_option (\<lambda>(doc, _, ex1). (ZString (bson_get_data B (BDoc doc DocOk)), ex1)) (php_phongo_zval_to_bson f E H False False data [] ex)"

definition MongoDB_BSON_toPHP ::
    "bson_string_ops \<Rightarrow> decode_env \<Rightarrow> php_phongo_bson_typemap_types \<Rightarrow> string \<Rightarrow> ht option \<Rightarrow> exn list \<Rightarrow> (zval \<times> exn list) option" where
  "MongoDB_BSON_toPHP B N garbage data typemap ex =
     (case php_phongo_bson_typemap_to_state (de_classes N) garbage typemap typemap_init of
        None \<Rightarrow> None
      | Some (Some e, _) \<Rightarrow> Some (ZNull, e # ex)
      | Some (None, tm) \<Rightarrow>
          map_option (\<lambda>(ok, state, ex1). (if ok then st_zchild state else ZNull, ex1))
            (php_phongo_bson_to_zval_ex N (bson_reader_read B data) (bson_state_init\<lparr>st_map := tm\<rparr>) ex))"

text \<open>The error of libbson is the message of the exception when it is one of JSON.\<close>

definition MongoDB_BSON_fromJSON :: "bson_string_ops \<Rightarrow> string \<Rightarrow> exn list \<Rightarrow> zval \<times> exn list" where
  "MongoDB_BSON_fromJSON B json ex =
     (case bson_init_from_json B json of
        Inr d \<Rightarrow> (ZString (bson_get_data B d), ex)
      | Inl (is_json, message) \<Rightarrow>
          (ZNull, phongo_throw_exception PHONGO_ERROR_UNEXPECTED_VALUE (if is_json then c_str message else ''Error parsing JSON'') # ex))"

text \<open>
  The document, or what libbson makes of one no iterator starts on, and whether the string ends
  after it.
\<close>

definition json_of_document :: "string option \<Rightarrow> bool \<Rightarrow> exn list \<Rightarrow> zval \<times> exn list" where
  "json_of_document json exhausted ex =
     (case json of
        None \<Rightarrow> (ZNull, phongo_throw_exception PHONGO_ERROR_UNEXPECTED_VALUE ''Could not convert BSON document to a JSON string'' # ex)
      | Some s \<Rightarrow> (ZString s, if exhausted then ex
          else phongo_throw_exception PHONGO_ERROR_UNEXPECTED_VALUE ''Reading document did not exhaust input buffer'' # ex))"

definition phongo_bson_to_json :: "bson_string_ops \<Rightarrow> php_phongo_json_mode_t \<Rightarrow> string \<Rightarrow> exn list \<Rightarrow> zval \<times> exn list" where
  "phongo_bson_to_json B mode data ex =
     (case bson_reader_read B data of
        BufDocument d exhausted \<Rightarrow> json_of_document (bson_as_json B mode d) exhausted ex
      | BufNoIterator \<Rightarrow> (case bson_as_json_no_iterator B mode data of (json, exhausted) \<Rightarrow> json_of_document json exhausted ex)
      | BufUnreadable \<Rightarrow> (ZNull, phongo_throw_exception PHONGO_ERROR_UNEXPECTED_VALUE ''Could not read document from BSON reader'' # ex))"

definition MongoDB_BSON_toJSON where "MongoDB_BSON_toJSON B = phongo_bson_to_json B PHONGO_JSON_MODE_LEGACY"
definition MongoDB_BSON_toCanonicalExtendedJSON where
  "MongoDB_BSON_toCanonicalExtendedJSON B = phongo_bson_to_json B PHONGO_JSON_MODE_CANONICAL"
definition MongoDB_BSON_toRelaxedExtendedJSON where
  "MongoDB_BSON_toRelaxedExtendedJSON B = phongo_bson_to_json B PHONGO_JSON_MODE_RELAXED"

section \<open>Classes without data\<close>

text \<open>
  Their constructors are disabled or empty, and \<^verbatim>\<open>unserialize\<close> and \<^verbatim>\<open>__unserialize\<close> read nothing.
  The object is of the class it is asked of.
\<close>

definition key___set_state :: "bson_obj \<Rightarrow> ht \<Rightarrow> zval" where
  "key___set_state self array = ZBson self"

fun key_jsonSerialize :: "bson_obj \<Rightarrow> zval option" where
  "key_jsonSerialize OMinKey = Some (ZArray [(KStr ''$minKey'', ZLong 1)])"
| "key_jsonSerialize OMaxKey = Some (ZArray [(KStr ''$maxKey'', ZLong 1)])"
| "key_jsonSerialize OUndefined = Some (ZArray [(KStr ''$undefined'', ZBool True)])"
| "key_jsonSerialize _ = None"

definition key_serialize :: "bson_obj \<Rightarrow> string" where "key_serialize self = []"
definition key_unserialize :: "bson_obj \<Rightarrow> string \<Rightarrow> bson_obj" where "key_unserialize self serialized = self"
definition key___serialize :: "bson_obj \<Rightarrow> ht" where "key___serialize self = []"
definition key___unserialize :: "bson_obj \<Rightarrow> ht \<Rightarrow> bson_obj" where "key___unserialize self data = self"
definition Undefined___toString :: "bson_obj \<Rightarrow> string" where "Undefined___toString self = []"

section \<open>From PHP to a string and back\<close>

text \<open>libbson reads back, as the only document of the string, what it wrote.\<close>

definition reads_back :: "bson_string_ops \<Rightarrow> bool" where
  "reads_back B \<longleftrightarrow> (\<forall>d. doc_ok d \<longrightarrow> bson_reader_read B (bson_get_data B d) = BufDocument d True)"

text \<open>The options of the two type maps.\<close>

definition rt_typemap_options :: "bool \<Rightarrow> ht option" where
  "rt_typemap_options native = (if native then Some [(KStr ''root'', ZString ''array''), (KStr ''document'', ZString ''array''),
     (KStr ''array'', ZString ''array'')] else None)"

lemma not_numeric_key: "c \<noteq> CHR ''-'' \<Longrightarrow> \<not> is_digit c \<Longrightarrow> symtable_key (c # s) = KStr (c # s)"
  by (simp add: symtable_key_def numeric_key_def)

lemma rt_typemap_parsed: "php_phongo_bson_typemap_to_state E g (rt_typemap_options m) typemap_init = Some (None, rt_typemap m)"
  by (cases m) (simp_all add: php_phongo_bson_typemap_to_state_def rt_typemap_options_def rt_typemap_def native_typemap_def typemap_init_def
      php_phongo_bson_state_parse_type_def php_phongo_bson_state_parse_fieldpaths_def php_array_fetch_def php_array_exists_def
      not_numeric_key is_digit_def hash_exists_def hash_find_def Let_def c_strcaseeq_def)

lemma php_string_roundtrip:
  assumes "reads_back B" and "rt_root E m h" and "to_elems E h = Some es" and "envs_agree E N" and "bdepth h < f"
  shows "\<exists>s. MongoDB_BSON_fromPHP B f E H (root_zval m h) [] = Some (ZString s, [])
    \<and> MongoDB_BSON_toPHP B N g s (rt_typemap_options m) [] = Some (root_zval m h, [])"
proof -
  have ok: "doc_ok (BDoc es DocOk)" using rt_val_ok(2)[of E m h es] assms(2,3) by (auto simp: rt_root_def)
  show ?thesis using roundtrip[OF assms(2-5), of H] assms(1) ok
    by (auto simp: MongoDB_BSON_fromPHP_def MongoDB_BSON_toPHP_def rt_typemap_parsed reads_back_def rt_state_def)
qed

text \<open>A string with anything after the document: JSON is returned, and an exception raised.\<close>

lemma json_trailing_data:
  assumes "bson_reader_read B data = BufDocument d False" and "bson_as_json B mode d = Some json"
  shows "\<exists>e. phongo_bson_to_json B mode data ex = (ZString json, e # ex) \<and> ex_class e = UnexpectedValueException"
  using assms by (simp add: phongo_bson_to_json_def json_of_document_def)

end
