(* ===== verification/Driver_Reference.thy ===== *)
theory Driver_Reference
  imports Driver_Manager_Props Driver_Manager_Methods_Props Driver_Apm_Props Driver_Encryption Bson_Functions
begin

text \<open>
  Instances of what the model takes from libmongoc and the engine, on which its properties can be
  seen to hold: a library that numbers its clients, one server, subscribers that record what they
  hear, a cipher that changes nothing.
\<close>

section \<open>Processes\<close>

text \<open>Process 1 makes client 7, and forks process 2.\<close>

definition ref_manager :: "nat php_phongo_manager_t" where
  "ref_manager = \<lparr>mgr_client = 7, mgr_created_by_pid = 1, mgr_client_hash = ''h'', mgr_use_persistent_client = True,
     mgr_key_vault_client_manager = ZUndef, mgr_subscribers = []\<rparr>"

definition ref_pclient :: "nat php_phongo_pclient_t" where
  "ref_pclient = \<lparr>pc_client = 7, pc_created_by_pid = 1, pc_last_reset_by_pid = 0, pc_is_persistent = True\<rparr>"

definition ref_globals :: "nat mongodb_globals" where
  "ref_globals = (RINIT globals_init)\<lparr>g_persistent_clients := [(''h'', ref_pclient)]\<rparr>"

definition ref_started :: "nat phongo_system" where
  "ref_started = run_in 1 (RINIT globals_init) [] (run_in 1 globals_init [] (system_init\<lparr>sys_pids := {1}\<rparr>))"

definition ref_registered :: "nat phongo_system" where
  "ref_registered = run_in 1 ref_globals [] (ref_started\<lparr>sys_made := (sys_made ref_started)(7 \<mapsto> 1)\<rparr>)"

definition ref_forked :: "nat phongo_system" where
  "ref_forked = run_in 2 ref_globals [] (ref_registered\<lparr>sys_pids := {1, 2}\<rparr>)"

lemma ref_forked_reachable: "sys_reachable D ref_forked"
proof -
  have a: "sys_step D system_init (run_in 1 globals_init [] (system_init\<lparr>sys_pids := insert 1 (sys_pids system_init)\<rparr>))"
    using step_start[where p = 1 and S = system_init and D = D] by (simp add: system_init_def)
  have b: "sys_step D (run_in 1 globals_init [] (system_init\<lparr>sys_pids := {1}\<rparr>)) ref_started"
    unfolding ref_started_def by (rule step_rinit) (simp add: run_in_def)
  have c: "sys_step D ref_started (run_in 1 ref_globals [] (ref_started\<lparr>sys_made := (sys_made ref_started)(mgr_client ref_manager \<mapsto> 1)\<rparr>))"
    by (rule step_register[where G = "RINIT globals_init"])
      (simp_all add: ref_started_def run_in_def system_init_def php_phongo_client_register_def ref_manager_def RINIT_def
        globals_init_def ref_globals_def ref_pclient_def)
  have d: "sys_step D ref_registered (run_in 2 ref_globals [] (ref_registered\<lparr>sys_pids := insert 2 (sys_pids ref_registered)\<rparr>))"
    by (rule step_fork[where p = 1]) (simp_all add: ref_registered_def ref_started_def run_in_def system_init_def)
  have "sys_pids ref_registered = {1}" by (simp add: ref_registered_def ref_started_def run_in_def)
  with d have d': "sys_step D ref_registered ref_forked" by (simp add: ref_forked_def insert_commute)
  have "ref_registered = run_in 1 ref_globals [] (ref_started\<lparr>sys_made := (sys_made ref_started)(mgr_client ref_manager \<mapsto> 1)\<rparr>)"
    by (simp add: ref_registered_def ref_manager_def)
  with a b c d' show ?thesis
    by (auto simp: system_init_def intro: converse_rtranclp_into_rtranclp)
qed

lemma ref_manager_entry: "manager_entry ref_manager ref_globals ref_pclient"
  by (simp add: manager_entry_def ref_manager_def ref_globals_def ref_pclient_def)

section \<open>Managers\<close>

definition ref_client_make_ops :: "bool \<Rightarrow> (nat, ref_uri, nat, unit) client_make_ops" where
  "ref_client_make_ops apm = \<lparr>mongoc_handshake_data_append = (\<lambda>_ _ _ w. w), mongoc_client_new_from_uri = (\<lambda>_ w. (Some w, Suc w)),
     mongoc_client_set_error_api = (\<lambda>_ w. w), mongoc_client_set_ssl_opts = (\<lambda>_ _ w. w),
     mongoc_client_enable_auto_encryption = (\<lambda>_ _ w. (None, w)), mongoc_client_set_server_api = (\<lambda>_ _ w. (None, w)),
     mongoc_client_set_apm_callbacks = (\<lambda>_ w. (apm, w))\<rparr>"

definition ref_manager_env :: "bool \<Rightarrow> (nat, ref_uri, string option, read_prefs_view, write_concern_view, nat, unit) manager_env" where
  "ref_manager_env apm = \<lparr>me_pid = 1, me_classes = ref_class_env, me_interned = (\<lambda>_. False), me_serializer = ref_serializer,
     me_serialize_throws = (\<lambda>_. None), me_context_options = (\<lambda>_. None), me_server_api = (\<lambda>_. None), me_fuel = 9,
     me_encode = ref_encode_env, me_heap = [], me_decode = ref_decode_env, me_codes = ref_error_codes, me_uri = ref_uri_ops,
     me_rc = ref_read_concern_ops, me_rp = ref_read_prefs_ops, me_wc = ref_write_concern_ops, me_client = ref_client_make_ops apm,
     me_ssl = None, me_cse = True, me_php_version = ''8.0'', me_mongodb_version = ''1.12''\<rparr>"

definition ref_store :: "(string option, read_prefs_view, write_concern_view, nat, nat) store" where
  "ref_store = []"

definition ref_manager_state :: "(nat, nat) manager_state" where
  "ref_manager_state = \<lparr>ms_intern = php_phongo_manager_create_object 1, ms_globals = RINIT globals_init, ms_world = 0, ms_calls = []\<rparr>"

section \<open>One server\<close>

definition ref_server_ops :: "(nat list, nat, nat, string option, read_prefs_view, unit, unit) server_ops" where
  "ref_server_ops = \<lparr>mongoc_client_select_server = (\<lambda>_ _ _ w. (Inr (), [], 4 # w)),
     mongoc_client_get_server_description = (\<lambda>_ _ _. Some ()), mongoc_client_get_server_descriptions = (\<lambda>_ _. [()]),
     mongoc_client_get_read_prefs = (\<lambda>_. mongoc_read_prefs_new ref_read_prefs_ops 1),
     mongoc_client_get_read_concern = (\<lambda>_. None), mongoc_client_get_uri_string = (\<lambda>_. ''mongodb://127.0.0.1/''),
     mongoc_server_description_id = (\<lambda>_. 1), mongoc_server_description_type = (\<lambda>_. ''RSPrimary''),
     mongoc_server_description_host = (\<lambda>_. ''127.0.0.1''), mongoc_server_description_port = (\<lambda>_. 27017),
     mongoc_server_description_host_and_port = (\<lambda>_. ''127.0.0.1:27017''),
     mongoc_server_description_hello_response = (\<lambda>_. BDoc [] DocOk), mongoc_server_description_round_trip_time = (\<lambda>_. 5),
     hello_as_bool = (\<lambda>_. True), mongoc_client_start_session_with_opts = (\<lambda>_ _ w. (Inr 7, w)),
     session_opts_causal_consistency = (\<lambda>o1. so_causal_consistency o1 = Some True),
     session_opts_snapshot = (\<lambda>o1. so_snapshot o1 = Some True)\<rparr>"

section \<open>Subscribers\<close>

text \<open>Every object of class \<^verbatim>\<open>Sub\<close> is a subscriber; its methods record their calls.\<close>

definition ref_subscriber_env :: class_env where
  "ref_subscriber_env = ref_class_env\<lparr>ce_instanceof := (\<lambda>c i. c = ''Sub'' \<and> (i = subscriber_ce \<or> i = commandsubscriber_ce))\<rparr>"

definition ref_notify :: "((zval \<times> string \<times> apm_event) list, apm_event) notify" where
  "ref_notify s m e w = (None, w @ [(s, m, e)])"

lemma ref_notify_records: "records ref_notify (\<lambda>w. w)"
  by (simp add: records_def ref_notify_def)

section \<open>A cipher\<close>

definition ref_encryption_ops :: "(nat, unit, nat) encryption_ops" where
  "ref_encryption_ops = (let refused = Inl \<lparr>err_domain = MONGOC_ERROR_CLIENT_SIDE_ENCRYPTION, err_code = 1, err_message = ''refused''\<rparr> in
    \<lparr>mongoc_client_encryption_new = (\<lambda>_ w. (Inr (), w)), mongoc_client_encryption_destroy = (\<lambda>_ w. w),
     mongoc_client_encryption_create_datakey = (\<lambda>_ _ _ w. (Inr (BBinary 4 ''key''), [], w)),
     mongoc_client_encryption_encrypt = (\<lambda>_ v _ w. (case v of BUtf8 s \<Rightarrow> Inr (BBinary 6 s) | _ \<Rightarrow> refused, [], Suc w)),
     mongoc_client_encryption_decrypt = (\<lambda>_ v w. (case v of BBinary t s \<Rightarrow> Inr (BUtf8 s) | _ \<Rightarrow> refused, [], Suc w))\<rparr>)"

definition ref_encryption_env :: "(nat, unit, nat) encryption_env" where
  "ref_encryption_env = \<lparr>ne_fuel = 9, ne_encode = ref_encode_env, ne_heap = [], ne_decode = ref_decode_env,
     ne_codes = ref_error_codes, ne_interned = (\<lambda>_. False), ne_ops = ref_encryption_ops, ne_cse = True\<rparr>"

lemma ref_cipher: "keeps_secrets ref_encryption_ops ce"
  by (auto simp: keeps_secrets_def ref_encryption_ops_def Let_def split: bval.splits)

end
