(* ===== verification/Driver_Lifetime.thy ===== *)
theory Driver_Lifetime
  imports Driver_Registry_Props Driver_Encryption Driver_Apm
begin

text \<open>
  The lives of the driver's objects.  PHP counts the references to an object; when the last one
  goes, the free handler of its class ends what libmongoc holds for it and drops the references
  the object has itself, which may end other objects.  A reference is the address of an object
  on the heap (\<^verbatim>\<open>ZAddr\<close>); strings, property tables and BSON buffers are values here, their
  allocation is left out.
\<close>

section \<open>Objects and references\<close>

text \<open>
  libmongoc's clients, sessions, cursors and so on are known by numbers.  A user object stands for
  any object of the program that is not the driver's: subscribers, arrays, closures.
\<close>

datatype php_object =
    ObManager "nat manager_intern"
  | ObSession "nat php_phongo_session_t"
  | ObCursor "nat php_phongo_cursor_t" int
  | ObClientEncryption "nat php_phongo_clientencryption_t"
  | ObBulkWrite "nat php_phongo_bulkwrite_t"
  | ObServer php_phongo_server_obj
  | ObWriteResult "unit php_phongo_writeresult_t"
  | ObStarted php_phongo_commandstartedevent_t
  | ObSucceeded php_phongo_commandsucceededevent_t
  | ObFailed php_phongo_commandfailedevent_t
  | ObUser "zval list"

type_synonym object_heap = "(nat \<times> php_object) option list"

definition cell_at :: "object_heap \<Rightarrow> nat \<Rightarrow> (nat \<times> php_object) option" where
  "cell_at h a = (if a < length h then h ! a else None)"

datatype mongoc_handle = HSession nat | HCursor nat | HEncryption nat | HBulk nat

text \<open>
  What libmongoc sees: a client made by a process, with the client of its key vault; a handle made
  of a client, or of none (a bulk operation has none yet); calls on a client; the use and the end
  of a handle.
\<close>

datatype mongoc_call =
    ClientNew int nat "nat option"
  | HandleNew "nat option" mongoc_handle
  | OnClient "nat client_call"
  | HandleUse mongoc_handle
  | HandleDestroy mongoc_handle

text \<open>The addresses a value refers to.\<close>

fun zref :: "zval \<Rightarrow> nat list" where
  "zref (ZAddr a) = [a]"
| "zref _ = []"

section \<open>Free handlers\<close>

text \<open>
  What a free handler does before it drops references: the tables and the calls to libmongoc;
  None is a null pointer.  The references follow in the order of the code.
\<close>

type_synonym freed = "(nat mongodb_globals \<times> mongoc_call list) option"

text \<open>Managers as the operations on the registries know them; every other object is opaque.\<close>

definition manager_store :: "object_heap \<Rightarrow> (unit, unit, unit, nat, nat) store" where
  "manager_store h = map (\<lambda>cell. case cell of
     Some (_, ObManager m) \<Rightarrow> (case manager_of m of Some mgr \<Rightarrow> DManager mgr | None \<Rightarrow> DOther [])
   | Some _ \<Rightarrow> DOther [] | None \<Rightarrow> DFreed) h"

text \<open>The reset for another process; the Manager of the object is one of the heap.\<close>

definition reset_client :: "object_heap \<Rightarrow> int \<Rightarrow> int \<Rightarrow> zval \<Rightarrow> nat mongodb_globals \<Rightarrow> freed" where
  "reset_client h pid created_by_pid manager G =
     (case obj_at (manager_store h) manager of
        Some (DManager m) \<Rightarrow> map_option (\<lambda>(G1, calls). (G1, map OnClient calls))
          (PHONGO_RESET_CLIENT_IF_PID_DIFFERS (Suc (length h)) (manager_store h) pid created_by_pid m G)
      | _ \<Rightarrow> None)"

definition manager_free_object :: "int \<Rightarrow> nat \<Rightarrow> nat manager_intern \<Rightarrow> nat mongodb_globals \<Rightarrow> freed" where
  "manager_free_object pid a intern G =
     (let s = php_phongo_manager_free_object pid a \<lparr>ms_intern = intern, ms_globals = G, ms_world = (), ms_calls = []\<rparr>
      in Some (ms_globals s, map OnClient (ms_calls s)))"

definition manager_free_refs :: "nat manager_intern \<Rightarrow> nat list" where
  "manager_free_refs intern = zref (mi_key_vault_client_manager intern)
     @ (case mi_subscribers intern of None \<Rightarrow> [] | Some t \<Rightarrow> concat (map zref t))"

definition session_free_object :: "object_heap \<Rightarrow> int \<Rightarrow> nat php_phongo_session_t \<Rightarrow> nat mongodb_globals \<Rightarrow> freed" where
  "session_free_object h pid intern G =
     map_option (\<lambda>(G1, calls). (G1, calls @ (case ses_client_session intern of
         None \<Rightarrow> [] | Some cs \<Rightarrow> [HandleDestroy (HSession cs)])))
       (reset_client h pid (ses_created_by_pid intern) (ses_manager intern) G)"

definition php_phongo_cursor_free_object ::
    "object_heap \<Rightarrow> int \<Rightarrow> nat php_phongo_cursor_t \<Rightarrow> int \<Rightarrow> nat mongodb_globals \<Rightarrow> freed" where
  "php_phongo_cursor_free_object h pid intern created_by_pid G =
     map_option (\<lambda>(G1, calls). (G1, calls @ [HandleDestroy (HCursor (cur_cursor intern))]))
       (reset_client h pid created_by_pid (cur_manager intern) G)"

definition php_phongo_cursor_free_refs :: "nat php_phongo_cursor_t \<Rightarrow> nat list" where
  "php_phongo_cursor_free_refs intern = zref (cur_query intern) @ zref (cur_command intern)
     @ zref (cur_read_preference intern) @ zref (cur_session intern) @ zref (cur_manager intern)"

definition clientencryption_free_object :: "nat php_phongo_clientencryption_t \<Rightarrow> nat mongodb_globals \<Rightarrow> freed" where
  "clientencryption_free_object intern G = Some (G, case cen_client_encryption intern of
     None \<Rightarrow> [] | Some ce \<Rightarrow> [HandleDestroy (HEncryption ce)])"

definition php_phongo_bulkwrite_free_object :: "nat php_phongo_bulkwrite_t \<Rightarrow> nat mongodb_globals \<Rightarrow> freed" where
  "php_phongo_bulkwrite_free_object intern G = Some (G, case blk_bulk intern of
     None \<Rightarrow> [] | Some b \<Rightarrow> [HandleDestroy (HBulk b)])"

definition php_phongo_server_free_object :: "php_phongo_server_obj \<Rightarrow> nat list" where
  "php_phongo_server_free_object intern = zref (srv_manager intern)"

definition php_phongo_writeresult_free_object :: "unit php_phongo_writeresult_t \<Rightarrow> nat list" where
  "php_phongo_writeresult_free_object intern = zref (wrs_manager intern)"

definition php_phongo_commandstartedevent_free_object :: "php_phongo_commandstartedevent_t \<Rightarrow> nat list" where
  "php_phongo_commandstartedevent_free_object intern = zref (ev_manager intern)"

definition php_phongo_commandsucceededevent_free_object :: "php_phongo_commandsucceededevent_t \<Rightarrow> nat list" where
  "php_phongo_commandsucceededevent_free_object intern = zref (ev_manager intern)"

text \<open>The exception of the event is an object of its own without references to the driver's.\<close>

definition php_phongo_commandfailedevent_free_object :: "php_phongo_commandfailedevent_t \<Rightarrow> nat list" where
  "php_phongo_commandfailedevent_free_object intern = zref (ev_manager intern)"

text \<open>The references of an object, as its free handler drops them.\<close>

fun object_refs :: "php_object \<Rightarrow> nat list" where
  "object_refs (ObManager m) = manager_free_refs m"
| "object_refs (ObSession s) = zref (ses_manager s)"
| "object_refs (ObCursor c _) = php_phongo_cursor_free_refs c"
| "object_refs (ObClientEncryption e) = zref (cen_key_vault_client_manager e)"
| "object_refs (ObBulkWrite b) = zref (blk_session b)"
| "object_refs (ObServer s) = php_phongo_server_free_object s"
| "object_refs (ObWriteResult r) = php_phongo_writeresult_free_object r"
| "object_refs (ObStarted e) = php_phongo_commandstartedevent_free_object e"
| "object_refs (ObSucceeded e) = php_phongo_commandsucceededevent_free_object e"
| "object_refs (ObFailed e) = php_phongo_commandfailedevent_free_object e"
| "object_refs (ObUser zs) = concat (map zref zs)"

fun free_object :: "object_heap \<Rightarrow> int \<Rightarrow> nat \<Rightarrow> php_object \<Rightarrow> nat mongodb_globals \<Rightarrow> freed" where
  "free_object h pid a (ObManager m) G = manager_free_object pid a m G"
| "free_object h pid a (ObSession s) G = session_free_object h pid s G"
| "free_object h pid a (ObCursor c created_by_pid) G = php_phongo_cursor_free_object h pid c created_by_pid G"
| "free_object h pid a (ObClientEncryption e) G = clientencryption_free_object e G"
| "free_object h pid a (ObBulkWrite b) G = php_phongo_bulkwrite_free_object b G"
| "free_object h pid a _ G = Some (G, [])"

section \<open>Dropping references\<close>

text \<open>
  \<^verbatim>\<open>zval_ptr_dtor\<close> of each address of a list: an object that loses its last reference is freed,
  and its own references are dropped before the rest of the list.  None is a reference to an
  object that is gone, or a null pointer in a free handler.
\<close>

record lifetime =
  lt_pid :: int
  lt_heap :: object_heap
  lt_globals :: "nat mongodb_globals"
  lt_log :: "mongoc_call list"
  lt_user :: "nat list"

lemma cell_at_simps [simp]:
  "cell_at [] a = None" "cell_at (c # h) 0 = c" "cell_at (c # h) (Suc a) = cell_at h a"
  by (simp_all add: cell_at_def)

fun live_cells :: "object_heap \<Rightarrow> nat" where
  "live_cells [] = 0"
| "live_cells (c # h) = (if c = None then 0 else 1) + live_cells h"

lemma live_cells_free: "cell_at h a = Some x \<Longrightarrow> live_cells (h[a := None]) < live_cells h"
proof (induction h arbitrary: a)
  case (Cons c h)
  then show ?case by (cases a) auto
qed simp

lemma live_cells_count: "cell_at h a = Some x \<Longrightarrow> live_cells (h[a := Some y]) = live_cells h"
proof (induction h arbitrary: a)
  case (Cons c h)
  then show ?case by (cases a) auto
qed simp

function zval_ptr_dtor :: "nat list \<Rightarrow> lifetime \<Rightarrow> lifetime option" where
  "zval_ptr_dtor [] s = Some s"
| "zval_ptr_dtor (a # rest) s =
     (case cell_at (lt_heap s) a of
        None \<Rightarrow> None
      | Some (n, object) \<Rightarrow>
          if n > 1 then zval_ptr_dtor rest (s\<lparr>lt_heap := (lt_heap s)[a := Some (n - 1, object)]\<rparr>)
          else (let h1 = (lt_heap s)[a := None] in
            case free_object h1 (lt_pid s) a object (lt_globals s) of
              None \<Rightarrow> None
            | Some (G1, calls) \<Rightarrow> zval_ptr_dtor (object_refs object @ rest)
                (s\<lparr>lt_heap := h1, lt_globals := G1, lt_log := lt_log s @ calls\<rparr>)))"
  by pat_completeness auto
termination
  by (relation "measures [\<lambda>(rest, s). live_cells (lt_heap s), \<lambda>(rest, s). length rest]")
     (auto simp: live_cells_free live_cells_count)

declare zval_ptr_dtor.simps(2) [simp del]

text \<open>\<^verbatim>\<open>ZVAL_ZVAL\<close> and \<^verbatim>\<open>Z_ADDREF\<close>: one more reference.\<close>

definition add_ref :: "nat \<Rightarrow> object_heap \<Rightarrow> object_heap" where
  "add_ref a h = (case cell_at h a of None \<Rightarrow> h | Some (n, object) \<Rightarrow> h[a := Some (Suc n, object)])"

section \<open>The operations of a program\<close>

text \<open>
  What a program does with the driver, by its effect on objects and references: it holds
  references in its variables (\<^verbatim>\<open>lt_user\<close>) and makes, copies, uses and drops objects in any order.  A
  new object has one reference, and copies the references it is made with.
\<close>

definition new_object :: "php_object \<Rightarrow> lifetime \<Rightarrow> lifetime" where
  "new_object object s = s\<lparr>lt_heap := fold add_ref (object_refs object) (lt_heap s) @ [Some (1, object)],
     lt_user := length (lt_heap s) # lt_user s\<rparr>"

text \<open>The object at an address, without its count; an update of an object.\<close>

definition object_at :: "object_heap \<Rightarrow> nat \<Rightarrow> php_object option" where
  "object_at h a = map_option snd (cell_at h a)"

definition set_object :: "nat \<Rightarrow> php_object \<Rightarrow> object_heap \<Rightarrow> object_heap" where
  "set_object a object h = (case cell_at h a of None \<Rightarrow> h | Some (n, _) \<Rightarrow> h[a := Some (n, object)])"

definition logged :: "mongoc_call list \<Rightarrow> lifetime \<Rightarrow> lifetime" where
  "logged calls s = s\<lparr>lt_log := lt_log s @ calls\<rparr>"

text \<open>
  A Manager whose client is made and registered, and one that finds its persistent client: what
  \<^verbatim>\<open>phongo_manager_init\<close> and the constructor leave when they succeed.
\<close>

definition made_manager :: "int \<Rightarrow> nat \<Rightarrow> string \<Rightarrow> bool \<Rightarrow> zval \<Rightarrow> nat manager_intern" where
  "made_manager pid client hash persistent kv = (php_phongo_manager_create_object pid)\<lparr>mi_client := Some client,
     mi_client_hash := Some hash, mi_use_persistent_client := persistent, mi_key_vault_client_manager := kv\<rparr>"

text \<open>A key vault client is a Manager that lives, persistent like the new one.\<close>

definition key_vault_for :: "lifetime \<Rightarrow> bool \<Rightarrow> zval \<Rightarrow> nat option \<Rightarrow> bool" where
  "key_vault_for s persistent kv client \<longleftrightarrow> kv = ZUndef \<and> client = None
     \<or> (\<exists>k m. kv = ZAddr k \<and> object_at (lt_heap s) k = Some (ObManager m)
          \<and> mi_use_persistent_client m = persistent \<and> client = mi_client m)"

definition register_manager :: "nat manager_intern \<Rightarrow> lifetime \<Rightarrow> lifetime option" where
  "register_manager intern s = (case php_phongo_manager_register (length (lt_heap s)) (lt_globals s) of
     (False, _) \<Rightarrow> None
   | (True, G1) \<Rightarrow> Some (new_object (ObManager intern) (s\<lparr>lt_globals := G1\<rparr>)))"

definition make_manager :: "nat \<Rightarrow> string \<Rightarrow> bool \<Rightarrow> zval \<Rightarrow> nat option \<Rightarrow> lifetime \<Rightarrow> lifetime option" where
  "make_manager client hash persistent kv kv_client s =
     (let intern = made_manager (lt_pid s) client hash persistent kv in
      case Option.bind (manager_of intern) (\<lambda>m. php_phongo_client_register (lt_pid s) m (lt_globals s)) of
        None \<Rightarrow> None
      | Some (G1, calls) \<Rightarrow> register_manager intern
          (logged (ClientNew (lt_pid s) client kv_client # map OnClient calls) (s\<lparr>lt_globals := G1\<rparr>)))"

definition find_manager :: "string \<Rightarrow> lifetime \<Rightarrow> lifetime option" where
  "find_manager hash s = (case php_phongo_find_persistent_client (lt_globals s) hash of
     None \<Rightarrow> None
   | Some client \<Rightarrow> register_manager (made_manager (lt_pid s) client hash True ZUndef) s)"

text \<open>Objects of a client: the handle that libmongoc makes for it.\<close>

fun object_handle :: "php_object \<Rightarrow> mongoc_handle option" where
  "object_handle (ObSession s) = map_option HSession (ses_client_session s)"
| "object_handle (ObCursor c _) = Some (HCursor (cur_cursor c))"
| "object_handle (ObClientEncryption e) = map_option HEncryption (cen_client_encryption e)"
| "object_handle (ObBulkWrite b) = map_option HBulk (blk_bulk b)"
| "object_handle _ = None"

fun object_manager :: "php_object \<Rightarrow> zval option" where
  "object_manager (ObSession s) = Some (ses_manager s)"
| "object_manager (ObCursor c _) = Some (cur_manager c)"
| "object_manager (ObClientEncryption e) = Some (cen_key_vault_client_manager e)"
| "object_manager _ = None"

definition client_of :: "object_heap \<Rightarrow> php_object \<Rightarrow> nat option" where
  "client_of h object = (case object_manager object of
     Some (ZAddr m) \<Rightarrow> (case object_at h m of Some (ObManager mi) \<Rightarrow> mi_client mi | _ \<Rightarrow> None)
   | _ \<Rightarrow> None)"

text \<open>Objects that hold references only: Servers, write results, events, and the program's own.\<close>

fun holder :: "php_object \<Rightarrow> bool" where
  "holder (ObServer _) = True"
| "holder (ObWriteResult _) = True"
| "holder (ObStarted _) = True"
| "holder (ObSucceeded _) = True"
| "holder (ObFailed _) = True"
| "holder (ObUser _) = True"
| "holder _ = False"

definition fresh_handle :: "mongoc_handle \<Rightarrow> lifetime \<Rightarrow> bool" where
  "fresh_handle handle s \<longleftrightarrow> (\<forall>client. HandleNew client handle \<notin> set (lt_log s))"

definition fresh_client :: "nat \<Rightarrow> lifetime \<Rightarrow> bool" where
  "fresh_client client s \<longleftrightarrow> (\<forall>p kv. ClientNew p client kv \<notin> set (lt_log s))"

text \<open>A program reaches an object that lives by the references of others, if not by its own.\<close>

definition held :: "lifetime \<Rightarrow> nat list \<Rightarrow> bool" where
  "held s addrs \<longleftrightarrow> (\<forall>a \<in> set addrs. object_at (lt_heap s) a \<noteq> None)"

inductive lt_step :: "lifetime \<Rightarrow> lifetime \<Rightarrow> bool" where
  step_copy: "held s [a] \<Longrightarrow> lt_step s (s\<lparr>lt_heap := add_ref a (lt_heap s), lt_user := a # lt_user s\<rparr>)"
| step_drop: "a \<in> set (lt_user s) \<Longrightarrow> zval_ptr_dtor [a] (s\<lparr>lt_user := remove1 a (lt_user s)\<rparr>) = Some t \<Longrightarrow> lt_step s t"
| step_make_manager: "fresh_client c s \<Longrightarrow> key_vault_for s persistent kv kv_client \<Longrightarrow>
    (persistent \<Longrightarrow> php_phongo_find_persistent_client (lt_globals s) hash = None) \<Longrightarrow>
    make_manager c hash persistent kv kv_client s = Some t \<Longrightarrow> lt_step s t"
| step_find_manager: "find_manager hash s = Some t \<Longrightarrow> lt_step s t"
| step_make_object: "object_handle object = Some handle \<Longrightarrow> fresh_handle handle s \<Longrightarrow> held s (object_refs object) \<Longrightarrow>
    object_manager object = Some z \<Longrightarrow> client_of (lt_heap s) object = Some c \<Longrightarrow>
    lt_step s (new_object object (logged [HandleNew (Some c) handle] s))"
| step_make_bulk: "fresh_handle (HBulk b) s \<Longrightarrow>
    lt_step s (new_object (ObBulkWrite (php_phongo_bulkwrite_create_object\<lparr>blk_bulk := Some b\<rparr>)) (logged [HandleNew None (HBulk b)] s))"
| step_bulk_session: "held s [a, b] \<Longrightarrow> object_at (lt_heap s) a = Some (ObBulkWrite bulk) \<Longrightarrow> blk_session bulk = ZUndef \<Longrightarrow>
    lt_step s (s\<lparr>lt_heap := set_object a (ObBulkWrite (bulk\<lparr>blk_session := ZAddr b\<rparr>)) (add_ref b (lt_heap s))\<rparr>)"
| step_make_holder: "holder object \<Longrightarrow> held s (object_refs object) \<Longrightarrow> lt_step s (new_object object s)"
| step_user_put: "held s [u, a] \<Longrightarrow> object_at (lt_heap s) u = Some (ObUser zs) \<Longrightarrow>
    lt_step s (s\<lparr>lt_heap := set_object u (ObUser (ZAddr a # zs)) (add_ref a (lt_heap s))\<rparr>)"
| step_user_take: "held s [u] \<Longrightarrow> object_at (lt_heap s) u = Some (ObUser (zs @ ZAddr a # ys)) \<Longrightarrow>
    zval_ptr_dtor [a] (s\<lparr>lt_heap := set_object u (ObUser (zs @ ys)) (lt_heap s)\<rparr>) = Some t \<Longrightarrow> lt_step s t"
| step_subscribe: "held s [m, a] \<Longrightarrow> object_at (lt_heap s) m = Some (ObManager mi) \<Longrightarrow>
    subscribers = (case mi_subscribers mi of None \<Rightarrow> [] | Some zs \<Rightarrow> zs) \<Longrightarrow>
    lt_step s (s\<lparr>lt_heap := set_object m (ObManager (mi\<lparr>mi_subscribers := Some (subscribers @ [ZAddr a])\<rparr>)) (add_ref a (lt_heap s))\<rparr>)"
| step_unsubscribe: "held s [m] \<Longrightarrow> object_at (lt_heap s) m = Some (ObManager mi) \<Longrightarrow> mi_subscribers mi = Some (zs @ ZAddr a # ys) \<Longrightarrow>
    zval_ptr_dtor [a] (s\<lparr>lt_heap := set_object m (ObManager (mi\<lparr>mi_subscribers := Some (zs @ ys)\<rparr>)) (lt_heap s)\<rparr>) = Some t \<Longrightarrow> lt_step s t"
| step_cursor_exhausted: "held s [a] \<Longrightarrow> object_at (lt_heap s) a = Some (ObCursor cur p) \<Longrightarrow> cur_session cur = ZAddr b \<Longrightarrow>
    zval_ptr_dtor [b] (s\<lparr>lt_heap := set_object a (ObCursor (cur\<lparr>cur_session := ZUndef\<rparr>) p) (lt_heap s)\<rparr>) = Some t \<Longrightarrow> lt_step s t"
| step_end_session: "held s [a] \<Longrightarrow> object_at (lt_heap s) a = Some (ObSession ses) \<Longrightarrow> ses_client_session ses = Some cs \<Longrightarrow>
    lt_step s (logged [HandleDestroy (HSession cs)] (s\<lparr>lt_heap := set_object a (ObSession (ses\<lparr>ses_client_session := None\<rparr>)) (lt_heap s)\<rparr>))"
| step_use: "held s [a] \<Longrightarrow> object_at (lt_heap s) a = Some object \<Longrightarrow> object_handle object = Some handle \<Longrightarrow>
    lt_step s (logged [HandleUse handle] s)"
| step_fork: "p \<noteq> 0 \<Longrightarrow> (\<forall>c kv. ClientNew p c kv \<notin> set (lt_log s)) \<Longrightarrow> lt_step s (s\<lparr>lt_pid := p\<rparr>)"
| step_rinit: "lt_step s (s\<lparr>lt_globals := RINIT (lt_globals s)\<rparr>)"
| step_rshutdown: "live_cells (lt_heap s) = 0 \<Longrightarrow> RSHUTDOWN (lt_pid s) (lt_globals s) = (G, calls) \<Longrightarrow>
    lt_step s (logged (map OnClient calls) (s\<lparr>lt_globals := G\<rparr>))"
| step_gshutdown: "live_cells (lt_heap s) = 0 \<Longrightarrow> GSHUTDOWN (lt_pid s) (lt_globals s) = (G, calls) \<Longrightarrow>
    lt_step s (logged (map OnClient calls) (s\<lparr>lt_globals := G\<rparr>))"

definition lt_start :: "int \<Rightarrow> lifetime" where
  "lt_start pid = \<lparr>lt_pid = pid, lt_heap = [], lt_globals = globals_init, lt_log = [], lt_user = []\<rparr>"

inductive lt_reachable :: "lifetime \<Rightarrow> bool" where
  reachable_start: "pid \<noteq> 0 \<Longrightarrow> lt_reachable (lt_start pid)"
| reachable_step: "lt_reachable s \<Longrightarrow> lt_step s t \<Longrightarrow> lt_reachable t"

end
