(* ===== verification/Driver_Lifetime_Props.thy ===== *)
theory Driver_Lifetime_Props
  imports Driver_Lifetime
begin

text \<open>
  The counts of the heap are the numbers of references, so that no free handler runs while an
  object is still referred to, and dropping references always ends; and what the free handlers
  ask of libmongoc keeps its rules: no client is destroyed before what was made of it.
\<close>

section \<open>Counts\<close>

definition cell_refs :: "(nat \<times> php_object) option \<Rightarrow> nat list" where
  "cell_refs cell = (case cell of None \<Rightarrow> [] | Some (_, object) \<Rightarrow> object_refs object)"

definition heap_refs :: "object_heap \<Rightarrow> nat list" where
  "heap_refs h = concat (map cell_refs h)"

definition ref_count :: "object_heap \<Rightarrow> nat \<Rightarrow> nat" where
  "ref_count h a = (case cell_at h a of None \<Rightarrow> 0 | Some (n, _) \<Rightarrow> n)"

text \<open>Each count is that of the references: the ones in a list, and those of the objects.\<close>

definition counts_ok :: "object_heap \<Rightarrow> nat list \<Rightarrow> bool" where
  "counts_ok h refs \<longleftrightarrow> (\<forall>a. ref_count h a = count_list (refs @ heap_refs h) a)
     \<and> (\<forall>a n object. cell_at h a = Some (n, object) \<longrightarrow> 0 < n)"

lemma cell_refs_simps [simp]: "cell_refs None = []" "cell_refs (Some (n, object)) = object_refs object"
  by (simp_all add: cell_refs_def)

lemma cell_at_update: "a < length h \<Longrightarrow> cell_at (h[a := c]) b = (if b = a then c else cell_at h b)"
  by (simp add: cell_at_def)

lemma cell_at_snoc: "cell_at (h @ [c]) b = (if b = length h then c else cell_at h b)"
  by (auto simp: cell_at_def nth_append)

lemma cell_at_length: "cell_at h a \<noteq> None \<Longrightarrow> a < length h"
  by (simp add: cell_at_def split: if_splits)

lemma heap_refs_update:
  "a < length h \<Longrightarrow> count_list (heap_refs (h[a := c])) x + count_list (cell_refs (cell_at h a)) x
     = count_list (heap_refs h) x + count_list (cell_refs c) x"
proof (induction h arbitrary: a)
  case (Cons c' h)
  then show ?case by (cases a) (auto simp: heap_refs_def)
qed simp

lemma heap_refs_snoc: "heap_refs (h @ [c]) = heap_refs h @ cell_refs c"
  by (simp add: heap_refs_def)

lemma object_at_cell: "object_at h a = Some ob \<longleftrightarrow> (\<exists>n. cell_at h a = Some (n, ob))"
  by (auto simp: object_at_def)

lemma counts_okI:
  "(\<And>x. ref_count h x = count_list refs x + count_list (heap_refs h) x) \<Longrightarrow>
     (\<And>a n ob. cell_at h a = Some (n, ob) \<Longrightarrow> 0 < n) \<Longrightarrow> counts_ok h refs"
  by (simp add: counts_ok_def)

lemma counts_okD:
  "counts_ok h refs \<Longrightarrow> ref_count h x = count_list refs x + count_list (heap_refs h) x"
  "counts_ok h refs \<Longrightarrow> cell_at h a = Some (n, ob) \<Longrightarrow> 0 < n"
  by (auto simp: counts_ok_def)

lemma ref_count_update: "a < length h \<Longrightarrow> ref_count (h[a := c]) x = (if x = a then (case c of None \<Rightarrow> 0 | Some (n, _) \<Rightarrow> n) else ref_count h x)"
  by (simp add: ref_count_def cell_at_update)

lemma ref_count_at: "cell_at h a = Some (n, ob) \<Longrightarrow> ref_count h a = n"
  by (simp add: ref_count_def)

lemma counts_ok_cong:
  "counts_ok h refs \<Longrightarrow> (\<And>a. count_list refs' a = count_list refs a) \<Longrightarrow> counts_ok h refs'"
  by (simp add: counts_ok_def)

lemma counts_ok_live:
  assumes "counts_ok h refs" and "a \<in> set refs \<or> a \<in> set (heap_refs h)"
  shows "object_at h a \<noteq> None"
proof -
  have "count_list refs a + count_list (heap_refs h) a \<noteq> 0" using assms(2) by (auto simp: count_list_0_iff)
  then show ?thesis using counts_okD(1)[OF assms(1), of a] by (auto simp: ref_count_def object_at_def split: option.splits)
qed

lemma heap_refs_member:
  assumes "object_at h a = Some ob" and "r \<in> set (object_refs ob)"
  shows "r \<in> set (heap_refs h)"
proof -
  obtain n where "cell_at h a = Some (n, ob)" using assms(1) by (auto simp: object_at_cell)
  then have "Some (n, ob) \<in> set h" by (auto simp: cell_at_def split: if_splits intro: nth_mem) (metis nth_mem)
  then show ?thesis using assms(2) by (force simp: heap_refs_def)
qed

text \<open>One more reference; one reference less; the last one.\<close>

lemma object_at_add_ref [simp]: "object_at (add_ref a h) b = object_at h b"
  by (auto simp: add_ref_def object_at_def cell_at_update cell_at_length split: option.splits)

lemma length_add_ref [simp]: "length (add_ref a h) = length h"
  by (simp add: add_ref_def split: option.splits)

lemma add_ref_ok:
  assumes "counts_ok h refs" and "object_at h a \<noteq> None"
  shows "counts_ok (add_ref a h) (a # refs)"
proof -
  obtain n ob where c: "cell_at h a = Some (n, ob)" using assms(2) by (auto simp: object_at_def)
  have len: "a < length h" using c cell_at_length[of h a] by simp
  have "add_ref a h = h[a := Some (Suc n, ob)]" using c by (simp add: add_ref_def)
  moreover have "count_list (heap_refs (h[a := Some (Suc n, ob)])) x = count_list (heap_refs h) x" for x
    using heap_refs_update[OF len, of "Some (Suc n, ob)" x] c by simp
  ultimately show ?thesis using counts_okD[OF assms(1)] ref_count_at[OF c] len
    by (intro counts_okI) (auto simp: ref_count_update cell_at_update split: if_splits)
qed

lemma drop_ref_ok:
  assumes "counts_ok h (a # refs)" and c: "cell_at h a = Some (n, ob)" and "n > 1"
  shows "counts_ok (h[a := Some (n - 1, ob)]) refs"
proof -
  have len: "a < length h" using c cell_at_length[of h a] by simp
  have same: "count_list (heap_refs (h[a := Some (n - 1, ob)])) x = count_list (heap_refs h) x" for x
    using heap_refs_update[OF len, of "Some (n - 1, ob)" x] c by simp
  show ?thesis
  proof (rule counts_okI)
    show "ref_count (h[a := Some (n - 1, ob)]) x = count_list refs x + count_list (heap_refs (h[a := Some (n - 1, ob)])) x" for x
      using counts_okD(1)[OF assms(1), of x] ref_count_at[OF c] len same[of x] by (cases "x = a") (auto simp: ref_count_update)
  qed (use assms counts_okD(2)[OF assms(1)] len in \<open>auto simp: cell_at_update split: if_splits\<close>)
qed

lemma last_ref_ok:
  assumes "counts_ok h (a # refs)" and "cell_at h a = Some (n, ob)" and "\<not> n > 1"
  shows "counts_ok (h[a := None]) (object_refs ob @ refs)"
    and "a \<notin> set (object_refs ob @ refs) \<union> set (heap_refs (h[a := None]))"
proof -
  have len: "a < length h" using assms(2) cell_at_length[of h a] by simp
  have all: "ref_count h x = count_list (a # refs @ heap_refs h) x" for x
    using assms(1) by (simp add: counts_ok_def)
  have n: "n = 1" using assms by (auto simp: counts_ok_def) (metis Suc_lessI)
  have move: "count_list (object_refs ob @ heap_refs (h[a := None])) x = count_list (heap_refs h) x" for x
    using heap_refs_update[OF len, of None x] assms(2) by simp
  have a0: "count_list (refs @ heap_refs h) a = 0" using all[of a] assms(2) n by (simp add: ref_count_def)
  have "ref_count (h[a := None]) x = (if x = a then 0 else ref_count h x)" for x
    using len by (simp add: ref_count_def cell_at_update)
  then have "ref_count (h[a := None]) x = count_list ((object_refs ob @ refs) @ heap_refs (h[a := None])) x" for x
    using a0 all[of x] move[of x] by (cases "x = a") auto
  then show "counts_ok (h[a := None]) (object_refs ob @ refs)"
    using assms(1) len by (auto simp: counts_ok_def cell_at_update split: if_splits)
  have "count_list ((object_refs ob @ refs) @ heap_refs (h[a := None])) a = 0" using a0 move[of a] by simp
  then show "a \<notin> set (object_refs ob @ refs) \<union> set (heap_refs (h[a := None]))" by (simp add: count_list_0_iff)
qed

text \<open>An object that changes, and a new one.\<close>

lemma set_object_at:
  "object_at h a \<noteq> None \<Longrightarrow> object_at (set_object a ob h) b = (if b = a then Some ob else object_at h b)"
  by (auto simp: set_object_def object_at_def cell_at_update cell_at_length split: option.splits)

lemma set_object_ok:
  assumes "counts_ok h refs" and "object_at h a = Some old"
    and "\<And>x. count_list refs' x + count_list (object_refs ob) x = count_list refs x + count_list (object_refs old) x"
  shows "counts_ok (set_object a ob h) refs'"
proof -
  obtain n where c: "cell_at h a = Some (n, old)" using assms(2) by (auto simp: object_at_cell)
  have len: "a < length h" using c cell_at_length[of h a] by simp
  have s: "set_object a ob h = h[a := Some (n, ob)]" using c by (simp add: set_object_def)
  show ?thesis unfolding s
  proof (rule counts_okI)
    show "ref_count (h[a := Some (n, ob)]) x = count_list refs' x + count_list (heap_refs (h[a := Some (n, ob)])) x" for x
      using heap_refs_update[OF len, of "Some (n, ob)" x] c assms(3)[of x] counts_okD(1)[OF assms(1), of x] ref_count_at[OF c] len
      by (cases "x = a") (auto simp: ref_count_update)
  qed (use counts_okD(2)[OF assms(1)] c len in \<open>auto simp: cell_at_update split: if_splits\<close>)
qed

lemma fold_add_ref [simp]:
  "object_at (fold add_ref rs h) b = object_at h b" "length (fold add_ref rs h) = length h"
  by (induction rs arbitrary: h) auto

lemma fold_add_ref_ok:
  "counts_ok h refs \<Longrightarrow> (\<forall>a \<in> set rs. object_at h a \<noteq> None) \<Longrightarrow> counts_ok (fold add_ref rs h) (rev rs @ refs)"
proof (induction rs arbitrary: h refs)
  case (Cons a rs)
  then show ?case using Cons.IH[of "add_ref a h" "a # refs"] add_ref_ok[of h refs a] by simp
qed simp

lemma new_object_ok:
  assumes "counts_ok h refs" and "\<forall>a \<in> set (object_refs ob). object_at h a \<noteq> None"
  shows "counts_ok (fold add_ref (object_refs ob) h @ [Some (1, ob)]) (length h # refs)"
proof -
  let ?h = "fold add_ref (object_refs ob) h"
  have c: "counts_ok ?h (rev (object_refs ob) @ refs)" by (rule fold_add_ref_ok[OF assms])
  have "ref_count ?h (length h) = 0" by (simp add: ref_count_def cell_at_def)
  then show ?thesis using counts_okD[OF c]
    by (intro counts_okI) (auto simp: ref_count_def cell_at_snoc heap_refs_snoc count_list_rev split: if_splits)
qed

end
