(* ===== verification/Driver_Lifetime_World.thy ===== *)
theory Driver_Lifetime_World
  imports Driver_Lifetime_Props
begin

text \<open>
  What libmongoc may be asked, and the invariant between the objects that live, the registries
  of clients and the calls made so far.
\<close>

section \<open>The rules of libmongoc\<close>

abbreviation destroyed :: "mongoc_call list \<Rightarrow> nat \<Rightarrow> bool" where
  "destroyed before c \<equiv> OnClient (ClientDestroy c) \<in> set before"

definition alive :: "mongoc_call list \<Rightarrow> nat \<Rightarrow> bool" where
  "alive before c \<longleftrightarrow> (\<exists>p kv. ClientNew p c kv \<in> set before) \<and> \<not> destroyed before c"

text \<open>A client with encryption needs the client of its key vault.\<close>

definition ready :: "mongoc_call list \<Rightarrow> nat \<Rightarrow> bool" where
  "ready before c \<longleftrightarrow> alive before c \<and> (\<forall>p kc. ClientNew p c (Some kc) \<in> set before \<longrightarrow> alive before kc)"

text \<open>A handle is used while it is not destroyed, and the client it was made of is not.\<close>

definition in_use :: "mongoc_call list \<Rightarrow> mongoc_handle \<Rightarrow> bool" where
  "in_use before hn \<longleftrightarrow> HandleDestroy hn \<notin> set before
     \<and> (\<exists>oc. HandleNew oc hn \<in> set before \<and> (\<forall>c. oc = Some c \<longrightarrow> ready before c))"

text \<open>A call after others.  A client is destroyed after all handles that were made of it.\<close>

fun safe_call :: "mongoc_call list \<Rightarrow> mongoc_call \<Rightarrow> bool" where
  "safe_call before (ClientNew p c kv) \<longleftrightarrow> (\<forall>q kv'. ClientNew q c kv' \<notin> set before) \<and> (\<forall>kc. kv = Some kc \<longrightarrow> ready before kc)"
| "safe_call before (HandleNew oc hn) \<longleftrightarrow> (\<forall>oc'. HandleNew oc' hn \<notin> set before) \<and> (\<forall>c. oc = Some c \<longrightarrow> ready before c)"
| "safe_call before (HandleUse hn) \<longleftrightarrow> in_use before hn"
| "safe_call before (HandleDestroy hn) \<longleftrightarrow> in_use before hn"
| "safe_call before (OnClient (ClientReset c)) \<longleftrightarrow> ready before c"
| "safe_call before (OnClient (ClientClearApm c)) \<longleftrightarrow> ready before c"
| "safe_call before (OnClient (ClientDestroy c)) \<longleftrightarrow> ready before c
     \<and> (\<forall>hn. HandleNew (Some c) hn \<in> set before \<longrightarrow> HandleDestroy hn \<in> set before)"

fun safe_calls :: "mongoc_call list \<Rightarrow> mongoc_call list \<Rightarrow> bool" where
  "safe_calls before [] \<longleftrightarrow> True"
| "safe_calls before (x # calls) \<longleftrightarrow> safe_call before x \<and> safe_calls (before @ [x]) calls"

definition log_safe :: "mongoc_call list \<Rightarrow> bool" where
  "log_safe log \<longleftrightarrow> safe_calls [] log"

lemma safe_calls_append: "safe_calls before (xs @ ys) \<longleftrightarrow> safe_calls before xs \<and> safe_calls (before @ xs) ys"
  by (induction xs arbitrary: before) auto

lemma log_safe_append: "log_safe (log @ calls) \<longleftrightarrow> log_safe log \<and> safe_calls log calls"
  by (simp add: log_safe_def safe_calls_append)

text \<open>A client and a handle are made once, and before anything else is done with them.\<close>

lemma log_safe_once:
  assumes "log_safe log"
  shows "ClientNew p c kv \<in> set log \<Longrightarrow> ClientNew q c kv' \<in> set log \<Longrightarrow> p = q \<and> kv = kv'"
    and "HandleNew oc hn \<in> set log \<Longrightarrow> HandleNew oc' hn \<in> set log \<Longrightarrow> oc = oc'"
    and "HandleDestroy hn \<in> set log \<Longrightarrow> \<exists>oc. HandleNew oc hn \<in> set log"
    and "destroyed log c \<Longrightarrow> \<exists>p kv. ClientNew p c kv \<in> set log"
proof -
  have "(\<forall>p kv q kv'. ClientNew p c kv \<in> set log \<longrightarrow> ClientNew q c kv' \<in> set log \<longrightarrow> p = q \<and> kv = kv')
    \<and> (\<forall>oc oc'. HandleNew oc hn \<in> set log \<longrightarrow> HandleNew oc' hn \<in> set log \<longrightarrow> oc = oc')
    \<and> (HandleDestroy hn \<in> set log \<longrightarrow> (\<exists>oc. HandleNew oc hn \<in> set log))
    \<and> (destroyed log c \<longrightarrow> (\<exists>p kv. ClientNew p c kv \<in> set log))"
    using assms
  proof (induction log rule: rev_induct)
    case (snoc x log)
    then have "log_safe log" "safe_call log x" by (simp_all add: log_safe_append)
    with snoc.IH show ?case by (auto simp: in_use_def ready_def alive_def)
  qed simp
  then show "ClientNew p c kv \<in> set log \<Longrightarrow> ClientNew q c kv' \<in> set log \<Longrightarrow> p = q \<and> kv = kv'"
    and "HandleNew oc hn \<in> set log \<Longrightarrow> HandleNew oc' hn \<in> set log \<Longrightarrow> oc = oc'"
    and "HandleDestroy hn \<in> set log \<Longrightarrow> \<exists>oc. HandleNew oc hn \<in> set log"
    and "destroyed log c \<Longrightarrow> \<exists>p kv. ClientNew p c kv \<in> set log"
    by blast+
qed

text \<open>Resets and uses change nothing of what is known of clients and handles.\<close>

fun neutral :: "mongoc_call \<Rightarrow> bool" where
  "neutral (OnClient (ClientReset _)) = True"
| "neutral (OnClient (ClientClearApm _)) = True"
| "neutral (HandleUse _) = True"
| "neutral _ = False"

lemma neutral_set:
  assumes "list_all neutral calls"
  shows "ClientNew p c kv \<notin> set calls" "HandleNew oc hn \<notin> set calls" "HandleDestroy hn \<notin> set calls"
    "OnClient (ClientDestroy c) \<notin> set calls"
  using assms by (auto simp: list_all_iff)

lemma ready_neutral: "list_all neutral calls \<Longrightarrow> ready (log @ calls) c = ready log c"
  by (simp add: ready_def alive_def neutral_set)

lemma safe_resets:
  "(\<forall>c \<in> set cs. ready log c) \<Longrightarrow> safe_calls log (map (\<lambda>c. OnClient (ClientReset c)) cs)"
proof (induction cs arbitrary: log)
  case (Cons c cs)
  then show ?case using ready_neutral[of "[OnClient (ClientReset c)]" log] by simp
qed simp

section \<open>The clients of the registries\<close>

text \<open>Hash, client and process of the persistent entries; client and process of the request's.\<close>

definition pview :: "nat mongodb_globals \<Rightarrow> (string \<times> nat \<times> int) list" where
  "pview G = map (\<lambda>(hash, pc). (hash, pc_client pc, pc_created_by_pid pc)) (g_persistent_clients G)"

definition rview :: "nat mongodb_globals \<Rightarrow> (nat \<times> int) list" where
  "rview G = map (\<lambda>(i, pc). (pc_client pc, pc_created_by_pid pc)) (request_entries G)"

definition clients_view :: "nat mongodb_globals \<Rightarrow> (nat \<times> int) list" where
  "clients_view G = map snd (pview G) @ rview G"

abbreviation pclients :: "nat mongodb_globals \<Rightarrow> nat list" where
  "pclients G \<equiv> map (fst \<circ> snd) (pview G)"

abbreviation rclients :: "nat mongodb_globals \<Rightarrow> nat list" where
  "rclients G \<equiv> map fst (rview G)"

lemma clients_view_entries: "clients_view G = map (\<lambda>pc. (pc_client pc, pc_created_by_pid pc)) (client_entries G)"
  by (simp add: clients_view_def pview_def rview_def client_entries_def comp_def case_prod_beta)

lemma registry_distinct: "registry_ok G \<Longrightarrow> distinct (pclients G @ rclients G)"
proof -
  assume "registry_ok G"
  then have "distinct (map fst (clients_view G))"
    by (simp add: registry_ok_def clients_view_entries comp_def)
  then show ?thesis by (simp add: clients_view_def comp_def)
qed

lemma rview_unique: "registry_ok G \<Longrightarrow> (c, p) \<in> set (rview G) \<Longrightarrow> (c, p') \<in> set (rview G) \<Longrightarrow> p = p'"
  using registry_distinct[of G] by (auto intro: eq_key_imp_eq_value)

lemma registry_disjoint: "registry_ok G \<Longrightarrow> c \<in> set (rclients G) \<Longrightarrow> c \<notin> set (pclients G)"
  using registry_distinct[of G] unfolding distinct_append by blast

definition same_clients :: "nat mongodb_globals \<Rightarrow> nat mongodb_globals \<Rightarrow> bool" where
  "same_clients G G' \<longleftrightarrow> pview G' = pview G \<and> rview G' = rview G"

lemma reset_first_view:
  "reset_first p P t = (t', calls) \<Longrightarrow>
     map (\<lambda>(k, pc). (k, pc_client pc, pc_created_by_pid pc)) t' = map (\<lambda>(k, pc). (k, pc_client pc, pc_created_by_pid pc)) t
     \<and> (\<exists>cs. calls = map ClientReset cs \<and> set cs \<subseteq> (pc_client \<circ> snd) ` set t)"
proof (induction t arbitrary: t' calls)
  case (Cons e t)
  show ?case
  proof (cases "P e")
    case True
    then have "calls = [] \<and> t' = e # t \<or> calls = map ClientReset [pc_client (snd e)] \<and> t' = (fst e, snd e\<lparr>pc_last_reset_by_pid := p\<rparr>) # t"
      using Cons.prems by (auto simp: phongo_pclient_reset_once_def split: if_splits)
    then show ?thesis
    proof (elim disjE conjE)
      assume "calls = map ClientReset [pc_client (snd e)]" "t' = (fst e, snd e\<lparr>pc_last_reset_by_pid := p\<rparr>) # t"
      then show ?thesis by (auto simp: case_prod_beta intro!: exI[of _ "[pc_client (snd e)]"])
    qed (auto intro!: exI[of _ "[]"])
  next
    case False
    then obtain t1 where "reset_first p P t = (t1, calls)" "t' = e # t1"
      using Cons.prems by (auto simp: Let_def split: prod.splits)
    then show ?thesis using Cons.IH[of t1 calls] by auto
  qed
qed auto

lemma clients_view_set:
  "fst ` set (clients_view G) = (pc_client \<circ> snd) ` set (g_persistent_clients G) \<union> (pc_client \<circ> snd) ` set (request_entries G)"
  by (simp add: clients_view_entries client_entries_def image_image image_Un comp_def)

lemma reset_one_view:
  assumes "client_reset_one p m G = Some (G', calls)"
  shows "same_clients G G' \<and> (\<exists>cs. calls = map ClientReset cs \<and> set cs \<subseteq> fst ` set (clients_view G))"
proof (cases "mgr_use_persistent_client m")
  case True
  obtain t where t: "reset_first p (\<lambda>e. fst e = mgr_client_hash m) (g_persistent_clients G) = (t, calls)"
    and G': "G' = G\<lparr>g_persistent_clients := t\<rparr>"
    using assms True by (auto simp: client_reset_one_def Let_def split: prod.splits)
  have "same_clients G G'" using reset_first_view[OF t] by (simp add: same_clients_def G' pview_def rview_def request_entries_def)
  moreover obtain cs where "calls = map ClientReset cs" "set cs \<subseteq> (pc_client \<circ> snd) ` set (g_persistent_clients G)"
    using reset_first_view[OF t] by blast
  ultimately show ?thesis unfolding clients_view_set by blast
next
  case False
  obtain q t where q: "g_request_clients G = Some q"
    and t: "reset_first p (\<lambda>e. pc_client (snd e) = mgr_client m) (it_entries q) = (t, calls)"
    and G': "G' = G\<lparr>g_request_clients := Some (q\<lparr>it_entries := t\<rparr>)\<rparr>"
    using assms False by (auto simp: client_reset_one_def Let_def split: prod.splits option.splits)
  have "map snd (map (\<lambda>(k, pc). (k, pc_client pc, pc_created_by_pid pc)) t)
      = map snd (map (\<lambda>(k, pc). (k, pc_client pc, pc_created_by_pid pc)) (it_entries q))"
    using reset_first_view[OF t] by simp
  then have "rview G' = rview G"
    by (simp add: G' q rview_def request_entries_def comp_def split_def)
  then have "same_clients G G'" by (simp add: same_clients_def G' q pview_def)
  moreover obtain cs where "calls = map ClientReset cs" "set cs \<subseteq> (pc_client \<circ> snd) ` set (request_entries G)"
    using reset_first_view[OF t] q by (auto simp: request_entries_def)
  ultimately show ?thesis unfolding clients_view_set by blast
qed

lemma same_clients_trans: "same_clients G G1 \<Longrightarrow> same_clients G1 G2 \<Longrightarrow> same_clients G G2"
  by (simp add: same_clients_def)

lemma reset_once_view:
  "php_phongo_client_reset_once fuel D p m G = Some (G', calls) \<Longrightarrow>
     same_clients G G' \<and> (\<exists>cs. calls = map ClientReset cs \<and> set cs \<subseteq> fst ` set (clients_view G))"
proof (induction fuel arbitrary: m G' calls)
  case (Suc fuel)
  show ?case
  proof (cases "mgr_key_vault_client_manager m = ZUndef")
    case True
    then show ?thesis using Suc.prems reset_one_view by simp
  next
    case False
    then obtain kv G1 c1 c2 where r: "php_phongo_client_reset_once fuel D p kv G = Some (G1, c1)"
      "client_reset_one p m G1 = Some (G', c2)" "calls = c1 @ c2"
      using Suc.prems(1) by (auto split: option.splits driver_obj.splits)
    from Suc.IH[OF r(1)] obtain cs1 where h1: "same_clients G G1" "c1 = map ClientReset cs1" "set cs1 \<subseteq> fst ` set (clients_view G)" by blast
    from reset_one_view[OF r(2)] obtain cs2 where h2: "same_clients G1 G'" "c2 = map ClientReset cs2" "set cs2 \<subseteq> fst ` set (clients_view G1)" by blast
    have "clients_view G1 = clients_view G" using h1(1) by (simp add: same_clients_def clients_view_def)
    then have "calls = map ClientReset (cs1 @ cs2) \<and> set (cs1 @ cs2) \<subseteq> fst ` set (clients_view G)"
      using h1 h2 r(3) by simp
    then show ?thesis using same_clients_trans[OF h1(1) h2(1)] by blast
  qed
qed simp


section \<open>The world: objects, registries, calls\<close>

text \<open>What matters of an object.\<close>

datatype object_kind = KManager "nat option" "string option" bool zval | KHandle "mongoc_handle option" "zval option"

fun kind_of :: "php_object \<Rightarrow> object_kind" where
  "kind_of (ObManager m) = KManager (mi_client m) (mi_client_hash m) (mi_use_persistent_client m) (mi_key_vault_client_manager m)"
| "kind_of object = KHandle (object_handle object) (object_manager object)"

type_synonym world = "nat \<Rightarrow> object_kind option"

definition world_of :: "object_heap \<Rightarrow> world" where
  "world_of h a = map_option kind_of (object_at h a)"

definition is_manager :: "world \<Rightarrow> nat \<Rightarrow> bool" where
  "is_manager W a \<longleftrightarrow> (\<exists>oc oh b kv. W a = Some (KManager oc oh b kv))"

fun client_at :: "world \<Rightarrow> zval option \<Rightarrow> nat option" where
  "client_at W (Some (ZAddr m)) = (case W m of Some (KManager oc _ _ _) \<Rightarrow> oc | _ \<Rightarrow> None)"
| "client_at W _ = None"

text \<open>A Manager that lives has a registered client, and its key vault's Manager is older and lives.\<close>

definition managers_ok :: "world \<Rightarrow> nat mongodb_globals \<Rightarrow> bool" where
  "managers_ok W G \<longleftrightarrow> (\<forall>a oc oh b kv. W a = Some (KManager oc oh b kv) \<longrightarrow>
     (\<exists>c hash. oc = Some c \<and> oh = Some hash \<and> (if b then \<exists>p. (hash, c, p) \<in> set (pview G) else c \<in> set (rclients G)))
     \<and> (kv = ZUndef \<or> (\<exists>k. kv = ZAddr k \<and> k < a \<and> is_manager W k)))"

text \<open>A client of the request is that of one Manager.\<close>

definition request_ok :: "world \<Rightarrow> nat mongodb_globals \<Rightarrow> bool" where
  "request_ok W G \<longleftrightarrow> (\<forall>c \<in> set (rclients G). \<exists>a oh kv. W a = Some (KManager (Some c) oh False kv))
     \<and> (\<forall>a a' c oh oh' kv kv'. W a = Some (KManager (Some c) oh False kv) \<longrightarrow> W a' = Some (KManager (Some c) oh' False kv') \<longrightarrow> a = a')"

lemma request_unique:
  "request_ok W G \<Longrightarrow> W a = Some (KManager (Some c) oh False kv) \<Longrightarrow> W a' = Some (KManager (Some c) oh' False kv') \<Longrightarrow> a = a'"
  unfolding request_ok_def by blast

text \<open>The client of the key vault is that of its Manager, or registered before.\<close>

definition vaults_ok :: "world \<Rightarrow> nat mongodb_globals \<Rightarrow> mongoc_call list \<Rightarrow> bool" where
  "vaults_ok W G log \<longleftrightarrow>
     (\<forall>a c oh kv p kc. W a = Some (KManager (Some c) oh False kv) \<longrightarrow> ClientNew p c (Some kc) \<in> set log \<longrightarrow>
        (\<exists>k oh' kv'. kv = ZAddr k \<and> W k = Some (KManager (Some kc) oh' False kv')))
     \<and> (\<forall>xs c ys p kc. pclients G = xs @ c # ys \<longrightarrow> ClientNew p c (Some kc) \<in> set log \<longrightarrow> kc \<in> set xs)"

text \<open>The handles that are not destroyed are those of the objects that live.\<close>

definition handles_ok :: "world \<Rightarrow> mongoc_call list \<Rightarrow> bool" where
  "handles_ok W log \<longleftrightarrow>
     (\<forall>a hn z. W a = Some (KHandle (Some hn) z) \<longrightarrow> HandleDestroy hn \<notin> set log \<and> HandleNew (client_at W z) hn \<in> set log)
     \<and> (\<forall>a oh z. W a = Some (KHandle oh (Some z)) \<longrightarrow> (\<exists>m. z = ZAddr m \<and> is_manager W m))
     \<and> (\<forall>a a' hn z z'. W a = Some (KHandle (Some hn) z) \<longrightarrow> W a' = Some (KHandle (Some hn) z') \<longrightarrow> a = a')
     \<and> (\<forall>oc hn. HandleNew oc hn \<in> set log \<longrightarrow> HandleDestroy hn \<notin> set log \<longrightarrow> (\<exists>a z. W a = Some (KHandle (Some hn) z)))"

text \<open>The registered clients are not destroyed; those of this process are registered until they are.\<close>

definition entries_ok :: "nat mongodb_globals \<Rightarrow> int \<Rightarrow> mongoc_call list \<Rightarrow> bool" where
  "entries_ok G pid log \<longleftrightarrow> registry_ok G
     \<and> (\<forall>(c, p) \<in> set (clients_view G). (\<exists>kv. ClientNew p c kv \<in> set log) \<and> \<not> destroyed log c)
     \<and> (\<forall>c kv. ClientNew pid c kv \<in> set log \<longrightarrow> destroyed log c \<or> c \<in> fst ` set (clients_view G))"

definition world_ok :: "world \<Rightarrow> nat mongodb_globals \<Rightarrow> int \<Rightarrow> mongoc_call list \<Rightarrow> bool" where
  "world_ok W G pid log \<longleftrightarrow> managers_ok W G \<and> request_ok W G \<and> vaults_ok W G log \<and> handles_ok W log
     \<and> entries_ok G pid log \<and> log_safe log"

lemma world_okD:
  assumes "world_ok W G pid log"
  shows "managers_ok W G" "request_ok W G" "vaults_ok W G log" "handles_ok W log" "entries_ok G pid log" "log_safe log"
    "registry_ok G"
  using assms by (auto simp: world_ok_def entries_ok_def)

lemma registered_set: "fst ` set (clients_view G) = set (pclients G) \<union> set (rclients G)"
  by (auto simp: clients_view_def image_Un image_image)

text \<open>Calls that are neutral, and resets, keep the world.\<close>

lemma world_neutral:
  assumes "world_ok W G pid log" and "same_clients G G'" and "registry_ok G'" and "list_all neutral calls"
    and "safe_calls log calls"
  shows "world_ok W G' pid (log @ calls)"
proof -
  have v: "pview G' = pview G" "rview G' = rview G" "clients_view G' = clients_view G"
    using assms(2) by (simp_all add: same_clients_def clients_view_def)
  show ?thesis
    using assms(1,3,5) neutral_set[OF assms(4)]
    unfolding world_ok_def managers_ok_def request_ok_def vaults_ok_def handles_ok_def entries_ok_def v log_safe_append
    by simp
qed

text \<open>The registered clients are ready.\<close>

lemma registered_alive:
  "entries_ok G pid log \<Longrightarrow> c \<in> fst ` set (clients_view G) \<Longrightarrow> alive log c"
  by (fastforce simp: entries_ok_def alive_def)

lemma registered_ready:
  assumes "world_ok W G pid log" and "c \<in> fst ` set (clients_view G)"
  shows "ready log c"
proof -
  note w = world_okD[OF assms(1)]
  have "alive log kc" if n: "ClientNew p c (Some kc) \<in> set log" for p kc
  proof (cases "c \<in> set (pclients G)")
    case True
    then obtain xs ys where "pclients G = xs @ c # ys" by (auto simp: in_set_conv_decomp)
    moreover from this have "kc \<in> set xs" using w(3) n by (auto simp: vaults_ok_def)
    ultimately have "kc \<in> set (pclients G)" by simp
    then show ?thesis using registered_alive[OF w(5)] registered_set by blast
  next
    case False
    then have "c \<in> set (rclients G)" using assms(2) registered_set by blast
    then obtain a oh kv where "W a = Some (KManager (Some c) oh False kv)" using w(2) by (fastforce simp: request_ok_def)
    then obtain k oh' kv' where "W k = Some (KManager (Some kc) oh' False kv')" using w(3) n unfolding vaults_ok_def by blast
    then have "kc \<in> set (rclients G)" using w(1) by (fastforce simp: managers_ok_def)
    then show ?thesis using registered_alive[OF w(5)] registered_set by blast
  qed
  then show ?thesis using registered_alive[OF w(5) assms(2)] by (simp add: ready_def)
qed

lemma manager_registered:
  assumes "managers_ok W G" and "W a = Some (KManager oc oh b kv)"
  shows "\<exists>c. oc = Some c \<and> c \<in> set (if b then pclients G else rclients G)"
  using assms unfolding managers_ok_def by (force simp: image_iff)

lemma client_at_ready:
  assumes "world_ok W G pid log" and "client_at W z = Some c"
  shows "ready log c"
proof -
  obtain m oh b kv where "W m = Some (KManager (Some c) oh b kv)"
    using assms(2) by (cases "(W, z)" rule: client_at.cases) (auto split: option.splits object_kind.splits)
  from manager_registered[OF world_okD(1)[OF assms(1)] this] have "c \<in> fst ` set (clients_view G)"
    by (auto simp: registered_set split: if_splits)
  then show ?thesis by (rule registered_ready[OF assms(1)])
qed

lemma handle_in_use:
  assumes "world_ok W G pid log" and "W a = Some (KHandle (Some hn) z)"
  shows "in_use log hn"
  using world_okD(4)[OF assms(1)] assms(2) client_at_ready[OF assms(1), of z]
  unfolding handles_ok_def in_use_def by blast


section \<open>A Manager is freed\<close>

lemma manager_unregister_view:
  assumes "php_phongo_manager_unregister a G = (r, G1)"
  shows "same_clients G G1" and "registry_ok G \<Longrightarrow> registry_ok G1"
proof -
  have "G1 = G \<or> (\<exists>t. G1 = G\<lparr>g_managers := t\<rparr>)"
    using assms by (auto simp: php_phongo_manager_unregister_def split: option.splits)
  then have e: "g_persistent_clients G1 = g_persistent_clients G" "g_request_clients G1 = g_request_clients G" by auto
  then have q: "request_entries G1 = request_entries G" "client_entries G1 = client_entries G"
    by (simp_all add: request_entries_def client_entries_def)
  show "same_clients G G1" by (simp add: same_clients_def pview_def rview_def e q)
  show "registry_ok G \<Longrightarrow> registry_ok G1" by (simp add: registry_ok_def e q)
qed

lemma client_unregister_view:
  assumes G: "registry_ok G" and r: "php_phongo_client_unregister pid m G = (r, G', calls)"
    and m: "\<not> mgr_use_persistent_client m" "(mgr_client m, p) \<in> set (rview G)"
  shows "calls = (if p = pid then [ClientClearApm (mgr_client m), ClientDestroy (mgr_client m)] else [])"
    and "pview G' = pview G" and "set (rview G') = set (rview G) - {(mgr_client m, p)}"
proof -
  obtain q where q: "g_request_clients G = Some q" using m(2) by (cases "g_request_clients G") (auto simp: rview_def request_entries_def)
  have e: "request_entries G = it_entries q" using q by (simp add: request_entries_def)
  have "\<exists>e \<in> set (it_entries q). (\<lambda>(i, pc). pc_client pc = mgr_client m) e"
    using m(2) unfolding rview_def e by (force simp: split_def)
  then have "find_client (mgr_client m) (it_entries q) \<noteq> None"
    unfolding find_client_def find_None_iff by blast
  then obtain i pc where f: "find_client (mgr_client m) (it_entries q) = Some (i, pc)" by auto
  obtain xs ys where h: "it_entries q = xs @ (i, pc) # ys" "pc_client pc = mgr_client m" using find_client_split[OF f] by blast
  have d: "distinct (map fst (xs @ (i, pc) # ys))" using G h(1) e by (simp add: registry_ok_def)
  have dc: "distinct (rclients G)" using registry_distinct[OF G] by simp
  have v: "rview G = rview_of xs @ (mgr_client m, pc_created_by_pid pc) # rview_of ys" if "rview_of = map (\<lambda>(i, pc). (pc_client pc, pc_created_by_pid pc))" for rview_of
    using that by (simp add: rview_def e h)
  then have p: "p = pc_created_by_pid pc" using m(2) dc by (auto simp: image_iff)
  have G': "G' = G\<lparr>g_request_clients := Some (index_del q i)\<rparr>" and c: "calls = php_phongo_pclient_destroy pid pc"
    using r q f m(1) by (simp_all add: php_phongo_client_unregister_def)
  show "calls = (if p = pid then [ClientClearApm (mgr_client m), ClientDestroy (mgr_client m)] else [])"
    by (simp add: c p php_phongo_pclient_destroy_def h)
  show "pview G' = pview G" by (simp add: G' pview_def)
  have "rview G' = map (\<lambda>(i, pc). (pc_client pc, pc_created_by_pid pc)) (xs @ ys)"
    unfolding rview_def request_entries_def G' by (simp add: index_del_def h(1) filter_index[OF d] del: filter_append)
  then show "set (rview G') = set (rview G) - {(mgr_client m, p)}"
    using v[OF refl] dc unfolding p by (auto simp: image_iff)
qed

text \<open>A reference to a Manager in the world.\<close>

definition points_to :: "world \<Rightarrow> nat \<Rightarrow> bool" where
  "points_to W a \<longleftrightarrow> (\<exists>x oh. W x = Some (KHandle oh (Some (ZAddr a)))) \<or> (\<exists>x oc oh b. W x = Some (KManager oc oh b (ZAddr a)))"

lemma client_at_free: "z \<noteq> Some (ZAddr a) \<Longrightarrow> client_at (W(a := None)) z = client_at W z"
  by (cases "(W, z)" rule: client_at.cases) auto

lemma is_manager_free: "is_manager (W(a := None)) k \<longleftrightarrow> k \<noteq> a \<and> is_manager W k"
  by (simp add: is_manager_def)

text \<open>When the Manager of a client of the request goes, the handles of the client are gone.\<close>

lemma handles_gone:
  assumes w: "world_ok W G pid log" and a: "W a = Some (KManager (Some c) oh False kv)" and np: "\<not> points_to W a"
    and n: "HandleNew (Some c) hn \<in> set log"
  shows "HandleDestroy hn \<in> set log"
proof (rule ccontr)
  note ok = world_okD[OF w]
  assume "HandleDestroy hn \<notin> set log"
  then obtain x z where x: "W x = Some (KHandle (Some hn) z)" using ok(4) n unfolding handles_ok_def by blast
  then have "HandleNew (client_at W z) hn \<in> set log" using ok(4) unfolding handles_ok_def by blast
  then have "client_at W z = Some c" using log_safe_once(2)[OF ok(6)] n by blast
  then obtain m oh' b kv' where m: "z = Some (ZAddr m)" "W m = Some (KManager (Some c) oh' b kv')"
    by (cases "(W, z)" rule: client_at.cases) (auto split: option.splits object_kind.splits)
  have "c \<in> set (rclients G)" using manager_registered[OF ok(1) a] by simp
  moreover have "c \<in> set (if b then pclients G else rclients G)" using manager_registered[OF ok(1) m(2)] by simp
  ultimately have "\<not> b" by (cases b) (auto simp del: set_map dest: registry_disjoint[OF ok(7)])
  then have "W m = Some (KManager (Some c) oh' False kv')" using m(2) by simp
  then have "m = a" using ok(2) a unfolding request_ok_def by blast
  then show False using np x m(1) unfolding points_to_def by blast
qed

lemma managers_ok_free:
  assumes "managers_ok W G" and "\<not> points_to W a" and "pview G' = pview G"
    and "\<And>x c oh kv. x \<noteq> a \<Longrightarrow> W x = Some (KManager (Some c) oh False kv) \<Longrightarrow> c \<in> set (rclients G) \<Longrightarrow> c \<in> set (rclients G')"
  shows "managers_ok (W(a := None)) G'"
  unfolding managers_ok_def
proof (intro allI impI)
  fix x oc oh b kv assume "(W(a := None)) x = Some (KManager oc oh b kv)"
  then have x: "x \<noteq> a" "W x = Some (KManager oc oh b kv)" by (auto split: if_splits)
  from assms(1) x(2) have h: "(\<exists>c hash. oc = Some c \<and> oh = Some hash \<and> (if b then \<exists>p. (hash, c, p) \<in> set (pview G) else c \<in> set (rclients G)))"
    "kv = ZUndef \<or> (\<exists>k. kv = ZAddr k \<and> k < x \<and> is_manager W k)" unfolding managers_ok_def by blast+
  from h(1) have "\<exists>c hash. oc = Some c \<and> oh = Some hash \<and> (if b then \<exists>p. (hash, c, p) \<in> set (pview G') else c \<in> set (rclients G'))"
    using assms(3,4) x by (cases b) (auto simp del: set_map)
  moreover have "kv = ZUndef \<or> (\<exists>k. kv = ZAddr k \<and> k < x \<and> is_manager (W(a := None)) k)"
    using h(2) assms(2) x(2) unfolding is_manager_free points_to_def by blast
  ultimately show "(\<exists>c hash. oc = Some c \<and> oh = Some hash \<and> (if b then \<exists>p. (hash, c, p) \<in> set (pview G') else c \<in> set (rclients G')))
     \<and> (kv = ZUndef \<or> (\<exists>k. kv = ZAddr k \<and> k < x \<and> is_manager (W(a := None)) k))" by blast
qed


lemma free_manager_world:
  assumes w: "world_ok W G pid log" and a: "W a = Some (KManager (Some c) oh b kv)" and np: "\<not> points_to W a"
    and r: "php_phongo_client_unregister pid m G = (r, G', calls)" and m: "mgr_client m = c" "mgr_use_persistent_client m = b"
  shows "world_ok (W(a := None)) G' pid (log @ map OnClient calls)"
proof -
  note ok = world_okD[OF w]
  let ?log = "log @ map OnClient calls"
  have reg': "registry_ok G'" using client_unregister_ok[OF ok(7) r] by (simp add: op_ok_def)
  have case_b: "G' = G \<and> calls = []" if b using r m that by (simp add: php_phongo_client_unregister_def)
  have view: "pview G' = pview G \<and> (\<exists>p. (c, p) \<in> set (rview G) \<and> set (rview G') = set (rview G) - {(c, p)}
     \<and> calls = (if p = pid then [ClientClearApm c, ClientDestroy c] else []))" if nb: "\<not> b"
  proof -
    obtain p where p: "(mgr_client m, p) \<in> set (rview G)" using manager_registered[OF ok(1) a] nb m by auto
    then show ?thesis using client_unregister_view[OF ok(7) r _ p] nb m by auto
  qed
  have pv: "pview G' = pview G" using case_b view by blast
  have dest: "destroyed ?log x \<longleftrightarrow> destroyed log x \<or> (\<not> b \<and> x = c \<and> (\<exists>p. (c, p) \<in> set (rview G) \<and> p = pid))" for x
  proof (cases b)
    case False
    then obtain p where p: "(c, p) \<in> set (rview G)" "calls = (if p = pid then [ClientClearApm c, ClientDestroy c] else [])"
      using view by blast
    have "(\<exists>p. (c, p) \<in> set (rview G) \<and> p = pid) \<longleftrightarrow> p = pid"
      using rview_unique[OF ok(7) p(1)] p(1) by blast
    then show ?thesis using False by (simp only: p(2)) auto
  qed (use case_b in auto)
  have new: "ClientNew p x kc \<in> set ?log \<longleftrightarrow> ClientNew p x kc \<in> set log"
    "HandleNew oc hn \<in> set ?log \<longleftrightarrow> HandleNew oc hn \<in> set log"
    "HandleDestroy hn \<in> set ?log \<longleftrightarrow> HandleDestroy hn \<in> set log" for p x kc oc hn by auto
  have other: "x \<noteq> a \<Longrightarrow> W x = Some (KManager (Some c') oh' False kv') \<Longrightarrow> b \<or> c' \<noteq> c" for x c' oh' kv'
    using request_unique[OF ok(2)] a by (cases b) auto
  have keep: "(c', p) \<in> set (rview G) \<Longrightarrow> b \<or> c' \<noteq> c \<Longrightarrow> (c', p) \<in> set (rview G')" for c' p
    using view case_b by (cases b) auto
  have less: "set (rview G') \<subseteq> set (rview G)" using view case_b by blast
  have "managers_ok (W(a := None)) G'"
  proof (rule managers_ok_free[OF ok(1) np pv])
    fix x c' oh' kv' assume "x \<noteq> a" "W x = Some (KManager (Some c') oh' False kv')" "c' \<in> set (rclients G)"
    then show "c' \<in> set (rclients G')" using other keep by (auto simp: image_iff)
  qed
  moreover have "request_ok (W(a := None)) G'"
    unfolding request_ok_def
  proof (intro conjI ballI)
    fix c' assume "c' \<in> set (rclients G')"
    then obtain p' where p': "(c', p') \<in> set (rview G')" by auto
    then have "c' \<in> set (rclients G)" using less by force
    then obtain x oh' kv' where x: "W x = Some (KManager (Some c') oh' False kv')"
      using ok(2) unfolding request_ok_def by blast
    have "x \<noteq> a"
    proof
      assume "x = a"
      then have e: "\<not> b" "c' = c" using x a by auto
      then obtain p where p: "(c, p) \<in> set (rview G)" "set (rview G') = set (rview G) - {(c, p)}" using view by blast
      then have "p' = p" using rview_unique[OF ok(7)] p' less e by blast
      then show False using p p' e by blast
    qed
    then show "\<exists>x oh kv. (W(a := None)) x = Some (KManager (Some c') oh False kv)" using x by auto
  next
    show "\<forall>x x' c oh oh' kv kv'. (W(a := None)) x = Some (KManager (Some c) oh False kv) \<longrightarrow>
       (W(a := None)) x' = Some (KManager (Some c) oh' False kv') \<longrightarrow> x = x'"
      using ok(2) unfolding request_ok_def by (metis fun_upd_apply option.distinct(1))
  qed
  moreover have "vaults_ok (W(a := None)) G' ?log"
    unfolding vaults_ok_def new pv
  proof (intro conjI)
    show "\<forall>x c oh kv p kc. (W(a := None)) x = Some (KManager (Some c) oh False kv) \<longrightarrow> ClientNew p c (Some kc) \<in> set log \<longrightarrow>
        (\<exists>k oh' kv'. kv = ZAddr k \<and> (W(a := None)) k = Some (KManager (Some kc) oh' False kv'))"
    proof (intro allI impI)
      fix x c oh kv p kc assume x: "(W(a := None)) x = Some (KManager (Some c) oh False kv)" "ClientNew p c (Some kc) \<in> set log"
      then have "W x = Some (KManager (Some c) oh False kv)" by (auto split: if_splits)
      moreover from this obtain k oh' kv' where "kv = ZAddr k" "W k = Some (KManager (Some kc) oh' False kv')"
        using ok(3) x(2) unfolding vaults_ok_def by blast
      moreover from this have "k \<noteq> a" using np calculation(1) unfolding points_to_def by blast
      ultimately show "\<exists>k oh' kv'. kv = ZAddr k \<and> (W(a := None)) k = Some (KManager (Some kc) oh' False kv')" by auto
    qed
  qed (use ok(3) in \<open>simp add: vaults_ok_def\<close>)
  moreover have "handles_ok (W(a := None)) ?log"
  proof -
    have at: "W x = Some (KHandle oh (Some z)) \<Longrightarrow> client_at (W(a := None)) (Some z) = client_at W (Some z)" for x oh z
      using np by (intro client_at_free) (auto simp: points_to_def)
    have x: "(W(a := None)) x = Some (KHandle oh z) \<longleftrightarrow> W x = Some (KHandle oh z)" for x oh z using a by auto
    have z: "W x = Some (KHandle oh z) \<Longrightarrow> client_at (W(a := None)) z = client_at W z" for x oh z
      using at by (cases z) auto
    have k: "W x = Some (KHandle oh (Some (ZAddr k))) \<Longrightarrow> k \<noteq> a" for x oh k using np unfolding points_to_def by blast
    note h = ok(4)[unfolded handles_ok_def]
    show ?thesis
      unfolding handles_ok_def new x is_manager_free
    proof (intro conjI allI impI)
      fix y hn z assume y: "W y = Some (KHandle (Some hn) z)"
      show "HandleDestroy hn \<notin> set log" "HandleNew (client_at (W(a := None)) z) hn \<in> set log"
        using h y unfolding z[OF y] by blast+
    next
      fix y oh z assume y: "W y = Some (KHandle oh (Some z))"
      then show "\<exists>m. z = ZAddr m \<and> m \<noteq> a \<and> is_manager W m" using h k by blast
    qed (use h in blast)+
  qed
  moreover have "entries_ok G' pid ?log"
    unfolding entries_ok_def
  proof (intro conjI ballI allI impI)
    fix e assume e: "e \<in> set (clients_view G')"
    obtain x p where xp: "e = (x, p)" by (cases e)
    have e': "(x, p) \<in> set (clients_view G)" using e less pv unfolding xp clients_view_def by auto
    have "\<not> (\<not> b \<and> x = c)"
    proof
      assume h: "\<not> b \<and> x = c"
      then obtain p0 where p0: "(c, p0) \<in> set (rview G)" "set (rview G') = set (rview G) - {(c, p0)}" using view by blast
      then have "c \<in> set (rclients G)" by force
      then have "(x, p) \<in> set (rview G')" using e h registry_disjoint[OF ok(7)] pv unfolding xp clients_view_def by force
      moreover from this have "p = p0" using rview_unique[OF ok(7)] p0 h less by blast
      ultimately show False using p0 h by blast
    qed
    moreover have "(\<exists>kv. ClientNew p x kv \<in> set log) \<and> \<not> destroyed log x" using ok(5) e' unfolding entries_ok_def by blast
    ultimately show "case e of (c, p) \<Rightarrow> (\<exists>kv. ClientNew p c kv \<in> set ?log) \<and> \<not> destroyed ?log c"
      unfolding xp new dest by auto
  next
    fix x kc assume "ClientNew pid x kc \<in> set ?log"
    then have n: "ClientNew pid x kc \<in> set log" unfolding new .
    show "destroyed ?log x \<or> x \<in> fst ` set (clients_view G')"
    proof (rule disjCI)
      assume nd: "x \<notin> fst ` set (clients_view G')"
      show "destroyed ?log x"
      proof (rule ccontr)
        assume d: "\<not> destroyed ?log x"
        then have "x \<in> fst ` set (clients_view G)" using ok(5) n unfolding dest entries_ok_def by blast
        then obtain p where p: "(x, p) \<in> set (clients_view G)" by auto
        then have "\<exists>kv. ClientNew p x kv \<in> set log" using ok(5) unfolding entries_ok_def by blast
        then have pp: "p = pid" using log_safe_once(1)[OF ok(6)] n by blast
        have "(x, p) \<notin> set (clients_view G')" using nd by force
        then have r: "(x, p) \<in> set (rview G)" "(x, p) \<notin> set (rview G')" using p pv unfolding clients_view_def by auto
        then have "\<not> b \<and> x = c" using keep by blast
        then show False using d r pp unfolding dest by blast
      qed
    qed
  qed (rule reg')
  moreover have "log_safe ?log"
  proof (cases "calls = []")
    case False
    then obtain p where p: "\<not> b" "(c, p) \<in> set (rview G)" "calls = [ClientClearApm c, ClientDestroy c]"
      using view case_b by (cases b) (force split: if_splits)+
    have "c \<in> fst ` set (clients_view G)" using p(2) by (force simp: clients_view_def)
    then have rd: "ready log c" by (rule registered_ready[OF w])
    then have "ready (log @ [OnClient (ClientClearApm c)]) c" using ready_neutral[of "[OnClient (ClientClearApm c)]"] by simp
    moreover have "HandleDestroy hn \<in> set log" if "HandleNew (Some c) hn \<in> set log" for hn
      using handles_gone[OF w _ np that] a p(1) by simp
    ultimately show ?thesis using ok(6) rd by (simp add: p(3) log_safe_append)
  qed (use ok(6) in simp)
  ultimately show ?thesis by (simp add: world_ok_def)
qed


section \<open>Another object is freed\<close>

lemma free_handle_world:
  assumes w: "world_ok W G pid log" and a: "W a = Some (KHandle oh z)" and G: "same_clients G G'" "registry_ok G'"
    and cs: "set cs \<subseteq> fst ` set (clients_view G)"
  shows "world_ok (W(a := None)) G' pid (log @ map (OnClient \<circ> ClientReset) cs
     @ (case oh of None \<Rightarrow> [] | Some hn \<Rightarrow> [HandleDestroy hn]))"
proof -
  let ?r = "map (OnClient \<circ> ClientReset) cs" and ?d = "case oh of None \<Rightarrow> [] | Some hn \<Rightarrow> [HandleDestroy hn]"
  have "\<forall>c \<in> set cs. ready log c" using registered_ready[OF w] cs by blast
  then have "safe_calls log ?r" using safe_resets[of cs log] by (simp add: comp_def)
  then have w1: "world_ok W G' pid (log @ ?r)"
    by (intro world_neutral[OF w G]) (auto simp: list_all_iff)
  note ok = world_okD[OF w1]
  let ?log = "(log @ ?r) @ ?d"
  have new: "ClientNew p x kc \<in> set ?log \<longleftrightarrow> ClientNew p x kc \<in> set (log @ ?r)"
    "HandleNew oc hn \<in> set ?log \<longleftrightarrow> HandleNew oc hn \<in> set (log @ ?r)"
    "destroyed ?log x \<longleftrightarrow> destroyed (log @ ?r) x"
    "HandleDestroy hn \<in> set ?log \<longleftrightarrow> HandleDestroy hn \<in> set (log @ ?r) \<or> oh = Some hn" for p x kc oc hn
    by (auto split: option.splits)
  have man: "(W(a := None)) x = Some (KManager oc oh' b kv) \<longleftrightarrow> W x = Some (KManager oc oh' b kv)" for x oc oh' b kv
    using a by auto
  have ism: "is_manager (W(a := None)) k \<longleftrightarrow> is_manager W k" for k using man by (simp add: is_manager_def)
  have at: "client_at (W(a := None)) y = client_at W y" for y
    using a by (cases "(W, y)" rule: client_at.cases) auto
  have hnd: "(W(a := None)) x = Some (KHandle oh' z') \<longleftrightarrow> x \<noteq> a \<and> W x = Some (KHandle oh' z')" for x oh' z' by auto
  have "handles_ok (W(a := None)) ?log"
  proof -
    note h1 = ok(4)[unfolded handles_ok_def, THEN conjunct1]
      and h2 = ok(4)[unfolded handles_ok_def, THEN conjunct2, THEN conjunct1]
      and h3 = ok(4)[unfolded handles_ok_def, THEN conjunct2, THEN conjunct2, THEN conjunct1]
      and h4 = ok(4)[unfolded handles_ok_def, THEN conjunct2, THEN conjunct2, THEN conjunct2]
    have last: "\<not> (oh = Some hn \<and> x \<noteq> a \<and> W x = Some (KHandle (Some hn) z'))" for hn x z' using h3 a by blast
    have gone: "W a = Some (KHandle (Some hn) z') \<Longrightarrow> oh = Some hn" for hn z' using a by simp
    show ?thesis unfolding handles_ok_def new ism at hnd
    proof (intro conjI allI impI; (elim conjE)?)
      fix x hn z' assume x: "x \<noteq> a" "W x = Some (KHandle (Some hn) z')"
      then have "oh \<noteq> Some hn" using last by blast
      then show "\<not> (HandleDestroy hn \<in> set (log @ ?r) \<or> oh = Some hn)" using h1 x(2) by blast
      show "HandleNew (client_at W z') hn \<in> set (log @ ?r)" using h1 x(2) by blast
    next
      fix oc hn assume n: "HandleNew oc hn \<in> set (log @ ?r)" and d: "\<not> (HandleDestroy hn \<in> set (log @ ?r) \<or> oh = Some hn)"
      obtain x z' where x: "W x = Some (KHandle (Some hn) z')" using h4 n d by blast
      then have "x \<noteq> a" using gone d by auto
      then show "\<exists>x z. x \<noteq> a \<and> W x = Some (KHandle (Some hn) z)" using x by blast
    next
      fix x oh' z' assume "W x = Some (KHandle oh' (Some z'))"
      then show "\<exists>m. z' = ZAddr m \<and> is_manager W m" by (rule h2[rule_format])
    next
      fix x x' hn z' z'' assume "W x = Some (KHandle (Some hn) z')" "W x' = Some (KHandle (Some hn) z'')"
      then show "x = x'" by (rule h3[rule_format])
    qed
  qed
  moreover have "safe_calls (log @ ?r) ?d" using handle_in_use[OF w1] a by (cases oh) auto
  moreover have "managers_ok (W(a := None)) G'" using ok(1) unfolding managers_ok_def man ism .
  moreover have "request_ok (W(a := None)) G'" using ok(2) unfolding request_ok_def man .
  moreover have "vaults_ok (W(a := None)) G' ?log" using ok(3) unfolding vaults_ok_def man new .
  moreover have "entries_ok G' pid ?log" using ok(5) unfolding entries_ok_def new .
  ultimately have "world_ok (W(a := None)) G' pid ?log"
    using ok(6) unfolding world_ok_def by (simp only: log_safe_append simp_thms)
  then show ?thesis by simp
qed

text \<open>A reset is defined: the chain of key vault Managers is finite.\<close>

lemma managers_ok_same: "managers_ok W G \<Longrightarrow> same_clients G G' \<Longrightarrow> managers_ok W G'"
  unfolding managers_ok_def same_clients_def by (elim conjE) (simp only:)

lemma manager_in_store:
  assumes "managers_ok (world_of h) G" and "world_of h a = Some (KManager oc oh b kv)"
  shows "\<exists>m. obj_at (manager_store h) (ZAddr a) = Some (DManager m) \<and> oc = Some (mgr_client m)
    \<and> b = mgr_use_persistent_client m \<and> kv = mgr_key_vault_client_manager m"
proof -
  obtain c hash where c: "oc = Some c" "oh = Some hash" using assms unfolding managers_ok_def by blast
  obtain n ob where ob: "cell_at h a = Some (n, ob)" "kind_of ob = KManager oc oh b kv"
    using assms(2) by (auto simp: world_of_def object_at_def)
  have "a < length h" using ob(1) cell_at_length[of h a] by simp
  moreover have "h ! a = Some (n, ob)" using ob(1) calculation by (simp add: cell_at_def)
  moreover obtain mi where "ob = ObManager mi" using ob(2) by (cases ob) auto
  ultimately show ?thesis using ob(2) c by (auto simp: manager_store_def manager_of_def)
qed

lemma reset_one_defined:
  assumes "managers_ok W G" and "W a = Some (KManager oc oh (mgr_use_persistent_client m) kv)"
  shows "client_reset_one pid m G \<noteq> None"
proof (cases "mgr_use_persistent_client m")
  case False
  then have "rclients G \<noteq> []" using manager_registered[OF assms] by auto
  then have "g_request_clients G \<noteq> None" by (cases "g_request_clients G") (auto simp: rview_def request_entries_def)
  then show ?thesis using False by (auto simp: client_reset_one_def split: prod.splits)
qed (simp add: client_reset_one_def split: prod.splits)

lemma reset_once_defined:
  assumes "managers_ok (world_of h) G" and "world_of h a = Some (KManager oc oh b kv)" and "a < fuel"
    and "obj_at (manager_store h) (ZAddr a) = Some (DManager m)"
  shows "php_phongo_client_reset_once fuel (manager_store h) pid m G \<noteq> None"
  using assms
proof (induction fuel arbitrary: a oc oh b kv m)
  case (Suc fuel)
  have m: "b = mgr_use_persistent_client m" "kv = mgr_key_vault_client_manager m"
    using manager_in_store[OF Suc.prems(1,2)] Suc.prems(4) by auto
  show ?case
  proof (cases "kv = ZUndef")
    case True
    then show ?thesis using reset_one_defined[OF Suc.prems(1) Suc.prems(2)[unfolded m(1)]] m(2) by simp
  next
    case False
    then obtain k where k: "kv = ZAddr k" "k < a" "is_manager (world_of h) k" using Suc.prems(1,2) unfolding managers_ok_def by blast
    then obtain oc' oh' b' kv' where W: "world_of h k = Some (KManager oc' oh' b' kv')" by (auto simp: is_manager_def)
    obtain mk where mk: "obj_at (manager_store h) (ZAddr k) = Some (DManager mk)" using manager_in_store[OF Suc.prems(1) W] by blast
    have "k < fuel" using k(2) Suc.prems(3) by simp
    from Suc.IH[OF Suc.prems(1) W this mk] obtain G1 calls
      where r: "php_phongo_client_reset_once fuel (manager_store h) pid mk G = Some (G1, calls)" by auto
    have "client_reset_one pid m G1 \<noteq> None"
      using reset_one_defined[OF managers_ok_same[OF Suc.prems(1)] Suc.prems(2)[unfolded m(1)]] reset_once_view[OF r] by blast
    then show ?thesis using r k(1) m(2) mk False by (auto split: option.splits)
  qed
qed simp

lemma reset_client_world:
  assumes "managers_ok (world_of h) G" and "registry_ok G" and "is_manager (world_of h) k"
  shows "\<exists>G' cs. reset_client h pid p (ZAddr k) G = Some (G', map (OnClient \<circ> ClientReset) cs) \<and> same_clients G G' \<and> registry_ok G'
    \<and> set cs \<subseteq> fst ` set (clients_view G)"
proof -
  obtain oc oh b kv where k: "world_of h k = Some (KManager oc oh b kv)" using assms(3) by (auto simp: is_manager_def)
  obtain m where m: "obj_at (manager_store h) (ZAddr k) = Some (DManager m)" using manager_in_store[OF assms(1) k] by blast
  show ?thesis
  proof (cases "p = pid")
    case True
    then show ?thesis using m assms(2)
      by (auto simp: reset_client_def PHONGO_RESET_CLIENT_IF_PID_DIFFERS_def same_clients_def intro!: exI[of _ "[]"])
  next
    case False
    have "k < Suc (length h)" using k cell_at_length[of h k] by (auto simp: world_of_def object_at_def)
    from reset_once_defined[OF assms(1) k this m] obtain G' calls
      where r: "php_phongo_client_reset_once (Suc (length h)) (manager_store h) pid m G = Some (G', calls)" by fast
    obtain cs where "same_clients G G'" "calls = map ClientReset cs" "set cs \<subseteq> fst ` set (clients_view G)"
      using reset_once_view[OF r] by blast
    moreover have "registry_ok G'" using client_reset_once_ok[OF r assms(2)] by (simp add: op_ok_def)
    ultimately show ?thesis using m r False
      by (auto simp: reset_client_def PHONGO_RESET_CLIENT_IF_PID_DIFFERS_def simp del: php_phongo_client_reset_once.simps intro!: exI[of _ cs])
  qed
qed

end
