(* ===== verification/Driver_Lifetime_Steps.thy ===== *)
theory Driver_Lifetime_Steps
  imports Driver_Lifetime_World
begin

text \<open>
  The invariant is kept by dropping references, whatever that frees, and by what a program does
  with the driver.
\<close>

section \<open>Freeing and dropping\<close>

lemma world_of_free: "world_of (h[a := None]) = (world_of h)(a := None)"
  by (rule ext) (simp add: world_of_def object_at_def cell_at_def)

lemma world_of_cell: "cell_at h a = Some (n, ob) \<Longrightarrow> world_of h a = Some (kind_of ob)"
  by (simp add: world_of_def object_at_def)

lemma world_of_count: "cell_at h a = Some (n, ob) \<Longrightarrow> world_of (h[a := Some (k, ob)]) = world_of h"
  by (rule ext) (auto simp: world_of_def object_at_def cell_at_update cell_at_length)

lemma kind_refs:
  "kind_of ob = KHandle oh (Some (ZAddr k)) \<Longrightarrow> k \<in> set (object_refs ob)"
  "kind_of ob = KManager oc hash b (ZAddr k) \<Longrightarrow> k \<in> set (object_refs ob)"
  by (cases ob; simp add: php_phongo_cursor_free_refs_def manager_free_refs_def)+

lemma points_to_refs:
  assumes "points_to (world_of h) a"
  shows "\<exists>x ob. object_at h x = Some ob \<and> a \<in> set (object_refs ob)"
  using assms kind_refs unfolding points_to_def world_of_def by fastforce

lemma no_points_to:
  assumes "counts_ok h (a # refs)" and c: "cell_at h a = Some (n, ob)" and "\<not> n > 1"
  shows "\<not> points_to (world_of h) a"
proof
  assume "points_to (world_of h) a"
  then obtain x ob' where x: "object_at h x = Some ob'" "a \<in> set (object_refs ob')" using points_to_refs by blast
  note l = last_ref_ok(2)[OF assms]
  show False
  proof (cases "x = a")
    case True
    then show False using x c l by (simp add: object_at_def)
  next
    case False
    then have "object_at (h[a := None]) x = Some ob'" using x(1) c cell_at_length[of h a] by (simp add: object_at_def cell_at_update)
    then show False using heap_refs_member x(2) l by blast
  qed
qed

lemma free_object_handle:
  assumes w: "world_ok (world_of h) G pid log" and c: "cell_at h a = Some (n, ob)" and k: "kind_of ob = KHandle oh z"
    and f: "\<And>G' cs. z = None \<Longrightarrow> free_object (h[a := None]) pid a ob G = Some (G, case oh of None \<Rightarrow> [] | Some hn \<Rightarrow> [HandleDestroy hn])"
    and r: "\<And>m. z = Some (ZAddr m) \<Longrightarrow> \<exists>p. free_object (h[a := None]) pid a ob G =
        map_option (\<lambda>(G1, calls). (G1, calls @ (case oh of None \<Rightarrow> [] | Some hn \<Rightarrow> [HandleDestroy hn]))) (reset_client (h[a := None]) pid p (ZAddr m) G)
      \<or> free_object (h[a := None]) pid a ob G = Some (G, case oh of None \<Rightarrow> [] | Some hn \<Rightarrow> [HandleDestroy hn])"
  shows "\<exists>G1 calls. free_object (h[a := None]) pid a ob G = Some (G1, calls) \<and> world_ok (world_of (h[a := None])) G1 pid (log @ calls)"
proof -
  note a = world_of_cell[OF c, unfolded k] and ok = world_okD[OF w]
  let ?d = "case oh of None \<Rightarrow> [] | Some hn \<Rightarrow> [HandleDestroy hn]"
  have same: "same_clients G G" by (simp add: same_clients_def)
  have plain: "world_ok (world_of (h[a := None])) G pid (log @ ?d)"
    using free_handle_world[OF w a same ok(7), of "[]"] by (simp add: world_of_free)
  show ?thesis
  proof (cases z)
    case None
    then show ?thesis using f plain by blast
  next
    case (Some zm)
    then obtain m where m: "zm = ZAddr m" "is_manager (world_of h) m" using ok(4) a unfolding handles_ok_def by blast
    have "is_manager (world_of (h[a := None])) m" using m(2) a by (auto simp: world_of_free is_manager_def)
    from reset_client_world[OF world_okD(1)[OF plain] ok(7) this] r[of m] Some m(1) obtain p G' cs where
      fr: "free_object (h[a := None]) pid a ob G = Some (G, ?d) \<or>
        free_object (h[a := None]) pid a ob G = Some (G', map (OnClient \<circ> ClientReset) cs @ ?d)
        \<and> same_clients G G' \<and> registry_ok G' \<and> set cs \<subseteq> fst ` set (clients_view G)"
      by (fastforce dest: spec[of _ pid])
    then show ?thesis
    proof
      assume "free_object (h[a := None]) pid a ob G = Some (G, ?d)" then show ?thesis using plain by blast
    next
      assume h: "free_object (h[a := None]) pid a ob G = Some (G', map (OnClient \<circ> ClientReset) cs @ ?d)
        \<and> same_clients G G' \<and> registry_ok G' \<and> set cs \<subseteq> fst ` set (clients_view G)"
      then show ?thesis using free_handle_world[OF w a, of G' cs] by (auto simp: world_of_free)
    qed
  qed
qed

lemma free_object_manager:
  assumes w: "world_ok (world_of h) G pid log" and c: "cell_at h a = Some (n, ObManager m)" and np: "\<not> points_to (world_of h) a"
  shows "\<exists>G1 calls. free_object (h[a := None]) pid a (ObManager m) G = Some (G1, calls)
    \<and> world_ok (world_of (h[a := None])) G1 pid (log @ calls)"
proof -
  obtain cl hash where a: "world_of h a = Some (KManager (Some cl) (Some hash) (mi_use_persistent_client m) (mi_key_vault_client_manager m))"
      "mi_client m = Some cl" "mi_client_hash m = Some hash"
    using world_of_cell[OF c] world_okD(1)[OF w] unfolding managers_ok_def by force
  obtain r G1 where G1: "php_phongo_manager_unregister a G = (r, G1)" by (cases "php_phongo_manager_unregister a G")
  obtain mgr where mgr: "manager_of m = Some mgr" "mgr_client mgr = cl" "mgr_use_persistent_client mgr = mi_use_persistent_client m"
    using a by (simp add: manager_of_def)
  obtain r2 G2 calls where G2: "php_phongo_client_unregister pid mgr G1 = (r2, G2, calls)" by (metis surj_pair)
  have "world_ok (world_of h) G1 pid (log @ [])"
    using manager_unregister_view[OF G1] world_okD(7)[OF w] by (intro world_neutral[OF w]) auto
  then have "world_ok ((world_of h)(a := None)) G2 pid (log @ map OnClient calls)"
    by (intro free_manager_world[OF _ a(1) np G2 mgr(2,3)]) simp
  moreover have "free_object (h[a := None]) pid a (ObManager m) G = Some (G2, map OnClient calls)"
    by (simp add: manager_free_object_def php_phongo_manager_free_object_def G1 G2 mgr(1))
  ultimately show ?thesis by (simp add: world_of_free)
qed

lemma free_object_world:
  assumes w: "world_ok (world_of h) G pid log" and "counts_ok h (a # refs)" and c: "cell_at h a = Some (n, ob)" and "\<not> n > 1"
  shows "\<exists>G1 calls. free_object (h[a := None]) pid a ob G = Some (G1, calls) \<and> world_ok (world_of (h[a := None])) G1 pid (log @ calls)"
proof (cases ob)
  case (ObManager m)
  then show ?thesis using free_object_manager[OF w] c no_points_to[OF assms(2-4)] by blast
next
  case (ObSession ses)
  show ?thesis by (rule free_object_handle[OF w c]) (auto simp: ObSession session_free_object_def option.map_comp comp_def split: option.splits)
next
  case (ObCursor cur p)
  show ?thesis by (rule free_object_handle[OF w c]) (auto simp: ObCursor php_phongo_cursor_free_object_def)
next
  case (ObClientEncryption e)
  show ?thesis by (rule free_object_handle[OF w c]) (auto simp: ObClientEncryption clientencryption_free_object_def split: option.splits)
next
  case (ObBulkWrite b)
  show ?thesis by (rule free_object_handle[OF w c]) (auto simp: ObBulkWrite php_phongo_bulkwrite_free_object_def split: option.splits)
qed (rule free_object_handle[OF w c, of None None]; simp)+

text \<open>Dropping references is defined, and leaves the others.\<close>

definition lifetime_ok :: "lifetime \<Rightarrow> nat list \<Rightarrow> bool" where
  "lifetime_ok s refs \<longleftrightarrow> counts_ok (lt_heap s) refs \<and> world_ok (world_of (lt_heap s)) (lt_globals s) (lt_pid s) (lt_log s)"

lemma zval_ptr_dtor_ok:
  "lifetime_ok s (addrs @ refs) \<Longrightarrow>
     \<exists>t. zval_ptr_dtor addrs s = Some t \<and> lifetime_ok t refs \<and> lt_user t = lt_user s \<and> lt_pid t = lt_pid s"
proof (induction addrs s rule: zval_ptr_dtor.induct)
  case (2 a rest s)
  have ok: "counts_ok (lt_heap s) (a # rest @ refs)" "world_ok (world_of (lt_heap s)) (lt_globals s) (lt_pid s) (lt_log s)"
    using "2.prems" by (simp_all add: lifetime_ok_def)
  have "object_at (lt_heap s) a \<noteq> None" by (rule counts_ok_live[OF ok(1)]) simp
  then obtain n ob where c: "cell_at (lt_heap s) a = Some (n, ob)" by (auto simp: object_at_def)
  show ?case
  proof (cases "n > 1")
    case True
    let ?s = "s\<lparr>lt_heap := (lt_heap s)[a := Some (n - 1, ob)]\<rparr>"
    have "lifetime_ok ?s (rest @ refs)" using drop_ref_ok[OF ok(1) c True] ok(2) by (simp add: lifetime_ok_def world_of_count[OF c])
    from "2.IH"(1)[OF c refl True this] show ?thesis using c True by (simp add: zval_ptr_dtor.simps(2))
  next
    case False
    let ?h = "(lt_heap s)[a := None]"
    obtain G1 calls where f: "free_object ?h (lt_pid s) a ob (lt_globals s) = Some (G1, calls)"
      and w: "world_ok (world_of ?h) G1 (lt_pid s) (lt_log s @ calls)" using free_object_world[OF ok(2,1) c False] by blast
    let ?s = "s\<lparr>lt_heap := ?h, lt_globals := G1, lt_log := lt_log s @ calls\<rparr>"
    have "lifetime_ok ?s ((object_refs ob @ rest) @ refs)" using last_ref_ok(1)[OF ok(1) c False] w by (simp add: lifetime_ok_def)
    from "2.IH"(2)[OF c refl False refl f refl this] show ?thesis using c False f by (simp add: zval_ptr_dtor.simps(2))
  qed
qed simp


section \<open>New objects\<close>

lemma world_of_add_ref [simp]: "world_of (add_ref a h) = world_of h"
  by (rule ext) (simp add: world_of_def)

lemma world_of_set:
  assumes "object_at h a \<noteq> None"
  shows "world_of (set_object a ob h) = (world_of h)(a := Some (kind_of ob))"
  using assms by (intro ext) (simp add: world_of_def set_object_at)

lemma world_of_set_same:
  "object_at h a = Some old \<Longrightarrow> kind_of ob = kind_of old \<Longrightarrow> world_of (set_object a ob h) = world_of h"
  by (rule ext) (auto simp: world_of_def set_object_at)

lemma object_at_new: "object_at (h @ [Some (n, ob)]) b = (if b = length h then Some ob else object_at h b)"
  by (auto simp: object_at_def cell_at_snoc)

lemma world_of_new:
  "world_of (fold add_ref rs h @ [Some (n, ob)]) = (world_of h)(length h := Some (kind_of ob))"
  by (rule ext) (auto simp: world_of_def object_at_new)

lemma world_of_length [simp]: "world_of h (length h) = None"
  by (simp add: world_of_def object_at_def cell_at_def)

lemma new_object_lifetime:
  assumes "counts_ok (lt_heap s) (lt_user s)" and "held s (object_refs ob)"
    and "world_ok ((world_of (lt_heap s))(length (lt_heap s) := Some (kind_of ob))) (lt_globals s) (lt_pid s) (lt_log s)"
  shows "lifetime_ok (new_object ob s) (lt_user (new_object ob s))"
  using assms new_object_ok[of "lt_heap s" "lt_user s" ob]
  by (simp add: lifetime_ok_def new_object_def world_of_new held_def)

text \<open>An object with a handle of libmongoc, or without.\<close>

lemma new_handle_world:
  assumes w: "world_ok W G pid log" and n: "W n = None" and z: "z = None \<or> (\<exists>m. z = Some (ZAddr m) \<and> is_manager W m)"
    and fresh: "\<And>hn oc. oh = Some hn \<Longrightarrow> HandleNew oc hn \<notin> set log"
  shows "world_ok (W(n := Some (KHandle oh z))) G pid (log @ (case oh of None \<Rightarrow> [] | Some hn \<Rightarrow> [HandleNew (client_at W z) hn]))"
proof -
  let ?W = "W(n := Some (KHandle oh z))" and ?log = "log @ (case oh of None \<Rightarrow> [] | Some hn \<Rightarrow> [HandleNew (client_at W z) hn])"
  note ok = world_okD[OF w]
  have new: "ClientNew p x kc \<in> set ?log \<longleftrightarrow> ClientNew p x kc \<in> set log" "destroyed ?log x \<longleftrightarrow> destroyed log x"
    "HandleNew oc hn \<in> set ?log \<longleftrightarrow> HandleNew oc hn \<in> set log \<or> (oh = Some hn \<and> oc = client_at W z)"
    "HandleDestroy hn \<in> set ?log \<longleftrightarrow> HandleDestroy hn \<in> set log" for p x kc oc hn
    by (auto split: option.splits)
  have man: "?W x = Some (KManager oc oh' b kv) \<longleftrightarrow> W x = Some (KManager oc oh' b kv)" for x oc oh' b kv using n by auto
  have ism: "is_manager ?W k \<longleftrightarrow> is_manager W k" for k using man by (simp add: is_manager_def)
  have at: "client_at ?W y = client_at W y" for y using n by (cases "(W, y)" rule: client_at.cases) auto
  have hnd: "?W x = Some (KHandle oh' z') \<longleftrightarrow> (x = n \<and> oh' = oh \<and> z' = z) \<or> (x \<noteq> n \<and> W x = Some (KHandle oh' z'))" for x oh' z' by auto
  have "handles_ok ?W ?log"
  proof -
    note h1 = ok(4)[unfolded handles_ok_def, THEN conjunct1, rule_format]
      and h2 = ok(4)[unfolded handles_ok_def, THEN conjunct2, THEN conjunct1, rule_format]
      and h3 = ok(4)[unfolded handles_ok_def, THEN conjunct2, THEN conjunct2, THEN conjunct1, rule_format]
      and h4 = ok(4)[unfolded handles_ok_def, THEN conjunct2, THEN conjunct2, THEN conjunct2, rule_format]
    have f1: "oh = Some hn \<Longrightarrow> HandleDestroy hn \<notin> set log" for hn using log_safe_once(3)[OF ok(6)] fresh by blast
    have f2: "oh = Some hn \<Longrightarrow> W x \<noteq> Some (KHandle (Some hn) z')" for hn x z' using h1 fresh by blast
    show ?thesis
      unfolding handles_ok_def new ism at hnd
    proof (intro conjI allI impI)
      fix x hn z' assume "x = n \<and> Some hn = oh \<and> z' = z \<or> x \<noteq> n \<and> W x = Some (KHandle (Some hn) z')"
      then show "HandleDestroy hn \<notin> set log" "HandleNew (client_at W z') hn \<in> set log \<or> oh = Some hn \<and> client_at W z' = client_at W z"
        using f1 h1 by auto
    next
      fix x oh' z' assume "x = n \<and> oh' = oh \<and> Some z' = z \<or> x \<noteq> n \<and> W x = Some (KHandle oh' (Some z'))"
      then show "\<exists>m. z' = ZAddr m \<and> is_manager W m" using z h2 by auto
    next
      fix x x' hn z' z''
      assume "x = n \<and> Some hn = oh \<and> z' = z \<or> x \<noteq> n \<and> W x = Some (KHandle (Some hn) z')"
        "x' = n \<and> Some hn = oh \<and> z'' = z \<or> x' \<noteq> n \<and> W x' = Some (KHandle (Some hn) z'')"
      then show "x = x'" using f2 h3 by (elim disjE) auto
    next
      fix oc hn assume a: "HandleNew oc hn \<in> set log \<or> oh = Some hn \<and> oc = client_at W z" "HandleDestroy hn \<notin> set log"
      show "\<exists>x z'. x = n \<and> Some hn = oh \<and> z' = z \<or> x \<noteq> n \<and> W x = Some (KHandle (Some hn) z')"
      proof (cases "oh = Some hn")
        case False
        then obtain x z' where x: "W x = Some (KHandle (Some hn) z')" using h4 a by blast
        then have "x \<noteq> n" using n by auto
        then show ?thesis using x by blast
      qed auto
    qed
  qed
  moreover have "managers_ok ?W G" using ok(1) unfolding managers_ok_def man ism .
  moreover have "request_ok ?W G" using ok(2) unfolding request_ok_def man .
  moreover have "vaults_ok ?W G ?log" using ok(3) unfolding vaults_ok_def man new .
  moreover have "entries_ok G pid ?log" using ok(5) unfolding entries_ok_def new .
  moreover have "safe_calls log (case oh of None \<Rightarrow> [] | Some hn \<Rightarrow> [HandleNew (client_at W z) hn])"
    using fresh client_at_ready[OF w] by (auto split: option.splits)
  ultimately show ?thesis
    using ok(6) unfolding world_ok_def by (simp only: log_safe_append simp_thms)
qed

text \<open>A session that ends.\<close>

lemma end_handle_world:
  assumes w: "world_ok W G pid log" and a: "W a = Some (KHandle (Some hn) z)"
  shows "world_ok (W(a := Some (KHandle None z))) G pid (log @ [HandleDestroy hn])"
proof -
  have same: "same_clients G G" by (simp add: same_clients_def)
  have w0: "world_ok (W(a := None)) G pid (log @ [HandleDestroy hn])"
    using free_handle_world[OF w a same world_okD(7)[OF w], of "[]"] by simp
  have z: "z = None \<or> (\<exists>m. z = Some (ZAddr m) \<and> is_manager (W(a := None)) m)"
  proof (cases z)
    case (Some zm)
    then obtain m where "zm = ZAddr m" "is_manager W m" using world_okD(4)[OF w] a unfolding handles_ok_def by blast
    then show ?thesis using Some a by (auto simp: is_manager_def)
  qed simp
  show ?thesis using new_handle_world[OF w0 _ z, of a None] by simp
qed

section \<open>New Managers\<close>

lemma client_at_grow: "client_at W z = Some c \<Longrightarrow> W n = None \<Longrightarrow> client_at (W(n := v)) z = Some c"
  by (cases "(W, z)" rule: client_at.cases) (auto split: if_splits)

text \<open>A Manager that is added, of a client that is registered in the new tables.\<close>

lemma add_manager_handles:
  assumes "handles_ok W log" and n: "W n = None"
    and new: "\<And>oc hn. HandleNew oc hn \<in> set log' \<longleftrightarrow> HandleNew oc hn \<in> set log" "\<And>hn. HandleDestroy hn \<in> set log' \<longleftrightarrow> HandleDestroy hn \<in> set log"
  shows "handles_ok (W(n := Some (KManager oc oh b kv))) log'"
proof -
  let ?W = "W(n := Some (KManager oc oh b kv))"
  note h1 = assms(1)[unfolded handles_ok_def, THEN conjunct1, rule_format]
    and h2 = assms(1)[unfolded handles_ok_def, THEN conjunct2, THEN conjunct1, rule_format]
    and h3 = assms(1)[unfolded handles_ok_def, THEN conjunct2, THEN conjunct2, THEN conjunct1, rule_format]
    and h4 = assms(1)[unfolded handles_ok_def, THEN conjunct2, THEN conjunct2, THEN conjunct2, rule_format]
  have hnd: "?W x = Some (KHandle oh' z) \<longleftrightarrow> W x = Some (KHandle oh' z)" for x oh' z using n by auto
  have at: "client_at ?W z = client_at W z" if W: "W x = Some (KHandle oh' z)" for x oh' z
  proof (cases z)
    case (Some zm)
    then obtain m where "z = Some (ZAddr m)" "is_manager W m" using h2 W by blast
    then show ?thesis using n by (auto simp: is_manager_def)
  qed simp
  have ism: "is_manager W m \<Longrightarrow> is_manager ?W m" for m using n by (auto simp: is_manager_def)
  show ?thesis
    unfolding handles_ok_def new hnd
  proof (intro conjI allI impI)
    fix x hn z assume x: "W x = Some (KHandle (Some hn) z)"
    show "HandleDestroy hn \<notin> set log" "HandleNew (client_at ?W z) hn \<in> set log" using h1[OF x] at[OF x] by simp_all
  next
    fix x oh' z assume "W x = Some (KHandle oh' (Some z))"
    then show "\<exists>m. z = ZAddr m \<and> is_manager ?W m" using h2 ism by blast
  next
    fix x x' hn z z' assume "W x = Some (KHandle (Some hn) z)" "W x' = Some (KHandle (Some hn) z')"
    then show "x = x'" by (rule h3)
  next
    fix oc' hn assume "HandleNew oc' hn \<in> set log" "HandleDestroy hn \<notin> set log"
    then show "\<exists>x z. W x = Some (KHandle (Some hn) z)" by (rule h4)
  qed
qed

lemma add_manager_managers:
  assumes "managers_ok W G" and n: "W n = None" and kv: "kv = ZUndef \<or> (\<exists>k. kv = ZAddr k \<and> k < n \<and> is_manager W k)"
    and G': "set (pview G) \<subseteq> set (pview G')" "set (rview G) \<subseteq> set (rview G')"
    and c: "if b then \<exists>p. (hash, c, p) \<in> set (pview G') else c \<in> set (rclients G')"
  shows "managers_ok (W(n := Some (KManager (Some c) (Some hash) b kv))) G'"
  unfolding managers_ok_def
proof (intro allI impI)
  let ?W = "W(n := Some (KManager (Some c) (Some hash) b kv))"
  fix x oc oh b' kv' assume x: "?W x = Some (KManager oc oh b' kv')"
  have ism: "is_manager W m \<Longrightarrow> is_manager ?W m" for m using n by (auto simp: is_manager_def)
  show "(\<exists>c hash. oc = Some c \<and> oh = Some hash \<and> (if b' then \<exists>p. (hash, c, p) \<in> set (pview G') else c \<in> set (rclients G')))
     \<and> (kv' = ZUndef \<or> (\<exists>k. kv' = ZAddr k \<and> k < x \<and> is_manager ?W k))"
  proof (cases "x = n")
    case True
    then show ?thesis using x c kv ism by auto
  next
    case False
    then have "W x = Some (KManager oc oh b' kv')" using x by simp
    then obtain c' hash' where c': "oc = Some c'" "oh = Some hash'"
      "if b' then \<exists>p. (hash', c', p) \<in> set (pview G) else c' \<in> set (rclients G)"
      "kv' = ZUndef \<or> (\<exists>k. kv' = ZAddr k \<and> k < x \<and> is_manager W k)" using assms(1) unfolding managers_ok_def by blast
    moreover have "if b' then \<exists>p. (hash', c', p) \<in> set (pview G') else c' \<in> set (rclients G')"
      using c'(3) G' by (cases b') auto
    ultimately show ?thesis using ism by blast
  qed
qed

lemma find_manager_world:
  assumes w: "world_ok W G pid log" and n: "W n = None" and c: "(hash, c, p) \<in> set (pview G)"
  shows "world_ok (W(n := Some (KManager (Some c) (Some hash) True ZUndef))) G pid log"
proof -
  let ?W = "W(n := Some (KManager (Some c) (Some hash) True ZUndef))"
  note ok = world_okD[OF w]
  have man: "?W x = Some (KManager oc oh False kv) \<longleftrightarrow> W x = Some (KManager oc oh False kv)" for x oc oh kv using n by auto
  have "managers_ok ?W G" by (rule add_manager_managers[OF ok(1) n]) (use c in auto)
  moreover have "request_ok ?W G" using ok(2) unfolding request_ok_def man .
  moreover have "vaults_ok ?W G log" using ok(3) unfolding vaults_ok_def man .
  moreover have "handles_ok ?W log" by (rule add_manager_handles[OF ok(4) n]) simp_all
  ultimately show ?thesis using ok unfolding world_ok_def by blast
qed

lemma new_manager_world:
  assumes w: "world_ok W G pid log" and n: "W n = None"
    and kv: "kv = ZUndef \<and> kvc = None \<or> (\<exists>k oh kv'. kv = ZAddr k \<and> k < n \<and> W k = Some (KManager kvc oh b kv'))"
    and fresh: "\<And>p kc. ClientNew p c kc \<notin> set log" and G': "registry_ok G'"
    and view: "if b then pview G' = pview G @ [(hash, c, pid)] \<and> rview G' = rview G
       else pview G' = pview G \<and> rview G' = rview G @ [(c, pid)]"
  shows "world_ok (W(n := Some (KManager (Some c) (Some hash) b kv))) G' pid (log @ [ClientNew pid c kvc])"
proof -
  let ?W = "W(n := Some (KManager (Some c) (Some hash) b kv))" and ?log = "log @ [ClientNew pid c kvc]"
  note ok = world_okD[OF w]
  have set_view: "set (clients_view G') = insert (c, pid) (set (clients_view G))"
    using view by (cases b) (auto simp: clients_view_def)
  have unreg: "c \<notin> fst ` set (clients_view G)" using registered_alive[OF ok(5)] fresh unfolding alive_def by blast
  have nd: "\<not> destroyed log c" using log_safe_once(4)[OF ok(6)] fresh by blast
  have vault: "\<exists>kc. kvc = Some kc \<and> kc \<in> set (if b then pclients G else rclients G)" if "kvc \<noteq> None"
    using kv that manager_registered[OF ok(1)] by blast
  have man: "W x = Some v \<Longrightarrow> ?W x = Some v" for x v using n by auto
  have "managers_ok ?W G'"
  proof (rule add_manager_managers[OF ok(1) n])
    show "kv = ZUndef \<or> (\<exists>k. kv = ZAddr k \<and> k < n \<and> is_manager W k)" using kv unfolding is_manager_def by blast
    show "set (pview G) \<subseteq> set (pview G')" "set (rview G) \<subseteq> set (rview G')" using view by (cases b; auto)+
    show "if b then \<exists>p. (hash, c, p) \<in> set (pview G') else c \<in> set (rclients G')" using view by (cases b) auto
  qed
  moreover have "request_ok ?W G'"
    unfolding request_ok_def
  proof (intro conjI ballI allI impI)
    fix c' assume "c' \<in> set (rclients G')"
    then have "c' \<in> set (rclients G) \<or> (\<not> b \<and> c' = c)" using view by (cases b) auto
    then show "\<exists>x oh kv. ?W x = Some (KManager (Some c') oh False kv)"
    proof
      assume "c' \<in> set (rclients G)"
      then obtain x oh kv where "W x = Some (KManager (Some c') oh False kv)" using ok(2) unfolding request_ok_def by blast
      then show ?thesis using man by blast
    qed auto
  next
    fix x x' c' oh oh' kv1 kv2
    assume x: "?W x = Some (KManager (Some c') oh False kv1)" "?W x' = Some (KManager (Some c') oh' False kv2)"
    have old: "c' \<noteq> c" if "W y = Some (KManager (Some c') oh'' b'' kv3)" for y oh'' b'' kv3
    proof -
      have "c' \<in> fst ` set (clients_view G)"
        using manager_registered[OF ok(1) that] unfolding registered_set by (cases b'') auto
      then show ?thesis using unreg by blast
    qed
    show "x = x'" using x old request_unique[OF ok(2)] by (cases "x = n"; cases "x' = n") auto
  qed
  moreover have "vaults_ok ?W G' ?log"
    unfolding vaults_ok_def
  proof (intro conjI allI impI)
    fix x c' oh kv1 p kc assume x: "?W x = Some (KManager (Some c') oh False kv1)" "ClientNew p c' (Some kc) \<in> set ?log"
    show "\<exists>k oh' kv'. kv1 = ZAddr k \<and> ?W k = Some (KManager (Some kc) oh' False kv')"
    proof (cases "x = n")
      case True
      then have "c' = c" "\<not> b" "kv1 = kv" using x by auto
      moreover from this have "kvc = Some kc" using x(2) fresh by auto
      ultimately obtain k oh' kv' where "kv1 = ZAddr k" "W k = Some (KManager (Some kc) oh' False kv')" using kv by auto
      then show ?thesis using man by blast
    next
      case False
      then have W: "W x = Some (KManager (Some c') oh False kv1)" using x by simp
      then have "c' \<in> fst ` set (clients_view G)" using manager_registered[OF ok(1) W] unfolding registered_set by simp
      then have "c' \<noteq> c" using unreg by blast
      then have "ClientNew p c' (Some kc) \<in> set log" using x(2) by simp
      then obtain k oh' kv' where "kv1 = ZAddr k" "W k = Some (KManager (Some kc) oh' False kv')"
        using ok(3) W unfolding vaults_ok_def by blast
      then show ?thesis using man by blast
    qed
  next
    fix xs c' ys p kc assume x: "pclients G' = xs @ c' # ys" "ClientNew p c' (Some kc) \<in> set ?log"
    note order = ok(3)[unfolded vaults_ok_def, THEN conjunct2, rule_format]
    show "kc \<in> set xs"
    proof (cases "c' = c")
      case True
      have b: b
      proof (rule ccontr)
        assume "\<not> b"
        then have "c \<in> set (pclients G)" using view x(1) True by simp
        then show False using unreg registered_set by blast
      qed
      then have e: "pclients G @ [c] = xs @ c # ys" using view x(1) True by simp
      then have "pclients G = xs"
      proof (cases ys rule: rev_cases)
        case (snoc ys' y)
        then have "pclients G = xs @ c # ys'" using e by simp
        then have "c \<in> set (pclients G)" by simp
        then show ?thesis using unreg registered_set by blast
      qed (use e in simp)
      moreover have "kvc = Some kc" using x(2) fresh True by auto
      ultimately show ?thesis using vault b by auto
    next
      case False
      then have l: "ClientNew p c' (Some kc) \<in> set log" using x(2) by simp
      show ?thesis
      proof (cases b)
        case True
        then have e: "pclients G @ [c] = xs @ c' # ys" using view x(1) by simp
        then obtain ys' where "pclients G = xs @ c' # ys'" using False by (cases ys rule: rev_cases) auto
        then show ?thesis using order l by blast
      next
        case False
        then have "pclients G = xs @ c' # ys" using view x(1) by simp
        then show ?thesis using order l by blast
      qed
    qed
  qed
  moreover have "handles_ok ?W ?log" by (rule add_manager_handles[OF ok(4) n]) auto
  moreover have "entries_ok G' pid ?log"
    unfolding entries_ok_def set_view
  proof (intro conjI ballI allI impI)
    fix e assume "e \<in> insert (c, pid) (set (clients_view G))"
    then show "case e of (c, p) \<Rightarrow> (\<exists>kv. ClientNew p c kv \<in> set ?log) \<and> \<not> destroyed ?log c"
      using ok(5) nd unfolding entries_ok_def by auto
  next
    fix x kc assume "ClientNew pid x kc \<in> set ?log"
    then show "destroyed ?log x \<or> x \<in> fst ` insert (c, pid) (set (clients_view G))"
      using ok(5) unfolding entries_ok_def by auto
  qed (rule G')
  moreover have "safe_calls log [ClientNew pid c kvc]"
  proof -
    have "ready log kc" if "kvc = Some kc" for kc
      using vault that registered_ready[OF w, of kc] unfolding registered_set by (cases b) auto
    then show ?thesis using fresh by simp
  qed
  ultimately show ?thesis using ok(6) unfolding world_ok_def log_safe_append by blast
qed


section \<open>The hooks of the request and the module\<close>

lemma empty_heap: "live_cells h = 0 \<Longrightarrow> cell_at h a = None"
proof (induction h arbitrary: a)
  case (Cons c h)
  then show ?case by (cases a) (auto split: if_splits)
qed simp

lemma empty_world: "live_cells h = 0 \<Longrightarrow> world_of h a = None"
  by (simp add: world_of_def object_at_def empty_heap)

lemma rclients_entries: "rclients G = [] \<Longrightarrow> request_entries G = []"
  by (simp add: rview_def)

lemma empty_request:
  assumes "request_ok W G" and "\<And>a. W a = None"
  shows "request_entries G = []"
proof -
  have "rclients G = []" using assms unfolding request_ok_def by (cases "rclients G") auto
  then show ?thesis by (rule rclients_entries)
qed

lemma empty_handles: "handles_ok W log \<Longrightarrow> (\<And>a. W a = None) \<Longrightarrow> HandleNew oc hn \<in> set log \<Longrightarrow> HandleDestroy hn \<in> set log"
  unfolding handles_ok_def by (metis option.distinct(1))

text \<open>No object is left: no client of the request is left either.\<close>

lemma RSHUTDOWN_empty:
  assumes "request_entries G = []" and "RSHUTDOWN p G = (G', calls)"
  shows "calls = []" "same_clients G G'"
  using assms by (auto simp: RSHUTDOWN_def request_entries_def same_clients_def pview_def rview_def split: option.splits)

lemma RINIT_same: "same_clients G (RINIT G)"
  by (auto simp: RINIT_def same_clients_def pview_def rview_def request_entries_def index_empty_def split: option.splits)

text \<open>The persistent clients end in reverse order, each before its key vault's.\<close>

abbreviation destroy_calls :: "int \<Rightarrow> nat php_phongo_pclient_t list \<Rightarrow> mongoc_call list" where
  "destroy_calls pid pcs \<equiv> map OnClient (concat (map (php_phongo_pclient_destroy pid) pcs))"

lemma destroy_reverse_safe:
  assumes "distinct (map pc_client pcs)" and "\<forall>pc \<in> set pcs. alive log (pc_client pc)"
    and "\<And>xs c ys p kc. map pc_client pcs = xs @ c # ys \<Longrightarrow> ClientNew p c (Some kc) \<in> set log \<Longrightarrow> kc \<in> set xs"
    and "\<And>oc hn. HandleNew oc hn \<in> set log \<Longrightarrow> HandleDestroy hn \<in> set log"
  shows "safe_calls log (destroy_calls pid (rev pcs))"
  using assms
proof (induction pcs arbitrary: log rule: rev_induct)
  case (snoc pc pcs)
  let ?d = "map OnClient (php_phongo_pclient_destroy pid pc)" and ?c = "pc_client pc"
  have vault: "ClientNew p ?c (Some kc) \<in> set log \<Longrightarrow> kc \<in> set (map pc_client pcs)" for p kc
    using snoc.prems(3)[of "map pc_client pcs" ?c "[]"] by simp
  then have "alive log kc" if "ClientNew p ?c (Some kc) \<in> set log" for p kc using that snoc.prems(2) by auto
  then have rd: "ready log ?c" using snoc.prems(2) by (simp add: ready_def)
  then have rd': "ready (log @ [OnClient (ClientClearApm ?c)]) ?c"
    using ready_neutral[of "[OnClient (ClientClearApm ?c)]"] by simp
  have first: "safe_calls log ?d" using rd rd' snoc.prems(4) by (auto simp: php_phongo_pclient_destroy_def)
  have new: "ClientNew p x kc \<in> set (log @ ?d) \<longleftrightarrow> ClientNew p x kc \<in> set log"
    "HandleNew oc hn \<in> set (log @ ?d) \<longleftrightarrow> HandleNew oc hn \<in> set log"
    "HandleDestroy hn \<in> set (log @ ?d) \<longleftrightarrow> HandleDestroy hn \<in> set log" for p x kc oc hn
    by (auto simp: php_phongo_pclient_destroy_def)
  have "safe_calls (log @ ?d) (destroy_calls pid (rev pcs))"
  proof (rule snoc.IH)
    show "distinct (map pc_client pcs)" using snoc.prems(1) by simp
    have "?c \<notin> pc_client ` set pcs" using snoc.prems(1) by simp
    then have "pc_client q \<noteq> ?c" if "q \<in> set pcs" for q using that by (metis imageI)
    then show "\<forall>pc \<in> set pcs. alive (log @ ?d) (pc_client pc)"
      using snoc.prems(2) unfolding alive_def new by (auto simp: php_phongo_pclient_destroy_def)
    show "kc \<in> set xs" if "map pc_client pcs = xs @ c # ys" "ClientNew p c (Some kc) \<in> set (log @ ?d)" for xs c ys p kc
      using snoc.prems(3)[of xs c "ys @ [?c]"] that new by simp
    show "HandleDestroy hn \<in> set (log @ ?d)" if "HandleNew oc hn \<in> set (log @ ?d)" for oc hn
      using snoc.prems(4) that unfolding new by blast
  qed
  then show ?case using first by (simp add: safe_calls_append)
qed simp

lemma GSHUTDOWN_world:
  assumes w: "world_ok W G pid log" and e: "\<And>a. W a = None" and r: "GSHUTDOWN pid G = (G', calls)"
  shows "world_ok W G' pid (log @ map OnClient calls)"
proof -
  note ok = world_okD[OF w]
  let ?pcs = "map snd (g_persistent_clients G)"
  have pc: "map pc_client ?pcs = pclients G" by (simp add: pview_def comp_def case_prod_beta)
  have calls: "map OnClient calls = destroy_calls pid (rev ?pcs)" and G': "G' = G\<lparr>g_persistent_clients := []\<rparr>"
    using r by (auto simp: GSHUTDOWN_def rev_map comp_def)
  have re: "request_entries G = []" by (rule empty_request[OF ok(2) e])
  then have cv: "clients_view G = map snd (pview G)" "clients_view G' = []"
    by (simp_all add: clients_view_def rview_def G' pview_def request_entries_def)
  have gone: "HandleNew oc hn \<in> set log \<Longrightarrow> HandleDestroy hn \<in> set log" for oc hn by (rule empty_handles[OF ok(4) e])
  have safe: "safe_calls log (map OnClient calls)"
    unfolding calls
  proof (rule destroy_reverse_safe)
    show "distinct (map pc_client ?pcs)" using registry_distinct[OF ok(7)] unfolding pc by simp
    have "alive log c" if "c \<in> set (pclients G)" for c
      using registered_alive[OF ok(5), of c] that registered_set by blast
    then show "\<forall>pc \<in> set ?pcs. alive log (pc_client pc)" unfolding pc[symmetric] by simp
    show "kc \<in> set xs" if "map pc_client ?pcs = xs @ c # ys" "ClientNew p c (Some kc) \<in> set log" for xs c ys p kc
      using ok(3) that unfolding pc vaults_ok_def by blast
  qed (rule gone)
  have new: "ClientNew p x kc \<in> set (log @ map OnClient calls) \<longleftrightarrow> ClientNew p x kc \<in> set log"
    "HandleNew oc hn \<in> set (log @ map OnClient calls) \<longleftrightarrow> HandleNew oc hn \<in> set log"
    "HandleDestroy hn \<in> set (log @ map OnClient calls) \<longleftrightarrow> HandleDestroy hn \<in> set log" for p x kc oc hn by auto
  have "entries_ok G' pid (log @ map OnClient calls)"
    unfolding entries_ok_def new
  proof (intro conjI allI impI)
    show "registry_ok G'" using GSHUTDOWN_ok[OF ok(7) r] by (simp add: op_ok_def)
    fix c kv assume n: "ClientNew pid c kv \<in> set log"
    show "destroyed (log @ map OnClient calls) c \<or> c \<in> fst ` set (clients_view G')"
    proof (cases "destroyed log c")
      case False
      then obtain p where p: "(c, p) \<in> set (clients_view G)" using ok(5) n unfolding entries_ok_def by force
      then have "p = pid" using ok(5) n log_safe_once(1)[OF ok(6)] unfolding entries_ok_def by blast
      then obtain pc where "pc \<in> set ?pcs" "pc_client pc = c" "pc_created_by_pid pc = pid" using p unfolding cv pview_def by force
      then have "OnClient (ClientDestroy c) \<in> set (map OnClient calls)"
        unfolding calls by (force simp: php_phongo_pclient_destroy_def)
      then show ?thesis by simp
    qed simp
  qed (simp add: cv)
  moreover have "pview G' = []" "rview G' = []" using re by (simp_all add: G' pview_def rview_def request_entries_def)
  moreover have "handles_ok W (log @ map OnClient calls)" unfolding handles_ok_def new e using gone by simp
  ultimately show ?thesis using ok(6) safe
    by (simp add: world_ok_def managers_ok_def request_ok_def vaults_ok_def e log_safe_append)
qed


section \<open>Every step\<close>

definition reachable_ok :: "lifetime \<Rightarrow> bool" where
  "reachable_ok s \<longleftrightarrow> lifetime_ok s (lt_user s)"

lemma reachable_okD:
  assumes "reachable_ok s"
  shows "counts_ok (lt_heap s) (lt_user s)" "world_ok (world_of (lt_heap s)) (lt_globals s) (lt_pid s) (lt_log s)"
  using assms by (simp_all add: reachable_ok_def lifetime_ok_def)

lemma world_refl: "registry_ok G \<Longrightarrow> same_clients G G"
  by (simp add: same_clients_def)

lemma count_list_remove1: "a \<in> set xs \<Longrightarrow> count_list (a # remove1 a xs) x = count_list xs x"
  by (induction xs) auto

text \<open>An object that lives gets a reference to another, or loses one.\<close>

lemma put_ref_ok:
  assumes s: "reachable_ok s" and a: "object_at (lt_heap s) a = Some old" and b: "object_at (lt_heap s) b \<noteq> None"
    and k: "kind_of ob = kind_of old"
    and r: "\<And>x. count_list (object_refs ob) x = count_list (b # object_refs old) x"
  shows "reachable_ok (s\<lparr>lt_heap := set_object a ob (add_ref b (lt_heap s))\<rparr>)"
proof -
  have "counts_ok (add_ref b (lt_heap s)) (b # lt_user s)" using add_ref_ok[OF reachable_okD(1)[OF s] b] .
  moreover have "object_at (add_ref b (lt_heap s)) a = Some old" using a by simp
  ultimately have "counts_ok (set_object a ob (add_ref b (lt_heap s))) (lt_user s)"
    by (rule set_object_ok) (use r in auto)
  moreover have "world_of (set_object a ob (add_ref b (lt_heap s))) = world_of (lt_heap s)"
    using world_of_set_same[of "add_ref b (lt_heap s)" a old ob] a k by simp
  ultimately show ?thesis using reachable_okD(2)[OF s] by (simp add: reachable_ok_def lifetime_ok_def)
qed

lemma take_ref_ok:
  assumes s: "reachable_ok s" and a: "object_at (lt_heap s) a = Some old"
    and k: "kind_of ob = kind_of old"
    and r: "\<And>x. count_list (b # object_refs ob) x = count_list (object_refs old) x"
  shows "\<exists>t. zval_ptr_dtor [b] (s\<lparr>lt_heap := set_object a ob (lt_heap s)\<rparr>) = Some t \<and> reachable_ok t"
proof -
  have "counts_ok (set_object a ob (lt_heap s)) (b # lt_user s)"
  proof (rule set_object_ok[OF reachable_okD(1)[OF s] a])
    fix x show "count_list (b # lt_user s) x + count_list (object_refs ob) x = count_list (lt_user s) x + count_list (object_refs old) x"
      using r[of x] by (simp split: if_splits)
  qed
  then have "lifetime_ok (s\<lparr>lt_heap := set_object a ob (lt_heap s)\<rparr>) ([b] @ lt_user s)"
    using reachable_okD(2)[OF s] world_of_set_same[OF a k] by (simp add: lifetime_ok_def)
  from zval_ptr_dtor_ok[OF this] show ?thesis by (auto simp: reachable_ok_def)
qed

lemma drop_user_ok:
  assumes s: "reachable_ok s" and a: "a \<in> set (lt_user s)"
  shows "\<exists>t. zval_ptr_dtor [a] (s\<lparr>lt_user := remove1 a (lt_user s)\<rparr>) = Some t \<and> reachable_ok t"
proof -
  have "counts_ok (lt_heap s) (a # remove1 a (lt_user s))"
    by (rule counts_ok_cong[OF reachable_okD(1)[OF s]]) (rule count_list_remove1[OF a])
  then have "lifetime_ok (s\<lparr>lt_user := remove1 a (lt_user s)\<rparr>) ([a] @ remove1 a (lt_user s))"
    using reachable_okD(2)[OF s] by (simp add: lifetime_ok_def)
  from zval_ptr_dtor_ok[OF this] show ?thesis by (auto simp: reachable_ok_def)
qed

lemma neutral_ok:
  assumes "reachable_ok s" and "same_clients (lt_globals s) G" and "registry_ok G" and "list_all neutral calls"
    and "safe_calls (lt_log s) calls"
  shows "reachable_ok (logged calls (s\<lparr>lt_globals := G\<rparr>))"
  using reachable_okD[OF assms(1)] world_neutral[OF _ assms(2-5)]
  by (simp add: reachable_ok_def lifetime_ok_def logged_def)

lemma manager_register_view:
  assumes "php_phongo_manager_register a G = (True, G1)"
  shows "same_clients G G1" and "registry_ok G \<Longrightarrow> registry_ok G1"
proof -
  have e: "g_persistent_clients G1 = g_persistent_clients G" "g_request_clients G1 = g_request_clients G"
    using assms by (auto simp: php_phongo_manager_register_def split: option.splits if_splits)
  then have q: "request_entries G1 = request_entries G" "client_entries G1 = client_entries G"
    by (simp_all add: request_entries_def client_entries_def)
  show "same_clients G G1" by (simp add: same_clients_def pview_def rview_def e q)
  show "registry_ok G \<Longrightarrow> registry_ok G1" by (simp add: registry_ok_def e q)
qed

lemma register_manager_ok:
  assumes c: "counts_ok (lt_heap s) (lt_user s)" and h: "held s (zref (mi_key_vault_client_manager mi))" and sub: "mi_subscribers mi = None"
    and w: "world_ok ((world_of (lt_heap s))(length (lt_heap s) := Some (kind_of (ObManager mi)))) (lt_globals s) (lt_pid s) (lt_log s)"
    and r: "register_manager mi s = Some t"
  shows "reachable_ok t"
proof -
  obtain G1 where G1: "php_phongo_manager_register (length (lt_heap s)) (lt_globals s) = (True, G1)"
    and t: "t = new_object (ObManager mi) (s\<lparr>lt_globals := G1\<rparr>)"
    using r by (auto simp: register_manager_def split: prod.splits bool.splits)
  have "world_ok ((world_of (lt_heap s))(length (lt_heap s) := Some (kind_of (ObManager mi)))) G1 (lt_pid s) (lt_log s @ [])"
    by (rule world_neutral[OF w manager_register_view(1)[OF G1] manager_register_view(2)[OF G1 world_okD(7)[OF w]]]) simp_all
  then show ?thesis unfolding reachable_ok_def t
    by (intro new_object_lifetime) (use c h sub in \<open>simp_all add: held_def manager_free_refs_def\<close>)
qed

lemma persistent_new:
  "persistent_update p hash v t = (t', calls) \<Longrightarrow> map_of t hash = None \<Longrightarrow> t' = t @ [(hash, v)] \<and> calls = []"
  using persistent_update_cases[of p hash v t t' calls] by (auto simp: map_of_eq_None_iff)

lemma client_register_view:
  assumes r: "php_phongo_client_register pid m G = Some (G', calls)"
    and p: "mgr_use_persistent_client m \<Longrightarrow> php_phongo_find_persistent_client G (mgr_client_hash m) = None"
  shows "calls = []" and "if mgr_use_persistent_client m
    then pview G' = pview G @ [(mgr_client_hash m, mgr_client m, pid)] \<and> rview G' = rview G
    else pview G' = pview G \<and> rview G' = rview G @ [(mgr_client m, pid)]"
proof -
  have "calls = [] \<and> (if mgr_use_persistent_client m
    then pview G' = pview G @ [(mgr_client_hash m, mgr_client m, pid)] \<and> rview G' = rview G
    else pview G' = pview G \<and> rview G' = rview G @ [(mgr_client m, pid)])"
  proof (cases "mgr_use_persistent_client m")
    case True
    let ?v = "\<lparr>pc_client = mgr_client m, pc_created_by_pid = pid, pc_last_reset_by_pid = 0, pc_is_persistent = True\<rparr>"
    obtain t where t: "persistent_update pid (mgr_client_hash m) ?v (g_persistent_clients G) = (t, calls)"
      and G': "G' = G\<lparr>g_persistent_clients := t\<rparr>"
      using r True by (auto simp: php_phongo_client_register_def Let_def split: prod.splits)
    have "map_of (g_persistent_clients G) (mgr_client_hash m) = None"
      using p[OF True] by (simp add: php_phongo_find_persistent_client_def)
    from persistent_new[OF t this] show ?thesis using True by (simp add: G' pview_def rview_def request_entries_def)
  next
    case False
    then show ?thesis using r
      by (auto simp: php_phongo_client_register_def pview_def rview_def request_entries_def index_insert_def split: option.splits)
  qed
  then show "calls = []" "if mgr_use_persistent_client m
    then pview G' = pview G @ [(mgr_client_hash m, mgr_client m, pid)] \<and> rview G' = rview G
    else pview G' = pview G \<and> rview G' = rview G @ [(mgr_client m, pid)]" by blast+
qed

lemma make_manager_ok:
  assumes s: "reachable_ok s" and fresh: "fresh_client c s" and kv: "key_vault_for s b kv kvc"
    and p: "b \<Longrightarrow> php_phongo_find_persistent_client (lt_globals s) hash = None"
    and m: "make_manager c hash b kv kvc s = Some t"
  shows "reachable_ok t"
proof -
  note ok = reachable_okD[OF s]
  let ?mi = "made_manager (lt_pid s) c hash b kv"
  obtain mgr where mgr: "manager_of ?mi = Some mgr" "mgr_client mgr = c" "mgr_client_hash mgr = hash" "mgr_use_persistent_client mgr = b"
    by (simp add: manager_of_def made_manager_def)
  obtain G1 calls where G1: "php_phongo_client_register (lt_pid s) mgr (lt_globals s) = Some (G1, calls)"
    and t: "register_manager ?mi (logged (ClientNew (lt_pid s) c kvc # map OnClient calls) (s\<lparr>lt_globals := G1\<rparr>)) = Some t"
    using m mgr(1) by (auto simp: make_manager_def Let_def split: option.splits)
  have fresh': "ClientNew q c kc \<notin> set (lt_log s)" for q kc using fresh by (simp add: fresh_client_def)
  have unreg: "mgr_client mgr \<notin> pc_client ` set (client_entries (lt_globals s))"
  proof
    assume "mgr_client mgr \<in> pc_client ` set (client_entries (lt_globals s))"
    then have "c \<in> fst ` set (clients_view (lt_globals s))" by (simp add: mgr clients_view_entries image_image)
    then show False using registered_alive[OF world_okD(5)[OF ok(2)]] fresh' unfolding alive_def by blast
  qed
  have reg: "registry_ok G1" using client_register_ok[OF world_okD(7)[OF ok(2)] unreg G1] by simp
  have v: "calls = []" "if b then pview G1 = pview (lt_globals s) @ [(hash, c, lt_pid s)] \<and> rview G1 = rview (lt_globals s)
    else pview G1 = pview (lt_globals s) \<and> rview G1 = rview (lt_globals s) @ [(c, lt_pid s)]"
    using client_register_view[OF G1] p unfolding mgr by blast+
  have kv': "kv = ZUndef \<and> kvc = None \<or> (\<exists>k oh kv'. kv = ZAddr k \<and> k < length (lt_heap s)
      \<and> world_of (lt_heap s) k = Some (KManager kvc oh b kv'))"
    using kv cell_at_length[of "lt_heap s"] by (force simp: key_vault_for_def world_of_def object_at_def)
  have w: "world_ok ((world_of (lt_heap s))(length (lt_heap s) := Some (kind_of (ObManager ?mi)))) G1 (lt_pid s)
      (lt_log s @ [ClientNew (lt_pid s) c kvc])"
    using new_manager_world[OF ok(2) world_of_length kv' fresh' reg v(2)] by (simp add: made_manager_def)
  have "held s (zref kv)" using kv by (auto simp: held_def key_vault_for_def)
  then show ?thesis
    by (intro register_manager_ok[OF _ _ _ _ t]) (use ok(1) w v(1) in \<open>simp_all add: logged_def held_def made_manager_def php_phongo_manager_create_object_def\<close>)
qed

lemma find_manager_ok:
  assumes s: "reachable_ok s" and f: "find_manager hash s = Some t"
  shows "reachable_ok t"
proof -
  note ok = reachable_okD[OF s]
  obtain c where c: "php_phongo_find_persistent_client (lt_globals s) hash = Some c"
    and t: "register_manager (made_manager (lt_pid s) c hash True ZUndef) s = Some t"
    using f by (auto simp: find_manager_def split: option.splits)
  obtain pc where "map_of (g_persistent_clients (lt_globals s)) hash = Some pc" "pc_client pc = c"
    using c by (auto simp: php_phongo_find_persistent_client_def)
  then have "(hash, c, pc_created_by_pid pc) \<in> set (pview (lt_globals s))"
    by (force simp: pview_def dest: map_of_SomeD)
  from find_manager_world[OF ok(2) world_of_length this] show ?thesis
    by (intro register_manager_ok[OF ok(1) _ _ _ t]) (simp_all add: held_def made_manager_def php_phongo_manager_create_object_def)
qed


lemma make_object_ok:
  assumes s: "reachable_ok s" and hn: "object_handle ob = Some hn" and fresh: "fresh_handle hn s" and refs: "held s (object_refs ob)"
    and z: "object_manager ob = Some z" and c: "client_of (lt_heap s) ob = Some c"
  shows "reachable_ok (new_object ob (logged [HandleNew (Some c) hn] s))"
proof -
  note ok = reachable_okD[OF s]
  obtain m mi where m: "z = ZAddr m" "object_at (lt_heap s) m = Some (ObManager mi)" "mi_client mi = Some c"
    using z c by (auto simp: client_of_def split: option.splits zval.splits php_object.splits)
  have k: "kind_of ob = KHandle (Some hn) (Some z)" using hn z by (cases ob) auto
  have W: "world_of (lt_heap s) m = Some (KManager (Some c) (mi_client_hash mi) (mi_use_persistent_client mi) (mi_key_vault_client_manager mi))"
    using m by (simp add: world_of_def)
  then have mz: "Some z = None \<or> (\<exists>m. Some z = Some (ZAddr m) \<and> is_manager (world_of (lt_heap s)) m)" using m(1) by (auto simp: is_manager_def)
  have at: "client_at (world_of (lt_heap s)) (Some z) = Some c" using W m(1) by simp
  have fr: "\<And>hn' oc. Some hn = Some hn' \<Longrightarrow> HandleNew oc hn' \<notin> set (lt_log s)" using fresh by (auto simp: fresh_handle_def)
  have "world_ok ((world_of (lt_heap s))(length (lt_heap s) := Some (kind_of ob))) (lt_globals s) (lt_pid s) (lt_log s @ [HandleNew (Some c) hn])"
    unfolding k using new_handle_world[where oh = "Some hn" and z = "Some z", OF ok(2) world_of_length mz fr]
    by (simp only: at option.case)
  then show ?thesis unfolding reachable_ok_def
    by (intro new_object_lifetime) (use ok(1) refs in \<open>simp_all add: logged_def held_def\<close>)
qed

lemma make_plain_ok:
  assumes s: "reachable_ok s" and k: "kind_of ob = KHandle oh None" and refs: "held s (object_refs ob)"
    and fresh: "\<And>hn. oh = Some hn \<Longrightarrow> fresh_handle hn s"
  shows "reachable_ok (new_object ob (logged (case oh of None \<Rightarrow> [] | Some hn \<Rightarrow> [HandleNew None hn]) s))"
proof -
  note ok = reachable_okD[OF s]
  have "\<And>hn oc. oh = Some hn \<Longrightarrow> HandleNew oc hn \<notin> set (lt_log s)" using fresh by (auto simp: fresh_handle_def)
  from new_handle_world[where oh = oh and z = None, OF ok(2) world_of_length _ this]
  have "world_ok ((world_of (lt_heap s))(length (lt_heap s) := Some (kind_of ob))) (lt_globals s) (lt_pid s)
      (lt_log s @ (case oh of None \<Rightarrow> [] | Some hn \<Rightarrow> [HandleNew None hn]))" by (cases oh) (simp_all add: k)
  then show ?thesis unfolding reachable_ok_def
    by (intro new_object_lifetime) (use ok(1) refs in \<open>simp_all add: logged_def held_def\<close>)
qed

lemma end_session_ok:
  assumes s: "reachable_ok s" and a: "object_at (lt_heap s) a = Some (ObSession ses)" and cs: "ses_client_session ses = Some cs"
  shows "reachable_ok (logged [HandleDestroy (HSession cs)] (s\<lparr>lt_heap := set_object a (ObSession (ses\<lparr>ses_client_session := None\<rparr>)) (lt_heap s)\<rparr>))"
proof -
  note ok = reachable_okD[OF s]
  let ?h = "set_object a (ObSession (ses\<lparr>ses_client_session := None\<rparr>)) (lt_heap s)"
  have "counts_ok ?h (lt_user s)" by (rule set_object_ok[OF ok(1) a]) simp
  moreover have "world_of (lt_heap s) a = Some (KHandle (Some (HSession cs)) (Some (ses_manager ses)))"
    using a cs by (simp add: world_of_def)
  from end_handle_world[OF ok(2) this] have "world_ok (world_of ?h) (lt_globals s) (lt_pid s) (lt_log s @ [HandleDestroy (HSession cs)])"
    using a by (simp add: world_of_set)
  ultimately show ?thesis by (simp add: reachable_ok_def lifetime_ok_def logged_def)
qed

lemma copy_ok: "reachable_ok s \<Longrightarrow> held s [a] \<Longrightarrow> reachable_ok (s\<lparr>lt_heap := add_ref a (lt_heap s), lt_user := a # lt_user s\<rparr>)"
  using add_ref_ok[of "lt_heap s" "lt_user s" a] by (simp add: reachable_ok_def lifetime_ok_def held_def)

lemma use_ok:
  assumes s: "reachable_ok s" and a: "object_at (lt_heap s) a = Some ob" "object_handle ob = Some hn"
  shows "reachable_ok (logged [HandleUse hn] s)"
proof -
  note ok = reachable_okD[OF s]
  have "\<exists>z. world_of (lt_heap s) a = Some (KHandle (Some hn) z)" using a by (cases ob) (auto simp: world_of_def)
  then have "safe_calls (lt_log s) [HandleUse hn]" using handle_in_use[OF ok(2)] by auto
  from neutral_ok[OF s world_refl[OF world_okD(7)[OF ok(2)]] world_okD(7)[OF ok(2)] _ this] show ?thesis by simp
qed

lemma fork_ok: "reachable_ok s \<Longrightarrow> (\<forall>c kv. ClientNew p c kv \<notin> set (lt_log s)) \<Longrightarrow> reachable_ok (s\<lparr>lt_pid := p\<rparr>)"
  by (auto simp: reachable_ok_def lifetime_ok_def world_ok_def entries_ok_def)

lemma rshutdown_ok:
  assumes s: "reachable_ok s" and e: "live_cells (lt_heap s) = 0" and r: "RSHUTDOWN (lt_pid s) (lt_globals s) = (G, calls)"
  shows "calls = []" and "reachable_ok (logged (map OnClient calls) (s\<lparr>lt_globals := G\<rparr>))"
proof -
  note ok = reachable_okD[OF s]
  have q: "request_entries (lt_globals s) = []" by (rule empty_request[OF world_okD(2)[OF ok(2)] empty_world[OF e]])
  show "calls = []" by (rule RSHUTDOWN_empty(1)[OF q r])
  moreover have "registry_ok G" using RSHUTDOWN_ok[OF world_okD(7)[OF ok(2)] r] by (simp add: op_ok_def)
  ultimately show "reachable_ok (logged (map OnClient calls) (s\<lparr>lt_globals := G\<rparr>))"
    using neutral_ok[OF s RSHUTDOWN_empty(2)[OF q r]] by simp
qed

lemma gshutdown_ok:
  assumes s: "reachable_ok s" and e: "live_cells (lt_heap s) = 0" and r: "GSHUTDOWN (lt_pid s) (lt_globals s) = (G, calls)"
  shows "reachable_ok (logged (map OnClient calls) (s\<lparr>lt_globals := G\<rparr>))"
  using reachable_okD[OF s] GSHUTDOWN_world[OF _ empty_world[OF e] r]
  by (simp add: reachable_ok_def lifetime_ok_def logged_def)

lemma rinit_ok: "reachable_ok s \<Longrightarrow> reachable_ok (s\<lparr>lt_globals := RINIT (lt_globals s)\<rparr>)"
  using neutral_ok[of s "RINIT (lt_globals s)" "[]"] RINIT_same RINIT_ok world_okD(7)[OF reachable_okD(2)]
  by (auto simp: logged_def op_ok_def)

text \<open>The invariant holds after every step, of whatever kind.\<close>

lemma step_ok: "lt_step s t \<Longrightarrow> reachable_ok s \<Longrightarrow> reachable_ok t"
proof (induction rule: lt_step.cases)
  case (step_copy s a) then show ?case using copy_ok by simp
next
  case (step_drop a s t) then show ?case using drop_user_ok by force
next
  case (step_make_manager c s b kv kvc hash t) then show ?case by (blast intro: make_manager_ok)
next
  case (step_find_manager hash s t) then show ?case using find_manager_ok by simp
next
  case (step_make_object ob hn s z c) then show ?case using make_object_ok by simp
next
  case (step_make_bulk b s)
  then show ?case using make_plain_ok[of s "ObBulkWrite (php_phongo_bulkwrite_create_object\<lparr>blk_bulk := Some b\<rparr>)" "Some (HBulk b)"]
    by (simp add: held_def php_phongo_bulkwrite_create_object_def)
next
  case (step_bulk_session s a b bulk)
  then show ?case using put_ref_ok[of s a "ObBulkWrite bulk" b "ObBulkWrite (bulk\<lparr>blk_session := ZAddr b\<rparr>)"] by (simp add: held_def)
next
  case (step_make_holder ob s)
  then have "kind_of ob = KHandle None None" by (cases ob) auto
  then show ?case using step_make_holder make_plain_ok[of s ob None] by (simp add: logged_def)
next
  case (step_user_put s u a zs)
  then show ?case using put_ref_ok[of s u "ObUser zs" a "ObUser (ZAddr a # zs)"] by (simp add: held_def)
next
  case (step_user_take s u zs a ys t)
  then show ?case using take_ref_ok[of s u "ObUser (zs @ ZAddr a # ys)" "ObUser (zs @ ys)" a] by auto
next
  case (step_subscribe s m a mi subs)
  then show ?case using put_ref_ok[of s m "ObManager mi" a "ObManager (mi\<lparr>mi_subscribers := Some (subs @ [ZAddr a])\<rparr>)"]
    by (auto simp: held_def manager_free_refs_def split: option.splits)
next
  case (step_unsubscribe s m mi zs a ys t)
  then show ?case using take_ref_ok[of s m "ObManager mi" "ObManager (mi\<lparr>mi_subscribers := Some (zs @ ys)\<rparr>)" a]
    by (auto simp: manager_free_refs_def)
next
  case (step_cursor_exhausted s a cur p b t)
  then show ?case using take_ref_ok[of s a "ObCursor cur p" "ObCursor (cur\<lparr>cur_session := ZUndef\<rparr>) p" b]
    by (auto simp: php_phongo_cursor_free_refs_def)
next
  case (step_end_session s a ses cs) then show ?case using end_session_ok by simp
next
  case (step_use s a ob hn) then show ?case using use_ok by simp
next
  case (step_fork p s) then show ?case using fork_ok by simp
next
  case (step_rinit s) then show ?case using rinit_ok by simp
next
  case (step_rshutdown s G calls) then show ?case using rshutdown_ok(2) by simp
next
  case (step_gshutdown s G calls) then show ?case using gshutdown_ok by simp
qed

lemma start_ok: "reachable_ok (lt_start pid)"
  by (simp add: reachable_ok_def lifetime_ok_def lt_start_def counts_ok_def ref_count_def heap_refs_def world_ok_def
      managers_ok_def request_ok_def vaults_ok_def handles_ok_def entries_ok_def registry_ok_def world_of_def object_at_def
      log_safe_def pview_def rview_def request_entries_def clients_view_def client_entries_def globals_init_def)

lemma reachable_ok: "lt_reachable s \<Longrightarrow> reachable_ok s"
  by (induction rule: lt_reachable.induct) (auto intro: start_ok step_ok)

text \<open>What is left of the calls of a process when its objects are gone.\<close>

lemma nothing_left:
  assumes s: "reachable_ok s" and e: "live_cells (lt_heap s) = 0"
  shows "HandleNew oc hn \<in> set (lt_log s) \<Longrightarrow> HandleDestroy hn \<in> set (lt_log s)"
    and "ClientNew (lt_pid s) c kv \<in> set (lt_log s) \<Longrightarrow> destroyed (lt_log s) c \<or> c \<in> (pc_client \<circ> snd) ` set (g_persistent_clients (lt_globals s))"
proof -
  note ok = world_okD[OF reachable_okD(2)[OF s]]
  show "HandleNew oc hn \<in> set (lt_log s) \<Longrightarrow> HandleDestroy hn \<in> set (lt_log s)" by (rule empty_handles[OF ok(4) empty_world[OF e]])
  have "request_entries (lt_globals s) = []" by (rule empty_request[OF ok(2) empty_world[OF e]])
  then have "fst ` set (clients_view (lt_globals s)) = (pc_client \<circ> snd) ` set (g_persistent_clients (lt_globals s))"
    by (simp add: clients_view_set)
  then show "ClientNew (lt_pid s) c kv \<in> set (lt_log s) \<Longrightarrow> destroyed (lt_log s) c \<or> c \<in> (pc_client \<circ> snd) ` set (g_persistent_clients (lt_globals s))"
    using ok(5) unfolding entries_ok_def by blast
qed

section \<open>A run\<close>

text \<open>
  A request makes a Manager and a session of it, drops the Manager, which the session keeps alive,
  and then the session: the session ends, then its client.
\<close>

definition run_made :: lifetime where
  "run_made = \<lparr>lt_pid = 1, lt_heap = [Some (1, ObManager (made_manager 1 7 ''h'' False ZUndef))],
     lt_globals = \<lparr>g_persistent_clients = [],
       g_request_clients = Some \<lparr>it_next = 1, it_entries = [(0, \<lparr>pc_client = 7, pc_created_by_pid = 1, pc_last_reset_by_pid = 0, pc_is_persistent = False\<rparr>)]\<rparr>,
       g_subscribers = Some [], g_managers = Some \<lparr>it_next = 1, it_entries = [(0, 0)]\<rparr>\<rparr>,
     lt_log = [ClientNew 1 7 None], lt_user = [0]\<rparr>"

definition run_session :: "nat php_phongo_session_t" where
  "run_session = \<lparr>ses_client_session = Some 3, ses_manager = ZAddr 0, ses_created_by_pid = 1\<rparr>"

definition run_started :: lifetime where
  "run_started = run_made\<lparr>lt_heap := [Some (2, ObManager (made_manager 1 7 ''h'' False ZUndef)), Some (1, ObSession run_session)],
     lt_log := [ClientNew 1 7 None, HandleNew (Some 7) (HSession 3)], lt_user := [1, 0]\<rparr>"

definition run_kept :: lifetime where
  "run_kept = run_started\<lparr>lt_heap := [Some (1, ObManager (made_manager 1 7 ''h'' False ZUndef)), Some (1, ObSession run_session)],
     lt_user := [1]\<rparr>"

definition run_ended :: lifetime where
  "run_ended = \<lparr>lt_pid = 1, lt_heap = [None, None],
     lt_globals = \<lparr>g_persistent_clients = [], g_request_clients = Some \<lparr>it_next = 1, it_entries = []\<rparr>,
       g_subscribers = Some [], g_managers = Some \<lparr>it_next = 1, it_entries = []\<rparr>\<rparr>,
     lt_log = [ClientNew 1 7 None, HandleNew (Some 7) (HSession 3), HandleDestroy (HSession 3),
       OnClient (ClientClearApm 7), OnClient (ClientDestroy 7)], lt_user = []\<rparr>"

lemmas run_defs = run_made_def run_started_def run_kept_def run_ended_def run_session_def

lemma run_made_reachable: "lt_reachable run_made"
proof -
  let ?s = "(lt_start 1)\<lparr>lt_globals := RINIT (lt_globals (lt_start 1))\<rparr>"
  have "lt_reachable (lt_start 1)" by (rule reachable_start) simp
  then have s: "lt_reachable ?s" by (rule reachable_step) (rule step_rinit)
  have "make_manager 7 ''h'' False ZUndef None ?s = Some run_made"
    by (simp add: make_manager_def made_manager_def php_phongo_manager_create_object_def manager_of_def php_phongo_client_register_def
        register_manager_def php_phongo_manager_register_def php_phongo_manager_exists_def lt_start_def RINIT_def globals_init_def
        index_empty_def index_insert_def logged_def new_object_def manager_free_refs_def run_made_def)
  then show ?thesis
    by (intro reachable_step[OF s] step_make_manager) (auto simp: fresh_client_def key_vault_for_def lt_start_def)
qed

lemma run_started_reachable: "lt_reachable run_started"
proof -
  have "lt_step run_made (new_object (ObSession run_session) (logged [HandleNew (Some 7) (HSession 3)] run_made))"
    by (rule step_make_object[where z = "ZAddr 0"])
       (simp_all add: run_defs fresh_handle_def held_def client_of_def object_at_def cell_at_def made_manager_def)
  moreover have "new_object (ObSession run_session) (logged [HandleNew (Some 7) (HSession 3)] run_made) = run_started"
    by (simp add: run_defs new_object_def logged_def add_ref_def cell_at_def)
  ultimately show ?thesis using reachable_step[OF run_made_reachable] by simp
qed

lemma run_kept_reachable: "lt_reachable run_kept"
proof (rule reachable_step[OF run_started_reachable], rule step_drop[of 0])
  show "zval_ptr_dtor [0] (run_started\<lparr>lt_user := remove1 0 (lt_user run_started)\<rparr>) = Some run_kept"
    by (simp add: run_defs zval_ptr_dtor.simps(2) cell_at_def)
qed (simp add: run_defs)

lemma run_ended_reachable: "lt_reachable run_ended"
proof (rule reachable_step[OF run_kept_reachable], rule step_drop[of 1])
  show "zval_ptr_dtor [1] (run_kept\<lparr>lt_user := remove1 1 (lt_user run_kept)\<rparr>) = Some run_ended"
    by (simp add: run_defs zval_ptr_dtor.simps(2) cell_at_def session_free_object_def reset_client_def manager_store_def
        manager_of_def made_manager_def php_phongo_manager_create_object_def PHONGO_RESET_CLIENT_IF_PID_DIFFERS_def Let_def
        manager_free_object_def php_phongo_manager_free_object_def php_phongo_manager_unregister_def php_phongo_manager_exists_def
        php_phongo_client_unregister_def find_client_def index_del_def php_phongo_pclient_destroy_def manager_free_refs_def)
qed (simp add: run_defs)

text \<open>
  If the request ends while the session lives, the table of the request's clients, which
  \<^verbatim>\<open>PHP_RSHUTDOWN_FUNCTION\<close> takes to be empty, destroys the client before the session.
\<close>

lemma early_request_end:
  "RSHUTDOWN (lt_pid run_kept) (lt_globals run_kept) = (G, calls) \<Longrightarrow> \<not> log_safe (lt_log run_kept @ map OnClient calls)"
  by (auto simp: run_defs RSHUTDOWN_def php_phongo_pclient_destroy_def log_safe_def)

end
