(* ===== verification/Php_Classes.thy ===== *)
theory Php_Classes
  imports Php_Values
begin

text \<open>
  Classes as the engine registers them for a module: what the initialisers of the driver call.
  A class is known by its pointer, which is null until it is registered.  The order matters: a
  class copies what its parent and interfaces have at the time.
\<close>

section \<open>Classes of the engine and the driver\<close>

text \<open>The classes of the engine that are used, and those of the driver: the variables of the sources.\<close>

datatype php_ce =
    zend_ce_traversable | zend_ce_iterator | zend_ce_countable | zend_ce_serializable | zend_ce_throwable
     | zend_ce_exception | spl_ce_LogicException | spl_ce_InvalidArgumentException | spl_ce_RuntimeException
     | spl_ce_UnexpectedValueException | json_serializable_ce

datatype bson_ce =
    Type_ce | Serializable_ce | Unserializable_ce | BinaryInterface_ce | Decimal128Interface_ce
     | JavascriptInterface_ce | MaxKeyInterface_ce | MinKeyInterface_ce | ObjectIdInterface_ce
     | RegexInterface_ce | TimestampInterface_ce | UTCDateTimeInterface_ce | Binary_ce | DBPointer_ce
     | Decimal128_ce | Int64_ce | Javascript_ce | MaxKey_ce | MinKey_ce | ObjectId_ce | Persistable_ce
     | Regex_ce | Symbol_ce | Timestamp_ce | Undefined_ce | UTCDateTime_ce

datatype driver_ce =
    CursorInterface_ce | BulkWrite_ce | ClientEncryption_ce | Command_ce | Cursor_ce | CursorId_ce | Manager_ce
     | Query_ce | ReadConcern_ce | ReadPreference_ce | Server_ce | ServerApi_ce | Session_ce | WriteConcern_ce
     | WriteConcernError_ce | WriteError_ce | WriteResult_ce

datatype exception_ce =
    Exception_ce | RuntimeException_ce | ServerException_ce | ConnectionException_ce | WriteException_ce
     | AuthenticationException_ce | BulkWriteException_ce | CommandException_ce | ConnectionTimeoutException_ce
     | EncryptionException_ce | ExecutionTimeoutException_ce | InvalidArgumentException_ce | LogicException_ce
     | SSLConnectionException_ce | UnexpectedValueException_ce

datatype monitoring_ce =
    Subscriber_ce | CommandSubscriber_ce | CommandFailedEvent_ce | CommandStartedEvent_ce
     | CommandSucceededEvent_ce

datatype class_ref = PhpClass php_ce | BsonClass bson_ce | DriverClass driver_ce | ExceptionClass exception_ce | MonitoringClass monitoring_ce

abbreviation php_phongo_type_ce :: class_ref where "php_phongo_type_ce \<equiv> BsonClass Type_ce"
abbreviation php_phongo_serializable_ce :: class_ref where "php_phongo_serializable_ce \<equiv> BsonClass Serializable_ce"
abbreviation php_phongo_unserializable_ce :: class_ref where "php_phongo_unserializable_ce \<equiv> BsonClass Unserializable_ce"
abbreviation php_phongo_binary_interface_ce :: class_ref where "php_phongo_binary_interface_ce \<equiv> BsonClass BinaryInterface_ce"
abbreviation php_phongo_decimal128_interface_ce :: class_ref where "php_phongo_decimal128_interface_ce \<equiv> BsonClass Decimal128Interface_ce"
abbreviation php_phongo_javascript_interface_ce :: class_ref where "php_phongo_javascript_interface_ce \<equiv> BsonClass JavascriptInterface_ce"
abbreviation php_phongo_maxkey_interface_ce :: class_ref where "php_phongo_maxkey_interface_ce \<equiv> BsonClass MaxKeyInterface_ce"
abbreviation php_phongo_minkey_interface_ce :: class_ref where "php_phongo_minkey_interface_ce \<equiv> BsonClass MinKeyInterface_ce"
abbreviation php_phongo_objectid_interface_ce :: class_ref where "php_phongo_objectid_interface_ce \<equiv> BsonClass ObjectIdInterface_ce"
abbreviation php_phongo_regex_interface_ce :: class_ref where "php_phongo_regex_interface_ce \<equiv> BsonClass RegexInterface_ce"
abbreviation php_phongo_timestamp_interface_ce :: class_ref where "php_phongo_timestamp_interface_ce \<equiv> BsonClass TimestampInterface_ce"
abbreviation php_phongo_utcdatetime_interface_ce :: class_ref where "php_phongo_utcdatetime_interface_ce \<equiv> BsonClass UTCDateTimeInterface_ce"
abbreviation php_phongo_binary_ce :: class_ref where "php_phongo_binary_ce \<equiv> BsonClass Binary_ce"
abbreviation php_phongo_dbpointer_ce :: class_ref where "php_phongo_dbpointer_ce \<equiv> BsonClass DBPointer_ce"
abbreviation php_phongo_decimal128_ce :: class_ref where "php_phongo_decimal128_ce \<equiv> BsonClass Decimal128_ce"
abbreviation php_phongo_int64_ce :: class_ref where "php_phongo_int64_ce \<equiv> BsonClass Int64_ce"
abbreviation php_phongo_javascript_ce :: class_ref where "php_phongo_javascript_ce \<equiv> BsonClass Javascript_ce"
abbreviation php_phongo_maxkey_ce :: class_ref where "php_phongo_maxkey_ce \<equiv> BsonClass MaxKey_ce"
abbreviation php_phongo_minkey_ce :: class_ref where "php_phongo_minkey_ce \<equiv> BsonClass MinKey_ce"
abbreviation php_phongo_objectid_ce :: class_ref where "php_phongo_objectid_ce \<equiv> BsonClass ObjectId_ce"
abbreviation php_phongo_persistable_ce :: class_ref where "php_phongo_persistable_ce \<equiv> BsonClass Persistable_ce"
abbreviation php_phongo_regex_ce :: class_ref where "php_phongo_regex_ce \<equiv> BsonClass Regex_ce"
abbreviation php_phongo_symbol_ce :: class_ref where "php_phongo_symbol_ce \<equiv> BsonClass Symbol_ce"
abbreviation php_phongo_timestamp_ce :: class_ref where "php_phongo_timestamp_ce \<equiv> BsonClass Timestamp_ce"
abbreviation php_phongo_undefined_ce :: class_ref where "php_phongo_undefined_ce \<equiv> BsonClass Undefined_ce"
abbreviation php_phongo_utcdatetime_ce :: class_ref where "php_phongo_utcdatetime_ce \<equiv> BsonClass UTCDateTime_ce"
abbreviation php_phongo_cursor_interface_ce :: class_ref where "php_phongo_cursor_interface_ce \<equiv> DriverClass CursorInterface_ce"
abbreviation php_phongo_bulkwrite_ce :: class_ref where "php_phongo_bulkwrite_ce \<equiv> DriverClass BulkWrite_ce"
abbreviation php_phongo_clientencryption_ce :: class_ref where "php_phongo_clientencryption_ce \<equiv> DriverClass ClientEncryption_ce"
abbreviation php_phongo_command_ce :: class_ref where "php_phongo_command_ce \<equiv> DriverClass Command_ce"
abbreviation php_phongo_cursor_ce :: class_ref where "php_phongo_cursor_ce \<equiv> DriverClass Cursor_ce"
abbreviation php_phongo_cursorid_ce :: class_ref where "php_phongo_cursorid_ce \<equiv> DriverClass CursorId_ce"
abbreviation php_phongo_manager_ce :: class_ref where "php_phongo_manager_ce \<equiv> DriverClass Manager_ce"
abbreviation php_phongo_query_ce :: class_ref where "php_phongo_query_ce \<equiv> DriverClass Query_ce"
abbreviation php_phongo_readconcern_ce :: class_ref where "php_phongo_readconcern_ce \<equiv> DriverClass ReadConcern_ce"
abbreviation php_phongo_readpreference_ce :: class_ref where "php_phongo_readpreference_ce \<equiv> DriverClass ReadPreference_ce"
abbreviation php_phongo_server_ce :: class_ref where "php_phongo_server_ce \<equiv> DriverClass Server_ce"
abbreviation php_phongo_serverapi_ce :: class_ref where "php_phongo_serverapi_ce \<equiv> DriverClass ServerApi_ce"
abbreviation php_phongo_session_ce :: class_ref where "php_phongo_session_ce \<equiv> DriverClass Session_ce"
abbreviation php_phongo_writeconcern_ce :: class_ref where "php_phongo_writeconcern_ce \<equiv> DriverClass WriteConcern_ce"
abbreviation php_phongo_writeconcernerror_ce :: class_ref where "php_phongo_writeconcernerror_ce \<equiv> DriverClass WriteConcernError_ce"
abbreviation php_phongo_writeerror_ce :: class_ref where "php_phongo_writeerror_ce \<equiv> DriverClass WriteError_ce"
abbreviation php_phongo_writeresult_ce :: class_ref where "php_phongo_writeresult_ce \<equiv> DriverClass WriteResult_ce"
abbreviation php_phongo_exception_ce :: class_ref where "php_phongo_exception_ce \<equiv> ExceptionClass Exception_ce"
abbreviation php_phongo_runtimeexception_ce :: class_ref where "php_phongo_runtimeexception_ce \<equiv> ExceptionClass RuntimeException_ce"
abbreviation php_phongo_serverexception_ce :: class_ref where "php_phongo_serverexception_ce \<equiv> ExceptionClass ServerException_ce"
abbreviation php_phongo_connectionexception_ce :: class_ref where "php_phongo_connectionexception_ce \<equiv> ExceptionClass ConnectionException_ce"
abbreviation php_phongo_writeexception_ce :: class_ref where "php_phongo_writeexception_ce \<equiv> ExceptionClass WriteException_ce"
abbreviation php_phongo_authenticationexception_ce :: class_ref where "php_phongo_authenticationexception_ce \<equiv> ExceptionClass AuthenticationException_ce"
abbreviation php_phongo_bulkwriteexception_ce :: class_ref where "php_phongo_bulkwriteexception_ce \<equiv> ExceptionClass BulkWriteException_ce"
abbreviation php_phongo_commandexception_ce :: class_ref where "php_phongo_commandexception_ce \<equiv> ExceptionClass CommandException_ce"
abbreviation php_phongo_connectiontimeoutexception_ce :: class_ref where "php_phongo_connectiontimeoutexception_ce \<equiv> ExceptionClass ConnectionTimeoutException_ce"
abbreviation php_phongo_encryptionexception_ce :: class_ref where "php_phongo_encryptionexception_ce \<equiv> ExceptionClass EncryptionException_ce"
abbreviation php_phongo_executiontimeoutexception_ce :: class_ref where "php_phongo_executiontimeoutexception_ce \<equiv> ExceptionClass ExecutionTimeoutException_ce"
abbreviation php_phongo_invalidargumentexception_ce :: class_ref where "php_phongo_invalidargumentexception_ce \<equiv> ExceptionClass InvalidArgumentException_ce"
abbreviation php_phongo_logicexception_ce :: class_ref where "php_phongo_logicexception_ce \<equiv> ExceptionClass LogicException_ce"
abbreviation php_phongo_sslconnectionexception_ce :: class_ref where "php_phongo_sslconnectionexception_ce \<equiv> ExceptionClass SSLConnectionException_ce"
abbreviation php_phongo_unexpectedvalueexception_ce :: class_ref where "php_phongo_unexpectedvalueexception_ce \<equiv> ExceptionClass UnexpectedValueException_ce"
abbreviation php_phongo_subscriber_ce :: class_ref where "php_phongo_subscriber_ce \<equiv> MonitoringClass Subscriber_ce"
abbreviation php_phongo_commandsubscriber_ce :: class_ref where "php_phongo_commandsubscriber_ce \<equiv> MonitoringClass CommandSubscriber_ce"
abbreviation php_phongo_commandfailedevent_ce :: class_ref where "php_phongo_commandfailedevent_ce \<equiv> MonitoringClass CommandFailedEvent_ce"
abbreviation php_phongo_commandstartedevent_ce :: class_ref where "php_phongo_commandstartedevent_ce \<equiv> MonitoringClass CommandStartedEvent_ce"
abbreviation php_phongo_commandsucceededevent_ce :: class_ref where "php_phongo_commandsucceededevent_ce \<equiv> MonitoringClass CommandSucceededEvent_ce"

section \<open>Names of the classes\<close>

fun php_class_name :: "php_ce \<Rightarrow> string" where
  "php_class_name zend_ce_traversable = ''Traversable''"
| "php_class_name zend_ce_iterator = ''Iterator''"
| "php_class_name zend_ce_countable = ''Countable''"
| "php_class_name zend_ce_serializable = ''Serializable''"
| "php_class_name zend_ce_throwable = ''Throwable''"
| "php_class_name zend_ce_exception = ''Exception''"
| "php_class_name spl_ce_LogicException = ''LogicException''"
| "php_class_name spl_ce_InvalidArgumentException = ''InvalidArgumentException''"
| "php_class_name spl_ce_RuntimeException = ''RuntimeException''"
| "php_class_name spl_ce_UnexpectedValueException = ''UnexpectedValueException''"
| "php_class_name json_serializable_ce = ''JsonSerializable''"

fun bson_class_name :: "bson_ce \<Rightarrow> string" where
  "bson_class_name Type_ce = ''Type''"
| "bson_class_name Serializable_ce = ''Serializable''"
| "bson_class_name Unserializable_ce = ''Unserializable''"
| "bson_class_name BinaryInterface_ce = ''BinaryInterface''"
| "bson_class_name Decimal128Interface_ce = ''Decimal128Interface''"
| "bson_class_name JavascriptInterface_ce = ''JavascriptInterface''"
| "bson_class_name MaxKeyInterface_ce = ''MaxKeyInterface''"
| "bson_class_name MinKeyInterface_ce = ''MinKeyInterface''"
| "bson_class_name ObjectIdInterface_ce = ''ObjectIdInterface''"
| "bson_class_name RegexInterface_ce = ''RegexInterface''"
| "bson_class_name TimestampInterface_ce = ''TimestampInterface''"
| "bson_class_name UTCDateTimeInterface_ce = ''UTCDateTimeInterface''"
| "bson_class_name Binary_ce = ''Binary''"
| "bson_class_name DBPointer_ce = ''DBPointer''"
| "bson_class_name Decimal128_ce = ''Decimal128''"
| "bson_class_name Int64_ce = ''Int64''"
| "bson_class_name Javascript_ce = ''Javascript''"
| "bson_class_name MaxKey_ce = ''MaxKey''"
| "bson_class_name MinKey_ce = ''MinKey''"
| "bson_class_name ObjectId_ce = ''ObjectId''"
| "bson_class_name Persistable_ce = ''Persistable''"
| "bson_class_name Regex_ce = ''Regex''"
| "bson_class_name Symbol_ce = ''Symbol''"
| "bson_class_name Timestamp_ce = ''Timestamp''"
| "bson_class_name Undefined_ce = ''Undefined''"
| "bson_class_name UTCDateTime_ce = ''UTCDateTime''"

fun driver_class_name :: "driver_ce \<Rightarrow> string" where
  "driver_class_name CursorInterface_ce = ''CursorInterface''"
| "driver_class_name BulkWrite_ce = ''BulkWrite''"
| "driver_class_name ClientEncryption_ce = ''ClientEncryption''"
| "driver_class_name Command_ce = ''Command''"
| "driver_class_name Cursor_ce = ''Cursor''"
| "driver_class_name CursorId_ce = ''CursorId''"
| "driver_class_name Manager_ce = ''Manager''"
| "driver_class_name Query_ce = ''Query''"
| "driver_class_name ReadConcern_ce = ''ReadConcern''"
| "driver_class_name ReadPreference_ce = ''ReadPreference''"
| "driver_class_name Server_ce = ''Server''"
| "driver_class_name ServerApi_ce = ''ServerApi''"
| "driver_class_name Session_ce = ''Session''"
| "driver_class_name WriteConcern_ce = ''WriteConcern''"
| "driver_class_name WriteConcernError_ce = ''WriteConcernError''"
| "driver_class_name WriteError_ce = ''WriteError''"
| "driver_class_name WriteResult_ce = ''WriteResult''"

fun exception_class_name :: "exception_ce \<Rightarrow> string" where
  "exception_class_name Exception_ce = ''Exception''"
| "exception_class_name RuntimeException_ce = ''RuntimeException''"
| "exception_class_name ServerException_ce = ''ServerException''"
| "exception_class_name ConnectionException_ce = ''ConnectionException''"
| "exception_class_name WriteException_ce = ''WriteException''"
| "exception_class_name AuthenticationException_ce = ''AuthenticationException''"
| "exception_class_name BulkWriteException_ce = ''BulkWriteException''"
| "exception_class_name CommandException_ce = ''CommandException''"
| "exception_class_name ConnectionTimeoutException_ce = ''ConnectionTimeoutException''"
| "exception_class_name EncryptionException_ce = ''EncryptionException''"
| "exception_class_name ExecutionTimeoutException_ce = ''ExecutionTimeoutException''"
| "exception_class_name InvalidArgumentException_ce = ''InvalidArgumentException''"
| "exception_class_name LogicException_ce = ''LogicException''"
| "exception_class_name SSLConnectionException_ce = ''SSLConnectionException''"
| "exception_class_name UnexpectedValueException_ce = ''UnexpectedValueException''"

fun monitoring_class_name :: "monitoring_ce \<Rightarrow> string" where
  "monitoring_class_name Subscriber_ce = ''Subscriber''"
| "monitoring_class_name CommandSubscriber_ce = ''CommandSubscriber''"
| "monitoring_class_name CommandFailedEvent_ce = ''CommandFailedEvent''"
| "monitoring_class_name CommandStartedEvent_ce = ''CommandStartedEvent''"
| "monitoring_class_name CommandSucceededEvent_ce = ''CommandSucceededEvent''"

fun class_full_name :: "class_ref \<Rightarrow> string" where
  "class_full_name (PhpClass c) = php_class_name c"
| "class_full_name (BsonClass c) = bson_ns (bson_class_name c)"
| "class_full_name (DriverClass c) = driver_ns (driver_class_name c)"
| "class_full_name (ExceptionClass c) = driver_ns (''Exception'' @ CHR 0x5C # exception_class_name c)"
| "class_full_name (MonitoringClass c) = driver_ns (''Monitoring'' @ CHR 0x5C # monitoring_class_name c)"

section \<open>Method tables\<close>

datatype zend_type = T_none | T_array | T_object class_ref | T_string | T_bool | T_long | T_void | T_mixed

datatype zend_acc = ACC_PUBLIC | ACC_PROTECTED | ACC_PRIVATE | ACC_STATIC | ACC_FINAL | ACC_ABSTRACT

text \<open>A parameter: name, type, and whether null is allowed.\<close>

record zend_arg =
  arg_name :: string
  arg_type :: zend_type
  arg_null :: bool

definition ARG :: "string \<Rightarrow> zend_arg" where
  "ARG n = \<lparr>arg_name = n, arg_type = T_none, arg_null = True\<rparr>"

definition ARG_ARRAY :: "string \<Rightarrow> bool \<Rightarrow> zend_arg" where
  "ARG_ARRAY n null = \<lparr>arg_name = n, arg_type = T_array, arg_null = null\<rparr>"

definition ARG_OBJ :: "string \<Rightarrow> class_ref \<Rightarrow> bool \<Rightarrow> zend_arg" where
  "ARG_OBJ n c null = \<lparr>arg_name = n, arg_type = T_object c, arg_null = null\<rparr>"

definition ARG_TYPE :: "string \<Rightarrow> zend_type \<Rightarrow> bool \<Rightarrow> zend_arg" where
  "ARG_TYPE n t null = \<lparr>arg_name = n, arg_type = t, arg_null = null\<rparr>"

text \<open>Parameters of a method: how many are required, and a tentative type of the result.\<close>

record zend_arg_info =
  ai_required :: nat
  ai_args :: "zend_arg list"
  ai_return :: "zend_type option"

definition ARG_INFO :: "nat \<Rightarrow> zend_arg list \<Rightarrow> zend_arg_info" where
  "ARG_INFO required args = \<lparr>ai_required = required, ai_args = args, ai_return = None\<rparr>"

definition ARG_INFO_RETURN :: "nat \<Rightarrow> zend_type \<Rightarrow> zend_arg list \<Rightarrow> zend_arg_info" where
  "ARG_INFO_RETURN required t args = \<lparr>ai_required = required, ai_args = args, ai_return = Some t\<rparr>"

text \<open>A method and the function that implements it; an abstract method has none.\<close>

record method_entry =
  fe_name :: string
  fe_handler :: "(string \<times> string) option"
  fe_info :: zend_arg_info
  fe_flags :: "zend_acc list"

definition PHP_ME :: "string \<Rightarrow> string \<Rightarrow> zend_arg_info \<Rightarrow> zend_acc list \<Rightarrow> method_entry" where
  "PHP_ME c n info flags = \<lparr>fe_name = n, fe_handler = Some (c, n), fe_info = info, fe_flags = flags\<rparr>"

definition ABSTRACT_ME :: "string \<Rightarrow> string \<Rightarrow> zend_arg_info \<Rightarrow> method_entry" where
  "ABSTRACT_ME c n info = \<lparr>fe_name = n, fe_handler = None, fe_info = info, fe_flags = [ACC_PUBLIC, ACC_ABSTRACT]\<rparr>"

definition NAMED_ME :: "string \<Rightarrow> string \<Rightarrow> zend_arg_info \<Rightarrow> zend_acc list \<Rightarrow> method_entry" where
  "NAMED_ME n f info flags = \<lparr>fe_name = n, fe_handler = Some ('''', f), fe_info = info, fe_flags = flags\<rparr>"

section \<open>Classes\<close>

text \<open>Constants; those of the headers of libbson and libmongoc are known by name.\<close>

datatype class_const = ConstLong int | ConstString string | ConstMacro string

record class_entry =
  ce_ref :: class_ref
  ce_is_interface :: bool
  ce_parent :: "class_ref option"
  ce_interfaces :: "class_ref list"
  ce_methods :: "method_entry list"
  ce_constants :: "(string \<times> class_const) list"
  ce_properties :: "(string \<times> zend_acc) list"
  ce_create_object :: "class_ref option"
  ce_final :: bool
  ce_abstract :: bool
  ce_not_serializable :: bool

text \<open>
  The handlers of the objects of a class: copies, comparison, the tables for \<^verbatim>\<open>var_dump\<close> and for
  the other readers, the end of an object, and the offset of the engine's part.
\<close>

record object_handlers =
  oh_clone :: "string option"
  oh_compare :: "string option"
  oh_get_debug_info :: "string option"
  oh_get_properties :: "string option"
  oh_get_gc :: string
  oh_free :: "string option"
  oh_offset :: "string option"

text \<open>The table of classes, the last registered first, and the handlers of the driver's classes.\<close>

record class_module =
  cm_classes :: "class_entry list"
  cm_handlers :: "(class_ref \<times> object_handlers) list"

type_synonym class_step = "class_module \<Rightarrow> class_module option"

fun class_steps :: "class_step list \<Rightarrow> class_step" where
  "class_steps [] M = Some M"
| "class_steps (f # fs) M = (case f M of None \<Rightarrow> None | Some M1 \<Rightarrow> class_steps fs M1)"

definition find_class :: "class_ref \<Rightarrow> class_entry list \<Rightarrow> class_entry option" where
  "find_class c cs = find (\<lambda>e. ce_ref e = c) cs"

text \<open>A write through a pointer to a class; a null pointer is undefined.\<close>

fun update_first :: "class_ref \<Rightarrow> (class_entry \<Rightarrow> class_entry) \<Rightarrow> class_entry list \<Rightarrow> class_entry list option" where
  "update_first c f [] = None"
| "update_first c f (e # cs) = (if ce_ref e = c then Some (f e # cs) else map_option (Cons e) (update_first c f cs))"

definition update_class :: "class_ref \<Rightarrow> (class_entry \<Rightarrow> class_entry) \<Rightarrow> class_step" where
  "update_class c f M = map_option (\<lambda>cs. M\<lparr>cm_classes := cs\<rparr>) (update_first c f (cm_classes M))"

section \<open>The engine's functions\<close>

definition new_class :: "class_ref \<Rightarrow> method_entry list \<Rightarrow> class_entry" where
  "new_class c methods = \<lparr>ce_ref = c, ce_is_interface = False, ce_parent = None, ce_interfaces = [], ce_methods = methods,
     ce_constants = [], ce_properties = [], ce_create_object = None, ce_final = False, ce_abstract = False, ce_not_serializable = False\<rparr>"

text \<open>The table is updated: an entry with the name would be replaced.\<close>

definition register_entry :: "class_entry \<Rightarrow> class_module \<Rightarrow> class_module" where
  "register_entry e M = M\<lparr>cm_classes := e # filter (\<lambda>d. ce_ref d \<noteq> ce_ref e) (cm_classes M)\<rparr>"

definition zend_register_internal_class :: "class_ref \<Rightarrow> method_entry list \<Rightarrow> class_step" where
  "zend_register_internal_class c methods M = Some (register_entry (new_class c methods) M)"

definition zend_register_internal_interface :: "class_ref \<Rightarrow> method_entry list \<Rightarrow> class_step" where
  "zend_register_internal_interface c methods M = Some (register_entry ((new_class c methods)\<lparr>ce_is_interface := True\<rparr>) M)"

text \<open>
  A class inherits what its parent has now.  Of the methods with a name the first counts, so those
  of the class hide the inherited ones.  Its parent may not be final.
\<close>

definition zend_do_inheritance :: "class_entry \<Rightarrow> class_entry \<Rightarrow> class_entry" where
  "zend_do_inheritance e p = e\<lparr>ce_parent := Some (ce_ref p), ce_interfaces := ce_interfaces p,
     ce_methods := ce_methods e @ ce_methods p,
     ce_constants := ce_constants p, ce_properties := ce_properties p, ce_create_object := ce_create_object p,
     ce_not_serializable := ce_not_serializable p\<rparr>"

text \<open>A null pointer for the parent is no parent.\<close>

definition zend_register_internal_class_ex :: "class_ref \<Rightarrow> method_entry list \<Rightarrow> class_ref \<Rightarrow> class_step" where
  "zend_register_internal_class_ex c methods parent M = (case find_class parent (cm_classes M) of
     None \<Rightarrow> Some (register_entry (new_class c methods) M)
   | Some p \<Rightarrow> if ce_final p \<or> ce_is_interface p then None
       else Some (register_entry (zend_do_inheritance (new_class c methods) p) M))"

text \<open>
  An interface the parent has is passed over; another that the class has already is a fatal
  error.  The interfaces of the interface follow it, and its methods those of the class.
\<close>

definition parent_interfaces :: "class_entry list \<Rightarrow> class_entry \<Rightarrow> class_ref list" where
  "parent_interfaces cs e = (case Option.bind (ce_parent e) (\<lambda>p. find_class p cs) of None \<Rightarrow> [] | Some p \<Rightarrow> ce_interfaces p)"

definition add_interface :: "class_entry \<Rightarrow> class_entry \<Rightarrow> class_entry" where
  "add_interface i e = e\<lparr>ce_interfaces := ce_interfaces e @ ce_ref i # filter (\<lambda>c. c \<notin> set (ce_interfaces e)) (ce_interfaces i),
     ce_methods := ce_methods e @ ce_methods i,
     ce_constants := ce_constants e @ ce_constants i\<rparr>"

definition zend_do_implement_interface :: "class_ref \<Rightarrow> class_ref \<Rightarrow> class_step" where
  "zend_do_implement_interface c i M = (case (find_class c (cm_classes M), find_class i (cm_classes M)) of
     (Some e, Some ie) \<Rightarrow>
       if i \<in> set (ce_interfaces e)
       then (if i \<in> set (parent_interfaces (cm_classes M) e) then Some M else None)
       else update_class c (add_interface ie) M
   | _ \<Rightarrow> None)"

definition zend_class_implements :: "class_ref \<Rightarrow> class_ref list \<Rightarrow> class_step" where
  "zend_class_implements c interfaces = class_steps (map (zend_do_implement_interface c) interfaces)"

text \<open>Each class has its own function that makes objects, known by the class.\<close>

definition set_create_object :: "class_ref \<Rightarrow> class_ref \<Rightarrow> class_step" where
  "set_create_object c f = update_class c (\<lambda>e. e\<lparr>ce_create_object := Some f\<rparr>)"

definition PHONGO_CE_FINAL :: "class_ref \<Rightarrow> class_step" where
  "PHONGO_CE_FINAL c = update_class c (\<lambda>e. e\<lparr>ce_final := True\<rparr>)"

definition set_explicit_abstract :: "class_ref \<Rightarrow> class_step" where
  "set_explicit_abstract c = update_class c (\<lambda>e. e\<lparr>ce_abstract := True\<rparr>)"

definition PHONGO_CE_DISABLE_SERIALIZATION :: "class_ref \<Rightarrow> class_step" where
  "PHONGO_CE_DISABLE_SERIALIZATION c = update_class c (\<lambda>e. e\<lparr>ce_not_serializable := True\<rparr>)"

definition zend_declare_class_constant :: "class_ref \<Rightarrow> string \<Rightarrow> class_const \<Rightarrow> class_step" where
  "zend_declare_class_constant c n v = update_class c (\<lambda>e. e\<lparr>ce_constants := ce_constants e @ [(n, v)]\<rparr>)"

definition zend_declare_property_null :: "class_ref \<Rightarrow> string \<Rightarrow> zend_acc \<Rightarrow> class_step" where
  "zend_declare_property_null c n acc = update_class c (\<lambda>e. e\<lparr>ce_properties := ce_properties e @ [(n, acc)]\<rparr>)"

definition set_handlers :: "class_ref \<Rightarrow> object_handlers \<Rightarrow> class_step" where
  "set_handlers c h M = Some (M\<lparr>cm_handlers := (c, h) # cm_handlers M\<rparr>)"

text \<open>The handlers a class of the driver starts from: no clones, and the properties for the collector.\<close>

definition phongo_get_std_object_handlers :: object_handlers where
  "phongo_get_std_object_handlers = \<lparr>oh_clone = None, oh_compare = None, oh_get_debug_info = None, oh_get_properties = None,
     oh_get_gc = ''php_phongo_std_get_gc'', oh_free = None, oh_offset = None\<rparr>"

section \<open>Initialisers\<close>

text \<open>An initialiser is the list of its calls, run in order until a pointer is null or the engine gives up.\<close>

datatype class_call =
    RegisterClass class_ref "method_entry list"
  | RegisterInterface class_ref "method_entry list"
  | RegisterClassEx class_ref "method_entry list" class_ref
  | ClassImplements class_ref "class_ref list"
  | SetCreateObject class_ref class_ref
  | CeFinal class_ref
  | CeExplicitAbstract class_ref
  | CeDisableSerialization class_ref
  | DeclareConstant class_ref string class_const
  | DeclarePropertyNull class_ref string zend_acc
  | SetHandlers class_ref object_handlers

fun call_engine :: "class_call \<Rightarrow> class_step" where
  "call_engine (RegisterClass c methods) = zend_register_internal_class c methods"
| "call_engine (RegisterInterface c methods) = zend_register_internal_interface c methods"
| "call_engine (RegisterClassEx c methods parent) = zend_register_internal_class_ex c methods parent"
| "call_engine (ClassImplements c interfaces) = zend_class_implements c interfaces"
| "call_engine (SetCreateObject c f) = set_create_object c f"
| "call_engine (CeFinal c) = PHONGO_CE_FINAL c"
| "call_engine (CeExplicitAbstract c) = set_explicit_abstract c"
| "call_engine (CeDisableSerialization c) = PHONGO_CE_DISABLE_SERIALIZATION c"
| "call_engine (DeclareConstant c n v) = zend_declare_class_constant c n v"
| "call_engine (DeclarePropertyNull c n acc) = zend_declare_property_null c n acc"
| "call_engine (SetHandlers c h) = set_handlers c h"

definition run_calls :: "class_call list \<Rightarrow> class_step" where
  "run_calls calls = class_steps (map call_engine calls)"

end
