(* ===== verification/Bson_Classes.thy ===== *)
theory Bson_Classes
  imports Php_Classes
begin

text \<open>
  The classes of the BSON namespace (src/BSON): for each class its table of methods, with their
  parameters, and its initialiser.  Parameters are those of PHP 8 where versions
  differ.
\<close>

section \<open>Tables and initialisers\<close>

definition php_phongo_type_me :: "method_entry list" where
  "php_phongo_type_me = []"

definition php_phongo_type_init_ce :: "class_call list" where
  "php_phongo_type_init_ce = [
     RegisterInterface php_phongo_type_ce php_phongo_type_me]"

definition php_phongo_serializable_me :: "method_entry list" where
  "php_phongo_serializable_me = [ABSTRACT_ME ''Serializable'' ''bsonSerialize'' (ARG_INFO 0 [])]"

definition php_phongo_serializable_init_ce :: "class_call list" where
  "php_phongo_serializable_init_ce = [
     RegisterInterface php_phongo_serializable_ce php_phongo_serializable_me,
     ClassImplements php_phongo_serializable_ce [php_phongo_type_ce]]"

definition php_phongo_unserializable_me :: "method_entry list" where
  "php_phongo_unserializable_me = [ABSTRACT_ME ''Unserializable'' ''bsonUnserialize'' (ARG_INFO 1 [ARG_ARRAY ''data'' False])]"

definition php_phongo_unserializable_init_ce :: "class_call list" where
  "php_phongo_unserializable_init_ce = [
     RegisterInterface php_phongo_unserializable_ce php_phongo_unserializable_me]"

definition php_phongo_binary_interface_me :: "method_entry list" where
  "php_phongo_binary_interface_me = [ABSTRACT_ME ''BinaryInterface'' ''getData'' (ARG_INFO 0 []),
     ABSTRACT_ME ''BinaryInterface'' ''getType'' (ARG_INFO 0 []),
     ABSTRACT_ME ''BinaryInterface'' ''__toString'' (ARG_INFO 0 [])]"

definition php_phongo_binary_interface_init_ce :: "class_call list" where
  "php_phongo_binary_interface_init_ce = [
     RegisterInterface php_phongo_binary_interface_ce php_phongo_binary_interface_me]"

definition php_phongo_decimal128_interface_me :: "method_entry list" where
  "php_phongo_decimal128_interface_me = [ABSTRACT_ME ''Decimal128Interface'' ''__toString'' (ARG_INFO 0 [])]"

definition php_phongo_decimal128_interface_init_ce :: "class_call list" where
  "php_phongo_decimal128_interface_init_ce = [
     RegisterInterface php_phongo_decimal128_interface_ce php_phongo_decimal128_interface_me]"

definition php_phongo_javascript_interface_me :: "method_entry list" where
  "php_phongo_javascript_interface_me = [ABSTRACT_ME ''JavascriptInterface'' ''getCode'' (ARG_INFO 0 []),
     ABSTRACT_ME ''JavascriptInterface'' ''getScope'' (ARG_INFO 0 []),
     ABSTRACT_ME ''JavascriptInterface'' ''__toString'' (ARG_INFO 0 [])]"

definition php_phongo_javascript_interface_init_ce :: "class_call list" where
  "php_phongo_javascript_interface_init_ce = [
     RegisterInterface php_phongo_javascript_interface_ce php_phongo_javascript_interface_me]"

definition php_phongo_maxkey_interface_me :: "method_entry list" where
  "php_phongo_maxkey_interface_me = []"

definition php_phongo_maxkey_interface_init_ce :: "class_call list" where
  "php_phongo_maxkey_interface_init_ce = [
     RegisterInterface php_phongo_maxkey_interface_ce php_phongo_maxkey_interface_me]"

definition php_phongo_minkey_interface_me :: "method_entry list" where
  "php_phongo_minkey_interface_me = []"

definition php_phongo_minkey_interface_init_ce :: "class_call list" where
  "php_phongo_minkey_interface_init_ce = [
     RegisterInterface php_phongo_minkey_interface_ce php_phongo_minkey_interface_me]"

definition php_phongo_objectid_interface_me :: "method_entry list" where
  "php_phongo_objectid_interface_me = [ABSTRACT_ME ''ObjectIdInterface'' ''getTimestamp'' (ARG_INFO 0 []),
     ABSTRACT_ME ''ObjectIdInterface'' ''__toString'' (ARG_INFO 0 [])]"

definition php_phongo_objectid_interface_init_ce :: "class_call list" where
  "php_phongo_objectid_interface_init_ce = [
     RegisterInterface php_phongo_objectid_interface_ce php_phongo_objectid_interface_me]"

definition php_phongo_regex_interface_me :: "method_entry list" where
  "php_phongo_regex_interface_me = [ABSTRACT_ME ''RegexInterface'' ''getFlags'' (ARG_INFO 0 []),
     ABSTRACT_ME ''RegexInterface'' ''getPattern'' (ARG_INFO 0 []),
     ABSTRACT_ME ''RegexInterface'' ''__toString'' (ARG_INFO 0 [])]"

definition php_phongo_regex_interface_init_ce :: "class_call list" where
  "php_phongo_regex_interface_init_ce = [
     RegisterInterface php_phongo_regex_interface_ce php_phongo_regex_interface_me]"

definition php_phongo_timestamp_interface_me :: "method_entry list" where
  "php_phongo_timestamp_interface_me = [ABSTRACT_ME ''TimestampInterface'' ''getIncrement'' (ARG_INFO 0 []),
     ABSTRACT_ME ''TimestampInterface'' ''getTimestamp'' (ARG_INFO 0 []),
     ABSTRACT_ME ''TimestampInterface'' ''__toString'' (ARG_INFO 0 [])]"

definition php_phongo_timestamp_interface_init_ce :: "class_call list" where
  "php_phongo_timestamp_interface_init_ce = [
     RegisterInterface php_phongo_timestamp_interface_ce php_phongo_timestamp_interface_me]"

definition php_phongo_utcdatetime_interface_me :: "method_entry list" where
  "php_phongo_utcdatetime_interface_me = [ABSTRACT_ME ''UTCDateTimeInterface'' ''toDateTime'' (ARG_INFO 0 []),
     ABSTRACT_ME ''UTCDateTimeInterface'' ''__toString'' (ARG_INFO 0 [])]"

definition php_phongo_utcdatetime_interface_init_ce :: "class_call list" where
  "php_phongo_utcdatetime_interface_init_ce = [
     RegisterInterface php_phongo_utcdatetime_interface_ce php_phongo_utcdatetime_interface_me]"

definition php_phongo_binary_me :: "method_entry list" where
  "php_phongo_binary_me = [PHP_ME ''Binary'' ''__construct'' (ARG_INFO 2 [ARG ''data'', ARG ''type'']) [ACC_PUBLIC, ACC_FINAL],
     PHP_ME ''Binary'' ''__serialize'' (ARG_INFO 0 []) [ACC_PUBLIC, ACC_FINAL],
     PHP_ME ''Binary'' ''__set_state'' (ARG_INFO 1 [ARG_ARRAY ''properties'' False]) [ACC_PUBLIC, ACC_STATIC],
     PHP_ME ''Binary'' ''__toString'' (ARG_INFO 0 []) [ACC_PUBLIC, ACC_FINAL],
     PHP_ME ''Binary'' ''__unserialize'' (ARG_INFO 1 [ARG_ARRAY ''data'' False]) [ACC_PUBLIC, ACC_FINAL],
     PHP_ME ''Binary'' ''jsonSerialize'' (ARG_INFO_RETURN 0 T_array []) [ACC_PUBLIC, ACC_FINAL],
     PHP_ME ''Binary'' ''serialize'' (ARG_INFO 0 []) [ACC_PUBLIC, ACC_FINAL],
     PHP_ME ''Binary'' ''unserialize'' (ARG_INFO 1 [ARG ''serialized'']) [ACC_PUBLIC, ACC_FINAL],
     PHP_ME ''Binary'' ''getData'' (ARG_INFO 0 []) [ACC_PUBLIC, ACC_FINAL],
     PHP_ME ''Binary'' ''getType'' (ARG_INFO 0 []) [ACC_PUBLIC, ACC_FINAL]]"

definition php_phongo_handler_binary :: object_handlers where
  "php_phongo_handler_binary = phongo_get_std_object_handlers\<lparr>oh_compare := Some ''php_phongo_binary_compare_objects'',
     oh_clone := Some ''php_phongo_binary_clone_object'',
     oh_get_debug_info := Some ''php_phongo_binary_get_debug_info'',
     oh_get_properties := Some ''php_phongo_binary_get_properties'',
     oh_free := Some ''php_phongo_binary_free_object'',
     oh_offset := Some ''php_phongo_binary_t''\<rparr>"

definition php_phongo_binary_init_ce :: "class_call list" where
  "php_phongo_binary_init_ce = [
     RegisterClass php_phongo_binary_ce php_phongo_binary_me,
     SetCreateObject php_phongo_binary_ce php_phongo_binary_ce,
     CeFinal php_phongo_binary_ce,
     ClassImplements php_phongo_binary_ce [php_phongo_binary_interface_ce],
     ClassImplements php_phongo_binary_ce [(PhpClass json_serializable_ce)],
     ClassImplements php_phongo_binary_ce [php_phongo_type_ce],
     ClassImplements php_phongo_binary_ce [(PhpClass zend_ce_serializable)],
     SetHandlers php_phongo_binary_ce php_phongo_handler_binary,
     DeclareConstant php_phongo_binary_ce ''TYPE_GENERIC'' (ConstMacro ''BSON_SUBTYPE_BINARY''),
     DeclareConstant php_phongo_binary_ce ''TYPE_FUNCTION'' (ConstMacro ''BSON_SUBTYPE_FUNCTION''),
     DeclareConstant php_phongo_binary_ce ''TYPE_OLD_BINARY'' (ConstMacro ''BSON_SUBTYPE_BINARY_DEPRECATED''),
     DeclareConstant php_phongo_binary_ce ''TYPE_OLD_UUID'' (ConstMacro ''BSON_SUBTYPE_UUID_DEPRECATED''),
     DeclareConstant php_phongo_binary_ce ''TYPE_UUID'' (ConstMacro ''BSON_SUBTYPE_UUID''),
     DeclareConstant php_phongo_binary_ce ''TYPE_MD5'' (ConstMacro ''BSON_SUBTYPE_MD5''),
     DeclareConstant php_phongo_binary_ce ''TYPE_ENCRYPTED'' (ConstMacro ''BSON_SUBTYPE_ENCRYPTED''),
     DeclareConstant php_phongo_binary_ce ''TYPE_USER_DEFINED'' (ConstMacro ''BSON_SUBTYPE_USER'')]"

definition php_phongo_dbpointer_me :: "method_entry list" where
  "php_phongo_dbpointer_me = [PHP_ME ''DBPointer'' ''__serialize'' (ARG_INFO 0 []) [ACC_PUBLIC, ACC_FINAL],
     PHP_ME ''DBPointer'' ''__toString'' (ARG_INFO 0 []) [ACC_PUBLIC, ACC_FINAL],
     PHP_ME ''DBPointer'' ''__unserialize'' (ARG_INFO 1 [ARG_ARRAY ''data'' False]) [ACC_PUBLIC, ACC_FINAL],
     PHP_ME ''DBPointer'' ''jsonSerialize'' (ARG_INFO_RETURN 0 T_array []) [ACC_PUBLIC, ACC_FINAL],
     PHP_ME ''DBPointer'' ''serialize'' (ARG_INFO 0 []) [ACC_PUBLIC, ACC_FINAL],
     PHP_ME ''DBPointer'' ''unserialize'' (ARG_INFO 1 [ARG ''serialized'']) [ACC_PUBLIC, ACC_FINAL],
     NAMED_ME ''__construct'' ''MongoDB_disabled___construct'' (ARG_INFO 0 []) [ACC_PRIVATE, ACC_FINAL]]"

definition php_phongo_handler_dbpointer :: object_handlers where
  "php_phongo_handler_dbpointer = phongo_get_std_object_handlers\<lparr>oh_compare := Some ''php_phongo_dbpointer_compare_objects'',
     oh_clone := Some ''php_phongo_dbpointer_clone_object'',
     oh_get_debug_info := Some ''php_phongo_dbpointer_get_debug_info'',
     oh_get_properties := Some ''php_phongo_dbpointer_get_properties'',
     oh_free := Some ''php_phongo_dbpointer_free_object'',
     oh_offset := Some ''php_phongo_dbpointer_t''\<rparr>"

definition php_phongo_dbpointer_init_ce :: "class_call list" where
  "php_phongo_dbpointer_init_ce = [
     RegisterClass php_phongo_dbpointer_ce php_phongo_dbpointer_me,
     SetCreateObject php_phongo_dbpointer_ce php_phongo_dbpointer_ce,
     CeFinal php_phongo_dbpointer_ce,
     ClassImplements php_phongo_dbpointer_ce [(PhpClass json_serializable_ce)],
     ClassImplements php_phongo_dbpointer_ce [php_phongo_type_ce],
     ClassImplements php_phongo_dbpointer_ce [(PhpClass zend_ce_serializable)],
     SetHandlers php_phongo_dbpointer_ce php_phongo_handler_dbpointer]"

definition php_phongo_decimal128_me :: "method_entry list" where
  "php_phongo_decimal128_me = [PHP_ME ''Decimal128'' ''__construct'' (ARG_INFO 1 [ARG ''value'']) [ACC_PUBLIC, ACC_FINAL],
     PHP_ME ''Decimal128'' ''__serialize'' (ARG_INFO 0 []) [ACC_PUBLIC, ACC_FINAL],
     PHP_ME ''Decimal128'' ''__set_state'' (ARG_INFO 1 [ARG_ARRAY ''properties'' False]) [ACC_PUBLIC, ACC_STATIC],
     PHP_ME ''Decimal128'' ''__toString'' (ARG_INFO 0 []) [ACC_PUBLIC, ACC_FINAL],
     PHP_ME ''Decimal128'' ''__unserialize'' (ARG_INFO 1 [ARG_ARRAY ''data'' False]) [ACC_PUBLIC, ACC_FINAL],
     PHP_ME ''Decimal128'' ''jsonSerialize'' (ARG_INFO_RETURN 0 T_array []) [ACC_PUBLIC, ACC_FINAL],
     PHP_ME ''Decimal128'' ''serialize'' (ARG_INFO 0 []) [ACC_PUBLIC, ACC_FINAL],
     PHP_ME ''Decimal128'' ''unserialize'' (ARG_INFO 1 [ARG ''serialized'']) [ACC_PUBLIC, ACC_FINAL]]"

definition php_phongo_handler_decimal128 :: object_handlers where
  "php_phongo_handler_decimal128 = phongo_get_std_object_handlers\<lparr>oh_clone := Some ''php_phongo_decimal128_clone_object'',
     oh_get_debug_info := Some ''php_phongo_decimal128_get_debug_info'',
     oh_get_properties := Some ''php_phongo_decimal128_get_properties'',
     oh_free := Some ''php_phongo_decimal128_free_object'',
     oh_offset := Some ''php_phongo_decimal128_t''\<rparr>"

definition php_phongo_decimal128_init_ce :: "class_call list" where
  "php_phongo_decimal128_init_ce = [
     RegisterClass php_phongo_decimal128_ce php_phongo_decimal128_me,
     SetCreateObject php_phongo_decimal128_ce php_phongo_decimal128_ce,
     CeFinal php_phongo_decimal128_ce,
     ClassImplements php_phongo_decimal128_ce [php_phongo_decimal128_interface_ce],
     ClassImplements php_phongo_decimal128_ce [(PhpClass json_serializable_ce)],
     ClassImplements php_phongo_decimal128_ce [php_phongo_type_ce],
     ClassImplements php_phongo_decimal128_ce [(PhpClass zend_ce_serializable)],
     SetHandlers php_phongo_decimal128_ce php_phongo_handler_decimal128]"

definition php_phongo_int64_me :: "method_entry list" where
  "php_phongo_int64_me = [PHP_ME ''Int64'' ''__serialize'' (ARG_INFO 0 []) [ACC_PUBLIC, ACC_FINAL],
     PHP_ME ''Int64'' ''__toString'' (ARG_INFO 0 []) [ACC_PUBLIC, ACC_FINAL],
     PHP_ME ''Int64'' ''__unserialize'' (ARG_INFO 1 [ARG_ARRAY ''data'' False]) [ACC_PUBLIC, ACC_FINAL],
     PHP_ME ''Int64'' ''jsonSerialize'' (ARG_INFO_RETURN 0 T_array []) [ACC_PUBLIC, ACC_FINAL],
     PHP_ME ''Int64'' ''serialize'' (ARG_INFO 0 []) [ACC_PUBLIC, ACC_FINAL],
     PHP_ME ''Int64'' ''unserialize'' (ARG_INFO 1 [ARG ''serialized'']) [ACC_PUBLIC, ACC_FINAL],
     NAMED_ME ''__construct'' ''MongoDB_disabled___construct'' (ARG_INFO 0 []) [ACC_PRIVATE, ACC_FINAL]]"

definition php_phongo_handler_int64 :: object_handlers where
  "php_phongo_handler_int64 = phongo_get_std_object_handlers\<lparr>oh_compare := Some ''php_phongo_int64_compare_objects'',
     oh_clone := Some ''php_phongo_int64_clone_object'',
     oh_get_debug_info := Some ''php_phongo_int64_get_debug_info'',
     oh_get_properties := Some ''php_phongo_int64_get_properties'',
     oh_free := Some ''php_phongo_int64_free_object'',
     oh_offset := Some ''php_phongo_int64_t''\<rparr>"

definition php_phongo_int64_init_ce :: "class_call list" where
  "php_phongo_int64_init_ce = [
     RegisterClass php_phongo_int64_ce php_phongo_int64_me,
     SetCreateObject php_phongo_int64_ce php_phongo_int64_ce,
     CeFinal php_phongo_int64_ce,
     ClassImplements php_phongo_int64_ce [(PhpClass json_serializable_ce)],
     ClassImplements php_phongo_int64_ce [php_phongo_type_ce],
     ClassImplements php_phongo_int64_ce [(PhpClass zend_ce_serializable)],
     SetHandlers php_phongo_int64_ce php_phongo_handler_int64]"

definition php_phongo_javascript_me :: "method_entry list" where
  "php_phongo_javascript_me = [PHP_ME ''Javascript'' ''__construct'' (ARG_INFO 1 [ARG ''javascript'', ARG ''scope'']) [ACC_PUBLIC, ACC_FINAL],
     PHP_ME ''Javascript'' ''__serialize'' (ARG_INFO 0 []) [ACC_PUBLIC, ACC_FINAL],
     PHP_ME ''Javascript'' ''__set_state'' (ARG_INFO 1 [ARG_ARRAY ''properties'' False]) [ACC_PUBLIC, ACC_STATIC],
     PHP_ME ''Javascript'' ''__toString'' (ARG_INFO 0 []) [ACC_PUBLIC, ACC_FINAL],
     PHP_ME ''Javascript'' ''__unserialize'' (ARG_INFO 1 [ARG_ARRAY ''data'' False]) [ACC_PUBLIC, ACC_FINAL],
     PHP_ME ''Javascript'' ''jsonSerialize'' (ARG_INFO_RETURN 0 T_array []) [ACC_PUBLIC, ACC_FINAL],
     PHP_ME ''Javascript'' ''serialize'' (ARG_INFO 0 []) [ACC_PUBLIC, ACC_FINAL],
     PHP_ME ''Javascript'' ''unserialize'' (ARG_INFO 1 [ARG ''serialized'']) [ACC_PUBLIC, ACC_FINAL],
     PHP_ME ''Javascript'' ''getCode'' (ARG_INFO 0 []) [ACC_PUBLIC, ACC_FINAL],
     PHP_ME ''Javascript'' ''getScope'' (ARG_INFO 0 []) [ACC_PUBLIC, ACC_FINAL]]"

definition php_phongo_handler_javascript :: object_handlers where
  "php_phongo_handler_javascript = phongo_get_std_object_handlers\<lparr>oh_compare := Some ''php_phongo_javascript_compare_objects'',
     oh_clone := Some ''php_phongo_javascript_clone_object'',
     oh_get_debug_info := Some ''php_phongo_javascript_get_debug_info'',
     oh_get_properties := Some ''php_phongo_javascript_get_properties'',
     oh_free := Some ''php_phongo_javascript_free_object'',
     oh_offset := Some ''php_phongo_javascript_t''\<rparr>"

definition php_phongo_javascript_init_ce :: "class_call list" where
  "php_phongo_javascript_init_ce = [
     RegisterClass php_phongo_javascript_ce php_phongo_javascript_me,
     SetCreateObject php_phongo_javascript_ce php_phongo_javascript_ce,
     CeFinal php_phongo_javascript_ce,
     ClassImplements php_phongo_javascript_ce [php_phongo_javascript_interface_ce],
     ClassImplements php_phongo_javascript_ce [(PhpClass json_serializable_ce)],
     ClassImplements php_phongo_javascript_ce [php_phongo_type_ce],
     ClassImplements php_phongo_javascript_ce [(PhpClass zend_ce_serializable)],
     SetHandlers php_phongo_javascript_ce php_phongo_handler_javascript]"

definition php_phongo_maxkey_me :: "method_entry list" where
  "php_phongo_maxkey_me = [PHP_ME ''MaxKey'' ''__serialize'' (ARG_INFO 0 []) [ACC_PUBLIC, ACC_FINAL],
     PHP_ME ''MaxKey'' ''__set_state'' (ARG_INFO 1 [ARG_ARRAY ''properties'' False]) [ACC_PUBLIC, ACC_STATIC],
     PHP_ME ''MaxKey'' ''__unserialize'' (ARG_INFO 1 [ARG_ARRAY ''data'' False]) [ACC_PUBLIC, ACC_FINAL],
     PHP_ME ''MaxKey'' ''jsonSerialize'' (ARG_INFO_RETURN 0 T_array []) [ACC_PUBLIC, ACC_FINAL],
     PHP_ME ''MaxKey'' ''serialize'' (ARG_INFO 0 []) [ACC_PUBLIC, ACC_FINAL],
     PHP_ME ''MaxKey'' ''unserialize'' (ARG_INFO 1 [ARG ''serialized'']) [ACC_PUBLIC, ACC_FINAL]]"

definition php_phongo_handler_maxkey :: object_handlers where
  "php_phongo_handler_maxkey = phongo_get_std_object_handlers\<lparr>oh_clone := Some ''zend_objects_clone_obj'',
     oh_free := Some ''php_phongo_maxkey_free_object'',
     oh_offset := Some ''php_phongo_maxkey_t''\<rparr>"

definition php_phongo_maxkey_init_ce :: "class_call list" where
  "php_phongo_maxkey_init_ce = [
     RegisterClass php_phongo_maxkey_ce php_phongo_maxkey_me,
     SetCreateObject php_phongo_maxkey_ce php_phongo_maxkey_ce,
     CeFinal php_phongo_maxkey_ce,
     ClassImplements php_phongo_maxkey_ce [php_phongo_maxkey_interface_ce],
     ClassImplements php_phongo_maxkey_ce [(PhpClass json_serializable_ce)],
     ClassImplements php_phongo_maxkey_ce [php_phongo_type_ce],
     ClassImplements php_phongo_maxkey_ce [(PhpClass zend_ce_serializable)],
     SetHandlers php_phongo_maxkey_ce php_phongo_handler_maxkey]"

definition php_phongo_minkey_me :: "method_entry list" where
  "php_phongo_minkey_me = [PHP_ME ''MinKey'' ''__serialize'' (ARG_INFO 0 []) [ACC_PUBLIC, ACC_FINAL],
     PHP_ME ''MinKey'' ''__set_state'' (ARG_INFO 1 [ARG_ARRAY ''properties'' False]) [ACC_PUBLIC, ACC_STATIC],
     PHP_ME ''MinKey'' ''__unserialize'' (ARG_INFO 1 [ARG_ARRAY ''data'' False]) [ACC_PUBLIC, ACC_FINAL],
     PHP_ME ''MinKey'' ''jsonSerialize'' (ARG_INFO_RETURN 0 T_array []) [ACC_PUBLIC, ACC_FINAL],
     PHP_ME ''MinKey'' ''serialize'' (ARG_INFO 0 []) [ACC_PUBLIC, ACC_FINAL],
     PHP_ME ''MinKey'' ''unserialize'' (ARG_INFO 1 [ARG ''serialized'']) [ACC_PUBLIC, ACC_FINAL]]"

definition php_phongo_handler_minkey :: object_handlers where
  "php_phongo_handler_minkey = phongo_get_std_object_handlers\<lparr>oh_clone := Some ''zend_objects_clone_obj'',
     oh_free := Some ''php_phongo_minkey_free_object'',
     oh_offset := Some ''php_phongo_minkey_t''\<rparr>"

definition php_phongo_minkey_init_ce :: "class_call list" where
  "php_phongo_minkey_init_ce = [
     RegisterClass php_phongo_minkey_ce php_phongo_minkey_me,
     SetCreateObject php_phongo_minkey_ce php_phongo_minkey_ce,
     CeFinal php_phongo_minkey_ce,
     ClassImplements php_phongo_minkey_ce [php_phongo_minkey_interface_ce],
     ClassImplements php_phongo_minkey_ce [(PhpClass json_serializable_ce)],
     ClassImplements php_phongo_minkey_ce [php_phongo_type_ce],
     ClassImplements php_phongo_minkey_ce [(PhpClass zend_ce_serializable)],
     SetHandlers php_phongo_minkey_ce php_phongo_handler_minkey]"

definition php_phongo_objectid_me :: "method_entry list" where
  "php_phongo_objectid_me = [PHP_ME ''ObjectId'' ''__construct'' (ARG_INFO 0 [ARG ''id'']) [ACC_PUBLIC, ACC_FINAL],
     PHP_ME ''ObjectId'' ''getTimestamp'' (ARG_INFO 0 []) [ACC_PUBLIC, ACC_FINAL],
     PHP_ME ''ObjectId'' ''__serialize'' (ARG_INFO 0 []) [ACC_PUBLIC, ACC_FINAL],
     PHP_ME ''ObjectId'' ''__set_state'' (ARG_INFO 1 [ARG_ARRAY ''properties'' False]) [ACC_PUBLIC, ACC_STATIC],
     PHP_ME ''ObjectId'' ''__toString'' (ARG_INFO 0 []) [ACC_PUBLIC, ACC_FINAL],
     PHP_ME ''ObjectId'' ''__unserialize'' (ARG_INFO 1 [ARG_ARRAY ''data'' False]) [ACC_PUBLIC, ACC_FINAL],
     PHP_ME ''ObjectId'' ''jsonSerialize'' (ARG_INFO_RETURN 0 T_array []) [ACC_PUBLIC, ACC_FINAL],
     PHP_ME ''ObjectId'' ''serialize'' (ARG_INFO 0 []) [ACC_PUBLIC, ACC_FINAL],
     PHP_ME ''ObjectId'' ''unserialize'' (ARG_INFO 1 [ARG ''serialized'']) [ACC_PUBLIC, ACC_FINAL]]"

definition php_phongo_handler_objectid :: object_handlers where
  "php_phongo_handler_objectid = phongo_get_std_object_handlers\<lparr>oh_compare := Some ''php_phongo_objectid_compare_objects'',
     oh_clone := Some ''php_phongo_objectid_clone_object'',
     oh_get_debug_info := Some ''php_phongo_objectid_get_debug_info'',
     oh_get_properties := Some ''php_phongo_objectid_get_properties'',
     oh_free := Some ''php_phongo_objectid_free_object'',
     oh_offset := Some ''php_phongo_objectid_t''\<rparr>"

definition php_phongo_objectid_init_ce :: "class_call list" where
  "php_phongo_objectid_init_ce = [
     RegisterClass php_phongo_objectid_ce php_phongo_objectid_me,
     SetCreateObject php_phongo_objectid_ce php_phongo_objectid_ce,
     CeFinal php_phongo_objectid_ce,
     ClassImplements php_phongo_objectid_ce [php_phongo_objectid_interface_ce],
     ClassImplements php_phongo_objectid_ce [(PhpClass json_serializable_ce)],
     ClassImplements php_phongo_objectid_ce [php_phongo_type_ce],
     ClassImplements php_phongo_objectid_ce [(PhpClass zend_ce_serializable)],
     SetHandlers php_phongo_objectid_ce php_phongo_handler_objectid]"

definition php_phongo_persistable_me :: "method_entry list" where
  "php_phongo_persistable_me = []"

definition php_phongo_persistable_init_ce :: "class_call list" where
  "php_phongo_persistable_init_ce = [
     RegisterInterface php_phongo_persistable_ce php_phongo_persistable_me,
     ClassImplements php_phongo_persistable_ce [php_phongo_unserializable_ce, php_phongo_serializable_ce]]"

definition php_phongo_regex_me :: "method_entry list" where
  "php_phongo_regex_me = [PHP_ME ''Regex'' ''__construct'' (ARG_INFO 1 [ARG ''pattern'', ARG ''flags'']) [ACC_PUBLIC, ACC_FINAL],
     PHP_ME ''Regex'' ''__serialize'' (ARG_INFO 0 []) [ACC_PUBLIC, ACC_FINAL],
     PHP_ME ''Regex'' ''__set_state'' (ARG_INFO 1 [ARG_ARRAY ''properties'' False]) [ACC_PUBLIC, ACC_STATIC],
     PHP_ME ''Regex'' ''__toString'' (ARG_INFO 0 []) [ACC_PUBLIC, ACC_FINAL],
     PHP_ME ''Regex'' ''__unserialize'' (ARG_INFO 1 [ARG_ARRAY ''data'' False]) [ACC_PUBLIC, ACC_FINAL],
     PHP_ME ''Regex'' ''jsonSerialize'' (ARG_INFO_RETURN 0 T_array []) [ACC_PUBLIC, ACC_FINAL],
     PHP_ME ''Regex'' ''serialize'' (ARG_INFO 0 []) [ACC_PUBLIC, ACC_FINAL],
     PHP_ME ''Regex'' ''unserialize'' (ARG_INFO 1 [ARG ''serialized'']) [ACC_PUBLIC, ACC_FINAL],
     PHP_ME ''Regex'' ''getPattern'' (ARG_INFO 0 []) [ACC_PUBLIC, ACC_FINAL],
     PHP_ME ''Regex'' ''getFlags'' (ARG_INFO 0 []) [ACC_PUBLIC, ACC_FINAL]]"

definition php_phongo_handler_regex :: object_handlers where
  "php_phongo_handler_regex = phongo_get_std_object_handlers\<lparr>oh_compare := Some ''php_phongo_regex_compare_objects'',
     oh_clone := Some ''php_phongo_regex_clone_object'',
     oh_get_debug_info := Some ''php_phongo_regex_get_debug_info'',
     oh_get_properties := Some ''php_phongo_regex_get_properties'',
     oh_free := Some ''php_phongo_regex_free_object'',
     oh_offset := Some ''php_phongo_regex_t''\<rparr>"

definition php_phongo_regex_init_ce :: "class_call list" where
  "php_phongo_regex_init_ce = [
     RegisterClass php_phongo_regex_ce php_phongo_regex_me,
     SetCreateObject php_phongo_regex_ce php_phongo_regex_ce,
     CeFinal php_phongo_regex_ce,
     ClassImplements php_phongo_regex_ce [php_phongo_regex_interface_ce],
     ClassImplements php_phongo_regex_ce [php_phongo_type_ce],
     ClassImplements php_phongo_regex_ce [(PhpClass zend_ce_serializable)],
     ClassImplements php_phongo_regex_ce [(PhpClass json_serializable_ce)],
     SetHandlers php_phongo_regex_ce php_phongo_handler_regex]"

definition php_phongo_symbol_me :: "method_entry list" where
  "php_phongo_symbol_me = [PHP_ME ''Symbol'' ''__serialize'' (ARG_INFO 0 []) [ACC_PUBLIC, ACC_FINAL],
     PHP_ME ''Symbol'' ''__toString'' (ARG_INFO 0 []) [ACC_PUBLIC, ACC_FINAL],
     PHP_ME ''Symbol'' ''__unserialize'' (ARG_INFO 1 [ARG_ARRAY ''data'' False]) [ACC_PUBLIC, ACC_FINAL],
     PHP_ME ''Symbol'' ''jsonSerialize'' (ARG_INFO_RETURN 0 T_array []) [ACC_PUBLIC, ACC_FINAL],
     PHP_ME ''Symbol'' ''serialize'' (ARG_INFO 0 []) [ACC_PUBLIC, ACC_FINAL],
     PHP_ME ''Symbol'' ''unserialize'' (ARG_INFO 1 [ARG ''serialized'']) [ACC_PUBLIC, ACC_FINAL],
     NAMED_ME ''__construct'' ''MongoDB_disabled___construct'' (ARG_INFO 0 []) [ACC_PRIVATE, ACC_FINAL]]"

definition php_phongo_handler_symbol :: object_handlers where
  "php_phongo_handler_symbol = phongo_get_std_object_handlers\<lparr>oh_compare := Some ''php_phongo_symbol_compare_objects'',
     oh_clone := Some ''php_phongo_symbol_clone_object'',
     oh_get_debug_info := Some ''php_phongo_symbol_get_debug_info'',
     oh_get_properties := Some ''php_phongo_symbol_get_properties'',
     oh_free := Some ''php_phongo_symbol_free_object'',
     oh_offset := Some ''php_phongo_symbol_t''\<rparr>"

definition php_phongo_symbol_init_ce :: "class_call list" where
  "php_phongo_symbol_init_ce = [
     RegisterClass php_phongo_symbol_ce php_phongo_symbol_me,
     SetCreateObject php_phongo_symbol_ce php_phongo_symbol_ce,
     CeFinal php_phongo_symbol_ce,
     ClassImplements php_phongo_symbol_ce [(PhpClass json_serializable_ce)],
     ClassImplements php_phongo_symbol_ce [php_phongo_type_ce],
     ClassImplements php_phongo_symbol_ce [(PhpClass zend_ce_serializable)],
     SetHandlers php_phongo_symbol_ce php_phongo_handler_symbol]"

definition php_phongo_timestamp_me :: "method_entry list" where
  "php_phongo_timestamp_me = [PHP_ME ''Timestamp'' ''__construct'' (ARG_INFO 2 [ARG ''increment'', ARG ''timestamp'']) [ACC_PUBLIC, ACC_FINAL],
     PHP_ME ''Timestamp'' ''__serialize'' (ARG_INFO 0 []) [ACC_PUBLIC, ACC_FINAL],
     PHP_ME ''Timestamp'' ''__set_state'' (ARG_INFO 1 [ARG_ARRAY ''properties'' False]) [ACC_PUBLIC, ACC_STATIC],
     PHP_ME ''Timestamp'' ''__toString'' (ARG_INFO 0 []) [ACC_PUBLIC, ACC_FINAL],
     PHP_ME ''Timestamp'' ''__unserialize'' (ARG_INFO 1 [ARG_ARRAY ''data'' False]) [ACC_PUBLIC, ACC_FINAL],
     PHP_ME ''Timestamp'' ''jsonSerialize'' (ARG_INFO_RETURN 0 T_array []) [ACC_PUBLIC, ACC_FINAL],
     PHP_ME ''Timestamp'' ''serialize'' (ARG_INFO 0 []) [ACC_PUBLIC, ACC_FINAL],
     PHP_ME ''Timestamp'' ''unserialize'' (ARG_INFO 1 [ARG ''serialized'']) [ACC_PUBLIC, ACC_FINAL],
     PHP_ME ''Timestamp'' ''getIncrement'' (ARG_INFO 0 []) [ACC_PUBLIC, ACC_FINAL],
     PHP_ME ''Timestamp'' ''getTimestamp'' (ARG_INFO 0 []) [ACC_PUBLIC, ACC_FINAL]]"

definition php_phongo_handler_timestamp :: object_handlers where
  "php_phongo_handler_timestamp = phongo_get_std_object_handlers\<lparr>oh_compare := Some ''php_phongo_timestamp_compare_objects'',
     oh_clone := Some ''php_phongo_timestamp_clone_object'',
     oh_get_debug_info := Some ''php_phongo_timestamp_get_debug_info'',
     oh_get_properties := Some ''php_phongo_timestamp_get_properties'',
     oh_free := Some ''php_phongo_timestamp_free_object'',
     oh_offset := Some ''php_phongo_timestamp_t''\<rparr>"

definition php_phongo_timestamp_init_ce :: "class_call list" where
  "php_phongo_timestamp_init_ce = [
     RegisterClass php_phongo_timestamp_ce php_phongo_timestamp_me,
     SetCreateObject php_phongo_timestamp_ce php_phongo_timestamp_ce,
     CeFinal php_phongo_timestamp_ce,
     ClassImplements php_phongo_timestamp_ce [php_phongo_timestamp_interface_ce],
     ClassImplements php_phongo_timestamp_ce [(PhpClass json_serializable_ce)],
     ClassImplements php_phongo_timestamp_ce [php_phongo_type_ce],
     ClassImplements php_phongo_timestamp_ce [(PhpClass zend_ce_serializable)],
     SetHandlers php_phongo_timestamp_ce php_phongo_handler_timestamp]"

definition php_phongo_undefined_me :: "method_entry list" where
  "php_phongo_undefined_me = [PHP_ME ''Undefined'' ''__serialize'' (ARG_INFO 0 []) [ACC_PUBLIC, ACC_FINAL],
     PHP_ME ''Undefined'' ''__toString'' (ARG_INFO 0 []) [ACC_PUBLIC, ACC_FINAL],
     PHP_ME ''Undefined'' ''__unserialize'' (ARG_INFO 1 [ARG_ARRAY ''data'' False]) [ACC_PUBLIC, ACC_FINAL],
     PHP_ME ''Undefined'' ''jsonSerialize'' (ARG_INFO_RETURN 0 T_array []) [ACC_PUBLIC, ACC_FINAL],
     PHP_ME ''Undefined'' ''serialize'' (ARG_INFO 0 []) [ACC_PUBLIC, ACC_FINAL],
     PHP_ME ''Undefined'' ''unserialize'' (ARG_INFO 1 [ARG ''serialized'']) [ACC_PUBLIC, ACC_FINAL],
     NAMED_ME ''__construct'' ''MongoDB_disabled___construct'' (ARG_INFO 0 []) [ACC_PRIVATE, ACC_FINAL]]"

definition php_phongo_handler_undefined :: object_handlers where
  "php_phongo_handler_undefined = phongo_get_std_object_handlers\<lparr>oh_clone := Some ''zend_objects_clone_obj'',
     oh_free := Some ''php_phongo_undefined_free_object'',
     oh_offset := Some ''php_phongo_undefined_t''\<rparr>"

definition php_phongo_undefined_init_ce :: "class_call list" where
  "php_phongo_undefined_init_ce = [
     RegisterClass php_phongo_undefined_ce php_phongo_undefined_me,
     SetCreateObject php_phongo_undefined_ce php_phongo_undefined_ce,
     CeFinal php_phongo_undefined_ce,
     ClassImplements php_phongo_undefined_ce [(PhpClass json_serializable_ce)],
     ClassImplements php_phongo_undefined_ce [php_phongo_type_ce],
     ClassImplements php_phongo_undefined_ce [(PhpClass zend_ce_serializable)],
     SetHandlers php_phongo_undefined_ce php_phongo_handler_undefined]"

definition php_phongo_utcdatetime_me :: "method_entry list" where
  "php_phongo_utcdatetime_me = [PHP_ME ''UTCDateTime'' ''__construct'' (ARG_INFO 0 [ARG ''milliseconds'']) [ACC_PUBLIC, ACC_FINAL],
     PHP_ME ''UTCDateTime'' ''__serialize'' (ARG_INFO 0 []) [ACC_PUBLIC, ACC_FINAL],
     PHP_ME ''UTCDateTime'' ''__set_state'' (ARG_INFO 1 [ARG_ARRAY ''properties'' False]) [ACC_PUBLIC, ACC_STATIC],
     PHP_ME ''UTCDateTime'' ''__toString'' (ARG_INFO 0 []) [ACC_PUBLIC, ACC_FINAL],
     PHP_ME ''UTCDateTime'' ''__unserialize'' (ARG_INFO 1 [ARG_ARRAY ''data'' False]) [ACC_PUBLIC, ACC_FINAL],
     PHP_ME ''UTCDateTime'' ''jsonSerialize'' (ARG_INFO_RETURN 0 T_array []) [ACC_PUBLIC, ACC_FINAL],
     PHP_ME ''UTCDateTime'' ''serialize'' (ARG_INFO 0 []) [ACC_PUBLIC, ACC_FINAL],
     PHP_ME ''UTCDateTime'' ''unserialize'' (ARG_INFO 1 [ARG ''serialized'']) [ACC_PUBLIC, ACC_FINAL],
     PHP_ME ''UTCDateTime'' ''toDateTime'' (ARG_INFO 0 []) [ACC_PUBLIC, ACC_FINAL]]"

definition php_phongo_handler_utcdatetime :: object_handlers where
  "php_phongo_handler_utcdatetime = phongo_get_std_object_handlers\<lparr>oh_compare := Some ''php_phongo_utcdatetime_compare_objects'',
     oh_clone := Some ''php_phongo_utcdatetime_clone_object'',
     oh_get_debug_info := Some ''php_phongo_utcdatetime_get_debug_info'',
     oh_get_properties := Some ''php_phongo_utcdatetime_get_properties'',
     oh_free := Some ''php_phongo_utcdatetime_free_object'',
     oh_offset := Some ''php_phongo_utcdatetime_t''\<rparr>"

definition php_phongo_utcdatetime_init_ce :: "class_call list" where
  "php_phongo_utcdatetime_init_ce = [
     RegisterClass php_phongo_utcdatetime_ce php_phongo_utcdatetime_me,
     SetCreateObject php_phongo_utcdatetime_ce php_phongo_utcdatetime_ce,
     CeFinal php_phongo_utcdatetime_ce,
     ClassImplements php_phongo_utcdatetime_ce [php_phongo_utcdatetime_interface_ce],
     ClassImplements php_phongo_utcdatetime_ce [(PhpClass json_serializable_ce)],
     ClassImplements php_phongo_utcdatetime_ce [php_phongo_type_ce],
     ClassImplements php_phongo_utcdatetime_ce [(PhpClass zend_ce_serializable)],
     SetHandlers php_phongo_utcdatetime_ce php_phongo_handler_utcdatetime]"

end
