(* ===== verification/Driver_Classes.thy ===== *)
theory Driver_Classes
  imports Bson_Classes
begin

text \<open>
  The classes of the driver (src/MongoDB): for each class its table of methods, with their
  parameters, and its initialiser.
\<close>

section \<open>Tables and initialisers\<close>

definition php_phongo_cursor_interface_me :: "method_entry list" where
  "php_phongo_cursor_interface_me = [ABSTRACT_ME ''CursorInterface'' ''getId'' (ARG_INFO 0 []),
     ABSTRACT_ME ''CursorInterface'' ''getServer'' (ARG_INFO 0 []),
     ABSTRACT_ME ''CursorInterface'' ''isDead'' (ARG_INFO 0 []),
     ABSTRACT_ME ''CursorInterface'' ''setTypeMap'' (ARG_INFO 1 [ARG_ARRAY ''typemap'' False]),
     ABSTRACT_ME ''CursorInterface'' ''toArray'' (ARG_INFO 0 [])]"

definition php_phongo_cursor_interface_init_ce :: "class_call list" where
  "php_phongo_cursor_interface_init_ce = [
     RegisterInterface php_phongo_cursor_interface_ce php_phongo_cursor_interface_me,
     ClassImplements php_phongo_cursor_interface_ce [(PhpClass zend_ce_traversable)]]"

definition php_phongo_bulkwrite_me :: "method_entry list" where
  "php_phongo_bulkwrite_me = [PHP_ME ''BulkWrite'' ''__construct'' (ARG_INFO 0 [ARG_ARRAY ''options'' True]) [ACC_PUBLIC, ACC_FINAL],
     PHP_ME ''BulkWrite'' ''insert'' (ARG_INFO 1 [ARG ''document'']) [ACC_PUBLIC, ACC_FINAL],
     PHP_ME ''BulkWrite'' ''update'' (ARG_INFO 2 [ARG ''query'', ARG ''newObj'', ARG_ARRAY ''updateOptions'' True]) [ACC_PUBLIC, ACC_FINAL],
     PHP_ME ''BulkWrite'' ''delete'' (ARG_INFO 1 [ARG ''query'', ARG_ARRAY ''deleteOptions'' True]) [ACC_PUBLIC, ACC_FINAL],
     PHP_ME ''BulkWrite'' ''count'' (ARG_INFO_RETURN 0 T_long []) [ACC_PUBLIC, ACC_FINAL],
     NAMED_ME ''__wakeup'' ''MongoDB_disabled___wakeup'' (ARG_INFO 0 []) [ACC_PUBLIC, ACC_FINAL]]"

definition php_phongo_handler_bulkwrite :: object_handlers where
  "php_phongo_handler_bulkwrite = phongo_get_std_object_handlers\<lparr>oh_get_debug_info := Some ''php_phongo_bulkwrite_get_debug_info'',
     oh_free := Some ''php_phongo_bulkwrite_free_object'',
     oh_offset := Some ''php_phongo_bulkwrite_t''\<rparr>"

definition php_phongo_bulkwrite_init_ce :: "class_call list" where
  "php_phongo_bulkwrite_init_ce = [
     RegisterClass php_phongo_bulkwrite_ce php_phongo_bulkwrite_me,
     SetCreateObject php_phongo_bulkwrite_ce php_phongo_bulkwrite_ce,
     CeFinal php_phongo_bulkwrite_ce,
     CeDisableSerialization php_phongo_bulkwrite_ce,
     SetHandlers php_phongo_bulkwrite_ce php_phongo_handler_bulkwrite,
     ClassImplements php_phongo_bulkwrite_ce [(PhpClass zend_ce_countable)]]"

definition php_phongo_clientencryption_me :: "method_entry list" where
  "php_phongo_clientencryption_me = [PHP_ME ''ClientEncryption'' ''createDataKey'' (ARG_INFO 1 [ARG ''kmsProvider'', ARG_ARRAY ''options'' True]) [ACC_PUBLIC, ACC_FINAL],
     PHP_ME ''ClientEncryption'' ''encrypt'' (ARG_INFO 1 [ARG ''value'', ARG_ARRAY ''options'' True]) [ACC_PUBLIC, ACC_FINAL],
     PHP_ME ''ClientEncryption'' ''decrypt'' (ARG_INFO 1 [ARG_OBJ ''keyVaultClient'' php_phongo_binary_interface_ce False]) [ACC_PUBLIC, ACC_FINAL],
     NAMED_ME ''__construct'' ''MongoDB_disabled___construct'' (ARG_INFO 0 []) [ACC_PRIVATE, ACC_FINAL],
     NAMED_ME ''__wakeup'' ''MongoDB_disabled___wakeup'' (ARG_INFO 0 []) [ACC_PUBLIC, ACC_FINAL]]"

definition php_phongo_handler_clientencryption :: object_handlers where
  "php_phongo_handler_clientencryption = phongo_get_std_object_handlers\<lparr>oh_get_debug_info := Some ''php_phongo_clientencryption_get_debug_info'',
     oh_free := Some ''php_phongo_clientencryption_free_object'',
     oh_offset := Some ''php_phongo_clientencryption_t''\<rparr>"

definition php_phongo_clientencryption_init_ce :: "class_call list" where
  "php_phongo_clientencryption_init_ce = [
     RegisterClass php_phongo_clientencryption_ce php_phongo_clientencryption_me,
     SetCreateObject php_phongo_clientencryption_ce php_phongo_clientencryption_ce,
     CeFinal php_phongo_clientencryption_ce,
     CeDisableSerialization php_phongo_clientencryption_ce,
     SetHandlers php_phongo_clientencryption_ce php_phongo_handler_clientencryption,
     DeclareConstant php_phongo_clientencryption_ce ''AEAD_AES_256_CBC_HMAC_SHA_512_DETERMINISTIC'' (ConstMacro ''MONGOC_AEAD_AES_256_CBC_HMAC_SHA_512_DETERMINISTIC''),
     DeclareConstant php_phongo_clientencryption_ce ''AEAD_AES_256_CBC_HMAC_SHA_512_RANDOM'' (ConstMacro ''MONGOC_AEAD_AES_256_CBC_HMAC_SHA_512_RANDOM'')]"

definition php_phongo_command_me :: "method_entry list" where
  "php_phongo_command_me = [PHP_ME ''Command'' ''__construct'' (ARG_INFO 1 [ARG ''document'', ARG_ARRAY ''options'' True]) [ACC_PUBLIC, ACC_FINAL],
     NAMED_ME ''__wakeup'' ''MongoDB_disabled___wakeup'' (ARG_INFO 0 []) [ACC_PUBLIC, ACC_FINAL]]"

definition php_phongo_handler_command :: object_handlers where
  "php_phongo_handler_command = phongo_get_std_object_handlers\<lparr>oh_get_debug_info := Some ''php_phongo_command_get_debug_info'',
     oh_free := Some ''php_phongo_command_free_object'',
     oh_offset := Some ''php_phongo_command_t''\<rparr>"

definition php_phongo_command_init_ce :: "class_call list" where
  "php_phongo_command_init_ce = [
     RegisterClass php_phongo_command_ce php_phongo_command_me,
     SetCreateObject php_phongo_command_ce php_phongo_command_ce,
     CeFinal php_phongo_command_ce,
     CeDisableSerialization php_phongo_command_ce,
     SetHandlers php_phongo_command_ce php_phongo_handler_command]"

definition php_phongo_cursor_me :: "method_entry list" where
  "php_phongo_cursor_me = [PHP_ME ''Cursor'' ''setTypeMap'' (ARG_INFO 1 [ARG_ARRAY ''typemap'' False]) [ACC_PUBLIC, ACC_FINAL],
     PHP_ME ''Cursor'' ''toArray'' (ARG_INFO 0 []) [ACC_PUBLIC, ACC_FINAL],
     PHP_ME ''Cursor'' ''getId'' (ARG_INFO 0 []) [ACC_PUBLIC, ACC_FINAL],
     PHP_ME ''Cursor'' ''getServer'' (ARG_INFO 0 []) [ACC_PUBLIC, ACC_FINAL],
     PHP_ME ''Cursor'' ''isDead'' (ARG_INFO 0 []) [ACC_PUBLIC, ACC_FINAL],
     PHP_ME ''Cursor'' ''current'' (ARG_INFO_RETURN 0 T_mixed []) [ACC_PUBLIC],
     PHP_ME ''Cursor'' ''key'' (ARG_INFO_RETURN 0 T_long []) [ACC_PUBLIC],
     PHP_ME ''Cursor'' ''next'' (ARG_INFO_RETURN 0 T_void []) [ACC_PUBLIC],
     PHP_ME ''Cursor'' ''valid'' (ARG_INFO_RETURN 0 T_bool []) [ACC_PUBLIC],
     PHP_ME ''Cursor'' ''rewind'' (ARG_INFO_RETURN 0 T_void []) [ACC_PUBLIC],
     NAMED_ME ''__construct'' ''MongoDB_disabled___construct'' (ARG_INFO 0 []) [ACC_PRIVATE, ACC_FINAL],
     NAMED_ME ''__wakeup'' ''MongoDB_disabled___wakeup'' (ARG_INFO 0 []) [ACC_PUBLIC, ACC_FINAL]]"

definition php_phongo_handler_cursor :: object_handlers where
  "php_phongo_handler_cursor = phongo_get_std_object_handlers\<lparr>oh_get_debug_info := Some ''php_phongo_cursor_get_debug_info'',
     oh_free := Some ''php_phongo_cursor_free_object'',
     oh_offset := Some ''php_phongo_cursor_t''\<rparr>"

definition php_phongo_cursor_init_ce :: "class_call list" where
  "php_phongo_cursor_init_ce = [
     RegisterClass php_phongo_cursor_ce php_phongo_cursor_me,
     SetCreateObject php_phongo_cursor_ce php_phongo_cursor_ce,
     CeFinal php_phongo_cursor_ce,
     CeDisableSerialization php_phongo_cursor_ce,
     ClassImplements php_phongo_cursor_ce [(PhpClass zend_ce_iterator)],
     ClassImplements php_phongo_cursor_ce [php_phongo_cursor_interface_ce],
     SetHandlers php_phongo_cursor_ce php_phongo_handler_cursor]"

definition php_phongo_cursorid_me :: "method_entry list" where
  "php_phongo_cursorid_me = [PHP_ME ''CursorId'' ''__serialize'' (ARG_INFO 0 []) [ACC_PUBLIC, ACC_FINAL],
     PHP_ME ''CursorId'' ''__set_state'' (ARG_INFO 1 [ARG_ARRAY ''properties'' False]) [ACC_PUBLIC, ACC_STATIC],
     PHP_ME ''CursorId'' ''__toString'' (ARG_INFO 0 []) [ACC_PUBLIC, ACC_FINAL],
     PHP_ME ''CursorId'' ''__unserialize'' (ARG_INFO 1 [ARG_ARRAY ''data'' False]) [ACC_PUBLIC, ACC_FINAL],
     PHP_ME ''CursorId'' ''serialize'' (ARG_INFO 0 []) [ACC_PUBLIC, ACC_FINAL],
     PHP_ME ''CursorId'' ''unserialize'' (ARG_INFO 1 [ARG ''serialized'']) [ACC_PUBLIC, ACC_FINAL],
     NAMED_ME ''__construct'' ''MongoDB_disabled___construct'' (ARG_INFO 0 []) [ACC_PRIVATE, ACC_FINAL]]"

definition php_phongo_handler_cursorid :: object_handlers where
  "php_phongo_handler_cursorid = phongo_get_std_object_handlers\<lparr>oh_get_debug_info := Some ''php_phongo_cursorid_get_debug_info'',
     oh_get_properties := Some ''php_phongo_cursorid_get_properties'',
     oh_free := Some ''php_phongo_cursorid_free_object'',
     oh_offset := Some ''php_phongo_cursorid_t''\<rparr>"

definition php_phongo_cursorid_init_ce :: "class_call list" where
  "php_phongo_cursorid_init_ce = [
     RegisterClass php_phongo_cursorid_ce php_phongo_cursorid_me,
     SetCreateObject php_phongo_cursorid_ce php_phongo_cursorid_ce,
     CeFinal php_phongo_cursorid_ce,
     ClassImplements php_phongo_cursorid_ce [(PhpClass zend_ce_serializable)],
     SetHandlers php_phongo_cursorid_ce php_phongo_handler_cursorid]"

definition php_phongo_manager_me :: "method_entry list" where
  "php_phongo_manager_me = [PHP_ME ''Manager'' ''__construct'' (ARG_INFO 0 [ARG ''uri'', ARG_ARRAY ''options'' False, ARG_ARRAY ''driverOptions'' False]) [ACC_PUBLIC, ACC_FINAL],
     PHP_ME ''Manager'' ''addSubscriber'' (ARG_INFO 1 [ARG_OBJ ''subscriber'' php_phongo_subscriber_ce False]) [ACC_PUBLIC, ACC_FINAL],
     PHP_ME ''Manager'' ''createClientEncryption'' (ARG_INFO 1 [ARG_ARRAY ''options'' False]) [ACC_PUBLIC, ACC_FINAL],
     PHP_ME ''Manager'' ''executeCommand'' (ARG_INFO 2 [ARG ''db'', ARG_OBJ ''command'' php_phongo_command_ce False, ARG ''options'']) [ACC_PUBLIC, ACC_FINAL],
     PHP_ME ''Manager'' ''executeReadCommand'' (ARG_INFO 2 [ARG ''db'', ARG_OBJ ''command'' php_phongo_command_ce False, ARG_ARRAY ''options'' False]) [ACC_PUBLIC, ACC_FINAL],
     PHP_ME ''Manager'' ''executeWriteCommand'' (ARG_INFO 2 [ARG ''db'', ARG_OBJ ''command'' php_phongo_command_ce False, ARG_ARRAY ''options'' False]) [ACC_PUBLIC, ACC_FINAL],
     PHP_ME ''Manager'' ''executeReadWriteCommand'' (ARG_INFO 2 [ARG ''db'', ARG_OBJ ''command'' php_phongo_command_ce False, ARG ''options'']) [ACC_PUBLIC, ACC_FINAL],
     PHP_ME ''Manager'' ''executeQuery'' (ARG_INFO 2 [ARG ''namespace'', ARG_OBJ ''zquery'' php_phongo_query_ce False, ARG ''options'']) [ACC_PUBLIC, ACC_FINAL],
     PHP_ME ''Manager'' ''executeBulkWrite'' (ARG_INFO 2 [ARG ''namespace'', ARG_OBJ ''zbulk'' php_phongo_bulkwrite_ce False, ARG ''options'']) [ACC_PUBLIC, ACC_FINAL],
     PHP_ME ''Manager'' ''getReadConcern'' (ARG_INFO 0 []) [ACC_PUBLIC, ACC_FINAL],
     PHP_ME ''Manager'' ''getReadPreference'' (ARG_INFO 0 []) [ACC_PUBLIC, ACC_FINAL],
     PHP_ME ''Manager'' ''getServers'' (ARG_INFO 0 []) [ACC_PUBLIC, ACC_FINAL],
     PHP_ME ''Manager'' ''getWriteConcern'' (ARG_INFO 0 []) [ACC_PUBLIC, ACC_FINAL],
     PHP_ME ''Manager'' ''removeSubscriber'' (ARG_INFO 1 [ARG_OBJ ''subscriber'' php_phongo_subscriber_ce False]) [ACC_PUBLIC, ACC_FINAL],
     PHP_ME ''Manager'' ''selectServer'' (ARG_INFO 1 [ARG_OBJ ''readPreference'' php_phongo_readpreference_ce False]) [ACC_PUBLIC, ACC_FINAL],
     PHP_ME ''Manager'' ''startSession'' (ARG_INFO 0 [ARG_ARRAY ''options'' True]) [ACC_PUBLIC, ACC_FINAL],
     NAMED_ME ''__wakeup'' ''MongoDB_disabled___wakeup'' (ARG_INFO 0 []) [ACC_PUBLIC, ACC_FINAL]]"

definition php_phongo_handler_manager :: object_handlers where
  "php_phongo_handler_manager = phongo_get_std_object_handlers\<lparr>oh_get_debug_info := Some ''php_phongo_manager_get_debug_info'',
     oh_free := Some ''php_phongo_manager_free_object'',
     oh_offset := Some ''php_phongo_manager_t''\<rparr>"

definition php_phongo_manager_init_ce :: "class_call list" where
  "php_phongo_manager_init_ce = [
     RegisterClass php_phongo_manager_ce php_phongo_manager_me,
     SetCreateObject php_phongo_manager_ce php_phongo_manager_ce,
     CeFinal php_phongo_manager_ce,
     CeDisableSerialization php_phongo_manager_ce,
     SetHandlers php_phongo_manager_ce php_phongo_handler_manager]"

definition php_phongo_query_me :: "method_entry list" where
  "php_phongo_query_me = [PHP_ME ''Query'' ''__construct'' (ARG_INFO 1 [ARG ''filter'', ARG_ARRAY ''options'' True]) [ACC_PUBLIC, ACC_FINAL],
     NAMED_ME ''__wakeup'' ''MongoDB_disabled___wakeup'' (ARG_INFO 0 []) [ACC_PUBLIC, ACC_FINAL]]"

definition php_phongo_handler_query :: object_handlers where
  "php_phongo_handler_query = phongo_get_std_object_handlers\<lparr>oh_get_debug_info := Some ''php_phongo_query_get_debug_info'',
     oh_free := Some ''php_phongo_query_free_object'',
     oh_offset := Some ''php_phongo_query_t''\<rparr>"

definition php_phongo_query_init_ce :: "class_call list" where
  "php_phongo_query_init_ce = [
     RegisterClass php_phongo_query_ce php_phongo_query_me,
     SetCreateObject php_phongo_query_ce php_phongo_query_ce,
     CeFinal php_phongo_query_ce,
     CeDisableSerialization php_phongo_query_ce,
     SetHandlers php_phongo_query_ce php_phongo_handler_query]"

definition php_phongo_readconcern_me :: "method_entry list" where
  "php_phongo_readconcern_me = [PHP_ME ''ReadConcern'' ''__construct'' (ARG_INFO 0 [ARG ''level'']) [ACC_PUBLIC, ACC_FINAL],
     PHP_ME ''ReadConcern'' ''__serialize'' (ARG_INFO 0 []) [ACC_PUBLIC, ACC_FINAL],
     PHP_ME ''ReadConcern'' ''__set_state'' (ARG_INFO 1 [ARG_ARRAY ''properties'' False]) [ACC_PUBLIC, ACC_STATIC],
     PHP_ME ''ReadConcern'' ''__unserialize'' (ARG_INFO 1 [ARG_ARRAY ''data'' False]) [ACC_PUBLIC, ACC_FINAL],
     PHP_ME ''ReadConcern'' ''getLevel'' (ARG_INFO 0 []) [ACC_PUBLIC, ACC_FINAL],
     PHP_ME ''ReadConcern'' ''isDefault'' (ARG_INFO 0 []) [ACC_PUBLIC, ACC_FINAL],
     PHP_ME ''ReadConcern'' ''bsonSerialize'' (ARG_INFO 0 []) [ACC_PUBLIC, ACC_FINAL],
     PHP_ME ''ReadConcern'' ''serialize'' (ARG_INFO 0 []) [ACC_PUBLIC, ACC_FINAL],
     PHP_ME ''ReadConcern'' ''unserialize'' (ARG_INFO 1 [ARG ''serialized'']) [ACC_PUBLIC, ACC_FINAL]]"

definition php_phongo_handler_readconcern :: object_handlers where
  "php_phongo_handler_readconcern = phongo_get_std_object_handlers\<lparr>oh_get_debug_info := Some ''php_phongo_readconcern_get_debug_info'',
     oh_get_properties := Some ''php_phongo_readconcern_get_properties'',
     oh_free := Some ''php_phongo_readconcern_free_object'',
     oh_offset := Some ''php_phongo_readconcern_t''\<rparr>"

definition php_phongo_readconcern_init_ce :: "class_call list" where
  "php_phongo_readconcern_init_ce = [
     RegisterClass php_phongo_readconcern_ce php_phongo_readconcern_me,
     SetCreateObject php_phongo_readconcern_ce php_phongo_readconcern_ce,
     CeFinal php_phongo_readconcern_ce,
     ClassImplements php_phongo_readconcern_ce [php_phongo_serializable_ce],
     ClassImplements php_phongo_readconcern_ce [(PhpClass zend_ce_serializable)],
     SetHandlers php_phongo_readconcern_ce php_phongo_handler_readconcern,
     DeclareConstant php_phongo_readconcern_ce ''LOCAL'' (ConstMacro ''MONGOC_READ_CONCERN_LEVEL_LOCAL''),
     DeclareConstant php_phongo_readconcern_ce ''MAJORITY'' (ConstMacro ''MONGOC_READ_CONCERN_LEVEL_MAJORITY''),
     DeclareConstant php_phongo_readconcern_ce ''LINEARIZABLE'' (ConstMacro ''MONGOC_READ_CONCERN_LEVEL_LINEARIZABLE''),
     DeclareConstant php_phongo_readconcern_ce ''AVAILABLE'' (ConstMacro ''MONGOC_READ_CONCERN_LEVEL_AVAILABLE''),
     DeclareConstant php_phongo_readconcern_ce ''SNAPSHOT'' (ConstMacro ''MONGOC_READ_CONCERN_LEVEL_SNAPSHOT'')]"

definition php_phongo_readpreference_me :: "method_entry list" where
  "php_phongo_readpreference_me = [PHP_ME ''ReadPreference'' ''__construct'' (ARG_INFO 1 [ARG ''mode'', ARG_ARRAY ''tagSets'' True, ARG_ARRAY ''options'' True]) [ACC_PUBLIC, ACC_FINAL],
     PHP_ME ''ReadPreference'' ''__serialize'' (ARG_INFO 0 []) [ACC_PUBLIC, ACC_FINAL],
     PHP_ME ''ReadPreference'' ''__set_state'' (ARG_INFO 1 [ARG_ARRAY ''properties'' False]) [ACC_PUBLIC, ACC_STATIC],
     PHP_ME ''ReadPreference'' ''__unserialize'' (ARG_INFO 1 [ARG_ARRAY ''data'' False]) [ACC_PUBLIC, ACC_FINAL],
     PHP_ME ''ReadPreference'' ''getHedge'' (ARG_INFO 0 []) [ACC_PUBLIC, ACC_FINAL],
     PHP_ME ''ReadPreference'' ''getMaxStalenessSeconds'' (ARG_INFO 0 []) [ACC_PUBLIC, ACC_FINAL],
     PHP_ME ''ReadPreference'' ''getMode'' (ARG_INFO 0 []) [ACC_PUBLIC, ACC_FINAL],
     PHP_ME ''ReadPreference'' ''getModeString'' (ARG_INFO 0 []) [ACC_PUBLIC, ACC_FINAL],
     PHP_ME ''ReadPreference'' ''getTagSets'' (ARG_INFO 0 []) [ACC_PUBLIC, ACC_FINAL],
     PHP_ME ''ReadPreference'' ''bsonSerialize'' (ARG_INFO 0 []) [ACC_PUBLIC, ACC_FINAL],
     PHP_ME ''ReadPreference'' ''serialize'' (ARG_INFO 0 []) [ACC_PUBLIC, ACC_FINAL],
     PHP_ME ''ReadPreference'' ''unserialize'' (ARG_INFO 1 [ARG ''serialized'']) [ACC_PUBLIC, ACC_FINAL]]"

definition php_phongo_handler_readpreference :: object_handlers where
  "php_phongo_handler_readpreference = phongo_get_std_object_handlers\<lparr>oh_get_debug_info := Some ''php_phongo_readpreference_get_debug_info'',
     oh_get_properties := Some ''php_phongo_readpreference_get_properties'',
     oh_free := Some ''php_phongo_readpreference_free_object'',
     oh_offset := Some ''php_phongo_readpreference_t''\<rparr>"

definition php_phongo_readpreference_init_ce :: "class_call list" where
  "php_phongo_readpreference_init_ce = [
     RegisterClass php_phongo_readpreference_ce php_phongo_readpreference_me,
     SetCreateObject php_phongo_readpreference_ce php_phongo_readpreference_ce,
     CeFinal php_phongo_readpreference_ce,
     ClassImplements php_phongo_readpreference_ce [php_phongo_serializable_ce],
     ClassImplements php_phongo_readpreference_ce [(PhpClass zend_ce_serializable)],
     SetHandlers php_phongo_readpreference_ce php_phongo_handler_readpreference,
     DeclareConstant php_phongo_readpreference_ce ''RP_PRIMARY'' (ConstMacro ''MONGOC_READ_PRIMARY''),
     DeclareConstant php_phongo_readpreference_ce ''RP_PRIMARY_PREFERRED'' (ConstMacro ''MONGOC_READ_PRIMARY_PREFERRED''),
     DeclareConstant php_phongo_readpreference_ce ''RP_SECONDARY'' (ConstMacro ''MONGOC_READ_SECONDARY''),
     DeclareConstant php_phongo_readpreference_ce ''RP_SECONDARY_PREFERRED'' (ConstMacro ''MONGOC_READ_SECONDARY_PREFERRED''),
     DeclareConstant php_phongo_readpreference_ce ''RP_NEAREST'' (ConstMacro ''MONGOC_READ_NEAREST''),
     DeclareConstant php_phongo_readpreference_ce ''NO_MAX_STALENESS'' (ConstMacro ''MONGOC_NO_MAX_STALENESS''),
     DeclareConstant php_phongo_readpreference_ce ''SMALLEST_MAX_STALENESS_SECONDS'' (ConstMacro ''MONGOC_SMALLEST_MAX_STALENESS_SECONDS''),
     DeclareConstant php_phongo_readpreference_ce ''PRIMARY'' (ConstString ''primary''),
     DeclareConstant php_phongo_readpreference_ce ''PRIMARY_PREFERRED'' (ConstString ''primaryPreferred''),
     DeclareConstant php_phongo_readpreference_ce ''SECONDARY'' (ConstString ''secondary''),
     DeclareConstant php_phongo_readpreference_ce ''SECONDARY_PREFERRED'' (ConstString ''secondaryPreferred''),
     DeclareConstant php_phongo_readpreference_ce ''NEAREST'' (ConstString ''nearest'')]"

definition php_phongo_server_me :: "method_entry list" where
  "php_phongo_server_me = [PHP_ME ''Server'' ''executeCommand'' (ARG_INFO 2 [ARG ''db'', ARG_OBJ ''command'' php_phongo_command_ce False, ARG ''options'']) [ACC_PUBLIC, ACC_FINAL],
     PHP_ME ''Server'' ''executeReadCommand'' (ARG_INFO 2 [ARG ''db'', ARG_OBJ ''command'' php_phongo_command_ce False, ARG_ARRAY ''options'' False]) [ACC_PUBLIC, ACC_FINAL],
     PHP_ME ''Server'' ''executeWriteCommand'' (ARG_INFO 2 [ARG ''db'', ARG_OBJ ''command'' php_phongo_command_ce False, ARG_ARRAY ''options'' False]) [ACC_PUBLIC, ACC_FINAL],
     PHP_ME ''Server'' ''executeReadWriteCommand'' (ARG_INFO 2 [ARG ''db'', ARG_OBJ ''command'' php_phongo_command_ce False, ARG_ARRAY ''options'' False]) [ACC_PUBLIC, ACC_FINAL],
     PHP_ME ''Server'' ''executeQuery'' (ARG_INFO 2 [ARG ''namespace'', ARG_OBJ ''zquery'' php_phongo_query_ce False, ARG ''options'']) [ACC_PUBLIC, ACC_FINAL],
     PHP_ME ''Server'' ''executeBulkWrite'' (ARG_INFO 2 [ARG ''namespace'', ARG_OBJ ''zbulk'' php_phongo_bulkwrite_ce False, ARG ''options'']) [ACC_PUBLIC, ACC_FINAL],
     PHP_ME ''Server'' ''getHost'' (ARG_INFO 0 []) [ACC_PUBLIC, ACC_FINAL],
     PHP_ME ''Server'' ''getTags'' (ARG_INFO 0 []) [ACC_PUBLIC, ACC_FINAL],
     PHP_ME ''Server'' ''getInfo'' (ARG_INFO 0 []) [ACC_PUBLIC, ACC_FINAL],
     PHP_ME ''Server'' ''getLatency'' (ARG_INFO 0 []) [ACC_PUBLIC, ACC_FINAL],
     PHP_ME ''Server'' ''getPort'' (ARG_INFO 0 []) [ACC_PUBLIC, ACC_FINAL],
     PHP_ME ''Server'' ''getType'' (ARG_INFO 0 []) [ACC_PUBLIC, ACC_FINAL],
     PHP_ME ''Server'' ''isPrimary'' (ARG_INFO 0 []) [ACC_PUBLIC, ACC_FINAL],
     PHP_ME ''Server'' ''isSecondary'' (ARG_INFO 0 []) [ACC_PUBLIC, ACC_FINAL],
     PHP_ME ''Server'' ''isArbiter'' (ARG_INFO 0 []) [ACC_PUBLIC, ACC_FINAL],
     PHP_ME ''Server'' ''isHidden'' (ARG_INFO 0 []) [ACC_PUBLIC, ACC_FINAL],
     PHP_ME ''Server'' ''isPassive'' (ARG_INFO 0 []) [ACC_PUBLIC, ACC_FINAL],
     NAMED_ME ''__construct'' ''MongoDB_disabled___construct'' (ARG_INFO 0 []) [ACC_PRIVATE, ACC_FINAL],
     NAMED_ME ''__wakeup'' ''MongoDB_disabled___wakeup'' (ARG_INFO 0 []) [ACC_PUBLIC, ACC_FINAL]]"

definition php_phongo_handler_server :: object_handlers where
  "php_phongo_handler_server = phongo_get_std_object_handlers\<lparr>oh_compare := Some ''php_phongo_server_compare_objects'',
     oh_get_debug_info := Some ''php_phongo_server_get_debug_info'',
     oh_free := Some ''php_phongo_server_free_object'',
     oh_offset := Some ''php_phongo_server_t''\<rparr>"

definition php_phongo_server_init_ce :: "class_call list" where
  "php_phongo_server_init_ce = [
     RegisterClass php_phongo_server_ce php_phongo_server_me,
     SetCreateObject php_phongo_server_ce php_phongo_server_ce,
     CeFinal php_phongo_server_ce,
     CeDisableSerialization php_phongo_server_ce,
     SetHandlers php_phongo_server_ce php_phongo_handler_server,
     DeclareConstant php_phongo_server_ce ''TYPE_UNKNOWN'' (ConstLong 0),
     DeclareConstant php_phongo_server_ce ''TYPE_STANDALONE'' (ConstLong 1),
     DeclareConstant php_phongo_server_ce ''TYPE_MONGOS'' (ConstLong 2),
     DeclareConstant php_phongo_server_ce ''TYPE_POSSIBLE_PRIMARY'' (ConstLong 3),
     DeclareConstant php_phongo_server_ce ''TYPE_RS_PRIMARY'' (ConstLong 4),
     DeclareConstant php_phongo_server_ce ''TYPE_RS_SECONDARY'' (ConstLong 5),
     DeclareConstant php_phongo_server_ce ''TYPE_RS_ARBITER'' (ConstLong 6),
     DeclareConstant php_phongo_server_ce ''TYPE_RS_OTHER'' (ConstLong 7),
     DeclareConstant php_phongo_server_ce ''TYPE_RS_GHOST'' (ConstLong 8)]"

definition php_phongo_serverapi_me :: "method_entry list" where
  "php_phongo_serverapi_me = [PHP_ME ''ServerApi'' ''__construct'' (ARG_INFO 1 [ARG_TYPE ''version'' T_string False, ARG_TYPE ''strict'' T_bool True, ARG_TYPE ''deprecationErrors'' T_bool True]) [ACC_PUBLIC, ACC_FINAL],
     PHP_ME ''ServerApi'' ''__serialize'' (ARG_INFO 0 []) [ACC_PUBLIC, ACC_FINAL],
     PHP_ME ''ServerApi'' ''__set_state'' (ARG_INFO 1 [ARG_ARRAY ''properties'' False]) [ACC_PUBLIC, ACC_STATIC],
     PHP_ME ''ServerApi'' ''__unserialize'' (ARG_INFO 1 [ARG_ARRAY ''data'' False]) [ACC_PUBLIC, ACC_FINAL],
     PHP_ME ''ServerApi'' ''bsonSerialize'' (ARG_INFO 0 []) [ACC_PUBLIC, ACC_FINAL],
     PHP_ME ''ServerApi'' ''serialize'' (ARG_INFO 0 []) [ACC_PUBLIC, ACC_FINAL],
     PHP_ME ''ServerApi'' ''unserialize'' (ARG_INFO 1 [ARG_TYPE ''serialized'' T_string False]) [ACC_PUBLIC, ACC_FINAL]]"

definition php_phongo_handler_serverapi :: object_handlers where
  "php_phongo_handler_serverapi = phongo_get_std_object_handlers\<lparr>oh_get_debug_info := Some ''php_phongo_serverapi_get_debug_info'',
     oh_get_properties := Some ''php_phongo_serverapi_get_properties'',
     oh_free := Some ''php_phongo_serverapi_free_object'',
     oh_offset := Some ''php_phongo_serverapi_t''\<rparr>"

definition php_phongo_serverapi_init_ce :: "class_call list" where
  "php_phongo_serverapi_init_ce = [
     RegisterClass php_phongo_serverapi_ce php_phongo_serverapi_me,
     SetCreateObject php_phongo_serverapi_ce php_phongo_serverapi_ce,
     CeFinal php_phongo_serverapi_ce,
     ClassImplements php_phongo_serverapi_ce [php_phongo_serializable_ce],
     ClassImplements php_phongo_serverapi_ce [(PhpClass zend_ce_serializable)],
     SetHandlers php_phongo_serverapi_ce php_phongo_handler_serverapi,
     DeclareConstant php_phongo_serverapi_ce ''V1'' (ConstString ''1'')]"

definition php_phongo_session_me :: "method_entry list" where
  "php_phongo_session_me = [PHP_ME ''Session'' ''abortTransaction'' (ARG_INFO 0 []) [ACC_PUBLIC, ACC_FINAL],
     PHP_ME ''Session'' ''advanceClusterTime'' (ARG_INFO 1 [ARG ''clusterTime'']) [ACC_PUBLIC, ACC_FINAL],
     PHP_ME ''Session'' ''advanceOperationTime'' (ARG_INFO 1 [ARG ''timestamp'']) [ACC_PUBLIC, ACC_FINAL],
     PHP_ME ''Session'' ''commitTransaction'' (ARG_INFO 0 []) [ACC_PUBLIC, ACC_FINAL],
     PHP_ME ''Session'' ''endSession'' (ARG_INFO 0 []) [ACC_PUBLIC, ACC_FINAL],
     PHP_ME ''Session'' ''getClusterTime'' (ARG_INFO 0 []) [ACC_PUBLIC, ACC_FINAL],
     PHP_ME ''Session'' ''getLogicalSessionId'' (ARG_INFO 0 []) [ACC_PUBLIC, ACC_FINAL],
     PHP_ME ''Session'' ''getOperationTime'' (ARG_INFO 0 []) [ACC_PUBLIC, ACC_FINAL],
     PHP_ME ''Session'' ''getServer'' (ARG_INFO 0 []) [ACC_PUBLIC, ACC_FINAL],
     PHP_ME ''Session'' ''getTransactionOptions'' (ARG_INFO 0 []) [ACC_PUBLIC, ACC_FINAL],
     PHP_ME ''Session'' ''getTransactionState'' (ARG_INFO 0 []) [ACC_PUBLIC, ACC_FINAL],
     PHP_ME ''Session'' ''isInTransaction'' (ARG_INFO 0 []) [ACC_PUBLIC, ACC_FINAL],
     PHP_ME ''Session'' ''startTransaction'' (ARG_INFO 0 [ARG_ARRAY ''options'' True]) [ACC_PUBLIC, ACC_FINAL],
     NAMED_ME ''__construct'' ''MongoDB_disabled___construct'' (ARG_INFO 0 []) [ACC_PRIVATE, ACC_FINAL],
     NAMED_ME ''__wakeup'' ''MongoDB_disabled___wakeup'' (ARG_INFO 0 []) [ACC_PUBLIC, ACC_FINAL]]"

definition php_phongo_handler_session :: object_handlers where
  "php_phongo_handler_session = phongo_get_std_object_handlers\<lparr>oh_get_debug_info := Some ''php_phongo_session_get_debug_info'',
     oh_free := Some ''php_phongo_session_free_object'',
     oh_offset := Some ''php_phongo_session_t''\<rparr>"

definition php_phongo_session_init_ce :: "class_call list" where
  "php_phongo_session_init_ce = [
     RegisterClass php_phongo_session_ce php_phongo_session_me,
     SetCreateObject php_phongo_session_ce php_phongo_session_ce,
     CeFinal php_phongo_session_ce,
     CeDisableSerialization php_phongo_session_ce,
     SetHandlers php_phongo_session_ce php_phongo_handler_session,
     DeclareConstant php_phongo_session_ce ''TRANSACTION_NONE'' (ConstString ''none''),
     DeclareConstant php_phongo_session_ce ''TRANSACTION_STARTING'' (ConstString ''starting''),
     DeclareConstant php_phongo_session_ce ''TRANSACTION_IN_PROGRESS'' (ConstString ''in_progress''),
     DeclareConstant php_phongo_session_ce ''TRANSACTION_COMMITTED'' (ConstString ''committed''),
     DeclareConstant php_phongo_session_ce ''TRANSACTION_ABORTED'' (ConstString ''aborted'')]"

definition php_phongo_writeconcern_me :: "method_entry list" where
  "php_phongo_writeconcern_me = [PHP_ME ''WriteConcern'' ''__construct'' (ARG_INFO 1 [ARG ''w'', ARG ''wtimeout'', ARG ''journal'']) [ACC_PUBLIC, ACC_FINAL],
     PHP_ME ''WriteConcern'' ''__serialize'' (ARG_INFO 0 []) [ACC_PUBLIC, ACC_FINAL],
     PHP_ME ''WriteConcern'' ''__set_state'' (ARG_INFO 1 [ARG_ARRAY ''properties'' False]) [ACC_PUBLIC, ACC_STATIC],
     PHP_ME ''WriteConcern'' ''__unserialize'' (ARG_INFO 1 [ARG_ARRAY ''data'' False]) [ACC_PUBLIC, ACC_FINAL],
     PHP_ME ''WriteConcern'' ''getW'' (ARG_INFO 0 []) [ACC_PUBLIC, ACC_FINAL],
     PHP_ME ''WriteConcern'' ''getWtimeout'' (ARG_INFO 0 []) [ACC_PUBLIC, ACC_FINAL],
     PHP_ME ''WriteConcern'' ''getJournal'' (ARG_INFO 0 []) [ACC_PUBLIC, ACC_FINAL],
     PHP_ME ''WriteConcern'' ''isDefault'' (ARG_INFO 0 []) [ACC_PUBLIC, ACC_FINAL],
     PHP_ME ''WriteConcern'' ''bsonSerialize'' (ARG_INFO 0 []) [ACC_PUBLIC, ACC_FINAL],
     PHP_ME ''WriteConcern'' ''serialize'' (ARG_INFO 0 []) [ACC_PUBLIC, ACC_FINAL],
     PHP_ME ''WriteConcern'' ''unserialize'' (ARG_INFO 1 [ARG ''serialized'']) [ACC_PUBLIC, ACC_FINAL]]"

definition php_phongo_handler_writeconcern :: object_handlers where
  "php_phongo_handler_writeconcern = phongo_get_std_object_handlers\<lparr>oh_get_debug_info := Some ''php_phongo_writeconcern_get_debug_info'',
     oh_get_properties := Some ''php_phongo_writeconcern_get_properties'',
     oh_free := Some ''php_phongo_writeconcern_free_object'',
     oh_offset := Some ''php_phongo_writeconcern_t''\<rparr>"

definition php_phongo_writeconcern_init_ce :: "class_call list" where
  "php_phongo_writeconcern_init_ce = [
     RegisterClass php_phongo_writeconcern_ce php_phongo_writeconcern_me,
     SetCreateObject php_phongo_writeconcern_ce php_phongo_writeconcern_ce,
     CeFinal php_phongo_writeconcern_ce,
     ClassImplements php_phongo_writeconcern_ce [php_phongo_serializable_ce],
     ClassImplements php_phongo_writeconcern_ce [(PhpClass zend_ce_serializable)],
     SetHandlers php_phongo_writeconcern_ce php_phongo_handler_writeconcern,
     DeclareConstant php_phongo_writeconcern_ce ''MAJORITY'' (ConstString ''majority'')]"

definition php_phongo_writeconcernerror_me :: "method_entry list" where
  "php_phongo_writeconcernerror_me = [PHP_ME ''WriteConcernError'' ''getCode'' (ARG_INFO 0 []) [ACC_PUBLIC, ACC_FINAL],
     PHP_ME ''WriteConcernError'' ''getInfo'' (ARG_INFO 0 []) [ACC_PUBLIC, ACC_FINAL],
     PHP_ME ''WriteConcernError'' ''getMessage'' (ARG_INFO 0 []) [ACC_PUBLIC, ACC_FINAL],
     NAMED_ME ''__construct'' ''MongoDB_disabled___construct'' (ARG_INFO 0 []) [ACC_PRIVATE, ACC_FINAL],
     NAMED_ME ''__wakeup'' ''MongoDB_disabled___wakeup'' (ARG_INFO 0 []) [ACC_PUBLIC, ACC_FINAL]]"

definition php_phongo_handler_writeconcernerror :: object_handlers where
  "php_phongo_handler_writeconcernerror = phongo_get_std_object_handlers\<lparr>oh_get_debug_info := Some ''php_phongo_writeconcernerror_get_debug_info'',
     oh_free := Some ''php_phongo_writeconcernerror_free_object'',
     oh_offset := Some ''php_phongo_writeconcernerror_t''\<rparr>"

definition php_phongo_writeconcernerror_init_ce :: "class_call list" where
  "php_phongo_writeconcernerror_init_ce = [
     RegisterClass php_phongo_writeconcernerror_ce php_phongo_writeconcernerror_me,
     SetCreateObject php_phongo_writeconcernerror_ce php_phongo_writeconcernerror_ce,
     CeFinal php_phongo_writeconcernerror_ce,
     CeDisableSerialization php_phongo_writeconcernerror_ce,
     SetHandlers php_phongo_writeconcernerror_ce php_phongo_handler_writeconcernerror]"

definition php_phongo_writeerror_me :: "method_entry list" where
  "php_phongo_writeerror_me = [PHP_ME ''WriteError'' ''getCode'' (ARG_INFO 0 []) [ACC_PUBLIC, ACC_FINAL],
     PHP_ME ''WriteError'' ''getIndex'' (ARG_INFO 0 []) [ACC_PUBLIC, ACC_FINAL],
     PHP_ME ''WriteError'' ''getMessage'' (ARG_INFO 0 []) [ACC_PUBLIC, ACC_FINAL],
     PHP_ME ''WriteError'' ''getInfo'' (ARG_INFO 0 []) [ACC_PUBLIC, ACC_FINAL],
     NAMED_ME ''__construct'' ''MongoDB_disabled___construct'' (ARG_INFO 0 []) [ACC_PRIVATE, ACC_FINAL],
     NAMED_ME ''__wakeup'' ''MongoDB_disabled___wakeup'' (ARG_INFO 0 []) [ACC_PUBLIC, ACC_FINAL]]"

definition php_phongo_handler_writeerror :: object_handlers where
  "php_phongo_handler_writeerror = phongo_get_std_object_handlers\<lparr>oh_get_debug_info := Some ''php_phongo_writeerror_get_debug_info'',
     oh_free := Some ''php_phongo_writeerror_free_object'',
     oh_offset := Some ''php_phongo_writeerror_t''\<rparr>"

definition php_phongo_writeerror_init_ce :: "class_call list" where
  "php_phongo_writeerror_init_ce = [
     RegisterClass php_phongo_writeerror_ce php_phongo_writeerror_me,
     SetCreateObject php_phongo_writeerror_ce php_phongo_writeerror_ce,
     CeFinal php_phongo_writeerror_ce,
     CeDisableSerialization php_phongo_writeerror_ce,
     SetHandlers php_phongo_writeerror_ce php_phongo_handler_writeerror]"

definition php_phongo_writeresult_me :: "method_entry list" where
  "php_phongo_writeresult_me = [PHP_ME ''WriteResult'' ''getInsertedCount'' (ARG_INFO 0 []) [ACC_PUBLIC, ACC_FINAL],
     PHP_ME ''WriteResult'' ''getMatchedCount'' (ARG_INFO 0 []) [ACC_PUBLIC, ACC_FINAL],
     PHP_ME ''WriteResult'' ''getModifiedCount'' (ARG_INFO 0 []) [ACC_PUBLIC, ACC_FINAL],
     PHP_ME ''WriteResult'' ''getDeletedCount'' (ARG_INFO 0 []) [ACC_PUBLIC, ACC_FINAL],
     PHP_ME ''WriteResult'' ''getUpsertedCount'' (ARG_INFO 0 []) [ACC_PUBLIC, ACC_FINAL],
     PHP_ME ''WriteResult'' ''getServer'' (ARG_INFO 0 []) [ACC_PUBLIC, ACC_FINAL],
     PHP_ME ''WriteResult'' ''getUpsertedIds'' (ARG_INFO 0 []) [ACC_PUBLIC, ACC_FINAL],
     PHP_ME ''WriteResult'' ''getWriteConcernError'' (ARG_INFO 0 []) [ACC_PUBLIC, ACC_FINAL],
     PHP_ME ''WriteResult'' ''getWriteErrors'' (ARG_INFO 0 []) [ACC_PUBLIC, ACC_FINAL],
     PHP_ME ''WriteResult'' ''isAcknowledged'' (ARG_INFO 0 []) [ACC_PUBLIC, ACC_FINAL],
     NAMED_ME ''__construct'' ''MongoDB_disabled___construct'' (ARG_INFO 0 []) [ACC_PRIVATE, ACC_FINAL],
     NAMED_ME ''__wakeup'' ''MongoDB_disabled___wakeup'' (ARG_INFO 0 []) [ACC_PUBLIC, ACC_FINAL]]"

definition php_phongo_handler_writeresult :: object_handlers where
  "php_phongo_handler_writeresult = phongo_get_std_object_handlers\<lparr>oh_get_debug_info := Some ''php_phongo_writeresult_get_debug_info'',
     oh_free := Some ''php_phongo_writeresult_free_object'',
     oh_offset := Some ''php_phongo_writeresult_t''\<rparr>"

definition php_phongo_writeresult_init_ce :: "class_call list" where
  "php_phongo_writeresult_init_ce = [
     RegisterClass php_phongo_writeresult_ce php_phongo_writeresult_me,
     SetCreateObject php_phongo_writeresult_ce php_phongo_writeresult_ce,
     CeFinal php_phongo_writeresult_ce,
     CeDisableSerialization php_phongo_writeresult_ce,
     SetHandlers php_phongo_writeresult_ce php_phongo_handler_writeresult]"

end
