(* ===== verification/Exception_Classes.thy ===== *)
theory Exception_Classes
  imports Driver_Classes
begin

text \<open>
  The exceptions (src/MongoDB/Exception) and the classes of command monitoring
  (src/MongoDB/Monitoring): for each class its table of methods and its initialiser.
\<close>

section \<open>Tables and initialisers\<close>

definition php_phongo_exception_me :: "method_entry list" where
  "php_phongo_exception_me = []"

definition php_phongo_exception_init_ce :: "class_call list" where
  "php_phongo_exception_init_ce = [
     RegisterInterface php_phongo_exception_ce php_phongo_exception_me,
     ClassImplements php_phongo_exception_ce [(PhpClass zend_ce_throwable)]]"

definition php_phongo_runtimeexception_me :: "method_entry list" where
  "php_phongo_runtimeexception_me = [PHP_ME ''RuntimeException'' ''hasErrorLabel'' (ARG_INFO 1 [ARG ''label'']) [ACC_PUBLIC, ACC_FINAL]]"

definition php_phongo_runtimeexception_init_ce :: "class_call list" where
  "php_phongo_runtimeexception_init_ce = [
     RegisterClassEx php_phongo_runtimeexception_ce php_phongo_runtimeexception_me (PhpClass spl_ce_RuntimeException),
     ClassImplements php_phongo_runtimeexception_ce [php_phongo_exception_ce],
     DeclarePropertyNull php_phongo_runtimeexception_ce ''errorLabels'' ACC_PROTECTED]"

definition php_phongo_serverexception_me :: "method_entry list" where
  "php_phongo_serverexception_me = []"

definition php_phongo_serverexception_init_ce :: "class_call list" where
  "php_phongo_serverexception_init_ce = [
     RegisterClassEx php_phongo_serverexception_ce php_phongo_serverexception_me php_phongo_runtimeexception_ce]"

definition php_phongo_connectionexception_me :: "method_entry list" where
  "php_phongo_connectionexception_me = []"

definition php_phongo_connectionexception_init_ce :: "class_call list" where
  "php_phongo_connectionexception_init_ce = [
     RegisterClassEx php_phongo_connectionexception_ce php_phongo_connectionexception_me php_phongo_runtimeexception_ce]"

definition php_phongo_writeexception_me :: "method_entry list" where
  "php_phongo_writeexception_me = [PHP_ME ''WriteException'' ''getWriteResult'' (ARG_INFO 0 []) [ACC_PUBLIC, ACC_FINAL]]"

definition php_phongo_writeexception_init_ce :: "class_call list" where
  "php_phongo_writeexception_init_ce = [
     RegisterClassEx php_phongo_writeexception_ce php_phongo_writeexception_me php_phongo_serverexception_ce,
     CeExplicitAbstract php_phongo_writeexception_ce,
     DeclarePropertyNull php_phongo_writeexception_ce ''writeResult'' ACC_PROTECTED]"

definition php_phongo_authenticationexception_me :: "method_entry list" where
  "php_phongo_authenticationexception_me = []"

definition php_phongo_authenticationexception_init_ce :: "class_call list" where
  "php_phongo_authenticationexception_init_ce = [
     RegisterClassEx php_phongo_authenticationexception_ce php_phongo_authenticationexception_me php_phongo_connectionexception_ce]"

definition php_phongo_bulkwriteexception_me :: "method_entry list" where
  "php_phongo_bulkwriteexception_me = []"

definition php_phongo_bulkwriteexception_init_ce :: "class_call list" where
  "php_phongo_bulkwriteexception_init_ce = [
     RegisterClassEx php_phongo_bulkwriteexception_ce php_phongo_bulkwriteexception_me php_phongo_writeexception_ce]"

definition php_phongo_commandexception_me :: "method_entry list" where
  "php_phongo_commandexception_me = [PHP_ME ''CommandException'' ''getResultDocument'' (ARG_INFO 0 []) [ACC_PUBLIC, ACC_FINAL]]"

definition php_phongo_commandexception_init_ce :: "class_call list" where
  "php_phongo_commandexception_init_ce = [
     RegisterClassEx php_phongo_commandexception_ce php_phongo_commandexception_me php_phongo_serverexception_ce,
     DeclarePropertyNull php_phongo_commandexception_ce ''resultDocument'' ACC_PROTECTED]"

definition php_phongo_connectiontimeoutexception_me :: "method_entry list" where
  "php_phongo_connectiontimeoutexception_me = []"

definition php_phongo_connectiontimeoutexception_init_ce :: "class_call list" where
  "php_phongo_connectiontimeoutexception_init_ce = [
     RegisterClassEx php_phongo_connectiontimeoutexception_ce php_phongo_connectiontimeoutexception_me php_phongo_connectionexception_ce,
     CeFinal php_phongo_connectiontimeoutexception_ce]"

definition php_phongo_encryptionexception_me :: "method_entry list" where
  "php_phongo_encryptionexception_me = []"

definition php_phongo_encryptionexception_init_ce :: "class_call list" where
  "php_phongo_encryptionexception_init_ce = [
     RegisterClassEx php_phongo_encryptionexception_ce php_phongo_encryptionexception_me php_phongo_runtimeexception_ce]"

definition php_phongo_executiontimeoutexception_me :: "method_entry list" where
  "php_phongo_executiontimeoutexception_me = []"

definition php_phongo_executiontimeoutexception_init_ce :: "class_call list" where
  "php_phongo_executiontimeoutexception_init_ce = [
     RegisterClassEx php_phongo_executiontimeoutexception_ce php_phongo_executiontimeoutexception_me php_phongo_serverexception_ce,
     CeFinal php_phongo_executiontimeoutexception_ce]"

definition php_phongo_invalidargumentexception_me :: "method_entry list" where
  "php_phongo_invalidargumentexception_me = []"

definition php_phongo_invalidargumentexception_init_ce :: "class_call list" where
  "php_phongo_invalidargumentexception_init_ce = [
     RegisterClassEx php_phongo_invalidargumentexception_ce php_phongo_invalidargumentexception_me (PhpClass spl_ce_InvalidArgumentException),
     ClassImplements php_phongo_invalidargumentexception_ce [php_phongo_exception_ce]]"

definition php_phongo_logicexception_me :: "method_entry list" where
  "php_phongo_logicexception_me = []"

definition php_phongo_logicexception_init_ce :: "class_call list" where
  "php_phongo_logicexception_init_ce = [
     RegisterClassEx php_phongo_logicexception_ce php_phongo_logicexception_me (PhpClass spl_ce_LogicException),
     ClassImplements php_phongo_logicexception_ce [php_phongo_exception_ce]]"

definition php_phongo_sslconnectionexception_me :: "method_entry list" where
  "php_phongo_sslconnectionexception_me = []"

definition php_phongo_sslconnectionexception_init_ce :: "class_call list" where
  "php_phongo_sslconnectionexception_init_ce = [
     RegisterClassEx php_phongo_sslconnectionexception_ce php_phongo_sslconnectionexception_me php_phongo_connectionexception_ce,
     CeFinal php_phongo_sslconnectionexception_ce]"

definition php_phongo_unexpectedvalueexception_me :: "method_entry list" where
  "php_phongo_unexpectedvalueexception_me = []"

definition php_phongo_unexpectedvalueexception_init_ce :: "class_call list" where
  "php_phongo_unexpectedvalueexception_init_ce = [
     RegisterClassEx php_phongo_unexpectedvalueexception_ce php_phongo_unexpectedvalueexception_me (PhpClass spl_ce_UnexpectedValueException),
     ClassImplements php_phongo_unexpectedvalueexception_ce [php_phongo_exception_ce]]"

definition php_phongo_subscriber_me :: "method_entry list" where
  "php_phongo_subscriber_me = []"

definition php_phongo_subscriber_init_ce :: "class_call list" where
  "php_phongo_subscriber_init_ce = [
     RegisterInterface php_phongo_subscriber_ce php_phongo_subscriber_me]"

definition php_phongo_commandsubscriber_me :: "method_entry list" where
  "php_phongo_commandsubscriber_me = [ABSTRACT_ME ''CommandSubscriber'' ''commandStarted'' (ARG_INFO 1 [ARG_OBJ ''event'' php_phongo_commandstartedevent_ce False]),
     ABSTRACT_ME ''CommandSubscriber'' ''commandSucceeded'' (ARG_INFO 1 [ARG_OBJ ''event'' php_phongo_commandsucceededevent_ce False]),
     ABSTRACT_ME ''CommandSubscriber'' ''commandFailed'' (ARG_INFO 1 [ARG_OBJ ''event'' php_phongo_commandfailedevent_ce False])]"

definition php_phongo_commandsubscriber_init_ce :: "class_call list" where
  "php_phongo_commandsubscriber_init_ce = [
     RegisterInterface php_phongo_commandsubscriber_ce php_phongo_commandsubscriber_me,
     ClassImplements php_phongo_commandsubscriber_ce [php_phongo_subscriber_ce]]"

definition php_phongo_commandfailedevent_me :: "method_entry list" where
  "php_phongo_commandfailedevent_me = [NAMED_ME ''__construct'' ''MongoDB_disabled___construct'' (ARG_INFO 0 []) [ACC_PRIVATE, ACC_FINAL],
     PHP_ME ''CommandFailedEvent'' ''getCommandName'' (ARG_INFO 0 []) [ACC_PUBLIC, ACC_FINAL],
     PHP_ME ''CommandFailedEvent'' ''getError'' (ARG_INFO 0 []) [ACC_PUBLIC, ACC_FINAL],
     PHP_ME ''CommandFailedEvent'' ''getDurationMicros'' (ARG_INFO 0 []) [ACC_PUBLIC, ACC_FINAL],
     PHP_ME ''CommandFailedEvent'' ''getOperationId'' (ARG_INFO 0 []) [ACC_PUBLIC, ACC_FINAL],
     PHP_ME ''CommandFailedEvent'' ''getReply'' (ARG_INFO 0 []) [ACC_PUBLIC, ACC_FINAL],
     PHP_ME ''CommandFailedEvent'' ''getRequestId'' (ARG_INFO 0 []) [ACC_PUBLIC, ACC_FINAL],
     PHP_ME ''CommandFailedEvent'' ''getServer'' (ARG_INFO 0 []) [ACC_PUBLIC, ACC_FINAL],
     NAMED_ME ''__wakeup'' ''MongoDB_disabled___wakeup'' (ARG_INFO 0 []) [ACC_PUBLIC, ACC_FINAL]]"

definition php_phongo_handler_commandfailedevent :: object_handlers where
  "php_phongo_handler_commandfailedevent = phongo_get_std_object_handlers\<lparr>oh_get_debug_info := Some ''php_phongo_commandfailedevent_get_debug_info'',
     oh_free := Some ''php_phongo_commandfailedevent_free_object'',
     oh_offset := Some ''php_phongo_commandfailedevent_t''\<rparr>"

definition php_phongo_commandfailedevent_init_ce :: "class_call list" where
  "php_phongo_commandfailedevent_init_ce = [
     RegisterClass php_phongo_commandfailedevent_ce php_phongo_commandfailedevent_me,
     SetCreateObject php_phongo_commandfailedevent_ce php_phongo_commandfailedevent_ce,
     CeFinal php_phongo_commandfailedevent_ce,
     CeDisableSerialization php_phongo_commandfailedevent_ce,
     SetHandlers php_phongo_commandfailedevent_ce php_phongo_handler_commandfailedevent]"

definition php_phongo_commandstartedevent_me :: "method_entry list" where
  "php_phongo_commandstartedevent_me = [NAMED_ME ''__construct'' ''MongoDB_disabled___construct'' (ARG_INFO 0 []) [ACC_PRIVATE, ACC_FINAL],
     PHP_ME ''CommandStartedEvent'' ''getCommand'' (ARG_INFO 0 []) [ACC_PUBLIC, ACC_FINAL],
     PHP_ME ''CommandStartedEvent'' ''getCommandName'' (ARG_INFO 0 []) [ACC_PUBLIC, ACC_FINAL],
     PHP_ME ''CommandStartedEvent'' ''getDatabaseName'' (ARG_INFO 0 []) [ACC_PUBLIC, ACC_FINAL],
     PHP_ME ''CommandStartedEvent'' ''getOperationId'' (ARG_INFO 0 []) [ACC_PUBLIC, ACC_FINAL],
     PHP_ME ''CommandStartedEvent'' ''getRequestId'' (ARG_INFO 0 []) [ACC_PUBLIC, ACC_FINAL],
     PHP_ME ''CommandStartedEvent'' ''getServer'' (ARG_INFO 0 []) [ACC_PUBLIC, ACC_FINAL],
     NAMED_ME ''__wakeup'' ''MongoDB_disabled___wakeup'' (ARG_INFO 0 []) [ACC_PUBLIC, ACC_FINAL]]"

definition php_phongo_handler_commandstartedevent :: object_handlers where
  "php_phongo_handler_commandstartedevent = phongo_get_std_object_handlers\<lparr>oh_get_debug_info := Some ''php_phongo_commandstartedevent_get_debug_info'',
     oh_free := Some ''php_phongo_commandstartedevent_free_object'',
     oh_offset := Some ''php_phongo_commandstartedevent_t''\<rparr>"

definition php_phongo_commandstartedevent_init_ce :: "class_call list" where
  "php_phongo_commandstartedevent_init_ce = [
     RegisterClass php_phongo_commandstartedevent_ce php_phongo_commandstartedevent_me,
     SetCreateObject php_phongo_commandstartedevent_ce php_phongo_commandstartedevent_ce,
     CeFinal php_phongo_commandstartedevent_ce,
     CeDisableSerialization php_phongo_commandstartedevent_ce,
     SetHandlers php_phongo_commandstartedevent_ce php_phongo_handler_commandstartedevent]"

definition php_phongo_commandsucceededevent_me :: "method_entry list" where
  "php_phongo_commandsucceededevent_me = [NAMED_ME ''__construct'' ''MongoDB_disabled___construct'' (ARG_INFO 0 []) [ACC_PRIVATE, ACC_FINAL],
     PHP_ME ''CommandSucceededEvent'' ''getCommandName'' (ARG_INFO 0 []) [ACC_PUBLIC, ACC_FINAL],
     PHP_ME ''CommandSucceededEvent'' ''getDurationMicros'' (ARG_INFO 0 []) [ACC_PUBLIC, ACC_FINAL],
     PHP_ME ''CommandSucceededEvent'' ''getOperationId'' (ARG_INFO 0 []) [ACC_PUBLIC, ACC_FINAL],
     PHP_ME ''CommandSucceededEvent'' ''getReply'' (ARG_INFO 0 []) [ACC_PUBLIC, ACC_FINAL],
     PHP_ME ''CommandSucceededEvent'' ''getRequestId'' (ARG_INFO 0 []) [ACC_PUBLIC, ACC_FINAL],
     PHP_ME ''CommandSucceededEvent'' ''getServer'' (ARG_INFO 0 []) [ACC_PUBLIC, ACC_FINAL],
     NAMED_ME ''__wakeup'' ''MongoDB_disabled___wakeup'' (ARG_INFO 0 []) [ACC_PUBLIC, ACC_FINAL]]"

definition php_phongo_handler_commandsucceededevent :: object_handlers where
  "php_phongo_handler_commandsucceededevent = phongo_get_std_object_handlers\<lparr>oh_get_debug_info := Some ''php_phongo_commandsucceededevent_get_debug_info'',
     oh_free := Some ''php_phongo_commandsucceededevent_free_object'',
     oh_offset := Some ''php_phongo_commandsucceededevent_t''\<rparr>"

definition php_phongo_commandsucceededevent_init_ce :: "class_call list" where
  "php_phongo_commandsucceededevent_init_ce = [
     RegisterClass php_phongo_commandsucceededevent_ce php_phongo_commandsucceededevent_me,
     SetCreateObject php_phongo_commandsucceededevent_ce php_phongo_commandsucceededevent_ce,
     CeFinal php_phongo_commandsucceededevent_ce,
     CeDisableSerialization php_phongo_commandsucceededevent_ce,
     SetHandlers php_phongo_commandsucceededevent_ce php_phongo_handler_commandsucceededevent]"

end
