(* ===== verification/Driver_Module.thy ===== *)
theory Driver_Module
  imports Exception_Classes Driver_Registry_Props Driver_Execute Driver_Server
begin

text \<open>
  The module: its start and end, per process and per thread, the registration of its classes,
  the debug log, and what \<^verbatim>\<open>phpinfo\<close> prints.
\<close>

section \<open>Start and end\<close>

text \<open>
  The process: the classes, the string constants, whether the settings are registered, libbson
  allocates by PHP's functions and libmongoc is initialised, and the threads with their globals.
\<close>

record php_module =
  pm_classes :: class_module
  pm_constants :: "(string \<times> string) list"
  pm_ini :: bool
  pm_own_memory :: bool
  pm_mongoc :: bool
  pm_num_threads :: int
  pm_threads :: "(nat \<times> nat mongodb_globals) list"

datatype startup = SUCCESS | FAILURE

definition php_phongo_fetch_internal_class :: "class_ref \<Rightarrow> php_module \<Rightarrow> class_entry option" where
  "php_phongo_fetch_internal_class c m = find_class c (cm_classes (pm_classes m))"

definition PHP_MONGODB_VERSION :: string where "PHP_MONGODB_VERSION = ''1.11.0-dev''"

definition PHP_MONGODB_STABILITY :: string where "PHP_MONGODB_STABILITY = ''devel''"

text \<open>The initialisers, in the order of the sources: bases before the classes that need them.\<close>

definition class_initialisers :: "class_call list" where
  "class_initialisers = concat [
     php_phongo_type_init_ce,
     php_phongo_serializable_init_ce,
     php_phongo_unserializable_init_ce,
     php_phongo_binary_interface_init_ce,
     php_phongo_decimal128_interface_init_ce,
     php_phongo_javascript_interface_init_ce,
     php_phongo_maxkey_interface_init_ce,
     php_phongo_minkey_interface_init_ce,
     php_phongo_objectid_interface_init_ce,
     php_phongo_regex_interface_init_ce,
     php_phongo_timestamp_interface_init_ce,
     php_phongo_utcdatetime_interface_init_ce,
     php_phongo_binary_init_ce,
     php_phongo_dbpointer_init_ce,
     php_phongo_decimal128_init_ce,
     php_phongo_int64_init_ce,
     php_phongo_javascript_init_ce,
     php_phongo_maxkey_init_ce,
     php_phongo_minkey_init_ce,
     php_phongo_objectid_init_ce,
     php_phongo_persistable_init_ce,
     php_phongo_regex_init_ce,
     php_phongo_symbol_init_ce,
     php_phongo_timestamp_init_ce,
     php_phongo_undefined_init_ce,
     php_phongo_utcdatetime_init_ce,
     php_phongo_cursor_interface_init_ce,
     php_phongo_bulkwrite_init_ce,
     php_phongo_clientencryption_init_ce,
     php_phongo_command_init_ce,
     php_phongo_cursor_init_ce,
     php_phongo_cursorid_init_ce,
     php_phongo_manager_init_ce,
     php_phongo_query_init_ce,
     php_phongo_readconcern_init_ce,
     php_phongo_readpreference_init_ce,
     php_phongo_server_init_ce,
     php_phongo_serverapi_init_ce,
     php_phongo_session_init_ce,
     php_phongo_writeconcern_init_ce,
     php_phongo_writeconcernerror_init_ce,
     php_phongo_writeerror_init_ce,
     php_phongo_writeresult_init_ce,
     php_phongo_exception_init_ce,
     php_phongo_runtimeexception_init_ce,
     php_phongo_serverexception_init_ce,
     php_phongo_connectionexception_init_ce,
     php_phongo_writeexception_init_ce,
     php_phongo_authenticationexception_init_ce,
     php_phongo_bulkwriteexception_init_ce,
     php_phongo_commandexception_init_ce,
     php_phongo_connectiontimeoutexception_init_ce,
     php_phongo_encryptionexception_init_ce,
     php_phongo_executiontimeoutexception_init_ce,
     php_phongo_invalidargumentexception_init_ce,
     php_phongo_logicexception_init_ce,
     php_phongo_sslconnectionexception_init_ce,
     php_phongo_unexpectedvalueexception_init_ce,
     php_phongo_subscriber_init_ce,
     php_phongo_commandsubscriber_init_ce,
     php_phongo_commandfailedevent_init_ce,
     php_phongo_commandstartedevent_init_ce,
     php_phongo_commandsucceededevent_init_ce]"

text \<open>None is a null pointer or a fatal error of the engine; FAILURE comes with an error message.\<close>

definition MINIT :: "php_module \<Rightarrow> (startup \<times> php_module) option" where
  "MINIT m = (let m1 = m\<lparr>pm_ini := True, pm_own_memory := True, pm_mongoc := True\<rparr> in
     if php_phongo_fetch_internal_class (PhpClass json_serializable_ce) m1 = None then Some (FAILURE, m1)
     else (case run_calls class_initialisers (pm_classes m1) of
         None \<Rightarrow> None
       | Some C \<Rightarrow> Some (SUCCESS, m1\<lparr>pm_classes := C, pm_constants := pm_constants m1
           @ [(''MONGODB_VERSION'', PHP_MONGODB_VERSION), (''MONGODB_STABILITY'', PHP_MONGODB_STABILITY)]\<rparr>)))"

definition MSHUTDOWN :: "php_module \<Rightarrow> php_module" where
  "MSHUTDOWN m = m\<lparr>pm_ini := False\<rparr>"

text \<open>A thread starts, with globals of its own.\<close>

definition thread_start :: "nat \<Rightarrow> php_module \<Rightarrow> php_module" where
  "thread_start t m = m\<lparr>pm_num_threads := pm_num_threads m + 1, pm_threads := (t, globals_init) # pm_threads m\<rparr>"

text \<open>A thread ends: its persistent clients are destroyed, and the last thread ends libmongoc.\<close>

definition thread_end :: "int \<Rightarrow> nat \<Rightarrow> php_module \<Rightarrow> (php_module \<times> nat client_call list) option" where
  "thread_end pid t m = (case map_of (pm_threads m) t of
     None \<Rightarrow> None
   | Some G \<Rightarrow> (let (G1, calls) = GSHUTDOWN pid G;
         m1 = m\<lparr>pm_threads := filter (\<lambda>e. fst e \<noteq> t) (pm_threads m), pm_num_threads := pm_num_threads m - 1\<rparr> in
       Some (if pm_num_threads m1 = 0 then m1\<lparr>pm_mongoc := False, pm_own_memory := False\<rparr> else m1, calls)))"

section \<open>The debug log\<close>

datatype debug_file = Stderr | Stdout | File string

text \<open>
  The stream, and whether libmongoc calls the handler and traces.  The temporary file is a
  parameter: its path when it can be made in a directory; and whether it opens again.
\<close>

record debug_state =
  dbg_fd :: "debug_file option"
  dbg_handler :: bool
  dbg_trace :: bool
  dbg_closed :: "debug_file list"

definition debug_closed :: "debug_state \<Rightarrow> debug_state" where
  "debug_closed D = (case dbg_fd D of None \<Rightarrow> D
     | Some f \<Rightarrow> D\<lparr>dbg_fd := None, dbg_closed := dbg_closed D @ (if f = Stderr \<or> f = Stdout then [] else [f])\<rparr>)"

definition is_one_of :: "string list \<Rightarrow> string \<Rightarrow> bool" where
  "is_one_of names s \<longleftrightarrow> (\<exists>n \<in> set names. strcasecmp n s = 0)"

text \<open>None: the name of the file is read though none was made.\<close>

definition OnUpdateDebug ::
    "(string option \<Rightarrow> string option) \<Rightarrow> (string \<Rightarrow> bool) \<Rightarrow> string option \<Rightarrow> debug_state \<Rightarrow> debug_state option" where
  "OnUpdateDebug php_open_temporary_fd fopen new_value D =
     (let D1 = debug_closed D in
      case map_option c_str new_value of
        None \<Rightarrow> Some (D1\<lparr>dbg_trace := False, dbg_handler := False\<rparr>)
      | Some v \<Rightarrow>
          if v = [] \<or> is_one_of [''0'', ''off'', ''no'', ''false''] v
          then Some (D1\<lparr>dbg_trace := False, dbg_handler := False\<rparr>)
          else if strcasecmp v ''stderr'' = 0 then Some (D1\<lparr>dbg_fd := Some Stderr, dbg_trace := True, dbg_handler := True\<rparr>)
          else if strcasecmp v ''stdout'' = 0 then Some (D1\<lparr>dbg_fd := Some Stdout, dbg_trace := True, dbg_handler := True\<rparr>)
          else (case php_open_temporary_fd (if is_one_of [''1'', ''on'', ''yes'', ''true''] v then None else Some v) of
              None \<Rightarrow> None
            | Some path \<Rightarrow> Some (D1\<lparr>dbg_fd := (if fopen path then Some (File path) else None), dbg_trace := True, dbg_handler := True\<rparr>)))"

text \<open>A line of the log: the time, the domain on ten columns, the level on eight; None: no stream.\<close>

definition pad_left :: "nat \<Rightarrow> char \<Rightarrow> string \<Rightarrow> string" where
  "pad_left n c s = replicate (n - length s) c @ s"

definition pad_right :: "nat \<Rightarrow> string \<Rightarrow> string" where
  "pad_right n s = s @ replicate (n - length s) CHR 0x20"

definition php_phongo_log :: "debug_state \<Rightarrow> string \<Rightarrow> string \<Rightarrow> string \<Rightarrow> string \<Rightarrow> string \<Rightarrow> (debug_file \<times> string) option" where
  "php_phongo_log D date usec domain level message = map_option (\<lambda>f. (f,
     ''['' @ date @ ''.'' @ pad_left 6 CHR 0x30 usec @ ''+00:00] '' @ pad_left 10 CHR 0x20 domain @ '': ''
       @ pad_right 8 level @ ''> '' @ message @ [CHR 0x0A])) (dbg_fd D)"

text \<open>At the end of a thread its stream is closed, a standard one too.\<close>

definition debug_gshutdown :: "debug_state \<Rightarrow> debug_state" where
  "debug_gshutdown D = (case dbg_fd D of None \<Rightarrow> D | Some f \<Rightarrow> D\<lparr>dbg_fd := None, dbg_closed := dbg_closed D @ [f]\<rparr>)"

section \<open>Disabled methods\<close>

definition MongoDB_disabled___construct :: exn where
  "MongoDB_disabled___construct = phongo_throw_exception PHONGO_ERROR_RUNTIME ''Accessing private constructor''"

definition MongoDB_disabled___wakeup :: exn where
  "MongoDB_disabled___wakeup = phongo_throw_exception PHONGO_ERROR_RUNTIME
     (''MongoDB'' @ CHR 0x5C # ''Driver objects cannot be serialized'')"

section \<open>Module information\<close>

text \<open>How the module was built; the versions of a library are those of its headers and its own.\<close>

record build_config =
  bc_system_bson :: bool
  bc_bson_version :: "string \<times> string"
  bc_system_mongoc :: bool
  bc_mongoc_version :: "string \<times> string"
  bc_ssl :: "string option"
  bc_crypto :: "(string \<times> bool) option"
  bc_sasl :: bool
  bc_icu :: bool
  bc_compression :: "(bool \<times> bool \<times> bool) option"
  bc_mongocrypt :: "((bool \<times> string \<times> string) \<times> string option) option"

definition enabled :: "bool \<Rightarrow> string" where
  "enabled b = (if b then ''enabled'' else ''disabled'')"

definition MINFO :: "build_config \<Rightarrow> (string \<times> string) list" where
  "MINFO B = [(''MongoDB support'', ''enabled''), (''MongoDB extension version'', PHP_MONGODB_VERSION),
       (''MongoDB extension stability'', PHP_MONGODB_STABILITY)]
     @ (if bc_system_bson B then [(''libbson headers version'', fst (bc_bson_version B)), (''libbson library version'', snd (bc_bson_version B))]
        else [(''libbson bundled version'', fst (bc_bson_version B))])
     @ (if bc_system_mongoc B then [(''libmongoc headers version'', fst (bc_mongoc_version B)), (''libmongoc library version'', snd (bc_mongoc_version B))]
        else [(''libmongoc bundled version'', fst (bc_mongoc_version B))])
     @ (case bc_ssl B of None \<Rightarrow> [(''libmongoc SSL'', ''disabled'')]
        | Some lib \<Rightarrow> [(''libmongoc SSL'', ''enabled''), (''libmongoc SSL library'', lib)])
     @ (case bc_crypto B of None \<Rightarrow> [(''libmongoc crypto'', ''disabled'')]
        | Some (lib, profile) \<Rightarrow> [(''libmongoc crypto'', ''enabled''), (''libmongoc crypto library'', lib),
            (''libmongoc crypto system profile'', enabled profile)])
     @ [(''libmongoc SASL'', enabled (bc_sasl B)), (''libmongoc ICU'', enabled (bc_icu B))]
     @ (case bc_compression B of None \<Rightarrow> [(''libmongoc compression'', ''disabled'')]
        | Some (snappy, zlib, zstd) \<Rightarrow> [(''libmongoc compression'', ''enabled''), (''libmongoc compression snappy'', enabled snappy),
            (''libmongoc compression zlib'', enabled zlib), (''libmongoc compression zstd'', enabled zstd)])
     @ (case bc_mongocrypt B of None \<Rightarrow> [(''libmongocrypt'', ''disabled'')]
        | Some ((system, headers, library), crypto) \<Rightarrow>
            (if system then [(''libmongocrypt headers version'', headers), (''libmongocrypt library version'', library)]
             else [(''libmongocrypt bundled version'', headers)])
            @ (case crypto of None \<Rightarrow> [(''libmongocrypt crypto'', ''disabled'')]
               | Some lib \<Rightarrow> [(''libmongocrypt crypto'', ''enabled''), (''libmongocrypt crypto library'', lib)]))"

text \<open>The functions of the module: namespace and name, implementation, and parameters.\<close>

definition ai_monitoring_subscriber :: zend_arg_info where
  "ai_monitoring_subscriber = ARG_INFO 1 [ARG_OBJ ''subscriber'' (php_phongo_subscriber_ce) False]"

definition mongodb_functions :: "(string \<times> string \<times> zend_arg_info) list" where
  "mongodb_functions =
     [(bson_ns ''fromPHP'', ''MongoDB_BSON_fromPHP'', ARG_INFO 1 [ARG ''value'']),
      (bson_ns ''toPHP'', ''MongoDB_BSON_toPHP'', ARG_INFO 1 [ARG ''bson'', ARG_ARRAY ''typemap'' False]),
      (bson_ns ''toJSON'', ''MongoDB_BSON_toJSON'', ARG_INFO 1 [ARG ''bson'']),
      (bson_ns ''toCanonicalExtendedJSON'', ''MongoDB_BSON_toCanonicalExtendedJSON'', ARG_INFO 1 [ARG ''bson'']),
      (bson_ns ''toRelaxedExtendedJSON'', ''MongoDB_BSON_toRelaxedExtendedJSON'', ARG_INFO 1 [ARG ''bson'']),
      (bson_ns ''fromJSON'', ''MongoDB_BSON_fromJSON'', ARG_INFO 1 [ARG ''json'']),
      (driver_ns (''Monitoring'' @ CHR 0x5C # ''addSubscriber''), ''MongoDB_Driver_Monitoring_addSubscriber'', ai_monitoring_subscriber),
      (driver_ns (''Monitoring'' @ CHR 0x5C # ''removeSubscriber''), ''MongoDB_Driver_Monitoring_removeSubscriber'', ai_monitoring_subscriber)]"

text \<open>The modules that have to be started before; the engine refuses the module without them.\<close>

definition mongodb_deps :: "string list" where
  "mongodb_deps = [''date'', ''json'', ''spl'', ''standard'']"

section \<open>The engine's classes\<close>

text \<open>The classes of PHP that the driver builds on, with the methods their interfaces ask for.\<close>

definition throwable_methods :: "string list" where
  "throwable_methods = [''getMessage'', ''getCode'', ''getFile'', ''getLine'', ''getTrace'', ''getPrevious'', ''getTraceAsString'']"

definition php_interface :: "php_ce \<Rightarrow> php_ce list \<Rightarrow> method_entry list \<Rightarrow> class_entry" where
  "php_interface c parents methods = (new_class (PhpClass c) methods)\<lparr>ce_is_interface := True, ce_interfaces := map PhpClass parents\<rparr>"

definition exception_methods :: "method_entry list" where
  "exception_methods = map (\<lambda>m. PHP_ME ''Exception'' m (ARG_INFO 0 []) [ACC_PUBLIC, ACC_FINAL]) throwable_methods"

definition php_exception :: "php_ce \<Rightarrow> php_ce option \<Rightarrow> class_entry" where
  "php_exception c parent = (new_class (PhpClass c) exception_methods)\<lparr>ce_parent := map_option PhpClass parent,
     ce_interfaces := [PhpClass zend_ce_throwable], ce_create_object := Some (PhpClass zend_ce_exception)\<rparr>"

definition iterator_methods :: "method_entry list" where
  "iterator_methods = map (\<lambda>m. ABSTRACT_ME ''Iterator'' m (ARG_INFO 0 [])) [''current'', ''next'', ''key'', ''valid'', ''rewind'']"

definition serializable_methods :: "method_entry list" where
  "serializable_methods = [ABSTRACT_ME ''Serializable'' ''serialize'' (ARG_INFO 0 []), ABSTRACT_ME ''Serializable'' ''unserialize'' (ARG_INFO 1 [ARG ''data''])]"

definition throwable_interface_methods :: "method_entry list" where
  "throwable_interface_methods = map (\<lambda>m. ABSTRACT_ME ''Throwable'' m (ARG_INFO 0 [])) throwable_methods"

definition countable_methods :: "method_entry list" where
  "countable_methods = [ABSTRACT_ME ''Countable'' ''count'' (ARG_INFO 0 [])]"

definition json_serializable_methods :: "method_entry list" where
  "json_serializable_methods = [ABSTRACT_ME ''JsonSerializable'' ''jsonSerialize'' (ARG_INFO 0 [])]"

definition php_classes :: "class_entry list" where
  "php_classes =
     [php_interface json_serializable_ce [] json_serializable_methods,
      php_exception spl_ce_UnexpectedValueException (Some spl_ce_RuntimeException),
      php_exception spl_ce_RuntimeException (Some zend_ce_exception),
      php_exception spl_ce_InvalidArgumentException (Some spl_ce_LogicException),
      php_exception spl_ce_LogicException (Some zend_ce_exception),
      php_exception zend_ce_exception None,
      php_interface zend_ce_throwable [] throwable_interface_methods,
      php_interface zend_ce_serializable [] serializable_methods,
      php_interface zend_ce_countable [] countable_methods,
      php_interface zend_ce_iterator [zend_ce_traversable] iterator_methods,
      php_interface zend_ce_traversable [] []]"

definition php_started :: "class_entry list \<Rightarrow> php_module" where
  "php_started cs = \<lparr>pm_classes = \<lparr>cm_classes = cs, cm_handlers = []\<rparr>, pm_constants = [], pm_ini = False, pm_own_memory = False,
     pm_mongoc = False, pm_num_threads = 0, pm_threads = []\<rparr>"

end
