(* ===== verification/Class_Shapes.thy ===== *)
theory Class_Shapes
  imports Driver_Module
begin

text \<open>
  A walk over the calls of the initialisers that keeps the shape of each class only: its kind,
  parent, interfaces and where its methods come from.  The walk follows the engine, so that what
  holds of the shapes holds of the classes registered.
\<close>

section \<open>Shapes\<close>

text \<open>Class, interface, final, serialisation denied, parent, interfaces, and the classes whose method tables it has.\<close>

datatype class_shape = Shape (sh_ref: class_ref) (sh_interface: bool) (sh_final: bool) (sh_denied: bool)
  (sh_parent: "class_ref option") (sh_interfaces: "class_ref list") (sh_owners: "class_ref list")

text \<open>The table each class is registered with.\<close>

fun php_method_table :: "php_ce \<Rightarrow> method_entry list" where
  "php_method_table zend_ce_traversable = []"
| "php_method_table zend_ce_iterator = iterator_methods"
| "php_method_table zend_ce_countable = countable_methods"
| "php_method_table zend_ce_serializable = serializable_methods"
| "php_method_table zend_ce_throwable = throwable_interface_methods"
| "php_method_table json_serializable_ce = json_serializable_methods"
| "php_method_table _ = exception_methods"

fun method_table :: "class_ref \<Rightarrow> method_entry list" where
  "method_table (PhpClass c) = php_method_table c"
| "method_table (BsonClass Type_ce) = php_phongo_type_me"
| "method_table (BsonClass Serializable_ce) = php_phongo_serializable_me"
| "method_table (BsonClass Unserializable_ce) = php_phongo_unserializable_me"
| "method_table (BsonClass BinaryInterface_ce) = php_phongo_binary_interface_me"
| "method_table (BsonClass Decimal128Interface_ce) = php_phongo_decimal128_interface_me"
| "method_table (BsonClass JavascriptInterface_ce) = php_phongo_javascript_interface_me"
| "method_table (BsonClass MaxKeyInterface_ce) = php_phongo_maxkey_interface_me"
| "method_table (BsonClass MinKeyInterface_ce) = php_phongo_minkey_interface_me"
| "method_table (BsonClass ObjectIdInterface_ce) = php_phongo_objectid_interface_me"
| "method_table (BsonClass RegexInterface_ce) = php_phongo_regex_interface_me"
| "method_table (BsonClass TimestampInterface_ce) = php_phongo_timestamp_interface_me"
| "method_table (BsonClass UTCDateTimeInterface_ce) = php_phongo_utcdatetime_interface_me"
| "method_table (BsonClass Binary_ce) = php_phongo_binary_me"
| "method_table (BsonClass DBPointer_ce) = php_phongo_dbpointer_me"
| "method_table (BsonClass Decimal128_ce) = php_phongo_decimal128_me"
| "method_table (BsonClass Int64_ce) = php_phongo_int64_me"
| "method_table (BsonClass Javascript_ce) = php_phongo_javascript_me"
| "method_table (BsonClass MaxKey_ce) = php_phongo_maxkey_me"
| "method_table (BsonClass MinKey_ce) = php_phongo_minkey_me"
| "method_table (BsonClass ObjectId_ce) = php_phongo_objectid_me"
| "method_table (BsonClass Persistable_ce) = php_phongo_persistable_me"
| "method_table (BsonClass Regex_ce) = php_phongo_regex_me"
| "method_table (BsonClass Symbol_ce) = php_phongo_symbol_me"
| "method_table (BsonClass Timestamp_ce) = php_phongo_timestamp_me"
| "method_table (BsonClass Undefined_ce) = php_phongo_undefined_me"
| "method_table (BsonClass UTCDateTime_ce) = php_phongo_utcdatetime_me"
| "method_table (DriverClass CursorInterface_ce) = php_phongo_cursor_interface_me"
| "method_table (DriverClass BulkWrite_ce) = php_phongo_bulkwrite_me"
| "method_table (DriverClass ClientEncryption_ce) = php_phongo_clientencryption_me"
| "method_table (DriverClass Command_ce) = php_phongo_command_me"
| "method_table (DriverClass Cursor_ce) = php_phongo_cursor_me"
| "method_table (DriverClass CursorId_ce) = php_phongo_cursorid_me"
| "method_table (DriverClass Manager_ce) = php_phongo_manager_me"
| "method_table (DriverClass Query_ce) = php_phongo_query_me"
| "method_table (DriverClass ReadConcern_ce) = php_phongo_readconcern_me"
| "method_table (DriverClass ReadPreference_ce) = php_phongo_readpreference_me"
| "method_table (DriverClass Server_ce) = php_phongo_server_me"
| "method_table (DriverClass ServerApi_ce) = php_phongo_serverapi_me"
| "method_table (DriverClass Session_ce) = php_phongo_session_me"
| "method_table (DriverClass WriteConcern_ce) = php_phongo_writeconcern_me"
| "method_table (DriverClass WriteConcernError_ce) = php_phongo_writeconcernerror_me"
| "method_table (DriverClass WriteError_ce) = php_phongo_writeerror_me"
| "method_table (DriverClass WriteResult_ce) = php_phongo_writeresult_me"
| "method_table (ExceptionClass Exception_ce) = php_phongo_exception_me"
| "method_table (ExceptionClass RuntimeException_ce) = php_phongo_runtimeexception_me"
| "method_table (ExceptionClass ServerException_ce) = php_phongo_serverexception_me"
| "method_table (ExceptionClass ConnectionException_ce) = php_phongo_connectionexception_me"
| "method_table (ExceptionClass WriteException_ce) = php_phongo_writeexception_me"
| "method_table (ExceptionClass AuthenticationException_ce) = php_phongo_authenticationexception_me"
| "method_table (ExceptionClass BulkWriteException_ce) = php_phongo_bulkwriteexception_me"
| "method_table (ExceptionClass CommandException_ce) = php_phongo_commandexception_me"
| "method_table (ExceptionClass ConnectionTimeoutException_ce) = php_phongo_connectiontimeoutexception_me"
| "method_table (ExceptionClass EncryptionException_ce) = php_phongo_encryptionexception_me"
| "method_table (ExceptionClass ExecutionTimeoutException_ce) = php_phongo_executiontimeoutexception_me"
| "method_table (ExceptionClass InvalidArgumentException_ce) = php_phongo_invalidargumentexception_me"
| "method_table (ExceptionClass LogicException_ce) = php_phongo_logicexception_me"
| "method_table (ExceptionClass SSLConnectionException_ce) = php_phongo_sslconnectionexception_me"
| "method_table (ExceptionClass UnexpectedValueException_ce) = php_phongo_unexpectedvalueexception_me"
| "method_table (MonitoringClass Subscriber_ce) = php_phongo_subscriber_me"
| "method_table (MonitoringClass CommandSubscriber_ce) = php_phongo_commandsubscriber_me"
| "method_table (MonitoringClass CommandFailedEvent_ce) = php_phongo_commandfailedevent_me"
| "method_table (MonitoringClass CommandStartedEvent_ce) = php_phongo_commandstartedevent_me"
| "method_table (MonitoringClass CommandSucceededEvent_ce) = php_phongo_commandsucceededevent_me"

fun has_shape :: "class_entry \<Rightarrow> class_shape \<Rightarrow> bool" where
  "has_shape e (Shape c i f d p ifs owners) \<longleftrightarrow> ce_ref e = c \<and> ce_is_interface e = i \<and> ce_final e = f \<and> ce_not_serializable e = d
     \<and> ce_parent e = p \<and> ce_interfaces e = ifs \<and> ce_methods e = concat (map method_table owners)"

definition find_shape :: "class_ref \<Rightarrow> class_shape list \<Rightarrow> class_shape option" where
  "find_shape c S = find (\<lambda>s. sh_ref s = c) S"

fun update_shape :: "class_ref \<Rightarrow> (class_shape \<Rightarrow> class_shape) \<Rightarrow> class_shape list \<Rightarrow> class_shape list option" where
  "update_shape c f [] = None"
| "update_shape c f (s # S) = (if sh_ref s = c then Some (f s # S) else map_option (Cons s) (update_shape c f S))"

definition shape_register :: "class_shape \<Rightarrow> class_shape list \<Rightarrow> class_shape list" where
  "shape_register s S = s # filter (\<lambda>d. sh_ref d \<noteq> sh_ref s) S"

fun shape_inherit :: "class_ref \<Rightarrow> class_shape \<Rightarrow> class_shape" where
  "shape_inherit c (Shape p i f d pp ifs owners) = Shape c False False d (Some p) ifs (c # owners)"

fun shape_add :: "class_shape \<Rightarrow> class_shape \<Rightarrow> class_shape" where
  "shape_add (Shape j _ _ _ _ jfs jowners) (Shape c i f d p ifs owners) =
     Shape c i f d p (ifs @ j # filter (\<lambda>k. k \<notin> set ifs) jfs) (owners @ jowners)"

fun shape_final :: "class_shape \<Rightarrow> class_shape" where
  "shape_final (Shape c i f d p ifs owners) = Shape c i True d p ifs owners"

fun shape_deny :: "class_shape \<Rightarrow> class_shape" where
  "shape_deny (Shape c i f d p ifs owners) = Shape c i f True p ifs owners"

definition parent_shapes :: "class_shape list \<Rightarrow> class_shape \<Rightarrow> class_ref list" where
  "parent_shapes S s = (case sh_parent s of None \<Rightarrow> []
     | Some p \<Rightarrow> (case find_shape p S of None \<Rightarrow> [] | Some ps \<Rightarrow> sh_interfaces ps))"

definition shape_implement :: "class_ref \<Rightarrow> class_ref \<Rightarrow> class_shape list \<Rightarrow> class_shape list option" where
  "shape_implement c j S = (case find_shape c S of None \<Rightarrow> None
     | Some s \<Rightarrow> (case find_shape j S of None \<Rightarrow> None
        | Some sj \<Rightarrow> if j \<in> set (sh_interfaces s) then (if j \<in> set (parent_shapes S s) then Some S else None)
            else update_shape c (shape_add sj) S))"

fun shape_implements :: "class_ref \<Rightarrow> class_ref list \<Rightarrow> class_shape list \<Rightarrow> class_shape list option" where
  "shape_implements c [] S = Some S"
| "shape_implements c (j # js) S = (case shape_implement c j S of None \<Rightarrow> None | Some S1 \<Rightarrow> shape_implements c js S1)"

fun shape_call :: "class_call \<Rightarrow> class_shape list \<Rightarrow> class_shape list option" where
  "shape_call (RegisterClass c methods) S = Some (shape_register (Shape c False False False None [] [c]) S)"
| "shape_call (RegisterInterface c methods) S = Some (shape_register (Shape c True False False None [] [c]) S)"
| "shape_call (RegisterClassEx c methods p) S = (case find_shape p S of
     None \<Rightarrow> Some (shape_register (Shape c False False False None [] [c]) S)
   | Some s \<Rightarrow> if sh_final s \<or> sh_interface s then None else Some (shape_register (shape_inherit c s) S))"
| "shape_call (ClassImplements c js) S = shape_implements c js S"
| "shape_call (CeFinal c) S = update_shape c shape_final S"
| "shape_call (CeDisableSerialization c) S = update_shape c shape_deny S"
| "shape_call (SetHandlers c h) S = Some S"
| "shape_call (SetCreateObject c f) S = update_shape c (\<lambda>s. s) S"
| "shape_call (CeExplicitAbstract c) S = update_shape c (\<lambda>s. s) S"
| "shape_call (DeclareConstant c n v) S = update_shape c (\<lambda>s. s) S"
| "shape_call (DeclarePropertyNull c n acc) S = update_shape c (\<lambda>s. s) S"

fun shape_next :: "class_call \<Rightarrow> class_shape list option \<Rightarrow> class_shape list option" where
  "shape_next x None = None"
| "shape_next x (Some S) = shape_call x S"

fun shape_calls :: "class_call list \<Rightarrow> class_shape list option \<Rightarrow> class_shape list option" where
  "shape_calls [] r = r"
| "shape_calls (x # xs) r = shape_calls xs (shape_next x r)"

lemma shape_calls_None [simp]: "shape_calls xs None = None"
  by (induction xs) auto

text \<open>The calls register each class with its table.\<close>

fun call_tables :: "class_call \<Rightarrow> bool" where
  "call_tables (RegisterClass c methods) \<longleftrightarrow> methods = method_table c"
| "call_tables (RegisterInterface c methods) \<longleftrightarrow> methods = method_table c"
| "call_tables (RegisterClassEx c methods p) \<longleftrightarrow> methods = method_table c"
| "call_tables _ \<longleftrightarrow> True"

section \<open>The walk follows the engine\<close>

abbreviation shapes :: "class_entry list \<Rightarrow> class_shape list \<Rightarrow> bool" where
  "shapes cs S \<equiv> list_all2 has_shape cs S"

lemma has_shape_ref: "has_shape e s \<Longrightarrow> sh_ref s = ce_ref e"
  by (cases s) simp

lemma has_shape_simps:
  assumes "has_shape e s"
  shows "sh_interface s = ce_is_interface e" "sh_final s = ce_final e" "sh_denied s = ce_not_serializable e"
    "sh_parent s = ce_parent e" "sh_interfaces s = ce_interfaces e" "concat (map method_table (sh_owners s)) = ce_methods e"
  using assms by (cases s; simp)+

lemma shapes_find: "shapes cs S \<Longrightarrow>
    (case find_class c cs of None \<Rightarrow> find_shape c S = None | Some e \<Rightarrow> \<exists>s. find_shape c S = Some s \<and> has_shape e s)"
  by (induction rule: list_all2_induct) (auto simp: find_class_def find_shape_def has_shape_ref split: option.splits)

lemma shapes_filter: "shapes cs S \<Longrightarrow> shapes (filter (\<lambda>e. ce_ref e \<noteq> c) cs) (filter (\<lambda>s. sh_ref s \<noteq> c) S)"
  by (induction rule: list_all2_induct) (auto simp: has_shape_ref)

lemma shapes_update:
  assumes "shapes cs S" and "update_shape c g S = Some S'" and "\<And>e s. has_shape e s \<Longrightarrow> has_shape (f e) (g s)"
  shows "\<exists>cs'. update_first c f cs = Some cs' \<and> shapes cs' S'"
  using assms(1,2)
proof (induction arbitrary: S' rule: list_all2_induct)
  case (Cons e cs s S)
  then show ?case using assms(3) by (cases "ce_ref e = c") (auto simp: has_shape_ref)
qed simp

lemma shapes_register: "shapes cs S \<Longrightarrow> has_shape e s \<Longrightarrow> shapes (e # filter (\<lambda>d. ce_ref d \<noteq> ce_ref e) cs) (shape_register s S)"
  using shapes_filter[of cs S "ce_ref e"] by (simp add: shape_register_def has_shape_ref)

lemma update_class_shape:
  assumes "shapes (cm_classes M) S" and "update_shape c g S = Some S'" and "\<And>e s. has_shape e s \<Longrightarrow> has_shape (f e) (g s)"
  shows "\<exists>M'. update_class c f M = Some M' \<and> shapes (cm_classes M') S'"
  using shapes_update[OF assms(1,2), of f] assms(3) by (auto simp: update_class_def)

lemma shape_implement_ok:
  assumes S: "shapes (cm_classes M) S" and r: "shape_implement c j S = Some S'"
  shows "\<exists>M'. zend_do_implement_interface c j M = Some M' \<and> shapes (cm_classes M') S'"
proof -
  obtain s sj where f: "find_shape c S = Some s" "find_shape j S = Some sj"
    using r by (auto simp: shape_implement_def split: option.splits)
  obtain e ej where e: "find_class c (cm_classes M) = Some e" "has_shape e s" "find_class j (cm_classes M) = Some ej" "has_shape ej sj"
    using shapes_find[OF S, of c] shapes_find[OF S, of j] f by (auto split: option.splits)
  have p: "parent_shapes S s = parent_interfaces (cm_classes M) e"
  proof (cases "ce_parent e")
    case None
    then show ?thesis using has_shape_simps(4)[OF e(2)] by (simp add: parent_shapes_def parent_interfaces_def)
  next
    case (Some q)
    then show ?thesis using has_shape_simps(4)[OF e(2)] shapes_find[OF S, of q]
      by (auto simp: parent_shapes_def parent_interfaces_def has_shape_simps(5) split: option.splits)
  qed
  have add: "has_shape (add_interface ej e') (shape_add sj s')" if "has_shape e' s'" for e' s'
    using e(4) that by (cases sj; cases s') (auto simp: add_interface_def)
  show ?thesis
  proof (cases "j \<in> set (ce_interfaces e)")
    case True
    then have "S' = S \<and> j \<in> set (parent_interfaces (cm_classes M) e)"
      using r f has_shape_simps(5)[OF e(2)] by (auto simp: shape_implement_def p split: if_splits)
    then show ?thesis using True e S by (auto simp: zend_do_implement_interface_def)
  next
    case False
    then have "update_shape c (shape_add sj) S = Some S'" using r f has_shape_simps(5)[OF e(2)] by (simp add: shape_implement_def)
    from update_class_shape[OF S this add] show ?thesis using False e by (simp add: zend_do_implement_interface_def)
  qed
qed

lemma shape_implements_ok:
  "shapes (cm_classes M) S \<Longrightarrow> shape_implements c js S = Some S' \<Longrightarrow>
     \<exists>M'. class_steps (map (zend_do_implement_interface c) js) M = Some M' \<and> shapes (cm_classes M') S'"
proof (induction js arbitrary: M S)
  case (Cons j js)
  then obtain S1 where S1: "shape_implement c j S = Some S1" "shape_implements c js S1 = Some S'" by (auto split: option.splits)
  then obtain M1 where "zend_do_implement_interface c j M = Some M1" "shapes (cm_classes M1) S1" using shape_implement_ok Cons.prems(1) by blast
  then show ?case using Cons.IH S1(2) by simp
qed simp

lemma new_class_shape: "has_shape (new_class c (method_table c)) (Shape c False False False None [] [c])"
  by (simp add: new_class_def)

lemma shape_call_ok:
  assumes S: "shapes (cm_classes M) S" and r: "shape_call x S = Some S'" and t: "call_tables x"
  shows "\<exists>M'. call_engine x M = Some M' \<and> shapes (cm_classes M') S'"
proof (cases x)
  case (RegisterClass c me)
  then show ?thesis using shapes_register[OF S new_class_shape[of c]] r t
    by (auto simp: zend_register_internal_class_def register_entry_def)
next
  case (RegisterInterface c me)
  have "has_shape ((new_class c (method_table c))\<lparr>ce_is_interface := True\<rparr>) (Shape c True False False None [] [c])" by (simp add: new_class_def)
  from shapes_register[OF S this] show ?thesis using RegisterInterface r t
    by (auto simp: zend_register_internal_interface_def register_entry_def)
next
  case (RegisterClassEx c me p)
  show ?thesis
  proof (cases "find_shape p S")
    case None
    then have "find_class p (cm_classes M) = None" using shapes_find[OF S, of p] by (auto split: option.splits)
    then show ?thesis using RegisterClassEx None shapes_register[OF S new_class_shape[of c]] r t
      by (auto simp: zend_register_internal_class_ex_def register_entry_def)
  next
    case (Some s)
    then obtain e where e: "find_class p (cm_classes M) = Some e" "has_shape e s" using shapes_find[OF S, of p] by (auto split: option.splits)
    have i: "has_shape (zend_do_inheritance (new_class c (method_table c)) e) (shape_inherit c s)"
      using e(2) by (cases s) (auto simp: zend_do_inheritance_def new_class_def)
    have "\<not> (ce_final e \<or> ce_is_interface e)" "S' = shape_register (shape_inherit c s) S"
      using r RegisterClassEx Some has_shape_simps(1,2)[OF e(2)] by (auto split: if_splits)
    then show ?thesis using RegisterClassEx e t shapes_register[OF S i]
      by (auto simp: zend_register_internal_class_ex_def register_entry_def)
  qed
next
  case (ClassImplements c js)
  then show ?thesis using shape_implements_ok[OF S] r by (simp add: zend_class_implements_def)
next
  case (SetCreateObject c f)
  then show ?thesis using r by (auto simp: set_create_object_def elim!: has_shape.elims intro!: update_class_shape[OF S])
next
  case (CeFinal c)
  then show ?thesis using r by (auto simp: PHONGO_CE_FINAL_def elim!: has_shape.elims intro!: update_class_shape[OF S])
next
  case (CeExplicitAbstract c)
  then show ?thesis using r by (auto simp: set_explicit_abstract_def elim!: has_shape.elims intro!: update_class_shape[OF S])
next
  case (CeDisableSerialization c)
  then show ?thesis using r by (auto simp: PHONGO_CE_DISABLE_SERIALIZATION_def elim!: has_shape.elims intro!: update_class_shape[OF S])
next
  case (DeclareConstant c n v)
  then show ?thesis using r by (auto simp: zend_declare_class_constant_def elim!: has_shape.elims intro!: update_class_shape[OF S])
next
  case (DeclarePropertyNull c n acc)
  then show ?thesis using r by (auto simp: zend_declare_property_null_def elim!: has_shape.elims intro!: update_class_shape[OF S])
next
  case (SetHandlers c h)
  then show ?thesis using r S by (auto simp: set_handlers_def)
qed

lemma shape_calls_ok:
  "shapes (cm_classes M) S \<Longrightarrow> shape_calls xs (Some S) = Some S' \<Longrightarrow> list_all call_tables xs \<Longrightarrow>
     \<exists>M'. run_calls xs M = Some M' \<and> shapes (cm_classes M') S'"
proof (induction xs arbitrary: M S)
  case (Cons x xs)
  then obtain S1 where S1: "shape_call x S = Some S1" "shape_calls xs (Some S1) = Some S'" by (cases "shape_call x S") auto
  then obtain M1 where "call_engine x M = Some M1" "shapes (cm_classes M1) S1" using shape_call_ok Cons.prems by force
  then show ?case using Cons.IH[of M1 S1] S1(2) Cons.prems(3) by (simp add: run_calls_def)
qed (simp add: run_calls_def)

section \<open>What a table of classes promises\<close>

text \<open>
  Each class is once in the table, and its parent and interfaces are registered before it (the
  table has the last registered first).
\<close>

fun table_ok :: "class_entry list \<Rightarrow> bool" where
  "table_ok [] \<longleftrightarrow> True"
| "table_ok (e # cs) \<longleftrightarrow> find_class (ce_ref e) cs = None
     \<and> (case ce_parent e of None \<Rightarrow> True | Some p \<Rightarrow> find_class p cs \<noteq> None)
     \<and> distinct (ce_interfaces e) \<and> (\<forall>i \<in> set (ce_interfaces e). find_class i cs \<noteq> None) \<and> table_ok cs"

definition find_method :: "method_entry list \<Rightarrow> string \<Rightarrow> method_entry option" where
  "find_method ms n = find (\<lambda>m. fe_name m = n) ms"

text \<open>A method may be called wherever the one of the interface may.\<close>

definition signature_fits :: "method_entry \<Rightarrow> method_entry \<Rightarrow> bool" where
  "signature_fits m im \<longleftrightarrow> ai_required (fe_info m) \<le> ai_required (fe_info im)
     \<and> length (ai_args (fe_info im)) \<le> length (ai_args (fe_info m))"

text \<open>
  A class has, for each method of an interface, a public method of the name that fits and that is
  implemented, unless it is an interface itself.
\<close>

definition implements_methods :: "bool \<Rightarrow> method_entry list \<Rightarrow> method_entry list \<Rightarrow> bool" where
  "implements_methods abstract ms ims \<longleftrightarrow> (\<forall>im \<in> set ims. case find_method ms (fe_name im) of None \<Rightarrow> False
     | Some m \<Rightarrow> signature_fits m im \<and> (abstract \<or> (fe_handler m \<noteq> None \<and> ACC_PUBLIC \<in> set (fe_flags m))))"

definition implements_all :: "class_entry list \<Rightarrow> class_entry \<Rightarrow> bool" where
  "implements_all cs e \<longleftrightarrow> (\<forall>i \<in> set (ce_interfaces e). case find_class i cs of None \<Rightarrow> False
     | Some ie \<Rightarrow> ce_is_interface ie \<and> implements_methods (ce_is_interface e) (ce_methods e) (ce_methods ie))"

text \<open>The parents of a class, up to a number of steps.\<close>

fun ancestors :: "nat \<Rightarrow> class_entry list \<Rightarrow> class_ref \<Rightarrow> class_ref list" where
  "ancestors 0 cs c = [c]"
| "ancestors (Suc n) cs c = c # (case find_class c cs of None \<Rightarrow> []
     | Some e \<Rightarrow> (case ce_parent e of None \<Rightarrow> [] | Some p \<Rightarrow> ancestors n cs p))"

text \<open>The same of the shapes.\<close>

fun shape_table_ok :: "class_shape list \<Rightarrow> bool" where
  "shape_table_ok [] \<longleftrightarrow> True"
| "shape_table_ok (s # S) \<longleftrightarrow> find_shape (sh_ref s) S = None
     \<and> (case sh_parent s of None \<Rightarrow> True | Some p \<Rightarrow> find_shape p S \<noteq> None)
     \<and> distinct (sh_interfaces s) \<and> (\<forall>i \<in> set (sh_interfaces s). find_shape i S \<noteq> None) \<and> shape_table_ok S"

definition shape_methods :: "class_shape \<Rightarrow> method_entry list" where
  "shape_methods s = concat (map method_table (sh_owners s))"

definition shape_implements_all :: "class_shape list \<Rightarrow> class_shape \<Rightarrow> bool" where
  "shape_implements_all S s \<longleftrightarrow> (\<forall>i \<in> set (sh_interfaces s). case find_shape i S of None \<Rightarrow> False
     | Some si \<Rightarrow> sh_interface si \<and> implements_methods (sh_interface s) (shape_methods s) (shape_methods si))"

fun shape_ancestors :: "nat \<Rightarrow> class_shape list \<Rightarrow> class_ref \<Rightarrow> class_ref list" where
  "shape_ancestors 0 S c = [c]"
| "shape_ancestors (Suc n) S c = c # (case find_shape c S of None \<Rightarrow> []
     | Some s \<Rightarrow> (case sh_parent s of None \<Rightarrow> [] | Some p \<Rightarrow> shape_ancestors n S p))"

lemma shapes_find_None: "shapes cs S \<Longrightarrow> find_class c cs = None \<longleftrightarrow> find_shape c S = None"
  using shapes_find[of cs S c] by (cases "find_class c cs") auto

lemma shapes_table_ok: "shapes cs S \<Longrightarrow> table_ok cs = shape_table_ok S"
proof (induction rule: list_all2_induct)
  case (Cons e cs s S)
  then show ?case using has_shape_simps(4,5)[OF Cons(1)]
    by (cases "ce_parent e") (simp_all add: shapes_find_None[OF Cons(2)] has_shape_ref[OF Cons(1)])
qed simp

lemma shapes_implements_all:
  assumes S: "shapes cs S" and e: "has_shape e s"
  shows "implements_all cs e = shape_implements_all S s"
proof -
  have "(case find_class i cs of None \<Rightarrow> False
      | Some ie \<Rightarrow> ce_is_interface ie \<and> implements_methods (ce_is_interface e) (ce_methods e) (ce_methods ie))
    = (case find_shape i S of None \<Rightarrow> False
      | Some si \<Rightarrow> sh_interface si \<and> implements_methods (sh_interface s) (shape_methods s) (shape_methods si))" for i
    using shapes_find[OF S, of i] has_shape_simps[OF e]
    by (auto simp: shape_methods_def dest: has_shape_simps(1,6) split: option.splits)
  then show ?thesis by (simp add: implements_all_def shape_implements_all_def has_shape_simps(5)[OF e])
qed

lemma shapes_ancestors: "shapes cs S \<Longrightarrow> ancestors n cs c = shape_ancestors n S c"
proof (induction n arbitrary: c)
  case (Suc n)
  then show ?case using shapes_find[OF Suc.prems, of c]
    by (auto dest: has_shape_simps(4) split: option.splits)
qed simp

lemma shapes_all:
  assumes "shapes cs S" and "list_all P S" and "\<And>e s. has_shape e s \<Longrightarrow> P s \<Longrightarrow> Q e"
  shows "list_all Q cs"
  using assms(1,2) by (induction rule: list_all2_induct) (auto intro: assms(3))

end
