(* ===== verification/Driver_Module_Props.thy ===== *)
theory Driver_Module_Props
  imports Class_Shapes
begin

text \<open>
  What the module registers when it starts: the classes with their parents and interfaces, that
  each interface is implemented, which classes are serialised, and the hierarchy of exceptions.
\<close>

section \<open>The hierarchy of classes\<close>

text \<open>The shapes of the engine's classes, and of all classes when the module has started, newest first.\<close>

definition php_shapes :: "class_shape list" where
  "php_shapes =
    [Shape (PhpClass json_serializable_ce) True False False None []
       [PhpClass json_serializable_ce],
     Shape (PhpClass spl_ce_UnexpectedValueException) False False False (Some (PhpClass spl_ce_RuntimeException)) [PhpClass zend_ce_throwable]
       [PhpClass spl_ce_UnexpectedValueException],
     Shape (PhpClass spl_ce_RuntimeException) False False False (Some (PhpClass zend_ce_exception)) [PhpClass zend_ce_throwable]
       [PhpClass spl_ce_RuntimeException],
     Shape (PhpClass spl_ce_InvalidArgumentException) False False False (Some (PhpClass spl_ce_LogicException)) [PhpClass zend_ce_throwable]
       [PhpClass spl_ce_InvalidArgumentException],
     Shape (PhpClass spl_ce_LogicException) False False False (Some (PhpClass zend_ce_exception)) [PhpClass zend_ce_throwable]
       [PhpClass spl_ce_LogicException],
     Shape (PhpClass zend_ce_exception) False False False None [PhpClass zend_ce_throwable]
       [PhpClass zend_ce_exception],
     Shape (PhpClass zend_ce_throwable) True False False None []
       [PhpClass zend_ce_throwable],
     Shape (PhpClass zend_ce_serializable) True False False None []
       [PhpClass zend_ce_serializable],
     Shape (PhpClass zend_ce_countable) True False False None []
       [PhpClass zend_ce_countable],
     Shape (PhpClass zend_ce_iterator) True False False None [PhpClass zend_ce_traversable]
       [PhpClass zend_ce_iterator],
     Shape (PhpClass zend_ce_traversable) True False False None []
       [PhpClass zend_ce_traversable]]"

definition module_shapes :: "class_shape list" where
  "module_shapes =
    [Shape php_phongo_commandsucceededevent_ce False True True None []
       [php_phongo_commandsucceededevent_ce],
     Shape php_phongo_commandstartedevent_ce False True True None []
       [php_phongo_commandstartedevent_ce],
     Shape php_phongo_commandfailedevent_ce False True True None []
       [php_phongo_commandfailedevent_ce],
     Shape php_phongo_commandsubscriber_ce True False False None [php_phongo_subscriber_ce]
       [php_phongo_commandsubscriber_ce, php_phongo_subscriber_ce],
     Shape php_phongo_subscriber_ce True False False None []
       [php_phongo_subscriber_ce],
     Shape php_phongo_unexpectedvalueexception_ce False False False (Some (PhpClass spl_ce_UnexpectedValueException)) [PhpClass zend_ce_throwable, php_phongo_exception_ce]
       [php_phongo_unexpectedvalueexception_ce, PhpClass spl_ce_UnexpectedValueException, php_phongo_exception_ce, PhpClass zend_ce_throwable],
     Shape php_phongo_sslconnectionexception_ce False True False (Some php_phongo_connectionexception_ce) [PhpClass zend_ce_throwable, php_phongo_exception_ce]
       [php_phongo_sslconnectionexception_ce, php_phongo_connectionexception_ce, php_phongo_runtimeexception_ce, PhpClass spl_ce_RuntimeException, php_phongo_exception_ce, PhpClass zend_ce_throwable],
     Shape php_phongo_logicexception_ce False False False (Some (PhpClass spl_ce_LogicException)) [PhpClass zend_ce_throwable, php_phongo_exception_ce]
       [php_phongo_logicexception_ce, PhpClass spl_ce_LogicException, php_phongo_exception_ce, PhpClass zend_ce_throwable],
     Shape php_phongo_invalidargumentexception_ce False False False (Some (PhpClass spl_ce_InvalidArgumentException)) [PhpClass zend_ce_throwable, php_phongo_exception_ce]
       [php_phongo_invalidargumentexception_ce, PhpClass spl_ce_InvalidArgumentException, php_phongo_exception_ce, PhpClass zend_ce_throwable],
     Shape php_phongo_executiontimeoutexception_ce False True False (Some php_phongo_serverexception_ce) [PhpClass zend_ce_throwable, php_phongo_exception_ce]
       [php_phongo_executiontimeoutexception_ce, php_phongo_serverexception_ce, php_phongo_runtimeexception_ce, PhpClass spl_ce_RuntimeException, php_phongo_exception_ce, PhpClass zend_ce_throwable],
     Shape php_phongo_encryptionexception_ce False False False (Some php_phongo_runtimeexception_ce) [PhpClass zend_ce_throwable, php_phongo_exception_ce]
       [php_phongo_encryptionexception_ce, php_phongo_runtimeexception_ce, PhpClass spl_ce_RuntimeException, php_phongo_exception_ce, PhpClass zend_ce_throwable],
     Shape php_phongo_connectiontimeoutexception_ce False True False (Some php_phongo_connectionexception_ce) [PhpClass zend_ce_throwable, php_phongo_exception_ce]
       [php_phongo_connectiontimeoutexception_ce, php_phongo_connectionexception_ce, php_phongo_runtimeexception_ce, PhpClass spl_ce_RuntimeException, php_phongo_exception_ce, PhpClass zend_ce_throwable],
     Shape php_phongo_commandexception_ce False False False (Some php_phongo_serverexception_ce) [PhpClass zend_ce_throwable, php_phongo_exception_ce]
       [php_phongo_commandexception_ce, php_phongo_serverexception_ce, php_phongo_runtimeexception_ce, PhpClass spl_ce_RuntimeException, php_phongo_exception_ce, PhpClass zend_ce_throwable],
     Shape php_phongo_bulkwriteexception_ce False False False (Some php_phongo_writeexception_ce) [PhpClass zend_ce_throwable, php_phongo_exception_ce]
       [php_phongo_bulkwriteexception_ce, php_phongo_writeexception_ce, php_phongo_serverexception_ce, php_phongo_runtimeexception_ce, PhpClass spl_ce_RuntimeException, php_phongo_exception_ce, PhpClass zend_ce_throwable],
     Shape php_phongo_authenticationexception_ce False False False (Some php_phongo_connectionexception_ce) [PhpClass zend_ce_throwable, php_phongo_exception_ce]
       [php_phongo_authenticationexception_ce, php_phongo_connectionexception_ce, php_phongo_runtimeexception_ce, PhpClass spl_ce_RuntimeException, php_phongo_exception_ce, PhpClass zend_ce_throwable],
     Shape php_phongo_writeexception_ce False False False (Some php_phongo_serverexception_ce) [PhpClass zend_ce_throwable, php_phongo_exception_ce]
       [php_phongo_writeexception_ce, php_phongo_serverexception_ce, php_phongo_runtimeexception_ce, PhpClass spl_ce_RuntimeException, php_phongo_exception_ce, PhpClass zend_ce_throwable],
     Shape php_phongo_connectionexception_ce False False False (Some php_phongo_runtimeexception_ce) [PhpClass zend_ce_throwable, php_phongo_exception_ce]
       [php_phongo_connectionexception_ce, php_phongo_runtimeexception_ce, PhpClass spl_ce_RuntimeException, php_phongo_exception_ce, PhpClass zend_ce_throwable],
     Shape php_phongo_serverexception_ce False False False (Some php_phongo_runtimeexception_ce) [PhpClass zend_ce_throwable, php_phongo_exception_ce]
       [php_phongo_serverexception_ce, php_phongo_runtimeexception_ce, PhpClass spl_ce_RuntimeException, php_phongo_exception_ce, PhpClass zend_ce_throwable],
     Shape php_phongo_runtimeexception_ce False False False (Some (PhpClass spl_ce_RuntimeException)) [PhpClass zend_ce_throwable, php_phongo_exception_ce]
       [php_phongo_runtimeexception_ce, PhpClass spl_ce_RuntimeException, php_phongo_exception_ce, PhpClass zend_ce_throwable],
     Shape php_phongo_exception_ce True False False None [PhpClass zend_ce_throwable]
       [php_phongo_exception_ce, PhpClass zend_ce_throwable],
     Shape php_phongo_writeresult_ce False True True None []
       [php_phongo_writeresult_ce],
     Shape php_phongo_writeerror_ce False True True None []
       [php_phongo_writeerror_ce],
     Shape php_phongo_writeconcernerror_ce False True True None []
       [php_phongo_writeconcernerror_ce],
     Shape php_phongo_writeconcern_ce False True False None [php_phongo_serializable_ce, php_phongo_type_ce, PhpClass zend_ce_serializable]
       [php_phongo_writeconcern_ce, php_phongo_serializable_ce, php_phongo_type_ce, PhpClass zend_ce_serializable],
     Shape php_phongo_session_ce False True True None []
       [php_phongo_session_ce],
     Shape php_phongo_serverapi_ce False True False None [php_phongo_serializable_ce, php_phongo_type_ce, PhpClass zend_ce_serializable]
       [php_phongo_serverapi_ce, php_phongo_serializable_ce, php_phongo_type_ce, PhpClass zend_ce_serializable],
     Shape php_phongo_server_ce False True True None []
       [php_phongo_server_ce],
     Shape php_phongo_readpreference_ce False True False None [php_phongo_serializable_ce, php_phongo_type_ce, PhpClass zend_ce_serializable]
       [php_phongo_readpreference_ce, php_phongo_serializable_ce, php_phongo_type_ce, PhpClass zend_ce_serializable],
     Shape php_phongo_readconcern_ce False True False None [php_phongo_serializable_ce, php_phongo_type_ce, PhpClass zend_ce_serializable]
       [php_phongo_readconcern_ce, php_phongo_serializable_ce, php_phongo_type_ce, PhpClass zend_ce_serializable],
     Shape php_phongo_query_ce False True True None []
       [php_phongo_query_ce],
     Shape php_phongo_manager_ce False True True None []
       [php_phongo_manager_ce],
     Shape php_phongo_cursorid_ce False True False None [PhpClass zend_ce_serializable]
       [php_phongo_cursorid_ce, PhpClass zend_ce_serializable],
     Shape php_phongo_cursor_ce False True True None [PhpClass zend_ce_iterator, PhpClass zend_ce_traversable, php_phongo_cursor_interface_ce]
       [php_phongo_cursor_ce, PhpClass zend_ce_iterator, php_phongo_cursor_interface_ce, PhpClass zend_ce_traversable],
     Shape php_phongo_command_ce False True True None []
       [php_phongo_command_ce],
     Shape php_phongo_clientencryption_ce False True True None []
       [php_phongo_clientencryption_ce],
     Shape php_phongo_bulkwrite_ce False True True None [PhpClass zend_ce_countable]
       [php_phongo_bulkwrite_ce, PhpClass zend_ce_countable],
     Shape php_phongo_cursor_interface_ce True False False None [PhpClass zend_ce_traversable]
       [php_phongo_cursor_interface_ce, PhpClass zend_ce_traversable],
     Shape php_phongo_utcdatetime_ce False True False None [php_phongo_utcdatetime_interface_ce, PhpClass json_serializable_ce, php_phongo_type_ce, PhpClass zend_ce_serializable]
       [php_phongo_utcdatetime_ce, php_phongo_utcdatetime_interface_ce, PhpClass json_serializable_ce, php_phongo_type_ce, PhpClass zend_ce_serializable],
     Shape php_phongo_undefined_ce False True False None [PhpClass json_serializable_ce, php_phongo_type_ce, PhpClass zend_ce_serializable]
       [php_phongo_undefined_ce, PhpClass json_serializable_ce, php_phongo_type_ce, PhpClass zend_ce_serializable],
     Shape php_phongo_timestamp_ce False True False None [php_phongo_timestamp_interface_ce, PhpClass json_serializable_ce, php_phongo_type_ce, PhpClass zend_ce_serializable]
       [php_phongo_timestamp_ce, php_phongo_timestamp_interface_ce, PhpClass json_serializable_ce, php_phongo_type_ce, PhpClass zend_ce_serializable],
     Shape php_phongo_symbol_ce False True False None [PhpClass json_serializable_ce, php_phongo_type_ce, PhpClass zend_ce_serializable]
       [php_phongo_symbol_ce, PhpClass json_serializable_ce, php_phongo_type_ce, PhpClass zend_ce_serializable],
     Shape php_phongo_regex_ce False True False None [php_phongo_regex_interface_ce, php_phongo_type_ce, PhpClass zend_ce_serializable, PhpClass json_serializable_ce]
       [php_phongo_regex_ce, php_phongo_regex_interface_ce, php_phongo_type_ce, PhpClass zend_ce_serializable, PhpClass json_serializable_ce],
     Shape php_phongo_persistable_ce True False False None [php_phongo_unserializable_ce, php_phongo_serializable_ce, php_phongo_type_ce]
       [php_phongo_persistable_ce, php_phongo_unserializable_ce, php_phongo_serializable_ce, php_phongo_type_ce],
     Shape php_phongo_objectid_ce False True False None [php_phongo_objectid_interface_ce, PhpClass json_serializable_ce, php_phongo_type_ce, PhpClass zend_ce_serializable]
       [php_phongo_objectid_ce, php_phongo_objectid_interface_ce, PhpClass json_serializable_ce, php_phongo_type_ce, PhpClass zend_ce_serializable],
     Shape php_phongo_minkey_ce False True False None [php_phongo_minkey_interface_ce, PhpClass json_serializable_ce, php_phongo_type_ce, PhpClass zend_ce_serializable]
       [php_phongo_minkey_ce, php_phongo_minkey_interface_ce, PhpClass json_serializable_ce, php_phongo_type_ce, PhpClass zend_ce_serializable],
     Shape php_phongo_maxkey_ce False True False None [php_phongo_maxkey_interface_ce, PhpClass json_serializable_ce, php_phongo_type_ce, PhpClass zend_ce_serializable]
       [php_phongo_maxkey_ce, php_phongo_maxkey_interface_ce, PhpClass json_serializable_ce, php_phongo_type_ce, PhpClass zend_ce_serializable],
     Shape php_phongo_javascript_ce False True False None [php_phongo_javascript_interface_ce, PhpClass json_serializable_ce, php_phongo_type_ce, PhpClass zend_ce_serializable]
       [php_phongo_javascript_ce, php_phongo_javascript_interface_ce, PhpClass json_serializable_ce, php_phongo_type_ce, PhpClass zend_ce_serializable],
     Shape php_phongo_int64_ce False True False None [PhpClass json_serializable_ce, php_phongo_type_ce, PhpClass zend_ce_serializable]
       [php_phongo_int64_ce, PhpClass json_serializable_ce, php_phongo_type_ce, PhpClass zend_ce_serializable],
     Shape php_phongo_decimal128_ce False True False None [php_phongo_decimal128_interface_ce, PhpClass json_serializable_ce, php_phongo_type_ce, PhpClass zend_ce_serializable]
       [php_phongo_decimal128_ce, php_phongo_decimal128_interface_ce, PhpClass json_serializable_ce, php_phongo_type_ce, PhpClass zend_ce_serializable],
     Shape php_phongo_dbpointer_ce False True False None [PhpClass json_serializable_ce, php_phongo_type_ce, PhpClass zend_ce_serializable]
       [php_phongo_dbpointer_ce, PhpClass json_serializable_ce, php_phongo_type_ce, PhpClass zend_ce_serializable],
     Shape php_phongo_binary_ce False True False None [php_phongo_binary_interface_ce, PhpClass json_serializable_ce, php_phongo_type_ce, PhpClass zend_ce_serializable]
       [php_phongo_binary_ce, php_phongo_binary_interface_ce, PhpClass json_serializable_ce, php_phongo_type_ce, PhpClass zend_ce_serializable],
     Shape php_phongo_utcdatetime_interface_ce True False False None []
       [php_phongo_utcdatetime_interface_ce],
     Shape php_phongo_timestamp_interface_ce True False False None []
       [php_phongo_timestamp_interface_ce],
     Shape php_phongo_regex_interface_ce True False False None []
       [php_phongo_regex_interface_ce],
     Shape php_phongo_objectid_interface_ce True False False None []
       [php_phongo_objectid_interface_ce],
     Shape php_phongo_minkey_interface_ce True False False None []
       [php_phongo_minkey_interface_ce],
     Shape php_phongo_maxkey_interface_ce True False False None []
       [php_phongo_maxkey_interface_ce],
     Shape php_phongo_javascript_interface_ce True False False None []
       [php_phongo_javascript_interface_ce],
     Shape php_phongo_decimal128_interface_ce True False False None []
       [php_phongo_decimal128_interface_ce],
     Shape php_phongo_binary_interface_ce True False False None []
       [php_phongo_binary_interface_ce],
     Shape php_phongo_unserializable_ce True False False None []
       [php_phongo_unserializable_ce],
     Shape php_phongo_serializable_ce True False False None [php_phongo_type_ce]
       [php_phongo_serializable_ce, php_phongo_type_ce],
     Shape php_phongo_type_ce True False False None []
       [php_phongo_type_ce]]
     @ php_shapes"

lemma php_classes_shapes: "shapes php_classes php_shapes"
  by (simp add: php_classes_def php_shapes_def php_interface_def php_exception_def new_class_def)

lemma initialisers_shapes: "shape_calls class_initialisers (Some php_shapes) = Some module_shapes"
  by code_simp

lemma initialisers_tables: "list_all call_tables class_initialisers"
  by (simp add: class_initialisers_def php_phongo_type_init_ce_def php_phongo_serializable_init_ce_def php_phongo_unserializable_init_ce_def php_phongo_binary_interface_init_ce_def php_phongo_decimal128_interface_init_ce_def php_phongo_javascript_interface_init_ce_def php_phongo_maxkey_interface_init_ce_def php_phongo_minkey_interface_init_ce_def php_phongo_objectid_interface_init_ce_def php_phongo_regex_interface_init_ce_def php_phongo_timestamp_interface_init_ce_def php_phongo_utcdatetime_interface_init_ce_def php_phongo_binary_init_ce_def php_phongo_dbpointer_init_ce_def php_phongo_decimal128_init_ce_def php_phongo_int64_init_ce_def php_phongo_javascript_init_ce_def php_phongo_maxkey_init_ce_def php_phongo_minkey_init_ce_def php_phongo_objectid_init_ce_def php_phongo_persistable_init_ce_def php_phongo_regex_init_ce_def php_phongo_symbol_init_ce_def php_phongo_timestamp_init_ce_def php_phongo_undefined_init_ce_def php_phongo_utcdatetime_init_ce_def php_phongo_cursor_interface_init_ce_def php_phongo_bulkwrite_init_ce_def php_phongo_clientencryption_init_ce_def php_phongo_command_init_ce_def php_phongo_cursor_init_ce_def php_phongo_cursorid_init_ce_def php_phongo_manager_init_ce_def php_phongo_query_init_ce_def php_phongo_readconcern_init_ce_def php_phongo_readpreference_init_ce_def php_phongo_server_init_ce_def php_phongo_serverapi_init_ce_def php_phongo_session_init_ce_def php_phongo_writeconcern_init_ce_def php_phongo_writeconcernerror_init_ce_def php_phongo_writeerror_init_ce_def php_phongo_writeresult_init_ce_def php_phongo_exception_init_ce_def php_phongo_runtimeexception_init_ce_def php_phongo_serverexception_init_ce_def php_phongo_connectionexception_init_ce_def php_phongo_writeexception_init_ce_def php_phongo_authenticationexception_init_ce_def php_phongo_bulkwriteexception_init_ce_def php_phongo_commandexception_init_ce_def php_phongo_connectiontimeoutexception_init_ce_def php_phongo_encryptionexception_init_ce_def php_phongo_executiontimeoutexception_init_ce_def php_phongo_invalidargumentexception_init_ce_def php_phongo_logicexception_init_ce_def php_phongo_sslconnectionexception_init_ce_def php_phongo_unexpectedvalueexception_init_ce_def php_phongo_subscriber_init_ce_def php_phongo_commandsubscriber_init_ce_def php_phongo_commandfailedevent_init_ce_def php_phongo_commandstartedevent_init_ce_def php_phongo_commandsucceededevent_init_ce_def)

lemma module_started:
  "\<exists>M. run_calls class_initialisers \<lparr>cm_classes = php_classes, cm_handlers = []\<rparr> = Some M \<and> shapes (cm_classes M) module_shapes"
  by (rule shape_calls_ok[OF _ initialisers_shapes initialisers_tables]) (simp add: php_classes_shapes)

section \<open>What holds of the shapes\<close>

lemma module_table_ok: "shape_table_ok module_shapes"
  by code_simp

lemma module_implements_all: "list_all (shape_implements_all module_shapes) module_shapes"
  by code_simp

text \<open>
  Serialisation: a class of the driver that is neither an interface nor an exception implements
  \<^verbatim>\<open>Serializable\<close> and the methods of PHP 7.4, or it denies serialisation and its \<^verbatim>\<open>__wakeup\<close> is the
  disabled one.
\<close>

fun plain_class :: "class_ref \<Rightarrow> bool" where
  "plain_class (BsonClass _) = True"
| "plain_class (DriverClass _) = True"
| "plain_class (MonitoringClass _) = True"
| "plain_class _ = False"

definition serialization_ok :: "class_entry \<Rightarrow> bool" where
  "serialization_ok e \<longleftrightarrow> (if \<not> plain_class (ce_ref e) \<or> ce_is_interface e then True
     else if ce_not_serializable e
     then PhpClass zend_ce_serializable \<notin> set (ce_interfaces e)
        \<and> map_option fe_handler (find_method (ce_methods e) ''__wakeup'') = Some (Some ('''', ''MongoDB_disabled___wakeup''))
     else PhpClass zend_ce_serializable \<in> set (ce_interfaces e) \<and> find_method (ce_methods e) ''__wakeup'' = None
        \<and> find_method (ce_methods e) ''__serialize'' \<noteq> None \<and> find_method (ce_methods e) ''__unserialize'' \<noteq> None)"

definition shape_serialization_ok :: "class_shape \<Rightarrow> bool" where
  "shape_serialization_ok s \<longleftrightarrow> (if \<not> plain_class (sh_ref s) \<or> sh_interface s then True
     else if sh_denied s
     then PhpClass zend_ce_serializable \<notin> set (sh_interfaces s)
        \<and> map_option fe_handler (find_method (shape_methods s) ''__wakeup'') = Some (Some ('''', ''MongoDB_disabled___wakeup''))
     else PhpClass zend_ce_serializable \<in> set (sh_interfaces s) \<and> find_method (shape_methods s) ''__wakeup'' = None
        \<and> find_method (shape_methods s) ''__serialize'' \<noteq> None \<and> find_method (shape_methods s) ''__unserialize'' \<noteq> None)"

lemma shape_serialization: "has_shape e s \<Longrightarrow> serialization_ok e = shape_serialization_ok s"
  by (simp add: serialization_ok_def shape_serialization_ok_def shape_methods_def has_shape_simps has_shape_ref)

lemma module_serialization: "list_all shape_serialization_ok module_shapes"
  by code_simp

section \<open>Exceptions\<close>

text \<open>The class of each exception, and its parents.\<close>

fun exn_ref :: "exn_class \<Rightarrow> class_ref" where
  "exn_ref AuthenticationException = php_phongo_authenticationexception_ce"
| "exn_ref BulkWriteException = php_phongo_bulkwriteexception_ce"
| "exn_ref CommandException = php_phongo_commandexception_ce"
| "exn_ref ConnectionException = php_phongo_connectionexception_ce"
| "exn_ref ConnectionTimeoutException = php_phongo_connectiontimeoutexception_ce"
| "exn_ref EncryptionException = php_phongo_encryptionexception_ce"
| "exn_ref ExecutionTimeoutException = php_phongo_executiontimeoutexception_ce"
| "exn_ref InvalidArgumentException = php_phongo_invalidargumentexception_ce"
| "exn_ref LogicException = php_phongo_logicexception_ce"
| "exn_ref RuntimeException = php_phongo_runtimeexception_ce"
| "exn_ref SSLConnectionException = php_phongo_sslconnectionexception_ce"
| "exn_ref ServerException = php_phongo_serverexception_ce"
| "exn_ref UnexpectedValueException = php_phongo_unexpectedvalueexception_ce"
| "exn_ref WriteException = php_phongo_writeexception_ce"

fun driver_exception :: "class_ref \<Rightarrow> bool" where
  "driver_exception (ExceptionClass _) = True"
| "driver_exception _ = False"

lemma exn_ref_inj: "exn_ref c = exn_ref d \<longleftrightarrow> c = d"
  by (cases c; cases d) simp_all

lemma exn_ref_name: "class_full_name (exn_ref c) = exn_class_name c" and exn_ref_driver: "driver_exception (exn_ref c)"
  by (cases c; simp add: exn_class_name_def)+

fun exn_chain :: "nat \<Rightarrow> exn_class \<Rightarrow> exn_class list" where
  "exn_chain 0 c = [c]"
| "exn_chain (Suc n) c = c # (case exn_parent c of None \<Rightarrow> [] | Some d \<Rightarrow> exn_chain n d)"

lemma exn_chain_sound: "d \<in> set (exn_chain n c) \<Longrightarrow> exn_instanceof c d"
proof (induction n arbitrary: c)
  case (Suc n)
  then show ?case by (cases "exn_parent c") (auto intro: exn_self exn_up)
qed (auto intro: exn_self)

lemma exn_chain_complete: "exn_instanceof c d \<Longrightarrow> d \<in> set (exn_chain 4 c)"
proof (induction rule: exn_instanceof.induct)
  case (exn_self c)
  then show ?case by (simp add: numeral_eq_Suc)
next
  case (exn_up c d e)
  then have "set (exn_chain 4 d) \<subseteq> set (exn_chain 4 c)" by (cases c) (auto simp: numeral_eq_Suc)
  then show ?case using exn_up.IH by blast
qed

text \<open>The ancestors of an exception, less those of PHP, are those of the hierarchy.\<close>

lemma shape_ancestors_exn:
  "filter driver_exception (shape_ancestors 6 module_shapes (exn_ref c)) = map exn_ref (exn_chain 4 c)"
  by (cases c; (simp only: exn_ref.simps; code_simp)?)

lemma shape_instanceof_exn: "exn_ref d \<in> set (shape_ancestors 6 module_shapes (exn_ref c)) \<longleftrightarrow> exn_instanceof c d"
proof -
  have "exn_ref d \<in> set (shape_ancestors 6 module_shapes (exn_ref c))
      \<longleftrightarrow> exn_ref d \<in> set (filter driver_exception (shape_ancestors 6 module_shapes (exn_ref c)))"
    using exn_ref_driver by simp
  also have "\<dots> \<longleftrightarrow> d \<in> set (exn_chain 4 c)" unfolding shape_ancestors_exn by (auto simp: exn_ref_inj)
  also have "\<dots> \<longleftrightarrow> exn_instanceof c d" using exn_chain_sound exn_chain_complete by blast
  finally show ?thesis .
qed

section \<open>The start of the module\<close>

text \<open>With the classes of PHP the module starts; the table it leaves has the shapes.\<close>

lemma module_length: "length module_shapes = 74"
  by code_simp

lemma php_has_json: "find_class (PhpClass json_serializable_ce) php_classes \<noteq> None"
  by (simp add: php_classes_def php_interface_def new_class_def find_class_def)

lemma MINIT_starts:
  assumes "pm_classes m = \<lparr>cm_classes = php_classes, cm_handlers = []\<rparr>"
  obtains m' where "MINIT m = Some (SUCCESS, m')" and "shapes (cm_classes (pm_classes m')) module_shapes"
    and "pm_constants m' = pm_constants m @ [(''MONGODB_VERSION'', PHP_MONGODB_VERSION), (''MONGODB_STABILITY'', PHP_MONGODB_STABILITY)]"
proof -
  obtain M where M: "run_calls class_initialisers \<lparr>cm_classes = php_classes, cm_handlers = []\<rparr> = Some M"
    "shapes (cm_classes M) module_shapes" using module_started by blast
  then show thesis using that assms php_has_json
    by (simp add: MINIT_def php_phongo_fetch_internal_class_def Let_def)
qed

lemma shapes_promises:
  assumes S: "shapes cs module_shapes"
  shows "length cs = 74" "table_ok cs" "list_all (implements_all cs) cs" "list_all serialization_ok cs"
    "exn_ref d \<in> set (ancestors 6 cs (exn_ref c)) \<longleftrightarrow> exn_instanceof c d"
proof -
  show "length cs = 74" using list_all2_lengthD[OF S] module_length by simp
  show "table_ok cs" using shapes_table_ok[OF S] module_table_ok by simp
  show "list_all (implements_all cs) cs" by (rule shapes_all[OF S module_implements_all]) (simp add: shapes_implements_all[OF S])
  show "list_all serialization_ok cs" by (rule shapes_all[OF S module_serialization]) (simp add: shape_serialization)
  show "exn_ref d \<in> set (ancestors 6 cs (exn_ref c)) \<longleftrightarrow> exn_instanceof c d"
    by (simp add: shapes_ancestors[OF S] shape_instanceof_exn)
qed

text \<open>Without \<^verbatim>\<open>JsonSerializable\<close>, no class is registered.\<close>

lemma MINIT_without_json:
  "find_class (PhpClass json_serializable_ce) (cm_classes (pm_classes m)) = None \<Longrightarrow>
     \<exists>m'. MINIT m = Some (FAILURE, m') \<and> pm_classes m' = pm_classes m \<and> pm_mongoc m'"
  by (simp add: MINIT_def php_phongo_fetch_internal_class_def Let_def)

end
