(* ===== verification/Driver_Module_Life.thy ===== *)
theory Driver_Module_Life
  imports Driver_Module_Props
begin

text \<open>
  The life of the module in a process: threads start and end, and run the operations on the
  registries of their own globals.  libmongoc is initialised before any call and ends after all,
  with the last thread, when all clients are destroyed.
\<close>

section \<open>Operations of a thread\<close>

text \<open>What a thread of the process does to its globals: hooks of requests, and operations on clients.\<close>

inductive globals_step ::
    "('rc, 'rp, 'wc, 'cs, nat) store \<Rightarrow> int \<Rightarrow> nat mongodb_globals \<Rightarrow> nat mongodb_globals \<Rightarrow> nat client_call list \<Rightarrow> bool"
  for D pid where
  work_rinit: "globals_step D pid G (RINIT G) []"
| work_rshutdown: "RSHUTDOWN pid G = (G', calls) \<Longrightarrow> globals_step D pid G G' calls"
| work_reset: "PHONGO_RESET_CLIENT_IF_PID_DIFFERS fuel D pid created_by_pid m G = Some (G', calls) \<Longrightarrow> globals_step D pid G G' calls"
| work_unregister: "php_phongo_client_unregister pid m G = (b, G', calls) \<Longrightarrow> globals_step D pid G G' calls"

lemma globals_step_ok: "globals_step D pid G G' calls \<Longrightarrow> registry_ok G \<Longrightarrow> op_ok pid G G' calls"
  by (induction rule: globals_step.induct)
     (auto intro: RINIT_ok RSHUTDOWN_ok client_unregister_ok client_reset_once_ok op_ok_refl
       simp: PHONGO_RESET_CLIENT_IF_PID_DIFFERS_def split: if_splits)

text \<open>A client of the process stays in the tables until it is destroyed.\<close>

lemma client_kept:
  "client_acts p E calls E' \<Longrightarrow> pc \<in> E \<Longrightarrow> pc_created_by_pid pc = p \<Longrightarrow>
     (\<exists>q \<in> E'. pc_client q = pc_client pc \<and> pc_created_by_pid q = p) \<or> ClientDestroy (pc_client pc) \<in> set calls"
proof (induction arbitrary: pc rule: client_acts.induct)
  case (acts_reset d E calls E')
  show ?case
  proof (cases "pc = d")
    case True
    then show ?thesis using acts_reset.IH[of "d\<lparr>pc_last_reset_by_pid := p\<rparr>"] acts_reset.prems by auto
  next
    case False
    then show ?thesis using acts_reset.IH[of pc] acts_reset.prems by auto
  qed
next
  case (acts_drop d E calls E')
  then show ?case by (cases "pc = d") (auto simp: php_phongo_pclient_destroy_def)
qed blast

section \<open>The life of the process\<close>

datatype life_event = LibStart | LibEnd | ThreadMakes nat nat | ThreadCall nat "nat client_call"

datatype life_phase = Loaded | Running | Stopped

record module_life =
  ml_phase :: life_phase
  ml_module :: php_module
  ml_log :: "life_event list"

definition life_init :: module_life where
  "life_init = \<lparr>ml_phase = Loaded, ml_module = php_started php_classes, ml_log = []\<rparr>"

definition thread_globals :: "module_life \<Rightarrow> nat \<Rightarrow> nat mongodb_globals option" where
  "thread_globals L t = map_of (pm_threads (ml_module L)) t"

definition set_globals :: "nat \<Rightarrow> nat mongodb_globals \<Rightarrow> php_module \<Rightarrow> php_module" where
  "set_globals t G m = m\<lparr>pm_threads := map (\<lambda>e. if fst e = t then (t, G) else e) (pm_threads m)\<rparr>"

text \<open>
  Thread 0 loads the module, and is there until the module has shut down; threads come and go
  while it runs.  A thread ends after its request.
\<close>

inductive life_step :: "('rc, 'rp, 'wc, 'cs, nat) store \<Rightarrow> int \<Rightarrow> module_life \<Rightarrow> module_life \<Rightarrow> bool" for D pid where
  life_thread: "thread_globals L t = None \<Longrightarrow> ml_phase L = Loaded \<and> t = 0 \<or> ml_phase L = Running \<Longrightarrow>
    life_step D pid L (L\<lparr>ml_module := thread_start t (ml_module L)\<rparr>)"
| life_minit: "ml_phase L = Loaded \<Longrightarrow> thread_globals L 0 \<noteq> None \<Longrightarrow> MINIT (ml_module L) = Some (SUCCESS, m) \<Longrightarrow>
    life_step D pid L \<lparr>ml_phase = Running, ml_module = m, ml_log = ml_log L @ [LibStart]\<rparr>"
| life_minit_failed: "ml_phase L = Loaded \<Longrightarrow> thread_globals L 0 \<noteq> None \<Longrightarrow> MINIT (ml_module L) = Some (FAILURE, m) \<Longrightarrow>
    life_step D pid L \<lparr>ml_phase = Stopped, ml_module = m, ml_log = ml_log L @ [LibStart]\<rparr>"
| life_work: "ml_phase L \<noteq> Loaded \<Longrightarrow> thread_globals L t = Some G \<Longrightarrow> globals_step D pid G G' calls \<Longrightarrow>
    life_step D pid L (L\<lparr>ml_module := set_globals t G' (ml_module L), ml_log := ml_log L @ map (ThreadCall t) calls\<rparr>)"
| life_register: "ml_phase L \<noteq> Loaded \<Longrightarrow> thread_globals L t = Some G \<Longrightarrow> (\<forall>u. ThreadMakes u (mgr_client m) \<notin> set (ml_log L)) \<Longrightarrow>
    php_phongo_client_register pid m G = Some (G', calls) \<Longrightarrow>
    life_step D pid L (L\<lparr>ml_module := set_globals t G' (ml_module L),
      ml_log := ml_log L @ ThreadMakes t (mgr_client m) # map (ThreadCall t) calls\<rparr>)"
| life_mshutdown: "ml_phase L = Running \<Longrightarrow> life_step D pid L (L\<lparr>ml_phase := Stopped, ml_module := MSHUTDOWN (ml_module L)\<rparr>)"
| life_thread_end: "thread_globals L t = Some G \<Longrightarrow> g_request_clients G = None \<Longrightarrow>
    ml_phase L = Running \<and> t \<noteq> 0 \<or> ml_phase L = Stopped \<Longrightarrow> thread_end pid t (ml_module L) = Some (m, calls) \<Longrightarrow>
    life_step D pid L (L\<lparr>ml_module := m, ml_log := ml_log L @ map (ThreadCall t) calls
      @ (if pm_mongoc m then [] else [LibEnd])\<rparr>)"

inductive life_reachable :: "('rc, 'rp, 'wc, 'cs, nat) store \<Rightarrow> int \<Rightarrow> module_life \<Rightarrow> bool" for D pid where
  life_start: "life_reachable D pid life_init"
| life_next: "life_reachable D pid L \<Longrightarrow> life_step D pid L K \<Longrightarrow> life_reachable D pid K"

section \<open>The invariant\<close>

text \<open>Calls lie between the start and the end of libmongoc.\<close>

fun thread_event :: "life_event \<Rightarrow> bool" where
  "thread_event LibStart = False"
| "thread_event LibEnd = False"
| "thread_event _ = True"

definition library_log :: "life_event list \<Rightarrow> bool" where
  "library_log log \<longleftrightarrow> log = [] \<or> (\<exists>events. list_all thread_event events
     \<and> (log = LibStart # events \<or> log = LibStart # events @ [LibEnd]))"

definition client_accounted :: "int \<Rightarrow> module_life \<Rightarrow> nat \<Rightarrow> nat \<Rightarrow> bool" where
  "client_accounted pid L t c \<longleftrightarrow> ThreadCall t (ClientDestroy c) \<in> set (ml_log L)
     \<or> (\<exists>G. thread_globals L t = Some G \<and> (\<exists>pc \<in> set (client_entries G). pc_client pc = c \<and> pc_created_by_pid pc = pid))"

definition globals_known :: "module_life \<Rightarrow> nat \<Rightarrow> nat mongodb_globals \<Rightarrow> bool" where
  "globals_known L t G \<longleftrightarrow> registry_ok G \<and> (\<forall>pc \<in> set (client_entries G). ThreadMakes t (pc_client pc) \<in> set (ml_log L))"

definition life_ok :: "int \<Rightarrow> module_life \<Rightarrow> bool" where
  "life_ok pid L \<longleftrightarrow> distinct (map fst (pm_threads (ml_module L)))
     \<and> pm_num_threads (ml_module L) = int (length (pm_threads (ml_module L)))
     \<and> (ml_phase L = Loaded \<longrightarrow> ml_log L = [])
     \<and> (ml_phase L = Running \<longrightarrow> thread_globals L 0 \<noteq> None)
     \<and> (ml_phase L \<noteq> Loaded \<longrightarrow> (\<exists>events. list_all thread_event events
          \<and> ml_log L = LibStart # events @ (if pm_threads (ml_module L) = [] then [LibEnd] else []))
          \<and> (pm_mongoc (ml_module L) \<longleftrightarrow> pm_threads (ml_module L) \<noteq> []))
     \<and> (\<forall>t G. thread_globals L t = Some G \<longrightarrow> globals_known L t G)
     \<and> (\<forall>t c. ThreadMakes t c \<in> set (ml_log L) \<longrightarrow> client_accounted pid L t c)"

lemma life_okI:
  assumes "distinct (map fst (pm_threads (ml_module L)))" and "pm_num_threads (ml_module L) = int (length (pm_threads (ml_module L)))"
    and "ml_phase L \<noteq> Loaded" and "ml_phase L = Running \<Longrightarrow> thread_globals L 0 \<noteq> None"
    and "\<exists>events. list_all thread_event events \<and> ml_log L = LibStart # events @ (if pm_threads (ml_module L) = [] then [LibEnd] else [])"
    and "pm_mongoc (ml_module L) \<longleftrightarrow> pm_threads (ml_module L) \<noteq> []"
    and "\<And>t G. thread_globals L t = Some G \<Longrightarrow> globals_known L t G"
    and "\<And>t c. ThreadMakes t c \<in> set (ml_log L) \<Longrightarrow> client_accounted pid L t c"
  shows "life_ok pid L"
  unfolding life_ok_def using assms by blast

lemma set_globals_simps [simp]:
  "pm_num_threads (set_globals t G m) = pm_num_threads m" "pm_mongoc (set_globals t G m) = pm_mongoc m"
  "map fst (pm_threads (set_globals t G m)) = map fst (pm_threads m)" "pm_threads (set_globals t G m) = [] \<longleftrightarrow> pm_threads m = []"
  "length (pm_threads (set_globals t G m)) = length (pm_threads m)"
  by (auto simp: set_globals_def comp_def intro: map_cong)

lemma map_of_set_globals:
  "map_of (pm_threads (set_globals t G m)) u = (if u = t \<and> map_of (pm_threads m) t \<noteq> None then Some G else map_of (pm_threads m) u)"
proof -
  have "map_of (map (\<lambda>e. if fst e = t then (t, G) else e) xs) u = (if u = t \<and> map_of xs t \<noteq> None then Some G else map_of xs u)"
    for xs :: "(nat \<times> nat mongodb_globals) list"
    by (induction xs) auto
  then show ?thesis by (simp add: set_globals_def)
qed

lemma MINIT_same: "MINIT m = Some (r, m') \<Longrightarrow> pm_threads m' = pm_threads m \<and> pm_num_threads m' = pm_num_threads m \<and> pm_mongoc m'"
  by (auto simp: MINIT_def Let_def split: if_splits option.splits)

lemma life_init_ok: "life_ok pid life_init"
  by (simp add: life_ok_def life_init_def php_started_def thread_globals_def)

lemma thread_start_ok:
  assumes L: "life_ok pid L" and t: "thread_globals L t = None" and p: "ml_phase L = Loaded \<and> t = 0 \<or> ml_phase L = Running"
  shows "life_ok pid (L\<lparr>ml_module := thread_start t (ml_module L)\<rparr>)"
proof -
  let ?L = "L\<lparr>ml_module := thread_start t (ml_module L)\<rparr>"
  have g: "thread_globals ?L u = (if u = t then Some globals_init else thread_globals L u)" for u
    by (simp add: thread_globals_def thread_start_def)
  have d: "t \<notin> fst ` set (pm_threads (ml_module L))" using t by (simp add: thread_globals_def map_of_eq_None_iff)
  have a: "client_accounted pid ?L u c" if "client_accounted pid L u c" for u c
    using that t by (auto simp: client_accounted_def g)
  have m: "pm_threads (ml_module L) \<noteq> []" if "ml_phase L = Running" using L that by (auto simp: life_ok_def thread_globals_def)
  have k: "globals_known ?L u G" if "thread_globals ?L u = Some G" for u G
    using that L by (auto simp: g globals_known_def registry_ok_init life_ok_def split: if_splits)
  have run: "(\<exists>events. list_all thread_event events \<and> ml_log L = LibStart # events) \<and> pm_mongoc (ml_module L)" if "ml_phase L \<noteq> Loaded"
    using that p m L by (auto simp: life_ok_def)
  have "distinct (map fst (pm_threads (ml_module ?L)))" "pm_num_threads (ml_module ?L) = int (length (pm_threads (ml_module ?L)))"
    using L d by (simp_all add: life_ok_def thread_start_def)
  moreover have "ml_phase L = Loaded \<longrightarrow> ml_log L = []" "ml_phase L = Running \<longrightarrow> thread_globals L 0 \<noteq> None"
    "\<forall>u c. ThreadMakes u c \<in> set (ml_log L) \<longrightarrow> client_accounted pid L u c"
    using L by (simp_all add: life_ok_def)
  ultimately show ?thesis using k a run unfolding life_ok_def by (simp add: g) (auto simp: thread_start_def)
qed

lemma minit_ok:
  assumes L: "life_ok pid L" and p: "ml_phase L = Loaded" and t: "thread_globals L 0 \<noteq> None" and m: "MINIT (ml_module L) = Some (r, m)"
    and q: "q \<noteq> Loaded"
  shows "life_ok pid \<lparr>ml_phase = q, ml_module = m, ml_log = ml_log L @ [LibStart]\<rparr>"
  using L p t q MINIT_same[OF m] by (auto simp: life_ok_def thread_globals_def globals_known_def)

text \<open>A thread works: its globals change by calls that account for its clients.\<close>

lemma thread_work_ok:
  assumes L: "life_ok pid L" and p: "ml_phase L \<noteq> Loaded" and t: "thread_globals L t = Some G"
    and G: "registry_ok G'" and new: "\<And>pc. pc \<in> set (client_entries G') \<Longrightarrow>
      ThreadMakes t (pc_client pc) \<in> set (ml_log L) \<or> ThreadMakes t (pc_client pc) \<in> set events"
    and kept: "\<And>c. ThreadMakes t c \<in> set (ml_log L) \<Longrightarrow> client_accounted pid L t c \<Longrightarrow>
      ThreadCall t (ClientDestroy c) \<in> set (ml_log L @ events) \<or> (\<exists>pc \<in> set (client_entries G'). pc_client pc = c \<and> pc_created_by_pid pc = pid)"
    and made: "\<And>u c. ThreadMakes u c \<in> set events \<Longrightarrow> u = t \<and> (\<exists>pc \<in> set (client_entries G'). pc_client pc = c \<and> pc_created_by_pid pc = pid)"
    and ev: "list_all thread_event events"
  shows "life_ok pid (L\<lparr>ml_module := set_globals t G' (ml_module L), ml_log := ml_log L @ events\<rparr>)" (is "life_ok pid ?L")
proof -
  have g: "thread_globals ?L u = (if u = t then Some G' else thread_globals L u)" for u
    using t by (simp add: thread_globals_def map_of_set_globals)
  have ne: "pm_threads (ml_module L) \<noteq> []" using t by (auto simp: thread_globals_def)
  have a: "client_accounted pid ?L u c" if "ThreadMakes u c \<in> set (ml_log L @ events)" for u c
  proof (cases "ThreadMakes u c \<in> set events")
    case True
    then show ?thesis using made[of u c] by (auto simp: client_accounted_def g)
  next
    case False
    then have u: "ThreadMakes u c \<in> set (ml_log L)" using that by simp
    then have "client_accounted pid L u c" using L by (simp add: life_ok_def)
    then show ?thesis using kept[of c] u by (cases "u = t") (auto simp: client_accounted_def g)
  qed
  have k: "globals_known ?L u H" if "thread_globals ?L u = Some H" for u H
    using that L G new by (auto simp: g globals_known_def life_ok_def split: if_splits)
  obtain es where "list_all thread_event es" "ml_log L = LibStart # es" using L p ne by (auto simp: life_ok_def)
  then have e: "list_all thread_event (es @ events)" "ml_log ?L = LibStart # es @ events" using ev by simp_all
  have "\<exists>events. list_all thread_event events
      \<and> ml_log ?L = LibStart # events @ (if pm_threads (ml_module ?L) = [] then [LibEnd] else [])"
    by (rule exI[of _ "es @ events"]) (use e ne in simp)
  moreover have "pm_mongoc (ml_module ?L) \<longleftrightarrow> pm_threads (ml_module ?L) \<noteq> []" using L p by (simp add: life_ok_def)
  moreover have "ml_phase L = Running \<longrightarrow> thread_globals ?L 0 \<noteq> None" using L by (simp add: g life_ok_def)
  moreover have "distinct (map fst (pm_threads (ml_module ?L)))" "pm_num_threads (ml_module ?L) = int (length (pm_threads (ml_module ?L)))"
    using L by (simp_all add: life_ok_def)
  ultimately show ?thesis using p a k unfolding life_ok_def by simp
qed

lemma no_makes: "ThreadMakes u c \<notin> set (map (ThreadCall t) calls)" "list_all thread_event (map (ThreadCall t) calls)"
  by (auto simp: list_all_iff)

lemma acts_subset: "client_acts p E calls E' \<Longrightarrow> pc_client ` E' \<subseteq> pc_client ` E"
  by (induction rule: client_acts.induct) auto

lemma life_work_ok:
  assumes L: "life_ok pid L" and p: "ml_phase L \<noteq> Loaded" and t: "thread_globals L t = Some G" and w: "globals_step D pid G G' calls"
  shows "life_ok pid (L\<lparr>ml_module := set_globals t G' (ml_module L), ml_log := ml_log L @ map (ThreadCall t) calls\<rparr>)"
proof (rule thread_work_ok[OF L p t])
  have G: "globals_known L t G" using L t by (simp add: life_ok_def)
  have w: "op_ok pid G G' calls" using globals_step_ok[OF w] G by (simp add: globals_known_def)
  then show "registry_ok G'" by (simp add: op_ok_def)
  have acts: "client_acts pid (set (client_entries G)) calls (set (client_entries G'))" using w by (simp add: op_ok_def)
  show "ThreadMakes t (pc_client pc) \<in> set (ml_log L) \<or> ThreadMakes t (pc_client pc) \<in> set (map (ThreadCall t) calls)"
    if "pc \<in> set (client_entries G')" for pc
    using G acts_subset[OF acts] that by (fastforce simp: globals_known_def)
  show "ThreadCall t (ClientDestroy c) \<in> set (ml_log L @ map (ThreadCall t) calls)
      \<or> (\<exists>pc \<in> set (client_entries G'). pc_client pc = c \<and> pc_created_by_pid pc = pid)" if "client_accounted pid L t c" for c
    using that t client_kept[OF acts] by (fastforce simp: client_accounted_def)
qed (auto simp: no_makes)

lemma life_register_ok:
  assumes L: "life_ok pid L" and p: "ml_phase L \<noteq> Loaded" and t: "thread_globals L t = Some G"
    and fresh: "\<forall>u. ThreadMakes u (mgr_client m) \<notin> set (ml_log L)"
    and r: "php_phongo_client_register pid m G = Some (G', calls)"
  shows "life_ok pid (L\<lparr>ml_module := set_globals t G' (ml_module L),
      ml_log := ml_log L @ ThreadMakes t (mgr_client m) # map (ThreadCall t) calls\<rparr>)"
proof (rule thread_work_ok[OF L p t])
  have G: "globals_known L t G" using L t by (simp add: life_ok_def)
  then have "mgr_client m \<notin> pc_client ` set (client_entries G)" using fresh by (auto simp: globals_known_def)
  from client_register_ok[OF _ this r] G obtain E where G': "registry_ok G'"
      and acts: "client_acts pid (set (client_entries G)) calls E" and E: "E \<subseteq> set (client_entries G)"
      and e: "set (client_entries G') = insert \<lparr>pc_client = mgr_client m, pc_created_by_pid = pid, pc_last_reset_by_pid = 0,
         pc_is_persistent = mgr_use_persistent_client m\<rparr> E"
    by (auto simp: globals_known_def)
  show "registry_ok G'" by (rule G')
  let ?ev = "ThreadMakes t (mgr_client m) # map (ThreadCall t) calls"
  show "ThreadMakes t (pc_client pc) \<in> set (ml_log L) \<or> ThreadMakes t (pc_client pc) \<in> set ?ev" if "pc \<in> set (client_entries G')" for pc
    using G E that by (auto simp: globals_known_def e)
  show "ThreadCall t (ClientDestroy c) \<in> set (ml_log L @ ?ev)
      \<or> (\<exists>pc \<in> set (client_entries G'). pc_client pc = c \<and> pc_created_by_pid pc = pid)" if "client_accounted pid L t c" for c
    using that t client_kept[OF acts] unfolding e by (fastforce simp: client_accounted_def)
  show "u = t \<and> (\<exists>pc \<in> set (client_entries G'). pc_client pc = c \<and> pc_created_by_pid pc = pid)" if "ThreadMakes u c \<in> set ?ev" for u c
    using that unfolding e by auto
qed (simp add: no_makes)

lemma threads_left:
  assumes "distinct (map fst xs)" and "map_of xs t = Some G"
  shows "length (filter (\<lambda>e. fst e \<noteq> t) xs) + 1 = length xs"
  using assms
proof (induction xs)
  case (Cons e xs)
  have "filter (\<lambda>e. fst e \<noteq> t) xs = xs" if "t \<notin> fst ` set xs" using that by (induction xs) auto
  then show ?case using Cons by (cases "fst e = t") auto
qed simp

lemma thread_end_ok:
  assumes L: "life_ok pid L" and t: "thread_globals L t = Some G" and r: "g_request_clients G = None"
    and p: "ml_phase L = Running \<and> t \<noteq> 0 \<or> ml_phase L = Stopped" and e: "thread_end pid t (ml_module L) = Some (m, calls)"
  shows "life_ok pid (L\<lparr>ml_module := m, ml_log := ml_log L @ map (ThreadCall t) calls @ (if pm_mongoc m then [] else [LibEnd])\<rparr>)"
    (is "life_ok pid ?L")
proof -
  let ?left = "filter (\<lambda>e. fst e \<noteq> t) (pm_threads (ml_module L))"
  have len: "length ?left + 1 = length (pm_threads (ml_module L))"
  proof (rule threads_left)
    show "distinct (map fst (pm_threads (ml_module L)))" using L by (simp add: life_ok_def)
    show "map_of (pm_threads (ml_module L)) t = Some G" using t by (simp add: thread_globals_def)
  qed
  have ne: "pm_threads (ml_module L) \<noteq> []" using t by (auto simp: thread_globals_def)
  have G: "globals_known L t G" using L t by (simp add: life_ok_def)
  obtain G1 where g: "GSHUTDOWN pid G = (G1, calls)" and th: "pm_threads m = ?left"
      and n: "pm_num_threads m = pm_num_threads (ml_module L) - 1"
      and c: "pm_mongoc m \<longleftrightarrow> pm_mongoc (ml_module L) \<and> pm_num_threads m \<noteq> 0"
    using e t by (auto simp: thread_end_def thread_globals_def Let_def split: prod.splits if_splits)
  have gone: "client_entries G1 = []" using g r by (auto simp: GSHUTDOWN_def client_entries_def request_entries_def)
  have acts: "client_acts pid (set (client_entries G)) calls {}"
    using GSHUTDOWN_ok[OF _ g] G gone by (simp add: globals_known_def op_ok_def)
  have tg: "thread_globals ?L u = (if u = t then None else thread_globals L u)" for u
  proof -
    have "map_of (filter (\<lambda>e. fst e \<noteq> t) xs) u = (if u = t then None else map_of xs u)" for xs :: "(nat \<times> nat mongodb_globals) list"
      by (induction xs) auto
    then show ?thesis by (simp add: thread_globals_def th)
  qed
  have count: "pm_num_threads m = int (length ?left)" using n len L by (simp add: life_ok_def)
  have mongoc: "pm_mongoc m \<longleftrightarrow> ?left \<noteq> []" using c count L p ne by (auto simp: life_ok_def)
  have a: "client_accounted pid ?L u d" if "client_accounted pid L u d" for u d
    using that t client_kept[OF acts] by (cases "u = t") (fastforce simp: client_accounted_def tg)+
  obtain es where es: "list_all thread_event es" "ml_log L = LibStart # es" using L p ne by (auto simp: life_ok_def)
  show ?thesis
  proof (rule life_okI)
    show "\<exists>events. list_all thread_event events
        \<and> ml_log ?L = LibStart # events @ (if pm_threads (ml_module ?L) = [] then [LibEnd] else [])"
      by (rule exI[of _ "es @ map (ThreadCall t) calls"]) (use es no_makes mongoc th in simp)
    show "distinct (map fst (pm_threads (ml_module ?L)))" using L by (simp add: th life_ok_def distinct_map_filter)
    show "client_accounted pid ?L u d" if "ThreadMakes u d \<in> set (ml_log ?L)" for u d
    proof -
      have "ThreadMakes u d \<in> set (ml_log L)" using that by (auto split: if_splits)
      then show ?thesis using a L by (simp add: life_ok_def)
    qed
    show "globals_known ?L u H" if "thread_globals ?L u = Some H" for u H
    proof -
      have "globals_known L u H" using that L by (simp add: tg life_ok_def split: if_splits)
      then show ?thesis by (auto simp: globals_known_def)
    qed
    show "thread_globals ?L 0 \<noteq> None" if "ml_phase ?L = Running" using that L p by (simp add: tg life_ok_def)
    show "pm_num_threads (ml_module ?L) = int (length (pm_threads (ml_module ?L)))" using count th by simp
    show "pm_mongoc (ml_module ?L) \<longleftrightarrow> pm_threads (ml_module ?L) \<noteq> []" using mongoc th by simp
    show "ml_phase ?L \<noteq> Loaded" using p by auto
  qed
qed

lemma life_mshutdown_ok: "life_ok pid L \<Longrightarrow> ml_phase L = Running \<Longrightarrow> life_ok pid (L\<lparr>ml_phase := Stopped, ml_module := MSHUTDOWN (ml_module L)\<rparr>)"
proof -
  assume L: "life_ok pid L" and p: "ml_phase L = Running"
  let ?L = "L\<lparr>ml_phase := Stopped, ml_module := MSHUTDOWN (ml_module L)\<rparr>"
  have g: "thread_globals ?L = thread_globals L" by (simp add: fun_eq_iff thread_globals_def MSHUTDOWN_def)
  have "client_accounted pid ?L = client_accounted pid L" "globals_known ?L = globals_known L"
    by (simp_all add: fun_eq_iff client_accounted_def globals_known_def g)
  moreover have "pm_threads (MSHUTDOWN m) = pm_threads m" "pm_num_threads (MSHUTDOWN m) = pm_num_threads m"
    "pm_mongoc (MSHUTDOWN m) = pm_mongoc m" for m by (simp_all add: MSHUTDOWN_def)
  ultimately show "life_ok pid ?L" using L p unfolding life_ok_def by (cases "pm_threads (ml_module L) = []") (simp_all add: g)
qed

lemma life_step_ok: "life_step D pid L K \<Longrightarrow> life_ok pid L \<Longrightarrow> life_ok pid K"
proof (induction rule: life_step.induct)
  case life_thread then show ?case by (rule thread_start_ok[rotated])
next
  case life_minit then show ?case using minit_ok by simp
next
  case life_minit_failed then show ?case using minit_ok by simp
next
  case life_work then show ?case using life_work_ok by blast
next
  case life_register then show ?case using life_register_ok by blast
next
  case life_mshutdown then show ?case using life_mshutdown_ok by blast
next
  case life_thread_end then show ?case using thread_end_ok by blast
qed

lemma life_ok: "life_reachable D pid L \<Longrightarrow> life_ok pid L"
  by (induction rule: life_reachable.induct) (auto intro: life_init_ok life_step_ok)

lemma life_okD:
  assumes "life_ok pid L"
  shows "library_log (ml_log L)" "pm_num_threads (ml_module L) = int (length (pm_threads (ml_module L)))"
    "ml_phase L \<noteq> Loaded \<Longrightarrow> LibEnd \<in> set (ml_log L) \<longleftrightarrow> pm_threads (ml_module L) = []"
    "ml_phase L \<noteq> Loaded \<Longrightarrow> pm_mongoc (ml_module L) \<longleftrightarrow> pm_threads (ml_module L) \<noteq> []"
    "LibEnd \<in> set (ml_log L) \<Longrightarrow> ThreadMakes t c \<in> set (ml_log L) \<Longrightarrow> ThreadCall t (ClientDestroy c) \<in> set (ml_log L)"
proof -
  have no: "list_all thread_event es \<Longrightarrow> LibEnd \<notin> set es" for es by (auto simp: list_all_iff)
  show l: "library_log (ml_log L)" using assms unfolding life_ok_def library_log_def by (cases "ml_phase L") (auto split: if_splits)
  show "pm_num_threads (ml_module L) = int (length (pm_threads (ml_module L)))" using assms by (simp add: life_ok_def)
  show e: "LibEnd \<in> set (ml_log L) \<longleftrightarrow> pm_threads (ml_module L) = []" if "ml_phase L \<noteq> Loaded"
    using that assms no by (auto simp: life_ok_def split: if_splits)
  show "pm_mongoc (ml_module L) \<longleftrightarrow> pm_threads (ml_module L) \<noteq> []" if "ml_phase L \<noteq> Loaded"
    using that assms by (simp add: life_ok_def)
  show "ThreadCall t (ClientDestroy c) \<in> set (ml_log L)" if h: "LibEnd \<in> set (ml_log L)" "ThreadMakes t c \<in> set (ml_log L)"
  proof -
    have "ml_phase L \<noteq> Loaded" using assms h by (auto simp: life_ok_def)
    then have "thread_globals L t = None" using e h(1) by (simp add: thread_globals_def)
    moreover have "client_accounted pid L t c" using assms h(2) by (simp add: life_ok_def)
    ultimately show ?thesis by (simp add: client_accounted_def)
  qed
qed

section \<open>A run\<close>

text \<open>The thread of the process makes a persistent client, and ends after the module has shut down.\<close>

definition run_manager :: "nat php_phongo_manager_t" where
  "run_manager = \<lparr>mgr_client = 7, mgr_created_by_pid = 1, mgr_client_hash = ''h'', mgr_use_persistent_client = True,
     mgr_key_vault_client_manager = ZUndef, mgr_subscribers = []\<rparr>"

lemma life_run:
  "\<exists>L. life_reachable D 1 L \<and> ml_log L = [LibStart, ThreadMakes 0 7, ThreadCall 0 (ClientClearApm 7), ThreadCall 0 (ClientDestroy 7), LibEnd]"
proof -
  let ?m0 = "thread_start 0 (php_started php_classes)"
  obtain m where m: "MINIT ?m0 = Some (SUCCESS, m)" by (rule MINIT_starts[of ?m0]) (simp_all add: thread_start_def php_started_def)
  have th: "pm_threads m = [(0, globals_init)]" "pm_num_threads m = 1"
    using MINIT_same[OF m] by (simp_all add: thread_start_def php_started_def)
  let ?L0 = "life_init\<lparr>ml_module := ?m0\<rparr>"
  have "life_step D 1 life_init (life_init\<lparr>ml_module := thread_start 0 (ml_module life_init)\<rparr>)"
    by (rule life_thread) (simp_all add: life_init_def thread_globals_def php_started_def)
  then have r0: "life_reachable D 1 ?L0" using life_next[OF life_start] by (simp add: life_init_def)
  let ?L1 = "\<lparr>ml_phase = Running, ml_module = m, ml_log = [LibStart]\<rparr>"
  have "life_step D 1 ?L0 \<lparr>ml_phase = Running, ml_module = m, ml_log = ml_log ?L0 @ [LibStart]\<rparr>"
    by (rule life_minit) (simp_all add: life_init_def thread_globals_def thread_start_def m[unfolded thread_start_def])
  then have r1: "life_reachable D 1 ?L1" using life_next[OF r0] by (simp add: life_init_def)
  define G where "G = (globals_init :: nat mongodb_globals)\<lparr>g_persistent_clients := [(''h'',
     \<lparr>pc_client = 7, pc_created_by_pid = 1, pc_last_reset_by_pid = 0, pc_is_persistent = True\<rparr>)]\<rparr>"
  have reg: "php_phongo_client_register 1 run_manager globals_init = Some (G, [])"
    by (simp add: php_phongo_client_register_def run_manager_def G_def globals_init_def Let_def)
  let ?m2 = "set_globals 0 G m"
  let ?L2 = "\<lparr>ml_phase = Running, ml_module = ?m2, ml_log = [LibStart, ThreadMakes 0 7]\<rparr>"
  have "life_step D 1 ?L1 (?L1\<lparr>ml_module := set_globals 0 G (ml_module ?L1), ml_log := ml_log ?L1 @ ThreadMakes 0 (mgr_client run_manager) # map (ThreadCall 0) []\<rparr>)"
    by (rule life_register[OF _ _ _ reg]) (simp_all add: thread_globals_def th)
  then have r2: "life_reachable D 1 ?L2" using life_next[OF r1] by (simp add: run_manager_def)
  let ?L3 = "?L2\<lparr>ml_phase := Stopped, ml_module := MSHUTDOWN ?m2\<rparr>"
  have r3: "life_reachable D 1 ?L3" using life_next[OF r2 life_mshutdown] by simp
  have t3: "thread_globals ?L3 0 = Some G" by (simp add: thread_globals_def MSHUTDOWN_def map_of_set_globals th)
  let ?calls = "[ClientClearApm 7, ClientDestroy 7]"
  obtain m4 where m4: "thread_end 1 0 (MSHUTDOWN ?m2) = Some (m4, ?calls)" "\<not> pm_mongoc m4"
  proof -
    have "map_of (pm_threads (MSHUTDOWN ?m2)) 0 = Some G" using t3 by (simp add: thread_globals_def)
    moreover have "GSHUTDOWN 1 G = (G\<lparr>g_persistent_clients := []\<rparr>, ?calls)"
      by (simp add: GSHUTDOWN_def G_def php_phongo_pclient_destroy_def)
    moreover have "pm_num_threads (MSHUTDOWN ?m2) = 1" by (simp add: MSHUTDOWN_def th)
    ultimately show thesis using that by (simp add: thread_end_def)
  qed
  have "life_step D 1 ?L3 (?L3\<lparr>ml_module := m4, ml_log := ml_log ?L3 @ map (ThreadCall 0) ?calls @ (if pm_mongoc m4 then [] else [LibEnd])\<rparr>)"
  proof (rule life_thread_end[OF t3])
    show "g_request_clients G = None" by (simp add: G_def globals_init_def)
  qed (simp_all add: m4)
  from life_next[OF r3 this] have "life_reachable D 1 \<lparr>ml_phase = Stopped, ml_module = m4,
      ml_log = [LibStart, ThreadMakes 0 7, ThreadCall 0 (ClientClearApm 7), ThreadCall 0 (ClientDestroy 7), LibEnd]\<rparr>"
    using m4(2) by simp
  moreover have "ml_log \<lparr>ml_phase = Stopped, ml_module = m4, ml_log = es\<rparr> = es" for es by (rule module_life.simps)
  ultimately show ?thesis by blast
qed

end
