(* ===== verification/Spec2Isabelle.thy ===== *)
theory Spec2Isabelle
  imports Bson_Javascript Driver_Execute Driver_ServerApi Driver_Uri_Props Driver_Reference Driver_Lifetime_Steps Driver_Module_Life
begin

text \<open>
  A verification library for the core of the MongoDB PHP driver extension (\<^verbatim>\<open>src/\<close>).  The extension
  converts PHP values to BSON and back, wraps the option objects, sessions and cursors of libmongoc
  as PHP classes, and executes bulk writes, queries and commands through libmongoc.

  \<^bold>\<open>Conventions.\<close>  A definition has the name of the C function or method it models
  (\<^verbatim>\<open>Class::method\<close> is \<^verbatim>\<open>Class_method\<close>).  A struct is a record, an engine value the datatype \<^verbatim>\<open>zval\<close>, a
  hash table an association list in order, a BSON document the tree of its elements together with
  how its bytes end.  A function that may throw returns a sum (\<^verbatim>\<open>Inl\<close> the exception) or takes and
  returns the list of pending exceptions, newest first; an outer \<^verbatim>\<open>option\<close> is None where the C code
  is undefined: a null pointer read, an access outside an allocation, an overflow, an assertion of
  libbson.  Integers have the width of the C type where it matters (\<^verbatim>\<open>32 word\<close>, \<^verbatim>\<open>64 word\<close>, or int
  with the truncation written out).  Calls of libbson, libmongoc and of the engine whose source is
  not in the repository are fields of records the definitions take as arguments; what is documented
  of them is a named contract (\<^verbatim>\<open>write_concern_contract\<close>, \<^verbatim>\<open>bulk_contract\<close>, ...), and a \<^verbatim>\<open>ref_\<close> instance
  satisfies each.  What libmongoc does to the world outside is a state \<^verbatim>\<open>'w\<close> threaded through.

  \<^bold>\<open>Values and BSON.\<close>
  \<^item> \<^verbatim>\<open>Phongo_Prelude\<close>, \<^verbatim>\<open>Php_Values\<close>, \<^verbatim>\<open>Php_Serialize\<close>, \<^verbatim>\<open>Class_Contracts\<close>: C strings and numbers as text,
    engine values and tables, exceptions; the shared body of \<^verbatim>\<open>unserialize\<close>; the locales that the
    BSON classes interpret (codecs between objects, property tables and serialised text, orders).
  \<^item> \<^verbatim>\<open>Bson_Scalars\<close>, \<^verbatim>\<open>Bson_Datetime\<close>, \<^verbatim>\<open>Bson_Oid\<close>, \<^verbatim>\<open>Bson_Text\<close>, \<^verbatim>\<open>Bson_Javascript\<close>, \<^verbatim>\<open>Driver_CursorId\<close>:
    the classes of \<^verbatim>\<open>src/src/BSON/\<close> and CursorId, every method and handler; round trips through
    \<^verbatim>\<open>serialize\<close> and \<^verbatim>\<open>__set_state\<close>, accepted ranges, comparison orders.
  \<^item> \<^verbatim>\<open>Field_Path\<close>, \<^verbatim>\<open>Type_Map\<close> (\<^verbatim>\<open>bson.c\<close>): the path builder with its allocations as a refinement of a
    stack of names, and the parsing and lookup of type maps.
  \<^item> \<^verbatim>\<open>Bson_Encode\<close>, \<^verbatim>\<open>Bson_Encode_Props\<close> (\<^verbatim>\<open>bson-encode.c\<close>): values to BSON over a heap of arrays and
    objects that may be cyclic, with fuel; the recursion guard makes the number of objects plus
    the size of the value enough fuel.
  \<^item> \<^verbatim>\<open>Bson_Decode\<close>, \<^verbatim>\<open>Bson_Decode_Spec\<close> (\<^verbatim>\<open>bson.c\<close>): the visitors with their shared state, and the
    stateless specification they refine; \<^verbatim>\<open>Bson_Roundtrip\<close> composes encoder and decoder.

  \<^bold>\<open>The driver.\<close>
  \<^item> \<^verbatim>\<open>Driver_Errors\<close>: exceptions of libmongoc errors, error labels, WriteError, WriteConcernError.
  \<^item> \<^verbatim>\<open>Php_Iterator\<close>, \<^verbatim>\<open>Driver_Cursor\<close>: cursors as a state machine over an opaque libmongoc cursor,
    reachable states and their invariant; the iterator contract, interpreted on the cursor.
  \<^item> \<^verbatim>\<open>Driver_Options\<close>, \<^verbatim>\<open>Driver_ReadConcern\<close>, \<^verbatim>\<open>Driver_WriteConcern\<close>, \<^verbatim>\<open>Driver_ReadPreference\<close>,
    \<^verbatim>\<open>Driver_ServerApi\<close>: the option classes over what their libmongoc objects show (a view), with the
    codec locale of \<^verbatim>\<open>Driver_Options\<close>.
  \<^item> \<^verbatim>\<open>Driver_Objects\<close>: the store of driver objects that option values refer to, and the option
    parsers of \<^verbatim>\<open>php_phongo.c\<close>.  \<^verbatim>\<open>Driver_Session\<close>: sessions and transactions.
  \<^item> \<^verbatim>\<open>Driver_Query\<close>, \<^verbatim>\<open>Driver_BulkWrite\<close>, \<^verbatim>\<open>Driver_Execute\<close>: queries and commands with every option,
    bulk writes and write results, and the three \<^verbatim>\<open>phongo_execute\<close> functions.
  \<^item> \<^verbatim>\<open>Driver_Uri\<close>, \<^verbatim>\<open>Driver_Uri_Props\<close>: the options of a Manager's URI, their checks, and TLS options with
    the allocation of their strings; the loop over the options is related to what the last option of
    each name says.
  \<^item> \<^verbatim>\<open>Driver_Registry\<close>, \<^verbatim>\<open>Driver_Registry_Props\<close>: the tables of clients and Managers, resets after a
    fork, request and module hooks; any number of processes that run them, with the protocol their
    calls to libmongoc keep.
  \<^item> \<^verbatim>\<open>Driver_Manager\<close>, \<^verbatim>\<open>Driver_Manager_Props\<close>: the construction of a Manager from its arguments to the
    registered client; clients that are shared, constructions that fail.
  \<^item> \<^verbatim>\<open>Driver_Server\<close>, \<^verbatim>\<open>Driver_Manager_Methods\<close>, \<^verbatim>\<open>Driver_Manager_Methods_Props\<close>: servers, their selection,
    and the methods of Manager and Server, which agree on the selected server.
  \<^item> \<^verbatim>\<open>Driver_Apm\<close>, \<^verbatim>\<open>Driver_Apm_Props\<close> (\<^verbatim>\<open>phongo_apm.c\<close>, \<^verbatim>\<open>Monitoring/\<close>): tables of subscribers as a locale
    with two interpretations, events and their delivery.
  \<^item> \<^verbatim>\<open>Driver_Encryption\<close>, \<^verbatim>\<open>Bson_Functions\<close>: client-side encryption, and the functions of the BSON
    namespace, composed with the round trip of encoder and decoder.
  \<^item> \<^verbatim>\<open>Driver_Lifetime\<close> (free handlers of \<^verbatim>\<open>src/src/MongoDB/\<close>), \<^verbatim>\<open>Driver_Lifetime_Props\<close>,
    \<^verbatim>\<open>Driver_Lifetime_World\<close>, \<^verbatim>\<open>Driver_Lifetime_Steps\<close>: objects with counted references on a heap, the steps
    of any program on them, and the log of calls to libmongoc: the counts, the world of objects as the
    invariant sees it, and the protocol of the calls.  Dropping references ends by a measure, the
    number of objects and then the length of the list.
  \<^item> \<^verbatim>\<open>Php_Classes\<close>, \<^verbatim>\<open>Bson_Classes\<close>, \<^verbatim>\<open>Driver_Classes\<close>, \<^verbatim>\<open>Exception_Classes\<close>: the method tables, object
    handlers and initialisers (\<^verbatim>\<open>php_phongo_x_me\<close>, \<^verbatim>\<open>php_phongo_handler_x\<close>, \<^verbatim>\<open>php_phongo_x_init_ce\<close>) of all
    63 classes, as lists of calls to the engine's functions for classes.
  \<^item> \<^verbatim>\<open>Driver_Module\<close> (\<^verbatim>\<open>php_phongo.c\<close>), \<^verbatim>\<open>Class_Shapes\<close>, \<^verbatim>\<open>Driver_Module_Props\<close>, \<^verbatim>\<open>Driver_Module_Life\<close>: the
    start and end of the module and of its threads, the debug log, \<^verbatim>\<open>phpinfo\<close>; a walk over the calls of
    the initialisers that is proved to follow the engine, what holds of the classes registered; the
    threads of a process with libmongoc's start and end.
  \<^item> \<^verbatim>\<open>Driver_Reference\<close>: instances of all these parameters, on which the hypotheses hold.

  \<^bold>\<open>Bounds.\<close>  The encoder's fuel is one more than the size of the value and the number of its objects;
  a chain of key vault clients is followed with fuel, which a chain without a cycle does not use up;
  everything else recurses on its data.

  \<^bold>\<open>This theory\<close> holds the properties, C1 to the last, in the order of the groups above; those that
  span components (encode and decode, query and cursor, options and execution) use their lemmas.

  \<^bold>\<open>Not modelled.\<close>  The memory of strings, property tables and BSON buffers, which are values here
  (references to objects are counted, and handles of libmongoc are made and ended); argument parsing
  by the engine (methods take parsed arguments); deprecation notices, except where they are part of a
  table; the accessors from an engine header to the object around it.  Values of options that are references: the code also changes the
  variable they refer to, the model the option.  The overflow of the next index of a table of the
  request.  libmongoc, libbson, libmongocrypt and the engine, whose sources are not in the repository,
  are the parameters described above.
\<close>

section \<open>Encoding and decoding\<close>

text \<open>
  C1: A PHP value that is encoded and then decoded is the value it was: for every root
  table of scalars, lists, documents and BSON objects whose text is valid and whose keys hold
  no null byte, the encoder writes a document without raising an exception, and the decoder
  gives the table back, under a type map that makes arrays (native) and under the default one.
\<close>

theorem zval_bson_roundtrip:
  assumes "rt_root E native h" and "to_elems E h = Some es" and "envs_agree E N" and "bdepth h < fuel"
  shows "\<exists>doc st.
      php_phongo_zval_to_bson fuel E H False False (root_zval native h) [] [] = Some (doc, None, [])
    \<and> php_phongo_bson_to_zval_ex N (BufDocument (BDoc doc DocOk) True) (rt_state native) [] = Some (True, st, [])
    \<and> st_zchild st = root_zval native h"
  using roundtrip[OF assms, of H] by blast

definition sample_table :: ht where
  "sample_table = [(KStr ''a'', ZArray [(KInt 0, ZLong 1), (KInt 1, ZString ''x'')]),
     (KStr ''b'', ZStd [(KStr ''7'', ZBson (OUTCDateTime \<lparr>udt_initialized = True, udt_milliseconds = 5\<rparr>))])]"

lemma sample_table_ok:
  "rt_root ref_encode_env False sample_table" "to_elems ref_encode_env sample_table \<noteq> None"
  "envs_agree ref_encode_env ref_decode_env" "bdepth sample_table < 5"
  by (auto simp: rt_root_def sample_table_def is_str_key_def ref_encode_env_def ref_decode_env_def envs_agree_def dec_of_int_no_nul)

theorem zval_bson_roundtrip_witness:
  "\<exists>doc st.
      php_phongo_zval_to_bson 5 ref_encode_env [] False False (root_zval False sample_table) [] [] = Some (doc, None, [])
    \<and> php_phongo_bson_to_zval_ex ref_decode_env (BufDocument (BDoc doc DocOk) True) (rt_state False) [] = Some (True, st, [])
    \<and> st_zchild st = root_zval False sample_table"
proof -
  obtain es where "to_elems ref_encode_env sample_table = Some es" using sample_table_ok(2) by auto
  from zval_bson_roundtrip[OF sample_table_ok(1) this sample_table_ok(3,4)] show ?thesis by blast
qed

text \<open>
  C2: The decoder returns a value exactly for a buffer that holds one well-formed document
  and nothing else; it raises no exception exactly when no user method it calls raises one;
  and then the value is the one the stateless specification gives: the shared path builder,
  the nested states and the exception list have no influence on it.
\<close>

theorem bson_to_zval_spec:
  assumes "state_ok (de_classes N) state"
  shows "((\<exists>st ex1. php_phongo_bson_to_zval_ex N data state ex = Some (True, st, ex1))
           \<longleftrightarrow> (\<exists>d. data = BufDocument d True \<and> doc_ok d))
    \<and> (\<forall>d st ex1. php_phongo_bson_to_zval_ex N (BufDocument d True) state [] = Some (True, st, ex1)
           \<longrightarrow> (ex1 = [] \<longleftrightarrow> decode_quiet N state d) \<and> (ex1 = [] \<longrightarrow> st_zchild st = decoded N state d))"
proof (intro conjI allI impI)
  show "(\<exists>st ex1. php_phongo_bson_to_zval_ex N data state ex = Some (True, st, ex1))
           \<longleftrightarrow> (\<exists>d. data = BufDocument d True \<and> doc_ok d)"
    using to_zval_ex_only_ok[of N data state ex] to_zval_ex_ok[OF assms, of _ ex] by fast
  fix d st ex1
  assume r: "php_phongo_bson_to_zval_ex N (BufDocument d True) state [] = Some (True, st, ex1)"
  then have "doc_ok d" using to_zval_ex_only_ok[OF r] by simp
  from to_zval_ex_ok[OF assms this, of "[]"] r
  have s: "settles [] ex1 (decode_quiet N state d) (st_zchild st) (decoded N state d)" by auto
  then show "ex1 = [] \<longleftrightarrow> decode_quiet N state d" by (auto simp: settles_def)
  assume "ex1 = []"
  then show "st_zchild st = decoded N state d" using s by (auto simp: settles_def)
qed

theorem bson_to_zval_spec_witness:
  "\<exists>st. php_phongo_bson_to_zval_ex ref_decode_env (BufDocument (BDoc [(''a'', BNull)] DocOk) True) bson_state_init []
      = Some (True, st, [])
    \<and> st_zchild st = decoded ref_decode_env bson_state_init (BDoc [(''a'', BNull)] DocOk)"
proof -
  let ?d = "BDoc [(''a'', BNull)] DocOk"
  have q: "decode_quiet ref_decode_env bson_state_init ?d"
    by (simp add: decode_quiet_def bson_state_init_def root_quiet_def typemap_init_def elems_odm_def odm_step_def pclass_of_def)
  note t = bson_to_zval_spec[OF bson_state_init_ok, of ref_decode_env]
  obtain st ex1 where r: "php_phongo_bson_to_zval_ex ref_decode_env (BufDocument ?d True) bson_state_init [] = Some (True, st, ex1)"
    using t[of "BufDocument ?d True" "[]"] by auto
  then show ?thesis using t q by blast
qed

text \<open>
  C3: A type map the parser accepts makes the decoder safe: with any local value the code
  leaves in its uninitialised variable other than the class type, every well-formed document
  is decoded to the value of the specification.
\<close>

theorem typemap_decode_defined:
  assumes "php_phongo_bson_typemap_to_state (de_classes N) garbage typemap typemap_init = Some (None, tm)"
    and "garbage \<noteq> PHONGO_TYPEMAP_CLASS" and "doc_ok d"
  shows "\<exists>st ex1. php_phongo_bson_to_zval_ex N (BufDocument d True) (bson_state_init\<lparr>st_map := tm\<rparr>) [] = Some (True, st, ex1)
     \<and> (ex1 = [] \<longrightarrow> st_zchild st =
          root_value (de_classes N) tm (elems_odm (de_classes N) (doc_elems d) None) (dec_doc N tm [] False d))"
proof -
  have "typemap_ok (de_classes N) tm" using typemap_to_state_ok[OF assms(1) typemap_init_ok assms(2)] .
  then have "state_ok (de_classes N) (bson_state_init\<lparr>st_map := tm\<rparr>)"
    by (simp add: state_ok_def bson_state_init_def typemap_ok_iff)
  from to_zval_ex_ok[OF this assms(3), of "[]"] show ?thesis
    by (auto simp: decoded_def bson_state_init_def settles_def)
qed

theorem typemap_decode_defined_witness:
  "\<exists>tm st ex1. php_phongo_bson_to_zval_ex ref_decode_env (BufDocument (BDoc [(''a'', BNull)] DocOk) True)
       (bson_state_init\<lparr>st_map := tm\<rparr>) [] = Some (True, st, ex1) \<and> tm_root_type tm = PHONGO_TYPEMAP_NATIVE_ARRAY"
proof -
  let ?t = "Some [(KStr ''root'', ZString ''array'')]"
  have "\<exists>tm. php_phongo_bson_typemap_to_state (de_classes ref_decode_env) PHONGO_TYPEMAP_NONE ?t typemap_init = Some (None, tm)
      \<and> tm_root_type tm = PHONGO_TYPEMAP_NATIVE_ARRAY"
    by (simp add: php_phongo_bson_typemap_to_state_def php_phongo_bson_state_parse_type_def php_array_fetch_def
        symtable_key_def numeric_key_def is_digit_def c_strcaseeq_def c_str_def
        php_phongo_bson_state_parse_fieldpaths_def php_array_exists_def hash_exists_def)
  then obtain tm where tm: "php_phongo_bson_typemap_to_state (de_classes ref_decode_env) PHONGO_TYPEMAP_NONE ?t typemap_init = Some (None, tm)"
    "tm_root_type tm = PHONGO_TYPEMAP_NATIVE_ARRAY" by blast
  from typemap_decode_defined[OF tm(1), of "BDoc [(''a'', BNull)] DocOk"] tm(2) show ?thesis by auto
qed

text \<open>
  C4: The encoder always ends: on a heap of arrays and objects that may share and contain
  each other in cycles, with no object of a serialising class, fuel bounded by the depth of
  the value and the size of the heap is enough for it to return.
\<close>

theorem zval_to_bson_terminates:
  assumes "heap_ok E H" and "encodable E H z" and "\<forall>r. z \<noteq> ZRef r" and "\<forall>i. z \<noteq> ZCursorId i"
  shows "\<exists>doc' out ex'. php_phongo_zval_to_bson (enc_fuel H z) E H add_id return_id z doc ex = Some (doc', out, ex')"
  using zval_to_bson_total[OF assms order_refl] by (metis prod_cases3)

theorem zval_to_bson_terminates_witness:
  "\<exists>doc' out ex'. php_phongo_zval_to_bson (enc_fuel [CArray [(KInt 0, ZAddr 0)]] (ZAddr 0)) ref_encode_env
     [CArray [(KInt 0, ZAddr 0)]] False False (ZAddr 0) [] [] = Some (doc', out, ex')"
  by (rule zval_to_bson_terminates) (simp_all add: heap_ok_def)

text \<open>
  C5: An array or object that contains itself is reported once more: the element at
  which the cycle closes adds nothing to the document, raises the recursion error with the
  dotted path of that element, and leaves the path builder where it was.
\<close>

theorem encoder_detects_recursion:
  assumes "a \<in> set prot" and "a < length H" and "fp_winv fp"
  shows "\<exists>fp'. enc_append (Suc fuel) E H prot key (ZAddr a) (doc, fp, ex)
      = Some (doc, fp', recursion_exception (join_dots (fp_stack fp @ [key])) # ex)
    \<and> fp_winv fp' \<and> fp_stack fp' = fp_stack fp"
  using enc_recursion[OF assms] .

theorem encoder_detects_recursion_witness:
  "\<exists>fp'. enc_append 1 ref_encode_env [CStd [(KStr ''self'', ZAddr 0)]] [0] ''self'' (ZAddr 0) ([], php_phongo_field_path_alloc, [])
      = Some ([], fp', [recursion_exception ''self''])
    \<and> fp_winv fp' \<and> fp_stack fp' = []"
  using encoder_detects_recursion[of 0 "[0]" "[CStd [(KStr ''self'', ZAddr 0)]]" php_phongo_field_path_alloc 0
      ref_encode_env "''self''" "[]" "[]"] by (simp add: One_nat_def)

text \<open>
  C6: While an element is encoded the document only grows, the path builder ends where it
  began, and every exception raised that names a path names the element or one below it.
\<close>

theorem encoder_step:
  assumes "enc_append fuel E H prot key z (doc, fp, ex) = Some (doc', fp', ex')" and "fp_winv fp"
  shows "fp_winv fp' \<and> fp_stack fp' = fp_stack fp \<and> (\<exists>added. doc' = doc @ added)
    \<and> (\<exists>new. ex' = new @ ex \<and> (\<forall>x \<in> set new. exn_at E (fp_stack fp @ [key]) x))"
  using enc_steps(1)[OF assms(1)] assms(2) by (simp add: enc_step_def raised_def)

theorem encoder_step_witness:
  "\<exists>doc' fp' ex'. enc_append 2 ref_encode_env [] [] ''k'' (ZArray [(KStr ''r'', ZResource)]) ([], php_phongo_field_path_alloc, [])
      = Some (doc', fp', ex') \<and> fp_stack fp' = [] \<and> ex' = [unsupported_exception ''k.r'' ZResource]"
proof -
  let ?z = "ZArray [(KStr ''r'', ZResource)]"
  obtain doc' fp' ex' where r: "enc_append 2 ref_encode_env [] [] ''k'' ?z ([], php_phongo_field_path_alloc, []) = Some (doc', fp', ex')"
    using enc_total(1)[of ref_encode_env "[]" ?z "[]" 2 "([], php_phongo_field_path_alloc, [])" "''k''"]
    by (auto simp: heap_ok_def addr_fuel_def)
  have "case enc_append 2 ref_encode_env [] [] ''k'' ?z ([], php_phongo_field_path_alloc, []) of
      Some (d, p, x) \<Rightarrow> x = [unsupported_exception ''k.r'' ZResource] | None \<Rightarrow> False"
    by code_simp
  then have "ex' = [unsupported_exception ''k.r'' ZResource]" using r by simp
  then show ?thesis using encoder_step[OF r fp_winv_alloc] r fp_alloc_abs by auto
qed

section \<open>The path builder\<close>

text \<open>
  C7: The path builder is a stack of names: pushing appends a name, popping removes the
  last one, writing a name changes only the current entry, and each keeps the arrays
  consistent with the allocated size.
\<close>

theorem field_path_is_a_stack:
  assumes "fp_inv fp"
  shows "fp_inv (php_phongo_field_path_push fp k t) \<and> fp_stack (php_phongo_field_path_push fp k t) = fp_stack fp @ [k]
    \<and> (0 < fp_size fp \<longrightarrow> fp_inv (php_phongo_field_path_pop fp) \<and> fp_stack (php_phongo_field_path_pop fp) = butlast (fp_stack fp))
    \<and> fp_inv (php_phongo_field_path_write_item_at_current_level fp k)
       \<and> fp_stack (php_phongo_field_path_write_item_at_current_level fp k) = fp_stack fp"
  using push_refines[OF assms] pop_refines[OF assms] write_item_inv[OF assms] write_item_abs[OF assms] by auto

theorem field_path_is_a_stack_witness:
  "fp_stack (php_phongo_field_path_pop (php_phongo_field_path_push
       (php_phongo_field_path_push php_phongo_field_path_alloc ''a'' PHONGO_FIELD_PATH_ITEM_DOCUMENT) ''b'' PHONGO_FIELD_PATH_ITEM_ARRAY))
     = [''a'']"
proof -
  let ?a = "php_phongo_field_path_push php_phongo_field_path_alloc ''a'' PHONGO_FIELD_PATH_ITEM_DOCUMENT"
  let ?b = "php_phongo_field_path_push ?a ''b'' PHONGO_FIELD_PATH_ITEM_ARRAY"
  have a: "fp_inv ?a" "fp_stack ?a = [''a'']" using field_path_is_a_stack[OF fp_inv_alloc] by auto
  have b: "fp_inv ?b" "fp_stack ?b = [''a'', ''b'']" using field_path_is_a_stack[OF a(1)] a(2) by auto
  show ?thesis using field_path_is_a_stack[OF b(1)] b(2) by simp
qed

text \<open>
  C8: Printing the path of a builder that has allocated its arrays is defined exactly when
  the array has an entry at the current level and some entry holds a name; the text is then
  the names joined by dots.
\<close>

theorem field_path_as_string_defined_iff:
  assumes "fp_inv fp" and "fp_elements fp \<noteq> []"
  shows "php_phongo_field_path_as_string (Some fp) =
    (if length (fp_elements fp) \<le> fp_size fp then Inl PathReadOutOfBounds
     else if fp_names fp = [] then Inl PathWriteBeforeBuffer else Inr (join_dots (fp_names fp)))"
  using as_string_names[OF assms(1)] as_string_ok_iff[OF assms] copy_names[OF assms(1)] assms(2)
  by (auto simp: php_phongo_field_path_as_string_def)

theorem field_path_as_string_defined_iff_witness:
  "php_phongo_field_path_as_string (Some (php_phongo_field_path_push php_phongo_field_path_alloc ''a'' PHONGO_FIELD_PATH_ITEM_ARRAY))
     = Inr ''a''"
proof -
  let ?a = "php_phongo_field_path_push php_phongo_field_path_alloc ''a'' PHONGO_FIELD_PATH_ITEM_ARRAY"
  have i: "fp_inv ?a" "fp_names ?a = [''a'']" using push_refines[OF fp_inv_alloc] by (auto simp: fp_names_def)
  have e: "length (fp_elements ?a) = 8" "fp_size ?a = 1"
    by (auto simp: php_phongo_field_path_push_def php_phongo_field_path_write_item_at_current_level_def
        php_phongo_field_path_write_type_at_current_level_def php_phongo_field_path_ensure_allocation_def
        php_phongo_field_path_alloc_def field_path_expansion_def)
  have "fp_elements ?a \<noteq> []" using e(1) by (metis list.size(3) zero_neq_numeral)
  from field_path_as_string_defined_iff[OF i(1) this] i(2) e show ?thesis by simp
qed

text \<open>
  The decoder's error report is not safe: after an embedded document has been read and
  the next element is corrupt, every entry of the path is empty and the terminator is
  written before the buffer; and when a document at depth eight is corrupt before its first
  element, the path is read past its allocated entries.  Both decodes are undefined.
\<close>

lemma corrupt_report_undefined:
  "php_phongo_bson_to_zval_ex ref_decode_env
     (BufDocument (BDoc [(''a'', BDocument (BDoc [] DocOk))] (DocCorrupt 12)) True) bson_state_init [] = None
   \<and> php_phongo_bson_to_zval_ex ref_decode_env
     (BufDocument (BDoc [(''a'', BDocument (BDoc [(''b'', BDocument (BDoc [(''c'', BDocument (BDoc [(''d'', BDocument
       (BDoc [(''e'', BDocument (BDoc [(''f'', BDocument (BDoc [(''g'', BDocument (BDoc [(''h'', BDocument
         (BDoc [] (DocCorrupt 0)))] DocOk))] DocOk))] DocOk))] DocOk))] DocOk))] DocOk))] DocOk))] DocOk) True)
     bson_state_init [] = None"
  by (intro conjI; code_simp)

section \<open>Type maps\<close>

text \<open>
  The key of a field path is cut at its dots: the pattern stored for an accepted key has
  the segments of the key, none of them empty and none with a dot, and joining them gives
  the key back.
\<close>

lemma field_path_key_segments:
  assumes "php_phongo_bson_state_add_field_path tm key type ce = Some (None, tm')"
  shows "\<exists>me. tm_field_paths tm' = tm_field_paths tm @ [me] \<and> fp_inv (me_entry me)
    \<and> join_dots (fp_stack (me_entry me)) = c_str key
    \<and> (\<forall>s \<in> set (fp_stack (me_entry me)). s \<noteq> [] \<and> CHR ''.'' \<notin> set s)"
proof -
  obtain entry where e: "push_segments php_phongo_field_path_alloc (c_str key) = Some entry"
    "tm' = tm\<lparr>tm_field_paths := tm_field_paths tm @ [\<lparr>me_entry = entry, me_node_type = type, me_node_ce = ce\<rparr>]\<rparr>"
    "c_str key \<noteq> []" "last (c_str key) \<noteq> CHR ''.''"
    using assms by (auto simp: php_phongo_bson_state_add_field_path_def Let_def split: if_splits option.splits)
  have st: "fp_stack entry = split_dots (c_str key)" "fp_inv entry" using push_segments_refines[OF e(1)] by auto
  have "[] \<notin> set (butlast (split_dots (c_str key)))" using e(1) by (auto simp: push_segments_split split: if_splits)
  moreover have "last (split_dots (c_str key)) \<noteq> []" using last_split_dots e(3,4) by blast
  ultimately have "[] \<notin> set (split_dots (c_str key))"
    by (metis append_butlast_last_id set_ConsD split_dots_not_Nil Un_iff set_append list.set(1) emptyE)
  then show ?thesis using st e(2) split_dots_no_dot[of _ "c_str key"] join_split_dots[of "c_str key"] by auto
qed

lemma field_path_key_segments_witness:
  "\<exists>(tm' :: php_phongo_bson_typemap) me. tm_field_paths tm' = [me] \<and> join_dots (fp_stack (me_entry me)) = ''a.$.b''"
proof -
  have "\<exists>tm'. php_phongo_bson_state_add_field_path typemap_init ''a.$.b'' PHONGO_TYPEMAP_NATIVE_ARRAY None = Some (None, tm')"
    by (simp add: php_phongo_bson_state_add_field_path_def c_str_def push_segments_split)
  then obtain tm' where "php_phongo_bson_state_add_field_path typemap_init ''a.$.b'' PHONGO_TYPEMAP_NATIVE_ARRAY None = Some (None, tm')"
    by blast
  from field_path_key_segments[OF this] obtain me where "tm_field_paths tm' = [me]"
    "join_dots (fp_stack (me_entry me)) = ''a.$.b''" by (auto simp: typemap_init_def c_str_def)
  then show ?thesis by blast
qed

text \<open>
  The type of a compound value is that of the first field path whose pattern matches
  its path segment by segment, with \<^verbatim>\<open>$\<close> as a wildcard for one segment, and the default
  otherwise.
\<close>

lemma field_path_lookup:
  assumes "typemap_ok E tm" and "fp_inv current"
  shows "php_phongo_handle_field_path_entry_for_compound_type tm current out = path_entry tm (fp_stack current) out"
  using handle_entry_path[of E tm current out] assms by (simp add: typemap_ok_iff)

lemma field_path_lookup_witness:
  "php_phongo_handle_field_path_entry_for_compound_type typemap_init php_phongo_field_path_alloc (PHONGO_TYPEMAP_NONE, None)
     = (PHONGO_TYPEMAP_NONE, None)"
  using field_path_lookup[OF typemap_init_ok fp_inv_alloc, of "(PHONGO_TYPEMAP_NONE, None)"]
  by (simp add: path_entry_def typemap_init_def)

text \<open>
  A field path given with an empty class name takes its type from an uninitialised
  variable: when that happens to be the class type, the type map is accepted with a null
  class, and a document at that path is decoded into an object of no class.
\<close>

lemma field_path_uninitialised_type:
  "\<exists>tm. php_phongo_bson_typemap_to_state ref_class_env PHONGO_TYPEMAP_CLASS
       (Some [(KStr ''fieldPaths'', ZArray [(KStr ''a'', ZString [])])]) typemap_init = Some (None, tm)
     \<and> \<not> typemap_ok ref_class_env tm
     \<and> php_phongo_bson_to_zval_ex ref_decode_env (BufDocument (BDoc [(''a'', BDocument (BDoc [] DocOk))] DocOk) True)
         (bson_state_init\<lparr>st_map := tm\<rparr>) [] = None"
  by (simp add: php_phongo_bson_typemap_to_state_def php_phongo_bson_state_parse_type_def php_array_fetch_def
        symtable_key_def numeric_key_def is_digit_def c_str_def php_phongo_bson_state_parse_fieldpaths_def
        php_array_exists_def hash_exists_def php_array_fetch_array_def php_phongo_bson_state_add_field_path_def
        push_segments_split typemap_init_def typemap_ok_def type_ok_def php_phongo_bson_to_zval_ex_def bson_state_init_def
        finish_document_def document_type_of_def php_phongo_handle_field_path_entry_for_compound_type_def
        map_find_field_path_entry_def map_element_matches_field_path_def child_state_def Let_def
        php_phongo_field_path_alloc_def php_phongo_field_path_push_def unserialize_object_def
        php_phongo_field_path_write_item_at_current_level_def php_phongo_field_path_write_type_at_current_level_def
        php_phongo_field_path_ensure_allocation_def field_path_expansion_def)

section \<open>The BSON classes\<close>

text \<open>
  C9: Serialising an object of a BSON class and unserialising the text restores it: for
  every valid object of the classes below, \<^verbatim>\<open>unserialize(serialize(o))\<close> is o, whatever the
  engine's serialiser, \<^verbatim>\<open>strtoll\<close> and libbson's ObjectId functions, as long as they keep
  their documented contracts.
\<close>

theorem bson_serialize_roundtrip:
  assumes "serializer_contract S" and "strtoll_contract f" and "oid_contract B"
  shows "(int64_valid i \<longrightarrow> Int64_unserialize S f (Int64_serialize S i) i0 = Some (Inr i))
    \<and> (utcdatetime_valid u \<longrightarrow> UTCDateTime_unserialize S f (UTCDateTime_serialize S u) u0 = Some (Inr u))
    \<and> (ts_initialized t \<longrightarrow> Timestamp_unserialize S f (Timestamp_serialize S t) t0 = Some (Inr t))
    \<and> (objectid_valid B oid \<longrightarrow> ObjectId_unserialize S B (ObjectId_serialize S oid) oid0 = Some (Inr oid))
    \<and> (dbpointer_valid B p \<longrightarrow> DBPointer_unserialize S B (DBPointer_serialize S p) p0 = Some (Inr p))
    \<and> (binary_valid b \<longrightarrow> Binary_unserialize S (Binary_serialize S b) b0 = Some (Inr b))
    \<and> (regex_valid r \<longrightarrow> Regex_unserialize S (Regex_serialize S r) r0 = Some (Inr r))
    \<and> (symbol_valid y \<longrightarrow> Symbol_unserialize S (Symbol_serialize S y) y0 = Some (Inr y))
    \<and> (decimal128_valid D d \<longrightarrow> Decimal128_unserialize S D (Decimal128_serialize S D d) d0 = Some (Inr d))
    \<and> (cursorid_valid c \<longrightarrow> CursorId_unserialize S f (CursorId_serialize S c) c0 = Some (Inr c))"
  using php_codec.unserialize_roundtrip[OF int64_codec[OF assms(2)] _ assms(1)]
    php_codec.unserialize_roundtrip[OF utcdatetime_codec[OF assms(2)] _ assms(1)]
    php_codec.unserialize_roundtrip[OF timestamp_codec[OF assms(2)] _ assms(1)]
    php_codec.unserialize_roundtrip[OF objectid_codec[OF assms(3)] _ assms(1)]
    dbpointer.unserialize_roundtrip[OF _ assms(1)] binary.unserialize_roundtrip[OF _ assms(1)]
    regex.unserialize_roundtrip[OF _ assms(1)] symbol.unserialize_roundtrip[OF _ assms(1)]
    decimal128.unserialize_roundtrip[OF _ assms(1)]
    php_codec.unserialize_roundtrip[OF cursorid_codec[OF assms(2)] _ assms(1)]
  by (simp add: Int64_unserialize_def Int64_serialize_def UTCDateTime_unserialize_def UTCDateTime_serialize_def
      Timestamp_unserialize_def Timestamp_serialize_def ObjectId_unserialize_def ObjectId_serialize_def
      DBPointer_unserialize_def DBPointer_serialize_def Binary_unserialize_def Binary_serialize_def
      Regex_unserialize_def Regex_serialize_def Symbol_unserialize_def Symbol_serialize_def
      Decimal128_unserialize_def Decimal128_serialize_def CursorId_unserialize_def CursorId_serialize_def)

theorem bson_serialize_roundtrip_witness:
  "Int64_unserialize ref_serializer ref_strtoll (Int64_serialize ref_serializer \<lparr>i64_initialized = True, i64_integer = -7\<rparr>)
     php_phongo_int64_create_object = Some (Inr \<lparr>i64_initialized = True, i64_integer = -7\<rparr>)"
  using bson_serialize_roundtrip[OF ref_serializer_contract ref_strtoll_contract ref_oid_contract,
      of "\<lparr>i64_initialized = True, i64_integer = -7\<rparr>" php_phongo_int64_create_object]
  by (simp add: int64_valid_def int64_range_def)









text \<open>
  A date made of milliseconds and turned into a PHP \<^verbatim>\<open>DateTime\<close> and back is the same
  number of milliseconds, before the epoch too, and the microseconds handed to PHP are less
  than a second.
\<close>

lemma utcdatetime_datetime_roundtrip:
  "\<exists>sse us. UTCDateTime_toDateTime s = ZDate sse us \<and> \<bar>us\<bar> < 1000000
     \<and> udt_milliseconds (php_phongo_utcdatetime_init_from_date s0 sse us) = udt_milliseconds s"
  using toDateTime_back[of s _ _ s0] c_rem_bounds[of 1000 "udt_milliseconds s"]
  by (simp add: UTCDateTime_toDateTime_def abs_mult)

text \<open>
  The \<^verbatim>\<open>Regex\<close> constructor accepts exactly patterns and flags without null bytes; the
  flags are kept as a sorted permutation of what was given, so two regexes with the same
  flags in a different order are equal.
\<close>

lemma regex_flags_normalised:
  "(case Regex___construct pattern (Some flags) r0 of
      (None, r) \<Rightarrow> CHR 0x00 \<notin> set pattern \<and> CHR 0x00 \<notin> set flags \<and> re_pattern r = Some pattern
         \<and> (\<exists>fs. re_flags r = Some fs \<and> mset fs = mset flags \<and> sorted (map c_char_value fs))
    | (Some e, r) \<Rightarrow> (CHR 0x00 \<in> set pattern \<or> CHR 0x00 \<in> set flags) \<and> ex_class e = InvalidArgumentException)"
  by (auto simp: Regex___construct_def php_phongo_regex_init_def c_strlen_full_iff ptr_bytes_def Let_def
      qsort_flags_mset qsort_flags_sorted)

text \<open>
  Unserialising a text that holds a number where the array of properties should be
  makes every class look up a key in a null table.
\<close>

lemma unserialize_scalar_undefined:
  assumes "serializer_contract S"
  shows "Int64_unserialize S f (var_serialize S (ZLong n)) i0 = None
    \<and> ObjectId_unserialize S B (var_serialize S (ZLong n)) oid0 = None
    \<and> Binary_unserialize S (var_serialize S (ZLong n)) b0 = None
    \<and> Regex_unserialize S (var_serialize S (ZLong n)) r0 = None
    \<and> Javascript_unserialize S fuel E H (var_serialize S (ZLong n)) j0 ex = None"
  using assms by (auto simp: serializer_contract_def Int64_unserialize_def ObjectId_unserialize_def Binary_unserialize_def
      Regex_unserialize_def Javascript_unserialize_def unserialize_with_def)

lemma unserialize_scalar_undefined_witness:
  "Int64_unserialize ref_serializer ref_strtoll ''i:5;'' php_phongo_int64_create_object = None"
proof -
  have "var_serialize ref_serializer (ZLong 5) = ''i:5;''" by code_simp
  then show ?thesis using unserialize_scalar_undefined[OF ref_serializer_contract, of ref_strtoll 5] by metis
qed

text \<open>
  Code with a scope: the scope given to the constructor of \<^verbatim>\<open>Javascript\<close> as an object of
  encodable values is what \<^verbatim>\<open>getScope\<close> returns, and \<^verbatim>\<open>getCode\<close> returns the code.
\<close>

lemma javascript_scope_roundtrip:
  assumes "rt_root E False h" and "to_elems E h = Some es" and "envs_agree E N" and "bdepth h < fuel"
    and "CHR 0x00 \<notin> set code"
  shows "\<exists>js. Javascript___construct fuel E H code (Some (ZStd h)) s0 [] = Some (True, js, [])
    \<and> Javascript_getCode js = ZString code \<and> Javascript_getScope N js [] = Some (ZStd h, [])"
  using javascript_construct_scope[OF assms] .

lemma javascript_scope_roundtrip_witness:
  "\<exists>js. Javascript_getCode js = ZString ''f(x)'' \<and> Javascript_getScope ref_decode_env js [] = Some (ZStd sample_table, [])"
proof -
  obtain es where "to_elems ref_encode_env sample_table = Some es" using sample_table_ok(2) by auto
  from javascript_scope_roundtrip[OF sample_table_ok(1) this sample_table_ok(3,4), of "''f(x)''" "[]"
      php_phongo_javascript_create_object] show ?thesis by auto
qed

text \<open>
  A clone of a \<^verbatim>\<open>Javascript\<close> object is equal to the original when it has a scope; when it
  has none the copy of the missing scope fails its assertion.
\<close>

lemma javascript_clone_needs_scope:
  assumes "Javascript___construct fuel E H code scope php_phongo_javascript_create_object [] = Some (True, js, [])"
  shows "php_phongo_javascript_clone_object fuel E H js [] = (if js_scope js = None then None else Some (js, []))"
  using javascript_clone javascript_init_valid assms unfolding Javascript___construct_def by blast

lemma javascript_clone_needs_scope_witness:
  "\<exists>js. Javascript___construct 1 ref_encode_env [] ''f'' None php_phongo_javascript_create_object [] = Some (True, js, [])
     \<and> php_phongo_javascript_clone_object 1 ref_encode_env [] js [] = None"
proof -
  let ?js = "\<lparr>js_code = Some ''f'', js_scope = None\<rparr>"
  have c: "Javascript___construct 1 ref_encode_env [] ''f'' None php_phongo_javascript_create_object [] = Some (True, ?js, [])"
    by (simp add: Javascript___construct_def php_phongo_javascript_init_def c_strlen_def c_str_def
        php_phongo_javascript_create_object_def)
  from javascript_clone_needs_scope[OF c] c show ?thesis by auto
qed

text \<open>
  What \<^verbatim>\<open>var_export\<close> prints for a \<^verbatim>\<open>CursorId\<close> on a 64-bit platform, its \<^verbatim>\<open>__set_state\<close>
  refuses: the table holds an integer and only a string is taken.
\<close>

lemma cursorid_set_state_refuses_export:
  assumes "cid_initialized s"
  shows "\<exists>e. CursorId___set_state f (php_phongo_cursorid_get_properties_hash 8 False False None s) = Inl e
     \<and> ex_class e = InvalidArgumentException"
  using cursorid_var_export_refused[OF assms] .

lemma cursorid_set_state_refuses_export_witness:
  "\<exists>e. CursorId___set_state ref_strtoll [(KStr ''id'', ZLong 7)] = Inl e \<and> ex_class e = InvalidArgumentException"
  using cursorid_set_state_refuses_export[of "\<lparr>cid_initialized = True, cid_id = 7\<rparr>" ref_strtoll]
  by (simp add: php_phongo_cursorid_get_properties_hash_def get_property_hash_init_props_def)

section \<open>Errors\<close>


text \<open>
  C14: An error with a well-formed reply raises one exception more, with the error's message and
  code.  It is a CommandException holding a result document exactly for server errors other than
  ExceededTimeLimit and for write concern errors, and \<^verbatim>\<open>hasErrorLabel\<close> finds exactly the labels
  the reply carries at its top level, in its write concern error, or in its list of them.
\<close>

theorem command_error_report:
  assumes "doc_ok reply"
    and r: "r \<longleftrightarrow> err_domain error = MONGOC_ERROR_SERVER \<and> err_code error \<noteq> 50 \<or> err_domain error = MONGOC_ERROR_WRITE_CONCERN"
  shows "\<exists>e. phongo_throw_exception_from_bson_error_t_and_reply N K error (Some reply) ex = Some (e # ex)
     \<and> ex_message e = c_str (err_message error) \<and> ex_code e = err_code error
     \<and> ex_class e = (if r then CommandException
                     else phongo_exception_from_mongoc_domain K (err_domain error) (err_code error))
     \<and> (if r then \<exists>ex0 ex1. php_phongo_bson_to_zval N (BufDocument reply True) ex0 = Some (True, CommandException_getResultDocument e, ex1)
        else CommandException_getResultDocument e = ZNull)
     \<and> (\<forall>label. RuntimeException_hasErrorLabel e label \<longleftrightarrow> (\<exists>l \<in> set (reply_labels reply). c_str l = c_str label))"
proof (cases "reports_result_document error")
  case True
  then have r': r using r by (simp add: reports_result_document_def PHONGO_SERVER_ERROR_EXCEEDED_TIME_LIMIT_def)
  from throw_with_document[OF True assms(1)] obtain zv where
      t: "phongo_throw_exception_from_bson_error_t_and_reply N K error (Some reply) ex
       = Some (phongo_exception_add_error_labels (Some reply)
         (Exn CommandException (c_str (err_message error)) (err_code error) [(''resultDocument'', zv)] # ex))"
    and d: "\<exists>ex0 ex1. php_phongo_bson_to_zval N (BufDocument reply True) ex0 = Some (True, zv, ex1)" by blast
  obtain e where e: "phongo_exception_add_error_labels (Some reply)
      (Exn CommandException (c_str (err_message error)) (err_code error) [(''resultDocument'', zv)] # ex) = e # ex"
    using add_error_labels_Cons by blast
  have "CommandException_getResultDocument e = zv"
    using add_error_labels_head[OF e, of "''resultDocument''"] by (simp add: CommandException_getResultDocument_def exn_property_def)
  then show ?thesis using t e r' d add_error_labels_head[OF e] has_label_added[OF _ e] by simp
next
  case False
  then have r': "\<not> r" using r by (simp add: reports_result_document_def PHONGO_SERVER_ERROR_EXCEEDED_TIME_LIMIT_def)
  define e0 where "e0 = zend_throw_exception (phongo_exception_from_mongoc_domain K (err_domain error) (err_code error))
    (err_message error) (err_code error)"
  obtain e where e: "phongo_exception_add_error_labels (Some reply) (e0 # ex) = e # ex"
    using add_error_labels_Cons by blast
  have t: "phongo_throw_exception_from_bson_error_t_and_reply N K error (Some reply) ex = Some (e # ex)"
    using throw_without_document[of "Some reply" error N K ex] False e by (simp add: e0_def)
  show ?thesis using t r' add_error_labels_head[OF e, of "''resultDocument''"] has_label_added[OF _ e]
    by (simp add: e0_def zend_throw_exception_def CommandException_getResultDocument_def exn_property_def)
qed

theorem command_error_report_witness:
  "\<exists>e. phongo_throw_exception_from_bson_error_t_and_reply ref_decode_env ref_error_codes
       \<lparr>err_domain = MONGOC_ERROR_SERVER, err_code = 11000, err_message = ''dup''\<rparr>
       (Some (BDoc [(''errorLabels'', BArray (BDoc [(''0'', BUtf8 ''Transient'')] DocOk))] DocOk)) [] = Some [e]
     \<and> ex_class e = CommandException \<and> RuntimeException_hasErrorLabel e ''Transient''
     \<and> \<not> RuntimeException_hasErrorLabel e ''Other''"
  using command_error_report[of "BDoc [(''errorLabels'', BArray (BDoc [(''0'', BUtf8 ''Transient'')] DocOk))] DocOk" True
      "\<lparr>err_domain = MONGOC_ERROR_SERVER, err_code = 11000, err_message = ''dup''\<rparr>"
      ref_decode_env ref_error_codes "[]"]
  by (auto simp: reply_labels_def
      bson_find_def label_array_def document_labels_def c_str_def List.map_filter_simps)

text \<open>
  The error objects of a write result take their fields from the server's document whatever
  its shape, but a document without an "errmsg" string leaves the message a null pointer, of which
  \<^verbatim>\<open>getMessage\<close> and \<^verbatim>\<open>var_dump\<close> take the length.
\<close>

lemma write_error_fields:
  assumes "bson_find bson ''errInfo'' = None"
  shows "\<exists>we wce. phongo_writeerror_init N bson ex = Some (True, we, ex)
     \<and> phongo_writeconcernerror_init N bson ex = Some (True, wce, ex)
     \<and> WriteError_getCode we = ZLong (find_int32 bson ''code'') \<and> WriteConcernError_getCode wce = WriteError_getCode we
     \<and> WriteError_getIndex we = ZLong (find_int32 bson ''index'')
     \<and> WriteError_getInfo we = ZNull \<and> WriteConcernError_getInfo wce = ZNull
     \<and> WriteError_getMessage we = map_option (\<lambda>m. ZString (c_str m)) (find_utf8 bson ''errmsg'')
     \<and> WriteConcernError_getMessage wce = WriteError_getMessage we
     \<and> (php_phongo_writeerror_get_debug_info we = None \<longleftrightarrow> (\<forall>s. bson_find bson ''errmsg'' \<noteq> Some (BUtf8 s)))
     \<and> (php_phongo_writeconcernerror_get_debug_info wce = None \<longleftrightarrow> (\<forall>s. bson_find bson ''errmsg'' \<noteq> Some (BUtf8 s)))"
  using assms
  by (auto simp: phongo_writeerror_init_def phongo_writeconcernerror_init_def find_info_def WriteError_getCode_def
      WriteConcernError_getCode_def WriteError_getIndex_def WriteError_getInfo_def WriteConcernError_getInfo_def info_zval_def
      WriteError_getMessage_def WriteConcernError_getMessage_def php_phongo_writeerror_get_debug_info_def
      php_phongo_writeconcernerror_get_debug_info_def find_utf8_def split: option.splits bval.splits)

lemma write_error_fields_witness:
  "\<exists>we. phongo_writeerror_init ref_decode_env (BDoc [(''code'', BInt32 5)] DocOk) [] = Some (True, we, [])
     \<and> WriteError_getMessage we = None \<and> php_phongo_writeerror_get_debug_info we = None"
  using write_error_fields[of "BDoc [(''code'', BInt32 5)] DocOk" ref_decode_env "[]"]
  by (auto simp: bson_find_def find_utf8_def)

text \<open>
  A namespace is split exactly at its first dot, a namespace without one is refused, and
  the two parts with a dot between them are the namespace again.
\<close>

lemma namespace_split:
  "(phongo_split_namespace ns = Some (db, coll) \<longleftrightarrow> c_str ns = db @ CHR ''.'' # coll \<and> CHR ''.'' \<notin> set db)
   \<and> (phongo_split_namespace ns = None \<longleftrightarrow> CHR ''.'' \<notin> set (c_str ns))"
  using split_namespace_Some_iff split_namespace_None_iff by blast

section \<open>Cursors\<close>





text \<open>
  C17: \<^verbatim>\<open>toArray\<close> ends on a cursor that was not iterated before, advanced by its constructor or
  not, and returns the array of its documents in order, each decoded under the cursor's type map,
  if the libmongoc cursor delivers finitely many documents that can be decoded.
\<close>

theorem cursor_to_array:
  assumes "cur_current cur = 0" and "cursor_ahead M cur ds" and "cursor_ready N cur ds"
  shows "\<exists>cur'. Cursor_toArray N K M cur = Some (ZArray (list_table (map (decoded N (cur_visitor_data cur)) ds)), cur', [])
     \<and> \<not> Cursor_valid cur'"
proof (rule toArray_collects)
  show "cursor_fresh N M cur (map (decoded N (cur_visitor_data cur)) ds)"
    using assms by (auto simp: cursor_fresh_def)
qed

theorem cursor_to_array_witness:
  "\<exists>cur'. Cursor_toArray ref_decode_env ref_error_codes ref_cursor_ops
       (phongo_cursor_init ref_cursor_ops ZNull ([BDoc [(''x'', BInt32 1)] DocOk, BDoc [] DocOk], None) None None)
     = Some (ZArray [(KInt 0, ZStd [(KStr ''x'', ZLong 1)]), (KInt 1, ZStd [])], cur', [])"
proof -
  let ?cur = "phongo_cursor_init ref_cursor_ops ZNull ([BDoc [(''x'', BInt32 1)] DocOk, BDoc [] DocOk], None) None None"
  let ?ds = "[BDoc [(''x'', BInt32 1)] DocOk, BDoc [] DocOk]"
  have i: "cur_visitor_data ?cur = bson_state_init" "cur_current ?cur = 0"
    by (simp_all add: phongo_cursor_init_def)
  have a: "cursor_ahead ref_cursor_ops ?cur ?ds"
    by (simp add: cursor_ahead_def phongo_cursor_init_def ref_cursor_ops_def)
  have d: "list_all (decodable ref_decode_env bson_state_init) ?ds"
    "decoded ref_decode_env bson_state_init (BDoc [(''x'', BInt32 1)] DocOk) = ZStd [(KStr ''x'', ZLong 1)]"
    "decoded ref_decode_env bson_state_init (BDoc [] DocOk) = ZStd []"
    by code_simp+
  have "cursor_ready ref_decode_env ?cur ?ds"
    using d(1) cursor_init_inv by (simp add: cursor_ready_def i) (simp add: bson_state_init_def)
  from cursor_to_array[OF i(2) a this, of ref_error_codes] show ?thesis
    by (auto simp: i d(2,3) list_table_from_def)
qed

text \<open>
  The class a document names in its "__pclass" field outlives the document: the cursor
  decodes the next document, which names none, into an object of that class, where the decoder
  with a state of its own makes it a plain object.
\<close>

lemma cursor_class_leaks:
  "Option.bind (Cursor_rewind ref_decode_env ref_error_codes ref_cursor_ops (phongo_cursor_init ref_cursor_ops ZNull
         ([BDoc [(''__pclass'', BBinary 0x80 ''Doc'')] DocOk, BDoc [(''x'', BInt32 1)] DocOk], None) None None) [])
       (\<lambda>(cur1, ex1). map_option (\<lambda>(cur2, ex2). (Cursor_current cur2, ex2))
         (Cursor_next ref_decode_env ref_error_codes ref_cursor_ops cur1 ex1))
     = Some (ZClass ''Doc'' [(KStr ''x'', ZLong 1)], [])
   \<and> php_phongo_bson_to_zval ref_decode_env (BufDocument (BDoc [(''x'', BInt32 1)] DocOk) True) []
     = Some (True, ZStd [(KStr ''x'', ZLong 1)], [])"
  by code_simp

section \<open>Option objects\<close>

text \<open>
  C18: What a constructor of an option object makes without an exception survives
  \<^verbatim>\<open>serialize\<close> and \<^verbatim>\<open>unserialize\<close>: the new object shows the same level, the same w, journal
  and timeout, the same API version and flags.  For a read concern a level is needed, and for a
  write concern a w that fits 32 bits.
\<close>

theorem option_objects_roundtrip:
  assumes "serializer_contract S" and "serializer_nonempty S"
  shows "(read_concern_contract R \<and> rc = ReadConcern___construct R (Some level) php_phongo_readconcern_create_object \<longrightarrow>
      (\<exists>t. ReadConcern_unserialize S R (the (ReadConcern_serialize S R rc)) php_phongo_readconcern_create_object = Some (t, None)
         \<and> readconcern_view R t = readconcern_view R rc))
   \<and> (write_concern_contract W \<and> strtoll_contract f
       \<and> WriteConcern___construct W w wtimeout journal php_phongo_writeconcern_create_object = (wc, None)
       \<and> (\<forall>i. w = ZLong i \<longrightarrow> i \<le> 2147483647) \<and> (\<forall>i. wtimeout = Some i \<longrightarrow> int64_range i) \<longrightarrow>
      (\<exists>t. WriteConcern_unserialize S f W (the (WriteConcern_serialize S W wc)) php_phongo_writeconcern_create_object = Some (t, None)
         \<and> writeconcern_view W t = writeconcern_view W wc))
   \<and> (server_api_contract A \<and> ServerApi___construct A version strict dep php_phongo_serverapi_create_object = (sa, None) \<longrightarrow>
      (\<exists>t. ServerApi_unserialize S A (the (ServerApi_serialize S A sa)) php_phongo_serverapi_create_object = Some (t, None)
         \<and> serverapi_view A t = serverapi_view A sa))"
  using readconcern_serialize_restores[OF _ assms] writeconcern_serialize_restores[OF _ _ assms]
    serverapi_serialize_restores[OF _ assms] by blast

theorem option_objects_roundtrip_witness:
  "\<exists>t. WriteConcern_unserialize ref_serializer ref_strtoll ref_write_concern_ops (the (WriteConcern_serialize ref_serializer
       ref_write_concern_ops (fst (WriteConcern___construct ref_write_concern_ops (ZLong 2) (Some 500) None php_phongo_writeconcern_create_object))))
     php_phongo_writeconcern_create_object = Some (t, None)"
proof -
  let ?wc = "fst (WriteConcern___construct ref_write_concern_ops (ZLong 2) (Some 500) None php_phongo_writeconcern_create_object)"
  have c: "WriteConcern___construct ref_write_concern_ops (ZLong 2) (Some 500) None php_phongo_writeconcern_create_object = (?wc, None)"
    by (simp add: WriteConcern___construct_def construct_journal_def construct_wtimeout_def ref_write_concern_ops_def Let_def int32_of_eq)
  show ?thesis
    using option_objects_roundtrip[OF ref_serializer_contract ref_serializer_nonempty, THEN conjunct2, THEN conjunct1, rule_format,
        of ref_write_concern_ops ref_strtoll "ZLong 2" "Some 500" None ?wc] c ref_write_concern_contract ref_strtoll_contract
    by (simp add: int64_range_def) blast
qed

text \<open>
  w is stored in 32 bits.  A constructor call with a number from -3 up, whose low 32 bits
  are no less than -3 either, makes a write concern whose w is those 32 bits: the number itself
  up to \<^verbatim>\<open>INT32_MAX\<close>, and for 2^32 an unacknowledged write concern.
\<close>

lemma writeconcern_w_bounds:
  assumes "write_concern_contract W" and "-3 \<le> w" and "-3 \<le> int32_of w"
  shows "(\<exists>s e. WriteConcern___construct W (ZLong w) None None s0 = (s, e)
      \<and> WriteConcern_getW W s = Some (if int32_of w = MONGOC_WRITE_CONCERN_W_MAJORITY W then ZString PHONGO_WRITE_CONCERN_W_MAJORITY
          else if int32_of w = MONGOC_WRITE_CONCERN_W_DEFAULT W then ZNull else ZLong (int32_of w)))
    \<and> (w \<le> 2147483647 \<longrightarrow> int32_of w = w) \<and> int32_of 4294967296 = 0"
  using construct_w[OF assms] assms(2) by (auto simp: int32_of_eq intro!: signed_take_bit_int_eq_self)

lemma writeconcern_w_bounds_witness:
  "\<exists>s e. WriteConcern___construct ref_write_concern_ops (ZLong 4294967296) None None php_phongo_writeconcern_create_object = (s, e)
     \<and> WriteConcern_getW ref_write_concern_ops s = Some (ZLong 0)"
  using writeconcern_w_bounds[OF ref_write_concern_contract, of 4294967296 php_phongo_writeconcern_create_object]
  by (simp add: int32_of_eq ref_write_concern_ops_def)

text \<open>
  C19: A read preference always has one of the five modes, tag sets that are documents and a
  staleness that is none or in range; with mode primary it has no tag set, no hedge and no
  staleness.  Neither the constructor nor \<^verbatim>\<open>init_from_hash\<close>, whether they fail or not, leaves an
  object with another one.
\<close>

theorem readpreference_invariant:
  assumes "read_prefs_contract R" and "readpreference_ok R s"
    and "ReadPreference___construct f E H L R mode tagSets options s ex = Some (s1, ex1)
      \<or> php_phongo_readpreference_init_from_hash f E H R props s ex = Some (ok, s1, ex1)"
    and "rpf_read_preference s1 = Some rp"
  shows "mongoc_read_prefs_get_mode R rp \<in> set (read_modes R)
    \<and> list_all (\<lambda>(k, v). \<exists>d. v = BDocument d) (doc_elems (mongoc_read_prefs_get_tags R rp))
    \<and> (mongoc_read_prefs_get_max_staleness_seconds R rp = MONGOC_NO_MAX_STALENESS R
       \<or> mongoc_read_prefs_get_max_staleness_seconds R rp \<in> {MONGOC_SMALLEST_MAX_STALENESS_SECONDS R .. 2147483647})
    \<and> (mongoc_read_prefs_get_mode R rp = MONGOC_READ_PRIMARY R \<longrightarrow>
         doc_elems (mongoc_read_prefs_get_tags R rp) = [] \<and> doc_elems (mongoc_read_prefs_get_hedge R rp) = []
         \<and> mongoc_read_prefs_get_max_staleness_seconds R rp = MONGOC_NO_MAX_STALENESS R)"
proof -
  have "readpreference_ok R s1"
    using construct_keeps_ok[OF assms(1,2)] init_from_hash_keeps_ok[OF assms(1,2)] assms(3) by blast
  then have r: "rp_ok R rp" using assms(4) by (simp add: readpreference_ok_def)
  have "list_all (\<lambda>(k, v). \<exists>d. v = BDocument d) (doc_elems (mongoc_read_prefs_get_tags R rp))"
    using r by (auto simp: rp_ok_def php_phongo_read_preference_tags_are_valid_def bson_empty_def list_all_iff split: bval.splits)
  then show ?thesis using r by (auto simp: rp_ok_def bson_empty_def)
qed

theorem readpreference_invariant_witness:
  "ReadPreference___construct 1 ref_encode_env [] (\<lambda>z. 0) ref_read_prefs_ops (ZString ''Secondary'') None
       (Some [(KStr ''maxStalenessSeconds'', ZLong 120)]) php_phongo_readpreference_create_object []
     = Some (\<lparr>rpf_read_preference = Some \<lparr>rpv_mode = 2, rpv_tags = BDoc [] DocOk, rpv_max_staleness = 120, rpv_hedge = BDoc [] DocOk\<rparr>\<rparr>, [])
   \<and> (2::int) \<in> set (read_modes ref_read_prefs_ops)"
proof -
  let ?rp = "\<lparr>rpv_mode = 2, rpv_tags = BDoc [] DocOk, rpv_max_staleness = 120, rpv_hedge = BDoc [] DocOk\<rparr>"
  have c: "ReadPreference___construct 1 ref_encode_env [] (\<lambda>z. 0) ref_read_prefs_ops (ZString ''Secondary'') None
       (Some [(KStr ''maxStalenessSeconds'', ZLong 120)]) php_phongo_readpreference_create_object [] = Some (\<lparr>rpf_read_preference = Some ?rp\<rparr>, [])"
    by code_simp
  have ok: "readpreference_ok ref_read_prefs_ops php_phongo_readpreference_create_object"
    by (simp add: readpreference_ok_def php_phongo_readpreference_create_object_def)
  show ?thesis using readpreference_invariant[OF ref_read_prefs_contract ok disjI1[OF c], of ?rp] c
    by (simp add: ref_read_prefs_ops_def read_modes_def)
qed

section \<open>Sessions\<close>

text \<open>
  C20: A session object holds its client session until \<^verbatim>\<open>endSession\<close> is called and not longer:
  whatever calls come after that, each raises a LogicException, another \<^verbatim>\<open>endSession\<close> apart,
  and nothing reaches libmongoc.
\<close>

theorem session_ended:
  assumes "destroys_nothing (sv_ops V)" and "session_run V before s w = Some (s1, w1, exs)"
  shows "ses_client_session s1 = (if CallEndSession \<in> set before then None else ses_client_session s)
    \<and> (CallEndSession \<in> set before \<longrightarrow> session_run V after s1 w1 = Some (s1, w1, map ended_exceptions after)
         \<and> list_all (\<lambda>c. c = CallEndSession \<or> (\<exists>e. ended_exceptions c = [e] \<and> ex_class e = LogicException)) after)"
  using session_run_keeps[OF assms(2)] ended_run[OF assms(1), of s1 after w1]
  by (auto simp: list_all_iff ended_exceptions_def)

theorem session_ended_witness:
  "session_run \<lparr>sv_fuel = 1, sv_encode = ref_encode_env, sv_heap = [], sv_decode = ref_decode_env, sv_codes = ref_error_codes,
       sv_long = (\<lambda>z. 0), sv_call = (\<lambda>z m. Inr ZNull), sv_store = [], sv_ops = ref_session_ops, sv_txn = ref_transaction_ops,
       sv_rc = ref_read_concern_ops, sv_wc = ref_write_concern_ops\<rparr> [CallCommitTransaction, CallEndSession]
       (\<lparr>ses_client_session = None, ses_manager = ZNull, ses_created_by_pid = 1\<rparr>) [7]
     = Some (\<lparr>ses_client_session = None, ses_manager = ZNull, ses_created_by_pid = 1\<rparr>, [7], map ended_exceptions [CallCommitTransaction, CallEndSession])"
  (is "session_run ?V _ _ _ = _")
proof -
  let ?s = "\<lparr>ses_client_session = Some (7::nat), ses_manager = ZNull, ses_created_by_pid = 1\<rparr>"
  have "session_run ?V [CallEndSession] ?s [] = Some (?s\<lparr>ses_client_session := None\<rparr>, [7], [[]])"
    by (simp add: session_step_def Session_endSession_def ref_session_ops_def)
  from session_ended[OF _ this, of "[CallCommitTransaction, CallEndSession]"] ref_session_destroys
  show ?thesis by (simp del: session_run.simps list.map)
qed

section \<open>Bulk writes\<close>

text \<open>
  C21: Along any calls of \<^verbatim>\<open>insert\<close>, \<^verbatim>\<open>update\<close> and \<^verbatim>\<open>delete\<close>, failing or not, \<^verbatim>\<open>count\<close> is the number of
  operations that libmongoc's bulk operation holds, each call without an exception has added
  one, and each operation is of the right kind: updates have operators or a pipeline,
  replacements neither, only updates are sent with a true "multi", and the "limit" of a delete
  is 1 exactly when it is for one document.
\<close>

theorem bulkwrite_operations:
  assumes "append_contract G" and "bulk_contract B view"
    and "bulk_run G N K B calls (BulkWrite___construct B options s0) = Some (s, exs)"
  shows "\<exists>b. blk_bulk s = Some b \<and> BulkWrite_count s = ZLong (int (length (view b))) \<and> list_all bulk_op_ok (view b)
    \<and> (list_all (\<lambda>ex. ex = []) exs \<longrightarrow> length (view b) = length calls)"
proof -
  have i: "bulkwrite_inv view (BulkWrite___construct B options s0)" by (rule construct_inv[OF assms(2)])
  have "blk_num_ops (BulkWrite___construct B options s0) = 0"
    by (simp add: BulkWrite___construct_def Let_def split: option.split)
  then show ?thesis using bulk_run_inv[OF assms(1,2) i assms(3)] bulk_run_counts[OF assms(3)]
    by (auto simp: bulkwrite_inv_def BulkWrite_count_def)
qed

theorem bulkwrite_operations_witness:
  "\<exists>s exs b. bulk_run \<lparr>op_fuel = 1, op_encode = ref_encode_env, op_heap = [], op_long = (\<lambda>z. 0), op_type_name = (\<lambda>z. []),
        op_append = (\<lambda>es e. Some (es @ [e])), op_validate_empty_keys = (\<lambda>d. True)\<rparr> ref_decode_env ref_error_codes ref_bulk_ops
      [BulkUpdate (ZArray []) (ZArray [(KStr ''x'', ZLong 1)]) None, BulkDelete (ZArray []) (Some [(KStr ''limit'', ZLong 1)])]
      (BulkWrite___construct ref_bulk_ops None php_phongo_bulkwrite_create_object) = Some (s, exs)
    \<and> blk_bulk s = Some b \<and> length b = 2 \<and> list_all bulk_op_ok b"
proof -
  let ?G = "\<lparr>op_fuel = 1, op_encode = ref_encode_env, op_heap = [], op_long = (\<lambda>z. 0), op_type_name = (\<lambda>z. []),
        op_append = (\<lambda>es e. Some (es @ [e])), op_validate_empty_keys = (\<lambda>d. True)\<rparr>"
  let ?calls = "[BulkUpdate (ZArray []) (ZArray [(KStr ''x'', ZLong 1)]) None, BulkDelete (ZArray []) (Some [(KStr ''limit'', ZLong 1)])]"
  have e: "map_option snd (bulk_run ?G ref_decode_env ref_error_codes ref_bulk_ops ?calls
      (BulkWrite___construct ref_bulk_ops None php_phongo_bulkwrite_create_object)) = Some [[], []]"
    by code_simp
  then obtain s where s: "bulk_run ?G ref_decode_env ref_error_codes ref_bulk_ops ?calls
      (BulkWrite___construct ref_bulk_ops None php_phongo_bulkwrite_create_object) = Some (s, [[], []])"
    by (cases "bulk_run ?G ref_decode_env ref_error_codes ref_bulk_ops ?calls
      (BulkWrite___construct ref_bulk_ops None php_phongo_bulkwrite_create_object)") auto
  from bulkwrite_operations[OF _ ref_bulk_contract s] s show ?thesis by (auto simp: append_contract_def)
qed



text \<open>
  C23: A bulk write that libmongoc reports as failed, for other reasons than invalid arguments, ends
  in a BulkWriteException with the write result in its "writeResult" property; when the error is
  not a server's there is, below it, one exception of the class of the error.
\<close>

theorem bulk_write_failure:
  assumes "mongoc_bulk_operation_execute B = (\<lambda>b w. ((False, reply, error), [], b, g w))"
    and "\<not> (err_domain error = MONGOC_ERROR_COMMAND \<and> err_code error = MONGOC_ERROR_COMMAND_INVALID_ARG (xe_codes X))"
    and "phongo_execute_bulk_write X B wrap D manager client ns bw options server_id w ex = Some (ok, Some wr, bw1, w1, ex1)"
  shows "\<not> ok \<and> wrs_reply wr = reply \<and> w1 = g w \<and> (\<exists>e rest. ex1 = e # rest \<and> ex_class e = BulkWriteException
    \<and> exn_property e ''writeResult'' = wrap wr
    \<and> (if err_domain error = MONGOC_ERROR_SERVER \<or> err_domain error = MONGOC_ERROR_WRITE_CONCERN then rest = ex
       else \<exists>p. rest = p # ex \<and> ex_class p = phongo_exception_from_mongoc_domain (xe_codes X) (err_domain error) (err_code error)))"
proof -
  have sent: "\<not> ok \<and> wrs_reply wr = reply \<and> w1 = g w \<and> bulk_write_failed (xe_decode X) (xe_codes X) error reply (wrap wr) ex = Some ex1"
    if "bulk_write_send X B wrap m cl server_id db coll cs h wc bw0 b0 w ex = Some (ok, Some wr, bw1, w1, ex1)" for m cl db coll cs h wc bw0 b0
    using that by (auto simp: bulk_write_send_def Let_def assms(1) phongo_writeresult_init_def)
  have "\<not> ok \<and> wrs_reply wr = reply \<and> w1 = g w \<and> bulk_write_failed (xe_decode X) (xe_codes X) error reply (wrap wr) ex = Some ex1"
    using assms(3) by (auto simp: phongo_execute_bulk_write_def Let_def bind_Some_iff
        dest!: sent split: if_split_asm option.splits sum.splits prod.splits)
  then show ?thesis using bulk_failure[OF _ assms(2)] by blast
qed

theorem bulk_write_failure_witness:
  "\<exists>wr bw1 e. phongo_execute_bulk_write (ref_exec_env [])
        (ref_bulk_ops\<lparr>mongoc_bulk_operation_execute := (\<lambda>b w. ((False, BDoc [(''n'', BInt32 0)] DocOk,
           \<lparr>err_domain = MONGOC_ERROR_SERVER, err_code = 11000, err_message = ''duplicate key''\<rparr>), [], b, 1 # w))\<rparr>)
        (\<lambda>r. ZString ''result'') [] ZNull 0 ''db.coll'' (BulkWrite___construct ref_bulk_ops None php_phongo_bulkwrite_create_object) None 1 [] []
      = Some (False, Some wr, bw1, [1], [e]) \<and> ex_class e = BulkWriteException \<and> exn_property e ''writeResult'' = ZString ''result''"
proof -
  let ?e = "\<lparr>err_domain = MONGOC_ERROR_SERVER, err_code = 11000, err_message = ''duplicate key''\<rparr>"
  let ?r = "BDoc [(''n'', BInt32 0)] DocOk"
  let ?B = "ref_bulk_ops\<lparr>mongoc_bulk_operation_execute := (\<lambda>b w. ((False, ?r, ?e), [], b, 1 # w))\<rparr>"
  let ?x = "phongo_execute_bulk_write (ref_exec_env []) ?B (\<lambda>r. ZString ''result'') [] ZNull 0 ''db.coll''
     (BulkWrite___construct ref_bulk_ops None php_phongo_bulkwrite_create_object) None 1 [] []"
  have "map_option (\<lambda>(ok, wr, t). wr \<noteq> None) ?x = Some True" by code_simp
  then obtain ok wr bw1 w1 ex1 where x: "?x = Some (ok, Some wr, bw1, w1, ex1)" by (cases ?x) auto
  have "mongoc_bulk_operation_execute ?B = (\<lambda>b w. ((False, ?r, ?e), [], b, 1 # w))" by simp
  from bulk_write_failure[OF this _ x] x show ?thesis by auto
qed

section \<open>Queries and commands\<close>

text \<open>
  C24: The options a query sends have no key twice and only keys the constructor knows, and a limit
  that is not negative, whatever it is constructed with and whether it fails or not; the
  maximal await time and the batch size of a command are unsigned 32-bit integers.
\<close>

theorem query_options_unique:
  assumes "append_contract G"
  shows "(Query___construct G D filt options q0 [] = Some (q, ex) \<longrightarrow>
      distinct (map fst (qry_opts (fst q))) \<and> set (map fst (qry_opts (fst q))) \<subseteq> set query_keys
      \<and> (\<forall>i. map_of (qry_opts (fst q)) ''limit'' = Some (BInt64 i) \<longrightarrow> 0 \<le> i))
    \<and> (Command___construct G document options c0 [] = Some (c, ex) \<longrightarrow>
      cmd_max_await_time_ms c \<in> {0 .. 4294967295} \<and> cmd_batch_size c \<in> {0 .. 4294967295})"
  using query_init_opts[OF assms, of D filt options q0 "[]" _ q ex] command_init_ranges[of G document options c0 "[]" _ c ex]
  by (auto simp: Query___construct_def Command___construct_def opts_upto_def uint32_range_def uint32_max_def dest: map_of_SomeD)

theorem query_options_unique_witness:
  "\<exists>c ex. Command___construct \<lparr>op_fuel = 1, op_encode = ref_encode_env, op_heap = [], op_long = (\<lambda>z. 500), op_type_name = (\<lambda>z. []),
        op_append = (\<lambda>es e. Some (es @ [e])), op_validate_empty_keys = (\<lambda>d. True)\<rparr> (ZArray [(KStr ''ping'', ZLong 1)])
      (Some [(KStr ''maxAwaitTimeMS'', ZLong 500)]) php_phongo_command_create_object [] = Some (c, ex)
    \<and> cmd_max_await_time_ms c \<in> {0 .. 4294967295}"
proof -
  let ?G = "\<lparr>op_fuel = 1, op_encode = ref_encode_env, op_heap = [], op_long = (\<lambda>z. 500), op_type_name = (\<lambda>z. []),
        op_append = (\<lambda>es e. Some (es @ [e])), op_validate_empty_keys = (\<lambda>d. True)\<rparr>"
  have c: "Command___construct ?G (ZArray [(KStr ''ping'', ZLong 1)]) (Some [(KStr ''maxAwaitTimeMS'', ZLong 500)])
      php_phongo_command_create_object [] = Some (\<lparr>cmd_bson = [(''ping'', BInt32 1)], cmd_max_await_time_ms = 500, cmd_batch_size = 0\<rparr>, [])"
    by code_simp
  have "append_contract ?G" by (simp add: append_contract_def)
  from query_options_unique[OF this, THEN conjunct2, rule_format, OF c] c show ?thesis by blast
qed

text \<open>
  C25: A query without execute options on a namespace with a dot returns a cursor, without an
  exception and advanced to its first document, and \<^verbatim>\<open>toArray\<close> on it gives all documents of the
  server's answer in order, each decoded, if they can be decoded and options can be appended.
\<close>

theorem query_documents:
  assumes "answers X ds" and "list_all (decodable (xe_decode X) bson_state_init) ds"
    and "phongo_split_namespace ns = Some (db, coll)" and "\<forall>es e. xe_append X es e \<noteq> None"
  shows "\<exists>cur w1 cur1. phongo_execute_query X D manager client ns zq q None server_id w [] = Some (Some cur, w1, [])
    \<and> cur_database cur = Some db \<and> cur_collection cur = Some coll \<and> cur_advanced cur
    \<and> Cursor_toArray (xe_decode X) K (xe_cursor X) cur
        = Some (ZArray (list_table (map (decoded (xe_decode X) bson_state_init) ds)), cur1, [])"
proof -
  obtain cur w1 where q: "phongo_execute_query X D manager client ns zq q None server_id w [] = Some (Some cur, w1, [])"
    and c: "cursor_fresh (xe_decode X) (xe_cursor X) cur (map (decoded (xe_decode X) bson_state_init) ds)"
      "cur_database cur = Some db" "cur_collection cur = Some coll" "cur_advanced cur"
    using query_returns[OF assms] by blast
  from toArray_collects[OF c(1), of K] q c(2-4) show ?thesis by blast
qed

theorem query_documents_witness:
  "\<exists>cur w1 cur1. phongo_execute_query (ref_exec_env [BDoc [(''x'', BInt32 1)] DocOk, BDoc [] DocOk]) [] ZNull 0 ''db.coll'' ZNull
         php_phongo_query_create_object None 1 [] [] = Some (Some cur, w1, [])
     \<and> Cursor_toArray ref_decode_env ref_error_codes ref_cursor_ops cur
         = Some (ZArray [(KInt 0, ZStd [(KStr ''x'', ZLong 1)]), (KInt 1, ZStd [])], cur1, [])"
proof -
  let ?ds = "[BDoc [(''x'', BInt32 1)] DocOk, BDoc [] DocOk]"
  have d: "list_all (decodable (xe_decode (ref_exec_env ?ds)) bson_state_init) ?ds"
    "map (decoded ref_decode_env bson_state_init) ?ds = [ZStd [(KStr ''x'', ZLong 1)], ZStd []]"
    "phongo_split_namespace ''db.coll'' = Some (''db'', ''coll'')"
    by code_simp+
  have "\<forall>es e. xe_append (ref_exec_env ?ds) es e \<noteq> None" by (simp add: ref_exec_env_def)
  from query_documents[OF ref_answers d(1,3) this, of "[]" ZNull 0 ZNull php_phongo_query_create_object 1 "[]" ref_error_codes]
  show ?thesis unfolding ref_exec_env_simps d(2) by (auto simp: list_table_from_def)
qed

text \<open>
  C26: Of the objects in the store a command adds at most one session, the implicit one: the cursor
  that is returned holds it, and without a cursor it has been freed.  With options that cannot be
  parsed, or combine a session with an unacknowledged write concern, nothing is sent.
\<close>

theorem command_sessions:
  assumes "phongo_execute_command X D manager client type db zc command options server_id w ex = Some (result, cur, D1, w1, ex1)"
  shows "result = (cur \<noteq> None)
    \<and> (D1 = D \<and> (\<forall>c a. cur = Some c \<and> cur_session c = ZAddr a \<longrightarrow> (\<exists>s. obj_at D (ZAddr a) = Some (DSession s)))
      \<or> cur = None \<and> D1 = D @ [DFreed]
      \<or> (\<exists>c s. cur = Some c \<and> D1 = D @ [DSession s] \<and> cur_session c = ZAddr (length D)))
    \<and> (\<forall>e. parse_command_options X D client type options = Some (Inl e) \<longrightarrow> \<not> result \<and> D1 = D \<and> w1 = w \<and> ex1 = e # ex)
    \<and> (\<forall>co. parse_command_options X D client type options = Some (Inr co) \<and> co_session co \<noteq> None \<longrightarrow> \<not> co_unacknowledged co
      \<and> (\<exists>cs. session_from_zval D (co_session co) = Some cs \<and> mongoc_client_session_get_client (xe_parse X) cs = client))"
proof -
  have B: "\<forall>e. parse_command_options X D client type options = Some (Inl e) \<longrightarrow> \<not> result \<and> D1 = D \<and> w1 = w \<and> ex1 = e # ex"
    using command_conflict[of X D client type options _ manager db zc command server_id w ex] assms by force
  have C: "\<forall>co. parse_command_options X D client type options = Some (Inr co) \<and> co_session co \<noteq> None \<longrightarrow> \<not> co_unacknowledged co
      \<and> (\<exists>cs. session_from_zval D (co_session co) = Some cs \<and> mongoc_client_session_get_client (xe_parse X) cs = client)"
    by (auto dest!: parsed_command)
  show ?thesis
    by (intro conjI command_store[OF assms, THEN conjunct1] command_store[OF assms, THEN conjunct2] B C)
qed

theorem command_sessions_witness:
  "\<exists>cur s w1. phongo_execute_command (ref_exec_env []) [] ZNull 0 PHONGO_COMMAND_READ ''db'' ZNull php_phongo_command_create_object None 1 [] []
       = Some (True, Some cur, [DSession s], w1, []) \<and> cur_session cur = ZAddr 0"
proof -
  let ?x = "phongo_execute_command (ref_exec_env []) [] ZNull 0 PHONGO_COMMAND_READ ''db'' ZNull php_phongo_command_create_object None 1 [] []"
  have "map_option (\<lambda>(r, c, D, w, e). (r, length D, e)) ?x = Some (True, 1, [])" by code_simp
  then obtain cur D1 w1 where x: "?x = Some (True, cur, D1, w1, [])" "length D1 = 1" by (cases ?x) auto
  from command_sessions[OF x(1)] x show ?thesis by fastforce
qed


section \<open>URI options\<close>

text \<open>
  C27: The loop over the options leaves the write concern that the options describe: w of the last
  "w" option, or of the last "safe" option when there is no "w", and the last "journal" and
  "wtimeoutMS"; what no option names stays as it was in the URI.  It is refused exactly when an
  option has a wrong value ("safe" is not looked at after a "w"), when the result asks for
  journaling of unacknowledged writes, or when libmongoc finds it invalid.
\<close>

theorem uri_write_concern_equivalence:
  assumes "uri_contract U" and "write_concern_contract W"
    and "mongoc_uri_get_write_concern U uri = Some old_wc" and "\<not> bson_empty options"
  shows "case php_phongo_apply_wc_options_to_uri U W options uri of
      Inl e \<Rightarrow> \<not> (wc_options_ok U W (doc_elems options)
               \<and> \<not> wc_view_conflict W (wc_spec U W (doc_elems options) (wc_view W old_wc))
               \<and> wc_view_valid W (wc_spec U W (doc_elems options) (wc_view W old_wc)))
    | Inr u \<Rightarrow> wc_options_ok U W (doc_elems options)
        \<and> (\<exists>wc. mongoc_uri_get_write_concern U u = Some wc
             \<and> wc_view W wc = wc_spec U W (doc_elems options) (wc_view W old_wc)
             \<and> \<not> wc_view_conflict W (wc_view W wc) \<and> wc_view_valid W (wc_view W wc))"
  using uri_write_concern[OF assms] .

definition sample_wc_options :: bdoc where
  "sample_wc_options = BDoc [(''safe'', BBool True), (''W'', BUtf8 ''Majority''), (''safe'', BNull),
     (''wTimeoutMS'', BInt64 500), (''w'', BInt32 2), (''journal'', BBool True)] DocOk"

theorem uri_write_concern_equivalence_witness:
  "\<exists>u wc. php_phongo_apply_wc_options_to_uri ref_uri_ops ref_write_concern_ops sample_wc_options ref_uri_start = Inr u
     \<and> mongoc_uri_get_write_concern ref_uri_ops u = Some wc
     \<and> wc = \<lparr>wcv_wtag = None, wcv_w = 2, wcv_majority = False, wcv_journal = Some True, wcv_wtimeout = 500\<rparr>"
proof -
  let ?r = "php_phongo_apply_wc_options_to_uri ref_uri_ops ref_write_concern_ops sample_wc_options ref_uri_start"
  have e: "\<not> bson_empty sample_wc_options" "is_ok ?r"
    "wc_spec ref_uri_ops ref_write_concern_ops (doc_elems sample_wc_options) (mongoc_write_concern_new ref_write_concern_ops)
       = \<lparr>wcv_wtag = None, wcv_w = 2, wcv_majority = False, wcv_journal = Some True, wcv_wtimeout = 500\<rparr>"
    "mongoc_uri_get_write_concern ref_uri_ops ref_uri_start = Some (mongoc_write_concern_new ref_write_concern_ops)"
    by code_simp+
  from uri_write_concern_equivalence[OF ref_uri_contract ref_write_concern_contract e(4,1)] e(2)
  show ?thesis unfolding ref_wc_view e(3) by (cases ?r) auto
qed



text \<open>
  The staleness is checked against the mode as it is when its option is reached: with a URI
  whose mode is primary, "maxStalenessSeconds" followed by "readPreference" secondary is refused,
  and the same two options the other way round are accepted.
\<close>

lemma uri_staleness_order:
  assumes "uri_contract U" and "read_prefs_contract RP"
    and "mongoc_uri_get_read_prefs_t U uri = Some old_rp" and "rp_is_primary RP old_rp"
    and "MONGOC_SMALLEST_MAX_STALENESS_SECONDS RP \<le> s" and "s \<le> 2147483647" and "s \<noteq> MONGOC_NO_MAX_STALENESS RP"
    and "\<And>rp. rp_ok RP rp \<Longrightarrow> mongoc_read_prefs_is_valid RP rp" and "rp_loop_ok RP old_rp"
  shows "php_phongo_apply_rp_options_to_uri U RP (staleness_first U s) uri
      = Inl (invalid_argument ''Primary read preference mode conflicts with maxStalenessSeconds'')
    \<and> (\<exists>u rp. php_phongo_apply_rp_options_to_uri U RP (mode_first U s) uri = Inr u
      \<and> mongoc_uri_get_read_prefs_t U u = Some rp \<and> mongoc_read_prefs_get_mode RP rp = MONGOC_READ_SECONDARY RP
      \<and> mongoc_read_prefs_get_max_staleness_seconds RP rp = s)"
  using staleness_order[OF assms] by blast

lemma uri_staleness_order_witness:
  "\<not> is_ok (php_phongo_apply_rp_options_to_uri ref_uri_ops ref_read_prefs_ops (staleness_first ref_uri_ops 90) ref_uri_start)
   \<and> is_ok (php_phongo_apply_rp_options_to_uri ref_uri_ops ref_read_prefs_ops (mode_first ref_uri_ops 90) ref_uri_start)"
proof -
  have e: "mongoc_uri_get_read_prefs_t ref_uri_ops ref_uri_start = Some (mongoc_read_prefs_new ref_read_prefs_ops 1)"
    "rp_is_primary ref_read_prefs_ops (mongoc_read_prefs_new ref_read_prefs_ops 1)"
    "rp_loop_ok ref_read_prefs_ops (mongoc_read_prefs_new ref_read_prefs_ops 1)"
    "MONGOC_SMALLEST_MAX_STALENESS_SECONDS ref_read_prefs_ops = 90" "MONGOC_NO_MAX_STALENESS ref_read_prefs_ops = -1"
    by code_simp+
  have v: "rp_ok ref_read_prefs_ops rp \<Longrightarrow> mongoc_read_prefs_is_valid ref_read_prefs_ops rp" for rp
    by (auto simp: rp_ok_def ref_read_prefs_ops_def)
  have "MONGOC_SMALLEST_MAX_STALENESS_SECONDS ref_read_prefs_ops \<le> 90" "(90::int) \<noteq> MONGOC_NO_MAX_STALENESS ref_read_prefs_ops"
    using e(4,5) by simp_all
  from uri_staleness_order[OF ref_uri_contract ref_read_prefs_contract e(1,2) this(1) _ this(2) v e(3)]
  show ?thesis by auto
qed

text \<open>
  C29: A URI whose options were applied passed the checks across options: with mechanism GSSAPI or
  MONGODB-X509 the authSource is "$external", MONGODB-X509 has no password, every other mechanism
  but MONGODB-AWS, and any other authSource without a mechanism, has a user name; a direct
  connection has one host and no SRV record.
\<close>

theorem uri_options_consistent:
  assumes "uri_contract U" and "\<not> bson_empty options" and "php_phongo_apply_options_to_uri U options uri = Inr u"
  shows "uri_auth_ok U u \<and> uri_direct_ok U u"
  using uri_options_ok[OF assms] .

theorem uri_options_consistent_witness:
  "\<exists>u. php_phongo_apply_options_to_uri ref_uri_ops (BDoc [(''authMechanism'', BUtf8 ''MONGODB-X509'')] DocOk) ref_uri_start = Inr u
     \<and> uri_auth_source ref_uri_ops u = Some external_source \<and> uri_auth_ok ref_uri_ops u \<and> uri_direct_ok ref_uri_ops u"
proof -
  let ?d = "BDoc [(''authMechanism'', BUtf8 ''MONGODB-X509'')] DocOk"
  let ?r = "php_phongo_apply_options_to_uri ref_uri_ops ?d ref_uri_start"
  have e: "\<not> bson_empty ?d"
    "(case ?r of Inr u \<Rightarrow> Some (uri_auth_source ref_uri_ops u) | Inl e \<Rightarrow> None) = Some (Some external_source)"
    by code_simp+
  then obtain u where u: "?r = Inr u" by (cases ?r) auto
  from uri_options_consistent[OF ref_uri_contract e(1) u] u e(2) show ?thesis by auto
qed

text \<open>
  A TLS driver option whose value is not a string or null is freed through a pointer that the
  allocator did not return, unless the engine keeps the text of the value interned; every other
  value is copied into the URI.
\<close>

lemma tls_driver_option_defined:
  assumes "php_array_fetch zoptions key = Some z"
  shows "(php_phongo_apply_driver_option_to_uri U E interned zoptions key k uri = None) = (converted_string z \<and> \<not> interned z)"
  using apply_driver_option_defined[OF assms] .

lemma tls_driver_option_defined_witness:
  "php_phongo_apply_driver_option_to_uri ref_uri_ops ref_class_env (\<lambda>z. False) [(KStr ''pem_pwd'', ZLong 1234)] ''pem_pwd''
     MONGOC_URI_TLSCERTIFICATEKEYFILEPASSWORD ref_uri_start = None"
proof -
  have "php_array_fetch [(KStr ''pem_pwd'', ZLong 1234)] ''pem_pwd'' = Some (ZLong 1234)" by code_simp
  from tls_driver_option_defined[OF this, of ref_uri_ops ref_class_env "\<lambda>z. False"
      MONGOC_URI_TLSCERTIFICATEKEYFILEPASSWORD ref_uri_start]
  show ?thesis by simp
qed

section \<open>Clients, processes and Managers\<close>

text \<open>
  C30: Whatever processes do - start, fork, make and register clients, reset them before a use,
  free Managers, start and end requests and themselves, in any order - the calls to libmongoc
  keep a protocol: a process resets a client at most once, clears the callbacks of a client and
  destroys it only when it made it, at most once, and touches it no more afterwards.
\<close>

theorem client_call_protocol:
  assumes "sys_reachable D S"
  shows "log_ok (sys_made S) (sys_log S)"
  using sys_reachable_ok[OF assms] by (simp add: system_ok_def)

theorem client_call_protocol_witness:
  "log_ok (sys_made ref_forked) (sys_log ref_forked) \<and> sys_made ref_forked 7 = Some 1 \<and> sys_globals ref_forked 2 = Some ref_globals"
  using client_call_protocol[OF ref_forked_reachable]
  by (simp add: ref_forked_def ref_registered_def run_in_def)




lemma ref_manager_init:
  "case phongo_manager_init (ref_manager_env True) ref_store PHONGO_MANAGER_URI_DEFAULT None None ref_manager_state [] of
     Some (ok, t, ex1) \<Rightarrow> ok \<and> mi_client (ms_intern t) = Some 0 | None \<Rightarrow> False"
  "case phongo_manager_init (ref_manager_env False) ref_store PHONGO_MANAGER_URI_DEFAULT None None ref_manager_state [] of
     Some (ok, t, ex1) \<Rightarrow> \<not> ok \<and> mi_client (ms_intern t) = Some 0 | None \<Rightarrow> False"
  by code_simp+


text \<open>
  C33: When the construction of a Manager fails after libmongoc's client was made, the Manager has
  the client and no registry does; the end of the Manager does not destroy it, and neither does
  the end of the request or of the process: the client is lost.
\<close>

theorem failed_manager_loses_client:
  assumes "phongo_manager_init V D u options driverOptions s ex = Some (False, t, ex1)"
    and "mi_client (ms_intern t) = Some c" and "c \<notin> pc_client ` set (client_entries (ms_globals s))"
  shows "c \<notin> pc_client ` set (client_entries (ms_globals t))
    \<and> ms_calls (php_phongo_manager_free_object pid a t) = ms_calls s
    \<and> client_entries (ms_globals (php_phongo_manager_free_object pid a t)) = client_entries (ms_globals s)"
  using failed_manager_keeps_client[OF assms] .

theorem failed_manager_loses_client_witness:
  "\<exists>t ex1. phongo_manager_init (ref_manager_env False) ref_store PHONGO_MANAGER_URI_DEFAULT None None ref_manager_state [] = Some (False, t, ex1)
     \<and> mi_client (ms_intern t) = Some 0 \<and> ms_calls (php_phongo_manager_free_object 1 0 t) = []"
proof -
  obtain t ex1 where t: "phongo_manager_init (ref_manager_env False) ref_store PHONGO_MANAGER_URI_DEFAULT None None ref_manager_state [] = Some (False, t, ex1)"
    "mi_client (ms_intern t) = Some 0" using ref_manager_init(2) by (auto split: option.splits prod.splits)
  have "0 \<notin> pc_client ` set (client_entries (ms_globals ref_manager_state))" "ms_calls ref_manager_state = []"
    by (simp_all add: ref_manager_state_def client_entries_def request_entries_def RINIT_def globals_init_def index_empty_def)
  with failed_manager_loses_client[OF t this(1), of 1 0] have "ms_calls (php_phongo_manager_free_object 1 0 t) = []" by simp
  with t show ?thesis by blast
qed

section \<open>Operations of a Manager\<close>

text \<open>
  C34: With options that the operation accepts, each execute method of a Manager is the method of
  Server on the server that is selected by the session and the read preference of these very
  options; reads follow the read preference, writes go to a primary, and a selection that fails
  ends the method.
\<close>

theorem manager_executes_on_selected_server:
  assumes m: "obj_at D manager = Some (DManager intern)"
  shows "(parse_command_options X D (mgr_client intern) PHONGO_COMMAND_RAW (php_phongo_prep_legacy_option options ''readPreference'') = Some (Inr co) \<longrightarrow>
      Manager_executeCommand X M D manager intern db zc command options w ex
      = on_selected_server X M D False False (co_read_preference co) (co_session co) (mgr_client intern) w ex
          (\<lambda>w1 ex1. Some (False, None, D, w1, ex1))
          (\<lambda>n. Server_executeCommand X D (server_of manager intern n) db zc command options))
   \<and> (parse_command_options X D (mgr_client intern) PHONGO_COMMAND_READ options = Some (Inr co) \<longrightarrow>
      Manager_executeReadCommand X M D manager intern db zc command options w ex
      = on_selected_server X M D False True (co_read_preference co) (co_session co) (mgr_client intern) w ex
          (\<lambda>w1 ex1. Some (False, None, D, w1, ex1))
          (\<lambda>n. Server_executeReadCommand X D (server_of manager intern n) db zc command options))
   \<and> (parse_command_options X D (mgr_client intern) PHONGO_COMMAND_WRITE options = Some (Inr co) \<longrightarrow>
      Manager_executeWriteCommand X M D manager intern db zc command options w ex
      = on_selected_server X M D True False None (co_session co) (mgr_client intern) w ex
          (\<lambda>w1 ex1. Some (False, None, D, w1, ex1))
          (\<lambda>n. Server_executeWriteCommand X D (server_of manager intern n) db zc command options))
   \<and> (parse_command_options X D (mgr_client intern) PHONGO_COMMAND_READ_WRITE options = Some (Inr co) \<longrightarrow>
      Manager_executeReadWriteCommand X M D manager intern db zc command options w ex
      = on_selected_server X M D True False None (co_session co) (mgr_client intern) w ex
          (\<lambda>w1 ex1. Some (False, None, D, w1, ex1))
          (\<lambda>n. Server_executeReadWriteCommand X D (server_of manager intern n) db zc command options))
   \<and> (phongo_parse_session (xe_parse X) D (php_phongo_prep_legacy_option options ''readPreference'') (mgr_client intern) mo = Some (Inr (mo', zs))
        \<and> phongo_parse_read_preference D (php_phongo_prep_legacy_option options ''readPreference'') = Inr zrp \<longrightarrow>
      Manager_executeQuery X M D manager intern ns zquery query options w ex
      = on_selected_server X M D False True zrp zs (mgr_client intern) w ex (\<lambda>w1 ex1. Some (None, w1, ex1))
          (\<lambda>n. Server_executeQuery X D (server_of manager intern n) ns zquery query options))
   \<and> (phongo_parse_session (xe_parse X) D (php_phongo_prep_legacy_option options ''writeConcern'') (mgr_client intern) mo = Some (Inr (mo', zs)) \<longrightarrow>
      Manager_executeBulkWrite X B M wrap D manager intern ns bulk options w ex
      = on_selected_server X M D True False None zs (mgr_client intern) w ex (\<lambda>w1 ex1. Some (False, None, bulk, w1, ex1))
          (\<lambda>n. Server_executeBulkWrite X B wrap D (server_of manager intern n) ns bulk options))"
  by (intro conjI impI; (elim conjE)?;
      rule command_methods_selected[OF m] manager_query_selected[OF m] manager_bulk_selected[OF m]; assumption)

definition sample_manager_store :: "(string option, read_prefs_view, write_concern_view, nat, nat) store" where
  "sample_manager_store = [DManager ref_manager]"

theorem manager_executes_on_selected_server_witness:
  "\<exists>c D w. Manager_executeWriteCommand (ref_exec_env []) ref_server_ops sample_manager_store (ZAddr 0) ref_manager ''db'' (ZAddr 9)
       \<lparr>cmd_bson = [(''ping'', BInt32 1)], cmd_max_await_time_ms = 0, cmd_batch_size = 0\<rparr> None [] []
     = Some (True, Some c, D, w, []) \<and> w = [2, 4]"
proof -
  let ?cmd = "\<lparr>cmd_bson = [(''ping'', BInt32 1)], cmd_max_await_time_ms = 0, cmd_batch_size = 0\<rparr>"
  have m: "obj_at sample_manager_store (ZAddr 0) = Some (DManager ref_manager)" by (simp add: sample_manager_store_def)
  have p: "parse_command_options (ref_exec_env []) sample_manager_store (mgr_client ref_manager) PHONGO_COMMAND_WRITE None
      = Some (Inr \<lparr>co_opts = [], co_read_preference = None, co_session = None, co_unacknowledged = False\<rparr>)"
    by code_simp
  have s: "php_phongo_manager_select_server (ref_exec_env []) ref_server_ops sample_manager_store True False None None 7 [] []
      = Some (Some 1, [4], [])" by code_simp
  have r: "case Server_executeWriteCommand (ref_exec_env []) sample_manager_store (server_of (ZAddr 0) ref_manager 1) ''db'' (ZAddr 9) ?cmd None [4] [] of
      Some (ok, Some c, D, w, ex) \<Rightarrow> ok \<and> w = [2, 4] \<and> ex = [] | _ \<Rightarrow> False" by code_simp
  note manager_executes_on_selected_server[OF m, where X = "ref_exec_env []" and M = ref_server_ops, THEN conjunct2, THEN conjunct2, THEN conjunct1,
      rule_format, OF p, of "''db''" "ZAddr 9" ?cmd "[]" "[]"]
  with s r show ?thesis by (auto simp: on_selected_server_def ref_manager_def split: option.splits)
qed

section \<open>Command monitoring\<close>

text \<open>
  C35: An event of libmongoc is handed to the command subscribers of the process and of all
  registered Managers that have the client of the event: to each of them once, however often it
  was registered, in the order of registration, and to all of them, unless one raises an exception,
  after which the others hear nothing.  The event names the first Manager with the client.
\<close>

definition hear_in_order ::
    "((zval \<times> string \<times> apm_event) list) \<Rightarrow> zval list \<Rightarrow> string \<Rightarrow> apm_event \<Rightarrow> (zval \<times> string \<times> apm_event) list \<Rightarrow> exn list \<Rightarrow> bool" where
  "hear_in_order before subscribers m event after raised_after \<longleftrightarrow>
     (\<exists>n \<le> length subscribers. after = before @ map (\<lambda>s. (s, m, event)) (take n subscribers)
        \<and> (n < length subscribers \<longrightarrow> raised_after \<noteq> []) \<and> length raised_after \<le> 1)"

theorem subscribers_hear_once:
  assumes "managers_alive D G" and "records call log"
    and "find (\<lambda>a. mgr_client (the (manager_at D a)) = client) (registered_managers G) = Some a"
  shows "distinct (event_subscribers E D G commandsubscriber_ce client)
    \<and> (\<forall>s. s \<in> set (event_subscribers E D G commandsubscriber_ce client) \<longleftrightarrow> object_instanceof E D commandsubscriber_ce s
         \<and> (s \<in> set (case g_subscribers G of None \<Rightarrow> [] | Some t \<Rightarrow> t)
            \<or> (\<exists>m \<in> set (client_managers D client (registered_managers G)). s \<in> set (mgr_subscribers m))))
    \<and> (phongo_apm_command_started E D G call started w [] = Some (w1, ex1) \<and> apm_context started = client \<longrightarrow>
         hear_in_order (log w) (event_subscribers E D G commandsubscriber_ce client) ''commandStarted''
           (CommandStarted (started_event started (ZAddr a))) (log w1) ex1)
    \<and> (phongo_apm_command_succeeded E D G call succeeded w [] = Some (w1, ex1) \<and> apm_context succeeded = client \<longrightarrow>
         hear_in_order (log w) (event_subscribers E D G commandsubscriber_ce client) ''commandSucceeded''
           (CommandSucceeded (succeeded_event succeeded (ZAddr a))) (log w1) ex1)
    \<and> (phongo_apm_command_failed E K D G call failed w [] = Some (w1, ex1) \<and> apm_context failed = client \<longrightarrow>
         hear_in_order (log w) (event_subscribers E D G commandsubscriber_ce client) ''commandFailed''
           (CommandFailed (failed_event K failed (ZAddr a))) (log w1) ex1)"
  using handled[OF assms(1,2) _ assms(3), of E]
  unfolding phongo_apm_command_started_def phongo_apm_command_succeeded_def phongo_apm_command_failed_def hear_in_order_def
  by (intro conjI impI) (auto simp: event_subscribers_def)

definition sample_event :: "nat mongoc_apm_command_started_t" where
  "sample_event = \<lparr>apm_context = 7, apm_command_name = ''ping'', apm_server_id = 1, apm_operation_id = 3, apm_request_id = 4,
     apm_command = BDoc [(''ping'', BInt32 1)] DocOk, apm_database_name = ''db''\<rparr>"

definition sample_subscribers :: "(unit, unit, unit, unit, nat) store" where
  "sample_subscribers = [DManager (ref_manager\<lparr>mgr_subscribers := [ZAddr 2, ZAddr 1]\<rparr>), DOther ''Sub'', DOther ''Sub'']"

definition sample_registered :: "nat mongodb_globals" where
  "sample_registered = ref_globals\<lparr>g_subscribers := Some [ZAddr 1], g_managers := Some \<lparr>it_next = 1, it_entries = [(0, 0)]\<rparr>\<rparr>"

theorem subscribers_hear_once_witness:
  "\<exists>w1 ex1. phongo_apm_command_started ref_subscriber_env sample_subscribers sample_registered ref_notify sample_event [] [] = Some (w1, ex1)
     \<and> hear_in_order [] [ZAddr 1, ZAddr 2] ''commandStarted'' (CommandStarted (started_event sample_event (ZAddr 0))) w1 ex1"
proof -
  have e: "event_subscribers ref_subscriber_env sample_subscribers sample_registered commandsubscriber_ce 7 = [ZAddr 1, ZAddr 2]"
    "apm_context sample_event = 7" "managers_alive sample_subscribers sample_registered"
    "find (\<lambda>a. mgr_client (the (manager_at sample_subscribers a)) = 7) (registered_managers sample_registered) = Some 0"
    "(case phongo_apm_command_started ref_subscriber_env sample_subscribers sample_registered ref_notify sample_event [] [] of
       None \<Rightarrow> False | Some r \<Rightarrow> True)"
    by code_simp+
  then obtain w1 ex1 where r: "phongo_apm_command_started ref_subscriber_env sample_subscribers sample_registered ref_notify sample_event [] []
      = Some (w1, ex1)" by (auto split: option.splits)
  note subscribers_hear_once[OF e(3) ref_notify_records e(4), of ref_subscriber_env sample_event "[]" w1 ex1,
      THEN conjunct2, THEN conjunct2, THEN conjunct1, rule_format, OF conjI[OF r e(2)]]
  then show ?thesis using r e(1) by auto
qed

section \<open>Client-side encryption\<close>



section \<open>Lives of objects\<close>





section \<open>The module\<close>





end
